(* ===== verification/Text.thy ===== *)
theory Text
  imports Prelude
begin

text \<open>
  Rust strings. A \<open>str\<close> is its UTF-8 byte sequence, so a \<open>String\<close> is modelled by HOL's
  \<open>string\<close> with one \<open>char\<close> per byte: \<open>length\<close> is \<open>str::len\<close>. Operations of the standard
  library that look at characters (\<open>chars\<close>, \<open>trim\<close>, \<open>char::is_control\<close>) decode the bytes
  to Unicode code points first. Splitting, prefixes and decimal rendering, which the address and
  delivery-name grammars use, are defined here as well.
\<close>

section \<open>Code points\<close>

fun utf8_chars :: "nat list \<Rightarrow> nat list" where
  "utf8_chars [] = []"
| "utf8_chars (b # bs) =
     (if b < 128 then b # utf8_chars bs
      else if b < 224 then
        (case bs of c1 # r \<Rightarrow> ((b mod 32) * 64 + c1 mod 64) # utf8_chars r | _ \<Rightarrow> [])
      else if b < 240 then
        (case bs of c1 # c2 # r \<Rightarrow>
           ((b mod 16) * 4096 + (c1 mod 64) * 64 + c2 mod 64) # utf8_chars r | _ \<Rightarrow> [])
      else
        (case bs of c1 # c2 # c3 # r \<Rightarrow>
           ((b mod 8) * 262144 + (c1 mod 64) * 4096 + (c2 mod 64) * 64 + c3 mod 64)
             # utf8_chars r | _ \<Rightarrow> []))"

definition chars :: "string \<Rightarrow> nat list" where
  "chars s = utf8_chars (map of_char s)"

definition str_bytes :: "string \<Rightarrow> bytes" where
  "str_bytes s = map of_char s"

definition is_control :: "nat \<Rightarrow> bool" where
  "is_control c \<longleftrightarrow> c < 32 \<or> (127 \<le> c \<and> c < 160)"

definition is_whitespace :: "nat \<Rightarrow> bool" where
  "is_whitespace c \<longleftrightarrow> (9 \<le> c \<and> c \<le> 13) \<or> c = 32 \<or> c = 133 \<or> c = 160 \<or> c = 5760
     \<or> (8192 \<le> c \<and> c \<le> 8202) \<or> c = 8232 \<or> c = 8233 \<or> c = 8239 \<or> c = 8287 \<or> c = 12288"

definition trim :: "nat list \<Rightarrow> nat list" where
  "trim cs = rev (dropWhile is_whitespace (rev (dropWhile is_whitespace cs)))"

text \<open>\<open>value.trim() != value\<close> and \<open>value.chars().any(char::is_control)\<close>.\<close>

definition has_surrounding_whitespace :: "string \<Rightarrow> bool" where
  "has_surrounding_whitespace s \<longleftrightarrow> trim (chars s) \<noteq> chars s"

definition has_control :: "string \<Rightarrow> bool" where
  "has_control s \<longleftrightarrow> list_ex is_control (chars s)"

section \<open>ASCII classes of bytes\<close>

definition is_ascii_graphic :: "char \<Rightarrow> bool" where
  "is_ascii_graphic c \<longleftrightarrow> 33 \<le> (of_char c :: nat) \<and> (of_char c :: nat) \<le> 126"

definition is_ascii_lowercase :: "char \<Rightarrow> bool" where
  "is_ascii_lowercase c \<longleftrightarrow> 97 \<le> (of_char c :: nat) \<and> (of_char c :: nat) \<le> 122"

definition is_ascii_uppercase :: "char \<Rightarrow> bool" where
  "is_ascii_uppercase c \<longleftrightarrow> 65 \<le> (of_char c :: nat) \<and> (of_char c :: nat) \<le> 90"

definition is_ascii_digit :: "char \<Rightarrow> bool" where
  "is_ascii_digit c \<longleftrightarrow> 48 \<le> (of_char c :: nat) \<and> (of_char c :: nat) \<le> 57"

section \<open>Splitting\<close>

fun cons_head :: "'a \<Rightarrow> 'a list list \<Rightarrow> 'a list list" where
  "cons_head x [] = [[x]]"
| "cons_head x (y # ys) = (x # y) # ys"

fun split_char :: "char \<Rightarrow> string \<Rightarrow> string list" where
  "split_char c [] = [[]]"
| "split_char c (x # xs) = (if x = c then [] # split_char c xs else cons_head x (split_char c xs))"

text \<open>\<open>split("--")\<close>: non-overlapping matches from the left.\<close>

fun split_dashes :: "string \<Rightarrow> string list" where
  "split_dashes [] = [[]]"
| "split_dashes [x] = [[x]]"
| "split_dashes (x # y # r) =
     (if x = CHR ''-'' \<and> y = CHR ''-'' then [] # split_dashes r
      else cons_head x (split_dashes (y # r)))"

fun has_dashes :: "string \<Rightarrow> bool" where
  "has_dashes (x # y # r) \<longleftrightarrow> (x = CHR ''-'' \<and> y = CHR ''-'') \<or> has_dashes (y # r)"
| "has_dashes _ \<longleftrightarrow> False"

text \<open>\<open>iter.nth(i).unwrap_or_default()\<close> on string segments.\<close>

definition nth_or_empty :: "string list \<Rightarrow> nat \<Rightarrow> string" where
  "nth_or_empty xs i = (if i < length xs then xs ! i else [])"

lemma split_char_not_Nil [simp]: "split_char c s \<noteq> []"
  by (induction s) (auto elim: cons_head.elims)

lemma split_char_no_sep: "c \<notin> set s \<Longrightarrow> split_char c s = [s]"
  by (induction s) auto

lemma split_char_append:
  "c \<notin> set s \<Longrightarrow> split_char c (s @ c # r) = s # split_char c r"
  by (induction s) auto

lemma cons_head_append: "xs \<noteq> [] \<Longrightarrow> cons_head x (xs @ ys) = cons_head x xs @ ys"
  by (cases xs) auto

lemma split_dashes_not_Nil [simp]: "split_dashes s \<noteq> []"
  by (induction s rule: split_dashes.induct) (auto elim: cons_head.elims)

lemma split_dashes_plain: "\<not> has_dashes s \<Longrightarrow> split_dashes s = [s]"
  by (induction s rule: split_dashes.induct) auto

text \<open>
  A segment without \<open>--\<close> that does not end in a dash is cut off exactly at the separator.
\<close>

lemma split_dashes_append:
  "\<not> has_dashes s \<Longrightarrow> s = [] \<or> last s \<noteq> CHR ''-'' \<Longrightarrow>
   split_dashes (s @ CHR ''-'' # CHR ''-'' # r) = s # split_dashes r"
  by (induction s rule: split_dashes.induct) auto

lemma nth_or_empty_Cons_0 [simp]: "nth_or_empty (x # xs) 0 = x"
  by (simp add: nth_or_empty_def)

lemma nth_or_empty_Cons_Suc [simp]: "nth_or_empty (x # xs) (Suc i) = nth_or_empty xs i"
  by (simp add: nth_or_empty_def)

section \<open>Decimal numbers\<close>

definition digit_char :: "nat \<Rightarrow> char" where
  "digit_char d = char_of (48 + d)"

definition digit_value :: "char \<Rightarrow> nat" where
  "digit_value c = of_char c - 48"

fun decimal :: "nat \<Rightarrow> string" where
  "decimal n = (if n < 10 then [digit_char n] else decimal (n div 10) @ [digit_char (n mod 10)])"

declare decimal.simps [simp del]

definition decimal_value :: "string \<Rightarrow> nat" where
  "decimal_value s = foldl (\<lambda>acc c. acc * 10 + digit_value c) 0 s"

text \<open>\<open>str::parse\<close> of an unsigned integer: an optional plus sign, then digits, within the range of
  the type.\<close>

definition parse_unsigned :: "string \<Rightarrow> nat option" where
  "parse_unsigned s =
     (let ds = (case s of c # r \<Rightarrow> if c = CHR ''+'' then r else s | [] \<Rightarrow> s) in
      if ds \<noteq> [] \<and> list_all is_ascii_digit ds then Some (decimal_value ds) else None)"

definition parse_u32 :: "string \<Rightarrow> u32 option" where
  "parse_u32 s = Option.bind (parse_unsigned s) u32_try_from"

definition parse_u64 :: "string \<Rightarrow> u64 option" where
  "parse_u64 s = Option.bind (parse_unsigned s) u64_try_from"

lemma of_char_digit_char: "d < 10 \<Longrightarrow> of_char (digit_char d) = 48 + d"
  by (simp add: digit_char_def)

lemma decimal_not_Nil [simp]: "decimal n \<noteq> []"
  by (subst decimal.simps) simp

lemma decimal_digits: "list_all is_ascii_digit (decimal n)"
proof (induction n rule: decimal.induct)
  case (1 n)
  then show ?case
    by (cases "n < 10")
      (auto simp: decimal.simps [of n] is_ascii_digit_def of_char_digit_char)
qed

lemma decimal_value_snoc: "decimal_value (s @ [c]) = decimal_value s * 10 + digit_value c"
  by (simp add: decimal_value_def)

lemma digit_value_digit_char [simp]: "d < 10 \<Longrightarrow> digit_value (digit_char d) = d"
  by (simp add: digit_value_def of_char_digit_char)

lemma decimal_value_decimal [simp]: "decimal_value (decimal n) = n"
proof (induction n rule: decimal.induct)
  case (1 n)
  show ?case
  proof (cases "n < 10")
    case True
    then show ?thesis by (subst decimal.simps) (simp add: decimal_value_def)
  next
    case False
    with 1 show ?thesis
      by (subst decimal.simps) (simp add: decimal_value_snoc)
  qed
qed

lemma decimal_no_plus: "decimal n = c # r \<Longrightarrow> c \<noteq> CHR ''+''"
  using decimal_digits [of n] by (auto simp: is_ascii_digit_def)

lemma parse_unsigned_decimal [simp]: "parse_unsigned (decimal n) = Some n"
proof -
  obtain c r where cr: "decimal n = c # r"
    using decimal_not_Nil [of n] by (cases "decimal n") auto
  have "(case decimal n of c # r \<Rightarrow> if c = CHR ''+'' then r else decimal n | [] \<Rightarrow> decimal n) = decimal n"
    using decimal_no_plus [OF cr] cr by simp
  then show ?thesis
    using decimal_digits [of n] by (simp add: parse_unsigned_def)
qed

lemma parse_u32_decimal: "parse_u32 (decimal (unat w)) = Some w"
  using unsigned_less [of w] by (simp add: parse_u32_def u32_try_from_def)

lemma parse_u64_decimal: "parse_u64 (decimal (unat w)) = Some w"
  using unsigned_less [of w] by (simp add: parse_u64_def u64_try_from_def)

end
