(* ===== verification/Errors.thy ===== *)
theory Errors
  imports Text
begin

text \<open>
  The error types of \<open>rostfrei-messaging-core\<close> and \<open>rostfrei-core\<close>. Every error keeps the fields of
  its Rust type. Message texts are symbolic: each fixed text of the source is a constructor of
  \<open>store_text\<close>, \<open>outcome_text\<close> or \<open>execution_text\<close>, and each formatted text is a constructor of
  \<open>message\<close> that carries the values it interpolates (another error, a version, a count), so two
  errors are equal in the model exactly when the source builds them at the same place from the
  same values. Text made by code outside the repository (a JSON error, an application message)
  is \<open>External_text\<close>. The texts of the NATS adapter are kept as they are: \<open>Fixed_text\<close> is a literal,
  \<open>Wrapped_text\<close> a literal in front of another text, \<open>Limit_text\<close> a literal with the number it
  interpolates.
\<close>

section \<open>Contract errors of the messaging core\<close>

datatype contract_error_kind =
  ContractEmpty | ContractTooLong | ContractInvalidFormat | ContractWrongAddressKind
| ContractWildcard | ContractControlCharacter | ContractReserved | ContractTooManyEntries
| ContractOutOfRange | ContractIdentityConflict

record contract_error =
  contract_kind :: contract_error_kind
  contract_field :: string
  contract_actual :: "nat option"
  contract_maximum :: "nat option"

definition contract_error_new :: "contract_error_kind \<Rightarrow> string \<Rightarrow> contract_error" where
  "contract_error_new k f =
     \<lparr>contract_kind = k, contract_field = f, contract_actual = None, contract_maximum = None\<rparr>"

definition contract_error_bounded ::
  "contract_error_kind \<Rightarrow> string \<Rightarrow> nat \<Rightarrow> nat \<Rightarrow> contract_error" where
  "contract_error_bounded k f a m =
     \<lparr>contract_kind = k, contract_field = f, contract_actual = Some a, contract_maximum = Some m\<rparr>"

section \<open>Errors of the core\<close>

datatype identity_error =
  IdentityEmpty string
| IdentityTooLong string nat
| IdentitySurroundingWhitespace string
| IdentityControlCharacter string
| InvalidFingerprint

datatype envelope_error =
  EmptyEventType
| EventTypeTooLong nat
| InvalidEventType
| InvalidSchemaVersion
| PayloadTooLarge nat
| EmptyBatch
| BatchTooLarge nat nat
| BatchPayloadTooLarge nat
| DuplicateEventId
| ZeroRecordedVersion
| InvalidCommitCoordinates

datatype event_codec_error_kind =
  UnknownEventType | UnsupportedSchemaVersion | MalformedPayload | ConversionFailed
| InvalidEnvelope | EncodingFailed

datatype event_store_error_kind =
  InvalidRequest | Conflict | IdentityConflict | CorruptHistory | CapacityExhausted
| ConfigurationMismatch | Unavailable | DetailForbidden | CompletedDetailsExpired
| CompletedDetailsUnavailable

datatype event_store_error_origin = Backend | OutcomeRecovery

datatype detail_unavailable_reason = MissingDetails | BackendUnavailable

datatype outcome_recovery_error =
  RecoveryIntegrityMismatch
| RecoveryExpired
| RecoveryArchived string
| RecoveryUnavailable detail_unavailable_reason

datatype detail_read_error =
  ReadUnavailable | ReadForbidden | ReadCorrupt | ReadConfigurationMismatch

section \<open>Message texts\<close>

datatype store_text =
  EventCountOverflow | ItemCountOverflow | RejectionNotAcceptance
| OperationUsedByTransaction | OperationReused | CommitReused | EventReused
| ExactNeedsNonzero | EventCapacityExceeded | EventCountRange | VersionSpaceExhausted
| EventOrdinalRange | UseCommitOutcome | TransactionReused | OutcomeCapacityExhausted
| OtherAuthority | LifecycleMissing | ScopedWithoutMarker | RequiresScopedMarker
| ExpireMissingEvidence | DuplicateStreams | ParticipantMetadataDiffers
| OperationUsedOutside | OperationUsedByOther | CommitNotDerived | EventNotDerived

datatype outcome_text =
  InvalidEvidence | InvalidRejection | UnsupportedOutcomeVersion | MissingEvidence
| UnsupportedRejectionCodec | NoDurableRejectionCodec | NoReplayCodec
| ExplicitDecisionRequired | RejectionNeedsGuardsOnly
| DuplicateReceiptParticipant | ReceiptEventCountOverflow | ReceiptVersionOverflow
| ReceiptOrdinalOverflow | ReceiptEventDiffers | RejectedReceiptHasEvents
| ReceiptProposalDiffers | ExactNeedsNonzeroBase | ReceiptParticipantDiffers
| GuardReceiptHasEvents | ReceiptBatchDiffers | ReceiptContentDiffers
| UnsupportedProposalVersion | ParticipantActorDiffers
| ManifestIntegrityDiffers | ManifestBindingDiffers | TimestampInManifest
| ManifestRevisionDiffers | OutcomeRequiresContext | OutcomeKeyDiffers
| CompletedIdentityDiffers | DetailFormatDiffers | TruncatedDetailHeader
| TruncatedDetailBody | DetailIdentityDiffers | InlineRejectionInHeader
| UnexpectedAcceptedPayload | DetailDecisionDiffers

datatype execution_text =
  LoadedTwice | AggregateEscaped | TrackingLost | InvalidJournal | InterruptedEncoding
| NoBoundedContext | EmittedOrdinalRange | ForeignStreamInHistory | HistoryTooLong
| NonContiguousVersions | DuplicateEventIdentity | IncompleteCommit | StartsInsideCommit
| CommitNotContiguous | InconsistentCoordinates | InvalidCommitIdentity
| InvalidEventIdentity | CommitOrdinalRange | OperationAcrossCommits | EndedInsideCommit
| RejectedRecordHasEvents | CompletedEvidenceDiffers | TransactionMetadataDiffers
| ForeignModel | ForeignStreamEvent | DifferentEventVariant

datatype message =
  External_text string
| Store_text store_text
| Outcome_text outcome_text
| Execution_text execution_text
| Rendered_identity identity_error
| Rendered_contract contract_error
| Rendered_envelope envelope_error
| Rendered_codec event_codec_error_kind message
| Rendered_store event_store_error_kind message
| Rendered_recovery outcome_recovery_error
| Rendered_read detail_read_error
| Version_differs u64
| Too_many_items nat
| Context_differs string string
| Aggregate_type_differs string string
| Fixed_text string
| Wrapped_text string message
| Limit_text string nat

section \<open>Store and codec errors\<close>

record event_codec_error =
  codec_kind :: event_codec_error_kind
  codec_message :: message

record event_store_error =
  store_kind :: event_store_error_kind
  store_message :: message
  store_origin :: event_store_error_origin

definition codec_error_new :: "event_codec_error_kind \<Rightarrow> message \<Rightarrow> event_codec_error" where
  "codec_error_new k m = \<lparr>codec_kind = k, codec_message = m\<rparr>"

definition store_error_new :: "event_store_error_kind \<Rightarrow> message \<Rightarrow> event_store_error" where
  "store_error_new k m = \<lparr>store_kind = k, store_message = m, store_origin = Backend\<rparr>"

definition in_outcome_recovery :: "event_store_error \<Rightarrow> event_store_error" where
  "in_outcome_recovery e = e\<lparr>store_origin := OutcomeRecovery\<rparr>"

text \<open>\<open>to_string\<close> on a codec or store error renders the kind and the message.\<close>

definition render_codec :: "event_codec_error \<Rightarrow> message" where
  "render_codec e = Rendered_codec (codec_kind e) (codec_message e)"

definition render_store :: "event_store_error \<Rightarrow> message" where
  "render_store e = Rendered_store (store_kind e) (store_message e)"

lemma store_error_new_sel [simp]:
  "store_kind (store_error_new k m) = k"
  "store_message (store_error_new k m) = m"
  "store_origin (store_error_new k m) = Backend"
  by (simp_all add: store_error_new_def)

lemma codec_error_new_sel [simp]:
  "codec_kind (codec_error_new k m) = k"
  "codec_message (codec_error_new k m) = m"
  by (simp_all add: codec_error_new_def)

lemma in_outcome_recovery_sel [simp]:
  "store_kind (in_outcome_recovery e) = store_kind e"
  "store_message (in_outcome_recovery e) = store_message e"
  "store_origin (in_outcome_recovery e) = OutcomeRecovery"
  by (simp_all add: in_outcome_recovery_def)

end
