(* ===== verification/Identity.thy ===== *)
theory Identity
  imports Errors
begin

text \<open>
  Identities: \<open>rostfrei-core/src/identity.rs\<close> and the identifier types of
  \<open>rostfrei-messaging-core\<close> (\<open>value.rs\<close>, \<open>actor.rs\<close>, \<open>scope.rs\<close>). A validated newtype around
  \<open>String\<close> is its string; its \<open>new\<close> is the only way the source builds one. SHA-256 comes from a
  crate and is the argument \<open>sha\<close> of the derivations.
\<close>

unbundle bit_operations_syntax

section \<open>Validated strings of the core\<close>

type_synonym aggregate_type = string
type_synonym aggregate_id = string
type_synonym event_id = string
type_synonym commit_id = string
type_synonym operation_id = string
type_synonym security_scope = string
type_synonym correlation_id = string
type_synonym causation_id = string
type_synonym bounded_context_name = string
type_synonym fingerprint = bytes

definition identity_validate :: "string \<Rightarrow> string \<Rightarrow> nat \<Rightarrow> identity_error + unit" where
  "identity_validate value kind maximum =
     (if value = [] then Inl (IdentityEmpty kind)
      else if maximum < length value then Inl (IdentityTooLong kind maximum)
      else if has_surrounding_whitespace value then Inl (IdentitySurroundingWhitespace kind)
      else if has_control value then Inl (IdentityControlCharacter kind)
      else Inr ())"

definition string_identity :: "string \<Rightarrow> nat \<Rightarrow> string \<Rightarrow> identity_error + string" where
  "string_identity kind maximum value =
     rbind (identity_validate value kind maximum) (\<lambda>_. Inr value)"

definition AggregateType_new :: "string \<Rightarrow> identity_error + aggregate_type" where
  "AggregateType_new = string_identity ''aggregate type'' 128"

definition AggregateId_new :: "string \<Rightarrow> identity_error + aggregate_id" where
  "AggregateId_new = string_identity ''aggregate id'' 256"

definition EventId_new :: "string \<Rightarrow> identity_error + event_id" where
  "EventId_new = string_identity ''event id'' 128"

definition CommitId_new :: "string \<Rightarrow> identity_error + commit_id" where
  "CommitId_new = string_identity ''commit id'' 128"

definition OperationId_new :: "string \<Rightarrow> identity_error + operation_id" where
  "OperationId_new = string_identity ''operation id'' 128"

definition SecurityScope_new :: "string \<Rightarrow> identity_error + security_scope" where
  "SecurityScope_new = string_identity ''security scope'' 256"

section \<open>Identifiers of the messaging core\<close>

definition validate_identifier :: "string \<Rightarrow> string \<Rightarrow> contract_error + string" where
  "validate_identifier value field =
     (if value = [] then Inl (contract_error_new ContractEmpty field)
      else if 256 < length value then
        Inl (contract_error_bounded ContractTooLong field (length value) 256)
      else if has_control value then Inl (contract_error_new ContractControlCharacter field)
      else if \<not> list_all is_ascii_graphic value then
        Inl (contract_error_new ContractInvalidFormat field)
      else Inr value)"

definition MessageId_new :: "string \<Rightarrow> contract_error + string" where
  "MessageId_new value = validate_identifier value ''message_id''"

definition CorrelationId_new :: "string \<Rightarrow> contract_error + correlation_id" where
  "CorrelationId_new value = validate_identifier value ''correlation_id''"

definition CausationId_new :: "string \<Rightarrow> contract_error + causation_id" where
  "CausationId_new value = validate_identifier value ''causation_id''"

definition SchemaVersion_new :: "u32 \<Rightarrow> contract_error + u32" where
  "SchemaVersion_new value =
     (if value = 0 then Inl (contract_error_new ContractOutOfRange ''schema_version'')
      else Inr value)"

definition MessageTimestamp_from_unix_milliseconds :: "u64 \<Rightarrow> contract_error + u64" where
  "MessageTimestamp_from_unix_milliseconds value =
     (if 253402300799999 < value then Inl (contract_error_new ContractOutOfRange ''timestamp'')
      else Inr value)"

record actor_ref =
  actor_namespace :: string
  actor_id :: string

definition actor_validate :: "string \<Rightarrow> string \<Rightarrow> nat \<Rightarrow> contract_error + unit" where
  "actor_validate value field maximum =
     (if value = [] then Inl (contract_error_new ContractEmpty field)
      else if maximum < length value then
        Inl (contract_error_bounded ContractTooLong field (length value) maximum)
      else if has_control value then Inl (contract_error_new ContractControlCharacter field)
      else if has_surrounding_whitespace value then
        Inl (contract_error_new ContractInvalidFormat field)
      else Inr ())"

definition ActorRef_new :: "string \<Rightarrow> string \<Rightarrow> contract_error + actor_ref" where
  "ActorRef_new ns i =
     rbind (actor_validate ns ''actor namespace'' 128) (\<lambda>_.
     rbind (actor_validate i ''actor id'' 256) (\<lambda>_.
     Inr \<lparr>actor_namespace = ns, actor_id = i\<rparr>))"

definition scope_char :: "char \<Rightarrow> bool" where
  "scope_char c \<longleftrightarrow> is_ascii_lowercase c \<or> is_ascii_digit c \<or> c = CHR ''-''"

definition validate_scope_name :: "string \<Rightarrow> string \<Rightarrow> contract_error + string" where
  "validate_scope_name value field =
     (if value = [] then Inl (contract_error_new ContractEmpty field)
      else if 64 < length value then
        Inl (contract_error_bounded ContractTooLong field (length value) 64)
      else if CHR ''*'' \<in> set value \<or> CHR ''>'' \<in> set value then
        Inl (contract_error_new ContractWildcard field)
      else if has_control value then Inl (contract_error_new ContractControlCharacter field)
      else if hd value = CHR ''-'' \<or> last value = CHR ''-'' \<or> has_dashes value
        \<or> \<not> list_all scope_char value then
        Inl (contract_error_new ContractInvalidFormat field)
      else Inr value)"

definition validate_scope_segment :: "string \<Rightarrow> string \<Rightarrow> contract_error + unit" where
  "validate_scope_segment value field = map_ok (\<lambda>_. ()) (validate_scope_name value field)"

definition ApplicationName_new :: "string \<Rightarrow> contract_error + string" where
  "ApplicationName_new value = validate_scope_name value ''application name''"

definition BoundedContextName_new :: "string \<Rightarrow> contract_error + bounded_context_name" where
  "BoundedContextName_new value = validate_scope_name value ''bounded context name''"

section \<open>Stream identities\<close>

datatype stream_id =
  StreamId (stream_aggregate_type: aggregate_type) (stream_aggregate_id: aggregate_id)

text \<open>The derived \<open>Ord\<close> compares the fields in order, strings by their bytes.\<close>

instantiation stream_id :: linorder
begin

definition less_eq_stream_id :: "stream_id \<Rightarrow> stream_id \<Rightarrow> bool" where
  "less_eq_stream_id a b \<longleftrightarrow>
     stream_aggregate_type a < stream_aggregate_type b
     \<or> (stream_aggregate_type a = stream_aggregate_type b
        \<and> stream_aggregate_id a \<le> stream_aggregate_id b)"

definition less_stream_id :: "stream_id \<Rightarrow> stream_id \<Rightarrow> bool" where
  "less_stream_id a b \<longleftrightarrow> a \<le> b \<and> \<not> b \<le> (a :: stream_id)"

instance
  by standard (auto simp: less_eq_stream_id_def less_stream_id_def stream_id.expand)

end

definition stream_id_display :: "stream_id \<Rightarrow> string" where
  "stream_id_display s = stream_aggregate_type s @ '':'' @ stream_aggregate_id s"

section \<open>Content fingerprints\<close>

definition saturating_add :: "'a::len word \<Rightarrow> 'a word \<Rightarrow> 'a word" where
  "saturating_add a b = (case checked_add a b of Some c \<Rightarrow> c | None \<Rightarrow> - 1)"

definition saturating_sub :: "'a::len word \<Rightarrow> 'a word \<Rightarrow> 'a word" where
  "saturating_sub a b = (if b \<le> a then a - b else 0)"

definition checked_hex_offset :: "u8 \<Rightarrow> u8 \<Rightarrow> u8 option" where
  "checked_hex_offset value base =
     (case checked_sub value base of Some offset \<Rightarrow> checked_add offset 10 | None \<Rightarrow> None)"

definition decode_hex :: "u8 \<Rightarrow> u8 option" where
  "decode_hex value =
     (if 48 \<le> value \<and> value \<le> 57 then checked_sub value 48
      else if 97 \<le> value \<and> value \<le> 102 then checked_hex_offset value 97
      else if 65 \<le> value \<and> value \<le> 70 then checked_hex_offset value 65
      else None)"

fun decode_hex_pairs :: "bytes \<Rightarrow> identity_error + bytes" where
  "decode_hex_pairs [] = Inr []"
| "decode_hex_pairs [x] = Inl InvalidFingerprint"
| "decode_hex_pairs (high # low # rest) =
     rbind (ok_or InvalidFingerprint (decode_hex high)) (\<lambda>h.
     rbind (ok_or InvalidFingerprint (decode_hex low)) (\<lambda>l.
     rbind (decode_hex_pairs rest) (\<lambda>bs. Inr ((push_bit 4 h OR l) # bs))))"

definition fingerprint_from_hex :: "string \<Rightarrow> identity_error + fingerprint" where
  "fingerprint_from_hex value =
     (if length value \<noteq> 64 then Inl InvalidFingerprint
      else decode_hex_pairs (str_bytes value))"

definition lower_hex_digit :: "u8 \<Rightarrow> char" where
  "lower_hex_digit nibble =
     char_of (unat (if nibble < 10 then saturating_add 48 nibble
                    else saturating_add 97 (saturating_sub nibble 10)))"

definition encode_lower_hex :: "bytes \<Rightarrow> string" where
  "encode_lower_hex bs =
     concat (map (\<lambda>byte. [lower_hex_digit (drop_bit 4 byte), lower_hex_digit (byte AND 15)]) bs)"

definition fingerprint_to_hex :: "fingerprint \<Rightarrow> string" where
  "fingerprint_to_hex f = encode_lower_hex f"

definition fingerprint_digest :: "(bytes \<Rightarrow> bytes) \<Rightarrow> bytes \<Rightarrow> fingerprint" where
  "fingerprint_digest sha content = sha content"

section \<open>Framed hashing and derived identities\<close>

text \<open>A hasher is the bytes fed to it so far; \<open>finalize\<close> applies \<open>sha\<close>.\<close>

definition hash_part :: "bytes \<Rightarrow> bytes \<Rightarrow> bytes" where
  "hash_part hasher part = hasher @ be_bytes 8 (length part) @ part"

definition derive_commit_id :: "(bytes \<Rightarrow> bytes) \<Rightarrow> stream_id \<Rightarrow> operation_id \<Rightarrow> commit_id" where
  "derive_commit_id sha stream op =
     (let h = hash_part [] (str_bytes ''rostfrei:commit:v1'');
          h = hash_part h (str_bytes (stream_aggregate_type stream));
          h = hash_part h (str_bytes (stream_aggregate_id stream));
          h = hash_part h (str_bytes op)
      in ''commit:'' @ encode_lower_hex (sha h))"

definition derive_event_id :: "(bytes \<Rightarrow> bytes) \<Rightarrow> commit_id \<Rightarrow> u32 \<Rightarrow> event_id" where
  "derive_event_id sha commit ordinal =
     (let h = hash_part [] (str_bytes ''rostfrei:event:v1'');
          h = hash_part h (str_bytes commit);
          h = hash_part h (be_bytes 4 (unat ordinal))
      in ''event:'' @ encode_lower_hex (sha h))"

text \<open>The byte string a sequence of \<open>hash_part\<close> calls feeds to the hash.\<close>

definition frame :: "bytes list \<Rightarrow> bytes" where
  "frame parts = foldl hash_part [] parts"

definition framable :: "bytes list \<Rightarrow> bool" where
  "framable parts \<longleftrightarrow> list_all (\<lambda>p. length p < 256 ^ 8) parts"


section \<open>Facts\<close>

lemma identity_validate_ok_iff:
  "identity_validate value kind maximum = Inr () \<longleftrightarrow>
     value \<noteq> [] \<and> length value \<le> maximum \<and> \<not> has_surrounding_whitespace value
     \<and> \<not> has_control value"
  by (auto simp: identity_validate_def)

lemma string_identity_ok_iff:
  "string_identity kind maximum value = Inr s \<longleftrightarrow>
     s = value \<and> value \<noteq> [] \<and> length value \<le> maximum
     \<and> \<not> has_surrounding_whitespace value \<and> \<not> has_control value"
  by (auto simp: string_identity_def identity_validate_ok_iff result_simps)

lemma validate_identifier_ok_iff:
  "validate_identifier value field = Inr s \<longleftrightarrow>
     s = value \<and> value \<noteq> [] \<and> length value \<le> 256 \<and> \<not> has_control value
     \<and> list_all is_ascii_graphic value"
  by (auto simp: validate_identifier_def)

lemma validate_scope_name_ok_iff:
  "validate_scope_name value field = Inr s \<longleftrightarrow>
     s = value \<and> value \<noteq> [] \<and> length value \<le> 64 \<and> CHR ''*'' \<notin> set value
     \<and> CHR ''>'' \<notin> set value \<and> \<not> has_control value \<and> hd value \<noteq> CHR ''-''
     \<and> last value \<noteq> CHR ''-'' \<and> \<not> has_dashes value \<and> list_all scope_char value"
  by (auto simp: validate_scope_name_def)

lemma validate_scope_segment_ok_iff:
  "validate_scope_segment value field = Inr u \<longleftrightarrow> validate_scope_name value field = Inr value"
  by (cases "validate_scope_name value field")
    (auto simp: validate_scope_segment_def dest: validate_scope_name_ok_iff [THEN iffD1])

subsection \<open>Bytes of strings\<close>

lemma unat_of_char_u8: "unat (of_char c :: u8) = of_char c"
proof -
  have "(of_nat (of_char c) :: u8) = of_char c"
    by (rule of_nat_of_char)
  moreover have "of_char c < (2 :: nat) ^ LENGTH(8)"
    using nat_of_char_less_256 [of c] by simp
  ultimately show ?thesis
    using unat_of_nat_small [where 'a = 8] by metis
qed

lemma of_char_u8_eq_iff: "(of_char c :: u8) = of_char d \<longleftrightarrow> c = d"
  using unat_of_char_u8 [of c] unat_of_char_u8 [of d] of_char_eq_iff [where 'a = nat, of c d]
  by metis

lemma str_bytes_eq_iff [simp]: "str_bytes a = str_bytes b \<longleftrightarrow> a = b"
  unfolding str_bytes_def
  by (rule inj_map_eq_map) (auto simp: inj_def of_char_u8_eq_iff)

lemma length_str_bytes [simp]: "length (str_bytes s) = length s"
  by (simp add: str_bytes_def)

lemma str_bytes_append [simp]: "str_bytes (a @ b) = str_bytes a @ str_bytes b"
  by (simp add: str_bytes_def)

subsection \<open>Hexadecimal rendering\<close>

lemma of_char_char_of_u8: "of_char (char_of (unat (w :: u8))) = w"
proof -
  have "unat w < 256"
    using unsigned_less [of w] by simp
  then have "of_char (char_of (unat w)) = unat w"
    by simp
  then show ?thesis
    by (metis unat_of_char_u8 word_unat_eq_iff)
qed

lemma decode_lower_hex_digit:
  assumes "n < 16"
  shows "decode_hex (of_char (lower_hex_digit n)) = Some n"
proof -
  have n: "unat n < 16"
    using assms by (simp add: word_less_nat_alt)
  show ?thesis
  proof (cases "n < 10")
    case True
    then have "of_char (lower_hex_digit n) = 48 + n"
      using n by (simp add: lower_hex_digit_def saturating_add_def checked_add_def
          of_char_char_of_u8)
    moreover have "unat (48 + n) = 48 + unat n"
      using n by (simp add: unat_word_ariths)
    ultimately show ?thesis
      using True by (simp add: decode_hex_def checked_sub_def word_le_nat_alt word_less_nat_alt)
  next
    case False
    then have ten: "10 \<le> unat n"
      by (simp add: word_less_nat_alt)
    then have sub: "unat (n - 10) = unat n - 10"
      by (simp add: unat_sub word_le_nat_alt)
    have "of_char (lower_hex_digit n) = 97 + (n - 10)"
      using False n sub by (auto simp: lower_hex_digit_def saturating_add_def saturating_sub_def
          checked_add_def of_char_char_of_u8 linorder_not_less)
    moreover have "unat (97 + (n - 10)) = 97 + (unat n - 10)"
      using n sub ten by (simp add: unat_word_ariths)
    ultimately show ?thesis
      using n ten sub by (simp add: decode_hex_def checked_hex_offset_def checked_sub_def
          checked_add_def word_le_nat_alt)
  qed
qed

lemma high_nibble_less: "drop_bit 4 (b :: u8) < 16"
proof -
  have "unat (drop_bit 4 b) = unat b div 16"
    by (simp add: drop_bit_eq_div unat_div)
  moreover have "unat b < 256"
    using unsigned_less [of b] by simp
  ultimately show ?thesis
    by (simp add: word_less_nat_alt)
qed

lemma low_nibble_less: "(b :: u8) AND 15 < 16"
  using word_and_le1 [of b 15] by (simp add: order_le_less_trans)

lemma nibbles_combine: "push_bit 4 (drop_bit 4 b) OR (b AND 15) = (b :: u8)"
proof -
  have "(15 :: u8) = mask 4"
    by (simp add: mask_eq_exp_minus_1)
  then have "b AND 15 = take_bit 4 b"
    by (simp only: take_bit_eq_mask)
  then show ?thesis
    by (simp only:) (rule bit_word_eqI, auto simp: bit_simps)
qed

lemma decode_hex_pairs_encode: "decode_hex_pairs (str_bytes (encode_lower_hex bs)) = Inr bs"
  by (induction bs)
    (simp_all add: encode_lower_hex_def str_bytes_def decode_lower_hex_digit high_nibble_less
      low_nibble_less nibbles_combine)

lemma encode_lower_hex_inject [simp]: "encode_lower_hex a = encode_lower_hex b \<longleftrightarrow> a = b"
  by (metis decode_hex_pairs_encode Inr_inject)

lemma length_encode_lower_hex [simp]: "length (encode_lower_hex bs) = 2 * length bs"
  by (induction bs) (auto simp: encode_lower_hex_def)

lemma decode_hex_pairs_length: "decode_hex_pairs xs = Inr bs \<Longrightarrow> length xs = 2 * length bs"
  by (induction xs arbitrary: bs rule: decode_hex_pairs.induct) (auto simp: result_simps)

subsection \<open>Framing\<close>

lemma foldl_hash_part: "foldl hash_part acc parts = acc @ frame parts"
proof (induction parts arbitrary: acc)
  case Nil
  show ?case by (simp add: frame_def)
next
  case (Cons p ps)
  have "foldl hash_part acc (p # ps) = hash_part acc p @ frame ps"
    using Cons.IH [of "hash_part acc p"] by simp
  moreover have "frame (p # ps) = hash_part [] p @ frame ps"
    using Cons.IH [of "hash_part [] p"] by (simp add: frame_def)
  moreover have "hash_part acc p = acc @ hash_part [] p"
    by (simp add: hash_part_def)
  ultimately show ?case
    by (simp only: append_assoc)
qed

lemma frame_Cons: "frame (p # ps) = be_bytes 8 (length p) @ p @ frame ps"
  using foldl_hash_part [of "hash_part [] p" ps] by (simp add: frame_def hash_part_def)

lemma frame_empty [simp]: "frame [] = []"
  by (simp add: frame_def)

lemma framable_Cons [simp]: "framable (p # ps) \<longleftrightarrow> length p < 256 ^ 8 \<and> framable ps"
  by (simp add: framable_def)

lemma framable_Nil [simp]: "framable []"
  by (simp add: framable_def)

lemma framable_append [simp]: "framable (xs @ ys) \<longleftrightarrow> framable xs \<and> framable ys"
  by (simp add: framable_def)

lemma frame_inject:
  "framable ps \<Longrightarrow> framable qs \<Longrightarrow> frame ps = frame qs \<Longrightarrow> ps = qs"
proof (induction ps arbitrary: qs)
  case Nil
  then show ?case
    by (cases qs) (auto simp: frame_Cons dest: arg_cong [where f = length])
next
  case (Cons p ps)
  then obtain q qs' where qs: "qs = q # qs'"
    by (cases qs) (auto simp: frame_Cons dest: arg_cong [where f = length])
  have eq: "be_bytes 8 (length p) @ p @ frame ps = be_bytes 8 (length q) @ q @ frame qs'"
    using Cons.prems(3) qs by (simp add: frame_Cons)
  then have "be_bytes 8 (length p) = be_bytes 8 (length q)" and rest: "p @ frame ps = q @ frame qs'"
    by simp_all
  moreover have "length p < 256 ^ 8" and "length q < 256 ^ 8"
    using Cons.prems(1,2) qs by simp_all
  ultimately have "length p = length q"
    using be_bytes_inject by blast
  with rest have "p = q" and "frame ps = frame qs'"
    by simp_all
  with Cons qs show ?case by auto
qed

lemmas frame_unfold = frame_def hash_part_def

lemma derive_commit_id_frame:
  "derive_commit_id sha s op = ''commit:'' @ encode_lower_hex
     (sha (frame [str_bytes ''rostfrei:commit:v1'', str_bytes (stream_aggregate_type s),
                  str_bytes (stream_aggregate_id s), str_bytes op]))"
  by (simp only: derive_commit_id_def frame_def foldl.simps Let_def)

lemma derive_event_id_frame:
  "derive_event_id sha c n = ''event:'' @ encode_lower_hex
     (sha (frame [str_bytes ''rostfrei:event:v1'', str_bytes c, be_bytes 4 (unat n)]))"
  by (simp only: derive_event_id_def frame_def foldl.simps Let_def)

end
