(* ===== verification/Envelope.thy ===== *)
theory Envelope
  imports Identity
begin

text \<open>
  Event envelopes: \<open>rostfrei-core/src/envelope.rs\<close>. Versions and ordinals keep their Rust width;
  constructors are the checked \<open>new\<close> functions, and \<open>valid_batch\<close> is what they guarantee of every
  batch that exists at run time (the fields of an \<open>EventBatch\<close> are private).
\<close>

section \<open>Versions\<close>

type_synonym stream_version = u64

definition version_next :: "stream_version \<Rightarrow> stream_version option" where
  "version_next v = checked_add v 1"

datatype expected_version = NoStream | Exact stream_version

section \<open>New events\<close>

definition max_event_type_len :: nat where "max_event_type_len = 128"
definition max_event_payload_len :: nat where "max_event_payload_len = 1024 * 1024"
definition max_batch_payload_len :: nat where "max_batch_payload_len = 1024 * 1024"
definition max_events_per_batch :: nat where "max_events_per_batch = 100"

record new_event =
  ne_event_id :: event_id
  ne_event_type :: string
  ne_schema_version :: u32
  ne_payload :: bytes

definition validate_event_type :: "string \<Rightarrow> envelope_error + unit" where
  "validate_event_type event_type =
     (if event_type = [] then Inl EmptyEventType
      else if max_event_type_len < length event_type then
        Inl (EventTypeTooLong max_event_type_len)
      else if has_surrounding_whitespace event_type \<or> has_control event_type then
        Inl InvalidEventType
      else Inr ())"

definition NewEvent_new ::
  "event_id \<Rightarrow> string \<Rightarrow> u32 \<Rightarrow> bytes \<Rightarrow> envelope_error + new_event" where
  "NewEvent_new event_id event_type schema_version payload =
     rbind (validate_event_type event_type) (\<lambda>_.
     if schema_version = 0 then Inl InvalidSchemaVersion
     else if max_event_payload_len < length payload then
       Inl (PayloadTooLarge max_event_payload_len)
     else Inr \<lparr>ne_event_id = event_id, ne_event_type = event_type,
                ne_schema_version = schema_version, ne_payload = payload\<rparr>)"

section \<open>Batches\<close>

record event_batch =
  eb_actor :: "actor_ref option"
  eb_commit_id :: commit_id
  eb_operation_id :: operation_id
  eb_operation_fingerprint :: fingerprint
  eb_events :: "new_event list"
  eb_correlation_id :: "correlation_id option"
  eb_causation_id :: "causation_id option"

definition EventBatch_new ::
  "commit_id \<Rightarrow> operation_id \<Rightarrow> fingerprint \<Rightarrow> new_event list \<Rightarrow> envelope_error + event_batch" where
  "EventBatch_new commit_id operation_id operation_fingerprint events =
     (if events = [] then Inl EmptyBatch
      else if max_events_per_batch < length events then
        Inl (BatchTooLarge (length events) max_events_per_batch)
      else
        (let payload_bytes = try_sum 0 (map (length \<circ> ne_payload) events) in
         if (case payload_bytes of None \<Rightarrow> True | Some n \<Rightarrow> max_batch_payload_len < n) then
           Inl (BatchPayloadTooLarge max_batch_payload_len)
         else if card (set (map ne_event_id events)) \<noteq> length events then Inl DuplicateEventId
         else Inr \<lparr>eb_actor = None, eb_commit_id = commit_id, eb_operation_id = operation_id,
                    eb_operation_fingerprint = operation_fingerprint, eb_events = events,
                    eb_correlation_id = None, eb_causation_id = None\<rparr>))"

definition valid_batch :: "event_batch \<Rightarrow> bool" where
  "valid_batch b \<longleftrightarrow> eb_events b \<noteq> [] \<and> length (eb_events b) \<le> max_events_per_batch
     \<and> distinct (map ne_event_id (eb_events b))"

section \<open>Recorded events\<close>

record recorded_event =
  re_actor :: "actor_ref option"
  re_stream_id :: stream_id
  re_stream_version :: stream_version
  re_event_id :: event_id
  re_commit_id :: commit_id
  re_operation_id :: operation_id
  re_operation_fingerprint :: fingerprint
  re_commit_event_ordinal :: u32
  re_commit_event_count :: u32
  re_correlation_id :: "correlation_id option"
  re_causation_id :: "causation_id option"
  re_event_type :: string
  re_schema_version :: u32
  re_payload :: bytes

definition RecordedEvent_new_in_commit ::
  "stream_id \<Rightarrow> stream_version \<Rightarrow> event_id \<Rightarrow> commit_id \<Rightarrow> operation_id \<Rightarrow> fingerprint \<Rightarrow>
   u32 \<Rightarrow> u32 \<Rightarrow> string \<Rightarrow> u32 \<Rightarrow> bytes \<Rightarrow> envelope_error + recorded_event" where
  "RecordedEvent_new_in_commit stream version event_id commit_id operation_id fp
      ordinal count event_type schema_version payload =
     (if version = 0 then Inl ZeroRecordedVersion
      else if count = 0 \<or> max_events_per_batch < unat count \<or> count \<le> ordinal then
        Inl InvalidCommitCoordinates
      else
        rbind (validate_event_type event_type) (\<lambda>_.
        if schema_version = 0 then Inl InvalidSchemaVersion
        else if max_event_payload_len < length payload then
          Inl (PayloadTooLarge max_event_payload_len)
        else Inr \<lparr>re_actor = None, re_stream_id = stream, re_stream_version = version,
                   re_event_id = event_id, re_commit_id = commit_id,
                   re_operation_id = operation_id, re_operation_fingerprint = fp,
                   re_commit_event_ordinal = ordinal, re_commit_event_count = count,
                   re_correlation_id = None, re_causation_id = None,
                   re_event_type = event_type, re_schema_version = schema_version,
                   re_payload = payload\<rparr>))"

definition RecordedEvent_new ::
  "stream_id \<Rightarrow> stream_version \<Rightarrow> event_id \<Rightarrow> commit_id \<Rightarrow> operation_id \<Rightarrow> fingerprint \<Rightarrow>
   string \<Rightarrow> u32 \<Rightarrow> bytes \<Rightarrow> envelope_error + recorded_event" where
  "RecordedEvent_new stream version event_id commit_id operation_id fp event_type
      schema_version payload =
     RecordedEvent_new_in_commit stream version event_id commit_id operation_id fp 0 1
       event_type schema_version payload"

definition RecordedEvent_from_new ::
  "stream_id \<Rightarrow> stream_version \<Rightarrow> event_batch \<Rightarrow> u32 \<Rightarrow> u32 \<Rightarrow> new_event \<Rightarrow> recorded_event" where
  "RecordedEvent_from_new stream version batch ordinal count event =
     \<lparr>re_actor = eb_actor batch, re_stream_id = stream, re_stream_version = version,
      re_event_id = ne_event_id event, re_commit_id = eb_commit_id batch,
      re_operation_id = eb_operation_id batch,
      re_operation_fingerprint = eb_operation_fingerprint batch,
      re_commit_event_ordinal = ordinal, re_commit_event_count = count,
      re_correlation_id = eb_correlation_id batch, re_causation_id = eb_causation_id batch,
      re_event_type = ne_event_type event, re_schema_version = ne_schema_version event,
      re_payload = ne_payload event\<rparr>"

section \<open>Facts\<close>

lemma version_next_Some:
  "version_next v = Some w \<longleftrightarrow> unat v + 1 < 2 ^ 64 \<and> w = v + 1"
  by (auto simp: version_next_def checked_add_def)

lemma version_next_unat: "version_next v = Some w \<Longrightarrow> unat w = unat v + 1"
  using checked_add_Some_unat [of v 1 w] by (simp add: version_next_def)

lemma card_set_eq_length: "card (set xs) = length xs \<longleftrightarrow> distinct xs"
  using card_distinct distinct_card by blast

lemma EventBatch_new_ok:
  assumes "EventBatch_new c op fp events = Inr b"
  shows "valid_batch b" and "eb_events b = events" and "eb_commit_id b = c"
    and "eb_operation_id b = op" and "eb_operation_fingerprint b = fp"
    and "eb_actor b = None" and "eb_correlation_id b = None" and "eb_causation_id b = None"
proof -
  have card: "card (set (map ne_event_id events)) = length (map ne_event_id events)
      \<longleftrightarrow> distinct (map ne_event_id events)"
    by (rule card_set_eq_length)
  show "valid_batch b" and "eb_events b = events" and "eb_commit_id b = c"
    and "eb_operation_id b = op" and "eb_operation_fingerprint b = fp"
    and "eb_actor b = None" and "eb_correlation_id b = None" and "eb_causation_id b = None"
    using assms card by (auto simp: EventBatch_new_def valid_batch_def Let_def split: if_splits)
qed

lemma from_new_sel [simp]:
  "re_actor (RecordedEvent_from_new s v b i n e) = eb_actor b"
  "re_stream_id (RecordedEvent_from_new s v b i n e) = s"
  "re_stream_version (RecordedEvent_from_new s v b i n e) = v"
  "re_event_id (RecordedEvent_from_new s v b i n e) = ne_event_id e"
  "re_commit_id (RecordedEvent_from_new s v b i n e) = eb_commit_id b"
  "re_operation_id (RecordedEvent_from_new s v b i n e) = eb_operation_id b"
  "re_operation_fingerprint (RecordedEvent_from_new s v b i n e) = eb_operation_fingerprint b"
  "re_commit_event_ordinal (RecordedEvent_from_new s v b i n e) = i"
  "re_commit_event_count (RecordedEvent_from_new s v b i n e) = n"
  "re_correlation_id (RecordedEvent_from_new s v b i n e) = eb_correlation_id b"
  "re_causation_id (RecordedEvent_from_new s v b i n e) = eb_causation_id b"
  "re_event_type (RecordedEvent_from_new s v b i n e) = ne_event_type e"
  "re_schema_version (RecordedEvent_from_new s v b i n e) = ne_schema_version e"
  "re_payload (RecordedEvent_from_new s v b i n e) = ne_payload e"
  by (simp_all add: RecordedEvent_from_new_def)

end
