(* ===== verification/Completion.thy ===== *)
theory Completion
  imports Envelope
begin

text \<open>
  The decision a command execution makes durable: the evidence, the encoded rejection and the
  completion of \<open>rostfrei-core/src/completed_outcome.rs\<close>, the rejection codecs, and the execution
  metadata of \<open>identity.rs\<close>. JSON encoding and decoding of a rejection value (serde) are the
  arguments \<open>to_json\<close> and \<open>from_json\<close> of the JSON codec.
\<close>

section \<open>Evidence, rejection, completion\<close>

definition max_rejection_bytes :: nat where "max_rejection_bytes = 64 * 1024"

record outcome_evidence =
  ev_authority_scope :: "string option"
  ev_created_at_millis :: "u64 option"
  ev_fingerprint_version :: u16
  ev_command_type :: string
  ev_command_schema :: u32
  ev_events_caused_by_command :: bool
  ev_original_causation :: "string option"

definition same_identity :: "outcome_evidence \<Rightarrow> outcome_evidence \<Rightarrow> bool" where
  "same_identity a b \<longleftrightarrow>
     ev_authority_scope a = ev_authority_scope b
     \<and> ev_fingerprint_version a = ev_fingerprint_version b
     \<and> ev_command_type a = ev_command_type b
     \<and> ev_command_schema a = ev_command_schema b
     \<and> ev_events_caused_by_command a = ev_events_caused_by_command b
     \<and> ev_original_causation a = ev_original_causation b"

definition evidence_validate :: "outcome_evidence \<Rightarrow> event_codec_error + unit" where
  "evidence_validate e =
     (if ev_fingerprint_version e = 0
        \<or> ev_command_schema e = 0
        \<or> ev_command_type e = []
        \<or> 256 < length (ev_command_type e)
        \<or> has_control (ev_command_type e)
        \<or> (case ev_original_causation e of None \<Rightarrow> False
            | Some i \<Rightarrow> is_err (CausationId_new i))
        \<or> (case ev_created_at_millis e of None \<Rightarrow> False
            | Some t \<Rightarrow> is_err (MessageTimestamp_from_unix_milliseconds t))
        \<or> (case ev_authority_scope e of None \<Rightarrow> False
            | Some scope \<Rightarrow> scope = [] \<or> 256 < length scope \<or> has_control scope)
      then Inl (codec_error_new InvalidEnvelope (Outcome_text InvalidEvidence))
      else Inr ())"

record encoded_rejection =
  rj_codec_id :: string
  rj_codec_version :: u32
  rj_bytes :: bytes

definition rejection_validate :: "encoded_rejection \<Rightarrow> event_codec_error + unit" where
  "rejection_validate r =
     (if rj_codec_id r = []
        \<or> 128 < length (rj_codec_id r)
        \<or> has_control (rj_codec_id r)
        \<or> rj_codec_version r = 0
        \<or> max_rejection_bytes < length (rj_bytes r)
      then Inl (codec_error_new InvalidEnvelope (Outcome_text InvalidRejection))
      else Inr ())"

record command_completion =
  cc_version :: u16
  cc_evidence :: "outcome_evidence option"
  cc_rejection :: "encoded_rejection option"

definition completion_new ::
  "outcome_evidence option \<Rightarrow> encoded_rejection option \<Rightarrow> command_completion" where
  "completion_new evidence rejection =
     \<lparr>cc_version = 1, cc_evidence = evidence, cc_rejection = rejection\<rparr>"

definition completion_validate :: "command_completion \<Rightarrow> event_codec_error + unit" where
  "completion_validate c =
     (if cc_version c \<noteq> 1 then
        Inl (codec_error_new UnsupportedSchemaVersion (Outcome_text UnsupportedOutcomeVersion))
      else
        rbind (ok_or (codec_error_new InvalidEnvelope (Outcome_text MissingEvidence))
                 (cc_evidence c)) (\<lambda>e.
        rbind (evidence_validate e) (\<lambda>_.
        case cc_rejection c of None \<Rightarrow> Inr () | Some r \<Rightarrow> rejection_validate r)))"

section \<open>Rejection codecs\<close>

record 'r rejection_codec =
  rc_encode :: "'r \<Rightarrow> event_codec_error + encoded_rejection"
  rc_decode :: "encoded_rejection \<Rightarrow> event_codec_error + 'r"

definition json_rejection_encode ::
  "('r \<Rightarrow> string + bytes) \<Rightarrow> string \<Rightarrow> u32 \<Rightarrow> 'r \<Rightarrow> event_codec_error + encoded_rejection" where
  "json_rejection_encode to_json i version rejection =
     rbind (map_err (\<lambda>t. codec_error_new EncodingFailed (External_text t)) (to_json rejection))
       (\<lambda>bs. let encoded = \<lparr>rj_codec_id = i, rj_codec_version = version, rj_bytes = bs\<rparr> in
         rbind (rejection_validate encoded) (\<lambda>_. Inr encoded))"

definition json_rejection_decode ::
  "(bytes \<Rightarrow> string + 'r) \<Rightarrow> string \<Rightarrow> u32 \<Rightarrow> encoded_rejection \<Rightarrow> event_codec_error + 'r" where
  "json_rejection_decode from_json i version rejection =
     rbind (rejection_validate rejection) (\<lambda>_.
     if rj_codec_id rejection \<noteq> i \<or> rj_codec_version rejection \<noteq> version then
       Inl (codec_error_new UnsupportedSchemaVersion (Outcome_text UnsupportedRejectionCodec))
     else map_err (\<lambda>t. codec_error_new MalformedPayload (External_text t))
            (from_json (rj_bytes rejection)))"

definition json_rejection_codec ::
  "('r \<Rightarrow> string + bytes) \<Rightarrow> (bytes \<Rightarrow> string + 'r) \<Rightarrow> string \<Rightarrow> u32 \<Rightarrow> 'r rejection_codec" where
  "json_rejection_codec to_json from_json i version =
     \<lparr>rc_encode = json_rejection_encode to_json i version,
      rc_decode = json_rejection_decode from_json i version\<rparr>"

definition unconfigured_rejection_codec :: "'r rejection_codec" where
  "unconfigured_rejection_codec =
     \<lparr>rc_encode = (\<lambda>_. Inl (codec_error_new EncodingFailed (Outcome_text NoDurableRejectionCodec))),
      rc_decode = (\<lambda>_. Inl (codec_error_new UnsupportedSchemaVersion (Outcome_text NoReplayCodec)))\<rparr>"

section \<open>Execution metadata\<close>

record execution_metadata =
  md_actor :: "actor_ref option"
  md_security_scope :: "security_scope option"
  md_outcome_evidence :: "outcome_evidence option"
  md_bounded_context :: "bounded_context_name option"
  md_operation_id :: operation_id
  md_operation_fingerprint :: fingerprint
  md_correlation_id :: "correlation_id option"
  md_causation_id :: "causation_id option"

definition metadata_new :: "operation_id \<Rightarrow> fingerprint \<Rightarrow> execution_metadata" where
  "metadata_new op fp =
     \<lparr>md_actor = None, md_security_scope = None, md_outcome_evidence = None,
      md_bounded_context = None, md_operation_id = op, md_operation_fingerprint = fp,
      md_correlation_id = None, md_causation_id = None\<rparr>"

text \<open>\<open>type_name\<close> is \<open>std::any::type_name::<Command>()\<close>.\<close>

definition with_default_outcome_evidence ::
  "string \<Rightarrow> execution_metadata \<Rightarrow> execution_metadata" where
  "with_default_outcome_evidence type_name m =
     (if md_outcome_evidence m = None then
        m\<lparr>md_outcome_evidence := Some
            \<lparr>ev_authority_scope = None, ev_created_at_millis = None,
             ev_fingerprint_version = 1, ev_command_type = ''rust:'' @ type_name,
             ev_command_schema = 1, ev_events_caused_by_command = False,
             ev_original_causation = md_causation_id m\<rparr>\<rparr>
      else m)"

definition effective_correlation_id :: "execution_metadata \<Rightarrow> contract_error + correlation_id" where
  "effective_correlation_id m =
     (case md_correlation_id m of
        None \<Rightarrow> CorrelationId_new (md_operation_id m)
      | Some c \<Rightarrow> Inr c)"

definition normalized :: "execution_metadata \<Rightarrow> contract_error + execution_metadata" where
  "normalized m =
     rbind (effective_correlation_id m) (\<lambda>c. Inr (m\<lparr>md_correlation_id := Some c\<rparr>))"

section \<open>Facts\<close>

lemma completion_validate_ok_iff:
  "completion_validate c = Inr () \<longleftrightarrow>
     cc_version c = 1 \<and> (\<exists>e. cc_evidence c = Some e \<and> evidence_validate e = Inr ())
     \<and> (\<forall>r. cc_rejection c = Some r \<longrightarrow> rejection_validate r = Inr ())"
  by (cases "cc_rejection c") (auto simp: completion_validate_def result_simps)

lemma same_identity_refl [simp]: "same_identity e e"
  by (simp add: same_identity_def)

lemma same_identity_sym: "same_identity a b \<Longrightarrow> same_identity b a"
  by (auto simp: same_identity_def)

lemma same_identity_trans: "same_identity a b \<Longrightarrow> same_identity b c \<Longrightarrow> same_identity a c"
  by (auto simp: same_identity_def)

lemma same_identity_timestamp [simp]: "same_identity (e\<lparr>ev_created_at_millis := t\<rparr>) f = same_identity e f"
  by (simp add: same_identity_def)

lemma normalized_ok_iff:
  "normalized m = Inr m' \<longleftrightarrow>
     (\<exists>c. effective_correlation_id m = Inr c \<and> m' = m\<lparr>md_correlation_id := Some c\<rparr>)"
  by (auto simp: normalized_def result_simps)

lemma normalized_idem: "normalized m = Inr m' \<Longrightarrow> normalized m' = Inr m'"
  by (auto simp: normalized_ok_iff effective_correlation_id_def)

lemma with_default_outcome_evidence_idem [simp]:
  "with_default_outcome_evidence t (with_default_outcome_evidence t m) =
   with_default_outcome_evidence t m"
  by (simp add: with_default_outcome_evidence_def)

end
