(* ===== verification/Store.thy ===== *)
theory Store
  imports Completion
begin

text \<open>
  Transactions and receipts: \<open>rostfrei-core/src/store.rs\<close> and the transaction check of
  \<open>completed_outcome.rs\<close>.
\<close>

section \<open>Transactions\<close>

definition max_transaction_items :: nat where "max_transaction_items = 100"
definition transaction_receipt_items :: nat where "transaction_receipt_items = 1"

record transaction_participant =
  tp_stream_id :: stream_id
  tp_expected_version :: expected_version
  tp_batch :: "event_batch option"

record event_transaction =
  tx_actor :: "actor_ref option"
  tx_security_scope :: "security_scope option"
  tx_completion :: "command_completion option"
  tx_bounded_context :: "bounded_context_name option"
  tx_operation_id :: operation_id
  tx_operation_fingerprint :: fingerprint
  tx_correlation_id :: "correlation_id option"
  tx_causation_id :: "causation_id option"
  tx_participants :: "transaction_participant list"

definition EventTransaction_new ::
  "operation_id \<Rightarrow> fingerprint \<Rightarrow> transaction_participant list \<Rightarrow> event_transaction" where
  "EventTransaction_new op fp participants =
     \<lparr>tx_actor = None, tx_security_scope = None, tx_completion = None,
      tx_bounded_context = None, tx_operation_id = op, tx_operation_fingerprint = fp,
      tx_correlation_id = None, tx_causation_id = None, tx_participants = participants\<rparr>"

definition tx_batches :: "event_transaction \<Rightarrow> event_batch list" where
  "tx_batches t = List.map_filter tp_batch (tx_participants t)"

definition validate_transaction_item_limit :: "event_transaction \<Rightarrow> event_store_error + nat" where
  "validate_transaction_item_limit t =
     rbind (ok_or (store_error_new InvalidRequest (Store_text EventCountOverflow))
              (try_sum 0 (map (length \<circ> eb_events) (tx_batches t)))) (\<lambda>domain_event_count.
     let read_guard_count = length (filter (\<lambda>p. tp_batch p = None) (tx_participants t)) in
     rbind (ok_or (store_error_new InvalidRequest (Store_text ItemCountOverflow))
              (case checked_add_usize domain_event_count read_guard_count of
                 None \<Rightarrow> None
               | Some count \<Rightarrow> checked_add_usize count transaction_receipt_items)) (\<lambda>item_count.
     if max_transaction_items < item_count then
       Inl (store_error_new InvalidRequest (Too_many_items item_count))
     else Inr domain_event_count))"

definition validate_completed_transaction :: "event_transaction \<Rightarrow> event_store_error + unit" where
  "validate_completed_transaction t =
     (case tx_completion t of
        None \<Rightarrow> Inl (store_error_new InvalidRequest (Outcome_text ExplicitDecisionRequired))
      | Some completion \<Rightarrow>
          rbind (map_err (\<lambda>e. store_error_new InvalidRequest (render_codec e))
                   (completion_validate completion)) (\<lambda>_.
          if tx_bounded_context t = None
             \<or> (cc_rejection completion \<noteq> None
                \<and> list_ex (\<lambda>p. tp_batch p \<noteq> None) (tx_participants t))
          then Inl (store_error_new InvalidRequest (Outcome_text RejectionNeedsGuardsOnly))
          else Inr ()))"

section \<open>Receipts\<close>

record stream_receipt =
  sr_stream_id :: stream_id
  sr_base_version :: stream_version
  sr_events :: "recorded_event list"

record transaction_receipt =
  tr_actor :: "actor_ref option"
  tr_security_scope :: "security_scope option"
  tr_completion :: "command_completion option"
  tr_bounded_context :: "bounded_context_name option"
  tr_operation_id :: operation_id
  tr_operation_fingerprint :: fingerprint
  tr_correlation_id :: "correlation_id option"
  tr_causation_id :: "causation_id option"
  tr_streams :: "stream_receipt list"

definition TransactionReceipt_new ::
  "operation_id \<Rightarrow> fingerprint \<Rightarrow> stream_receipt list \<Rightarrow> transaction_receipt" where
  "TransactionReceipt_new op fp streams =
     \<lparr>tr_actor = None, tr_security_scope = None, tr_completion = None,
      tr_bounded_context = None, tr_operation_id = op, tr_operation_fingerprint = fp,
      tr_correlation_id = None, tr_causation_id = None, tr_streams = streams\<rparr>"

definition receipt_events :: "transaction_receipt \<Rightarrow> recorded_event list" where
  "receipt_events r = concat (map sr_events (tr_streams r))"

definition without_completion :: "transaction_receipt \<Rightarrow> transaction_receipt" where
  "without_completion r = r\<lparr>tr_completion := None\<rparr>"

definition require_acceptance :: "transaction_receipt \<Rightarrow> event_store_error + transaction_receipt" where
  "require_acceptance r =
     (if (case tr_completion r of None \<Rightarrow> False | Some c \<Rightarrow> cc_rejection c \<noteq> None)
      then Inl (store_error_new IdentityConflict (Store_text RejectionNotAcceptance))
      else Inr r)"

text \<open>\<open>InlineCompletedOutcome\<close> wraps a receipt.\<close>

definition inline_rejection :: "transaction_receipt \<Rightarrow> encoded_rejection option" where
  "inline_rejection r = Option.bind (tr_completion r) cc_rejection"

definition inline_acceptance :: "transaction_receipt \<Rightarrow> transaction_receipt option" where
  "inline_acceptance r = (if inline_rejection r = None then Some r else None)"

section \<open>Outcomes of an append\<close>

datatype append_outcome =
  Appended "recorded_event list"
| ExactReplay "recorded_event list"

datatype transaction_append_outcome =
  TransactionAppended transaction_receipt
| TransactionExactReplay transaction_receipt

datatype completed_append_outcome =
  CompletedAppended transaction_receipt
| CompletedExactReplay transaction_receipt

record stream_summary =
  ss_stream_id :: stream_id
  ss_stream_version :: stream_version

section \<open>Facts\<close>

text \<open>The item limit in closed form: events, read guards and the receipt fit into 100 items.\<close>

definition event_total :: "event_transaction \<Rightarrow> nat" where
  "event_total t = sum_list (map (length \<circ> eb_events) (tx_batches t))"

definition guard_total :: "event_transaction \<Rightarrow> nat" where
  "guard_total t = length (filter (\<lambda>p. tp_batch p = None) (tx_participants t))"

lemma validate_transaction_item_limit_ok_iff:
  "validate_transaction_item_limit t = Inr n \<longleftrightarrow>
     n = event_total t \<and> event_total t + guard_total t + 1 \<le> max_transaction_items"
proof
  assume "validate_transaction_item_limit t = Inr n"
  then show "n = event_total t \<and> event_total t + guard_total t + 1 \<le> max_transaction_items"
    by (auto simp: validate_transaction_item_limit_def Let_def result_simps checked_simps
        event_total_def guard_total_def transaction_receipt_items_def
        dest!: try_sum_Some split: option.splits if_splits)
next
  assume r: "n = event_total t \<and> event_total t + guard_total t + 1 \<le> max_transaction_items"
  then have "try_sum 0 (map (length \<circ> eb_events) (tx_batches t)) = Some n"
    using try_sum_ok [of 0 "map (length \<circ> eb_events) (tx_batches t)"]
    by (simp add: event_total_def max_transaction_items_def usize_bound_def)
  with r show "validate_transaction_item_limit t = Inr n"
    by (simp add: validate_transaction_item_limit_def Let_def guard_total_def
        transaction_receipt_items_def max_transaction_items_def checked_add_usize_def
        usize_bound_def)
qed

lemma validate_transaction_item_limit_error:
  "validate_transaction_item_limit t = Inl e \<Longrightarrow> store_kind e = InvalidRequest"
  by (auto simp: validate_transaction_item_limit_def Let_def rbind_Inl_iff result_simps ok_or_def
      split: option.splits if_splits)

lemma validate_completed_transaction_ok_iff:
  "validate_completed_transaction t = Inr () \<longleftrightarrow>
     (\<exists>c. tx_completion t = Some c \<and> completion_validate c = Inr ()
        \<and> tx_bounded_context t \<noteq> None
        \<and> (cc_rejection c = None \<or> (\<forall>p \<in> set (tx_participants t). tp_batch p = None)))"
  by (cases "tx_completion t")
    (auto simp: validate_completed_transaction_def result_simps list_ex_iff)

end
