(* ===== verification/Wire.thy ===== *)
theory Wire
  imports Store
begin

text \<open>
  What the storage layer hands to code outside the repository. \<open>sha2\<close> and \<open>serde_json\<close> are the
  fields of the record \<open>externals\<close>, an argument of every definition that hashes or serialises:
  \<open>json_to_vec\<close> writes a \<open>serde_json::Value\<close>, the typed functions are \<open>serde_json::to_vec\<close> and
  \<open>from_slice\<close> at the types the source uses them at (their derived implementations are generated).
\<close>

text \<open>A \<open>serde_json::Value\<close>; \<open>JNumber\<close> is a number that is not a natural number, by its text. The entries
  of an object are in the iteration order of its map.\<close>

datatype json =
  JNull | JBool bool | JNum nat | JNumber string | JStr string
| JArr "json list" | JObj "(string \<times> json) list"

record detail_header =
  dh_version :: u16
  dh_authority :: string
  dh_context :: string
  dh_operation :: string
  dh_security_scope :: "string option"
  dh_actor :: "actor_ref option"
  dh_completion :: "command_completion option"

record marker_manifest =
  mm_version :: u16
  mm_authority :: string
  mm_context :: string
  mm_operation :: string
  mm_scope :: "string option"
  mm_actor :: "actor_ref option"
  mm_rejected :: bool
  mm_format :: u16
  mm_length :: nat
  mm_digest :: string
  mm_proposal_version :: u16
  mm_proposal :: string
  mm_revision :: string
  mm_integrity :: string
  mm_evidence :: "outcome_evidence option"

record externals =
  sha256 :: "bytes \<Rightarrow> bytes"
  json_to_vec :: "json \<Rightarrow> string + bytes"
  completion_to_vec :: "command_completion option \<Rightarrow> string + bytes"
  evidence_to_vec :: "outcome_evidence option \<Rightarrow> string + bytes"
  header_to_vec :: "detail_header \<Rightarrow> string + bytes"
  header_from_slice :: "bytes \<Rightarrow> string + detail_header"
  manifest_to_vec :: "marker_manifest \<Rightarrow> string + bytes"
  manifest_from_slice :: "bytes \<Rightarrow> string + marker_manifest"

text \<open>\<open>serde_json::json!\<close> of an optional string or actor.\<close>

definition json_optional :: "string option \<Rightarrow> json" where
  "json_optional x = (case x of None \<Rightarrow> JNull | Some s \<Rightarrow> JStr s)"

definition json_actor :: "actor_ref \<Rightarrow> json" where
  "json_actor a = JObj [(''namespace'', JStr (actor_namespace a)), (''id'', JStr (actor_id a))]"

definition json_optional_actor :: "actor_ref option \<Rightarrow> json" where
  "json_optional_actor x = (case x of None \<Rightarrow> JNull | Some a \<Rightarrow> json_actor a)"

end
