(* ===== verification/Receipts.thy ===== *)
theory Receipts
  imports Wire
begin

text \<open>
  The checked receipt boundaries of \<open>rostfrei-core/src/receipt_validation.rs\<close> and the proposal
  digest of \<open>proposal.rs\<close>.
\<close>

section \<open>Integrity of a receipt\<close>

definition receipt_corrupt :: "message \<Rightarrow> event_store_error" where
  "receipt_corrupt m = store_error_new CorruptHistory m"

definition receipt_invalid :: "message \<Rightarrow> event_store_error" where
  "receipt_invalid m = store_error_new InvalidRequest m"

definition receipt_event_matches ::
  "(bytes \<Rightarrow> bytes) \<Rightarrow> transaction_receipt \<Rightarrow> stream_id \<Rightarrow> commit_id \<Rightarrow> u32 \<Rightarrow> stream_version \<Rightarrow>
   u32 \<Rightarrow> recorded_event \<Rightarrow> bool" where
  "receipt_event_matches sha r stream commit count version ordinal event \<longleftrightarrow>
     re_stream_id event = stream
     \<and> re_stream_version event = version
     \<and> re_commit_id event = commit
     \<and> re_event_id event = derive_event_id sha commit ordinal
     \<and> re_operation_id event = tr_operation_id r
     \<and> re_operation_fingerprint event = tr_operation_fingerprint r
     \<and> re_correlation_id event = tr_correlation_id r
     \<and> re_causation_id event = tr_causation_id r
     \<and> re_actor event = tr_actor r
     \<and> re_commit_event_ordinal event = ordinal
     \<and> re_commit_event_count event = count"

fun validate_receipt_events ::
  "(bytes \<Rightarrow> bytes) \<Rightarrow> transaction_receipt \<Rightarrow> stream_id \<Rightarrow> commit_id \<Rightarrow> u32 \<Rightarrow> stream_version \<Rightarrow>
   nat \<Rightarrow> recorded_event list \<Rightarrow> event_store_error + unit" where
  "validate_receipt_events sha r stream commit count version ordinal [] = Inr ()"
| "validate_receipt_events sha r stream commit count version ordinal (event # events) =
     rbind (ok_or (receipt_corrupt (Outcome_text ReceiptVersionOverflow)) (version_next version))
       (\<lambda>version.
     rbind (ok_or (receipt_corrupt (Outcome_text ReceiptOrdinalOverflow)) (u32_try_from ordinal))
       (\<lambda>o32.
     if \<not> receipt_event_matches sha r stream commit count version o32 event then
       Inl (receipt_corrupt (Outcome_text ReceiptEventDiffers))
     else validate_receipt_events sha r stream commit count version (Suc ordinal) events))"

fun validate_receipt_streams ::
  "(bytes \<Rightarrow> bytes) \<Rightarrow> transaction_receipt \<Rightarrow> stream_id set \<Rightarrow> stream_receipt list \<Rightarrow>
   event_store_error + unit" where
  "validate_receipt_streams sha r seen [] = Inr ()"
| "validate_receipt_streams sha r seen (s # ss) =
     (if sr_stream_id s \<in> seen then
        Inl (receipt_corrupt (Outcome_text DuplicateReceiptParticipant))
      else
        (let commit = derive_commit_id sha (sr_stream_id s) (tr_operation_id r) in
         rbind (ok_or (receipt_corrupt (Outcome_text ReceiptEventCountOverflow))
                  (u32_try_from (length (sr_events s)))) (\<lambda>count.
         rbind (validate_receipt_events sha r (sr_stream_id s) commit count
                  (sr_base_version s) 0 (sr_events s)) (\<lambda>_.
         validate_receipt_streams sha r (insert (sr_stream_id s) seen) ss))))"

definition validate_integrity ::
  "(bytes \<Rightarrow> bytes) \<Rightarrow> transaction_receipt \<Rightarrow> event_store_error + unit" where
  "validate_integrity sha r =
     rbind (validate_receipt_streams sha r {} (tr_streams r)) (\<lambda>_.
     case tr_completion r of
       None \<Rightarrow> Inr ()
     | Some completion \<Rightarrow>
         rbind (map_err (\<lambda>e. receipt_corrupt (render_codec e)) (completion_validate completion))
           (\<lambda>_.
         if cc_rejection completion \<noteq> None \<and> list_ex (\<lambda>s. sr_events s \<noteq> []) (tr_streams r)
         then Inl (receipt_corrupt (Outcome_text RejectedReceiptHasEvents))
         else Inr ()))"

section \<open>A receipt against its proposal\<close>

definition new_event_matches :: "new_event \<Rightarrow> recorded_event \<Rightarrow> bool" where
  "new_event_matches new recorded \<longleftrightarrow>
     ne_event_id new = re_event_id recorded
     \<and> ne_event_type new = re_event_type recorded
     \<and> ne_schema_version new = re_schema_version recorded
     \<and> ne_payload new = re_payload recorded"

definition validate_participant_receipt ::
  "(bytes \<Rightarrow> bytes) \<Rightarrow> transaction_receipt \<Rightarrow> stream_receipt \<times> transaction_participant \<Rightarrow>
   event_store_error + unit" where
  "validate_participant_receipt sha r sp =
     (let stream = fst sp; participant = snd sp in
      rbind (case tp_expected_version participant of
               NoStream \<Rightarrow> Inr 0
             | Exact version \<Rightarrow>
                 if version \<noteq> 0 then Inr version
                 else Inl (receipt_invalid (Outcome_text ExactNeedsNonzeroBase))) (\<lambda>base.
      if sr_stream_id stream \<noteq> tp_stream_id participant \<or> sr_base_version stream \<noteq> base then
        Inl (receipt_invalid (Outcome_text ReceiptParticipantDiffers))
      else
        (case tp_batch participant of
           None \<Rightarrow>
             if sr_events stream \<noteq> [] then
               Inl (receipt_invalid (Outcome_text GuardReceiptHasEvents))
             else Inr ()
         | Some batch \<Rightarrow>
             if eb_operation_id batch \<noteq> tr_operation_id r
               \<or> eb_operation_fingerprint batch \<noteq> tr_operation_fingerprint r
               \<or> eb_correlation_id batch \<noteq> tr_correlation_id r
               \<or> eb_causation_id batch \<noteq> tr_causation_id r
               \<or> eb_actor batch \<noteq> tr_actor r
               \<or> eb_commit_id batch
                   \<noteq> derive_commit_id sha (sr_stream_id stream) (tr_operation_id r)
               \<or> length (eb_events batch) \<noteq> length (sr_events stream)
             then Inl (receipt_invalid (Outcome_text ReceiptBatchDiffers))
             else
               for_each (\<lambda>(new, recorded).
                   if \<not> new_event_matches new recorded then
                     Inl (receipt_invalid (Outcome_text ReceiptContentDiffers))
                   else Inr ())
                 (zip (eb_events batch) (sr_events stream)))))"

definition validate_proposal ::
  "(bytes \<Rightarrow> bytes) \<Rightarrow> transaction_receipt \<Rightarrow> event_transaction \<Rightarrow> event_store_error + unit" where
  "validate_proposal sha r proposal =
     rbind (if tx_completion proposal \<noteq> None then validate_completed_transaction proposal
            else Inr ()) (\<lambda>_.
     rbind (validate_transaction_item_limit proposal) (\<lambda>_.
     rbind (map_err (\<lambda>e. receipt_invalid (render_store e)) (validate_integrity sha r)) (\<lambda>_.
     if tr_bounded_context r \<noteq> tx_bounded_context proposal
       \<or> tr_operation_id r \<noteq> tx_operation_id proposal
       \<or> tr_operation_fingerprint r \<noteq> tx_operation_fingerprint proposal
       \<or> tr_correlation_id r \<noteq> tx_correlation_id proposal
       \<or> tr_causation_id r \<noteq> tx_causation_id proposal
       \<or> tr_actor r \<noteq> tx_actor proposal
       \<or> tr_security_scope r \<noteq> tx_security_scope proposal
       \<or> (tr_completion r \<noteq> None \<and> tr_completion r \<noteq> tx_completion proposal)
       \<or> length (tr_streams r) \<noteq> length (tx_participants proposal)
     then Inl (receipt_invalid (Outcome_text ReceiptProposalDiffers))
     else
       for_each (validate_participant_receipt sha r)
         (zip (tr_streams r) (tx_participants proposal)))))"

section \<open>Proposal digests\<close>

record proposal_digest =
  pd_version :: u16
  pd_digest :: fingerprint

definition proposal_digest_restore ::
  "u16 \<Rightarrow> fingerprint \<Rightarrow> event_store_error + proposal_digest" where
  "proposal_digest_restore version digest =
     (if version \<noteq> 1 \<and> version \<noteq> 2 then
        Inl (store_error_new CorruptHistory (Outcome_text UnsupportedProposalVersion))
      else Inr \<lparr>pd_version = version, pd_digest = digest\<rparr>)"

definition optional_parts :: "string option \<Rightarrow> bytes list" where
  "optional_parts x =
     (case x of
        None \<Rightarrow> [str_bytes ''none'']
      | Some s \<Rightarrow> [str_bytes ''some'', str_bytes s])"

definition actor_parts :: "actor_ref option \<Rightarrow> bytes list" where
  "actor_parts x =
     (case x of
        None \<Rightarrow> [str_bytes ''none'']
      | Some a \<Rightarrow> [str_bytes ''some'', str_bytes (actor_namespace a), str_bytes (actor_id a)])"

definition event_parts :: "new_event \<Rightarrow> bytes list" where
  "event_parts event =
     [str_bytes ''event'', str_bytes (ne_event_id event), str_bytes (ne_event_type event),
      be_bytes 4 (unat (ne_schema_version event)), ne_payload event]"

definition batch_parts :: "bool \<Rightarrow> event_batch \<Rightarrow> bytes list" where
  "batch_parts attributed batch =
     [str_bytes ''batch'', str_bytes (eb_commit_id batch), str_bytes (eb_operation_id batch),
      eb_operation_fingerprint batch]
     @ optional_parts (eb_correlation_id batch)
     @ optional_parts (eb_causation_id batch)
     @ (if attributed then actor_parts (eb_actor batch) else [])
     @ concat (map event_parts (eb_events batch))
     @ [str_bytes ''end-batch'']"

definition participant_parts :: "bool \<Rightarrow> transaction_participant \<Rightarrow> bytes list" where
  "participant_parts attributed participant =
     [str_bytes ''participant'',
      str_bytes (stream_aggregate_type (tp_stream_id participant)),
      str_bytes (stream_aggregate_id (tp_stream_id participant))]
     @ (case tp_batch participant of
          Some batch \<Rightarrow> batch_parts attributed batch
        | None \<Rightarrow> [str_bytes ''guard''])"

text \<open>The parts hashed for a transaction, given its completion as JSON.\<close>

definition proposal_parts :: "event_transaction \<Rightarrow> bytes \<Rightarrow> bytes list" where
  "proposal_parts t completion =
     (let attributed = tx_actor t \<noteq> None in
      [str_bytes (if attributed then ''rostfrei:proposal:v2'' else ''rostfrei:proposal:v1'')]
      @ optional_parts (tx_bounded_context t)
      @ [str_bytes (tx_operation_id t), tx_operation_fingerprint t]
      @ optional_parts (tx_correlation_id t)
      @ optional_parts (tx_causation_id t)
      @ optional_parts (tx_security_scope t)
      @ (if attributed then actor_parts (tx_actor t) else [])
      @ [completion]
      @ concat (map (participant_parts attributed) (tx_participants t))
      @ [str_bytes ''end-proposal''])"

definition proposal_digest_of ::
  "externals \<Rightarrow> event_transaction \<Rightarrow> event_store_error + proposal_digest" where
  "proposal_digest_of E t =
     (if list_ex (\<lambda>b. eb_actor b \<noteq> tx_actor t) (tx_batches t) then
        Inl (store_error_new InvalidRequest (Outcome_text ParticipantActorDiffers))
      else
        rbind (map_err (\<lambda>m. store_error_new InvalidRequest (External_text m))
                 (completion_to_vec E (tx_completion t))) (\<lambda>completion.
        Inr \<lparr>pd_version = (if tx_actor t \<noteq> None then 2 else 1),
             pd_digest = sha256 E (frame (proposal_parts t completion))\<rparr>))"

end
