(* ===== verification/Outcome.thy ===== *)
theory Outcome
  imports Receipts
begin

text \<open>
  Permanent decision evidence and withdrawable details: \<open>rostfrei-core/src/outcome.rs\<close> with the
  identities of \<open>execution_store.rs\<close>. A marker is the permanent part of a completed command; its
  details are stored apart, bound to the marker by a reference with length and digest.
\<close>

section \<open>Keys and references\<close>

type_synonym command_authority = string

definition CommandAuthority_new :: "string \<Rightarrow> identity_error + command_authority" where
  "CommandAuthority_new value = string_identity ''command authority'' 256 value"

definition ArchiveReference_new :: "string \<Rightarrow> identity_error + string" where
  "ArchiveReference_new value = string_identity ''archive reference'' 1024 value"

record outcome_key =
  key_authority :: command_authority
  key_context :: bounded_context_name
  key_operation :: operation_id

definition OutcomeKey_new ::
  "command_authority \<Rightarrow> bounded_context_name \<Rightarrow> operation_id \<Rightarrow> outcome_key" where
  "OutcomeKey_new authority context operation =
     \<lparr>key_authority = authority, key_context = context, key_operation = operation\<rparr>"

datatype outcome_decision = OutcomeAccepted | OutcomeRejected

record detail_reference =
  dr_key :: outcome_key
  dr_security_scope :: "security_scope option"
  dr_actor :: "actor_ref option"
  dr_decision :: outcome_decision
  dr_format :: u16
  dr_length :: nat
  dr_digest :: fingerprint

definition outcome_corrupt :: "message \<Rightarrow> event_store_error" where
  "outcome_corrupt m = store_error_new CorruptHistory m"

definition reference_json :: "detail_reference \<Rightarrow> json" where
  "reference_json r =
     JArr ([JNum (case dr_actor r of None \<Rightarrow> 1 | Some _ \<Rightarrow> 2),
            JStr (key_authority (dr_key r)), JStr (key_context (dr_key r)),
            JStr (key_operation (dr_key r)), json_optional (dr_security_scope r)]
       @ (case dr_actor r of None \<Rightarrow> [] | Some a \<Rightarrow> [json_actor a])
       @ [JBool (dr_decision r = OutcomeRejected), JNum (unat (dr_format r)),
          JNum (dr_length r), JStr (fingerprint_to_hex (dr_digest r))])"

definition reference_encode :: "externals \<Rightarrow> detail_reference \<Rightarrow> event_store_error + bytes" where
  "reference_encode E r =
     map_err (\<lambda>m. outcome_corrupt (External_text m)) (json_to_vec E (reference_json r))"

section \<open>Integrity digest and revision\<close>

definition actor_format :: "actor_ref option \<Rightarrow> u16" where
  "actor_format actor = (if actor \<noteq> None then 2 else 1)"

definition integrity_event_json ::
  "(bytes \<Rightarrow> bytes) \<Rightarrow> transaction_receipt \<Rightarrow> recorded_event \<Rightarrow> json" where
  "integrity_event_json sha r event =
     JArr ([JStr (re_event_id event), JStr (re_commit_id event),
            JNum (unat (re_stream_version event)), JNum (unat (re_commit_event_ordinal event)),
            JNum (unat (re_commit_event_count event)), JStr (re_event_type event),
            JNum (unat (re_schema_version event)),
            JStr (fingerprint_to_hex (fingerprint_digest sha (re_payload event)))]
       @ (if tr_actor r \<noteq> None then [json_optional_actor (re_actor event)] else []))"

definition integrity_stream_json ::
  "(bytes \<Rightarrow> bytes) \<Rightarrow> transaction_receipt \<Rightarrow> stream_receipt \<Rightarrow> json" where
  "integrity_stream_json sha r stream =
     JArr [JStr (stream_aggregate_type (sr_stream_id stream)),
           JStr (stream_aggregate_id (sr_stream_id stream)),
           JNum (unat (sr_base_version stream)),
           JArr (map (integrity_event_json sha r) (sr_events stream))]"

definition integrity_json :: "(bytes \<Rightarrow> bytes) \<Rightarrow> transaction_receipt \<Rightarrow> json" where
  "integrity_json sha r =
     JArr ([JStr (if tr_actor r \<noteq> None then ''rostfrei:outcome-integrity:v2''
                  else ''rostfrei:outcome-integrity:v1''),
            json_optional (tr_bounded_context r), JStr (tr_operation_id r),
            JStr (fingerprint_to_hex (tr_operation_fingerprint r)),
            json_optional (tr_correlation_id r), json_optional (tr_causation_id r),
            json_optional (tr_security_scope r)]
       @ (if tr_actor r \<noteq> None then [json_optional_actor (tr_actor r)] else [])
       @ [JArr (map (integrity_stream_json sha r) (tr_streams r))])"

definition integrity_digest ::
  "externals \<Rightarrow> transaction_receipt \<Rightarrow> event_store_error + fingerprint" where
  "integrity_digest E r =
     rbind (map_err (\<lambda>m. outcome_corrupt (External_text m))
              (json_to_vec E (integrity_json (sha256 E) r))) (\<lambda>bs.
     Inr (fingerprint_digest (sha256 E) bs))"

definition marker_revision ::
  "externals \<Rightarrow> detail_reference \<Rightarrow> proposal_digest \<Rightarrow> outcome_evidence option \<Rightarrow>
   transaction_receipt \<Rightarrow> event_store_error + fingerprint" where
  "marker_revision E reference proposal evidence integrity =
     rbind (reference_encode E reference) (\<lambda>encoded.
     rbind (map_err (\<lambda>m. outcome_corrupt (External_text m)) (evidence_to_vec E evidence)) (\<lambda>ev.
     rbind (integrity_digest E integrity) (\<lambda>digest.
     let h = hash_part [] (str_bytes (if dr_actor reference \<noteq> None
               then ''rostfrei:outcome-revision:v3'' else ''rostfrei:outcome-revision:v2''));
         h = hash_part h encoded;
         h = hash_part h (be_bytes 2 (unat (pd_version proposal)));
         h = hash_part h (pd_digest proposal);
         h = hash_part h ev;
         h = hash_part h digest
     in Inr (sha256 E h))))"

section \<open>Encoded details\<close>

record encoded_outcome_details =
  eo_reference :: detail_reference
  eo_completion :: "command_completion option"

definition details_rejection :: "encoded_outcome_details \<Rightarrow> encoded_rejection option" where
  "details_rejection d = Option.bind (eo_completion d) cc_rejection"

text \<open>\<open>mem::take\<close> of the rejection bytes: the payload leaves the header.\<close>

definition take_payload :: "command_completion option \<Rightarrow> bytes" where
  "take_payload c =
     (case Option.bind c cc_rejection of None \<Rightarrow> [] | Some r \<Rightarrow> rj_bytes r)"

definition set_payload :: "bytes \<Rightarrow> command_completion option \<Rightarrow> command_completion option" where
  "set_payload bs c =
     map_option (\<lambda>c. c\<lparr>cc_rejection := map_option (\<lambda>r. r\<lparr>rj_bytes := bs\<rparr>) (cc_rejection c)\<rparr>) c"

definition details_encode ::
  "externals \<Rightarrow> command_completion option \<Rightarrow> outcome_key \<Rightarrow> security_scope option \<Rightarrow>
   actor_ref option \<Rightarrow> event_store_error + bytes" where
  "details_encode E completion key scope actor =
     (let payload = take_payload completion;
          header = \<lparr>dh_version = actor_format actor, dh_authority = key_authority key,
                    dh_context = key_context key, dh_operation = key_operation key,
                    dh_security_scope = scope, dh_actor = actor,
                    dh_completion = set_payload [] completion\<rparr> in
      rbind (map_err (\<lambda>m. outcome_corrupt (External_text m)) (header_to_vec E header)) (\<lambda>header.
      rbind (ok_or (outcome_corrupt (External_text ''out of range integral type conversion attempted''))
               (u32_try_from (length header))) (\<lambda>len.
      Inr (be_bytes 4 (unat len) @ header @ payload))))"

text \<open>\<open>slice::split_at_checked\<close>.\<close>

definition split_at_checked :: "nat \<Rightarrow> 'a list \<Rightarrow> ('a list \<times> 'a list) option" where
  "split_at_checked n xs = (if n \<le> length xs then Some (take n xs, drop n xs) else None)"

definition details_decode ::
  "externals \<Rightarrow> detail_reference \<Rightarrow> bytes \<Rightarrow> event_store_error + encoded_outcome_details" where
  "details_decode E reference bytes =
     (if dr_format reference \<noteq> actor_format (dr_actor reference)
        \<or> length bytes \<noteq> dr_length reference
        \<or> fingerprint_digest (sha256 E) bytes \<noteq> dr_digest reference
      then Inl (outcome_corrupt (Outcome_text DetailFormatDiffers))
      else
        rbind (ok_or (outcome_corrupt (Outcome_text TruncatedDetailHeader))
                 (split_at_checked 4 bytes)) (\<lambda>(len, body).
        rbind (ok_or (outcome_corrupt (Outcome_text TruncatedDetailBody))
                 (split_at_checked (be_value len) body)) (\<lambda>(header, payload).
        rbind (map_err (\<lambda>m. outcome_corrupt (External_text m)) (header_from_slice E header))
          (\<lambda>header.
        if dh_version header \<noteq> dr_format reference
          \<or> dh_actor header \<noteq> dr_actor reference
          \<or> dh_authority header \<noteq> key_authority (dr_key reference)
          \<or> dh_context header \<noteq> key_context (dr_key reference)
          \<or> dh_operation header \<noteq> key_operation (dr_key reference)
          \<or> dh_security_scope header \<noteq> dr_security_scope reference
        then Inl (outcome_corrupt (Outcome_text DetailIdentityDiffers))
        else
          rbind (case Option.bind (dh_completion header) cc_rejection of
                   Some rejection \<Rightarrow>
                     if rj_bytes rejection \<noteq> [] then
                       Inl (outcome_corrupt (Outcome_text InlineRejectionInHeader))
                     else Inr (set_payload payload (dh_completion header))
                 | None \<Rightarrow>
                     if payload \<noteq> [] then
                       Inl (outcome_corrupt (Outcome_text UnexpectedAcceptedPayload))
                     else Inr (dh_completion header)) (\<lambda>completion.
          rbind (case completion of
                   None \<Rightarrow> Inr ()
                 | Some c \<Rightarrow> map_err (\<lambda>e. outcome_corrupt (render_codec e)) (completion_validate c))
            (\<lambda>_.
          let details = \<lparr>eo_reference = reference, eo_completion = completion\<rparr> in
          if (details_rejection details \<noteq> None) \<noteq> (dr_decision reference = OutcomeRejected)
          then Inl (outcome_corrupt (Outcome_text DetailDecisionDiffers))
          else Inr details))))))"

section \<open>Markers\<close>

record outcome_marker =
  om_reference :: detail_reference
  om_revision :: fingerprint
  om_proposal :: proposal_digest
  om_evidence :: "outcome_evidence option"
  om_integrity :: transaction_receipt

definition decision_of :: "command_completion option \<Rightarrow> outcome_decision" where
  "decision_of completion =
     (if Option.bind completion cc_rejection \<noteq> None then OutcomeRejected else OutcomeAccepted)"

definition prepare ::
  "externals \<Rightarrow> command_authority \<Rightarrow> event_transaction \<Rightarrow> transaction_receipt \<Rightarrow>
   event_store_error + outcome_marker \<times> bytes" where
  "prepare E authority proposal receipt =
     rbind (validate_proposal (sha256 E) receipt proposal) (\<lambda>_.
     rbind (ok_or (store_error_new InvalidRequest (Outcome_text OutcomeRequiresContext))
              (tx_bounded_context proposal)) (\<lambda>context.
     let key = OutcomeKey_new authority context (tx_operation_id proposal);
         completion = tx_completion proposal in
     rbind (details_encode E completion key (tx_security_scope proposal) (tx_actor proposal))
       (\<lambda>bytes.
     let reference = \<lparr>dr_key = key, dr_security_scope = tx_security_scope proposal,
                      dr_actor = tx_actor proposal, dr_decision = decision_of completion,
                      dr_format = actor_format (tx_actor proposal), dr_length = length bytes,
                      dr_digest = fingerprint_digest (sha256 E) bytes\<rparr> in
     rbind (proposal_digest_of E proposal) (\<lambda>digest.
     let evidence = map_option (\<lambda>v. v\<lparr>ev_created_at_millis := None\<rparr>)
                      (Option.bind completion cc_evidence);
         integrity = without_completion receipt in
     rbind (marker_revision E reference digest evidence integrity) (\<lambda>revision.
     Inr (\<lparr>om_reference = reference, om_revision = revision, om_proposal = digest,
           om_evidence = evidence, om_integrity = integrity\<rparr>, bytes))))))"

definition encode_manifest :: "externals \<Rightarrow> outcome_marker \<Rightarrow> event_store_error + bytes" where
  "encode_manifest E m =
     rbind (integrity_digest E (om_integrity m)) (\<lambda>digest.
     map_err (\<lambda>t. outcome_corrupt (External_text t))
       (manifest_to_vec E
         \<lparr>mm_version = dr_format (om_reference m),
          mm_authority = key_authority (dr_key (om_reference m)),
          mm_context = key_context (dr_key (om_reference m)),
          mm_operation = key_operation (dr_key (om_reference m)),
          mm_scope = dr_security_scope (om_reference m),
          mm_actor = dr_actor (om_reference m),
          mm_rejected = (dr_decision (om_reference m) = OutcomeRejected),
          mm_format = dr_format (om_reference m),
          mm_length = dr_length (om_reference m),
          mm_digest = fingerprint_to_hex (dr_digest (om_reference m)),
          mm_proposal_version = pd_version (om_proposal m),
          mm_proposal = fingerprint_to_hex (pd_digest (om_proposal m)),
          mm_revision = fingerprint_to_hex (om_revision m),
          mm_integrity = fingerprint_to_hex digest,
          mm_evidence = om_evidence m\<rparr>))"

definition manifest_fingerprint :: "string \<Rightarrow> event_store_error + fingerprint" where
  "manifest_fingerprint value =
     map_err (\<lambda>e. outcome_corrupt (Rendered_identity e)) (fingerprint_from_hex value)"

definition restore_manifest ::
  "externals \<Rightarrow> outcome_key \<Rightarrow> bytes \<Rightarrow> transaction_receipt \<Rightarrow> event_store_error + outcome_marker"
where
  "restore_manifest E expected bytes integrity =
     rbind (map_err (\<lambda>m. outcome_corrupt (External_text m)) (manifest_from_slice E bytes)) (\<lambda>wire.
     rbind (validate_integrity (sha256 E) integrity) (\<lambda>_.
     rbind (integrity_digest E integrity) (\<lambda>digest.
     if mm_integrity wire \<noteq> fingerprint_to_hex digest then
       Inl (outcome_corrupt (Outcome_text ManifestIntegrityDiffers))
     else if mm_version wire \<noteq> actor_format (mm_actor wire)
       \<or> mm_format wire \<noteq> mm_version wire
       \<or> mm_proposal_version wire \<noteq> mm_version wire
       \<or> mm_actor wire \<noteq> tr_actor integrity
       \<or> mm_length wire < 4
       \<or> mm_authority wire \<noteq> key_authority expected
       \<or> mm_context wire \<noteq> key_context expected
       \<or> mm_operation wire \<noteq> key_operation expected
       \<or> tr_bounded_context integrity \<noteq> Some (key_context expected)
       \<or> tr_operation_id integrity \<noteq> key_operation expected
       \<or> tr_security_scope integrity \<noteq> mm_scope wire
       \<or> tr_completion integrity \<noteq> None
       \<or> (mm_rejected wire \<and> list_ex (\<lambda>s. sr_events s \<noteq> []) (tr_streams integrity))
     then Inl (outcome_corrupt (Outcome_text ManifestBindingDiffers))
     else
       rbind (case mm_evidence wire of
                None \<Rightarrow> Inr ()
              | Some evidence \<Rightarrow>
                  rbind (map_err (\<lambda>e. outcome_corrupt (render_codec e))
                           (completion_validate (completion_new (Some evidence) None))) (\<lambda>_.
                  if ev_created_at_millis evidence \<noteq> None then
                    Inl (outcome_corrupt (Outcome_text TimestampInManifest))
                  else Inr ())) (\<lambda>_.
       rbind (manifest_fingerprint (mm_proposal wire)) (\<lambda>pfp.
       rbind (proposal_digest_restore (mm_proposal_version wire) pfp) (\<lambda>proposal.
       rbind (manifest_fingerprint (mm_digest wire)) (\<lambda>dfp.
       let reference = \<lparr>dr_key = expected, dr_security_scope = tr_security_scope integrity,
                        dr_actor = tr_actor integrity,
                        dr_decision = (if mm_rejected wire then OutcomeRejected
                                       else OutcomeAccepted),
                        dr_format = mm_format wire, dr_length = mm_length wire,
                        dr_digest = dfp\<rparr> in
       rbind (marker_revision E reference proposal (mm_evidence wire) integrity) (\<lambda>revision.
       rbind (manifest_fingerprint (mm_revision wire)) (\<lambda>rfp.
       if revision \<noteq> rfp then Inl (outcome_corrupt (Outcome_text ManifestRevisionDiffers))
       else Inr \<lparr>om_reference = reference, om_revision = revision, om_proposal = proposal,
                  om_evidence = mm_evidence wire, om_integrity = integrity\<rparr>)))))))))"

definition validate_key :: "outcome_marker \<Rightarrow> outcome_key \<Rightarrow> event_store_error + unit" where
  "validate_key m expected =
     (if dr_key (om_reference m) \<noteq> expected then
        Inl (outcome_corrupt (Outcome_text OutcomeKeyDiffers))
      else Inr ())"

definition validate_identity ::
  "outcome_marker \<Rightarrow> execution_metadata \<Rightarrow> event_store_error + unit" where
  "validate_identity m metadata =
     (let evidence_matches = (case (om_evidence m, md_outcome_evidence metadata) of
            (Some a, Some b) \<Rightarrow> same_identity a b
          | (None, _) \<Rightarrow> True
          | _ \<Rightarrow> False);
          receipt = om_integrity m in
      if tr_bounded_context receipt \<noteq> md_bounded_context metadata
        \<or> tr_operation_id receipt \<noteq> md_operation_id metadata
        \<or> tr_operation_fingerprint receipt \<noteq> md_operation_fingerprint metadata
        \<or> tr_correlation_id receipt \<noteq> md_correlation_id metadata
        \<or> tr_causation_id receipt \<noteq> md_causation_id metadata
        \<or> dr_actor (om_reference m) \<noteq> md_actor metadata
        \<or> dr_security_scope (om_reference m) \<noteq> md_security_scope metadata
        \<or> \<not> evidence_matches
      then Inl (store_error_new IdentityConflict (Outcome_text CompletedIdentityDiffers))
      else Inr ())"

section \<open>Completed outcomes\<close>

datatype 'a outcome_details =
  Available 'a
| Expired
| Archived string
| DetailsUnavailable detail_unavailable_reason

definition details_available :: "'a outcome_details \<Rightarrow> outcome_recovery_error + 'a" where
  "details_available d =
     (case d of
        Available value \<Rightarrow> Inr value
      | Expired \<Rightarrow> Inl RecoveryExpired
      | Archived reference \<Rightarrow> Inl (RecoveryArchived reference)
      | DetailsUnavailable reason \<Rightarrow> Inl (RecoveryUnavailable reason))"

record 'a completed_outcome =
  co_marker :: outcome_marker
  co_details :: "'a outcome_details"

type_synonym encoded_outcome = "encoded_outcome_details completed_outcome"

text \<open>\<open>downcast\<close> is \<open>Any::downcast_ref\<close>: \<open>Some\<close> at the type of encoded details, \<open>None\<close> elsewhere.\<close>

definition validate_detail_binding ::
  "('a \<Rightarrow> encoded_outcome_details option) \<Rightarrow> outcome_marker \<Rightarrow> 'a outcome_details \<Rightarrow>
   outcome_recovery_error + unit" where
  "validate_detail_binding downcast marker details =
     (case details of
        Available value \<Rightarrow>
          (case downcast value of
             Some encoded \<Rightarrow>
               if eo_reference encoded \<noteq> om_reference marker then Inl RecoveryIntegrityMismatch
               else Inr ()
           | None \<Rightarrow> Inr ())
      | _ \<Rightarrow> Inr ())"

definition completed_outcome_new ::
  "('a \<Rightarrow> encoded_outcome_details option) \<Rightarrow> outcome_marker \<Rightarrow> 'a outcome_details \<Rightarrow>
   outcome_recovery_error + 'a completed_outcome" where
  "completed_outcome_new downcast marker details =
     rbind (validate_detail_binding downcast marker details) (\<lambda>_.
     Inr \<lparr>co_marker = marker, co_details = details\<rparr>)"

definition try_map ::
  "('a \<Rightarrow> encoded_outcome_details option) \<Rightarrow> ('b \<Rightarrow> encoded_outcome_details option) \<Rightarrow>
   (outcome_recovery_error \<Rightarrow> 'e) \<Rightarrow> ('a \<Rightarrow> 'e + 'b) \<Rightarrow> 'a completed_outcome \<Rightarrow>
   'e + 'b completed_outcome" where
  "try_map downcast downcast' from_recovery f outcome =
     rbind (map_err from_recovery
              (validate_detail_binding downcast (co_marker outcome) (co_details outcome))) (\<lambda>_.
     rbind (case co_details outcome of
              Available value \<Rightarrow> map_ok Available (f value)
            | Expired \<Rightarrow> Inr Expired
            | Archived reference \<Rightarrow> Inr (Archived reference)
            | DetailsUnavailable reason \<Rightarrow> Inr (DetailsUnavailable reason)) (\<lambda>details.
     map_err from_recovery (completed_outcome_new downcast' (co_marker outcome) details)))"

definition outcome_validate_for ::
  "(bytes \<Rightarrow> bytes) \<Rightarrow> encoded_outcome \<Rightarrow> outcome_key \<Rightarrow> execution_metadata \<Rightarrow>
   event_store_error + unit" where
  "outcome_validate_for sha outcome key metadata =
     rbind (validate_key (co_marker outcome) key) (\<lambda>_.
     rbind (validate_identity (co_marker outcome) metadata) (\<lambda>_.
     rbind (validate_integrity sha (om_integrity (co_marker outcome))) (\<lambda>_.
     map_err (\<lambda>e. outcome_corrupt (Rendered_recovery e))
       (validate_detail_binding Some (co_marker outcome) (co_details outcome)))))"

definition to_inline :: "encoded_outcome \<Rightarrow> outcome_recovery_error + transaction_receipt" where
  "to_inline outcome =
     rbind (validate_detail_binding Some (co_marker outcome) (co_details outcome)) (\<lambda>_.
     rbind (details_available (co_details outcome)) (\<lambda>details.
     let receipt = om_integrity (co_marker outcome) in
     Inr (case eo_completion details of
            Some completion \<Rightarrow> receipt\<lparr>tr_completion := Some completion\<rparr>
          | None \<Rightarrow> receipt)))"

section \<open>Reading details\<close>

datatype detail_read = Found bytes | AbsentHere | ReadArchived string

type_synonym detail_reader = "detail_reference \<Rightarrow> detail_read_error + detail_read"

definition detail_error_kind :: "detail_read_error \<Rightarrow> event_store_error_kind" where
  "detail_error_kind e =
     (case e of
        ReadForbidden \<Rightarrow> DetailForbidden
      | ReadConfigurationMismatch \<Rightarrow> ConfigurationMismatch
      | ReadCorrupt \<Rightarrow> CorruptHistory
      | ReadUnavailable \<Rightarrow> Unavailable)"

fun resolve_readers ::
  "externals \<Rightarrow> detail_reference \<Rightarrow> bool \<Rightarrow> string option \<Rightarrow> detail_reader list \<Rightarrow>
   event_store_error + encoded_outcome_details outcome_details" where
  "resolve_readers E reference unavailable archive [] =
     Inr (if unavailable then DetailsUnavailable BackendUnavailable
          else case archive of
                 Some a \<Rightarrow> Archived a
               | None \<Rightarrow> DetailsUnavailable MissingDetails)"
| "resolve_readers E reference unavailable archive (reader # readers) =
     (case reader reference of
        Inr (Found bytes) \<Rightarrow> map_ok Available (details_decode E reference bytes)
      | Inr AbsentHere \<Rightarrow> resolve_readers E reference unavailable archive readers
      | Inr (ReadArchived a) \<Rightarrow> resolve_readers E reference unavailable (Some a) readers
      | Inl ReadUnavailable \<Rightarrow> resolve_readers E reference True archive readers
      | Inl e \<Rightarrow> Inl (store_error_new (detail_error_kind e) (Rendered_read e)))"

definition resolve_details ::
  "externals \<Rightarrow> detail_reference \<Rightarrow> detail_reader \<Rightarrow> detail_reader option \<Rightarrow>
   event_store_error + encoded_outcome_details outcome_details" where
  "resolve_details E reference hot cold =
     resolve_readers E reference False None
       (hot # (case cold of None \<Rightarrow> [] | Some c \<Rightarrow> [c]))"

section \<open>Facts\<close>

lemma set_take_payload:
  "set_payload (take_payload c) (set_payload [] c) = c"
  by (cases c) (auto simp: set_payload_def take_payload_def option.map_comp comp_def
      split: option.splits bind_splits)

lemma set_payload_rejection:
  "Option.bind (set_payload bs c) cc_rejection =
     map_option (\<lambda>r. r\<lparr>rj_bytes := bs\<rparr>) (Option.bind c cc_rejection)"
  by (cases c) (auto simp: set_payload_def)

lemma take_payload_accepted: "Option.bind c cc_rejection = None \<Longrightarrow> take_payload c = []"
  by (simp add: take_payload_def)

lemma set_payload_accepted: "Option.bind c cc_rejection = None \<Longrightarrow> set_payload bs c = c"
  by (cases c) (auto simp: set_payload_def)

definition detail_header_for ::
  "command_completion option \<Rightarrow> outcome_key \<Rightarrow> security_scope option \<Rightarrow> actor_ref option \<Rightarrow>
   detail_header" where
  "detail_header_for completion key scope actor =
     \<lparr>dh_version = actor_format actor, dh_authority = key_authority key,
      dh_context = key_context key, dh_operation = key_operation key,
      dh_security_scope = scope, dh_actor = actor, dh_completion = set_payload [] completion\<rparr>"

lemma details_encode_ok_iff:
  "details_encode E completion key scope actor = Inr bytes \<longleftrightarrow>
     (\<exists>header. header_to_vec E (detail_header_for completion key scope actor) = Inr header
        \<and> length header < 2 ^ 32
        \<and> bytes = be_bytes 4 (length header) @ header @ take_payload completion)"
  by (auto simp: details_encode_def detail_header_for_def Let_def result_simps checked_simps
      unat_of_nat_small)

lemma details_decode_encode:
  assumes enc: "details_encode E completion (dr_key r) (dr_security_scope r) (dr_actor r) = Inr bytes"
    and serde: "\<And>bs. header_to_vec E (detail_header_for completion (dr_key r)
        (dr_security_scope r) (dr_actor r)) = Inr bs \<Longrightarrow>
      header_from_slice E bs = Inr (detail_header_for completion (dr_key r)
        (dr_security_scope r) (dr_actor r))"
    and r: "dr_format r = actor_format (dr_actor r)" "dr_length r = length bytes"
      "dr_digest r = fingerprint_digest (sha256 E) bytes" "dr_decision r = decision_of completion"
    and valid: "\<forall>c. completion = Some c \<longrightarrow> completion_validate c = Inr ()"
  shows "details_decode E r bytes = Inr \<lparr>eo_reference = r, eo_completion = completion\<rparr>"
proof -
  obtain header where h: "header_to_vec E (detail_header_for completion (dr_key r)
      (dr_security_scope r) (dr_actor r)) = Inr header" "length header < 2 ^ 32"
    "bytes = be_bytes 4 (length header) @ header @ take_payload completion"
    using enc by (auto simp: details_encode_ok_iff)
  have split: "split_at_checked 4 bytes = Some (be_bytes 4 (length header), header @ take_payload completion)"
    "split_at_checked (be_value (be_bytes 4 (length header))) (header @ take_payload completion)
      = Some (header, take_payload completion)"
    using h be_value_be_bytes_small [of "length header" 4] by (simp_all add: split_at_checked_def)
  show ?thesis
  proof (cases "Option.bind completion cc_rejection")
    case None
    then have "take_payload completion = []" "set_payload [] completion = completion"
      by (simp_all add: take_payload_accepted set_payload_accepted)
    then show ?thesis
      using None split serde [OF h(1)] r valid h(3)
      by (simp add: details_decode_def detail_header_for_def details_rejection_def decision_of_def
          split: option.split)
  next
    case (Some rj)
    then have dec: "decision_of completion = OutcomeRejected"
      by (simp add: decision_of_def)
    show ?thesis
      using Some dec split serde [OF h(1)] r valid h(3) set_take_payload [of completion]
        set_payload_rejection [of "[]" completion]
      by (auto simp add: details_decode_def detail_header_for_def details_rejection_def
          split: option.split)
  qed
qed

lemma prepare_ok:
  assumes "prepare E authority t receipt = Inr (m, bytes)"
  obtains c digest where
    "tx_bounded_context t = Some c"
    "validate_proposal (sha256 E) receipt t = Inr ()"
    "proposal_digest_of E t = Inr digest"
    "details_encode E (tx_completion t) (OutcomeKey_new authority c (tx_operation_id t))
       (tx_security_scope t) (tx_actor t) = Inr bytes"
    "om_reference m = \<lparr>dr_key = OutcomeKey_new authority c (tx_operation_id t),
       dr_security_scope = tx_security_scope t, dr_actor = tx_actor t,
       dr_decision = decision_of (tx_completion t), dr_format = actor_format (tx_actor t),
       dr_length = length bytes, dr_digest = fingerprint_digest (sha256 E) bytes\<rparr>"
    "om_proposal m = digest"
    "om_evidence m = map_option (\<lambda>v. v\<lparr>ev_created_at_millis := None\<rparr>)
       (Option.bind (tx_completion t) cc_evidence)"
    "om_integrity m = without_completion receipt"
    "marker_revision E (om_reference m) digest (om_evidence m) (om_integrity m) = Inr (om_revision m)"
  using assms by (auto simp: prepare_def Let_def result_simps)

lemma validate_proposal_ok:
  assumes "validate_proposal sha r t = Inr ()"
  shows "validate_integrity sha r = Inr ()"
    and "tr_bounded_context r = tx_bounded_context t" "tr_operation_id r = tx_operation_id t"
    "tr_operation_fingerprint r = tx_operation_fingerprint t"
    "tr_correlation_id r = tx_correlation_id t" "tr_causation_id r = tx_causation_id t"
    "tr_actor r = tx_actor t" "tr_security_scope r = tx_security_scope t"
    and "tx_completion t = Some c \<Longrightarrow> validate_completed_transaction t = Inr ()"
  using assms by (auto simp: validate_proposal_def result_simps split: if_splits)

lemma validate_integrity_without_completion:
  "validate_integrity sha r = Inr () \<Longrightarrow> validate_integrity sha (without_completion r) = Inr ()"
proof -
  have "receipt_event_matches sha (without_completion r) = receipt_event_matches sha r"
    by (simp add: fun_eq_iff receipt_event_matches_def without_completion_def)
  then have ev: "validate_receipt_events sha (without_completion r) st c n v i es =
      validate_receipt_events sha r st c n v i es" for st c n v i es
    by (induction es arbitrary: v i) (simp_all add: rbind_def split: sum.split)
  have "validate_receipt_streams sha (without_completion r) seen ss =
      validate_receipt_streams sha r seen ss" for seen ss
    by (induction ss arbitrary: seen) (simp_all add: ev Let_def, simp_all add: without_completion_def)
  moreover assume "validate_integrity sha r = Inr ()"
  ultimately show ?thesis
    by (auto simp: validate_integrity_def result_simps without_completion_def)
qed

end
