(* ===== verification/Memory.thy ===== *)
theory Memory
  imports Outcome
begin

text \<open>
  The in-memory coordinator: \<open>rostfrei-core/src/memory.rs\<close> with the result types of
  \<open>execution_store.rs\<close>. The mutex makes every body between \<open>lock\<close> and release one atomic step,
  so an operation that writes is a function from the state to its result and the new state. An
  operation that takes the lock several times gets the argument \<open>seen\<close>: \<open>seen i\<close> is the state it
  observes under its \<open>i\<close>-th read lock, so a concurrent writer between two locks is a different
  \<open>seen i\<close>, and \<open>\<lambda>_. s\<close> is a call that nobody interrupts. A hash map is an \<open>fmap\<close>, a hash set a
  set.
\<close>

section \<open>Results of the execution store\<close>

datatype 'a outcome_lookup = Missing | Completed "'a completed_outcome"

datatype completed_commit =
  CommitAppended encoded_outcome
| CommitExactReplay encoded_outcome

fun commit_result :: "completed_commit \<Rightarrow> encoded_outcome" where
  "commit_result (CommitAppended v) = v"
| "commit_result (CommitExactReplay v) = v"

fun is_exact_replay :: "completed_commit \<Rightarrow> bool" where
  "is_exact_replay (CommitAppended v) = False"
| "is_exact_replay (CommitExactReplay v) = True"

datatype reclamation_status = Pending | Reclaimed

record outcome_expiry =
  oe_revision :: fingerprint
  oe_reclamation :: reclamation_status

datatype outcome_lifecycle_error =
  LifecycleMissingOutcome | RevisionMismatch | UnsupportedExpiry | LifecycleStore event_store_error

section \<open>State\<close>

datatype append_provenance = Direct | Transaction

record stored_append =
  sa_batch :: event_batch
  sa_events :: "recorded_event list"
  sa_provenance :: append_provenance

datatype stored_transaction =
  Scoped outcome_marker
| Unscoped proposal_digest transaction_receipt

datatype detail_state = Active bytes | DetailExpired

record memory_state =
  st_streams :: "(stream_id, recorded_event list) fmap"
  st_operations :: "(stream_id \<times> operation_id, stored_append) fmap"
  st_commits :: "(stream_id \<times> commit_id, operation_id) fmap"
  st_event_ids :: "(stream_id \<times> event_id) set"
  st_transactions :: "(bounded_context_name option \<times> operation_id, stored_transaction) fmap"
  st_details :: "(detail_reference, detail_state) fmap"
  st_event_count :: nat

definition state_default :: memory_state where
  "state_default =
     \<lparr>st_streams = fmempty, st_operations = fmempty, st_commits = fmempty, st_event_ids = {},
      st_transactions = fmempty, st_details = fmempty, st_event_count = 0\<rparr>"

text \<open>A detail reader is the coordinator's own, or one the application substitutes.\<close>

datatype memory_reader = MemoryDetails | CustomReader detail_reader

record memory_store =
  ms_authority :: command_authority
  ms_hot :: memory_reader
  ms_cold :: "memory_reader option"
  ms_maximum_events :: nat
  ms_maximum_outcomes :: nat

text \<open>A new handle, given the authority of its incarnation.\<close>

definition memory_new :: "command_authority \<Rightarrow> memory_store" where
  "memory_new authority =
     \<lparr>ms_authority = authority, ms_hot = MemoryDetails, ms_cold = None,
      ms_maximum_events = usize_bound - 1, ms_maximum_outcomes = usize_bound - 1\<rparr>"

definition with_capacity :: "command_authority \<Rightarrow> nat \<Rightarrow> memory_store" where
  "with_capacity authority maximum_events =
     (memory_new authority)\<lparr>ms_maximum_events := maximum_events\<rparr>"

definition with_detail_readers ::
  "memory_store \<Rightarrow> memory_reader \<Rightarrow> memory_reader option \<Rightarrow> memory_store" where
  "with_detail_readers store hot cold = store\<lparr>ms_hot := hot, ms_cold := cold\<rparr>"

definition with_outcome_capacity :: "memory_store \<Rightarrow> nat \<Rightarrow> memory_store" where
  "with_outcome_capacity store maximum_outcomes =
     store\<lparr>ms_maximum_outcomes := maximum_outcomes\<rparr>"

definition identity_conflict :: "store_text \<Rightarrow> event_store_error" where
  "identity_conflict t = store_error_new IdentityConflict (Store_text t)"

definition invalid :: "store_text \<Rightarrow> event_store_error" where
  "invalid t = store_error_new InvalidRequest (Store_text t)"

fun stored_proposal :: "stored_transaction \<Rightarrow> proposal_digest" where
  "stored_proposal (Scoped marker) = om_proposal marker"
| "stored_proposal (Unscoped proposal receipt) = proposal"

fun acceptance :: "stored_transaction \<Rightarrow> event_store_error + transaction_receipt" where
  "acceptance (Scoped marker) =
     (if dr_decision (om_reference marker) = OutcomeRejected
      then Inl (identity_conflict RejectionNotAcceptance)
      else Inr (om_integrity marker))"
| "acceptance (Unscoped proposal receipt) = Inr receipt"

section \<open>Reading streams\<close>

definition load :: "memory_state \<Rightarrow> stream_id \<Rightarrow> recorded_event list" where
  "load s stream = (case fmlookup (st_streams s) stream of None \<Rightarrow> [] | Some events \<Rightarrow> events)"

definition current_version :: "memory_state \<Rightarrow> stream_id \<Rightarrow> stream_version" where
  "current_version s stream =
     (case fmlookup (st_streams s) stream of
        None \<Rightarrow> 0
      | Some events \<Rightarrow> if events = [] then 0 else re_stream_version (last events))"

text \<open>\<open>order\<close> is the iteration order of the hash map, which the language leaves open.\<close>

definition list_streams ::
  "stream_id list \<Rightarrow> memory_state \<Rightarrow> aggregate_type \<Rightarrow> stream_summary list" where
  "list_streams order s aggregate_type =
     sort_key (\<lambda>summary. stream_aggregate_id (ss_stream_id summary))
       (List.map_filter (\<lambda>stream_id.
           case fmlookup (st_streams s) stream_id of
             None \<Rightarrow> None
           | Some events \<Rightarrow>
               if events = [] then None
               else Some \<lparr>ss_stream_id = stream_id,
                          ss_stream_version = re_stream_version (last events)\<rparr>)
         (filter (\<lambda>stream_id. stream_aggregate_type stream_id = aggregate_type) order))"

section \<open>Checks and recording\<close>

definition validate_expected_version ::
  "expected_version \<Rightarrow> stream_version \<Rightarrow> event_store_error + unit" where
  "validate_expected_version expected current =
     (case expected of
        NoStream \<Rightarrow>
          if current = 0 then Inr ()
          else Inl (store_error_new Conflict (Version_differs current))
      | Exact version \<Rightarrow>
          if version = 0 then Inl (invalid ExactNeedsNonzero)
          else if version = current then Inr ()
          else Inl (store_error_new Conflict (Version_differs current)))"

fun validate_event_identities ::
  "(bytes \<Rightarrow> bytes) \<Rightarrow> commit_id \<Rightarrow> nat \<Rightarrow> new_event list \<Rightarrow> event_store_error + unit" where
  "validate_event_identities sha commit ordinal [] = Inr ()"
| "validate_event_identities sha commit ordinal (event # events) =
     rbind (ok_or (invalid EventOrdinalRange) (u32_try_from ordinal)) (\<lambda>o32.
     if ne_event_id event \<noteq> derive_event_id sha commit o32 then Inl (invalid EventNotDerived)
     else validate_event_identities sha commit (Suc ordinal) events)"

definition validate_derived_identities ::
  "(bytes \<Rightarrow> bytes) \<Rightarrow> stream_id \<Rightarrow> event_batch \<Rightarrow> event_store_error + unit" where
  "validate_derived_identities sha stream batch =
     (if eb_commit_id batch \<noteq> derive_commit_id sha stream (eb_operation_id batch)
      then Inl (invalid CommitNotDerived)
      else validate_event_identities sha (eb_commit_id batch) 0 (eb_events batch))"

fun record_events ::
  "stream_id \<Rightarrow> event_batch \<Rightarrow> u32 \<Rightarrow> stream_version \<Rightarrow> nat \<Rightarrow> new_event list \<Rightarrow>
   event_store_error + recorded_event list" where
  "record_events stream batch event_count next_version ordinal [] = Inr []"
| "record_events stream batch event_count next_version ordinal (event # events) =
     rbind (ok_or (store_error_new CapacityExhausted (Store_text VersionSpaceExhausted))
              (version_next next_version)) (\<lambda>next_version.
     rbind (ok_or (invalid EventOrdinalRange) (u32_try_from ordinal)) (\<lambda>o32.
     rbind (record_events stream batch event_count next_version (Suc ordinal) events)
       (\<lambda>recorded.
     Inr (RecordedEvent_from_new stream next_version batch o32 event_count event # recorded))))"

definition record_batch ::
  "stream_id \<Rightarrow> stream_version \<Rightarrow> event_batch \<Rightarrow> event_store_error + recorded_event list" where
  "record_batch stream current batch =
     rbind (ok_or (invalid EventCountRange) (u32_try_from (length (eb_events batch)))) (\<lambda>count.
     record_events stream batch count current 0 (eb_events batch))"

definition event_capacity :: "memory_store \<Rightarrow> memory_state \<Rightarrow> nat \<Rightarrow> event_store_error + nat" where
  "event_capacity store s added =
     ok_or (store_error_new CapacityExhausted (Store_text EventCapacityExceeded))
       (case checked_add_usize (st_event_count s) added of
          None \<Rightarrow> None
        | Some count \<Rightarrow> if count \<le> ms_maximum_events store then Some count else None)"

definition event_ids_of :: "stream_id \<Rightarrow> event_batch \<Rightarrow> (stream_id \<times> event_id) set" where
  "event_ids_of stream batch = (\<lambda>event. (stream, ne_event_id event)) ` set (eb_events batch)"

text \<open>The insertions both append paths make for one recorded batch.\<close>

definition install_batch ::
  "stream_id \<Rightarrow> event_batch \<Rightarrow> recorded_event list \<Rightarrow> append_provenance \<Rightarrow> memory_state \<Rightarrow>
   memory_state" where
  "install_batch stream batch recorded provenance s =
     s\<lparr>st_commits := fmupd (stream, eb_commit_id batch) (eb_operation_id batch) (st_commits s),
       st_event_ids := st_event_ids s \<union> event_ids_of stream batch,
       st_operations := fmupd (stream, eb_operation_id batch)
         \<lparr>sa_batch = batch, sa_events = recorded, sa_provenance = provenance\<rparr> (st_operations s),
       st_streams := fmupd stream (load s stream @ recorded) (st_streams s)\<rparr>"

section \<open>Appending one batch\<close>

definition append_batch ::
  "(bytes \<Rightarrow> bytes) \<Rightarrow> memory_store \<Rightarrow> memory_state \<Rightarrow> stream_id \<Rightarrow> expected_version \<Rightarrow>
   event_batch \<Rightarrow> (event_store_error + append_outcome) \<times> memory_state" where
  "append_batch sha store s stream expected batch =
     (case fmlookup (st_operations s) (stream, eb_operation_id batch) of
        Some previous \<Rightarrow>
          (if sa_provenance previous = Direct \<and> sa_batch previous = batch
           then Inr (ExactReplay (sa_events previous))
           else if sa_provenance previous = Transaction
           then Inl (identity_conflict OperationUsedByTransaction)
           else Inl (identity_conflict OperationReused), s)
      | None \<Rightarrow>
          if fmlookup (st_commits s) (stream, eb_commit_id batch) \<noteq> None
          then (Inl (identity_conflict CommitReused), s)
          else if list_ex (\<lambda>event. (stream, ne_event_id event) \<in> st_event_ids s) (eb_events batch)
          then (Inl (identity_conflict EventReused), s)
          else
            (case
               rbind (validate_derived_identities sha stream batch) (\<lambda>_.
               rbind (validate_expected_version expected (current_version s stream)) (\<lambda>_.
               rbind (event_capacity store s (length (eb_events batch))) (\<lambda>new_count.
               rbind (record_batch stream (current_version s stream) batch) (\<lambda>recorded.
               Inr (new_count, recorded)))))
             of
               Inl e \<Rightarrow> (Inl e, s)
             | Inr (new_count, recorded) \<Rightarrow>
                 (Inr (Appended recorded),
                  (install_batch stream batch recorded Direct s)\<lparr>st_event_count := new_count\<rparr>)))"

section \<open>Appending a transaction\<close>

definition validate_participant ::
  "(bytes \<Rightarrow> bytes) \<Rightarrow> memory_state \<Rightarrow> event_transaction \<Rightarrow> stream_id \<Rightarrow> event_batch \<Rightarrow>
   event_store_error + unit" where
  "validate_participant sha s t stream batch =
     (if eb_operation_id batch \<noteq> tx_operation_id t
        \<or> eb_operation_fingerprint batch \<noteq> tx_operation_fingerprint t
        \<or> eb_correlation_id batch \<noteq> tx_correlation_id t
        \<or> eb_causation_id batch \<noteq> tx_causation_id t
        \<or> eb_actor batch \<noteq> tx_actor t
      then Inl (invalid ParticipantMetadataDiffers)
      else
        rbind (validate_derived_identities sha stream batch) (\<lambda>_.
        case fmlookup (st_operations s) (stream, eb_operation_id batch) of
          Some previous \<Rightarrow>
            Inl (identity_conflict (case sa_provenance previous of
                   Direct \<Rightarrow> OperationUsedOutside
                 | Transaction \<Rightarrow> OperationUsedByOther))
        | None \<Rightarrow>
            if fmlookup (st_commits s) (stream, eb_commit_id batch) \<noteq> None
            then Inl (identity_conflict CommitReused)
            else if list_ex (\<lambda>event. (stream, ne_event_id event) \<in> st_event_ids s)
                      (eb_events batch)
            then Inl (identity_conflict EventReused)
            else Inr ()))"

fun validate_participants ::
  "(bytes \<Rightarrow> bytes) \<Rightarrow> memory_state \<Rightarrow> event_transaction \<Rightarrow> stream_id set \<Rightarrow>
   transaction_participant list \<Rightarrow> event_store_error + unit" where
  "validate_participants sha s t streams [] = Inr ()"
| "validate_participants sha s t streams (p # ps) =
     (if tp_stream_id p \<in> streams then Inl (invalid DuplicateStreams)
      else
        rbind (case tp_batch p of
                 None \<Rightarrow> Inr ()
               | Some batch \<Rightarrow> validate_participant sha s t (tp_stream_id p) batch) (\<lambda>_.
        validate_participants sha s t (insert (tp_stream_id p) streams) ps))"

definition validate_transaction ::
  "(bytes \<Rightarrow> bytes) \<Rightarrow> memory_state \<Rightarrow> event_transaction \<Rightarrow> event_store_error + unit" where
  "validate_transaction sha s t =
     rbind (validate_participants sha s t {} (tx_participants t)) (\<lambda>_.
     for_each (\<lambda>p. validate_expected_version (tp_expected_version p)
                     (current_version s (tp_stream_id p)))
       (tx_participants t))"

type_synonym staged = "transaction_participant \<times> stream_version \<times> recorded_event list"

definition stage :: "memory_state \<Rightarrow> transaction_participant \<Rightarrow> event_store_error + staged" where
  "stage s p =
     (let base_version = current_version s (tp_stream_id p) in
      rbind (case tp_batch p of
               None \<Rightarrow> Inr []
             | Some batch \<Rightarrow> record_batch (tp_stream_id p) base_version batch) (\<lambda>recorded.
      Inr (p, base_version, recorded)))"

definition staged_receipt :: "event_transaction \<Rightarrow> staged list \<Rightarrow> transaction_receipt" where
  "staged_receipt t staged =
     (let receipt = TransactionReceipt_new (tx_operation_id t) (tx_operation_fingerprint t)
            (map (\<lambda>(p, base_version, events).
               \<lparr>sr_stream_id = tp_stream_id p, sr_base_version = base_version,
                sr_events = events\<rparr>) staged);
          receipt = (case tx_bounded_context t of
            None \<Rightarrow> receipt | Some c \<Rightarrow> receipt\<lparr>tr_bounded_context := Some c\<rparr>);
          receipt = (case tx_correlation_id t of
            None \<Rightarrow> receipt | Some c \<Rightarrow> receipt\<lparr>tr_correlation_id := Some c\<rparr>);
          receipt = (case tx_causation_id t of
            None \<Rightarrow> receipt | Some c \<Rightarrow> receipt\<lparr>tr_causation_id := Some c\<rparr>);
          receipt = (case tx_security_scope t of
            None \<Rightarrow> receipt | Some c \<Rightarrow> receipt\<lparr>tr_security_scope := Some c\<rparr>)
      in case tx_actor t of None \<Rightarrow> receipt | Some a \<Rightarrow> receipt\<lparr>tr_actor := Some a\<rparr>)"

definition prepare_stored ::
  "externals \<Rightarrow> memory_store \<Rightarrow> event_transaction \<Rightarrow> proposal_digest \<Rightarrow> transaction_receipt \<Rightarrow>
   event_store_error + stored_transaction \<times> (detail_reference \<times> detail_state) option" where
  "prepare_stored E store t proposal receipt =
     (if tx_bounded_context t \<noteq> None then
        rbind (prepare E (ms_authority store) t receipt) (\<lambda>(marker, bytes).
        Inr (Scoped marker, Some (om_reference marker, Active bytes)))
      else Inr (Unscoped proposal receipt, None))"

definition install_staged :: "memory_state \<Rightarrow> staged \<Rightarrow> memory_state" where
  "install_staged s staged =
     (case staged of (p, base_version, events) \<Rightarrow>
        (case tp_batch p of
           None \<Rightarrow> s
         | Some batch \<Rightarrow> install_batch (tp_stream_id p) batch events Transaction s))"

definition transaction_key ::
  "event_transaction \<Rightarrow> bounded_context_name option \<times> operation_id" where
  "transaction_key t = (tx_bounded_context t, tx_operation_id t)"

text \<open>Everything that can fail, before any journal state changes.\<close>

definition plan_transaction ::
  "externals \<Rightarrow> memory_store \<Rightarrow> memory_state \<Rightarrow> event_transaction \<Rightarrow> nat \<Rightarrow> proposal_digest \<Rightarrow>
   event_store_error +
     nat \<times> staged list \<times> stored_transaction \<times> (detail_reference \<times> detail_state) option" where
  "plan_transaction E store s t total_events proposal =
     (if ms_maximum_outcomes store \<le> fcard (fmdom (st_transactions s))
      then Inl (store_error_new CapacityExhausted (Store_text OutcomeCapacityExhausted))
      else
        rbind (validate_transaction (sha256 E) s t) (\<lambda>_.
        rbind (event_capacity store s total_events) (\<lambda>new_count.
        rbind (collect_results (stage s) (tx_participants t)) (\<lambda>staged.
        rbind (prepare_stored E store t proposal (staged_receipt t staged)) (\<lambda>(stored, detail).
        Inr (new_count, staged, stored, detail))))))"

definition commit_plan ::
  "memory_state \<Rightarrow> event_transaction \<Rightarrow> nat \<Rightarrow> staged list \<Rightarrow> stored_transaction \<Rightarrow>
   (detail_reference \<times> detail_state) option \<Rightarrow> memory_state" where
  "commit_plan s t new_count staged stored detail =
     (let s = foldl install_staged s staged;
          s = s\<lparr>st_event_count := new_count\<rparr>;
          s = s\<lparr>st_transactions := fmupd (transaction_key t) stored (st_transactions s)\<rparr>
      in case detail of
           None \<Rightarrow> s
         | Some (reference, d) \<Rightarrow> s\<lparr>st_details := fmupd reference d (st_details s)\<rparr>)"

definition append_transaction_inner ::
  "externals \<Rightarrow> memory_store \<Rightarrow> memory_state \<Rightarrow> event_transaction \<Rightarrow>
   (event_store_error + stored_transaction \<times> bool) \<times> memory_state" where
  "append_transaction_inner E store s t =
     (case rbind (validate_transaction_item_limit t) (\<lambda>total_events.
           rbind (proposal_digest_of E t) (\<lambda>proposal. Inr (total_events, proposal))) of
        Inl e \<Rightarrow> (Inl e, s)
      | Inr (total_events, proposal) \<Rightarrow>
          (case fmlookup (st_transactions s) (transaction_key t) of
             Some previous \<Rightarrow>
               (if stored_proposal previous = proposal then Inr (previous, True)
                else Inl (identity_conflict TransactionReused), s)
           | None \<Rightarrow>
               (case plan_transaction E store s t total_events proposal of
                  Inl e \<Rightarrow> (Inl e, s)
                | Inr (new_count, staged, stored, detail) \<Rightarrow>
                    (Inr (stored, False), commit_plan s t new_count staged stored detail))))"

definition append_transaction ::
  "externals \<Rightarrow> memory_store \<Rightarrow> memory_state \<Rightarrow> event_transaction \<Rightarrow>
   (event_store_error + transaction_append_outcome) \<times> memory_state" where
  "append_transaction E store s t =
     (if tx_completion t \<noteq> None then (Inl (invalid UseCommitOutcome), s)
      else
        (case append_transaction_inner E store s t of
           (Inl e, s') \<Rightarrow> (Inl e, s')
         | (Inr (stored, replay), s') \<Rightarrow>
             (rbind (acceptance stored) (\<lambda>receipt.
                Inr (if replay then TransactionExactReplay receipt
                     else TransactionAppended receipt)), s')))"

definition load_transaction_receipt ::
  "memory_state \<Rightarrow> operation_id \<Rightarrow> event_store_error + transaction_receipt option" where
  "load_transaction_receipt s op =
     (case fmlookup (st_transactions s) (None, op) of
        None \<Rightarrow> Inr None
      | Some stored \<Rightarrow> map_ok Some (acceptance stored))"

definition load_transaction_receipt_in_context ::
  "memory_state \<Rightarrow> bounded_context_name \<Rightarrow> operation_id \<Rightarrow>
   event_store_error + transaction_receipt option" where
  "load_transaction_receipt_in_context s context op =
     (case fmlookup (st_transactions s) (Some context, op) of
        None \<Rightarrow> Inr None
      | Some stored \<Rightarrow> map_ok Some (acceptance stored))"

section \<open>Outcomes\<close>

definition memory_details_get ::
  "memory_state \<Rightarrow> detail_reference \<Rightarrow> detail_read_error + detail_read" where
  "memory_details_get s reference =
     Inr (case fmlookup (st_details s) reference of
            Some (Active bytes) \<Rightarrow> Found bytes
          | Some DetailExpired \<Rightarrow> AbsentHere
          | None \<Rightarrow> AbsentHere)"

definition run_reader :: "memory_state \<Rightarrow> memory_reader \<Rightarrow> detail_reader" where
  "run_reader s reader =
     (case reader of MemoryDetails \<Rightarrow> memory_details_get s | CustomReader r \<Rightarrow> r)"

definition validate_authority :: "memory_store \<Rightarrow> outcome_key \<Rightarrow> event_store_error + unit" where
  "validate_authority store key =
     (if key_authority key \<noteq> ms_authority store then
        Inl (store_error_new ConfigurationMismatch (Store_text OtherAuthority))
      else Inr ())"

definition recovery_error :: "outcome_recovery_error \<Rightarrow> event_store_error" where
  "recovery_error e =
     in_outcome_recovery
       (store_error_new
         (case e of
            RecoveryIntegrityMismatch \<Rightarrow> CorruptHistory
          | RecoveryExpired \<Rightarrow> CompletedDetailsExpired
          | RecoveryArchived _ \<Rightarrow> CompletedDetailsUnavailable
          | RecoveryUnavailable _ \<Rightarrow> CompletedDetailsUnavailable)
         (Rendered_recovery e))"

text \<open>\<open>seen 0\<close> admits the read, \<open>seen 1\<close> and \<open>seen 2\<close> are what the hot and cold readers find.\<close>

definition resolve_marker ::
  "externals \<Rightarrow> memory_store \<Rightarrow> (nat \<Rightarrow> memory_state) \<Rightarrow> outcome_marker \<Rightarrow>
   event_store_error + encoded_outcome" where
  "resolve_marker E store seen marker =
     rbind (case fmlookup (st_details (seen 0)) (om_reference marker) of
              Some DetailExpired \<Rightarrow> Inr Expired
            | Some (Active _) \<Rightarrow>
                resolve_details E (om_reference marker)
                  (run_reader (seen 1) (ms_hot store))
                  (map_option (run_reader (seen 2)) (ms_cold store))
            | None \<Rightarrow> Inl (store_error_new CorruptHistory (Store_text LifecycleMissing)))
       (\<lambda>details. map_err recovery_error (completed_outcome_new Some marker details))"

definition lookup_outcome ::
  "externals \<Rightarrow> memory_store \<Rightarrow> (nat \<Rightarrow> memory_state) \<Rightarrow> outcome_key \<Rightarrow>
   event_store_error + encoded_outcome_details outcome_lookup" where
  "lookup_outcome E store seen key =
     rbind (validate_authority store key) (\<lambda>_.
     case fmlookup (st_transactions (seen 0)) (Some (key_context key), key_operation key) of
       None \<Rightarrow> Inr Missing
     | Some (Scoped marker) \<Rightarrow>
         map_ok Completed
           (map_err in_outcome_recovery (resolve_marker E store (\<lambda>i. seen (Suc i)) marker))
     | Some (Unscoped _ _) \<Rightarrow>
         Inl (store_error_new CorruptHistory (Store_text ScopedWithoutMarker)))"

text \<open>\<open>MemoryCommandSession::commit_outcome\<close>; \<open>seen\<close> is what it observes after its write.\<close>

definition session_commit_outcome ::
  "externals \<Rightarrow> memory_store \<Rightarrow> memory_state \<Rightarrow> (memory_state \<Rightarrow> nat \<Rightarrow> memory_state) \<Rightarrow>
   event_transaction \<Rightarrow> (event_store_error + completed_commit) \<times> memory_state" where
  "session_commit_outcome E store s seen proposal =
     (case validate_completed_transaction proposal of
        Inl e \<Rightarrow> (Inl e, s)
      | Inr _ \<Rightarrow>
          (case append_transaction_inner E store s proposal of
             (Inl e, s') \<Rightarrow> (Inl e, s')
           | (Inr (Unscoped _ _, replay), s') \<Rightarrow> (Inl (invalid RequiresScopedMarker), s')
           | (Inr (Scoped marker, replay), s') \<Rightarrow>
               (rbind (map_err in_outcome_recovery (resolve_marker E store (seen s') marker))
                  (\<lambda>outcome. Inr (if replay then CommitExactReplay outcome
                                  else CommitAppended outcome)), s')))"

definition load_completed_outcome_in_context ::
  "externals \<Rightarrow> memory_store \<Rightarrow> (nat \<Rightarrow> memory_state) \<Rightarrow> bounded_context_name \<Rightarrow> operation_id \<Rightarrow>
   event_store_error + transaction_receipt option" where
  "load_completed_outcome_in_context E store seen context op =
     rbind (lookup_outcome E store seen (OutcomeKey_new (ms_authority store) context op))
       (\<lambda>found. case found of
          Missing \<Rightarrow> Inr None
        | Completed outcome \<Rightarrow> map_ok Some (map_err recovery_error (to_inline outcome)))"

definition commit_outcome ::
  "externals \<Rightarrow> memory_store \<Rightarrow> memory_state \<Rightarrow> (memory_state \<Rightarrow> nat \<Rightarrow> memory_state) \<Rightarrow>
   event_transaction \<Rightarrow> (event_store_error + completed_append_outcome) \<times> memory_state" where
  "commit_outcome E store s seen t =
     (case session_commit_outcome E store s seen t of
        (Inl e, s') \<Rightarrow> (Inl e, s')
      | (Inr committed, s') \<Rightarrow>
          (rbind (map_err recovery_error (to_inline (commit_result committed))) (\<lambda>inline.
             Inr (if is_exact_replay committed then CompletedExactReplay inline
                  else CompletedAppended inline)), s'))"

definition expire_details ::
  "memory_store \<Rightarrow> memory_state \<Rightarrow> outcome_key \<Rightarrow> fingerprint \<Rightarrow>
   (outcome_lifecycle_error + outcome_expiry) \<times> memory_state" where
  "expire_details store s key expected =
     (case validate_authority store key of
        Inl e \<Rightarrow> (Inl (LifecycleStore e), s)
      | Inr _ \<Rightarrow>
          (case fmlookup (st_transactions s) (Some (key_context key), key_operation key) of
             Some (Scoped marker) \<Rightarrow>
               if om_revision marker \<noteq> expected then (Inl RevisionMismatch, s)
               else
                 (case fmlookup (st_details s) (om_reference marker) of
                    None \<Rightarrow>
                      (Inl (LifecycleStore
                         (store_error_new CorruptHistory (Store_text ExpireMissingEvidence))), s)
                  | Some _ \<Rightarrow>
                      (Inr \<lparr>oe_revision = expected, oe_reclamation = Reclaimed\<rparr>,
                       s\<lparr>st_details := fmupd (om_reference marker) DetailExpired (st_details s)\<rparr>))
           | _ \<Rightarrow> (Inl LifecycleMissingOutcome, s)))"

end
