(* ===== verification/History.thy ===== *)
theory History
  imports Memory
begin

text \<open>
  The history check of \<open>rostfrei-core/src/executor.rs\<close> (\<open>validate_history\<close>) and what the recording
  loop of the store produces, in closed form. A stream written by the store is the concatenation
  of its recorded batches; \<open>log_ok\<close> collects what the store guarantees of those batches, and every
  such log passes the check.
\<close>

section \<open>The check\<close>

definition history_corrupt :: "execution_text \<Rightarrow> event_store_error" where
  "history_corrupt t = store_error_new CorruptHistory (Execution_text t)"

record history_check =
  hc_event_ids :: "event_id set"
  hc_seen_commits :: "commit_id set"
  hc_operations :: "operation_id \<rightharpoonup> commit_id \<times> fingerprint \<times> actor_ref option"
  hc_current_commit :: "(commit_id \<times> u32 \<times> u32) option"

definition history_start :: history_check where
  "history_start =
     \<lparr>hc_event_ids = {}, hc_seen_commits = {}, hc_operations = (\<lambda>_. None),
      hc_current_commit = None\<rparr>"

definition expected_position :: "nat \<Rightarrow> event_store_error + stream_version" where
  "expected_position index =
     ok_or (history_corrupt HistoryTooLong)
       (case u64_try_from index of None \<Rightarrow> None | Some v \<Rightarrow> checked_add v 1)"

text \<open>The commit coordinates an event must have, and the commits seen once it is checked.\<close>

definition commit_coordinates ::
  "history_check \<Rightarrow> recorded_event \<Rightarrow> event_store_error + (u32 \<times> u32 \<times> commit_id set)" where
  "commit_coordinates h event =
     (case hc_current_commit h of
        Some (commit_id, expected_ordinal, event_count) \<Rightarrow>
          if commit_id = re_commit_id event
          then Inr (expected_ordinal, event_count, hc_seen_commits h)
          else Inl (history_corrupt IncompleteCommit)
      | None \<Rightarrow>
          if re_commit_event_ordinal event \<noteq> 0 then Inl (history_corrupt StartsInsideCommit)
          else if re_commit_id event \<in> hc_seen_commits h
          then Inl (history_corrupt CommitNotContiguous)
          else Inr (0, re_commit_event_count event,
                    insert (re_commit_id event) (hc_seen_commits h)))"

definition validate_history_event ::
  "(bytes \<Rightarrow> bytes) \<Rightarrow> stream_id \<Rightarrow> nat \<Rightarrow> history_check \<Rightarrow> recorded_event \<Rightarrow>
   event_store_error + history_check" where
  "validate_history_event sha stream index h event =
     (if re_stream_id event \<noteq> stream then Inl (history_corrupt ForeignStreamInHistory)
      else
        rbind (expected_position index) (\<lambda>position.
        if re_stream_version event \<noteq> position then Inl (history_corrupt NonContiguousVersions)
        else if re_event_id event \<in> hc_event_ids h
        then Inl (history_corrupt DuplicateEventIdentity)
        else
          rbind (commit_coordinates h event) (\<lambda>(expected_ordinal, event_count, seen).
          if re_commit_event_ordinal event \<noteq> expected_ordinal
            \<or> re_commit_event_count event \<noteq> event_count
          then Inl (history_corrupt InconsistentCoordinates)
          else if re_commit_id event \<noteq> derive_commit_id sha stream (re_operation_id event)
          then Inl (history_corrupt InvalidCommitIdentity)
          else if re_event_id event
            \<noteq> derive_event_id sha (re_commit_id event) (re_commit_event_ordinal event)
          then Inl (history_corrupt InvalidEventIdentity)
          else
            rbind (ok_or (history_corrupt CommitOrdinalRange)
                     (checked_add (re_commit_event_ordinal event) 1)) (\<lambda>next_ordinal.
            let current = (if next_ordinal = event_count then None
                           else Some (re_commit_id event, next_ordinal, event_count));
                operation_identity =
                  (re_commit_id event, re_operation_fingerprint event, re_actor event) in
            if (case hc_operations h (re_operation_id event) of
                  None \<Rightarrow> False
                | Some previous \<Rightarrow> previous \<noteq> operation_identity)
            then Inl (history_corrupt OperationAcrossCommits)
            else Inr \<lparr>hc_event_ids = insert (re_event_id event) (hc_event_ids h),
                       hc_seen_commits = seen,
                       hc_operations =
                         (hc_operations h)(re_operation_id event \<mapsto> operation_identity),
                       hc_current_commit = current\<rparr>))))"

fun validate_history_from ::
  "(bytes \<Rightarrow> bytes) \<Rightarrow> stream_id \<Rightarrow> nat \<Rightarrow> history_check \<Rightarrow> recorded_event list \<Rightarrow>
   event_store_error + unit" where
  "validate_history_from sha stream index h [] =
     (if hc_current_commit h \<noteq> None then Inl (history_corrupt EndedInsideCommit) else Inr ())"
| "validate_history_from sha stream index h (event # events) =
     rbind (validate_history_event sha stream index h event) (\<lambda>h.
     validate_history_from sha stream (Suc index) h events)"

definition validate_history ::
  "(bytes \<Rightarrow> bytes) \<Rightarrow> stream_id \<Rightarrow> recorded_event list \<Rightarrow> event_store_error + unit" where
  "validate_history sha stream history = validate_history_from sha stream 0 history_start history"

section \<open>Recording in closed form\<close>

fun recorded ::
  "stream_id \<Rightarrow> event_batch \<Rightarrow> u32 \<Rightarrow> stream_version \<Rightarrow> nat \<Rightarrow> new_event list \<Rightarrow>
   recorded_event list" where
  "recorded stream batch count v ordinal [] = []"
| "recorded stream batch count v ordinal (e # es) =
     RecordedEvent_from_new stream (v + 1) batch (of_nat ordinal) count e
     # recorded stream batch count (v + 1) (Suc ordinal) es"

definition batch_length :: "event_batch \<Rightarrow> nat" where
  "batch_length b = length (eb_events b)"

definition recorded_batch :: "stream_id \<Rightarrow> stream_version \<Rightarrow> event_batch \<Rightarrow> recorded_event list" where
  "recorded_batch stream v b = recorded stream b (of_nat (batch_length b)) v 0 (eb_events b)"

lemma length_recorded [simp]: "length (recorded st b c v i es) = length es"
  by (induction es arbitrary: v i) auto

lemma length_recorded_batch [simp]: "length (recorded_batch st v b) = batch_length b"
  by (simp add: recorded_batch_def batch_length_def)

lemma record_events_ok_iff:
  "record_events st b c v i es = Inr rs \<longleftrightarrow>
     rs = recorded st b c v i es \<and> (es \<noteq> [] \<longrightarrow> unat v + length es < 2 ^ 64 \<and> i + length es \<le> 2 ^ 32)"
proof (induction es arbitrary: v i rs)
  case Nil
  show ?case by auto
next
  case (Cons e es)
  have unat: "unat (v + 1) = unat v + 1" if "unat v + 1 < 2 ^ 64"
    using that by (simp add: unat_word_ariths)
  have step: "record_events st b c v i (e # es) = Inr rs \<longleftrightarrow>
      unat v + 1 < 2 ^ 64 \<and> i < 2 ^ 32 \<and> (\<exists>rs'. record_events st b c (v + 1) (Suc i) es = Inr rs'
        \<and> rs = RecordedEvent_from_new st (v + 1) b (of_nat i) c e # rs')"
    by (auto simp: result_simps checked_simps version_next_Some)
  show ?case
    unfolding step Cons.IH using unat by (cases es) auto
qed

lemma valid_batch_length: "valid_batch b \<Longrightarrow> 0 < batch_length b \<and> batch_length b \<le> 100"
  by (auto simp: valid_batch_def batch_length_def max_events_per_batch_def)

lemma record_batch_ok_iff:
  assumes "valid_batch b"
  shows "record_batch st v b = Inr rs \<longleftrightarrow>
    rs = recorded_batch st v b \<and> unat v + batch_length b < 2 ^ 64"
  using valid_batch_length [OF assms]
  by (auto simp: record_batch_def result_simps checked_simps record_events_ok_iff
      recorded_batch_def batch_length_def)

lemma record_batch_error:
  assumes "valid_batch b" and "record_batch st v b = Inl e"
  shows "2 ^ 64 \<le> unat v + batch_length b"
  using record_batch_ok_iff [OF assms(1), of st v "recorded_batch st v b"] assms(2) by auto

lemma last_recorded_version:
  "es \<noteq> [] \<Longrightarrow> re_stream_version (last (recorded st b c v i es)) = v + of_nat (length es)"
proof (induction es arbitrary: v i)
  case (Cons e es)
  show ?case
  proof (cases "es = []")
    case False
    then have "recorded st b c (v + 1) (Suc i) es \<noteq> []"
      using length_recorded [of st b c "v + 1" "Suc i" es] by (metis length_0_conv)
    with False Cons.IH [of "v + 1" "Suc i"] show ?thesis
      by (simp add: ac_simps)
  qed simp
qed simp

section \<open>Logs of a stream\<close>

fun log_events :: "stream_id \<Rightarrow> nat \<Rightarrow> event_batch list \<Rightarrow> recorded_event list" where
  "log_events stream n [] = []"
| "log_events stream n (b # bs) =
     recorded_batch stream (of_nat n) b @ log_events stream (n + batch_length b) bs"

definition log_length :: "event_batch list \<Rightarrow> nat" where
  "log_length bs = sum_list (map batch_length bs)"

definition batch_event_ids :: "event_batch \<Rightarrow> event_id list" where
  "batch_event_ids b = map ne_event_id (eb_events b)"

definition log_ok :: "(bytes \<Rightarrow> bytes) \<Rightarrow> stream_id \<Rightarrow> event_batch list \<Rightarrow> bool" where
  "log_ok sha stream bs \<longleftrightarrow>
     (\<forall>b \<in> set bs. valid_batch b \<and> validate_derived_identities sha stream b = Inr ())
     \<and> distinct (map eb_operation_id bs) \<and> distinct (map eb_commit_id bs)
     \<and> distinct (concat (map batch_event_ids bs)) \<and> log_length bs < 2 ^ 64"

lemma log_length_simps [simp]:
  "log_length [] = 0"
  "log_length (b # bs) = batch_length b + log_length bs"
  "log_length (bs @ cs) = log_length bs + log_length cs"
  by (simp_all add: log_length_def)

lemma length_log_events [simp]: "length (log_events st n bs) = log_length bs"
  by (induction bs arbitrary: n) auto

lemma log_events_snoc:
  "log_events st n (bs @ [b]) = log_events st n bs @ recorded_batch st (of_nat (n + log_length bs)) b"
  by (induction bs arbitrary: n) (simp_all add: add.assoc)

lemma log_events_append:
  "log_events st n (bs @ cs) = log_events st n bs @ log_events st (n + log_length bs) cs"
  by (induction bs arbitrary: n) (simp_all add: add.assoc)

lemma log_events_version:
  assumes "log_ok sha st bs" and "log_events st 0 bs \<noteq> []"
  shows "re_stream_version (last (log_events st 0 bs)) = of_nat (log_length bs)"
proof (cases bs rule: rev_cases)
  case (snoc cs b)
  then have "eb_events b \<noteq> []"
    using assms(1) by (auto simp: log_ok_def valid_batch_def)
  then have ne: "recorded_batch st (of_nat (log_length cs)) b \<noteq> []"
    using length_recorded_batch [of st "of_nat (log_length cs)" b]
    by (auto simp: batch_length_def simp del: length_recorded_batch)
  with \<open>eb_events b \<noteq> []\<close> snoc show ?thesis
    by (simp add: log_events_snoc recorded_batch_def last_recorded_version batch_length_def)
qed (use assms in simp)

lemma recorded_nth_version:
  "i < length es \<Longrightarrow> re_stream_version (recorded st b c v k es ! i) = v + of_nat (Suc i)"
proof (induction es arbitrary: v k i)
  case (Cons e es)
  then show ?case
    by (cases i) (auto simp: ac_simps)
qed simp

text \<open>The event at index \<open>i\<close> of a log has version \<open>n + i + 1\<close>.\<close>

lemma log_events_nth_version:
  "i < log_length bs \<Longrightarrow> re_stream_version (log_events st n bs ! i) = of_nat (n + i + 1)"
proof (induction bs arbitrary: n i)
  case (Cons b bs)
  show ?case
  proof (cases "i < batch_length b")
    case True
    then show ?thesis
      by (simp add: nth_append recorded_batch_def recorded_nth_version batch_length_def ac_simps)
  next
    case False
    then have "re_stream_version (log_events st (n + batch_length b) bs ! (i - batch_length b)) =
        of_nat (n + batch_length b + (i - batch_length b) + 1)"
      using Cons.prems by (intro Cons.IH) simp
    with False show ?thesis
      by (simp add: nth_append)
  qed
qed simp

section \<open>Every log passes the check\<close>

lemma expected_position_ok: "index + 1 < 2 ^ 64 \<Longrightarrow> expected_position index = Inr (of_nat index + 1)"
  by (simp add: expected_position_def u64_try_from_def checked_add_def unat_of_nat_small)

lemma checked_add_ordinal:
  "i + 1 < 2 ^ 32 \<Longrightarrow> checked_add (of_nat i :: u32) 1 = Some (of_nat (Suc i))"
  by (simp add: checked_add_def unat_of_nat_small)

text \<open>The events of a batch from ordinal \<open>i\<close> on, once the check is inside its commit.\<close>

lemma validate_history_inside:
  assumes "es \<noteq> []"
    and "0 < i" and "n \<le> 100" and "i + length es = n" and "index + length es < 2 ^ 64"
    and "hc_current_commit h = Some (eb_commit_id b, of_nat i, of_nat n)"
    and "hc_operations h (eb_operation_id b)
      = Some (eb_commit_id b, eb_operation_fingerprint b, eb_actor b)"
    and "eb_commit_id b = derive_commit_id sha st (eb_operation_id b)"
    and "validate_event_identities sha (eb_commit_id b) i es = Inr ()"
    and "distinct (map ne_event_id es)"
    and "set (map ne_event_id es) \<inter> hc_event_ids h = {}"
  shows "validate_history_from sha st index h
      (recorded st b (of_nat n) (of_nat index) i es @ rest) =
    validate_history_from sha st (index + length es)
      (h\<lparr>hc_event_ids := hc_event_ids h \<union> set (map ne_event_id es), hc_current_commit := None\<rparr>)
      rest"
  using assms
proof (induction es arbitrary: i index h)
  case Nil
  then show ?case by simp
next
  case (Cons e es)
  have i: "i + 1 < 2 ^ 32" and idx: "index + 1 < 2 ^ 64"
    using Cons.prems(3-5) by auto
  have ids: "ne_event_id e = derive_event_id sha (eb_commit_id b) (of_nat i)"
    and rest_ids: "validate_event_identities sha (eb_commit_id b) (Suc i) es = Inr ()"
    using Cons.prems(9) i by (auto simp: u32_try_from_def split: if_splits)
  have ops: "(hc_operations h)(eb_operation_id b \<mapsto>
      (eb_commit_id b, eb_operation_fingerprint b, eb_actor b)) = hc_operations h"
    using Cons.prems(7) by auto
  have end_iff: "(of_nat (Suc i) :: u32) = of_nat n \<longleftrightarrow> es = []"
    using of_nat_word_eq_iff [where 'a = 32, of "Suc i" n] Cons.prems(3,4) i by auto
  define h' where "h' = h\<lparr>hc_event_ids := insert (ne_event_id e) (hc_event_ids h),
    hc_current_commit := (if es = [] then None else Some (eb_commit_id b, of_nat (Suc i), of_nat n))\<rparr>"
  have head: "validate_history_event sha st index h
      (RecordedEvent_from_new st (of_nat index + 1) b (of_nat i) (of_nat n) e) = Inr h'"
    using Cons.prems(6-8,10,11) ids expected_position_ok [OF idx] checked_add_ordinal [OF i] ops end_iff
    by (simp add: validate_history_event_def commit_coordinates_def Let_def h'_def)
  show ?case
  proof (cases "es = []")
    case True
    with head show ?thesis
      by (simp add: h'_def)
  next
    case False
    have "validate_history_from sha st (Suc index) h'
        (recorded st b (of_nat n) (of_nat (Suc index)) (Suc i) es @ rest) =
      validate_history_from sha st (Suc index + length es)
        (h'\<lparr>hc_event_ids := hc_event_ids h' \<union> set (map ne_event_id es), hc_current_commit := None\<rparr>)
        rest"
      by (rule Cons.IH) (use False Cons.prems rest_ids in \<open>auto simp: h'_def\<close>)
    with head show ?thesis
      by (simp add: h'_def ac_simps Un_commute)
  qed
qed

text \<open>A whole batch, from outside any commit.\<close>

lemma validate_history_batch:
  assumes batch: "valid_batch b" "validate_derived_identities sha st b = Inr ()"
    and h: "hc_current_commit h = None" "eb_commit_id b \<notin> hc_seen_commits h"
      "hc_operations h (eb_operation_id b) = None"
      "set (batch_event_ids b) \<inter> hc_event_ids h = {}"
    and idx: "index + batch_length b < 2 ^ 64"
  shows "validate_history_from sha st index h (recorded_batch st (of_nat index) b @ rest) =
    validate_history_from sha st (index + batch_length b)
      \<lparr>hc_event_ids = hc_event_ids h \<union> set (batch_event_ids b),
       hc_seen_commits = insert (eb_commit_id b) (hc_seen_commits h),
       hc_operations = (hc_operations h)(eb_operation_id b \<mapsto>
         (eb_commit_id b, eb_operation_fingerprint b, eb_actor b)),
       hc_current_commit = None\<rparr> rest"
proof -
  obtain e es where events: "eb_events b = e # es"
    using batch(1) by (cases "eb_events b") (auto simp: valid_batch_def)
  define n where "n = batch_length b"
  have n: "n = Suc (length es)" and small: "n \<le> 100"
    using events valid_batch_length [OF batch(1)] by (simp_all add: n_def batch_length_def)
  have commit: "eb_commit_id b = derive_commit_id sha st (eb_operation_id b)"
    and first: "ne_event_id e = derive_event_id sha (eb_commit_id b) 0"
    and rest_ids: "validate_event_identities sha (eb_commit_id b) 1 es = Inr ()"
    using batch(2) events by (auto simp: validate_derived_identities_def u32_try_from_def
        split: if_splits)
  have dist: "distinct (map ne_event_id (e # es))"
    using batch(1) events by (simp add: valid_batch_def)
  have end_iff: "(of_nat (Suc 0) :: u32) = of_nat n \<longleftrightarrow> es = []"
    using of_nat_word_eq_iff [where 'a = 32, of "Suc 0" n] n small by auto
  define h' where "h' = \<lparr>hc_event_ids = insert (ne_event_id e) (hc_event_ids h),
    hc_seen_commits = insert (eb_commit_id b) (hc_seen_commits h),
    hc_operations = (hc_operations h)(eb_operation_id b \<mapsto>
      (eb_commit_id b, eb_operation_fingerprint b, eb_actor b)),
    hc_current_commit = (if es = [] then None else Some (eb_commit_id b, of_nat 1, of_nat n))\<rparr>"
  have head: "validate_history_event sha st index h
      (RecordedEvent_from_new st (of_nat index + 1) b (of_nat 0) (of_nat n) e) = Inr h'"
    using h commit first idx n end_iff expected_position_ok [of index]
      checked_add_ordinal [of 0] events n_def
    by (simp add: validate_history_event_def commit_coordinates_def Let_def h'_def
        batch_event_ids_def)
  have unfold: "recorded_batch st (of_nat index) b =
      RecordedEvent_from_new st (of_nat index + 1) b (of_nat 0) (of_nat n) e
      # recorded st b (of_nat n) (of_nat (Suc index)) 1 es"
    by (simp add: recorded_batch_def events n_def batch_length_def ac_simps)
  show ?thesis
  proof (cases "es = []")
    case True
    with head show ?thesis
      by (simp add: unfold h'_def batch_event_ids_def events n n_def [symmetric])
  next
    case False
    have "validate_history_from sha st (Suc index) h'
        (recorded st b (of_nat n) (of_nat (Suc index)) 1 es @ rest) =
      validate_history_from sha st (Suc index + length es)
        (h'\<lparr>hc_event_ids := hc_event_ids h' \<union> set (map ne_event_id es), hc_current_commit := None\<rparr>)
        rest"
      by (rule validate_history_inside)
        (use False n small idx commit rest_ids dist h(4) events n_def
          in \<open>auto simp: h'_def batch_event_ids_def\<close>)
    with head n show ?thesis
      by (simp add: unfold h'_def batch_event_ids_def events n_def [symmetric] Un_commute)
  qed
qed

lemma validate_history_log_from:
  assumes "\<forall>b \<in> set bs. valid_batch b \<and> validate_derived_identities sha st b = Inr ()"
    and "distinct (map eb_operation_id bs)" and "distinct (map eb_commit_id bs)"
    and "distinct (concat (map batch_event_ids bs))"
    and "index + log_length bs < 2 ^ 64"
    and "hc_current_commit h = None"
    and "eb_commit_id ` set bs \<inter> hc_seen_commits h = {}"
    and "\<forall>b \<in> set bs. hc_operations h (eb_operation_id b) = None"
    and "set (concat (map batch_event_ids bs)) \<inter> hc_event_ids h = {}"
  shows "validate_history_from sha st index h (log_events st index bs) = Inr ()"
  using assms
proof (induction bs arbitrary: index h)
  case Nil
  then show ?case by simp
next
  case (Cons b bs)
  have "validate_history_from sha st index h (log_events st index (b # bs)) =
    validate_history_from sha st (index + batch_length b)
      \<lparr>hc_event_ids = hc_event_ids h \<union> set (batch_event_ids b),
       hc_seen_commits = insert (eb_commit_id b) (hc_seen_commits h),
       hc_operations = (hc_operations h)(eb_operation_id b \<mapsto>
         (eb_commit_id b, eb_operation_fingerprint b, eb_actor b)),
       hc_current_commit = None\<rparr> (log_events st (index + batch_length b) bs)"
    unfolding log_events.simps
    by (rule validate_history_batch) (use Cons.prems in auto)
  also have "\<dots> = Inr ()"
    by (rule Cons.IH) (use Cons.prems in \<open>auto simp: image_iff\<close>)
  finally show ?case .
qed

lemma validate_history_log: "log_ok sha st bs \<Longrightarrow> validate_history sha st (log_events st 0 bs) = Inr ()"
  unfolding validate_history_def
  by (rule validate_history_log_from) (auto simp: log_ok_def history_start_def)

end
