(* ===== verification/Journal.thy ===== *)
theory Journal
  imports History
begin

text \<open>
  The abstract specification of the event journal and its refinement by the in-memory state. A
  journal gives every stream the list of batches committed to it, with the path they took. The
  relation \<open>journal_of\<close> says that the four indexes of the state (streams, operations, commits and
  event identities) all describe the same journal; \<open>install_batch\<close> refines extending it.
\<close>

type_synonym log = "(event_batch \<times> append_provenance) list"
type_synonym journal = "stream_id \<Rightarrow> log"

definition log_batches :: "log \<Rightarrow> event_batch list" where
  "log_batches l = map fst l"

fun log_entries :: "stream_id \<Rightarrow> nat \<Rightarrow> log \<Rightarrow> (operation_id \<times> stored_append) list" where
  "log_entries stream n [] = []"
| "log_entries stream n (bp # l) =
     (eb_operation_id (fst bp),
      \<lparr>sa_batch = fst bp, sa_events = recorded_batch stream (of_nat n) (fst bp),
       sa_provenance = snd bp\<rparr>)
     # log_entries stream (n + batch_length (fst bp)) l"

definition log_commits :: "log \<Rightarrow> (commit_id \<times> operation_id) list" where
  "log_commits l = map (\<lambda>bp. (eb_commit_id (fst bp), eb_operation_id (fst bp))) l"

definition log_event_ids :: "log \<Rightarrow> event_id set" where
  "log_event_ids l = set (concat (map batch_event_ids (log_batches l)))"

definition journal_of :: "(bytes \<Rightarrow> bytes) \<Rightarrow> memory_state \<Rightarrow> journal \<Rightarrow> bool" where
  "journal_of sha s J \<longleftrightarrow>
     (\<forall>st. load s st = log_events st 0 (log_batches (J st)))
     \<and> (\<forall>st. log_ok sha st (log_batches (J st)))
     \<and> (\<forall>st op. fmlookup (st_operations s) (st, op) = map_of (log_entries st 0 (J st)) op)
     \<and> (\<forall>st c. fmlookup (st_commits s) (st, c) = map_of (log_commits (J st)) c)
     \<and> st_event_ids s = {(st, e). e \<in> log_event_ids (J st)}
     \<and> (\<forall>st. st |\<in>| fmdom (st_streams s) \<longleftrightarrow> J st \<noteq> [])"

text \<open>The abstract operation.\<close>

definition extend :: "stream_id \<Rightarrow> event_batch \<Rightarrow> append_provenance \<Rightarrow> journal \<Rightarrow> journal" where
  "extend stream b p J = J(stream := J stream @ [(b, p)])"

text \<open>What the checks of both append paths establish of a batch before it is installed.\<close>

definition fresh_batch :: "(bytes \<Rightarrow> bytes) \<Rightarrow> memory_state \<Rightarrow> stream_id \<Rightarrow> event_batch \<Rightarrow> bool" where
  "fresh_batch sha s stream b \<longleftrightarrow>
     valid_batch b \<and> validate_derived_identities sha stream b = Inr ()
     \<and> fmlookup (st_operations s) (stream, eb_operation_id b) = None
     \<and> fmlookup (st_commits s) (stream, eb_commit_id b) = None
     \<and> (\<forall>e \<in> set (eb_events b). (stream, ne_event_id e) \<notin> st_event_ids s)
     \<and> length (load s stream) + batch_length b < 2 ^ 64"

text \<open>The number of events of all streams.\<close>

definition journal_size :: "memory_state \<Rightarrow> nat" where
  "journal_size s = (\<Sum>st \<in> fset (fmdom (st_streams s)). length (load s st))"

section \<open>Logs\<close>

lemma log_batches_simps [simp]:
  "log_batches [] = []"
  "log_batches (l @ m) = log_batches l @ log_batches m"
  "log_batches [bp] = [fst bp]"
  by (simp_all add: log_batches_def)

lemma log_entries_snoc:
  "log_entries st n (l @ [(b, p)]) =
   log_entries st n l @ [(eb_operation_id b,
     \<lparr>sa_batch = b, sa_events = recorded_batch st (of_nat (n + log_length (log_batches l))) b,
      sa_provenance = p\<rparr>)]"
  by (induction l arbitrary: n) (simp_all add: log_batches_def add.assoc)

lemma log_entries_keys: "map fst (log_entries st n l) = map eb_operation_id (log_batches l)"
  by (induction l arbitrary: n) (simp_all add: log_batches_def)

lemma log_commits_keys: "map fst (log_commits l) = map eb_commit_id (log_batches l)"
  by (induction l) (simp_all add: log_commits_def log_batches_def)

lemma log_commits_snoc [simp]:
  "log_commits (l @ [(b, p)]) = log_commits l @ [(eb_commit_id b, eb_operation_id b)]"
  by (simp add: log_commits_def)

lemma log_event_ids_snoc [simp]:
  "log_event_ids (l @ [(b, p)]) = log_event_ids l \<union> set (batch_event_ids b)"
  by (simp add: log_event_ids_def)

lemma map_of_snoc: "k \<notin> set (map fst xs) \<Longrightarrow> map_of (xs @ [(k, v)]) = (map_of xs)(k \<mapsto> v)"
  by (rule ext, induction xs) auto

section \<open>Versions\<close>

lemma current_version_load:
  "current_version s st = (if load s st = [] then 0 else re_stream_version (last (load s st)))"
  by (auto simp: current_version_def load_def split: option.splits)

lemma journal_load: "journal_of sha s J \<Longrightarrow> load s st = log_events st 0 (log_batches (J st))"
  by (simp add: journal_of_def)

lemma journal_log_ok: "journal_of sha s J \<Longrightarrow> log_ok sha st (log_batches (J st))"
  by (simp add: journal_of_def)

lemma journal_length: "journal_of sha s J \<Longrightarrow> length (load s st) = log_length (log_batches (J st))"
  by (simp add: journal_load)

lemma journal_length_bound: "journal_of sha s J \<Longrightarrow> length (load s st) < 2 ^ 64"
  using journal_log_ok [of sha s J st] by (simp add: journal_length log_ok_def)

text \<open>The current version of a stream is its length: versions count from one without gaps.\<close>

lemma journal_version:
  assumes "journal_of sha s J"
  shows "current_version s st = of_nat (length (load s st))"
proof (cases "load s st = []")
  case False
  then show ?thesis
    using log_events_version [OF journal_log_ok [OF assms]] journal_load [OF assms, of st]
    by (simp add: current_version_load)
qed (simp add: current_version_load)

lemma journal_version_unat:
  "journal_of sha s J \<Longrightarrow> unat (current_version s st) = length (load s st)"
  using journal_length_bound [of sha s J st] by (simp add: journal_version unat_of_nat_small)

lemma journal_nth_version:
  assumes "journal_of sha s J" and "i < length (load s st)"
  shows "unat (re_stream_version (load s st ! i)) = i + 1"
proof -
  have "re_stream_version (load s st ! i) = of_nat (i + 1)"
    using log_events_nth_version [of i "log_batches (J st)" st 0] assms
    by (simp add: journal_load)
  moreover have "i + 1 < 2 ^ 64"
    using journal_length_bound [OF assms(1), of st] assms(2) by simp
  ultimately show ?thesis
    by (simp only:) (rule unat_of_nat_small, simp)
qed

lemma journal_history:
  "journal_of sha s J \<Longrightarrow> validate_history sha st (load s st) = Inr ()"
  using validate_history_log [OF journal_log_ok] by (simp add: journal_load)

section \<open>Installing a batch\<close>

lemma load_install [simp]:
  "load (install_batch st b rs p s) st' = (if st' = st then load s st @ rs else load s st')"
  by (simp add: install_batch_def load_def)

lemma load_st_simps [simp]:
  "load (s\<lparr>st_event_count := n\<rparr>) st = load s st"
  "load (s\<lparr>st_transactions := t\<rparr>) st = load s st"
  "load (s\<lparr>st_details := d\<rparr>) st = load s st"
  by (simp_all add: load_def)

lemma current_version_st_simps [simp]:
  "current_version (s\<lparr>st_event_count := n\<rparr>) st = current_version s st"
  "current_version (s\<lparr>st_transactions := t\<rparr>) st = current_version s st"
  "current_version (s\<lparr>st_details := d\<rparr>) st = current_version s st"
  by (simp_all add: current_version_def)

lemma install_batch_sel [simp]:
  "st_transactions (install_batch st b rs p s) = st_transactions s"
  "st_details (install_batch st b rs p s) = st_details s"
  "st_event_count (install_batch st b rs p s) = st_event_count s"
  "st_operations (install_batch st b rs p s) = fmupd (st, eb_operation_id b)
     \<lparr>sa_batch = b, sa_events = rs, sa_provenance = p\<rparr> (st_operations s)"
  "st_commits (install_batch st b rs p s) =
     fmupd (st, eb_commit_id b) (eb_operation_id b) (st_commits s)"
  "st_event_ids (install_batch st b rs p s) = st_event_ids s \<union> event_ids_of st b"
  "fmdom (st_streams (install_batch st b rs p s)) = finsert st (fmdom (st_streams s))"
  by (simp_all add: install_batch_def)

lemma journal_of_st_simps [simp]:
  "journal_of sha (s\<lparr>st_event_count := n\<rparr>) J = journal_of sha s J"
  "journal_of sha (s\<lparr>st_transactions := t\<rparr>) J = journal_of sha s J"
  "journal_of sha (s\<lparr>st_details := d\<rparr>) J = journal_of sha s J"
  by (simp_all add: journal_of_def)

lemma fresh_log_ok:
  assumes J: "journal_of sha s J" and fresh: "fresh_batch sha s st b"
  shows "log_ok sha st (log_batches (J st) @ [b])"
    and "eb_operation_id b \<notin> set (map fst (log_entries st 0 (J st)))"
    and "eb_commit_id b \<notin> set (map fst (log_commits (J st)))"
proof -
  show op: "eb_operation_id b \<notin> set (map fst (log_entries st 0 (J st)))"
    using J fresh by (auto simp: journal_of_def fresh_batch_def map_of_eq_None_iff)
  show c: "eb_commit_id b \<notin> set (map fst (log_commits (J st)))"
    using J fresh by (auto simp: journal_of_def fresh_batch_def map_of_eq_None_iff)
  have ids: "set (batch_event_ids b) \<inter> log_event_ids (J st) = {}"
    using J fresh by (auto simp: journal_of_def fresh_batch_def batch_event_ids_def)
  have "distinct (batch_event_ids b)"
    using fresh by (simp add: fresh_batch_def valid_batch_def batch_event_ids_def)
  moreover have "log_length (log_batches (J st)) + batch_length b < 2 ^ 64"
    using fresh journal_length [OF J, of st] by (simp add: fresh_batch_def)
  ultimately show "log_ok sha st (log_batches (J st) @ [b])"
    using journal_log_ok [OF J, of st] op c ids fresh
    by (simp add: log_ok_def log_entries_keys log_commits_keys log_event_ids_def fresh_batch_def
        Int_commute)
qed

lemma install_refines_extend:
  assumes J: "journal_of sha s J" and fresh: "fresh_batch sha s st b"
  shows "journal_of sha
    (install_batch st b (recorded_batch st (current_version s st) b) p s) (extend st b p J)"
proof -
  let ?s = "install_batch st b (recorded_batch st (current_version s st) b) p s"
  note ok = fresh_log_ok [OF assms]
  have version: "current_version s st = of_nat (log_length (log_batches (J st)))"
    using journal_version [OF J] journal_length [OF J] by simp
  have "load ?s st' = log_events st' 0 (log_batches (extend st b p J st'))" for st'
    using journal_load [OF J] version by (simp add: extend_def log_events_snoc)
  moreover have "log_ok sha st' (log_batches (extend st b p J st'))" for st'
    using ok(1) journal_log_ok [OF J] by (simp add: extend_def)
  moreover have "fmlookup (st_operations ?s) (st', op) =
      map_of (log_entries st' 0 (extend st b p J st')) op" for st' op
    using J version map_of_snoc [OF ok(2)]
    by (auto simp: extend_def log_entries_snoc journal_of_def simp del: map_of_append)
  moreover have "fmlookup (st_commits ?s) (st', c) = map_of (log_commits (extend st b p J st')) c"
    for st' c
    using J map_of_snoc [OF ok(3)]
    by (auto simp: extend_def journal_of_def simp del: map_of_append)
  moreover have "st_event_ids ?s = {(st', e). e \<in> log_event_ids (extend st b p J st')}"
    using J by (auto simp: extend_def journal_of_def event_ids_of_def batch_event_ids_def
        split: if_splits)
  moreover have "st' |\<in>| fmdom (st_streams ?s) \<longleftrightarrow> extend st b p J st' \<noteq> []" for st'
    using J by (auto simp: extend_def journal_of_def)
  ultimately show ?thesis
    by (simp add: journal_of_def)
qed

lemma load_not_dom: "st |\<notin>| fmdom (st_streams s) \<Longrightarrow> load s st = []"
  by (simp add: load_def fmdom_notD)

lemma journal_size_install:
  "journal_size (install_batch st b rs p s) = journal_size s + length rs"
proof -
  let ?D = "fset (fmdom (st_streams s))"
  let ?s = "install_batch st b rs p s"
  have rest: "(\<Sum>x \<in> ?D - {st}. length (load ?s x)) = (\<Sum>x \<in> ?D - {st}. length (load s x))"
    by (rule sum.cong) auto
  have "journal_size ?s = length (load ?s st) + (\<Sum>x \<in> ?D - {st}. length (load ?s x))"
    by (simp add: journal_size_def sum.insert_remove)
  also have "\<dots> = length rs + (length (load s st) + (\<Sum>x \<in> ?D - {st}. length (load s x)))"
    using rest by simp
  also have "length (load s st) + (\<Sum>x \<in> ?D - {st}. length (load s x)) = journal_size s"
  proof (cases "st \<in> ?D")
    case True
    then show ?thesis
      by (simp add: journal_size_def sum.remove)
  next
    case False
    then show ?thesis
      by (simp add: journal_size_def load_not_dom)
  qed
  finally show ?thesis by simp
qed

lemma journal_size_st_simps [simp]:
  "journal_size (s\<lparr>st_event_count := n\<rparr>) = journal_size s"
  "journal_size (s\<lparr>st_transactions := t\<rparr>) = journal_size s"
  "journal_size (s\<lparr>st_details := d\<rparr>) = journal_size s"
  by (simp_all add: journal_size_def)

lemma journal_of_default: "journal_of sha state_default (\<lambda>_. [])"
  by (simp add: journal_of_def state_default_def load_def log_ok_def log_commits_def
      log_event_ids_def)

end
