(* ===== verification/Systems.thy ===== *)
theory Systems
  imports Prelude
begin

text \<open>
  Interfaces of state machines. A component with a step relation interprets \<open>step_system\<close> with the
  invariant its operations keep (\<open>preserved_system\<close> is the part without an initial state); one
  whose operations also only ever move forward in an order on states (nothing recorded is lost or changed) interprets \<open>monotone_system\<close>. The lemmas about
  reachable states and about everything that may happen later are proved here once.
\<close>

locale preserved_system =
  fixes step :: "'s \<Rightarrow> 's \<Rightarrow> bool"
    and invariant :: "'s \<Rightarrow> bool"
  assumes step_invariant: "invariant s \<Longrightarrow> step s s' \<Longrightarrow> invariant s'"
begin

lemma steps_invariant: "step\<^sup>*\<^sup>* s s' \<Longrightarrow> invariant s \<Longrightarrow> invariant s'"
  by (induction rule: rtranclp_induct) (auto intro: step_invariant)

end

locale step_system = preserved_system step invariant
  for step :: "'s \<Rightarrow> 's \<Rightarrow> bool" and invariant :: "'s \<Rightarrow> bool" +
  fixes initial :: 's
  assumes initial_invariant: "invariant initial"
begin

lemma reachable_invariant: "step\<^sup>*\<^sup>* initial s \<Longrightarrow> invariant s"
  using steps_invariant initial_invariant by blast

end

locale monotone_system = step_system step invariant initial
  for step :: "'s \<Rightarrow> 's \<Rightarrow> bool" and invariant :: "'s \<Rightarrow> bool" and initial :: 's +
  fixes before :: "'s \<Rightarrow> 's \<Rightarrow> bool"
  assumes before_refl: "before s s"
    and before_trans: "before s t \<Longrightarrow> before t u \<Longrightarrow> before s u"
    and step_before: "invariant s \<Longrightarrow> step s s' \<Longrightarrow> before s s'"
begin

lemma steps_before: "step\<^sup>*\<^sup>* s s' \<Longrightarrow> invariant s \<Longrightarrow> before s s'"
proof (induction rule: rtranclp_induct)
  case base
  show ?case by (rule before_refl)
next
  case (step t u)
  then show ?case
    using before_trans step_before steps_invariant by blast
qed

lemma reachable_before: "step\<^sup>*\<^sup>* initial s \<Longrightarrow> step\<^sup>*\<^sup>* s s' \<Longrightarrow> before s s'"
  using steps_before reachable_invariant by blast

end

end
