(* ===== verification/Coordinator.thy ===== *)
theory Coordinator
  imports Journal Systems
begin

text \<open>
  Correctness of the in-memory coordinator. The writes of every handle on one shared state are the
  step relation \<open>store_step\<close>; \<open>store_inv\<close> is its invariant (the indexes agree on one journal, the
  event counter is exact, every completed outcome is bound to its key, its receipt is what the
  streams hold and its details decode or are withdrawn) and \<open>store_before\<close> its order: streams
  grow at the end, recorded operations and outcomes never change, details are withdrawn at most.
\<close>

section \<open>Transactions as journal extensions\<close>

definition valid_transaction :: "event_transaction \<Rightarrow> bool" where
  "valid_transaction t \<longleftrightarrow> (\<forall>p \<in> set (tx_participants t). \<forall>b. tp_batch p = Some b \<longrightarrow> valid_batch b)"

definition planned :: "memory_state \<Rightarrow> transaction_participant \<Rightarrow> staged" where
  "planned s p =
     (p, current_version s (tp_stream_id p),
      case tp_batch p of
        None \<Rightarrow> []
      | Some b \<Rightarrow> recorded_batch (tp_stream_id p) (current_version s (tp_stream_id p)) b)"

definition extend_participant :: "journal \<Rightarrow> transaction_participant \<Rightarrow> journal" where
  "extend_participant J p =
     (case tp_batch p of None \<Rightarrow> J | Some b \<Rightarrow> extend (tp_stream_id p) b Transaction J)"

definition fresh_participant ::
  "(bytes \<Rightarrow> bytes) \<Rightarrow> memory_state \<Rightarrow> transaction_participant \<Rightarrow> bool" where
  "fresh_participant sha s p \<longleftrightarrow>
     (case tp_batch p of None \<Rightarrow> True | Some b \<Rightarrow> fresh_batch sha s (tp_stream_id p) b)"

lemma current_version_install_other [simp]:
  "st' \<noteq> st \<Longrightarrow> current_version (install_batch st b rs p s) st' = current_version s st'"
  by (simp add: current_version_load)

lemma fresh_batch_install_other:
  "st' \<noteq> st \<Longrightarrow> fresh_batch sha (install_batch st b rs p s) st' c = fresh_batch sha s st' c"
  by (auto simp: fresh_batch_def event_ids_of_def)

lemma install_staged_planned:
  "install_staged s (planned s p) =
     (case tp_batch p of
        None \<Rightarrow> s
      | Some b \<Rightarrow> install_batch (tp_stream_id p) b
          (recorded_batch (tp_stream_id p) (current_version s (tp_stream_id p)) b) Transaction s)"
  by (simp add: install_staged_def planned_def split: option.splits)

lemma install_staged_other:
  assumes "tp_stream_id q \<noteq> tp_stream_id p"
  shows "fresh_participant sha (install_staged s (planned s p)) q = fresh_participant sha s q"
    and "planned (install_staged s (planned s p)) q = planned s q"
  using assms
  by (simp_all add: install_staged_def planned_def fresh_participant_def fresh_batch_install_other
      split: option.split)

lemma install_staged_refines:
  assumes "journal_of sha s J" and "fresh_participant sha s p"
  shows "journal_of sha (install_staged s (planned s p)) (extend_participant J p)"
  using assms install_refines_extend
  by (auto simp: install_staged_planned extend_participant_def fresh_participant_def
      split: option.splits)

lemma install_all_refines:
  assumes "journal_of sha s J" and "distinct (map tp_stream_id ps)"
    and "\<forall>p \<in> set ps. fresh_participant sha s p"
  shows "journal_of sha (foldl install_staged s (map (planned s) ps))
    (foldl extend_participant J ps)"
  using assms
proof (induction ps arbitrary: s J)
  case Nil
  then show ?case by simp
next
  case (Cons p ps)
  let ?s = "install_staged s (planned s p)"
  have other: "tp_stream_id q \<noteq> tp_stream_id p" if "q \<in> set ps" for q
    using Cons.prems(2) that by (metis distinct.simps(2) image_eqI list.simps(9) list.set_map)
  have "map (planned ?s) ps = map (planned s) ps"
    using other install_staged_other(2) by (auto intro!: map_cong)
  moreover have "journal_of sha (foldl install_staged ?s (map (planned ?s) ps))
      (foldl extend_participant (extend_participant J p) ps)"
  proof (rule Cons.IH)
    show "journal_of sha ?s (extend_participant J p)"
      using Cons.prems by (auto intro: install_staged_refines)
    show "\<forall>q \<in> set ps. fresh_participant sha ?s q"
      using Cons.prems(3) other install_staged_other(1) by auto
  qed (use Cons.prems in simp)
  ultimately show ?case
    by (simp only: foldl.simps list.map)
qed

text \<open>What installing staged participants leaves alone, and what it adds.\<close>

lemma install_staged_frame [simp]:
  "st_transactions (install_staged s x) = st_transactions s"
  "st_details (install_staged s x) = st_details s"
  "st_event_count (install_staged s x) = st_event_count s"
  by (simp_all add: install_staged_def split: prod.splits option.splits)

lemma install_all_frame [simp]:
  "st_transactions (foldl install_staged s xs) = st_transactions s"
  "st_details (foldl install_staged s xs) = st_details s"
  "st_event_count (foldl install_staged s xs) = st_event_count s"
  by (induction xs arbitrary: s) simp_all

lemma journal_size_install_all:
  "journal_size (foldl install_staged s (map (planned s0) ps)) =
     journal_size s + sum_list (map batch_length (List.map_filter tp_batch ps))"
proof (induction ps arbitrary: s)
  case (Cons p ps)
  show ?case
    by (simp add: Cons.IH)
      (simp add: install_staged_def planned_def journal_size_install List.map_filter_simps
        split: option.splits)
qed (simp add: List.map_filter_def)

lemma event_total_batches:
  "event_total t = sum_list (map batch_length (List.map_filter tp_batch (tx_participants t)))"
  by (simp add: event_total_def tx_batches_def comp_def batch_length_def [abs_def])

section \<open>What the checks establish\<close>

lemma validate_expected_version_ok_iff:
  "validate_expected_version expected current = Inr () \<longleftrightarrow>
     (case expected of NoStream \<Rightarrow> current = 0 | Exact v \<Rightarrow> v = current \<and> v \<noteq> 0)"
  by (auto simp: validate_expected_version_def split: expected_version.splits)

lemma event_capacity_ok_iff:
  "event_capacity store s added = Inr n \<longleftrightarrow>
     n = st_event_count s + added \<and> n < usize_bound \<and> n \<le> ms_maximum_events store"
  by (auto simp: event_capacity_def result_simps checked_add_usize_def split: option.splits if_splits)

lemma validate_participant_ok:
  assumes "validate_participant sha s t st b = Inr ()" and "valid_batch b"
    and "length (load s st) + batch_length b < 2 ^ 64"
  shows "fresh_batch sha s st b" and "eb_operation_id b = tx_operation_id t"
  using assms
  by (auto simp: validate_participant_def fresh_batch_def result_simps list_ex_iff
      split: if_splits option.splits)

lemma validate_participants_ok:
  assumes "validate_participants sha s t streams ps = Inr ()"
  shows "distinct (map tp_stream_id ps)" and "set (map tp_stream_id ps) \<inter> streams = {}"
    and "\<forall>p \<in> set ps. \<forall>b. tp_batch p = Some b
      \<longrightarrow> validate_participant sha s t (tp_stream_id p) b = Inr ()"
proof -
  have "distinct (map tp_stream_id ps) \<and> set (map tp_stream_id ps) \<inter> streams = {}
    \<and> (\<forall>p \<in> set ps. \<forall>b. tp_batch p = Some b
         \<longrightarrow> validate_participant sha s t (tp_stream_id p) b = Inr ())"
    using assms
    by (induction ps arbitrary: streams) (auto simp: result_simps split: if_splits option.splits)
  then show "distinct (map tp_stream_id ps)" and "set (map tp_stream_id ps) \<inter> streams = {}"
    and "\<forall>p \<in> set ps. \<forall>b. tp_batch p = Some b
      \<longrightarrow> validate_participant sha s t (tp_stream_id p) b = Inr ()"
    by blast+
qed

lemma stage_ok:
  assumes "stage s p = Inr x" and "\<forall>b. tp_batch p = Some b \<longrightarrow> valid_batch b"
  shows "x = planned s p"
    and "tp_batch p = Some b \<Longrightarrow>
      unat (current_version s (tp_stream_id p)) + batch_length b < 2 ^ 64"
  using assms by (auto simp: stage_def planned_def Let_def result_simps record_batch_ok_iff
      split: option.splits)

lemma stage_all_ok:
  assumes "collect_results (stage s) ps = Inr xs"
    and "\<forall>p \<in> set ps. \<forall>b. tp_batch p = Some b \<longrightarrow> valid_batch b"
  shows "xs = map (planned s) ps"
    and "\<forall>p \<in> set ps. \<forall>b. tp_batch p = Some b
      \<longrightarrow> unat (current_version s (tp_stream_id p)) + batch_length b < 2 ^ 64"
  using assms
  by (induction ps arbitrary: xs) (auto simp: result_simps dest: stage_ok)

section \<open>Results of the two append paths\<close>

definition expects :: "memory_state \<Rightarrow> stream_id \<Rightarrow> expected_version \<Rightarrow> bool" where
  "expects s st expected \<longleftrightarrow>
     (case expected of
        NoStream \<Rightarrow> load s st = []
      | Exact v \<Rightarrow> unat v = length (load s st) \<and> load s st \<noteq> [])"

lemma validate_expected_version_expects:
  assumes "journal_of sha s J"
  shows "validate_expected_version expected (current_version s st) = Inr () \<longleftrightarrow> expects s st expected"
proof -
  have len: "unat (current_version s st) = length (load s st)"
    by (rule journal_version_unat [OF assms])
  then have zero: "current_version s st = 0 \<longleftrightarrow> load s st = []"
    by (metis length_0_conv unat_eq_zero)
  have exact: "v = current_version s st \<longleftrightarrow> unat v = length (load s st)" for v
    using len by (metis word_unat_eq_iff)
  show ?thesis
    by (cases expected) (auto simp: validate_expected_version_ok_iff expects_def zero exact
        unat_eq_zero)
qed

lemma append_batch_result:
  assumes run: "append_batch sha store s st expected b = (r, s')"
    and b: "valid_batch b" and J: "journal_of sha s J"
  shows "(s' = s \<and> (\<forall>rs. r \<noteq> Inr (Appended rs))) \<or>
    (r = Inr (Appended (recorded_batch st (current_version s st) b))
     \<and> fresh_batch sha s st b \<and> expects s st expected
     \<and> st_event_count s + batch_length b < usize_bound
     \<and> st_event_count s + batch_length b \<le> ms_maximum_events store
     \<and> s' = (install_batch st b (recorded_batch st (current_version s st) b) Direct s)
          \<lparr>st_event_count := st_event_count s + batch_length b\<rparr>)"
proof (cases "fmlookup (st_operations s) (st, eb_operation_id b)")
  case (Some previous)
  then show ?thesis
    using run by (auto simp: append_batch_def split: if_splits)
next
  case op: None
  show ?thesis
  proof (cases "s' = s \<and> (\<forall>rs. r \<noteq> Inr (Appended rs))")
    case False
    then obtain n rs where
      c: "fmlookup (st_commits s) (st, eb_commit_id b) = None"
      and e: "\<not> list_ex (\<lambda>event. (st, ne_event_id event) \<in> st_event_ids s) (eb_events b)"
      and d: "validate_derived_identities sha st b = Inr ()"
      and v: "validate_expected_version expected (current_version s st) = Inr ()"
      and n: "event_capacity store s (length (eb_events b)) = Inr n"
      and rs: "record_batch st (current_version s st) b = Inr rs"
      and r: "r = Inr (Appended rs)"
      and s': "s' = (install_batch st b rs Direct s)\<lparr>st_event_count := n\<rparr>"
      using run op by (fastforce simp: append_batch_def result_simps
          split: if_splits sum.splits prod.splits)
    have "length (load s st) + batch_length b < 2 ^ 64"
      using rs journal_version_unat [OF J, of st] by (simp add: record_batch_ok_iff [OF b])
    then have "fresh_batch sha s st b"
      using b d op c e by (auto simp: fresh_batch_def list_ex_iff)
    then show ?thesis
      using r s' rs n v validate_expected_version_expects [OF J]
      by (auto simp: record_batch_ok_iff [OF b] event_capacity_ok_iff batch_length_def)
  qed simp
qed

text \<open>What a transaction that commits has passed.\<close>

definition committable ::
  "externals \<Rightarrow> memory_store \<Rightarrow> memory_state \<Rightarrow> event_transaction \<Rightarrow> bool" where
  "committable E store s t \<longleftrightarrow>
     fmlookup (st_transactions s) (transaction_key t) = None
     \<and> fcard (fmdom (st_transactions s)) < ms_maximum_outcomes store
     \<and> distinct (map tp_stream_id (tx_participants t))
     \<and> (\<forall>p \<in> set (tx_participants t).
          fresh_participant (sha256 E) s p \<and> expects s (tp_stream_id p) (tp_expected_version p))
     \<and> st_event_count s + event_total t < usize_bound
     \<and> st_event_count s + event_total t \<le> ms_maximum_events store"

definition planned_receipt :: "memory_state \<Rightarrow> event_transaction \<Rightarrow> transaction_receipt" where
  "planned_receipt s t = staged_receipt t (map (planned s) (tx_participants t))"

definition committed_state ::
  "memory_state \<Rightarrow> event_transaction \<Rightarrow> stored_transaction \<Rightarrow>
   (detail_reference \<times> detail_state) option \<Rightarrow> memory_state" where
  "committed_state s t stored detail =
     commit_plan s t (st_event_count s + event_total t) (map (planned s) (tx_participants t))
       stored detail"

lemma plan_transaction_ok:
  assumes plan: "plan_transaction E store s t (event_total t) proposal = Inr (n, xs, stored, detail)"
    and none: "fmlookup (st_transactions s) (transaction_key t) = None"
    and t: "valid_transaction t" and J: "journal_of (sha256 E) s J"
  shows "committable E store s t" and "n = st_event_count s + event_total t"
    and "xs = map (planned s) (tx_participants t)"
    and "prepare_stored E store t proposal (planned_receipt s t) = Inr (stored, detail)"
proof -
  have lim: "fcard (fmdom (st_transactions s)) < ms_maximum_outcomes store"
    and valid: "validate_participants (sha256 E) s t {} (tx_participants t) = Inr ()"
    and versions: "\<forall>p \<in> set (tx_participants t).
      validate_expected_version (tp_expected_version p) (current_version s (tp_stream_id p)) = Inr ()"
    and cap: "event_capacity store s (event_total t) = Inr n"
    and staged: "collect_results (stage s) (tx_participants t) = Inr xs"
    and prep: "prepare_stored E store t proposal (staged_receipt t xs) = Inr (stored, detail)"
    using plan by (auto simp: plan_transaction_def validate_transaction_def result_simps
        for_each_Inr_iff split: if_splits)
  have batches: "\<forall>p \<in> set (tx_participants t). \<forall>b. tp_batch p = Some b \<longrightarrow> valid_batch b"
    using t by (simp add: valid_transaction_def)
  note stage = stage_all_ok [OF staged batches] and ps = validate_participants_ok [OF valid]
  show "xs = map (planned s) (tx_participants t)" by (rule stage(1))
  then show "prepare_stored E store t proposal (planned_receipt s t) = Inr (stored, detail)"
    using prep by (simp add: planned_receipt_def)
  show "n = st_event_count s + event_total t"
    using cap by (simp add: event_capacity_ok_iff)
  have "fresh_participant (sha256 E) s p" if p: "p \<in> set (tx_participants t)" for p
  proof (cases "tp_batch p")
    case (Some b)
    have "length (load s (tp_stream_id p)) + batch_length b < 2 ^ 64"
      using stage(2) p Some journal_version_unat [OF J, of "tp_stream_id p"] by auto
    then show ?thesis
      using validate_participant_ok(1) [of "sha256 E" s t "tp_stream_id p" b] ps(3) batches p Some
      by (simp add: fresh_participant_def)
  qed (simp add: fresh_participant_def)
  then show "committable E store s t"
    using none lim ps(1) versions cap validate_expected_version_expects [OF J]
    by (auto simp: committable_def event_capacity_ok_iff)
qed

lemma append_transaction_inner_result:
  assumes run: "append_transaction_inner E store s t = (r, s')"
    and t: "valid_transaction t" and J: "journal_of (sha256 E) s J"
  obtains (unchanged) "s' = s" "\<And>stored. r \<noteq> Inr (stored, False)"
  | (committed) proposal stored detail where
      "r = Inr (stored, False)" "committable E store s t" "proposal_digest_of E t = Inr proposal"
      "prepare_stored E store t proposal (planned_receipt s t) = Inr (stored, detail)"
      "event_total t + guard_total t + 1 \<le> max_transaction_items"
      "s' = committed_state s t stored detail"
proof (cases "s' = s \<and> (\<forall>stored. r \<noteq> Inr (stored, False))")
  case True
  then show ?thesis by (intro unchanged) auto
next
  case False
  obtain n proposal where
    lim: "validate_transaction_item_limit t = Inr n" and dig: "proposal_digest_of E t = Inr proposal"
    using False run
    by (cases "validate_transaction_item_limit t"; cases "proposal_digest_of E t")
      (auto simp: append_transaction_inner_def)
  have none: "fmlookup (st_transactions s) (transaction_key t) = None"
    using False run lim dig
    by (cases "fmlookup (st_transactions s) (transaction_key t)")
      (auto simp: append_transaction_inner_def split: if_splits)
  obtain pl where pl: "plan_transaction E store s t n proposal = Inr pl"
    using False run lim dig none
    by (cases "plan_transaction E store s t n proposal") (auto simp: append_transaction_inner_def)
  obtain m xs stored detail where pl_eq: "pl = (m, xs, stored, detail)"
    by (cases pl) auto
  note plan = pl [unfolded pl_eq]
  have r: "r = Inr (stored, False)" and s': "s' = commit_plan s t m xs stored detail"
    using run lim dig none plan by (simp_all add: append_transaction_inner_def)
  have n: "n = event_total t" and items: "event_total t + guard_total t + 1 \<le> max_transaction_items"
    using lim by (simp_all add: validate_transaction_item_limit_ok_iff)
  note ok = plan_transaction_ok [OF plan [unfolded n] none t J]
  show ?thesis
    by (rule committed [OF r ok(1) dig ok(4) items]) (simp add: s' ok(2,3) committed_state_def)
qed

section \<open>The invariant\<close>

definition receipt_recorded :: "memory_state \<Rightarrow> transaction_receipt \<Rightarrow> bool" where
  "receipt_recorded s r \<longleftrightarrow>
     (\<forall>x \<in> set (tr_streams r).
        \<exists>later. load s (sr_stream_id x) =
          take (unat (sr_base_version x)) (load s (sr_stream_id x)) @ sr_events x @ later)"

definition details_for :: "externals \<Rightarrow> detail_reference \<Rightarrow> command_completion option \<Rightarrow> bytes \<Rightarrow> bool"
where
  "details_for E r completion bytes \<longleftrightarrow>
     details_encode E completion (dr_key r) (dr_security_scope r) (dr_actor r) = Inr bytes
     \<and> dr_format r = actor_format (dr_actor r) \<and> dr_length r = length bytes
     \<and> dr_digest r = fingerprint_digest (sha256 E) bytes \<and> dr_decision r = decision_of completion
     \<and> (\<forall>c. completion = Some c \<longrightarrow> completion_validate c = Inr ())"

definition marker_ok ::
  "externals \<Rightarrow> command_authority \<Rightarrow> memory_state \<Rightarrow> bounded_context_name \<Rightarrow> operation_id \<Rightarrow>
   outcome_marker \<Rightarrow> bool" where
  "marker_ok E auth s c op m \<longleftrightarrow>
     dr_key (om_reference m) = OutcomeKey_new auth c op
     \<and> tr_bounded_context (om_integrity m) = Some c \<and> tr_operation_id (om_integrity m) = op
     \<and> tr_completion (om_integrity m) = None
     \<and> validate_integrity (sha256 E) (om_integrity m) = Inr ()
     \<and> receipt_recorded s (om_integrity m)
     \<and> (case fmlookup (st_details s) (om_reference m) of
          None \<Rightarrow> False
        | Some DetailExpired \<Rightarrow> True
        | Some (Active bytes) \<Rightarrow> \<exists>completion. details_for E (om_reference m) completion bytes)"

definition stored_ok ::
  "externals \<Rightarrow> command_authority \<Rightarrow> memory_state \<Rightarrow> bounded_context_name option \<times> operation_id \<Rightarrow>
   stored_transaction \<Rightarrow> bool" where
  "stored_ok E auth s key stored \<longleftrightarrow>
     (case (fst key, stored) of
        (Some c, Scoped m) \<Rightarrow> marker_ok E auth s c (snd key) m
      | (None, Unscoped _ r) \<Rightarrow> receipt_recorded s r
      | _ \<Rightarrow> False)"

definition detail_owned :: "memory_state \<Rightarrow> detail_reference \<Rightarrow> bool" where
  "detail_owned s r \<longleftrightarrow>
     (\<exists>m. fmlookup (st_transactions s) (Some (key_context (dr_key r)), key_operation (dr_key r))
            = Some (Scoped m) \<and> om_reference m = r)"

definition store_inv :: "externals \<Rightarrow> command_authority \<Rightarrow> memory_state \<Rightarrow> bool" where
  "store_inv E auth s \<longleftrightarrow>
     (\<exists>J. journal_of (sha256 E) s J)
     \<and> st_event_count s = journal_size s
     \<and> (\<forall>key stored. fmlookup (st_transactions s) key = Some stored
          \<longrightarrow> stored_ok E auth s key stored)
     \<and> (\<forall>r. r |\<in>| fmdom (st_details s) \<longrightarrow> detail_owned s r)"

lemma receipt_recorded_mono:
  assumes "receipt_recorded s r" and "\<And>st. \<exists>later. load s' st = load s st @ later"
  shows "receipt_recorded s' r"
  unfolding receipt_recorded_def
proof
  fix x
  assume x: "x \<in> set (tr_streams r)"
  let ?st = "sr_stream_id x" and ?n = "unat (sr_base_version x)"
  obtain later where l: "load s ?st = take ?n (load s ?st) @ sr_events x @ later"
    using assms(1) x by (auto simp: receipt_recorded_def)
  obtain more where m: "load s' ?st = load s ?st @ more"
    using assms(2) by blast
  show "\<exists>later. load s' ?st = take ?n (load s' ?st) @ sr_events x @ later"
  proof (cases "?n \<le> length (load s ?st)")
    case True
    then show ?thesis
      using l m by (metis append.assoc append_Nil2 diff_is_0_eq' take0 take_append)
  next
    case False
    then have "sr_events x = []"
      using l by (metis append_self_conv linorder_not_le append_is_Nil_conv order_less_imp_le take_all)
    then show ?thesis
      by (metis append_Nil append_take_drop_id)
  qed
qed

section \<open>The order on states\<close>

fun detail_before :: "detail_state option \<Rightarrow> detail_state option \<Rightarrow> bool" where
  "detail_before None d = True"
| "detail_before (Some DetailExpired) d = (d = Some DetailExpired)"
| "detail_before (Some (Active bytes)) d = (d = Some (Active bytes) \<or> d = Some DetailExpired)"

definition store_before :: "memory_state \<Rightarrow> memory_state \<Rightarrow> bool" where
  "store_before s s' \<longleftrightarrow>
     (\<forall>st. \<exists>later. load s' st = load s st @ later)
     \<and> st_operations s \<subseteq>\<^sub>f st_operations s'
     \<and> st_commits s \<subseteq>\<^sub>f st_commits s'
     \<and> st_event_ids s \<subseteq> st_event_ids s'
     \<and> st_transactions s \<subseteq>\<^sub>f st_transactions s'
     \<and> (\<forall>r. detail_before (fmlookup (st_details s) r) (fmlookup (st_details s') r))"

lemma detail_before_refl: "detail_before d d"
proof (cases d)
  case (Some x)
  then show ?thesis by (cases x) auto
qed simp

lemma detail_before_trans: "detail_before d e \<Longrightarrow> detail_before e f \<Longrightarrow> detail_before d f"
  by (induction d e rule: detail_before.induct) auto

lemma fmsubset_lookup: "m \<subseteq>\<^sub>f n \<Longrightarrow> fmlookup m k = Some v \<Longrightarrow> fmlookup n k = Some v"
  by (auto simp: fmsubset.rep_eq map_le_def dom_def)

lemma fmsubset_upd_new: "fmlookup m k = None \<Longrightarrow> m \<subseteq>\<^sub>f fmupd k v m"
  by (auto simp: fmsubset.rep_eq map_le_def dom_def)

lemma fmsubset_trans: "a \<subseteq>\<^sub>f b \<Longrightarrow> b \<subseteq>\<^sub>f c \<Longrightarrow> a \<subseteq>\<^sub>f c"
  using fmsubset.rep_eq map_le_trans by blast

lemma fmsubset_refl: "m \<subseteq>\<^sub>f m"
  by (simp add: fmsubset.rep_eq)

lemma store_before_refl: "store_before s s"
  by (simp add: store_before_def detail_before_refl fmsubset_refl)

lemma store_before_trans:
  assumes "store_before s t" and "store_before t u"
  shows "store_before s u"
proof -
  have "\<exists>later. load u st = load s st @ later" for st
    using assms unfolding store_before_def by (metis append.assoc)
  moreover have "detail_before (fmlookup (st_details s) r) (fmlookup (st_details u) r)" for r
    using assms detail_before_trans unfolding store_before_def by blast
  moreover have "st_operations s \<subseteq>\<^sub>f st_operations u" "st_commits s \<subseteq>\<^sub>f st_commits u"
    "st_event_ids s \<subseteq> st_event_ids u" "st_transactions s \<subseteq>\<^sub>f st_transactions u"
    using assms fmsubset_trans unfolding store_before_def by blast+
  ultimately show ?thesis
    unfolding store_before_def by blast
qed

lemma store_before_load:
  assumes "store_before s s'"
  obtains later where "load s' st = load s st @ later"
  using assms unfolding store_before_def by blast

lemma store_before_operation:
  "store_before s s' \<Longrightarrow> fmlookup (st_operations s) k = Some x \<Longrightarrow>
     fmlookup (st_operations s') k = Some x"
  using fmsubset_lookup [of "st_operations s" "st_operations s'" k x] by (simp add: store_before_def)

lemma store_before_transaction:
  "store_before s s' \<Longrightarrow> fmlookup (st_transactions s) k = Some x \<Longrightarrow>
     fmlookup (st_transactions s') k = Some x"
  using fmsubset_lookup [of "st_transactions s" "st_transactions s'" k x]
  by (simp add: store_before_def)

lemma store_before_expired:
  "store_before s s' \<Longrightarrow> fmlookup (st_details s) r = Some DetailExpired \<Longrightarrow>
     fmlookup (st_details s') r = Some DetailExpired"
  unfolding store_before_def by (metis detail_before.simps(2))

lemma install_batch_before:
  "fresh_batch sha s st b \<Longrightarrow> store_before s (install_batch st b rs p s)"
  by (simp add: store_before_def fresh_batch_def fmsubset_upd_new detail_before_refl fmsubset_refl)

lemma install_staged_before:
  "fresh_participant sha s p \<Longrightarrow> store_before s (install_staged s (planned s p))"
  by (auto simp: install_staged_def planned_def fresh_participant_def store_before_refl
      intro: install_batch_before split: option.splits)

lemma install_all_before:
  assumes "distinct (map tp_stream_id ps)" and "\<forall>p \<in> set ps. fresh_participant sha s p"
  shows "store_before s (foldl install_staged s (map (planned s) ps))"
  using assms
proof (induction ps arbitrary: s)
  case Nil
  then show ?case by (simp add: store_before_refl)
next
  case (Cons p ps)
  let ?s = "install_staged s (planned s p)"
  have other: "tp_stream_id q \<noteq> tp_stream_id p" if "q \<in> set ps" for q
    using Cons.prems(1) that by (metis distinct.simps(2) image_eqI list.simps(9) list.set_map)
  have "map (planned ?s) ps = map (planned s) ps"
    using other install_staged_other(2) by (auto intro!: map_cong)
  moreover have "store_before ?s (foldl install_staged ?s (map (planned ?s) ps))"
    by (rule Cons.IH) (use Cons.prems other install_staged_other(1) in auto)
  moreover have "store_before s ?s"
    using Cons.prems(2) by (auto intro: install_staged_before)
  ultimately show ?case
    using store_before_trans by (simp only: foldl.simps list.map)
qed

lemma load_install_all:
  "load (foldl install_staged s (map (planned s0) ps)) st =
     load s st @ concat (map (\<lambda>p. if tp_stream_id p = st then snd (snd (planned s0 p)) else []) ps)"
proof (induction ps arbitrary: s)
  case (Cons p ps)
  show ?case
    by (simp add: Cons.IH) (auto simp: install_staged_def planned_def split: option.splits)
qed simp

lemma concat_single:
  "distinct (map f ps) \<Longrightarrow> p \<in> set ps \<Longrightarrow> concat (map (\<lambda>q. if f q = f p then g q else []) ps) = g p"
proof (induction ps)
  case (Cons q ps)
  show ?case
  proof (cases "q = p")
    case True
    then have "\<forall>x \<in> set ps. f x \<noteq> f p"
      using Cons.prems by (metis distinct.simps(2) image_eqI list.set_map list.simps(9))
    then have "concat (map (\<lambda>x. if f x = f p then g x else []) ps) = []"
      by auto
    with True show ?thesis by simp
  next
    case False
    then show ?thesis using Cons by auto
  qed
qed simp

lemma load_install_participant:
  assumes "distinct (map tp_stream_id ps)" and "p \<in> set ps"
  shows "load (foldl install_staged s (map (planned s) ps)) (tp_stream_id p) =
    load s (tp_stream_id p) @ snd (snd (planned s p))"
  using concat_single [OF assms, of "\<lambda>q. snd (snd (planned s q))"] by (simp add: load_install_all)

lemma staged_receipt_sel [simp]:
  "tr_operation_id (staged_receipt t xs) = tx_operation_id t"
  "tr_bounded_context (staged_receipt t xs) = tx_bounded_context t"
  "tr_completion (staged_receipt t xs) = None"
  "tr_streams (staged_receipt t xs) = map (\<lambda>(p, v, es). \<lparr>sr_stream_id = tp_stream_id p,
     sr_base_version = v, sr_events = es\<rparr>) xs"
  "tr_operation_fingerprint (staged_receipt t xs) = tx_operation_fingerprint t"
  "tr_correlation_id (staged_receipt t xs) = tx_correlation_id t"
  "tr_causation_id (staged_receipt t xs) = tx_causation_id t"
  "tr_security_scope (staged_receipt t xs) = tx_security_scope t"
  "tr_actor (staged_receipt t xs) = tx_actor t"
  by (simp_all add: staged_receipt_def TransactionReceipt_new_def Let_def split: option.split)

section \<open>Effect of a commit\<close>

lemma commit_plan_sel:
  "st_transactions (committed_state s t stored detail) =
     fmupd (transaction_key t) stored (st_transactions s)"
  "st_details (committed_state s t stored detail) =
     (case detail of None \<Rightarrow> st_details s | Some (r, d) \<Rightarrow> fmupd r d (st_details s))"
  "st_event_count (committed_state s t stored detail) = st_event_count s + event_total t"
  "load (committed_state s t stored detail) st =
     load (foldl install_staged s (map (planned s) (tx_participants t))) st"
  "journal_of sha (committed_state s t stored detail) J =
     journal_of sha (foldl install_staged s (map (planned s) (tx_participants t))) J"
  "journal_size (committed_state s t stored detail) =
     journal_size (foldl install_staged s (map (planned s) (tx_participants t)))"
  "st_operations (committed_state s t stored detail) =
     st_operations (foldl install_staged s (map (planned s) (tx_participants t)))"
  "st_commits (committed_state s t stored detail) =
     st_commits (foldl install_staged s (map (planned s) (tx_participants t)))"
  "st_event_ids (committed_state s t stored detail) =
     st_event_ids (foldl install_staged s (map (planned s) (tx_participants t)))"
  by (simp_all add: committed_state_def commit_plan_def Let_def split: option.split)

lemma planned_receipt_recorded:
  assumes "distinct (map tp_stream_id (tx_participants t))" and "journal_of sha s J"
  shows "receipt_recorded (committed_state s t stored detail) (planned_receipt s t)"
  unfolding receipt_recorded_def
proof
  fix x
  assume "x \<in> set (tr_streams (planned_receipt s t))"
  then obtain p where p: "p \<in> set (tx_participants t)"
    and x: "sr_stream_id x = tp_stream_id p" "sr_base_version x = current_version s (tp_stream_id p)"
      "sr_events x = snd (snd (planned s p))"
    by (auto simp: planned_receipt_def planned_def)
  have "unat (sr_base_version x) = length (load s (tp_stream_id p))"
    using journal_version_unat [OF assms(2)] x(2) by simp
  then show "\<exists>later. load (committed_state s t stored detail) (sr_stream_id x) =
      take (unat (sr_base_version x)) (load (committed_state s t stored detail) (sr_stream_id x))
      @ sr_events x @ later"
    using load_install_participant [OF assms(1) p, of s] x by (simp add: commit_plan_sel)
qed

section \<open>Preservation\<close>

lemma store_inv_journal:
  assumes "store_inv E auth s"
  obtains J where "journal_of (sha256 E) s J"
  using assms by (auto simp: store_inv_def)

lemma store_inv_stored:
  "store_inv E auth s \<Longrightarrow> fmlookup (st_transactions s) key = Some x \<Longrightarrow> stored_ok E auth s key x"
  unfolding store_inv_def by blast

lemma store_inv_owned: "store_inv E auth s \<Longrightarrow> r |\<in>| fmdom (st_details s) \<Longrightarrow> detail_owned s r"
  by (simp add: store_inv_def)

lemma store_invI:
  assumes "journal_of (sha256 E) s J" and "st_event_count s = journal_size s"
    and "\<And>key x. fmlookup (st_transactions s) key = Some x \<Longrightarrow> stored_ok E auth s key x"
    and "\<And>r. r |\<in>| fmdom (st_details s) \<Longrightarrow> detail_owned s r"
  shows "store_inv E auth s"
  unfolding store_inv_def using assms by blast

text \<open>An outcome stays well-formed when streams grow and its details stay or are withdrawn.\<close>

lemma marker_ok_mono:
  assumes m: "marker_ok E auth s c op m" and le: "store_before s s'"
  shows "marker_ok E auth s' c op m"
proof -
  have "receipt_recorded s' (om_integrity m)"
    using m le receipt_recorded_mono by (auto simp: marker_ok_def store_before_def)
  moreover have "detail_before (fmlookup (st_details s) (om_reference m))
      (fmlookup (st_details s') (om_reference m))"
    using le by (simp add: store_before_def)
  ultimately show ?thesis
    using m by (auto simp: marker_ok_def split: option.splits detail_state.splits)
qed

lemma stored_ok_mono:
  assumes "stored_ok E auth s key stored" and "store_before s s'"
  shows "stored_ok E auth s' key stored"
  using assms marker_ok_mono receipt_recorded_mono
  by (auto simp: stored_ok_def store_before_def split: option.splits stored_transaction.splits)

lemma detail_owned_mono:
  assumes "detail_owned s r" and "st_transactions s \<subseteq>\<^sub>f st_transactions s'"
  shows "detail_owned s' r"
  using assms fmsubset_lookup by (fastforce simp: detail_owned_def)

lemma store_inv_default: "store_inv E auth state_default"
proof -
  have "journal_of (sha256 E) state_default (\<lambda>_. [])"
    by (rule journal_of_default)
  then show ?thesis
    by (auto simp: store_inv_def journal_size_def state_default_def)
qed

lemma append_batch_step:
  assumes inv: "store_inv E auth s" and run: "append_batch (sha256 E) store s st expected b = (r, s')"
    and b: "valid_batch b"
  shows "store_inv E auth s'" and "store_before s s'"
proof -
  obtain J where J: "journal_of (sha256 E) s J"
    using inv by (rule store_inv_journal)
  let ?rs = "recorded_batch st (current_version s st) b"
  consider "s' = s"
    | "fresh_batch (sha256 E) s st b"
      "s' = (install_batch st b ?rs Direct s)\<lparr>st_event_count := st_event_count s + batch_length b\<rparr>"
    using append_batch_result [OF run b J] by blast
  then have "store_inv E auth s' \<and> store_before s s'"
  proof cases
    case 1
    then show ?thesis using inv store_before_refl by simp
  next
    case 2
    have "store_before s (install_batch st b ?rs Direct s)"
      by (rule install_batch_before [OF 2(1)])
    then have le: "store_before s s'"
      using 2(2) by (simp add: store_before_def)
    have "journal_of (sha256 E) s' (extend st b Direct J)"
      using install_refines_extend [OF J 2(1)] 2(2) by simp
    moreover have "st_event_count s' = journal_size s'"
      using inv 2(2) by (simp add: store_inv_def journal_size_install)
    moreover have "st_transactions s' = st_transactions s" "st_details s' = st_details s"
      using 2(2) by simp_all
    ultimately have "store_inv E auth s'"
      using store_inv_stored [OF inv] store_inv_owned [OF inv] stored_ok_mono [OF _ le]
      by (intro store_invI) (simp_all add: detail_owned_def)
    with le show ?thesis by blast
  qed
  then show "store_inv E auth s'" and "store_before s s'" by blast+
qed

text \<open>The stored record of a committed transaction is well-formed.\<close>

lemma prepared_stored_ok:
  assumes prep: "prepare_stored E store t proposal (planned_receipt s t) = Inr (stored, detail)"
    and auth: "ms_authority store = auth"
    and dist: "distinct (map tp_stream_id (tx_participants t))"
    and J: "journal_of (sha256 E) s J"
  shows "stored_ok E auth (committed_state s t stored detail) (transaction_key t) stored"
    and "detail = Some (r, d) \<Longrightarrow> dr_key r = OutcomeKey_new auth (the (tx_bounded_context t)) (tx_operation_id t)
      \<and> tx_bounded_context t \<noteq> None \<and> (\<exists>m. stored = Scoped m \<and> om_reference m = r)"
proof -
  let ?s = "committed_state s t stored detail"
  have rec: "receipt_recorded ?s (planned_receipt s t)"
    by (rule planned_receipt_recorded [OF dist J])
  show "stored_ok E auth ?s (transaction_key t) stored"
  proof (cases "tx_bounded_context t")
    case None
    then show ?thesis
      using prep rec by (auto simp: prepare_stored_def stored_ok_def transaction_key_def)
  next
    case (Some c)
    then obtain m bytes where pr: "prepare E auth t (planned_receipt s t) = Inr (m, bytes)"
      and st: "stored = Scoped m" "detail = Some (om_reference m, Active bytes)"
      using prep auth by (auto simp: prepare_stored_def result_simps)
    from pr show ?thesis
    proof (rule prepare_ok)
      fix c' digest
      assume c': "tx_bounded_context t = Some c'"
        and vp: "validate_proposal (sha256 E) (planned_receipt s t) t = Inr ()"
        and enc: "details_encode E (tx_completion t) (OutcomeKey_new auth c' (tx_operation_id t))
          (tx_security_scope t) (tx_actor t) = Inr bytes"
        and ref: "om_reference m = \<lparr>dr_key = OutcomeKey_new auth c' (tx_operation_id t),
          dr_security_scope = tx_security_scope t, dr_actor = tx_actor t,
          dr_decision = decision_of (tx_completion t), dr_format = actor_format (tx_actor t),
          dr_length = length bytes, dr_digest = fingerprint_digest (sha256 E) bytes\<rparr>"
        and integ: "om_integrity m = without_completion (planned_receipt s t)"
      note vp_ok = validate_proposal_ok [OF vp]
      have "details_for E (om_reference m) (tx_completion t) bytes"
        using enc ref vp_ok(9) by (auto simp: details_for_def validate_completed_transaction_ok_iff)
      moreover have "fmlookup (st_details ?s) (om_reference m) = Some (Active bytes)"
        using st by (simp add: commit_plan_sel)
      ultimately have "marker_ok E auth ?s c (tx_operation_id t) m"
        using ref integ vp_ok rec Some c' validate_integrity_without_completion [OF vp_ok(1)]
        by (auto simp: marker_ok_def without_completion_def receipt_recorded_def planned_receipt_def)
      then show ?thesis
        using Some st by (simp add: stored_ok_def transaction_key_def)
    qed
  qed
  show "dr_key r = OutcomeKey_new auth (the (tx_bounded_context t)) (tx_operation_id t)
      \<and> tx_bounded_context t \<noteq> None \<and> (\<exists>m. stored = Scoped m \<and> om_reference m = r)"
    if "detail = Some (r, d)"
    using prep auth that
    by (auto simp: prepare_stored_def result_simps split: if_splits elim!: prepare_ok)
qed

lemma append_transaction_inner_step:
  assumes inv: "store_inv E auth s" and run: "append_transaction_inner E store s t = (r, s')"
    and t: "valid_transaction t" and auth: "ms_authority store = auth"
  shows "store_inv E auth s'" and "store_before s s'"
proof -
  obtain J where J: "journal_of (sha256 E) s J"
    using inv by (rule store_inv_journal)
  from run t J have "store_inv E auth s' \<and> store_before s s'"
  proof (cases rule: append_transaction_inner_result)
    case unchanged
    then show ?thesis using inv store_before_refl by simp
  next
    case (committed proposal stored detail)
    let ?key = "transaction_key t" and ?ps = "tx_participants t"
    have c: "fmlookup (st_transactions s) ?key = None" "distinct (map tp_stream_id ?ps)"
      "\<forall>p \<in> set ?ps. fresh_participant (sha256 E) s p"
      using committed(2) by (auto simp: committable_def)
    note st = prepared_stored_ok [OF committed(4) auth c(2) J]
    have "fmlookup (st_details s) r = None" if "detail = Some (r, d)" for r d
    proof (rule ccontr)
      assume "fmlookup (st_details s) r \<noteq> None"
      then have "detail_owned s r"
        using store_inv_owned [OF inv] fmdomI by fastforce
      then show False
        using st(2) [OF that] c(1)
        by (auto simp: detail_owned_def OutcomeKey_new_def transaction_key_def)
    qed
    then have "detail_before (fmlookup (st_details s) r) (fmlookup (st_details s') r)" for r
      using committed(6) by (auto simp: commit_plan_sel detail_before_refl split: option.split)
    then have le: "store_before s s'"
      using install_all_before [OF c(2,3)] committed(6) fmsubset_upd_new [OF c(1)]
      by (simp add: store_before_def commit_plan_sel)
    have "journal_of (sha256 E) s' (foldl extend_participant J ?ps)"
      using install_all_refines [OF J c(2,3)] committed(6) by (simp add: commit_plan_sel)
    moreover have "st_event_count s' = journal_size s'"
      using inv committed(6)
      by (simp add: commit_plan_sel store_inv_def journal_size_install_all event_total_batches)
    moreover have "stored_ok E auth s' key x" if "fmlookup (st_transactions s') key = Some x" for key x
    proof (cases "key = ?key")
      case False
      then have "fmlookup (st_transactions s) key = Some x"
        using that committed(6) by (simp add: commit_plan_sel)
      then show ?thesis
        using store_inv_stored [OF inv] stored_ok_mono le by blast
    qed (use that st(1) committed(6) in \<open>simp add: commit_plan_sel\<close>)
    moreover have "detail_owned s' r" if r: "r |\<in>| fmdom (st_details s')" for r
    proof (cases "\<exists>d. detail = Some (r, d)")
      case True
      then show ?thesis
        using st(2) committed(6)
        by (auto simp: detail_owned_def commit_plan_sel OutcomeKey_new_def transaction_key_def)
    next
      case False
      then have "r |\<in>| fmdom (st_details s)"
        using r committed(6) by (auto simp: commit_plan_sel split: option.splits)
      then show ?thesis
        using store_inv_owned [OF inv] detail_owned_mono le by (auto simp: store_before_def)
    qed
    ultimately have "store_inv E auth s'"
      by (rule store_invI)
    with le show ?thesis by blast
  qed
  then show "store_inv E auth s'" and "store_before s s'" by blast+
qed

lemma expire_details_result:
  assumes run: "expire_details store s key revision = (r, s')"
  obtains (refused) e where "r = Inl e" "s' = s"
  | (withdrawn) m d where "key_authority key = ms_authority store"
      "fmlookup (st_transactions s) (Some (key_context key), key_operation key) = Some (Scoped m)"
      "om_revision m = revision" "fmlookup (st_details s) (om_reference m) = Some d"
      "r = Inr \<lparr>oe_revision = revision, oe_reclamation = Reclaimed\<rparr>"
      "s' = s\<lparr>st_details := fmupd (om_reference m) DetailExpired (st_details s)\<rparr>"
proof (cases "\<exists>e. r = Inl e")
  case True
  then show ?thesis
    using run refused by (auto simp: expire_details_def split: sum.splits option.splits
        stored_transaction.splits if_splits)
next
  case False
  then have auth: "key_authority key = ms_authority store"
    using run by (auto simp: expire_details_def validate_authority_def split: if_splits)
  moreover obtain m where
    m: "fmlookup (st_transactions s) (Some (key_context key), key_operation key) = Some (Scoped m)"
    using run False auth by (cases "fmlookup (st_transactions s) (Some (key_context key), key_operation key)")
      (auto simp: expire_details_def validate_authority_def split: stored_transaction.splits)
  moreover have rev: "om_revision m = revision"
    using run False auth m by (auto simp: expire_details_def validate_authority_def split: if_splits)
  moreover obtain d where d: "fmlookup (st_details s) (om_reference m) = Some d"
    using run False auth m rev by (cases "fmlookup (st_details s) (om_reference m)")
      (auto simp: expire_details_def validate_authority_def)
  ultimately show ?thesis
    using run withdrawn by (simp add: expire_details_def validate_authority_def)
qed

lemma expire_details_step:
  assumes inv: "store_inv E auth s" and run: "expire_details store s key revision = (r, s')"
  shows "store_inv E auth s'" and "store_before s s'"
proof -
  from run have "store_inv E auth s' \<and> store_before s s'"
  proof (cases rule: expire_details_result)
    case refused
    then show ?thesis using inv store_before_refl by simp
  next
    case (withdrawn m d)
    note 2 = withdrawn(4,6)
    have "detail_before (fmlookup (st_details s) x) (fmlookup (st_details s') x)" for x
      using 2 by (cases d) (auto simp: detail_before_refl)
    then have le: "store_before s s'"
      using 2(2) by (simp add: store_before_def fmsubset_refl)
    have own: "om_reference m |\<in>| fmdom (st_details s)"
      using 2(1) by (rule fmdomI)
    obtain J where "journal_of (sha256 E) s J"
      using inv by (rule store_inv_journal)
    then have "store_inv E auth s'"
      using inv 2(2) stored_ok_mono [OF _ le] store_inv_stored [OF inv] store_inv_owned [OF inv] own
      by (intro store_invI [of _ _ J]) (auto simp: detail_owned_def store_inv_def)
    with le show ?thesis by blast
  qed
  then show "store_inv E auth s'" and "store_before s s'" by blast+
qed

end
