(* ===== verification/Durability.thy ===== *)
theory Durability
  imports Coordinator
begin

text \<open>
  What the coordinator promises over time. \<open>store_step\<close> is one write through any handle of one
  authority; reads do not change the state. The interpretation \<open>mem\<close> gives the coordinator the
  lemmas of \<open>monotone_system\<close>: the invariant holds in every reachable state, and every later state
  extends the earlier one.
\<close>

section \<open>Steps\<close>

inductive store_step :: "externals \<Rightarrow> command_authority \<Rightarrow> memory_state \<Rightarrow> memory_state \<Rightarrow> bool"
  for E :: externals and auth :: command_authority
where
  step_append:
    "valid_batch b \<Longrightarrow> ms_authority store = auth \<Longrightarrow>
     append_batch (sha256 E) store s st expected b = (r, s') \<Longrightarrow> store_step E auth s s'"
| step_append_transaction:
    "valid_transaction t \<Longrightarrow> ms_authority store = auth \<Longrightarrow>
     append_transaction E store s t = (r', s') \<Longrightarrow> store_step E auth s s'"
| step_session_commit:
    "valid_transaction t \<Longrightarrow> ms_authority store = auth \<Longrightarrow>
     session_commit_outcome E store s seen t = (r'', s') \<Longrightarrow> store_step E auth s s'"
| step_commit_outcome:
    "valid_transaction t \<Longrightarrow> ms_authority store = auth \<Longrightarrow>
     commit_outcome E store s seen t = (r3, s') \<Longrightarrow> store_step E auth s s'"
| step_expire:
    "ms_authority store = auth \<Longrightarrow>
     expire_details store s key revision = (r4, s') \<Longrightarrow> store_step E auth s s'"

definition reachable :: "externals \<Rightarrow> command_authority \<Rightarrow> memory_state \<Rightarrow> bool" where
  "reachable E auth s \<longleftrightarrow> (store_step E auth)\<^sup>*\<^sup>* state_default s"

text \<open>Every committing path changes the state through \<open>append_transaction_inner\<close>.\<close>

lemma append_transaction_state:
  "append_transaction E store s t = (r, s') \<Longrightarrow>
     s' = s \<or> s' = snd (append_transaction_inner E store s t)"
  by (cases "append_transaction_inner E store s t")
    (auto simp: append_transaction_def split: if_splits sum.splits)

lemma session_commit_state:
  "session_commit_outcome E store s seen t = (r, s') \<Longrightarrow>
     s' = s \<or> s' = snd (append_transaction_inner E store s t)"
  by (cases "append_transaction_inner E store s t")
    (auto simp: session_commit_outcome_def split: sum.splits stored_transaction.splits)

lemma commit_outcome_state:
  "commit_outcome E store s seen t = (r, s') \<Longrightarrow>
     s' = s \<or> s' = snd (append_transaction_inner E store s t)"
  using session_commit_state [of E store s seen t]
  by (cases "session_commit_outcome E store s seen t")
    (auto simp: commit_outcome_def split: sum.splits)

lemma inner_snd_step:
  assumes "store_inv E auth s" and "valid_transaction t" and "ms_authority store = auth"
  shows "store_inv E auth (snd (append_transaction_inner E store s t))"
    and "store_before s (snd (append_transaction_inner E store s t))"
  using append_transaction_inner_step [OF assms(1) _ assms(2,3)] by (metis prod.collapse)+

lemma store_step_keeps:
  assumes "store_step E auth s s'" and inv: "store_inv E auth s"
  shows "store_inv E auth s' \<and> store_before s s'"
  using assms(1)
proof cases
  case (step_append b store st expected r)
  then show ?thesis
    using append_batch_step [OF inv step_append(3,1)] by blast
next
  case (step_append_transaction t store r)
  then show ?thesis
    using append_transaction_state inner_snd_step [OF inv] inv store_before_refl by blast
next
  case (step_session_commit t store seen r)
  then show ?thesis
    using session_commit_state inner_snd_step [OF inv] inv store_before_refl by blast
next
  case (step_commit_outcome t store seen r)
  then show ?thesis
    using commit_outcome_state inner_snd_step [OF inv] inv store_before_refl by blast
next
  case (step_expire store key revision r)
  then show ?thesis
    using expire_details_step [OF inv step_expire(2)] by blast
qed

interpretation mem: monotone_system "store_step E auth" "store_inv E auth" state_default store_before
  for E auth
proof unfold_locales
  show "store_inv E auth state_default" by (rule store_inv_default)
  show "store_inv E auth s \<Longrightarrow> store_step E auth s s' \<Longrightarrow> store_inv E auth s'" for s s'
    using store_step_keeps by blast
  show "store_before s s" for s by (rule store_before_refl)
  show "store_before s t \<Longrightarrow> store_before t u \<Longrightarrow> store_before s u" for s t u
    by (rule store_before_trans)
  show "store_inv E auth s \<Longrightarrow> store_step E auth s s' \<Longrightarrow> store_before s s'" for s s'
    using store_step_keeps by blast
qed

lemma reachable_inv: "reachable E auth s \<Longrightarrow> store_inv E auth s"
  unfolding reachable_def by (rule mem.reachable_invariant)

lemma reachable_journal:
  assumes "reachable E auth s"
  obtains J where "journal_of (sha256 E) s J"
  using reachable_inv [OF assms] by (rule store_inv_journal)

lemma reachable_later:
  "reachable E auth s \<Longrightarrow> (store_step E auth)\<^sup>*\<^sup>* s s' \<Longrightarrow> reachable E auth s'"
  unfolding reachable_def by (rule rtranclp_trans)

lemma later_before: "reachable E auth s \<Longrightarrow> (store_step E auth)\<^sup>*\<^sup>* s s' \<Longrightarrow> store_before s s'"
  unfolding reachable_def by (rule mem.reachable_before)

end
