(* ===== verification/Recovery.thy ===== *)
theory Recovery
  imports Durability
begin

text \<open>
  How a commit and the recovery of its outcome fit together in the in-memory coordinator: what a
  committing call stores, what a second call for the same operation does, and what a lookup of a
  stored marker returns.
\<close>

section \<open>Committing and resolving\<close>

text \<open>\<open>serde_json\<close> reads back the header it wrote.\<close>

definition header_roundtrip :: "externals \<Rightarrow> bool" where
  "header_roundtrip E \<longleftrightarrow>
     (\<forall>h bs. header_to_vec E h = Inr bs \<longrightarrow> header_from_slice E bs = Inr h)"

lemma resolve_marker_marker:
  "resolve_marker E store seen m = Inr outcome \<Longrightarrow> co_marker outcome = m"
  by (auto simp: resolve_marker_def completed_outcome_new_def result_simps)

lemma session_commit_ok:
  assumes "session_commit_outcome E store s seen t = (Inr r, s')"
  obtains m replay where "append_transaction_inner E store s t = (Inr (Scoped m, replay), s')"
    "validate_completed_transaction t = Inr ()"
    "resolve_marker E store (seen s') m = Inr (commit_result r)"
    "co_marker (commit_result r) = m"
    "r = (if replay then CommitExactReplay (commit_result r) else CommitAppended (commit_result r))"
proof -
  have v: "validate_completed_transaction t = Inr ()"
    using assms by (auto simp: session_commit_outcome_def split: sum.splits)
  obtain i s2 where run: "append_transaction_inner E store s t = (i, s2)"
    by fastforce
  obtain m replay where i: "i = Inr (Scoped m, replay)" "s2 = s'"
    using assms v run by (auto simp: session_commit_outcome_def split: sum.splits
        stored_transaction.splits)
  obtain outcome where res: "resolve_marker E store (seen s') m = Inr outcome"
    and r: "r = (if replay then CommitExactReplay outcome else CommitAppended outcome)"
    using assms v run i by (auto simp: session_commit_outcome_def result_simps)
  show ?thesis
    by (rule that [of m replay]) (use run i v res r resolve_marker_marker [OF res] in auto)
qed

lemma inner_known:
  assumes "fmlookup (st_transactions s) (transaction_key t) = Some previous"
  shows "snd (append_transaction_inner E store s t) = s"
    and "fst (append_transaction_inner E store s t) = Inr (stored, replay) \<Longrightarrow>
      stored = previous \<and> replay"
    and "proposal_digest_of E t = Inr d \<Longrightarrow> d \<noteq> stored_proposal previous \<Longrightarrow>
      fst (append_transaction_inner E store s t) = Inl e \<Longrightarrow>
      store_kind e = InvalidRequest \<or> store_kind e = IdentityConflict"
  using assms validate_transaction_item_limit_error [of t]
  by (auto simp: append_transaction_inner_def identity_conflict_def rbind_Inl_iff
      split: sum.splits if_splits)

lemma inner_committed:
  assumes inv: "store_inv E auth s" and t: "valid_transaction t"
    and run: "append_transaction_inner E store s t = (Inr (stored, False), s')"
  obtains proposal detail where "committable E store s t" "proposal_digest_of E t = Inr proposal"
    "prepare_stored E store t proposal (planned_receipt s t) = Inr (stored, detail)"
    "s' = committed_state s t stored detail"
proof -
  obtain J where J: "journal_of (sha256 E) s J"
    using inv by (rule store_inv_journal)
  from run t J show ?thesis
  proof (cases rule: append_transaction_inner_result)
    case unchanged
    then show ?thesis by auto
  next
    case (committed proposal stored' detail)
    then show ?thesis using that by auto
  qed
qed

text \<open>A marker of a well-formed state whose details are not withdrawn resolves to its details.\<close>

lemma resolve_active:
  assumes serde: "header_roundtrip E"
    and d: "fmlookup (st_details s) (om_reference m) = Some (Active bytes)"
      "details_for E (om_reference m) completion bytes"
    and hot: "ms_hot store = MemoryDetails"
  shows "resolve_marker E store (\<lambda>_. s) m = Inr \<lparr>co_marker = m, co_details =
    Available \<lparr>eo_reference = om_reference m, eo_completion = completion\<rparr>\<rparr>"
proof -
  have "details_decode E (om_reference m) bytes =
      Inr \<lparr>eo_reference = om_reference m, eo_completion = completion\<rparr>"
    by (rule details_decode_encode) (use serde d(2) in \<open>auto simp: details_for_def header_roundtrip_def\<close>)
  then show ?thesis
    using d(1) hot
    by (simp add: resolve_marker_def resolve_details_def run_reader_def memory_details_get_def
        completed_outcome_new_def validate_detail_binding_def)
qed

lemma resolve_expired:
  "fmlookup (st_details (seen 0)) (om_reference m) = Some DetailExpired \<Longrightarrow>
   resolve_marker E store seen m = Inr \<lparr>co_marker = m, co_details = Expired\<rparr>"
  by (simp add: resolve_marker_def completed_outcome_new_def validate_detail_binding_def)

lemma key_components [simp]:
  "key_authority (OutcomeKey_new a c op) = a"
  "key_context (OutcomeKey_new a c op) = c"
  "key_operation (OutcomeKey_new a c op) = op"
  by (simp_all add: OutcomeKey_new_def)

lemma lookup_scoped:
  assumes "fmlookup (st_transactions (seen 0)) (Some c, op) = Some (Scoped m)"
    and "resolve_marker E store (\<lambda>i. seen (Suc i)) m = Inr outcome"
  shows "lookup_outcome E store seen (OutcomeKey_new (ms_authority store) c op) =
    Inr (Completed outcome)"
  using assms by (simp add: lookup_outcome_def validate_authority_def)

lemma inner_error: "append_transaction_inner E store s t = (Inl e, s') \<Longrightarrow> s' = s"
  by (auto simp: append_transaction_inner_def split: sum.splits option.splits prod.splits if_splits)

lemma inner_replay: "append_transaction_inner E store s t = (Inr (stored, True), s') \<Longrightarrow> s' = s"
  by (auto simp: append_transaction_inner_def split: sum.splits option.splits prod.splits if_splits)

lemma inner_new:
  assumes "append_transaction_inner E store s t = (Inr (stored, False), s')"
  obtains proposal r detail where "prepare_stored E store t proposal r = Inr (stored, detail)"
proof -
  obtain n d where nd: "validate_transaction_item_limit t = Inr n" "proposal_digest_of E t = Inr d"
    using assms by (cases "validate_transaction_item_limit t"; cases "proposal_digest_of E t")
      (auto simp: append_transaction_inner_def)
  then obtain x where "plan_transaction E store s t n d = Inr x" "fst (snd (snd x)) = stored"
    using assms by (auto simp: append_transaction_inner_def split: option.splits if_splits sum.splits)
  then show ?thesis
    using that by (auto simp: plan_transaction_def result_simps split: if_splits)
qed

lemma prepare_stored_scoped:
  assumes "prepare_stored E store t proposal r = Inr (stored, detail)" and "tx_bounded_context t = Some c"
  obtains m where "stored = Scoped m" "dr_decision (om_reference m) = decision_of (tx_completion t)"
  using assms by (auto simp: prepare_stored_def result_simps elim!: prepare_ok)

lemma commit_step:
  assumes "valid_transaction t" and "ms_authority store = auth"
    and "session_commit_outcome E store s seen t = (r, s')"
  shows "store_step E auth s s'"
  using assms by (blast intro: step_session_commit)

lemma appended_commit:
  assumes inv: "store_inv E auth s" and t: "valid_transaction t"
    and run: "session_commit_outcome E store s seen t = (Inr (CommitAppended outcome), s')"
  shows "fmlookup (st_transactions s') (transaction_key t) = Some (Scoped (co_marker outcome))"
    and "fmlookup (st_transactions s) (transaction_key t) = None"
    and "append_transaction_inner E store s t = (Inr (Scoped (co_marker outcome), False), s')"
proof -
  from run obtain m replay where r: "append_transaction_inner E store s t = (Inr (Scoped m, replay), s')"
    "co_marker outcome = m" "\<not> replay"
    by (rule session_commit_ok) (auto split: if_splits)
  then show inner: "append_transaction_inner E store s t = (Inr (Scoped (co_marker outcome), False), s')"
    by simp
  from inv t inner obtain proposal detail where c: "committable E store s t"
    "s' = committed_state s t (Scoped (co_marker outcome)) detail"
    by (rule inner_committed)
  then show "fmlookup (st_transactions s') (transaction_key t) = Some (Scoped (co_marker outcome))"
    and "fmlookup (st_transactions s) (transaction_key t) = None"
    by (simp_all add: commit_plan_sel committable_def)
qed

text \<open>A committing call for an operation that already has an outcome.\<close>

lemma commit_known:
  assumes known: "fmlookup (st_transactions s) (transaction_key t) = Some (Scoped m)"
  shows "snd (session_commit_outcome E store s seen t) = s"
    and "fst (session_commit_outcome E store s seen t) = Inr r \<Longrightarrow>
      is_exact_replay r \<and> co_marker (commit_result r) = m"
proof -
  obtain i s' where run: "append_transaction_inner E store s t = (i, s')"
    by fastforce
  then have s': "s' = s"
    using inner_known(1) [OF known, of E store] by simp
  then show "snd (session_commit_outcome E store s seen t) = s"
    using run by (auto simp: session_commit_outcome_def split: sum.splits stored_transaction.splits)
  show "is_exact_replay r \<and> co_marker (commit_result r) = m"
    if "fst (session_commit_outcome E store s seen t) = Inr r"
  proof -
    have "session_commit_outcome E store s seen t =
        (Inr r, snd (session_commit_outcome E store s seen t))"
      using that by (metis prod.collapse)
    then show ?thesis
      by (rule session_commit_ok) (use inner_known(2) [OF known, of E store] in
          \<open>metis (no_types, lifting) fst_conv is_exact_replay.simps(2) stored_transaction.inject(1)\<close>)
  qed
qed

lemma lookup_reachable:
  assumes "store_inv E auth s" and "ms_authority store = auth" and "header_roundtrip E"
    and "ms_hot store = MemoryDetails" and "key_authority key = auth"
    and some: "fmlookup (st_transactions s) (Some (key_context key), key_operation key) = Some x"
  obtains outcome where "x = Scoped (co_marker outcome)"
    "lookup_outcome E store (\<lambda>_. s) key = Inr (Completed outcome)"
    "dr_key (om_reference (co_marker outcome)) = key"
    "validate_integrity (sha256 E) (om_integrity (co_marker outcome)) = Inr ()"
    "co_details outcome = Expired
     \<or> (\<exists>completion. co_details outcome = Available
          \<lparr>eo_reference = om_reference (co_marker outcome), eo_completion = completion\<rparr>)"
proof -
  from some have "stored_ok E auth s (Some (key_context key), key_operation key) x"
    by (rule store_inv_stored [OF assms(1)])
  then obtain m where x: "x = Scoped m"
    and m: "marker_ok E auth s (key_context key) (key_operation key) m"
    by (auto simp: stored_ok_def split: stored_transaction.splits)
  have key: "key = OutcomeKey_new (ms_authority store) (key_context key) (key_operation key)"
    using assms(2,5) by (simp add: OutcomeKey_new_def)
  obtain outcome where r: "resolve_marker E store (\<lambda>_. s) m = Inr outcome"
    and d: "co_details outcome = Expired \<or> (\<exists>completion. co_details outcome = Available
      \<lparr>eo_reference = om_reference m, eo_completion = completion\<rparr>)"
  proof (cases "fmlookup (st_details s) (om_reference m)")
    case None
    then show ?thesis using m by (simp add: marker_ok_def)
  next
    case (Some detail)
    show ?thesis
    proof (cases detail)
      case (Active bytes)
      then obtain completion where "details_for E (om_reference m) completion bytes"
        using m Some by (auto simp: marker_ok_def)
      then show ?thesis
        using resolve_active [OF assms(3) _ _ assms(4)] Some Active that by force
    next
      case DetailExpired
      then show ?thesis
        using resolve_expired [of "\<lambda>_. s"] Some that by force
    qed
  qed
  have "lookup_outcome E store (\<lambda>_. s) key = Inr (Completed outcome)"
    using lookup_scoped [of "\<lambda>_. s", OF _ r] some x key by metis
  moreover have "co_marker outcome = m"
    by (rule resolve_marker_marker [OF r])
  moreover have "dr_key (om_reference m) = key"
    "validate_integrity (sha256 E) (om_integrity m) = Inr ()"
    using m key assms(2) by (simp_all add: marker_ok_def)
  ultimately show ?thesis
    using that d x by blast
qed

end
