(* ===== verification/Scenario.thy ===== *)
theory Scenario
  imports Recovery
begin

text \<open>
  A small concrete run of the store, used to show that the hypotheses of the properties can hold
  together: one authority, one stream, one batch with one event, and one command in a bounded
  context. The externals are concrete functions: a constant digest and a serialiser that knows the
  one header the run writes.
\<close>

definition x_stream :: stream_id where "x_stream = StreamId ''order'' ''1''"
definition x_authority :: command_authority where "x_authority = ''memory:1:0''"
definition x_store :: memory_store where "x_store = memory_new x_authority"
definition x_sha :: "bytes \<Rightarrow> bytes" where "x_sha bs = []"

definition x_event :: new_event where
  "x_event = \<lparr>ne_event_id = ''event:'', ne_event_type = ''Placed'', ne_schema_version = 1,
              ne_payload = [1]\<rparr>"

definition x_batch :: event_batch where
  "x_batch = \<lparr>eb_actor = None, eb_commit_id = ''commit:'', eb_operation_id = ''op'',
              eb_operation_fingerprint = [], eb_events = [x_event], eb_correlation_id = Some ''op'',
              eb_causation_id = None\<rparr>"

definition x_recorded :: recorded_event where
  "x_recorded = RecordedEvent_from_new x_stream 1 x_batch 0 1 x_event"

definition x_evidence :: outcome_evidence where
  "x_evidence = \<lparr>ev_authority_scope = None, ev_created_at_millis = None,
     ev_fingerprint_version = 1, ev_command_type = ''rust:Place'', ev_command_schema = 1,
     ev_events_caused_by_command = False, ev_original_causation = None\<rparr>"

definition x_completion :: command_completion where
  "x_completion = completion_new (Some x_evidence) None"

definition x_transaction :: event_transaction where
  "x_transaction = (EventTransaction_new ''op'' []
     [\<lparr>tp_stream_id = x_stream, tp_expected_version = NoStream, tp_batch = Some x_batch\<rparr>])
     \<lparr>tx_bounded_context := Some ''sales'', tx_completion := Some x_completion,
      tx_correlation_id := Some ''op''\<rparr>"

definition x_key :: outcome_key where
  "x_key = OutcomeKey_new x_authority ''sales'' ''op''"

definition x_header :: detail_header where
  "x_header = detail_header_for (Some x_completion) x_key None None"

definition x_externals :: externals where
  "x_externals = \<lparr>sha256 = x_sha, json_to_vec = (\<lambda>_. Inr []), completion_to_vec = (\<lambda>_. Inr []),
     evidence_to_vec = (\<lambda>_. Inr []),
     header_to_vec = (\<lambda>h. if h = x_header then Inr [7] else Inl ''unknown header''),
     header_from_slice = (\<lambda>bs. if bs = [7] then Inr x_header else Inl ''unknown bytes''),
     manifest_to_vec = (\<lambda>_. Inl ''none''), manifest_from_slice = (\<lambda>_. Inl ''none'')\<rparr>"

lemmas x_defs = x_stream_def x_authority_def x_store_def x_sha_def x_event_def x_batch_def
  x_recorded_def x_evidence_def x_completion_def x_transaction_def x_key_def

lemmas x_externals_simps = x_externals_def

lemma x_sha256 [simp]: "sha256 x_externals = x_sha"
  by (simp add: x_externals_def)

lemma x_commit_id [simp]: "derive_commit_id x_sha st op = ''commit:''"
  by (simp add: derive_commit_id_frame x_sha_def encode_lower_hex_def)

lemma x_event_id [simp]: "derive_event_id x_sha c i = ''event:''"
  by (simp add: derive_event_id_frame x_sha_def encode_lower_hex_def)

lemma state_default_sel [simp]:
  "st_streams state_default = fmempty" "st_operations state_default = fmempty"
  "st_commits state_default = fmempty" "st_event_ids state_default = {}"
  "st_transactions state_default = fmempty" "st_details state_default = fmempty"
  "st_event_count state_default = 0"
  by (simp_all add: state_default_def)

lemma x_batch_sel [simp]:
  "eb_operation_id x_batch = ''op''" "eb_commit_id x_batch = ''commit:''"
  "eb_events x_batch = [x_event]" "eb_actor x_batch = None"
  "eb_correlation_id x_batch = Some ''op''" "eb_causation_id x_batch = None"
  "eb_operation_fingerprint x_batch = []"
  by (simp_all add: x_batch_def)

lemma x_batch_valid: "valid_batch x_batch"
  by (simp add: valid_batch_def max_events_per_batch_def)

lemma x_record: "record_batch x_stream 0 x_batch = Inr [x_recorded]"
  by (simp add: record_batch_def u32_try_from_def version_next_def checked_add_def x_recorded_def)

definition x_appended :: memory_state where
  "x_appended = (install_batch x_stream x_batch [x_recorded] Direct state_default)\<lparr>st_event_count := 1\<rparr>"

lemma x_derived: "validate_derived_identities x_sha x_stream x_batch = Inr ()"
  by (simp add: validate_derived_identities_def x_event_def u32_try_from_def)

lemma x_append:
  "append_batch x_sha x_store state_default x_stream NoStream x_batch =
     (Inr (Appended [x_recorded]), x_appended)"
proof -
  have "event_capacity x_store state_default 1 = Inr 1"
    by (simp add: event_capacity_def checked_add_usize_def x_store_def memory_new_def
        usize_bound_def)
  moreover have "current_version state_default x_stream = 0"
    by (simp add: current_version_def)
  ultimately show ?thesis
    using x_derived x_record
    by (simp add: append_batch_def validate_expected_version_def x_appended_def)
qed

lemma x_store_authority [simp]: "ms_authority x_store = x_authority"
  by (simp add: x_store_def memory_new_def)

lemma x_append_externals:
  "append_batch (sha256 x_externals) x_store state_default x_stream NoStream x_batch =
     (Inr (Appended [x_recorded]), x_appended)"
  using x_append by simp

lemma x_appended_load [simp]: "load x_appended x_stream = [x_recorded]"
  by (simp add: x_appended_def) (simp add: load_def)

lemma x_appended_reachable: "reachable x_externals x_authority x_appended"
proof -
  have "store_step x_externals x_authority state_default x_appended"
    using x_append_externals x_batch_valid x_store_authority by (blast intro: step_append)
  then show ?thesis
    unfolding reachable_def by (rule r_into_rtranclp)
qed

lemma x_default_reachable: "reachable E auth state_default"
  by (simp add: reachable_def)

section \<open>Committing the command\<close>

definition x_bytes :: bytes where "x_bytes = [0, 0, 0, 1, 7]"

definition x_digest :: proposal_digest where
  "x_digest = \<lparr>pd_version = 1, pd_digest = []\<rparr>"

definition x_receipt :: transaction_receipt where
  "x_receipt = (TransactionReceipt_new ''op'' []
     [\<lparr>sr_stream_id = x_stream, sr_base_version = 0, sr_events = [x_recorded]\<rparr>])
     \<lparr>tr_bounded_context := Some ''sales'', tr_correlation_id := Some ''op''\<rparr>"

definition x_reference :: detail_reference where
  "x_reference = \<lparr>dr_key = x_key, dr_security_scope = None, dr_actor = None,
     dr_decision = OutcomeAccepted, dr_format = 1, dr_length = 5, dr_digest = []\<rparr>"

definition x_marker :: outcome_marker where
  "x_marker = \<lparr>om_reference = x_reference, om_revision = [], om_proposal = x_digest,
     om_evidence = Some x_evidence, om_integrity = x_receipt\<rparr>"

definition x_outcome :: encoded_outcome where
  "x_outcome = \<lparr>co_marker = x_marker,
     co_details = Available \<lparr>eo_reference = x_reference, eo_completion = Some x_completion\<rparr>\<rparr>"

definition x_committed :: memory_state where
  "x_committed =
     (install_batch x_stream x_batch [x_recorded] Transaction state_default)
     \<lparr>st_event_count := 1,
      st_transactions := fmupd (Some ''sales'', ''op'') (Scoped x_marker) fmempty,
      st_details := fmupd x_reference (Active x_bytes) fmempty\<rparr>"

lemma x_transaction_sel [simp]:
  "tx_actor x_transaction = None" "tx_security_scope x_transaction = None"
  "tx_completion x_transaction = Some x_completion"
  "tx_bounded_context x_transaction = Some ''sales''" "tx_operation_id x_transaction = ''op''"
  "tx_operation_fingerprint x_transaction = []" "tx_correlation_id x_transaction = Some ''op''"
  "tx_causation_id x_transaction = None"
  "tx_participants x_transaction =
     [\<lparr>tp_stream_id = x_stream, tp_expected_version = NoStream, tp_batch = Some x_batch\<rparr>]"
  by (simp_all add: x_transaction_def EventTransaction_new_def)

lemma x_completion_valid: "completion_validate x_completion = Inr ()"
proof -
  have "\<not> has_control ''rust:Place''"
    by (simp add: has_control_def is_control_def chars_def)
  then show ?thesis
    by (simp add: completion_validate_def x_completion_def completion_new_def x_evidence_def
        evidence_validate_def)
qed

lemma x_completed_valid: "validate_completed_transaction x_transaction = Inr ()"
  using x_completion_valid
  by (simp add: validate_completed_transaction_def x_completion_def completion_new_def)

lemma x_items: "validate_transaction_item_limit x_transaction = Inr 1"
  by (simp add: validate_transaction_item_limit_ok_iff event_total_def guard_total_def tx_batches_def
      List.map_filter_simps max_transaction_items_def)

lemma x_proposal: "proposal_digest_of x_externals x_transaction = Inr x_digest"
  by (simp add: proposal_digest_of_def tx_batches_def List.map_filter_simps x_externals_def x_sha_def
      x_digest_def)

lemma x_transaction_valid: "valid_transaction x_transaction"
  by (simp add: valid_transaction_def x_batch_valid)

lemma x_stage:
  "collect_results (stage state_default) (tx_participants x_transaction) =
     Inr [(\<lparr>tp_stream_id = x_stream, tp_expected_version = NoStream, tp_batch = Some x_batch\<rparr>,
           0, [x_recorded])]"
  using x_record by (simp add: stage_def current_version_def)

lemma x_staged_receipt:
  "staged_receipt x_transaction
     [(\<lparr>tp_stream_id = x_stream, tp_expected_version = NoStream, tp_batch = Some x_batch\<rparr>,
       0, [x_recorded])] = x_receipt"
  by (simp add: staged_receipt_def x_receipt_def TransactionReceipt_new_def)

lemma x_integrity: "validate_integrity x_sha x_receipt = Inr ()"
  by (simp add: validate_integrity_def x_receipt_def TransactionReceipt_new_def u32_try_from_def
      version_next_def checked_add_def receipt_event_matches_def x_recorded_def x_event_def)

lemma x_proposal_valid: "validate_proposal x_sha x_receipt x_transaction = Inr ()"
  using x_completed_valid x_items x_integrity
  by (simp add: validate_proposal_def)
    (simp add: x_receipt_def TransactionReceipt_new_def validate_participant_receipt_def
      new_event_matches_def x_recorded_def)

lemma x_encode:
  "details_encode x_externals (Some x_completion) x_key None None = Inr x_bytes"
proof -
  have four: "(4::nat) = Suc (Suc (Suc (Suc 0)))"
    by simp
  have "be_bytes 4 1 = [0, 0, 0, 1]"
    unfolding four by simp
  then show ?thesis
    by (simp add: details_encode_ok_iff x_externals_def x_header_def take_payload_def
        x_completion_def completion_new_def x_bytes_def)
qed

lemma x_revision:
  "marker_revision x_externals x_reference x_digest (Some x_evidence) x_receipt = Inr []"
  by (simp add: marker_revision_def reference_encode_def integrity_digest_def x_externals_def
      x_sha_def Let_def)

lemma x_prepare: "prepare x_externals x_authority x_transaction x_receipt = Inr (x_marker, x_bytes)"
proof -
  have "(1::u16) = actor_format None" "decision_of (Some x_completion) = OutcomeAccepted"
    "length x_bytes = 5"
    by (simp_all add: actor_format_def decision_of_def x_completion_def completion_new_def x_bytes_def)
  then have ref: "x_reference = \<lparr>dr_key = x_key, dr_security_scope = None, dr_actor = None,
      dr_decision = decision_of (Some x_completion), dr_format = actor_format None,
      dr_length = length x_bytes, dr_digest = fingerprint_digest x_sha x_bytes\<rparr>"
    by (simp add: x_reference_def fingerprint_digest_def x_sha_def)
  have "without_completion x_receipt = x_receipt"
    by (simp add: without_completion_def x_receipt_def TransactionReceipt_new_def)
  moreover have "cc_evidence x_completion = Some x_evidence"
    "x_evidence\<lparr>ev_created_at_millis := None\<rparr> = x_evidence"
    by (simp_all add: x_completion_def completion_new_def x_evidence_def)
  ultimately show ?thesis
    using x_proposal_valid x_encode x_revision x_proposal ref
    by (simp add: prepare_def x_key_def [symmetric] x_marker_def)
qed

lemma x_plan:
  "plan_transaction x_externals x_store state_default x_transaction 1 x_digest =
     Inr (1, [(\<lparr>tp_stream_id = x_stream, tp_expected_version = NoStream,
                tp_batch = Some x_batch\<rparr>, 0, [x_recorded])],
          Scoped x_marker, Some (x_reference, Active x_bytes))"
proof -
  have "validate_transaction x_sha state_default x_transaction = Inr ()"
    using x_derived by (simp add: validate_transaction_def validate_participant_def
        current_version_def validate_expected_version_def)
  moreover have "event_capacity x_store state_default 1 = Inr 1"
    by (simp add: event_capacity_def checked_add_usize_def x_store_def memory_new_def usize_bound_def)
  moreover have "ms_authority x_store = x_authority" "0 < ms_maximum_outcomes x_store"
    by (simp_all add: x_store_def memory_new_def usize_bound_def)
  moreover have "om_reference x_marker = x_reference"
    by (simp add: x_marker_def)
  ultimately show ?thesis
    using x_stage x_staged_receipt x_prepare
    by (simp add: plan_transaction_def prepare_stored_def fcard_fempty)
qed

lemma x_inner:
  "append_transaction_inner x_externals x_store state_default x_transaction =
     (Inr (Scoped x_marker, False), x_committed)"
  using x_items x_proposal x_plan
  by (simp add: append_transaction_inner_def transaction_key_def commit_plan_def Let_def
      install_staged_def x_committed_def)

lemma x_decode:
  "details_decode x_externals x_reference x_bytes =
     Inr \<lparr>eo_reference = x_reference, eo_completion = Some x_completion\<rparr>"
proof (rule details_decode_encode)
  show "details_encode x_externals (Some x_completion) (dr_key x_reference)
      (dr_security_scope x_reference) (dr_actor x_reference) = Inr x_bytes"
    using x_encode by (simp add: x_reference_def)
qed (auto simp: x_reference_def x_externals_def x_header_def x_bytes_def actor_format_def
    fingerprint_digest_def x_sha_def decision_of_def x_completion_def completion_new_def
    x_completion_valid [unfolded x_completion_def completion_new_def] split: if_splits)

lemma x_resolve: "resolve_marker x_externals x_store (\<lambda>_. x_committed) x_marker = Inr x_outcome"
proof -
  have "om_reference x_marker = x_reference" "ms_hot x_store = MemoryDetails" "ms_cold x_store = None"
    by (simp_all add: x_marker_def x_store_def memory_new_def)
  then show ?thesis
    using x_decode
    by (simp add: resolve_marker_def x_committed_def resolve_details_def run_reader_def
        memory_details_get_def completed_outcome_new_def validate_detail_binding_def x_outcome_def)
qed

lemma x_commit:
  "session_commit_outcome x_externals x_store state_default (\<lambda>s i. s) x_transaction =
     (Inr (CommitAppended x_outcome), x_committed)"
  using x_completed_valid x_inner x_resolve by (simp add: session_commit_outcome_def)

lemma x_committed_reachable: "reachable x_externals x_authority x_committed"
proof -
  have "store_step x_externals x_authority state_default x_committed"
    using x_commit x_transaction_valid x_store_authority by (blast intro: step_session_commit)
  then show ?thesis
    unfolding reachable_def by (rule r_into_rtranclp)
qed

section \<open>Withdrawing the details\<close>

definition x_expired :: memory_state where
  "x_expired = x_committed\<lparr>st_details := fmupd x_reference DetailExpired (st_details x_committed)\<rparr>"

lemma x_committed_sel [simp]:
  "st_transactions x_committed = fmupd (Some ''sales'', ''op'') (Scoped x_marker) fmempty"
  "st_details x_committed = fmupd x_reference (Active x_bytes) fmempty"
  by (simp_all add: x_committed_def)

lemma x_marker_sel [simp]:
  "om_reference x_marker = x_reference" "om_revision x_marker = []"
  "om_integrity x_marker = x_receipt"
  by (simp_all add: x_marker_def)

lemma x_expire:
  "expire_details x_store x_committed x_key [] =
     (Inr \<lparr>oe_revision = [], oe_reclamation = Reclaimed\<rparr>, x_expired)"
  by (simp add: expire_details_def validate_authority_def x_key_def OutcomeKey_new_def x_expired_def)

lemma x_expire_step: "store_step x_externals x_authority x_committed x_expired"
  using x_expire x_store_authority by (blast intro: step_expire)

lemma x_header_roundtrip: "header_roundtrip x_externals"
  by (simp add: header_roundtrip_def x_externals_def)

end
