(* ===== verification/StoreProperties.thy ===== *)
theory StoreProperties
  imports Scenario
begin

text \<open>
  The properties of the in-memory event store: atomicity, contiguous histories, optimistic
  concurrency, exact replay and permanence of outcomes.
\<close>

section \<open>Lemmas\<close>

lemma expects_unique:
  "expects s st expected \<Longrightarrow> expects s' st expected \<Longrightarrow> length (load s st) = length (load s' st)"
  by (auto simp: expects_def split: expected_version.splits)

lemma appended_facts:
  assumes "reachable E auth s" and "valid_batch b"
    and "append_batch (sha256 E) store s st expected b = (Inr (Appended rs), s')"
  shows "expects s st expected" and "load s' st = load s st @ rs"
    and "fmlookup (st_operations s') (st, eb_operation_id b) =
      Some \<lparr>sa_batch = b, sa_events = rs, sa_provenance = Direct\<rparr>"
    and "st_event_count s' \<le> ms_maximum_events store"
    and "length rs = length (eb_events b)"
    and "st' \<noteq> st \<Longrightarrow> load s' st' = load s st'"
proof -
  obtain J where J: "journal_of (sha256 E) s J"
    using assms(1) by (rule reachable_journal)
  note res = append_batch_result [OF assms(3,2) J]
  show "expects s st expected" and "load s' st = load s st @ rs"
    and "fmlookup (st_operations s') (st, eb_operation_id b) =
      Some \<lparr>sa_batch = b, sa_events = rs, sa_provenance = Direct\<rparr>"
    and "st_event_count s' \<le> ms_maximum_events store"
    and "length rs = length (eb_events b)"
    and "st' \<noteq> st \<Longrightarrow> load s' st' = load s st'"
    using res by (auto simp: batch_length_def)
qed

lemma appended_nonempty:
  assumes "reachable E auth s" and "valid_batch b"
    and "append_batch (sha256 E) store s st expected b = (Inr (Appended rs), s')"
  shows "rs \<noteq> []"
  using appended_facts(5) [OF assms] assms(2) by (auto simp: valid_batch_def)

lemma append_batch_known:
  assumes "fmlookup (st_operations s) (st, eb_operation_id b) = Some previous"
  shows "append_batch sha store s st expected b =
    (if sa_provenance previous = Direct \<and> sa_batch previous = b
     then Inr (ExactReplay (sa_events previous))
     else if sa_provenance previous = Transaction
     then Inl (identity_conflict OperationUsedByTransaction)
     else Inl (identity_conflict OperationReused), s)"
  unfolding append_batch_def assms option.case ..

lemma append_step:
  assumes "valid_batch b" and "ms_authority store = auth"
    and "append_batch (sha256 E) store s st expected b = (r, s')"
  shows "store_step E auth s s'"
  using assms by (auto intro: step_append)

section \<open>Properties\<close>

text \<open>C6: Every stream of every reachable state passes the history check the executor runs before
  it rehydrates an aggregate: one stream, versions without gaps, whole commits, derived
  identities, no identity used twice.\<close>

theorem reachable_history_valid:
  assumes "reachable E auth s"
  shows "validate_history (sha256 E) st (load s st) = Inr ()"
  using assms by (rule reachable_journal) (rule journal_history)

theorem reachable_history_valid_witness:
  "reachable x_externals x_authority x_appended
   \<and> validate_history x_sha x_stream (load x_appended x_stream) = Inr ()
   \<and> load x_appended x_stream = [x_recorded]"
  using x_appended_reachable reachable_history_valid [OF x_appended_reachable, of x_stream]
  by simp

text \<open>In a reachable state the event with index \<open>i\<close> of a stream has version \<open>i + 1\<close>, and the
  event counter is the number of events of all streams, so neither versions nor the capacity
  check ever drift from what is stored.\<close>

theorem reachable_versions_and_count:
  assumes "reachable E auth s"
  shows "(\<forall>st i. i < length (load s st) \<longrightarrow> unat (re_stream_version (load s st ! i)) = i + 1)
    \<and> st_event_count s = (\<Sum>st \<in> fset (fmdom (st_streams s)). length (load s st))"
proof -
  obtain J where J: "journal_of (sha256 E) s J"
    using assms by (rule reachable_journal)
  have "st_event_count s = journal_size s"
    using reachable_inv [OF assms] by (simp add: store_inv_def)
  then show ?thesis
    using journal_nth_version [OF J] by (simp add: journal_size_def)
qed

theorem reachable_versions_and_count_witness:
  "reachable x_externals x_authority x_appended
   \<and> unat (re_stream_version (load x_appended x_stream ! 0)) = 1
   \<and> st_event_count x_appended = 1"
proof -
  have "unat (re_stream_version (load x_appended x_stream ! 0)) = 1"
    using reachable_versions_and_count [OF x_appended_reachable, THEN conjunct1, rule_format,
        of 0 x_stream] by simp
  then show ?thesis
    using x_appended_reachable by (simp add: x_appended_def)
qed

text \<open>An append that fails, on any of its branches, leaves the state as it was; so does one that
  replays.\<close>

theorem append_batch_atomic:
  "(\<forall>e. fst (append_batch sha store s st expected b) = Inl e
      \<longrightarrow> snd (append_batch sha store s st expected b) = s)
   \<and> (\<forall>rs. fst (append_batch sha store s st expected b) = Inr (ExactReplay rs)
      \<longrightarrow> snd (append_batch sha store s st expected b) = s)"
  by (simp add: append_batch_def split: option.split sum.split prod.split)

theorem append_batch_atomic_witness:
  "fst (append_batch x_sha x_store x_appended x_stream NoStream x_batch)
     = Inr (ExactReplay [x_recorded])
   \<and> snd (append_batch x_sha x_store x_appended x_stream NoStream x_batch) = x_appended"
proof -
  have "fst (append_batch x_sha x_store x_appended x_stream NoStream x_batch)
      = Inr (ExactReplay [x_recorded])"
    by (simp add: append_batch_def x_appended_def)
  then show ?thesis
    using append_batch_atomic [of x_sha x_store x_appended x_stream NoStream x_batch] by blast
qed

text \<open>An append that is accepted found the stream at the version the caller expected, adds the
  recorded events at the end of that stream, one per proposed event and with the versions that
  follow, touches no other stream and stays within the capacity of the handle.\<close>

theorem append_batch_accepts:
  assumes "reachable E auth s" and "valid_batch b" and "ms_authority store = auth"
    and "append_batch (sha256 E) store s st expected b = (Inr (Appended rs), s')"
  shows "(case expected of
            NoStream \<Rightarrow> load s st = []
          | Exact v \<Rightarrow> load s st \<noteq> [] \<and> length (load s st) = unat v)
    \<and> load s' st = load s st @ rs \<and> length rs = length (eb_events b)
    \<and> (\<forall>i < length rs. unat (re_stream_version (rs ! i)) = length (load s st) + i + 1)
    \<and> (\<forall>st'. st' \<noteq> st \<longrightarrow> load s' st' = load s st')
    \<and> st_event_count s' \<le> ms_maximum_events store"
proof -
  note f = appended_facts [OF assms(1,2,4)]
  have "reachable E auth s'"
    using reachable_later [OF assms(1)] append_step [OF assms(2-4)] by blast
  then obtain J where J: "journal_of (sha256 E) s' J"
    by (rule reachable_journal)
  have "unat (re_stream_version (rs ! i)) = length (load s st) + i + 1" if "i < length rs" for i
    using journal_nth_version [OF J, of "length (load s st) + i" st] that f(2)
    by (simp add: nth_append)
  then show ?thesis
    using f by (auto simp: expects_def split: expected_version.splits)
qed

theorem append_batch_accepts_witness:
  "append_batch x_sha x_store state_default x_stream NoStream x_batch =
     (Inr (Appended [x_recorded]), x_appended)
   \<and> load x_appended x_stream = load state_default x_stream @ [x_recorded]"
  using append_batch_accepts [OF x_default_reachable x_batch_valid x_store_authority
      x_append_externals] x_append
  by simp

text \<open>C36: Once an append was accepted, the same batch submitted again, through any handle, with any
  expected version and however much later, returns the recorded events as an exact replay and
  changes nothing; another batch under the same operation identity is refused for ever.\<close>

theorem append_replay_forever:
  assumes "reachable E auth s" and "valid_batch b" and "ms_authority store = auth"
    and "append_batch (sha256 E) store s st expected b = (Inr (Appended rs), s')"
    and "(store_step E auth)\<^sup>*\<^sup>* s' later"
  shows "append_batch (sha256 E) store' later st expected' b = (Inr (ExactReplay rs), later)
    \<and> (c \<noteq> b \<and> eb_operation_id c = eb_operation_id b \<longrightarrow>
         append_batch (sha256 E) store' later st expected' c =
           (Inl (identity_conflict OperationReused), later))"
proof -
  have "reachable E auth s'"
    using reachable_later [OF assms(1)] append_step [OF assms(2-4)] by blast
  then have "store_before s' later"
    using assms(5) by (rule later_before)
  then have known: "fmlookup (st_operations later) (st, eb_operation_id b) =
      Some \<lparr>sa_batch = b, sa_events = rs, sa_provenance = Direct\<rparr>"
    using appended_facts(3) [OF assms(1,2,4)] by (rule store_before_operation)
  show ?thesis
  proof (intro conjI impI)
    show "append_batch (sha256 E) store' later st expected' b = (Inr (ExactReplay rs), later)"
      by (simp add: append_batch_known [OF known])
    assume c: "c \<noteq> b \<and> eb_operation_id c = eb_operation_id b"
    then show "append_batch (sha256 E) store' later st expected' c =
        (Inl (identity_conflict OperationReused), later)"
      using append_batch_known [of later st c] known by auto
  qed
qed

theorem append_replay_forever_witness:
  "append_batch x_sha x_store state_default x_stream NoStream x_batch =
     (Inr (Appended [x_recorded]), x_appended)
   \<and> append_batch x_sha x_store x_appended x_stream (Exact 9) x_batch =
     (Inr (ExactReplay [x_recorded]), x_appended)"
  using append_replay_forever [OF x_default_reachable x_batch_valid x_store_authority
      x_append_externals rtranclp.rtrancl_refl, of x_store "Exact 9"] x_append
  by simp

text \<open>C8: No lost update. After an append was accepted at an expected version, no other append at
  that expected version is ever accepted on the stream: of all the writers that read the same
  state of a stream, one wins.\<close>

theorem append_no_lost_update:
  assumes "reachable E auth s" and "valid_batch b" and "ms_authority store = auth"
    and "append_batch (sha256 E) store s st expected b = (Inr (Appended rs), s')"
    and "(store_step E auth)\<^sup>*\<^sup>* s' later" and "valid_batch c"
  shows "fst (append_batch (sha256 E) store' later st expected c) \<noteq> Inr (Appended us)"
proof
  assume win: "fst (append_batch (sha256 E) store' later st expected c) = Inr (Appended us)"
  have s': "reachable E auth s'"
    using reachable_later [OF assms(1)] append_step [OF assms(2-4)] by blast
  then have later: "reachable E auth later"
    using assms(5) by (rule reachable_later)
  obtain later' where run: "append_batch (sha256 E) store' later st expected c =
      (Inr (Appended us), later')"
    using win by (cases "append_batch (sha256 E) store' later st expected c") simp
  have "length (load later st) = length (load s st)"
    using expects_unique appended_facts(1) [OF assms(1,2,4)] appended_facts(1) [OF later assms(6) run]
    by metis
  moreover obtain more where "load later st = load s' st @ more"
    using later_before [OF s' assms(5)] by (rule store_before_load)
  ultimately show False
    using appended_facts(2) [OF assms(1,2,4)] appended_nonempty [OF assms(1,2,4)] by simp
qed

theorem append_no_lost_update_witness:
  "append_batch x_sha x_store state_default x_stream NoStream x_batch =
     (Inr (Appended [x_recorded]), x_appended)
   \<and> fst (append_batch x_sha x_store x_appended x_stream NoStream
        (x_batch\<lparr>eb_operation_id := ''other''\<rparr>)) \<noteq> Inr (Appended [x_recorded])"
proof -
  have "valid_batch (x_batch\<lparr>eb_operation_id := ''other''\<rparr>)"
    using x_batch_valid by (simp add: valid_batch_def)
  then show ?thesis
    using append_no_lost_update [OF x_default_reachable x_batch_valid x_store_authority
        x_append_externals rtranclp.rtrancl_refl] x_append
    by simp
qed

end
