(* ===== verification/OutcomeProperties.thy ===== *)
theory OutcomeProperties
  imports Scenario
begin

text \<open>
  The properties of command outcomes in the in-memory store: atomic commit of events, guards and
  marker, one permanent winner per operation, recovery of the decision and its withdrawal.
\<close>

section \<open>Properties\<close>

text \<open>C7: A transaction that is refused leaves no trace: whichever check fails, in whichever
  participant, no stream, index, counter, marker or detail changes. A call whose decision was
  written can only fail while it reads the details back, and says so in the origin of its error.\<close>

theorem transaction_atomic:
  "(fst (append_transaction E store s t) = Inl e \<longrightarrow> snd (append_transaction E store s t) = s)
   \<and> (fst (session_commit_outcome E store s seen t) = Inl e \<and> store_origin e = Backend
      \<longrightarrow> snd (session_commit_outcome E store s seen t) = s)"
proof (intro conjI impI)
  obtain i s' where run: "append_transaction_inner E store s t = (i, s')"
    by fastforce
  show "snd (append_transaction E store s t) = s" if err: "fst (append_transaction E store s t) = Inl e"
  proof (rule ccontr)
    assume changed: "snd (append_transaction E store s t) \<noteq> s"
    then have comp: "tx_completion t = None" and s': "s' \<noteq> s"
      using run by (auto simp: append_transaction_def split: if_splits sum.splits)
    then obtain stored where i: "i = Inr (stored, False)"
      using run inner_error inner_replay by (cases i) (auto, metis (full_types))
    then obtain proposal r detail where prep: "prepare_stored E store t proposal r = Inr (stored, detail)"
      using run inner_new by blast
    have "acceptance stored \<noteq> Inl e'" for e'
    proof (cases "tx_bounded_context t")
      case None
      with prep show ?thesis by (auto simp: prepare_stored_def)
    next
      case (Some c)
      with prep obtain m where "stored = Scoped m"
        "dr_decision (om_reference m) = decision_of (tx_completion t)"
        by (rule prepare_stored_scoped)
      with comp show ?thesis by (simp add: decision_of_def)
    qed
    with err run i comp show False
      by (auto simp: append_transaction_def rbind_Inl_iff)
  qed
  show "snd (session_commit_outcome E store s seen t) = s"
    if err: "fst (session_commit_outcome E store s seen t) = Inl e \<and> store_origin e = Backend"
  proof (rule ccontr)
    assume changed: "snd (session_commit_outcome E store s seen t) \<noteq> s"
    then have v: "validate_completed_transaction t = Inr ()" and s': "s' \<noteq> s"
      using run by (auto simp: session_commit_outcome_def split: sum.splits stored_transaction.splits)
    then obtain stored where i: "i = Inr (stored, False)"
      using run inner_error inner_replay by (cases i) (auto, metis (full_types))
    obtain c where "tx_bounded_context t = Some c"
      using v validate_completed_transaction_ok_iff [of t] by auto
    then obtain m where "stored = Scoped m"
      using run i inner_new prepare_stored_scoped by metis
    then show False
      using err v run i
      by (auto simp: session_commit_outcome_def rbind_Inl_iff map_err_Inl_iff)
  qed
qed

theorem transaction_atomic_witness:
  "fst (append_transaction x_externals x_store x_appended x_transaction)
     = Inl (invalid UseCommitOutcome)
   \<and> snd (append_transaction x_externals x_store x_appended x_transaction) = x_appended"
proof -
  have "fst (append_transaction x_externals x_store x_appended x_transaction)
      = Inl (invalid UseCommitOutcome)"
    by (simp add: append_transaction_def)
  then show ?thesis
    using transaction_atomic [of x_externals x_store x_appended x_transaction] by blast
qed

text \<open>C5: Single winner. Once a command outcome was committed for an operation, its marker stays the
  stored one in every later state; every later commit for the same context and operation, with
  whatever content and through whatever handle, changes nothing, and if it succeeds it is an exact
  replay of that winner.\<close>

theorem commit_single_winner:
  assumes "reachable E auth s" and "valid_transaction t" and "ms_authority store = auth"
    and "session_commit_outcome E store s seen t = (Inr (CommitAppended outcome), s')"
    and "(store_step E auth)\<^sup>*\<^sup>* s' later"
    and "transaction_key u = transaction_key t"
  shows "fmlookup (st_transactions later) (transaction_key t) = Some (Scoped (co_marker outcome))
    \<and> snd (session_commit_outcome E store' later seen' u) = later
    \<and> (\<forall>r. fst (session_commit_outcome E store' later seen' u) = Inr r
         \<longrightarrow> is_exact_replay r \<and> co_marker (commit_result r) = co_marker outcome)"
proof -
  have "reachable E auth s'"
    using reachable_later [OF assms(1)] commit_step [OF assms(2-4)] by blast
  then have "store_before s' later"
    using assms(5) by (rule later_before)
  then have known: "fmlookup (st_transactions later) (transaction_key t) =
      Some (Scoped (co_marker outcome))"
    using appended_commit(1) [OF reachable_inv [OF assms(1)] assms(2,4)]
    by (rule store_before_transaction)
  then show ?thesis
    using commit_known [of later u] assms(6) by simp
qed

theorem commit_single_winner_witness:
  "session_commit_outcome x_externals x_store state_default (\<lambda>s i. s) x_transaction =
     (Inr (CommitAppended x_outcome), x_committed)
   \<and> snd (session_commit_outcome x_externals x_store x_committed (\<lambda>s i. s) x_transaction)
     = x_committed"
  using commit_single_winner [OF x_default_reachable x_transaction_valid x_store_authority x_commit
      rtranclp.rtrancl_refl refl] x_commit
  by blast

text \<open>C24: Recovery. What a committing call stores can be read back: the outcome it returns carries the
  completion of the transaction (acceptance or encoded rejection), a lookup under the key finds
  exactly that outcome, and inlining it gives the receipt of the commit with that completion.\<close>

theorem commit_lookup_roundtrip:
  assumes "reachable E auth s" and "valid_transaction t" and "ms_authority store = auth"
    and "header_roundtrip E" and "ms_hot store = MemoryDetails"
    and "tx_bounded_context t = Some c"
    and "session_commit_outcome E store s (\<lambda>s i. s) t = (Inr (CommitAppended outcome), s')"
  shows "lookup_outcome E store (\<lambda>_. s') (OutcomeKey_new auth c (tx_operation_id t))
      = Inr (Completed outcome)
    \<and> co_details outcome = Available \<lparr>eo_reference = om_reference (co_marker outcome),
        eo_completion = tx_completion t\<rparr>
    \<and> to_inline outcome = Inr ((planned_receipt s t)\<lparr>tr_completion := tx_completion t\<rparr>)"
proof -
  note inv = reachable_inv [OF assms(1)]
  let ?m = "co_marker outcome"
  from assms(7) have v: "validate_completed_transaction t = Inr ()"
    by (rule session_commit_ok)
  have resolved: "resolve_marker E store (\<lambda>_. s') ?m = Inr outcome"
    using assms(7) by (rule session_commit_ok) (simp split: if_splits)
  note known = appended_commit [OF inv assms(2,7)]
  from inv assms(2) known(3) obtain proposal detail where
    prep: "prepare_stored E store t proposal (planned_receipt s t) = Inr (Scoped ?m, detail)"
    and s': "s' = committed_state s t (Scoped ?m) detail"
    by (rule inner_committed)
  then obtain bytes where prepared: "prepare E auth t (planned_receipt s t) = Inr (?m, bytes)"
    and detail: "detail = Some (om_reference ?m, Active bytes)"
    using assms(3,6) by (auto simp: prepare_stored_def result_simps)
  from prepared have encoded: "details_for E (om_reference ?m) (tx_completion t) bytes"
    and integ: "om_integrity ?m = without_completion (planned_receipt s t)"
    by (rule prepare_ok, use v in \<open>auto simp: details_for_def validate_completed_transaction_ok_iff\<close>)+
  have "fmlookup (st_details s') (om_reference ?m) = Some (Active bytes)"
    using s' detail by (simp add: commit_plan_sel)
  then have out: "outcome = \<lparr>co_marker = ?m, co_details =
      Available \<lparr>eo_reference = om_reference ?m, eo_completion = tx_completion t\<rparr>\<rparr>"
    using resolve_active [OF assms(4) _ encoded assms(5)] resolved by simp
  obtain completion where "tx_completion t = Some completion"
    using v by (auto simp: validate_completed_transaction_ok_iff)
  then have "to_inline outcome = Inr ((planned_receipt s t)\<lparr>tr_completion := tx_completion t\<rparr>)"
    using integ by (subst out) (simp add: to_inline_def validate_detail_binding_def
        details_available_def without_completion_def)
  moreover have "lookup_outcome E store (\<lambda>_. s') (OutcomeKey_new auth c (tx_operation_id t))
      = Inr (Completed outcome)"
    using lookup_scoped [of "\<lambda>_. s'" c "tx_operation_id t" ?m E store outcome] known(1) resolved
      assms(3,6) by (simp add: transaction_key_def)
  moreover have "co_details outcome = Available \<lparr>eo_reference = om_reference ?m,
      eo_completion = tx_completion t\<rparr>"
    by (subst out) simp
  ultimately show ?thesis by blast
qed

theorem commit_lookup_roundtrip_witness:
  "session_commit_outcome x_externals x_store state_default (\<lambda>s i. s) x_transaction =
     (Inr (CommitAppended x_outcome), x_committed)
   \<and> lookup_outcome x_externals x_store (\<lambda>_. x_committed) x_key = Inr (Completed x_outcome)"
proof -
  have "ms_hot x_store = MemoryDetails"
    by (simp add: x_store_def memory_new_def)
  then show ?thesis
    using commit_lookup_roundtrip [OF x_default_reachable x_transaction_valid x_store_authority
        x_header_roundtrip _ _ x_commit, of "''sales''"] x_commit
    by (simp add: x_key_def)
qed

text \<open>C25: Withdrawal is final. After \<open>expire_details\<close> succeeded, every lookup of the key in every
  later state, through any handle of the authority and whatever its readers would return, finds
  the command completed with its details expired: never missing, so the command is never
  evaluated again, and never available.\<close>

theorem expiry_permanent:
  assumes "reachable E auth s" and "ms_authority store = auth"
    and "expire_details store s key revision = (Inr expiry, s')"
    and "\<forall>i. (store_step E auth)\<^sup>*\<^sup>* s' (seen i)"
    and "ms_authority store' = auth"
  shows "\<exists>m. om_revision m = revision
    \<and> lookup_outcome E store' seen key = Inr (Completed \<lparr>co_marker = m, co_details = Expired\<rparr>)"
  using assms(3)
proof (cases rule: expire_details_result)
  case (withdrawn m d)
  have "store_step E auth s s'"
    using assms(2,3) by (blast intro: step_expire)
  then have s': "reachable E auth s'"
    using reachable_later [OF assms(1)] by blast
  then have le: "store_before s' (seen i)" for i
    using later_before assms(4) by blast
  have "fmlookup (st_transactions (seen 0)) (Some (key_context key), key_operation key) =
      Some (Scoped m)"
    by (rule store_before_transaction [OF le]) (simp add: withdrawn(2,6))
  moreover have "fmlookup (st_details (seen (Suc 0))) (om_reference m) = Some DetailExpired"
    by (rule store_before_expired [OF le]) (simp add: withdrawn(6))
  then have "resolve_marker E store' (\<lambda>i. seen (Suc i)) m =
      Inr \<lparr>co_marker = m, co_details = Expired\<rparr>"
    by (rule resolve_expired)
  moreover have "key = OutcomeKey_new (ms_authority store') (key_context key) (key_operation key)"
    using withdrawn(1) assms(2,5) by (simp add: OutcomeKey_new_def)
  ultimately have "lookup_outcome E store' seen key =
      Inr (Completed \<lparr>co_marker = m, co_details = Expired\<rparr>)"
    using lookup_scoped [of seen "key_context key" "key_operation key" m E store'] by metis
  then show ?thesis
    using withdrawn(3) by blast
qed simp

theorem expiry_permanent_witness:
  "expire_details x_store x_committed x_key [] =
     (Inr \<lparr>oe_revision = [], oe_reclamation = Reclaimed\<rparr>, x_expired)
   \<and> (\<exists>m. om_revision m = [] \<and> lookup_outcome x_externals x_store (\<lambda>_. x_expired) x_key
        = Inr (Completed \<lparr>co_marker = m, co_details = Expired\<rparr>))"
  using expiry_permanent [OF x_committed_reachable x_store_authority x_expire _ x_store_authority,
      of "\<lambda>_. x_expired"] x_expire
  by blast

text \<open>A lookup that nobody interrupts succeeds in every reachable state: it finds no outcome, or
  the marker bound to exactly the key asked for, whose details are withdrawn or decode. Neither a
  missing lifecycle record nor corrupt details can arise from the operations of the store.\<close>

theorem lookup_never_fails:
  assumes "reachable E auth s" and "ms_authority store = auth" and "header_roundtrip E"
    and "ms_hot store = MemoryDetails" and "key_authority key = auth"
  shows "lookup_outcome E store (\<lambda>_. s) key = Inr Missing
    \<or> (\<exists>outcome. lookup_outcome E store (\<lambda>_. s) key = Inr (Completed outcome)
        \<and> dr_key (om_reference (co_marker outcome)) = key
        \<and> validate_integrity (sha256 E) (om_integrity (co_marker outcome)) = Inr ()
        \<and> (co_details outcome = Expired
           \<or> (\<exists>completion. co_details outcome = Available
                \<lparr>eo_reference = om_reference (co_marker outcome), eo_completion = completion\<rparr>)))"
proof (cases "fmlookup (st_transactions s) (Some (key_context key), key_operation key)")
  case None
  then show ?thesis
    using assms(2,5) by (simp add: lookup_outcome_def validate_authority_def)
next
  case (Some x)
  with reachable_inv [OF assms(1)] assms(2-5) show ?thesis
    by (rule lookup_reachable) blast
qed

theorem lookup_never_fails_witness:
  "(\<forall>e. lookup_outcome x_externals x_store (\<lambda>_. x_committed) x_key \<noteq> Inl e)
   \<and> reachable x_externals x_authority x_committed"
proof -
  have "ms_hot x_store = MemoryDetails" "key_authority x_key = x_authority"
    by (simp_all add: x_store_def memory_new_def x_key_def)
  then show ?thesis
    using lookup_never_fails [OF x_committed_reachable x_store_authority x_header_roundtrip]
      x_committed_reachable
    by fastforce
qed

text \<open>C37: A read that was admitted before a withdrawal and reads the payload after it reports the
  details as missing, which the executor classifies as corrupt history, although the details were
  withdrawn on purpose.\<close>

theorem admitted_read_races_expiry:
  "\<exists>E store s s' key m. reachable E (ms_authority store) s
     \<and> store_step E (ms_authority store) s s'
     \<and> lookup_outcome E store (\<lambda>i. if i < 2 then s else s') key =
         Inr (Completed \<lparr>co_marker = m, co_details = DetailsUnavailable MissingDetails\<rparr>)
     \<and> lookup_outcome E store (\<lambda>_. s') key =
         Inr (Completed \<lparr>co_marker = m, co_details = Expired\<rparr>)"
proof -
  have hot: "ms_hot x_store = MemoryDetails" "ms_cold x_store = None"
    by (simp_all add: x_store_def memory_new_def)
  have "resolve_marker x_externals x_store (\<lambda>i. if Suc i < 2 then x_committed else x_expired)
      x_marker = Inr \<lparr>co_marker = x_marker, co_details = DetailsUnavailable MissingDetails\<rparr>"
    by (simp add: resolve_marker_def resolve_details_def run_reader_def hot
        memory_details_get_def x_expired_def completed_outcome_new_def validate_detail_binding_def)
  then have "lookup_outcome x_externals x_store (\<lambda>i. if i < 2 then x_committed else x_expired) x_key
      = Inr (Completed \<lparr>co_marker = x_marker, co_details = DetailsUnavailable MissingDetails\<rparr>)"
    using lookup_scoped [of "\<lambda>i. if i < 2 then x_committed else x_expired" "''sales''" "''op''"
        x_marker x_externals x_store]
    by (simp add: x_key_def)
  moreover have "lookup_outcome x_externals x_store (\<lambda>_. x_expired) x_key
      = Inr (Completed \<lparr>co_marker = x_marker, co_details = Expired\<rparr>)"
    using lookup_scoped [of "\<lambda>_. x_expired" "''sales''" "''op''" x_marker x_externals x_store]
      resolve_expired [of "\<lambda>_. x_expired" x_marker]
    by (simp add: x_key_def x_expired_def)
  ultimately show ?thesis
    using x_committed_reachable x_expire_step x_store_authority by metis
qed

end
