(* ===== verification/Aggregates.thy ===== *)
theory Aggregates
  imports Recovery
begin

text \<open>
  Aggregates and their codecs: \<open>rostfrei-core/src/aggregate.rs\<close>, \<open>codecs.rs\<close> and the retry policies
  of \<open>conflict_retry.rs\<close>. An implementation of the traits \<open>Aggregate\<close> and \<open>Event\<close> is application
  code and appears as a record of its items; \<open>'st\<close> and \<open>'ev\<close> stand for the states and events of
  all aggregates of an application, and \<open>am_model\<close> for the \<open>TypeId\<close> of one of them.
\<close>

section \<open>Aggregates\<close>

record ('st, 'ev) aggregate_model =
  am_model :: nat
  am_bounded_context :: string
  am_aggregate_type :: string
  am_initial :: "stream_id \<Rightarrow> 'st"
  am_apply :: "'st \<Rightarrow> 'ev \<Rightarrow> 'st"
  am_event_type :: "'ev \<Rightarrow> string"
  am_schema_version :: "'ev \<Rightarrow> u32"
  am_encode_json :: "'ev \<Rightarrow> event_codec_error + bytes"
  am_decode_json :: "recorded_event \<Rightarrow> event_codec_error + 'ev"

record 'ev event_codec =
  ec_encode :: "'ev \<Rightarrow> event_id \<Rightarrow> event_codec_error + new_event"
  ec_decode :: "recorded_event \<Rightarrow> event_codec_error + 'ev"

text \<open>The observers \<open>CommandExecution::load\<close> installs: the token of the load, which is the position
  of its tracker, with the commit identity and the codec the closures capture.\<close>

record 'ev observer =
  ob_token :: nat
  ob_commit_id :: commit_id
  ob_codec :: "'ev event_codec"

record ('st, 'ev) aggregate_instance =
  ai_stream_id :: stream_id
  ai_state :: 'st
  ai_uncommitted_events :: "'ev list"
  ai_observer :: "'ev observer option"

definition instance_new ::
  "('st, 'ev) aggregate_model \<Rightarrow> stream_id \<Rightarrow> ('st, 'ev) aggregate_instance" where
  "instance_new A stream =
     \<lparr>ai_stream_id = stream, ai_state = am_initial A stream, ai_uncommitted_events = [],
      ai_observer = None\<rparr>"

definition instance_rehydrate ::
  "('st, 'ev) aggregate_model \<Rightarrow> stream_id \<Rightarrow> 'ev list \<Rightarrow> ('st, 'ev) aggregate_instance" where
  "instance_rehydrate A stream events =
     foldl (\<lambda>aggregate event. aggregate\<lparr>ai_state := am_apply A (ai_state aggregate) event\<rparr>)
       (instance_new A stream) events"

definition observe_raised_events ::
  "'ev observer \<Rightarrow> ('st, 'ev) aggregate_instance \<Rightarrow> ('st, 'ev) aggregate_instance" where
  "observe_raised_events observer aggregate = aggregate\<lparr>ai_observer := Some observer\<rparr>"

definition is_observed_by :: "('st, 'ev) aggregate_instance \<Rightarrow> nat \<Rightarrow> bool" where
  "is_observed_by aggregate token \<longleftrightarrow>
     (case ai_observer aggregate of None \<Rightarrow> False | Some o' \<Rightarrow> ob_token o' = token)"

section \<open>Codecs\<close>

definition json_event_encode ::
  "('st, 'ev) aggregate_model \<Rightarrow> 'ev \<Rightarrow> event_id \<Rightarrow> event_codec_error + new_event" where
  "json_event_encode A event event_id =
     rbind (am_encode_json A event) (\<lambda>payload.
     map_err (\<lambda>e. codec_error_new InvalidEnvelope (Rendered_envelope e))
       (NewEvent_new event_id (am_event_type A event) (am_schema_version A event) payload))"

definition json_event_codec :: "('st, 'ev) aggregate_model \<Rightarrow> 'ev event_codec" where
  "json_event_codec A = \<lparr>ec_encode = json_event_encode A, ec_decode = am_decode_json A\<rparr>"

datatype codec_registration_error =
  SharedConfiguration
| InvalidAggregateType identity_error
| DuplicateCodec aggregate_type
| ModelConflict aggregate_type

datatype codec_validation_error =
  UnregisteredCodec aggregate_type
| CodecEvent stream_id string u32 event_codec_error

text \<open>An entry keeps the model its codec was registered for: the type-erased validator applies it.\<close>

record ('st, 'ev) codec_entry =
  ce_model :: "('st, 'ev) aggregate_model"
  ce_codec :: "'ev event_codec"

type_synonym ('st, 'ev) aggregate_codecs = "(aggregate_type, ('st, 'ev) codec_entry) fmap"

definition codecs_insert ::
  "('st, 'ev) aggregate_codecs \<Rightarrow> ('st, 'ev) aggregate_model \<Rightarrow> 'ev event_codec \<Rightarrow> bool \<Rightarrow>
   codec_registration_error + ('st, 'ev) aggregate_codecs" where
  "codecs_insert entries A codec replace =
     rbind (map_err InvalidAggregateType (AggregateType_new (am_aggregate_type A)))
       (\<lambda>aggregate_type.
     rbind (case fmlookup entries aggregate_type of
              None \<Rightarrow> Inr ()
            | Some entry \<Rightarrow>
                if am_model (ce_model entry) \<noteq> am_model A then Inl (ModelConflict aggregate_type)
                else if \<not> replace then Inl (DuplicateCodec aggregate_type)
                else Inr ()) (\<lambda>_.
     Inr (fmupd aggregate_type \<lparr>ce_model = A, ce_codec = codec\<rparr> entries)))"

definition codecs_register ::
  "('st, 'ev) aggregate_codecs \<Rightarrow> ('st, 'ev) aggregate_model \<Rightarrow> 'ev event_codec \<Rightarrow>
   codec_registration_error + ('st, 'ev) aggregate_codecs" where
  "codecs_register entries A codec = codecs_insert entries A codec False"

definition codecs_register_json ::
  "('st, 'ev) aggregate_codecs \<Rightarrow> ('st, 'ev) aggregate_model \<Rightarrow>
   codec_registration_error + ('st, 'ev) aggregate_codecs" where
  "codecs_register_json entries A = codecs_register entries A (json_event_codec A)"

definition codecs_replace ::
  "('st, 'ev) aggregate_codecs \<Rightarrow> ('st, 'ev) aggregate_model \<Rightarrow> 'ev event_codec \<Rightarrow>
   codec_registration_error + ('st, 'ev) aggregate_codecs" where
  "codecs_replace entries A codec = codecs_insert entries A codec True"

definition codecs_resolve ::
  "('st, 'ev) aggregate_codecs \<Rightarrow> ('st, 'ev) aggregate_model \<Rightarrow>
   event_codec_error + 'ev event_codec" where
  "codecs_resolve entries A =
     rbind (map_err (\<lambda>e. codec_error_new InvalidEnvelope (Rendered_identity e))
              (AggregateType_new (am_aggregate_type A))) (\<lambda>aggregate_type.
     case fmlookup entries aggregate_type of
       None \<Rightarrow> Inr (json_event_codec A)
     | Some entry \<Rightarrow>
         if am_model (ce_model entry) = am_model A then Inr (ce_codec entry)
         else Inl (codec_error_new InvalidEnvelope (Execution_text ForeignModel)))"

definition codecs_contains :: "('st, 'ev) aggregate_codecs \<Rightarrow> aggregate_type \<Rightarrow> bool" where
  "codecs_contains entries aggregate_type \<longleftrightarrow> fmlookup entries aggregate_type \<noteq> None"

text \<open>\<open>TypedValidator::validate\<close>: decodes and applies, exposing no state.\<close>

fun validate_events ::
  "('st, 'ev) codec_entry \<Rightarrow> stream_id \<Rightarrow> 'st \<Rightarrow> recorded_event list \<Rightarrow>
   codec_validation_error + unit" where
  "validate_events entry stream state [] = Inr ()"
| "validate_events entry stream state (event # events) =
     rbind (map_err (CodecEvent stream (re_event_type event) (re_schema_version event))
              (if re_stream_id event = stream then ec_decode (ce_codec entry) event
               else Inl (codec_error_new InvalidEnvelope (Execution_text ForeignStreamEvent))))
       (\<lambda>decoded.
     validate_events entry stream (am_apply (ce_model entry) state decoded) events)"

definition codecs_validate_history ::
  "('st, 'ev) aggregate_codecs \<Rightarrow> stream_id \<Rightarrow> recorded_event list \<Rightarrow>
   codec_validation_error + unit" where
  "codecs_validate_history entries stream events =
     (case fmlookup entries (stream_aggregate_type stream) of
        None \<Rightarrow> Inl (UnregisteredCodec (stream_aggregate_type stream))
      | Some entry \<Rightarrow> validate_events entry stream (am_initial (ce_model entry) stream) events)"

section \<open>Retry policies\<close>

record conflict_retry =
  cr_evaluations :: nat
  cr_error :: event_store_error

datatype conflict_retry_decision = Stop | RetryNow | RetryAfter nat

type_synonym conflict_retry_policy = "conflict_retry \<Rightarrow> conflict_retry_decision"

definition bounded_conflict_retries :: "nat \<Rightarrow> conflict_retry_policy" where
  "bounded_conflict_retries maximum conflict =
     (if cr_evaluations conflict \<le> maximum then RetryNow else Stop)"

definition default_conflict_retries :: conflict_retry_policy where
  "default_conflict_retries = bounded_conflict_retries 3"

definition no_conflict_retries :: conflict_retry_policy where
  "no_conflict_retries conflict = Stop"

text \<open>The contract the executor relies on to return: a policy that stops after some number of
  evaluations.\<close>

locale stopping_policy =
  fixes policy :: conflict_retry_policy and limit :: nat
  assumes stops: "limit < cr_evaluations conflict \<Longrightarrow> policy conflict = Stop"

interpretation bounded: stopping_policy "bounded_conflict_retries maximum" maximum for maximum
  by unfold_locales (simp add: bounded_conflict_retries_def)

interpretation none: stopping_policy no_conflict_retries 0
  by unfold_locales (simp add: no_conflict_retries_def)

section \<open>Facts\<close>

lemma rehydrate_fold:
  "instance_rehydrate A stream events =
     \<lparr>ai_stream_id = stream, ai_state = foldl (am_apply A) (am_initial A stream) events,
      ai_uncommitted_events = [], ai_observer = None\<rparr>"
proof -
  have "foldl (\<lambda>aggregate event. aggregate\<lparr>ai_state := am_apply A (ai_state aggregate) event\<rparr>)
      \<lparr>ai_stream_id = stream, ai_state = x, ai_uncommitted_events = [], ai_observer = None\<rparr> events =
    \<lparr>ai_stream_id = stream, ai_state = foldl (am_apply A) x events, ai_uncommitted_events = [],
     ai_observer = None\<rparr>" for x
    by (induction events arbitrary: x) simp_all
  then show ?thesis
    by (simp add: instance_rehydrate_def instance_new_def)
qed

lemma codecs_insert_ok:
  assumes "codecs_insert entries A codec replace = Inr entries'"
  shows "entries' = fmupd (am_aggregate_type A) \<lparr>ce_model = A, ce_codec = codec\<rparr> entries"
    and "fmlookup entries (am_aggregate_type A) = Some entry \<Longrightarrow>
      am_model (ce_model entry) = am_model A \<and> replace"
  using assms
  by (auto simp: codecs_insert_def AggregateType_new_def string_identity_ok_iff result_simps
      split: option.splits if_splits)

lemma codecs_resolve_insert:
  assumes "codecs_insert entries A codec replace = Inr entries'"
  shows "codecs_resolve entries' A = Inr codec"
proof -
  have "AggregateType_new (am_aggregate_type A) = Inr (am_aggregate_type A)"
    using assms by (auto simp: codecs_insert_def AggregateType_new_def string_identity_ok_iff result_simps)
  then show ?thesis
    using codecs_insert_ok(1) [OF assms] by (simp add: codecs_resolve_def)
qed

lemma validate_events_ok_iff:
  "validate_events entry stream state events = Inr () \<longleftrightarrow>
     (\<forall>event \<in> set events. re_stream_id event = stream
        \<and> (\<exists>d. ec_decode (ce_codec entry) event = Inr d))"
  by (induction events arbitrary: state) (auto simp: result_simps split: if_splits)

end
