(* ===== verification/Failures.thy ===== *)
theory Failures
  imports Errors
begin

text \<open>
  Technical execution failures and how to recover from them:
  \<open>rostfrei-messaging-core/src/execution_failure.rs\<close>.
\<close>

datatype processor_failure_kind = InvalidConfiguration

datatype store_failure_kind =
  FailCorruptHistory | FailCapacityExhausted | FailConfigurationMismatch | FailConflict
| FailUnavailable

datatype codec_failure_kind =
  FailUnknownEventType | FailUnsupportedSchemaVersion | FailMalformedPayload | FailConversionFailed
| FailInvalidEnvelope | FailEncodingFailed

datatype execution_failure =
  StoreFailure store_failure_kind
| CodecFailure codec_failure_kind
| ProcessorFailure processor_failure_kind

datatype execution_recovery = RecoverRetry | RecoverBlocked

fun recovery :: "execution_failure \<Rightarrow> execution_recovery" where
  "recovery (StoreFailure FailConflict) = RecoverRetry"
| "recovery (StoreFailure FailUnavailable) = RecoverRetry"
| "recovery (StoreFailure FailCorruptHistory) = RecoverBlocked"
| "recovery (StoreFailure FailCapacityExhausted) = RecoverBlocked"
| "recovery (StoreFailure FailConfigurationMismatch) = RecoverBlocked"
| "recovery (CodecFailure _) = RecoverBlocked"
| "recovery (ProcessorFailure _) = RecoverBlocked"

definition is_retryable :: "execution_failure \<Rightarrow> bool" where
  "is_retryable f \<longleftrightarrow> recovery f = RecoverRetry"

end
