(* ===== verification/Executor.thy ===== *)
theory Executor
  imports Aggregates Failures
begin

text \<open>
  Command execution: \<open>rostfrei-core/src/executor.rs\<close>. The store is any implementation of
  \<open>ExecutionStore\<close>, a record of its operations over a state type \<open>'s\<close>. Other writers act between
  two store calls of an execution: \<open>env n\<close> is what they do to the state before the \<open>n\<close>-th call.
  A handler is application code; \<open>handler_program\<close> is the sequence of calls it makes on its
  \<open>CommandExecution\<close> and its loaded aggregates, where each continuation sees the result of the
  call before it.
\<close>

section \<open>The store interface\<close>

record 's execution_store =
  es_authority :: command_authority
  es_load :: "'s \<Rightarrow> stream_id \<Rightarrow> event_store_error + recorded_event list"
  es_lookup_outcome :: "'s \<Rightarrow> outcome_key \<Rightarrow> event_store_error + encoded_outcome_details outcome_lookup"
  es_begin_command :: "'s \<Rightarrow> event_store_error + unit"
  es_commit_outcome :: "'s \<Rightarrow> event_transaction \<Rightarrow> (event_store_error + completed_commit) \<times> 's"

record 's world =
  w_calls :: nat
  w_state :: 's

definition interleave :: "(nat \<Rightarrow> 's \<Rightarrow> 's) \<Rightarrow> 's world \<Rightarrow> 's world" where
  "interleave env w = \<lparr>w_calls = Suc (w_calls w), w_state = env (w_calls w) (w_state w)\<rparr>"

section \<open>Configuration\<close>

text \<open>An executor's configuration; the store it owns is the argument \<open>S\<close> of the operations below.\<close>

record ('st, 'ev) command_executor =
  cx_codecs :: "('st, 'ev) aggregate_codecs"
  cx_shared_codecs :: bool
  cx_conflict_retry_policy :: conflict_retry_policy

definition executor_new :: "('st, 'ev) command_executor" where
  "executor_new = \<lparr>cx_codecs = fmempty, cx_shared_codecs = False,
     cx_conflict_retry_policy = default_conflict_retries\<rparr>"

definition executor_with_codecs :: "('st, 'ev) aggregate_codecs \<Rightarrow> ('st, 'ev) command_executor" where
  "executor_with_codecs codecs = \<lparr>cx_codecs = codecs, cx_shared_codecs = True,
     cx_conflict_retry_policy = default_conflict_retries\<rparr>"

definition executor_with_codec ::
  "('st, 'ev) command_executor \<Rightarrow> ('st, 'ev) aggregate_model \<Rightarrow> 'ev event_codec \<Rightarrow>
   codec_registration_error + ('st, 'ev) command_executor" where
  "executor_with_codec executor A codec =
     (if cx_shared_codecs executor then Inl SharedConfiguration
      else rbind (codecs_replace (cx_codecs executor) A codec) (\<lambda>codecs.
        Inr (executor\<lparr>cx_codecs := codecs\<rparr>)))"

definition with_conflict_retry_policy ::
  "conflict_retry_policy \<Rightarrow> ('st, 'ev) command_executor \<Rightarrow> ('st, 'ev) command_executor" where
  "with_conflict_retry_policy policy executor = executor\<lparr>cx_conflict_retry_policy := policy\<rparr>"

definition with_max_conflict_retries ::
  "nat \<Rightarrow> ('st, 'ev) command_executor \<Rightarrow> ('st, 'ev) command_executor" where
  "with_max_conflict_retries maximum executor =
     with_conflict_retry_policy (bounded_conflict_retries maximum) executor"

section \<open>Results\<close>

datatype 'r command_decision = Accepted | Rejected 'r

datatype command_execution_error =
  ExecOutcomeRecovery outcome_recovery_error
| RejectedOutcomePersistence event_store_error
| RejectionMapping string
| ExecStore event_store_error
| ExecCodec event_codec_error

datatype command_receipt =
  ReceiptAppended "recorded_event list"
| ReceiptExactReplay "recorded_event list"
| AcceptedNoEvents

datatype 'r command_outcome = OutcomeOk command_receipt | OutcomeRefused 'r

fun command_receipt_events :: "command_receipt \<Rightarrow> recorded_event list" where
  "command_receipt_events (ReceiptAppended events) = events"
| "command_receipt_events (ReceiptExactReplay events) = events"
| "command_receipt_events AcceptedNoEvents = []"

datatype simulation_error =
  SimOutcomeRecovery outcome_recovery_error
| SimRejectionMapping string
| SimStore event_store_error
| SimCodec event_codec_error

fun simulation_error_from :: "command_execution_error \<Rightarrow> simulation_error" where
  "simulation_error_from (ExecOutcomeRecovery e) = SimOutcomeRecovery e"
| "simulation_error_from (RejectionMapping m) = SimRejectionMapping m"
| "simulation_error_from (ExecStore e) = SimStore e"
| "simulation_error_from (RejectedOutcomePersistence e) = SimStore e"
| "simulation_error_from (ExecCodec e) = SimCodec e"

fun store_failure :: "event_store_error_kind \<Rightarrow> store_failure_kind option" where
  "store_failure CorruptHistory = Some FailCorruptHistory"
| "store_failure CapacityExhausted = Some FailCapacityExhausted"
| "store_failure ConfigurationMismatch = Some FailConfigurationMismatch"
| "store_failure DetailForbidden = Some FailConfigurationMismatch"
| "store_failure Conflict = Some FailConflict"
| "store_failure Unavailable = Some FailUnavailable"
| "store_failure CompletedDetailsUnavailable = Some FailUnavailable"
| "store_failure InvalidRequest = None"
| "store_failure IdentityConflict = None"
| "store_failure CompletedDetailsExpired = None"

fun codec_failure :: "event_codec_error_kind \<Rightarrow> codec_failure_kind" where
  "codec_failure UnknownEventType = FailUnknownEventType"
| "codec_failure UnsupportedSchemaVersion = FailUnsupportedSchemaVersion"
| "codec_failure MalformedPayload = FailMalformedPayload"
| "codec_failure ConversionFailed = FailConversionFailed"
| "codec_failure InvalidEnvelope = FailInvalidEnvelope"
| "codec_failure EncodingFailed = FailEncodingFailed"

fun execution_failure_of :: "command_execution_error \<Rightarrow> execution_failure option" where
  "execution_failure_of (ExecOutcomeRecovery (RecoveryUnavailable BackendUnavailable)) =
     Some (StoreFailure FailUnavailable)"
| "execution_failure_of (ExecOutcomeRecovery (RecoveryArchived _)) =
     Some (StoreFailure FailUnavailable)"
| "execution_failure_of (ExecOutcomeRecovery RecoveryExpired) = None"
| "execution_failure_of (ExecOutcomeRecovery RecoveryIntegrityMismatch) =
     Some (StoreFailure FailCorruptHistory)"
| "execution_failure_of (ExecOutcomeRecovery (RecoveryUnavailable MissingDetails)) =
     Some (StoreFailure FailCorruptHistory)"
| "execution_failure_of (RejectionMapping _) = Some (ProcessorFailure InvalidConfiguration)"
| "execution_failure_of (ExecStore e) = map_option StoreFailure (store_failure (store_kind e))"
| "execution_failure_of (RejectedOutcomePersistence e) =
     map_option StoreFailure (store_failure (store_kind e))"
| "execution_failure_of (ExecCodec e) = Some (CodecFailure (codec_failure (codec_kind e)))"

definition invalid_request :: "message \<Rightarrow> event_store_error" where
  "invalid_request m = store_error_new InvalidRequest m"

definition execution_invalid :: "execution_text \<Rightarrow> command_execution_error" where
  "execution_invalid t = ExecStore (invalid_request (Execution_text t))"

section \<open>Checks\<close>

definition required_bounded_context ::
  "execution_metadata \<Rightarrow> event_store_error + bounded_context_name" where
  "required_bounded_context m =
     ok_or (invalid_request (Execution_text NoBoundedContext)) (md_bounded_context m)"

definition validate_bounded_context ::
  "('st, 'ev) aggregate_model \<Rightarrow> execution_metadata \<Rightarrow> event_store_error + unit" where
  "validate_bounded_context A m =
     rbind (required_bounded_context m) (\<lambda>context.
     if am_bounded_context A \<noteq> context then
       Inl (invalid_request (Context_differs (am_bounded_context A) context))
     else Inr ())"

definition stream_id_for ::
  "('st, 'ev) aggregate_model \<Rightarrow> string \<Rightarrow> event_store_error + stream_id" where
  "stream_id_for A aggregate_id =
     rbind (map_err (\<lambda>e. invalid_request (Rendered_identity e))
              (AggregateType_new (am_aggregate_type A))) (\<lambda>aggregate_type.
     rbind (map_err (\<lambda>e. invalid_request (Rendered_identity e)) (AggregateId_new aggregate_id))
       (\<lambda>aggregate_id. Inr (StreamId aggregate_type aggregate_id)))"

definition validate_aggregate_type ::
  "('st, 'ev) aggregate_model \<Rightarrow> stream_id \<Rightarrow> event_store_error + unit" where
  "validate_aggregate_type A stream =
     (if stream_aggregate_type stream \<noteq> am_aggregate_type A then
        Inl (invalid_request
          (Aggregate_type_differs (am_aggregate_type A) (stream_aggregate_type stream)))
      else Inr ())"

definition expected_version_of :: "stream_version \<Rightarrow> expected_version" where
  "expected_version_of v = (if v = 0 then NoStream else Exact v)"

definition supported_ordinal :: "nat \<Rightarrow> event_store_error + u32" where
  "supported_ordinal ordinal =
     ok_or (invalid_request (Execution_text EmittedOrdinalRange)) (u32_try_from ordinal)"

definition history_version :: "recorded_event list \<Rightarrow> stream_version" where
  "history_version history = (if history = [] then 0 else re_stream_version (last history))"

definition prepare_batch_for_stream ::
  "(bytes \<Rightarrow> bytes) \<Rightarrow> execution_metadata \<Rightarrow> stream_id \<Rightarrow> new_event list \<Rightarrow>
   event_store_error + event_batch option" where
  "prepare_batch_for_stream sha m stream events =
     (if events = [] then Inr None
      else
        rbind (map_err (\<lambda>e. invalid_request (Rendered_envelope e))
                 (EventBatch_new (derive_commit_id sha stream (md_operation_id m))
                    (md_operation_id m) (md_operation_fingerprint m) events)) (\<lambda>batch.
        let batch = (case md_correlation_id m of
                       None \<Rightarrow> batch | Some c \<Rightarrow> batch\<lparr>eb_correlation_id := Some c\<rparr>);
            batch = (case md_causation_id m of
                       None \<Rightarrow> batch | Some c \<Rightarrow> batch\<lparr>eb_causation_id := Some c\<rparr>);
            batch = (case md_actor m of
                       None \<Rightarrow> batch | Some a \<Rightarrow> batch\<lparr>eb_actor := Some a\<rparr>)
        in Inr (Some batch)))"

section \<open>One attempt\<close>

datatype journal_entry =
  Started nat
| CompletedEntry nat "command_execution_error + new_event"

record participant_tracker =
  pt_journal :: "journal_entry list"
  pt_finalization :: "(command_execution_error + nat) option"

record enlisted_participant =
  ep_stream_id :: stream_id
  ep_base_version :: stream_version
  ep_tracker :: participant_tracker

record collected_participant =
  cp_stream_id :: stream_id
  cp_base_version :: stream_version
  cp_events :: "new_event list"

record simulated_participant =
  sp_stream_id :: stream_id
  sp_base_version :: stream_version
  sp_events :: "new_event list"
  sp_read_guard :: bool

text \<open>Where a \<open>LoadedAggregate\<close> is: held by the handler, dropped, or moved out of the attempt.\<close>

datatype handle_place = Held | Dropped | Escaped

record ('st, 'ev) loaded_aggregate =
  la_model :: "('st, 'ev) aggregate_model"
  la_aggregate :: "('st, 'ev) aggregate_instance"
  la_base_version :: stream_version
  la_observer_token :: nat
  la_place :: handle_place

text \<open>Handle and tracker of the \<open>i\<close>-th successful load have position \<open>i\<close> of their lists.\<close>

record ('st, 'ev) command_execution =
  ce_loaded_streams :: "stream_id set"
  ce_participants :: "enlisted_participant list"
  ce_handles :: "('st, 'ev) loaded_aggregate list"

definition execution_start :: "('st, 'ev) command_execution" where
  "execution_start = \<lparr>ce_loaded_streams = {}, ce_participants = [], ce_handles = []\<rparr>"

definition push_entry ::
  "nat \<Rightarrow> journal_entry \<Rightarrow> ('st, 'ev) command_execution \<Rightarrow> ('st, 'ev) command_execution" where
  "push_entry i entry x =
     (if i < length (ce_participants x) then
        (let p = ce_participants x ! i; t = ep_tracker p in
         x\<lparr>ce_participants := (ce_participants x)[i :=
             p\<lparr>ep_tracker := t\<lparr>pt_journal := pt_journal t @ [entry]\<rparr>\<rparr>]\<rparr>)
      else x)"

definition set_finalization ::
  "nat \<Rightarrow> command_execution_error + nat \<Rightarrow> ('st, 'ev) command_execution \<Rightarrow>
   ('st, 'ev) command_execution" where
  "set_finalization i f x =
     (if i < length (ce_participants x) then
        (let p = ce_participants x ! i; t = ep_tracker p in
         x\<lparr>ce_participants := (ce_participants x)[i :=
             p\<lparr>ep_tracker := t\<lparr>pt_finalization := Some f\<rparr>\<rparr>]\<rparr>)
      else x)"

text \<open>\<open>CommandExecution::load\<close>, given what the session's history returns for the stream.\<close>

definition execution_load ::
  "(bytes \<Rightarrow> bytes) \<Rightarrow> execution_metadata \<Rightarrow> ('st, 'ev) aggregate_codecs \<Rightarrow>
   (stream_id \<Rightarrow> event_store_error + recorded_event list) \<Rightarrow> ('st, 'ev) aggregate_model \<Rightarrow>
   string \<Rightarrow> ('st, 'ev) command_execution \<Rightarrow>
   (command_execution_error + nat) \<times> ('st, 'ev) command_execution" where
  "execution_load sha m codecs history A aggregate_id x =
     (case
        rbind (map_err ExecStore (validate_bounded_context A m)) (\<lambda>_.
        rbind (map_err ExecStore (stream_id_for A aggregate_id)) (\<lambda>stream.
        if stream \<in> ce_loaded_streams x then Inl (execution_invalid LoadedTwice)
        else
          rbind (map_err ExecStore (history stream)) (\<lambda>loaded.
          rbind (map_err ExecStore (validate_history sha stream loaded)) (\<lambda>_.
          rbind (map_err ExecCodec (codecs_resolve codecs A)) (\<lambda>codec.
          rbind (map_err ExecCodec (collect_results (ec_decode codec) loaded)) (\<lambda>events.
          Inr (stream, codec, history_version loaded, events)))))))
      of
        Inl e \<Rightarrow> (Inl e, x)
      | Inr (stream, codec, base_version, events) \<Rightarrow>
          (let token = length (ce_participants x);
               commit_id = derive_commit_id sha stream (md_operation_id m);
               aggregate = observe_raised_events
                 \<lparr>ob_token = token, ob_commit_id = commit_id, ob_codec = codec\<rparr>
                 (instance_rehydrate A stream events) in
           (Inr (length (ce_handles x)),
            \<lparr>ce_loaded_streams = insert stream (ce_loaded_streams x),
             ce_participants = ce_participants x @
               [\<lparr>ep_stream_id = stream, ep_base_version = base_version,
                 ep_tracker = \<lparr>pt_journal = [], pt_finalization = None\<rparr>\<rparr>],
             ce_handles = ce_handles x @
               [\<lparr>la_model = A, la_aggregate = aggregate, la_base_version = base_version,
                 la_observer_token = token, la_place = Held\<rparr>]\<rparr>)))"

text \<open>The completion observer of a load.\<close>

definition encode_raised ::
  "(bytes \<Rightarrow> bytes) \<Rightarrow> 'ev observer \<Rightarrow> nat \<Rightarrow> 'ev \<Rightarrow> command_execution_error + new_event" where
  "encode_raised sha obs ordinal event =
     rbind (map_err ExecStore
              (rbind (supported_ordinal ordinal)
                 (\<lambda>o32. Inr (derive_event_id sha (ob_commit_id obs) o32)))) (\<lambda>event_id.
     map_err ExecCodec (ec_encode (ob_codec obs) event event_id))"

definition set_aggregate ::
  "nat \<Rightarrow> ('st, 'ev) aggregate_instance \<Rightarrow> ('st, 'ev) command_execution \<Rightarrow>
   ('st, 'ev) command_execution" where
  "set_aggregate h aggregate x =
     x\<lparr>ce_handles := (ce_handles x)[h := (ce_handles x ! h)\<lparr>la_aggregate := aggregate\<rparr>]\<rparr>"

definition held :: "nat \<Rightarrow> ('st, 'ev) command_execution \<Rightarrow> bool" where
  "held h x \<longleftrightarrow> h < length (ce_handles x) \<and> la_place (ce_handles x ! h) \<noteq> Dropped"

text \<open>How far a \<open>raise\<close> comes: it returns, or user code panics in \<open>apply\<close> (before the event is
  kept) or in the codec (after), and the handler catches the panic.\<close>

datatype raise_progress = RaiseReturns | ApplyPanics | EncodePanics

definition raise_event ::
  "(bytes \<Rightarrow> bytes) \<Rightarrow> raise_progress \<Rightarrow> nat \<Rightarrow> 'ev \<Rightarrow> ('st, 'ev) command_execution \<Rightarrow>
   ('st, 'ev) command_execution" where
  "raise_event sha progress h event x =
     (if \<not> held h x then x
      else
        (let handle = ce_handles x ! h;
             aggregate = la_aggregate handle;
             ordinal = length (ai_uncommitted_events aggregate);
             x = (case ai_observer aggregate of
                    None \<Rightarrow> x
                  | Some obs \<Rightarrow> push_entry (ob_token obs) (Started ordinal) x);
             x = (if progress = ApplyPanics then x
                  else set_aggregate h
                    (aggregate\<lparr>ai_state := am_apply (la_model handle) (ai_state aggregate) event,
                               ai_uncommitted_events :=
                                 ai_uncommitted_events aggregate @ [event]\<rparr>) x)
         in case ai_observer aggregate of
              None \<Rightarrow> x
            | Some obs \<Rightarrow>
                if progress = RaiseReturns
                then push_entry (ob_token obs)
                       (CompletedEntry ordinal (encode_raised sha obs ordinal event)) x
                else x))"

text \<open>\<open>*handle = instance\<close> through \<open>DerefMut\<close>, and \<open>mem::swap\<close> of two handles' instances.\<close>

definition replace_aggregate ::
  "nat \<Rightarrow> ('st, 'ev) aggregate_instance \<Rightarrow> ('st, 'ev) command_execution \<Rightarrow>
   ('st, 'ev) command_execution" where
  "replace_aggregate h aggregate x = (if held h x then set_aggregate h aggregate x else x)"

definition swap_aggregates ::
  "nat \<Rightarrow> nat \<Rightarrow> ('st, 'ev) command_execution \<Rightarrow> ('st, 'ev) command_execution" where
  "swap_aggregates h k x =
     (if held h x \<and> held k x then
        set_aggregate k (la_aggregate (ce_handles x ! h))
          (set_aggregate h (la_aggregate (ce_handles x ! k)) x)
      else x)"

text \<open>\<open>Drop for LoadedAggregate\<close>.\<close>

definition drop_finalization ::
  "('st, 'ev) loaded_aggregate \<Rightarrow> command_execution_error + nat" where
  "drop_finalization handle =
     (if is_observed_by (la_aggregate handle) (la_observer_token handle)
      then Inr (length (ai_uncommitted_events (la_aggregate handle)))
      else Inl (execution_invalid TrackingLost))"

definition set_place ::
  "nat \<Rightarrow> handle_place \<Rightarrow> ('st, 'ev) command_execution \<Rightarrow> ('st, 'ev) command_execution" where
  "set_place h place x =
     x\<lparr>ce_handles := (ce_handles x)[h := (ce_handles x ! h)\<lparr>la_place := place\<rparr>]\<rparr>"

definition drop_handle ::
  "nat \<Rightarrow> ('st, 'ev) command_execution \<Rightarrow> ('st, 'ev) command_execution" where
  "drop_handle h x =
     (if held h x then
        set_finalization (la_observer_token (ce_handles x ! h))
          (drop_finalization (ce_handles x ! h)) (set_place h Dropped x)
      else x)"

definition escape_handle ::
  "nat \<Rightarrow> ('st, 'ev) command_execution \<Rightarrow> ('st, 'ev) command_execution" where
  "escape_handle h x = (if held h x then set_place h Escaped x else x)"

text \<open>When the handler returns, every handle it still holds is dropped.\<close>

definition drop_all :: "('st, 'ev) command_execution \<Rightarrow> ('st, 'ev) command_execution" where
  "drop_all x =
     foldl (\<lambda>x h. if la_place (ce_handles x ! h) = Held then drop_handle h x else x) x
       [0..<length (ce_handles x)]"

datatype ('st, 'ev, 'r) handler_program =
  Decide "'r command_decision"
| Fail command_execution_error
| LoadAggregate "('st, 'ev) aggregate_model" string
    "command_execution_error + nat \<Rightarrow> ('st, 'ev, 'r) handler_program"
| Inspect nat "('st, 'ev) aggregate_instance option \<Rightarrow> ('st, 'ev, 'r) handler_program"
| RaiseEvent raise_progress nat 'ev "('st, 'ev, 'r) handler_program"
| ReplaceAggregate nat "('st, 'ev) aggregate_instance" "('st, 'ev, 'r) handler_program"
| SwapAggregates nat nat "('st, 'ev, 'r) handler_program"
| DropHandle nat "('st, 'ev, 'r) handler_program"
| EscapeHandle nat "('st, 'ev, 'r) handler_program"

primrec run_handler ::
  "(bytes \<Rightarrow> bytes) \<Rightarrow> 's execution_store \<Rightarrow> (nat \<Rightarrow> 's \<Rightarrow> 's) \<Rightarrow> execution_metadata \<Rightarrow>
   ('st, 'ev) aggregate_codecs \<Rightarrow> ('st, 'ev, 'r) handler_program \<Rightarrow>
   's world \<Rightarrow> ('st, 'ev) command_execution \<Rightarrow>
   (command_execution_error + 'r command_decision) \<times> 's world \<times> ('st, 'ev) command_execution"
where
  "run_handler sha S env m codecs (Decide d) w x = (Inr d, w, drop_all x)"
| "run_handler sha S env m codecs (Fail e) w x = (Inl e, w, drop_all x)"
| "run_handler sha S env m codecs (LoadAggregate A i k) w x =
     (let w = interleave env w;
          loaded = execution_load sha m codecs (es_load S (w_state w)) A i x
      in run_handler sha S env m codecs (k (fst loaded)) w (snd loaded))"
| "run_handler sha S env m codecs (Inspect h k) w x =
     run_handler sha S env m codecs
       (k (if held h x then Some (la_aggregate (ce_handles x ! h)) else None)) w x"
| "run_handler sha S env m codecs (RaiseEvent progress h event k) w x =
     run_handler sha S env m codecs k w (raise_event sha progress h event x)"
| "run_handler sha S env m codecs (ReplaceAggregate h aggregate k) w x =
     run_handler sha S env m codecs k w (replace_aggregate h aggregate x)"
| "run_handler sha S env m codecs (SwapAggregates h j k) w x =
     run_handler sha S env m codecs k w (swap_aggregates h j x)"
| "run_handler sha S env m codecs (DropHandle h k) w x =
     run_handler sha S env m codecs k w (drop_handle h x)"
| "run_handler sha S env m codecs (EscapeHandle h k) w x =
     run_handler sha S env m codecs k w (escape_handle h x)"

section \<open>Finishing an attempt\<close>

definition take_finalization :: "participant_tracker \<Rightarrow> command_execution_error + nat" where
  "take_finalization t =
     (case pt_finalization t of
        None \<Rightarrow> Inl (execution_invalid AggregateEscaped)
      | Some f \<Rightarrow> f)"

fun collect_journal ::
  "new_event list \<Rightarrow> nat option \<Rightarrow> journal_entry list \<Rightarrow>
   command_execution_error + new_event list \<times> nat option" where
  "collect_journal events encoding [] = Inr (events, encoding)"
| "collect_journal events encoding (Started ordinal # entries) =
     (if encoding = None \<and> ordinal = length events
      then collect_journal events (Some ordinal) entries
      else Inl (execution_invalid InvalidJournal))"
| "collect_journal events encoding (CompletedEntry ordinal event # entries) =
     rbind event (\<lambda>event.
     if encoding \<noteq> Some ordinal then Inl (execution_invalid InvalidJournal)
     else collect_journal (events @ [event]) None entries)"

definition collect :: "enlisted_participant \<Rightarrow> command_execution_error + collected_participant" where
  "collect p =
     rbind (take_finalization (ep_tracker p)) (\<lambda>expected_event_count.
     rbind (collect_journal [] None (pt_journal (ep_tracker p))) (\<lambda>(events, encoding).
     if encoding \<noteq> None then Inl (execution_invalid InterruptedEncoding)
     else if length events \<noteq> expected_event_count then Inl (execution_invalid InvalidJournal)
     else Inr \<lparr>cp_stream_id = ep_stream_id p, cp_base_version = ep_base_version p,
                cp_events = events\<rparr>))"

definition discard_events :: "enlisted_participant \<Rightarrow> command_execution_error + unit" where
  "discard_events p = map_ok (\<lambda>_. ()) (take_finalization (ep_tracker p))"

definition finish ::
  "('st, 'ev) command_execution \<Rightarrow> command_execution_error + collected_participant list" where
  "finish x = collect_results collect (ce_participants x)"

definition finish_rejected ::
  "('st, 'ev) command_execution \<Rightarrow> command_execution_error + collected_participant list" where
  "finish_rejected x =
     collect_results (\<lambda>p.
       rbind (discard_events p) (\<lambda>_.
       Inr \<lparr>cp_stream_id = ep_stream_id p, cp_base_version = ep_base_version p, cp_events = []\<rparr>))
       (ce_participants x)"

definition rejected_simulation_participants ::
  "('st, 'ev) command_execution \<Rightarrow> command_execution_error + simulated_participant list" where
  "rejected_simulation_participants x =
     collect_results (\<lambda>p.
       rbind (discard_events p) (\<lambda>_.
       Inr \<lparr>sp_stream_id = ep_stream_id p, sp_base_version = ep_base_version p, sp_events = [],
            sp_read_guard = True\<rparr>))
       (ce_participants x)"

definition simulated_participant_of :: "collected_participant \<Rightarrow> simulated_participant" where
  "simulated_participant_of p =
     \<lparr>sp_stream_id = cp_stream_id p, sp_base_version = cp_base_version p, sp_events = cp_events p,
      sp_read_guard = (cp_events p = [])\<rparr>"

section \<open>Replaying a completed command\<close>

definition transaction_replay ::
  "(bytes \<Rightarrow> bytes) \<Rightarrow> execution_metadata \<Rightarrow> transaction_receipt \<Rightarrow>
   command_execution_error + command_receipt" where
  "transaction_replay sha m receipt =
     rbind (map_err ExecStore (validate_integrity sha receipt)) (\<lambda>_.
     if tr_bounded_context receipt = md_bounded_context m
       \<and> tr_operation_id receipt = md_operation_id m
       \<and> tr_operation_fingerprint receipt = md_operation_fingerprint m
       \<and> tr_correlation_id receipt = md_correlation_id m
       \<and> tr_causation_id receipt = md_causation_id m
       \<and> tr_actor receipt = md_actor m
     then Inr (ReceiptExactReplay (receipt_events receipt))
     else Inl (ExecStore
       (store_error_new IdentityConflict (Execution_text TransactionMetadataDiffers))))"

definition completed_replay ::
  "(bytes \<Rightarrow> bytes) \<Rightarrow> execution_metadata \<Rightarrow> encoded_outcome \<Rightarrow> 'r rejection_codec \<Rightarrow> bool \<Rightarrow>
   command_execution_error + 'r command_outcome" where
  "completed_replay sha m outcome codec replay =
     rbind (map_err ExecStore (validate_identity (co_marker outcome) m)) (\<lambda>_.
     rbind (map_err ExecOutcomeRecovery (to_inline outcome)) (\<lambda>record.
     rbind (transaction_replay sha m record) (\<lambda>receipt.
     rbind (case tr_completion record of
              None \<Rightarrow> Inr ()
            | Some completion \<Rightarrow>
                rbind (map_err ExecCodec (completion_validate completion)) (\<lambda>_.
                if cc_rejection completion \<noteq> None \<and> receipt_events record \<noteq> [] then
                  Inl (ExecCodec
                    (codec_error_new InvalidEnvelope (Execution_text RejectedRecordHasEvents)))
                else if \<not> (case (cc_evidence completion, md_outcome_evidence m) of
                    (Some original, Some requested) \<Rightarrow> same_identity original requested
                  | (None, None) \<Rightarrow> True
                  | _ \<Rightarrow> False)
                then Inl (ExecStore
                    (store_error_new IdentityConflict (Execution_text CompletedEvidenceDiffers)))
                else Inr ())) (\<lambda>_.
     case inline_rejection record of
       Some rejection \<Rightarrow> map_ok OutcomeRefused (map_err ExecCodec (rc_decode codec rejection))
     | None \<Rightarrow>
         Inr (OutcomeOk (if replay then receipt
                         else if receipt_events record = [] then AcceptedNoEvents
                         else ReceiptAppended (receipt_events record)))))))"

section \<open>Executing a command\<close>

definition outcome_key_for ::
  "'s execution_store \<Rightarrow> execution_metadata \<Rightarrow> event_store_error + outcome_key" where
  "outcome_key_for S m =
     rbind (required_bounded_context m) (\<lambda>context.
     Inr (OutcomeKey_new (es_authority S) context (md_operation_id m)))"

definition lookup_completed ::
  "(bytes \<Rightarrow> bytes) \<Rightarrow> 's execution_store \<Rightarrow> execution_metadata \<Rightarrow> 's \<Rightarrow>
   command_execution_error + encoded_outcome option" where
  "lookup_completed sha S m s =
     rbind (map_err ExecStore (outcome_key_for S m)) (\<lambda>key.
     rbind (map_err (\<lambda>e. ExecStore (in_outcome_recovery e)) (es_lookup_outcome S s key)) (\<lambda>found.
     case found of
       Missing \<Rightarrow> Inr None
     | Completed outcome \<Rightarrow>
         rbind (map_err (\<lambda>e. ExecStore (in_outcome_recovery e))
                  (outcome_validate_for sha outcome key m)) (\<lambda>_. Inr (Some outcome))))"

definition reconcile_completed ::
  "(bytes \<Rightarrow> bytes) \<Rightarrow> 's execution_store \<Rightarrow> execution_metadata \<Rightarrow> 'r rejection_codec \<Rightarrow> 's \<Rightarrow>
   command_execution_error + 'r command_outcome option" where
  "reconcile_completed sha S m codec s =
     rbind (lookup_completed sha S m s) (\<lambda>found.
     case found of
       None \<Rightarrow> Inr None
     | Some outcome \<Rightarrow> map_ok Some (completed_replay sha m outcome codec True))"

definition reconcile_with_rejection_codec ::
  "(bytes \<Rightarrow> bytes) \<Rightarrow> 's execution_store \<Rightarrow> execution_metadata \<Rightarrow> 'r rejection_codec \<Rightarrow> 's \<Rightarrow>
   command_execution_error + 'r command_outcome option" where
  "reconcile_with_rejection_codec sha S m codec s =
     rbind (map_err (\<lambda>e. ExecStore (invalid_request (Rendered_contract e))) (normalized m)) (\<lambda>m.
     reconcile_completed sha S m codec s)"

definition transaction_participants ::
  "(bytes \<Rightarrow> bytes) \<Rightarrow> execution_metadata \<Rightarrow> collected_participant list \<Rightarrow>
   event_store_error + transaction_participant list" where
  "transaction_participants sha m participants =
     collect_results (\<lambda>p.
       rbind (prepare_batch_for_stream sha m (cp_stream_id p) (cp_events p)) (\<lambda>batch.
       Inr \<lparr>tp_stream_id = cp_stream_id p,
            tp_expected_version = expected_version_of (cp_base_version p), tp_batch = batch\<rparr>))
       participants"

definition command_transaction ::
  "(bytes \<Rightarrow> bytes) \<Rightarrow> execution_metadata \<Rightarrow> collected_participant list \<Rightarrow>
   encoded_rejection option \<Rightarrow> event_store_error + event_transaction" where
  "command_transaction sha m participants rejection =
     rbind (transaction_participants sha m participants) (\<lambda>participants.
     rbind (required_bounded_context m) (\<lambda>context.
     let t = (EventTransaction_new (md_operation_id m) (md_operation_fingerprint m) participants)
               \<lparr>tx_bounded_context := Some context\<rparr>;
         t = (case md_correlation_id m of None \<Rightarrow> t | Some c \<Rightarrow> t\<lparr>tx_correlation_id := Some c\<rparr>);
         t = (case md_causation_id m of None \<Rightarrow> t | Some c \<Rightarrow> t\<lparr>tx_causation_id := Some c\<rparr>);
         t = (case md_security_scope m of None \<Rightarrow> t | Some c \<Rightarrow> t\<lparr>tx_security_scope := Some c\<rparr>);
         t = (case md_actor m of None \<Rightarrow> t | Some a \<Rightarrow> t\<lparr>tx_actor := Some a\<rparr>)
     in Inr (t\<lparr>tx_completion := Some (completion_new (md_outcome_evidence m) rejection)\<rparr>)))"

datatype persistence_attempt =
  PersistedOutcome completed_commit
| PersistenceConflict event_store_error

definition persist ::
  "(bytes \<Rightarrow> bytes) \<Rightarrow> 's execution_store \<Rightarrow> execution_metadata \<Rightarrow> collected_participant list \<Rightarrow>
   encoded_rejection option \<Rightarrow> 's \<Rightarrow>
   (command_execution_error + persistence_attempt) \<times> 's" where
  "persist sha S m participants rejection s =
     (case command_transaction sha m participants rejection of
        Inl e \<Rightarrow> (Inl (ExecStore e), s)
      | Inr t \<Rightarrow>
          (case es_commit_outcome S s t of
             (Inr outcome, s') \<Rightarrow> (Inr (PersistedOutcome outcome), s')
           | (Inl e, s') \<Rightarrow>
               (if store_kind e = Conflict \<or> store_kind e = IdentityConflict
                then Inr (PersistenceConflict e)
                else if store_origin e = OutcomeRecovery then Inl (ExecStore e)
                else if rejection \<noteq> None then Inl (RejectedOutcomePersistence e)
                else Inl (ExecStore e), s')))"

text \<open>What the handler's decision leaves to persist.\<close>

definition attempt_participants ::
  "'r rejection_codec \<Rightarrow> 'r command_decision \<Rightarrow> ('st, 'ev) command_execution \<Rightarrow>
   command_execution_error + collected_participant list \<times> encoded_rejection option" where
  "attempt_participants codec decision x =
     (case decision of
        Rejected rejection \<Rightarrow>
          rbind (finish_rejected x) (\<lambda>participants.
          rbind (map_err ExecCodec (rc_encode codec rejection)) (\<lambda>encoded.
          rbind (map_err ExecCodec (rejection_validate encoded)) (\<lambda>_.
          rbind (map_err ExecCodec (rc_decode codec encoded)) (\<lambda>_.
          Inr (participants, Some encoded)))))
      | Accepted \<Rightarrow> map_ok (\<lambda>participants. (participants, None)) (finish x))"

text \<open>One turn of the loop returns or asks for another evaluation.\<close>

datatype attempt =
  AttemptDone "command_execution_error + completed_commit"
| AttemptConflict event_store_error

text \<open>After a conflict: the winner, if there is one, is authoritative.\<close>

definition after_conflict ::
  "(bytes \<Rightarrow> bytes) \<Rightarrow> 's execution_store \<Rightarrow> execution_metadata \<Rightarrow> event_store_error \<Rightarrow> 's \<Rightarrow> attempt"
where
  "after_conflict sha S m e s =
     (case lookup_completed sha S m s of
        Inl err \<Rightarrow> AttemptDone (Inl err)
      | Inr (Some outcome) \<Rightarrow> AttemptDone (Inr (CommitExactReplay outcome))
      | Inr None \<Rightarrow>
          if store_kind e \<noteq> Conflict then AttemptDone (Inl (ExecStore e)) else AttemptConflict e)"

definition accept_commit ::
  "(bytes \<Rightarrow> bytes) \<Rightarrow> 's execution_store \<Rightarrow> execution_metadata \<Rightarrow> completed_commit \<Rightarrow>
   command_execution_error + completed_commit" where
  "accept_commit sha S m outcome =
     rbind (map_err ExecStore (outcome_key_for S m)) (\<lambda>key.
     rbind (map_err (\<lambda>e. ExecStore (in_outcome_recovery e))
              (outcome_validate_for sha (commit_result outcome) key m)) (\<lambda>_. Inr outcome))"

text \<open>Persisting what an evaluation collected, and reconciling after a conflict.\<close>

definition commit_attempt ::
  "(bytes \<Rightarrow> bytes) \<Rightarrow> 's execution_store \<Rightarrow> (nat \<Rightarrow> 's \<Rightarrow> 's) \<Rightarrow> execution_metadata \<Rightarrow>
   collected_participant list \<Rightarrow> encoded_rejection option \<Rightarrow> 's world \<Rightarrow> attempt \<times> 's world" where
  "commit_attempt sha S env m participants rejection w =
     (let w = interleave env w;
          persisted = persist sha S m participants rejection (w_state w);
          w = w\<lparr>w_state := snd persisted\<rparr>
      in case fst persisted of
           Inl e \<Rightarrow> (AttemptDone (Inl e), w)
         | Inr (PersistedOutcome outcome) \<Rightarrow> (AttemptDone (accept_commit sha S m outcome), w)
         | Inr (PersistenceConflict e) \<Rightarrow>
             (let w = interleave env w in (after_conflict sha S m e (w_state w), w)))"

text \<open>Evaluating the handler in a session.\<close>

definition evaluate_attempt ::
  "(bytes \<Rightarrow> bytes) \<Rightarrow> 's execution_store \<Rightarrow> (nat \<Rightarrow> 's \<Rightarrow> 's) \<Rightarrow> execution_metadata \<Rightarrow>
   ('st, 'ev) aggregate_codecs \<Rightarrow> 'r rejection_codec \<Rightarrow> ('st, 'ev, 'r) handler_program \<Rightarrow>
   's world \<Rightarrow> attempt \<times> 's world" where
  "evaluate_attempt sha S env m codecs codec handler w =
     (case run_handler sha S env m codecs handler w execution_start of
        (Inl e, w, x) \<Rightarrow> (AttemptDone (Inl e), w)
      | (Inr decision, w, x) \<Rightarrow>
          (case attempt_participants codec decision x of
             Inl e \<Rightarrow> (AttemptDone (Inl e), w)
           | Inr (participants, rejection) \<Rightarrow>
               commit_attempt sha S env m participants rejection w))"

text \<open>One turn; the last component says whether the handler was evaluated.\<close>

definition execute_attempt ::
  "(bytes \<Rightarrow> bytes) \<Rightarrow> 's execution_store \<Rightarrow> (nat \<Rightarrow> 's \<Rightarrow> 's) \<Rightarrow> execution_metadata \<Rightarrow>
   ('st, 'ev) aggregate_codecs \<Rightarrow> 'r rejection_codec \<Rightarrow> ('st, 'ev, 'r) handler_program \<Rightarrow>
   's world \<Rightarrow> attempt \<times> 's world \<times> bool" where
  "execute_attempt sha S env m codecs codec handler w =
     (let w = interleave env w in
      case lookup_completed sha S m (w_state w) of
        Inl e \<Rightarrow> (AttemptDone (Inl e), w, False)
      | Inr (Some outcome) \<Rightarrow> (AttemptDone (Inr (CommitExactReplay outcome)), w, False)
      | Inr None \<Rightarrow>
          (case es_begin_command S (w_state w) of
             Inl e \<Rightarrow> (AttemptDone (Inl (ExecStore e)), w, False)
           | Inr _ \<Rightarrow>
               (let turn = evaluate_attempt sha S env m codecs codec handler w
                in (fst turn, snd turn, True))))"

text \<open>The loop. \<open>None\<close> is a loop that has not returned after \<open>fuel\<close> turns; the last component of the
  result counts the evaluations of the handler.\<close>

fun execute_loop ::
  "nat \<Rightarrow> (bytes \<Rightarrow> bytes) \<Rightarrow> 's execution_store \<Rightarrow> (nat \<Rightarrow> 's \<Rightarrow> 's) \<Rightarrow> execution_metadata \<Rightarrow>
   ('st, 'ev) aggregate_codecs \<Rightarrow> 'r rejection_codec \<Rightarrow> conflict_retry_policy \<Rightarrow>
   ('st, 'ev, 'r) handler_program \<Rightarrow> nat \<Rightarrow> 's world \<Rightarrow>
   ((command_execution_error + completed_commit) \<times> 's world \<times> nat) option" where
  "execute_loop 0 sha S env m codecs codec policy handler evaluations w = None"
| "execute_loop (Suc fuel) sha S env m codecs codec policy handler evaluations w =
     (case execute_attempt sha S env m codecs codec handler w of
        (AttemptDone result, w, evaluated) \<Rightarrow>
          Some (result, w, if evaluated then min (evaluations + 1) (usize_bound - 1) else evaluations)
      | (AttemptConflict e, w, evaluated) \<Rightarrow>
          (let evaluations = min (evaluations + 1) (usize_bound - 1) in
           case policy \<lparr>cr_evaluations = evaluations, cr_error = e\<rparr> of
             Stop \<Rightarrow> Some (Inl (ExecStore e), w, evaluations)
           | RetryNow \<Rightarrow>
               execute_loop fuel sha S env m codecs codec policy handler evaluations w
           | RetryAfter _ \<Rightarrow>
               execute_loop fuel sha S env m codecs codec policy handler evaluations w))"

definition default_metadata ::
  "string \<Rightarrow> execution_metadata \<Rightarrow> command_execution_error + execution_metadata" where
  "default_metadata type_name m =
     map_err (\<lambda>e. ExecStore (invalid_request (Rendered_contract e)))
       (normalized (with_default_outcome_evidence type_name m))"

definition execute_completed_with_rejection_codec ::
  "nat \<Rightarrow> (bytes \<Rightarrow> bytes) \<Rightarrow> 's execution_store \<Rightarrow> (nat \<Rightarrow> 's \<Rightarrow> 's) \<Rightarrow> string \<Rightarrow>
   execution_metadata \<Rightarrow> ('st, 'ev) aggregate_codecs \<Rightarrow> 'r rejection_codec \<Rightarrow>
   conflict_retry_policy \<Rightarrow> ('st, 'ev, 'r) handler_program \<Rightarrow> 's world \<Rightarrow>
   ((command_execution_error + completed_commit) \<times> 's world \<times> nat) option" where
  "execute_completed_with_rejection_codec fuel sha S env type_name m codecs codec policy handler w =
     (case rbind (default_metadata type_name m) (\<lambda>m.
           rbind (case md_outcome_evidence m of
                    None \<Rightarrow> Inr ()
                  | Some evidence \<Rightarrow> map_err ExecCodec (evidence_validate evidence)) (\<lambda>_. Inr m)) of
        Inl e \<Rightarrow> Some (Inl e, w, 0)
      | Inr m \<Rightarrow> execute_loop fuel sha S env m codecs codec policy handler 0 w)"

definition execute_with_rejection_codec ::
  "nat \<Rightarrow> (bytes \<Rightarrow> bytes) \<Rightarrow> 's execution_store \<Rightarrow> (nat \<Rightarrow> 's \<Rightarrow> 's) \<Rightarrow> string \<Rightarrow>
   execution_metadata \<Rightarrow> ('st, 'ev) aggregate_codecs \<Rightarrow> 'r rejection_codec \<Rightarrow>
   conflict_retry_policy \<Rightarrow> ('st, 'ev, 'r) handler_program \<Rightarrow> 's world \<Rightarrow>
   ((command_execution_error + 'r command_outcome) \<times> 's world \<times> nat) option" where
  "execute_with_rejection_codec fuel sha S env type_name m codecs codec policy handler w =
     (case default_metadata type_name m of
        Inl e \<Rightarrow> Some (Inl e, w, 0)
      | Inr m \<Rightarrow>
          map_option (\<lambda>(result, w, evaluations).
              (rbind result (\<lambda>completed.
                 completed_replay sha m (commit_result completed) codec (is_exact_replay completed)),
               w, evaluations))
            (execute_completed_with_rejection_codec fuel sha S env type_name m codecs codec policy
               handler w))"

definition execute ::
  "nat \<Rightarrow> (bytes \<Rightarrow> bytes) \<Rightarrow> 's execution_store \<Rightarrow> (nat \<Rightarrow> 's \<Rightarrow> 's) \<Rightarrow> string \<Rightarrow>
   execution_metadata \<Rightarrow> ('st, 'ev) aggregate_codecs \<Rightarrow> conflict_retry_policy \<Rightarrow>
   ('st, 'ev, 'r) handler_program \<Rightarrow> 's world \<Rightarrow>
   ((command_execution_error + 'r command_outcome) \<times> 's world \<times> nat) option" where
  "execute fuel sha S env type_name m codecs policy handler w =
     execute_with_rejection_codec fuel sha S env type_name m codecs unconfigured_rejection_codec
       policy handler w"

section \<open>Reading without persistence\<close>

definition simulate ::
  "(bytes \<Rightarrow> bytes) \<Rightarrow> 's execution_store \<Rightarrow> (nat \<Rightarrow> 's \<Rightarrow> 's) \<Rightarrow> string \<Rightarrow> execution_metadata \<Rightarrow>
   ('st, 'ev) aggregate_codecs \<Rightarrow> ('st, 'ev, 'r) handler_program \<Rightarrow> 's world \<Rightarrow>
   (simulation_error + 'r command_decision \<times> simulated_participant list) \<times> 's world" where
  "simulate sha S env type_name m codecs handler w =
     (case default_metadata type_name m of
        Inl e \<Rightarrow> (Inl (simulation_error_from e), w)
      | Inr m \<Rightarrow>
          (case run_handler sha S env m codecs handler w execution_start of
             (Inl e, w, x) \<Rightarrow> (Inl (simulation_error_from e), w)
           | (Inr decision, w, x) \<Rightarrow>
               (rbind (map_err simulation_error_from
                         (case decision of
                            Accepted \<Rightarrow> map_ok (map simulated_participant_of) (finish x)
                          | Rejected _ \<Rightarrow> rejected_simulation_participants x)) (\<lambda>participants.
                Inr (decision, participants)), w)))"

definition rehydrate_with_codec ::
  "(bytes \<Rightarrow> bytes) \<Rightarrow> 's execution_store \<Rightarrow> ('st, 'ev) aggregate_model \<Rightarrow> 'ev event_codec \<Rightarrow>
   stream_id \<Rightarrow> 's \<Rightarrow> simulation_error + ('st, 'ev) aggregate_instance" where
  "rehydrate_with_codec sha S A codec stream s =
     rbind (map_err SimStore (validate_aggregate_type A stream)) (\<lambda>_.
     rbind (map_err SimStore (es_load S s stream)) (\<lambda>history.
     rbind (map_err SimStore (validate_history sha stream history)) (\<lambda>_.
     rbind (map_err SimCodec (collect_results (ec_decode codec) history)) (\<lambda>events.
     Inr (instance_rehydrate A stream events)))))"

definition rehydrate ::
  "(bytes \<Rightarrow> bytes) \<Rightarrow> 's execution_store \<Rightarrow> ('st, 'ev) aggregate_model \<Rightarrow>
   ('st, 'ev) aggregate_codecs \<Rightarrow> stream_id \<Rightarrow> 's \<Rightarrow>
   simulation_error + ('st, 'ev) aggregate_instance" where
  "rehydrate sha S A codecs stream s =
     rbind (map_err SimStore (validate_aggregate_type A stream)) (\<lambda>_.
     rbind (map_err SimStore (es_load S s stream)) (\<lambda>history.
     rbind (map_err SimStore (validate_history sha stream history)) (\<lambda>_.
     rbind (map_err SimCodec (codecs_resolve codecs A)) (\<lambda>codec.
     rbind (map_err SimCodec (collect_results (ec_decode codec) history)) (\<lambda>events.
     Inr (instance_rehydrate A stream events))))))"

section \<open>The in-memory store as an execution store\<close>

definition memory_execution_store ::
  "externals \<Rightarrow> memory_store \<Rightarrow> memory_state execution_store" where
  "memory_execution_store E store =
     \<lparr>es_authority = ms_authority store,
      es_load = (\<lambda>s stream. Inr (load s stream)),
      es_lookup_outcome = (\<lambda>s key. lookup_outcome E store (\<lambda>_. s) key),
      es_begin_command = (\<lambda>s. Inr ()),
      es_commit_outcome = (\<lambda>s t. session_commit_outcome E store s (\<lambda>s i. s) t)\<rparr>"

end
