(* ===== verification/ExecutionContract.thy ===== *)
theory ExecutionContract
  imports Executor
begin

text \<open>
  The contract the executor relies on, as a locale: a store that finds what a commit returned, and
  finds it again in every later state, at most with its details withdrawn. The lemmas
  about executions (they return, and a command that completed is never evaluated again) are proved
  from the contract; the in-memory store interprets it.
\<close>

section \<open>Loop\<close>

context stopping_policy
begin

lemma loop_returns:
  assumes "limit < usize_bound - 1" and "evaluations \<le> limit" and "limit < fuel + evaluations"
  shows "\<exists>result w' n. execute_loop fuel sha S env m codecs codec policy handler evaluations w =
    Some (result, w', n) \<and> n \<le> Suc limit"
  using assms(2,3)
proof (induction fuel arbitrary: evaluations w)
  case 0
  then show ?case by simp
next
  case (Suc fuel)
  obtain a w1 evaluated where run: "execute_attempt sha S env m codecs codec handler w = (a, w1, evaluated)"
    by (metis prod_cases3)
  show ?case
  proof (cases a)
    case (AttemptDone result)
    then show ?thesis
      using run Suc.prems by (auto simp: min_def)
  next
    case (AttemptConflict e)
    let ?n = "min (evaluations + 1) (usize_bound - 1)"
    have n: "?n = evaluations + 1"
      using assms(1) Suc.prems by simp
    show ?thesis
    proof (cases "evaluations < limit")
      case True
      then obtain result w' n where
        rest: "execute_loop fuel sha S env m codecs codec policy handler (evaluations + 1) w1 =
          Some (result, w', n)" "n \<le> Suc limit"
        using Suc.IH [of "evaluations + 1" w1] Suc.prems by auto
      show ?thesis
      proof (cases "policy \<lparr>cr_evaluations = evaluations + 1, cr_error = e\<rparr>")
        case Stop
        then have "execute_loop (Suc fuel) sha S env m codecs codec policy handler evaluations w =
            Some (Inl (ExecStore e), w1, evaluations + 1)"
          using run AttemptConflict n by (simp add: Let_def)
        then show ?thesis using Suc.prems by auto
      next
        case RetryNow
        then have "execute_loop (Suc fuel) sha S env m codecs codec policy handler evaluations w =
            Some (result, w', n)"
          using run AttemptConflict n rest by (simp add: Let_def)
        then show ?thesis using rest by blast
      next
        case (RetryAfter d)
        then have "execute_loop (Suc fuel) sha S env m codecs codec policy handler evaluations w =
            Some (result, w', n)"
          using run AttemptConflict n rest by (simp add: Let_def)
        then show ?thesis using rest by blast
      qed
    next
      case False
      then have "policy \<lparr>cr_evaluations = evaluations + 1, cr_error = e\<rparr> = Stop"
        using Suc.prems by (intro stops) simp
      then have "execute_loop (Suc fuel) sha S env m codecs codec policy handler evaluations w =
          Some (Inl (ExecStore e), w1, evaluations + 1)"
        using run AttemptConflict n by (simp add: Let_def)
      then show ?thesis using Suc.prems by auto
    qed
  qed
qed

end

section \<open>Transactions of an attempt\<close>

lemma prepare_batch_eq:
  assumes "events \<noteq> []" and "EventBatch_new (derive_commit_id sha stream (md_operation_id m))
    (md_operation_id m) (md_operation_fingerprint m) events = Inr b"
  shows "prepare_batch_for_stream sha m stream events = Inr (Some (b\<lparr>eb_actor := md_actor m,
    eb_correlation_id := md_correlation_id m, eb_causation_id := md_causation_id m\<rparr>))"
proof -
  have fields: "eb_actor b = None" "eb_correlation_id b = None" "eb_causation_id b = None"
    using EventBatch_new_ok [OF assms(2)] by simp_all
  obtain a c op fp es co ca where b: "b = \<lparr>eb_actor = a, eb_commit_id = c, eb_operation_id = op,
      eb_operation_fingerprint = fp, eb_events = es, eb_correlation_id = co, eb_causation_id = ca\<rparr>"
    by (cases b)
  then show ?thesis
    using assms fields
    by (cases "md_correlation_id m"; cases "md_causation_id m"; cases "md_actor m")
      (simp_all add: prepare_batch_for_stream_def Let_def)
qed

lemma prepare_batch_ok:
  assumes "prepare_batch_for_stream sha m stream events = Inr (Some batch)"
  obtains b where "EventBatch_new (derive_commit_id sha stream (md_operation_id m))
      (md_operation_id m) (md_operation_fingerprint m) events = Inr b"
    "batch = b\<lparr>eb_actor := md_actor m, eb_correlation_id := md_correlation_id m,
       eb_causation_id := md_causation_id m\<rparr>"
proof -
  have ne: "events \<noteq> []"
    using assms by (auto simp: prepare_batch_for_stream_def)
  obtain b where b: "EventBatch_new (derive_commit_id sha stream (md_operation_id m))
      (md_operation_id m) (md_operation_fingerprint m) events = Inr b"
    using assms ne by (cases "EventBatch_new (derive_commit_id sha stream (md_operation_id m))
      (md_operation_id m) (md_operation_fingerprint m) events")
      (simp_all add: prepare_batch_for_stream_def)
  then show ?thesis
    using that prepare_batch_eq [OF ne b] assms by simp
qed

lemma prepare_batch_valid:
  assumes "prepare_batch_for_stream sha m stream events = Inr (Some batch)"
  shows "valid_batch batch"
  using assms by (rule prepare_batch_ok) (auto dest: EventBatch_new_ok(1) simp: valid_batch_def)

lemma command_transaction_eq:
  "command_transaction sha m ps rejection =
     rbind (transaction_participants sha m ps) (\<lambda>participants.
     rbind (required_bounded_context m) (\<lambda>context.
     Inr \<lparr>tx_actor = md_actor m, tx_security_scope = md_security_scope m,
          tx_completion = Some (completion_new (md_outcome_evidence m) rejection),
          tx_bounded_context = Some context, tx_operation_id = md_operation_id m,
          tx_operation_fingerprint = md_operation_fingerprint m,
          tx_correlation_id = md_correlation_id m, tx_causation_id = md_causation_id m,
          tx_participants = participants\<rparr>))"
  by (cases "md_correlation_id m"; cases "md_causation_id m"; cases "md_security_scope m";
      cases "md_actor m")
    (simp_all add: command_transaction_def EventTransaction_new_def Let_def)

lemma transaction_participants_nth:
  assumes "transaction_participants sha m ps = Inr qs"
  shows "length qs = length ps"
    and "i < length ps \<Longrightarrow> tp_stream_id (qs ! i) = cp_stream_id (ps ! i)
      \<and> tp_expected_version (qs ! i) = expected_version_of (cp_base_version (ps ! i))
      \<and> prepare_batch_for_stream sha m (cp_stream_id (ps ! i)) (cp_events (ps ! i))
          = Inr (tp_batch (qs ! i))"
proof -
  have all2: "list_all2 (\<lambda>q x. rbind (prepare_batch_for_stream sha m (cp_stream_id q) (cp_events q))
      (\<lambda>batch. Inr \<lparr>tp_stream_id = cp_stream_id q, tp_expected_version =
        expected_version_of (cp_base_version q), tp_batch = batch\<rparr>) = Inr x) ps qs"
    using assms by (simp add: transaction_participants_def collect_results_Inr_iff)
  show "length qs = length ps"
    using list_all2_lengthD [OF all2] by simp
  assume i: "i < length ps"
  obtain batch where "prepare_batch_for_stream sha m (cp_stream_id (ps ! i)) (cp_events (ps ! i))
      = Inr batch" "qs ! i = \<lparr>tp_stream_id = cp_stream_id (ps ! i), tp_expected_version =
        expected_version_of (cp_base_version (ps ! i)), tp_batch = batch\<rparr>"
    using list_all2_nthD [OF all2 i] by (auto simp: rbind_Inr_iff)
  then show "tp_stream_id (qs ! i) = cp_stream_id (ps ! i)
      \<and> tp_expected_version (qs ! i) = expected_version_of (cp_base_version (ps ! i))
      \<and> prepare_batch_for_stream sha m (cp_stream_id (ps ! i)) (cp_events (ps ! i))
          = Inr (tp_batch (qs ! i))"
    by simp
qed

lemma command_transaction_ok:
  assumes "command_transaction sha m ps rejection = Inr t"
  shows "valid_transaction t" and "tx_bounded_context t = md_bounded_context m"
    and "tx_operation_id t = md_operation_id m"
    and "tx_completion t = Some (completion_new (md_outcome_evidence m) rejection)"
    and "transaction_participants sha m ps = Inr (tx_participants t)"
proof -
  obtain participants where ps: "transaction_participants sha m ps = Inr participants"
    and eq: "tx_participants t = participants"
    using assms by (auto simp: command_transaction_eq result_simps)
  then show "transaction_participants sha m ps = Inr (tx_participants t)" by simp
  have "valid_batch b" if p: "p \<in> set participants" and b: "tp_batch p = Some b" for p b
  proof -
    obtain i where "i < length ps" "participants ! i = p"
      using p transaction_participants_nth(1) [OF ps] by (auto simp: in_set_conv_nth)
    then show ?thesis
      using transaction_participants_nth(2) [OF ps, of i] b prepare_batch_valid by metis
  qed
  then show "valid_transaction t"
    using eq by (auto simp: valid_transaction_def)
  show "tx_bounded_context t = md_bounded_context m" "tx_operation_id t = md_operation_id m"
    "tx_completion t = Some (completion_new (md_outcome_evidence m) rejection)"
    using assms by (auto simp: command_transaction_eq required_bounded_context_def result_simps)
qed

section \<open>The contract\<close>

text \<open>Other writers make steps of the store.\<close>

definition cooperative :: "('s \<Rightarrow> 's \<Rightarrow> bool) \<Rightarrow> (nat \<Rightarrow> 's \<Rightarrow> 's) \<Rightarrow> bool" where
  "cooperative step env \<longleftrightarrow> (\<forall>n s. step\<^sup>*\<^sup>* s (env n s))"

locale execution_store_contract = preserved_system step invariant
  for step :: "'s \<Rightarrow> 's \<Rightarrow> bool" and invariant :: "'s \<Rightarrow> bool" +
  fixes S :: "'s execution_store"
  assumes commit_steps:
    "invariant s \<Longrightarrow> valid_transaction t \<Longrightarrow> es_commit_outcome S s t = (r, s') \<Longrightarrow> step\<^sup>*\<^sup>* s s'"
    and commit_found:
    "invariant s \<Longrightarrow> valid_transaction t \<Longrightarrow> es_commit_outcome S s t = (Inr c, s') \<Longrightarrow>
     tx_bounded_context t = Some b \<Longrightarrow>
     es_lookup_outcome S s' (OutcomeKey_new (es_authority S) b (tx_operation_id t)) =
       Inr (Completed (commit_result c))"
    and lookup_permanent:
    "invariant s \<Longrightarrow> step\<^sup>*\<^sup>* s s' \<Longrightarrow> es_lookup_outcome S s key = Inr (Completed outcome) \<Longrightarrow>
     es_lookup_outcome S s' key = Inr (Completed outcome)
     \<or> es_lookup_outcome S s' key = Inr (Completed (outcome\<lparr>co_details := Expired\<rparr>))"
begin

lemma interleave_steps: "cooperative step env \<Longrightarrow> step\<^sup>*\<^sup>* (w_state w) (w_state (interleave env w))"
  by (simp add: cooperative_def interleave_def)

lemma run_handler_steps:
  assumes "cooperative step env"
  shows "step\<^sup>*\<^sup>* (w_state w)
    (w_state (fst (snd (run_handler sha' S env m codecs handler w x))))"
proof (induction handler arbitrary: w x)
  case (LoadAggregate A i k)
  let ?w = "interleave env w"
  let ?l = "execution_load sha' m codecs (es_load S (w_state ?w)) A i x"
  have "step\<^sup>*\<^sup>* (w_state ?w)
      (w_state (fst (snd (run_handler sha' S env m codecs (k (fst ?l)) ?w (snd ?l)))))"
    by (rule LoadAggregate) simp
  then show ?case
    using interleave_steps [OF assms, of w] by (simp add: Let_def)
qed simp_all

lemma outcome_key_for_ok:
  assumes "outcome_key_for S m = Inr key"
  obtains c where "md_bounded_context m = Some c"
    "key = OutcomeKey_new (es_authority S) c (md_operation_id m)"
  using assms by (auto simp: outcome_key_for_def required_bounded_context_def result_simps)

lemma lookup_completed_some:
  assumes "lookup_completed sha S m s = Inr (Some outcome)" and "outcome_key_for S m = Inr key"
  shows "es_lookup_outcome S s key = Inr (Completed outcome)"
    and "outcome_validate_for sha outcome key m = Inr ()"
proof -
  obtain found where found: "es_lookup_outcome S s key = Inr found"
    using assms by (auto simp: lookup_completed_def result_simps)
  then show "es_lookup_outcome S s key = Inr (Completed outcome)"
    and "outcome_validate_for sha outcome key m = Inr ()"
    using assms by (cases found; simp add: lookup_completed_def rbind_Inr_iff map_err_Inr_iff)+
qed

lemma validate_for_expired:
  "outcome_validate_for sha outcome key m = Inr () \<Longrightarrow>
   outcome_validate_for sha (outcome\<lparr>co_details := Expired\<rparr>) key m = Inr ()"
  by (auto simp: outcome_validate_for_def validate_detail_binding_def result_simps)

text \<open>A completed command found again: the same outcome, unless its details were withdrawn.\<close>

lemma lookup_completed_again:
  assumes inv: "invariant s" and later: "step\<^sup>*\<^sup>* s s'" and key: "outcome_key_for S m = Inr key"
    and at: "es_lookup_outcome S s key = Inr (Completed outcome)"
    and valid: "outcome_validate_for sha outcome key m = Inr ()"
  shows "\<exists>again. lookup_completed sha S m s' = Inr (Some again)
    \<and> (again = outcome \<or> again = outcome\<lparr>co_details := Expired\<rparr>)"
  using lookup_permanent [OF inv later at] valid validate_for_expired [OF valid] key
  by (auto simp: lookup_completed_def)

lemma persist_ok:
  assumes inv: "invariant s" and key: "outcome_key_for S m = Inr key"
    and run: "persist sha S m ps rejection s = (r, s')"
  shows "step\<^sup>*\<^sup>* s s'"
    and "r = Inr (PersistedOutcome c) \<Longrightarrow> es_lookup_outcome S s' key = Inr (Completed (commit_result c))"
proof -
  have "step\<^sup>*\<^sup>* s s' \<and> (\<forall>c. r = Inr (PersistedOutcome c)
      \<longrightarrow> es_lookup_outcome S s' key = Inr (Completed (commit_result c)))"
  proof (cases "command_transaction sha m ps rejection")
    case (Inl e)
    then show ?thesis using run by (auto simp: persist_def)
  next
    case (Inr t)
    obtain r' s2 where commit: "es_commit_outcome S s t = (r', s2)"
      by fastforce
    note t = command_transaction_ok [OF Inr]
    have s': "s' = s2"
      using run Inr commit by (auto simp: persist_def split: sum.splits)
    have "r' = Inr c" if "r = Inr (PersistedOutcome c)" for c
      using run Inr commit that by (auto simp: persist_def split: sum.splits if_splits)
    moreover obtain c where "md_bounded_context m = Some c"
      "key = OutcomeKey_new (es_authority S) c (md_operation_id m)"
      using key by (rule outcome_key_for_ok)
    ultimately show ?thesis
      using commit_steps [OF inv t(1) commit] commit_found [OF inv t(1)] commit t s' by auto
  qed
  then show "step\<^sup>*\<^sup>* s s'"
    and "r = Inr (PersistedOutcome c) \<Longrightarrow> es_lookup_outcome S s' key = Inr (Completed (commit_result c))"
    by blast+
qed

text \<open>What one turn of the loop establishes.\<close>

definition settled :: "(bytes \<Rightarrow> bytes) \<Rightarrow> execution_metadata \<Rightarrow> attempt \<Rightarrow> 's \<Rightarrow> bool" where
  "settled sha m a s \<longleftrightarrow>
     (\<forall>c key. a = AttemptDone (Inr c) \<and> outcome_key_for S m = Inr key \<longrightarrow>
        es_lookup_outcome S s key = Inr (Completed (commit_result c))
        \<and> outcome_validate_for sha (commit_result c) key m = Inr ())"

lemma after_conflict_settled: "settled sha m (after_conflict sha S m e s) s"
  using lookup_completed_some [of sha m s]
  by (auto simp: settled_def after_conflict_def split: sum.splits option.splits if_splits)

lemma accept_commit_settled:
  assumes "\<And>key. outcome_key_for S m = Inr key \<Longrightarrow>
    es_lookup_outcome S s key = Inr (Completed (commit_result c))"
  shows "settled sha m (AttemptDone (accept_commit sha S m c)) s"
  using assms by (auto simp: settled_def accept_commit_def result_simps)

lemma failure_settled: "settled sha m (AttemptDone (Inl e)) s"
  by (simp add: settled_def)

lemma persist_steps:
  assumes inv: "invariant s" and run: "persist sha S m ps rejection s = (r, s')"
  shows "step\<^sup>*\<^sup>* s s'"
proof (cases "command_transaction sha m ps rejection")
  case (Inl e)
  then show ?thesis using run by (simp add: persist_def)
next
  case (Inr t)
  then show ?thesis
    using run commit_steps [OF inv command_transaction_ok(1) [OF Inr]]
    by (cases "es_commit_outcome S s t") (auto simp: persist_def split: sum.splits)
qed

lemma commit_attempt_settled:
  assumes inv: "invariant (w_state w)" and env: "cooperative step env"
    and run: "commit_attempt sha S env m ps rejection w = (a, w')"
  shows "step\<^sup>*\<^sup>* (w_state w) (w_state w') \<and> settled sha m a (w_state w')"
proof -
  define w1 where "w1 = interleave env w"
  obtain r s' where pers: "persist sha S m ps rejection (w_state w1) = (r, s')"
    by fastforce
  define w2 where "w2 = w1\<lparr>w_state := s'\<rparr>"
  define w3 where "w3 = interleave env w2"
  note run' = run [unfolded commit_attempt_def Let_def w1_def [symmetric] pers fst_conv snd_conv
      w2_def [symmetric] w3_def [symmetric]]
  have s1: "step\<^sup>*\<^sup>* (w_state w) (w_state w1)"
    unfolding w1_def by (rule interleave_steps [OF env])
  have inv1: "invariant (w_state w1)"
    by (rule steps_invariant [OF s1 inv])
  have s2: "step\<^sup>*\<^sup>* (w_state w) (w_state w2)"
    using s1 persist_steps [OF inv1 pers] by (simp add: w2_def)
  have s3: "step\<^sup>*\<^sup>* (w_state w) (w_state w3)"
    using s2 interleave_steps [OF env, of w2] by (simp add: w3_def)
  have conflict: "settled sha m (after_conflict sha S m e (w_state w3)) (w_state w3)" for e
    by (rule after_conflict_settled)
  have finished: "settled sha m (AttemptDone (accept_commit sha S m c)) (w_state w2)"
    if "r = Inr (PersistedOutcome c)" for c
    using persist_ok(2) [OF inv1 _ pers that] by (intro accept_commit_settled) (simp add: w2_def)
  show ?thesis
  proof (cases r)
    case (Inl e)
    then show ?thesis using run' s2 failure_settled by auto
  next
    case (Inr outcome)
    then show ?thesis
      using run' s2 s3 conflict finished by (cases outcome) auto
  qed
qed

lemma evaluate_attempt_settled:
  assumes inv: "invariant (w_state w)" and env: "cooperative step env"
    and run: "evaluate_attempt sha S env m codecs codec handler w = (a, w')"
  shows "step\<^sup>*\<^sup>* (w_state w) (w_state w') \<and> settled sha m a (w_state w')"
proof -
  obtain r w1 x where h: "run_handler sha S env m codecs handler w execution_start = (r, w1, x)"
    by (metis prod_cases3)
  have s1: "step\<^sup>*\<^sup>* (w_state w) (w_state w1)"
    using run_handler_steps [OF env, of w sha m codecs handler execution_start] h by simp
  have inv1: "invariant (w_state w1)"
    by (rule steps_invariant [OF s1 inv])
  show ?thesis
  proof (cases r)
    case (Inl e)
    then show ?thesis
      using run h s1 failure_settled by (auto simp: evaluate_attempt_def)
  next
    case r: (Inr decision)
    show ?thesis
    proof (cases "attempt_participants codec decision x")
      case (Inl e)
      then show ?thesis
        using run h r s1 failure_settled by (auto simp: evaluate_attempt_def)
    next
      case (Inr pr)
      then have "commit_attempt sha S env m (fst pr) (snd pr) w1 = (a, w')"
        using run h r by (cases pr) (simp add: evaluate_attempt_def)
      then show ?thesis
        using commit_attempt_settled [OF inv1 env] s1 by fastforce
    qed
  qed
qed

lemma attempt_settled:
  assumes inv: "invariant (w_state w)" and env: "cooperative step env"
    and run: "execute_attempt sha S env m codecs codec handler w = (a, w', evaluated)"
  shows "step\<^sup>*\<^sup>* (w_state w) (w_state w') \<and> settled sha m a (w_state w')"
proof -
  define w1 where "w1 = interleave env w"
  note run' = run [unfolded execute_attempt_def Let_def w1_def [symmetric]]
  have s1: "step\<^sup>*\<^sup>* (w_state w) (w_state w1)"
    unfolding w1_def by (rule interleave_steps [OF env])
  have inv1: "invariant (w_state w1)"
    by (rule steps_invariant [OF s1 inv])
  show ?thesis
  proof (cases "lookup_completed sha S m (w_state w1)")
    case (Inl e)
    then show ?thesis using run' s1 failure_settled by auto
  next
    case found: (Inr found)
    show ?thesis
    proof (cases found)
      case (Some outcome)
      then show ?thesis
        using run' s1 found lookup_completed_some [of sha m "w_state w1"] by (auto simp: settled_def)
    next
      case None
      obtain a1 w2 where turn: "evaluate_attempt sha S env m codecs codec handler w1 = (a1, w2)"
        by fastforce
      show ?thesis
        using run' s1 found None turn failure_settled evaluate_attempt_settled [OF inv1 env turn]
        by (cases "es_begin_command S (w_state w1)") auto
    qed
  qed
qed

text \<open>A whole execution: everything it does is steps of the store, and a result it returns is the
  stored marker of the command.\<close>

lemma loop_settled:
  assumes "cooperative step env" and "invariant (w_state w)"
    and "execute_loop fuel sha S env m codecs codec policy handler evaluations w =
      Some (result, w', n)"
  shows "step\<^sup>*\<^sup>* (w_state w) (w_state w') \<and> settled sha m (AttemptDone result) (w_state w')"
  using assms(2,3)
proof (induction fuel arbitrary: evaluations w)
  case 0
  then show ?case by simp
next
  case (Suc fuel)
  obtain a w1 evaluated where run: "execute_attempt sha S env m codecs codec handler w = (a, w1, evaluated)"
    by (metis prod_cases3)
  note one = attempt_settled [OF Suc.prems(1) assms(1) run]
  have inv1: "invariant (w_state w1)"
    using one steps_invariant Suc.prems(1) by blast
  show ?case
  proof (cases a)
    case (AttemptDone r)
    then show ?thesis
      using one run Suc.prems(2) by auto
  next
    case (AttemptConflict e)
    let ?n = "min (evaluations + 1) (usize_bound - 1)"
    have "result = Inl (ExecStore e) \<and> w' = w1
      \<or> execute_loop fuel sha S env m codecs codec policy handler ?n w1 = Some (result, w', n)"
      using run Suc.prems(2) AttemptConflict
      by (cases "policy \<lparr>cr_evaluations = ?n, cr_error = e\<rparr>") (simp_all add: Let_def)
    then show ?thesis
    proof
      assume "result = Inl (ExecStore e) \<and> w' = w1"
      then show ?thesis using one by (simp add: settled_def)
    next
      assume "execute_loop fuel sha S env m codecs codec policy handler ?n w1 = Some (result, w', n)"
      then have "step\<^sup>*\<^sup>* (w_state w1) (w_state w') \<and> settled sha m (AttemptDone result) (w_state w')"
        by (rule Suc.IH [OF inv1])
      then show ?thesis using one by auto
    qed
  qed
qed

lemma loop_has_key:
  assumes "execute_loop fuel sha S env m codecs codec policy handler evaluations w =
    Some (Inr c, w', n)"
  obtains key where "outcome_key_for S m = Inr key"
proof (cases "outcome_key_for S m")
  case (Inl e)
  then have "lookup_completed sha S m s = Inl (ExecStore e)" for s
    by (simp add: lookup_completed_def)
  then show ?thesis
    using assms by (cases fuel) (simp_all add: execute_attempt_def Let_def)
qed (rule that)

text \<open>A command that completed is found again by every later execution, which does not evaluate
  its handler.\<close>

lemma loop_once:
  assumes inv: "invariant (w_state w)" and env: "cooperative step env" "cooperative step env'"
    and first: "execute_loop fuel sha S env m codecs codec policy handler 0 w = Some (Inr c, w', n)"
    and later: "step\<^sup>*\<^sup>* (w_state w') (w_state v)"
  shows "\<exists>again. execute_loop (Suc fuel') sha S env' m codecs' codec' policy' handler' 0 v =
    Some (Inr (CommitExactReplay again), interleave env' v, 0)
    \<and> (again = commit_result c \<or> again = commit_result c\<lparr>co_details := Expired\<rparr>)"
proof -
  obtain key where key: "outcome_key_for S m = Inr key"
    using first by (rule loop_has_key)
  note finished = loop_settled [OF env(1) inv first]
  have inv': "invariant (w_state w')"
    using finished inv steps_invariant by blast
  let ?v = "interleave env' v"
  have steps: "step\<^sup>*\<^sup>* (w_state w') (w_state ?v)"
    using later interleave_steps [OF env(2), of v] by simp
  obtain again where "lookup_completed sha S m (w_state ?v) = Inr (Some again)"
    "again = commit_result c \<or> again = commit_result c\<lparr>co_details := Expired\<rparr>"
    using lookup_completed_again [OF inv' steps key] finished key by (auto simp: settled_def)
  then show ?thesis
    by (simp add: execute_attempt_def Let_def)
qed

lemma execution_once:
  assumes "invariant (w_state w)" and "cooperative step env" "cooperative step env'"
    and first: "execute_completed_with_rejection_codec fuel sha S env type_name m codecs codec policy
      handler w = Some (Inr c, w', n)"
    and "step\<^sup>*\<^sup>* (w_state w') (w_state v)"
  shows "\<exists>again. execute_completed_with_rejection_codec (Suc fuel') sha S env' type_name m codecs'
      codec' policy' handler' v = Some (Inr (CommitExactReplay again), interleave env' v, 0)
    \<and> (again = commit_result c \<or> again = commit_result c\<lparr>co_details := Expired\<rparr>)"
proof -
  obtain m' where m': "rbind (default_metadata type_name m) (\<lambda>m.
      rbind (case md_outcome_evidence m of None \<Rightarrow> Inr ()
             | Some evidence \<Rightarrow> map_err ExecCodec (evidence_validate evidence)) (\<lambda>_. Inr m)) = Inr m'"
    using first by (auto simp: execute_completed_with_rejection_codec_def split: sum.splits)
  then show ?thesis
    using loop_once [OF assms(1-3) _ assms(5), of fuel sha m' codecs codec policy handler c n] first
    by (simp add: execute_completed_with_rejection_codec_def)
qed

end

section \<open>The in-memory store fulfils the contract\<close>

lemma memory_commit_found:
  assumes inv: "store_inv E auth s" and t: "valid_transaction t"
    and run: "session_commit_outcome E store s (\<lambda>s i. s) t = (Inr c, s')"
    and ctx: "tx_bounded_context t = Some b"
  shows "lookup_outcome E store (\<lambda>_. s') (OutcomeKey_new (ms_authority store) b (tx_operation_id t)) =
    Inr (Completed (commit_result c))"
proof -
  from run obtain m replay where
    inner: "append_transaction_inner E store s t = (Inr (Scoped m, replay), s')"
    and res: "resolve_marker E store (\<lambda>_. s') m = Inr (commit_result c)"
    by (rule session_commit_ok)
  have "fmlookup (st_transactions s') (transaction_key t) = Some (Scoped m)"
  proof (cases "fmlookup (st_transactions s) (transaction_key t)")
    case (Some x)
    then show ?thesis
      using inner_known(1,2) [OF Some, of E store] inner by simp
  next
    case None
    then have "\<not> replay"
      using inner by (auto simp: append_transaction_inner_def split: sum.splits if_splits)
    then obtain detail where "s' = committed_state s t (Scoped m) detail"
      using inner_committed [OF inv t, of store "Scoped m" s'] inner by metis
    then show ?thesis by (simp add: commit_plan_sel)
  qed
  then show ?thesis
    using lookup_scoped [of "\<lambda>_. s'"] res ctx by (simp add: transaction_key_def)
qed

text \<open>What a lookup that finds a command read: the marker and its details.\<close>

lemma lookup_outcome_completed:
  assumes "lookup_outcome E store (\<lambda>_. s) key = Inr (Completed outcome)"
  obtains m where "key_authority key = ms_authority store"
    "fmlookup (st_transactions s) (Some (key_context key), key_operation key) = Some (Scoped m)"
    "resolve_marker E store (\<lambda>_. s) m = Inr outcome"
  using assms by (auto simp: lookup_outcome_def validate_authority_def result_simps
      split: if_splits option.splits stored_transaction.splits)

lemma memory_lookup_permanent:
  assumes inv: "store_inv E auth s" and le: "store_before s s'" and serde: "header_roundtrip E"
    and hot: "ms_hot store = MemoryDetails"
    and found: "lookup_outcome E store (\<lambda>_. s) key = Inr (Completed outcome)"
  shows "lookup_outcome E store (\<lambda>_. s') key = Inr (Completed outcome)
    \<or> lookup_outcome E store (\<lambda>_. s') key = Inr (Completed (outcome\<lparr>co_details := Expired\<rparr>))"
proof -
  from found obtain m where key: "key_authority key = ms_authority store"
    and some: "fmlookup (st_transactions s) (Some (key_context key), key_operation key) = Some (Scoped m)"
    and res: "resolve_marker E store (\<lambda>_. s) m = Inr outcome"
    by (rule lookup_outcome_completed)
  have key': "key = OutcomeKey_new (ms_authority store) (key_context key) (key_operation key)"
    using key by (simp add: OutcomeKey_new_def)
  have some': "fmlookup (st_transactions s') (Some (key_context key), key_operation key) = Some (Scoped m)"
    by (rule store_before_transaction [OF le some])
  have again: "lookup_outcome E store (\<lambda>_. s') key = Inr (Completed o')"
    if "resolve_marker E store (\<lambda>_. s') m = Inr o'" for o'
    using lookup_scoped [of "\<lambda>_. s'", OF some' that] key' by simp
  have m: "marker_ok E auth s (key_context key) (key_operation key) m"
    using store_inv_stored [OF inv some] by (simp add: stored_ok_def)
  have out: "co_marker outcome = m"
    by (rule resolve_marker_marker [OF res])
  show ?thesis
  proof (cases "fmlookup (st_details s') (om_reference m) = Some DetailExpired")
    case True
    moreover have "\<lparr>co_marker = m, co_details = Expired\<rparr> = outcome\<lparr>co_details := Expired\<rparr>"
      using out by (cases outcome) simp
    ultimately show ?thesis
      using again [OF resolve_expired [of "\<lambda>_. s'"]] by simp
  next
    case False
    have "detail_before (fmlookup (st_details s) (om_reference m))
        (fmlookup (st_details s') (om_reference m))"
      using le by (simp add: store_before_def)
    moreover obtain d where "fmlookup (st_details s) (om_reference m) = Some d"
      using m by (cases "fmlookup (st_details s) (om_reference m)") (simp_all add: marker_ok_def)
    ultimately obtain bytes where bytes: "fmlookup (st_details s) (om_reference m) = Some (Active bytes)"
      "fmlookup (st_details s') (om_reference m) = Some (Active bytes)"
      using False by (cases d) auto
    then obtain completion where "details_for E (om_reference m) completion bytes"
      using m by (auto simp: marker_ok_def)
    then have "resolve_marker E store (\<lambda>_. s') m = resolve_marker E store (\<lambda>_. s) m"
      using resolve_active [OF serde _ _ hot] bytes by simp
    then show ?thesis
      using again res by simp
  qed
qed

lemma memory_execution_store_sel [simp]:
  "es_authority (memory_execution_store E store) = ms_authority store"
  "es_load (memory_execution_store E store) s stream = Inr (load s stream)"
  "es_lookup_outcome (memory_execution_store E store) s key = lookup_outcome E store (\<lambda>_. s) key"
  "es_begin_command (memory_execution_store E store) s = Inr ()"
  "es_commit_outcome (memory_execution_store E store) s t =
     session_commit_outcome E store s (\<lambda>s i. s) t"
  by (simp_all add: memory_execution_store_def)

text \<open>A handle that reads details from its own coordinator, on a well-formed state, with a
  serialiser that reads back the headers it writes.\<close>

definition memory_ready :: "externals \<Rightarrow> memory_store \<Rightarrow> memory_state \<Rightarrow> bool" where
  "memory_ready E store s \<longleftrightarrow>
     store_inv E (ms_authority store) s \<and> header_roundtrip E \<and> ms_hot store = MemoryDetails"

interpretation mem_exec: execution_store_contract "store_step E (ms_authority store)"
  "memory_ready E store" "memory_execution_store E store" for E store
proof
  fix s s' :: memory_state and t key r c b outcome
  let ?auth = "ms_authority store"
  assume ready: "memory_ready E store s"
  then have inv: "store_inv E ?auth s" and serde: "header_roundtrip E"
    and hot: "ms_hot store = MemoryDetails"
    by (simp_all add: memory_ready_def)
  show "memory_ready E store s'" if "store_step E ?auth s s'"
    using that store_step_keeps inv serde hot by (simp add: memory_ready_def)
  show "(store_step E ?auth)\<^sup>*\<^sup>* s s'"
    if "valid_transaction t" "es_commit_outcome (memory_execution_store E store) s t = (r, s')"
    using that by (auto intro: step_session_commit r_into_rtranclp)
  show "es_lookup_outcome (memory_execution_store E store) s'
      (OutcomeKey_new (es_authority (memory_execution_store E store)) b (tx_operation_id t)) =
      Inr (Completed (commit_result c))"
    if "valid_transaction t" "es_commit_outcome (memory_execution_store E store) s t = (Inr c, s')"
      "tx_bounded_context t = Some b"
    using memory_commit_found [OF inv] that by simp
  show "es_lookup_outcome (memory_execution_store E store) s' key = Inr (Completed outcome)
      \<or> es_lookup_outcome (memory_execution_store E store) s' key =
        Inr (Completed (outcome\<lparr>co_details := Expired\<rparr>))"
    if "(store_step E ?auth)\<^sup>*\<^sup>* s s'"
      "es_lookup_outcome (memory_execution_store E store) s key = Inr (Completed outcome)"
    using memory_lookup_permanent [OF inv mem.steps_before [OF that(1) inv] serde hot] that(2) by simp
qed

lemma bounded_execution_returns:
  assumes "maximum < usize_bound - 1"
  shows "\<exists>result w' n. execute_completed_with_rejection_codec (Suc maximum) sha S env type_name m
      codecs codec (bounded_conflict_retries maximum) handler w = Some (result, w', n)
    \<and> n \<le> Suc maximum"
proof -
  have "\<exists>result w' n. execute_loop (Suc maximum) sha S env m' codecs codec
      (bounded_conflict_retries maximum) handler 0 w = Some (result, w', n) \<and> n \<le> Suc maximum" for m'
    by (rule bounded.loop_returns [OF assms]) simp_all
  then show ?thesis
    by (auto simp: execute_completed_with_rejection_codec_def split: sum.splits)
qed

lemma reachable_ready:
  "reachable E (ms_authority store) s \<Longrightarrow> header_roundtrip E \<Longrightarrow> ms_hot store = MemoryDetails \<Longrightarrow>
   memory_ready E store s"
  by (simp add: memory_ready_def reachable_inv)

end
