(* ===== verification/Serializability.thy ===== *)
theory Serializability
  imports ExecutionContract
begin

text \<open>
  Executions under interference. A store with versioned histories (an extension of the contract of
  \<open>ExecutionContract\<close>) refuses a commit when one of the streams an attempt loaded has moved. From
  that it follows that an attempt that appended did what it would have done without interference
  at the state it committed on: its handler would have seen the same results of every call, the
  failed ones included.
\<close>

section \<open>What an attempt enlisted\<close>

definition enlisted :: "('st, 'ev) command_execution \<Rightarrow> (stream_id \<times> stream_version) list" where
  "enlisted x = map (\<lambda>p. (ep_stream_id p, ep_base_version p)) (ce_participants x)"

lemma enlisted_update:
  assumes "ep_stream_id p' = ep_stream_id (ce_participants x ! i)"
    and "ep_base_version p' = ep_base_version (ce_participants x ! i)"
  shows "enlisted (x\<lparr>ce_participants := (ce_participants x)[i := p']\<rparr>) = enlisted x"
  using assms by (cases "i < length (ce_participants x)")
    (auto simp: enlisted_def map_update list_update_same_conv list_update_beyond)

lemma enlisted_push_entry [simp]: "enlisted (push_entry i entry x) = enlisted x"
  by (auto simp: push_entry_def Let_def intro!: enlisted_update)

lemma enlisted_set_finalization [simp]: "enlisted (set_finalization i f x) = enlisted x"
  by (auto simp: set_finalization_def Let_def intro!: enlisted_update)

lemma enlisted_set_aggregate [simp]: "enlisted (set_aggregate h a x) = enlisted x"
  by (simp add: set_aggregate_def enlisted_def)

lemma enlisted_set_place [simp]: "enlisted (set_place h place x) = enlisted x"
  by (simp add: set_place_def enlisted_def)

lemma enlisted_raise_event [simp]: "enlisted (raise_event sha progress h event x) = enlisted x"
  by (simp add: raise_event_def Let_def split: option.splits)

lemma enlisted_drop_handle [simp]: "enlisted (drop_handle h x) = enlisted x"
  by (simp add: drop_handle_def)

lemma enlisted_handles [simp]:
  "enlisted (replace_aggregate h a x) = enlisted x"
  "enlisted (swap_aggregates h k x) = enlisted x"
  "enlisted (escape_handle h x) = enlisted x"
  by (simp_all add: replace_aggregate_def swap_aggregates_def escape_handle_def)

lemma enlisted_drop_all [simp]: "enlisted (drop_all x) = enlisted x"
proof -
  have "enlisted (foldl (\<lambda>x h. if la_place (ce_handles x ! h) = Held then drop_handle h x else x) x hs)
      = enlisted x" for hs :: "nat list"
    by (induction hs arbitrary: x) simp_all
  then show ?thesis by (simp add: drop_all_def)
qed

text \<open>The prefix of a history that fails to decode decides the error of the whole.\<close>

lemma collect_results_append_error:
  "collect_results f xs = Inl e \<Longrightarrow> collect_results f (xs @ ys) = Inl e"
  by (induction xs) (auto simp: rbind_Inl_iff)

text \<open>What an attempt persists are the streams it enlisted, each at the version it read.\<close>

lemma finish_enlisted:
  assumes "attempt_participants codec decision x = Inr (ps, rejection)"
  shows "map (\<lambda>p. (cp_stream_id p, cp_base_version p)) ps = enlisted x"
proof -
  have "list_all2 (\<lambda>p q. cp_stream_id q = ep_stream_id p \<and> cp_base_version q = ep_base_version p)
      (ce_participants x) ps"
  proof (cases decision)
    case Accepted
    then have "list_all2 (\<lambda>p q. collect p = Inr q) (ce_participants x) ps"
      using assms by (auto simp: attempt_participants_def finish_def collect_results_Inr_iff result_simps)
    then show ?thesis
      by (rule list_all2_mono) (auto simp: collect_def result_simps split: if_splits)
  next
    case (Rejected r)
    then have "finish_rejected x = Inr ps"
      using assms by (auto simp: attempt_participants_def result_simps)
    then show ?thesis
      unfolding finish_rejected_def collect_results_Inr_iff
      by (rule list_all2_mono) (auto simp: result_simps)
  qed
  then show ?thesis
    by (auto simp: enlisted_def list_eq_iff_nth_eq list_all2_conv_all_nth)
qed

text \<open>A successful load, in one equation.\<close>

definition load_checks ::
  "execution_metadata \<Rightarrow> ('st, 'ev) aggregate_model \<Rightarrow> string \<Rightarrow> ('st, 'ev) command_execution \<Rightarrow>
   command_execution_error + stream_id" where
  "load_checks m A i x =
     rbind (map_err ExecStore (validate_bounded_context A m)) (\<lambda>_.
     rbind (map_err ExecStore (stream_id_for A i)) (\<lambda>stream.
     if stream \<in> ce_loaded_streams x then Inl (execution_invalid LoadedTwice) else Inr stream))"

definition enlist ::
  "(bytes \<Rightarrow> bytes) \<Rightarrow> execution_metadata \<Rightarrow> ('st, 'ev) aggregate_model \<Rightarrow> stream_id \<Rightarrow>
   'ev event_codec \<Rightarrow> stream_version \<Rightarrow> 'ev list \<Rightarrow> ('st, 'ev) command_execution \<Rightarrow>
   ('st, 'ev) command_execution" where
  "enlist sha m A stream codec base events x =
     \<lparr>ce_loaded_streams = insert stream (ce_loaded_streams x),
      ce_participants = ce_participants x @
        [\<lparr>ep_stream_id = stream, ep_base_version = base,
          ep_tracker = \<lparr>pt_journal = [], pt_finalization = None\<rparr>\<rparr>],
      ce_handles = ce_handles x @
        [\<lparr>la_model = A, la_aggregate = observe_raised_events
            \<lparr>ob_token = length (ce_participants x),
             ob_commit_id = derive_commit_id sha stream (md_operation_id m), ob_codec = codec\<rparr>
            (instance_rehydrate A stream events),
          la_base_version = base, la_observer_token = length (ce_participants x),
          la_place = Held\<rparr>]\<rparr>"

lemma execution_load_eq:
  assumes "\<And>st. history st = Inr (h st)" and "\<And>st. validate_history sha st (h st) = Inr ()"
  shows "execution_load sha m codecs history A i x =
    (case load_checks m A i x of
       Inl e \<Rightarrow> (Inl e, x)
     | Inr stream \<Rightarrow>
         (case codecs_resolve codecs A of
            Inl e \<Rightarrow> (Inl (ExecCodec e), x)
          | Inr codec \<Rightarrow>
              (case collect_results (ec_decode codec) (h stream) of
                 Inl e \<Rightarrow> (Inl (ExecCodec e), x)
               | Inr events \<Rightarrow> (Inr (length (ce_handles x)),
                   enlist sha m A stream codec (history_version (h stream)) events x))))"
proof (cases "validate_bounded_context A m")
  case (Inl e)
  then show ?thesis by (simp add: load_checks_def execution_load_def)
next
  case ctx: (Inr u)
  show ?thesis
  proof (cases "stream_id_for A i")
    case (Inl e)
    then show ?thesis using ctx by (simp add: load_checks_def execution_load_def)
  next
    case stream: (Inr stream)
    show ?thesis
    proof (cases "codecs_resolve codecs A")
      case (Inl e)
      then show ?thesis
        using ctx stream assms by (simp add: load_checks_def execution_load_def)
    next
      case (Inr codec)
      then show ?thesis
        using ctx stream assms
        by (cases "collect_results (ec_decode codec) (h stream)")
          (simp_all add: load_checks_def execution_load_def enlist_def Let_def)
    qed
  qed
qed

section \<open>The contract\<close>

locale versioned_store = execution_store_contract step invariant S
  for step :: "'s \<Rightarrow> 's \<Rightarrow> bool" and invariant :: "'s \<Rightarrow> bool" and S :: "'s execution_store" +
  fixes sha :: "bytes \<Rightarrow> bytes"
    and history :: "'s \<Rightarrow> stream_id \<Rightarrow> recorded_event list"
  assumes load_history: "es_load S s st = Inr (history s st)"
    and history_valid: "invariant s \<Longrightarrow> validate_history sha st (history s st) = Inr ()"
    and history_grows: "invariant s \<Longrightarrow> step\<^sup>*\<^sup>* s s' \<Longrightarrow> \<exists>later. history s' st = history s st @ later"
    and history_version_length: "invariant s \<Longrightarrow>
      unat (history_version (history s st)) = length (history s st)"
    and commit_expects: "invariant s \<Longrightarrow> valid_transaction t \<Longrightarrow>
      es_commit_outcome S s t = (Inr (CommitAppended outcome), s') \<Longrightarrow> p \<in> set (tx_participants t) \<Longrightarrow>
      tp_expected_version p = expected_version_of v \<Longrightarrow> history_version (history s (tp_stream_id p)) = v"
    and commit_missing: "invariant s \<Longrightarrow> valid_transaction t \<Longrightarrow>
      es_commit_outcome S s t = (Inr (CommitAppended outcome), s') \<Longrightarrow> tx_bounded_context t = Some b \<Longrightarrow>
      es_lookup_outcome S s (OutcomeKey_new (es_authority S) b (tx_operation_id t)) = Inr Missing"
    and begin_ready: "es_begin_command S s = Inr ()"
begin

definition still_current :: "'s \<Rightarrow> ('st, 'ev) command_execution \<Rightarrow> bool" where
  "still_current s x \<longleftrightarrow> (\<forall>(st, v) \<in> set (enlisted x). history_version (history s st) = v)"

lemma same_history:
  assumes "invariant s" and "step\<^sup>*\<^sup>* s s'"
    and "history_version (history s' st) = history_version (history s st)"
  shows "history s' st = history s st"
proof -
  obtain later where later: "history s' st = history s st @ later"
    using history_grows [OF assms(1,2)] by blast
  have "length (history s' st) = length (history s st)"
    using history_version_length [OF assms(1), of st] assms(3)
      history_version_length [OF steps_invariant [OF assms(2,1)], of st]
    by simp
  then show ?thesis using later by simp
qed

lemma load_undisturbed:
  assumes inv: "invariant s" and later: "step\<^sup>*\<^sup>* s s'"
    and run: "execution_load sha m codecs (es_load S s) A i x = (r, x1)"
    and current: "still_current s' x1"
  shows "execution_load sha m codecs (es_load S s') A i x = (r, x1)"
proof -
  have inv': "invariant s'" by (rule steps_invariant [OF later inv])
  note eq = execution_load_eq [OF load_history history_valid [OF inv]]
  note eq' = execution_load_eq [OF load_history history_valid [OF inv']]
  show ?thesis
  proof (cases "load_checks m A i x")
    case (Inl e)
    then show ?thesis using run by (simp add: eq eq')
  next
    case checks: (Inr stream)
    show ?thesis
    proof (cases "codecs_resolve codecs A")
      case (Inl e)
      then show ?thesis using run checks by (simp add: eq eq')
    next
      case codec: (Inr codec)
      obtain more where more: "history s' stream = history s stream @ more"
        using history_grows [OF inv later] by blast
      show ?thesis
      proof (cases "collect_results (ec_decode codec) (history s stream)")
        case (Inl e)
        then show ?thesis
          using run checks codec more collect_results_append_error [OF Inl, of more]
          by (simp add: eq eq')
      next
        case (Inr events)
        then have x1: "x1 = enlist sha m A stream codec (history_version (history s stream)) events x"
          using run checks codec by (simp add: eq)
        have "history_version (history s' stream) = history_version (history s stream)"
          using current x1 by (simp add: still_current_def enlisted_def enlist_def)
        then have "history s' stream = history s stream"
          by (rule same_history [OF inv later])
        then show ?thesis using run checks codec Inr by (simp add: eq eq')
      qed
    qed
  qed
qed

lemma enlisted_load:
  obtains new where "enlisted (snd (execution_load sha' m codecs h A i x)) = enlisted x @ new"
  by (rule that [of "drop (length (enlisted x)) (enlisted (snd (execution_load sha' m codecs h A i x)))"])
    (auto simp: execution_load_def enlisted_def Let_def split: sum.splits)

lemma enlisted_run_handler:
  "\<exists>new. enlisted (snd (snd (run_handler sha' S env m codecs handler w x))) = enlisted x @ new"
proof (induction handler arbitrary: w x)
  case (LoadAggregate A i k)
  let ?w = "interleave env w"
  let ?l = "execution_load sha' m codecs (es_load S (w_state ?w)) A i x"
  obtain new where "enlisted (snd ?l) = enlisted x @ new"
    by (rule enlisted_load)
  moreover obtain rest where
    "enlisted (snd (snd (run_handler sha' S env m codecs (k (fst ?l)) ?w (snd ?l)))) =
       enlisted (snd ?l) @ rest"
    using LoadAggregate [OF rangeI] by blast
  ultimately show ?case by (simp add: Let_def)
qed (auto, (metis enlisted_raise_event enlisted_drop_handle enlisted_handles)+)

lemma still_current_prefix:
  "still_current s x \<Longrightarrow> enlisted x = enlisted y @ new \<Longrightarrow> still_current s y"
  by (auto simp: still_current_def)

text \<open>A handler whose streams are all still current saw what it would see now.\<close>

lemma run_handler_undisturbed:
  assumes "cooperative step env" and "invariant (w_state w)"
    and "run_handler sha S env m codecs handler w x = (d, w1, x1)"
    and "step\<^sup>*\<^sup>* (w_state w1) s" and "still_current s x1" and "w_state v = s"
  shows "\<exists>v1. run_handler sha S (\<lambda>_ s. s) m codecs handler v x = (d, v1, x1) \<and> w_state v1 = s"
  using assms(2-6)
proof (induction handler arbitrary: w x v)
  case (LoadAggregate A i k)
  let ?w = "interleave env w" and ?v = "interleave (\<lambda>_ s. s) v"
  obtain r x2 where l: "execution_load sha m codecs (es_load S (w_state ?w)) A i x = (r, x2)"
    by fastforce
  have run: "run_handler sha S env m codecs (k r) ?w x2 = (d, w1, x1)"
    using LoadAggregate.prems(2) l by (simp add: Let_def)
  have inv: "invariant (w_state ?w)"
    using interleave_steps [OF assms(1)] steps_invariant LoadAggregate.prems(1) by blast
  have later: "step\<^sup>*\<^sup>* (w_state ?w) s"
    using run_handler_steps [OF assms(1), of ?w sha m codecs "k r" x2] run LoadAggregate.prems(3)
    by simp
  obtain new where "enlisted x1 = enlisted x2 @ new"
    using enlisted_run_handler [of sha env m codecs "k r" ?w x2] run by auto
  then have "still_current s x2"
    using LoadAggregate.prems(4) still_current_prefix by blast
  then have l': "execution_load sha m codecs (es_load S s) A i x = (r, x2)"
    by (rule load_undisturbed [OF inv later l])
  have v: "w_state ?v = s"
    using LoadAggregate.prems(5) by (simp add: interleave_def)
  have "\<exists>v1. run_handler sha S (\<lambda>_ s. s) m codecs (k r) ?v x2 = (d, v1, x1) \<and> w_state v1 = s"
    by (rule LoadAggregate.IH [OF rangeI inv run LoadAggregate.prems(3,4) v])
  then show ?case
    using l' v by (simp add: Let_def)
qed auto

text \<open>What the commit of an attempt checks.\<close>

lemma persist_committed:
  assumes run: "persist sha S m ps rejection s = (Inr (PersistedOutcome c), s')"
    and c: "\<not> is_exact_replay c"
  obtains t outcome where "command_transaction sha m ps rejection = Inr t"
    "es_commit_outcome S s t = (Inr (CommitAppended outcome), s')"
proof (cases "command_transaction sha m ps rejection")
  case (Inl e)
  then show ?thesis using run by (simp add: persist_def)
next
  case (Inr t)
  then have "es_commit_outcome S s t = (Inr c, s')"
    using run by (auto simp: persist_def split: prod.splits sum.splits if_splits)
  then show ?thesis
    using that Inr c by (cases c) auto
qed

lemma persist_current:
  assumes inv: "invariant s" and run: "persist sha S m ps rejection s = (Inr (PersistedOutcome c), s')"
    and c: "\<not> is_exact_replay c"
  shows "p \<in> set ps \<Longrightarrow> history_version (history s (cp_stream_id p)) = cp_base_version p"
    and "lookup_completed sha S m s = Inr None"
proof -
  from run c obtain t outcome where tx: "command_transaction sha m ps rejection = Inr t"
    and commit: "es_commit_outcome S s t = (Inr (CommitAppended outcome), s')"
    by (rule persist_committed)
  note t = command_transaction_ok [OF tx]
  show "history_version (history s (cp_stream_id p)) = cp_base_version p" if p: "p \<in> set ps"
  proof -
    obtain i where i: "i < length ps" "ps ! i = p"
      using p by (auto simp: in_set_conv_nth)
    moreover have "tx_participants t ! i \<in> set (tx_participants t)"
      using i transaction_participants_nth(1) [OF t(5)] by simp
    ultimately show ?thesis
      using commit_expects [OF inv t(1) commit] transaction_participants_nth(2) [OF t(5), of i]
      by metis
  qed
  obtain b where b: "md_bounded_context m = Some b"
    using tx by (auto simp: command_transaction_eq required_bounded_context_def result_simps)
  then show "lookup_completed sha S m s = Inr None"
    using commit_missing [OF inv t(1) commit] t(2,3)
    by (simp add: lookup_completed_def outcome_key_for_def required_bounded_context_def)
qed

lemma commit_undisturbed:
  assumes env: "cooperative step env" and inv: "invariant (w_state w)"
    and run: "commit_attempt sha S env m ps rejection w = (AttemptDone (Inr c), w')"
    and c: "\<not> is_exact_replay c"
  obtains s where "step\<^sup>*\<^sup>* (w_state w) s" "\<And>p. p \<in> set ps \<Longrightarrow>
      history_version (history s (cp_stream_id p)) = cp_base_version p"
    "lookup_completed sha S m s = Inr None"
    "\<And>v. w_state v = s \<Longrightarrow> \<exists>v'. commit_attempt sha S (\<lambda>_ s. s) m ps rejection v =
      (AttemptDone (Inr c), v') \<and> w_state v' = w_state w'"
proof -
  let ?s = "w_state (interleave env w)"
  obtain r s' where pers: "persist sha S m ps rejection ?s = (r, s')"
    by fastforce
  have steps: "step\<^sup>*\<^sup>* (w_state w) ?s"
    by (rule interleave_steps [OF env])
  have replay: "after_conflict sha S m e s = AttemptDone (Inr c) \<Longrightarrow> is_exact_replay c" for e s
    by (auto simp: after_conflict_def split: sum.splits option.splits if_splits)
  have "r = Inr (PersistedOutcome c) \<and> accept_commit sha S m c = Inr c \<and> w_state w' = s'"
  proof (cases r)
    case (Inl e)
    then show ?thesis using run pers by (simp add: commit_attempt_def Let_def)
  next
    case (Inr outcome)
    then show ?thesis
      using run pers replay c
      by (cases outcome) (auto simp: commit_attempt_def Let_def accept_commit_def result_simps)
  qed
  then have r: "r = Inr (PersistedOutcome c)" and accept: "accept_commit sha S m c = Inr c"
    and w': "w_state w' = s'"
    by simp_all
  show ?thesis
  proof (rule that [OF steps])
    show "history_version (history ?s (cp_stream_id p)) = cp_base_version p" if "p \<in> set ps" for p
      using persist_current(1) [OF steps_invariant [OF steps inv] pers [unfolded r] c that] .
    show "lookup_completed sha S m ?s = Inr None"
      by (rule persist_current(2) [OF steps_invariant [OF steps inv] pers [unfolded r] c])
    show "\<exists>v'. commit_attempt sha S (\<lambda>_ s. s) m ps rejection v =
        (AttemptDone (Inr c), v') \<and> w_state v' = w_state w'" if "w_state v = ?s" for v
      using that pers r accept w' by (simp add: commit_attempt_def Let_def interleave_def)
  qed
qed

lemma evaluate_undisturbed:
  assumes env: "cooperative step env" and inv: "invariant (w_state w)"
    and run: "evaluate_attempt sha S env m codecs codec handler w = (AttemptDone (Inr c), w')"
    and c: "\<not> is_exact_replay c"
  shows "\<exists>s. step\<^sup>*\<^sup>* (w_state w) s \<and> lookup_completed sha S m s = Inr None \<and>
    (\<forall>v. w_state v = s \<longrightarrow>
    (\<exists>v'. evaluate_attempt sha S (\<lambda>_ s. s) m codecs codec handler v = (AttemptDone (Inr c), v')
      \<and> w_state v' = w_state w'))"
proof -
  obtain r w1 x where h: "run_handler sha S env m codecs handler w execution_start = (r, w1, x)"
    by (metis prod_cases3)
  obtain d where d: "r = Inr d"
    using run h by (cases r) (auto simp: evaluate_attempt_def)
  obtain ps rejection where ps: "attempt_participants codec d x = Inr (ps, rejection)"
    using run h d by (cases "attempt_participants codec d x") (auto simp: evaluate_attempt_def)
  have commit: "commit_attempt sha S env m ps rejection w1 = (AttemptDone (Inr c), w')"
    using run h d ps by (simp add: evaluate_attempt_def)
  have s1: "step\<^sup>*\<^sup>* (w_state w) (w_state w1)"
    using run_handler_steps [OF env, of w sha m codecs handler execution_start] h by simp
  from env steps_invariant [OF s1 inv] commit c obtain s where s: "step\<^sup>*\<^sup>* (w_state w1) s"
    and guards: "\<And>p. p \<in> set ps \<Longrightarrow> history_version (history s (cp_stream_id p)) = cp_base_version p"
    and missing: "lookup_completed sha S m s = Inr None"
    and again: "\<And>v. w_state v = s \<Longrightarrow> \<exists>v'. commit_attempt sha S (\<lambda>_ s. s) m ps rejection v =
      (AttemptDone (Inr c), v') \<and> w_state v' = w_state w'"
    by (rule commit_undisturbed) blast
  have current: "still_current s x"
    using guards unfolding still_current_def finish_enlisted [OF ps, symmetric] by auto
  have "\<exists>v'. evaluate_attempt sha S (\<lambda>_ s. s) m codecs codec handler v = (AttemptDone (Inr c), v')
      \<and> w_state v' = w_state w'" if v: "w_state v = s" for v
  proof -
    obtain v1 where "run_handler sha S (\<lambda>_ s. s) m codecs handler v execution_start = (r, v1, x)"
      "w_state v1 = s"
      using run_handler_undisturbed [OF env inv h s current v] by blast
    then show ?thesis
      using again [of v1] d ps by (simp add: evaluate_attempt_def)
  qed
  then show ?thesis
    using s1 s missing by (meson rtranclp_trans)
qed

lemma attempt_undisturbed:
  assumes env: "cooperative step env" and inv: "invariant (w_state w)"
    and run: "execute_attempt sha S env m codecs codec handler w = (AttemptDone (Inr c), w', evaluated)"
    and c: "\<not> is_exact_replay c"
  shows "\<exists>s. step\<^sup>*\<^sup>* (w_state w) s \<and> (\<forall>v. w_state v = s \<longrightarrow>
    (\<exists>v'. execute_attempt sha S (\<lambda>_ s. s) m codecs codec handler v = (AttemptDone (Inr c), v', True)
      \<and> w_state v' = w_state w'))"
proof -
  let ?w = "interleave env w"
  have s1: "step\<^sup>*\<^sup>* (w_state w) (w_state ?w)"
    by (rule interleave_steps [OF env])
  have "lookup_completed sha S m (w_state ?w) = Inr None"
    using run c by (auto simp: execute_attempt_def Let_def split: sum.splits option.splits)
  then have turn: "evaluate_attempt sha S env m codecs codec handler ?w = (AttemptDone (Inr c), w')"
    using run begin_ready by (auto simp: execute_attempt_def Let_def prod_eq_iff)
  obtain s where s: "step\<^sup>*\<^sup>* (w_state ?w) s" "lookup_completed sha S m s = Inr None"
    and again: "\<And>v. w_state v = s \<Longrightarrow> \<exists>v'. evaluate_attempt sha S (\<lambda>_ s. s) m codecs codec handler v
      = (AttemptDone (Inr c), v') \<and> w_state v' = w_state w'"
    using evaluate_undisturbed [OF env steps_invariant [OF s1 inv] turn c] by blast
  have "\<exists>v'. execute_attempt sha S (\<lambda>_ s. s) m codecs codec handler v =
      (AttemptDone (Inr c), v', True) \<and> w_state v' = w_state w'" if v: "w_state v = s" for v
    using again [of "interleave (\<lambda>_ s. s) v"] v s(2) begin_ready
    by (auto simp: execute_attempt_def Let_def interleave_def)
  then show ?thesis
    using s1 s(1) by (meson rtranclp_trans)
qed

text \<open>An execution that appended is one uninterrupted turn at some state between its beginning and
  its end.\<close>

lemma loop_undisturbed:
  assumes "cooperative step env" and "invariant (w_state w)"
    and "execute_loop fuel sha S env m codecs codec policy handler evaluations w =
      Some (Inr c, w', n)" and "\<not> is_exact_replay c"
  shows "\<exists>s. step\<^sup>*\<^sup>* (w_state w) s \<and> (\<forall>v. w_state v = s \<longrightarrow>
    (\<exists>v'. execute_attempt sha S (\<lambda>_ s. s) m codecs codec handler v = (AttemptDone (Inr c), v', True)
      \<and> w_state v' = w_state w'))"
  using assms(2,3)
proof (induction fuel arbitrary: evaluations w)
  case 0
  then show ?case by simp
next
  case (Suc fuel)
  obtain a w1 evaluated where
    run: "execute_attempt sha S env m codecs codec handler w = (a, w1, evaluated)"
    by (metis prod_cases3)
  show ?case
  proof (cases a)
    case (AttemptDone r)
    then show ?thesis
      using attempt_undisturbed [OF assms(1) Suc.prems(1) _ assms(4)] run Suc.prems(2) by simp
  next
    case (AttemptConflict e)
    let ?n = "min (evaluations + 1) (usize_bound - 1)"
    have rest: "execute_loop fuel sha S env m codecs codec policy handler ?n w1 = Some (Inr c, w', n)"
      using run Suc.prems(2) AttemptConflict
      by (cases "policy \<lparr>cr_evaluations = ?n, cr_error = e\<rparr>") (simp_all add: Let_def)
    have s1: "step\<^sup>*\<^sup>* (w_state w) (w_state w1)"
      using attempt_settled [OF Suc.prems(1) assms(1) run] by simp
    obtain s where "step\<^sup>*\<^sup>* (w_state w1) s" and again: "\<forall>v. w_state v = s \<longrightarrow>
        (\<exists>v'. execute_attempt sha S (\<lambda>_ s. s) m codecs codec handler v =
          (AttemptDone (Inr c), v', True) \<and> w_state v' = w_state w')"
      using Suc.IH [OF steps_invariant [OF s1 Suc.prems(1)] rest] by blast
    then show ?thesis
      using s1 by (meson rtranclp_trans)
  qed
qed

lemma execution_undisturbed:
  assumes "cooperative step env" and "invariant (w_state w)"
    and run: "execute_completed_with_rejection_codec fuel sha S env type_name m codecs codec policy
      handler w = Some (Inr (CommitAppended outcome), w', n)"
  shows "\<exists>s v'. step\<^sup>*\<^sup>* (w_state w) s \<and>
    execute_completed_with_rejection_codec 1 sha S (\<lambda>_ s. s) type_name m codecs codec
      no_conflict_retries handler \<lparr>w_calls = 0, w_state = s\<rparr> =
      Some (Inr (CommitAppended outcome), v', 1) \<and> w_state v' = w_state w'"
proof -
  let ?m = "rbind (default_metadata type_name m) (\<lambda>m.
      rbind (case md_outcome_evidence m of None \<Rightarrow> Inr ()
             | Some evidence \<Rightarrow> map_err ExecCodec (evidence_validate evidence)) (\<lambda>_. Inr m))"
  obtain m' where m': "?m = Inr m'"
    using run by (cases ?m) (simp_all add: execute_completed_with_rejection_codec_def)
  then have "execute_loop fuel sha S env m' codecs codec policy handler 0 w =
      Some (Inr (CommitAppended outcome), w', n)"
    using run by (simp add: execute_completed_with_rejection_codec_def)
  then obtain s where s: "step\<^sup>*\<^sup>* (w_state w) s" and again: "\<And>v. w_state v = s \<Longrightarrow>
      \<exists>v'. execute_attempt sha S (\<lambda>_ s. s) m' codecs codec handler v =
        (AttemptDone (Inr (CommitAppended outcome)), v', True) \<and> w_state v' = w_state w'"
    using loop_undisturbed [OF assms(1,2)] by (metis is_exact_replay.simps(1))
  obtain v' where "execute_attempt sha S (\<lambda>_ s. s) m' codecs codec handler
        \<lparr>w_calls = 0, w_state = s\<rparr> =
        (AttemptDone (Inr (CommitAppended outcome)), v', True)" "w_state v' = w_state w'"
    using again [of "\<lparr>w_calls = 0, w_state = s\<rparr>"] by auto
  then have "execute_completed_with_rejection_codec 1 sha S (\<lambda>_ s. s) type_name m codecs codec
      no_conflict_retries handler \<lparr>w_calls = 0, w_state = s\<rparr> =
      Some (Inr (CommitAppended outcome), v', 1)"
    using m' by (simp add: execute_completed_with_rejection_codec_def usize_bound_def)
  then show ?thesis
    using s \<open>w_state v' = w_state w'\<close> by blast
qed

end

section \<open>The in-memory store is versioned\<close>

lemma expected_version_of_expects:
  assumes "journal_of sha s J" and "expects s st (expected_version_of v)"
  shows "history_version (load s st) = v"
proof -
  have "unat (current_version s st) = unat v"
    using journal_version_unat [OF assms(1), of st] assms(2)
    by (auto simp: expects_def expected_version_of_def split: if_splits)
  then have "current_version s st = v"
    by (simp only: word_unat_eq_iff)
  then show ?thesis
    by (simp add: history_version_def current_version_load)
qed

interpretation mem_versioned: versioned_store "store_step E (ms_authority store)"
  "memory_ready E store" "memory_execution_store E store" "sha256 E" load for E store
proof
  fix s s' :: memory_state and st t outcome p v b
  let ?auth = "ms_authority store"
  show "es_load (memory_execution_store E store) s st = Inr (load s st)" by simp
  show "es_begin_command (memory_execution_store E store) s = Inr ()" by simp
  assume ready: "memory_ready E store s"
  then have inv: "store_inv E ?auth s" by (simp add: memory_ready_def)
  then obtain J where J: "journal_of (sha256 E) s J" by (rule store_inv_journal)
  show "validate_history (sha256 E) st (load s st) = Inr ()"
    by (rule journal_history [OF J])
  show "\<exists>later. load s' st = load s st @ later" if "(store_step E ?auth)\<^sup>*\<^sup>* s s'"
    using mem.steps_before [OF that inv] by (rule store_before_load) blast
  show "unat (history_version (load s st)) = length (load s st)"
    using journal_version_unat [OF J, of st] by (simp add: history_version_def current_version_load)
  assume t: "valid_transaction t"
    and commit: "es_commit_outcome (memory_execution_store E store) s t =
      (Inr (CommitAppended outcome), s')"
  then have run: "session_commit_outcome E store s (\<lambda>s i. s) t = (Inr (CommitAppended outcome), s')"
    by simp
  note appended = appended_commit [OF inv t run]
  show "history_version (load s (tp_stream_id p)) = v"
    if "p \<in> set (tx_participants t)" "tp_expected_version p = expected_version_of v"
  proof -
    from inv t appended(3) have "committable E store s t"
      by (rule inner_committed)
    then show ?thesis
      using that expected_version_of_expects [OF J] by (auto simp: committable_def)
  qed
  show "es_lookup_outcome (memory_execution_store E store) s
      (OutcomeKey_new (es_authority (memory_execution_store E store)) b (tx_operation_id t)) =
      Inr Missing" if "tx_bounded_context t = Some b"
    using that appended(2) by (simp add: lookup_outcome_def validate_authority_def transaction_key_def)
qed

end
