(* ===== verification/ExecutionScenario.thy ===== *)
theory ExecutionScenario
  imports Scenario Serializability
begin

text \<open>
  The command of \<open>Scenario\<close> executed through the executor: its handler loads one aggregate, raises
  one event and accepts. The run commits the transaction of \<open>Scenario\<close>.
\<close>

definition x_model :: "(nat, nat) aggregate_model" where
  "x_model = \<lparr>am_model = 0, am_bounded_context = ''sales'', am_aggregate_type = ''order'',
     am_initial = (\<lambda>_. 0), am_apply = (\<lambda>n e. n + e), am_event_type = (\<lambda>_. ''Placed''),
     am_schema_version = (\<lambda>_. 1), am_encode_json = (\<lambda>_. Inr [1]), am_decode_json = (\<lambda>_. Inr 1)\<rparr>"

definition x_handler :: "(nat, nat, nat) handler_program" where
  "x_handler = LoadAggregate x_model ''1'' (\<lambda>loaded. case loaded of
     Inl e \<Rightarrow> Fail e
   | Inr h \<Rightarrow> RaiseEvent RaiseReturns h 1 (Decide Accepted))"

definition x_metadata :: execution_metadata where
  "x_metadata = (metadata_new ''op'' [])\<lparr>md_bounded_context := Some ''sales''\<rparr>"

definition x_normal :: execution_metadata where
  "x_normal = x_metadata\<lparr>md_outcome_evidence := Some x_evidence, md_correlation_id := Some ''op''\<rparr>"

definition x_execution_store :: "memory_state execution_store" where
  "x_execution_store = memory_execution_store x_externals x_store"

definition x_undisturbed :: "nat \<Rightarrow> memory_state \<Rightarrow> memory_state" where
  "x_undisturbed n s = s"

definition x_start :: "memory_state world" where
  "x_start = \<lparr>w_calls = 0, w_state = state_default\<rparr>"

lemmas x_text_simps = has_control_def is_control_def chars_def has_surrounding_whitespace_def trim_def
  is_whitespace_def is_ascii_graphic_def

lemma x_identifier: "CorrelationId_new ''op'' = Inr ''op''"
  by (simp add: CorrelationId_new_def validate_identifier_def x_text_simps)

lemma x_default_metadata: "default_metadata ''Place'' x_metadata = Inr x_normal"
  by (simp add: default_metadata_def normalized_def with_default_outcome_evidence_def
      x_metadata_def metadata_new_def effective_correlation_id_def x_identifier x_normal_def
      x_evidence_def)

lemma x_evidence_valid: "evidence_validate x_evidence = Inr ()"
  using x_completion_valid
  by (simp add: completion_validate_ok_iff x_completion_def completion_new_def)

lemma x_model_sel [simp]:
  "am_model x_model = 0" "am_bounded_context x_model = ''sales''"
  "am_aggregate_type x_model = ''order''" "am_initial x_model = (\<lambda>_. 0)"
  "am_apply x_model = (\<lambda>n e. n + e)"
  "am_encode_json x_model = (\<lambda>_. Inr [1])" "am_decode_json x_model = (\<lambda>_. Inr 1)"
  "am_event_type x_model = (\<lambda>_. ''Placed'')" "am_schema_version x_model = (\<lambda>_. 1)"
  by (simp_all add: x_model_def)

lemma x_normal_sel [simp]:
  "md_actor x_normal = None" "md_security_scope x_normal = None"
  "md_outcome_evidence x_normal = Some x_evidence" "md_bounded_context x_normal = Some ''sales''"
  "md_operation_id x_normal = ''op''" "md_operation_fingerprint x_normal = []"
  "md_correlation_id x_normal = Some ''op''" "md_causation_id x_normal = None"
  by (simp_all add: x_normal_def x_metadata_def metadata_new_def)

lemma x_aggregate_type: "AggregateType_new ''order'' = Inr ''order''"
  by (simp add: AggregateType_new_def string_identity_def identity_validate_def x_text_simps)

lemma x_stream_for: "stream_id_for x_model ''1'' = Inr x_stream"
  using x_aggregate_type
  by (simp add: stream_id_for_def x_stream_def AggregateId_new_def string_identity_def
      identity_validate_def x_text_simps)

lemma x_resolve_codec: "codecs_resolve fmempty x_model = Inr (json_event_codec x_model)"
  using x_aggregate_type by (simp add: codecs_resolve_def)

lemma x_encode_event: "json_event_encode x_model e ''event:'' = Inr x_event"
  by (simp add: json_event_encode_def NewEvent_new_def validate_event_type_def x_event_def x_text_simps
      max_event_type_len_def max_event_payload_len_def)

definition x_observer :: "nat observer" where
  "x_observer = \<lparr>ob_token = 0, ob_commit_id = ''commit:'', ob_codec = json_event_codec x_model\<rparr>"

definition x_loaded :: "(nat, nat) command_execution" where
  "x_loaded = \<lparr>ce_loaded_streams = {x_stream},
     ce_participants = [\<lparr>ep_stream_id = x_stream, ep_base_version = 0,
       ep_tracker = \<lparr>pt_journal = [], pt_finalization = None\<rparr>\<rparr>],
     ce_handles = [\<lparr>la_model = x_model, la_aggregate = \<lparr>ai_stream_id = x_stream, ai_state = 0,
       ai_uncommitted_events = [], ai_observer = Some x_observer\<rparr>, la_base_version = 0,
       la_observer_token = 0, la_place = Held\<rparr>]\<rparr>"

definition x_raised :: "(nat, nat) command_execution" where
  "x_raised = \<lparr>ce_loaded_streams = {x_stream},
     ce_participants = [\<lparr>ep_stream_id = x_stream, ep_base_version = 0,
       ep_tracker = \<lparr>pt_journal = [Started 0, CompletedEntry 0 (Inr x_event)],
         pt_finalization = Some (Inr 1)\<rparr>\<rparr>],
     ce_handles = [\<lparr>la_model = x_model, la_aggregate = \<lparr>ai_stream_id = x_stream, ai_state = 1,
       ai_uncommitted_events = [1], ai_observer = Some x_observer\<rparr>, la_base_version = 0,
       la_observer_token = 0, la_place = Dropped\<rparr>]\<rparr>"

lemma x_load:
  "execution_load x_sha x_normal fmempty (es_load x_execution_store state_default) x_model ''1''
     execution_start = (Inr 0, x_loaded)"
proof -
  have "es_load x_execution_store state_default st = Inr []" for st
    by (simp add: x_execution_store_def load_def)
  moreover have "validate_history x_sha st [] = Inr ()" for st
    using journal_history [OF journal_of_default, of x_sha st] by (simp add: load_def)
  ultimately show ?thesis
    using x_stream_for x_resolve_codec
    by (simp add: execution_load_eq [where h = "\<lambda>_. []"] load_checks_def validate_bounded_context_def
        required_bounded_context_def execution_start_def enlist_def history_version_def x_loaded_def
        x_observer_def rehydrate_fold observe_raised_events_def)
qed

lemma x_raise: "drop_all (raise_event x_sha RaiseReturns 0 1 x_loaded) = x_raised"
  using x_encode_event
  by (simp add: raise_event_def x_loaded_def held_def x_observer_def push_entry_def set_aggregate_def
      encode_raised_def supported_ordinal_def u32_try_from_def json_event_codec_def drop_all_def
      drop_handle_def set_place_def drop_finalization_def is_observed_by_def set_finalization_def
      x_raised_def Let_def)

lemma x_run:
  "run_handler x_sha x_execution_store x_undisturbed x_normal fmempty x_handler
     \<lparr>w_calls = n, w_state = state_default\<rparr> execution_start =
     (Inr Accepted, \<lparr>w_calls = Suc n, w_state = state_default\<rparr>, x_raised)"
  using x_load x_raise by (simp add: x_handler_def interleave_def x_undisturbed_def)

lemma x_participants:
  "attempt_participants codec Accepted x_raised =
     Inr ([\<lparr>cp_stream_id = x_stream, cp_base_version = 0, cp_events = [x_event]\<rparr>], None)"
  by (simp add: attempt_participants_def finish_def collect_def x_raised_def take_finalization_def)

lemma x_command_transaction:
  "command_transaction x_sha x_normal
     [\<lparr>cp_stream_id = x_stream, cp_base_version = 0, cp_events = [x_event]\<rparr>] None = Inr x_transaction"
proof -
  have "EventBatch_new ''commit:'' ''op'' [] [x_event] = Inr (x_batch\<lparr>eb_correlation_id := None\<rparr>)"
    by (simp add: EventBatch_new_def x_batch_def x_event_def max_events_per_batch_def
        max_batch_payload_len_def checked_add_usize_def usize_bound_def)
  then have "prepare_batch_for_stream x_sha x_normal x_stream [x_event] = Inr (Some x_batch)"
    using prepare_batch_eq [of "[x_event]" x_sha x_stream x_normal] by (simp add: x_batch_def)
  then show ?thesis
    by (simp add: command_transaction_eq transaction_participants_def expected_version_of_def
        required_bounded_context_def x_transaction_def EventTransaction_new_def x_completion_def)
qed

lemma x_accept: "accept_commit x_sha x_execution_store x_normal (CommitAppended x_outcome) =
    Inr (CommitAppended x_outcome)"
proof -
  have "outcome_validate_for x_sha x_outcome x_key x_normal = Inr ()"
    using x_integrity
    by (simp add: outcome_validate_for_def x_outcome_def validate_key_def validate_identity_def
        validate_detail_binding_def)
      (simp add: x_marker_def x_reference_def x_receipt_def TransactionReceipt_new_def)
  then show ?thesis
    by (simp add: accept_commit_def outcome_key_for_def required_bounded_context_def
        x_execution_store_def x_key_def)
qed

lemma x_commit_attempt:
  "commit_attempt x_sha x_execution_store x_undisturbed x_normal
     [\<lparr>cp_stream_id = x_stream, cp_base_version = 0, cp_events = [x_event]\<rparr>] None
     \<lparr>w_calls = n, w_state = state_default\<rparr> =
     (AttemptDone (Inr (CommitAppended x_outcome)), \<lparr>w_calls = Suc n, w_state = x_committed\<rparr>)"
  using x_command_transaction x_commit x_accept
  by (simp add: commit_attempt_def persist_def interleave_def x_undisturbed_def x_execution_store_def)

lemma x_execute:
  "execute_completed_with_rejection_codec (Suc fuel) x_sha x_execution_store x_undisturbed ''Place''
     x_metadata fmempty unconfigured_rejection_codec policy x_handler x_start =
     Some (Inr (CommitAppended x_outcome), \<lparr>w_calls = 3, w_state = x_committed\<rparr>, 1)"
proof -
  have "lookup_completed x_sha x_execution_store x_normal state_default = Inr None"
    by (simp add: lookup_completed_def outcome_key_for_def required_bounded_context_def
        x_execution_store_def lookup_outcome_def validate_authority_def)
  moreover have "es_begin_command x_execution_store s = Inr ()" for s
    by (simp add: x_execution_store_def)
  ultimately have "execute_attempt x_sha x_execution_store x_undisturbed x_normal fmempty
      unconfigured_rejection_codec x_handler x_start =
      (AttemptDone (Inr (CommitAppended x_outcome)), \<lparr>w_calls = 3, w_state = x_committed\<rparr>, True)"
    using x_run [of 1] x_commit_attempt [of 2]
    by (simp add: execute_attempt_def evaluate_attempt_def x_participants x_start_def interleave_def
        x_undisturbed_def numeral_2_eq_2 numeral_3_eq_3)
  then show ?thesis
    using x_default_metadata x_evidence_valid
    by (simp add: execute_completed_with_rejection_codec_def usize_bound_def)
qed

lemma x_cooperative: "cooperative (store_step x_externals x_authority) x_undisturbed"
  by (simp add: cooperative_def x_undisturbed_def)

end
