(* ===== verification/ExecutionEffects.thy ===== *)
theory ExecutionEffects
  imports ExecutionScenario
begin

text \<open>
  What one evaluation of a handler writes to the in-memory store, compared with what a simulation
  of the same handler reports, and what a read-only rehydration returns.
\<close>

section \<open>What a commit writes\<close>

lemma committed_load:
  "load (committed_state s t stored detail) st =
     load s st @ concat (map (\<lambda>p. if tp_stream_id p = st then snd (snd (planned s p)) else [])
       (tx_participants t))"
  by (simp add: committed_state_def commit_plan_def Let_def load_install_all split: option.splits)

lemma commit_without_batches:
  assumes inv: "store_inv E auth s" and t: "valid_transaction t"
    and none: "\<And>p. p \<in> set (tx_participants t) \<Longrightarrow> tp_batch p = None"
    and run: "session_commit_outcome E store s seen t = (r, s')"
  shows "load s' st = load s st"
proof -
  obtain J where J: "journal_of (sha256 E) s J"
    using inv by (rule store_inv_journal)
  obtain i s2 where inner: "append_transaction_inner E store s t = (i, s2)"
    by fastforce
  have "load s2 st = load s st"
    using inner t J
  proof (cases rule: append_transaction_inner_result)
    case unchanged
    then show ?thesis by simp
  next
    case (committed proposal stored detail)
    have "concat (map (\<lambda>p. if tp_stream_id p = st then snd (snd (planned s p)) else [])
        (tx_participants t)) = []"
      using none by (auto simp: planned_def)
    then show ?thesis using committed by (simp only: committed_load append_Nil2)
  qed
  then show ?thesis
    using session_commit_state [OF run] inner by auto
qed

lemma appended_receipt:
  assumes inv: "store_inv E auth s" and t: "valid_transaction t"
    and run: "session_commit_outcome E store s seen t = (Inr (CommitAppended outcome), s')"
    and ctx: "tx_bounded_context t = Some c"
  shows "om_integrity (co_marker outcome) = without_completion (planned_receipt s t)"
    and "dr_decision (om_reference (co_marker outcome)) = decision_of (tx_completion t)"
proof -
  from inv t appended_commit(3) [OF inv t run] obtain proposal detail where
    "prepare_stored E store t proposal (planned_receipt s t) = Inr (Scoped (co_marker outcome), detail)"
    by (rule inner_committed)
  then obtain bytes where "prepare E (ms_authority store) t (planned_receipt s t) =
      Inr (co_marker outcome, bytes)"
    using ctx by (auto simp: prepare_stored_def result_simps)
  then show "om_integrity (co_marker outcome) = without_completion (planned_receipt s t)"
    and "dr_decision (om_reference (co_marker outcome)) = decision_of (tx_completion t)"
    by (rule prepare_ok, simp)+
qed

section \<open>Undisturbed attempts\<close>

lemma run_handler_alone:
  "w_state (fst (snd (run_handler sha S (\<lambda>_ s. s) m codecs handler w x))) = w_state w"
  by (induction handler arbitrary: w x) (simp_all add: Let_def interleave_def)

text \<open>The persisting half of an undisturbed attempt, in one equation.\<close>

lemma commit_alone_state:
  "w_state (snd (commit_attempt sha S (\<lambda>_ s. s) m ps rejection w)) =
     snd (persist sha S m ps rejection (w_state w))"
  by (simp add: commit_attempt_def Let_def interleave_def split: sum.splits persistence_attempt.splits)

lemma commit_alone_appended:
  assumes "commit_attempt sha S (\<lambda>_ s. s) m ps rejection w =
    (AttemptDone (Inr (CommitAppended outcome)), w')"
  obtains t where "command_transaction sha m ps rejection = Inr t"
    "es_commit_outcome S (w_state w) t = (Inr (CommitAppended outcome), w_state w')"
proof -
  obtain r s' where pers: "persist sha S m ps rejection (w_state w) = (r, s')"
    by fastforce
  have no: "after_conflict sha S m e s \<noteq> AttemptDone (Inr (CommitAppended outcome))" for e s
    by (auto simp: after_conflict_def split: sum.splits option.splits if_splits)
  have r: "r = Inr (PersistedOutcome (CommitAppended outcome))" and s': "s' = w_state w'"
    using assms pers no
    by (auto simp: commit_attempt_def Let_def interleave_def accept_commit_def result_simps
        split: sum.splits persistence_attempt.splits)
  obtain t where t: "command_transaction sha m ps rejection = Inr t"
    using pers r by (cases "command_transaction sha m ps rejection") (auto simp: persist_def)
  then show ?thesis
    using that pers r s'
    by (auto simp: persist_def split: prod.splits sum.splits if_splits)
qed

lemma evaluate_alone:
  assumes "evaluate_attempt sha S (\<lambda>_ s. s) m codecs codec handler w =
    (AttemptDone (Inr (CommitAppended outcome)), w')"
  obtains decision w1 x ps rejection t where
    "run_handler sha S (\<lambda>_ s. s) m codecs handler w execution_start = (Inr decision, w1, x)"
    "w_state w1 = w_state w" "attempt_participants codec decision x = Inr (ps, rejection)"
    "command_transaction sha m ps rejection = Inr t"
    "es_commit_outcome S (w_state w) t = (Inr (CommitAppended outcome), w_state w')"
proof -
  obtain r w1 x where h: "run_handler sha S (\<lambda>_ s. s) m codecs handler w execution_start = (r, w1, x)"
    by (metis prod_cases3)
  have w1: "w_state w1 = w_state w"
    using run_handler_alone [of sha S m codecs handler w execution_start] h by simp
  obtain d where d: "r = Inr d"
    using assms h by (cases r) (auto simp: evaluate_attempt_def)
  obtain ps rejection where ps: "attempt_participants codec d x = Inr (ps, rejection)"
    using assms h d by (cases "attempt_participants codec d x") (auto simp: evaluate_attempt_def)
  have "commit_attempt sha S (\<lambda>_ s. s) m ps rejection w1 =
      (AttemptDone (Inr (CommitAppended outcome)), w')"
    using assms h d ps by (simp add: evaluate_attempt_def)
  then show ?thesis
    by (rule commit_alone_appended) (use that h d w1 ps in auto)
qed

lemma rejected_participants:
  assumes "attempt_participants codec (Rejected r) x = Inr (ps, rejection)"
  obtains encoded where "rejection = Some encoded" "rc_encode codec r = Inr encoded"
    "rejection_validate encoded = Inr ()" "\<exists>r'. rc_decode codec encoded = Inr r'"
    "\<forall>p \<in> set ps. cp_events p = []"
proof -
  from assms obtain encoded r' where parts: "finish_rejected x = Inr ps" "rejection = Some encoded"
    "rc_encode codec r = Inr encoded" "rejection_validate encoded = Inr ()"
    "rc_decode codec encoded = Inr r'"
    by (auto simp: attempt_participants_def result_simps)
  have "\<forall>p \<in> set ps. cp_events p = []"
    using parts(1) unfolding finish_rejected_def collect_results_Inr_iff
    by (auto simp: in_set_conv_nth list_all2_conv_all_nth result_simps)
      (metis collected_participant.select_convs(3))
  then show ?thesis using that parts by blast
qed

text \<open>A transaction whose participants collected no events carries no batch.\<close>

lemma no_events_no_batches:
  assumes "command_transaction sha m ps rejection = Inr t" and "\<forall>p \<in> set ps. cp_events p = []"
    and "q \<in> set (tx_participants t)"
  shows "tp_batch q = None"
proof -
  note ps = command_transaction_ok(5) [OF assms(1)]
  obtain i where i: "i < length ps" "tx_participants t ! i = q"
    using assms(3) transaction_participants_nth(1) [OF ps] by (auto simp: in_set_conv_nth)
  then have "cp_events (ps ! i) = []"
    using assms(2) by simp
  then show ?thesis
    using transaction_participants_nth(2) [OF ps i(1)] i(2) by (simp add: prepare_batch_for_stream_def)
qed

section \<open>Simulations\<close>

lemma rejected_simulation:
  assumes "finish_rejected x = Inr ps"
  shows "rejected_simulation_participants x = Inr (map simulated_participant_of ps)"
proof -
  have "collect_results (\<lambda>p. rbind (discard_events p) (\<lambda>_.
       Inr \<lparr>cp_stream_id = ep_stream_id p, cp_base_version = ep_base_version p, cp_events = []\<rparr>)) es = Inr ps
    \<Longrightarrow> collect_results (\<lambda>p. rbind (discard_events p) (\<lambda>_.
       Inr \<lparr>sp_stream_id = ep_stream_id p, sp_base_version = ep_base_version p, sp_events = [],
            sp_read_guard = True\<rparr>)) es = Inr (map simulated_participant_of ps)" for es ps
    by (induction es arbitrary: ps) (auto simp: result_simps simulated_participant_of_def)
  then show ?thesis
    using assms by (simp add: finish_rejected_def rejected_simulation_participants_def)
qed

lemma simulate_alone:
  assumes "default_metadata type_name m = Inr m'"
    and "run_handler sha S (\<lambda>_ s. s) m' codecs handler w execution_start = (Inr decision, w1, x)"
    and "attempt_participants codec decision x = Inr (ps, rejection)"
  shows "simulate sha S (\<lambda>_ s. s) type_name m codecs handler w =
    (Inr (decision, map simulated_participant_of ps), w1)"
proof (cases decision)
  case Accepted
  then have "finish x = Inr ps"
    using assms(3) by (auto simp: attempt_participants_def result_simps)
  then show ?thesis
    using assms Accepted by (simp add: simulate_def)
next
  case (Rejected r)
  then have "finish_rejected x = Inr ps"
    using assms(3) by (auto simp: attempt_participants_def result_simps)
  then show ?thesis
    using assms Rejected by (simp add: simulate_def rejected_simulation)
qed

text \<open>The content of an event, before and after it is recorded.\<close>

definition new_content :: "new_event \<Rightarrow> event_id \<times> string \<times> u32 \<times> bytes" where
  "new_content e = (ne_event_id e, ne_event_type e, ne_schema_version e, ne_payload e)"

definition recorded_content :: "recorded_event \<Rightarrow> event_id \<times> string \<times> u32 \<times> bytes" where
  "recorded_content e = (re_event_id e, re_event_type e, re_schema_version e, re_payload e)"

lemma recorded_contents:
  "map recorded_content (recorded st b c v i es) = map new_content es"
  by (induction es arbitrary: v i) (simp_all add: recorded_content_def new_content_def)

lemma prepared_events:
  assumes "prepare_batch_for_stream sha m stream events = Inr (Some b)"
  shows "eb_events b = events"
  using assms by (rule prepare_batch_ok) (auto dest: EventBatch_new_ok(2))

text \<open>The receipt of a commit lists what was collected, stream by stream.\<close>

definition receipt_of :: "collected_participant \<Rightarrow> stream_receipt \<Rightarrow> bool" where
  "receipt_of p r \<longleftrightarrow> sr_stream_id r = cp_stream_id p \<and> sr_base_version r = cp_base_version p
     \<and> map recorded_content (sr_events r) = map new_content (cp_events p)"

lemma planned_receipt_of:
  assumes ps: "transaction_participants sha m ps = Inr (tx_participants t)"
    and versions: "\<And>p. p \<in> set ps \<Longrightarrow> current_version s (cp_stream_id p) = cp_base_version p"
  shows "list_all2 receipt_of ps (tr_streams (planned_receipt s t))"
proof -
  have len: "length (tx_participants t) = length ps"
    by (rule transaction_participants_nth(1) [OF ps])
  have "receipt_of (ps ! i) (tr_streams (planned_receipt s t) ! i)" if i: "i < length ps" for i
  proof -
    let ?q = "tx_participants t ! i"
    have q: "tp_stream_id ?q = cp_stream_id (ps ! i)"
      "prepare_batch_for_stream sha m (cp_stream_id (ps ! i)) (cp_events (ps ! i)) = Inr (tp_batch ?q)"
      using transaction_participants_nth(2) [OF ps i] by simp_all
    have none: "cp_events (ps ! i) = []" if "tp_batch ?q = None"
      using q(2) that by (auto simp: prepare_batch_for_stream_def Let_def result_simps split: if_splits)
    have v: "current_version s (cp_stream_id (ps ! i)) = cp_base_version (ps ! i)"
      using versions i by simp
    show ?thesis
      using q v none prepared_events i len
      by (cases "tp_batch ?q") (simp_all add: receipt_of_def planned_receipt_def planned_def
          recorded_batch_def recorded_contents)
  qed
  then show ?thesis
    using len by (simp add: list_all2_conv_all_nth planned_receipt_def)
qed

section \<open>Rehydration\<close>

lemma rehydrate_eq:
  assumes "store_inv E auth s"
  shows "rehydrate (sha256 E) (memory_execution_store E store) A codecs stream s =
    rbind (map_err SimStore (validate_aggregate_type A stream)) (\<lambda>_.
    rbind (map_err SimCodec (codecs_resolve codecs A)) (\<lambda>codec.
    rbind (map_err SimCodec (collect_results (ec_decode codec) (load s stream))) (\<lambda>events.
    Inr \<lparr>ai_stream_id = stream, ai_state = foldl (am_apply A) (am_initial A stream) events,
         ai_uncommitted_events = [], ai_observer = None\<rparr>)))"
proof -
  obtain J where "journal_of (sha256 E) s J"
    using assms by (rule store_inv_journal)
  then have "validate_history (sha256 E) stream (load s stream) = Inr ()"
    by (rule journal_history)
  then show ?thesis
    by (simp add: rehydrate_def rehydrate_fold)
qed

end
