(* ===== verification/Capture.thy ===== *)
theory Capture
  imports ExecutionEffects
begin

text \<open>
  Capturing raised events. The executor does not read the uncommitted events of an aggregate when
  an attempt ends: it replays a journal that observers filled while the handler ran, and checks it
  against what the handle saw when it was dropped. The invariant \<open>tracked\<close> relates handles,
  instances and journals through every call a handler can make; from it follows that what is
  collected is exactly the encoded list of uncommitted events.
\<close>

section \<open>Journals\<close>

definition clean :: "(bytes \<Rightarrow> bytes) \<Rightarrow> 'ev observer \<Rightarrow> 'ev list \<Rightarrow> journal_entry list" where
  "clean sha obs events =
     concat (map (\<lambda>(k, e). [Started k, CompletedEntry k (encode_raised sha obs k e)])
       (enumerate 0 events))"

definition broken :: "journal_entry list \<Rightarrow> bool" where
  "broken journal \<longleftrightarrow> (\<forall>events. collect_journal [] None journal \<noteq> Inr (events, None))"

definition journal_state ::
  "(bytes \<Rightarrow> bytes) \<Rightarrow> 'ev observer \<Rightarrow> 'ev list \<Rightarrow> journal_entry list \<Rightarrow> bool" where
  "journal_state sha obs events journal \<longleftrightarrow> journal = clean sha obs events \<or> broken journal"

lemma clean_Nil [simp]: "clean sha obs [] = []"
  by (simp add: clean_def)

lemma clean_snoc:
  "clean sha obs (events @ [e]) = clean sha obs events @
     [Started (length events), CompletedEntry (length events) (encode_raised sha obs (length events) e)]"
  by (simp add: clean_def enumerate_append_eq)

lemma collect_journal_append:
  "collect_journal events encoding (J @ J') =
     rbind (collect_journal events encoding J) (\<lambda>(events, encoding).
       collect_journal events encoding J')"
proof (induction events encoding J rule: collect_journal.induct)
  case (3 events encoding ordinal event entries)
  then show ?case by (cases event) auto
qed auto

lemma collect_clean:
  assumes "collect_journal [] None (clean sha obs events) = Inr (collected, encoding)"
  shows "encoding = None \<and> list_all2 (\<lambda>(k, e) c. encode_raised sha obs k e = Inr c)
    (enumerate 0 events) collected"
  using assms
proof (induction events arbitrary: collected encoding rule: rev_induct)
  case (snoc e events)
  then obtain before c where
    before: "collect_journal [] None (clean sha obs events) = Inr (before, None)"
    and c: "encode_raised sha obs (length events) e = Inr c"
    and out: "collected = before @ [c]" "encoding = None"
    by (auto simp: clean_snoc collect_journal_append rbind_Inr_iff split: if_splits)
  show ?case
    using snoc.IH [OF before] c out by (simp add: enumerate_append_eq list_all2_appendI)
qed simp

lemma broken_started: "broken J \<Longrightarrow> broken (J @ Started ordinal # rest)"
  by (auto simp: broken_def collect_journal_append rbind_Inr_iff split: if_splits)

lemma clean_interrupted: "broken (clean sha obs events @ [Started ordinal])"
  by (auto simp: broken_def collect_journal_append rbind_Inr_iff split: if_splits)

lemma journal_state_raise:
  assumes "journal_state sha obs events J"
  shows "journal_state sha obs (events @ [e]) (J @ [Started (length events),
      CompletedEntry (length events) (encode_raised sha obs (length events) e)])"
    and "journal_state sha obs events' (J @ [Started (length events)])"
  using assms broken_started [of J "length events"] clean_interrupted [of sha obs events]
  by (auto simp: journal_state_def clean_snoc)

section \<open>Positions\<close>

definition journal_at :: "('st, 'ev) command_execution \<Rightarrow> nat \<Rightarrow> journal_entry list" where
  "journal_at x i = pt_journal (ep_tracker (ce_participants x ! i))"

definition finalization_at ::
  "('st, 'ev) command_execution \<Rightarrow> nat \<Rightarrow> (command_execution_error + nat) option" where
  "finalization_at x i = pt_finalization (ep_tracker (ce_participants x ! i))"

definition instance_at :: "('st, 'ev) command_execution \<Rightarrow> nat \<Rightarrow> ('st, 'ev) aggregate_instance" where
  "instance_at x h = la_aggregate (ce_handles x ! h)"

lemma nth_update_field: "f y = f (xs ! h) \<Longrightarrow> f (xs[h := y] ! k) = f (xs ! k)"
  by (cases "h < length xs") (auto simp: nth_list_update list_update_beyond)

lemma push_entry_at [simp]:
  "ce_handles (push_entry i e x) = ce_handles x"
  "length (ce_participants (push_entry i e x)) = length (ce_participants x)"
  "finalization_at (push_entry i e x) j = finalization_at x j"
  "instance_at (push_entry i e x) h = instance_at x h"
  "i < length (ce_participants x) \<Longrightarrow>
     journal_at (push_entry i e x) j = (if j = i then journal_at x i @ [e] else journal_at x j)"
  by (simp_all add: push_entry_def Let_def finalization_at_def instance_at_def journal_at_def nth_list_update)

lemma set_finalization_at [simp]:
  "ce_handles (set_finalization i f x) = ce_handles x"
  "length (ce_participants (set_finalization i f x)) = length (ce_participants x)"
  "journal_at (set_finalization i f x) j = journal_at x j"
  "instance_at (set_finalization i f x) h = instance_at x h"
  "i < length (ce_participants x) \<Longrightarrow>
     finalization_at (set_finalization i f x) j = (if j = i then Some f else finalization_at x j)"
  by (simp_all add: set_finalization_def Let_def finalization_at_def instance_at_def journal_at_def nth_list_update)

lemma set_aggregate_at [simp]:
  "ce_participants (set_aggregate h a x) = ce_participants x"
  "length (ce_handles (set_aggregate h a x)) = length (ce_handles x)"
  "journal_at (set_aggregate h a x) j = journal_at x j"
  "finalization_at (set_aggregate h a x) j = finalization_at x j"
  "la_place (ce_handles (set_aggregate h a x) ! k) = la_place (ce_handles x ! k)"
  "la_observer_token (ce_handles (set_aggregate h a x) ! k) = la_observer_token (ce_handles x ! k)"
  "h < length (ce_handles x) \<Longrightarrow>
     instance_at (set_aggregate h a x) k = (if k = h then a else instance_at x k)"
  by (simp_all add: set_aggregate_def finalization_at_def instance_at_def journal_at_def
      nth_list_update nth_update_field [where f = la_place] nth_update_field [where f = la_observer_token])

lemma set_place_at [simp]:
  "ce_participants (set_place h p x) = ce_participants x"
  "length (ce_handles (set_place h p x)) = length (ce_handles x)"
  "journal_at (set_place h p x) j = journal_at x j"
  "finalization_at (set_place h p x) j = finalization_at x j"
  "instance_at (set_place h p x) k = instance_at x k"
  "la_observer_token (ce_handles (set_place h p x) ! k) = la_observer_token (ce_handles x ! k)"
  "h < length (ce_handles x) \<Longrightarrow> la_place (ce_handles (set_place h p x) ! k) =
     (if k = h then p else la_place (ce_handles x ! k))"
  by (simp_all add: set_place_def finalization_at_def instance_at_def journal_at_def
      nth_list_update nth_update_field [where f = la_aggregate] nth_update_field [where f = la_observer_token])

section \<open>The invariant\<close>

text \<open>\<open>watched sha x a\<close>: the instance \<open>a\<close> is not observed, or the journal of its load is the record
  of its uncommitted events, or beyond repair.\<close>

definition watched ::
  "(bytes \<Rightarrow> bytes) \<Rightarrow> ('st, 'ev) command_execution \<Rightarrow> ('st, 'ev) aggregate_instance \<Rightarrow> bool" where
  "watched sha x a \<longleftrightarrow>
     (case ai_observer a of
        None \<Rightarrow> True
      | Some obs \<Rightarrow> ob_token obs < length (ce_participants x)
          \<and> journal_state sha obs (ai_uncommitted_events a) (journal_at x (ob_token obs)))"

lemma watched_simps [simp]:
  "watched sha (set_place h p x) a = watched sha x a"
  "watched sha (set_finalization i f x) a = watched sha x a"
  "watched sha (set_aggregate h b x) a = watched sha x a"
  by (simp_all add: watched_def cong: option.case_cong)

definition token_of :: "('st, 'ev) aggregate_instance \<Rightarrow> nat option" where
  "token_of a = map_option ob_token (ai_observer a)"

definition tracked :: "(bytes \<Rightarrow> bytes) \<Rightarrow> ('st, 'ev) command_execution \<Rightarrow> bool" where
  "tracked sha x \<longleftrightarrow>
     length (ce_handles x) = length (ce_participants x)
     \<and> (\<forall>h < length (ce_handles x).
          la_observer_token (ce_handles x ! h) = h
          \<and> watched sha x (instance_at x h)
          \<and> finalization_at x h = (if la_place (ce_handles x ! h) = Dropped
              then Some (drop_finalization (ce_handles x ! h)) else None))
     \<and> (\<forall>h < length (ce_handles x). \<forall>k < length (ce_handles x).
          token_of (instance_at x h) \<noteq> None \<and> token_of (instance_at x h) = token_of (instance_at x k)
          \<longrightarrow> h = k)"

lemma drop_finalization_eq:
  "drop_finalization handle =
     (if token_of (la_aggregate handle) = Some (la_observer_token handle)
      then Inr (length (ai_uncommitted_events (la_aggregate handle)))
      else Inl (execution_invalid TrackingLost))"
  by (auto simp: drop_finalization_def is_observed_by_def token_of_def split: option.splits)

lemma trackedI:
  assumes "length (ce_handles x) = length (ce_participants x)"
    and "\<And>h. h < length (ce_handles x) \<Longrightarrow> la_observer_token (ce_handles x ! h) = h"
    and "\<And>h. h < length (ce_handles x) \<Longrightarrow> watched sha x (instance_at x h)"
    and "\<And>h. h < length (ce_handles x) \<Longrightarrow> finalization_at x h =
      (if la_place (ce_handles x ! h) = Dropped then Some (drop_finalization (ce_handles x ! h)) else None)"
    and "\<And>h k. h < length (ce_handles x) \<Longrightarrow> k < length (ce_handles x) \<Longrightarrow>
      token_of (instance_at x h) \<noteq> None \<Longrightarrow> token_of (instance_at x h) = token_of (instance_at x k) \<Longrightarrow>
      h = k"
  shows "tracked sha x"
  using assms unfolding tracked_def by blast

lemma trackedD:
  assumes "tracked sha x"
  shows "length (ce_handles x) = length (ce_participants x)"
    and "h < length (ce_handles x) \<Longrightarrow> la_observer_token (ce_handles x ! h) = h"
    and "h < length (ce_handles x) \<Longrightarrow> watched sha x (instance_at x h)"
    and "h < length (ce_handles x) \<Longrightarrow> finalization_at x h =
      (if la_place (ce_handles x ! h) = Dropped then Some (drop_finalization (ce_handles x ! h)) else None)"
    and "h < length (ce_handles x) \<Longrightarrow> k < length (ce_handles x) \<Longrightarrow>
      token_of (instance_at x h) \<noteq> None \<Longrightarrow> token_of (instance_at x h) = token_of (instance_at x k) \<Longrightarrow>
      h = k"
  using assms unfolding tracked_def by blast+

lemma tracked_start: "tracked sha execution_start"
  by (simp add: tracked_def execution_start_def)

lemma drop_finalization_cong:
  "la_aggregate a = la_aggregate b \<Longrightarrow> la_observer_token a = la_observer_token b \<Longrightarrow>
   drop_finalization a = drop_finalization b"
  by (simp add: drop_finalization_eq)

text \<open>Moving handles.\<close>

lemma tracked_escape:
  assumes "tracked sha x"
  shows "tracked sha (escape_handle h x)"
proof (cases "held h x")
  case True
  then have h: "h < length (ce_handles x)" "la_place (ce_handles x ! h) \<noteq> Dropped"
    by (simp_all add: held_def)
  note D = trackedD [OF assms]
  show ?thesis
  proof (rule trackedI)
    fix k
    assume "k < length (ce_handles (escape_handle h x))"
    then have k: "k < length (ce_handles x)"
      using True by (simp add: escape_handle_def)
    show "watched sha (escape_handle h x) (instance_at (escape_handle h x) k)"
      using D(3) [OF k] True by (simp add: escape_handle_def)
    have "drop_finalization (ce_handles (set_place h Escaped x) ! k) =
        drop_finalization (ce_handles x ! k)"
      using set_place_at(5,6) [of h Escaped x k] by (intro drop_finalization_cong) (simp_all add: instance_at_def)
    then show "finalization_at (escape_handle h x) k =
        (if la_place (ce_handles (escape_handle h x) ! k) = Dropped
         then Some (drop_finalization (ce_handles (escape_handle h x) ! k)) else None)"
      using D(4) [OF k] D(4) [OF h(1)] True h by (auto simp: escape_handle_def)
  qed (use D True in \<open>auto simp: escape_handle_def\<close>)
qed (use assms in \<open>simp add: escape_handle_def\<close>)

lemma tracked_drop:
  assumes "tracked sha x"
  shows "tracked sha (drop_handle h x)"
proof (cases "held h x")
  case True
  then have h: "h < length (ce_handles x)"
    by (simp add: held_def)
  note D = trackedD [OF assms]
  let ?x = "drop_handle h x"
  have x: "?x = set_finalization h (drop_finalization (ce_handles x ! h)) (set_place h Dropped x)"
    using True D(2) [OF h] by (simp add: drop_handle_def)
  show ?thesis
  proof (rule trackedI)
    fix k
    assume "k < length (ce_handles ?x)"
    then have k: "k < length (ce_handles x)"
      by (simp add: x)
    show "watched sha ?x (instance_at ?x k)"
      using D(3) [OF k] by (simp add: x)
    have "drop_finalization (ce_handles (set_place h Dropped x) ! k) =
        drop_finalization (ce_handles x ! k)"
      using set_place_at(5,6) [of h Dropped x k] by (intro drop_finalization_cong) (simp_all add: instance_at_def)
    then show "finalization_at ?x k = (if la_place (ce_handles ?x ! k) = Dropped
         then Some (drop_finalization (ce_handles ?x ! k)) else None)"
      using D(4) [OF k] h D(1) by (simp add: x)
  qed (use D in \<open>auto simp: x\<close>)
qed (use assms in \<open>simp add: drop_handle_def\<close>)

lemma tracked_drop_all: "tracked sha x \<Longrightarrow> tracked sha (drop_all x)"
proof -
  assume "tracked sha x"
  then have "tracked sha
      (foldl (\<lambda>x h. if la_place (ce_handles x ! h) = Held then drop_handle h x else x) x hs)"
    for hs :: "nat list"
    by (induction hs arbitrary: x) (auto intro: tracked_drop)
  then show ?thesis by (simp add: drop_all_def)
qed

text \<open>Changing instances.\<close>

lemma tracked_update:
  assumes "tracked sha x" and held: "held h x"
    and len: "length (ce_handles y) = length (ce_handles x)"
      "length (ce_participants y) = length (ce_participants x)"
    and fields: "\<And>k. la_place (ce_handles y ! k) = la_place (ce_handles x ! k)"
      "\<And>k. la_observer_token (ce_handles y ! k) = la_observer_token (ce_handles x ! k)"
      "\<And>k. finalization_at y k = finalization_at x k"
    and inst: "\<And>k. instance_at y k = (if k = h then a else instance_at x k)"
    and token: "token_of a = None \<or> token_of a = token_of (instance_at x h)"
    and watched: "\<And>k. k < length (ce_handles x) \<Longrightarrow> watched sha y (instance_at y k)"
  shows "tracked sha y"
proof -
  note D = trackedD [OF assms(1)]
  have h: "h < length (ce_handles x)" "la_place (ce_handles x ! h) \<noteq> Dropped"
    using held by (simp_all add: held_def)
  show ?thesis
  proof (rule trackedI)
    fix k
    assume "k < length (ce_handles y)"
    then have k: "k < length (ce_handles x)" using len by simp
    have "drop_finalization (ce_handles y ! k) = drop_finalization (ce_handles x ! k)" if "k \<noteq> h"
      using inst [of k] fields(2) [of k] that by (intro drop_finalization_cong) (simp_all add: instance_at_def)
    then show "finalization_at y k = (if la_place (ce_handles y ! k) = Dropped
         then Some (drop_finalization (ce_handles y ! k)) else None)"
      using D(4) [OF k] h fields by (cases "k = h") auto
  next
    fix k l
    assume "k < length (ce_handles y)" "l < length (ce_handles y)"
      and some: "token_of (instance_at y k) \<noteq> None"
      and same: "token_of (instance_at y k) = token_of (instance_at y l)"
    then have kl: "k < length (ce_handles x)" "l < length (ce_handles x)"
      using len by simp_all
    have old: "token_of (instance_at x i) = token_of (instance_at y i)"
      if "token_of (instance_at y i) \<noteq> None" for i
      using that token inst [of i] by (cases "i = h") auto
    show "k = l"
      using D(5) [OF kl] old [of k] old [of l] some same by simp
  qed (use D len fields watched in auto)
qed

lemma tracked_replace:
  assumes "tracked sha x" and none: "ai_observer a = None"
  shows "tracked sha (replace_aggregate h a x)"
proof (cases "held h x")
  case True
  then have "tracked sha (set_aggregate h a x)"
    using trackedD(3) [OF assms(1)] none
    by (intro tracked_update [OF assms(1) True, where a = a])
      (auto simp: held_def token_of_def watched_def [of sha x a])
  then show ?thesis using True by (simp add: replace_aggregate_def)
qed (use assms in \<open>simp add: replace_aggregate_def\<close>)

lemma tracked_swap:
  assumes "tracked sha x"
  shows "tracked sha (swap_aggregates h j x)"
proof (cases "held h x \<and> held j x")
  case True
  then have h: "h < length (ce_handles x)" "la_place (ce_handles x ! h) \<noteq> Dropped"
    and j: "j < length (ce_handles x)" "la_place (ce_handles x ! j) \<noteq> Dropped"
    by (simp_all add: held_def)
  note D = trackedD [OF assms]
  let ?y = "set_aggregate h (instance_at x j) x"
  let ?x = "set_aggregate j (instance_at x h) ?y"
  define swap where "swap k = (if k = j then h else if k = h then j else k)" for k
  have inst: "instance_at ?x k = instance_at x (swap k)" for k
    using h j by (simp add: swap_def)
  have bound: "k < length (ce_handles x) \<Longrightarrow> swap k < length (ce_handles x)" for k
    using h j by (simp add: swap_def)
  have "tracked sha ?x"
  proof (rule trackedI)
    fix k
    assume "k < length (ce_handles ?x)"
    then have k: "k < length (ce_handles x)" by simp
    show "watched sha ?x (instance_at ?x k)"
      unfolding inst using D(3) [OF bound [OF k]] by simp
    show "finalization_at ?x k = (if la_place (ce_handles ?x ! k) = Dropped
         then Some (drop_finalization (ce_handles ?x ! k)) else None)"
    proof (cases "k = h \<or> k = j")
      case True
      then show ?thesis using D(4) [OF k] h j by auto
    next
      case False
      then have "ce_handles ?x ! k = ce_handles x ! k" by (simp add: set_aggregate_def)
      then show ?thesis using D(4) [OF k] by simp
    qed
  next
    fix k l
    assume a: "k < length (ce_handles ?x)" "l < length (ce_handles ?x)"
      "token_of (instance_at ?x k) \<noteq> None" "token_of (instance_at ?x k) = token_of (instance_at ?x l)"
    then have "swap k = swap l"
      using D(5) [OF bound bound, of k l] unfolding inst by simp
    then show "k = l"
      by (auto simp: swap_def split: if_splits)
  qed (use D in auto)
  then show ?thesis using True by (simp add: swap_aggregates_def instance_at_def)
qed (use assms in \<open>auto simp: swap_aggregates_def\<close>)

text \<open>Raising: the journal of the observed load grows by what the raise got done.\<close>

definition raised_instance ::
  "raise_progress \<Rightarrow> ('st, 'ev) loaded_aggregate \<Rightarrow> 'ev \<Rightarrow> ('st, 'ev) aggregate_instance" where
  "raised_instance progress handle event =
     (let a = la_aggregate handle in
      if progress = ApplyPanics then a
      else a\<lparr>ai_state := am_apply (la_model handle) (ai_state a) event,
             ai_uncommitted_events := ai_uncommitted_events a @ [event]\<rparr>)"

lemma raised_instance_observer [simp]:
  "ai_observer (raised_instance progress handle event) = ai_observer (la_aggregate handle)"
  "ai_uncommitted_events (raised_instance progress handle event) =
     ai_uncommitted_events (la_aggregate handle) @ (if progress = ApplyPanics then [] else [event])"
  by (simp_all add: raised_instance_def Let_def)

lemma token_of_raised [simp]:
  "token_of (raised_instance progress handle event) = token_of (la_aggregate handle)"
  by (simp add: token_of_def)

lemma raise_event_eq:
  assumes "held h x"
  shows "raise_event sha progress h event x =
    (case ai_observer (instance_at x h) of
       None \<Rightarrow> set_aggregate h (raised_instance progress (ce_handles x ! h) event) x
     | Some obs \<Rightarrow>
         (let n = length (ai_uncommitted_events (instance_at x h));
              y = set_aggregate h (raised_instance progress (ce_handles x ! h) event)
                    (push_entry (ob_token obs) (Started n) x) in
          if progress = RaiseReturns
          then push_entry (ob_token obs) (CompletedEntry n (encode_raised sha obs n event)) y
          else y))"
proof -
  have same: "set_aggregate h (la_aggregate (ce_handles y ! h)) y = y"
    for y :: "('st, 'ev) command_execution"
    by (simp add: set_aggregate_def)
  show ?thesis
  proof (cases "ai_observer (instance_at x h)")
    case None
    then show ?thesis
      using assms same [of x]
      by (cases progress) (simp_all add: raise_event_def Let_def raised_instance_def instance_at_def)
  next
    case (Some obs)
    then show ?thesis
      using assms same [of "push_entry (ob_token obs)
          (Started (length (ai_uncommitted_events (instance_at x h)))) x"]
      by (cases progress) (simp_all add: raise_event_def Let_def raised_instance_def instance_at_def)
  qed
qed

lemma watched_push:
  assumes "watched sha x a" and "token_of a \<noteq> Some i" and "i < length (ce_participants x)"
  shows "watched sha (push_entry i e x) a"
  using assms by (auto simp: watched_def token_of_def split: option.splits)

lemma tracked_raise:
  assumes "tracked sha x"
  shows "tracked sha (raise_event sha progress h event x)"
proof (cases "held h x")
  case True
  note D = trackedD [OF assms]
  have h: "h < length (ce_handles x)"
    using True by (simp add: held_def)
  let ?a = "raised_instance progress (ce_handles x ! h) event"
  let ?y = "raise_event sha progress h event x"
  have token: "token_of ?a = token_of (instance_at x h)"
    by (simp add: instance_at_def)
  show ?thesis
  proof (cases "ai_observer (instance_at x h)")
    case None
    then have y: "?y = set_aggregate h ?a x"
      using True by (simp add: raise_event_eq)
    have "watched sha x ?a"
      using None by (simp add: watched_def instance_at_def)
    then show ?thesis
      unfolding y using D(3) h token
      by (intro tracked_update [OF assms True, where a = ?a]) auto
  next
    case (Some obs)
    let ?n = "length (ai_uncommitted_events (instance_at x h))"
    have w: "ob_token obs < length (ce_participants x)"
      "journal_state sha obs (ai_uncommitted_events (instance_at x h)) (journal_at x (ob_token obs))"
      using D(3) [OF h] Some by (simp_all add: watched_def)
    have y: "?y = (let y = set_aggregate h ?a (push_entry (ob_token obs) (Started ?n) x) in
        if progress = RaiseReturns
        then push_entry (ob_token obs) (CompletedEntry ?n (encode_raised sha obs ?n event)) y else y)"
      using True Some by (simp add: raise_event_eq Let_def)
    have inst: "instance_at ?y k = (if k = h then ?a else instance_at x k)" for k
      using h w by (simp add: y Let_def)
    have at: "length (ce_participants ?y) = length (ce_participants x)"
      "journal_at ?y (ob_token obs) = journal_at x (ob_token obs) @ Started ?n #
        (if progress = RaiseReturns then [CompletedEntry ?n (encode_raised sha obs ?n event)] else [])"
      using w(1) by (simp_all add: y Let_def)
    have "journal_state sha obs (ai_uncommitted_events ?a) (journal_at ?y (ob_token obs))"
      unfolding at(2) using journal_state_raise [OF w(2)] by (cases progress) (simp_all add: instance_at_def)
    then have own: "watched sha ?y ?a"
      using w(1) Some at(1) by (simp add: watched_def instance_at_def)
    have other: "watched sha ?y (instance_at x k)" if k: "k < length (ce_handles x)" "k \<noteq> h" for k
    proof -
      have "token_of (instance_at x k) \<noteq> Some (ob_token obs)"
        using D(5) [OF h k(1)] k(2) Some by (auto simp: token_of_def)
      then show ?thesis
        using D(3) [OF k(1)] w(1) by (simp add: y Let_def watched_push)
    qed
    show ?thesis
    proof (rule tracked_update [OF assms True, where a = ?a])
      show "watched sha ?y (instance_at ?y k)" if "k < length (ce_handles x)" for k
        using own other that by (simp add: inst)
    qed (use inst token in \<open>simp_all add: y Let_def\<close>)
  qed
qed (use assms in \<open>simp add: raise_event_def\<close>)

text \<open>Loading: a new participant with an empty journal and a fresh observed instance.\<close>

lemma tracked_enlist:
  assumes "tracked sha x"
  shows "tracked sha (enlist sha m A stream codec base events x)"
proof -
  note D = trackedD [OF assms]
  let ?y = "enlist sha m A stream codec base events x"
  let ?n = "length (ce_participants x)"
  define a where "a = instance_at ?y ?n"
  have len: "length (ce_handles ?y) = Suc ?n" "length (ce_participants ?y) = Suc ?n"
    using D(1) by (simp_all add: enlist_def)
  have old: "ce_handles ?y ! k = ce_handles x ! k" "instance_at ?y k = instance_at x k"
    "journal_at ?y k = journal_at x k" "finalization_at ?y k = finalization_at x k" if "k < ?n" for k
    using that D(1)
    by (simp_all add: enlist_def nth_append instance_at_def journal_at_def finalization_at_def)
  have new: "la_observer_token (ce_handles ?y ! ?n) = ?n" "la_place (ce_handles ?y ! ?n) = Held"
    "journal_at ?y ?n = []" "finalization_at ?y ?n = None" "ai_uncommitted_events a = []"
    "\<exists>obs. ai_observer a = Some obs \<and> ob_token obs = ?n"
    using D(1) unfolding a_def by (simp_all add: enlist_def nth_append instance_at_def journal_at_def finalization_at_def
        observe_raised_events_def rehydrate_fold)
  have watched_new: "watched sha ?y a"
    using new(3,5,6) len(2) by (auto simp: watched_def journal_state_def)
  have token_new: "token_of a = Some ?n"
    using new(6) by (auto simp: token_of_def)
  have watched_old: "watched sha ?y (instance_at x k)" if "k < ?n" for k
    using D(3) [of k] that D(1) len(2) old(3) by (auto simp: watched_def split: option.splits)
  have token_old: "token_of (instance_at x k) \<noteq> Some ?n" if "k < ?n" for k
    using D(3) [of k] that D(1) by (auto simp: watched_def token_of_def split: option.splits)
  show ?thesis
  proof (rule trackedI)
    fix k
    assume "k < length (ce_handles ?y)"
    then consider "k < ?n" | "k = ?n"
      using len by linarith
    note kn = this
    show "la_observer_token (ce_handles ?y ! k) = k"
      by (cases rule: kn) (use D(1,2) old(1) new(1) in auto)
    show "watched sha ?y (instance_at ?y k)"
      by (cases rule: kn) (use watched_old watched_new old(2) in \<open>auto simp: a_def\<close>)
    show "finalization_at ?y k = (if la_place (ce_handles ?y ! k) = Dropped
         then Some (drop_finalization (ce_handles ?y ! k)) else None)"
      by (cases rule: kn) (use D(1,4) old(1,4) new(2,4) in auto)
  next
    fix k l
    assume "k < length (ce_handles ?y)" "l < length (ce_handles ?y)"
      and t: "token_of (instance_at ?y k) \<noteq> None"
        "token_of (instance_at ?y k) = token_of (instance_at ?y l)"
    then have "k < ?n \<or> k = ?n" "l < ?n \<or> l = ?n"
      using len by linarith+
    then show "k = l"
      using D(1,5) old(2) token_old token_new t unfolding a_def by (metis (no_types, lifting))
  qed (simp add: len)
qed

lemma load_enlists:
  "snd (execution_load sha m codecs history A i x) = x
   \<or> (\<exists>stream codec base events.
        snd (execution_load sha m codecs history A i x) = enlist sha m A stream codec base events x)"
  by (auto simp: execution_load_def enlist_def Let_def split: sum.splits)

section \<open>Handlers\<close>

text \<open>A handler cannot make up observers: an instance it puts in the place of a loaded one comes from
  \<open>AggregateInstance::new\<close> or \<open>rehydrate\<close>.\<close>

primrec honest :: "('st, 'ev, 'r) handler_program \<Rightarrow> bool" where
  "honest (Decide d) \<longleftrightarrow> True"
| "honest (Fail e) \<longleftrightarrow> True"
| "honest (LoadAggregate A i k) \<longleftrightarrow> (\<forall>r. honest (k r))"
| "honest (Inspect h k) \<longleftrightarrow> (\<forall>a. honest (k a))"
| "honest (RaiseEvent progress h event k) \<longleftrightarrow> honest k"
| "honest (ReplaceAggregate h a k) \<longleftrightarrow> ai_observer a = None \<and> honest k"
| "honest (SwapAggregates h j k) \<longleftrightarrow> honest k"
| "honest (DropHandle h k) \<longleftrightarrow> honest k"
| "honest (EscapeHandle h k) \<longleftrightarrow> honest k"

lemma run_handler_tracked:
  assumes "honest handler" and "tracked sha x"
  shows "tracked sha (snd (snd (run_handler sha S env m codecs handler w x)))"
  using assms
proof (induction handler arbitrary: w x)
  case (LoadAggregate A i k)
  let ?l = "execution_load sha m codecs (es_load S (w_state (interleave env w))) A i x"
  have "tracked sha (snd ?l)"
    using load_enlists [of sha m codecs "es_load S (w_state (interleave env w))" A i x]
      tracked_enlist LoadAggregate.prems(2) by metis
  then show ?case
    using LoadAggregate.IH [OF rangeI] LoadAggregate.prems(1) by (simp add: Let_def)
next
  case (Inspect h k)
  then show ?case using Inspect.IH [OF rangeI] by simp
qed (simp_all add: tracked_drop_all tracked_raise tracked_replace tracked_swap tracked_drop tracked_escape)

text \<open>What a tracked attempt collects.\<close>

lemma collect_tracked:
  assumes tracked: "tracked sha x" and h: "h < length (ce_handles x)"
    and ok: "collect (ce_participants x ! h) = Inr p"
  shows "\<exists>obs. ai_observer (instance_at x h) = Some obs \<and> ob_token obs = h
    \<and> list_all2 (\<lambda>(k, e) c. encode_raised sha obs k e = Inr c)
        (enumerate 0 (ai_uncommitted_events (instance_at x h))) (cp_events p)"
proof -
  note D = trackedD [OF tracked]
  obtain n where fin: "take_finalization (ep_tracker (ce_participants x ! h)) = Inr n"
    and journal: "collect_journal [] None (journal_at x h) = Inr (cp_events p, None)"
    using ok by (auto simp: collect_def result_simps journal_at_def split: if_splits)
  have "finalization_at x h = Some (Inr n)"
    using fin by (auto simp: take_finalization_def finalization_at_def split: option.splits)
  then have "drop_finalization (ce_handles x ! h) = Inr n"
    using D(4) [OF h] by (auto split: if_splits)
  then have "token_of (instance_at x h) = Some h"
    using D(2) [OF h] by (auto simp: drop_finalization_eq instance_at_def split: if_splits)
  then obtain obs where obs: "ai_observer (instance_at x h) = Some obs" "ob_token obs = h"
    by (auto simp: token_of_def)
  have "journal_state sha obs (ai_uncommitted_events (instance_at x h)) (journal_at x h)"
    using D(3) [OF h] obs by (simp add: watched_def)
  then have "journal_at x h = clean sha obs (ai_uncommitted_events (instance_at x h))"
    using journal by (auto simp: journal_state_def broken_def)
  then show ?thesis
    using collect_clean journal obs by metis
qed

end
