(* ===== verification/ExecutionProperties.thy ===== *)
theory ExecutionProperties
  imports Capture
begin

text \<open>
  The properties of command execution on the in-memory store: an execution returns, is equivalent
  to one without interference, evaluates a completed command never again, and replays its result;
  rejections write no events, raised events are captured completely, and a simulation reports what
  an execution commits.
\<close>

section \<open>Lemmas\<close>

fun as_replay :: "'r command_outcome \<Rightarrow> 'r command_outcome" where
  "as_replay (OutcomeOk receipt) = OutcomeOk (ReceiptExactReplay (command_receipt_events receipt))"
| "as_replay (OutcomeRefused r) = OutcomeRefused r"

lemma completed_replay_again:
  assumes "completed_replay sha m outcome codec replay = Inr result"
  shows "completed_replay sha m outcome codec True = Inr (as_replay result)"
    and "completed_replay sha m (outcome\<lparr>co_details := Expired\<rparr>) codec True =
      Inl (ExecOutcomeRecovery RecoveryExpired)"
proof -
  obtain r receipt where parts: "validate_identity (co_marker outcome) m = Inr ()"
    "to_inline outcome = Inr r" "transaction_replay sha m r = Inr receipt"
    using assms by (auto simp: completed_replay_def result_simps)
  have receipt: "receipt = ReceiptExactReplay (receipt_events r)"
    using parts(3) by (auto simp: transaction_replay_def result_simps split: if_splits)
  show "completed_replay sha m (outcome\<lparr>co_details := Expired\<rparr>) codec True =
      Inl (ExecOutcomeRecovery RecoveryExpired)"
    using parts by (simp add: completed_replay_def to_inline_def validate_detail_binding_def
        details_available_def)
  show "completed_replay sha m outcome codec True = Inr (as_replay result)"
    using assms parts receipt
    by (cases "inline_rejection r")
      (auto simp: completed_replay_def rbind_Inr_iff map_ok_Inr_iff map_err_Inr_iff)
qed

lemma default_metadata_idem:
  assumes "default_metadata type_name m = Inr m'"
  shows "default_metadata type_name m' = Inr m'"
proof -
  have n: "normalized (with_default_outcome_evidence type_name m) = Inr m'"
    using assms by (auto simp: default_metadata_def result_simps)
  then have "md_outcome_evidence m' \<noteq> None"
    by (auto simp: normalized_ok_iff with_default_outcome_evidence_def split: if_splits)
  then show ?thesis
    using normalized_idem [OF n] by (auto simp: default_metadata_def with_default_outcome_evidence_def)
qed

lemma execute_completed_default:
  "default_metadata type_name m = Inr m' \<Longrightarrow>
   execute_completed_with_rejection_codec fuel sha S env type_name m' codecs codec policy handler w =
   execute_completed_with_rejection_codec fuel sha S env type_name m codecs codec policy handler w"
  by (simp add: execute_completed_with_rejection_codec_def default_metadata_idem)

lemma x_hot: "ms_hot x_store = MemoryDetails"
  by (simp add: x_store_def memory_new_def)

lemma x_reachable_start: "reachable x_externals (ms_authority x_store) (w_state x_start)"
  using x_default_reachable by (simp add: x_start_def)

lemma x_cooperative_store: "cooperative (store_step x_externals (ms_authority x_store)) x_undisturbed"
  using x_cooperative by simp

definition x_refusing :: "(nat, nat, nat) handler_program" where
  "x_refusing = LoadAggregate x_model ''1'' (\<lambda>loaded. case loaded of
     Inl e \<Rightarrow> Fail e
   | Inr h \<Rightarrow> RaiseEvent RaiseReturns h 1 (Decide (Rejected 0)))"

lemma x_run_alone:
  "run_handler x_sha (memory_execution_store x_externals x_store) (\<lambda>_ s. s) x_normal fmempty x_handler
     x_start execution_start = (Inr Accepted, \<lparr>w_calls = 1, w_state = state_default\<rparr>, x_raised)"
  "run_handler x_sha (memory_execution_store x_externals x_store) (\<lambda>_ s. s) x_normal fmempty x_refusing
     x_start execution_start = (Inr (Rejected 0), \<lparr>w_calls = 1, w_state = state_default\<rparr>, x_raised)"
  using x_load x_raise
  by (simp_all add: x_handler_def x_refusing_def interleave_def x_start_def x_execution_store_def)

lemma x_evaluate_alone:
  "evaluate_attempt x_sha (memory_execution_store x_externals x_store) (\<lambda>_ s. s) x_normal fmempty
     unconfigured_rejection_codec x_handler x_start =
     (AttemptDone (Inr (CommitAppended x_outcome)), \<lparr>w_calls = 2, w_state = x_committed\<rparr>)"
proof -
  have "x_undisturbed = (\<lambda>_ s. s)"
    by (rule ext)+ (simp add: x_undisturbed_def)
  then show ?thesis
    using x_run_alone(1) x_commit_attempt [of 1]
    by (simp add: evaluate_attempt_def x_participants x_execution_store_def numeral_2_eq_2)
qed

section \<open>Properties\<close>





text \<open>Repeating a command repeats its answer. When an execution answered, a later execution of
  the same command, with any handler, answers with the same events or the same decoded rejection,
  marked as a replay, without evaluating the handler; the one other answer is that the details
  were withdrawn.\<close>

theorem execute_replays_answer:
  assumes "reachable E (ms_authority store) (w_state w)" and "header_roundtrip E"
    and "ms_hot store = MemoryDetails"
    and "cooperative (store_step E (ms_authority store)) env"
    and "cooperative (store_step E (ms_authority store)) env'"
    and "execute_with_rejection_codec fuel (sha256 E) (memory_execution_store E store) env
      type_name m codecs codec policy handler w = Some (Inr answer, w', n)"
    and "(store_step E (ms_authority store))\<^sup>*\<^sup>* (w_state w') (w_state v)"
  shows "execute_with_rejection_codec (Suc fuel') (sha256 E) (memory_execution_store E store) env'
      type_name m codecs' codec policy' handler' v
      \<in> {Some (Inr (as_replay answer), interleave env' v, 0),
         Some (Inl (ExecOutcomeRecovery RecoveryExpired), interleave env' v, 0)}"
proof -
  let ?run = "\<lambda>m. execute_completed_with_rejection_codec fuel (sha256 E)
    (memory_execution_store E store) env type_name m codecs codec policy handler w"
  obtain m' where m': "default_metadata type_name m = Inr m'"
    using assms(6) by (auto simp: execute_with_rejection_codec_def split: sum.splits)
  then obtain c where first: "?run m' = Some (Inr c, w', n)"
    and answer: "completed_replay (sha256 E) m' (commit_result c) codec (is_exact_replay c) = Inr answer"
    using assms(6) by (auto simp: execute_with_rejection_codec_def rbind_Inr_iff)
  note again = mem_exec.execution_once [OF reachable_ready [OF assms(1-3)] assms(4,5) first assms(7),
      of fuel' codecs' codec policy' handler']
  show ?thesis
    using again m' completed_replay_again [OF answer]
    by (auto simp: execute_with_rejection_codec_def)
qed

theorem execute_replays_answer_witness:
  "\<exists>w' answer. execute 1 (sha256 x_externals) (memory_execution_store x_externals x_store)
      x_undisturbed ''Place'' x_metadata fmempty no_conflict_retries x_handler x_start =
      Some (Inr answer, w', 1)
    \<and> answer = OutcomeOk (ReceiptAppended [x_recorded])
    \<and> fst (the (execute_with_rejection_codec 1 (sha256 x_externals)
        (memory_execution_store x_externals x_store)
        x_undisturbed ''Place'' x_metadata fmempty unconfigured_rejection_codec no_conflict_retries
        x_handler w')) \<in> {Inr (OutcomeOk (ReceiptExactReplay [x_recorded])),
          Inl (ExecOutcomeRecovery RecoveryExpired)}"
proof -
  let ?w = "\<lparr>w_calls = 3, w_state = x_committed\<rparr>"
  let ?r = "x_receipt\<lparr>tr_completion := Some x_completion\<rparr>"
  have inline: "to_inline x_outcome = Inr ?r"
    by (simp add: to_inline_def x_outcome_def validate_detail_binding_def details_available_def)
  have "validate_integrity x_sha ?r = Inr ()"
    by (simp add: validate_integrity_def x_receipt_def TransactionReceipt_new_def u32_try_from_def
        version_next_def checked_add_def receipt_event_matches_def x_recorded_def x_event_def
        x_completion_valid)
      (simp add: x_completion_def completion_new_def)
  then have "transaction_replay x_sha x_normal ?r = Inr (ReceiptExactReplay [x_recorded])"
    by (simp add: transaction_replay_def)
      (simp add: x_receipt_def TransactionReceipt_new_def receipt_events_def)
  moreover have "validate_identity (co_marker x_outcome) x_normal = Inr ()"
    by (simp add: x_outcome_def x_marker_def validate_identity_def x_reference_def x_receipt_def
        TransactionReceipt_new_def)
  moreover have "receipt_events ?r = [x_recorded]" "inline_rejection ?r = None"
    "cc_rejection x_completion = None" "cc_evidence x_completion = Some x_evidence"
    by (simp_all add: x_receipt_def TransactionReceipt_new_def receipt_events_def inline_rejection_def
        x_completion_def completion_new_def)
  ultimately have "completed_replay x_sha x_normal x_outcome unconfigured_rejection_codec False =
      (Inr (OutcomeOk (ReceiptAppended [x_recorded])) :: command_execution_error + nat command_outcome)"
    using inline x_completion_valid by (simp add: completed_replay_def)
  then have first: "execute_with_rejection_codec 1 (sha256 x_externals)
      (memory_execution_store x_externals x_store)
      x_undisturbed ''Place'' x_metadata fmempty unconfigured_rejection_codec no_conflict_retries
      x_handler x_start = Some (Inr (OutcomeOk (ReceiptAppended [x_recorded])), ?w, 1)"
    using x_execute [of 0 no_conflict_retries] x_default_metadata
    by (simp add: execute_with_rejection_codec_def x_execution_store_def
        execute_completed_default [OF x_default_metadata])
  then show ?thesis
    using execute_replays_answer [OF x_reachable_start x_header_roundtrip x_hot x_cooperative_store
        x_cooperative_store first rtranclp.rtrancl_refl, of 0 fmempty no_conflict_retries x_handler]
    by (auto simp: execute_def)
qed

text \<open>C27: An execution returns. With at most \<open>maximum\<close> retries, on any store and whatever other
  writers do, it comes to an end after at most \<open>maximum + 1\<close> evaluations of the handler.\<close>

theorem execution_returns:
  assumes "maximum < usize_bound - 1"
  shows "\<exists>result w' n. execute_completed_with_rejection_codec (Suc maximum) sha S env type_name m
      codecs codec (bounded_conflict_retries maximum) handler w = Some (result, w', n)
    \<and> n \<le> Suc maximum"
  by (rule bounded_execution_returns [OF assms])

theorem execution_returns_witness:
  "\<exists>result w' n. execute_completed_with_rejection_codec 4 x_sha x_execution_store x_undisturbed
      ''Place'' x_metadata fmempty unconfigured_rejection_codec default_conflict_retries x_handler
      x_start = Some (result, w', n) \<and> n \<le> 4"
  using execution_returns [of 3 x_sha x_execution_store x_undisturbed "''Place''" x_metadata fmempty
      unconfigured_rejection_codec x_handler x_start]
  by (simp add: default_conflict_retries_def usize_bound_def)

text \<open>C33: A rejected command writes no events. When the handler decides to reject, whatever it raised
  before, the attempt leaves every stream as it was; if it is recorded, then as a rejection whose
  encoding the codec accepted back.\<close>

theorem rejected_command_writes_no_events:
  assumes "reachable E (ms_authority store) (w_state w)"
    and "run_handler (sha256 E) (memory_execution_store E store) (\<lambda>_ s. s) m codecs handler w
      execution_start = (Inr (Rejected r), w1, x)"
  shows "load (w_state (snd (evaluate_attempt (sha256 E) (memory_execution_store E store) (\<lambda>_ s. s)
      m codecs codec handler w))) st = load (w_state w) st
    \<and> (\<forall>outcome. fst (evaluate_attempt (sha256 E) (memory_execution_store E store) (\<lambda>_ s. s)
        m codecs codec handler w) = AttemptDone (Inr (CommitAppended outcome)) \<longrightarrow>
        dr_decision (om_reference (co_marker outcome)) = OutcomeRejected
        \<and> (\<exists>encoded r'. rc_encode codec r = Inr encoded \<and> rc_decode codec encoded = Inr r'))"
proof -
  let ?S = "memory_execution_store E store"
  let ?turn = "evaluate_attempt (sha256 E) ?S (\<lambda>_ s. s) m codecs codec handler w"
  note inv = reachable_inv [OF assms(1)]
  have w1: "w_state w1 = w_state w"
    using run_handler_alone [of "sha256 E" ?S m codecs handler w execution_start] assms(2) by simp
  show ?thesis
  proof (cases "attempt_participants codec (Rejected r) x")
    case (Inl e)
    then show ?thesis using assms(2) w1 by (simp add: evaluate_attempt_def)
  next
    case (Inr pr)
    then obtain ps rejection where pr: "attempt_participants codec (Rejected r) x = Inr (ps, rejection)"
      by (cases pr) auto
    from pr obtain encoded where rej: "rejection = Some encoded" "rc_encode codec r = Inr encoded"
      "\<exists>r'. rc_decode codec encoded = Inr r'" "\<forall>p \<in> set ps. cp_events p = []"
      by (rule rejected_participants)
    have turn: "?turn = commit_attempt (sha256 E) ?S (\<lambda>_ s. s) m ps rejection w1"
      using assms(2) pr by (simp add: evaluate_attempt_def)
    show ?thesis
    proof (cases "command_transaction (sha256 E) m ps rejection")
      case (Inl e)
      then have "?turn = (AttemptDone (Inl (ExecStore e)), interleave (\<lambda>_ s. s) w1)"
        unfolding turn by (simp add: commit_attempt_def persist_def Let_def)
      then show ?thesis using w1 by (simp add: interleave_def)
    next
      case (Inr t)
      note t = command_transaction_ok [OF Inr]
      obtain r' s' where commit: "session_commit_outcome E store (w_state w) (\<lambda>s i. s) t = (r', s')"
        by fastforce
      have "load s' st = load (w_state w) st"
        using commit_without_batches [OF inv t(1) no_events_no_batches [OF Inr rej(4)] commit] .
      moreover have "w_state (snd ?turn) = s'"
        unfolding turn commit_alone_state using Inr commit w1
        by (cases r') (simp_all add: persist_def)
      moreover have "dr_decision (om_reference (co_marker outcome)) = OutcomeRejected"
        if fin: "fst ?turn = AttemptDone (Inr (CommitAppended outcome))" for outcome
      proof -
        obtain w' where "commit_attempt (sha256 E) ?S (\<lambda>_ s. s) m ps rejection w1 =
            (AttemptDone (Inr (CommitAppended outcome)), w')"
          using fin turn by (metis prod.collapse)
        then have "session_commit_outcome E store (w_state w) (\<lambda>s i. s) t =
            (Inr (CommitAppended outcome), w_state w')"
          by (rule commit_alone_appended) (use Inr w1 in simp)
        moreover obtain c where "md_bounded_context m = Some c"
          using Inr by (auto simp: command_transaction_eq required_bounded_context_def result_simps)
        ultimately show ?thesis
          using appended_receipt(2) [OF inv t(1)] t(2,4) rej(1)
          by (simp add: decision_of_def completion_new_def)
      qed
      ultimately show ?thesis using rej by metis
    qed
  qed
qed

theorem rejected_command_writes_no_events_witness:
  "run_handler x_sha (memory_execution_store x_externals x_store) (\<lambda>_ s. s) x_normal fmempty x_refusing
     x_start execution_start = (Inr (Rejected 0), \<lparr>w_calls = 1, w_state = state_default\<rparr>, x_raised)
   \<and> load (w_state (snd (evaluate_attempt (sha256 x_externals)
       (memory_execution_store x_externals x_store) (\<lambda>_ s. s) x_normal fmempty
       (json_rejection_codec (\<lambda>_. Inr []) (\<lambda>_. Inr 0) ''refused'' 1) x_refusing x_start))) x_stream = []"
proof -
  have run: "run_handler (sha256 x_externals) (memory_execution_store x_externals x_store) (\<lambda>_ s. s)
      x_normal fmempty x_refusing x_start execution_start =
      (Inr (Rejected 0), \<lparr>w_calls = 1, w_state = state_default\<rparr>, x_raised)"
    using x_run_alone(2) by simp
  have "load (w_state x_start) x_stream = []"
    by (simp add: x_start_def load_def)
  then show ?thesis
    using rejected_command_writes_no_events [OF x_reachable_start run,
        of "json_rejection_codec (\<lambda>_. Inr []) (\<lambda>_. Inr 0) ''refused'' 1" x_stream] x_run_alone(2)
    by simp
qed

text \<open>C26: Event capture is complete and cannot be bypassed. For every handler, including ones that
  swap instances, replace them, let handles escape, or catch panics of their own domain code: if
  the attempt can be finished, then what is collected for each loaded aggregate is the encoding of
  exactly its uncommitted events, in the order they were raised, each with its ordinal.\<close>

theorem raised_events_are_collected:
  assumes "honest handler"
    and "run_handler sha S env m codecs handler w execution_start = (Inr decision, w1, x)"
    and "finish x = Inr ps"
  shows "length ps = length (ce_handles x)
    \<and> (\<forall>h < length ps. \<exists>obs. ai_observer (instance_at x h) = Some obs \<and> ob_token obs = h
        \<and> list_all2 (\<lambda>(k, e) c. encode_raised sha obs k e = Inr c)
            (enumerate 0 (ai_uncommitted_events (instance_at x h))) (cp_events (ps ! h)))"
proof -
  have tracked: "tracked sha x"
    using run_handler_tracked [OF assms(1) tracked_start, of sha S env m codecs w] assms(2) by simp
  have all: "list_all2 (\<lambda>p q. collect p = Inr q) (ce_participants x) ps"
    using assms(3) by (simp add: finish_def collect_results_Inr_iff)
  then have len: "length ps = length (ce_handles x)"
    using trackedD(1) [OF tracked] list_all2_lengthD by metis
  then show ?thesis
    using collect_tracked [OF tracked] list_all2_nthD2 [OF all] by simp
qed

theorem raised_events_are_collected_witness:
  "\<exists>obs. ai_observer (instance_at x_raised 0) = Some obs
    \<and> list_all2 (\<lambda>(k, e) c. encode_raised x_sha obs k e = Inr c)
        (enumerate 0 (ai_uncommitted_events (instance_at x_raised 0))) [x_event]"
proof -
  have "honest x_handler"
    by (simp add: x_handler_def split: sum.splits)
  moreover have "finish x_raised =
      Inr [\<lparr>cp_stream_id = x_stream, cp_base_version = 0, cp_events = [x_event]\<rparr>]"
    by (simp add: finish_def collect_def x_raised_def take_finalization_def)
  ultimately show ?thesis
    using raised_events_are_collected [OF _ x_run_alone(1)] by fastforce
qed

text \<open>C34: A simulation reports what an execution commits. Where an undisturbed attempt appends, the
  simulation of the same handler on the same state returns the same decision and, stream by
  stream, the base version and the event contents that the receipt of the commit records; it
  changes nothing.\<close>

theorem simulation_reports_commit:
  assumes "reachable E (ms_authority store) (w_state w)" and "header_roundtrip E"
    and "ms_hot store = MemoryDetails" and "default_metadata type_name m = Inr m'"
    and "evaluate_attempt (sha256 E) (memory_execution_store E store) (\<lambda>_ s. s) m' codecs codec handler w
      = (AttemptDone (Inr (CommitAppended outcome)), w')"
  shows "\<exists>decision ps w1. simulate (sha256 E) (memory_execution_store E store) (\<lambda>_ s. s) type_name m
      codecs handler w = (Inr (decision, map simulated_participant_of ps), w1)
    \<and> w_state w1 = w_state w
    \<and> list_all2 receipt_of ps (tr_streams (om_integrity (co_marker outcome)))
    \<and> (decision = Accepted \<longleftrightarrow> dr_decision (om_reference (co_marker outcome)) = OutcomeAccepted)"
proof -
  note inv = reachable_inv [OF assms(1)]
  from assms(5) obtain decision w1 x ps rejection t where
    h: "run_handler (sha256 E) (memory_execution_store E store) (\<lambda>_ s. s) m' codecs handler w
      execution_start = (Inr decision, w1, x)"
    and w1: "w_state w1 = w_state w" and ps: "attempt_participants codec decision x = Inr (ps, rejection)"
    and tx: "command_transaction (sha256 E) m' ps rejection = Inr t"
    and commit: "es_commit_outcome (memory_execution_store E store) (w_state w) t =
      (Inr (CommitAppended outcome), w_state w')"
    by (rule evaluate_alone)
  note t = command_transaction_ok [OF tx]
  have run: "session_commit_outcome E store (w_state w) (\<lambda>s i. s) t =
      (Inr (CommitAppended outcome), w_state w')"
    using commit by simp
  obtain c where c: "tx_bounded_context t = Some c"
    using tx by (auto simp: command_transaction_eq required_bounded_context_def result_simps)
  note receipt = appended_receipt [OF inv t(1) run c]
  have "persist (sha256 E) (memory_execution_store E store) m' ps rejection (w_state w) =
      (Inr (PersistedOutcome (CommitAppended outcome)), w_state w')"
    using tx commit by (simp add: persist_def)
  then have "current_version (w_state w) (cp_stream_id p) = cp_base_version p" if "p \<in> set ps" for p
    using mem_versioned.persist_current(1) [OF reachable_ready [OF assms(1-3)] _ _ that]
    by (simp add: history_version_def current_version_load)
  then have "list_all2 receipt_of ps (tr_streams (planned_receipt (w_state w) t))"
    by (rule planned_receipt_of [OF t(5)])
  moreover have "decision = Accepted \<longleftrightarrow> rejection = None"
    using ps by (cases decision) (auto simp: attempt_participants_def result_simps)
  then have "decision = Accepted \<longleftrightarrow> dr_decision (om_reference (co_marker outcome)) = OutcomeAccepted"
    using receipt(2) t(4) by (simp add: decision_of_def completion_new_def)
  ultimately show ?thesis
    using simulate_alone [OF assms(4) h ps] w1 receipt(1) by (auto simp: without_completion_def)
qed

theorem simulation_reports_commit_witness:
  "\<exists>decision ps w1. simulate (sha256 x_externals) (memory_execution_store x_externals x_store)
      (\<lambda>_ s. s) ''Place'' x_metadata fmempty x_handler x_start =
      (Inr (decision, map simulated_participant_of ps), w1)
    \<and> list_all2 receipt_of ps (tr_streams x_receipt)"
proof -
  have run: "evaluate_attempt (sha256 x_externals) (memory_execution_store x_externals x_store)
      (\<lambda>_ s. s) x_normal fmempty unconfigured_rejection_codec x_handler x_start =
      (AttemptDone (Inr (CommitAppended x_outcome)), \<lparr>w_calls = 2, w_state = x_committed\<rparr>)"
    using x_evaluate_alone by simp
  have "om_integrity (co_marker x_outcome) = x_receipt"
    by (simp add: x_outcome_def)
  then show ?thesis
    using simulation_reports_commit [OF x_reachable_start x_header_roundtrip x_hot x_default_metadata run]
    by metis
qed

text \<open>C35: Rehydrating an aggregate from a reachable store never reports corrupt history: it fails only
  for a stream of another aggregate type or in a codec, and otherwise returns the fold of the
  aggregate's \<open>apply\<close> over the decoded events, with nothing uncommitted.\<close>

theorem rehydrate_folds_history:
  assumes "reachable E auth s"
  shows "rehydrate (sha256 E) (memory_execution_store E store) A codecs stream s =
    rbind (map_err SimStore (validate_aggregate_type A stream)) (\<lambda>_.
    rbind (map_err SimCodec (codecs_resolve codecs A)) (\<lambda>codec.
    rbind (map_err SimCodec (collect_results (ec_decode codec) (load s stream))) (\<lambda>events.
    Inr \<lparr>ai_stream_id = stream, ai_state = foldl (am_apply A) (am_initial A stream) events,
         ai_uncommitted_events = [], ai_observer = None\<rparr>)))"
  by (rule rehydrate_eq [OF reachable_inv [OF assms]])

theorem rehydrate_folds_history_witness:
  "rehydrate (sha256 x_externals) (memory_execution_store x_externals x_store) x_model fmempty x_stream
     x_appended = Inr \<lparr>ai_stream_id = x_stream, ai_state = 1, ai_uncommitted_events = [],
       ai_observer = None\<rparr>"
proof -
  have "validate_aggregate_type x_model x_stream = Inr ()"
    by (simp add: validate_aggregate_type_def x_stream_def)
  then show ?thesis
    using rehydrate_folds_history [OF x_appended_reachable, of x_store x_model fmempty x_stream]
      x_resolve_codec by (simp add: json_event_codec_def)
qed

end
