(* ===== verification/HistoryProperties.thy ===== *)
theory HistoryProperties
  imports Scenario
begin

text \<open>
  What the history check of the executor establishes. Any history it accepts, from whatever store,
  is a sequence of whole commits with contiguous versions and derived identities.
\<close>

section \<open>Lemmas\<close>

text \<open>One event of a commit of \<open>n\<close> events, at ordinal \<open>i\<close>, at position \<open>v\<close> of the stream.\<close>

definition commit_event ::
  "(bytes \<Rightarrow> bytes) \<Rightarrow> stream_id \<Rightarrow> commit_id \<Rightarrow> nat \<Rightarrow> nat \<Rightarrow> nat \<Rightarrow> recorded_event \<Rightarrow> bool" where
  "commit_event sha st c n i v e \<longleftrightarrow>
     re_stream_id e = st \<and> unat (re_stream_version e) = v
     \<and> re_commit_id e = c \<and> c = derive_commit_id sha st (re_operation_id e)
     \<and> unat (re_commit_event_ordinal e) = i \<and> unat (re_commit_event_count e) = n
     \<and> re_event_id e = derive_event_id sha c (re_commit_event_ordinal e)"

definition whole_commit ::
  "(bytes \<Rightarrow> bytes) \<Rightarrow> stream_id \<Rightarrow> nat \<Rightarrow> recorded_event list \<Rightarrow> bool" where
  "whole_commit sha st v es \<longleftrightarrow> es \<noteq> [] \<and>
     (\<exists>c. \<forall>i < length es. commit_event sha st c (length es) i (v + i + 1) (es ! i))"

fun whole_commits ::
  "(bytes \<Rightarrow> bytes) \<Rightarrow> stream_id \<Rightarrow> nat \<Rightarrow> recorded_event list list \<Rightarrow> bool" where
  "whole_commits sha st v [] \<longleftrightarrow> True"
| "whole_commits sha st v (b # bs) \<longleftrightarrow>
     whole_commit sha st v b \<and> whole_commits sha st (v + length b) bs"

lemma expected_position_unat:
  "expected_position index = Inr v \<Longrightarrow> unat v = index + 1"
  by (auto simp: expected_position_def u64_try_from_def checked_add_def result_simps unat_of_nat_small
      unat_word_ariths split: if_splits option.splits)

lemma checked_add_one: "checked_add (x :: u32) 1 = Some y \<Longrightarrow> unat y = unat x + 1"
  by (auto simp: checked_add_def unat_word_ariths split: if_splits)

text \<open>One accepted event.\<close>

lemma accepted_event:
  assumes "validate_history_event sha st index h e = Inr h'"
  obtains ordinal count seen following where
    "commit_coordinates h e = Inr (ordinal, count, seen)"
    "commit_event sha st (re_commit_id e) (unat count) (unat ordinal) (index + 1) e"
    "unat following = unat ordinal + 1"
    "re_event_id e \<notin> hc_event_ids h" "hc_event_ids h' = insert (re_event_id e) (hc_event_ids h)"
    "hc_seen_commits h' = seen"
    "hc_current_commit h' = (if following = count then None else Some (re_commit_id e, following, count))"
proof -
  obtain position where p: "expected_position index = Inr position"
    using assms by (auto simp: validate_history_event_def result_simps split: if_splits)
  obtain ordinal count seen where c: "commit_coordinates h e = Inr (ordinal, count, seen)"
    using assms p by (auto simp: validate_history_event_def result_simps split: if_splits)
  note eq = assms [unfolded validate_history_event_def p c]
  obtain following where n: "checked_add (re_commit_event_ordinal e) 1 = Some following"
    using eq by (auto simp: result_simps split: if_splits)
  show ?thesis
    by (rule that [OF c]) (use eq n checked_add_one [OF n] expected_position_unat [OF p] in
        \<open>auto simp: commit_event_def result_simps Let_def split: if_splits\<close>)
qed

text \<open>Inside a commit: the rest of the commit follows, then the check is between two commits.\<close>

lemma accepted_inside:
  assumes "validate_history_from sha st index h es = Inr ()"
    and "hc_current_commit h = Some (c, ordinal, count)"
  shows "unat ordinal < unat count \<and> (\<exists>b rest h'. es = b @ rest
    \<and> length b = unat count - unat ordinal
    \<and> (\<forall>i < length b. commit_event sha st c (unat count) (unat ordinal + i) (index + i + 1) (b ! i))
    \<and> hc_current_commit h' = None
    \<and> validate_history_from sha st (index + length b) h' rest = Inr ())"
  using assms
proof (induction es arbitrary: index h ordinal)
  case Nil
  then show ?case by simp
next
  case (Cons e es)
  obtain h1 where step: "validate_history_event sha st index h e = Inr h1"
    and rest: "validate_history_from sha st (Suc index) h1 es = Inr ()"
    using Cons.prems(1) by (auto simp: result_simps)
  from step obtain ordinal' count' seen following where
    co: "commit_coordinates h e = Inr (ordinal', count', seen)"
    and ev: "commit_event sha st (re_commit_id e) (unat count') (unat ordinal') (index + 1) e"
    and nx: "unat following = unat ordinal' + 1"
    and cur: "hc_current_commit h1 =
      (if following = count' then None else Some (re_commit_id e, following, count'))"
    by (rule accepted_event)
  have eq: "ordinal' = ordinal" "count' = count" "re_commit_id e = c"
    using co Cons.prems(2) by (auto simp: commit_coordinates_def split: if_splits)
  show ?case
  proof (cases "following = count")
    case True
    then have "unat count = unat ordinal + 1"
      using nx eq by simp
    then show ?thesis
      using True cur rest ev eq by (intro conjI exI [of _ "[e]"] exI [of _ es] exI [of _ h1]) auto
  next
    case False
    then obtain b rest' h' where more: "unat following < unat count" "es = b @ rest'"
      "length b = unat count - unat following" "hc_current_commit h' = None"
      "\<forall>i < length b. commit_event sha st c (unat count) (unat following + i) (Suc index + i + 1) (b ! i)"
      "validate_history_from sha st (Suc index + length b) h' rest' = Inr ()"
      using Cons.IH [OF rest, of following] cur eq by auto
    have "commit_event sha st c (unat count) (unat ordinal + i) (index + i + 1) ((e # b) ! i)"
      if "i < length (e # b)" for i
      using that more(5) ev eq nx by (cases i) auto
    then show ?thesis
      using more nx eq by (intro conjI exI [of _ "e # b"] exI [of _ rest'] exI [of _ h']) auto
  qed
qed

lemma accepted_between:
  assumes "validate_history_from sha st index h es = Inr ()" and "hc_current_commit h = None"
  shows "\<exists>bs. es = concat bs \<and> whole_commits sha st index bs"
  using assms
proof (induction "length es" arbitrary: es index h rule: less_induct)
  case less
  show ?case
  proof (cases es)
    case Nil
    then show ?thesis by (intro exI [of _ "[]"]) simp
  next
    case (Cons e es')
    obtain h1 where step: "validate_history_event sha st index h e = Inr h1"
      and rest: "validate_history_from sha st (Suc index) h1 es' = Inr ()"
      using less.prems(1) Cons by (auto simp: result_simps)
    from step obtain ordinal count seen following where
      co: "commit_coordinates h e = Inr (ordinal, count, seen)"
      and ev: "commit_event sha st (re_commit_id e) (unat count) (unat ordinal) (index + 1) e"
      and nx: "unat following = unat ordinal + 1"
      and cur: "hc_current_commit h1 =
        (if following = count then None else Some (re_commit_id e, following, count))"
      by (rule accepted_event)
    have zero: "ordinal = 0"
      using co less.prems(2) by (auto simp: commit_coordinates_def split: if_splits)
    obtain b rest' h' where b: "es = b @ rest'" "b \<noteq> []" "length b = unat count"
      "\<forall>i < length b. commit_event sha st (re_commit_id e) (unat count) i (index + i + 1) (b ! i)"
      "hc_current_commit h' = None" "validate_history_from sha st (index + length b) h' rest' = Inr ()"
    proof (cases "following = count")
      case True
      then show ?thesis
        using that [of "[e]" es' h1] Cons ev cur rest zero nx by simp
    next
      case False
      then obtain b rest' h' where more: "unat following < unat count" "es' = b @ rest'"
        "length b = unat count - unat following" "hc_current_commit h' = None"
        "\<forall>i < length b. commit_event sha st (re_commit_id e) (unat count) (unat following + i)
          (Suc index + i + 1) (b ! i)"
        "validate_history_from sha st (Suc index + length b) h' rest' = Inr ()"
        using accepted_inside [OF rest, of "re_commit_id e" following count] cur by auto
      have "commit_event sha st (re_commit_id e) (unat count) i (index + i + 1) ((e # b) ! i)"
        if "i < length (e # b)" for i
        using that more(5) ev zero nx by (cases i) auto
      then show ?thesis
        using that [of "e # b" rest' h'] more zero nx Cons by simp
    qed
    have "length rest' < length es"
      using b(1,2) by simp
    then obtain bs where "rest' = concat bs" "whole_commits sha st (index + length b) bs"
      using less.hyps [OF _ b(6,5)] by blast
    moreover have "whole_commit sha st index b"
      using b(2,3,4) by (auto simp: whole_commit_def)
    ultimately show ?thesis
      using b(1) by (intro exI [of _ "b # bs"]) simp
  qed
qed

lemma accepted_ids:
  assumes "validate_history_from sha st index h es = Inr ()"
  shows "distinct (map re_event_id es) \<and> set (map re_event_id es) \<inter> hc_event_ids h = {}"
  using assms
proof (induction es arbitrary: index h)
  case (Cons e es)
  obtain h1 where step: "validate_history_event sha st index h e = Inr h1"
    and rest: "validate_history_from sha st (Suc index) h1 es = Inr ()"
    using Cons.prems by (auto simp: result_simps)
  from step have "re_event_id e \<notin> hc_event_ids h" "hc_event_ids h1 = insert (re_event_id e) (hc_event_ids h)"
    by (rule accepted_event, simp)+
  then show ?case using Cons.IH [OF rest] by auto
qed simp

section \<open>Properties\<close>

text \<open>C40: A history the executor accepts consists of whole commits. Whatever a store returns, if the
  check passes then the events split into commits that are complete and in order: each event
  carries its position as version, its ordinal in the commit, the size of the commit, and the
  identities derived from the stream, the operation and the ordinal; no event identity repeats.\<close>

theorem accepted_history_is_whole_commits:
  assumes "validate_history sha st es = Inr ()"
  shows "(\<exists>bs. es = concat bs \<and> whole_commits sha st 0 bs) \<and> distinct (map re_event_id es)"
  using accepted_between [OF assms [unfolded validate_history_def]]
    accepted_ids [OF assms [unfolded validate_history_def]]
  by (simp add: history_start_def)

theorem accepted_history_is_whole_commits_witness:
  "validate_history x_sha x_stream [x_recorded] = Inr ()
   \<and> (\<exists>bs. [x_recorded] = concat bs \<and> whole_commits x_sha x_stream 0 bs)"
proof -
  obtain J where "journal_of (sha256 x_externals) x_appended J"
    using x_appended_reachable by (rule reachable_journal)
  then have "validate_history x_sha x_stream [x_recorded] = Inr ()"
    using journal_history [of "sha256 x_externals" x_appended J x_stream] by simp
  then show ?thesis
    using accepted_history_is_whole_commits by blast
qed

end
