(* ===== verification/CodecProperties.thy ===== *)
theory CodecProperties
  imports Scenario "HOL-Library.Multiset"
begin

text \<open>
  Properties of the encodings: fingerprints in hexadecimal, identities derived by framed hashing,
  the digest of a proposal, markers and their manifests, rejection codecs, the limits of batches and
  the listing of streams.
\<close>

section \<open>Prefix-free encodings\<close>

text \<open>An encoding into lists of parts that can be read off the front of any list of parts. The
  encodings of a proposal are built from such ones.\<close>

locale prefix_free =
  fixes parts :: "'a \<Rightarrow> 'b list"
  assumes split: "parts x @ xs = parts y @ ys \<Longrightarrow> x = y \<and> xs = ys"
begin

lemma inject: "parts x = parts y \<Longrightarrow> x = y"
  using split [of x "[]" y "[]"] by simp

text \<open>Repeated encodings up to an end mark that no encoding begins with.\<close>

lemma split_many:
  assumes "\<And>x xs ys. parts x @ xs \<noteq> stop # ys"
    and "concat (map parts xs) @ stop # us = concat (map parts ys) @ stop # vs"
  shows "xs = ys \<and> us = vs"
  using assms(2)
proof (induction xs arbitrary: ys)
  case Nil
  then show ?case
    using assms(1) by (cases ys) (auto, metis)
next
  case (Cons x xs)
  show ?case
  proof (cases ys)
    case Nil
    then show ?thesis using Cons.prems assms(1) by simp
  next
    case (Cons y ys')
    then show ?thesis
      using Cons.prems split [of x "concat (map parts xs) @ stop # us" y
          "concat (map parts ys') @ stop # vs"] Cons.IH [of ys'] by simp
  qed
qed

end

interpretation optional: prefix_free optional_parts
  by unfold_locales (auto simp: optional_parts_def split: option.splits)

interpretation actor: prefix_free actor_parts
  by unfold_locales (auto simp: actor_parts_def split: option.splits)

lemma be_bytes_u32: "be_bytes 4 (unat (a :: u32)) = be_bytes 4 (unat b) \<longleftrightarrow> a = b"
proof -
  have "unat a < 256 ^ 4" "unat b < 256 ^ 4"
    using unsigned_less [of a] unsigned_less [of b] by simp_all
  then show ?thesis
    using be_bytes_inject by (metis word_unat_eq_iff)
qed

interpretation event: prefix_free event_parts
  by unfold_locales (auto simp: event_parts_def be_bytes_u32)

text \<open>The batches of one proposal all carry its actor, which is encoded when there is one.\<close>

lemma batch_parts_split:
  assumes "batch_parts attributed b @ xs = batch_parts attributed c @ ys" and "eb_actor b = eb_actor c"
  shows "b = c \<and> xs = ys"
proof -
  have stop: "event_parts e @ us \<noteq> str_bytes ''end-batch'' # vs" for e us vs
    by (simp add: event_parts_def)
  obtain us vs where tail: "us = (if attributed then actor_parts (eb_actor b) else [])
      @ concat (map event_parts (eb_events b)) @ str_bytes ''end-batch'' # xs"
    "vs = (if attributed then actor_parts (eb_actor c) else [])
      @ concat (map event_parts (eb_events c)) @ str_bytes ''end-batch'' # ys"
    by blast
  have head: "eb_commit_id b = eb_commit_id c" "eb_operation_id b = eb_operation_id c"
    "eb_operation_fingerprint b = eb_operation_fingerprint c"
    and rest: "optional_parts (eb_correlation_id b) @ optional_parts (eb_causation_id b) @ us =
      optional_parts (eb_correlation_id c) @ optional_parts (eb_causation_id c) @ vs"
    using assms(1) tail by (simp_all add: batch_parts_def)
  from optional.split [OF rest] have corr: "eb_correlation_id b = eb_correlation_id c"
    and rest2: "optional_parts (eb_causation_id b) @ us = optional_parts (eb_causation_id c) @ vs"
    by simp_all
  from optional.split [OF rest2] have caus: "eb_causation_id b = eb_causation_id c" and "us = vs"
    by simp_all
  then have "concat (map event_parts (eb_events b)) @ str_bytes ''end-batch'' # xs =
      concat (map event_parts (eb_events c)) @ str_bytes ''end-batch'' # ys"
    using tail assms(2) by simp
  then have "eb_events b = eb_events c \<and> xs = ys"
    by (rule event.split_many [rotated]) (rule stop)
  then show ?thesis
    using head corr caus assms(2) by (cases b; cases c) simp
qed

text \<open>A proposal without the versions it expects: what its digest covers.\<close>

definition unversioned :: "transaction_participant \<Rightarrow> stream_id \<times> event_batch option" where
  "unversioned p = (tp_stream_id p, tp_batch p)"

definition attributed_to :: "actor_ref option \<Rightarrow> transaction_participant \<Rightarrow> bool" where
  "attributed_to a p \<longleftrightarrow> (\<forall>b. tp_batch p = Some b \<longrightarrow> eb_actor b = a)"

lemma participant_parts_split:
  assumes "participant_parts attributed p @ xs = participant_parts attributed q @ ys"
    and "attributed_to a p" and "attributed_to a q"
  shows "unversioned p = unversioned q \<and> xs = ys"
proof -
  have id: "tp_stream_id p = tp_stream_id q"
    using assms(1) by (simp add: participant_parts_def stream_id.expand)
  have guard: "batch_parts attributed b @ us \<noteq> str_bytes ''guard'' # vs" for b us vs
    by (simp add: batch_parts_def)
  show ?thesis
  proof (cases "tp_batch p")
    case None
    then have "tp_batch q = None"
      using assms(1) guard [symmetric]
      by (cases "tp_batch q") (auto simp: participant_parts_def)
    then show ?thesis
      using None assms(1) id by (simp add: participant_parts_def unversioned_def)
  next
    case (Some b)
    then obtain c where c: "tp_batch q = Some c"
      using assms(1) guard by (cases "tp_batch q") (auto simp: participant_parts_def)
    then have "batch_parts attributed b @ xs = batch_parts attributed c @ ys"
      using assms(1) Some by (simp add: participant_parts_def)
    then show ?thesis
      using batch_parts_split assms(2,3) Some c id by (auto simp: attributed_to_def unversioned_def)
  qed
qed

lemma participants_split:
  assumes "concat (map (participant_parts attributed) ps) @ [str_bytes ''end-proposal''] =
      concat (map (participant_parts attributed) qs) @ [str_bytes ''end-proposal'']"
    and "list_all (attributed_to a) ps" and "list_all (attributed_to a) qs"
  shows "map unversioned ps = map unversioned qs"
  using assms
proof (induction ps arbitrary: qs)
  case Nil
  then show ?case by (cases qs) (auto simp: participant_parts_def)
next
  case (Cons p ps)
  show ?case
  proof (cases qs)
    case Nil
    then show ?thesis using Cons.prems(1) by (simp add: participant_parts_def)
  next
    case (Cons q qs')
    then have "unversioned p = unversioned q \<and>
        concat (map (participant_parts attributed) ps) @ [str_bytes ''end-proposal''] =
        concat (map (participant_parts attributed) qs') @ [str_bytes ''end-proposal'']"
      using Cons.prems by (intro participant_parts_split [where a = a]) simp_all
    then show ?thesis
      using Cons Cons.prems Cons.IH [of qs'] by simp
  qed
qed

lemma proposal_digest_attributed:
  assumes "proposal_digest_of E t = Inr d"
  shows "list_all (attributed_to (tx_actor t)) (tx_participants t)"
  using assms
  by (auto simp: proposal_digest_of_def tx_batches_def list_all_iff list_ex_iff attributed_to_def
      List.map_filter_def split: if_splits)

definition content ::
  "event_transaction \<Rightarrow> (stream_id \<times> event_batch option) list \<times> bounded_context_name option \<times>
   operation_id \<times> fingerprint \<times> correlation_id option \<times> causation_id option \<times> security_scope option \<times>
   actor_ref option" where
  "content t = (map unversioned (tx_participants t), tx_bounded_context t, tx_operation_id t,
     tx_operation_fingerprint t, tx_correlation_id t, tx_causation_id t, tx_security_scope t, tx_actor t)"

lemma proposal_parts_inject:
  assumes eq: "proposal_parts t c = proposal_parts u c'"
    and t: "list_all (attributed_to (tx_actor t)) (tx_participants t)"
    and u: "list_all (attributed_to (tx_actor u)) (tx_participants u)"
  shows "content t = content u \<and> c = c'"
proof -
  define at where "at \<longleftrightarrow> tx_actor t \<noteq> None"
  have at: "tx_actor t \<noteq> None \<longleftrightarrow> at" "tx_actor u \<noteq> None \<longleftrightarrow> at"
    using eq by (auto simp: proposal_parts_def Let_def at_def split: if_splits)
  define tail where "tail v c = (if at then actor_parts (tx_actor v) else []) @ c
      # concat (map (participant_parts at) (tx_participants v)) @ [str_bytes ''end-proposal'']" for v :: event_transaction and c
  have "optional_parts (tx_bounded_context t) @ str_bytes (tx_operation_id t) #
      tx_operation_fingerprint t # optional_parts (tx_correlation_id t) @
      optional_parts (tx_causation_id t) @ optional_parts (tx_security_scope t) @ tail t c =
    optional_parts (tx_bounded_context u) @ str_bytes (tx_operation_id u) #
      tx_operation_fingerprint u # optional_parts (tx_correlation_id u) @
      optional_parts (tx_causation_id u) @ optional_parts (tx_security_scope u) @ tail u c'"
    using eq unfolding proposal_parts_def at Let_def tail_def by simp
  from optional.split [OF this] have ctx: "tx_bounded_context t = tx_bounded_context u"
    and op: "tx_operation_id t = tx_operation_id u"
      "tx_operation_fingerprint t = tx_operation_fingerprint u"
    and r1: "optional_parts (tx_correlation_id t) @
      optional_parts (tx_causation_id t) @ optional_parts (tx_security_scope t) @ tail t c =
      optional_parts (tx_correlation_id u) @
      optional_parts (tx_causation_id u) @ optional_parts (tx_security_scope u) @ tail u c'"
    by simp_all
  from optional.split [OF r1] have corr: "tx_correlation_id t = tx_correlation_id u"
    and r2: "optional_parts (tx_causation_id t) @ optional_parts (tx_security_scope t) @ tail t c =
      optional_parts (tx_causation_id u) @ optional_parts (tx_security_scope u) @ tail u c'"
    by simp_all
  from optional.split [OF r2] have caus: "tx_causation_id t = tx_causation_id u"
    and r3: "optional_parts (tx_security_scope t) @ tail t c = optional_parts (tx_security_scope u) @ tail u c'"
    by simp_all
  from optional.split [OF r3] have scope: "tx_security_scope t = tx_security_scope u"
    and r4: "tail t c = tail u c'"
    by simp_all
  have same: "tx_actor t = tx_actor u \<and> c # concat (map (participant_parts at) (tx_participants t))
      @ [str_bytes ''end-proposal''] = c' # concat (map (participant_parts at) (tx_participants u))
      @ [str_bytes ''end-proposal'']"
  proof (cases at)
    case True
    then have "actor_parts (tx_actor t) @ (c # concat (map (participant_parts at) (tx_participants t))
        @ [str_bytes ''end-proposal'']) = actor_parts (tx_actor u) @
        (c' # concat (map (participant_parts at) (tx_participants u)) @ [str_bytes ''end-proposal''])"
      using r4 unfolding tail_def by simp
    then show ?thesis by (rule actor.split)
  next
    case False
    then show ?thesis using r4 at by (auto simp: tail_def)
  qed
  then have "map unversioned (tx_participants t) = map unversioned (tx_participants u)"
    using t u by (intro participants_split [of at _ _ "tx_actor t"]) simp_all
  then show ?thesis
    using same ctx op corr caus scope by (simp add: content_def)
qed

section \<open>Manifests\<close>

text \<open>What a prepared marker satisfies.\<close>

lemma rejected_receipt_empty:
  assumes "validate_proposal sha r t = Inr ()" and "validate_completed_transaction t = Inr ()"
    and "decision_of (tx_completion t) = OutcomeRejected"
  shows "\<not> list_ex (\<lambda>s. sr_events s \<noteq> []) (tr_streams r)"
proof -
  have none: "\<forall>p \<in> set (tx_participants t). tp_batch p = None"
    using assms(2,3)
    by (auto simp: validate_completed_transaction_ok_iff decision_of_def list_ex_iff split: if_splits bind_splits)
  have len: "length (tr_streams r) = length (tx_participants t)"
    and each: "\<forall>x \<in> set (zip (tr_streams r) (tx_participants t)).
      validate_participant_receipt sha r x = Inr ()"
    using assms(1) by (auto simp: validate_proposal_def result_simps for_each_Inr_iff split: if_splits)
  have "sr_events s = []" if s: "s \<in> set (tr_streams r)" for s
  proof -
    obtain p where "(s, p) \<in> set (zip (tr_streams r) (tx_participants t))"
      using s len by (metis in_set_impl_in_set_zip1)
    moreover from this have "tp_batch p = None"
      using none by (meson set_zip_rightD)
    ultimately show ?thesis
      using each by (auto simp: validate_participant_receipt_def result_simps split: if_splits)
  qed
  then show ?thesis by (simp add: list_ex_iff)
qed

lemma evidence_without_timestamp:
  "evidence_validate e = Inr () \<Longrightarrow> evidence_validate (e\<lparr>ev_created_at_millis := None\<rparr>) = Inr ()"
  by (auto simp: evidence_validate_def split: if_splits)

text \<open>The wire form of a marker, and when it is read back.\<close>

definition manifest_of :: "fingerprint \<Rightarrow> outcome_marker \<Rightarrow> marker_manifest" where
  "manifest_of digest m =
     (let r = om_reference m in
      \<lparr>mm_version = dr_format r, mm_authority = key_authority (dr_key r),
       mm_context = key_context (dr_key r), mm_operation = key_operation (dr_key r),
       mm_scope = dr_security_scope r, mm_actor = dr_actor r,
       mm_rejected = (dr_decision r = OutcomeRejected), mm_format = dr_format r,
       mm_length = dr_length r, mm_digest = fingerprint_to_hex (dr_digest r),
       mm_proposal_version = pd_version (om_proposal m),
       mm_proposal = fingerprint_to_hex (pd_digest (om_proposal m)),
       mm_revision = fingerprint_to_hex (om_revision m),
       mm_integrity = fingerprint_to_hex digest, mm_evidence = om_evidence m\<rparr>)"

definition bound_marker :: "externals \<Rightarrow> outcome_marker \<Rightarrow> bool" where
  "bound_marker E m \<longleftrightarrow>
     (let r = om_reference m; i = om_integrity m in
      validate_integrity (sha256 E) i = Inr ()
      \<and> dr_format r = actor_format (dr_actor r) \<and> pd_version (om_proposal m) = dr_format r
      \<and> dr_actor r = tr_actor i \<and> 4 \<le> dr_length r
      \<and> tr_bounded_context i = Some (key_context (dr_key r))
      \<and> tr_operation_id i = key_operation (dr_key r) \<and> tr_security_scope i = dr_security_scope r
      \<and> tr_completion i = None
      \<and> (dr_decision r = OutcomeRejected \<longrightarrow> \<not> list_ex (\<lambda>s. sr_events s \<noteq> []) (tr_streams i))
      \<and> (\<forall>e. om_evidence m = Some e \<longrightarrow>
           completion_validate (completion_new (Some e) None) = Inr () \<and> ev_created_at_millis e = None)
      \<and> marker_revision E r (om_proposal m) (om_evidence m) i = Inr (om_revision m)
      \<and> length (pd_digest (om_proposal m)) = 32 \<and> length (dr_digest r) = 32
      \<and> length (om_revision m) = 32)"

lemma manifest_fingerprint_hex:
  "length f = 32 \<Longrightarrow> manifest_fingerprint (fingerprint_to_hex f) = Inr f"
  by (simp add: manifest_fingerprint_def fingerprint_from_hex_def fingerprint_to_hex_def
      decode_hex_pairs_encode)

lemma restore_bound:
  assumes bound: "bound_marker E m" and wire: "manifest_from_slice E bs = Inr (manifest_of digest m)"
    and digest: "integrity_digest E (om_integrity m) = Inr digest"
  shows "restore_manifest E key bs (om_integrity m) =
    (if key = dr_key (om_reference m) then Inr m
     else Inl (outcome_corrupt (Outcome_text ManifestBindingDiffers)))"
proof (cases "key = dr_key (om_reference m)")
  case True
  obtain r rev p ev i where m: "m = \<lparr>om_reference = r, om_revision = rev, om_proposal = p,
      om_evidence = ev, om_integrity = i\<rparr>"
    by (cases m)
  have p: "proposal_digest_restore (pd_version p) (pd_digest p) = Inr p"
    using bound m by (simp add: bound_marker_def Let_def proposal_digest_restore_def actor_format_def)
  have r: "\<lparr>dr_key = dr_key r, dr_security_scope = tr_security_scope i, dr_actor = tr_actor i,
      dr_decision = (if dr_decision r = OutcomeRejected then OutcomeRejected else OutcomeAccepted),
      dr_format = dr_format r, dr_length = dr_length r, dr_digest = dr_digest r\<rparr> = r"
    using bound m by (cases r; cases "dr_decision r") (simp_all add: bound_marker_def)
  have "(case ev of None \<Rightarrow> Inr () | Some evidence \<Rightarrow>
      rbind (map_err (\<lambda>e. outcome_corrupt (render_codec e))
        (completion_validate (completion_new (Some evidence) None))) (\<lambda>_.
      if ev_created_at_millis evidence \<noteq> None then
        Inl (outcome_corrupt (Outcome_text TimestampInManifest)) else Inr ())) = Inr ()"
    using bound m by (cases ev) (simp_all add: bound_marker_def Let_def)
  then show ?thesis
    using True bound wire digest m p r
    by (simp add: restore_manifest_def manifest_of_def bound_marker_def Let_def manifest_fingerprint_hex)
next
  case False
  then have "key_authority (dr_key (om_reference m)) \<noteq> key_authority key
      \<or> key_context (dr_key (om_reference m)) \<noteq> key_context key
      \<or> key_operation (dr_key (om_reference m)) \<noteq> key_operation key"
    by (metis outcome_key.equality old.unit.exhaust)
  then show ?thesis
    using False bound wire digest
    by (elim disjE) (simp_all add: restore_manifest_def manifest_of_def bound_marker_def Let_def)
qed

lemma marker_revision_hash:
  assumes "marker_revision E r p e i = Inr f"
  shows "\<exists>bs. f = sha256 E bs"
proof -
  obtain a b c where "reference_encode E r = Inr a" and "evidence_to_vec E e = Inr b"
    and "integrity_digest E i = Inr c"
    using assms unfolding marker_revision_def by (auto simp: result_simps)
  then show ?thesis
    using assms unfolding marker_revision_def Let_def by simp blast
qed

lemma prepared_bound:
  assumes prep: "prepare E authority t receipt = Inr (m, bytes)"
    and valid: "validate_completed_transaction t = Inr ()"
    and sha: "\<And>bs. length (sha256 E bs) = 32"
  shows "bound_marker E m"
proof -
  from prep obtain c digest where
    ctx: "tx_bounded_context t = Some c" and vp: "validate_proposal (sha256 E) receipt t = Inr ()"
    and dig: "proposal_digest_of E t = Inr digest"
    and enc: "details_encode E (tx_completion t) (OutcomeKey_new authority c (tx_operation_id t))
       (tx_security_scope t) (tx_actor t) = Inr bytes"
    and ref: "om_reference m = \<lparr>dr_key = OutcomeKey_new authority c (tx_operation_id t),
       dr_security_scope = tx_security_scope t, dr_actor = tx_actor t,
       dr_decision = decision_of (tx_completion t), dr_format = actor_format (tx_actor t),
       dr_length = length bytes, dr_digest = fingerprint_digest (sha256 E) bytes\<rparr>"
    and pdg: "om_proposal m = digest"
    and ev: "om_evidence m = map_option (\<lambda>v. v\<lparr>ev_created_at_millis := None\<rparr>)
       (Option.bind (tx_completion t) cc_evidence)"
    and integ: "om_integrity m = without_completion receipt"
    and rev: "marker_revision E (om_reference m) digest (om_evidence m) (om_integrity m) =
       Inr (om_revision m)"
    by (rule prepare_ok)
  note vp_ok = validate_proposal_ok [OF vp]
  have proposal: "pd_version digest = actor_format (tx_actor t)" "length (pd_digest digest) = 32"
    using dig sha by (auto simp: proposal_digest_of_def actor_format_def result_simps split: if_splits)
  have revision: "length (om_revision m) = 32"
    using marker_revision_hash [OF rev] sha by auto
  have evidence: "completion_validate (completion_new (Some e) None) = Inr ()
      \<and> ev_created_at_millis e = None" if "om_evidence m = Some e" for e
    using valid ev that
    by (auto simp: validate_completed_transaction_ok_iff completion_validate_ok_iff completion_new_def
        evidence_without_timestamp)
  have "4 \<le> length bytes"
    using enc by (auto simp: details_encode_ok_iff)
  then show ?thesis
    using rejected_receipt_empty [OF vp valid] integ vp_ok ctx ref pdg proposal revision evidence rev sha
      validate_integrity_without_completion [OF vp_ok(1)]
    by (simp add: bound_marker_def Let_def without_completion_def fingerprint_digest_def)
qed

section \<open>Properties\<close>

text \<open>The digest of a proposal determines the proposal. Unless the hash collides on the two framed
  inputs, two proposals with the same digest agree in everything but the stream versions they
  expect: context, operation, fingerprint, correlation, causation, scope, actor, completion, and
  the streams with their batches, event for event. No re-arrangement of lengths or parts can make
  two different proposals hash the same bytes.\<close>

theorem proposal_digest_determines_proposal:
  assumes "proposal_digest_of E t = Inr d" and "proposal_digest_of E u = Inr d"
    and "completion_to_vec E (tx_completion t) = Inr ct" and "completion_to_vec E (tx_completion u) = Inr cu"
    and "ct = cu \<Longrightarrow> tx_completion t = tx_completion u"
    and "sha256 E (frame (proposal_parts t ct)) = sha256 E (frame (proposal_parts u cu)) \<Longrightarrow>
      frame (proposal_parts t ct) = frame (proposal_parts u cu)"
    and "framable (proposal_parts t ct)" and "framable (proposal_parts u cu)"
  shows "content t = content u \<and> tx_completion t = tx_completion u"
proof -
  have "pd_digest d = sha256 E (frame (proposal_parts t ct))"
    using assms(1,3) by (auto simp: proposal_digest_of_def split: if_splits)
  moreover have "pd_digest d = sha256 E (frame (proposal_parts u cu))"
    using assms(2,4) by (auto simp: proposal_digest_of_def split: if_splits)
  ultimately have "frame (proposal_parts t ct) = frame (proposal_parts u cu)"
    using assms(6) by simp
  then have "proposal_parts t ct = proposal_parts u cu"
    by (rule frame_inject [OF assms(7,8)])
  then show ?thesis
    using proposal_parts_inject [OF _ proposal_digest_attributed [OF assms(1)]
        proposal_digest_attributed [OF assms(2)]] assms(5) by metis
qed

definition x_later :: event_transaction where
  "x_later = x_transaction\<lparr>tx_participants :=
     [\<lparr>tp_stream_id = x_stream, tp_expected_version = Exact 1, tp_batch = Some x_batch\<rparr>]\<rparr>"

theorem proposal_digest_determines_proposal_witness:
  "proposal_digest_of x_externals x_later = proposal_digest_of x_externals x_transaction
   \<and> x_later \<noteq> x_transaction \<and> content x_later = content x_transaction"
proof -
  have same: "proposal_parts x_later [] = proposal_parts x_transaction []"
    by (simp add: x_later_def proposal_parts_def participant_parts_def)
  have parts: "framable (proposal_parts x_transaction [])"
    by (simp add: proposal_parts_def framable_def optional_parts_def participant_parts_def
        batch_parts_def event_parts_def x_event_def x_stream_def)
  have vec: "completion_to_vec x_externals (tx_completion x_transaction) = Inr []"
    "completion_to_vec x_externals (tx_completion x_later) = Inr []"
    by (simp_all add: x_externals_def)
  have later: "proposal_digest_of x_externals x_later = Inr x_digest"
    using x_proposal vec same
    by (simp add: proposal_digest_of_def x_later_def tx_batches_def List.map_filter_simps)
  have "tx_completion x_later = tx_completion x_transaction"
    by (simp add: x_later_def)
  then have "content x_later = content x_transaction"
    using proposal_digest_determines_proposal [OF later x_proposal vec(2,1)] parts same by simp
  moreover have "tx_participants x_later \<noteq> tx_participants x_transaction"
    by (simp add: x_later_def)
  ultimately show ?thesis
    using later x_proposal by auto
qed

text \<open>Derived identities do not collide by construction. Unless the hash collides on the two
  framed inputs, equal commit identities come from the same stream and operation, and equal event
  identities from the same commit and ordinal; a commit and an event never share one.\<close>

theorem derived_identities_injective:
  assumes "sha (frame [str_bytes ''rostfrei:commit:v1'', str_bytes (stream_aggregate_type s),
        str_bytes (stream_aggregate_id s), str_bytes op]) =
      sha (frame [str_bytes ''rostfrei:commit:v1'', str_bytes (stream_aggregate_type s'),
        str_bytes (stream_aggregate_id s'), str_bytes op']) \<Longrightarrow>
      frame [str_bytes ''rostfrei:commit:v1'', str_bytes (stream_aggregate_type s),
        str_bytes (stream_aggregate_id s), str_bytes op] =
      frame [str_bytes ''rostfrei:commit:v1'', str_bytes (stream_aggregate_type s'),
        str_bytes (stream_aggregate_id s'), str_bytes op']"
    and "sha (frame [str_bytes ''rostfrei:event:v1'', str_bytes c, be_bytes 4 (unat n)]) =
      sha (frame [str_bytes ''rostfrei:event:v1'', str_bytes c', be_bytes 4 (unat n')]) \<Longrightarrow>
      frame [str_bytes ''rostfrei:event:v1'', str_bytes c, be_bytes 4 (unat n)] =
      frame [str_bytes ''rostfrei:event:v1'', str_bytes c', be_bytes 4 (unat n')]"
    and "\<forall>x \<in> {stream_aggregate_type s, stream_aggregate_id s, op, stream_aggregate_type s',
      stream_aggregate_id s', op', c, c'}. length x < 256 ^ 8"
  shows "(derive_commit_id sha s op = derive_commit_id sha s' op' \<longleftrightarrow> s = s' \<and> op = op')
    \<and> (derive_event_id sha c n = derive_event_id sha c' n' \<longleftrightarrow> c = c' \<and> n = n')
    \<and> derive_commit_id sha s op \<noteq> derive_event_id sha c n"
proof -
  have commit: "s = s' \<and> op = op'" if "derive_commit_id sha s op = derive_commit_id sha s' op'"
  proof -
    have "[str_bytes ''rostfrei:commit:v1'', str_bytes (stream_aggregate_type s),
        str_bytes (stream_aggregate_id s), str_bytes op] =
      [str_bytes ''rostfrei:commit:v1'', str_bytes (stream_aggregate_type s'),
        str_bytes (stream_aggregate_id s'), str_bytes op']"
      using that assms(1,3) by (intro frame_inject) (simp_all add: derive_commit_id_frame)
    then show ?thesis by (simp add: stream_id.expand)
  qed
  have event: "c = c' \<and> n = n'" if "derive_event_id sha c n = derive_event_id sha c' n'"
  proof -
    have "[str_bytes ''rostfrei:event:v1'', str_bytes c, be_bytes 4 (unat n)] =
      [str_bytes ''rostfrei:event:v1'', str_bytes c', be_bytes 4 (unat n')]"
      using that assms(2,3) by (intro frame_inject) (simp_all add: derive_event_id_frame)
    then show ?thesis by (simp add: be_bytes_u32)
  qed
  show ?thesis
    using commit event by (auto simp: derive_commit_id_frame derive_event_id_frame)
qed

theorem derived_identities_injective_witness:
  "(derive_commit_id id x_stream ''op'' = derive_commit_id id x_stream ''op2'' \<longleftrightarrow> False)
   \<and> (derive_event_id id ''commit:'' 0 = derive_event_id id ''commit:'' 1 \<longleftrightarrow> False)"
  using derived_identities_injective [of id x_stream "''op''" x_stream "''op2''" "''commit:''" 0
      "''commit:''" 1]
  by (simp add: x_stream_def)

text \<open>Fingerprints survive their hexadecimal form: a 32-byte fingerprint is read back from its
  64 lower-case digits, and whatever text is read as a fingerprint has 64 digits and gives 32
  bytes, whose rendering reads back as the same fingerprint.\<close>

theorem fingerprint_hex_roundtrip:
  "(length f = 32 \<longrightarrow> fingerprint_from_hex (fingerprint_to_hex f) = Inr f)
   \<and> (fingerprint_from_hex s = Inr g \<longrightarrow> length g = 32
        \<and> fingerprint_from_hex (fingerprint_to_hex g) = Inr g)"
  using decode_hex_pairs_length [of "str_bytes s" g]
  by (auto simp: fingerprint_from_hex_def fingerprint_to_hex_def decode_hex_pairs_encode
      split: if_splits)

theorem fingerprint_hex_roundtrip_witness:
  "fingerprint_from_hex (fingerprint_to_hex (replicate 32 171)) = Inr (replicate 32 171)"
  using fingerprint_hex_roundtrip [of "replicate 32 171" "[]" "[]"] by simp

text \<open>Tampered details are refused. For the reference a commit stored with its details, the only
  bytes that decode are the encoded ones, unless the hash collides on the two, and they decode to
  the completion of the commit.\<close>

theorem details_tamper_evident:
  assumes "details_for E r completion bytes" and "header_roundtrip E"
    and "sha256 E bytes' = sha256 E bytes \<Longrightarrow> bytes' = bytes"
  shows "details_decode E r bytes' =
    (if bytes' = bytes then Inr \<lparr>eo_reference = r, eo_completion = completion\<rparr>
     else Inl (outcome_corrupt (Outcome_text DetailFormatDiffers)))"
proof (cases "bytes' = bytes")
  case True
  then show ?thesis
    using details_decode_encode [of E completion r bytes] assms(1,2)
    by (auto simp: details_for_def header_roundtrip_def)
next
  case False
  then show ?thesis
    using assms(1,3) by (auto simp: details_decode_def details_for_def fingerprint_digest_def)
qed

theorem details_tamper_evident_witness:
  "details_decode x_externals x_reference x_bytes =
     Inr \<lparr>eo_reference = x_reference, eo_completion = Some x_completion\<rparr>
   \<and> details_for x_externals x_reference (Some x_completion) x_bytes"
proof -
  have "details_for x_externals x_reference (Some x_completion) x_bytes"
    using x_encode x_completion_valid
    by (simp add: details_for_def x_reference_def actor_format_def x_bytes_def fingerprint_digest_def
        x_sha_def decision_of_def x_completion_def completion_new_def)
  then show ?thesis
    using details_tamper_evident [OF _ x_header_roundtrip, of x_reference "Some x_completion" x_bytes x_bytes]
    by simp
qed

text \<open>Markers survive their manifest. The manifest written for the marker of a commit, read back
  under the same key with the same receipt, gives the same marker; read under another key it is
  refused. Assumed of the externals: the hash gives 32 bytes, and the JSON of this manifest is
  read back.\<close>

theorem manifest_roundtrip:
  assumes "prepare E authority t receipt = Inr (m, bytes)" and "validate_completed_transaction t = Inr ()"
    and "\<forall>bs. length (sha256 E bs) = 32"
    and "encode_manifest E m = Inr manifest"
    and "\<forall>wire bs. manifest_to_vec E wire = Inr bs \<longrightarrow> manifest_from_slice E bs = Inr wire"
  shows "restore_manifest E key manifest (om_integrity m) =
    (if key = dr_key (om_reference m) then Inr m
     else Inl (outcome_corrupt (Outcome_text ManifestBindingDiffers)))"
proof -
  obtain digest where digest: "integrity_digest E (om_integrity m) = Inr digest"
    using assms(4) by (auto simp: encode_manifest_def result_simps)
  then have "manifest_to_vec E (manifest_of digest m) = Inr manifest"
    using assms(4) by (auto simp: encode_manifest_def manifest_of_def Let_def result_simps)
  then show ?thesis
    using restore_bound [OF prepared_bound [OF assms(1,2)] _ digest] assms(3,5) by simp
qed

definition y_externals :: externals where
  "y_externals = x_externals\<lparr>sha256 := (\<lambda>_. replicate 32 0)\<rparr>"

definition y_transaction :: event_transaction where
  "y_transaction = x_transaction\<lparr>tx_participants := []\<rparr>"

definition y_marker :: outcome_marker where
  "y_marker = \<lparr>om_reference = x_reference\<lparr>dr_digest := replicate 32 0\<rparr>, om_revision = replicate 32 0,
     om_proposal = \<lparr>pd_version = 1, pd_digest = replicate 32 0\<rparr>, om_evidence = Some x_evidence,
     om_integrity = staged_receipt y_transaction []\<rparr>"

definition y_wire :: externals where
  "y_wire = y_externals\<lparr>
     manifest_to_vec := (\<lambda>w. if w = manifest_of (replicate 32 0) y_marker then Inr [1] else Inl ''none''),
     manifest_from_slice := (\<lambda>bs. if bs = [1] then Inr (manifest_of (replicate 32 0) y_marker)
       else Inl ''none'')\<rparr>"

lemma y_wire_sel [simp]:
  "sha256 y_wire = (\<lambda>_. replicate 32 0)" "json_to_vec y_wire = (\<lambda>_. Inr [])"
  "completion_to_vec y_wire = (\<lambda>_. Inr [])" "evidence_to_vec y_wire = (\<lambda>_. Inr [])"
  "header_to_vec y_wire = header_to_vec x_externals"
  by (simp_all add: y_wire_def y_externals_def x_externals_def)

lemma y_transaction_sel [simp]:
  "tx_actor y_transaction = None" "tx_security_scope y_transaction = None"
  "tx_completion y_transaction = Some x_completion"
  "tx_bounded_context y_transaction = Some ''sales''" "tx_operation_id y_transaction = ''op''"
  "tx_operation_fingerprint y_transaction = []" "tx_correlation_id y_transaction = Some ''op''"
  "tx_causation_id y_transaction = None" "tx_participants y_transaction = []"
  by (simp_all add: y_transaction_def)

lemma y_completed: "validate_completed_transaction y_transaction = Inr ()"
  using x_completion_valid by (simp add: validate_completed_transaction_def)

lemma y_prepare:
  "prepare y_wire x_authority y_transaction (staged_receipt y_transaction []) = Inr (y_marker, x_bytes)"
proof -
  let ?r = "staged_receipt y_transaction []"
  have receipt: "without_completion ?r = ?r" "tr_streams ?r = []" "tr_completion ?r = None"
    by (simp_all add: without_completion_def staged_receipt_def TransactionReceipt_new_def)
  have integrity: "validate_integrity (sha256 y_wire) ?r = Inr ()"
    by (simp add: validate_integrity_def)
  have "validate_transaction_item_limit y_transaction = Inr 0"
    by (simp add: validate_transaction_item_limit_ok_iff event_total_def guard_total_def tx_batches_def
        max_transaction_items_def)
  then have "validate_proposal (sha256 y_wire) ?r y_transaction = Inr ()"
    using y_completed integrity
    by (simp add: validate_proposal_def staged_receipt_def TransactionReceipt_new_def)
  moreover have "details_encode y_wire (Some x_completion) x_key None None = Inr x_bytes"
    using x_encode by (simp add: details_encode_ok_iff)
  moreover have "proposal_digest_of y_wire y_transaction = Inr (om_proposal y_marker)"
    by (simp add: proposal_digest_of_def tx_batches_def y_marker_def)
  moreover have "marker_revision y_wire r p e i = Inr (replicate 32 0)" for r p e i
    by (simp add: marker_revision_def reference_encode_def integrity_digest_def Let_def)
  moreover have "cc_evidence x_completion = Some x_evidence"
    "x_evidence\<lparr>ev_created_at_millis := None\<rparr> = x_evidence"
    by (simp_all add: x_completion_def completion_new_def x_evidence_def)
  moreover have "x_reference\<lparr>dr_digest := replicate 32 0\<rparr> = \<lparr>dr_key = x_key, dr_security_scope = None,
      dr_actor = None, dr_decision = decision_of (Some x_completion), dr_format = actor_format None,
      dr_length = length x_bytes, dr_digest = fingerprint_digest (sha256 y_wire) x_bytes\<rparr>"
    by (simp add: x_reference_def actor_format_def decision_of_def x_completion_def completion_new_def
        x_bytes_def fingerprint_digest_def)
  ultimately show ?thesis
    using receipt by (simp add: prepare_def x_key_def [symmetric] y_marker_def)
qed

theorem manifest_roundtrip_witness:
  "restore_manifest y_wire x_key [1] (om_integrity y_marker) = Inr y_marker"
proof -
  have "dr_key (om_reference y_marker) = x_key"
    by (simp add: y_marker_def x_reference_def)
  moreover have "encode_manifest y_wire y_marker = Inr [1]"
    by (simp add: encode_manifest_def integrity_digest_def fingerprint_digest_def)
      (simp add: y_wire_def manifest_of_def Let_def)
  moreover have "\<forall>wire bs. manifest_to_vec y_wire wire = Inr bs \<longrightarrow> manifest_from_slice y_wire bs = Inr wire"
    by (simp add: y_wire_def)
  ultimately show ?thesis
    using manifest_roundtrip [OF y_prepare y_completed, of "[1]" x_key] by simp
qed

text \<open>A rejection survives its JSON codec, and no other codec reads it. What the codec encodes and
  the executor stores decodes to the same rejection when \<open>serde_json\<close> reads back its own output; a
  codec with another identity or version refuses it instead of misreading it.\<close>

theorem json_rejection_roundtrip:
  assumes "rc_encode (json_rejection_codec to_json from_json i v) r = Inr encoded"
    and "\<forall>bs. to_json r = Inr bs \<longrightarrow> from_json bs = Inr r"
  shows "rc_decode (json_rejection_codec to_json from_json i v) encoded = Inr r
    \<and> rejection_validate encoded = Inr ()
    \<and> (i' \<noteq> i \<or> v' \<noteq> v \<longrightarrow>
         rc_decode (json_rejection_codec to_json' from_json' i' v') encoded =
           Inl (codec_error_new UnsupportedSchemaVersion (Outcome_text UnsupportedRejectionCodec)))"
proof -
  obtain bs where bs: "to_json r = Inr bs" and e: "encoded = \<lparr>rj_codec_id = i, rj_codec_version = v, rj_bytes = bs\<rparr>"
    and ok: "rejection_validate encoded = Inr ()"
    using assms(1)
    by (auto simp: json_rejection_codec_def json_rejection_encode_def result_simps Let_def)
  show ?thesis
    using ok bs e assms(2) by (auto simp: json_rejection_codec_def json_rejection_decode_def)
qed

theorem json_rejection_roundtrip_witness:
  "rc_decode (json_rejection_codec (\<lambda>n. Inr [n]) (\<lambda>bs. Inr (hd bs)) ''refused'' 1)
     \<lparr>rj_codec_id = ''refused'', rj_codec_version = 1, rj_bytes = [5]\<rparr> = Inr 5"
proof -
  have "rc_encode (json_rejection_codec (\<lambda>n. Inr [n]) (\<lambda>bs. Inr (hd bs)) ''refused'' 1) 5 =
      Inr \<lparr>rj_codec_id = ''refused'', rj_codec_version = 1, rj_bytes = [5]\<rparr>"
    by (simp add: json_rejection_codec_def json_rejection_encode_def rejection_validate_def
        has_control_def is_control_def chars_def max_rejection_bytes_def)
  then show ?thesis
    by (rule conjunct1 [OF json_rejection_roundtrip]) simp
qed

text \<open>Which batches can be built: non-empty, at most 100 events, at most one mebibyte of payload in
  total, no event identity twice; nothing else is checked. A built batch carries the events
  unchanged and is valid in the sense the store relies on.\<close>

theorem batch_construction:
  "((\<exists>b. EventBatch_new c op fp events = Inr b) \<longleftrightarrow>
      events \<noteq> [] \<and> length events \<le> 100
      \<and> sum_list (map (length \<circ> ne_payload) events) \<le> 1024 * 1024
      \<and> distinct (map ne_event_id events))
   \<and> (\<forall>b. EventBatch_new c op fp events = Inr b \<longrightarrow> eb_events b = events \<and> valid_batch b)"
proof -
  let ?n = "sum_list (map (length \<circ> ne_payload) events)"
  have small: "?n \<le> max_batch_payload_len \<Longrightarrow> try_sum 0 (map (length \<circ> ne_payload) events) = Some ?n"
    using try_sum_ok [of 0 "map (length \<circ> ne_payload) events"]
    by (simp add: max_batch_payload_len_def usize_bound_def)
  have any: "try_sum 0 (map (length \<circ> ne_payload) events) = Some s \<Longrightarrow> s = ?n" for s
    using try_sum_Some [of 0 "map (length \<circ> ne_payload) events" s] by simp
  have limit: "(case try_sum 0 (map (length \<circ> ne_payload) events) of None \<Rightarrow> True
      | Some n \<Rightarrow> max_batch_payload_len < n) \<longleftrightarrow> max_batch_payload_len < ?n"
  proof (cases "?n \<le> max_batch_payload_len")
    case True
    then show ?thesis using small by simp
  next
    case False
    then show ?thesis using any by (auto split: option.splits)
  qed
  have card: "card (set (map ne_event_id events)) = length events \<longleftrightarrow> distinct (map ne_event_id events)"
    using card_set_eq_length [of "map ne_event_id events"] by simp
  have "(\<exists>b. EventBatch_new c op fp events = Inr b) \<longleftrightarrow>
      events \<noteq> [] \<and> length events \<le> 100 \<and> ?n \<le> 1024 * 1024 \<and> distinct (map ne_event_id events)"
    using limit card
    by (auto simp: EventBatch_new_def Let_def max_events_per_batch_def max_batch_payload_len_def
        simp del: set_map)
  then show ?thesis
    using EventBatch_new_ok by blast
qed

theorem batch_construction_witness:
  "\<exists>b. EventBatch_new ''commit:'' ''op'' [] [x_event] = Inr b \<and> eb_events b = [x_event]"
  using batch_construction [of "''commit:''" "''op''" "[]" "[x_event]"]
  by (auto simp: x_event_def)

text \<open>The listing as a sort of the streams that hold events. Within one aggregate type the
  aggregate identity determines the stream, so the sort key is injective.\<close>

definition summary_of :: "memory_state \<Rightarrow> stream_id \<Rightarrow> stream_summary" where
  "summary_of s st = \<lparr>ss_stream_id = st, ss_stream_version = current_version s st\<rparr>"

lemma list_streams_sort:
  "list_streams order s ty =
     sort_key (\<lambda>summary. stream_aggregate_id (ss_stream_id summary))
       (map (summary_of s) (filter (\<lambda>st. stream_aggregate_type st = ty \<and> load s st \<noteq> []) order))"
proof -
  have "List.map_filter (\<lambda>st. case fmlookup (st_streams s) st of None \<Rightarrow> None
        | Some events \<Rightarrow> if events = [] then None
            else Some \<lparr>ss_stream_id = st, ss_stream_version = re_stream_version (last events)\<rparr>)
      (filter (\<lambda>st. stream_aggregate_type st = ty) order) =
    map (summary_of s) (filter (\<lambda>st. stream_aggregate_type st = ty \<and> load s st \<noteq> []) order)"
    by (induction order)
      (auto simp: map_filter_simps summary_of_def current_version_def load_def split: option.splits)
  then show ?thesis
    unfolding list_streams_def by simp
qed

lemma summary_key_inj:
  "inj_on (\<lambda>summary. stream_aggregate_id (ss_stream_id summary))
     (summary_of s ` {st. stream_aggregate_type st = ty \<and> P st})"
  by (auto simp: inj_on_def summary_of_def stream_id.expand intro: arg_cong [of _ _ "current_version s"])

lemma summary_of_inj: "inj_on (summary_of s) A"
  by (auto simp: inj_on_def summary_of_def)

lemma sort_key_permutation:
  assumes "inj_on k (set xs)" and "mset xs = mset ys"
  shows "sort_key k xs = sort_key k ys"
  by (rule sort_key_inj_key_eq) (use assms in simp_all)

lemma strict_sorted_key:
  assumes "inj_on k (set xs)" and "distinct xs"
  shows "sorted_wrt (<) (map k (sort_key k xs))"
  using assms by (simp add: strict_sorted_iff distinct_map)

text \<open>The directory of streams is deterministic and complete. Whatever order the hash map iterates
  in, \<open>list_streams\<close> returns the same list: every non-empty stream of the aggregate type once, in
  increasing order of the aggregate identity, with its number of events as its version.\<close>

theorem list_streams_deterministic:
  assumes "reachable E auth s" and "set order = fset (fmdom (st_streams s))" and "distinct order"
    and "set order' = fset (fmdom (st_streams s))" and "distinct order'"
  shows "list_streams order s ty = list_streams order' s ty
    \<and> sorted_wrt (<) (map (stream_aggregate_id \<circ> ss_stream_id) (list_streams order s ty))
    \<and> set (list_streams order s ty) =
        {\<lparr>ss_stream_id = st, ss_stream_version = of_nat (length (load s st))\<rparr> | st.
           load s st \<noteq> [] \<and> stream_aggregate_type st = ty}"
proof -
  let ?P = "\<lambda>st. stream_aggregate_type st = ty \<and> load s st \<noteq> []"
  let ?xs = "\<lambda>order. map (summary_of s) (filter ?P order)"
  obtain J where J: "journal_of (sha256 E) s J"
    using assms(1) by (rule reachable_journal)
  have known: "st \<in> set order" if "load s st \<noteq> []" for st
    using that assms(2) by (auto simp: load_def fmlookup_dom_iff split: option.splits)
  have inj: "inj_on (\<lambda>summary. stream_aggregate_id (ss_stream_id summary)) (set (?xs order))"
    by (rule inj_on_subset [OF summary_key_inj [of s ty "\<lambda>st. load s st \<noteq> []"]]) auto
  have distinct: "distinct (?xs order)" "distinct (?xs order')"
    using assms(3,5) by (simp_all add: distinct_map summary_of_inj)
  have "mset (?xs order) = mset (?xs order')"
    using distinct assms(2,4) by (intro set_eq_iff_mset_eq_distinct [THEN iffD1]) auto
  then have same: "list_streams order s ty = list_streams order' s ty"
    unfolding list_streams_sort by (rule sort_key_permutation [OF inj])
  have "sorted_wrt (<) (map (\<lambda>summary. stream_aggregate_id (ss_stream_id summary)) (list_streams order s ty))"
    unfolding list_streams_sort by (rule strict_sorted_key [OF inj distinct(1)])
  moreover have "set (list_streams order s ty) = summary_of s ` {st. ?P st}"
    using known by (auto simp: list_streams_sort)
  ultimately show ?thesis
    using same journal_version [OF J] by (auto simp: comp_def summary_of_def)
qed

theorem list_streams_deterministic_witness:
  "list_streams [x_stream] x_appended (stream_aggregate_type x_stream) =
     [\<lparr>ss_stream_id = x_stream, ss_stream_version = 1\<rparr>]"
proof -
  have dom: "set [x_stream] = fset (fmdom (st_streams x_appended))"
    by (simp add: x_appended_def install_batch_def)
  have "set (list_streams [x_stream] x_appended (stream_aggregate_type x_stream)) =
      {\<lparr>ss_stream_id = st, ss_stream_version = of_nat (length (load x_appended st))\<rparr> | st.
        load x_appended st \<noteq> [] \<and> stream_aggregate_type st = stream_aggregate_type x_stream}"
    using list_streams_deterministic [OF x_appended_reachable dom _ dom,
      of "stream_aggregate_type x_stream"] by simp
  moreover have "load x_appended st = []" if "st \<noteq> x_stream" for st
    using that by (simp add: x_appended_def load_def install_batch_def)
  then have "load x_appended st \<noteq> [] \<longleftrightarrow> st = x_stream" for st
    by (cases "st = x_stream") simp_all
  ultimately have one: "set (list_streams [x_stream] x_appended (stream_aggregate_type x_stream)) =
      {\<lparr>ss_stream_id = x_stream, ss_stream_version = 1\<rparr>}"
    by simp
  have "length (list_streams [x_stream] x_appended (stream_aggregate_type x_stream)) \<le> 1"
    by (simp add: list_streams_sort)
  then show ?thesis
    using one by (cases "list_streams [x_stream] x_appended (stream_aggregate_type x_stream)") simp_all
qed

end
