(* ===== verification/Metadata.thy ===== *)
theory Metadata
  imports Identity
begin

text \<open>
  Caller metadata and trace contexts: \<open>rostfrei-messaging-core/src/metadata.rs\<close>. The \<open>BTreeMap\<close> of
  the entries is a finite map; its iteration order is the order of the keys. The invariant
  \<open>metadata_ok\<close> collects the limits; every operation that changes the entries keeps it.
\<close>

section \<open>Names and values\<close>

definition max_metadata_entries :: nat where "max_metadata_entries = 32"
definition max_metadata_name_bytes :: nat where "max_metadata_name_bytes = 64"
definition max_metadata_value_bytes :: nat where "max_metadata_value_bytes = 1024"
definition max_metadata_bytes :: nat where "max_metadata_bytes = 8192"
definition max_trace_state_bytes :: nat where "max_trace_state_bytes = 512"

definition reserved_names :: "string list" where
  "reserved_names =
     [''content-type'', ''reply'', ''reply-to'', ''reply-subject'', ''traceparent'', ''tracestate'']"

definition is_ascii_alphanumeric :: "char \<Rightarrow> bool" where
  "is_ascii_alphanumeric c \<longleftrightarrow> is_ascii_lowercase c \<or> is_ascii_uppercase c \<or> is_ascii_digit c"

definition is_ascii :: "string \<Rightarrow> bool" where
  "is_ascii s \<longleftrightarrow> list_all (\<lambda>c. (of_char c :: nat) < 128) s"

definition ascii_lowercase :: "char \<Rightarrow> char" where
  "ascii_lowercase c = (if is_ascii_uppercase c then char_of ((of_char c :: nat) + 32) else c)"

definition to_ascii_lowercase :: "string \<Rightarrow> string" where
  "to_ascii_lowercase s = map ascii_lowercase s"

definition starts_with :: "string \<Rightarrow> string \<Rightarrow> bool" where
  "starts_with s p \<longleftrightarrow> take (length p) s = p"

definition validate_name :: "string \<Rightarrow> contract_error + string" where
  "validate_name name =
     (if name = [] then Inl (contract_error_new ContractEmpty ''metadata name'')
      else if max_metadata_name_bytes < length name then
        Inl (contract_error_bounded ContractTooLong ''metadata name'' (length name)
          max_metadata_name_bytes)
      else if has_control name then Inl (contract_error_new ContractControlCharacter ''metadata name'')
      else if \<not> list_all (\<lambda>c. is_ascii_alphanumeric c \<or> c = CHR ''-'') name
        \<or> hd name = CHR ''-'' \<or> last name = CHR ''-''
      then Inl (contract_error_new ContractInvalidFormat ''metadata name'')
      else
        (let name = to_ascii_lowercase name in
         if starts_with name ''nats-'' \<or> starts_with name ''rostfrei-control-''
           \<or> name \<in> set reserved_names
         then Inl (contract_error_new ContractReserved ''metadata name'')
         else Inr name))"

definition validate_value :: "string \<Rightarrow> contract_error + string" where
  "validate_value value =
     (if max_metadata_value_bytes < length value then
        Inl (contract_error_bounded ContractTooLong ''metadata value'' (length value)
          max_metadata_value_bytes)
      else if has_control value then
        Inl (contract_error_new ContractControlCharacter ''metadata value'')
      else if \<not> is_ascii value then Inl (contract_error_new ContractInvalidFormat ''metadata value'')
      else Inr value)"

section \<open>Caller metadata\<close>

type_synonym caller_metadata = "(string, string) fmap"

definition metadata_entries :: "caller_metadata \<Rightarrow> (string \<times> string) list" where
  "metadata_entries m =
     map (\<lambda>name. (name, the (fmlookup m name))) (sorted_list_of_fset (fmdom m))"

definition metadata_len :: "caller_metadata \<Rightarrow> nat" where
  "metadata_len m = length (metadata_entries m)"

definition total_bytes :: "caller_metadata \<Rightarrow> nat" where
  "total_bytes m = sum_list (concat (map (\<lambda>(name, value). [length name, length value]) (metadata_entries m)))"

definition too_many_metadata_entries :: contract_error where
  "too_many_metadata_entries = contract_error_new ContractTooManyEntries ''caller metadata''"

definition caller_metadata_too_long :: contract_error where
  "caller_metadata_too_long = contract_error_new ContractTooLong ''caller metadata''"

definition checked_total_bytes :: "caller_metadata \<Rightarrow> contract_error + nat" where
  "checked_total_bytes m =
     ok_or caller_metadata_too_long
       (try_sum 0 (concat (map (\<lambda>(name, value). [length name, length value]) (metadata_entries m))))"

text \<open>The entries a map will have, and its bytes, once \<open>name\<close> is set to \<open>value\<close>.\<close>

definition projected_entries :: "caller_metadata \<Rightarrow> string \<Rightarrow> contract_error + unit" where
  "projected_entries m name =
     (if fmlookup m name \<noteq> None then Inr ()
      else
        rbind (ok_or too_many_metadata_entries (checked_add_usize (metadata_len m) 1)) (\<lambda>projected.
        if max_metadata_entries < projected then
          Inl (contract_error_bounded ContractTooManyEntries ''caller metadata'' projected
            max_metadata_entries)
        else Inr ()))"

definition projected_bytes :: "caller_metadata \<Rightarrow> string \<Rightarrow> string \<Rightarrow> contract_error + nat" where
  "projected_bytes m name value =
     rbind (checked_total_bytes m) (\<lambda>current.
     rbind (case fmlookup m name of
              None \<Rightarrow> Inr 0
            | Some old \<Rightarrow>
                ok_or caller_metadata_too_long (checked_add_usize (length name) (length old)))
       (\<lambda>replaced.
     ok_or caller_metadata_too_long
       (Option.bind (if replaced \<le> current then Some (current - replaced) else None) (\<lambda>bytes.
        Option.bind (checked_add_usize bytes (length name)) (\<lambda>bytes.
        checked_add_usize bytes (length value))))))"

definition metadata_insert ::
  "caller_metadata \<Rightarrow> string \<Rightarrow> string \<Rightarrow> (contract_error + string option) \<times> caller_metadata" where
  "metadata_insert m name value =
     (case rbind (validate_name name) (\<lambda>name.
           rbind (validate_value value) (\<lambda>value.
           rbind (projected_entries m name) (\<lambda>_.
           rbind (projected_bytes m name value) (\<lambda>projected.
           if max_metadata_bytes < projected then
             Inl (contract_error_bounded ContractTooLong ''caller metadata'' projected
               max_metadata_bytes)
           else Inr (name, value))))) of
        Inl e \<Rightarrow> (Inl e, m)
      | Inr (name, value) \<Rightarrow> (Inr (fmlookup m name), fmupd name value m))"

definition metadata_get :: "caller_metadata \<Rightarrow> string \<Rightarrow> string option" where
  "metadata_get m name = fmlookup m (to_ascii_lowercase name)"

definition metadata_remove :: "caller_metadata \<Rightarrow> string \<Rightarrow> string option \<times> caller_metadata" where
  "metadata_remove m name =
     (fmlookup m (to_ascii_lowercase name), fmdrop (to_ascii_lowercase name) m)"

fun insert_entries ::
  "caller_metadata \<Rightarrow> (string \<times> string) list \<Rightarrow> contract_error + caller_metadata" where
  "insert_entries m [] = Inr m"
| "insert_entries m ((name, value) # entries) =
     (case metadata_insert m name value of
        (Inl e, _) \<Rightarrow> Inl e
      | (Inr _, m) \<Rightarrow> insert_entries m entries)"

definition try_from_entries :: "(string \<times> string) list \<Rightarrow> contract_error + caller_metadata" where
  "try_from_entries entries = insert_entries fmempty entries"

section \<open>Trace contexts\<close>

record trace_context =
  tc_trace_parent :: string
  tc_trace_state :: "string option"

definition valid_lower_hex :: "string \<Rightarrow> nat \<Rightarrow> bool" where
  "valid_lower_hex value len \<longleftrightarrow> length value = len
     \<and> list_all (\<lambda>c. is_ascii_digit c \<or> 97 \<le> (of_char c :: nat) \<and> (of_char c :: nat) \<le> 102) value"

definition all_zero :: "string \<Rightarrow> bool" where
  "all_zero value \<longleftrightarrow> list_all (\<lambda>c. c = CHR ''0'') value"

definition validate_trace_parent :: "string \<Rightarrow> contract_error + unit" where
  "validate_trace_parent value =
     (case split_char CHR ''-'' value of
        [version, trace_id, parent_id, flags] \<Rightarrow>
          if version = ''00'' \<and> valid_lower_hex trace_id 32 \<and> \<not> all_zero trace_id
            \<and> valid_lower_hex parent_id 16 \<and> \<not> all_zero parent_id \<and> valid_lower_hex flags 2
          then Inr ()
          else Inl (contract_error_new ContractInvalidFormat ''traceparent'')
      | _ \<Rightarrow> Inl (contract_error_new ContractInvalidFormat ''traceparent''))"

text \<open>\<open>str::trim\<close> and \<open>split_once('=')\<close> on a string that is known to be ASCII.\<close>

definition trim_ascii :: "string \<Rightarrow> string" where
  "trim_ascii s =
     rev (dropWhile (\<lambda>c. is_whitespace (of_char c)) (rev (dropWhile (\<lambda>c. is_whitespace (of_char c)) s)))"

definition split_once :: "char \<Rightarrow> string \<Rightarrow> (string \<times> string) option" where
  "split_once c s =
     (case dropWhile (\<lambda>x. x \<noteq> c) s of [] \<Rightarrow> None | _ # r \<Rightarrow> Some (takeWhile (\<lambda>x. x \<noteq> c) s, r))"

definition trace_member_invalid :: "string \<Rightarrow> bool" where
  "trace_member_invalid member \<longleftrightarrow>
     (case split_once CHR ''='' (trim_ascii member) of
        None \<Rightarrow> True
      | Some (key, member_value) \<Rightarrow>
          key = [] \<or> member_value = []
          \<or> \<not> list_all (\<lambda>c. is_ascii_lowercase c \<or> is_ascii_digit c
              \<or> c \<in> {CHR ''_'', CHR ''-'', CHR ''*'', CHR ''/'', CHR ''@''}) key)"

definition validate_trace_state :: "string \<Rightarrow> contract_error + unit" where
  "validate_trace_state value =
     (if value = [] \<or> max_trace_state_bytes < length value then
        Inl (contract_error_bounded (if value = [] then ContractEmpty else ContractTooLong)
          ''tracestate'' (length value) max_trace_state_bytes)
      else if has_control value then Inl (contract_error_new ContractControlCharacter ''tracestate'')
      else if \<not> is_ascii value then Inl (contract_error_new ContractInvalidFormat ''tracestate'')
      else
        (let members = split_char CHR '','' value in
         if 32 < length members \<or> list_ex trace_member_invalid members
         then Inl (contract_error_new ContractInvalidFormat ''tracestate'')
         else Inr ()))"

definition trace_from_parts :: "string \<Rightarrow> string option \<Rightarrow> contract_error + trace_context" where
  "trace_from_parts parent state =
     rbind (validate_trace_parent parent) (\<lambda>_.
     rbind (case state of None \<Rightarrow> Inr () | Some value \<Rightarrow> validate_trace_state value) (\<lambda>_.
     Inr \<lparr>tc_trace_parent = parent, tc_trace_state = state\<rparr>))"

definition trace_new :: "string \<Rightarrow> contract_error + trace_context" where
  "trace_new parent = trace_from_parts parent None"

section \<open>Facts\<close>

lemma ascii_lowercase_idem [simp]: "ascii_lowercase (ascii_lowercase c) = ascii_lowercase c"
proof (cases "is_ascii_uppercase c")
  case True
  then have "(of_char c :: nat) + 32 < 256" "97 \<le> (of_char c :: nat) + 32"
    by (auto simp: is_ascii_uppercase_def)
  then have "(of_char (char_of ((of_char c :: nat) + 32)) :: nat) = of_char c + 32"
    by simp
  with True show ?thesis
    by (auto simp: ascii_lowercase_def is_ascii_uppercase_def)
qed (simp add: ascii_lowercase_def)

lemma to_ascii_lowercase_idem [simp]:
  "to_ascii_lowercase (to_ascii_lowercase s) = to_ascii_lowercase s"
  by (simp add: to_ascii_lowercase_def)

lemma length_to_ascii_lowercase [simp]: "length (to_ascii_lowercase s) = length s"
  by (simp add: to_ascii_lowercase_def)

lemma set_metadata_entries: "set (metadata_entries m) = {(k, v). fmlookup m k = Some v}"
  by (auto simp: metadata_entries_def fmlookup_dom_iff intro!: image_eqI)

lemma metadata_len_card: "metadata_len m = fcard (fmdom m)"
  by (simp add: metadata_len_def metadata_entries_def sorted_list_of_fset.rep_eq fcard.rep_eq)

lemma total_bytes_sum:
  "total_bytes m = (\<Sum>k \<in> fset (fmdom m). length k + length (the (fmlookup m k)))"
proof -
  have "sum_list (concat (map (\<lambda>(name, value). [length name, length value])
      (map (\<lambda>name. (name, the (fmlookup m name))) ks))) =
    sum_list (map (\<lambda>k. length k + length (the (fmlookup m k))) ks)" for ks
    by (induction ks) auto
  then show ?thesis
    by (simp add: total_bytes_def metadata_entries_def sorted_list_of_fset.rep_eq
        sum_list_distinct_conv_sum_set)
qed

lemma total_bytes_upd:
  "total_bytes (fmupd k v m) =
     total_bytes m - (case fmlookup m k of None \<Rightarrow> 0 | Some old \<Rightarrow> length k + length old)
       + length k + length v"
  (is "_ = _ - ?old + _ + _")
  and total_bytes_old:
  "(case fmlookup m k of None \<Rightarrow> 0 | Some old \<Rightarrow> length k + length old) \<le> total_bytes m"
proof -
  let ?f = "\<lambda>m k. length k + length (the (fmlookup m k))"
  have same: "(\<Sum>x \<in> fset (fmdom m) - {k}. ?f (fmupd k v m) x) = (\<Sum>x \<in> fset (fmdom m) - {k}. ?f m x)"
    by (rule sum.cong) auto
  have m: "total_bytes m = (\<Sum>x \<in> fset (fmdom m) - {k}. ?f m x) + ?old"
  proof (cases "k \<in> fset (fmdom m)")
    case True
    then obtain old where "fmlookup m k = Some old"
      by (auto simp: fmlookup_dom_iff)
    then show ?thesis
      using sum.remove [OF finite_fset True, of "?f m"] by (simp add: total_bytes_sum)
  next
    case False
    then have "fmlookup m k = None"
      by (auto simp: fmlookup_dom_iff)
    with False show ?thesis
      by (simp add: total_bytes_sum)
  qed
  show "?old \<le> total_bytes m"
    using m by simp
  have "total_bytes (fmupd k v m) = (length k + length v) + (\<Sum>x \<in> fset (fmdom m) - {k}. ?f m x)"
    using sum.remove [of "insert k (fset (fmdom m))" k "?f (fmupd k v m)"] same
    by (simp add: total_bytes_sum)
  with m show "total_bytes (fmupd k v m) = total_bytes m - ?old + length k + length v"
    by simp
qed

lemma total_bytes_drop: "total_bytes (fmdrop k m) \<le> total_bytes m"
proof -
  have "total_bytes (fmdrop k m) = (\<Sum>x \<in> fset (fmdom m) - {k}. length x + length (the (fmlookup m x)))"
    unfolding total_bytes_sum by (rule sum.cong) (auto simp: fmlookup_dom_iff split: if_splits)
  also have "\<dots> \<le> total_bytes m"
    unfolding total_bytes_sum by (rule sum_mono2) auto
  finally show ?thesis .
qed

subsection \<open>The invariant\<close>

definition metadata_entry_ok :: "string \<Rightarrow> string \<Rightarrow> bool" where
  "metadata_entry_ok name value \<longleftrightarrow> validate_name name = Inr name \<and> validate_value value = Inr value"

definition metadata_ok :: "caller_metadata \<Rightarrow> bool" where
  "metadata_ok m \<longleftrightarrow> metadata_len m \<le> 32 \<and> total_bytes m \<le> 8192
     \<and> (\<forall>name value. fmlookup m name = Some value \<longrightarrow> metadata_entry_ok name value)"

lemma lowercase_alnum:
  "is_ascii_alphanumeric (ascii_lowercase c) \<longleftrightarrow> is_ascii_alphanumeric c"
  "ascii_lowercase c = CHR ''-'' \<longleftrightarrow> c = CHR ''-''"
proof -
  have "is_ascii_lowercase (char_of ((of_char c :: nat) + 32))" if "is_ascii_uppercase c"
    using that by (auto simp: is_ascii_uppercase_def is_ascii_lowercase_def)
  then show "is_ascii_alphanumeric (ascii_lowercase c) \<longleftrightarrow> is_ascii_alphanumeric c"
    by (auto simp: ascii_lowercase_def is_ascii_alphanumeric_def)
  have "char_of ((of_char c :: nat) + 32) \<noteq> CHR ''-''" if "is_ascii_uppercase c"
  proof
    assume "char_of ((of_char c :: nat) + 32) = CHR ''-''"
    then have "(of_char (char_of ((of_char c :: nat) + 32) :: char) :: nat) = 45"
      by simp
    with that show False
      by (auto simp: is_ascii_uppercase_def)
  qed
  then show "ascii_lowercase c = CHR ''-'' \<longleftrightarrow> c = CHR ''-''"
    by (auto simp: ascii_lowercase_def is_ascii_uppercase_def)
qed

lemma alnum_no_control:
  assumes "list_all (\<lambda>c. is_ascii_alphanumeric c \<or> c = CHR ''-'') s"
  shows "\<not> has_control s"
proof -
  have ascii: "(32 :: nat) \<le> of_char c \<and> (of_char c :: nat) < 127" if "is_ascii_alphanumeric c \<or> c = CHR ''-''" for c
    using that by (auto simp: is_ascii_alphanumeric_def is_ascii_lowercase_def is_ascii_uppercase_def
        is_ascii_digit_def)
  have "utf8_chars (map of_char s) = map of_char s"
    using assms ascii by (induction s) fastforce+
  then show ?thesis
    using assms ascii by (fastforce simp: has_control_def chars_def is_control_def list_all_iff list_ex_iff)
qed

lemma validate_name_ok:
  assumes "validate_name name = Inr n"
  shows "n = to_ascii_lowercase name" "validate_name n = Inr n"
proof -
  show n: "n = to_ascii_lowercase name"
    using assms by (auto simp: validate_name_def Let_def split: if_splits)
  have ok: "name \<noteq> []" "length name \<le> 64" "list_all (\<lambda>c. is_ascii_alphanumeric c \<or> c = CHR ''-'') name"
    "hd name \<noteq> CHR ''-''" "last name \<noteq> CHR ''-''"
    using assms by (auto simp: validate_name_def Let_def max_metadata_name_bytes_def split: if_splits)
  have alnum: "list_all (\<lambda>c. is_ascii_alphanumeric c \<or> c = CHR ''-'') n"
    using ok(3) by (simp add: n to_ascii_lowercase_def list_all_iff lowercase_alnum)
  have ends: "n \<noteq> []" "hd n \<noteq> CHR ''-''" "last n \<noteq> CHR ''-''" "to_ascii_lowercase n = n" "length n \<le> 64"
    using ok by (simp_all add: n to_ascii_lowercase_def hd_map last_map lowercase_alnum)
  have "\<not> (starts_with n ''nats-'' \<or> starts_with n ''rostfrei-control-'' \<or> n \<in> set reserved_names)"
    using assms by (auto simp: validate_name_def Let_def n split: if_splits)
  then show "validate_name n = Inr n"
    using alnum ends alnum_no_control [OF alnum]
    by (simp add: validate_name_def max_metadata_name_bytes_def)
qed

lemma validate_value_ok: "validate_value value = Inr v \<Longrightarrow> v = value"
  by (auto simp: validate_value_def split: if_splits)

lemma checked_total_bytes_ok: "checked_total_bytes m = Inr n \<Longrightarrow> n = total_bytes m"
  by (auto simp: checked_total_bytes_def total_bytes_def result_simps dest: try_sum_Some)

lemma metadata_insert_ok:
  assumes "metadata_insert m name value = (Inr previous, m')"
  obtains n where "validate_name name = Inr n" "validate_value value = Inr value"
    "m' = fmupd n value m" "previous = fmlookup m n" "projected_entries m n = Inr ()"
    "total_bytes m' \<le> 8192"
proof -
  from assms obtain n p where n: "validate_name name = Inr n" and v: "validate_value value = Inr value"
    and e: "projected_entries m n = Inr ()" and p: "projected_bytes m n value = Inr p" "p \<le> 8192"
    and m': "m' = fmupd n value m" "previous = fmlookup m n"
    using validate_value_ok [of "value"]
    by (auto simp: metadata_insert_def result_simps max_metadata_bytes_def
        split: sum.splits prod.splits if_splits)
  have "p = total_bytes m'"
    using p(1)
    by (auto simp: projected_bytes_def result_simps m' total_bytes_upd checked_add_usize_def
        bind_eq_Some_conv dest!: checked_total_bytes_ok split: option.splits if_splits)
  then show ?thesis
    using that [OF n v m' e] p(2) by simp
qed

lemma metadata_len_upd:
  "metadata_len (fmupd k v m) = (if fmlookup m k = None then Suc (metadata_len m) else metadata_len m)"
  by (auto simp: metadata_len_card fmlookup_dom_iff finsert_absorb fcard_finsert_disjoint)

lemma metadata_insert_keeps:
  assumes "metadata_ok m" and "metadata_insert m name value = (r, m')"
  shows "metadata_ok m'"
proof (cases r)
  case (Inl e)
  then show ?thesis
    using assms by (auto simp: metadata_insert_def split: sum.splits prod.splits)
next
  case (Inr previous)
  with assms(2) have "metadata_insert m name value = (Inr previous, m')"
    by simp
  then obtain n where n: "validate_name name = Inr n" and v: "validate_value value = Inr value"
    and m': "m' = fmupd n value m" and e: "projected_entries m n = Inr ()" and b: "total_bytes m' \<le> 8192"
    by (rule metadata_insert_ok)
  have "metadata_len m' \<le> 32"
    using e assms(1)
    by (auto simp: m' metadata_len_upd projected_entries_def result_simps checked_add_usize_def
        max_metadata_entries_def metadata_ok_def split: if_splits)
  then show ?thesis
    using assms(1) b v validate_name_ok(2) [OF n]
    by (auto simp: metadata_ok_def m' metadata_entry_ok_def)
qed

lemma metadata_remove_keeps: "metadata_ok m \<Longrightarrow> metadata_ok (snd (metadata_remove m name))"
  using total_bytes_drop [of "to_ascii_lowercase name" m]
    card_mono [OF finite_fset, of "fset (fmdom m) - {to_ascii_lowercase name}" "fmdom m"]
  by (auto simp: metadata_ok_def metadata_remove_def metadata_len_card fcard.rep_eq split: if_splits)

lemma metadata_ok_empty: "metadata_ok fmempty"
  by (simp add: metadata_ok_def metadata_len_card total_bytes_sum fcard.rep_eq)

lemma insert_entries_keeps:
  "metadata_ok m \<Longrightarrow> insert_entries m entries = Inr m' \<Longrightarrow> metadata_ok m'"
  by (induction m entries rule: insert_entries.induct)
    (auto split: prod.splits sum.splits dest: metadata_insert_keeps)

end
