(* ===== verification/Addresses.thy ===== *)
theory Addresses
  imports Identity
begin

text \<open>
  Message addresses: \<open>rostfrei-messaging-core/src/address.rs\<close> and the traffic scopes and bounded
  contexts of \<open>scope.rs\<close> that build them. An address is its text; its kind, scope and segments are
  read back from the text by splitting at dots. The four address types are the same newtype with
  another kind, so the accessors are shared and the constructors are not.
\<close>

section \<open>Traffic scopes and bounded contexts\<close>

datatype traffic_scope = NormalScope | TestScope

fun subject_segment :: "traffic_scope \<Rightarrow> string option" where
  "subject_segment NormalScope = None"
| "subject_segment TestScope = Some ''test''"

record bounded_context =
  bx_application :: string
  bx_traffic_scope :: traffic_scope
  bx_name :: bounded_context_name

definition bounded_context_in_scope ::
  "string \<Rightarrow> traffic_scope \<Rightarrow> string \<Rightarrow> contract_error + bounded_context" where
  "bounded_context_in_scope application scope name =
     rbind (BoundedContextName_new name) (\<lambda>name.
     Inr \<lparr>bx_application = application, bx_traffic_scope = scope, bx_name = name\<rparr>)"

definition bounded_context_of :: "string \<Rightarrow> string \<Rightarrow> contract_error + bounded_context" where
  "bounded_context_of application name = bounded_context_in_scope application NormalScope name"

definition test_bounded_context :: "string \<Rightarrow> string \<Rightarrow> contract_error + bounded_context" where
  "test_bounded_context application name = bounded_context_in_scope application TestScope name"

section \<open>Building and parsing\<close>

datatype address_kind = CommandKind | CommandResponseKind | IntegrationEventKind | QueryKind

fun kind_segment :: "address_kind \<Rightarrow> string" where
  "kind_segment CommandKind = ''command''"
| "kind_segment CommandResponseKind = ''command-response''"
| "kind_segment IntegrationEventKind = ''integration''"
| "kind_segment QueryKind = ''query''"

definition max_address_bytes :: nat where "max_address_bytes = 256"

definition max_address_segment_bytes :: nat where "max_address_segment_bytes = 64"

definition validate_address_name :: "string \<Rightarrow> contract_error + unit" where
  "validate_address_name value =
     (let field = ''address name'' in
      if value = [] then Inl (contract_error_new ContractEmpty field)
      else if max_address_segment_bytes < length value then
        Inl (contract_error_bounded ContractTooLong field (length value) max_address_segment_bytes)
      else if CHR ''*'' \<in> set value \<or> CHR ''>'' \<in> set value then
        Inl (contract_error_new ContractWildcard field)
      else if has_control value then Inl (contract_error_new ContractControlCharacter field)
      else if hd value = CHR ''-'' \<or> last value = CHR ''-'' \<or> has_dashes value
        \<or> \<not> list_all scope_char value then
        Inl (contract_error_new ContractInvalidFormat field)
      else Inr ())"

definition build_address ::
  "address_kind \<Rightarrow> string \<Rightarrow> traffic_scope \<Rightarrow> string \<Rightarrow> string \<Rightarrow> contract_error + string" where
  "build_address kind application scope context name =
     rbind (validate_scope_segment application ''address application'') (\<lambda>_.
     rbind (validate_scope_segment context ''address context'') (\<lambda>_.
     rbind (validate_address_name name) (\<lambda>_.
     let value =
       (case subject_segment scope of
          None \<Rightarrow> application @ ''.'' @ kind_segment kind @ ''.'' @ context @ ''.'' @ name
        | Some s \<Rightarrow>
            application @ ''.'' @ s @ ''.'' @ kind_segment kind @ ''.'' @ context @ ''.'' @ name)
     in if max_address_bytes < length value then
          Inl (contract_error_bounded ContractTooLong ''address'' (length value) max_address_bytes)
        else Inr value)))"

definition kind_of_segment :: "string \<Rightarrow> contract_error + address_kind" where
  "kind_of_segment s =
     (if s = ''command'' then Inr CommandKind
      else if s = ''command-response'' then Inr CommandResponseKind
      else if s = ''integration'' then Inr IntegrationEventKind
      else if s = ''query'' then Inr QueryKind
      else Inl (contract_error_new ContractWrongAddressKind ''address''))"

text \<open>The segments after the application and, in a test address, the scope: exactly a kind, a
  context and a name. The kind is recognised before the other segments are validated.\<close>

fun parse_address_tail :: "string \<Rightarrow> string list \<Rightarrow> contract_error + address_kind" where
  "parse_address_tail application [kind, context, name] =
     rbind (kind_of_segment kind) (\<lambda>kind.
     rbind (validate_scope_segment application ''address application'') (\<lambda>_.
     rbind (validate_scope_segment context ''address context'') (\<lambda>_.
     rbind (validate_address_name name) (\<lambda>_. Inr kind))))"
| "parse_address_tail application _ = Inl (contract_error_new ContractInvalidFormat ''address'')"

definition parse_address_parts :: "string \<Rightarrow> contract_error + address_kind" where
  "parse_address_parts value =
     (if value = [] then Inl (contract_error_new ContractEmpty ''address'')
      else if max_address_bytes < length value then
        Inl (contract_error_bounded ContractTooLong ''address'' (length value) max_address_bytes)
      else if CHR ''*'' \<in> set value \<or> CHR ''>'' \<in> set value then
        Inl (contract_error_new ContractWildcard ''address'')
      else if has_control value then Inl (contract_error_new ContractControlCharacter ''address'')
      else
        (case split_char CHR ''.'' value of
           application # second # rest \<Rightarrow>
             parse_address_tail application (if second = ''test'' then rest else second # rest)
         | _ \<Rightarrow> Inl (contract_error_new ContractInvalidFormat ''address'')))"

definition parse_address :: "string \<Rightarrow> address_kind \<Rightarrow> contract_error + string" where
  "parse_address value expected =
     rbind (parse_address_parts value) (\<lambda>kind.
     if kind \<noteq> expected then Inl (contract_error_new ContractWrongAddressKind ''address'')
     else Inr value)"

section \<open>Reading an address\<close>

definition segment :: "string \<Rightarrow> nat \<Rightarrow> string" where
  "segment value index = nth_or_empty (split_char CHR ''.'' value) index"

definition address_traffic_scope :: "string \<Rightarrow> traffic_scope" where
  "address_traffic_scope value = (if segment value 1 = ''test'' then TestScope else NormalScope)"

definition address_segment :: "string \<Rightarrow> nat \<Rightarrow> string" where
  "address_segment value normal_index =
     segment value
       (if address_traffic_scope value = TestScope \<and> 0 < normal_index
        then min (normal_index + 1) (usize_bound - 1) else normal_index)"

definition address_application :: "string \<Rightarrow> string" where
  "address_application value = segment value 0"

definition address_context :: "string \<Rightarrow> string" where
  "address_context value = address_segment value 2"

definition address_name :: "string \<Rightarrow> string" where
  "address_name value = address_segment value 3"

section \<open>The address types\<close>

type_synonym command_address = string
type_synonym command_response_address = string
type_synonym integration_event_address = string
type_synonym query_address = string

definition CommandAddress_new_in_scope ::
  "string \<Rightarrow> traffic_scope \<Rightarrow> string \<Rightarrow> string \<Rightarrow> contract_error + command_address" where
  "CommandAddress_new_in_scope = build_address CommandKind"

definition CommandAddress_new :: "string \<Rightarrow> string \<Rightarrow> string \<Rightarrow> contract_error + command_address" where
  "CommandAddress_new application context name =
     CommandAddress_new_in_scope application NormalScope context name"

definition CommandAddress_parse :: "string \<Rightarrow> contract_error + command_address" where
  "CommandAddress_parse value = parse_address value CommandKind"

definition CommandResponseAddress_new_in_scope ::
  "string \<Rightarrow> traffic_scope \<Rightarrow> string \<Rightarrow> string \<Rightarrow> contract_error + command_response_address" where
  "CommandResponseAddress_new_in_scope = build_address CommandResponseKind"

definition CommandResponseAddress_parse :: "string \<Rightarrow> contract_error + command_response_address" where
  "CommandResponseAddress_parse value = parse_address value CommandResponseKind"

definition IntegrationEventAddress_new_in_scope ::
  "string \<Rightarrow> traffic_scope \<Rightarrow> string \<Rightarrow> string \<Rightarrow> contract_error + integration_event_address" where
  "IntegrationEventAddress_new_in_scope = build_address IntegrationEventKind"

definition IntegrationEventAddress_parse :: "string \<Rightarrow> contract_error + integration_event_address" where
  "IntegrationEventAddress_parse value = parse_address value IntegrationEventKind"

definition QueryAddress_new_in_scope ::
  "string \<Rightarrow> traffic_scope \<Rightarrow> string \<Rightarrow> string \<Rightarrow> contract_error + query_address" where
  "QueryAddress_new_in_scope = build_address QueryKind"

definition QueryAddress_new :: "string \<Rightarrow> string \<Rightarrow> string \<Rightarrow> contract_error + query_address" where
  "QueryAddress_new application context name =
     QueryAddress_new_in_scope application NormalScope context name"

definition QueryAddress_parse :: "string \<Rightarrow> contract_error + query_address" where
  "QueryAddress_parse value = parse_address value QueryKind"

datatype message_address =
  CommandTo command_address
| CommandResponseTo command_response_address
| IntegrationEventTo integration_event_address
| QueryTo query_address

definition MessageAddress_parse :: "string \<Rightarrow> contract_error + message_address" where
  "MessageAddress_parse value =
     rbind (parse_address_parts value) (\<lambda>kind.
     Inr (case kind of
            CommandKind \<Rightarrow> CommandTo value
          | CommandResponseKind \<Rightarrow> CommandResponseTo value
          | IntegrationEventKind \<Rightarrow> IntegrationEventTo value
          | QueryKind \<Rightarrow> QueryTo value))"

fun message_kind :: "message_address \<Rightarrow> address_kind" where
  "message_kind (CommandTo a) = CommandKind"
| "message_kind (CommandResponseTo a) = CommandResponseKind"
| "message_kind (IntegrationEventTo a) = IntegrationEventKind"
| "message_kind (QueryTo a) = QueryKind"

fun message_as_str :: "message_address \<Rightarrow> string" where
  "message_as_str (CommandTo a) = a"
| "message_as_str (CommandResponseTo a) = a"
| "message_as_str (IntegrationEventTo a) = a"
| "message_as_str (QueryTo a) = a"

text \<open>The addresses one can publish to: the trait \<open>PublishableAddress\<close> with its three
  implementations.\<close>

datatype publishable_address =
  PublishCommand command_address
| PublishCommandResponse command_response_address
| PublishIntegrationEvent integration_event_address

fun publishable_kind :: "publishable_address \<Rightarrow> address_kind" where
  "publishable_kind (PublishCommand a) = CommandKind"
| "publishable_kind (PublishCommandResponse a) = CommandResponseKind"
| "publishable_kind (PublishIntegrationEvent a) = IntegrationEventKind"

fun publishable_as_str :: "publishable_address \<Rightarrow> string" where
  "publishable_as_str (PublishCommand a) = a"
| "publishable_as_str (PublishCommandResponse a) = a"
| "publishable_as_str (PublishIntegrationEvent a) = a"

section \<open>Addresses of a bounded context\<close>

definition command_address_of :: "bounded_context \<Rightarrow> string \<Rightarrow> contract_error + command_address" where
  "command_address_of c name =
     CommandAddress_new_in_scope (bx_application c) (bx_traffic_scope c) (bx_name c) name"

definition integration_event_address_of ::
  "bounded_context \<Rightarrow> string \<Rightarrow> contract_error + integration_event_address" where
  "integration_event_address_of c name =
     IntegrationEventAddress_new_in_scope (bx_application c) (bx_traffic_scope c) (bx_name c) name"

definition command_response_address_of ::
  "bounded_context \<Rightarrow> string \<Rightarrow> contract_error + command_response_address" where
  "command_response_address_of c name =
     CommandResponseAddress_new_in_scope (bx_application c) (bx_traffic_scope c) (bx_name c) name"

definition query_address_of :: "bounded_context \<Rightarrow> string \<Rightarrow> contract_error + query_address" where
  "query_address_of c name =
     QueryAddress_new_in_scope (bx_application c) (bx_traffic_scope c) (bx_name c) name"

section \<open>Facts\<close>

text \<open>The grammar of a scope segment or a name.\<close>

definition plain_segment :: "string \<Rightarrow> bool" where
  "plain_segment s \<longleftrightarrow> s \<noteq> [] \<and> length s \<le> 64 \<and> hd s \<noteq> CHR ''-'' \<and> last s \<noteq> CHR ''-''
     \<and> \<not> has_dashes s \<and> list_all scope_char s"

lemma scope_chars_no_control:
  assumes "list_all (\<lambda>c. 32 \<le> (of_char c :: nat) \<and> (of_char c :: nat) < 127) s"
  shows "\<not> has_control s"
proof -
  have "utf8_chars (map of_char s) = map of_char s"
    using assms by (induction s) auto
  then show ?thesis
    using assms by (auto simp: has_control_def chars_def is_control_def list_all_iff list_ex_iff)
qed

lemma scope_char_printable:
  "scope_char c \<Longrightarrow> 32 \<le> (of_char c :: nat) \<and> (of_char c :: nat) < 127 \<and> c \<noteq> CHR ''*'' \<and> c \<noteq> CHR ''>''
     \<and> c \<noteq> CHR ''.''"
  by (auto simp: scope_char_def is_ascii_lowercase_def is_ascii_digit_def)

lemma plain_segment_clean:
  assumes "plain_segment s"
  shows "CHR ''.'' \<notin> set s" "CHR ''*'' \<notin> set s" "CHR ''>'' \<notin> set s" "\<not> has_control s"
  using assms scope_chars_no_control [of s]
  by (auto simp: plain_segment_def list_all_iff dest: scope_char_printable)

lemma validate_scope_segment_iff:
  "validate_scope_segment s f = Inr u \<longleftrightarrow> plain_segment s"
  using plain_segment_clean [of s]
  by (auto simp: validate_scope_segment_ok_iff validate_scope_name_ok_iff plain_segment_def)

lemma validate_address_name_iff:
  "validate_address_name s = Inr u \<longleftrightarrow> plain_segment s"
proof (cases "plain_segment s")
  case True
  then show ?thesis
    using plain_segment_clean [OF True]
    by (simp add: validate_address_name_def Let_def max_address_segment_bytes_def plain_segment_def)
next
  case False
  then show ?thesis
    by (auto simp: validate_address_name_def Let_def max_address_segment_bytes_def plain_segment_def)
qed

text \<open>The text of an address, and when it can be built.\<close>

definition address_text :: "address_kind \<Rightarrow> string \<Rightarrow> traffic_scope \<Rightarrow> string \<Rightarrow> string \<Rightarrow> string" where
  "address_text kind application scope context name =
     application @ ''.'' @ (if scope = TestScope then ''test.'' else [])
       @ kind_segment kind @ ''.'' @ context @ ''.'' @ name"

lemma build_address_ok_iff:
  "build_address kind a scope c n = Inr v \<longleftrightarrow>
     plain_segment a \<and> plain_segment c \<and> plain_segment n \<and> v = address_text kind a scope c n
     \<and> length v \<le> 256"
  by (cases scope)
    (auto simp: build_address_def result_simps validate_scope_segment_iff validate_address_name_iff
      address_text_def Let_def max_address_bytes_def)

lemma kind_segment_plain [simp]: "CHR ''.'' \<notin> set (kind_segment k)" "kind_segment k \<noteq> ''test''"
  by (cases k; simp)+

lemma kind_of_segment_iff: "kind_of_segment s = Inr k \<longleftrightarrow> s = kind_segment k"
  by (cases k) (auto simp: kind_of_segment_def)

lemma split_address_text:
  assumes "plain_segment a" and "plain_segment c" and "plain_segment n"
  shows "split_char CHR ''.'' (address_text kind a scope c n) =
    a # (if scope = TestScope then [''test''] else []) @ [kind_segment kind, c, n]"
proof -
  note clean = plain_segment_clean(1) [OF assms(1)] plain_segment_clean(1) [OF assms(2)]
    plain_segment_clean(1) [OF assms(3)]
  show ?thesis
    using clean split_char_append [of "CHR ''.''" "''test''"]
    by (cases scope) (simp_all add: address_text_def split_char_append split_char_no_sep)
qed

lemma address_text_clean:
  assumes "plain_segment a" and "plain_segment c" and "plain_segment n"
  shows "CHR ''*'' \<notin> set (address_text kind a scope c n)"
    "CHR ''>'' \<notin> set (address_text kind a scope c n)"
    "\<not> has_control (address_text kind a scope c n)"
proof -
  let ?P = "\<lambda>c. 32 \<le> (of_char c :: nat) \<and> (of_char c :: nat) < 127 \<and> c \<noteq> CHR ''*'' \<and> c \<noteq> CHR ''>''"
  have plain: "list_all ?P s" if "plain_segment s" for s
    using that scope_char_printable by (auto simp: plain_segment_def list_all_iff)
  have "list_all ?P (kind_segment kind)"
    by (cases kind) simp_all
  then have "list_all ?P (address_text kind a scope c n)"
    using plain [OF assms(1)] plain [OF assms(2)] plain [OF assms(3)]
    by (simp add: address_text_def)
  then show "CHR ''*'' \<notin> set (address_text kind a scope c n)"
    "CHR ''>'' \<notin> set (address_text kind a scope c n)"
    "\<not> has_control (address_text kind a scope c n)"
    using scope_chars_no_control [of "address_text kind a scope c n"]
    by (auto simp: list_all_iff)
qed

lemma parse_address_tail_ok:
  "parse_address_tail a xs = Inr k \<longleftrightarrow>
     (\<exists>c n. xs = [kind_segment k, c, n] \<and> plain_segment a \<and> plain_segment c \<and> plain_segment n)"
  by (cases "(a, xs)" rule: parse_address_tail.cases)
    (auto simp: result_simps kind_of_segment_iff validate_scope_segment_iff validate_address_name_iff)

lemma parse_built:
  assumes "build_address kind a scope c n = Inr v"
  shows "parse_address_parts v = Inr kind"
proof -
  from assms have ok: "plain_segment a" "plain_segment c" "plain_segment n"
    and v: "v = address_text kind a scope c n" and len: "length v \<le> 256"
    unfolding build_address_ok_iff by blast+
  have "v \<noteq> []"
    by (simp add: v address_text_def)
  then show ?thesis
    using len [unfolded v] address_text_clean [OF ok] ok
    by (simp add: parse_address_parts_def max_address_bytes_def v split_address_text [OF ok]
        parse_address_tail_ok del: parse_address_tail.simps)
qed

text \<open>Joining at a separator undoes splitting.\<close>

fun join_char :: "char \<Rightarrow> string list \<Rightarrow> string" where
  "join_char c [] = []"
| "join_char c [s] = s"
| "join_char c (s # r) = s @ c # join_char c r"

lemma join_cons_head: "xs \<noteq> [] \<Longrightarrow> join_char c (cons_head x xs) = x # join_char c xs"
  by (cases "(c, xs)" rule: join_char.cases) auto

lemma join_split_char: "join_char c (split_char c s) = s"
proof (induction s)
  case (Cons x s)
  then show ?case
    using split_char_not_Nil [of c s]
    by (auto simp: join_cons_head) (cases "split_char c s"; simp)
qed simp

lemma parsed_is_built:
  assumes "parse_address_parts v = Inr kind"
  shows "\<exists>a scope c n. build_address kind a scope c n = Inr v"
proof -
  obtain a second rest where s: "split_char CHR ''.'' v = a # second # rest"
    and len: "length v \<le> 256"
    and tail: "parse_address_tail a (if second = ''test'' then rest else second # rest) = Inr kind"
    using assms
    by (auto simp: parse_address_parts_def max_address_bytes_def split: if_splits list.splits)
  from tail obtain c n where xs: "(if second = ''test'' then rest else second # rest) = [kind_segment kind, c, n]"
    and plain: "plain_segment a" "plain_segment c" "plain_segment n"
    by (auto simp: parse_address_tail_ok)
  define scope where "scope = (if second = ''test'' then TestScope else NormalScope)"
  have "v = join_char CHR ''.'' (a # second # rest)"
    using join_split_char [of "CHR ''.''" v] s by simp
  also have "\<dots> = address_text kind a scope c n"
    using xs by (auto simp: address_text_def scope_def split: if_splits)
  finally show ?thesis
    using plain len by (auto simp: build_address_ok_iff)
qed

lemma built_accessors:
  assumes "build_address kind a scope c n = Inr v"
  shows "address_application v = a" "address_traffic_scope v = scope" "address_context v = c"
    "address_name v = n"
proof -
  from assms have ok: "plain_segment a" "plain_segment c" "plain_segment n"
    and v: "v = address_text kind a scope c n"
    unfolding build_address_ok_iff by blast+
  note split = split_address_text [OF ok, of kind scope, folded v]
  have u: "min (Suc (Suc (Suc 0))) (usize_bound - 1) = 3" "min (Suc (Suc (Suc (Suc 0)))) (usize_bound - 1) = 4"
    by (simp_all add: usize_bound_def)
  show scope: "address_traffic_scope v = scope"
    by (cases scope) (simp_all add: address_traffic_scope_def segment_def split)
  show "address_application v = a"
    by (simp add: address_application_def segment_def split)
  show "address_context v = c" "address_name v = n"
    using u
    by (cases scope; simp add: address_context_def address_name_def address_segment_def segment_def
        scope split eval_nat_numeral)+
qed

lemma build_address_inject:
  assumes "build_address k a s c n = Inr v" and "build_address k' a' s' c' n' = Inr v"
  shows "k = k' \<and> a = a' \<and> s = s' \<and> c = c' \<and> n = n'"
  using parse_built [OF assms(1)] parse_built [OF assms(2)] built_accessors [OF assms(1)]
    built_accessors [OF assms(2)] by simp

end
