(* ===== verification/Messages.thy ===== *)
theory Messages
  imports Metadata Addresses
begin

text \<open>
  Envelopes and outbound messages: \<open>rostfrei-messaging-core/src/envelope.rs\<close>, \<open>publish.rs\<close> and the
  build errors of \<open>error.rs\<close>. An envelope is generic in its payload. What \<open>serde_json::to_vec\<close>
  makes of a value is the argument \<open>to_vec\<close>; the derived deserializers give the wire structs, from
  which the checked constructors build the envelopes.
\<close>

type_synonym message_id = string

section \<open>Build errors\<close>

datatype message_build_error_kind = BuildSerialization | BuildPayloadTooLarge | BuildInvalidMaximum

record message_build_error =
  build_kind :: message_build_error_kind
  build_actual :: "nat option"
  build_maximum :: "nat option"

definition build_serialization :: message_build_error where
  "build_serialization = \<lparr>build_kind = BuildSerialization, build_actual = None, build_maximum = None\<rparr>"

definition build_payload_too_large :: "nat \<Rightarrow> nat \<Rightarrow> message_build_error" where
  "build_payload_too_large actual maximum =
     \<lparr>build_kind = BuildPayloadTooLarge, build_actual = Some actual, build_maximum = Some maximum\<rparr>"

definition build_invalid_maximum :: "nat \<Rightarrow> message_build_error" where
  "build_invalid_maximum maximum =
     \<lparr>build_kind = BuildInvalidMaximum, build_actual = None, build_maximum = Some maximum\<rparr>"

section \<open>Envelopes\<close>

definition max_envelope_bytes :: nat where "max_envelope_bytes = 1024 * 1024"

definition validate_serialized_size :: "('a \<Rightarrow> string + bytes) \<Rightarrow> 'a \<Rightarrow> message_build_error + unit" where
  "validate_serialized_size to_vec value =
     rbind (map_err (\<lambda>_. build_serialization) (to_vec value)) (\<lambda>bs.
     if max_envelope_bytes < length bs then
       Inl (build_payload_too_large (length bs) max_envelope_bytes)
     else Inr ())"

record envelope_context =
  ec_message_id :: message_id
  ec_schema_version :: u32
  ec_correlation_id :: correlation_id
  ec_causation_id :: "causation_id option"

record 'p command_envelope =
  cv_message_id :: message_id
  cv_operation_id :: operation_id
  cv_schema_version :: u32
  cv_created_at :: u64
  cv_correlation_id :: correlation_id
  cv_causation_id :: "causation_id option"
  cv_payload :: 'p
  cv_metadata_version :: "u16 option"
  cv_actor :: "actor_ref option"

definition command_envelope_new ::
  "('p command_envelope \<Rightarrow> string + bytes) \<Rightarrow> envelope_context \<Rightarrow> operation_id \<Rightarrow> u64 \<Rightarrow> 'p \<Rightarrow>
   message_build_error + 'p command_envelope" where
  "command_envelope_new to_vec ctx op created payload =
     (let envelope =
        \<lparr>cv_message_id = ec_message_id ctx, cv_operation_id = op,
         cv_schema_version = ec_schema_version ctx, cv_created_at = created,
         cv_correlation_id = ec_correlation_id ctx, cv_causation_id = ec_causation_id ctx,
         cv_payload = payload, cv_metadata_version = None, cv_actor = None\<rparr>
      in rbind (validate_serialized_size to_vec envelope) (\<lambda>_. Inr envelope))"

definition command_envelope_with_actor ::
  "('p command_envelope \<Rightarrow> string + bytes) \<Rightarrow> actor_ref \<Rightarrow> 'p command_envelope \<Rightarrow>
   message_build_error + 'p command_envelope" where
  "command_envelope_with_actor to_vec actor envelope =
     (let envelope = envelope\<lparr>cv_metadata_version := Some 2, cv_actor := Some actor\<rparr>
      in rbind (validate_serialized_size to_vec envelope) (\<lambda>_. Inr envelope))"

datatype envelope_error_text = EnvelopeBuild message_build_error | InconsistentActorMetadata

definition checked_actor ::
  "u16 option \<Rightarrow> actor_ref option \<Rightarrow> envelope_error_text + actor_ref option" where
  "checked_actor version actor =
     (case (version, actor) of
        (None, None) \<Rightarrow> Inr None
      | (Some v, None) \<Rightarrow> if v = 1 then Inr None else Inl InconsistentActorMetadata
      | (Some v, Some a) \<Rightarrow> if v = 2 then Inr (Some a) else Inl InconsistentActorMetadata
      | (None, Some a) \<Rightarrow> Inl InconsistentActorMetadata)"

text \<open>The derived wire struct has the fields of the envelope; \<open>command_envelope_from_wire\<close> is the
  hand-written part of \<open>Deserialize\<close>.\<close>

definition command_envelope_from_wire ::
  "('p command_envelope \<Rightarrow> string + bytes) \<Rightarrow> 'p command_envelope \<Rightarrow>
   envelope_error_text + 'p command_envelope" where
  "command_envelope_from_wire to_vec wire =
     rbind (checked_actor (cv_metadata_version wire) (cv_actor wire)) (\<lambda>actor.
     rbind (map_err EnvelopeBuild
              (command_envelope_new to_vec
                 \<lparr>ec_message_id = cv_message_id wire, ec_schema_version = cv_schema_version wire,
                  ec_correlation_id = cv_correlation_id wire,
                  ec_causation_id = cv_causation_id wire\<rparr>
                 (cv_operation_id wire) (cv_created_at wire) (cv_payload wire))) (\<lambda>envelope.
     case actor of
       Some actor \<Rightarrow> map_err EnvelopeBuild (command_envelope_with_actor to_vec actor envelope)
     | None \<Rightarrow> Inr envelope))"

record 'p integration_event_envelope =
  iv_message_id :: message_id
  iv_schema_version :: u32
  iv_occurred_at :: u64
  iv_correlation_id :: correlation_id
  iv_causation_id :: "causation_id option"
  iv_payload :: 'p
  iv_metadata_version :: "u16 option"
  iv_actor :: "actor_ref option"

definition integration_envelope_new ::
  "('p integration_event_envelope \<Rightarrow> string + bytes) \<Rightarrow> envelope_context \<Rightarrow> u64 \<Rightarrow> 'p \<Rightarrow>
   message_build_error + 'p integration_event_envelope" where
  "integration_envelope_new to_vec ctx occurred payload =
     (let envelope =
        \<lparr>iv_message_id = ec_message_id ctx, iv_schema_version = ec_schema_version ctx,
         iv_occurred_at = occurred, iv_correlation_id = ec_correlation_id ctx,
         iv_causation_id = ec_causation_id ctx, iv_payload = payload,
         iv_metadata_version = None, iv_actor = None\<rparr>
      in rbind (validate_serialized_size to_vec envelope) (\<lambda>_. Inr envelope))"

definition integration_envelope_with_actor ::
  "('p integration_event_envelope \<Rightarrow> string + bytes) \<Rightarrow> actor_ref \<Rightarrow> 'p integration_event_envelope \<Rightarrow>
   message_build_error + 'p integration_event_envelope" where
  "integration_envelope_with_actor to_vec actor envelope =
     (let envelope = envelope\<lparr>iv_metadata_version := Some 2, iv_actor := Some actor\<rparr>
      in rbind (validate_serialized_size to_vec envelope) (\<lambda>_. Inr envelope))"

definition integration_envelope_from_wire ::
  "('p integration_event_envelope \<Rightarrow> string + bytes) \<Rightarrow> 'p integration_event_envelope \<Rightarrow>
   envelope_error_text + 'p integration_event_envelope" where
  "integration_envelope_from_wire to_vec wire =
     rbind (checked_actor (iv_metadata_version wire) (iv_actor wire)) (\<lambda>actor.
     rbind (map_err EnvelopeBuild
              (integration_envelope_new to_vec
                 \<lparr>ec_message_id = iv_message_id wire, ec_schema_version = iv_schema_version wire,
                  ec_correlation_id = iv_correlation_id wire,
                  ec_causation_id = iv_causation_id wire\<rparr>
                 (iv_occurred_at wire) (iv_payload wire))) (\<lambda>envelope.
     case actor of
       Some actor \<Rightarrow> map_err EnvelopeBuild (integration_envelope_with_actor to_vec actor envelope)
     | None \<Rightarrow> Inr envelope))"

section \<open>Outbound messages\<close>

definition max_message_payload_bytes :: nat where "max_message_payload_bytes = 1024 * 1024"

record 'a outbound_message =
  ob_address :: 'a
  ob_message_id :: message_id
  ob_payload :: bytes
  ob_metadata :: caller_metadata
  ob_correlation_id :: "correlation_id option"
  ob_trace_context :: "trace_context option"

definition validate_payload_size :: "nat \<Rightarrow> nat \<Rightarrow> message_build_error + unit" where
  "validate_payload_size actual maximum =
     (if maximum = 0 \<or> max_message_payload_bytes < maximum then Inl (build_invalid_maximum maximum)
      else if maximum < actual then Inl (build_payload_too_large actual maximum)
      else Inr ())"

definition outbound_with_maximum ::
  "'a \<Rightarrow> message_id \<Rightarrow> bytes \<Rightarrow> nat \<Rightarrow> message_build_error + 'a outbound_message" where
  "outbound_with_maximum address i payload maximum =
     rbind (validate_payload_size (length payload) maximum) (\<lambda>_.
     Inr \<lparr>ob_address = address, ob_message_id = i, ob_payload = payload, ob_metadata = fmempty,
          ob_correlation_id = None, ob_trace_context = None\<rparr>)"

definition outbound_new :: "'a \<Rightarrow> message_id \<Rightarrow> bytes \<Rightarrow> message_build_error + 'a outbound_message" where
  "outbound_new address i payload =
     outbound_with_maximum address i payload max_message_payload_bytes"

definition outbound_json_with_maximum ::
  "('t \<Rightarrow> string + bytes) \<Rightarrow> 'a \<Rightarrow> message_id \<Rightarrow> 't \<Rightarrow> nat \<Rightarrow> message_build_error + 'a outbound_message" where
  "outbound_json_with_maximum to_vec address i payload maximum =
     (if maximum = 0 \<or> max_message_payload_bytes < maximum then Inl (build_invalid_maximum maximum)
      else
        rbind (map_err (\<lambda>_. build_serialization) (to_vec payload)) (\<lambda>bs.
        outbound_with_maximum address i bs maximum))"

definition outbound_json ::
  "('t \<Rightarrow> string + bytes) \<Rightarrow> 'a \<Rightarrow> message_id \<Rightarrow> 't \<Rightarrow> message_build_error + 'a outbound_message" where
  "outbound_json to_vec address i payload =
     outbound_json_with_maximum to_vec address i payload max_message_payload_bytes"

section \<open>Facts\<close>

lemma outbound_new_ok_iff:
  "outbound_new address i payload = Inr m \<longleftrightarrow>
     length payload \<le> 1024 * 1024
     \<and> m = \<lparr>ob_address = address, ob_message_id = i, ob_payload = payload, ob_metadata = fmempty,
            ob_correlation_id = None, ob_trace_context = None\<rparr>"
  by (auto simp: outbound_new_def outbound_with_maximum_def validate_payload_size_def
      max_message_payload_bytes_def result_simps)

text \<open>An envelope that was built is read back from a wire with the same fields.\<close>

lemma command_envelope_wire_roundtrip:
  assumes "command_envelope_new to_vec ctx op created payload = Inr envelope"
  shows "command_envelope_from_wire to_vec envelope = Inr envelope"
  using assms
  by (auto simp: command_envelope_new_def command_envelope_from_wire_def checked_actor_def
      result_simps Let_def)

lemma command_envelope_actor_wire_roundtrip:
  assumes "command_envelope_new to_vec ctx op created payload = Inr envelope"
    and "command_envelope_with_actor to_vec actor envelope = Inr envelope'"
  shows "command_envelope_from_wire to_vec envelope' = Inr envelope'"
  using assms
  by (auto simp: command_envelope_new_def command_envelope_from_wire_def checked_actor_def
      command_envelope_with_actor_def result_simps Let_def)

end
