(* ===== verification/Delivery.thy ===== *)
theory Delivery
  imports Messages
begin

text \<open>
  Consuming messages: \<open>rostfrei-messaging-core/src/consume.rs\<close>. Consumer and durable names with their
  grammar, the configuration of a consumer, deliveries and their dispositions. A \<open>Duration\<close> is its
  number of nanoseconds.
\<close>

type_synonym duration = nat

definition from_secs :: "nat \<Rightarrow> duration" where "from_secs n = n * 1000000000"

definition from_hours :: "nat \<Rightarrow> duration" where "from_hours n = from_secs (n * 3600)"

section \<open>Consumer names\<close>

definition max_consumer_name_bytes :: nat where "max_consumer_name_bytes = 256"

definition build_delivery_name ::
  "string \<Rightarrow> traffic_scope \<Rightarrow> string \<Rightarrow> string \<Rightarrow> u32 \<Rightarrow> string \<Rightarrow> contract_error + string" where
  "build_delivery_name application scope context purpose major field =
     rbind (validate_scope_segment application field) (\<lambda>_.
     rbind (validate_scope_segment context field) (\<lambda>_.
     rbind (validate_scope_segment purpose field) (\<lambda>_.
     let value =
       (case subject_segment scope of
          None \<Rightarrow> application @ ''--'' @ context @ ''--'' @ purpose @ ''--v'' @ decimal (unat major)
        | Some s \<Rightarrow> application @ ''--'' @ s @ ''--'' @ context @ ''--'' @ purpose @ ''--v''
                     @ decimal (unat major))
     in if max_consumer_name_bytes < length value then
          Inl (contract_error_bounded ContractTooLong field (length value) max_consumer_name_bytes)
        else Inr value)))"

text \<open>The scope is decided by the number of segments, then by the second segment.\<close>

definition delivery_parts ::
  "string list \<Rightarrow> (traffic_scope \<times> string \<times> string \<times> string \<times> string) option" where
  "delivery_parts segments =
     (case segments of
        [application, context, purpose, version] \<Rightarrow>
          Some (NormalScope, application, context, purpose, version)
      | [application, second, context, purpose, version] \<Rightarrow>
          if second = ''test'' then Some (TestScope, application, context, purpose, version) else None
      | _ \<Rightarrow> None)"

definition parse_delivery_name :: "string \<Rightarrow> string \<Rightarrow> contract_error + string" where
  "parse_delivery_name value field =
     (if value = [] then Inl (contract_error_new ContractEmpty field)
      else if max_consumer_name_bytes < length value then
        Inl (contract_error_bounded ContractTooLong field (length value) max_consumer_name_bytes)
      else if has_control value then Inl (contract_error_new ContractControlCharacter field)
      else
        (case delivery_parts (split_dashes value) of
           None \<Rightarrow> Inl (contract_error_new ContractInvalidFormat field)
         | Some (scope, application, context, purpose, version) \<Rightarrow>
             (case version of
                [] \<Rightarrow> Inl (contract_error_new ContractInvalidFormat field)
              | v # version \<Rightarrow>
                  if v \<noteq> CHR ''v'' then Inl (contract_error_new ContractInvalidFormat field)
                  else
                    rbind (ok_or (contract_error_new ContractInvalidFormat field)
                             (parse_u32 version)) (\<lambda>major.
                    if version \<noteq> decimal (unat major)
                    then Inl (contract_error_new ContractInvalidFormat field)
                    else
                      rbind (build_delivery_name application scope context purpose major field)
                        (\<lambda>_. Inr value)))))"

definition delivery_name_segment :: "string \<Rightarrow> nat \<Rightarrow> string" where
  "delivery_name_segment value index = nth_or_empty (split_dashes value) index"

definition delivery_name_traffic_scope :: "string \<Rightarrow> traffic_scope" where
  "delivery_name_traffic_scope value =
     (if length (split_dashes value) = 5 \<and> delivery_name_segment value 1 = ''test''
      then TestScope else NormalScope)"

definition scoped_delivery_name_segment :: "string \<Rightarrow> nat \<Rightarrow> string" where
  "scoped_delivery_name_segment value normal_index =
     delivery_name_segment value
       (if delivery_name_traffic_scope value = TestScope \<and> 0 < normal_index
        then min (normal_index + 1) (usize_bound - 1) else normal_index)"

definition consumer_application :: "string \<Rightarrow> string" where
  "consumer_application value = delivery_name_segment value 0"

definition consumer_context :: "string \<Rightarrow> string" where
  "consumer_context value = scoped_delivery_name_segment value 1"

definition ConsumerName_new_in_scope ::
  "string \<Rightarrow> traffic_scope \<Rightarrow> string \<Rightarrow> string \<Rightarrow> u32 \<Rightarrow> contract_error + string" where
  "ConsumerName_new_in_scope application scope context purpose major =
     build_delivery_name application scope context purpose major ''consumer name''"

definition ConsumerName_parse :: "string \<Rightarrow> contract_error + string" where
  "ConsumerName_parse value = parse_delivery_name value ''consumer name''"

definition DurableName_new_in_scope ::
  "string \<Rightarrow> traffic_scope \<Rightarrow> string \<Rightarrow> string \<Rightarrow> u32 \<Rightarrow> contract_error + string" where
  "DurableName_new_in_scope application scope context purpose major =
     build_delivery_name application scope context purpose major ''durable name''"

definition DurableName_parse :: "string \<Rightarrow> contract_error + string" where
  "DurableName_parse value = parse_delivery_name value ''durable name''"

definition consumer_name_of :: "bounded_context \<Rightarrow> string \<Rightarrow> u32 \<Rightarrow> contract_error + string" where
  "consumer_name_of c purpose major =
     ConsumerName_new_in_scope (bx_application c) (bx_traffic_scope c) (bx_name c) purpose major"

definition durable_name_of :: "bounded_context \<Rightarrow> string \<Rightarrow> u32 \<Rightarrow> contract_error + string" where
  "durable_name_of c purpose major =
     DurableName_new_in_scope (bx_application c) (bx_traffic_scope c) (bx_name c) purpose major"

section \<open>Configuration\<close>

definition max_concurrency :: nat where "max_concurrency = 1024"
definition max_delivery_attempts :: u32 where "max_delivery_attempts = 1000"
definition max_processing_timeout :: duration where "max_processing_timeout = from_hours 24"
definition max_retry_delay :: duration where "max_retry_delay = from_hours 24"
definition max_quarantine_reason_bytes :: nat where "max_quarantine_reason_bytes = 512"

record consumer_config =
  cf_name :: string
  cf_durable_name :: string
  cf_address :: publishable_address
  cf_ack_wait :: duration
  cf_processing_timeout :: duration
  cf_concurrency :: nat
  cf_shared_pending_limit :: nat
  cf_maximum_delivery_attempts :: u32

definition consumer_config_new ::
  "string \<Rightarrow> string \<Rightarrow> publishable_address \<Rightarrow> duration \<Rightarrow> duration \<Rightarrow> nat \<Rightarrow> u32 \<Rightarrow>
   contract_error + consumer_config" where
  "consumer_config_new name durable address ack_wait timeout concurrency attempts =
     (let a = publishable_as_str address in
      if consumer_application name \<noteq> address_application a
        \<or> consumer_application durable \<noteq> address_application a
        \<or> delivery_name_traffic_scope name \<noteq> address_traffic_scope a
        \<or> delivery_name_traffic_scope durable \<noteq> address_traffic_scope a
      then Inl (contract_error_new ContractInvalidFormat ''consumer application scope'')
      else if consumer_context name \<noteq> consumer_context durable
        \<or> (publishable_kind address \<in> {CommandKind, CommandResponseKind}
           \<and> consumer_context name \<noteq> address_context a)
      then Inl (contract_error_new ContractInvalidFormat ''consumer bounded-context scope'')
      else if timeout = 0 \<or> max_processing_timeout < timeout
      then Inl (contract_error_new ContractOutOfRange ''processing timeout'')
      else if ack_wait \<le> timeout \<or> max_processing_timeout < ack_wait
      then Inl (contract_error_new ContractOutOfRange ''ack wait'')
      else if concurrency = 0 \<or> max_concurrency < concurrency
      then Inl (contract_error_bounded ContractOutOfRange ''consumer concurrency'' concurrency
             max_concurrency)
      else if attempts = 0 \<or> max_delivery_attempts < attempts
      then Inl (contract_error_new ContractOutOfRange ''maximum delivery attempts'')
      else Inr
        \<lparr>cf_name = name, cf_durable_name = durable, cf_address = address, cf_ack_wait = ack_wait,
         cf_processing_timeout = timeout, cf_concurrency = concurrency,
         cf_shared_pending_limit = concurrency, cf_maximum_delivery_attempts = attempts\<rparr>)"

definition with_shared_pending_limit ::
  "nat \<Rightarrow> consumer_config \<Rightarrow> contract_error + consumer_config" where
  "with_shared_pending_limit limit config =
     (if limit < cf_concurrency config then
        Inl (contract_error_new ContractOutOfRange
               ''shared pending limit must cover worker concurrency'')
      else Inr (config\<lparr>cf_shared_pending_limit := limit\<rparr>))"

section \<open>Deliveries and dispositions\<close>

record delivery_info =
  di_attempt :: u32
  di_pending :: u64
  di_source_sequence :: u64
  di_consumer_sequence :: u64

definition delivery_info_new :: "u32 \<Rightarrow> u64 \<Rightarrow> u64 \<Rightarrow> u64 \<Rightarrow> contract_error + delivery_info" where
  "delivery_info_new attempt pending source consumer =
     (if attempt = 0 then Inl (contract_error_new ContractOutOfRange ''delivery attempt'')
      else if source = 0 \<or> consumer = 0
      then Inl (contract_error_new ContractOutOfRange ''delivery sequence'')
      else Inr \<lparr>di_attempt = attempt, di_pending = pending, di_source_sequence = source,
                di_consumer_sequence = consumer\<rparr>)"

record message_delivery =
  dl_address :: publishable_address
  dl_message_id :: message_id
  dl_payload :: bytes
  dl_metadata :: caller_metadata
  dl_correlation_id :: "correlation_id option"
  dl_trace_context :: "trace_context option"
  dl_info :: delivery_info

definition delivery_with_transport_context ::
  "publishable_address \<Rightarrow> message_id \<Rightarrow> bytes \<Rightarrow> caller_metadata \<Rightarrow> correlation_id option \<Rightarrow>
   trace_context option \<Rightarrow> delivery_info \<Rightarrow> message_build_error + message_delivery" where
  "delivery_with_transport_context address i payload metadata correlation trace info =
     (if max_message_payload_bytes < length payload then
        Inl (build_payload_too_large (length payload) max_message_payload_bytes)
      else Inr \<lparr>dl_address = address, dl_message_id = i, dl_payload = payload,
                dl_metadata = metadata, dl_correlation_id = correlation,
                dl_trace_context = trace, dl_info = info\<rparr>)"

definition retry_delay_new :: "duration \<Rightarrow> contract_error + duration" where
  "retry_delay_new value =
     (if value = 0 \<or> max_retry_delay < value
      then Inl (contract_error_new ContractOutOfRange ''retry delay'') else Inr value)"

definition quarantine_reason_new :: "string \<Rightarrow> contract_error + string" where
  "quarantine_reason_new value =
     (if value = [] then Inl (contract_error_new ContractEmpty ''quarantine reason'')
      else if max_quarantine_reason_bytes < length value then
        Inl (contract_error_bounded ContractTooLong ''quarantine reason'' (length value)
          max_quarantine_reason_bytes)
      else if has_control value then
        Inl (contract_error_new ContractControlCharacter ''quarantine reason'')
      else Inr value)"

datatype delivery_disposition =
  Acknowledge | RetryLater duration | Quarantine string | Terminate

section \<open>Facts\<close>

definition delivery_text :: "string \<Rightarrow> traffic_scope \<Rightarrow> string \<Rightarrow> string \<Rightarrow> u32 \<Rightarrow> string" where
  "delivery_text application scope context purpose major =
     application @ ''--'' @ (if scope = TestScope then ''test--'' else [])
       @ context @ ''--'' @ purpose @ ''--v'' @ decimal (unat major)"

lemma build_delivery_name_ok_iff:
  "build_delivery_name a scope c p n f = Inr v \<longleftrightarrow>
     plain_segment a \<and> plain_segment c \<and> plain_segment p \<and> v = delivery_text a scope c p n
     \<and> length v \<le> 256"
  by (cases scope)
    (auto simp: build_delivery_name_def result_simps validate_scope_segment_iff delivery_text_def
      Let_def max_consumer_name_bytes_def)

lemma split_dashes_segment:
  "plain_segment s \<Longrightarrow> split_dashes (s @ CHR ''-'' # CHR ''-'' # r) = s # split_dashes r"
  by (rule split_dashes_append) (auto simp: plain_segment_def)

lemma no_dash_no_dashes: "CHR ''-'' \<notin> set s \<Longrightarrow> \<not> has_dashes s"
  by (induction s rule: has_dashes.induct) auto

lemma version_segment:
  "CHR ''-'' \<notin> set (decimal n)" "split_dashes (CHR ''v'' # decimal n) = [CHR ''v'' # decimal n]"
proof -
  show no: "CHR ''-'' \<notin> set (decimal n)"
    using decimal_digits [of n] by (auto simp: list_all_iff is_ascii_digit_def)
  then show "split_dashes (CHR ''v'' # decimal n) = [CHR ''v'' # decimal n]"
    by (intro split_dashes_plain no_dash_no_dashes) simp
qed

lemma split_delivery_text:
  assumes "plain_segment a" and "plain_segment c" and "plain_segment p"
  shows "split_dashes (delivery_text a scope c p n) =
    a # (if scope = TestScope then [''test''] else []) @ [c, p, CHR ''v'' # decimal (unat n)]"
  using assms split_dashes_append [of "''test''"]
  by (cases scope) (simp_all add: delivery_text_def split_dashes_segment version_segment)

lemma delivery_text_no_control:
  assumes "plain_segment a" and "plain_segment c" and "plain_segment p"
  shows "\<not> has_control (delivery_text a scope c p n)"
proof -
  let ?P = "\<lambda>c. 32 \<le> (of_char c :: nat) \<and> (of_char c :: nat) < 127"
  have plain: "list_all ?P s" if "plain_segment s" for s
    using that scope_char_printable by (auto simp: plain_segment_def list_all_iff)
  have "list_all ?P (decimal (unat n))"
    using decimal_digits [of "unat n"] by (auto simp: list_all_iff is_ascii_digit_def)
  then have "list_all ?P (delivery_text a scope c p n)"
    using plain [OF assms(1)] plain [OF assms(2)] plain [OF assms(3)] by (simp add: delivery_text_def)
  then show ?thesis
    by (rule scope_chars_no_control)
qed

lemma parse_built_delivery_name:
  assumes "build_delivery_name a scope c p n field = Inr v"
  shows "parse_delivery_name v field' = Inr v"
proof -
  from assms have ok: "plain_segment a" "plain_segment c" "plain_segment p"
    and v: "v = delivery_text a scope c p n" and len: "length v \<le> 256"
    unfolding build_delivery_name_ok_iff by blast+
  have "v \<noteq> []"
    by (simp add: v delivery_text_def)
  moreover have "delivery_parts (split_dashes v) = Some (scope, a, c, p, CHR ''v'' # decimal (unat n))"
    by (cases scope) (simp_all add: v split_delivery_text [OF ok] delivery_parts_def)
  moreover have "build_delivery_name a scope c p n field' = Inr v"
    using assms unfolding build_delivery_name_ok_iff .
  ultimately show ?thesis
    using len delivery_text_no_control [OF ok, of scope n, folded v]
    by (simp add: parse_delivery_name_def max_consumer_name_bytes_def parse_u32_decimal)
qed

fun join_dashes :: "string list \<Rightarrow> string" where
  "join_dashes [] = []"
| "join_dashes [s] = s"
| "join_dashes (s # r) = s @ ''--'' @ join_dashes r"

lemma join_dashes_cons_head: "xs \<noteq> [] \<Longrightarrow> join_dashes (cons_head x xs) = x # join_dashes xs"
  by (cases xs rule: join_dashes.cases) auto

lemma join_split_dashes: "join_dashes (split_dashes s) = s"
proof (induction s rule: split_dashes.induct)
  case (3 x y r)
  then show ?case
    using split_dashes_not_Nil [of r] split_dashes_not_Nil [of "y # r"]
    by (auto simp: join_dashes_cons_head simp del: split_dashes.simps
        simp: split_dashes.simps(3)) (cases "split_dashes r"; simp)
qed auto

lemma delivery_parts_join:
  "delivery_parts xs = Some (scope, a, c, p, v) \<Longrightarrow>
   join_dashes xs = a @ ''--'' @ (if scope = TestScope then ''test--'' else []) @ c @ ''--'' @ p @ ''--'' @ v"
  by (auto simp: delivery_parts_def split: list.splits if_splits)

lemma parsed_delivery_name_is_built:
  assumes "parse_delivery_name v field = Inr v'"
  shows "v' = v \<and> (\<exists>a scope c p n. build_delivery_name a scope c p n field = Inr v)"
proof -
  obtain scope a c p version n where len: "length v \<le> 256" and v': "v' = v"
    and parts: "delivery_parts (split_dashes v) = Some (scope, a, c, p, CHR ''v'' # version)"
    and n: "version = decimal (unat n)" and ok: "is_ok (build_delivery_name a scope c p n field)"
    using assms
    by (auto simp: parse_delivery_name_def max_consumer_name_bytes_def result_simps
        split: if_splits option.splits list.splits)
  have "v = delivery_text a scope c p n"
    using delivery_parts_join [OF parts] join_split_dashes [of v] n by (simp add: delivery_text_def)
  moreover have "plain_segment a \<and> plain_segment c \<and> plain_segment p"
    using ok by (auto simp: is_ok_iff build_delivery_name_ok_iff)
  ultimately have "build_delivery_name a scope c p n field = Inr v"
    using len unfolding build_delivery_name_ok_iff by simp
  then show ?thesis
    using v' by blast
qed

lemma built_delivery_accessors:
  assumes "build_delivery_name a scope c p n field = Inr v"
  shows "consumer_application v = a" "delivery_name_traffic_scope v = scope" "consumer_context v = c"
proof -
  from assms have ok: "plain_segment a" "plain_segment c" "plain_segment p"
    and v: "v = delivery_text a scope c p n"
    unfolding build_delivery_name_ok_iff by blast+
  note split = split_delivery_text [OF ok, of scope n, folded v]
  show scope: "delivery_name_traffic_scope v = scope"
    by (cases scope) (simp_all add: delivery_name_traffic_scope_def delivery_name_segment_def split)
  show "consumer_application v = a"
    by (simp add: consumer_application_def delivery_name_segment_def split)
  have u: "min (Suc (Suc 0)) (usize_bound - 1) = 2"
    by (simp add: usize_bound_def)
  show "consumer_context v = c"
    using u
    by (cases scope) (simp_all add: consumer_context_def scoped_delivery_name_segment_def
        delivery_name_segment_def scope split eval_nat_numeral)
qed

end
