(* ===== verification/Responses.thy ===== *)
theory Responses
  imports Messages Failures Wire
begin

text \<open>
  Command responses: \<open>rostfrei-messaging-core/src/command_response.rs\<close> and the application error codes
  of \<open>query.rs\<close>. What \<open>serde_json::to_vec\<close> makes of a response is the argument \<open>to_vec\<close>; a response
  that was read is the derived wire struct with two flags that say whether unknown fields were
  present.
\<close>

section \<open>Rejections\<close>

definition ApplicationErrorCode_new :: "string \<Rightarrow> contract_error + string" where
  "ApplicationErrorCode_new value =
     (if value = [] then Inl (contract_error_new ContractEmpty ''application error code'')
      else if 128 < length value then
        Inl (contract_error_bounded ContractTooLong ''application error code'' (length value) 128)
      else if \<not> (is_ascii_alphanumeric (hd value) \<and> is_ascii_alphanumeric (last value))
        \<or> \<not> list_all (\<lambda>c. is_ascii_alphanumeric c \<or> c \<in> {CHR ''.'', CHR ''_'', CHR ''-''}) value
      then Inl (contract_error_new ContractInvalidFormat ''application error code'')
      else Inr value)"

datatype command_rejection_classification =
  RejectInvalidRequest | RejectUnauthorized | RejectForbidden | RejectNotFound | RejectConflict
| RejectRateLimited | RejectUnavailable | RejectInternal

record command_rejection =
  cj_classification :: command_rejection_classification
  cj_code :: string
  cj_message :: string
  cj_details :: "json option"

definition max_command_rejection_message_bytes :: nat where
  "max_command_rejection_message_bytes = 1024"

definition validate_rejection_message :: "string \<Rightarrow> contract_error + unit" where
  "validate_rejection_message msg =
     (if msg = [] then Inl (contract_error_new ContractEmpty ''command rejection message'')
      else if max_command_rejection_message_bytes < length msg then
        Inl (contract_error_bounded ContractTooLong ''command rejection message'' (length msg)
          max_command_rejection_message_bytes)
      else if has_control msg then
        Inl (contract_error_new ContractControlCharacter ''command rejection message'')
      else Inr ())"

definition command_rejection_new ::
  "command_rejection_classification \<Rightarrow> string \<Rightarrow> string \<Rightarrow> json option \<Rightarrow>
   contract_error + command_rejection" where
  "command_rejection_new classification code msg details =
     rbind (validate_rejection_message msg) (\<lambda>_.
     Inr \<lparr>cj_classification = classification, cj_code = code, cj_message = msg,
          cj_details = details\<rparr>)"

section \<open>Responses\<close>

datatype command_response_outcome =
  ResponseAccepted
| ResponseRejected command_rejection
| ResponseExecutionFailed execution_failure

record command_response =
  rs_message_id :: message_id
  rs_command_message_id :: message_id
  rs_command_address :: command_address
  rs_operation_id :: operation_id
  rs_schema_version :: u32
  rs_correlation_id :: correlation_id
  rs_outcome :: command_response_outcome

definition command_response_schema :: u32 where "command_response_schema = 1"
definition technical_response_schema :: u32 where "technical_response_schema = 2"

fun expected_schema :: "command_response_outcome \<Rightarrow> u32" where
  "expected_schema (ResponseExecutionFailed f) = technical_response_schema"
| "expected_schema ResponseAccepted = command_response_schema"
| "expected_schema (ResponseRejected r) = command_response_schema"

definition command_response_new ::
  "(command_response \<Rightarrow> string + bytes) \<Rightarrow> message_id \<Rightarrow> message_id \<Rightarrow> command_address \<Rightarrow>
   operation_id \<Rightarrow> u32 \<Rightarrow> correlation_id \<Rightarrow> command_response_outcome \<Rightarrow>
   message_build_error + command_response" where
  "command_response_new to_vec i command_id address op schema correlation outcome =
     (if schema \<noteq> expected_schema outcome then Inl build_serialization
      else
        (let response =
           \<lparr>rs_message_id = i, rs_command_message_id = command_id, rs_command_address = address,
            rs_operation_id = op, rs_schema_version = schema, rs_correlation_id = correlation,
            rs_outcome = outcome\<rparr>
         in rbind (validate_serialized_size to_vec response) (\<lambda>_. Inr response)))"

definition response_accepted ::
  "(command_response \<Rightarrow> string + bytes) \<Rightarrow> message_id \<Rightarrow> message_id \<Rightarrow> command_address \<Rightarrow>
   operation_id \<Rightarrow> correlation_id \<Rightarrow> message_build_error + command_response" where
  "response_accepted to_vec i command_id address op correlation =
     rbind (map_err (\<lambda>_. build_serialization) (SchemaVersion_new command_response_schema))
       (\<lambda>schema. command_response_new to_vec i command_id address op schema correlation
          ResponseAccepted)"

definition response_rejected ::
  "(command_response \<Rightarrow> string + bytes) \<Rightarrow> message_id \<Rightarrow> message_id \<Rightarrow> command_address \<Rightarrow>
   operation_id \<Rightarrow> correlation_id \<Rightarrow> command_rejection \<Rightarrow> message_build_error + command_response" where
  "response_rejected to_vec i command_id address op correlation rejection =
     rbind (map_err (\<lambda>_. build_serialization) (SchemaVersion_new command_response_schema))
       (\<lambda>schema. command_response_new to_vec i command_id address op schema correlation
          (ResponseRejected rejection))"

definition response_execution_failed ::
  "(command_response \<Rightarrow> string + bytes) \<Rightarrow> message_id \<Rightarrow> message_id \<Rightarrow> command_address \<Rightarrow>
   operation_id \<Rightarrow> correlation_id \<Rightarrow> execution_failure \<Rightarrow> message_build_error + command_response" where
  "response_execution_failed to_vec i command_id address op correlation failure =
     rbind (map_err (\<lambda>_. build_serialization) (SchemaVersion_new technical_response_schema))
       (\<lambda>schema. command_response_new to_vec i command_id address op schema correlation
          (ResponseExecutionFailed failure))"

record command_response_wire =
  rw_response :: command_response
  rw_extensions :: bool
  rw_outcome_extensions :: bool

datatype response_error_text = UnknownTechnicalField | ResponseBuild message_build_error

definition command_response_from_wire ::
  "(command_response \<Rightarrow> string + bytes) \<Rightarrow> command_response_wire \<Rightarrow>
   response_error_text + command_response" where
  "command_response_from_wire to_vec wire =
     (let r = rw_response wire in
      if rs_schema_version r = technical_response_schema
        \<and> (rw_extensions wire \<or> rw_outcome_extensions wire)
      then Inl UnknownTechnicalField
      else map_err ResponseBuild
        (command_response_new to_vec (rs_message_id r) (rs_command_message_id r)
           (rs_command_address r) (rs_operation_id r) (rs_schema_version r) (rs_correlation_id r)
           (rs_outcome r)))"

section \<open>Response addresses\<close>

text \<open>\<open>u64::try_from\<close> of a length cannot fail where \<open>usize\<close> has 64 bits.\<close>

definition derive_command_response_address ::
  "(bytes \<Rightarrow> bytes) \<Rightarrow> command_address \<Rightarrow> operation_id \<Rightarrow> message_id \<Rightarrow>
   contract_error + command_response_address" where
  "derive_command_response_address sha address op command_id =
     (let h = foldl hash_part []
        [str_bytes ''rostfrei.command-response-address.v1'', str_bytes address, str_bytes op,
         str_bytes command_id]
      in CommandResponseAddress_new_in_scope (address_application address)
           (address_traffic_scope address) (address_context address) (encode_lower_hex (sha h)))"

section \<open>Reading responses\<close>

datatype command_response_read_error =
  ReadTimeout | ReadResponseUnavailable | ReadInvalidResponse | ReadIdentityConflict
| ReadInvalidConfiguration

text \<open>The default of the reader trait: \<open>read\<close> is the required method.\<close>

definition find_command_response ::
  "(command_response_address \<Rightarrow> operation_id \<Rightarrow> message_id \<Rightarrow> nat \<Rightarrow>
    command_response_read_error + command_response) \<Rightarrow>
   command_response_address \<Rightarrow> operation_id \<Rightarrow> message_id \<Rightarrow> nat \<Rightarrow>
   command_response_read_error + command_response option" where
  "find_command_response read address op command_id timeout =
     (case read address op command_id timeout of
        Inr response \<Rightarrow> Inr (Some response)
      | Inl e \<Rightarrow> if e = ReadTimeout then Inr None else Inl e)"

section \<open>Facts\<close>

lemma command_response_new_ok_iff:
  "command_response_new to_vec i c a op schema cor out = Inr r \<longleftrightarrow>
     schema = expected_schema out
     \<and> r = \<lparr>rs_message_id = i, rs_command_message_id = c, rs_command_address = a,
            rs_operation_id = op, rs_schema_version = schema, rs_correlation_id = cor,
            rs_outcome = out\<rparr>
     \<and> validate_serialized_size to_vec r = Inr ()"
  by (auto simp: command_response_new_def result_simps Let_def)

lemma response_wire_roundtrip:
  assumes "command_response_new to_vec i c a op schema cor out = Inr r"
    and "\<not> rw_extensions w" and "\<not> rw_outcome_extensions w" and "rw_response w = r"
  shows "command_response_from_wire to_vec w = Inr r"
  using assms
  by (auto simp: command_response_new_ok_iff command_response_from_wire_def Let_def result_simps)

lemma lower_hex_digit_code:
  assumes "n < 16"
  shows "(of_char (lower_hex_digit n) :: nat) = (if unat n < 10 then 48 + unat n else 87 + unat n)"
proof (cases "unat n < 10")
  case True
  then have "(of_char (lower_hex_digit n) :: u8) = 48 + n"
    by (simp add: lower_hex_digit_def saturating_add_def checked_add_def of_char_char_of_u8
        word_less_nat_alt)
  then show ?thesis
    using True unat_of_char_u8 [of "lower_hex_digit n"] by (simp add: unat_word_ariths)
next
  case False
  have n: "unat n < 16"
    using assms by (simp add: word_less_nat_alt)
  have sub: "unat (n - 10) = unat n - 10"
    using False by (simp add: unat_sub word_le_nat_alt)
  have "(of_char (lower_hex_digit n) :: u8) = 97 + (n - 10)"
    using False n sub
    by (simp add: lower_hex_digit_def saturating_add_def saturating_sub_def checked_add_def
        of_char_char_of_u8 word_less_nat_alt word_le_nat_alt)
  then show ?thesis
    using False n sub unat_of_char_u8 [of "lower_hex_digit n"] by (simp add: unat_word_ariths)
qed

lemma encode_lower_hex_scope_chars: "list_all scope_char (encode_lower_hex bs)"
proof -
  have "scope_char (lower_hex_digit n) \<and> lower_hex_digit n \<noteq> CHR ''-''" if "n < 16" for n
    using lower_hex_digit_code [OF that] that
    by (auto simp: scope_char_def is_ascii_digit_def is_ascii_lowercase_def word_less_nat_alt
        split: if_splits)
  then show ?thesis
    by (induction bs) (simp_all add: encode_lower_hex_def high_nibble_less low_nibble_less)
qed

lemma encode_lower_hex_no_dash: "CHR ''-'' \<notin> set (encode_lower_hex bs)"
proof -
  have "CHR ''-'' \<noteq> lower_hex_digit n" if "n < 16" for n
    using lower_hex_digit_code [OF that] by (auto dest: arg_cong [of _ _ "of_char :: char \<Rightarrow> nat"] split: if_splits)
  then show ?thesis
    by (induction bs) (simp_all add: encode_lower_hex_def high_nibble_less low_nibble_less)
qed

text \<open>A 32-byte digest in hexadecimal is a valid segment.\<close>

lemma digest_segment:
  assumes "length bs = 32"
  shows "plain_segment (encode_lower_hex bs)"
proof -
  have "length (encode_lower_hex bs) = 64"
    using assms by simp
  then have "encode_lower_hex bs \<noteq> []"
    by (cases "encode_lower_hex bs") simp_all
  moreover have "\<not> has_dashes s" if "CHR ''-'' \<notin> set s" for s
    using that by (induction s rule: has_dashes.induct) auto
  ultimately show ?thesis
    using assms encode_lower_hex_scope_chars [of bs] encode_lower_hex_no_dash [of bs]
    by (auto simp: plain_segment_def dest: hd_in_set last_in_set)
qed

end
