(* ===== verification/Series.thy ===== *)
theory Series
  imports Errors
begin

text \<open>
  Message series (\<open>rostfrei-messaging-core/src/message_series.rs\<close>): an insertion-ordered, bounded
  collection of messages with a causal parent each, and the report of what is wrong with its
  topology. The trait \<open>MessageSeriesNode\<close> is a record of accessors, so that a series of any kind of
  node is a series of the model. Besides the operations the theory holds the correctness of the
  cycle search: it finds every cycle of the causation graph exactly once.
\<close>

section \<open>Nodes and series\<close>

definition max_message_series_nodes :: nat where
  "max_message_series_nodes = 4096"

record ('n, 'm, 'c) series_node =
  sn_message_id :: "'n \<Rightarrow> 'm"
  sn_correlation_id :: "'n \<Rightarrow> 'c"
  sn_causation_id :: "'n \<Rightarrow> 'm option"

datatype series_insert_outcome = SeriesInserted | SeriesDuplicate

definition series_is_duplicate :: "series_insert_outcome \<Rightarrow> bool" where
  "series_is_duplicate o' = (o' = SeriesDuplicate)"

datatype 'n topology_issue =
  UnresolvedParent 'n
| CrossCorrelation 'n 'n
| CausalCycle "'n list"

type_synonym 'n message_series = "'n list"

definition series_new :: "'n message_series" where
  "series_new = []"

definition series_get :: "('n, 'm, 'c) series_node \<Rightarrow> 'n message_series \<Rightarrow> 'm \<Rightarrow> 'n option" where
  "series_get T nodes message_id = find (\<lambda>n. sn_message_id T n = message_id) nodes"

definition series_insert ::
  "('n, 'm, 'c) series_node \<Rightarrow> 'n message_series \<Rightarrow> 'n \<Rightarrow>
   (contract_error + series_insert_outcome) \<times> 'n message_series" where
  "series_insert T nodes n =
     (case series_get T nodes (sn_message_id T n) of
        Some existing \<Rightarrow>
          (if existing = n then Inr SeriesDuplicate
           else Inl (contract_error_new ContractIdentityConflict ''message series node''), nodes)
      | None \<Rightarrow>
          (if length nodes = max_message_series_nodes then
             (Inl (contract_error_bounded ContractTooManyEntries ''message series''
                     (max_message_series_nodes + 1) max_message_series_nodes), nodes)
           else (Inr SeriesInserted, nodes @ [n])))"

fun series_extend ::
  "('n, 'm, 'c) series_node \<Rightarrow> 'n message_series \<Rightarrow> 'n list \<Rightarrow> contract_error + 'n message_series"
where
  "series_extend T nodes [] = Inr nodes"
| "series_extend T nodes (n # ns) =
     (case series_insert T nodes n of
        (Inl e, _) \<Rightarrow> Inl e
      | (Inr _, nodes) \<Rightarrow> series_extend T nodes ns)"

definition series_try_from_nodes ::
  "('n, 'm, 'c) series_node \<Rightarrow> 'n list \<Rightarrow> contract_error + 'n message_series" where
  "series_try_from_nodes T ns = series_extend T series_new ns"

text \<open>
  The visitor of the deserializer: the elements of the sequence as the format delivers them, each
  of which may fail to decode.
\<close>

datatype series_decode_error =
  SeriesElement string
| SeriesContract contract_error

fun series_visit_seq ::
  "('n, 'm, 'c) series_node \<Rightarrow> 'n message_series \<Rightarrow> (string + 'n) list \<Rightarrow>
   series_decode_error + 'n message_series"
where
  "series_visit_seq T nodes [] = Inr nodes"
| "series_visit_seq T nodes (Inl e # rest) = Inl (SeriesElement e)"
| "series_visit_seq T nodes (Inr n # rest) =
     (case series_insert T nodes n of
        (Inl e, _) \<Rightarrow> Inl (SeriesContract e)
      | (Inr _, nodes) \<Rightarrow> series_visit_seq T nodes rest)"

definition series_roots :: "('n, 'm, 'c) series_node \<Rightarrow> 'n message_series \<Rightarrow> 'n list" where
  "series_roots T nodes = filter (\<lambda>n. sn_causation_id T n = None) nodes"

definition series_direct_children ::
  "('n, 'm, 'c) series_node \<Rightarrow> 'n message_series \<Rightarrow> 'm \<Rightarrow> 'n list" where
  "series_direct_children T nodes message_id =
     filter (\<lambda>n. sn_causation_id T n = Some message_id) nodes"

definition series_unresolved_nodes ::
  "('n, 'm, 'c) series_node \<Rightarrow> 'n message_series \<Rightarrow> 'n list" where
  "series_unresolved_nodes T nodes =
     (let identities = set (map (sn_message_id T) nodes)
      in filter (\<lambda>n. case sn_causation_id T n of
                        None \<Rightarrow> False | Some cause \<Rightarrow> cause \<notin> identities) nodes)"

section \<open>The search for cycles\<close>

datatype visit_state = Unvisited | Visiting | Visited

fun position :: "('a \<Rightarrow> bool) \<Rightarrow> 'a list \<Rightarrow> nat option" where
  "position P [] = None"
| "position P (x # xs) = (if P x then Some 0 else map_option Suc (position P xs))"

fun min_by_key :: "('a \<Rightarrow> nat) \<Rightarrow> 'a list \<Rightarrow> 'a option" where
  "min_by_key f [] = None"
| "min_by_key f (x # xs) =
     (case min_by_key f xs of
        None \<Rightarrow> Some x
      | Some y \<Rightarrow> Some (if f x \<le> f y then x else y))"

definition earliest_first :: "nat list \<Rightarrow> nat list" where
  "earliest_first c =
     (case min_by_key snd (enumerate 0 c) of
        None \<Rightarrow> c
      | Some (earliest, _) \<Rightarrow> rotate earliest c)"

definition parent_at :: "nat option list \<Rightarrow> nat \<Rightarrow> nat option" where
  "parent_at parents i = (if i < length parents then parents ! i else None)"

text \<open>
  The inner loop: it follows the parents from the current index, marking what it passes as being
  visited, until it leaves the graph or meets a marked index.
\<close>

function walk ::
  "nat option list \<Rightarrow> visit_state list \<Rightarrow> nat list \<Rightarrow> nat option \<Rightarrow>
   visit_state list \<times> nat list \<times> nat list option"
where
  "walk parents states path None = (states, path, None)"
| "walk parents states path (Some index) =
     (if length states \<le> index then (states, path, None)
      else if states ! index \<noteq> Unvisited then
        (states, path,
         if states ! index = Visiting
         then map_option (\<lambda>k. earliest_first (drop k path)) (position (\<lambda>c. c = index) path)
         else None)
      else walk parents (states[index := Visiting]) (path @ [index]) (parent_at parents index))"
  by pat_completeness auto
termination
proof (relation "measure (\<lambda>(_, states, _, _). length (filter (\<lambda>x. x = Unvisited) states))",
    goal_cases)
  case (2 parents states path index)
  then have here: "index < length states" "states ! index = Unvisited"
    by auto
  define before after where "before = take index states" and "after = drop (Suc index) states"
  have "states = before @ Unvisited # after"
    using here id_take_nth_drop [of index states] by (simp add: before_def after_def)
  moreover have "states[index := Visiting] = before @ Visiting # after"
    using here upd_conv_take_nth_drop [of index states Visiting]
    by (simp add: before_def after_def)
  ultimately show ?case
    by simp
qed simp

definition visit_from ::
  "nat option list \<Rightarrow> visit_state list \<times> nat list list \<Rightarrow> nat \<Rightarrow> visit_state list \<times> nat list list" where
  "visit_from parents acc start =
     (case acc of (states, cycles) \<Rightarrow>
        if \<not> (start < length states \<and> states ! start = Unvisited) then (states, cycles)
        else
          (case walk parents states [] (Some start) of (states, path, found) \<Rightarrow>
             (foldl (\<lambda>states index. states[index := Visited]) states path,
              cycles @ (case found of None \<Rightarrow> [] | Some c \<Rightarrow> [c]))))"

definition first_index :: "nat list \<Rightarrow> nat" where
  "first_index c = (case c of [] \<Rightarrow> usize_bound - 1 | i # _ \<Rightarrow> i)"

definition find_cycles :: "nat option list \<Rightarrow> nat list list" where
  "find_cycles parents =
     sort_key first_index
       (snd (foldl (visit_from parents) (replicate (length parents) Unvisited, [])
              [0..<length parents]))"

section \<open>The topology report\<close>

definition node_indexes :: "('n, 'm, 'c) series_node \<Rightarrow> 'n list \<Rightarrow> 'm \<rightharpoonup> nat" where
  "node_indexes T nodes =
     foldl (\<lambda>m (index, n). m(sn_message_id T n \<mapsto> index)) Map.empty (enumerate 0 nodes)"

text \<open>The closure mapped over the nodes: the parent index and the issues it pushes.\<close>

definition examine_child ::
  "('n, 'm, 'c) series_node \<Rightarrow> 'n list \<Rightarrow> ('m \<rightharpoonup> nat) \<Rightarrow> 'n \<Rightarrow> nat option \<times> 'n topology_issue list" where
  "examine_child T nodes indexes child =
     (case sn_causation_id T child of
        None \<Rightarrow> (None, [])
      | Some cause \<Rightarrow>
          (case indexes cause of
             None \<Rightarrow> (None, [UnresolvedParent child])
           | Some parent_index \<Rightarrow>
               if length nodes \<le> parent_index then (None, [])
               else
                 (Some parent_index,
                  if sn_correlation_id T child \<noteq> sn_correlation_id T (nodes ! parent_index)
                  then [CrossCorrelation child (nodes ! parent_index)] else [])))"

definition topology_issues ::
  "('n, 'm, 'c) series_node \<Rightarrow> 'n message_series \<Rightarrow> 'n topology_issue list" where
  "topology_issues T nodes =
     (let indexes = node_indexes T nodes;
          examined = map (examine_child T nodes indexes) nodes
      in concat (map snd examined)
         @ map (\<lambda>c. CausalCycle (map ((!) nodes) (filter (\<lambda>i. i < length nodes) c)))
             (find_cycles (map fst examined)))"

section \<open>Cycles of a parent function\<close>

text \<open>
  The specification of the search: a cycle lists distinct indexes each of which has the next one as
  its parent, the last one the first; it is reported starting with its smallest index.
\<close>

definition index_cycle :: "nat option list \<Rightarrow> nat list \<Rightarrow> bool" where
  "index_cycle parents c \<longleftrightarrow>
     c \<noteq> [] \<and> distinct c \<and> (\<forall>i \<in> set c. i < length parents)
     \<and> (\<forall>i < length c. parents ! (c ! i) = Some (c ! (Suc i mod length c)))"

definition reported_cycle :: "nat option list \<Rightarrow> nat list \<Rightarrow> bool" where
  "reported_cycle parents c \<longleftrightarrow> index_cycle parents c \<and> (\<forall>i \<in> set c. hd c \<le> i)"

definition parents_closed :: "nat option list \<Rightarrow> nat set \<Rightarrow> bool" where
  "parents_closed parents V \<longleftrightarrow>
     (\<forall>i \<in> V. \<forall>j. i < length parents \<longrightarrow> parents ! i = Some j \<longrightarrow> j < length parents \<longrightarrow> j \<in> V)"

lemma index_cycleD:
  assumes "index_cycle parents c"
  shows "c \<noteq> []" and "0 < length c" and "distinct c"
    and "\<And>i. i \<in> set c \<Longrightarrow> i < length parents"
    and "\<And>i. i < length c \<Longrightarrow> parents ! (c ! i) = Some (c ! (Suc i mod length c))"
    and "\<And>i. Suc i < length c \<Longrightarrow> parents ! (c ! i) = Some (c ! Suc i)"
  using assms by (simp_all add: index_cycle_def)

lemma index_cycle_closed:
  assumes "index_cycle parents c"
  shows "parents_closed parents (set c)"
  unfolding parents_closed_def
proof (intro ballI allI impI)
  fix i j assume "i \<in> set c" and j: "parents ! i = Some j"
  then obtain k where k: "k < length c" "i = c ! k"
    by (auto simp: in_set_conv_nth)
  then have "j = c ! (Suc k mod length c)"
    using index_cycleD(5) [OF assms k(1)] j by simp
  then show "j \<in> set c"
    using index_cycleD(2) [OF assms] by simp
qed

lemma cycle_inside_closed:
  assumes cyc: "index_cycle parents c" and closed: "parents_closed parents V"
    and meet: "set c \<inter> V \<noteq> {}"
  shows "set c \<subseteq> V"
proof -
  let ?n = "length c"
  obtain k where k: "k < ?n" "c ! k \<in> V"
    using meet by (auto simp: in_set_conv_nth)
  have pos: "0 < ?n"
    using k by linarith
  have around: "c ! ((k + j) mod ?n) \<in> V" for j
  proof (induction j)
    case 0
    then show ?case using k by simp
  next
    case (Suc j)
    let ?i = "(k + j) mod ?n"
    have "?i < ?n" using pos by simp
    then have "parents ! (c ! ?i) = Some (c ! (Suc ?i mod ?n))" "c ! ?i < length parents"
      "c ! (Suc ?i mod ?n) < length parents"
      using cyc pos by (auto simp: index_cycle_def)
    then have "c ! (Suc ?i mod ?n) \<in> V"
      using closed Suc.IH by (auto simp: parents_closed_def)
    then show ?case by (simp add: mod_Suc_eq)
  qed
  show ?thesis
  proof
    fix x assume "x \<in> set c"
    then obtain i where "i < ?n" "x = c ! i"
      by (auto simp: in_set_conv_nth)
    moreover have "(k + (?n - k + i)) mod ?n = i"
      using \<open>i < ?n\<close> k(1) by simp
    ultimately show "x \<in> V"
      using around [of "?n - k + i"] by simp
  qed
qed

lemma cycles_meet_same_set:
  assumes "index_cycle parents c" and "index_cycle parents d" and "set c \<inter> set d \<noteq> {}"
  shows "set c = set d"
  using cycle_inside_closed [OF assms(1) index_cycle_closed [OF assms(2)]]
    cycle_inside_closed [OF assms(2) index_cycle_closed [OF assms(1)]] assms(3) by blast

lemma cycle_determined_by_head:
  assumes c: "index_cycle parents c" and d: "index_cycle parents d" and hd: "hd c = hd d"
  shows "c = d"
proof (rule nth_equalityI)
  have ne: "c \<noteq> []" "d \<noteq> []"
    using c d by (auto simp: index_cycle_def)
  have "hd c \<in> set c \<inter> set d"
    using ne hd by (metis IntI hd_in_set)
  then have "set c = set d"
    using cycles_meet_same_set [OF c d] by blast
  then show len: "length c = length d"
    using c d distinct_card [of c] distinct_card [of d] by (simp add: index_cycle_def)
  fix i assume "i < length c"
  then show "c ! i = d ! i"
  proof (induction i)
    case 0
    then show ?case using ne hd by (simp add: hd_conv_nth)
  next
    case (Suc i)
    then have "Some (c ! Suc i) = parents ! (c ! i)" "parents ! (d ! i) = Some (d ! Suc i)"
      using index_cycleD(6) [OF c, of i] index_cycleD(6) [OF d, of i] len by simp_all
    then show ?case using Suc by simp
  qed
qed

lemma reported_cycles_disjoint:
  assumes c: "reported_cycle parents c" and d: "reported_cycle parents d"
    and meet: "set c \<inter> set d \<noteq> {}"
  shows "c = d"
proof -
  have cyc: "index_cycle parents c" "index_cycle parents d"
    using c d by (auto simp: reported_cycle_def)
  then have "set c = set d"
    using cycles_meet_same_set [OF _ _ meet] by blast
  then have "hd c \<in> set d" "hd d \<in> set c"
    using index_cycleD(1) [OF cyc(1)] index_cycleD(1) [OF cyc(2)] hd_in_set by blast+
  then have "hd c = hd d"
    using c d by (meson reported_cycle_def le_antisym)
  then show ?thesis using cycle_determined_by_head cyc by blast
qed

section \<open>Rotation to the earliest index\<close>

lemma position_Some:
  "position P xs = Some k \<Longrightarrow> k < length xs \<and> P (xs ! k)"
  by (induction xs arbitrary: k) (auto split: if_splits)

lemma position_exists:
  "x \<in> set xs \<Longrightarrow> P x \<Longrightarrow> \<exists>k. position P xs = Some k"
  by (induction xs) auto

lemma min_by_key_None: "min_by_key f xs = None \<longleftrightarrow> xs = []"
  by (cases xs) (auto split: option.splits)

lemma min_by_key_Some:
  "min_by_key f xs = Some x \<Longrightarrow> x \<in> set xs \<and> (\<forall>y \<in> set xs. f x \<le> f y)"
proof (induction xs arbitrary: x)
  case (Cons a xs)
  show ?case
  proof (cases "min_by_key f xs")
    case None
    then show ?thesis using Cons.prems min_by_key_None [of f xs] by simp
  next
    case (Some y)
    then have "x = (if f a \<le> f y then a else y)"
      using Cons.prems by simp
    then show ?thesis using Cons.IH [OF Some] by (auto intro: order_trans)
  qed
qed simp

lemma earliest_first_rotation:
  assumes "c \<noteq> []"
  shows "\<exists>k < length c. earliest_first c = rotate k c \<and> (\<forall>i \<in> set c. c ! k \<le> i)"
proof -
  obtain k x where m: "min_by_key snd (enumerate 0 c) = Some (k, x)"
    using assms min_by_key_None [of snd "enumerate 0 c"] by (cases "min_by_key snd (enumerate 0 c)")
      (auto simp: enumerate_eq_zip)
  then have k: "k < length c" "c ! k = x" and least: "\<forall>y \<in> set (enumerate 0 c). x \<le> snd y"
    using min_by_key_Some [OF m] by (auto simp: in_set_enumerate_eq)
  have "c ! k \<le> i" if mem: "i \<in> set c" for i
  proof -
    obtain j where "j < length c" "i = c ! j"
      using mem by (auto simp: in_set_conv_nth)
    then have "(j, i) \<in> set (enumerate 0 c)"
      by (simp add: in_set_enumerate_eq)
    then show ?thesis using least k(2) by fastforce
  qed
  then show ?thesis
    using m k(1) by (auto simp: earliest_first_def)
qed

lemma rotate_index_cycle:
  assumes "index_cycle parents c"
  shows "index_cycle parents (rotate k c)"
proof -
  have pos: "0 < length c"
    using assms by (simp add: index_cycle_def)
  have "parents ! (c ! ((k + i) mod length c)) = Some (c ! ((k + Suc i) mod length c))" for i
  proof -
    have "(k + i) mod length c < length c"
      using pos by simp
    then have "parents ! (c ! ((k + i) mod length c)) = Some (c ! (Suc ((k + i) mod length c) mod length c))"
      using assms unfolding index_cycle_def by blast
    then show ?thesis by (simp add: mod_Suc_eq)
  qed
  then have "\<forall>i < length c. parents ! (rotate k c ! i) = Some (rotate k c ! (Suc i mod length c))"
    using pos by (simp add: nth_rotate mod_add_right_eq)
  then show ?thesis
    using assms by (auto simp: index_cycle_def)
qed

lemma earliest_first_reported:
  assumes "index_cycle parents c"
  shows "reported_cycle parents (earliest_first c)" and "set (earliest_first c) = set c"
proof -
  have "c \<noteq> []" using assms by (simp add: index_cycle_def)
  then obtain k where k: "k < length c" "earliest_first c = rotate k c" "\<forall>i \<in> set c. c ! k \<le> i"
    using earliest_first_rotation by blast
  then show "set (earliest_first c) = set c" by simp
  have "hd (rotate k c) = c ! k"
    using k(1) by (simp add: hd_rotate_conv_nth \<open>c \<noteq> []\<close>)
  then show "reported_cycle parents (earliest_first c)"
    using k rotate_index_cycle [OF assms] by (simp add: reported_cycle_def)
qed

section \<open>What the walk finds\<close>

definition parent_chain :: "nat option list \<Rightarrow> nat list \<Rightarrow> bool" where
  "parent_chain parents path \<longleftrightarrow>
     distinct path \<and> (\<forall>i \<in> set path. i < length parents)
     \<and> (\<forall>i. Suc i < length path \<longrightarrow> parents ! (path ! i) = Some (path ! Suc i))"

text \<open>The ways in which a walk can end, and what it reports in each.\<close>

definition walk_end ::
  "nat option list \<Rightarrow> nat set \<Rightarrow> nat list \<Rightarrow> nat option \<Rightarrow> nat list option \<Rightarrow> bool" where
  "walk_end parents V path cur found \<longleftrightarrow>
     (case cur of
        None \<Rightarrow> found = None
      | Some j \<Rightarrow>
          (length parents \<le> j \<and> found = None)
          \<or> (j \<in> V \<and> found = None)
          \<or> (\<exists>k < length path. path ! k = j \<and> found = Some (earliest_first (drop k path))))"

definition marked :: "visit_state list \<Rightarrow> visit_state \<Rightarrow> nat set" where
  "marked states st = {i. i < length states \<and> states ! i = st}"

lemma marked_update:
  "i < length states \<Longrightarrow>
   marked (states[i := st]) st' = (if st = st' then insert i (marked states st') else marked states st' - {i})"
  by (auto simp: marked_def nth_list_update)

lemma parent_chain_snoc:
  assumes "parent_chain parents path" and "index < length parents" and "index \<notin> set path"
    and "path \<noteq> [] \<Longrightarrow> parents ! last path = Some index"
  shows "parent_chain parents (path @ [index])"
  unfolding parent_chain_def
proof (intro conjI allI impI)
  fix i assume "Suc i < length (path @ [index])"
  then consider "Suc i < length path" | "Suc i = length path"
    by (auto simp: less_Suc_eq)
  then show "parents ! ((path @ [index]) ! i) = Some ((path @ [index]) ! Suc i)"
  proof cases
    case 1
    then show ?thesis using assms(1) by (auto simp: parent_chain_def nth_append)
  next
    case 2
    then have "path \<noteq> []" by auto
    moreover have "last path = path ! i"
      using 2 calculation by (simp add: last_conv_nth flip: 2)
    ultimately show ?thesis using 2 assms(4) by (auto simp: nth_append)
  qed
qed (use assms in \<open>auto simp: parent_chain_def\<close>)

lemma walk_spec:
  assumes "walk parents states path cur = (states', path', found)"
    and "length states = length parents" and "parent_chain parents path"
    and "marked states Visiting = set path"
    and "path \<noteq> [] \<Longrightarrow> cur = parents ! last path"
  shows "length states' = length parents \<and> parent_chain parents path'
    \<and> marked states' Visiting = set path' \<and> marked states' Visited = marked states Visited
    \<and> set path \<subseteq> set path'
    \<and> (\<forall>start. cur = Some start \<longrightarrow> start \<in> marked states Unvisited \<longrightarrow> start \<in> set path')
    \<and> (path' \<noteq> [] \<longrightarrow>
        walk_end parents (marked states Visited) path' (parents ! last path') found)"
  using assms
proof (induction parents states path cur arbitrary: states' path' found rule: walk.induct)
  case (1 parents states path)
  then show ?case by (auto simp: walk_end_def)
next
  case (2 parents states path index)
  consider (outside) "length states \<le> index"
    | (known) "index < length states" "states ! index \<noteq> Unvisited"
    | (step) "index < length states" "states ! index = Unvisited"
    by linarith
  then show ?case
  proof cases
    case outside
    then have result: "states' = states" "path' = path" "found = None"
      using 2(2) by auto
    have "index \<notin> marked states Unvisited"
      using outside by (simp add: marked_def)
    moreover have "path \<noteq> [] \<Longrightarrow> walk_end parents V path (parents ! last path) None" for V
      using outside 2(3) 2(6) [symmetric] by (simp add: walk_end_def)
    ultimately show ?thesis
      using 2(3-5) result by simp
  next
    case known
    have result: "states' = states" "path' = path"
      using 2(2) known by auto
    have "walk_end parents (marked states Visited) path (Some index) found"
    proof (cases "states ! index")
      case Visiting
      then have "index \<in> set path"
        using known 2(5) by (auto simp: marked_def)
      then obtain k where "position (\<lambda>c. c = index) path = Some k"
        using position_exists [of index path "\<lambda>c. c = index"] by blast
      then show ?thesis
        using 2(2) known Visiting position_Some [of "\<lambda>c. c = index" path k]
        by (auto simp: walk_end_def)
    qed (use 2(2) known in \<open>auto simp: walk_end_def marked_def\<close>)
    moreover have "index \<notin> marked states Unvisited"
      using known by (simp add: marked_def)
    ultimately show ?thesis
      using 2(3-5) 2(6) [symmetric] result by simp
  next
    case step
    have fresh: "index \<notin> set path" "index < length parents"
      using step 2(3) by (simp_all add: marked_def flip: 2(5))
    have chain: "parent_chain parents (path @ [index])"
      using parent_chain_snoc [OF 2(4) fresh(2) fresh(1)] 2(6) by simp
    have "walk parents (states[index := Visiting]) (path @ [index]) (parent_at parents index)
          = (states', path', found)"
      using 2(2) step by simp
    note IH = 2(1) [OF _ _ this]
    have kept: "marked (states[index := Visiting]) Visited = marked states Visited"
      using step by (auto simp: marked_def nth_list_update split: if_splits)
    have "marked (states[index := Visiting]) Visiting = set (path @ [index])"
      using step(1) 2(5) by (simp add: marked_update)
    moreover have "path @ [index] \<noteq> [] \<Longrightarrow>
        parent_at parents index = parents ! last (path @ [index])"
      using fresh by (simp add: parent_at_def)
    ultimately have "length states' = length parents \<and> parent_chain parents path'
      \<and> marked states' Visiting = set path'
      \<and> marked states' Visited = marked (states[index := Visiting]) Visited
      \<and> set (path @ [index]) \<subseteq> set path'
      \<and> (path' \<noteq> [] \<longrightarrow> walk_end parents (marked (states[index := Visiting]) Visited) path'
            (parents ! last path') found)"
      using IH step 2(3) chain by simp
    then show ?thesis
      by (simp add: kept)
  qed
qed

lemma chain_tail_cycle:
  assumes chain: "parent_chain parents path" and k: "k < length path"
    and closing: "parents ! last path = Some (path ! k)"
  shows "index_cycle parents (drop k path)"
  unfolding index_cycle_def
proof (intro conjI allI impI)
  fix i assume i: "i < length (drop k path)"
  then consider "Suc i < length (drop k path)" | "Suc i = length (drop k path)"
    by linarith
  then show "parents ! (drop k path ! i)
      = Some (drop k path ! (Suc i mod length (drop k path)))"
  proof cases
    case 1
    then show ?thesis using chain k by (simp add: parent_chain_def)
  next
    case 2
    then have "i = length path - 1 - k"
      by simp
    then have "drop k path ! i = last path"
      using k by (cases "path = []") (simp_all add: last_conv_nth)
    then show ?thesis using 2 closing k by simp
  qed
qed (use chain k in \<open>auto simp: parent_chain_def dest: in_set_dropD\<close>)

text \<open>
  Any cycle inside the visited indexes and the path of a finished walk either lies in the visited
  ones or is the one the walk reports.
\<close>

lemma cycle_on_path:
  assumes chain: "parent_chain parents path" and ne: "path \<noteq> []"
    and ends: "walk_end parents V path (parents ! last path) found"
    and cyc: "reported_cycle parents c" and inside: "set c \<subseteq> V \<union> set path"
    and outside: "set c \<inter> V = {}"
  shows "found = Some c"
proof -
  have ic: "index_cycle parents c"
    using cyc by (simp add: reported_cycle_def)
  have "set c \<subseteq> set path"
    using inside outside by blast
  moreover have "hd c \<in> set c"
    using index_cycleD(1) [OF ic] by simp
  ultimately obtain m where m: "m < length path" "path ! m \<in> set c"
    by (metis in_set_conv_nth subsetD)
  have later: "path ! j \<in> set c" if "m \<le> j" "j < length path" for j
    using that
  proof (induction j rule: dec_induct)
    case (step j)
    then have "parents ! (path ! j) = Some (path ! Suc j)" "path ! Suc j < length parents"
      "path ! j < length parents" "path ! j \<in> set c"
      using chain by (auto simp: parent_chain_def)
    then show ?case
      using index_cycle_closed [OF ic] by (auto simp: parents_closed_def)
  qed (use m in simp)
  have last: "last path \<in> set c"
    using later [of "length path - 1"] m ne by (simp add: last_conv_nth)
  then obtain i where "i < length c" "c ! i = last path"
    by (auto simp: in_set_conv_nth)
  then obtain j where j: "parents ! last path = Some j" "j \<in> set c"
    using index_cycleD(2,5) [OF ic] by (metis mod_less_divisor nth_mem)
  then have "j < length parents" "j \<notin> V"
    using index_cycleD(4) [OF ic] outside by auto
  then obtain k where k: "k < length path" "path ! k = j"
    and found: "found = Some (earliest_first (drop k path))"
    using ends j(1) by (auto simp: walk_end_def)
  have tail: "index_cycle parents (drop k path)"
    using chain_tail_cycle [OF chain k(1)] j(1) k(2) by simp
  have "j \<in> set (drop k path)"
    using k by (metis Cons_nth_drop_Suc list.set_intros(1))
  then have "reported_cycle parents (earliest_first (drop k path))"
    and "set (earliest_first (drop k path)) \<inter> set c \<noteq> {}"
    using earliest_first_reported [OF tail] j(2) by auto
  then have "earliest_first (drop k path) = c"
    using reported_cycles_disjoint cyc by blast
  then show ?thesis using found by simp
qed

lemma foldl_visited:
  "set path \<subseteq> {..<length states} \<Longrightarrow>
   length (foldl (\<lambda>states i. states[i := Visited]) states path) = length states
   \<and> marked (foldl (\<lambda>states i. states[i := Visited]) states path) Visited
       = marked states Visited \<union> set path
   \<and> marked (foldl (\<lambda>states i. states[i := Visited]) states path) Visiting
       = marked states Visiting - set path"
  by (induction path arbitrary: states) (auto simp: marked_update)

definition search_inv :: "nat option list \<Rightarrow> visit_state list \<times> nat list list \<Rightarrow> bool" where
  "search_inv parents acc \<longleftrightarrow>
     (case acc of (states, cycles) \<Rightarrow>
        length states = length parents \<and> marked states Visiting = {}
        \<and> parents_closed parents (marked states Visited)
        \<and> set cycles = {c. reported_cycle parents c \<and> set c \<subseteq> marked states Visited}
        \<and> distinct cycles)"

lemma path_closes:
  assumes chain: "parent_chain parents path" and ne: "path \<noteq> []"
    and ends: "walk_end parents V path (parents ! last path) found"
    and closed: "parents_closed parents V"
  shows "parents_closed parents (V \<union> set path)"
  unfolding parents_closed_def
proof (intro ballI allI impI)
  fix i j assume i: "i \<in> V \<union> set path" and bound: "i < length parents" "j < length parents"
    and j: "parents ! i = Some j"
  show "j \<in> V \<union> set path"
  proof (cases "i \<in> V")
    case True
    then show ?thesis using closed bound j by (auto simp: parents_closed_def)
  next
    case False
    then obtain k where k: "k < length path" "i = path ! k"
      using i by (auto simp: in_set_conv_nth)
    show ?thesis
    proof (cases "Suc k < length path")
      case True
      then have "parents ! i = Some (path ! Suc k)"
        using chain k(2) by (simp add: parent_chain_def)
      then show ?thesis using True j by simp
    next
      case False
      then have "i = last path"
        using k ne by (simp add: last_conv_nth) (metis diff_Suc_1 less_SucE not_less_eq Suc_pred
            length_greater_0_conv)
      then show ?thesis
        using ends j bound by (auto simp: walk_end_def)
    qed
  qed
qed

lemma visit_from_inv:
  assumes inv: "search_inv parents acc"
  shows "search_inv parents (visit_from parents acc start)
    \<and> marked (fst acc) Visited \<subseteq> marked (fst (visit_from parents acc start)) Visited
    \<and> (start < length parents \<longrightarrow> start \<in> marked (fst (visit_from parents acc start)) Visited)"
proof -
  obtain states cycles where acc: "acc = (states, cycles)"
    by (cases acc)
  let ?V = "marked states Visited"
  have len: "length states = length parents" and none: "marked states Visiting = {}"
    and closed: "parents_closed parents ?V" and dist: "distinct cycles"
    and cyc: "set cycles = {c. reported_cycle parents c \<and> set c \<subseteq> ?V}"
    using inv by (auto simp: search_inv_def acc)
  show ?thesis
  proof (cases "start \<in> marked states Unvisited")
    case False
    then have "start < length parents \<Longrightarrow> start \<in> ?V"
      using len none by (cases "states ! start") (auto simp: marked_def)
    then show ?thesis
      using False inv by (auto simp: visit_from_def acc marked_def)
  next
    case True
    obtain states' path found where w: "walk parents states [] (Some start) = (states', path, found)"
      by (cases "walk parents states [] (Some start)")
    have "parent_chain parents []"
      by (simp add: parent_chain_def)
    note w_spec = walk_spec [OF w len this]
    have "start \<in> set path"
      using w_spec none True by simp
    then have ne: "path \<noteq> []"
      by auto
    then have spec: "length states' = length parents" "parent_chain parents path"
      "marked states' Visiting = set path" "marked states' Visited = ?V" "start \<in> set path"
      "walk_end parents ?V path (parents ! last path) found"
      using w_spec none True by simp_all
    let ?new = "foldl (\<lambda>states i. states[i := Visited]) states' path"
    have range: "set path \<subseteq> {..<length states'}"
      using spec(1,2) by (auto simp: parent_chain_def)
    have new: "length ?new = length parents" "marked ?new Visited = ?V \<union> set path"
      "marked ?new Visiting = {}"
      using foldl_visited [OF range] spec by auto
    have "marked states' Visited \<inter> marked states' Visiting = {}"
      by (auto simp: marked_def)
    then have apart: "?V \<inter> set path = {}"
      using spec(3,4) by simp
    have result: "visit_from parents acc start
        = (?new, cycles @ (case found of None \<Rightarrow> [] | Some c \<Rightarrow> [c]))"
      using True w by (simp add: visit_from_def acc marked_def)
    have found: "reported_cycle parents c \<and> set c \<subseteq> set path" if hit: "found = Some c" for c
    proof -
      obtain k where k: "k < length path" "parents ! last path = Some (path ! k)"
        "c = earliest_first (drop k path)"
        using spec(6) hit by (auto simp: walk_end_def split: option.splits)
      then show ?thesis
        using earliest_first_reported [OF chain_tail_cycle [OF spec(2) k(1,2)]] set_drop_subset
        by simp
    qed
    have "c \<in> set cycles \<or> found = Some c"
      if "reported_cycle parents c" "set c \<subseteq> ?V \<union> set path" for c
    proof (cases "set c \<inter> ?V = {}")
      case True
      then show ?thesis using cycle_on_path [OF spec(2) ne spec(6)] that by blast
    next
      case False
      then have "set c \<subseteq> ?V"
        using cycle_inside_closed [of parents c] closed that(1) by (simp add: reported_cycle_def)
      then show ?thesis using cyc that(1) by simp
    qed
    then have "set (cycles @ (case found of None \<Rightarrow> [] | Some c \<Rightarrow> [c]))
        = {c. reported_cycle parents c \<and> set c \<subseteq> ?V \<union> set path}"
      using cyc found by (auto split: option.splits)
    moreover have "c \<notin> set cycles" if "found = Some c" for c
    proof -
      have "c \<noteq> []" "set c \<subseteq> set path"
        using found [OF that] by (auto simp: reported_cycle_def index_cycle_def)
      then have "\<not> set c \<subseteq> ?V"
        using apart hd_in_set [of c] by blast
      then show ?thesis using cyc by simp
    qed
    then have "distinct (cycles @ (case found of None \<Rightarrow> [] | Some c \<Rightarrow> [c]))"
      using dist by (auto split: option.splits)
    ultimately show ?thesis
      using new path_closes [OF spec(2) ne spec(6) closed] spec(5)
      unfolding result search_inv_def by (simp add: acc)
  qed
qed

lemma search_inv_all:
  assumes "search_inv parents acc"
  shows "search_inv parents (foldl (visit_from parents) acc starts)
    \<and> marked (fst acc) Visited \<subseteq> marked (fst (foldl (visit_from parents) acc starts)) Visited
    \<and> (\<forall>start \<in> set starts. start < length parents \<longrightarrow>
          start \<in> marked (fst (foldl (visit_from parents) acc starts)) Visited)"
  using assms
proof (induction starts arbitrary: acc)
  case (Cons start starts)
  show ?case
    using visit_from_inv [OF Cons.prems, of start] Cons.IH [of "visit_from parents acc start"]
    by auto
qed simp

lemma reported_first_index: "reported_cycle parents c \<Longrightarrow> first_index c = hd c"
  by (cases c) (auto simp: reported_cycle_def index_cycle_def first_index_def)

text \<open>The search reports every cycle of the graph once, in the order of their first indexes.\<close>

lemma find_cycles_exact:
  "set (find_cycles parents) = {c. reported_cycle parents c}"
  "sorted_wrt (<) (map hd (find_cycles parents))"
proof -
  let ?acc = "foldl (visit_from parents) (replicate (length parents) Unvisited, [])
    [0..<length parents]"
  have "marked (replicate (length parents) Unvisited) st = {}" if "st \<noteq> Unvisited" for st
    using that by (auto simp: marked_def)
  then have "search_inv parents (replicate (length parents) Unvisited, [])"
    by (auto simp: search_inv_def parents_closed_def reported_cycle_def index_cycle_def)
  note all = search_inv_all [OF this, of "[0..<length parents]"]
  obtain states cycles where acc: "?acc = (states, cycles)"
    by (cases ?acc)
  have "set c \<subseteq> marked states Visited" if "reported_cycle parents c" for c
    using all acc that by (auto simp: reported_cycle_def index_cycle_def)
  then have set: "set cycles = {c. reported_cycle parents c}" and dist: "distinct cycles"
    using all acc by (auto simp: search_inv_def)
  have found: "find_cycles parents = sort_key first_index cycles"
    by (simp add: find_cycles_def acc)
  then show "set (find_cycles parents) = {c. reported_cycle parents c}"
    using set by simp
  have "map hd (find_cycles parents) = map first_index (find_cycles parents)"
    using set reported_first_index by (auto simp: found)
  moreover have "sorted (map first_index (find_cycles parents))"
    by (simp add: found)
  ultimately have "sorted (map hd (find_cycles parents))"
    by metis
  moreover have "inj_on hd {c. reported_cycle parents c}"
    using cycle_determined_by_head by (auto simp: inj_on_def reported_cycle_def)
  then have "distinct (map hd (find_cycles parents))"
    using set dist by (simp add: found distinct_map)
  ultimately show "sorted_wrt (<) (map hd (find_cycles parents))"
    by (simp add: strict_sorted_iff)
qed

section \<open>Well-formed series\<close>

definition series_ok :: "('n, 'm, 'c) series_node \<Rightarrow> 'n message_series \<Rightarrow> bool" where
  "series_ok T nodes \<longleftrightarrow>
     distinct (map (sn_message_id T) nodes) \<and> length nodes \<le> max_message_series_nodes"

lemma series_get_None:
  "series_get T nodes m = None \<longleftrightarrow> m \<notin> sn_message_id T ` set nodes"
  by (auto simp: series_get_def find_None_iff)

lemma series_get_Some_in:
  "series_get T nodes m = Some n \<Longrightarrow> n \<in> set nodes \<and> sn_message_id T n = m"
  by (auto simp: series_get_def find_Some_iff)

lemma series_get_Some:
  assumes "series_ok T nodes"
  shows "series_get T nodes m = Some n \<longleftrightarrow> n \<in> set nodes \<and> sn_message_id T n = m"
proof
  assume n: "n \<in> set nodes \<and> sn_message_id T n = m"
  then obtain n' where "series_get T nodes m = Some n'"
    using series_get_None [of T nodes m] by auto
  then show "series_get T nodes m = Some n"
    using series_get_Some_in [of T nodes m n'] n assms
    by (auto simp: series_ok_def distinct_map dest: inj_onD)
qed (rule series_get_Some_in)

lemma series_insert_ok:
  assumes "series_ok T nodes"
  shows "series_ok T (snd (series_insert T nodes n))"
  using assms series_get_None [of T nodes "sn_message_id T n"]
  by (auto simp: series_insert_def series_ok_def split: option.splits)

lemma series_insert_members:
  "series_insert T nodes n = (Inr r, nodes') \<Longrightarrow> set nodes' = insert n (set nodes)"
  by (auto simp: series_insert_def split: option.splits if_splits dest: series_get_Some_in)

lemma series_extend_ok:
  "series_extend T nodes ns = Inr nodes' \<Longrightarrow> series_ok T nodes \<Longrightarrow>
   series_ok T nodes' \<and> set nodes' = set nodes \<union> set ns"
proof (induction ns arbitrary: nodes)
  case (Cons n ns)
  obtain r nodes1 where i: "series_insert T nodes n = (Inr r, nodes1)"
    using Cons.prems(1) by (auto split: prod.splits sum.splits)
  then have "series_ok T nodes1"
    using series_insert_ok [OF Cons.prems(2), of n] by simp
  moreover have "series_extend T nodes1 ns = Inr nodes'"
    using Cons.prems(1) i by simp
  ultimately show ?case
    using Cons.IH series_insert_members [OF i] by auto
qed simp

lemma series_insert_fresh:
  "series_ok T (nodes @ n # ns) \<Longrightarrow> series_insert T nodes n = (Inr SeriesInserted, nodes @ [n])"
proof -
  assume ok: "series_ok T (nodes @ n # ns)"
  then have "series_get T nodes (sn_message_id T n) = None"
    by (auto simp: series_get_None series_ok_def)
  then show ?thesis
    using ok by (auto simp: series_insert_def series_ok_def)
qed

lemma series_visit_seq_ok:
  "series_ok T (nodes @ ns) \<Longrightarrow> series_visit_seq T nodes (map Inr ns) = Inr (nodes @ ns)"
  by (induction ns arbitrary: nodes) (auto simp: series_insert_fresh)

section \<open>Causal cycles of a series\<close>

text \<open>
  What the report is about, in terms of the messages alone: the issue of an edge, and the cycles of
  causation with the member that was observed first in front.
\<close>

definition edge_issues ::
  "('n, 'm, 'c) series_node \<Rightarrow> 'n message_series \<Rightarrow> 'n \<Rightarrow> 'n topology_issue list" where
  "edge_issues T nodes child =
     (case sn_causation_id T child of
        None \<Rightarrow> []
      | Some cause \<Rightarrow>
          (case series_get T nodes cause of
             None \<Rightarrow> [UnresolvedParent child]
           | Some parent \<Rightarrow>
               if sn_correlation_id T child \<noteq> sn_correlation_id T parent
               then [CrossCorrelation child parent] else []))"

definition causal_cycle :: "('n, 'm, 'c) series_node \<Rightarrow> 'n message_series \<Rightarrow> 'n list \<Rightarrow> bool" where
  "causal_cycle T nodes c \<longleftrightarrow>
     c \<noteq> [] \<and> distinct c \<and> set c \<subseteq> set nodes
     \<and> (\<forall>i < length c. sn_causation_id T (c ! i)
           = Some (sn_message_id T (c ! (Suc i mod length c))))
     \<and> find (\<lambda>n. n \<in> set c) nodes = Some (hd c)"

lemma node_indexes_snoc:
  "node_indexes T (nodes @ [n]) = (node_indexes T nodes)(sn_message_id T n \<mapsto> length nodes)"
  by (simp add: node_indexes_def enumerate_append_eq)

lemma node_indexes_Some:
  "distinct (map (sn_message_id T) nodes) \<Longrightarrow>
   node_indexes T nodes m = Some i \<longleftrightarrow> i < length nodes \<and> sn_message_id T (nodes ! i) = m"
proof (induction nodes rule: rev_induct)
  case (snoc n nodes)
  then have "sn_message_id T n \<notin> sn_message_id T ` set nodes"
    by simp
  then have "sn_message_id T (nodes ! i) \<noteq> sn_message_id T n" if "i < length nodes" for i
    using that by (metis imageI nth_mem)
  then show ?case
    using snoc by (auto simp: node_indexes_snoc nth_append less_Suc_eq)
qed (simp add: node_indexes_def)

definition parent_indexes :: "('n, 'm, 'c) series_node \<Rightarrow> 'n message_series \<Rightarrow> nat option list" where
  "parent_indexes T nodes = map (fst \<circ> examine_child T nodes (node_indexes T nodes)) nodes"

lemma parent_indexes_nth:
  assumes "distinct (map (sn_message_id T) nodes)" and "i < length nodes"
  shows "parent_indexes T nodes ! i = Some j \<longleftrightarrow>
    j < length nodes \<and> sn_causation_id T (nodes ! i) = Some (sn_message_id T (nodes ! j))"
proof (cases "sn_causation_id T (nodes ! i)")
  case (Some cause)
  then have "parent_indexes T nodes ! i = Some j \<longleftrightarrow>
      node_indexes T nodes cause = Some j \<and> j < length nodes"
    using assms(2) by (auto simp: parent_indexes_def examine_child_def split: option.splits)
  then show ?thesis
    using Some node_indexes_Some [OF assms(1), of cause j] by auto
qed (use assms(2) in \<open>simp add: parent_indexes_def examine_child_def\<close>)

lemma examine_child_issues:
  assumes "series_ok T nodes"
  shows "snd (examine_child T nodes (node_indexes T nodes) child) = edge_issues T nodes child"
proof (cases "sn_causation_id T child")
  case (Some cause)
  have dist: "distinct (map (sn_message_id T) nodes)"
    using assms by (simp add: series_ok_def)
  show ?thesis
  proof (cases "node_indexes T nodes cause")
    case None
    then have "\<forall>i < length nodes. sn_message_id T (nodes ! i) \<noteq> cause"
      using node_indexes_Some [OF dist, of cause] by auto
    then have "series_get T nodes cause = None"
      by (auto simp: series_get_None in_set_conv_nth)
    then show ?thesis
      using Some None by (simp add: examine_child_def edge_issues_def)
  next
    case (Some i)
    then have "i < length nodes" "series_get T nodes cause = Some (nodes ! i)"
      using node_indexes_Some [OF dist, of cause] series_get_Some [OF assms] by auto
    then show ?thesis
      using \<open>sn_causation_id T child = Some cause\<close> Some
      by (simp add: examine_child_def edge_issues_def)
  qed
qed (simp add: examine_child_def edge_issues_def)

lemma find_first_member:
  assumes dist: "distinct nodes" and "is \<noteq> []" and range: "\<forall>i \<in> set is. i < length nodes"
  shows "find (\<lambda>n. n \<in> set (map ((!) nodes) is)) nodes = Some (nodes ! hd is)
    \<longleftrightarrow> (\<forall>i \<in> set is. hd is \<le> i)"
proof -
  have member: "nodes ! j \<in> set (map ((!) nodes) is) \<longleftrightarrow> j \<in> set is" if "j < length nodes" for j
    using that dist range by (auto simp: nth_eq_iff_index_eq)
  have hd: "hd is \<in> set is" "hd is < length nodes"
    using assms by auto
  show ?thesis
  proof
    assume "find (\<lambda>n. n \<in> set (map ((!) nodes) is)) nodes = Some (nodes ! hd is)"
    then obtain k where k: "k < length nodes" "nodes ! k = nodes ! hd is"
      "\<forall>j < k. nodes ! j \<notin> set (map ((!) nodes) is)"
      by (auto simp: find_Some_iff)
    then have "k = hd is"
      using dist hd(2) by (simp add: nth_eq_iff_index_eq)
    then show "\<forall>i \<in> set is. hd is \<le> i"
      using k(3) member range by (metis not_le_imp_less)
  next
    assume least: "\<forall>i \<in> set is. hd is \<le> i"
    have "nodes ! j \<notin> set (map ((!) nodes) is)" if "j < hd is" for j
      using that hd(2) member [of j] least by auto
    then show "find (\<lambda>n. n \<in> set (map ((!) nodes) is)) nodes = Some (nodes ! hd is)"
      using hd member [of "hd is"] by (auto simp: find_Some_iff intro!: exI [of _ "hd is"])
  qed
qed

lemma causal_cycle_indexes:
  assumes ok: "series_ok T nodes" and range: "\<forall>i \<in> set is. i < length nodes"
  shows "causal_cycle T nodes (map ((!) nodes) is) \<longleftrightarrow> reported_cycle (parent_indexes T nodes) is"
proof (cases "is = []")
  case False
  have ids: "distinct (map (sn_message_id T) nodes)"
    using ok by (simp add: series_ok_def)
  then have dist: "distinct nodes"
    by (simp add: distinct_map)
  have "inj_on ((!) nodes) (set is)"
    using dist range by (auto simp: inj_on_def nth_eq_iff_index_eq)
  then have "distinct (map ((!) nodes) is) = distinct is"
    by (simp add: distinct_map)
  moreover have "sn_causation_id T (map ((!) nodes) is ! k)
        = Some (sn_message_id T (map ((!) nodes) is ! (Suc k mod length is)))
      \<longleftrightarrow> parent_indexes T nodes ! (is ! k) = Some (is ! (Suc k mod length is))"
    if "k < length is" for k
    using that range parent_indexes_nth [OF ids] by (simp add: False)
  moreover have "hd (map ((!) nodes) is) = nodes ! hd is"
    using False by (simp add: hd_map)
  moreover have "set (map ((!) nodes) is) \<subseteq> set nodes"
    using range by auto
  moreover have "length (parent_indexes T nodes) = length nodes"
    by (simp add: parent_indexes_def)
  ultimately show ?thesis
    using find_first_member [OF dist False range] False range
    by (simp add: causal_cycle_def reported_cycle_def index_cycle_def)
qed (simp add: causal_cycle_def reported_cycle_def index_cycle_def)

lemma causal_cycles_image:
  assumes "series_ok T nodes"
  shows "{c. causal_cycle T nodes c}
    = map ((!) nodes) ` {is. reported_cycle (parent_indexes T nodes) is}"
proof (intro equalityI subsetI)
  fix c assume c: "c \<in> {c. causal_cycle T nodes c}"
  then have "\<forall>n \<in> set c. \<exists>i < length nodes. nodes ! i = n"
    by (auto simp: causal_cycle_def in_set_conv_nth subset_iff)
  then obtain f where f: "\<forall>n \<in> set c. f n < length nodes \<and> nodes ! f n = n"
    by metis
  then have "map ((!) nodes) (map f c) = c"
    by (auto intro: map_idI)
  moreover have "\<forall>i \<in> set (map f c). i < length nodes"
    using f by auto
  ultimately show "c \<in> map ((!) nodes) ` {is. reported_cycle (parent_indexes T nodes) is}"
    using causal_cycle_indexes [OF assms, of "map f c"] c by (metis image_eqI mem_Collect_eq)
next
  fix c assume "c \<in> map ((!) nodes) ` {is. reported_cycle (parent_indexes T nodes) is}"
  then obtain "is" where "is": "c = map ((!) nodes) is" "reported_cycle (parent_indexes T nodes) is"
    by auto
  then have "\<forall>i \<in> set is. i < length nodes"
    by (auto simp: reported_cycle_def index_cycle_def parent_indexes_def)
  then show "c \<in> {c. causal_cycle T nodes c}"
    using causal_cycle_indexes [OF assms] "is" by simp
qed

lemma increasing_indexes_filter:
  assumes "sorted_wrt (<) is" and "\<forall>i \<in> set is. i < length nodes" and "distinct nodes"
  shows "map ((!) nodes) is = filter (\<lambda>n. n \<in> set (map ((!) nodes) is)) nodes"
proof -
  have "is = filter (\<lambda>i. i \<in> set is) [0..<length nodes]"
    using assms(1,2)
    by (intro sorted_distinct_set_unique) (auto simp: strict_sorted_iff intro: sorted_wrt_filter)
  moreover have "filter (\<lambda>i. i \<in> set is) [0..<length nodes]
      = filter ((\<lambda>n. n \<in> set (map ((!) nodes) is)) \<circ> (!) nodes) [0..<length nodes]"
    using assms(2,3) by (intro filter_cong) (auto simp: nth_eq_iff_index_eq)
  ultimately have "map ((!) nodes) is
      = filter (\<lambda>n. n \<in> set (map ((!) nodes) is)) (map ((!) nodes) [0..<length nodes])"
    by (simp add: filter_map)
  then show ?thesis
    by (simp only: map_nth)
qed

lemma topology_issues_split:
  assumes ok: "series_ok T nodes"
  shows "\<exists>cycles. topology_issues T nodes
      = concat (map (edge_issues T nodes) nodes) @ map CausalCycle cycles
    \<and> set cycles = {c. causal_cycle T nodes c}
    \<and> map hd cycles = filter (\<lambda>n. \<exists>c. causal_cycle T nodes c \<and> hd c = n) nodes"
proof -
  let ?found = "find_cycles (parent_indexes T nodes)"
  let ?cycles = "map (map ((!) nodes)) ?found"
  have range: "is \<noteq> [] \<and> (\<forall>i \<in> set is. i < length nodes)" if "is \<in> set ?found" for "is"
    using that find_cycles_exact(1) [of "parent_indexes T nodes"]
    by (auto simp: reported_cycle_def index_cycle_def parent_indexes_def)
  then have plain: "filter (\<lambda>i. i < length nodes) is = is" if "is \<in> set ?found" for "is"
    using that by (simp add: filter_id_conv)
  have "snd \<circ> examine_child T nodes (node_indexes T nodes) = edge_issues T nodes"
    using examine_child_issues [OF ok] by (simp add: fun_eq_iff)
  then have report: "topology_issues T nodes
      = concat (map (edge_issues T nodes) nodes) @ map CausalCycle ?cycles"
    using plain by (simp add: topology_issues_def Let_def flip: parent_indexes_def)
  have set: "set ?cycles = {c. causal_cycle T nodes c}"
    using causal_cycles_image [OF ok] find_cycles_exact(1) [of "parent_indexes T nodes"] by simp
  have heads: "map hd ?cycles = map ((!) nodes) (map hd ?found)"
    using range by (simp add: hd_map)
  have "distinct nodes"
    using ok by (simp add: series_ok_def distinct_map)
  moreover have "\<forall>i \<in> set (map hd ?found). i < length nodes"
    using range by auto
  ultimately have "map hd ?cycles = filter (\<lambda>n. n \<in> set (map hd ?cycles)) nodes"
    using increasing_indexes_filter [OF find_cycles_exact(2) [of "parent_indexes T nodes"]] heads
    by metis
  also have "\<dots> = filter (\<lambda>n. \<exists>c. causal_cycle T nodes c \<and> hd c = n) nodes"
  proof (rule filter_cong)
    fix n
    show "n \<in> set (map hd ?cycles) \<longleftrightarrow> (\<exists>c. causal_cycle T nodes c \<and> hd c = n)"
      using set by (metis (mono_tags, lifting) imageE imageI list.set_map mem_Collect_eq)
  qed simp
  finally have "map hd ?cycles = filter (\<lambda>n. \<exists>c. causal_cycle T nodes c \<and> hd c = n) nodes" .
  then show ?thesis
    using report set by blast
qed

end
