(* ===== verification/MessagingProperties.thy ===== *)
theory MessagingProperties
  imports Delivery Responses Series
begin

text \<open>
  The properties of the messaging contracts: addresses and delivery names are read back as they were
  built, caller metadata keeps its bounds, and message series report exactly what is wrong with their
  topology.
\<close>

text \<open>C38: Addresses round-trip. What the builder accepts is parsed back with the kind, application,
  traffic scope, bounded context and name it was built from, and every address the parser accepts
  was built: there is exactly one way to build it.\<close>

theorem address_roundtrip:
  "(build_address kind a scope c n = Inr v \<longleftrightarrow>
      parse_address_parts v = Inr kind \<and> address_application v = a \<and> address_traffic_scope v = scope
      \<and> address_context v = c \<and> address_name v = n)
    \<and> (parse_address_parts v = Inr kind \<longrightarrow> length v \<le> max_address_bytes)"
proof -
  have "build_address kind a scope c n = Inr v"
    if parsed: "parse_address_parts v = Inr kind" and parts: "address_application v = a"
      "address_traffic_scope v = scope" "address_context v = c" "address_name v = n"
  proof -
    obtain a' scope' c' n' where built: "build_address kind a' scope' c' n' = Inr v"
      using parsed_is_built [OF parsed] by blast
    then show ?thesis
      using built_accessors [OF built] parts by simp
  qed
  moreover have "length v \<le> max_address_bytes" if parsed: "parse_address_parts v = Inr kind"
    using parsed_is_built [OF parsed] by (auto simp: build_address_ok_iff max_address_bytes_def)
  ultimately show ?thesis
    using parse_built [of kind a scope c n v] built_accessors [of kind a scope c n v] by blast
qed

theorem address_roundtrip_witness:
  "build_address CommandKind ''shop'' TestScope ''sales'' ''place'' = Inr ''shop.test.command.sales.place''
    \<and> address_name ''shop.test.command.sales.place'' = ''place''"
proof -
  have "build_address CommandKind ''shop'' TestScope ''sales'' ''place'' =
      Inr ''shop.test.command.sales.place''"
    by (simp add: build_address_ok_iff address_text_def plain_segment_def scope_char_def
        is_ascii_lowercase_def)
  then show ?thesis using address_roundtrip by blast
qed

text \<open>Delivery names round-trip. A text is accepted as a consumer or durable name exactly when there
  is a unique application, traffic scope, bounded context, purpose and version that builds it, and
  the accessors return the application, scope and context.\<close>

theorem delivery_name_roundtrip:
  "(parse_delivery_name v field = Inr v' \<longleftrightarrow>
      v' = v \<and> (\<exists>!(a, scope, c, p, n). build_delivery_name a scope c p n field = Inr v))
    \<and> (build_delivery_name a scope c p n field = Inr v \<longrightarrow>
      consumer_application v = a \<and> delivery_name_traffic_scope v = scope \<and> consumer_context v = c)"
proof -
  have unique: "(a, scope, c, p, n) = (a', scope', c', p', n')"
    if b: "build_delivery_name a scope c p n field = Inr v"
      and b': "build_delivery_name a' scope' c' p' n' field = Inr v" for a scope c p n a' scope' c' p' n'
  proof -
    from b b' have plain: "plain_segment a" "plain_segment c" "plain_segment p"
      "plain_segment a'" "plain_segment c'" "plain_segment p'"
      and v: "v = delivery_text a scope c p n" "v = delivery_text a' scope' c' p' n'"
      unfolding build_delivery_name_ok_iff by blast+
    have "split_dashes (delivery_text a scope c p n) = split_dashes (delivery_text a' scope' c' p' n')"
      using v by simp
    then have "p = p'" "decimal (unat n) = decimal (unat n')"
      using built_delivery_accessors [OF b] built_delivery_accessors [OF b']
      by (cases scope; simp add: split_delivery_text [OF plain(1-3)] split_delivery_text [OF plain(4-6)])+
    then have "n = n'"
      by (metis decimal_value_decimal unsigned_word_eqI)
    then show ?thesis
      using built_delivery_accessors [OF b] built_delivery_accessors [OF b'] \<open>p = p'\<close> by simp
  qed
  have parse: "parse_delivery_name v field = Inr v' \<longleftrightarrow>
      v' = v \<and> (\<exists>a scope c p n. build_delivery_name a scope c p n field = Inr v)"
    using parsed_delivery_name_is_built [of v field v'] parse_built_delivery_name [of _ _ _ _ _ field v field]
    by blast
  have unique_parts: "(\<exists>a scope c p n. build_delivery_name a scope c p n field = Inr v) \<longleftrightarrow>
      (\<exists>!(a, scope, c, p, n). build_delivery_name a scope c p n field = Inr v)"
  proof
    assume "\<exists>a scope c p n. build_delivery_name a scope c p n field = Inr v"
    then obtain a scope c p n where b: "build_delivery_name a scope c p n field = Inr v"
      by blast
    show "\<exists>!(a, scope, c, p, n). build_delivery_name a scope c p n field = Inr v"
      by (rule ex1I [of _ "(a, scope, c, p, n)"]) (use b in \<open>auto dest: unique [OF b]\<close>)
  next
    assume "\<exists>!(a, scope, c, p, n). build_delivery_name a scope c p n field = Inr v"
    then obtain t where "case t of (a, scope, c, p, n) \<Rightarrow> build_delivery_name a scope c p n field = Inr v"
      by blast
    then show "\<exists>a scope c p n. build_delivery_name a scope c p n field = Inr v"
      by (cases t) (simp, blast)
  qed
  show ?thesis
    using built_delivery_accessors [of a scope c p n field v]
    by (intro conjI impI parse [unfolded unique_parts])
qed

theorem delivery_name_roundtrip_witness:
  "build_delivery_name ''shop'' NormalScope ''sales'' ''orders'' 3 ''consumer'' = Inr ''shop--sales--orders--v3''
    \<and> consumer_context ''shop--sales--orders--v3'' = ''sales''"
proof -
  have "decimal 3 = ''3''"
    by code_simp
  then have "build_delivery_name ''shop'' NormalScope ''sales'' ''orders'' 3 ''consumer'' =
      Inr ''shop--sales--orders--v3''"
    by (simp add: build_delivery_name_ok_iff delivery_text_def plain_segment_def scope_char_def
        is_ascii_lowercase_def)
  then show ?thesis using delivery_name_roundtrip by blast
qed

text \<open>C39: Caller metadata stays well-formed. Insertion and removal keep at most 32 entries and 8192
  bytes of valid, lower-case, unreserved names and valid values; a refused insertion changes nothing,
  and after an accepted one a lookup, which ignores case, finds the value under that name and what
  was there before under every other.\<close>

theorem caller_metadata_well_formed:
  assumes "metadata_ok m" and "metadata_insert m name value = (r, m')"
  shows "metadata_ok m' \<and> metadata_ok (snd (metadata_remove m name))
    \<and> (case r of
         Inl e \<Rightarrow> m' = m
       | Inr previous \<Rightarrow> previous = metadata_get m name
           \<and> (\<forall>other. metadata_get m' other =
                (if to_ascii_lowercase other = to_ascii_lowercase name then Some value
                 else metadata_get m other)))"
proof (cases r)
  case (Inl e)
  then have "m' = m"
    using assms(2) by (auto simp: metadata_insert_def split: sum.splits prod.splits)
  then show ?thesis
    using Inl assms metadata_remove_keeps by simp
next
  case (Inr previous)
  then obtain n where "validate_name name = Inr n" "m' = fmupd n value m" "previous = fmlookup m n"
    using assms(2) metadata_insert_ok by metis
  then show ?thesis
    using Inr assms validate_name_ok(1) metadata_insert_keeps metadata_remove_keeps
    by (auto simp: metadata_get_def)
qed

theorem caller_metadata_well_formed_witness:
  "metadata_ok (snd (metadata_insert fmempty ''tenant'' ''blue''))
    \<and> metadata_get (snd (metadata_insert fmempty ''tenant'' ''blue'')) ''tenant'' = Some ''blue''"
proof -
  have "validate_name ''tenant'' = Inr ''tenant''" "validate_value ''blue'' = Inr ''blue''"
    by (simp_all add: validate_name_def validate_value_def to_ascii_lowercase_def ascii_lowercase_def
        is_ascii_uppercase_def is_ascii_lowercase_def is_ascii_alphanumeric_def
        starts_with_def reserved_names_def is_ascii_def has_control_def is_control_def chars_def
        max_metadata_name_bytes_def max_metadata_value_bytes_def)
  then have "fst (metadata_insert fmempty ''tenant'' ''blue'') = Inr None"
    by (simp add: metadata_insert_def projected_entries_def projected_bytes_def metadata_len_def
        checked_total_bytes_def metadata_entries_def max_metadata_bytes_def max_metadata_entries_def
        checked_add_usize_def usize_bound_def sorted_list_of_fset.rep_eq)
  then show ?thesis
    using caller_metadata_well_formed [OF metadata_ok_empty, of "''tenant''" "''blue''"
        "Inr None" "snd (metadata_insert fmempty ''tenant'' ''blue'')"]

    by (simp add: prod_eq_iff)
qed

text \<open>A message series is always a bounded collection of messages with distinct identities.
  Building one from nodes keeps every node, reading back the nodes of a series gives the series, and
  an insertion appends a new message, recognises one that is already there, or changes nothing and
  says whether the identity is taken by another message or the series is full.\<close>

theorem message_series_well_formed:
  "(series_try_from_nodes T ns = Inr nodes \<longrightarrow> series_ok T nodes \<and> set nodes = set ns)
    \<and> (series_ok T nodes \<longrightarrow>
        series_visit_seq T series_new (map Inr nodes) = Inr nodes
        \<and> (case series_insert T nodes n of
             (r, nodes') \<Rightarrow>
               series_ok T nodes'
               \<and> (case r of
                    Inr SeriesInserted \<Rightarrow>
                      nodes' = nodes @ [n] \<and> series_get T nodes (sn_message_id T n) = None
                      \<and> series_get T nodes' (sn_message_id T n) = Some n
                  | Inr SeriesDuplicate \<Rightarrow> nodes' = nodes \<and> n \<in> set nodes
                  | Inl e \<Rightarrow>
                      nodes' = nodes \<and> n \<notin> set nodes
                      \<and> (if contract_kind e = ContractIdentityConflict
                         then \<exists>m \<in> set nodes. sn_message_id T m = sn_message_id T n
                         else length nodes = max_message_series_nodes))))"
proof (intro conjI impI)
  assume built: "series_try_from_nodes T ns = Inr nodes"
  have "series_ok T series_new"
    by (simp add: series_ok_def series_new_def)
  then show "series_ok T nodes" "set nodes = set ns"
    using series_extend_ok [of T series_new ns nodes] built
    by (simp_all add: series_try_from_nodes_def series_new_def)
next
  assume ok: "series_ok T nodes"
  then show "series_visit_seq T series_new (map Inr nodes) = Inr nodes"
    using series_visit_seq_ok [of T "[]" nodes] by (simp add: series_new_def)
  show "case series_insert T nodes n of (r, nodes') \<Rightarrow> series_ok T nodes' \<and> (case r of
          Inr SeriesInserted \<Rightarrow> nodes' = nodes @ [n] \<and> series_get T nodes (sn_message_id T n) = None
            \<and> series_get T nodes' (sn_message_id T n) = Some n
        | Inr SeriesDuplicate \<Rightarrow> nodes' = nodes \<and> n \<in> set nodes
        | Inl e \<Rightarrow> nodes' = nodes \<and> n \<notin> set nodes
            \<and> (if contract_kind e = ContractIdentityConflict
               then \<exists>m \<in> set nodes. sn_message_id T m = sn_message_id T n
               else length nodes = max_message_series_nodes))"
  proof (cases "series_get T nodes (sn_message_id T n)")
    case None
    have "series_ok T (snd (series_insert T nodes n))"
      using series_insert_ok [OF ok] .
    moreover have "n \<notin> set nodes"
      using None by (auto simp: series_get_None)
    ultimately show ?thesis
      using None series_get_Some [of T "nodes @ [n]" "sn_message_id T n" n]
      by (auto simp: series_insert_def contract_error_bounded_def)
  next
    case (Some m)
    then have "n \<in> set nodes \<longleftrightarrow> m = n" "m \<in> set nodes" "sn_message_id T m = sn_message_id T n"
      using series_get_Some [OF ok, of "sn_message_id T n"] Some by (metis option.inject)+
    then show ?thesis
      using Some ok by (auto simp: series_insert_def contract_error_new_def)
  qed
qed

definition x_series_node :: "(nat \<times> nat \<times> nat option, nat, nat) series_node" where
  "x_series_node = \<lparr>sn_message_id = fst, sn_correlation_id = fst \<circ> snd, sn_causation_id = snd \<circ> snd\<rparr>"

lemma x_series_node_sel [simp]:
  "sn_message_id x_series_node n = fst n"
  "sn_correlation_id x_series_node n = fst (snd n)"
  "sn_causation_id x_series_node n = snd (snd n)"
  by (simp_all add: x_series_node_def)

theorem message_series_well_formed_witness:
  "series_ok x_series_node [(1, 1, None), (2, 1, Some 1)]
    \<and> (case series_insert x_series_node [(1, 1, None), (2, 1, Some 1)] (3, 1, Some 2) of
         (r, nodes') \<Rightarrow> series_ok x_series_node nodes')"
proof -
  have "series_try_from_nodes x_series_node [(1, 1, None), (2, 1, Some 1), (1, 1, None)]
      = Inr [(1, 1, None), (2, 1, Some 1)]"
    by (simp add: series_try_from_nodes_def series_new_def series_insert_def series_get_def
        max_message_series_nodes_def)
  note built = message_series_well_formed [THEN conjunct1, rule_format, OF this]
  then show ?thesis
    using message_series_well_formed
      [THEN conjunct2, rule_format, OF built [THEN conjunct1], of "(3, 1, Some 2)"]
    by (simp only: split_beta)
qed

text \<open>The topology report of a message series is exact. It lists, in the order in which the children
  were observed, every message whose cause is unknown and every message whose cause has another
  correlation, and then every causal cycle exactly once, each from its member that was observed
  first on and in the order in which these members were observed.\<close>

theorem topology_issues_exact:
  assumes "series_ok T nodes"
  shows "\<exists>cycles. topology_issues T nodes
      = concat (map (edge_issues T nodes) nodes) @ map CausalCycle cycles
    \<and> set cycles = {c. causal_cycle T nodes c}
    \<and> map hd cycles = filter (\<lambda>n. \<exists>c. causal_cycle T nodes c \<and> hd c = n) nodes"
  using topology_issues_split [OF assms] .

theorem topology_issues_exact_witness:
  "\<exists>cycles. topology_issues x_series_node [(1, 1, Some 3), (2, 2, Some 3), (3, 1, Some 2)]
      = [CrossCorrelation (2, 2, Some 3) (3, 1, Some 2), CrossCorrelation (3, 1, Some 2) (2, 2, Some 3)]
        @ map CausalCycle cycles
    \<and> [(2, 2, Some 3), (3, 1, Some 2)] \<in> set cycles"
proof -
  let ?nodes = "[(1, 1, Some 3), (2, 2, Some 3), (3, 1, Some 2)]"
  have "series_ok x_series_node ?nodes"
    by (simp add: series_ok_def max_message_series_nodes_def)
  moreover have "causal_cycle x_series_node ?nodes [(2, 2, Some 3), (3, 1, Some 2)]"
    by (simp add: causal_cycle_def less_Suc_eq)
  moreover have "concat (map (edge_issues x_series_node ?nodes) ?nodes)
      = [CrossCorrelation (2, 2, Some 3) (3, 1, Some 2), CrossCorrelation (3, 1, Some 2) (2, 2, Some 3)]"
    by (simp add: edge_issues_def series_get_def)
  ultimately show ?thesis
    using topology_issues_exact [of x_series_node ?nodes] by auto
qed

end
