(* ===== verification/Commands.thy ===== *)
theory Commands
  imports Responses Executor
begin

text \<open>
  Commands as messages: the encoding half of \<open>rostfrei-runtime/src/command_bus.rs\<close>. Requests, routed
  commands, canonical JSON, fingerprints and message identities, the encoded command with its
  validation, responses and their validation. The functions of \<open>sha2\<close> and \<open>serde_json\<close> the code
  calls are the fields of \<open>runtime_externals\<close>; error texts are symbolic, as in \<open>Errors\<close>.
\<close>

section \<open>Texts and externals\<close>

datatype routed_command_error = RoutedCommandName contract_error | RoutedSchemaVersion contract_error

datatype authorization_error =
  Unauthenticated | AccessDenied | AuthorizationUnavailable | AuthorizationMisconfigured

datatype runtime_text =
  InconsistentEnvelope | CommandContextDiffers string string | ProcessorContextDiffers string string
| ClockBeforeEpoch | ClockOutOfRange | AdapterLimitExceeded nat | EnvelopeExceedsAdapter
| ForeignEnvelope | ImportRequiresRejection | ExplicitAuthorizerRequired
| TrustedContextRequired | BuilderRequired | RouteDiffers | NoAuthorizationPolicy
| NoMatchingIdentity | ContradictsDecision | TechnicalFailure | ServiceRequired | DispatchAsRequired

datatype invalid_command_response =
  InvalidResponseMessageId | InvalidCommandAddress | InvalidCommandMessageId | InvalidOperationId
| InvalidResponseSchemaVersion | InvalidCorrelationId

datatype runtime_message =
  Rt_text runtime_text
| Rt_external string
| Rt_contract contract_error
| Rt_identity identity_error
| Rt_routed routed_command_error
| Rt_build message_build_error
| Rt_envelope envelope_error_text
| Rt_codec event_codec_error
| Rt_store event_store_error
| Rt_recovery outcome_recovery_error
| Rt_execution command_execution_error
| Rt_authorization authorization_error
| Rt_response invalid_command_response

record routed_command =
  rd_command :: string
  rd_schema_version :: u32
  rd_payload :: json
  rd_events_caused_by_command :: bool

record runtime_externals =
  rx_sha256 :: "bytes \<Rightarrow> bytes"
  rx_scalar_to_vec :: "json \<Rightarrow> string + bytes"
  rx_envelope_to_vec :: "routed_command command_envelope \<Rightarrow> string + bytes"
  rx_envelope_to_value :: "routed_command command_envelope \<Rightarrow> string + json"
  rx_envelope_from_slice :: "bytes \<Rightarrow> string + routed_command command_envelope"
  rx_response_to_vec :: "command_response \<Rightarrow> string + bytes"
  rx_rejection_to_vec :: "command_rejection \<Rightarrow> string + bytes"
  rx_rejection_from_slice :: "bytes \<Rightarrow> string + command_rejection"
  rx_message_text :: "message \<Rightarrow> string"
  rx_runtime_text :: "runtime_message \<Rightarrow> string"

section \<open>Errors of the bus and of the processor\<close>

datatype command_bus_error_kind =
  BusAuthorization | BusCompletedDetailsExpired | BusCompletedDetailsUnavailable
| BusCompletedDetailsBlocked | BusEncoding | BusPayloadTooLarge | BusInvalidMessage | BusTimeout
| BusRejected | BusUnavailable | BusInvalidConfiguration | BusInvalidResponse | BusExecutionFailed

record command_bus_error =
  be_authorization :: "authorization_error option"
  be_kind :: command_bus_error_kind
  be_message :: runtime_message
  be_execution_failure :: "execution_failure option"

definition bus_error_new :: "command_bus_error_kind \<Rightarrow> runtime_message \<Rightarrow> command_bus_error" where
  "bus_error_new kind m =
     \<lparr>be_authorization = None, be_kind = kind, be_message = m, be_execution_failure = None\<rparr>"

definition bus_encoding :: "runtime_message \<Rightarrow> command_bus_error" where
  "bus_encoding m = bus_error_new BusEncoding m"

definition bus_execution_failed :: "execution_failure \<Rightarrow> command_bus_error" where
  "bus_execution_failed failure =
     \<lparr>be_authorization = None,
      be_kind = (if is_retryable failure then BusUnavailable else BusExecutionFailed),
      be_message = Rt_text TechnicalFailure, be_execution_failure = Some failure\<rparr>"

definition bus_is_retryable :: "command_bus_error \<Rightarrow> bool" where
  "bus_is_retryable e \<longleftrightarrow>
     be_kind e \<in> {BusTimeout, BusUnavailable, BusCompletedDetailsUnavailable}
     \<or> be_authorization e = Some AuthorizationUnavailable"

datatype command_processor_error_kind =
  ProcAuthorization | ProcIdentityConflict | ProcCompletedDetailsExpired
| ProcCompletedDetailsUnavailable | ProcCompletedDetailsBlocked | ProcInvalidMessage
| ProcUnavailable | ProcInvalidConfiguration | ProcExecutionFailed

record command_processor_error =
  pe_authorization :: "authorization_error option"
  pe_rejected_outcome_persistence_failed :: bool
  pe_kind :: command_processor_error_kind
  pe_message :: runtime_message
  pe_execution_failure :: "execution_failure option"

definition processor_error_new ::
  "command_processor_error_kind \<Rightarrow> runtime_message \<Rightarrow> command_processor_error" where
  "processor_error_new kind m =
     \<lparr>pe_authorization = None, pe_rejected_outcome_persistence_failed = False, pe_kind = kind,
      pe_message = m,
      pe_execution_failure = (if kind = ProcInvalidConfiguration
        then Some (ProcessorFailure InvalidConfiguration) else None)\<rparr>"

definition invalid_message :: "runtime_message \<Rightarrow> command_processor_error" where
  "invalid_message m = processor_error_new ProcInvalidMessage m"

definition processor_is_retryable :: "command_processor_error \<Rightarrow> bool" where
  "processor_is_retryable e \<longleftrightarrow>
     pe_kind e \<in> {ProcUnavailable, ProcCompletedDetailsUnavailable}
     \<or> pe_authorization e = Some AuthorizationUnavailable"

definition processor_authorization :: "authorization_error \<Rightarrow> command_processor_error" where
  "processor_authorization e =
     (processor_error_new ProcAuthorization (Rt_authorization e))\<lparr>pe_authorization := Some e\<rparr>"

fun recovery_kind :: "outcome_recovery_error \<Rightarrow> command_processor_error_kind" where
  "recovery_kind RecoveryExpired = ProcCompletedDetailsExpired"
| "recovery_kind (RecoveryArchived _) = ProcCompletedDetailsUnavailable"
| "recovery_kind (RecoveryUnavailable BackendUnavailable) = ProcCompletedDetailsUnavailable"
| "recovery_kind RecoveryIntegrityMismatch = ProcCompletedDetailsBlocked"
| "recovery_kind (RecoveryUnavailable MissingDetails) = ProcCompletedDetailsBlocked"

definition processor_recovery :: "outcome_recovery_error \<Rightarrow> command_processor_error" where
  "processor_recovery e = processor_error_new (recovery_kind e) (Rt_recovery e)"

fun recovered_kind :: "event_store_error_kind \<Rightarrow> command_processor_error_kind option" where
  "recovered_kind CorruptHistory = Some ProcCompletedDetailsBlocked"
| "recovered_kind DetailForbidden = Some ProcCompletedDetailsBlocked"
| "recovered_kind ConfigurationMismatch = Some ProcCompletedDetailsBlocked"
| "recovered_kind CompletedDetailsExpired = Some ProcCompletedDetailsExpired"
| "recovered_kind CompletedDetailsUnavailable = Some ProcCompletedDetailsUnavailable"
| "recovered_kind _ = None"

definition failure_error :: "command_execution_error \<Rightarrow> command_processor_error" where
  "failure_error e =
     (case execution_failure_of e of
        None \<Rightarrow> processor_error_new ProcInvalidConfiguration (Rt_execution e)
      | Some failure \<Rightarrow>
          \<lparr>pe_authorization = None,
           pe_rejected_outcome_persistence_failed =
             (case e of RejectedOutcomePersistence _ \<Rightarrow> True | _ \<Rightarrow> False),
           pe_kind = (if is_retryable failure then ProcUnavailable else ProcExecutionFailed),
           pe_message = Rt_execution e, pe_execution_failure = Some failure\<rparr>)"

definition store_or_failure ::
  "command_execution_error \<Rightarrow> event_store_error \<Rightarrow> command_processor_error" where
  "store_or_failure e source =
     (if store_origin source = OutcomeRecovery then
        (case recovered_kind (store_kind source) of
           Some kind \<Rightarrow> processor_error_new kind (Rt_store source)
         | None \<Rightarrow> failure_error e)
      else failure_error e)"

definition processor_execution :: "command_execution_error \<Rightarrow> command_processor_error" where
  "processor_execution e =
     (case e of
        ExecOutcomeRecovery err \<Rightarrow> processor_recovery err
      | ExecStore err \<Rightarrow>
          if store_kind err = IdentityConflict
          then processor_error_new ProcIdentityConflict (Rt_store err)
          else store_or_failure e err
      | RejectedOutcomePersistence err \<Rightarrow> store_or_failure e err
      | _ \<Rightarrow> failure_error e)"

fun bus_kind_of :: "command_processor_error_kind \<Rightarrow> command_bus_error_kind" where
  "bus_kind_of ProcAuthorization = BusAuthorization"
| "bus_kind_of ProcCompletedDetailsExpired = BusCompletedDetailsExpired"
| "bus_kind_of ProcCompletedDetailsUnavailable = BusCompletedDetailsUnavailable"
| "bus_kind_of ProcCompletedDetailsBlocked = BusCompletedDetailsBlocked"
| "bus_kind_of ProcIdentityConflict = BusInvalidMessage"
| "bus_kind_of ProcInvalidMessage = BusInvalidMessage"
| "bus_kind_of ProcUnavailable = BusUnavailable"
| "bus_kind_of ProcInvalidConfiguration = BusInvalidConfiguration"
| "bus_kind_of ProcExecutionFailed = BusExecutionFailed"

definition bus_from_processor :: "command_processor_error \<Rightarrow> command_bus_error" where
  "bus_from_processor e =
     \<lparr>be_authorization = pe_authorization e, be_kind = bus_kind_of (pe_kind e),
      be_message = pe_message e, be_execution_failure = pe_execution_failure e\<rparr>"

definition command_message_build_error :: "message_build_error \<Rightarrow> command_bus_error" where
  "command_message_build_error e =
     bus_error_new (if build_kind e = BuildPayloadTooLarge then BusPayloadTooLarge else BusEncoding)
       (Rt_build e)"

section \<open>Canonical JSON\<close>

text \<open>An array or an object between its brackets, the members separated by commas.\<close>

fun separated :: "bytes list \<Rightarrow> bytes" where
  "separated [] = []"
| "separated [b] = b"
| "separated (b # bs) = b @ str_bytes '','' @ separated bs"

lemma collect_results_cong [fundef_cong]:
  "xs = ys \<Longrightarrow> (\<And>x. x \<in> set ys \<Longrightarrow> f x = g x) \<Longrightarrow> collect_results f xs = collect_results g ys"
  by (induction xs arbitrary: ys) auto

fun write_value :: "(json \<Rightarrow> string + bytes) \<Rightarrow> json \<Rightarrow> string + bytes" where
  "write_value scalar (JArr vs) =
     map_ok (\<lambda>bs. str_bytes ''['' @ separated bs @ str_bytes '']'')
       (collect_results (\<lambda>v. write_value scalar v) vs)"
| "write_value scalar (JObj entries) =
     map_ok (\<lambda>bs. str_bytes ''{'' @ separated bs @ str_bytes ''}'')
       (collect_results (\<lambda>(key, v).
          rbind (scalar (JStr key)) (\<lambda>k.
          rbind (write_value scalar v) (\<lambda>bs.
          Inr (k @ str_bytes '':'' @ bs))))
        (sort_key fst entries))"
| "write_value scalar v = scalar v"

definition canonical_json_bytes ::
  "runtime_externals \<Rightarrow> json \<Rightarrow> command_bus_error + bytes" where
  "canonical_json_bytes E v =
     map_err (\<lambda>m. bus_encoding (Rt_external m)) (write_value (rx_scalar_to_vec E) v)"

definition canonical_serialize ::
  "runtime_externals \<Rightarrow> routed_command command_envelope \<Rightarrow> command_bus_error + bytes" where
  "canonical_serialize E envelope =
     rbind (map_err (\<lambda>m. bus_encoding (Rt_external m)) (rx_envelope_to_value E envelope)) (\<lambda>v.
     canonical_json_bytes E v)"

section \<open>Fingerprints and message identities\<close>

definition framed_fingerprint :: "(bytes \<Rightarrow> bytes) \<Rightarrow> bytes list \<Rightarrow> fingerprint" where
  "framed_fingerprint sha parts =
     fingerprint_digest sha (concat (map (\<lambda>part. be_bytes 8 (length part) @ part) parts))"

definition execution_parts ::
  "string \<Rightarrow> string \<Rightarrow> u32 \<Rightarrow> bytes \<Rightarrow> bool \<Rightarrow> actor_ref option \<Rightarrow> bytes list" where
  "execution_parts context command schema payload caused actor =
     [str_bytes (if actor \<noteq> None then ''rostfrei:command-execution:v3''
                 else ''rostfrei:command-execution:v2''),
      str_bytes context, str_bytes command, be_bytes 4 (unat schema), payload,
      [if caused then 1 else 0]]
     @ (case actor of None \<Rightarrow> []
        | Some a \<Rightarrow> [str_bytes (actor_namespace a), str_bytes (actor_id a)])"

definition command_execution_fingerprint_with_provenance ::
  "runtime_externals \<Rightarrow> string \<Rightarrow> string \<Rightarrow> u32 \<Rightarrow> json \<Rightarrow> bool \<Rightarrow> actor_ref option \<Rightarrow>
   command_bus_error + fingerprint" where
  "command_execution_fingerprint_with_provenance E context command schema payload caused actor =
     rbind (canonical_json_bytes E payload) (\<lambda>payload.
     Inr (framed_fingerprint (rx_sha256 E)
       (execution_parts context command schema payload caused actor)))"

definition command_execution_fingerprint ::
  "runtime_externals \<Rightarrow> string \<Rightarrow> string \<Rightarrow> u32 \<Rightarrow> json \<Rightarrow> command_bus_error + fingerprint" where
  "command_execution_fingerprint E context command schema payload =
     command_execution_fingerprint_with_provenance E context command schema payload False None"

definition routed_command_execution_fingerprint ::
  "runtime_externals \<Rightarrow> string \<Rightarrow> routed_command \<Rightarrow> actor_ref option \<Rightarrow>
   command_bus_error + fingerprint" where
  "routed_command_execution_fingerprint E context routed actor =
     command_execution_fingerprint_with_provenance E context (rd_command routed)
       (rd_schema_version routed) (rd_payload routed) (rd_events_caused_by_command routed) actor"

definition command_message_parts ::
  "command_address \<Rightarrow> operation_id \<Rightarrow> fingerprint \<Rightarrow> correlation_id \<Rightarrow> causation_id option \<Rightarrow>
   bytes list" where
  "command_message_parts address op fingerprint correlation causation =
     [str_bytes ''rostfrei:command-message:v1'', str_bytes address, str_bytes op, fingerprint,
      str_bytes correlation, (case causation of None \<Rightarrow> [] | Some c \<Rightarrow> str_bytes c)]"

definition command_message_id ::
  "(bytes \<Rightarrow> bytes) \<Rightarrow> command_address \<Rightarrow> operation_id \<Rightarrow> fingerprint \<Rightarrow> correlation_id \<Rightarrow>
   causation_id option \<Rightarrow> command_bus_error + message_id" where
  "command_message_id sha address op fingerprint correlation causation =
     map_err (\<lambda>e. bus_encoding (Rt_contract e))
       (MessageId_new (fingerprint_to_hex (framed_fingerprint sha
          (command_message_parts address op fingerprint correlation causation))))"

definition command_response_message_id ::
  "(bytes \<Rightarrow> bytes) \<Rightarrow> message_id \<Rightarrow> contract_error + message_id" where
  "command_response_message_id sha command_id =
     MessageId_new (fingerprint_to_hex (framed_fingerprint sha
       [str_bytes ''rostfrei:command-response-message:v1'', str_bytes command_id]))"

fun failure_source :: "execution_failure \<Rightarrow> string" where
  "failure_source (StoreFailure FailCorruptHistory) = ''store.corrupt_history''"
| "failure_source (StoreFailure FailCapacityExhausted) = ''store.capacity_exhausted''"
| "failure_source (StoreFailure FailConfigurationMismatch) = ''store.configuration_mismatch''"
| "failure_source (StoreFailure FailConflict) = ''store.conflict''"
| "failure_source (StoreFailure FailUnavailable) = ''store.unavailable''"
| "failure_source (CodecFailure FailUnknownEventType) = ''codec.unknown_event_type''"
| "failure_source (CodecFailure FailUnsupportedSchemaVersion) = ''codec.unsupported_schema_version''"
| "failure_source (CodecFailure FailMalformedPayload) = ''codec.malformed_payload''"
| "failure_source (CodecFailure FailConversionFailed) = ''codec.conversion_failed''"
| "failure_source (CodecFailure FailInvalidEnvelope) = ''codec.invalid_envelope''"
| "failure_source (CodecFailure FailEncodingFailed) = ''codec.encoding_failed''"
| "failure_source (ProcessorFailure InvalidConfiguration) = ''processor.invalid_configuration''"

definition command_technical_response_message_id ::
  "(bytes \<Rightarrow> bytes) \<Rightarrow> message_id \<Rightarrow> execution_failure \<Rightarrow> contract_error + message_id" where
  "command_technical_response_message_id sha command_id failure =
     MessageId_new (fingerprint_to_hex (framed_fingerprint sha
       [str_bytes ''rostfrei:command-technical-response-message:v1'', str_bytes command_id,
        str_bytes (failure_source failure)]))"

section \<open>Requests and routed commands\<close>

definition RoutedCommand_new ::
  "string \<Rightarrow> u32 \<Rightarrow> json \<Rightarrow> routed_command_error + routed_command" where
  "RoutedCommand_new command schema payload =
     rbind (map_err RoutedCommandName (CommandAddress_new ''rostfrei'' ''routed-command'' command))
       (\<lambda>_.
     rbind (map_err RoutedSchemaVersion (SchemaVersion_new schema)) (\<lambda>_.
     Inr \<lparr>rd_command = command, rd_schema_version = schema, rd_payload = payload,
          rd_events_caused_by_command = False\<rparr>))"

definition routed_from_wire :: "routed_command \<Rightarrow> routed_command_error + routed_command" where
  "routed_from_wire wire =
     rbind (RoutedCommand_new (rd_command wire) (rd_schema_version wire) (rd_payload wire))
       (\<lambda>routed. Inr (routed\<lparr>rd_events_caused_by_command := rd_events_caused_by_command wire\<rparr>))"

record dynamic_command_request =
  dr_request_actor :: "actor_ref option"
  dr_request_operation_id :: operation_id
  dr_request_command :: string
  dr_request_schema_version :: u32
  dr_request_payload :: json
  dr_request_correlation_id :: "correlation_id option"
  dr_request_causation_id :: "causation_id option"
  dr_request_created_at :: "u64 option"
  dr_request_events_caused_by_command :: bool

definition DynamicCommandRequest_new ::
  "operation_id \<Rightarrow> string \<Rightarrow> u32 \<Rightarrow> json \<Rightarrow> command_bus_error + dynamic_command_request" where
  "DynamicCommandRequest_new op command schema payload =
     rbind (map_err (\<lambda>e. bus_encoding (Rt_contract e))
              (CommandAddress_new ''rostfrei'' ''dynamic-command'' command)) (\<lambda>_.
     rbind (map_err (\<lambda>e. bus_encoding (Rt_contract e)) (SchemaVersion_new schema)) (\<lambda>_.
     Inr \<lparr>dr_request_actor = None, dr_request_operation_id = op, dr_request_command = command,
          dr_request_schema_version = schema, dr_request_payload = payload,
          dr_request_correlation_id = None, dr_request_causation_id = None,
          dr_request_created_at = None, dr_request_events_caused_by_command = False\<rparr>))"

text \<open>A typed request; the command type gives its context, name, schema version and JSON encoding.\<close>

record 'c command_request =
  cq_actor :: "actor_ref option"
  cq_operation_id :: operation_id
  cq_command :: 'c
  cq_correlation_id :: "correlation_id option"
  cq_causation_id :: "causation_id option"
  cq_created_at :: "u64 option"
  cq_events_caused_by_command :: bool

record 'c command_type =
  ct_context :: string
  ct_local_id :: string
  ct_schema_version :: u32
  ct_encode_json :: "'c \<Rightarrow> string + json"
  ct_decode_json :: "json \<Rightarrow> string + 'c"
  ct_type_name :: string

definition command_request_new :: "operation_id \<Rightarrow> 'c \<Rightarrow> 'c command_request" where
  "command_request_new op command =
     \<lparr>cq_actor = None, cq_operation_id = op, cq_command = command, cq_correlation_id = None,
      cq_causation_id = None, cq_created_at = None, cq_events_caused_by_command = False\<rparr>"

section \<open>Encoded commands\<close>

record encoded_command =
  cm_actor :: "actor_ref option"
  cm_message :: "command_address outbound_message"
  cm_operation_id :: operation_id
  cm_correlation_id :: correlation_id
  cm_fingerprint :: fingerprint

abbreviation cm_address :: "encoded_command \<Rightarrow> command_address" where
  "cm_address c \<equiv> ob_address (cm_message c)"

abbreviation cm_message_id :: "encoded_command \<Rightarrow> message_id" where
  "cm_message_id c \<equiv> ob_message_id (cm_message c)"

abbreviation cm_payload :: "encoded_command \<Rightarrow> bytes" where
  "cm_payload c \<equiv> ob_payload (cm_message c)"

definition encoded_command_new ::
  "command_address outbound_message \<Rightarrow> operation_id \<Rightarrow> correlation_id \<Rightarrow> fingerprint \<Rightarrow>
   encoded_command" where
  "encoded_command_new m op correlation fingerprint =
     \<lparr>cm_actor = None, cm_message = m, cm_operation_id = op, cm_correlation_id = correlation,
      cm_fingerprint = fingerprint\<rparr>"

text \<open>\<open>serde_json::from_slice::<CommandEnvelope<RoutedCommand>>\<close>: the derived code reads the wire,
  the routed command and then the envelope are rebuilt by their checked constructors.\<close>

definition envelope_from_slice ::
  "runtime_externals \<Rightarrow> bytes \<Rightarrow> runtime_message + routed_command command_envelope" where
  "envelope_from_slice E payload =
     rbind (map_err Rt_external (rx_envelope_from_slice E payload)) (\<lambda>wire.
     rbind (map_err Rt_routed (routed_from_wire (cv_payload wire))) (\<lambda>routed.
     map_err Rt_envelope
       (command_envelope_from_wire (rx_envelope_to_vec E) (wire\<lparr>cv_payload := routed\<rparr>))))"

definition from_delivery ::
  "runtime_externals \<Rightarrow> command_address \<Rightarrow> message_id \<Rightarrow> bytes \<Rightarrow>
   command_processor_error + encoded_command" where
  "from_delivery E address i payload =
     rbind (map_err invalid_message (envelope_from_slice E payload)) (\<lambda>envelope.
     rbind (map_err (\<lambda>e. invalid_message (be_message e))
              (routed_command_execution_fingerprint E (address_context address)
                 (cv_payload envelope) (cv_actor envelope))) (\<lambda>fingerprint.
     rbind (map_err (\<lambda>e. invalid_message (Rt_build e)) (outbound_new address i payload)) (\<lambda>m.
     Inr ((encoded_command_new (m\<lparr>ob_correlation_id := Some (cv_correlation_id envelope)\<rparr>)
             (cv_operation_id envelope) (cv_correlation_id envelope) fingerprint)
            \<lparr>cm_actor := cv_actor envelope\<rparr>))))"

type_synonym command_binding_key = "string \<times> string \<times> u32"

definition command_causation ::
  "encoded_command \<Rightarrow> routed_command command_envelope \<Rightarrow> contract_error + causation_id" where
  "command_causation encoded envelope =
     (if rd_events_caused_by_command (cv_payload envelope)
      then CausationId_new (cm_message_id encoded)
      else
        (case cv_causation_id envelope of
           Some c \<Rightarrow> Inr c
         | None \<Rightarrow> CausationId_new (cm_message_id encoded)))"

definition command_evidence ::
  "encoded_command \<Rightarrow> routed_command command_envelope \<Rightarrow> outcome_evidence" where
  "command_evidence encoded envelope =
     \<lparr>ev_authority_scope = Some (address_application (cm_address encoded) @ '':'' @
        (case subject_segment (address_traffic_scope (cm_address encoded)) of
           None \<Rightarrow> ''normal'' | Some s \<Rightarrow> s)),
      ev_created_at_millis = Some (cv_created_at envelope),
      ev_fingerprint_version = (if cv_actor envelope \<noteq> None then 3 else 2),
      ev_command_type = rd_command (cv_payload envelope),
      ev_command_schema = rd_schema_version (cv_payload envelope),
      ev_events_caused_by_command = rd_events_caused_by_command (cv_payload envelope),
      ev_original_causation = cv_causation_id envelope\<rparr>"

definition validate_command ::
  "runtime_externals \<Rightarrow> encoded_command \<Rightarrow> bounded_context_name \<Rightarrow>
   command_processor_error
     + routed_command command_envelope \<times> execution_metadata \<times> command_binding_key" where
  "validate_command E encoded context =
     (if address_context (cm_address encoded) \<noteq> context then
        Inl (invalid_message (Rt_text (ProcessorContextDiffers (address_context (cm_address encoded)) context)))
      else
        rbind (map_err invalid_message (envelope_from_slice E (cm_payload encoded))) (\<lambda>envelope.
        let routed = cv_payload envelope in
        rbind (map_err (\<lambda>e. invalid_message (be_message e))
                 (routed_command_execution_fingerprint E (address_context (cm_address encoded))
                    routed (cv_actor envelope))) (\<lambda>fingerprint.
        rbind (map_err (\<lambda>e. invalid_message (be_message e))
                 (command_message_id (rx_sha256 E) (cm_address encoded) (cv_operation_id envelope)
                    fingerprint (cv_correlation_id envelope) (cv_causation_id envelope)))
          (\<lambda>expected_message_id.
        if cv_message_id envelope \<noteq> cm_message_id encoded
          \<or> cm_message_id encoded \<noteq> expected_message_id
          \<or> cv_operation_id envelope \<noteq> cm_operation_id encoded
          \<or> cv_correlation_id envelope \<noteq> cm_correlation_id encoded
          \<or> (case ob_correlation_id (cm_message encoded) of
               None \<Rightarrow> False | Some outer \<Rightarrow> outer \<noteq> cv_correlation_id envelope)
          \<or> cv_schema_version envelope \<noteq> rd_schema_version routed
          \<or> address_name (cm_address encoded) \<noteq> rd_command routed
          \<or> cm_fingerprint encoded \<noteq> fingerprint
          \<or> cm_actor encoded \<noteq> cv_actor envelope
        then Inl (invalid_message (Rt_text InconsistentEnvelope))
        else
          rbind (map_err (\<lambda>e. invalid_message (Rt_identity e))
                   (OperationId_new (cv_operation_id envelope))) (\<lambda>op.
          rbind (map_err (\<lambda>e. invalid_message (Rt_contract e))
                   (command_causation encoded envelope)) (\<lambda>causation.
          Inr (envelope,
               (metadata_new op fingerprint)
                 \<lparr>md_bounded_context := Some context,
                  md_correlation_id := Some (cv_correlation_id envelope),
                  md_causation_id := Some causation,
                  md_actor := cv_actor envelope,
                  md_outcome_evidence := Some (command_evidence encoded envelope)\<rparr>,
               (address_context (cm_address encoded), rd_command routed,
                rd_schema_version routed))))))))"

definition validated_metadata ::
  "runtime_externals \<Rightarrow> encoded_command \<Rightarrow> command_processor_error + execution_metadata" where
  "validated_metadata E encoded =
     rbind (map_err (\<lambda>e. invalid_message (Rt_contract e))
              (BoundedContextName_new (address_context (cm_address encoded)))) (\<lambda>context.
     map_ok (\<lambda>(_, metadata, _). metadata) (validate_command E encoded context))"

definition encoded_validate :: "runtime_externals \<Rightarrow> encoded_command \<Rightarrow> command_processor_error + unit" where
  "encoded_validate E encoded = map_ok (\<lambda>_. ()) (validated_metadata E encoded)"

definition response_address ::
  "(bytes \<Rightarrow> bytes) \<Rightarrow> encoded_command \<Rightarrow> contract_error + command_response_address" where
  "response_address sha encoded =
     derive_command_response_address sha (cm_address encoded) (cm_operation_id encoded)
       (cm_message_id encoded)"

fun response_id_for ::
  "(bytes \<Rightarrow> bytes) \<Rightarrow> message_id \<Rightarrow> command_response_outcome \<Rightarrow> contract_error + message_id" where
  "response_id_for sha command_id (ResponseExecutionFailed failure) =
     command_technical_response_message_id sha command_id failure"
| "response_id_for sha command_id ResponseAccepted = command_response_message_id sha command_id"
| "response_id_for sha command_id (ResponseRejected r) = command_response_message_id sha command_id"

definition validate_response ::
  "(bytes \<Rightarrow> bytes) \<Rightarrow> encoded_command \<Rightarrow> command_response \<Rightarrow> invalid_command_response + unit" where
  "validate_response sha encoded response =
     rbind (map_err (\<lambda>_. InvalidResponseMessageId)
              (response_id_for sha (cm_message_id encoded) (rs_outcome response))) (\<lambda>expected.
     if rs_message_id response \<noteq> expected then Inl InvalidResponseMessageId
     else if rs_command_address response \<noteq> cm_address encoded then Inl InvalidCommandAddress
     else if rs_command_message_id response \<noteq> cm_message_id encoded then Inl InvalidCommandMessageId
     else if rs_operation_id response \<noteq> cm_operation_id encoded then Inl InvalidOperationId
     else if rs_schema_version response \<noteq> expected_schema (rs_outcome response)
       then Inl InvalidResponseSchemaVersion
     else if rs_correlation_id response \<noteq> cm_correlation_id encoded then Inl InvalidCorrelationId
     else Inr ())"

definition build_response ::
  "runtime_externals \<Rightarrow> encoded_command \<Rightarrow> command_response_outcome \<Rightarrow>
   command_processor_error + command_response" where
  "build_response E encoded outcome =
     rbind (map_err (\<lambda>e. invalid_message (Rt_contract e))
              (response_id_for (rx_sha256 E) (cm_message_id encoded) outcome)) (\<lambda>i.
     map_err (\<lambda>e. processor_error_new ProcInvalidConfiguration (Rt_build e))
       (case outcome of
          ResponseAccepted \<Rightarrow>
            response_accepted (rx_response_to_vec E) i (cm_message_id encoded) (cm_address encoded)
              (cm_operation_id encoded) (cm_correlation_id encoded)
        | ResponseRejected rejection \<Rightarrow>
            response_rejected (rx_response_to_vec E) i (cm_message_id encoded) (cm_address encoded)
              (cm_operation_id encoded) (cm_correlation_id encoded) rejection
        | ResponseExecutionFailed failure \<Rightarrow>
            response_execution_failed (rx_response_to_vec E) i (cm_message_id encoded)
              (cm_address encoded) (cm_operation_id encoded) (cm_correlation_id encoded) failure))"

definition technical_response ::
  "runtime_externals \<Rightarrow> command_processor_error \<Rightarrow> encoded_command \<Rightarrow>
   command_processor_error + command_response option" where
  "technical_response E e encoded =
     (if pe_rejected_outcome_persistence_failed e then Inr None
      else
        (case pe_execution_failure e of
           None \<Rightarrow> Inr None
         | Some failure \<Rightarrow> map_ok Some (build_response E encoded (ResponseExecutionFailed failure))))"

section \<open>The command bus\<close>

record command_bus =
  bus_context :: bounded_context
  bus_maximum_payload_len :: nat

text \<open>The system clock: milliseconds since the epoch, or \<open>None\<close> when it is set before the epoch.\<close>

definition current_timestamp :: "nat option \<Rightarrow> command_bus_error + u64" where
  "current_timestamp clock =
     rbind (ok_or (bus_encoding (Rt_text ClockBeforeEpoch)) clock) (\<lambda>millis.
     rbind (ok_or (bus_encoding (Rt_text ClockOutOfRange)) (u64_try_from millis)) (\<lambda>millis.
     map_err (\<lambda>e. bus_encoding (Rt_contract e)) (MessageTimestamp_from_unix_milliseconds millis)))"

definition encode_dynamic ::
  "runtime_externals \<Rightarrow> nat option \<Rightarrow> command_bus \<Rightarrow> dynamic_command_request \<Rightarrow>
   command_bus_error + encoded_command" where
  "encode_dynamic E clock bus request =
     rbind (map_err (\<lambda>e. bus_encoding (Rt_contract e))
              (command_address_of (bus_context bus) (dr_request_command request))) (\<lambda>address.
     rbind (map_err (\<lambda>e. bus_encoding (Rt_contract e))
              (validate_identifier (dr_request_operation_id request) ''operation_id'')) (\<lambda>op.
     rbind (case dr_request_created_at request of
              Some t \<Rightarrow> Inr t | None \<Rightarrow> current_timestamp clock) (\<lambda>created.
     rbind (map_err (\<lambda>e. bus_encoding (Rt_routed e))
              (RoutedCommand_new (dr_request_command request) (dr_request_schema_version request)
                 (dr_request_payload request))) (\<lambda>routed.
     let routed = routed\<lparr>rd_events_caused_by_command := dr_request_events_caused_by_command request\<rparr> in
     rbind (routed_command_execution_fingerprint E (bx_name (bus_context bus)) routed
              (dr_request_actor request)) (\<lambda>fingerprint.
     rbind (map_err (\<lambda>e. bus_encoding (Rt_contract e))
              (effective_correlation_id
                 ((metadata_new (dr_request_operation_id request) fingerprint)
                    \<lparr>md_correlation_id := dr_request_correlation_id request\<rparr>))) (\<lambda>correlation.
     rbind (command_message_id (rx_sha256 E) address op fingerprint correlation
              (dr_request_causation_id request)) (\<lambda>i.
     rbind (map_err (\<lambda>e. bus_encoding (Rt_contract e))
              (SchemaVersion_new (rd_schema_version routed))) (\<lambda>schema.
     rbind (map_err command_message_build_error
              (command_envelope_new (rx_envelope_to_vec E)
                 \<lparr>ec_message_id = i, ec_schema_version = schema, ec_correlation_id = correlation,
                  ec_causation_id = dr_request_causation_id request\<rparr> op created routed)) (\<lambda>envelope.
     rbind (case dr_request_actor request of
              None \<Rightarrow> Inr envelope
            | Some actor \<Rightarrow>
                map_err command_message_build_error
                  (command_envelope_with_actor (rx_envelope_to_vec E) actor envelope)) (\<lambda>envelope.
     rbind (canonical_serialize E envelope) (\<lambda>payload.
     if bus_maximum_payload_len bus < length payload then
       Inl (bus_error_new BusPayloadTooLarge
              (Rt_text (AdapterLimitExceeded (bus_maximum_payload_len bus))))
     else
       rbind (map_err (\<lambda>e. bus_encoding (Rt_build e)) (outbound_new address i payload)) (\<lambda>m.
       Inr ((encoded_command_new (m\<lparr>ob_correlation_id := Some correlation\<rparr>) op correlation
               fingerprint)\<lparr>cm_actor := dr_request_actor request\<rparr>)))))))))))))"

definition encode ::
  "runtime_externals \<Rightarrow> nat option \<Rightarrow> command_bus \<Rightarrow> 'c command_type \<Rightarrow> 'c command_request \<Rightarrow>
   command_bus_error + encoded_command" where
  "encode E clock bus C request =
     (if ct_context C \<noteq> bx_name (bus_context bus) then
        Inl (bus_encoding (Rt_text (CommandContextDiffers (ct_context C) (bx_name (bus_context bus)))))
      else
        rbind (map_err (\<lambda>m. bus_encoding (Rt_external m)) (ct_encode_json C (cq_command request)))
          (\<lambda>payload.
        encode_dynamic E clock bus
          \<lparr>dr_request_actor = cq_actor request, dr_request_operation_id = cq_operation_id request,
           dr_request_command = ct_local_id C, dr_request_schema_version = ct_schema_version C,
           dr_request_payload = payload, dr_request_correlation_id = cq_correlation_id request,
           dr_request_causation_id = cq_causation_id request,
           dr_request_created_at = cq_created_at request,
           dr_request_events_caused_by_command = cq_events_caused_by_command request\<rparr>))"

record command_bus_receipt =
  br_publication_duplicate :: bool
  br_response :: command_response

text \<open>\<open>dispatch\<close> is the adapter's dispatch on its state; the checks before it are pure.\<close>

definition dispatch_encoded ::
  "runtime_externals \<Rightarrow>
   (encoded_command \<Rightarrow> 'a \<Rightarrow> (command_bus_error + command_bus_receipt) \<times> 'a) \<Rightarrow>
   command_bus \<Rightarrow> encoded_command \<Rightarrow> 'a \<Rightarrow> (command_bus_error + command_bus_receipt) \<times> 'a" where
  "dispatch_encoded E dispatch bus command s =
     (case
        (if bus_maximum_payload_len bus < length (cm_payload command) then
           Inl (bus_error_new BusPayloadTooLarge (Rt_text EnvelopeExceedsAdapter))
         else
           rbind (map_err (\<lambda>e. bus_error_new BusInvalidMessage (Rt_contract e))
                    (command_address_of (bus_context bus) (address_name (cm_address command))))
             (\<lambda>expected.
           if cm_address command \<noteq> expected then
             Inl (bus_error_new BusInvalidMessage (Rt_text ForeignEnvelope))
           else
             map_err (\<lambda>e. bus_error_new BusInvalidMessage (pe_message e))
               (encoded_validate E command))) of
        Inl e \<Rightarrow> (Inl e, s)
      | Inr _ \<Rightarrow>
          (case dispatch command s of
             (Inl e, s) \<Rightarrow> (Inl e, s)
           | (Inr receipt, s) \<Rightarrow>
               (rbind (map_err (\<lambda>e. bus_error_new BusInvalidResponse (Rt_response e))
                         (validate_response (rx_sha256 E) command (br_response receipt))) (\<lambda>_.
                case rs_outcome (br_response receipt) of
                  ResponseExecutionFailed failure \<Rightarrow> Inl (bus_execution_failed failure)
                | _ \<Rightarrow> Inr receipt), s)))"

end
