(* ===== verification/Processor.thy ===== *)
theory Processor
  imports Commands
begin

text \<open>
  Command processing: the processing half of \<open>rostfrei-runtime/src/command_bus.rs\<close>,
  \<open>command_bus/processing.rs\<close>, \<open>command_service.rs\<close>, \<open>command_rejection_codec.rs\<close> and the in-memory
  adapter of \<open>in_memory_messaging.rs\<close>. The store and its other writers are those of \<open>Executor\<close>. The
  authorizer and the audit sink are application code: the authorizer answers from the moment it is
  asked, the sink changes a state of its own and may fail to answer in time. Results carry the number
  of evaluations of a handler; \<open>None\<close> is an execution that has not returned within its fuel.
\<close>

section \<open>Rejections of the framework\<close>

definition framework_rejection ::
  "command_rejection_classification \<Rightarrow> string \<Rightarrow> string \<Rightarrow> json option \<Rightarrow>
   command_processor_error + command_rejection" where
  "framework_rejection classification code msg details =
     rbind (map_err (\<lambda>e. processor_error_new ProcInvalidConfiguration (Rt_contract e))
              (ApplicationErrorCode_new code)) (\<lambda>code.
     map_err (\<lambda>e. processor_error_new ProcInvalidConfiguration (Rt_contract e))
       (command_rejection_new classification code msg details))"

definition operation_conflict :: "command_processor_error + command_rejection" where
  "operation_conflict =
     framework_rejection RejectConflict ''rostfrei.operation.identity-conflict''
       ''The operation ID was already used for different command content or context.'' None"

definition invalid_command_rejection :: "string \<Rightarrow> command_processor_error + command_rejection" where
  "invalid_command_rejection reason =
     framework_rejection RejectInvalidRequest ''rostfrei.command.invalid''
       ''The command cannot be executed for the requested unit of work.''
       (Some (JObj [(''reason'', JStr reason)]))"

definition invalid_payload_rejection :: "string \<Rightarrow> command_processor_error + command_rejection" where
  "invalid_payload_rejection reason =
     framework_rejection RejectInvalidRequest ''rostfrei.command.invalid-payload''
       ''The command payload is invalid.'' (Some (JObj [(''reason'', JStr reason)]))"

definition unknown_command_rejection ::
  "command_address \<Rightarrow> routed_command \<Rightarrow> command_processor_error + command_rejection" where
  "unknown_command_rejection address routed =
     framework_rejection RejectInvalidRequest ''rostfrei.command.unknown''
       ''The command name or schema version is not registered.''
       (Some (JObj [(''context'', JStr (address_context address)),
                    (''command'', JStr (rd_command routed)),
                    (''schema_version'', JNum (unat (rd_schema_version routed)))]))"

section \<open>Bindings\<close>

text \<open>\<open>MappedCommandHandler\<close>: the application's rejection is mapped, and a refused request becomes a
  rejection of the framework, while the execution still holds everything it has read.\<close>

definition mapped_failure ::
  "runtime_externals \<Rightarrow> command_execution_error \<Rightarrow> ('st, 'ev, command_rejection) handler_program" where
  "mapped_failure E e =
     (case e of
        ExecStore err \<Rightarrow>
          if store_kind err = InvalidRequest then
            (case invalid_command_rejection (rx_message_text E (store_message err)) of
               Inl e' \<Rightarrow> Fail (RejectionMapping (rx_runtime_text E (pe_message e')))
             | Inr rejection \<Rightarrow> Decide (Rejected rejection))
          else Fail e
      | _ \<Rightarrow> Fail e)"

definition mapped_decision ::
  "('r \<Rightarrow> string + command_rejection) \<Rightarrow> 'r command_decision \<Rightarrow>
   ('st, 'ev, command_rejection) handler_program" where
  "mapped_decision mapper d =
     (case d of
        Accepted \<Rightarrow> Decide Accepted
      | Rejected r \<Rightarrow>
          (case mapper r of
             Inl m \<Rightarrow> Fail (RejectionMapping m)
           | Inr rejection \<Rightarrow> Decide (Rejected rejection)))"

primrec mapped_handler ::
  "runtime_externals \<Rightarrow> ('r \<Rightarrow> string + command_rejection) \<Rightarrow> ('st, 'ev, 'r) handler_program \<Rightarrow>
   ('st, 'ev, command_rejection) handler_program" where
  "mapped_handler E mapper (Decide d) = mapped_decision mapper d"
| "mapped_handler E mapper (Fail e) = mapped_failure E e"
| "mapped_handler E mapper (LoadAggregate A i k) =
     LoadAggregate A i (\<lambda>r. mapped_handler E mapper (k r))"
| "mapped_handler E mapper (Inspect h k) = Inspect h (\<lambda>a. mapped_handler E mapper (k a))"
| "mapped_handler E mapper (RaiseEvent p h ev k) = RaiseEvent p h ev (mapped_handler E mapper k)"
| "mapped_handler E mapper (ReplaceAggregate h a k) = ReplaceAggregate h a (mapped_handler E mapper k)"
| "mapped_handler E mapper (SwapAggregates h j k) = SwapAggregates h j (mapped_handler E mapper k)"
| "mapped_handler E mapper (DropHandle h k) = DropHandle h (mapped_handler E mapper k)"
| "mapped_handler E mapper (EscapeHandle h k) = EscapeHandle h (mapped_handler E mapper k)"

text \<open>A binding erases the command and rejection types of a registered handler.\<close>

record ('st, 'ev) command_binding =
  bd_type_name :: string
  bd_program :: "json \<Rightarrow> string + ('st, 'ev, command_rejection) handler_program"

definition typed_binding ::
  "runtime_externals \<Rightarrow> 'c command_type \<Rightarrow> ('c \<Rightarrow> ('st, 'ev, 'r) handler_program) \<Rightarrow>
   ('r \<Rightarrow> string + command_rejection) \<Rightarrow> ('st, 'ev) command_binding" where
  "typed_binding E C handler mapper =
     \<lparr>bd_type_name = ct_type_name C,
      bd_program = (\<lambda>payload.
        map_ok (\<lambda>command. mapped_handler E mapper (handler command)) (ct_decode_json C payload))\<rparr>"

datatype binding_error = BindingInvalidPayload string | BindingExecution command_execution_error

definition json_domain_rejection_mapper ::
  "command_rejection_classification \<Rightarrow> string \<Rightarrow> string \<Rightarrow> (contract_error \<Rightarrow> string) \<Rightarrow>
   ('r \<Rightarrow> string + json) \<Rightarrow> 'r \<Rightarrow> string + command_rejection" where
  "json_domain_rejection_mapper classification code msg text encode_json rejection =
     rbind (encode_json rejection) (\<lambda>details.
     rbind (map_err text (ApplicationErrorCode_new code)) (\<lambda>code.
     map_err text (command_rejection_new classification code msg (Some details))))"

definition mapped_rejection_codec ::
  "('r \<Rightarrow> string + command_rejection) \<Rightarrow> (command_rejection \<Rightarrow> string + 'r) \<Rightarrow>
   command_rejection rejection_codec \<Rightarrow> 'r rejection_codec" where
  "mapped_rejection_codec mapper decoder codec =
     \<lparr>rc_encode = (\<lambda>rejection.
        rbind (map_err (\<lambda>m. codec_error_new EncodingFailed (External_text m)) (mapper rejection))
          (rc_encode codec)),
      rc_decode = (\<lambda>rejection.
        rbind (rc_decode codec rejection) (\<lambda>mapped.
        map_err (\<lambda>m. codec_error_new MalformedPayload (External_text m)) (decoder mapped)))\<rparr>"

section \<open>The service interface\<close>

record trusted_command_context =
  tcc_principal :: string
  tcc_scope :: security_scope

definition PrincipalId_new :: "string \<Rightarrow> identity_error + string" where
  "PrincipalId_new value = rbind (SecurityScope_new value) (\<lambda>_. Inr value)"

datatype command_access = ReadOutcome | ExecuteCommand

datatype completion_origin = OriginCommitted | OriginReplayed

record processed_command =
  pd_origin :: completion_origin
  pd_outcome :: "command_response completed_outcome"

definition admission_error :: "runtime_message \<Rightarrow> command_processor_error" where
  "admission_error m = processor_error_new ProcCompletedDetailsBlocked m"

definition decision_agrees :: "outcome_decision \<Rightarrow> command_response_outcome \<Rightarrow> bool" where
  "decision_agrees d out \<longleftrightarrow>
     (case out of
        ResponseAccepted \<Rightarrow> d = OutcomeAccepted
      | ResponseRejected _ \<Rightarrow> d = OutcomeRejected
      | ResponseExecutionFailed _ \<Rightarrow> False)"

definition admit ::
  "runtime_externals \<Rightarrow> processed_command \<Rightarrow> trusted_command_context \<Rightarrow> encoded_command \<Rightarrow>
   command_processor_error + command_response" where
  "admit E processed caller command =
     rbind (validated_metadata E command) (\<lambda>metadata.
     let metadata = metadata\<lparr>md_security_scope := Some (tcc_scope caller)\<rparr>;
         marker = co_marker (pd_outcome processed);
         key = dr_key (om_reference marker) in
     if Some (key_context key) \<noteq> md_bounded_context metadata
       \<or> key_operation key \<noteq> md_operation_id metadata
       \<or> om_evidence marker = None
     then Inl (admission_error (Rt_text NoMatchingIdentity))
     else
       rbind (map_err (\<lambda>e. admission_error (Rt_store e)) (validate_identity marker metadata)) (\<lambda>_.
       rbind (map_err (\<lambda>e. admission_error (Rt_store e))
                (validate_integrity (rx_sha256 E) (om_integrity marker))) (\<lambda>_.
       rbind (map_err processor_recovery (details_available (co_details (pd_outcome processed))))
         (\<lambda>response.
       rbind (map_err (\<lambda>e. admission_error (Rt_response e))
                (validate_response (rx_sha256 E) command response)) (\<lambda>_.
       if \<not> decision_agrees (dr_decision (om_reference marker)) (rs_outcome response)
       then Inl (admission_error (Rt_text ContradictsDecision))
       else Inr response)))))"

datatype audit_phase = AuditStarted | AuditFinished

datatype audit_terminal =
  TerminalCommitted | TerminalReplayed | TerminalMissing | TerminalDenied | TerminalFailed
| TerminalExpired | TerminalUnavailable

datatype audit_error = AuditError string | AuditTimedOut | AuditCapacityZero

record command_audit_record =
  ar_attempt :: string
  ar_phase :: audit_phase
  ar_terminal :: "audit_terminal option"
  ar_command :: message_id
  ar_original :: bytes
  ar_caller :: trusted_command_context

datatype audit_delivery =
  AuditDisabled | AuditDelivered | AuditFailed "(audit_phase \<times> audit_error) list"

record 't service_report =
  sr_result :: "command_processor_error + 't"
  sr_attempt :: string
  sr_audit :: audit_delivery

text \<open>A sink answers, or does not answer in time.\<close>

type_synonym 'a audit_sink = "command_audit_record \<Rightarrow> 'a \<Rightarrow> (audit_error + unit) option \<times> 'a"

record audit_history =
  ah_records :: "command_audit_record list"
  ah_maximum :: nat

definition audit_history_new :: "nat \<Rightarrow> audit_history" where
  "audit_history_new maximum = \<lparr>ah_records = [], ah_maximum = maximum\<rparr>"

definition audit_history_clear :: "audit_history \<Rightarrow> audit_history" where
  "audit_history_clear h = h\<lparr>ah_records := []\<rparr>"

definition audit_history_record ::
  "command_audit_record \<Rightarrow> audit_history \<Rightarrow> (audit_error + unit) \<times> audit_history" where
  "audit_history_record r h =
     (if ah_maximum h = 0 then (Inl AuditCapacityZero, h)
      else
        (let kept = (if ah_maximum h \<le> length (ah_records h) then tl (ah_records h)
                     else ah_records h)
         in (Inr (), h\<lparr>ah_records := kept @ [r]\<rparr>)))"

section \<open>The processor\<close>

type_synonym 's authorizer =
  "'s world \<Rightarrow> trusted_command_context \<Rightarrow> encoded_command \<Rightarrow> command_access \<Rightarrow>
   authorization_error + unit"

record ('s, 'a) processor_configuration =
  pc_shared_codecs :: bool
  pc_route :: "bounded_context option"
  pc_authorizer :: "'s authorizer option"
  pc_rejection_codec :: "command_rejection rejection_codec"
  pc_retry :: conflict_retry_policy
  pc_audit :: "'a audit_sink option"
  pc_timeout :: nat

record ('s, 'a, 'st, 'ev) command_processor =
  pr_context :: bounded_context_name
  pr_codecs :: "('st, 'ev) aggregate_codecs"
  pr_bindings :: "(command_binding_key, ('st, 'ev) command_binding) fmap"
  pr_configuration :: "('s, 'a) processor_configuration"

definition default_rejection_codec :: "runtime_externals \<Rightarrow> command_rejection rejection_codec" where
  "default_rejection_codec E =
     json_rejection_codec (rx_rejection_to_vec E) (rx_rejection_from_slice E)
       ''rostfrei.command-rejection'' 1"

definition trusted_configuration :: "runtime_externals \<Rightarrow> ('s, 'a) processor_configuration" where
  "trusted_configuration E =
     \<lparr>pc_shared_codecs = False, pc_route = None, pc_authorizer = None,
      pc_rejection_codec = default_rejection_codec E, pc_retry = bounded_conflict_retries 3,
      pc_audit = None, pc_timeout = 1000000000\<rparr>"

definition processor_new ::
  "runtime_externals \<Rightarrow> bounded_context_name \<Rightarrow> ('s, 'a, 'st, 'ev) command_processor" where
  "processor_new E context =
     \<lparr>pr_context = context, pr_codecs = fmempty, pr_bindings = fmempty,
      pr_configuration = trusted_configuration E\<rparr>"

definition with_event_codecs ::
  "('st, 'ev) aggregate_codecs \<Rightarrow> ('s, 'a, 'st, 'ev) command_processor \<Rightarrow>
   ('s, 'a, 'st, 'ev) command_processor" where
  "with_event_codecs codecs P =
     P\<lparr>pr_codecs := codecs,
       pr_configuration := (pr_configuration P)\<lparr>pc_shared_codecs := True\<rparr>\<rparr>"

definition processor_register_codec ::
  "('st, 'ev) aggregate_model \<Rightarrow> 'ev event_codec \<Rightarrow> ('s, 'a, 'st, 'ev) command_processor \<Rightarrow>
   codec_registration_error + ('s, 'a, 'st, 'ev) command_processor" where
  "processor_register_codec A codec P =
     (if pc_shared_codecs (pr_configuration P) then Inl SharedConfiguration
      else rbind (codecs_register (pr_codecs P) A codec) (\<lambda>codecs. Inr (P\<lparr>pr_codecs := codecs\<rparr>)))"

datatype command_binding_registration_error =
  ContextMismatch string string
| DuplicateBinding string string u32

definition processor_register ::
  "runtime_externals \<Rightarrow> 'c command_type \<Rightarrow> ('c \<Rightarrow> ('st, 'ev, 'r) handler_program) \<Rightarrow>
   ('r \<Rightarrow> string + command_rejection) \<Rightarrow> ('s, 'a, 'st, 'ev) command_processor \<Rightarrow>
   command_binding_registration_error + ('s, 'a, 'st, 'ev) command_processor" where
  "processor_register E C handler mapper P =
     (if ct_context C \<noteq> pr_context P then Inl (ContextMismatch (ct_context C) (pr_context P))
      else
        (let key = (ct_context C, ct_local_id C, ct_schema_version C) in
         if fmlookup (pr_bindings P) key \<noteq> None
         then Inl (DuplicateBinding (ct_context C) (ct_local_id C) (ct_schema_version C))
         else Inr (P\<lparr>pr_bindings := fmupd key (typed_binding E C handler mapper) (pr_bindings P)\<rparr>)))"

text \<open>The builder starts from a routed processor; its setters are record updates.\<close>

definition processor_builder ::
  "runtime_externals \<Rightarrow> bounded_context \<Rightarrow> ('s, 'a, 'st, 'ev) command_processor" where
  "processor_builder E context =
     (let P = processor_new E (bx_name context)
      in P\<lparr>pr_configuration := (pr_configuration P)\<lparr>pc_route := Some context\<rparr>\<rparr>)"

definition configuration_error :: "runtime_text \<Rightarrow> command_processor_error" where
  "configuration_error t = processor_error_new ProcInvalidConfiguration (Rt_text t)"

definition builder_build ::
  "('s, 'a, 'st, 'ev) command_processor \<Rightarrow>
   command_processor_error + ('s, 'a, 'st, 'ev) command_processor" where
  "builder_build P =
     (if pc_authorizer (pr_configuration P) = None \<or> pc_timeout (pr_configuration P) = 0
      then Inl (configuration_error ExplicitAuthorizerRequired) else Inr P)"

definition require_trusted_profile ::
  "('s, 'a, 'st, 'ev) command_processor \<Rightarrow> command_processor_error + unit" where
  "require_trusted_profile P =
     (if pc_authorizer (pr_configuration P) \<noteq> None \<or> pc_route (pr_configuration P) \<noteq> None
      then Inl (configuration_error TrustedContextRequired) else Inr ())"

definition validate_service ::
  "runtime_externals \<Rightarrow> ('s, 'a, 'st, 'ev) command_processor \<Rightarrow> encoded_command \<Rightarrow>
   command_processor_error + unit" where
  "validate_service E P encoded =
     rbind (validate_command E encoded (pr_context P)) (\<lambda>_.
     rbind (ok_or (configuration_error BuilderRequired) (pc_route (pr_configuration P))) (\<lambda>route.
     if address_application (cm_address encoded) \<noteq> bx_application route
       \<or> address_traffic_scope (cm_address encoded) \<noteq> bx_traffic_scope route
     then Inl (invalid_message (Rt_text RouteDiffers))
     else Inr ()))"

section \<open>Projecting outcomes\<close>

definition project ::
  "runtime_externals \<Rightarrow> ('s, 'a, 'st, 'ev) command_processor \<Rightarrow> encoded_command \<Rightarrow> encoded_outcome \<Rightarrow>
   command_processor_error + command_response completed_outcome" where
  "project E P encoded outcome =
     try_map Some (\<lambda>_. None) processor_recovery (\<lambda>details.
       rbind (case details_rejection details of
                Some rejection \<Rightarrow>
                  map_err (\<lambda>e. processor_error_new ProcCompletedDetailsBlocked (Rt_codec e))
                    (map_ok ResponseRejected
                       (rc_decode (pc_rejection_codec (pr_configuration P)) rejection))
              | None \<Rightarrow> Inr ResponseAccepted) (\<lambda>response.
       build_response E encoded response)) outcome"

definition project_commit ::
  "runtime_externals \<Rightarrow> ('s, 'a, 'st, 'ev) command_processor \<Rightarrow> encoded_command \<Rightarrow> completed_commit \<Rightarrow>
   command_processor_error + processed_command" where
  "project_commit E P encoded commit =
     (let (origin, outcome) = (case commit of
            CommitAppended v \<Rightarrow> (OriginCommitted, v)
          | CommitExactReplay v \<Rightarrow> (OriginReplayed, v))
      in map_ok (\<lambda>outcome. \<lparr>pd_origin = origin, pd_outcome = outcome\<rparr>)
           (project E P encoded outcome))"

definition lookup_metadata ::
  "runtime_externals \<Rightarrow> 's execution_store \<Rightarrow> ('s, 'a, 'st, 'ev) command_processor \<Rightarrow>
   encoded_command \<Rightarrow> execution_metadata \<Rightarrow> 's \<Rightarrow>
   command_processor_error + command_response outcome_lookup" where
  "lookup_metadata E S P encoded metadata s =
     (let key = OutcomeKey_new (es_authority S) (pr_context P) (md_operation_id metadata) in
      rbind (map_err (\<lambda>e. processor_execution (ExecStore (in_outcome_recovery e)))
               (es_lookup_outcome S s key)) (\<lambda>found.
      case found of
        Missing \<Rightarrow> Inr Missing
      | Completed outcome \<Rightarrow>
          rbind (map_err (\<lambda>e. processor_execution (ExecStore (in_outcome_recovery e)))
                   (outcome_validate_for (rx_sha256 E) outcome key metadata)) (\<lambda>_.
          map_ok Completed (project E P encoded outcome))))"

section \<open>Executing a command that has no outcome\<close>

definition binding_execute ::
  "nat \<Rightarrow> (bytes \<Rightarrow> bytes) \<Rightarrow> 's execution_store \<Rightarrow> (nat \<Rightarrow> 's \<Rightarrow> 's) \<Rightarrow>
   ('st, 'ev) aggregate_codecs \<Rightarrow> conflict_retry_policy \<Rightarrow> command_rejection rejection_codec \<Rightarrow>
   execution_metadata \<Rightarrow> ('st, 'ev) command_binding \<Rightarrow> json \<Rightarrow> 's world \<Rightarrow>
   ((binding_error + completed_commit) \<times> 's world \<times> nat) option" where
  "binding_execute fuel sha S env codecs policy codec metadata binding payload w =
     (case bd_program binding payload of
        Inl m \<Rightarrow> Some (Inl (BindingInvalidPayload m), w, 0)
      | Inr program \<Rightarrow>
          map_option (\<lambda>(r, w, n). (map_err BindingExecution r, w, n))
            (execute_completed_with_rejection_codec fuel sha S env (bd_type_name binding) metadata
               codecs codec policy program w))"

text \<open>\<open>FixedRejection\<close> records a rejection of the framework through the ordinary executor.\<close>

definition execute_fixed_rejection ::
  "nat \<Rightarrow> runtime_externals \<Rightarrow> 's execution_store \<Rightarrow> (nat \<Rightarrow> 's \<Rightarrow> 's) \<Rightarrow>
   ('s, 'a, 'st, 'ev) command_processor \<Rightarrow> encoded_command \<Rightarrow> execution_metadata \<Rightarrow>
   command_rejection \<Rightarrow> 's world \<Rightarrow>
   ((command_processor_error + processed_command) \<times> 's world \<times> nat) option" where
  "execute_fixed_rejection fuel E S env P encoded metadata rejection w =
     map_option (\<lambda>(r, w, n).
         (rbind (map_err processor_execution r) (project_commit E P encoded), w, n))
       (execute_completed_with_rejection_codec fuel (rx_sha256 E) S env ''()'' metadata (pr_codecs P)
          (pc_rejection_codec (pr_configuration P)) (pc_retry (pr_configuration P))
          (Decide (Rejected rejection)) w)"

definition execute_missing ::
  "nat \<Rightarrow> runtime_externals \<Rightarrow> 's execution_store \<Rightarrow> (nat \<Rightarrow> 's \<Rightarrow> 's) \<Rightarrow>
   ('s, 'a, 'st, 'ev) command_processor \<Rightarrow> encoded_command \<Rightarrow> execution_metadata \<Rightarrow> 's world \<Rightarrow>
   ((command_processor_error + processed_command) \<times> 's world \<times> nat) option" where
  "execute_missing fuel E S env P encoded metadata w =
     (case validate_command E encoded (pr_context P) of
        Inl e \<Rightarrow> Some (Inl e, w, 0)
      | Inr (envelope, _, key) \<Rightarrow>
          (let routed = cv_payload envelope;
               reject = (\<lambda>rejection w.
                 case rejection of
                   Inl e \<Rightarrow> Some (Inl e, w, 0)
                 | Inr rejection \<Rightarrow>
                     execute_fixed_rejection fuel E S env P encoded metadata rejection w)
           in case fmlookup (pr_bindings P) key of
                None \<Rightarrow> reject (unknown_command_rejection (cm_address encoded) routed) w
              | Some binding \<Rightarrow>
                  (case binding_execute fuel (rx_sha256 E) S env (pr_codecs P)
                          (pc_retry (pr_configuration P))
                          (pc_rejection_codec (pr_configuration P)) metadata binding
                          (rd_payload routed) w of
                     None \<Rightarrow> None
                   | Some (Inr commit, w, n) \<Rightarrow> Some (project_commit E P encoded commit, w, n)
                   | Some (Inl (BindingExecution e), w, n) \<Rightarrow> Some (Inl (processor_execution e), w, n)
                   | Some (Inl (BindingInvalidPayload reason), w, n) \<Rightarrow>
                       reject (invalid_payload_rejection reason) w)))"

section \<open>The policy-enabled service\<close>

definition authorize_with ::
  "('s, 'a, 'st, 'ev) command_processor \<Rightarrow> 's world \<Rightarrow> trusted_command_context \<Rightarrow> encoded_command \<Rightarrow>
   command_access \<Rightarrow> command_processor_error + unit" where
  "authorize_with P w caller encoded access =
     rbind (ok_or (configuration_error NoAuthorizationPolicy) (pc_authorizer (pr_configuration P)))
       (\<lambda>policy. map_err processor_authorization (policy w caller encoded access))"

definition authorized_lookup ::
  "runtime_externals \<Rightarrow> 's execution_store \<Rightarrow> (nat \<Rightarrow> 's \<Rightarrow> 's) \<Rightarrow>
   ('s, 'a, 'st, 'ev) command_processor \<Rightarrow> trusted_command_context \<Rightarrow> encoded_command \<Rightarrow>
   's world \<Rightarrow> (command_processor_error + command_response outcome_lookup) \<times> 's world" where
  "authorized_lookup E S env P caller encoded w =
     (case rbind (authorize_with P w caller encoded ReadOutcome) (\<lambda>_.
           validate_command E encoded (pr_context P)) of
        Inl e \<Rightarrow> (Inl e, w)
      | Inr (_, metadata, _) \<Rightarrow>
          (let w = interleave env w
           in (lookup_metadata E S P encoded
                 (metadata\<lparr>md_security_scope := Some (tcc_scope caller)\<rparr>) (w_state w), w)))"

definition process_authorized ::
  "nat \<Rightarrow> runtime_externals \<Rightarrow> 's execution_store \<Rightarrow> (nat \<Rightarrow> 's \<Rightarrow> 's) \<Rightarrow>
   ('s, 'a, 'st, 'ev) command_processor \<Rightarrow> trusted_command_context \<Rightarrow> encoded_command \<Rightarrow>
   's world \<Rightarrow> ((command_processor_error + processed_command) \<times> 's world \<times> nat) option" where
  "process_authorized fuel E S env P caller encoded w =
     (case authorized_lookup E S env P caller encoded w of
        (Inl e, w) \<Rightarrow> Some (Inl e, w, 0)
      | (Inr (Completed outcome), w) \<Rightarrow>
          Some (Inr \<lparr>pd_origin = OriginReplayed, pd_outcome = outcome\<rparr>, w, 0)
      | (Inr Missing, w) \<Rightarrow>
          (case rbind (authorize_with P w caller encoded ExecuteCommand) (\<lambda>_.
                validate_command E encoded (pr_context P)) of
             Inl e \<Rightarrow> Some (Inl e, w, 0)
           | Inr (_, metadata, _) \<Rightarrow>
               execute_missing fuel E S env P encoded
                 (metadata\<lparr>md_security_scope := Some (tcc_scope caller)\<rparr>) w))"

definition audit_step ::
  "('s, 'a) processor_configuration \<Rightarrow> command_audit_record \<Rightarrow>
   (audit_phase \<times> audit_error) list \<times> 'a \<Rightarrow> (audit_phase \<times> audit_error) list \<times> 'a" where
  "audit_step configuration r errors_sink =
     (let (errors, a) = errors_sink in
      case pc_audit configuration of
        None \<Rightarrow> (errors, a)
      | Some sink \<Rightarrow>
          (case sink r a of
             (None, a) \<Rightarrow> (errors @ [(ar_phase r, AuditTimedOut)], a)
           | (Some (Inl e), a) \<Rightarrow> (errors @ [(ar_phase r, e)], a)
           | (Some (Inr _), a) \<Rightarrow> (errors, a)))"

definition audit_outcome ::
  "('s, 'a) processor_configuration \<Rightarrow> (audit_phase \<times> audit_error) list \<Rightarrow> audit_delivery" where
  "audit_outcome configuration errors =
     (if pc_audit configuration = None then AuditDisabled
      else if errors = [] then AuditDelivered
      else AuditFailed errors)"

definition terminal_of ::
  "('t \<Rightarrow> audit_terminal) \<Rightarrow> command_processor_error + 't \<Rightarrow> audit_terminal" where
  "terminal_of terminal result =
     (case result of
        Inr v \<Rightarrow> terminal v
      | Inl e \<Rightarrow>
          if pe_authorization e \<in> {Some AccessDenied, Some Unauthenticated} then TerminalDenied
          else TerminalFailed)"

text \<open>\<open>operation\<close> is the future the report awaits between its two audit records; \<open>attempt\<close> is the
  generated attempt identity.\<close>

definition report ::
  "runtime_externals \<Rightarrow> ('s, 'a, 'st, 'ev) command_processor \<Rightarrow> string \<Rightarrow> trusted_command_context \<Rightarrow>
   encoded_command \<Rightarrow> ('s world \<Rightarrow> ((command_processor_error + 't) \<times> 's world \<times> nat) option) \<Rightarrow>
   ('t \<Rightarrow> audit_terminal) \<Rightarrow> 's world \<Rightarrow> 'a \<Rightarrow> ('t service_report \<times> 's world \<times> nat \<times> 'a) option" where
  "report E P attempt caller encoded operation terminal w a =
     (case validate_service E P encoded of
        Inl e \<Rightarrow>
          Some (\<lparr>sr_result = Inl e, sr_attempt = attempt, sr_audit = AuditDisabled\<rparr>, w, 0, a)
      | Inr _ \<Rightarrow>
          (let r = \<lparr>ar_attempt = attempt, ar_phase = AuditStarted, ar_terminal = None,
                    ar_command = cm_message_id encoded, ar_original = cm_payload encoded,
                    ar_caller = caller\<rparr>;
               started = audit_step (pr_configuration P) r ([], a)
           in case operation w of
                None \<Rightarrow> None
              | Some (result, w, n) \<Rightarrow>
                  (let r = r\<lparr>ar_phase := AuditFinished,
                             ar_terminal := Some (terminal_of terminal result)\<rparr>;
                       finished = audit_step (pr_configuration P) r started
                   in Some (\<lparr>sr_result = result, sr_attempt = attempt,
                             sr_audit = audit_outcome (pr_configuration P) (fst finished)\<rparr>,
                            w, n, snd finished))))"

definition availability_terminal ::
  "command_response completed_outcome \<Rightarrow> audit_terminal \<Rightarrow> audit_terminal" where
  "availability_terminal outcome available =
     (case co_details outcome of
        Available _ \<Rightarrow> available
      | Expired \<Rightarrow> TerminalExpired
      | _ \<Rightarrow> TerminalUnavailable)"

definition service_process ::
  "nat \<Rightarrow> runtime_externals \<Rightarrow> 's execution_store \<Rightarrow> (nat \<Rightarrow> 's \<Rightarrow> 's) \<Rightarrow>
   ('s, 'a, 'st, 'ev) command_processor \<Rightarrow> string \<Rightarrow> trusted_command_context \<Rightarrow> encoded_command \<Rightarrow>
   's world \<Rightarrow> 'a \<Rightarrow> (processed_command service_report \<times> 's world \<times> nat \<times> 'a) option" where
  "service_process fuel E S env P attempt caller encoded w a =
     report E P attempt caller encoded (process_authorized fuel E S env P caller encoded)
       (\<lambda>processed. availability_terminal (pd_outcome processed)
          (case pd_origin processed of
             OriginCommitted \<Rightarrow> TerminalCommitted | OriginReplayed \<Rightarrow> TerminalReplayed)) w a"

definition service_lookup ::
  "runtime_externals \<Rightarrow> 's execution_store \<Rightarrow> (nat \<Rightarrow> 's \<Rightarrow> 's) \<Rightarrow>
   ('s, 'a, 'st, 'ev) command_processor \<Rightarrow> string \<Rightarrow> trusted_command_context \<Rightarrow> encoded_command \<Rightarrow>
   's world \<Rightarrow> 'a \<Rightarrow> (command_response outcome_lookup service_report \<times> 's world \<times> nat \<times> 'a) option" where
  "service_lookup E S env P attempt caller encoded w a =
     report E P attempt caller encoded
       (\<lambda>w. let found = authorized_lookup E S env P caller encoded w in Some (fst found, snd found, 0))
       (\<lambda>found. case found of
          Missing \<Rightarrow> TerminalMissing
        | Completed outcome \<Rightarrow> availability_terminal outcome TerminalReplayed) w a"

section \<open>The trusted profile\<close>

definition trusted_reconcile ::
  "runtime_externals \<Rightarrow> 's execution_store \<Rightarrow> (nat \<Rightarrow> 's \<Rightarrow> 's) \<Rightarrow>
   ('s, 'a, 'st, 'ev) command_processor \<Rightarrow> encoded_command \<Rightarrow> 's world \<Rightarrow>
   (command_processor_error + command_response option) \<times> 's world" where
  "trusted_reconcile E S env P encoded w =
     (case rbind (require_trusted_profile P) (\<lambda>_. validate_command E encoded (pr_context P)) of
        Inl e \<Rightarrow> (Inl e, w)
      | Inr (_, metadata, _) \<Rightarrow>
          (let w = interleave env w in
           (case reconcile_with_rejection_codec (rx_sha256 E) S metadata
                   (pc_rejection_codec (pr_configuration P)) (w_state w) of
              Inr None \<Rightarrow> Inr None
            | Inr (Some (OutcomeOk _)) \<Rightarrow> map_ok Some (build_response E encoded ResponseAccepted)
            | Inr (Some (OutcomeRefused rejection)) \<Rightarrow>
                map_ok Some (build_response E encoded (ResponseRejected rejection))
            | Inl (ExecStore e) \<Rightarrow>
                if store_kind e = IdentityConflict then
                  rbind operation_conflict (\<lambda>rejection.
                    map_ok Some (build_response E encoded (ResponseRejected rejection)))
                else Inl (processor_execution (ExecStore e))
            | Inl e \<Rightarrow> Inl (processor_execution e), w)))"

definition trusted_process ::
  "nat \<Rightarrow> runtime_externals \<Rightarrow> 's execution_store \<Rightarrow> (nat \<Rightarrow> 's \<Rightarrow> 's) \<Rightarrow>
   ('s, 'a, 'st, 'ev) command_processor \<Rightarrow> encoded_command \<Rightarrow> 's world \<Rightarrow>
   ((command_processor_error + command_response) \<times> 's world \<times> nat) option" where
  "trusted_process fuel E S env P encoded w =
     (case trusted_reconcile E S env P encoded w of
        (Inl e, w) \<Rightarrow> Some (Inl e, w, 0)
      | (Inr (Some response), w) \<Rightarrow> Some (Inr response, w, 0)
      | (Inr None, w) \<Rightarrow>
          (case validate_command E encoded (pr_context P) of
             Inl e \<Rightarrow> Some (Inl e, w, 0)
           | Inr (_, metadata, _) \<Rightarrow>
               map_option (\<lambda>(r, w, n).
                   (case r of
                      Inr processed \<Rightarrow>
                        map_err processor_recovery
                          (details_available (co_details (pd_outcome processed)))
                    | Inl e \<Rightarrow>
                        if pe_kind e = ProcIdentityConflict then
                          rbind operation_conflict (\<lambda>rejection.
                            build_response E encoded (ResponseRejected rejection))
                        else Inl e, w, n))
                 (execute_missing fuel E S env P encoded metadata w)))"

section \<open>The in-memory adapter\<close>

text \<open>\<open>EncodedIntegrationMessage\<close> wraps an outbound message.\<close>

type_synonym encoded_integration_message = "integration_event_address outbound_message"

record in_memory_messaging =
  im_commands :: "message_id set"
  im_command_messages :: "encoded_command list"
  im_integration_events :: "(message_id, encoded_integration_message) fmap"
  im_integration_messages :: "encoded_integration_message list"

definition messaging_empty :: in_memory_messaging where
  "messaging_empty = \<lparr>im_commands = {}, im_command_messages = [], im_integration_events = fmempty,
                      im_integration_messages = []\<rparr>"

definition remember_command :: "encoded_command \<Rightarrow> in_memory_messaging \<Rightarrow> in_memory_messaging" where
  "remember_command command m =
     m\<lparr>im_commands := insert (cm_message_id command) (im_commands m),
       im_command_messages := (if cm_message_id command \<in> im_commands m then im_command_messages m
                               else im_command_messages m @ [command])\<rparr>"

text \<open>\<open>dispatch_as\<close> through a policy-enabled service.\<close>

definition dispatch_as ::
  "nat \<Rightarrow> runtime_externals \<Rightarrow> 's execution_store \<Rightarrow> (nat \<Rightarrow> 's \<Rightarrow> 's) \<Rightarrow>
   ('s, 'a, 'st, 'ev) command_processor \<Rightarrow> string \<Rightarrow> trusted_command_context \<Rightarrow> encoded_command \<Rightarrow>
   's world \<Rightarrow> 'a \<Rightarrow> in_memory_messaging \<Rightarrow>
   ((command_bus_error + command_bus_receipt) \<times> 's world \<times> 'a \<times> in_memory_messaging) option" where
  "dispatch_as fuel E S env P attempt caller command w a m =
     (case encoded_validate E command of
        Inl e \<Rightarrow> Some (Inl (bus_from_processor e), w, a, m)
      | Inr _ \<Rightarrow>
          (case service_process fuel E S env P attempt caller command w a of
             None \<Rightarrow> None
           | Some (rep, w, n, a) \<Rightarrow>
               (case rbind (sr_result rep) (\<lambda>processed. admit E processed caller command) of
                  Inl e \<Rightarrow> Some (Inl (bus_from_processor e), w, a, m)
                | Inr response \<Rightarrow>
                    Some (Inr \<lparr>br_publication_duplicate = (cm_message_id command \<in> im_commands m),
                               br_response = response\<rparr>, w, a, remember_command command m))))"

text \<open>The adapter's \<open>dispatch\<close> through a trusted processor.\<close>

definition dispatch_trusted ::
  "nat \<Rightarrow> runtime_externals \<Rightarrow> 's execution_store \<Rightarrow> (nat \<Rightarrow> 's \<Rightarrow> 's) \<Rightarrow>
   ('s, 'a, 'st, 'ev) command_processor \<Rightarrow> encoded_command \<Rightarrow> 's world \<Rightarrow> in_memory_messaging \<Rightarrow>
   ((command_bus_error + command_bus_receipt) \<times> 's world \<times> in_memory_messaging) option" where
  "dispatch_trusted fuel E S env P command w m =
     (case trusted_process fuel E S env P command w of
        None \<Rightarrow> None
      | Some (Inl e, w, n) \<Rightarrow> Some (Inl (bus_from_processor e), w, m)
      | Some (Inr response, w, n) \<Rightarrow>
          Some (Inr \<lparr>br_publication_duplicate = (cm_message_id command \<in> im_commands m),
                     br_response = response\<rparr>, w, remember_command command m))"

section \<open>Importing a historical rejection\<close>

definition legacy_rejection_transaction ::
  "runtime_externals \<Rightarrow> encoded_command \<Rightarrow> command_response \<Rightarrow>
   command_processor_error + event_transaction" where
  "legacy_rejection_transaction E encoded response =
     rbind (encoded_validate E encoded) (\<lambda>_.
     if cm_actor encoded \<noteq> None then
       Inl (processor_execution (ExecStore (store_error_new InvalidRequest
              (External_text ''historical rejection import cannot assert actor attribution''))))
     else
       rbind (map_err (\<lambda>e. invalid_message (Rt_response e))
                (validate_response (rx_sha256 E) encoded response)) (\<lambda>_.
       case rs_outcome response of
         ResponseRejected rejection \<Rightarrow>
           rbind (map_err (\<lambda>e. invalid_message (Rt_contract e))
                    (BoundedContextName_new (address_context (cm_address encoded)))) (\<lambda>context.
           rbind (validate_command E encoded context) (\<lambda>(_, metadata, _).
           rbind (map_err (\<lambda>e. processor_execution (ExecCodec e))
                    (rc_encode (default_rejection_codec E) rejection)) (\<lambda>coded.
           let t = (EventTransaction_new (md_operation_id metadata)
                      (md_operation_fingerprint metadata) [])
                     \<lparr>tx_bounded_context := Some context,
                      tx_completion := Some (completion_new (md_outcome_evidence metadata)
                        (Some coded))\<rparr>;
               t = (case md_correlation_id metadata of None \<Rightarrow> t
                    | Some c \<Rightarrow> t\<lparr>tx_correlation_id := Some c\<rparr>);
               t = (case md_causation_id metadata of None \<Rightarrow> t
                    | Some c \<Rightarrow> t\<lparr>tx_causation_id := Some c\<rparr>)
           in Inr t)))
       | _ \<Rightarrow> Inl (invalid_message (Rt_text ImportRequiresRejection))))"

end
