(* ===== verification/CommandContract.thy ===== *)
theory CommandContract
  imports Processor ExecutionContract
begin

text \<open>
  Facts about encoded commands, responses and the processor: what an encoded command carries, that
  built responses answer their command, and, in the locale of stores whose lookups agree with their
  markers, what a processed command is and that it is found again.
\<close>

section \<open>Encoding\<close>

lemma command_address_context:
  assumes "command_address_of bx name = Inr address"
  shows "address_context address = bx_name bx" "address_name address = name"
    "address_application address = bx_application bx"
    "address_traffic_scope address = bx_traffic_scope bx"
  using assms built_accessors
  by (auto simp: command_address_of_def CommandAddress_new_in_scope_def)

lemma command_envelope_new_ok_iff:
  "command_envelope_new to_vec ctx op created payload = Inr envelope \<longleftrightarrow>
     envelope = \<lparr>cv_message_id = ec_message_id ctx, cv_operation_id = op,
         cv_schema_version = ec_schema_version ctx, cv_created_at = created,
         cv_correlation_id = ec_correlation_id ctx, cv_causation_id = ec_causation_id ctx,
         cv_payload = payload, cv_metadata_version = None, cv_actor = None\<rparr>
     \<and> validate_serialized_size to_vec envelope = Inr ()"
  by (auto simp: command_envelope_new_def Let_def result_simps)

lemma command_envelope_with_actor_ok_iff:
  "command_envelope_with_actor to_vec actor envelope = Inr envelope' \<longleftrightarrow>
     envelope' = envelope\<lparr>cv_metadata_version := Some 2, cv_actor := Some actor\<rparr>
     \<and> validate_serialized_size to_vec envelope' = Inr ()"
  by (auto simp: command_envelope_with_actor_def Let_def result_simps)

lemma RoutedCommand_new_ok:
  assumes "RoutedCommand_new command schema payload = Inr routed"
  shows "routed = \<lparr>rd_command = command, rd_schema_version = schema, rd_payload = payload,
      rd_events_caused_by_command = False\<rparr>"
    "routed_from_wire (routed\<lparr>rd_events_caused_by_command := caused\<rparr>) =
      Inr (routed\<lparr>rd_events_caused_by_command := caused\<rparr>)"
proof -
  show eq: "routed = \<lparr>rd_command = command, rd_schema_version = schema, rd_payload = payload,
      rd_events_caused_by_command = False\<rparr>"
    using assms by (auto simp: RoutedCommand_new_def result_simps)
  then show "routed_from_wire (routed\<lparr>rd_events_caused_by_command := caused\<rparr>) =
      Inr (routed\<lparr>rd_events_caused_by_command := caused\<rparr>)"
    using assms by (simp add: routed_from_wire_def)
qed

text \<open>The envelope that \<open>encode_dynamic\<close> serializes, and what the encoded command carries.\<close>

definition request_envelope ::
  "dynamic_command_request \<Rightarrow> message_id \<Rightarrow> correlation_id \<Rightarrow> u64 \<Rightarrow> routed_command command_envelope" where
  "request_envelope request i correlation created =
     \<lparr>cv_message_id = i, cv_operation_id = dr_request_operation_id request,
      cv_schema_version = dr_request_schema_version request, cv_created_at = created,
      cv_correlation_id = correlation, cv_causation_id = dr_request_causation_id request,
      cv_payload = \<lparr>rd_command = dr_request_command request,
        rd_schema_version = dr_request_schema_version request,
        rd_payload = dr_request_payload request,
        rd_events_caused_by_command = dr_request_events_caused_by_command request\<rparr>,
      cv_metadata_version = map_option (\<lambda>_. 2) (dr_request_actor request),
      cv_actor = dr_request_actor request\<rparr>"

lemma SchemaVersion_new_ok: "SchemaVersion_new v = Inr u \<Longrightarrow> u = v"
  by (auto simp: SchemaVersion_new_def split: if_splits)

lemma encode_dynamic_parts:
  assumes "encode_dynamic E clock bus request = Inr command"
  obtains created where
    "command_address_of (bus_context bus) (dr_request_command request) = Inr (cm_address command)"
    "routed_from_wire (cv_payload (request_envelope request (cm_message_id command)
       (cm_correlation_id command) created)) =
     Inr (cv_payload (request_envelope request (cm_message_id command) (cm_correlation_id command) created))"
    "routed_command_execution_fingerprint E (bx_name (bus_context bus))
       (cv_payload (request_envelope request (cm_message_id command) (cm_correlation_id command) created))
       (dr_request_actor request) = Inr (cm_fingerprint command)"
    "command_message_id (rx_sha256 E) (cm_address command) (dr_request_operation_id request)
       (cm_fingerprint command) (cm_correlation_id command) (dr_request_causation_id request) =
     Inr (cm_message_id command)"
    "canonical_serialize E (request_envelope request (cm_message_id command)
       (cm_correlation_id command) created) = Inr (cm_payload command)"
    "command_envelope_from_wire (rx_envelope_to_vec E) (request_envelope request
       (cm_message_id command) (cm_correlation_id command) created) =
     Inr (request_envelope request (cm_message_id command) (cm_correlation_id command) created)"
    "outbound_new (cm_address command) (cm_message_id command) (cm_payload command) =
     Inr ((cm_message command)\<lparr>ob_correlation_id := None\<rparr>)"
    "ob_correlation_id (cm_message command) = Some (cm_correlation_id command)"
    "cm_operation_id command = dr_request_operation_id request"
    "cm_actor command = dr_request_actor request"
    "length (cm_payload command) \<le> bus_maximum_payload_len bus"
    "effective_correlation_id ((metadata_new (dr_request_operation_id request)
       (cm_fingerprint command))\<lparr>md_correlation_id := dr_request_correlation_id request\<rparr>) =
     Inr (cm_correlation_id command)"
    "dr_request_created_at request = None \<or> dr_request_created_at request = Some created"
proof -
  from assms obtain address op created routed fingerprint correlation i schema envelope0 envelope
      payload m where
    address: "command_address_of (bus_context bus) (dr_request_command request) = Inr address"
    and op: "validate_identifier (dr_request_operation_id request) ''operation_id'' = Inr op"
    and created: "(case dr_request_created_at request of Some t \<Rightarrow> Inr t
      | None \<Rightarrow> current_timestamp clock) = Inr created"
    and routed: "RoutedCommand_new (dr_request_command request) (dr_request_schema_version request)
      (dr_request_payload request) = Inr routed"
    and fp: "routed_command_execution_fingerprint E (bx_name (bus_context bus))
      (routed\<lparr>rd_events_caused_by_command := dr_request_events_caused_by_command request\<rparr>)
      (dr_request_actor request) = Inr fingerprint"
    and corr: "effective_correlation_id ((metadata_new (dr_request_operation_id request) fingerprint)
      \<lparr>md_correlation_id := dr_request_correlation_id request\<rparr>) = Inr correlation"
    and i: "command_message_id (rx_sha256 E) address op fingerprint correlation
      (dr_request_causation_id request) = Inr i"
    and schema: "SchemaVersion_new (rd_schema_version routed) = Inr schema"
    and env0: "command_envelope_new (rx_envelope_to_vec E)
      \<lparr>ec_message_id = i, ec_schema_version = schema, ec_correlation_id = correlation,
       ec_causation_id = dr_request_causation_id request\<rparr> op created
      (routed\<lparr>rd_events_caused_by_command := dr_request_events_caused_by_command request\<rparr>) = Inr envelope0"
    and env: "(case dr_request_actor request of None \<Rightarrow> Inr envelope0
      | Some actor \<Rightarrow> map_err command_message_build_error
          (command_envelope_with_actor (rx_envelope_to_vec E) actor envelope0)) = Inr envelope"
    and payload: "canonical_serialize E envelope = Inr payload"
    and size: "length payload \<le> bus_maximum_payload_len bus"
    and m: "outbound_new address i payload = Inr m"
    and command: "command = (encoded_command_new (m\<lparr>ob_correlation_id := Some correlation\<rparr>) op
      correlation fingerprint)\<lparr>cm_actor := dr_request_actor request\<rparr>"
    by (auto simp: encode_dynamic_def Let_def result_simps split: if_splits)
  have op': "op = dr_request_operation_id request"
    using op by (simp add: validate_identifier_ok_iff)
  note routed_eq = RoutedCommand_new_ok(1) [OF routed]
  have schema': "schema = dr_request_schema_version request"
    using SchemaVersion_new_ok [OF schema] routed_eq by simp
  have m': "ob_address m = address" "ob_message_id m = i" "ob_payload m = payload"
    "ob_correlation_id m = None"
    using m by (simp_all add: outbound_new_ok_iff)
  have envelope: "envelope = request_envelope request i correlation created"
    using env env0 op' schema' routed_eq
    by (cases "dr_request_actor request")
      (auto simp: command_envelope_new_ok_iff command_envelope_with_actor_ok_iff request_envelope_def
        map_err_Inr_iff)
  have wire: "command_envelope_from_wire (rx_envelope_to_vec E) envelope = Inr envelope"
    using env command_envelope_wire_roundtrip [OF env0] command_envelope_actor_wire_roundtrip [OF env0]
    by (cases "dr_request_actor request") (auto simp: map_err_Inr_iff)
  have mm: "m = m\<lparr>ob_correlation_id := None\<rparr>"
    using m'(4) by (cases m) simp
  have sel: "cm_address command = address" "cm_message_id command = i" "cm_payload command = payload"
    "cm_correlation_id command = correlation" "cm_fingerprint command = fingerprint"
    "cm_operation_id command = op" "cm_actor command = dr_request_actor request"
    "ob_correlation_id (cm_message command) = Some correlation"
    "(cm_message command)\<lparr>ob_correlation_id := None\<rparr> = m"
    using command m' mm by (simp_all add: encoded_command_new_def)
  have cv: "cv_payload (request_envelope request i correlation created) =
      routed\<lparr>rd_events_caused_by_command := dr_request_events_caused_by_command request\<rparr>"
    using routed_eq by (simp add: request_envelope_def)
  have at: "dr_request_created_at request = None \<or> dr_request_created_at request = Some created"
    using created by (cases "dr_request_created_at request") simp_all
  show thesis
  proof (rule that [of created], unfold sel cv)
    show "routed_from_wire (routed\<lparr>rd_events_caused_by_command :=
        dr_request_events_caused_by_command request\<rparr>) =
      Inr (routed\<lparr>rd_events_caused_by_command := dr_request_events_caused_by_command request\<rparr>)"
      by (rule RoutedCommand_new_ok(2) [OF routed])
    show "dr_request_created_at request = None \<or> dr_request_created_at request = Some created"
      by (rule at)
  qed (use address fp i [unfolded op'] payload [unfolded envelope] wire [unfolded envelope] m op' size
      corr in \<open>simp_all only:\<close>)
qed

text \<open>A command read back as it was written passes its validation.\<close>

lemma envelope_read_back:
  assumes "rx_envelope_from_slice E payload = Inr envelope"
    and "routed_from_wire (cv_payload envelope) = Inr (cv_payload envelope)"
    and "command_envelope_from_wire (rx_envelope_to_vec E) envelope = Inr envelope"
  shows "envelope_from_slice E payload = Inr envelope"
  using assms by (simp add: envelope_from_slice_def)

lemma command_causation_total:
  assumes "MessageId_new (cm_message_id command) = Inr (cm_message_id command)"
  shows "command_causation command envelope =
    Inr (if rd_events_caused_by_command (cv_payload envelope) then cm_message_id command
         else case cv_causation_id envelope of Some c \<Rightarrow> c | None \<Rightarrow> cm_message_id command)"
proof -
  have "CausationId_new (cm_message_id command) = Inr (cm_message_id command)"
    using assms unfolding MessageId_new_def CausationId_new_def validate_identifier_ok_iff by blast
  then show ?thesis
    by (cases "cv_causation_id envelope") (simp_all add: command_causation_def)
qed

lemma command_message_id_valid:
  "command_message_id sha address op fp correlation causation = Inr i \<Longrightarrow> MessageId_new i = Inr i"
  by (auto simp: command_message_id_def map_err_Inr_iff MessageId_new_def validate_identifier_ok_iff)

definition request_metadata ::
  "command_bus \<Rightarrow> dynamic_command_request \<Rightarrow> encoded_command \<Rightarrow> u64 \<Rightarrow> execution_metadata" where
  "request_metadata bus request command created =
     \<lparr>md_actor = dr_request_actor request, md_security_scope = None,
      md_outcome_evidence = Some (command_evidence command
        (request_envelope request (cm_message_id command) (cm_correlation_id command) created)),
      md_bounded_context = Some (bx_name (bus_context bus)),
      md_operation_id = dr_request_operation_id request,
      md_operation_fingerprint = cm_fingerprint command,
      md_correlation_id = Some (cm_correlation_id command),
      md_causation_id = Some
        (if dr_request_events_caused_by_command request then cm_message_id command
         else case dr_request_causation_id request of Some c \<Rightarrow> c | None \<Rightarrow> cm_message_id command)\<rparr>"

lemma encoded_command_accepted:
  assumes encode: "encode_dynamic E clock bus request = Inr command"
    and op: "OperationId_new (dr_request_operation_id request) = Inr (dr_request_operation_id request)"
    and serde: "\<And>envelope. canonical_serialize E envelope = Inr (cm_payload command) \<Longrightarrow>
      rx_envelope_from_slice E (cm_payload command) = Inr envelope"
  shows "\<exists>created. validate_command E command (bx_name (bus_context bus)) =
      Inr (request_envelope request (cm_message_id command) (cm_correlation_id command) created,
           request_metadata bus request command created,
           (bx_name (bus_context bus), dr_request_command request, dr_request_schema_version request))
      \<and> (dr_request_created_at request = None \<or> dr_request_created_at request = Some created)"
    and "from_delivery E (cm_address command) (cm_message_id command) (cm_payload command) = Inr command"
proof -
  from encode obtain created where
    address: "command_address_of (bus_context bus) (dr_request_command request) = Inr (cm_address command)"
    and routed: "routed_from_wire (cv_payload (request_envelope request (cm_message_id command)
       (cm_correlation_id command) created)) =
      Inr (cv_payload (request_envelope request (cm_message_id command) (cm_correlation_id command) created))"
    and fp: "routed_command_execution_fingerprint E (bx_name (bus_context bus))
       (cv_payload (request_envelope request (cm_message_id command) (cm_correlation_id command) created))
       (dr_request_actor request) = Inr (cm_fingerprint command)"
    and i: "command_message_id (rx_sha256 E) (cm_address command) (dr_request_operation_id request)
       (cm_fingerprint command) (cm_correlation_id command) (dr_request_causation_id request) =
      Inr (cm_message_id command)"
    and payload: "canonical_serialize E (request_envelope request (cm_message_id command)
       (cm_correlation_id command) created) = Inr (cm_payload command)"
    and wire: "command_envelope_from_wire (rx_envelope_to_vec E) (request_envelope request
       (cm_message_id command) (cm_correlation_id command) created) =
      Inr (request_envelope request (cm_message_id command) (cm_correlation_id command) created)"
    and m: "outbound_new (cm_address command) (cm_message_id command) (cm_payload command) =
      Inr ((cm_message command)\<lparr>ob_correlation_id := None\<rparr>)"
    and fields: "ob_correlation_id (cm_message command) = Some (cm_correlation_id command)"
      "cm_operation_id command = dr_request_operation_id request"
      "cm_actor command = dr_request_actor request"
      "dr_request_created_at request = None \<or> dr_request_created_at request = Some created"
    by (rule encode_dynamic_parts)
  define envelope where "envelope =
    request_envelope request (cm_message_id command) (cm_correlation_id command) created"
  have env: "cv_message_id envelope = cm_message_id command"
    "cv_operation_id envelope = dr_request_operation_id request"
    "cv_schema_version envelope = dr_request_schema_version request"
    "cv_correlation_id envelope = cm_correlation_id command"
    "cv_causation_id envelope = dr_request_causation_id request"
    "cv_actor envelope = dr_request_actor request"
    "rd_command (cv_payload envelope) = dr_request_command request"
    "rd_schema_version (cv_payload envelope) = dr_request_schema_version request"
    "rd_events_caused_by_command (cv_payload envelope) = dr_request_events_caused_by_command request"
    by (simp_all add: envelope_def request_envelope_def)
  note ctx = command_address_context [OF address]
  have read: "envelope_from_slice E (cm_payload command) = Inr envelope"
    using envelope_read_back [OF serde [OF payload] routed wire] by (simp add: envelope_def)
  note fp' = fp [folded envelope_def]
  have caus: "command_causation command envelope =
    Inr (if rd_events_caused_by_command (cv_payload envelope) then cm_message_id command
         else case cv_causation_id envelope of Some c \<Rightarrow> c | None \<Rightarrow> cm_message_id command)"
    by (rule command_causation_total [OF command_message_id_valid [OF i]])
  have "validate_command E command (bx_name (bus_context bus)) =
      Inr (envelope, request_metadata bus request command created,
           (bx_name (bus_context bus), dr_request_command request, dr_request_schema_version request))"
    using ctx fp' i op fields
    by (simp add: validate_command_def read env caus Let_def request_metadata_def metadata_new_def
        flip: envelope_def)
  then show "\<exists>created. validate_command E command (bx_name (bus_context bus)) =
      Inr (request_envelope request (cm_message_id command) (cm_correlation_id command) created,
           request_metadata bus request command created,
           (bx_name (bus_context bus), dr_request_command request, dr_request_schema_version request))
      \<and> (dr_request_created_at request = None \<or> dr_request_created_at request = Some created)"
    unfolding envelope_def using fields(4) by blast
  show "from_delivery E (cm_address command) (cm_message_id command) (cm_payload command) = Inr command"
  proof -
    have "from_delivery E (cm_address command) (cm_message_id command) (cm_payload command) =
        Inr ((encoded_command_new ((cm_message command)\<lparr>ob_correlation_id :=
          Some (cm_correlation_id command)\<rparr>) (dr_request_operation_id request)
          (cm_correlation_id command) (cm_fingerprint command))\<lparr>cm_actor := dr_request_actor request\<rparr>)"
      using ctx fp' m by (simp add: from_delivery_def read env)
    moreover have "(cm_message command)\<lparr>ob_correlation_id := Some (cm_correlation_id command)\<rparr> =
        cm_message command"
      by (simp flip: fields(1))
    ultimately show ?thesis
      using fields by (cases command) (simp add: encoded_command_new_def)
  qed
qed

section \<open>Fingerprints\<close>

lemma framed_fingerprint_frame: "framed_fingerprint sha parts = fingerprint_digest sha (frame parts)"
proof -
  have "concat (map (\<lambda>part. be_bytes 8 (length part) @ part) parts) = frame parts"
    by (induction parts) (simp_all add: frame_Cons)
  then show ?thesis by (simp add: framed_fingerprint_def)
qed

lemma framed_fingerprint_inject:
  assumes "framed_fingerprint sha ps = framed_fingerprint sha qs" and "framable ps" "framable qs"
    and "sha (frame ps) = sha (frame qs) \<longrightarrow> frame ps = frame qs"
  shows "ps = qs"
  using assms frame_inject by (auto simp: framed_fingerprint_frame fingerprint_digest_def)

lemma be_bytes_u32_inject: "be_bytes 4 (unat (v :: u32)) = be_bytes 4 (unat w) \<Longrightarrow> v = w"
proof -
  assume "be_bytes 4 (unat v) = be_bytes 4 (unat w)"
  moreover have "unat x < 256 ^ 4" for x :: u32
    using unsigned_less [of x] by simp
  ultimately have "unat v = unat w"
    using be_bytes_inject by blast
  then show "v = w" by (simp add: word_eq_iff_unsigned [where ?'a = nat])
qed

lemma execution_parts_inject:
  assumes "execution_parts context command schema payload caused actor =
    execution_parts context' command' schema' payload' caused' actor'"
  shows "context = context' \<and> command = command' \<and> schema = schema' \<and> payload = payload'
    \<and> caused = caused' \<and> actor = actor'"
  using assms
  by (auto simp: execution_parts_def dest!: be_bytes_u32_inject
      split: option.splits if_splits intro: actor_ref.equality)

text \<open>The canonical form does not depend on the order of the members of an object, at any depth.\<close>

fun normal_json :: "json \<Rightarrow> json" where
  "normal_json (JArr vs) = JArr (map normal_json vs)"
| "normal_json (JObj entries) = JObj (sort_key fst (map (\<lambda>(k, v). (k, normal_json v)) entries))"
| "normal_json v = v"

lemma sort_key_map:
  assumes "\<And>x. fst (g x) = fst x"
  shows "sort_key fst (map g xs) = map g (sort_key fst xs)"
proof -
  have "insort_key fst (g x) (map g ys) = map g (insort_key fst x ys)" for x ys
    by (induction ys) (simp_all add: assms)
  then show ?thesis by (induction xs) simp_all
qed

lemma sort_key_sorted: "sorted (map f xs) \<Longrightarrow> sort_key f xs = xs"
  by (induction xs) (simp_all add: insort_is_Cons)

lemma collect_results_map: "collect_results f (map g xs) = collect_results (\<lambda>x. f (g x)) xs"
  by (induction xs) simp_all

lemma normal_json_sorted:
  "sort_key fst (map (\<lambda>(k, v). (k, normal_json v)) es) =
   map (\<lambda>(k, v). (k, normal_json v)) (sort_key fst es)"
  by (rule sort_key_map) auto

lemma write_value_normal: "write_value scalar (normal_json v) = write_value scalar v"
proof (induction scalar v rule: write_value.induct)
  case (1 scalar vs)
  then show ?case
    by (simp add: collect_results_map cong: collect_results_cong)
next
  case (2 scalar entries)
  let ?g = "\<lambda>(k, v). (k, normal_json v)"
  let ?f = "\<lambda>(key, v). rbind (scalar (JStr key)) (\<lambda>k. rbind (write_value scalar v) (\<lambda>bs.
    Inr (k @ str_bytes '':'' @ bs)))"
  have "collect_results ?f (map ?g (sort_key fst entries)) = collect_results ?f (sort_key fst entries)"
    unfolding collect_results_map
    by (rule collect_results_cong) (auto simp: 2 split: prod.splits)
  moreover have "sort_key fst (map ?g (sort_key fst entries)) = map ?g (sort_key fst entries)"
    using normal_json_sorted [of "sort_key fst entries"] by (simp add: sort_key_sorted)
  ultimately show ?case
    by (simp only: normal_json.simps write_value.simps normal_json_sorted)
qed simp_all

lemma canonical_normal: "canonical_json_bytes E (normal_json v) = canonical_json_bytes E v"
  by (simp add: canonical_json_bytes_def write_value_normal)

section \<open>Responses\<close>

lemma build_response_valid:
  assumes "build_response E encoded outcome = Inr response"
  shows "validate_response (rx_sha256 E) encoded response = Inr ()" "rs_outcome response = outcome"
proof -
  obtain i where i: "response_id_for (rx_sha256 E) (cm_message_id encoded) outcome = Inr i"
    using assms by (auto simp: build_response_def result_simps)
  then have r: "response = \<lparr>rs_message_id = i, rs_command_message_id = cm_message_id encoded,
      rs_command_address = cm_address encoded, rs_operation_id = cm_operation_id encoded,
      rs_schema_version = expected_schema outcome, rs_correlation_id = cm_correlation_id encoded,
      rs_outcome = outcome\<rparr>"
    using assms
    by (cases outcome) (auto simp: build_response_def result_simps response_accepted_def
      response_rejected_def response_execution_failed_def command_response_new_ok_iff)
  show "validate_response (rx_sha256 E) encoded response = Inr ()" "rs_outcome response = outcome"
    using i by (simp_all add: r validate_response_def)
qed

section \<open>Validated commands\<close>

text \<open>The metadata of a validated command are complete: execution adds nothing to them.\<close>

lemma validate_command_metadata:
  assumes "validate_command E encoded context = Inr (envelope, metadata, key)"
  shows "md_bounded_context metadata = Some context" "md_outcome_evidence metadata \<noteq> None"
    "md_correlation_id metadata \<noteq> None" "md_operation_id metadata = cm_operation_id encoded"
    "address_context (cm_address encoded) = context"
  using assms
  by (auto simp: validate_command_def Let_def metadata_new_def result_simps OperationId_new_def
      string_identity_ok_iff split: if_splits)

lemma complete_metadata_default:
  assumes "md_outcome_evidence m \<noteq> None" and "md_correlation_id m \<noteq> None"
  shows "default_metadata type_name m = Inr m"
  using assms
  by (cases m) (auto simp: default_metadata_def with_default_outcome_evidence_def normalized_def
      effective_correlation_id_def)

section \<open>Projections\<close>

definition projected_outcome ::
  "('s, 'a, 'st, 'ev) command_processor \<Rightarrow> encoded_outcome_details \<Rightarrow>
   command_processor_error + command_response_outcome" where
  "projected_outcome P details =
     (case details_rejection details of
        Some rejection \<Rightarrow>
          map_err (\<lambda>e. processor_error_new ProcCompletedDetailsBlocked (Rt_codec e))
            (map_ok ResponseRejected (rc_decode (pc_rejection_codec (pr_configuration P)) rejection))
      | None \<Rightarrow> Inr ResponseAccepted)"

lemma projected_outcome_decision:
  assumes "projected_outcome P details = Inr out"
  shows "case out of ResponseAccepted \<Rightarrow> details_rejection details = None
    | ResponseRejected _ \<Rightarrow> details_rejection details \<noteq> None
    | ResponseExecutionFailed _ \<Rightarrow> False"
  using assms by (auto simp: projected_outcome_def result_simps split: option.splits)

lemma project_eq:
  "project E P encoded outcome =
     (case co_details outcome of
        Available details \<Rightarrow>
          if eo_reference details \<noteq> om_reference (co_marker outcome)
          then Inl (processor_recovery RecoveryIntegrityMismatch)
          else map_ok (\<lambda>r. \<lparr>co_marker = co_marker outcome, co_details = Available r\<rparr>)
            (rbind (projected_outcome P details) (build_response E encoded))
      | Expired \<Rightarrow> Inr \<lparr>co_marker = co_marker outcome, co_details = Expired\<rparr>
      | Archived reference \<Rightarrow> Inr \<lparr>co_marker = co_marker outcome, co_details = Archived reference\<rparr>
      | DetailsUnavailable reason \<Rightarrow>
          Inr \<lparr>co_marker = co_marker outcome, co_details = DetailsUnavailable reason\<rparr>)"
proof (cases "co_details outcome")
  case (Available details)
  let ?r = "rbind (projected_outcome P details) (build_response E encoded)"
  show ?thesis
    by (cases ?r)
      (simp_all add: Available project_def try_map_def validate_detail_binding_def
        completed_outcome_new_def projected_outcome_def [symmetric])
qed (simp_all add: project_def try_map_def validate_detail_binding_def completed_outcome_new_def)

lemma project_codec:
  "pc_rejection_codec (pr_configuration P) = pc_rejection_codec (pr_configuration P') \<Longrightarrow>
   project E P encoded outcome = project E P' encoded outcome"
  by (simp add: project_def cong: option.case_cong)

lemma project_ok:
  assumes "project E P encoded outcome = Inr projected"
  shows "co_marker projected = co_marker outcome"
    and "project E P encoded (outcome\<lparr>co_details := Expired\<rparr>) = Inr (projected\<lparr>co_details := Expired\<rparr>)"
    and "co_details projected = Available response \<Longrightarrow>
       \<exists>details. co_details outcome = Available details
         \<and> projected_outcome P details = Inr (rs_outcome response)
         \<and> build_response E encoded (rs_outcome response) = Inr response"
proof -
  show "co_marker projected = co_marker outcome"
    using assms by (auto simp: project_eq result_simps split: outcome_details.splits if_splits)
  then show "project E P encoded (outcome\<lparr>co_details := Expired\<rparr>) = Inr (projected\<lparr>co_details := Expired\<rparr>)"
    by (cases projected) (simp add: project_eq)
  assume "co_details projected = Available response"
  then obtain details out where "co_details outcome = Available details"
    "projected_outcome P details = Inr out" "build_response E encoded out = Inr response"
    using assms by (auto simp: project_eq result_simps split: outcome_details.splits if_splits)
  then show "\<exists>details. co_details outcome = Available details
         \<and> projected_outcome P details = Inr (rs_outcome response)
         \<and> build_response E encoded (rs_outcome response) = Inr response"
    using build_response_valid(2) by blast
qed

section \<open>Processing\<close>

text \<open>A missing command is either refused as it stands, rejected by the framework, or evaluated.\<close>

definition recorded_rejection ::
  "nat \<Rightarrow> runtime_externals \<Rightarrow> 's execution_store \<Rightarrow> (nat \<Rightarrow> 's \<Rightarrow> 's) \<Rightarrow>
   ('s, 'a, 'st, 'ev) command_processor \<Rightarrow> encoded_command \<Rightarrow> execution_metadata \<Rightarrow>
   command_processor_error + command_rejection \<Rightarrow> 's world \<Rightarrow>
   ((command_processor_error + processed_command) \<times> 's world \<times> nat) option" where
  "recorded_rejection fuel E S env P encoded m rejection w =
     (case rejection of
        Inl e \<Rightarrow> Some (Inl e, w, 0)
      | Inr rejection \<Rightarrow> execute_fixed_rejection fuel E S env P encoded m rejection w)"

definition execute_program ::
  "nat \<Rightarrow> runtime_externals \<Rightarrow> 's execution_store \<Rightarrow> (nat \<Rightarrow> 's \<Rightarrow> 's) \<Rightarrow>
   ('s, 'a, 'st, 'ev) command_processor \<Rightarrow> encoded_command \<Rightarrow> execution_metadata \<Rightarrow> string \<Rightarrow>
   ('st, 'ev, command_rejection) handler_program \<Rightarrow> 's world \<Rightarrow>
   ((command_processor_error + processed_command) \<times> 's world \<times> nat) option" where
  "execute_program fuel E S env P encoded m type_name program w =
     map_option (\<lambda>(r, w, n). (rbind (map_err processor_execution r) (project_commit E P encoded), w, n))
       (execute_completed_with_rejection_codec fuel (rx_sha256 E) S env type_name m (pr_codecs P)
          (pc_rejection_codec (pr_configuration P)) (pc_retry (pr_configuration P)) program w)"

lemma execute_missing_eq:
  "execute_missing fuel E S env P encoded m w =
     (case validate_command E encoded (pr_context P) of
        Inl e \<Rightarrow> Some (Inl e, w, 0)
      | Inr (envelope, _, key) \<Rightarrow>
          (case fmlookup (pr_bindings P) key of
             None \<Rightarrow> recorded_rejection fuel E S env P encoded m
               (unknown_command_rejection (cm_address encoded) (cv_payload envelope)) w
           | Some binding \<Rightarrow>
               (case bd_program binding (rd_payload (cv_payload envelope)) of
                  Inl reason \<Rightarrow> recorded_rejection fuel E S env P encoded m
                    (invalid_payload_rejection reason) w
                | Inr program \<Rightarrow>
                    execute_program fuel E S env P encoded m (bd_type_name binding) program w)))"
  by (auto simp: execute_missing_def binding_execute_def recorded_rejection_def execute_program_def
      Let_def map_option_case map_err_def split: sum.splits option.splits prod.splits)

lemma execute_fixed_rejection_program:
  "execute_fixed_rejection fuel E S env P encoded m rejection w =
     execute_program fuel E S env P encoded m ''()'' (Decide (Rejected rejection)) w"
  by (simp add: execute_fixed_rejection_def execute_program_def)

lemma execute_missing_cases:
  assumes "execute_missing fuel E S env P encoded m w = Some (r, w', n)"
  obtains (refused) e where "r = Inl e" "w' = w" "n = 0"
    | (program) type_name program where
      "execute_program fuel E S env P encoded m type_name program w = Some (r, w', n)"
proof -
  have "(\<exists>e. r = Inl e \<and> w' = w \<and> n = 0) \<or> (\<exists>type_name program.
      execute_program fuel E S env P encoded m type_name program w = Some (r, w', n))"
    using assms
    by (auto simp: execute_missing_eq recorded_rejection_def execute_fixed_rejection_program
        split: sum.splits option.splits prod.splits)
  then show ?thesis using refused program by blast
qed

text \<open>Responses that decide their command.\<close>

definition answers :: "(bytes \<Rightarrow> bytes) \<Rightarrow> encoded_command \<Rightarrow> command_response \<Rightarrow> bool" where
  "answers sha encoded response \<longleftrightarrow> validate_response sha encoded response = Inr ()
     \<and> (\<forall>failure. rs_outcome response \<noteq> ResponseExecutionFailed failure)"

lemma built_answers:
  "build_response E encoded out = Inr response \<Longrightarrow> (\<And>failure. out \<noteq> ResponseExecutionFailed failure) \<Longrightarrow>
   answers (rx_sha256 E) encoded response"
  using build_response_valid by (simp add: answers_def)

lemma projected_answers:
  assumes "project E P encoded outcome = Inr projected" and "co_details projected = Available response"
  shows "answers (rx_sha256 E) encoded response"
proof -
  obtain details where "projected_outcome P details = Inr (rs_outcome response)"
    "build_response E encoded (rs_outcome response) = Inr response"
    using project_ok(3) [OF assms] by blast
  then show ?thesis
    using projected_outcome_decision built_answers by fastforce
qed

lemma missing_answers:
  assumes "execute_missing fuel E S env P encoded m w = Some (Inr processed, w', n)"
    and "co_details (pd_outcome processed) = Available response"
  shows "answers (rx_sha256 E) encoded response"
  using assms(1)
proof (cases rule: execute_missing_cases)
  case (program type_name program)
  then obtain c where "project_commit E P encoded c = Inr processed"
    by (auto simp: execute_program_def result_simps)
  then have "project E P encoded (commit_result c) = Inr (pd_outcome processed)"
    by (cases c) (auto simp: project_commit_def result_simps)
  then show ?thesis
    using assms(2) by (rule projected_answers)
qed simp

lemma reconciled_answers:
  assumes "trusted_reconcile E S env P encoded w = (Inr (Some response), w')"
  shows "answers (rx_sha256 E) encoded response"
  using assms
  by (auto simp: trusted_reconcile_def Let_def result_simps intro: built_answers
      split: sum.splits option.splits command_outcome.splits command_execution_error.splits if_splits)

lemma trusted_answers:
  assumes "trusted_process fuel E S env P encoded w = Some (Inr response, w', n)"
  shows "answers (rx_sha256 E) encoded response"
proof -
  obtain l w1 where l: "trusted_reconcile E S env P encoded w = (l, w1)"
    by fastforce
  consider "l = Inr (Some response)"
    | metadata r where "execute_missing fuel E S env P encoded metadata w1 = Some (r, w', n)"
      "(case r of
          Inr processed \<Rightarrow> map_err processor_recovery (details_available (co_details (pd_outcome processed)))
        | Inl e \<Rightarrow> if pe_kind e = ProcIdentityConflict then rbind operation_conflict (\<lambda>rejection.
            build_response E encoded (ResponseRejected rejection)) else Inl e) = Inr response"
    using assms l
    by (fastforce simp: trusted_process_def split: sum.splits option.splits)
  then show ?thesis
  proof cases
    case 1
    then show ?thesis using l reconciled_answers by blast
  next
    case (2 metadata r)
    then show ?thesis
      by (cases r)
        (auto simp: result_simps details_available_def intro: built_answers missing_answers
          split: if_splits outcome_details.splits)
  qed
qed

lemma admitted_answers:
  "admit E processed caller encoded = Inr response \<Longrightarrow> answers (rx_sha256 E) encoded response"
  by (auto simp: admit_def Let_def answers_def decision_agrees_def result_simps
      split: if_splits command_response_outcome.splits)

section \<open>Audit\<close>

text \<open>The in-memory history as a sink: it always answers in time.\<close>

definition in_memory_sink :: "audit_history audit_sink" where
  "in_memory_sink r h =
     (let recorded = audit_history_record r h in (Some (fst recorded), snd recorded))"

text \<open>Its abstract state is everything recorded since it was last cleared, of which it holds the
  latest records.\<close>

datatype audit_operation = RecordAttempt command_audit_record | ClearHistory

definition latest :: "nat \<Rightarrow> 'a list \<Rightarrow> 'a list" where
  "latest n xs = drop (length xs - n) xs"

primrec audit_apply :: "audit_operation \<Rightarrow> audit_history \<Rightarrow> audit_history" where
  "audit_apply (RecordAttempt r) h = snd (audit_history_record r h)"
| "audit_apply ClearHistory h = audit_history_clear h"

primrec audit_trace :: "audit_operation \<Rightarrow> command_audit_record list \<Rightarrow> command_audit_record list" where
  "audit_trace (RecordAttempt r) trace = trace @ [r]"
| "audit_trace ClearHistory trace = []"

lemma latest_snoc:
  "(if n \<le> length (latest n xs) then tl (latest n xs) else latest n xs) @ [x] = latest n (xs @ [x])"
  if "n \<noteq> 0"
  using that
  by (auto simp: latest_def Suc_diff_le drop_Suc tl_drop not_le simp flip: drop_Suc)

lemma audit_record_latest:
  assumes "ah_records h = latest (ah_maximum h) trace"
  shows "ah_records (snd (audit_history_record r h)) = latest (ah_maximum h) (trace @ [r])"
    "ah_maximum (snd (audit_history_record r h)) = ah_maximum h"
  using assms latest_snoc [of "ah_maximum h" trace r]
  by (auto simp: audit_history_record_def Let_def) (simp add: latest_def)

lemma audit_apply_latest:
  "ah_records h = latest (ah_maximum h) trace \<Longrightarrow>
   ah_records (audit_apply op h) = latest (ah_maximum h) (audit_trace op trace)
   \<and> ah_maximum (audit_apply op h) = ah_maximum h"
  by (cases op) (simp_all add: audit_record_latest, simp add: audit_history_clear_def latest_def)

lemma audit_fold_latest:
  "ah_records h = latest (ah_maximum h) trace \<Longrightarrow>
   ah_records (fold audit_apply ops h) = latest (ah_maximum h) (fold audit_trace ops trace)"
proof (induction ops arbitrary: h trace)
  case (Cons op ops)
  then show ?case
    using audit_apply_latest [of h trace op] Cons.IH [of "audit_apply op h"] by simp
qed simp

section \<open>Processing against a store\<close>

text \<open>The store of a service: its lookups find details that agree with the decision of their marker.\<close>

locale service_store_contract = execution_store_contract step invariant S
  for step :: "'s \<Rightarrow> 's \<Rightarrow> bool" and invariant :: "'s \<Rightarrow> bool" and S :: "'s execution_store" +
  assumes lookup_decision:
    "es_lookup_outcome S s key = Inr (Completed outcome) \<Longrightarrow> co_details outcome = Available details \<Longrightarrow>
     (details_rejection details \<noteq> None) = (dr_decision (om_reference (co_marker outcome)) = OutcomeRejected)"
begin

text \<open>What a completed execution of a command with complete metadata leaves behind.\<close>

lemma completed_settled:
  assumes "cooperative step env" and "invariant (w_state w)"
    and "md_outcome_evidence m \<noteq> None" and "md_correlation_id m \<noteq> None"
    and "md_bounded_context m = Some b"
    and "execute_completed_with_rejection_codec fuel sha S env type_name m codecs codec policy handler w =
      Some (result, w', n)"
  shows "step\<^sup>*\<^sup>* (w_state w) (w_state w')"
    and "result = Inr c \<Longrightarrow>
      es_lookup_outcome S (w_state w') (OutcomeKey_new (es_authority S) b (md_operation_id m)) =
        Inr (Completed (commit_result c))
      \<and> outcome_validate_for sha (commit_result c)
          (OutcomeKey_new (es_authority S) b (md_operation_id m)) m = Inr ()"
proof -
  have key: "outcome_key_for S m = Inr (OutcomeKey_new (es_authority S) b (md_operation_id m))"
    using assms(5) by (simp add: outcome_key_for_def required_bounded_context_def)
  have "(\<exists>e. result = Inl e \<and> w' = w)
    \<or> execute_loop fuel sha S env m codecs codec policy handler 0 w = Some (result, w', n)"
    using assms(6) complete_metadata_default [OF assms(3,4), of type_name] assms(3)
    by (auto simp: execute_completed_with_rejection_codec_def result_simps split: sum.splits)
  then have "step\<^sup>*\<^sup>* (w_state w) (w_state w') \<and> settled sha m (AttemptDone result) (w_state w')"
    using loop_settled [OF assms(1,2)] failure_settled by blast
  then show "step\<^sup>*\<^sup>* (w_state w) (w_state w')" and "result = Inr c \<Longrightarrow>
      es_lookup_outcome S (w_state w') (OutcomeKey_new (es_authority S) b (md_operation_id m)) =
        Inr (Completed (commit_result c))
      \<and> outcome_validate_for sha (commit_result c)
          (OutcomeKey_new (es_authority S) b (md_operation_id m)) m = Inr ()"
    using key by (simp_all add: settled_def)
qed

text \<open>A processed command is the projection of the stored outcome of exactly its metadata.\<close>

definition processed_from ::
  "runtime_externals \<Rightarrow> ('z, 'y, 'x, 'u) command_processor \<Rightarrow> encoded_command \<Rightarrow> execution_metadata \<Rightarrow>
   's \<Rightarrow> command_response completed_outcome \<Rightarrow> bool" where
  "processed_from E P encoded m s projected \<longleftrightarrow>
     (\<exists>outcome.
        es_lookup_outcome S s (OutcomeKey_new (es_authority S) (pr_context P) (md_operation_id m)) =
          Inr (Completed outcome)
        \<and> outcome_validate_for (rx_sha256 E) outcome
            (OutcomeKey_new (es_authority S) (pr_context P) (md_operation_id m)) m = Inr ()
        \<and> project E P encoded outcome = Inr projected)"

lemma commit_processed_from:
  assumes "cooperative step env" and "invariant (w_state w)"
    and "md_outcome_evidence m \<noteq> None" and "md_correlation_id m \<noteq> None"
    and "md_bounded_context m = Some (pr_context P)"
    and "execute_completed_with_rejection_codec fuel (rx_sha256 E) S env type_name m codecs codec policy
      handler w = Some (Inr c, w', n)"
    and "project_commit E P encoded c = Inr processed"
  shows "processed_from E P encoded m (w_state w') (pd_outcome processed)"
proof -
  have "project E P encoded (commit_result c) = Inr (pd_outcome processed)"
    using assms(7) by (cases c) (auto simp: project_commit_def result_simps)
  then show ?thesis
    using completed_settled(2) [OF assms(1-6)] by (auto simp: processed_from_def)
qed

lemma execute_missing_settled:
  assumes env: "cooperative step env" and inv: "invariant (w_state w)"
    and m: "md_outcome_evidence m \<noteq> None" "md_correlation_id m \<noteq> None"
      "md_bounded_context m = Some (pr_context P)"
    and run: "execute_missing fuel E S env P encoded m w = Some (r, w', n)"
  shows "step\<^sup>*\<^sup>* (w_state w) (w_state w')
    \<and> (\<forall>processed. r = Inr processed \<longrightarrow> processed_from E P encoded m (w_state w') (pd_outcome processed))"
  using run
proof (cases rule: execute_missing_cases)
  case (program type_name program)
  then obtain r0 where run: "execute_completed_with_rejection_codec fuel (rx_sha256 E) S env type_name m
        (pr_codecs P) (pc_rejection_codec (pr_configuration P)) (pc_retry (pr_configuration P))
        program w = Some (r0, w', n)"
    and r: "r = rbind (map_err processor_execution r0) (project_commit E P encoded)"
    by (auto simp: execute_program_def)
  then show ?thesis
    using completed_settled(1) [OF env inv m run] commit_processed_from [OF env inv m]
    by (auto simp: result_simps)
qed simp

text \<open>Processing: everything it does is steps of the store, and what it returns is stored under the
  metadata of the command, attributed to the scope of the caller.\<close>

lemma authorized_lookup_settled:
  assumes "authorized_lookup E S env P caller encoded w = (Inr (Completed projected), w')"
    and "validate_command E encoded (pr_context P) = Inr (envelope, metadata, key)"
  shows "processed_from E P encoded (metadata\<lparr>md_security_scope := Some (tcc_scope caller)\<rparr>)
    (w_state w') projected"
proof -
  let ?m = "metadata\<lparr>md_security_scope := Some (tcc_scope caller)\<rparr>"
  have "lookup_metadata E S P encoded ?m (w_state w') = Inr (Completed projected)"
    using assms by (auto simp: authorized_lookup_def Let_def result_simps split: sum.splits)
  then obtain found where "es_lookup_outcome S (w_state w')
      (OutcomeKey_new (es_authority S) (pr_context P) (md_operation_id ?m)) = Inr found"
    by (auto simp: lookup_metadata_def Let_def result_simps)
  then show ?thesis
    using \<open>lookup_metadata E S P encoded ?m (w_state w') = Inr (Completed projected)\<close>
    by (cases found) (auto simp: lookup_metadata_def processed_from_def Let_def result_simps)
qed

lemma authorized_lookup_steps:
  "cooperative step env \<Longrightarrow> authorized_lookup E S env P caller encoded w = (r, w') \<Longrightarrow>
   step\<^sup>*\<^sup>* (w_state w) (w_state w')"
  using interleave_steps [of env w]
  by (auto simp: authorized_lookup_def Let_def split: sum.splits)

lemma process_settled:
  assumes env: "cooperative step env" and inv: "invariant (w_state w)"
    and run: "process_authorized fuel E S env P caller encoded w = Some (r, w', n)"
  shows "step\<^sup>*\<^sup>* (w_state w) (w_state w')"
    and "r = Inr processed \<Longrightarrow> \<exists>envelope metadata key.
      validate_command E encoded (pr_context P) = Inr (envelope, metadata, key)
      \<and> processed_from E P encoded (metadata\<lparr>md_security_scope := Some (tcc_scope caller)\<rparr>)
          (w_state w') (pd_outcome processed)"
proof -
  obtain l w1 where look: "authorized_lookup E S env P caller encoded w = (l, w1)"
    by fastforce
  have s1: "step\<^sup>*\<^sup>* (w_state w) (w_state w1)"
    by (rule authorized_lookup_steps [OF env look])
  have inv1: "invariant (w_state w1)"
    by (rule steps_invariant [OF s1 inv])
  have "step\<^sup>*\<^sup>* (w_state w) (w_state w') \<and> (\<forall>processed. r = Inr processed \<longrightarrow>
      (\<exists>envelope metadata key. validate_command E encoded (pr_context P) = Inr (envelope, metadata, key)
      \<and> processed_from E P encoded (metadata\<lparr>md_security_scope := Some (tcc_scope caller)\<rparr>)
          (w_state w') (pd_outcome processed)))"
  proof (cases "validate_command E encoded (pr_context P)")
    case (Inl e)
    then have "\<exists>e. l = Inl e"
      using look by (auto simp: authorized_lookup_def split: sum.splits prod.splits
          dest!: rbind_Inr_iff [THEN iffD1])
    then show ?thesis
      using run look s1 by (auto simp: process_authorized_def)
  next
    case (Inr v)
    then obtain envelope metadata key where
      v: "validate_command E encoded (pr_context P) = Inr (envelope, metadata, key)"
      by (cases v) auto
    let ?m = "metadata\<lparr>md_security_scope := Some (tcc_scope caller)\<rparr>"
    have m: "md_outcome_evidence ?m \<noteq> None" "md_correlation_id ?m \<noteq> None"
      "md_bounded_context ?m = Some (pr_context P)"
      using validate_command_metadata [OF v] by simp_all
    consider e where "r = Inl e" "w' = w1"
      | projected where "l = Inr (Completed projected)" "r = Inr \<lparr>pd_origin = OriginReplayed,
          pd_outcome = projected\<rparr>" "w' = w1"
      | "execute_missing fuel E S env P encoded ?m w1 = Some (r, w', n)"
      using run look v
      by (auto simp: process_authorized_def result_simps
          split: sum.splits outcome_lookup.splits)
    then show ?thesis
    proof cases
      case 2
      then show ?thesis
        using s1 v authorized_lookup_settled [OF _ v] look by (cases key) auto
    next
      case 3
      then show ?thesis
        using s1 v execute_missing_settled [OF env inv1 m 3] by fastforce
    qed (use s1 in simp)
  qed
  then show "step\<^sup>*\<^sup>* (w_state w) (w_state w')"
    and "r = Inr processed \<Longrightarrow> \<exists>envelope metadata key.
      validate_command E encoded (pr_context P) = Inr (envelope, metadata, key)
      \<and> processed_from E P encoded (metadata\<lparr>md_security_scope := Some (tcc_scope caller)\<rparr>)
          (w_state w') (pd_outcome processed)"
    by blast+
qed

text \<open>What was processed is found again, at most with its details withdrawn.\<close>

lemma processed_from_again:
  assumes inv: "invariant s" and later: "step\<^sup>*\<^sup>* s s'"
    and at: "processed_from E P encoded m s projected"
    and P: "pr_context P' = pr_context P"
      "pc_rejection_codec (pr_configuration P') = pc_rejection_codec (pr_configuration P)"
  shows "lookup_metadata E S P' encoded m s' = Inr (Completed projected)
    \<or> lookup_metadata E S P' encoded m s' = Inr (Completed (projected\<lparr>co_details := Expired\<rparr>))"
proof -
  let ?key = "OutcomeKey_new (es_authority S) (pr_context P) (md_operation_id m)"
  from at obtain outcome where found: "es_lookup_outcome S s ?key = Inr (Completed outcome)"
    and valid: "outcome_validate_for (rx_sha256 E) outcome ?key m = Inr ()"
    and proj: "project E P encoded outcome = Inr projected"
    by (auto simp: processed_from_def)
  show ?thesis
    using lookup_permanent [OF inv later found] valid validate_for_expired [OF valid] proj
      project_ok(2) [OF proj] project_codec [OF P(2)]
    by (auto simp: lookup_metadata_def P(1))
qed

lemma process_once:
  assumes env: "cooperative step env" "cooperative step env'" and inv: "invariant (w_state w)"
    and run: "process_authorized fuel E S env P caller encoded w = Some (Inr processed, w', n)"
    and later: "step\<^sup>*\<^sup>* (w_state w') (w_state v)"
    and P: "pr_context P' = pr_context P"
      "pc_rejection_codec (pr_configuration P') = pc_rejection_codec (pr_configuration P)"
    and scope: "tcc_scope caller' = tcc_scope caller"
    and may: "authorize_with P' v caller' encoded ReadOutcome = Inr ()"
  shows "\<exists>again. process_authorized fuel' E S env' P' caller' encoded v =
      Some (Inr \<lparr>pd_origin = OriginReplayed, pd_outcome = again\<rparr>, interleave env' v, 0)
    \<and> (again = pd_outcome processed \<or> again = (pd_outcome processed)\<lparr>co_details := Expired\<rparr>)"
proof -
  note settled = process_settled [OF env(1) inv run]
  obtain envelope metadata key where
    v: "validate_command E encoded (pr_context P) = Inr (envelope, metadata, key)"
    and at: "processed_from E P encoded (metadata\<lparr>md_security_scope := Some (tcc_scope caller)\<rparr>)
          (w_state w') (pd_outcome processed)"
    using settled(2) by blast
  have inv': "invariant (w_state w')"
    by (rule steps_invariant [OF settled(1) inv])
  have steps: "step\<^sup>*\<^sup>* (w_state w') (w_state (interleave env' v))"
    using later interleave_steps [OF env(2), of v] by simp
  show ?thesis
    using processed_from_again [OF inv' steps at P] v may
    by (auto simp: process_authorized_def authorized_lookup_def P(1) scope)
qed

text \<open>What was processed is admitted for the caller, unless its details are gone or the marker was
  written without evidence.\<close>

lemma processed_admitted:
  assumes v: "validate_command E encoded (pr_context P) = Inr (envelope, metadata, key)"
    and name: "BoundedContextName_new (pr_context P) = Inr (pr_context P)"
    and at: "processed_from E P encoded (metadata\<lparr>md_security_scope := Some (tcc_scope caller)\<rparr>)
          s (pd_outcome processed)"
    and evidence: "om_evidence (co_marker (pd_outcome processed)) \<noteq> None"
  shows "admit E processed caller encoded =
    map_err processor_recovery (details_available (co_details (pd_outcome processed)))"
proof -
  let ?m = "metadata\<lparr>md_security_scope := Some (tcc_scope caller)\<rparr>"
  let ?key = "OutcomeKey_new (es_authority S) (pr_context P) (md_operation_id ?m)"
  let ?marker = "co_marker (pd_outcome processed)"
  from at obtain outcome where found: "es_lookup_outcome S s ?key = Inr (Completed outcome)"
    and valid: "outcome_validate_for (rx_sha256 E) outcome ?key ?m = Inr ()"
    and proj: "project E P encoded outcome = Inr (pd_outcome processed)"
    by (auto simp: processed_from_def)
  have marker: "co_marker outcome = ?marker"
    using project_ok(1) [OF proj] by simp
  have checks: "dr_key (om_reference ?marker) = ?key" "validate_identity ?marker ?m = Inr ()"
    "validate_integrity (rx_sha256 E) (om_integrity ?marker) = Inr ()"
    using valid marker by (auto simp: outcome_validate_for_def validate_key_def result_simps split: if_splits)
  note facts = validate_command_metadata [OF v]
  have meta: "validated_metadata E encoded = Inr metadata"
    using v name facts(5) by (simp add: validated_metadata_def)
  have admitted: "validate_response (rx_sha256 E) encoded response = Inr ()"
    "decision_agrees (dr_decision (om_reference ?marker)) (rs_outcome response)"
    if avail: "co_details (pd_outcome processed) = Available response" for response
  proof -
    obtain details where d: "co_details outcome = Available details"
      "projected_outcome P details = Inr (rs_outcome response)"
      "build_response E encoded (rs_outcome response) = Inr response"
      using project_ok(3) [OF proj avail] by blast
    show "validate_response (rx_sha256 E) encoded response = Inr ()"
      by (rule build_response_valid(1) [OF d(3)])
    show "decision_agrees (dr_decision (om_reference ?marker)) (rs_outcome response)"
      using lookup_decision [OF found d(1)] projected_outcome_decision [OF d(2)] marker
      by (cases "dr_decision (om_reference ?marker)")
        (auto simp: decision_agrees_def split: command_response_outcome.splits)
  qed
  show ?thesis
    using meta facts(1) checks evidence admitted
    by (cases "co_details (pd_outcome processed)")
      (auto simp: admit_def Let_def OutcomeKey_new_def details_available_def)
qed

text \<open>The trusted path: a command whose accepted response was returned is never executed again.\<close>

text \<open>The command has a stored outcome under its key, for exactly its metadata.\<close>

definition command_completed ::
  "runtime_externals \<Rightarrow> bounded_context_name \<Rightarrow> encoded_command \<Rightarrow> 's \<Rightarrow> bool" where
  "command_completed E context encoded s \<longleftrightarrow>
     (\<exists>envelope metadata key outcome.
        validate_command E encoded context = Inr (envelope, metadata, key)
        \<and> es_lookup_outcome S s
            (OutcomeKey_new (es_authority S) context (md_operation_id metadata)) =
            Inr (Completed outcome)
        \<and> outcome_validate_for (rx_sha256 E) outcome
            (OutcomeKey_new (es_authority S) context (md_operation_id metadata)) metadata = Inr ())"

lemma reconciled_completed:
  assumes "trusted_reconcile E S env P encoded w = (Inr (Some response), w')"
    and "rs_outcome response = ResponseAccepted"
  shows "command_completed E (pr_context P) encoded (w_state w')"
proof -
  from assms(1) obtain envelope metadata key where
    v: "validate_command E encoded (pr_context P) = Inr (envelope, metadata, key)"
    by (auto simp: trusted_reconcile_def result_simps split: sum.splits)
  have accepted: "build_response E encoded out \<noteq> Inr response" if "out \<noteq> ResponseAccepted" for out
    using build_response_valid(2) assms(2) that by metis
  have complete: "normalized metadata = Inr metadata"
    using complete_metadata_default [of metadata] validate_command_metadata(2,3) [OF v]
    by (cases metadata) (auto simp: normalized_def effective_correlation_id_def)
  from assms(1) v obtain out where
    "reconcile_completed (rx_sha256 E) S metadata (pc_rejection_codec (pr_configuration P)) (w_state w') =
      Inr (Some out)"
    using accepted
    by (auto simp: trusted_reconcile_def Let_def result_simps reconcile_with_rejection_codec_def
        complete split: sum.splits option.splits command_outcome.splits
        command_execution_error.splits if_splits)
  then obtain outcome where "lookup_completed (rx_sha256 E) S metadata (w_state w') = Inr (Some outcome)"
    by (auto simp: reconcile_completed_def result_simps split: option.splits)
  moreover have "outcome_key_for S metadata =
      Inr (OutcomeKey_new (es_authority S) (pr_context P) (md_operation_id metadata))"
    using validate_command_metadata(1) [OF v]
    by (simp add: outcome_key_for_def required_bounded_context_def)
  ultimately obtain found where "es_lookup_outcome S (w_state w')
      (OutcomeKey_new (es_authority S) (pr_context P) (md_operation_id metadata)) = Inr found"
    "(case found of Missing \<Rightarrow> Inr None
      | Completed outcome \<Rightarrow>
          rbind (map_err (\<lambda>e. ExecStore (in_outcome_recovery e))
            (outcome_validate_for (rx_sha256 E) outcome
              (OutcomeKey_new (es_authority S) (pr_context P) (md_operation_id metadata)) metadata))
            (\<lambda>_. Inr (Some outcome))) = Inr (Some outcome)"
    by (auto simp: lookup_completed_def result_simps)
  then show ?thesis
    using v unfolding command_completed_def by (cases found; cases key) (auto simp: result_simps)
qed

lemma trusted_settled:
  assumes env: "cooperative step env" and inv: "invariant (w_state w)"
    and run: "trusted_process fuel E S env P encoded w = Some (r, w', n)"
  shows "step\<^sup>*\<^sup>* (w_state w) (w_state w')"
    and "r = Inr response \<Longrightarrow> rs_outcome response = ResponseAccepted \<Longrightarrow>
      command_completed E (pr_context P) encoded (w_state w')"
proof -
  obtain l w1 where look: "trusted_reconcile E S env P encoded w = (l, w1)"
    by fastforce
  have s1: "step\<^sup>*\<^sup>* (w_state w) (w_state w1)"
    using look interleave_steps [OF env, of w]
    by (auto simp: trusted_reconcile_def Let_def split: sum.splits)
  have inv1: "invariant (w_state w1)"
    by (rule steps_invariant [OF s1 inv])
  consider (early) "w' = w1" "\<And>response. r = Inr response \<Longrightarrow> l = Inr (Some response)"
    | (missing) envelope metadata key r0 where
      "validate_command E encoded (pr_context P) = Inr (envelope, metadata, key)"
      "execute_missing fuel E S env P encoded metadata w1 = Some (r0, w', n)"
      "r = (case r0 of
          Inr processed \<Rightarrow> map_err processor_recovery (details_available (co_details (pd_outcome processed)))
        | Inl e \<Rightarrow> if pe_kind e = ProcIdentityConflict then rbind operation_conflict (\<lambda>rejection.
            build_response E encoded (ResponseRejected rejection)) else Inl e)"
  proof (cases "l = Inr None")
    case True
    then show ?thesis
      using run look early missing
      by (cases "validate_command E encoded (pr_context P)")
        (auto simp: trusted_process_def)
  next
    case False
    then show ?thesis
      using run look early by (auto simp: trusted_process_def split: sum.splits option.splits)
  qed
  then have "step\<^sup>*\<^sup>* (w_state w) (w_state w') \<and> (r = Inr response \<longrightarrow> rs_outcome response = ResponseAccepted \<longrightarrow>
      command_completed E (pr_context P) encoded (w_state w'))"
  proof cases
    case early
    then show ?thesis
      using s1 reconciled_completed look by blast
  next
    case (missing envelope metadata key r0)
    note m = validate_command_metadata [OF missing(1)]
    have settled: "step\<^sup>*\<^sup>* (w_state w1) (w_state w')"
      "\<And>processed. r0 = Inr processed \<Longrightarrow>
        processed_from E P encoded metadata (w_state w') (pd_outcome processed)"
      using execute_missing_settled [OF env inv1 _ _ _ missing(2)] m by auto
    have "\<exists>processed. r0 = Inr processed" if "r = Inr response" "rs_outcome response = ResponseAccepted"
    proof (cases r0)
      case (Inl e)
      then have "rbind operation_conflict (\<lambda>rejection.
          build_response E encoded (ResponseRejected rejection)) = Inr response"
        using missing(3) that(1) by (auto split: if_splits)
      then show ?thesis
        using build_response_valid(2) that(2) by (fastforce simp: result_simps)
    qed simp
    moreover have "command_completed E (pr_context P) encoded (w_state w')" if "r0 = Inr processed"
      for processed
      using settled(2) [OF that] missing(1) unfolding processed_from_def command_completed_def
      by blast
    ultimately show ?thesis
      using s1 settled(1) by auto
  qed
  then show "step\<^sup>*\<^sup>* (w_state w) (w_state w')"
    and "r = Inr response \<Longrightarrow> rs_outcome response = ResponseAccepted \<Longrightarrow>
      command_completed E (pr_context P) encoded (w_state w')"
    by blast+
qed

lemma trusted_again:
  assumes env: "cooperative step env" and inv: "invariant s" and later: "step\<^sup>*\<^sup>* s (w_state v)"
    and at: "command_completed E (pr_context P) encoded s"
    and trusted: "require_trusted_profile P = Inr ()"
  shows "\<exists>r. trusted_process fuel E S env P encoded v = Some (r, interleave env v, 0)"
proof -
  from at obtain envelope metadata key outcome where
    v: "validate_command E encoded (pr_context P) = Inr (envelope, metadata, key)"
    and found: "es_lookup_outcome S s
      (OutcomeKey_new (es_authority S) (pr_context P) (md_operation_id metadata)) = Inr (Completed outcome)"
    and valid: "outcome_validate_for (rx_sha256 E) outcome
      (OutcomeKey_new (es_authority S) (pr_context P) (md_operation_id metadata)) metadata = Inr ()"
    by (auto simp: command_completed_def)
  note m = validate_command_metadata [OF v]
  have key: "outcome_key_for S metadata =
      Inr (OutcomeKey_new (es_authority S) (pr_context P) (md_operation_id metadata))"
    using m(1) by (simp add: outcome_key_for_def required_bounded_context_def)
  have complete: "normalized metadata = Inr metadata"
    using m(2,3) by (cases metadata) (auto simp: normalized_def effective_correlation_id_def)
  have steps: "step\<^sup>*\<^sup>* s (w_state (interleave env v))"
    using later interleave_steps [OF env, of v] by simp
  have "reconcile_with_rejection_codec (rx_sha256 E) S metadata
      (pc_rejection_codec (pr_configuration P)) (w_state (interleave env v)) \<noteq> Inr None"
    using lookup_completed_again [OF inv steps key found valid]
    by (auto simp: reconcile_with_rejection_codec_def reconcile_completed_def complete result_simps)
  then have "fst (trusted_reconcile E S env P encoded v) \<noteq> Inr None
      \<and> snd (trusted_reconcile E S env P encoded v) = interleave env v"
    using v trusted
    by (auto simp: trusted_reconcile_def Let_def result_simps map_ok_def
        split: sum.splits option.splits command_outcome.splits command_execution_error.splits if_splits)
  then show ?thesis
    by (cases "trusted_reconcile E S env P encoded v")
      (auto simp: trusted_process_def split: sum.splits option.splits)
qed

end

section \<open>The in-memory store serves a processor\<close>

lemma details_decode_decision:
  "details_decode E reference bytes = Inr details \<Longrightarrow>
   eo_reference details = reference
   \<and> (details_rejection details \<noteq> None) = (dr_decision reference = OutcomeRejected)"
  by (auto simp: details_decode_def Let_def result_simps split: if_splits)

lemma resolved_decision:
  assumes "resolve_readers E reference archived e readers = Inr (Available details)"
  shows "(details_rejection details \<noteq> None) = (dr_decision reference = OutcomeRejected)"
  using assms
  by (induction readers arbitrary: archived e)
    (auto simp: result_simps dest: details_decode_decision
      split: if_splits option.splits sum.splits detail_read.splits detail_read_error.splits)

lemma resolve_details_decision:
  "resolve_details E reference hot cold = Inr (Available details) \<Longrightarrow>
   (details_rejection details \<noteq> None) = (dr_decision reference = OutcomeRejected)"
  unfolding resolve_details_def by (rule resolved_decision)

interpretation mem_service: service_store_contract "store_step E (ms_authority store)"
  "memory_ready E store" "memory_execution_store E store" for E store
proof
  fix s key outcome details
  assume "es_lookup_outcome (memory_execution_store E store) s key = Inr (Completed outcome)"
    and avail: "co_details outcome = Available details"
  then obtain m where "resolve_marker E store (\<lambda>_. s) m = Inr outcome"
    using lookup_outcome_completed by (metis memory_execution_store_sel(3))
  then have "resolve_details E (om_reference m) (run_reader s (ms_hot store))
      (map_option (run_reader s) (ms_cold store)) = Inr (Available details)"
    and "co_marker outcome = m"
    using avail
    by (auto simp: resolve_marker_def completed_outcome_new_def result_simps
        split: option.splits detail_state.splits)
  then show "(details_rejection details \<noteq> None) =
      (dr_decision (om_reference (co_marker outcome)) = OutcomeRejected)"
    using resolve_details_decision by metis
qed

end
