(* ===== verification/CommandScenario.thy ===== *)
theory CommandScenario
  imports CommandContract ExecutionScenario
begin

text \<open>
  A command through the processor, for the hypotheses of its properties: a request is encoded by a
  bus, a policy-enabled processor with one binding evaluates it against the in-memory store, and its
  audit history records the attempt. The externals are concrete functions: a constant digest and
  serialisers that know the one envelope and the one header of the run.
\<close>

section \<open>The command\<close>

definition x_route :: bounded_context where
  "x_route = \<lparr>bx_application = ''shop'', bx_traffic_scope = NormalScope, bx_name = ''sales''\<rparr>"

definition x_bus :: command_bus where
  "x_bus = \<lparr>bus_context = x_route, bus_maximum_payload_len = 1024\<rparr>"

definition x_digests :: "bytes \<Rightarrow> bytes" where "x_digests bs = [171, 205]"

definition x_request :: dynamic_command_request where
  "x_request = \<lparr>dr_request_actor = None, dr_request_operation_id = ''op'', dr_request_command = ''place'',
     dr_request_schema_version = 1, dr_request_payload = JNull, dr_request_correlation_id = None,
     dr_request_causation_id = None, dr_request_created_at = Some 7,
     dr_request_events_caused_by_command = True\<rparr>"

definition x_envelope :: "routed_command command_envelope" where
  "x_envelope = request_envelope x_request ''abcd'' ''op'' 7"

definition x_runtime :: runtime_externals where
  "x_runtime = \<lparr>rx_sha256 = x_digests, rx_scalar_to_vec = (\<lambda>v. Inr [1]),
     rx_envelope_to_vec = (\<lambda>_. Inr [1]),
     rx_envelope_to_value = (\<lambda>v. if v = x_envelope then Inr JNull else Inl ''unknown''),
     rx_envelope_from_slice = (\<lambda>bs. if bs = [1] then Inr x_envelope else Inl ''unknown''),
     rx_response_to_vec = (\<lambda>_. Inr [1]), rx_rejection_to_vec = (\<lambda>_. Inr [1]),
     rx_rejection_from_slice = (\<lambda>_. Inl ''unknown''), rx_message_text = (\<lambda>_. []),
     rx_runtime_text = (\<lambda>_. [])\<rparr>"

definition x_command :: encoded_command where
  "x_command = \<lparr>cm_actor = None,
     cm_message = \<lparr>ob_address = ''shop.command.sales.place'', ob_message_id = ''abcd'', ob_payload = [1],
       ob_metadata = fmempty, ob_correlation_id = Some ''op'', ob_trace_context = None\<rparr>,
     cm_operation_id = ''op'', cm_correlation_id = ''op'', cm_fingerprint = [171, 205]\<rparr>"

lemma x_runtime_sel [simp]:
  "rx_sha256 x_runtime = x_digests" "rx_scalar_to_vec x_runtime = (\<lambda>v. Inr [1])"
  "rx_envelope_to_vec x_runtime = (\<lambda>_. Inr [1])" "rx_response_to_vec x_runtime = (\<lambda>_. Inr [1])"
  "rx_envelope_to_value x_runtime = (\<lambda>v. if v = x_envelope then Inr JNull else Inl ''unknown'')"
  "rx_envelope_from_slice x_runtime = (\<lambda>bs. if bs = [1] then Inr x_envelope else Inl ''unknown'')"
  by (simp_all add: x_runtime_def)

lemma x_request_sel [simp]:
  "dr_request_actor x_request = None" "dr_request_operation_id x_request = ''op''"
  "dr_request_command x_request = ''place''" "dr_request_schema_version x_request = 1"
  "dr_request_payload x_request = JNull" "dr_request_correlation_id x_request = None"
  "dr_request_causation_id x_request = None" "dr_request_created_at x_request = Some 7"
  "dr_request_events_caused_by_command x_request"
  by (simp_all add: x_request_def)

lemma x_command_sel [simp]:
  "cm_address x_command = ''shop.command.sales.place''" "cm_message_id x_command = ''abcd''"
  "cm_payload x_command = [1]" "ob_correlation_id (cm_message x_command) = Some ''op''"
  "cm_operation_id x_command = ''op''" "cm_correlation_id x_command = ''op''"
  "cm_actor x_command = None" "cm_fingerprint x_command = [171, 205]"
  by (simp_all add: x_command_def)

lemma x_place_address:
  "command_address_of x_route ''place'' = Inr ''shop.command.sales.place''"
  "CommandAddress_new ''rostfrei'' ''routed-command'' ''place'' =
     Inr ''rostfrei.command.routed-command.place''"
  by (code_simp)+

lemma x_hex: "fingerprint_to_hex [171, 205] = ''abcd''"
proof -
  have "lower_hex_digit 10 = CHR ''a''" "lower_hex_digit 11 = CHR ''b''"
    "lower_hex_digit 12 = CHR ''c''" "lower_hex_digit 13 = CHR ''d''"
    by (rule of_char_eq_iff [where ?'a = nat, THEN iffD1]; simp add: lower_hex_digit_def
        saturating_add_def saturating_sub_def checked_add_def checked_sub_def)+
  then show ?thesis
    by (simp add: fingerprint_to_hex_def encode_lower_hex_def)
qed

lemma x_names: "MessageId_new ''abcd'' = Inr ''abcd''" "CausationId_new ''abcd'' = Inr ''abcd''"
  "validate_identifier ''op'' ''operation_id'' = Inr ''op''" "OperationId_new ''op'' = Inr ''op''"
  by (simp_all add: MessageId_new_def CausationId_new_def validate_identifier_def OperationId_new_def
      string_identity_def identity_validate_def x_text_simps)

lemma x_fingerprint: "framed_fingerprint x_digests parts = [171, 205]"
  by (simp add: framed_fingerprint_def fingerprint_digest_def x_digests_def)

lemma x_canonical: "canonical_serialize x_runtime x_envelope = Inr [1]"
  by (simp add: canonical_serialize_def canonical_json_bytes_def)

lemma x_encode_command: "encode_dynamic x_runtime None x_bus x_request = Inr x_command"
proof -
  have routed: "RoutedCommand_new ''place'' 1 JNull = Inr \<lparr>rd_command = ''place'', rd_schema_version = 1,
      rd_payload = JNull, rd_events_caused_by_command = False\<rparr>"
    using x_place_address(2) by (simp add: RoutedCommand_new_def SchemaVersion_new_def)
  have envelope: "x_envelope = \<lparr>cv_message_id = ''abcd'', cv_operation_id = ''op'', cv_schema_version = 1,
      cv_created_at = 7, cv_correlation_id = ''op'', cv_causation_id = None,
      cv_payload = \<lparr>rd_command = ''place'', rd_schema_version = 1, rd_payload = JNull,
        rd_events_caused_by_command = True\<rparr>, cv_metadata_version = None, cv_actor = None\<rparr>"
    by (simp add: x_envelope_def request_envelope_def)
  show ?thesis
    using x_place_address(1) routed x_names x_identifier x_canonical [unfolded envelope]
    by (simp add: encode_dynamic_def x_bus_def routed_command_execution_fingerprint_def
        command_execution_fingerprint_with_provenance_def canonical_json_bytes_def x_fingerprint
        effective_correlation_id_def metadata_new_def command_message_id_def x_hex
        SchemaVersion_new_def command_envelope_new_def validate_serialized_size_def
        max_envelope_bytes_def outbound_new_def outbound_with_maximum_def validate_payload_size_def
        max_message_payload_bytes_def encoded_command_new_def x_command_def Let_def)
qed

lemma x_reads_back:
  "canonical_serialize x_runtime envelope = Inr (cm_payload x_command) \<Longrightarrow>
   rx_envelope_from_slice x_runtime (cm_payload x_command) = Inr envelope"
  by (auto simp: canonical_serialize_def split: if_splits)

definition x_place_metadata :: execution_metadata where
  "x_place_metadata = request_metadata x_bus x_request x_command 7"

lemma x_validated:
  "validate_command x_runtime x_command ''sales'' =
     Inr (x_envelope, x_place_metadata, (''sales'', ''place'', 1))"
proof -
  obtain created where v: "validate_command x_runtime x_command ''sales'' =
      Inr (request_envelope x_request ''abcd'' ''op'' created,
           request_metadata x_bus x_request x_command created, (''sales'', ''place'', 1))"
    and "created = 7"
    using encoded_command_accepted(1) [OF x_encode_command, unfolded x_request_sel x_command_sel,
        OF x_names(4) x_reads_back [unfolded x_command_sel]]
    by (auto simp: x_bus_def x_route_def)
  with v show ?thesis
    by (simp add: x_envelope_def x_place_metadata_def)
qed

section \<open>The processor\<close>

definition x_serde :: externals where
  "x_serde = \<lparr>sha256 = x_digests, json_to_vec = (\<lambda>_. Inr []), completion_to_vec = (\<lambda>_. Inr []),
     evidence_to_vec = (\<lambda>_. Inr []),
     header_to_vec = (\<lambda>h. if h = detail_header_for (Some (completion_new
       (md_outcome_evidence x_place_metadata) None)) x_key (Some ''tenant'') None
       then Inr [7] else Inl ''unknown header''),
     header_from_slice = (\<lambda>bs. if bs = [7] then Inr (detail_header_for (Some (completion_new
       (md_outcome_evidence x_place_metadata) None)) x_key (Some ''tenant'') None)
       else Inl ''unknown bytes''),
     manifest_to_vec = (\<lambda>_. Inl ''none''), manifest_from_slice = (\<lambda>_. Inl ''none'')\<rparr>"

definition x_caller :: trusted_command_context where
  "x_caller = \<lparr>tcc_principal = ''ann'', tcc_scope = ''tenant''\<rparr>"

definition x_command_type :: "unit command_type" where
  "x_command_type = \<lparr>ct_context = ''sales'', ct_local_id = ''place'', ct_schema_version = 1,
     ct_encode_json = (\<lambda>_. Inr JNull), ct_decode_json = (\<lambda>_. Inr ()), ct_type_name = ''Place''\<rparr>"

definition x_processor :: "(memory_state, audit_history, nat, nat) command_processor" where
  "x_processor =
     \<lparr>pr_context = ''sales'', pr_codecs = fmempty,
      pr_bindings = fmupd (''sales'', ''place'', 1)
        (typed_binding x_runtime x_command_type (\<lambda>_. Decide Accepted) (\<lambda>r :: unit. Inl [])) fmempty,
      pr_configuration = (trusted_configuration x_runtime)
        \<lparr>pc_route := Some x_route, pc_authorizer := Some (\<lambda>_ _ _ _. Inr ()), pc_audit := Some in_memory_sink\<rparr>\<rparr>"

definition x_world :: "memory_state execution_store" where
  "x_world = memory_execution_store x_serde x_store"

definition x_place_completion :: command_completion where
  "x_place_completion = completion_new (md_outcome_evidence x_place_metadata) None"

definition x_scoped :: execution_metadata where
  "x_scoped = x_place_metadata\<lparr>md_security_scope := Some ''tenant''\<rparr>"

definition x_place :: event_transaction where
  "x_place = \<lparr>tx_actor = None, tx_security_scope = Some ''tenant'',
     tx_completion = Some x_place_completion, tx_bounded_context = Some ''sales'',
     tx_operation_id = ''op'', tx_operation_fingerprint = [171, 205], tx_correlation_id = Some ''op'',
     tx_causation_id = Some ''abcd'', tx_participants = []\<rparr>"

definition x_place_receipt :: transaction_receipt where
  "x_place_receipt = (TransactionReceipt_new ''op'' [171, 205] [])
     \<lparr>tr_security_scope := Some ''tenant'', tr_bounded_context := Some ''sales'',
      tr_correlation_id := Some ''op'', tr_causation_id := Some ''abcd''\<rparr>"

definition x_place_reference :: detail_reference where
  "x_place_reference = \<lparr>dr_key = x_key, dr_security_scope = Some ''tenant'', dr_actor = None,
     dr_decision = OutcomeAccepted, dr_format = 1, dr_length = 5, dr_digest = [171, 205]\<rparr>"

definition x_place_marker :: outcome_marker where
  "x_place_marker = \<lparr>om_reference = x_place_reference, om_revision = [171, 205],
     om_proposal = \<lparr>pd_version = 1, pd_digest = [171, 205]\<rparr>,
     om_evidence = Some ((command_evidence x_command x_envelope)\<lparr>ev_created_at_millis := None\<rparr>),
     om_integrity = x_place_receipt\<rparr>"

definition x_place_outcome :: encoded_outcome where
  "x_place_outcome = \<lparr>co_marker = x_place_marker, co_details = Available
     \<lparr>eo_reference = x_place_reference, eo_completion = Some x_place_completion\<rparr>\<rparr>"

definition x_placed :: memory_state where
  "x_placed = state_default
     \<lparr>st_transactions := fmupd (Some ''sales'', ''op'') (Scoped x_place_marker) fmempty,
      st_details := fmupd x_place_reference (Active x_bytes) fmempty\<rparr>"

lemma x_place_metadata_sel [simp]:
  "md_actor x_place_metadata = None" "md_security_scope x_place_metadata = None"
  "md_bounded_context x_place_metadata = Some ''sales''" "md_operation_id x_place_metadata = ''op''"
  "md_operation_fingerprint x_place_metadata = [171, 205]"
  "md_correlation_id x_place_metadata = Some ''op''" "md_causation_id x_place_metadata = Some ''abcd''"
  "md_outcome_evidence x_place_metadata = Some (command_evidence x_command x_envelope)"
  by (simp_all add: x_place_metadata_def request_metadata_def x_bus_def x_route_def x_envelope_def)

lemma x_place_transaction: "command_transaction x_digests x_scoped [] None = Inr x_place"
  by (simp add: command_transaction_eq transaction_participants_def required_bounded_context_def
      x_scoped_def x_place_def x_place_completion_def)

lemma x_place_sel [simp]:
  "tx_actor x_place = None" "tx_security_scope x_place = Some ''tenant''"
  "tx_completion x_place = Some x_place_completion" "tx_bounded_context x_place = Some ''sales''"
  "tx_operation_id x_place = ''op''" "tx_operation_fingerprint x_place = [171, 205]"
  "tx_correlation_id x_place = Some ''op''" "tx_causation_id x_place = Some ''abcd''"
  "tx_participants x_place = []"
  by (simp_all add: x_place_def)

lemma x_evidence_of:
  "command_evidence x_command x_envelope = \<lparr>ev_authority_scope = Some ''shop:normal'',
     ev_created_at_millis = Some 7, ev_fingerprint_version = 2, ev_command_type = ''place'',
     ev_command_schema = 1, ev_events_caused_by_command = True, ev_original_causation = None\<rparr>"
proof -
  have a: "address_application ''shop.command.sales.place'' = ''shop''"
    "address_traffic_scope ''shop.command.sales.place'' = NormalScope"
    using command_address_context [OF x_place_address(1)] by (simp_all add: x_route_def)
  show ?thesis
    by (simp add: command_evidence_def x_envelope_def request_envelope_def a)
qed

lemma x_place_completion_valid: "completion_validate x_place_completion = Inr ()"
proof -
  have "evidence_validate (command_evidence x_command x_envelope) = Inr ()"
    unfolding x_evidence_of by code_simp
  then show ?thesis
    by (simp add: completion_validate_def x_place_completion_def completion_new_def)
qed

lemma x_place_integrity: "validate_integrity x_digests x_place_receipt = Inr ()"
  by (simp add: validate_integrity_def x_place_receipt_def TransactionReceipt_new_def)

lemma x_place_bytes:
  "details_encode x_serde (Some x_place_completion) x_key (Some ''tenant'') None = Inr x_bytes"
proof -
  have four: "(4::nat) = Suc (Suc (Suc (Suc 0)))"
    by simp
  have "be_bytes 4 1 = [0, 0, 0, 1]"
    unfolding four by simp
  then show ?thesis
    by (simp add: details_encode_ok_iff x_serde_def x_place_completion_def completion_new_def
        take_payload_def x_bytes_def)
qed

lemma x_place_limits:
  "validate_completed_transaction x_place = Inr ()" "validate_transaction_item_limit x_place = Inr 0"
  using x_place_completion_valid
  by (simp_all add: validate_completed_transaction_def validate_transaction_item_limit_ok_iff
      event_total_def guard_total_def tx_batches_def List.map_filter_simps max_transaction_items_def)

lemma x_place_digest:
  "proposal_digest_of x_serde x_place = Inr \<lparr>pd_version = 1, pd_digest = [171, 205]\<rparr>"
  by (simp add: proposal_digest_of_def tx_batches_def List.map_filter_simps x_serde_def x_digests_def)

lemma x_place_prepare:
  "prepare x_serde x_authority x_place x_place_receipt = Inr (x_place_marker, x_bytes)"
proof -
  let ?c = "Some x_place_completion"
  have proposal: "validate_proposal x_digests x_place_receipt x_place = Inr ()"
    using x_place_limits x_place_integrity
    by (simp add: validate_proposal_def) (simp add: x_place_receipt_def TransactionReceipt_new_def)
  have revision: "marker_revision x_serde x_place_reference \<lparr>pd_version = 1, pd_digest = [171, 205]\<rparr>
      (Some ((command_evidence x_command x_envelope)\<lparr>ev_created_at_millis := None\<rparr>)) x_place_receipt = Inr [171, 205]"
    by (simp add: marker_revision_def reference_encode_def integrity_digest_def x_serde_def
        x_digests_def Let_def)
  have ref: "x_place_reference = \<lparr>dr_key = x_key, dr_security_scope = Some ''tenant'', dr_actor = None,
      dr_decision = decision_of ?c, dr_format = actor_format None, dr_length = length x_bytes,
      dr_digest = fingerprint_digest x_digests x_bytes\<rparr>"
    by (simp add: x_place_reference_def decision_of_def x_place_completion_def completion_new_def
        actor_format_def x_bytes_def fingerprint_digest_def x_digests_def)
  have "without_completion x_place_receipt = x_place_receipt"
    by (simp add: without_completion_def x_place_receipt_def TransactionReceipt_new_def)
  moreover have "cc_evidence x_place_completion = Some (command_evidence x_command x_envelope)"
    by (simp add: x_place_completion_def completion_new_def)
  moreover have "sha256 x_serde = x_digests" by (simp add: x_serde_def)
  ultimately show ?thesis
    using proposal x_place_bytes revision x_place_digest ref
    by (simp add: prepare_def x_key_def [symmetric] x_place_marker_def)
qed

lemma x_place_plan:
  "plan_transaction x_serde x_store state_default x_place 0 \<lparr>pd_version = 1, pd_digest = [171, 205]\<rparr> =
     Inr (0, [], Scoped x_place_marker, Some (x_place_reference, Active x_bytes))"
proof -
  have "validate_transaction x_digests state_default x_place = Inr ()"
    by (simp add: validate_transaction_def)
  moreover have "event_capacity x_store state_default 0 = Inr 0"
    by (simp add: event_capacity_def checked_add_usize_def x_store_def memory_new_def usize_bound_def)
  moreover have "ms_authority x_store = x_authority" "0 < ms_maximum_outcomes x_store"
    by (simp_all add: x_store_def memory_new_def usize_bound_def)
  moreover have "staged_receipt x_place [] = x_place_receipt"
    by (simp add: staged_receipt_def x_place_receipt_def TransactionReceipt_new_def)
  moreover have "om_reference x_place_marker = x_place_reference" "sha256 x_serde = x_digests"
    by (simp_all add: x_place_marker_def x_serde_def)
  ultimately show ?thesis
    using x_place_prepare by (simp add: plan_transaction_def prepare_stored_def fcard_fempty)
qed

lemma x_place_decode:
  "details_decode x_serde x_place_reference x_bytes =
     Inr \<lparr>eo_reference = x_place_reference, eo_completion = Some x_place_completion\<rparr>"
proof (rule details_decode_encode)
  show "details_encode x_serde (Some x_place_completion) (dr_key x_place_reference)
      (dr_security_scope x_place_reference) (dr_actor x_place_reference) = Inr x_bytes"
    using x_place_bytes by (simp add: x_place_reference_def)
qed (auto simp: x_place_reference_def x_serde_def x_bytes_def actor_format_def
    fingerprint_digest_def x_digests_def decision_of_def x_place_completion_def completion_new_def
    x_place_completion_valid [unfolded x_place_completion_def completion_new_def x_place_metadata_sel] split: if_splits)

lemma x_place_commit:
  "session_commit_outcome x_serde x_store state_default (\<lambda>s i. s) x_place =
     (Inr (CommitAppended x_place_outcome), x_placed)"
proof -
  have inner: "append_transaction_inner x_serde x_store state_default x_place =
      (Inr (Scoped x_place_marker, False), x_placed)"
    using x_place_limits x_place_digest x_place_plan
    by (simp add: append_transaction_inner_def transaction_key_def commit_plan_def Let_def x_placed_def)
  have "om_reference x_place_marker = x_place_reference" "ms_hot x_store = MemoryDetails"
    "ms_cold x_store = None"
    by (simp_all add: x_place_marker_def x_store_def memory_new_def)
  then have "resolve_marker x_serde x_store (\<lambda>_. x_placed) x_place_marker = Inr x_place_outcome"
    using x_place_decode
    by (simp add: resolve_marker_def x_placed_def resolve_details_def run_reader_def
        memory_details_get_def completed_outcome_new_def validate_detail_binding_def x_place_outcome_def)
  then show ?thesis
    using x_place_limits inner by (simp add: session_commit_outcome_def)
qed

section \<open>Processing it\<close>

lemma x_place_validated: "outcome_validate_for x_digests x_place_outcome x_key x_scoped = Inr ()"
  using x_place_integrity
  by (simp add: outcome_validate_for_def x_place_outcome_def validate_key_def validate_identity_def
      validate_detail_binding_def x_scoped_def)
    (simp add: x_place_marker_def x_place_reference_def x_place_receipt_def TransactionReceipt_new_def)

lemma x_place_execute:
  fixes codec :: "command_rejection rejection_codec"
  shows "execute_completed_with_rejection_codec (Suc fuel) x_digests x_world x_undisturbed type_name x_scoped
     (fmempty :: (nat, nat) aggregate_codecs) codec policy (Decide Accepted) \<lparr>w_calls = n, w_state = state_default\<rparr> =
     Some (Inr (CommitAppended x_place_outcome), \<lparr>w_calls = n + 2, w_state = x_placed\<rparr>, 1)"
proof -
  have scoped: "md_bounded_context x_scoped = Some ''sales''" "md_operation_id x_scoped = ''op''"
    "md_outcome_evidence x_scoped = Some (command_evidence x_command x_envelope)"
    "md_correlation_id x_scoped \<noteq> None"
    by (simp_all add: x_scoped_def)
  have key: "outcome_key_for x_world x_scoped = Inr x_key"
    by (simp add: outcome_key_for_def required_bounded_context_def x_world_def x_key_def scoped)
  have missing: "lookup_completed x_digests x_world x_scoped state_default = Inr None"
    using key by (simp add: lookup_completed_def x_world_def lookup_outcome_def validate_authority_def
        x_key_def OutcomeKey_new_def)
  have "evidence_validate (command_evidence x_command x_envelope) = Inr ()"
    using x_place_completion_valid
    by (simp add: completion_validate_ok_iff x_place_completion_def completion_new_def)
  moreover have "execute_attempt x_digests x_world x_undisturbed x_scoped
      (fmempty :: (nat, nat) aggregate_codecs) codec (Decide Accepted) \<lparr>w_calls = n, w_state = state_default\<rparr> =
      (AttemptDone (Inr (CommitAppended x_place_outcome)), \<lparr>w_calls = n + 2, w_state = x_placed\<rparr>, True)"
    using missing key x_place_commit x_place_transaction x_place_validated
    by (simp add: execute_attempt_def interleave_def x_undisturbed_def x_world_def evaluate_attempt_def
        attempt_participants_def finish_def collect_def execution_start_def drop_all_def
        commit_attempt_def persist_def accept_commit_def)
  ultimately show ?thesis
    using complete_metadata_default [of x_scoped type_name] scoped
    by (simp add: execute_completed_with_rejection_codec_def usize_bound_def)
qed

definition x_response :: command_response where
  "x_response = \<lparr>rs_message_id = ''abcd'', rs_command_message_id = ''abcd'',
     rs_command_address = ''shop.command.sales.place'', rs_operation_id = ''op'', rs_schema_version = 1,
     rs_correlation_id = ''op'', rs_outcome = ResponseAccepted\<rparr>"

definition x_processed :: processed_command where
  "x_processed = \<lparr>pd_origin = OriginCommitted,
     pd_outcome = \<lparr>co_marker = x_place_marker, co_details = Available x_response\<rparr>\<rparr>"

lemma x_build_response: "build_response x_runtime x_command ResponseAccepted = Inr x_response"
  using x_names(1)
  by (simp add: build_response_def command_response_message_id_def x_fingerprint x_hex
      response_accepted_def SchemaVersion_new_def command_response_schema_def command_response_new_def
      validate_serialized_size_def max_envelope_bytes_def x_response_def)

lemma x_project:
  "project x_runtime P x_command x_place_outcome =
     Inr \<lparr>co_marker = x_place_marker, co_details = Available x_response\<rparr>"
proof -
  have "om_reference x_place_marker = x_place_reference"
    by (simp add: x_place_marker_def)
  then show ?thesis
    using x_build_response
    by (simp add: project_eq x_place_outcome_def projected_outcome_def details_rejection_def
        x_place_completion_def completion_new_def)
qed

lemma x_processor_sel [simp]:
  "pr_context x_processor = ''sales''" "pr_codecs x_processor = fmempty"
  "pc_authorizer (pr_configuration x_processor) = Some (\<lambda>_ _ _ _. Inr ())"
  "pc_retry (pr_configuration x_processor) = bounded_conflict_retries 3"
  "pc_audit (pr_configuration x_processor) = Some in_memory_sink"
  "pc_route (pr_configuration x_processor) = Some x_route"
  by (simp_all add: x_processor_def trusted_configuration_def)

lemma x_scoped_eq: "x_place_metadata\<lparr>md_security_scope := Some (tcc_scope x_caller)\<rparr> = x_scoped"
  by (simp add: x_scoped_def x_caller_def)

lemma x_process:
  "process_authorized (Suc fuel) x_runtime x_world x_undisturbed x_processor x_caller x_command x_start =
     Some (Inr x_processed, \<lparr>w_calls = 3, w_state = x_placed\<rparr>, 1)"
proof -
  have authorize: "authorize_with x_processor w caller encoded access = Inr ()" for w caller encoded access
    by (simp add: authorize_with_def)
  have "lookup_metadata x_runtime x_world x_processor x_command x_scoped state_default = Inr Missing"
    by (simp add: lookup_metadata_def x_world_def lookup_outcome_def validate_authority_def
        OutcomeKey_new_def x_scoped_def)
  then have look: "authorized_lookup x_runtime x_world x_undisturbed x_processor x_caller x_command x_start =
      (Inr Missing, \<lparr>w_calls = 1, w_state = state_default\<rparr>)"
    using x_validated
    by (simp add: authorized_lookup_def authorize x_scoped_eq interleave_def x_start_def x_undisturbed_def)
  have "fmlookup (pr_bindings x_processor) (''sales'', ''place'', 1) =
      Some (typed_binding x_runtime x_command_type (\<lambda>_. Decide Accepted) (\<lambda>r :: unit. Inl []))"
    by (simp add: x_processor_def)
  moreover have "bd_program (typed_binding x_runtime x_command_type (\<lambda>_. Decide Accepted)
      (\<lambda>r :: unit. Inl [])) payload = Inr (Decide Accepted :: (nat, nat, command_rejection) handler_program)" for payload
    by (simp add: typed_binding_def x_command_type_def mapped_decision_def)
  ultimately have "execute_missing (Suc fuel) x_runtime x_world x_undisturbed x_processor x_command x_scoped
      \<lparr>w_calls = 1, w_state = state_default\<rparr> =
      Some (Inr x_processed, \<lparr>w_calls = 3, w_state = x_placed\<rparr>, 1)"
    using x_validated x_place_execute [of fuel _ _ _ 1]
    by (simp add: x_project execute_missing_eq execute_program_def project_commit_def x_processed_def
        numeral_3_eq_3)
  then show ?thesis
    using look x_validated by (simp add: process_authorized_def authorize x_scoped_eq)
qed

lemma x_serde_roundtrip: "header_roundtrip x_serde"
  by (simp add: header_roundtrip_def x_serde_def)

end
