(* ===== verification/CommandProperties.thy ===== *)
theory CommandProperties
  imports CommandScenario ExecutionProperties
begin

text \<open>
  The properties of commands as messages: encoding and validation agree, fingerprints identify their
  content, processing is authorized, completes exactly once and comes to an end, its answers fit the
  command they answer, and audit records neither change it nor grow without bound.
\<close>

section \<open>Encoding\<close>

text \<open>C22: What a bus encodes, a processor accepts. When the serialiser reads back the payload it
  wrote, an encoded command passes the validation of the processor of its bounded context, which
  recovers the binding key, operation, fingerprint, correlation, causation and actor of the request;
  and a delivery of its bytes gives the encoded command back.\<close>

theorem encoded_command_validates:
  assumes "encode_dynamic E clock bus request = Inr command"
    and "OperationId_new (dr_request_operation_id request) = Inr (dr_request_operation_id request)"
    and "\<And>envelope. canonical_serialize E envelope = Inr (cm_payload command) \<Longrightarrow>
      rx_envelope_from_slice E (cm_payload command) = Inr envelope"
  shows "from_delivery E (cm_address command) (cm_message_id command) (cm_payload command) = Inr command
    \<and> (\<exists>envelope metadata. validate_command E command (bx_name (bus_context bus)) =
        Inr (envelope, metadata,
          (bx_name (bus_context bus), dr_request_command request, dr_request_schema_version request))
      \<and> rd_payload (cv_payload envelope) = dr_request_payload request
      \<and> md_bounded_context metadata = Some (bx_name (bus_context bus))
      \<and> md_operation_id metadata = dr_request_operation_id request
      \<and> md_operation_fingerprint metadata = cm_fingerprint command
      \<and> md_correlation_id metadata = Some (cm_correlation_id command)
      \<and> md_actor metadata = dr_request_actor request
      \<and> md_causation_id metadata = Some
          (if dr_request_events_caused_by_command request then cm_message_id command
           else case dr_request_causation_id request of
             Some c \<Rightarrow> c | None \<Rightarrow> cm_message_id command))"
  using encoded_command_accepted [OF assms]
  by (auto simp: request_metadata_def request_envelope_def)

theorem encoded_command_validates_witness:
  "from_delivery x_runtime ''shop.command.sales.place'' ''abcd'' [1] = Inr x_command
    \<and> (\<exists>envelope metadata. validate_command x_runtime x_command ''sales'' =
        Inr (envelope, metadata, (''sales'', ''place'', 1))
      \<and> md_operation_id metadata = ''op'' \<and> md_causation_id metadata = Some ''abcd'')"
  using encoded_command_validates [OF x_encode_command, unfolded x_request_sel x_command_sel,
      OF x_names(4) x_reads_back [unfolded x_command_sel]]
  by (auto simp: x_bus_def x_route_def)

text \<open>C30: The execution fingerprint identifies a command. Unless the hash collides on the two framed
  inputs, two routed commands have the same fingerprint exactly when they agree in context, name,
  schema version, causation flag and actor and their payloads have the same canonical form; and the
  canonical form does not depend on the order of object members at any depth.\<close>

theorem execution_fingerprint_identifies:
  assumes "canonical_json_bytes E (rd_payload routed) = Inr payload"
    and "canonical_json_bytes E (rd_payload routed') = Inr payload'"
    and "framable (execution_parts context (rd_command routed) (rd_schema_version routed) payload
      (rd_events_caused_by_command routed) actor)"
    and "framable (execution_parts context' (rd_command routed') (rd_schema_version routed') payload'
      (rd_events_caused_by_command routed') actor')"
    and "rx_sha256 E (frame (execution_parts context (rd_command routed) (rd_schema_version routed)
        payload (rd_events_caused_by_command routed) actor)) =
      rx_sha256 E (frame (execution_parts context' (rd_command routed') (rd_schema_version routed')
        payload' (rd_events_caused_by_command routed') actor')) \<Longrightarrow>
      frame (execution_parts context (rd_command routed) (rd_schema_version routed)
        payload (rd_events_caused_by_command routed) actor) =
      frame (execution_parts context' (rd_command routed') (rd_schema_version routed')
        payload' (rd_events_caused_by_command routed') actor')"
  shows "(routed_command_execution_fingerprint E context routed actor =
      routed_command_execution_fingerprint E context' routed' actor' \<longleftrightarrow>
    context = context' \<and> rd_command routed = rd_command routed'
    \<and> rd_schema_version routed = rd_schema_version routed' \<and> payload = payload'
    \<and> rd_events_caused_by_command routed = rd_events_caused_by_command routed' \<and> actor = actor')
    \<and> (normal_json (rd_payload routed) = normal_json (rd_payload routed') \<longrightarrow> payload = payload')"
    (is "(?fp \<longleftrightarrow> ?same) \<and> ?order")
proof -
  have ?order
    using assms(1,2) canonical_normal by (metis sum.inject(2))
  moreover have ?same if ?fp
  proof -
    have "execution_parts context (rd_command routed) (rd_schema_version routed) payload
        (rd_events_caused_by_command routed) actor =
      execution_parts context' (rd_command routed') (rd_schema_version routed') payload'
        (rd_events_caused_by_command routed') actor'"
      using that assms(1,2,5) framed_fingerprint_inject [OF _ assms(3,4)]
      by (auto simp: routed_command_execution_fingerprint_def
          command_execution_fingerprint_with_provenance_def)
    then show ?same by (rule execution_parts_inject)
  qed
  moreover have ?fp if ?same
    using that assms(1,2) by (simp add: routed_command_execution_fingerprint_def
        command_execution_fingerprint_with_provenance_def)
  ultimately show ?thesis by blast
qed

theorem execution_fingerprint_identifies_witness:
  "routed_command_execution_fingerprint (x_runtime\<lparr>rx_sha256 := \<lambda>bs. bs\<rparr>) ''sales''
      (cv_payload x_envelope) None \<noteq>
    routed_command_execution_fingerprint (x_runtime\<lparr>rx_sha256 := \<lambda>bs. bs\<rparr>) ''sales''
      ((cv_payload x_envelope)\<lparr>rd_schema_version := 2\<rparr>) None"
proof -
  have "canonical_json_bytes (x_runtime\<lparr>rx_sha256 := \<lambda>bs. bs\<rparr>) JNull = Inr [1]"
    by (simp add: canonical_json_bytes_def)
  then show ?thesis
    using execution_fingerprint_identifies [of "x_runtime\<lparr>rx_sha256 := \<lambda>bs. bs\<rparr>"
        "cv_payload x_envelope" "[1]" "(cv_payload x_envelope)\<lparr>rd_schema_version := 2\<rparr>" "[1]"
        "''sales''" None "''sales''" None]
    by (simp add: x_envelope_def request_envelope_def execution_parts_def)
qed

section \<open>Processing\<close>


lemma x_reachable_any: "reachable D (ms_authority x_store) (w_state x_start)"
  using x_default_reachable by (simp add: x_start_def)

lemma x_cooperative_any: "cooperative (store_step D (ms_authority x_store)) x_undisturbed"
  by (simp add: cooperative_def x_undisturbed_def)

lemma x_hot_details: "ms_hot x_store = MemoryDetails"
  by (simp add: x_store_def memory_new_def)


lemma service_process_returns:
  assumes "maximum < usize_bound - 1"
    and "pc_retry (pr_configuration P) = bounded_conflict_retries maximum"
  shows "\<exists>rep w' n a'. service_process (Suc maximum) E S env P attempt caller encoded w a =
      Some (rep, w', n, a') \<and> n \<le> Suc maximum \<and> sr_attempt rep = attempt"
proof -
  have program: "\<exists>r w' n. execute_program (Suc maximum) E S env P encoded m type_name program w =
      Some (r, w', n) \<and> n \<le> Suc maximum" for m type_name program w
    using bounded_execution_returns [OF assms(1)]
    by (fastforce simp: execute_program_def assms(2))
  have missing: "\<exists>r w' n. execute_missing (Suc maximum) E S env P encoded m w =
      Some (r, w', n) \<and> n \<le> Suc maximum" for m w
    using program
    by (auto simp: execute_missing_eq recorded_rejection_def execute_fixed_rejection_program
        split: sum.splits option.splits)
  have "\<exists>r w' n. process_authorized (Suc maximum) E S env P caller encoded w =
      Some (r, w', n) \<and> n \<le> Suc maximum"
    using missing by (auto simp: process_authorized_def split: prod.splits sum.splits outcome_lookup.splits)
  then show ?thesis
    by (auto simp: service_process_def report_def Let_def split: sum.splits)
qed

text \<open>C29: The service returns. With a bounded retry policy a policy-enabled processor answers every
  command, valid or not, registered or not, on any store and against any other writers, after at
  most \<open>maximum + 1\<close> evaluations of a handler.\<close>

theorem service_returns:
  assumes "maximum < usize_bound - 1"
    and "pc_retry (pr_configuration P) = bounded_conflict_retries maximum"
  shows "\<exists>rep w' n a'. service_process (Suc maximum) E S env P attempt caller encoded w a =
      Some (rep, w', n, a') \<and> n \<le> Suc maximum \<and> sr_attempt rep = attempt"
  by (rule service_process_returns [OF assms])

theorem service_returns_witness:
  "\<exists>rep w' n a'. service_process 4 x_runtime x_world x_undisturbed x_processor ''attempt-1'' x_caller
      x_command x_start (audit_history_new 2) = Some (rep, w', n, a')
    \<and> n \<le> 4 \<and> sr_attempt rep = ''attempt-1''"
  using service_returns [of 3 x_processor x_runtime x_world x_undisturbed "''attempt-1''" x_caller
      x_command x_start "audit_history_new 2"]
  by (simp add: usize_bound_def)

text \<open>C21: Denied commands leave no trace. When the authorizer never lets this caller execute this
  command, processing evaluates nothing and writes nothing: the store is as the caller, or at most
  one step of another writer, left it. An outcome is disclosed only as a replay, and only when the
  authorizer let the caller read it.\<close>

theorem denied_command_leaves_no_trace:
  assumes "pc_authorizer (pr_configuration P) = Some policy"
    and "\<And>v. \<exists>e. policy v caller encoded ExecuteCommand = Inl e"
    and "service_process fuel E S env P attempt caller encoded w a = Some (rep, w', n, a')"
  shows "n = 0 \<and> w' \<in> {w, interleave env w}
    \<and> (\<forall>processed. sr_result rep = Inr processed \<longrightarrow>
        pd_origin processed = OriginReplayed \<and> policy w caller encoded ReadOutcome = Inr ())"
proof -
  have denied: "\<exists>e. authorize_with P v caller encoded ExecuteCommand = Inl e" for v
    using assms(2) [of v] by (auto simp: authorize_with_def assms(1))
  have look: "w1 \<in> {w, interleave env w} \<and> (\<forall>found. r = Inr found \<longrightarrow>
      policy w caller encoded ReadOutcome = Inr ())"
    if "authorized_lookup E S env P caller encoded w = (r, w1)" for r w1
    using that assms(1)
    by (auto simp: authorized_lookup_def authorize_with_def Let_def result_simps split: sum.splits)
  have run: "n' = 0 \<and> v \<in> {w, interleave env w} \<and> (\<forall>processed. r = Inr processed \<longrightarrow>
      pd_origin processed = OriginReplayed \<and> policy w caller encoded ReadOutcome = Inr ())"
    if "process_authorized fuel E S env P caller encoded w = Some (r, v, n')" for r v n'
  proof -
    obtain l w1 where l: "authorized_lookup E S env P caller encoded w = (l, w1)"
      by fastforce
    obtain e where e: "authorize_with P w1 caller encoded ExecuteCommand = Inl e"
      using denied by blast
    show ?thesis
      using that l look [OF l] e
      by (auto simp: process_authorized_def split: sum.splits outcome_lookup.splits)
  qed
  show ?thesis
    using assms(3) run
    by (auto simp: service_process_def report_def Let_def split: sum.splits option.splits prod.splits)
qed

definition x_closed :: "(memory_state, audit_history, nat, nat) command_processor" where
  "x_closed = x_processor\<lparr>pr_configuration := (pr_configuration x_processor)
     \<lparr>pc_authorizer := Some (\<lambda>_ _ _ access. if access = ReadOutcome then Inr () else Inl AccessDenied)\<rparr>\<rparr>"

theorem denied_command_leaves_no_trace_witness:
  "\<exists>rep w' a'. service_process 4 x_runtime x_world x_undisturbed x_closed ''attempt-1'' x_caller
      x_command x_start (audit_history_new 2) = Some (rep, w', 0, a')
    \<and> w' \<in> {x_start, interleave x_undisturbed x_start}"
proof -
  obtain rep w' n a' where run: "service_process 4 x_runtime x_world x_undisturbed x_closed ''attempt-1''
      x_caller x_command x_start (audit_history_new 2) = Some (rep, w', n, a')"
    using service_process_returns [of 3 x_closed x_runtime x_world x_undisturbed "''attempt-1''" x_caller
      x_command x_start "audit_history_new 2"]
    by (auto simp: usize_bound_def x_closed_def)
  show ?thesis
    using denied_command_leaves_no_trace [OF _ _ run, of "\<lambda>_ _ _ access.
        if access = ReadOutcome then Inr () else Inl AccessDenied"] run
    by (auto simp: x_closed_def)
qed

text \<open>What a processor returns can be admitted. On the in-memory store the processed command is
  admitted for the caller and the command it was processed for, with exactly its response, unless its
  details have been withdrawn, which admission reports as such; only an outcome whose marker was
  written without evidence is excluded.\<close>

theorem processed_command_is_admitted:
  assumes "reachable D (ms_authority store) (w_state w)" and "header_roundtrip D"
    and "ms_hot store = MemoryDetails"
    and "cooperative (store_step D (ms_authority store)) env"
    and "BoundedContextName_new (pr_context P) = Inr (pr_context P)"
    and "process_authorized fuel E (memory_execution_store D store) env P caller encoded w =
      Some (Inr processed, w', n)"
    and "om_evidence (co_marker (pd_outcome processed)) \<noteq> None"
  shows "admit E processed caller encoded =
    map_err processor_recovery (details_available (co_details (pd_outcome processed)))"
proof -
  obtain envelope metadata key where
    "validate_command E encoded (pr_context P) = Inr (envelope, metadata, key)"
    "mem_service.processed_from D store E P encoded
       (metadata\<lparr>md_security_scope := Some (tcc_scope caller)\<rparr>) (w_state w') (pd_outcome processed)"
    using mem_service.process_settled(2) [OF assms(4) reachable_ready [OF assms(1-3)] assms(6)] by blast
  then show ?thesis
    using mem_service.processed_admitted assms(5,7) by blast
qed

theorem processed_command_is_admitted_witness:
  "admit x_runtime x_processed x_caller x_command = Inr x_response"
proof -
  have "BoundedContextName_new ''sales'' = Inr ''sales''" by code_simp
  then show ?thesis
    using processed_command_is_admitted [OF x_reachable_any x_serde_roundtrip x_hot_details
        x_cooperative_any _ x_process [unfolded x_world_def, of 0]]
    by (simp add: x_processed_def x_place_marker_def details_available_def)
qed

definition messaging_ok :: "in_memory_messaging \<Rightarrow> bool" where
  "messaging_ok m \<longleftrightarrow> im_commands m = cm_message_id ` set (im_command_messages m)
     \<and> distinct (map cm_message_id (im_command_messages m))"

lemma remember_command_ok:
  "messaging_ok m \<Longrightarrow> messaging_ok (remember_command command m)"
  "cm_message_id command \<in> im_commands (remember_command command m)"
  by (auto simp: messaging_ok_def remember_command_def)

lemma dispatch_as_receipt:
  assumes "dispatch_as fuel E S env P attempt caller command w a m = Some (Inr receipt, w', a', m')"
  shows "answers (rx_sha256 E) command (br_response receipt)" "m' = remember_command command m"
    "br_publication_duplicate receipt = (cm_message_id command \<in> im_commands m)"
proof -
  obtain processed where "admit E processed caller command = Inr (br_response receipt)"
    and rest: "m' = remember_command command m"
      "br_publication_duplicate receipt = (cm_message_id command \<in> im_commands m)"
    using assms by (auto simp: dispatch_as_def result_simps split: sum.splits option.splits)
  then show "answers (rx_sha256 E) command (br_response receipt)"
    by (blast intro: admitted_answers)
  from rest show "m' = remember_command command m"
    "br_publication_duplicate receipt = (cm_message_id command \<in> im_commands m)" .
qed

lemma dispatch_trusted_receipt:
  assumes "dispatch_trusted fuel E S env P command w m = Some (Inr receipt, w', m')"
  shows "answers (rx_sha256 E) command (br_response receipt)" "m' = remember_command command m"
    "br_publication_duplicate receipt = (cm_message_id command \<in> im_commands m)"
proof -
  obtain n where "trusted_process fuel E S env P command w = Some (Inr (br_response receipt), w', n)"
    and rest: "m' = remember_command command m"
      "br_publication_duplicate receipt = (cm_message_id command \<in> im_commands m)"
    using assms by (auto simp: dispatch_trusted_def split: sum.splits option.splits)
  then show "answers (rx_sha256 E) command (br_response receipt)"
    by (blast intro: trusted_answers)
  from rest show "m' = remember_command command m"
    "br_publication_duplicate receipt = (cm_message_id command \<in> im_commands m)" .
qed

text \<open>The in-memory adapter answers the command it was given. Every receipt it returns, through
  the policy-enabled service or through the trusted profile, carries a response that passes the
  validation of the dispatching bus and decides the command, never a technical failure; it is marked
  as a duplicate exactly when the message was dispatched before; and the adapter keeps exactly one
  copy of every message it answered.\<close>

theorem receipt_answers_command:
  assumes "dispatch_as fuel E S env P attempt caller command w a m =
      Some (Inr receipt, w', a', m') \<or>
    dispatch_trusted fuel E S env P command w m = Some (Inr receipt, w', m')"
    and "messaging_ok m"
  shows "validate_response (rx_sha256 E) command (br_response receipt) = Inr ()
    \<and> (\<forall>failure. rs_outcome (br_response receipt) \<noteq> ResponseExecutionFailed failure)
    \<and> br_publication_duplicate receipt = (cm_message_id command \<in> im_commands m)
    \<and> cm_message_id command \<in> im_commands m' \<and> messaging_ok m'"
  using assms(1)
proof
  assume "dispatch_as fuel E S env P attempt caller command w a m = Some (Inr receipt, w', a', m')"
  from dispatch_as_receipt [OF this] show ?thesis
    using remember_command_ok assms(2) by (simp add: answers_def)
next
  assume "dispatch_trusted fuel E S env P command w m = Some (Inr receipt, w', m')"
  from dispatch_trusted_receipt [OF this] show ?thesis
    using remember_command_ok assms(2) by (simp add: answers_def)
qed

lemma x_dispatch:
  "dispatch_as 1 x_runtime x_world x_undisturbed x_processor ''attempt-1'' x_caller x_command x_start
      (audit_history_new 2) messaging_empty =
     Some (Inr \<lparr>br_publication_duplicate = False, br_response = x_response\<rparr>,
       \<lparr>w_calls = 3, w_state = x_placed\<rparr>,
       snd (snd (snd (the (service_process 1 x_runtime x_world x_undisturbed x_processor ''attempt-1''
         x_caller x_command x_start (audit_history_new 2))))),
       remember_command x_command messaging_empty)"
proof -
  have name: "BoundedContextName_new ''sales'' = Inr ''sales''" by code_simp
  have a: "address_application ''shop.command.sales.place'' = ''shop''"
    "address_traffic_scope ''shop.command.sales.place'' = NormalScope"
    "address_context ''shop.command.sales.place'' = ''sales''"
    using command_address_context [OF x_place_address(1)] by (simp_all add: x_route_def)
  have valid: "encoded_validate x_runtime x_command = Inr ()"
    using x_validated name a by (simp add: encoded_validate_def validated_metadata_def)
  have service: "validate_service x_runtime x_processor x_command = Inr ()"
    using x_validated a by (simp add: validate_service_def x_route_def)
  have admitted: "admit x_runtime x_processed x_caller x_command = Inr x_response"
    using mem_service.processed_admitted [of x_runtime x_command x_processor x_envelope
        x_place_metadata "(''sales'', ''place'', 1)" x_serde x_store x_caller x_placed x_processed]
      mem_service.process_settled(2) [OF x_cooperative_any
        reachable_ready [OF x_reachable_any x_serde_roundtrip x_hot_details]
        x_process [unfolded x_world_def, of 0] refl] x_validated name
    by (simp add: x_processed_def x_place_marker_def details_available_def)
  show ?thesis
    using valid service admitted x_process [of 0]
    by (simp add: dispatch_as_def service_process_def report_def Let_def messaging_empty_def)
qed

theorem receipt_answers_command_witness:
  "validate_response x_digests x_command x_response = Inr ()
    \<and> messaging_ok (remember_command x_command messaging_empty)"
  using receipt_answers_command [OF disjI1 [OF x_dispatch]]
  by (simp add: messaging_ok_def messaging_empty_def)

section \<open>Audit\<close>

text \<open>The in-memory audit history refines the full trace. Whatever is recorded and whenever it is
  cleared, a history of capacity \<open>maximum\<close> holds exactly the latest \<open>maximum\<close> records since it was
  last cleared, in order.\<close>

theorem audit_history_refines_trace:
  "ah_records (fold audit_apply ops (audit_history_new maximum)) =
     latest maximum (fold audit_trace ops [])"
  using audit_fold_latest [of "audit_history_new maximum" "[]" ops]
  by (simp add: audit_history_new_def latest_def)

text \<open>Auditing observes and never decides. A service call that passed its validation returns what
  processing without audit returns, and an in-memory history then ends with the two records of the
  attempt, started and finished, about this command and caller; the final record says the command
  committed exactly when it did, with its details at hand, and that it was denied exactly when the
  authorizer refused the caller.\<close>

theorem audit_observes_processing:
  assumes "validate_service E P encoded = Inr ()"
    and "pc_audit (pr_configuration P) = Some in_memory_sink"
    and "ah_records h = latest (ah_maximum h) trace" and "ah_maximum h \<noteq> 0"
    and "service_process fuel E S env P attempt caller encoded w h = Some (rep, w', n, h')"
  shows "process_authorized fuel E S env P caller encoded w = Some (sr_result rep, w', n)
    \<and> sr_audit rep = AuditDelivered
    \<and> (\<exists>started finished. ah_records h' = latest (ah_maximum h) (trace @ [started, finished])
      \<and> ar_phase started = AuditStarted \<and> ar_phase finished = AuditFinished
      \<and> ar_attempt started = attempt \<and> ar_attempt finished = attempt
      \<and> ar_command started = cm_message_id encoded \<and> ar_command finished = cm_message_id encoded
      \<and> ar_caller started = caller \<and> ar_caller finished = caller
      \<and> ar_terminal started = None
      \<and> (ar_terminal finished = Some TerminalCommitted \<longleftrightarrow>
          (\<exists>processed response. sr_result rep = Inr processed \<and> pd_origin processed = OriginCommitted
            \<and> co_details (pd_outcome processed) = Available response))
      \<and> (ar_terminal finished = Some TerminalDenied \<longleftrightarrow>
          (\<exists>e. sr_result rep = Inl e \<and> pe_authorization e \<in> {Some AccessDenied, Some Unauthenticated})))"
proof -
  let ?terminal = "\<lambda>processed. availability_terminal (pd_outcome processed)
    (case pd_origin processed of OriginCommitted \<Rightarrow> TerminalCommitted | OriginReplayed \<Rightarrow> TerminalReplayed)"
  let ?started = "\<lparr>ar_attempt = attempt, ar_phase = AuditStarted, ar_terminal = None,
    ar_command = cm_message_id encoded, ar_original = cm_payload encoded, ar_caller = caller\<rparr>"
  let ?finished = "?started\<lparr>ar_phase := AuditFinished,
    ar_terminal := Some (terminal_of ?terminal (sr_result rep))\<rparr>"
  have step: "audit_step (pr_configuration P) r (errors, g) = (errors, snd (audit_history_record r g))"
    if "ah_maximum g \<noteq> 0" for r errors g
    using that by (simp add: audit_step_def assms(2) in_memory_sink_def audit_history_record_def Let_def)
  define h1 where "h1 = snd (audit_history_record ?started h)"
  have h1: "ah_records h1 = latest (ah_maximum h) (trace @ [?started])" "ah_maximum h1 = ah_maximum h"
    using audit_record_latest [OF assms(3)] by (simp_all add: h1_def)
  obtain result where run: "process_authorized fuel E S env P caller encoded w = Some (result, w', n)"
    using assms(5) by (auto simp: service_process_def report_def assms(1) Let_def split: option.splits)
  have out: "sr_result rep = result" "sr_audit rep = AuditDelivered"
    "h' = snd (audit_history_record ?finished h1)"
    using assms(4,5) run h1(2)
    by (auto simp: service_process_def report_def assms(1,2) Let_def step audit_outcome_def
        simp flip: h1_def)
  have "ah_records h' = latest (ah_maximum h) (trace @ [?started, ?finished])"
    unfolding out(3) using audit_record_latest(1) [of h1 "trace @ [?started]"] h1 by simp
  moreover have "terminal_of ?terminal (sr_result rep) = TerminalCommitted \<longleftrightarrow>
      (\<exists>processed response. sr_result rep = Inr processed \<and> pd_origin processed = OriginCommitted
        \<and> co_details (pd_outcome processed) = Available response)"
    by (auto simp: terminal_of_def availability_terminal_def
        split: sum.splits outcome_details.splits completion_origin.splits)
  moreover have "terminal_of ?terminal (sr_result rep) = TerminalDenied \<longleftrightarrow>
      (\<exists>e. sr_result rep = Inl e \<and> pe_authorization e \<in> {Some AccessDenied, Some Unauthenticated})"
    by (auto simp: terminal_of_def availability_terminal_def
        split: sum.splits outcome_details.splits completion_origin.splits)
  ultimately show ?thesis
    using run out(1,2) by (intro conjI exI [of _ ?started] exI [of _ ?finished]) simp_all
qed

lemma x_service_valid: "validate_service x_runtime x_processor x_command = Inr ()"
proof -
  have "address_application ''shop.command.sales.place'' = ''shop''"
    "address_traffic_scope ''shop.command.sales.place'' = NormalScope"
    using command_address_context [OF x_place_address(1)] by (simp_all add: x_route_def)
  then show ?thesis
    using x_validated by (simp add: validate_service_def x_route_def)
qed

theorem audit_observes_processing_witness:
  "\<exists>rep w' n h' started finished. service_process 1 x_runtime x_world x_undisturbed x_processor
      ''attempt-1'' x_caller x_command x_start (audit_history_new 2) = Some (rep, w', n, h')
    \<and> ah_records h' = [started, finished] \<and> ar_terminal finished = Some TerminalCommitted"
proof -
  obtain rep w' n h' where run: "service_process 1 x_runtime x_world x_undisturbed x_processor
      ''attempt-1'' x_caller x_command x_start (audit_history_new 2) = Some (rep, w', n, h')"
    and result: "sr_result rep = Inr x_processed"
    using x_process [of 0] x_service_valid
    by (auto simp: service_process_def report_def Let_def)
  have "ah_records (audit_history_new 2) = latest (ah_maximum (audit_history_new 2)) []"
    "ah_maximum (audit_history_new 2) \<noteq> 0"
    by (simp_all add: audit_history_new_def latest_def)
  from audit_observes_processing [OF x_service_valid x_processor_sel(5) this run] show ?thesis
    using run result
    by (auto simp: x_processed_def latest_def audit_history_new_def)
qed

end
