(* ===== verification/DomainEvents.thy ===== *)
theory DomainEvents
  imports Executor
begin

text \<open>
  Dispatch of committed domain events (\<open>rostfrei-core/src/domain_event.rs\<close>): registration of typed
  handlers under an aggregate and event type, and the dispatch of a recorded event to the handler
  of its type. A handler is application or framework code; it acts on a world \<open>'w\<close>, and a
  registered handler is the type-erased function from recorded events that the dispatcher calls.
\<close>

section \<open>Handlers\<close>

datatype domain_event_handler_error_kind =
  HandlerRetryable | HandlerPermanentlyUnsupported | HandlerInvalidCommittedEvent
| HandlerOperatorBlocking

datatype 'm handler_text =
  HandlerCodec event_codec_error
| HandlerVariantDiffers
| HandlerOwn 'm

record 'm domain_event_handler_error =
  he_kind :: domain_event_handler_error_kind
  he_message :: "'m handler_text"

definition handler_error_new ::
  "domain_event_handler_error_kind \<Rightarrow> 'm handler_text \<Rightarrow> 'm domain_event_handler_error" where
  "handler_error_new kind m = \<lparr>he_kind = kind, he_message = m\<rparr>"

datatype domain_event_dispatch_outcome = EventHandled | EventIgnored

record 'e committed_domain_event =
  cde_recorded :: recorded_event
  cde_event :: 'e

type_synonym ('w, 'e, 'm) domain_event_handler =
  "'e committed_domain_event \<Rightarrow> 'w \<Rightarrow> ('m domain_event_handler_error + unit) \<times> 'w"

type_synonym ('w, 'm) erased_domain_event_handler =
  "recorded_event \<Rightarrow> 'w \<Rightarrow> ('m domain_event_handler_error + domain_event_dispatch_outcome) \<times> 'w"

fun codec_classification :: "event_codec_error_kind \<Rightarrow> domain_event_handler_error_kind" where
  "codec_classification UnknownEventType = HandlerInvalidCommittedEvent"
| "codec_classification UnsupportedSchemaVersion = HandlerInvalidCommittedEvent"
| "codec_classification MalformedPayload = HandlerInvalidCommittedEvent"
| "codec_classification ConversionFailed = HandlerInvalidCommittedEvent"
| "codec_classification InvalidEnvelope = HandlerInvalidCommittedEvent"
| "codec_classification EncodingFailed = HandlerOperatorBlocking"

text \<open>\<open>TypedDomainEventHandler::handle\<close>; \<open>variant\<close> is \<open>EventVariant::into_event\<close>.\<close>

definition typed_domain_event_handler ::
  "'ev event_codec \<Rightarrow> ('ev \<Rightarrow> 'e option) \<Rightarrow> ('w, 'e, 'm) domain_event_handler \<Rightarrow>
   ('w, 'm) erased_domain_event_handler" where
  "typed_domain_event_handler codec variant handler event w =
     (case rbind (map_err (\<lambda>e. handler_error_new (codec_classification (codec_kind e)) (HandlerCodec e))
                    (ec_decode codec event)) (\<lambda>decoded.
           ok_or (handler_error_new HandlerInvalidCommittedEvent HandlerVariantDiffers)
             (variant decoded)) of
        Inl e \<Rightarrow> (Inl e, w)
      | Inr concrete \<Rightarrow>
          (case handler \<lparr>cde_recorded = event, cde_event = concrete\<rparr> w of
             (Inl e, w) \<Rightarrow> (Inl e, w)
           | (Inr _, w) \<Rightarrow> (Inr EventHandled, w)))"

section \<open>Registration\<close>

datatype domain_event_registration_error =
  SharedCodecOverride
| RegistrationAggregateType
| RegistrationEventType
| RegistrationConflict string string
| RegistrationAggregateConflict string

text \<open>The \<open>TypeId\<close> of an aggregate is \<open>am_model\<close>, that of a codec a number of its own.\<close>

record ('st, 'ev, 'w, 'm) domain_event_dispatcher =
  dd_codecs :: "('st, 'ev) aggregate_codecs"
  dd_shared_codecs :: bool
  dd_handlers :: "(string \<times> string, ('w, 'm) erased_domain_event_handler) fmap"
  dd_aggregate_registrations :: "(string, nat \<times> nat) fmap"

definition dispatcher_new :: "('st, 'ev, 'w, 'm) domain_event_dispatcher" where
  "dispatcher_new = \<lparr>dd_codecs = fmempty, dd_shared_codecs = False, dd_handlers = fmempty,
                     dd_aggregate_registrations = fmempty\<rparr>"

definition dispatcher_with_codecs ::
  "('st, 'ev) aggregate_codecs \<Rightarrow> ('st, 'ev, 'w, 'm) domain_event_dispatcher" where
  "dispatcher_with_codecs codecs = dispatcher_new\<lparr>dd_codecs := codecs, dd_shared_codecs := True\<rparr>"

definition register_resolved ::
  "('st, 'ev) aggregate_model \<Rightarrow> nat \<Rightarrow> string \<Rightarrow> 'ev event_codec \<Rightarrow> ('ev \<Rightarrow> 'e option) \<Rightarrow>
   ('w, 'e, 'm) domain_event_handler \<Rightarrow> ('st, 'ev, 'w, 'm) domain_event_dispatcher \<Rightarrow>
   (domain_event_registration_error + unit) \<times> ('st, 'ev, 'w, 'm) domain_event_dispatcher" where
  "register_resolved A codec_type event_type codec variant handler d =
     (let aggregate_type = am_aggregate_type A; key = (aggregate_type, event_type);
          registration = (am_model A, codec_type) in
      if AggregateType_new aggregate_type \<noteq> Inr aggregate_type then (Inl RegistrationAggregateType, d)
      else if event_type = [] \<or> max_event_type_len < length event_type
        \<or> has_surrounding_whitespace event_type \<or> has_control event_type
      then (Inl RegistrationEventType, d)
      else if fmlookup (dd_handlers d) key \<noteq> None then
        (Inl (RegistrationConflict aggregate_type event_type), d)
      else if (case fmlookup (dd_aggregate_registrations d) aggregate_type of
                 None \<Rightarrow> False | Some registered \<Rightarrow> registered \<noteq> registration) then
        (Inl (RegistrationAggregateConflict aggregate_type), d)
      else
        (Inr (),
         d\<lparr>dd_aggregate_registrations :=
             fmupd aggregate_type registration (dd_aggregate_registrations d),
           dd_handlers :=
             fmupd key (typed_domain_event_handler codec variant handler) (dd_handlers d)\<rparr>))"

definition json_codec_type :: nat where "json_codec_type = 0"
definition dyn_codec_type :: nat where "dyn_codec_type = 1"

definition dispatcher_register ::
  "('st, 'ev) aggregate_model \<Rightarrow> string \<Rightarrow> ('ev \<Rightarrow> 'e option) \<Rightarrow>
   ('w, 'e, 'm) domain_event_handler \<Rightarrow> ('st, 'ev, 'w, 'm) domain_event_dispatcher \<Rightarrow>
   (domain_event_registration_error + unit) \<times> ('st, 'ev, 'w, 'm) domain_event_dispatcher" where
  "dispatcher_register A event_type variant handler d =
     (if \<not> dd_shared_codecs d then
        register_resolved A json_codec_type event_type (json_event_codec A) variant handler d
      else
        (case codecs_resolve (dd_codecs d) A of
           Inl _ \<Rightarrow> (Inl (RegistrationAggregateConflict (am_aggregate_type A)), d)
         | Inr codec \<Rightarrow> register_resolved A dyn_codec_type event_type codec variant handler d))"

definition dispatcher_register_with_codec ::
  "('st, 'ev) aggregate_model \<Rightarrow> nat \<Rightarrow> string \<Rightarrow> 'ev event_codec \<Rightarrow> ('ev \<Rightarrow> 'e option) \<Rightarrow>
   ('w, 'e, 'm) domain_event_handler \<Rightarrow> ('st, 'ev, 'w, 'm) domain_event_dispatcher \<Rightarrow>
   (domain_event_registration_error + unit) \<times> ('st, 'ev, 'w, 'm) domain_event_dispatcher" where
  "dispatcher_register_with_codec A codec_type event_type codec variant handler d =
     (if dd_shared_codecs d then (Inl SharedCodecOverride, d)
      else register_resolved A codec_type event_type codec variant handler d)"

section \<open>Dispatch\<close>

definition dispatch_event ::
  "('st, 'ev, 'w, 'm) domain_event_dispatcher \<Rightarrow> ('w, 'm) erased_domain_event_handler" where
  "dispatch_event d event w =
     (case fmlookup (dd_handlers d)
             (stream_aggregate_type (re_stream_id event), re_event_type event) of
        None \<Rightarrow> (Inr EventIgnored, w)
      | Some handler \<Rightarrow> handler event w)"

lemma register_resolved_ok:
  assumes "register_resolved A codec_type event_type codec variant handler d = (Inr (), d')"
  shows "dd_handlers d' = fmupd (am_aggregate_type A, event_type)
      (typed_domain_event_handler codec variant handler) (dd_handlers d)"
    and "fmlookup (dd_handlers d) (am_aggregate_type A, event_type) = None"
    and "dd_codecs d' = dd_codecs d" and "dd_shared_codecs d' = dd_shared_codecs d"
  using assms by (auto simp: register_resolved_def Let_def split: if_splits option.splits)

lemma register_resolved_error:
  "register_resolved A codec_type event_type codec variant handler d = (Inl e, d') \<Longrightarrow> d' = d"
  by (auto simp: register_resolved_def Let_def split: if_splits option.splits)

end
