(* ===== verification/ReadModels.thy ===== *)
theory ReadModels
  imports DomainEvents Delivery Messages
begin

text \<open>
  Read models: the keys, errors, store interface and JSON codec of \<open>rostfrei-core/src/read_model.rs\<close>
  and the runtime that materializes them, \<open>rostfrei-runtime/src/read_model/\<close> (\<open>mod.rs\<close>, \<open>runtime.rs\<close>
  and \<open>integration.rs\<close>). The state \<open>'s\<close> holds the read-model storage and the event history;
  other processes act on it before every call, through the argument \<open>env\<close> of the executor's model.
  The text \<open>serde_json\<close> makes of a tuple of strings is the argument \<open>text\<close>.
\<close>

section \<open>Keys, errors and entries\<close>

datatype read_model_error_kind =
  RmInvalidRequest | RmConflict | RmUnavailable | RmInvalidData | RmIncompatibleSchema
| RmEncodingFailed | RmPayloadTooLarge | RmCapacityExhausted | RmConfigurationMismatch

datatype read_model_text =
  InvalidModelKey | ModelEncoding | ModelEnvelope | ModelSchema | ModelValue | ModelCheckpoint
| ModelContention | ModelNotConnected | ModelHistory event_store_error
| ForeignRevision | ModelValueLimit | RevisionChanged | ServerPayloadLimit | WriteRejected
| StorageUnavailable

record read_model_error =
  rme_kind :: read_model_error_kind
  rme_message :: read_model_text

definition read_model_error_new ::
  "read_model_error_kind \<Rightarrow> read_model_text \<Rightarrow> read_model_error" where
  "read_model_error_new kind m = \<lparr>rme_kind = kind, rme_message = m\<rparr>"

type_synonym read_model_key = string
type_synonym read_model_revision = string

definition read_model_key_char :: "char \<Rightarrow> bool" where
  "read_model_key_char c \<longleftrightarrow>
     is_ascii_alphanumeric c \<or> c \<in> {CHR ''-'', CHR ''_'', CHR ''/'', CHR ''='', CHR ''.''}"

definition ReadModelKey_new :: "string \<Rightarrow> read_model_error + read_model_key" where
  "ReadModelKey_new value =
     (if value = [] \<or> 256 < length value \<or> list_ex (\<lambda>part. part = []) (split_char CHR ''.'' value)
        \<or> \<not> list_all read_model_key_char value
      then Inl (read_model_error_new RmInvalidRequest InvalidModelKey)
      else Inr value)"

text \<open>An entry is the value with its revision.\<close>

record ('v, 's) read_model_store =
  rms_read :: "'s \<Rightarrow> read_model_key \<Rightarrow> read_model_error + ('v \<times> read_model_revision) option"
  rms_create ::
    "read_model_key \<Rightarrow> 'v \<Rightarrow> 's \<Rightarrow> (read_model_error + read_model_revision) \<times> 's"
  rms_update ::
    "read_model_key \<Rightarrow> read_model_revision \<Rightarrow> 'v \<Rightarrow> 's \<Rightarrow>
     (read_model_error + read_model_revision) \<times> 's"
  rms_delete ::
    "read_model_key \<Rightarrow> read_model_revision \<Rightarrow> 's \<Rightarrow> (read_model_error + unit) \<times> 's"

section \<open>The JSON codec\<close>

text \<open>What \<open>serde_json\<close> does with a snapshot: writing it, reading its schema version alone, reading
  all of it.\<close>

record 'v json_snapshots =
  js_to_vec :: "u32 \<times> 'v \<Rightarrow> string + bytes"
  js_schema :: "bytes \<Rightarrow> string + u32"
  js_from_slice :: "bytes \<Rightarrow> string + u32 \<times> 'v"

record 'v read_model_codec =
  rmc_encode :: "'v \<Rightarrow> read_model_error + bytes"
  rmc_decode :: "bytes \<Rightarrow> read_model_error + 'v"

definition json_read_model_encode ::
  "'v json_snapshots \<Rightarrow> u32 \<Rightarrow> 'v \<Rightarrow> read_model_error + bytes" where
  "json_read_model_encode J schema v =
     map_err (\<lambda>_. read_model_error_new RmEncodingFailed ModelEncoding) (js_to_vec J (schema, v))"

definition json_read_model_decode ::
  "'v json_snapshots \<Rightarrow> u32 \<Rightarrow> bytes \<Rightarrow> read_model_error + 'v" where
  "json_read_model_decode J schema bs =
     rbind (map_err (\<lambda>_. read_model_error_new RmInvalidData ModelEnvelope) (js_schema J bs))
       (\<lambda>found.
     if found \<noteq> schema then Inl (read_model_error_new RmIncompatibleSchema ModelSchema)
     else
       map_err (\<lambda>_. read_model_error_new RmInvalidData ModelValue)
         (map_ok snd (js_from_slice J bs)))"

definition json_read_model_codec :: "'v json_snapshots \<Rightarrow> u32 \<Rightarrow> 'v read_model_codec" where
  "json_read_model_codec J schema =
     \<lparr>rmc_encode = json_read_model_encode J schema, rmc_decode = json_read_model_decode J schema\<rparr>"

section \<open>State and processing errors\<close>

record 'm read_model_state =
  rs_format_version :: u32
  rs_value :: 'm
  rs_positions :: "(string, u64) fmap"

definition read_model_state_default :: "'m \<Rightarrow> 'm read_model_state" where
  "read_model_state_default v = \<lparr>rs_format_version = 1, rs_value = v, rs_positions = fmempty\<rparr>"

definition read_model_state_validate :: "'m read_model_state \<Rightarrow> read_model_error + unit" where
  "read_model_state_validate st =
     (if rs_format_version st \<noteq> 1 \<or> fmlookup (rs_positions st) [] \<noteq> None
        \<or> 0 |\<in>| fmran (rs_positions st)
      then Inl (read_model_error_new RmInvalidData ModelCheckpoint)
      else Inr ())"

datatype read_model_event_text =
  SourceVersionZero | UnregisteredDomainEvent | DomainVariantDiffers | SourceOverflow
| HistoryDisagrees | EventCodecFailed event_codec_error | EventKeyInvalid read_model_error
| SourceText string | MalformedIntegration | IntegrationMismatch | EventOwn string

datatype read_model_configuration_text =
  NotConnected | DomainHistoryRequired | ConfigurationContract contract_error
| ConfigurationSource string | ConfigurationOwn string

datatype read_model_processing_error =
  Storage read_model_error
| Configuration read_model_configuration_text
| InvalidEvent read_model_event_text
| SourceGap u64 u64
| Transformation string

definition processing_is_retryable :: "read_model_processing_error \<Rightarrow> bool" where
  "processing_is_retryable e \<longleftrightarrow>
     (case e of Storage err \<Rightarrow> rme_kind err \<in> {RmConflict, RmUnavailable} | _ \<Rightarrow> False)"

section \<open>Reducers and sessions\<close>

record 'm domain_reducer =
  dr_key :: "recorded_event \<Rightarrow> read_model_processing_error + read_model_key"
  dr_apply :: "'m \<Rightarrow> recorded_event \<Rightarrow> read_model_processing_error + 'm"

definition reducer_decode ::
  "'ev event_codec \<Rightarrow> ('ev \<Rightarrow> 'e option) \<Rightarrow> recorded_event \<Rightarrow>
   read_model_processing_error + 'e" where
  "reducer_decode codec variant event =
     rbind (map_err (\<lambda>e. InvalidEvent (EventCodecFailed e)) (ec_decode codec event)) (\<lambda>v.
     ok_or (InvalidEvent DomainVariantDiffers) (variant v))"

definition typed_domain_reducer ::
  "'ev event_codec \<Rightarrow> ('ev \<Rightarrow> 'e option) \<Rightarrow> (recorded_event \<Rightarrow> 'e \<Rightarrow> string) \<Rightarrow>
   ('m \<Rightarrow> 'e \<Rightarrow> read_model_processing_error + 'm) \<Rightarrow> 'm domain_reducer" where
  "typed_domain_reducer codec variant key change =
     \<lparr>dr_key = (\<lambda>event.
        rbind (reducer_decode codec variant event) (\<lambda>e.
        map_err (\<lambda>err. InvalidEvent (EventKeyInvalid err)) (ReadModelKey_new (key event e)))),
      dr_apply = (\<lambda>model event.
        rbind (reducer_decode codec variant event) (\<lambda>e. change model e))\<rparr>"

type_synonym 'm domain_reducers = "(string \<times> string, 'm domain_reducer) fmap"

type_synonym 's event_history = "'s \<Rightarrow> stream_id \<Rightarrow> event_store_error + recorded_event list"

record ('m, 's) read_model_resources =
  rr_store :: "('m read_model_state, 's) read_model_store"
  rr_history :: "'s event_history option"
  rr_domain :: "'m domain_reducers"

record ('m, 's) read_model_session =
  ss_context :: bounded_context
  ss_default :: 'm
  ss_resources :: "('m, 's) read_model_resources option"
  ss_retries :: nat

definition session_resources ::
  "('m, 's) read_model_session \<Rightarrow> read_model_processing_error + ('m, 's) read_model_resources" where
  "session_resources S = ok_or (Configuration NotConnected) (ss_resources S)"

text \<open>
  The loop of \<open>Session::mutate\<close>: read, check the checkpoint, apply the mutation, write the value and
  the new checkpoint back if nobody has written in between, and start again if somebody has.
\<close>

type_synonym ('m, 's) mutation =
  "'m \<Rightarrow> u64 \<Rightarrow> 's world \<Rightarrow> (read_model_processing_error + 'm) \<times> 's world"

fun mutate_loop ::
  "nat \<Rightarrow> ('m read_model_state, 's) read_model_store \<Rightarrow> 'm \<Rightarrow> (nat \<Rightarrow> 's \<Rightarrow> 's) \<Rightarrow> read_model_key \<Rightarrow>
   string \<Rightarrow> u64 \<Rightarrow> ('m, 's) mutation \<Rightarrow> 's world \<Rightarrow>
   (read_model_processing_error + unit) \<times> 's world"
where
  "mutate_loop 0 store def env key source version mutation w =
     (Inl (Storage (read_model_error_new RmConflict ModelContention)), w)"
| "mutate_loop (Suc n) store def env key source version mutation w =
     (let w = interleave env w in
      case rms_read store (w_state w) key of
        Inl e \<Rightarrow> (Inl (Storage e), w)
      | Inr entry \<Rightarrow>
          (let st = (case entry of None \<Rightarrow> read_model_state_default def | Some (st, _) \<Rightarrow> st) in
           case read_model_state_validate st of
             Inl e \<Rightarrow> (Inl (Storage e), w)
           | Inr _ \<Rightarrow>
               (let applied = (case fmlookup (rs_positions st) source of None \<Rightarrow> 0 | Some p \<Rightarrow> p) in
                if version \<le> applied then (Inr (), w)
                else
                  (case mutation (rs_value st) applied w of
                     (Inl e, w) \<Rightarrow> (Inl e, w)
                   | (Inr v, w) \<Rightarrow>
                       (let st = st\<lparr>rs_value := v,
                                    rs_positions := fmupd source version (rs_positions st)\<rparr>;
                            w = interleave env w in
                        case (case entry of
                                Some (_, revision) \<Rightarrow> rms_update store key revision st (w_state w)
                              | None \<Rightarrow> rms_create store key st (w_state w)) of
                          (Inr _, s) \<Rightarrow> (Inr (), w\<lparr>w_state := s\<rparr>)
                        | (Inl e, s) \<Rightarrow>
                            if rme_kind e = RmConflict then
                              mutate_loop n store def env key source version mutation
                                (w\<lparr>w_state := s\<rparr>)
                            else (Inl (Storage e), w\<lparr>w_state := s\<rparr>))))))"

definition session_mutate ::
  "('m, 's) read_model_session \<Rightarrow> (nat \<Rightarrow> 's \<Rightarrow> 's) \<Rightarrow> read_model_key \<Rightarrow> string \<Rightarrow> u64 \<Rightarrow>
   ('m, 's) mutation \<Rightarrow> 's world \<Rightarrow> (read_model_processing_error + unit) \<times> 's world" where
  "session_mutate S env key source version mutation w =
     (if version = 0 then (Inl (InvalidEvent SourceVersionZero), w)
      else
        (case session_resources S of
           Inl e \<Rightarrow> (Inl e, w)
         | Inr resources \<Rightarrow>
             mutate_loop (ss_retries S) (rr_store resources) (ss_default S) env key source version
               mutation w))"

section \<open>Domain events\<close>

abbreviation reducer_of :: "'m domain_reducers \<Rightarrow> recorded_event \<Rightarrow> 'm domain_reducer option" where
  "reducer_of reducers event \<equiv>
     fmlookup reducers (stream_aggregate_type (re_stream_id event), re_event_type event)"

text \<open>The loop over the records of the history that the model has not seen yet.\<close>

fun catch_up ::
  "'m domain_reducers \<Rightarrow> recorded_event \<Rightarrow> read_model_key \<Rightarrow> u64 \<Rightarrow> 'm \<Rightarrow> recorded_event list \<Rightarrow>
   read_model_processing_error + 'm \<times> u64"
where
  "catch_up reducers event key position model [] = Inr (model, position)"
| "catch_up reducers event key position model (r # rs) =
     rbind (ok_or (InvalidEvent SourceOverflow) (checked_add position 1)) (\<lambda>expected.
     if re_stream_version r \<noteq> expected then Inl (SourceGap expected (re_stream_version r))
     else if re_stream_id r \<noteq> re_stream_id event
       \<or> (re_stream_version r = re_stream_version event \<and> r \<noteq> event)
     then Inl (InvalidEvent HistoryDisagrees)
     else
       rbind (case reducer_of reducers r of
                None \<Rightarrow> Inr model
              | Some reducer \<Rightarrow>
                  rbind (dr_key reducer r) (\<lambda>k.
                  if k = key then dr_apply reducer model r else Inr model)) (\<lambda>model.
       catch_up reducers event key expected model rs))"

definition history_error :: "event_store_error \<Rightarrow> read_model_processing_error" where
  "history_error e =
     Storage (read_model_error_new
       (if store_kind e = Unavailable then RmUnavailable else RmInvalidData) (ModelHistory e))"

definition domain_mutation ::
  "('m, 's) read_model_resources \<Rightarrow> 'm domain_reducer \<Rightarrow> recorded_event \<Rightarrow> read_model_key \<Rightarrow>
   (nat \<Rightarrow> 's \<Rightarrow> 's) \<Rightarrow> ('m, 's) mutation" where
  "domain_mutation resources reducer event key env model applied w =
     (let version = re_stream_version event in
      if checked_add applied 1 = Some version then (dr_apply reducer model event, w)
      else
        (case rr_history resources of
           None \<Rightarrow> (Inl (Configuration DomainHistoryRequired), w)
         | Some history \<Rightarrow>
             (let w = interleave env w in
              (rbind (map_err history_error (history (w_state w) (re_stream_id event))) (\<lambda>records.
               rbind (catch_up (rr_domain resources) event key applied model
                        (filter (\<lambda>r. applied < re_stream_version r \<and> re_stream_version r \<le> version)
                           records)) (\<lambda>(model, position).
               if position \<noteq> version then Inl (SourceGap (saturating_add position 1) version)
               else Inr model)), w))))"

definition domain_source ::
  "(string list \<Rightarrow> string + string) \<Rightarrow> bounded_context \<Rightarrow> stream_id \<Rightarrow> string + string" where
  "domain_source text context stream =
     text [''domain'', bx_name context, stream_aggregate_type stream, stream_aggregate_id stream]"

definition session_domain ::
  "(string list \<Rightarrow> string + string) \<Rightarrow> ('m, 's) read_model_session \<Rightarrow> (nat \<Rightarrow> 's \<Rightarrow> 's) \<Rightarrow>
   recorded_event \<Rightarrow> 's world \<Rightarrow> (read_model_processing_error + unit) \<times> 's world" where
  "session_domain text S env event w =
     (case rbind (session_resources S) (\<lambda>resources.
           rbind (ok_or (InvalidEvent UnregisteredDomainEvent)
                    (reducer_of (rr_domain resources) event)) (\<lambda>reducer.
           rbind (dr_key reducer event) (\<lambda>key.
           rbind (map_err (\<lambda>e. InvalidEvent (SourceText e))
                    (domain_source text (ss_context S) (re_stream_id event))) (\<lambda>source.
           Inr (resources, reducer, key, source))))) of
        Inl e \<Rightarrow> (Inl e, w)
      | Inr (resources, reducer, key, source) \<Rightarrow>
          session_mutate S env key source (re_stream_version event)
            (domain_mutation resources reducer event key env) w)"

text \<open>\<open>DomainHandler::handle\<close>: the session as a handler of the dispatcher.\<close>

definition processing_classification ::
  "read_model_processing_error \<Rightarrow> domain_event_handler_error_kind" where
  "processing_classification e =
     (if processing_is_retryable e then HandlerRetryable
      else case e of InvalidEvent _ \<Rightarrow> HandlerInvalidCommittedEvent | _ \<Rightarrow> HandlerOperatorBlocking)"

definition read_model_domain_handler ::
  "(string list \<Rightarrow> string + string) \<Rightarrow> ('m, 's) read_model_session \<Rightarrow> (nat \<Rightarrow> 's \<Rightarrow> 's) \<Rightarrow>
   ('s world, 'e, read_model_processing_error) domain_event_handler" where
  "read_model_domain_handler text S env event w =
     (case session_domain text S env (cde_recorded event) w of
        (Inl e, w) \<Rightarrow> (Inl (handler_error_new (processing_classification e) (HandlerOwn e)), w)
      | (Inr _, w) \<Rightarrow> (Inr (), w))"

text \<open>\<open>ReadModelReader::read\<close>.\<close>

definition reader_read ::
  "('m, 's) read_model_session \<Rightarrow> 's \<Rightarrow> read_model_key \<Rightarrow> read_model_error + 'm option" where
  "reader_read S s key =
     rbind (ok_or (read_model_error_new RmConfigurationMismatch ModelNotConnected) (ss_resources S))
       (\<lambda>resources.
     rbind (rms_read (rr_store resources) s key) (\<lambda>entry.
     case entry of
       None \<Rightarrow> Inr None
     | Some (st, _) \<Rightarrow> rbind (read_model_state_validate st) (\<lambda>_. Inr (Some (rs_value st)))))"

section \<open>Integration events\<close>

datatype 'e integration_ordering =
  BrokerOrder
| ConsecutiveOrder "'e \<Rightarrow> u64"
| LatestOrder "'e \<Rightarrow> u64"

record 'e integration_event_order =
  io_source :: string
  io_ordering :: "'e integration_ordering"

definition order_broker :: "'e integration_event_order" where
  "order_broker = \<lparr>io_source = [], io_ordering = BrokerOrder\<rparr>"

definition order_consecutive :: "string \<Rightarrow> ('e \<Rightarrow> u64) \<Rightarrow> 'e integration_event_order" where
  "order_consecutive source position = \<lparr>io_source = source, io_ordering = ConsecutiveOrder position\<rparr>"

definition order_latest :: "string \<Rightarrow> ('e \<Rightarrow> u64) \<Rightarrow> 'e integration_event_order" where
  "order_latest source position = \<lparr>io_source = source, io_ordering = LatestOrder position\<rparr>"

definition is_broker_ordered :: "'e integration_event_order \<Rightarrow> bool" where
  "is_broker_ordered ord \<longleftrightarrow> (case io_ordering ord of BrokerOrder \<Rightarrow> True | _ \<Rightarrow> False)"

text \<open>The items of an implementation of \<open>IntegrationEvent\<close>, with what \<open>serde\<close> does with its
  envelopes.\<close>

record 'e integration_event_type =
  ie_type :: nat
  ie_event_name :: string
  ie_schema_version :: u32
  ie_bounded_context :: "string option"
  ie_envelope_to_vec :: "'e integration_event_envelope \<Rightarrow> string + bytes"
  ie_envelope_to_value :: "'e integration_event_envelope \<Rightarrow> string + json"
  ie_envelope_from_slice :: "bytes \<Rightarrow> string + 'e integration_event_envelope"

record 'e integration_source =
  is_context :: bounded_context
  is_order :: "'e integration_event_order"

definition integration_source_default ::
  "'e integration_event_type \<Rightarrow> bounded_context \<Rightarrow>
   read_model_processing_error + 'e integration_source" where
  "integration_source_default I context =
     rbind (map_err (\<lambda>e. Configuration (ConfigurationContract e))
              (case ie_bounded_context I of
                 None \<Rightarrow> Inr context
               | Some name \<Rightarrow>
                   bounded_context_in_scope (bx_application context) (bx_traffic_scope context) name))
       (\<lambda>context. Inr \<lparr>is_context = context, is_order = order_broker\<rparr>)"

record ('m, 'e, 's) integration_handler =
  ih_session :: "('m, 's) read_model_session"
  ih_address :: integration_event_address
  ih_source :: string
  ih_order :: "'e integration_event_order"
  ih_key :: "'e \<Rightarrow> string"
  ih_change :: "'m \<Rightarrow> 'e \<Rightarrow> read_model_processing_error + 'm"
  ih_retry_delay :: duration
  ih_invalid :: string
  ih_blocked :: string

definition invalid_integration_reason :: string where
  "invalid_integration_reason = ''invalid read-model integration event''"

definition blocked_integration_reason :: string where
  "blocked_integration_reason =
     ''read model not materialized; repair the cause, then replay or refresh its source''"

definition integration_handler_bind ::
  "(string list \<Rightarrow> string + string) \<Rightarrow> 'e integration_event_type \<Rightarrow> ('m, 's) read_model_session \<Rightarrow>
   'e integration_source \<Rightarrow> ('e \<Rightarrow> string) \<Rightarrow> ('m \<Rightarrow> 'e \<Rightarrow> read_model_processing_error + 'm) \<Rightarrow>
   read_model_processing_error + ('m, 'e, 's) integration_handler" where
  "integration_handler_bind text I S input key change =
     rbind (map_err (\<lambda>e. Configuration (ConfigurationContract e))
              (integration_event_address_of (is_context input) (ie_event_name I))) (\<lambda>address.
     rbind (map_err (\<lambda>e. Configuration (ConfigurationSource e))
              (if is_broker_ordered (is_order input)
               then text [''integration-broker'', bx_application (ss_context S)]
               else text [''integration'', bx_name (is_context input),
                          io_source (is_order input)])) (\<lambda>source.
     rbind (map_err (\<lambda>e. Configuration (ConfigurationContract e)) (retry_delay_new 100000000))
       (\<lambda>delay.
     rbind (map_err (\<lambda>e. Configuration (ConfigurationContract e))
              (quarantine_reason_new invalid_integration_reason)) (\<lambda>invalid.
     rbind (map_err (\<lambda>e. Configuration (ConfigurationContract e))
              (quarantine_reason_new blocked_integration_reason)) (\<lambda>blocked.
     Inr \<lparr>ih_session = S, ih_address = address, ih_source = source, ih_order = is_order input,
          ih_key = key, ih_change = change, ih_retry_delay = delay, ih_invalid = invalid,
          ih_blocked = blocked\<rparr>)))))"

definition integration_mutation ::
  "('m, 'e, 's) integration_handler \<Rightarrow> 'e \<Rightarrow> u64 \<Rightarrow> ('m, 's) mutation" where
  "integration_mutation handler event version model applied w =
     (if (case io_ordering (ih_order handler) of ConsecutiveOrder _ \<Rightarrow> True | _ \<Rightarrow> False)
        \<and> checked_add applied 1 \<noteq> Some version
      then (Inl (SourceGap (saturating_add applied 1) version), w)
      else (ih_change handler model event, w))"

text \<open>\<open>serde_json::from_slice::<IntegrationEventEnvelope<E>>\<close>: the derived code reads the wire, the
  envelope is rebuilt by its checked constructor.\<close>

definition integration_envelope_of ::
  "'e integration_event_type \<Rightarrow> bytes \<Rightarrow> read_model_processing_error + 'e integration_event_envelope"
where
  "integration_envelope_of I payload =
     map_err (\<lambda>_. InvalidEvent MalformedIntegration)
       (rbind (map_err (\<lambda>_. InconsistentActorMetadata) (ie_envelope_from_slice I payload)) (\<lambda>wire.
        integration_envelope_from_wire (ie_envelope_to_vec I) wire))"

definition integration_version ::
  "('m, 'e, 's) integration_handler \<Rightarrow> message_delivery \<Rightarrow> 'e \<Rightarrow> u64" where
  "integration_version handler delivery event =
     (case io_ordering (ih_order handler) of
        BrokerOrder \<Rightarrow> di_source_sequence (dl_info delivery)
      | ConsecutiveOrder position \<Rightarrow> position event
      | LatestOrder position \<Rightarrow> position event)"

definition integration_process ::
  "'e integration_event_type \<Rightarrow> ('m, 'e, 's) integration_handler \<Rightarrow> (nat \<Rightarrow> 's \<Rightarrow> 's) \<Rightarrow>
   message_delivery \<Rightarrow> 's world \<Rightarrow> (read_model_processing_error + unit) \<times> 's world" where
  "integration_process I handler env delivery w =
     (case rbind (integration_envelope_of I (dl_payload delivery)) (\<lambda>envelope.
           if publishable_as_str (dl_address delivery) \<noteq> ih_address handler
             \<or> iv_schema_version envelope \<noteq> ie_schema_version I
             \<or> iv_message_id envelope \<noteq> dl_message_id delivery
           then Inl (InvalidEvent IntegrationMismatch)
           else
             rbind (map_err (\<lambda>e. InvalidEvent (EventKeyInvalid e))
                      (ReadModelKey_new (ih_key handler (iv_payload envelope)))) (\<lambda>key.
             Inr (key, iv_payload envelope,
                  integration_version handler delivery (iv_payload envelope)))) of
        Inl e \<Rightarrow> (Inl e, w)
      | Inr (key, event, version) \<Rightarrow>
          session_mutate (ih_session handler) env key (ih_source handler) version
            (integration_mutation handler event version) w)"

definition integration_handle ::
  "'e integration_event_type \<Rightarrow> ('m, 'e, 's) integration_handler \<Rightarrow> (nat \<Rightarrow> 's \<Rightarrow> 's) \<Rightarrow>
   message_delivery \<Rightarrow> 's world \<Rightarrow> delivery_disposition \<times> 's world" where
  "integration_handle I handler env delivery w =
     (case integration_process I handler env delivery w of
        (Inr _, w) \<Rightarrow> (Acknowledge, w)
      | (Inl e, w) \<Rightarrow>
          (if processing_is_retryable e then RetryLater (ih_retry_delay handler)
           else case e of InvalidEvent _ \<Rightarrow> Quarantine (ih_invalid handler)
                | _ \<Rightarrow> Quarantine (ih_blocked handler), w))"

end
