(* ===== verification/ReadModelContract.thy ===== *)
theory ReadModelContract
  imports ReadModels
begin

text \<open>
  What the read-model runtime relies on and what it guarantees. The locale \<open>cas_store\<close> is the
  contract of a \<open>ReadModelStore\<close>: reads return the stored entry and writes are guarded by the
  revision they replace, where a write that reports an error may have taken effect all the same.
  The locale \<open>read_model_system\<close> adds an event history that only grows. In it the runtime keeps
  every stored model equal to a replay of its inputs in which each input occurs exactly once and in
  order, whatever other sessions do to the same storage meanwhile.
\<close>

section \<open>Replays\<close>

text \<open>
  The inputs of a model: recorded events of its own context, and integration events with the source
  and the version they were checkpointed under. \<open>change\<close> is what the registered handlers do with
  an integration event.
\<close>

type_synonym 'e model_input = "recorded_event + (string \<times> u64 \<times> 'e)"

definition apply_event ::
  "'m domain_reducers \<Rightarrow> 'm \<Rightarrow> recorded_event \<Rightarrow> read_model_processing_error + 'm" where
  "apply_event reducers m r =
     (case reducer_of reducers r of None \<Rightarrow> Inr m | Some reducer \<Rightarrow> dr_apply reducer m r)"

fun replay ::
  "'m domain_reducers \<Rightarrow> ('m \<Rightarrow> 'e \<Rightarrow> read_model_processing_error + 'm) \<Rightarrow> 'm \<Rightarrow> 'e model_input list \<Rightarrow>
   read_model_processing_error + 'm"
where
  "replay reducers change m [] = Inr m"
| "replay reducers change m (Inl r # inputs) =
     rbind (apply_event reducers m r) (\<lambda>m. replay reducers change m inputs)"
| "replay reducers change m (Inr (_, _, e) # inputs) =
     rbind (change m e) (\<lambda>m. replay reducers change m inputs)"

definition relevant :: "'m domain_reducers \<Rightarrow> read_model_key \<Rightarrow> recorded_event \<Rightarrow> bool" where
  "relevant reducers key r \<longleftrightarrow>
     (case reducer_of reducers r of None \<Rightarrow> False | Some reducer \<Rightarrow> dr_key reducer r = Inr key)"

fun stream_inputs :: "stream_id \<Rightarrow> 'e model_input list \<Rightarrow> recorded_event list" where
  "stream_inputs st [] = []"
| "stream_inputs st (Inl r # inputs) =
     (if re_stream_id r = st then r # stream_inputs st inputs else stream_inputs st inputs)"
| "stream_inputs st (Inr _ # inputs) = stream_inputs st inputs"

fun source_versions :: "string \<Rightarrow> 'e model_input list \<Rightarrow> u64 list" where
  "source_versions source [] = []"
| "source_versions source (Inl _ # inputs) = source_versions source inputs"
| "source_versions source (Inr (s, v, _) # inputs) =
     (if s = source then v # source_versions source inputs else source_versions source inputs)"

definition position_of :: "'m read_model_state \<Rightarrow> string \<Rightarrow> nat" where
  "position_of st source =
     (case fmlookup (rs_positions st) source of None \<Rightarrow> 0 | Some p \<Rightarrow> unat p)"

lemma replay_append:
  "replay reducers change m (inputs @ rest) =
     rbind (replay reducers change m inputs) (\<lambda>m. replay reducers change m rest)"
proof (induction inputs arbitrary: m)
  case (Cons i inputs)
  then show ?case
    by (cases i) (auto simp: rbind_def split: sum.splits)
qed (simp add: rbind_def)

lemma stream_inputs_append [simp]:
  "stream_inputs st (inputs @ rest) = stream_inputs st inputs @ stream_inputs st rest"
  by (induction st inputs rule: stream_inputs.induct) auto

lemma source_versions_append [simp]:
  "source_versions source (inputs @ rest) = source_versions source inputs @ source_versions source rest"
  by (induction source inputs rule: source_versions.induct) auto

lemma stream_inputs_events [simp]:
  "stream_inputs st (map Inl rs) = filter (\<lambda>r. re_stream_id r = st) rs"
  by (induction rs) auto

lemma source_versions_events [simp]: "source_versions source (map Inl rs) = []"
  by (induction rs) auto

text \<open>
  A stored model is materialized when it is the replay of inputs which hold, for every stream, the
  relevant events up to its checkpoint in order and, for every other source, versions that increase
  up to its checkpoint, without gaps if the source is consecutive.
\<close>

definition source_complete :: "bool \<Rightarrow> 'm read_model_state \<Rightarrow> string \<Rightarrow> u64 list \<Rightarrow> bool" where
  "source_complete consecutive st source versions \<longleftrightarrow>
     (case fmlookup (rs_positions st) source of
        None \<Rightarrow> versions = []
      | Some p \<Rightarrow> versions \<noteq> [] \<and> last versions = p)
     \<and> sorted_wrt (<) versions
     \<and> (consecutive \<longrightarrow> map unat versions = [1..<Suc (position_of st source)])"

record ('m, 'e) model_setup =
  mo_reducers :: "'m domain_reducers"
  mo_change :: "'m \<Rightarrow> 'e \<Rightarrow> read_model_processing_error + 'm"
  mo_default :: 'm
  mo_text :: "string list \<Rightarrow> string + string"
  mo_context :: bounded_context
  mo_consecutive :: "string set"

abbreviation mo_source :: "('m, 'e) model_setup \<Rightarrow> stream_id \<Rightarrow> string + string" where
  "mo_source M \<equiv> domain_source (mo_text M) (mo_context M)"

abbreviation mo_replay ::
  "('m, 'e) model_setup \<Rightarrow> 'm \<Rightarrow> 'e model_input list \<Rightarrow> read_model_processing_error + 'm" where
  "mo_replay M \<equiv> replay (mo_reducers M) (mo_change M)"

definition materialized ::
  "('m, 'e) model_setup \<Rightarrow> (stream_id \<Rightarrow> recorded_event list) \<Rightarrow> read_model_key \<Rightarrow>
   'm read_model_state \<Rightarrow> bool" where
  "materialized M records key st \<longleftrightarrow>
     (\<exists>inputs.
        mo_replay M (mo_default M) inputs = Inr (rs_value st)
        \<and> (\<forall>stream source. mo_source M stream = Inr source \<longrightarrow>
             position_of st source \<le> length (records stream)
             \<and> stream_inputs stream inputs
                 = filter (relevant (mo_reducers M) key)
                     (take (position_of st source) (records stream)))
        \<and> (\<forall>source. (\<forall>stream. mo_source M stream \<noteq> Inr source) \<longrightarrow>
             source_complete (source \<in> mo_consecutive M) st source (source_versions source inputs)))"

lemma materialized_default:
  "materialized M records key (read_model_state_default (mo_default M))"
  unfolding materialized_def
  by (rule exI [of _ "[]"])
    (simp add: read_model_state_default_def position_of_def source_complete_def)

lemma materialized_grows:
  assumes "materialized M records key st"
    and "\<And>stream. \<exists>rest. records' stream = records stream @ rest"
  shows "materialized M records' key st"
proof -
  have "take n (records' stream) = take n (records stream)" "n \<le> length (records' stream)"
    if "n \<le> length (records stream)" for n stream
  proof -
    obtain rest where "records' stream = records stream @ rest"
      using assms(2) by blast
    then show "take n (records' stream) = take n (records stream)" "n \<le> length (records' stream)"
      using that by auto
  qed
  then show ?thesis
    using assms(1) unfolding materialized_def by metis
qed

text \<open>The sources of a model's streams differ from each other.\<close>

definition sources_distinct :: "('m, 'e) model_setup \<Rightarrow> bool" where
  "sources_distinct M \<longleftrightarrow>
     (\<forall>stream stream' source. mo_source M stream = Inr source \<longrightarrow> mo_source M stream' = Inr source \<longrightarrow>
        stream = stream')"

definition advance :: "string \<Rightarrow> u64 \<Rightarrow> 'm \<Rightarrow> 'm read_model_state \<Rightarrow> 'm read_model_state" where
  "advance source version v st =
     st\<lparr>rs_value := v, rs_positions := fmupd source version (rs_positions st)\<rparr>"

lemma position_advance [simp]:
  "position_of (advance source version v st) s =
     (if s = source then unat version else position_of st s)"
  by (simp add: position_of_def advance_def)

lemma source_complete_other:
  "s \<noteq> source \<Longrightarrow>
   source_complete c (advance source version v st) s versions = source_complete c st s versions"
  by (simp add: source_complete_def) (simp add: advance_def)

text \<open>Advancing a model by the events of one stream.\<close>

lemma materialized_domain:
  assumes mat: "materialized M records key st" and dist: "sources_distinct M"
    and source: "mo_source M stream = Inr source"
    and range: "position_of st source \<le> unat version" "unat version \<le> length (records stream)"
    and streams: "\<forall>r \<in> set (records stream). re_stream_id r = stream"
    and replayed: "mo_replay M (rs_value st)
      (map Inl (filter (relevant (mo_reducers M) key)
        (drop (position_of st source) (take (unat version) (records stream))))) = Inr v"
  shows "materialized M records key (advance source version v st)"
proof -
  obtain inputs where inputs: "mo_replay M (mo_default M) inputs = Inr (rs_value st)"
    "\<And>stream source. mo_source M stream = Inr source \<Longrightarrow>
       position_of st source \<le> length (records stream)
       \<and> stream_inputs stream inputs
           = filter (relevant (mo_reducers M) key)
               (take (position_of st source) (records stream))"
    "\<And>source. (\<forall>stream. mo_source M stream \<noteq> Inr source) \<Longrightarrow>
       source_complete (source \<in> mo_consecutive M) st source (source_versions source inputs)"
    using mat unfolding materialized_def by blast
  let ?p = "position_of st source"
  define new where "new = filter (relevant (mo_reducers M) key)
    (drop ?p (take (unat version) (records stream)))"
  have "set new \<subseteq> set (records stream)"
    by (auto simp: new_def dest: in_set_dropD in_set_takeD)
  then have streams': "\<forall>r \<in> set new. re_stream_id r = stream"
    using streams by blast
  have "take (unat version) (records stream)
      = take ?p (records stream) @ drop ?p (take (unat version) (records stream))"
    using range append_take_drop_id [of ?p "take (unat version) (records stream)"]
    by (simp add: min_absorb1)
  then have extended: "filter (relevant (mo_reducers M) key) (take (unat version) (records stream))
      = stream_inputs stream inputs @ new"
    using inputs(2) [OF source] unfolding new_def by (metis filter_append)
  have only: "filter (\<lambda>r. re_stream_id r = s) new = (if s = stream then new else [])" for s
    using streams' by (auto simp: filter_empty_conv filter_id_conv)
  have "stream_inputs s (inputs @ map Inl new)
      = filter (relevant (mo_reducers M) key)
          (take (position_of (advance source version v st) s') (records s))
      \<and> position_of (advance source version v st) s' \<le> length (records s)"
    if s: "mo_source M s = Inr s'" for s s'
  proof (cases "s = stream")
    case True
    then have "s' = source"
      using s source by simp
    then show ?thesis
      using extended range(2) True only [of stream] by simp
  next
    case False
    then have "s' \<noteq> source"
      using dist s source by (auto simp: sources_distinct_def)
    then show ?thesis
      using inputs(2) [OF s] False only [of s] by simp
  qed
  moreover have "source_complete (s \<in> mo_consecutive M) (advance source version v st) s
      (source_versions s (inputs @ map Inl new))"
    if free: "\<forall>stream. mo_source M stream \<noteq> Inr s" for s
  proof -
    have "s \<noteq> source"
      using free source by blast
    then show ?thesis
      using inputs(3) [OF free] by (simp add: source_complete_other)
  qed
  moreover have "mo_replay M (mo_default M) (inputs @ map Inl new)
      = Inr (rs_value (advance source version v st))"
    using inputs(1) replayed by (simp add: replay_append rbind_def advance_def new_def)
  ultimately show ?thesis
    unfolding materialized_def by blast
qed

lemma sorted_le_last: "sorted (xs :: 'a::linorder list) \<Longrightarrow> x \<in> set xs \<Longrightarrow> x \<le> last xs"
  by (induction xs) auto

text \<open>Advancing a model by one integration event.\<close>

lemma materialized_integration:
  assumes mat: "materialized M records key st"
    and source: "\<forall>stream. mo_source M stream \<noteq> Inr source"
    and newer: "position_of st source < unat version"
    and following: "source \<in> mo_consecutive M \<Longrightarrow> unat version = Suc (position_of st source)"
    and changed: "mo_change M (rs_value st) e = Inr v"
  shows "materialized M records key (advance source version v st)"
proof -
  obtain inputs where inputs: "mo_replay M (mo_default M) inputs = Inr (rs_value st)"
    "\<And>stream source. mo_source M stream = Inr source \<Longrightarrow>
       position_of st source \<le> length (records stream)
       \<and> stream_inputs stream inputs
           = filter (relevant (mo_reducers M) key)
               (take (position_of st source) (records stream))"
    "\<And>source. (\<forall>stream. mo_source M stream \<noteq> Inr source) \<Longrightarrow>
       source_complete (source \<in> mo_consecutive M) st source (source_versions source inputs)"
    using mat unfolding materialized_def by blast
  let ?vs = "source_versions source inputs"
  have complete: "source_complete (source \<in> mo_consecutive M) st source ?vs"
    using inputs(3) source by blast
  have "\<forall>x \<in> set ?vs. x < version"
  proof
    fix x assume x: "x \<in> set ?vs"
    then obtain p where p: "fmlookup (rs_positions st) source = Some p" "?vs \<noteq> []" "last ?vs = p"
      using complete by (auto simp: source_complete_def split: option.splits)
    have "x \<le> last ?vs"
      using complete x by (intro sorted_le_last) (auto simp: source_complete_def strict_sorted_iff)
    then show "x < version"
      using newer p by (auto simp: position_of_def word_less_nat_alt word_le_nat_alt)
  qed
  then have "source_complete (source \<in> mo_consecutive M) (advance source version v st) source
      (?vs @ [version])"
    using complete following by (auto simp: source_complete_def sorted_wrt_append advance_def position_of_def)
  then have "source_complete (s \<in> mo_consecutive M) (advance source version v st) s
      (source_versions s (inputs @ [Inr (source, version, e)]))"
    if "\<forall>stream. mo_source M stream \<noteq> Inr s" for s
    using inputs(3) [OF that] source_complete_other by (cases "s = source") fastforce+
  moreover have "stream_inputs s (inputs @ [Inr (source, version, e)]) = stream_inputs s inputs" for s
    by simp
  moreover have "position_of (advance source version v st) s' = position_of st s'"
    if "mo_source M s = Inr s'" for s s'
    using that source by auto
  moreover have "mo_replay M (mo_default M) (inputs @ [Inr (source, version, e)])
      = Inr (rs_value (advance source version v st))"
    using inputs(1) changed by (simp add: replay_append rbind_def advance_def)
  ultimately show ?thesis
    unfolding materialized_def using inputs(2)
    by (intro exI [of _ "inputs @ [Inr (source, version, e)]"]) auto
qed

section \<open>Catching up\<close>

lemma catch_up_applies:
  assumes "catch_up reducers event key position model rs = Inr (model', position')"
  shows "unat position' = unat position + length rs
    \<and> replay reducers change model (map Inl (filter (relevant reducers key) rs)) = Inr model'"
  using assms
proof (induction reducers event key position model rs arbitrary: model' position' rule: catch_up.induct)
  case (2 reducers event key position model r rs)
  obtain expected where expected: "checked_add position 1 = Some expected"
    using 2(2) by (auto simp: result_simps split: option.splits)
  then have next_version: "unat expected = Suc (unat position)"
    using checked_add_Some_unat [of position 1 expected] by simp
  obtain model1 where model1: "(case reducer_of reducers r of
        None \<Rightarrow> Inr model
      | Some reducer \<Rightarrow> rbind (dr_key reducer r) (\<lambda>k.
          if k = key then dr_apply reducer model r else Inr model)) = Inr model1"
    and rest: "catch_up reducers event key expected model1 rs = Inr (model', position')"
    and fits: "re_stream_version r = expected" "\<not> (re_stream_id r \<noteq> re_stream_id event
      \<or> (re_stream_version r = re_stream_version event \<and> r \<noteq> event))"
    using 2(2) expected by (auto simp: result_simps split: if_splits)
  have IH: "unat position' = unat expected + length rs"
    "replay reducers change model1 (map Inl (filter (relevant reducers key) rs)) = Inr model'"
    using 2(1) [OF _ _ rest] fits by auto
  have "replay reducers change model (map Inl (filter (relevant reducers key) (r # rs))) = Inr model'"
    using model1 IH(2)
    by (auto simp: relevant_def apply_event_def result_simps split: option.splits if_splits)
  then show ?case
    using IH(1) next_version by simp
qed simp

lemma version_filter:
  assumes versions: "\<And>i. i < length rs \<Longrightarrow> unat (re_stream_version (rs ! i)) = Suc i"
  shows "filter (\<lambda>r. applied < re_stream_version r \<and> re_stream_version r \<le> version) rs
    = drop (unat applied) (take (unat version) rs)"
  using assms
proof (induction rs rule: rev_induct)
  case (snoc r rs)
  have "unat (re_stream_version (rs ! i)) = Suc i" if "i < length rs" for i
    using snoc.prems [of i] that by (simp add: nth_append)
  note IH = snoc.IH [OF this]
  have r: "unat (re_stream_version r) = Suc (length rs)"
    using snoc.prems [of "length rs"] by simp
  have keep: "applied < re_stream_version r \<longleftrightarrow> unat applied \<le> length rs"
    "re_stream_version r \<le> version \<longleftrightarrow> Suc (length rs) \<le> unat version"
    using r by (auto simp: word_less_nat_alt word_le_nat_alt)
  show ?case
    by (cases "Suc (length rs) \<le> unat version") (auto simp: IH keep)
qed simp

section \<open>The contract of the store\<close>

locale cas_store =
  fixes store :: "('v, 's) read_model_store"
    and look :: "'s \<Rightarrow> read_model_key \<Rightarrow> ('v \<times> read_model_revision) option"
    and current :: "'s \<Rightarrow> read_model_key \<Rightarrow> read_model_revision \<Rightarrow> bool"
    and later :: "'s \<Rightarrow> 's \<Rightarrow> bool"
  assumes read_look: "rms_read store s key = Inr entry \<Longrightarrow> entry = look s key"
    and create_ok:
      "rms_create store key v s = (Inr r, s') \<Longrightarrow>
         look s key = None \<and> look s' = (look s)(key \<mapsto> (v, r))"
    and create_error:
      "rms_create store key v s = (Inl e, s') \<Longrightarrow>
         look s' = look s \<or> (look s key = None \<and> (\<exists>r. look s' = (look s)(key \<mapsto> (v, r))))"
    and update_ok:
      "rms_update store key r v s = (Inr r', s') \<Longrightarrow>
         current s key r \<and> look s' = (look s)(key \<mapsto> (v, r'))"
    and update_error:
      "rms_update store key r v s = (Inl e, s') \<Longrightarrow>
         look s' = look s \<or> (current s key r \<and> (\<exists>r'. look s' = (look s)(key \<mapsto> (v, r'))))"
    and later_refl: "later s s"
    and later_trans: "later s t \<Longrightarrow> later t u \<Longrightarrow> later s u"
    and create_later: "rms_create store key v s = (res, s') \<Longrightarrow> later s s'"
    and update_later: "rms_update store key r v s = (res, s') \<Longrightarrow> later s s'"
    and revision_identifies:
      "later s s' \<Longrightarrow> look s key = Some (v, r) \<Longrightarrow> current s' key r \<Longrightarrow>
         look s' key = Some (v, r)"
begin

text \<open>
  A write on the strength of an entry read earlier replaces exactly that entry, if it takes effect.
\<close>

lemma guarded_write:
  assumes "later s0 s" and "entry = look s0 key"
    and "(case entry of Some (_, revision) \<Rightarrow> rms_update store key revision v s
          | None \<Rightarrow> rms_create store key v s) = (res, s')"
  shows "later s s' \<and>
    (look s' = look s \<and> (\<exists>e. res = Inl e)
     \<or> (look s key = entry \<and> (\<exists>r. look s' = (look s)(key \<mapsto> (v, r)))))"
proof (cases entry)
  case None
  then have "rms_create store key v s = (res, s')"
    using assms(3) by simp
  then show ?thesis
    using create_ok [of key v s _ s'] create_error [of key v s _ s'] create_later [of key v s res s']
      None
    by (cases res) auto
next
  case (Some en)
  obtain v0 r where en: "en = (v0, r)"
    by (cases en)
  have written: "rms_update store key r v s = (res, s')"
    using assms(3) Some en by simp
  have "look s key = entry" if "current s key r"
    using revision_identifies [OF assms(1), of key v0 r] that assms(2) Some en by simp
  then show ?thesis
    using written update_ok [of key r v s _ s'] update_error [of key r v s _ s']
      update_later [of key r v s res s']
    by (cases res) auto
qed

end

section \<open>The contract of the system\<close>

text \<open>An event history: the records of a stream are numbered from one and only ever grow.\<close>

locale growing_history =
  fixes later :: "'s \<Rightarrow> 's \<Rightarrow> bool"
    and history :: "'s event_history"
    and records :: "'s \<Rightarrow> stream_id \<Rightarrow> recorded_event list"
    and sound :: "'s \<Rightarrow> bool"
  assumes history_records: "history s stream = Inr rs \<Longrightarrow> rs = records s stream"
    and records_versions:
      "sound s \<Longrightarrow> i < length (records s stream) \<Longrightarrow>
         unat (re_stream_version (records s stream ! i)) = Suc i"
    and records_stream: "sound s \<Longrightarrow> e \<in> set (records s stream) \<Longrightarrow> re_stream_id e = stream"
    and records_grow: "sound s \<Longrightarrow> later s s' \<Longrightarrow> \<exists>rest. records s' stream = records s stream @ rest"
    and sound_later: "sound s \<Longrightarrow> later s s' \<Longrightarrow> sound s'"

locale read_model_system =
  cas_store store look current later + growing_history later history records sound
  for store :: "('m read_model_state, 's) read_model_store"
    and look :: "'s \<Rightarrow> read_model_key \<Rightarrow> ('m read_model_state \<times> read_model_revision) option"
    and current :: "'s \<Rightarrow> read_model_key \<Rightarrow> read_model_revision \<Rightarrow> bool"
    and later :: "'s \<Rightarrow> 's \<Rightarrow> bool"
    and history :: "'s event_history"
    and records :: "'s \<Rightarrow> stream_id \<Rightarrow> recorded_event list"
    and sound :: "'s \<Rightarrow> bool" +
  assumes writes_keep_records:
    "rms_create store key st s = (res, s') \<Longrightarrow> records s' = records s"
    "rms_update store key r st s = (res', s') \<Longrightarrow> records s' = records s"

text \<open>
  What holds of a system state, and how states follow one another: nothing is forgotten and no
  checkpoint moves back.
\<close>

definition models_ok ::
  "('m, 'e) model_setup \<Rightarrow>
   ('s \<Rightarrow> read_model_key \<Rightarrow> ('m read_model_state \<times> read_model_revision) option) \<Rightarrow>
   ('s \<Rightarrow> stream_id \<Rightarrow> recorded_event list) \<Rightarrow> 's \<Rightarrow> bool" where
  "models_ok M look records s \<longleftrightarrow>
     (\<forall>key st r. look s key = Some (st, r) \<longrightarrow> materialized M (records s) key st)"

definition checkpoints_advance ::
  "('s \<Rightarrow> read_model_key \<Rightarrow> ('m read_model_state \<times> read_model_revision) option) \<Rightarrow> 's \<Rightarrow> 's \<Rightarrow> bool" where
  "checkpoints_advance look s s' \<longleftrightarrow>
     (\<forall>key st r. look s key = Some (st, r) \<longrightarrow>
        (\<exists>st' r'. look s' key = Some (st', r')
           \<and> (\<forall>source. position_of st source \<le> position_of st' source)))"

lemma checkpoints_advance_refl: "checkpoints_advance look s s"
  by (auto simp: checkpoints_advance_def)

lemma checkpoints_advance_trans:
  "checkpoints_advance look s t \<Longrightarrow> checkpoints_advance look t u \<Longrightarrow> checkpoints_advance look s u"
  unfolding checkpoints_advance_def by (meson order_trans)

definition models_move ::
  "('m, 'e) model_setup \<Rightarrow>
   ('s \<Rightarrow> read_model_key \<Rightarrow> ('m read_model_state \<times> read_model_revision) option) \<Rightarrow>
   ('s \<Rightarrow> 's \<Rightarrow> bool) \<Rightarrow> ('s \<Rightarrow> stream_id \<Rightarrow> recorded_event list) \<Rightarrow> 's \<Rightarrow> 's \<Rightarrow> bool" where
  "models_move M look later records s s' \<longleftrightarrow>
     later s s' \<and> models_ok M look records s' \<and> checkpoints_advance look s s'"

text \<open>Other sessions of the same model, and everything else that shares the storage with them.\<close>

definition cooperative_models ::
  "('m, 'e) model_setup \<Rightarrow>
   ('s \<Rightarrow> read_model_key \<Rightarrow> ('m read_model_state \<times> read_model_revision) option) \<Rightarrow>
   ('s \<Rightarrow> 's \<Rightarrow> bool) \<Rightarrow> ('s \<Rightarrow> stream_id \<Rightarrow> recorded_event list) \<Rightarrow> ('s \<Rightarrow> bool) \<Rightarrow>
   (nat \<Rightarrow> 's \<Rightarrow> 's) \<Rightarrow> bool" where
  "cooperative_models M look later records sound env \<longleftrightarrow>
     (\<forall>n s. sound s \<longrightarrow> models_ok M look records s \<longrightarrow> models_move M look later records s (env n s))"

text \<open>A session of the model \<open>M\<close> that is connected to a store and a history.\<close>

definition connected_session ::
  "('m, 'e) model_setup \<Rightarrow> ('m read_model_state, 's) read_model_store \<Rightarrow> 's event_history \<Rightarrow>
   ('m, 's) read_model_session \<Rightarrow> bool" where
  "connected_session M store history S \<longleftrightarrow>
     ss_context S = mo_context M \<and> ss_default S = mo_default M
     \<and> ss_resources S = Some \<lparr>rr_store = store, rr_history = Some history,
                             rr_domain = mo_reducers M\<rparr>"

definition checkpointed ::
  "('s \<Rightarrow> read_model_key \<Rightarrow> ('m read_model_state \<times> read_model_revision) option) \<Rightarrow> 's \<Rightarrow>
   read_model_key \<Rightarrow> string \<Rightarrow> u64 \<Rightarrow> bool" where
  "checkpointed look s key source version \<longleftrightarrow>
     (case look s key of None \<Rightarrow> False | Some (st, _) \<Rightarrow> unat version \<le> position_of st source)"

context read_model_system
begin

abbreviation fine :: "('m, 'e) model_setup \<Rightarrow> 's \<Rightarrow> bool" where
  "fine M s \<equiv> sound s \<and> models_ok M look records s"

abbreviation moves :: "('m, 'e) model_setup \<Rightarrow> 's \<Rightarrow> 's \<Rightarrow> bool" where
  "moves M \<equiv> models_move M look later records"

abbreviation cooperative_env :: "('m, 'e) model_setup \<Rightarrow> (nat \<Rightarrow> 's \<Rightarrow> 's) \<Rightarrow> bool" where
  "cooperative_env M \<equiv> cooperative_models M look later records sound"

lemma moves_refl: "models_ok M look records s \<Longrightarrow> moves M s s"
  by (simp add: models_move_def later_refl checkpoints_advance_refl)

lemma moves_trans: "moves M s t \<Longrightarrow> moves M t u \<Longrightarrow> moves M s u"
  using later_trans [of s t u] checkpoints_advance_trans [of look s t u]
  unfolding models_move_def by simp

lemma moves_fine: "sound s \<Longrightarrow> moves M s s' \<Longrightarrow> fine M s'"
  by (meson models_move_def sound_later)

lemma interleave_moves:
  "cooperative_env M env \<Longrightarrow> fine M (w_state w) \<Longrightarrow> moves M (w_state w) (w_state (interleave env w))"
  by (simp add: cooperative_models_def interleave_def)

lemma materialized_later:
  assumes "sound s" and "later s s'" and "materialized M (records s) key st"
  shows "materialized M (records s') key st"
  using materialized_grows [OF assms(3)] records_grow [OF assms(1,2)] by blast

text \<open>What the loop needs of a mutation: it may wait for others, and its result is materialized.\<close>

definition mutation_ok ::
  "('m, 'e) model_setup \<Rightarrow> 's \<Rightarrow> read_model_key \<Rightarrow> string \<Rightarrow> u64 \<Rightarrow> ('m, 's) mutation \<Rightarrow> bool" where
  "mutation_ok M s0 key source version mutation \<longleftrightarrow>
     (\<forall>st applied w res w'. later s0 (w_state w) \<longrightarrow> fine M (w_state w) \<longrightarrow>
        materialized M (records (w_state w)) key st \<longrightarrow> unat applied = position_of st source \<longrightarrow>
        applied < version \<longrightarrow> mutation (rs_value st) applied w = (res, w') \<longrightarrow>
        moves M (w_state w) (w_state w')
        \<and> (\<forall>v. res = Inr v \<longrightarrow>
             materialized M (records (w_state w')) key (advance source version v st)))"

text \<open>Replacing the entry a session read, or leaving the storage as it is, is a good move.\<close>

lemma write_moves:
  assumes "fine M s" and "later s s'" and "records s' = records s"
    and "materialized M (records s) key (advance source version v st)"
    and "look s' = look s
      \<or> (look s key = entry \<and> (\<exists>r. look s' = (look s)(key \<mapsto> (advance source version v st, r))))"
    and "\<And>st' r. entry = Some (st', r) \<Longrightarrow> st' = st" and "position_of st source \<le> unat version"
  shows "moves M s s'"
proof -
  have "models_ok M look records s'"
    unfolding models_ok_def
  proof (intro allI impI)
    fix k st0 r0 assume k: "look s' k = Some (st0, r0)"
    show "materialized M (records s') k st0"
    proof (cases "look s' k = look s k")
      case True
      then show ?thesis using assms(1,3) k by (metis models_ok_def)
    next
      case False
      then have "k = key" "st0 = advance source version v st"
        using assms(5) k by (auto split: if_splits)
      then show ?thesis using assms(3,4) by simp
    qed
  qed
  moreover have "checkpoints_advance look s s'"
    unfolding checkpoints_advance_def
  proof (intro allI impI)
    fix k st0 r0 assume k: "look s k = Some (st0, r0)"
    show "\<exists>st' r'. look s' k = Some (st', r') \<and> (\<forall>source. position_of st0 source \<le> position_of st' source)"
    proof (cases "look s' = look s \<or> k \<noteq> key")
      case True
      then show ?thesis using assms(5) k by auto
    next
      case False
      then obtain r where r: "look s key = entry" "look s' = (look s)(key \<mapsto> (advance source version v st, r))"
        using assms(5) by blast
      then have "st0 = st"
        using assms(6) k False by auto
      then show ?thesis
        using r False assms(7) by auto
    qed
  qed
  ultimately show ?thesis
    using assms(2) by (simp add: models_move_def)
qed

text \<open>Writing back what was computed from an entry read earlier.\<close>

lemma write_back:
  fixes w :: "'s world"
  assumes env: "cooperative_env M env" and fine: "fine M (w_state w)"
    and read: "entry = look s key" "later s (w_state w)" "\<And>st' r. entry = Some (st', r) \<Longrightarrow> st' = st"
    and mat: "materialized M (records (w_state w)) key (advance source version v st)"
    and newer: "position_of st source \<le> unat version"
    and stored: "(case entry of
        Some (_, revision) \<Rightarrow>
          rms_update store key revision (advance source version v st) (w_state (interleave env w))
      | None \<Rightarrow> rms_create store key (advance source version v st) (w_state (interleave env w)))
      = (res, s')"
  shows "moves M (w_state w) s'
    \<and> ((\<exists>r. res = Inr r) \<longrightarrow> (\<exists>r. look s' key = Some (advance source version v st, r)))"
proof -
  let ?w = "interleave env w"
  have m: "moves M (w_state w) (w_state ?w)"
    using interleave_moves [OF env fine] .
  then have "later s (w_state ?w)" "fine M (w_state ?w)"
    using later_trans [OF read(2)] moves_fine [OF _ m] fine by (simp_all add: models_move_def)
  moreover have "materialized M (records (w_state ?w)) key (advance source version v st)"
    using materialized_later [OF _ _ mat] fine m by (simp add: models_move_def)
  moreover note effect = guarded_write [OF calculation(1) read(1) stored]
  moreover have "records s' = records (w_state ?w)"
    using stored writes_keep_records by (cases entry) auto
  ultimately have "moves M (w_state ?w) s'"
    using write_moves [where M = M and s = "w_state ?w" and s' = s' and entry = entry] read(3) newer by blast
  then show ?thesis
    using moves_trans [OF m] effect by auto
qed

lemma mutate_loop_moves:
  assumes env: "cooperative_env M env" and mutation: "mutation_ok M s0 key source version mutation"
    and later: "later s0 (w_state w)" and fine: "fine M (w_state w)" and version: "version \<noteq> 0"
    and run: "mutate_loop n store (mo_default M) env key source version mutation w = (res, w')"
  shows "moves M (w_state w) (w_state w')
    \<and> (res = Inr () \<longrightarrow>
        (\<exists>st r. look (w_state w') key = Some (st, r) \<and> unat version \<le> position_of st source))"
  using later fine run
proof (induction n arbitrary: w)
  case 0
  then show ?case by (auto simp: moves_refl)
next
  case (Suc n)
  define w1 where "w1 = interleave env w"
  have m1: "moves M (w_state w) (w_state w1)"
    using interleave_moves [OF env Suc.prems(2)] by (simp add: w1_def)
  then have f1: "fine M (w_state w1)"
    using moves_fine Suc.prems(2) by blast
  have l1: "later s0 (w_state w1)"
    using Suc.prems(1) m1 later_trans unfolding models_move_def by blast
  show ?case
  proof (cases "rms_read store (w_state w1) key")
    case (Inl e)
    then show ?thesis using Suc.prems(3) m1 by (auto simp: Let_def simp flip: w1_def)
  next
    case (Inr entry)
    have entry: "entry = look (w_state w1) key"
      using read_look [OF Inr] .
    define st where
      "st = (case entry of None \<Rightarrow> read_model_state_default (mo_default M) | Some (st, _) \<Rightarrow> st)"
    define applied where
      "applied = (case fmlookup (rs_positions st) source of None \<Rightarrow> 0 | Some p \<Rightarrow> p)"
    have mat: "materialized M (records (w_state w1)) key st"
      using f1 entry materialized_default by (auto simp: st_def models_ok_def split: option.splits)
    have pos: "unat applied = position_of st source"
      by (simp add: applied_def position_of_def split: option.splits)
    note run = Suc.prems(3) [unfolded mutate_loop.simps Let_def, folded w1_def,
        unfolded Inr sum.case, folded st_def, folded applied_def]
    show ?thesis
    proof (cases "read_model_state_validate st")
      case (Inl e)
      then show ?thesis using run m1 by auto
    next
      case (Inr u)
      show ?thesis
      proof (cases "version \<le> applied")
        case True
        have "applied = 0" if "entry = None"
          using that by (simp add: applied_def st_def read_model_state_default_def)
        then obtain st1 r1 where "entry = Some (st1, r1)"
          using version True by (cases entry) auto
        then show ?thesis
          using run Inr True m1 entry pos
          by (auto simp: st_def word_le_nat_alt)
      next
        case False
        obtain r2 w2 where mu: "mutation (rs_value st) applied w1 = (r2, w2)"
          by (cases "mutation (rs_value st) applied w1")
        have m2: "moves M (w_state w1) (w_state w2)"
          and mat2: "\<And>v. r2 = Inr v \<Longrightarrow>
            materialized M (records (w_state w2)) key (advance source version v st)"
          using mutation [unfolded mutation_ok_def, rule_format, OF l1 f1 mat pos _ mu] False by auto
        show ?thesis
        proof (cases r2)
          case (Inl e)
          then show ?thesis
            using run Inr False mu moves_trans [OF m1 m2] by auto
        next
          fix v assume v: "r2 = Inr v"
          define st' where "st' = advance source version v st"
          define w3 where "w3 = interleave env w2"
          have f2: "fine M (w_state w2)" and l2: "later (w_state w1) (w_state w2)"
            using moves_fine f1 m2 by (blast, simp add: models_move_def)
          obtain r4 s4 where wr: "(case entry of
                Some (_, revision) \<Rightarrow> rms_update store key revision st' (w_state w3)
              | None \<Rightarrow> rms_create store key st' (w_state w3)) = (r4, s4)"
            by (cases "case entry of
                Some (_, revision) \<Rightarrow> rms_update store key revision st' (w_state w3)
              | None \<Rightarrow> rms_create store key st' (w_state w3)")
          have m4: "moves M (w_state w2) s4"
            and stored: "\<And>r. r4 = Inr r \<Longrightarrow> \<exists>r. look s4 key = Some (st', r)"
            using write_back [OF env f2 entry l2 _ mat2 [OF v] _ wr [unfolded st'_def w3_def]] False pos
            by (auto simp: st'_def st_def word_less_nat_alt not_le)
          have run: "(case (r4, s4) of (Inr _, s) \<Rightarrow> (Inr (), w3\<lparr>w_state := s\<rparr>)
              | (Inl e, s) \<Rightarrow>
                  if rme_kind e = RmConflict then
                    mutate_loop n store (mo_default M) env key source version mutation (w3\<lparr>w_state := s\<rparr>)
                  else (Inl (Storage e), w3\<lparr>w_state := s\<rparr>)) = (res, w')"
            using run [unfolded Inr sum.case, simplified False if_False mu v prod.case sum.case,
              folded advance_def w3_def, folded st'_def] wr by simp
          have m14: "moves M (w_state w) (w_state (w3\<lparr>w_state := s4\<rparr>))"
            using moves_trans [OF moves_trans [OF m1 m2] m4] by simp
          show ?thesis
          proof (cases r4)
            case (Inl e)
            have "later s0 s4" "fine M s4"
              using l1 l2 m4 f2 moves_fine [OF _ m4] later_trans by (auto simp: models_move_def)
            then show ?thesis
              using run Inl m14 Suc.IH [of "w3\<lparr>w_state := s4\<rparr>"] moves_trans [OF m14]
              by (auto split: if_splits)
          next
            case (Inr r)
            then show ?thesis
              using run m14 stored by (auto simp: st'_def)
          qed
        qed
      qed
    qed
  qed
qed

text \<open>The mutation of a recorded event is one, whether it applies the event alone or catches up.\<close>

lemma domain_mutation_ok:
  assumes env: "cooperative_env M env" and dist: "sources_distinct M"
    and sound: "sound s0"
    and resources: "rr_history resources = Some history" "rr_domain resources = mo_reducers M"
    and reducer: "reducer_of (mo_reducers M) event = Some reducer" "dr_key reducer event = Inr key"
    and source: "mo_source M (re_stream_id event) = Inr source"
    and genuine: "event \<in> set (records s0 (re_stream_id event))"
  shows "mutation_ok M s0 key source (re_stream_version event)
    (domain_mutation resources reducer event key env)"
  unfolding mutation_ok_def
proof (intro allI impI, goal_cases)
  case (1 st applied w res w')
  let ?stream = "re_stream_id event" and ?version = "re_stream_version event"
  obtain i where i: "i < length (records s0 ?stream)" "records s0 ?stream ! i = event"
    using genuine by (auto simp: in_set_conv_nth)
  then have v: "unat ?version = Suc i"
    using records_versions [OF sound i(1)] by simp
  have here: "unat ?version \<le> length (records s ?stream)" "records s ?stream ! i = event"
    "\<forall>r \<in> set (records s ?stream). re_stream_id r = ?stream" if s: "later s0 s" for s
  proof -
    obtain rest where "records s ?stream = records s0 ?stream @ rest"
      using records_grow [OF sound s] by blast
    then show "unat ?version \<le> length (records s ?stream)" "records s ?stream ! i = event"
      using i v by (auto simp: nth_append)
    show "\<forall>r \<in> set (records s ?stream). re_stream_id r = ?stream"
      using records_stream sound_later [OF sound s] by blast
  qed
  have step: "materialized M (records s) key (advance source ?version v st)"
    if s: "later s0 s" and mat: "materialized M (records s) key st"
      and replayed: "mo_replay M (rs_value st)
        (map Inl (filter (relevant (mo_reducers M) key)
          (drop (unat applied) (take (unat ?version) (records s ?stream))))) = Inr v" for s v
    using materialized_domain [OF mat dist source _ here(1,3) [OF s]] replayed 1(4,5)
    by (simp add: word_less_nat_alt)
  show ?case
  proof (cases "checked_add applied 1 = Some ?version")
    case True
    then have "unat applied = i"
      using checked_add_Some_unat [OF True] v by simp
    then have "drop (unat applied) (take (unat ?version) (records (w_state w) ?stream)) = [event]"
      using here(1,2) [OF 1(1)] v by (simp add: take_Suc_conv_app_nth)
    moreover have "relevant (mo_reducers M) key event"
      using reducer by (simp add: relevant_def)
    ultimately have "materialized M (records (w_state w)) key (advance source ?version v st)"
      if "dr_apply reducer (rs_value st) event = Inr v" for v
      using step [OF 1(1,3)] that reducer(1) by (simp add: apply_event_def rbind_def)
    then show ?thesis
      using 1(2,6) True moves_refl by (auto simp: domain_mutation_def Let_def)
  next
    case False
    let ?w = "interleave env w"
    let ?records = "records (w_state ?w) ?stream"
    have m: "moves M (w_state w) (w_state ?w)"
      using interleave_moves [OF env 1(2)] .
    have l: "later s0 (w_state ?w)" and f: "sound (w_state ?w)"
      using 1(1) m later_trans sound_later [OF sound] by (auto simp: models_move_def)
    have mat: "materialized M (records (w_state ?w)) key st"
      using materialized_later [OF _ _ 1(3)] 1(2) m by (simp add: models_move_def)
    have w': "w' = ?w"
      using 1(6) False resources(1) by (simp add: domain_mutation_def Let_def)
    have "materialized M (records (w_state ?w)) key (advance source ?version v st)" if v: "res = Inr v" for v
    proof -
      have "history (w_state ?w) ?stream = Inr rs \<Longrightarrow> rs = ?records" for rs
        using history_records by blast
      then obtain position where up: "catch_up (mo_reducers M) event key applied (rs_value st)
          (filter (\<lambda>r. applied < re_stream_version r \<and> re_stream_version r \<le> ?version) ?records)
          = Inr (v, position)"
        using 1(6) False resources v
        by (auto simp: domain_mutation_def Let_def result_simps split: if_splits)
      moreover have "filter (\<lambda>r. applied < re_stream_version r \<and> re_stream_version r \<le> ?version) ?records
          = drop (unat applied) (take (unat ?version) ?records)"
        using version_filter records_versions [OF f] by blast
      ultimately show ?thesis
        using step [OF l mat] catch_up_applies [of "mo_reducers M" event key applied "rs_value st" _ v
            position "mo_change M"] by simp
    qed
    then show ?thesis
      using m w' by simp
  qed
qed

text \<open>So is the mutation of an integration event.\<close>

lemma integration_mutation_ok:
  assumes source: "\<forall>stream. mo_source M stream \<noteq> Inr source"
    and consecutive: "source \<in> mo_consecutive M \<Longrightarrow>
      (case io_ordering (ih_order handler) of ConsecutiveOrder _ \<Rightarrow> True | _ \<Rightarrow> False)"
    and change: "ih_change handler = mo_change M"
  shows "mutation_ok M s0 key source version (integration_mutation handler event version)"
  unfolding mutation_ok_def
proof (intro allI impI, goal_cases)
  case (1 st applied w res w')
  have "w' = w"
    using 1(6) by (auto simp: integration_mutation_def split: if_splits)
  moreover have "materialized M (records (w_state w)) key (advance source version v st)"
    if v: "res = Inr v" for v
  proof (rule materialized_integration [OF 1(3) source])
    show "position_of st source < unat version"
      using 1(4,5) by (simp add: word_less_nat_alt)
    show "mo_change M (rs_value st) event = Inr v"
      using 1(6) v change by (auto simp: integration_mutation_def split: if_splits)
    assume "source \<in> mo_consecutive M"
    then have "checked_add applied 1 = Some version"
      using 1(6) v consecutive by (auto simp: integration_mutation_def split: if_splits)
    then show "unat version = Suc (position_of st source)"
      using checked_add_Some_unat [of applied 1 version] 1(4) by simp
  qed
  ultimately show ?case
    using 1(2) moves_refl by blast
qed

lemma session_mutate_moves:
  assumes "cooperative_env M env" and "mutation_ok M (w_state w) key source version mutation"
    and "fine M (w_state w)" and "connected_session M store history S"
    and "session_mutate S env key source version mutation w = (res, w')"
  shows "moves M (w_state w) (w_state w')
    \<and> (res = Inr () \<longrightarrow> checkpointed look (w_state w') key source version)"
proof (cases "version = 0")
  case True
  then show ?thesis
    using assms(3,5) moves_refl by (auto simp: session_mutate_def)
next
  case False
  then have "mutate_loop (ss_retries S) store (mo_default M) env key source version mutation w = (res, w')"
    using assms(4,5) by (simp add: session_mutate_def session_resources_def connected_session_def
        ok_or_def)
  from mutate_loop_moves [OF assms(1,2) later_refl assms(3) False this] show ?thesis
    by (auto simp: checkpointed_def)
qed

lemma session_domain_moves:
  assumes "cooperative_env M env" and "sources_distinct M" and "fine M (w_state w)"
    and "connected_session M store history S"
    and "event \<in> set (records (w_state w) (re_stream_id event))"
    and run: "session_domain (mo_text M) S env event w = (res, w')"
  shows "moves M (w_state w) (w_state w')
    \<and> (res = Inr () \<longrightarrow>
        (\<exists>reducer key source. reducer_of (mo_reducers M) event = Some reducer
           \<and> dr_key reducer event = Inr key \<and> mo_source M (re_stream_id event) = Inr source
           \<and> checkpointed look (w_state w') key source (re_stream_version event)))"
proof -
  define resources where
    "resources = \<lparr>rr_store = store, rr_history = Some history, rr_domain = mo_reducers M\<rparr>"
  have S: "session_resources S = Inr resources" "ss_context S = mo_context M"
    using assms(4) by (simp_all add: session_resources_def connected_session_def ok_or_def resources_def)
  have "moves M (w_state w) (w_state w) \<and> w' = w \<and> (\<exists>e. res = Inl e) \<or>
    (\<exists>reducer key source. reducer_of (mo_reducers M) event = Some reducer
       \<and> dr_key reducer event = Inr key \<and> mo_source M (re_stream_id event) = Inr source
       \<and> session_mutate S env key source (re_stream_version event)
           (domain_mutation resources reducer event key env) w = (res, w'))"
    using run S assms(3) moves_refl
    by (auto simp: session_domain_def resources_def result_simps rbind_def map_err_def ok_or_def
        split: sum.splits option.splits)
  then show ?thesis
  proof (elim disjE exE conjE)
    fix reducer key source
    assume r: "reducer_of (mo_reducers M) event = Some reducer" "dr_key reducer event = Inr key"
      "mo_source M (re_stream_id event) = Inr source"
      and mutate: "session_mutate S env key source (re_stream_version event)
        (domain_mutation resources reducer event key env) w = (res, w')"
    have "mutation_ok M (w_state w) key source (re_stream_version event)
        (domain_mutation resources reducer event key env)"
      using domain_mutation_ok [OF assms(1,2) _ _ _ r assms(5)] assms(3) by (simp add: resources_def)
    from session_mutate_moves [OF assms(1) this assms(3,4) mutate] show ?thesis
      using r by blast
  qed auto
qed

lemma integration_process_moves:
  assumes "cooperative_env M env" and "fine M (w_state w)"
    and "connected_session M store history (ih_session handler)"
    and "\<forall>stream. mo_source M stream \<noteq> Inr (ih_source handler)"
    and "ih_source handler \<in> mo_consecutive M \<Longrightarrow>
      (case io_ordering (ih_order handler) of ConsecutiveOrder _ \<Rightarrow> True | _ \<Rightarrow> False)"
    and "ih_change handler = mo_change M"
    and run: "integration_process I handler env delivery w = (res, w')"
  shows "moves M (w_state w) (w_state w')
    \<and> (res = Inr () \<longrightarrow>
        (\<exists>envelope. integration_envelope_of I (dl_payload delivery) = Inr envelope
           \<and> checkpointed look (w_state w') (ih_key handler (iv_payload envelope)) (ih_source handler)
               (integration_version handler delivery (iv_payload envelope))))"
proof -
  have "w' = w \<and> (\<exists>e. res = Inl e) \<or>
    (\<exists>envelope. integration_envelope_of I (dl_payload delivery) = Inr envelope
       \<and> session_mutate (ih_session handler) env (ih_key handler (iv_payload envelope))
           (ih_source handler) (integration_version handler delivery (iv_payload envelope))
           (integration_mutation handler (iv_payload envelope)
              (integration_version handler delivery (iv_payload envelope))) w = (res, w'))"
    using run
    by (auto simp: integration_process_def rbind_def map_err_def ReadModelKey_new_def
        split: sum.splits prod.splits if_splits)
  then show ?thesis
  proof (elim disjE exE conjE)
    fix envelope
    assume envelope: "integration_envelope_of I (dl_payload delivery) = Inr envelope"
      and mutate: "session_mutate (ih_session handler) env (ih_key handler (iv_payload envelope))
        (ih_source handler) (integration_version handler delivery (iv_payload envelope))
        (integration_mutation handler (iv_payload envelope)
          (integration_version handler delivery (iv_payload envelope))) w = (res, w')"
    from session_mutate_moves [OF assms(1) integration_mutation_ok [OF assms(4-6)] assms(2,3) mutate]
    show ?thesis
      using envelope by blast
  qed (use assms(2) moves_refl in auto)
qed

end

end
