(* ===== verification/KeyValue.thy ===== *)
theory KeyValue
  imports ReadModelContract
begin

text \<open>
  The read-model store over a JetStream key-value bucket (\<open>rostfrei-nats/src/read_model.rs\<close>): revision
  tokens, the size limit, the four operations and the classification of update errors. The bucket
  itself, a service behind \<open>async-nats\<close>, is the argument \<open>K\<close>; the locale \<open>kv_bucket\<close> states what its
  documentation promises: an update replaces the entry of a key if the last revision of the key is
  the expected one, revisions of a key never repeat, and an update that fails may have happened. The
  store then keeps the contract \<open>cas_store\<close> of the read-model runtime.

  The two calls of \<open>create\<close> are one step of the model: the second is guarded by the revision that the
  first returned, so that a write of somebody else between them can only make it fail, which the
  bucket may do at any time.
\<close>

section \<open>The bucket\<close>

datatype kv_operation = KvPut | KvDelete | KvPurge

record kv_entry =
  ke_operation :: kv_operation
  ke_value :: bytes
  ke_revision :: u64

datatype jetstream_code =
  StreamMessageExceedsMaximum | StorageResourcesExceeded | AccountResourcesExceeded | StreamLimits
| StreamMaxBytesExceeded | StreamStoreFailed | OtherJetStreamCode

text \<open>The chain of sources of an update error, as far as the code looks at it.\<close>

datatype jetstream_cause =
  CauseMaxPayload
| CauseJetStream jetstream_code string
| CauseOther

record kv_update_error =
  ku_wrong_last_revision :: bool
  ku_causes :: "jetstream_cause list"

record 's kv_bucket_operations =
  kv_entry_of :: "'s \<Rightarrow> string \<Rightarrow> unit + kv_entry option"
  kv_update :: "string \<Rightarrow> bytes \<Rightarrow> u64 \<Rightarrow> 's \<Rightarrow> (kv_update_error + u64) \<times> 's"
  kv_delete :: "string \<Rightarrow> u64 option \<Rightarrow> 's \<Rightarrow> (kv_update_error + unit) \<times> 's"

section \<open>The store\<close>

record ('v, 's) nats_read_model_store =
  nr_bucket :: "'s kv_bucket_operations"
  nr_max_value_bytes :: nat
  nr_codec :: "'v read_model_codec"
  nr_incarnation :: string

definition rm_unavailable :: read_model_error where
  "rm_unavailable = read_model_error_new RmUnavailable StorageUnavailable"

definition rm_conflict :: read_model_error where
  "rm_conflict = read_model_error_new RmConflict RevisionChanged"

definition jetstream_kind :: "jetstream_code \<Rightarrow> string \<Rightarrow> read_model_error_kind" where
  "jetstream_kind code text =
     (case code of
        StreamMessageExceedsMaximum \<Rightarrow> RmPayloadTooLarge
      | StorageResourcesExceeded \<Rightarrow> RmCapacityExhausted
      | AccountResourcesExceeded \<Rightarrow> RmCapacityExhausted
      | StreamLimits \<Rightarrow> RmCapacityExhausted
      | StreamMaxBytesExceeded \<Rightarrow> RmCapacityExhausted
      | StreamStoreFailed \<Rightarrow>
          if starts_with text ''maximum bytes exceeded ('' then RmCapacityExhausted else RmUnavailable
      | OtherJetStreamCode \<Rightarrow> RmUnavailable)"

fun map_update_causes :: "jetstream_cause list \<Rightarrow> read_model_error" where
  "map_update_causes [] = rm_unavailable"
| "map_update_causes (CauseMaxPayload # _) = read_model_error_new RmPayloadTooLarge ServerPayloadLimit"
| "map_update_causes (CauseJetStream code text # _) =
     read_model_error_new (jetstream_kind code text) WriteRejected"
| "map_update_causes (CauseOther # causes) = map_update_causes causes"

definition map_update_error :: "kv_update_error \<Rightarrow> read_model_error" where
  "map_update_error e =
     (if ku_wrong_last_revision e then rm_conflict else map_update_causes (ku_causes e))"

definition revision_prefix :: "('v, 's) nats_read_model_store \<Rightarrow> read_model_key \<Rightarrow> string" where
  "revision_prefix N key = nr_incarnation N @ '':'' @ key @ '':''"

definition nats_revision ::
  "('v, 's) nats_read_model_store \<Rightarrow> read_model_key \<Rightarrow> u64 \<Rightarrow> read_model_revision" where
  "nats_revision N key sequence = revision_prefix N key @ decimal (unat sequence)"

definition strip_prefix :: "string \<Rightarrow> string \<Rightarrow> string option" where
  "strip_prefix p s = (if starts_with s p then Some (drop (length p) s) else None)"

definition nats_sequence ::
  "('v, 's) nats_read_model_store \<Rightarrow> read_model_key \<Rightarrow> read_model_revision \<Rightarrow>
   read_model_error + u64" where
  "nats_sequence N key revision =
     ok_or (read_model_error_new RmInvalidRequest ForeignRevision)
       (Option.bind (Option.bind (strip_prefix (revision_prefix N key) revision) parse_u64)
          (\<lambda>n. if 0 < n then Some n else None))"

definition nats_validate_size ::
  "('v, 's) nats_read_model_store \<Rightarrow> bytes \<Rightarrow> read_model_error + unit" where
  "nats_validate_size N bs =
     (if 2 ^ 63 \<le> length bs \<or> nr_max_value_bytes N < length bs
      then Inl (read_model_error_new RmPayloadTooLarge ModelValueLimit) else Inr ())"

definition nats_encode ::
  "('v, 's) nats_read_model_store \<Rightarrow> 'v \<Rightarrow> read_model_error + bytes" where
  "nats_encode N v =
     rbind (rmc_encode (nr_codec N) v) (\<lambda>bs.
     rbind (nats_validate_size N bs) (\<lambda>_. Inr bs))"

definition nats_read ::
  "('v, 's) nats_read_model_store \<Rightarrow> 's \<Rightarrow> read_model_key \<Rightarrow>
   read_model_error + ('v \<times> read_model_revision) option" where
  "nats_read N s key =
     rbind (map_err (\<lambda>_. rm_unavailable) (kv_entry_of (nr_bucket N) s key)) (\<lambda>entry.
     case entry of
       None \<Rightarrow> Inr None
     | Some e \<Rightarrow>
         if ke_operation e \<noteq> KvPut then Inr None
         else
           rbind (nats_validate_size N (ke_value e)) (\<lambda>_.
           rbind (rmc_decode (nr_codec N) (ke_value e)) (\<lambda>v.
           Inr (Some (v, nats_revision N key (ke_revision e))))))"

definition nats_create ::
  "('v, 's) nats_read_model_store \<Rightarrow> read_model_key \<Rightarrow> 'v \<Rightarrow> 's \<Rightarrow>
   (read_model_error + read_model_revision) \<times> 's" where
  "nats_create N key v s =
     (case rbind (nats_encode N v) (\<lambda>bs.
           rbind (map_err (\<lambda>_. rm_unavailable) (kv_entry_of (nr_bucket N) s key)) (\<lambda>entry.
           case entry of
             None \<Rightarrow> Inr (bs, 0)
           | Some e \<Rightarrow>
               if ke_operation e = KvPut then Inl rm_conflict else Inr (bs, ke_revision e))) of
        Inl e \<Rightarrow> (Inl e, s)
      | Inr (bs, expected) \<Rightarrow>
          (case kv_update (nr_bucket N) key bs expected s of
             (Inl e, s) \<Rightarrow> (Inl (map_update_error e), s)
           | (Inr sequence, s) \<Rightarrow> (Inr (nats_revision N key sequence), s)))"

definition nats_update ::
  "('v, 's) nats_read_model_store \<Rightarrow> read_model_key \<Rightarrow> read_model_revision \<Rightarrow> 'v \<Rightarrow> 's \<Rightarrow>
   (read_model_error + read_model_revision) \<times> 's" where
  "nats_update N key revision v s =
     (case rbind (nats_sequence N key revision) (\<lambda>expected.
           rbind (nats_encode N v) (\<lambda>bs. Inr (bs, expected))) of
        Inl e \<Rightarrow> (Inl e, s)
      | Inr (bs, expected) \<Rightarrow>
          (case kv_update (nr_bucket N) key bs expected s of
             (Inl e, s) \<Rightarrow> (Inl (map_update_error e), s)
           | (Inr sequence, s) \<Rightarrow> (Inr (nats_revision N key sequence), s)))"

definition nats_delete ::
  "('v, 's) nats_read_model_store \<Rightarrow> read_model_key \<Rightarrow> read_model_revision \<Rightarrow> 's \<Rightarrow>
   (read_model_error + unit) \<times> 's" where
  "nats_delete N key revision s =
     (case nats_sequence N key revision of
        Inl e \<Rightarrow> (Inl e, s)
      | Inr sequence \<Rightarrow>
          (case kv_delete (nr_bucket N) key (Some sequence) s of
             (Inl e, s) \<Rightarrow> (Inl (map_update_error e), s)
           | (Inr _, s) \<Rightarrow> (Inr (), s)))"

definition nats_store :: "('v, 's) nats_read_model_store \<Rightarrow> ('v, 's) read_model_store" where
  "nats_store N = \<lparr>rms_read = nats_read N, rms_create = nats_create N, rms_update = nats_update N,
                   rms_delete = nats_delete N\<rparr>"

section \<open>Revision tokens\<close>

lemma starts_with_append [simp]: "starts_with (p @ s) p"
  by (simp add: starts_with_def)

lemma nats_sequence_revision: "0 < n \<Longrightarrow> nats_sequence N key (nats_revision N key n) = Inr n"
  by (simp add: nats_sequence_def nats_revision_def strip_prefix_def parse_u64_decimal ok_or_def)

section \<open>The contract\<close>

definition kv_last_revision :: "kv_entry option \<Rightarrow> u64" where
  "kv_last_revision entry = (case entry of None \<Rightarrow> 0 | Some e \<Rightarrow> ke_revision e)"

definition kv_put :: "bytes \<Rightarrow> u64 \<Rightarrow> kv_entry" where
  "kv_put bs revision = \<lparr>ke_operation = KvPut, ke_value = bs, ke_revision = revision\<rparr>"

locale kv_bucket =
  fixes K :: "'s kv_bucket_operations"
    and view :: "'s \<Rightarrow> string \<Rightarrow> kv_entry option"
    and later :: "'s \<Rightarrow> 's \<Rightarrow> bool"
  assumes entry_view: "kv_entry_of K s key = Inr entry \<Longrightarrow> entry = view s key"
    and update_done:
      "kv_update K key bs expected s = (Inr revision, s') \<Longrightarrow>
         kv_last_revision (view s key) = expected \<and> view s' = (view s)(key \<mapsto> kv_put bs revision)"
    and update_failed:
      "kv_update K key bs expected s = (Inl failure, s') \<Longrightarrow>
         view s' = view s
         \<or> (kv_last_revision (view s key) = expected
            \<and> (\<exists>revision. view s' = (view s)(key \<mapsto> kv_put bs revision)))"
    and revision_positive: "view s key = Some e \<Longrightarrow> 0 < ke_revision e"
    and refl: "later s s"
    and trans: "later s t \<Longrightarrow> later t u \<Longrightarrow> later s u"
    and update_later: "kv_update K key bs expected s = (res, s') \<Longrightarrow> later s s'"
    and revision_unique:
      "later s s' \<Longrightarrow> view s key = Some e \<Longrightarrow> view s' key = Some e' \<Longrightarrow>
         ke_revision e = ke_revision e' \<Longrightarrow> e = e'"

definition nats_look ::
  "('v, 's) nats_read_model_store \<Rightarrow> ('s \<Rightarrow> string \<Rightarrow> kv_entry option) \<Rightarrow> 's \<Rightarrow> read_model_key \<Rightarrow>
   ('v \<times> read_model_revision) option" where
  "nats_look N view s key =
     (case view s key of
        None \<Rightarrow> None
      | Some e \<Rightarrow>
          if ke_operation e \<noteq> KvPut \<or> nats_validate_size N (ke_value e) \<noteq> Inr () then None
          else
            (case rmc_decode (nr_codec N) (ke_value e) of
               Inl _ \<Rightarrow> None
             | Inr v \<Rightarrow> Some (v, nats_revision N key (ke_revision e))))"

definition nats_current ::
  "('v, 's) nats_read_model_store \<Rightarrow> ('s \<Rightarrow> string \<Rightarrow> kv_entry option) \<Rightarrow> 's \<Rightarrow> read_model_key \<Rightarrow>
   read_model_revision \<Rightarrow> bool" where
  "nats_current N view s key revision \<longleftrightarrow>
     (case view s key of
        None \<Rightarrow> False
      | Some e \<Rightarrow> nats_sequence N key revision = Inr (ke_revision e))"

text \<open>What the codec must do for the values the application stores.\<close>

definition codec_roundtrip :: "'v read_model_codec \<Rightarrow> bool" where
  "codec_roundtrip C \<longleftrightarrow> (\<forall>v bs. rmc_encode C v = Inr bs \<longrightarrow> rmc_decode C bs = Inr v)"

lemma nats_look_put:
  assumes "nats_encode N v = Inr bs" and "codec_roundtrip (nr_codec N)"
    and "view s' = (view s)(key \<mapsto> kv_put bs revision)"
  shows "nats_look N view s' = (nats_look N view s)(key \<mapsto> (v, nats_revision N key revision))"
  using assms
  by (auto simp: nats_look_def nats_encode_def codec_roundtrip_def kv_put_def fun_eq_iff result_simps
      split: option.splits)

lemma nats_look_same: "view s' = view s \<Longrightarrow> nats_look N view s' = nats_look N view s"
  by (simp add: nats_look_def fun_eq_iff)

context kv_bucket
begin

lemma nats_read_look: "nr_bucket N = K \<Longrightarrow> nats_read N s key = Inr entry \<Longrightarrow> entry = nats_look N view s key"
  using entry_view [of s key]
  by (auto simp: nats_read_def nats_look_def result_simps split: option.splits if_splits)

text \<open>A write of the store that reaches the bucket, whatever it reports.\<close>

lemma nats_write:
  assumes "nats_encode N v = Inr bs" and "codec_roundtrip (nr_codec N)"
    and "kv_update K key bs expected s = (res, s')"
  shows "(\<exists>e. res = Inl e) \<and> nats_look N view s' = nats_look N view s
    \<or> kv_last_revision (view s key) = expected
      \<and> (\<exists>r. nats_look N view s' = (nats_look N view s)(key \<mapsto> (v, r))
           \<and> (\<forall>revision. res = Inr revision \<longrightarrow> r = nats_revision N key revision))"
proof (cases res)
  case (Inl e)
  then show ?thesis
    using update_failed [of key bs expected s e s'] assms nats_look_same [of view s' s N]
      nats_look_put [OF assms(1,2), of view s' s key] by blast
next
  case (Inr revision)
  then show ?thesis
    using update_done [of key bs expected s revision s'] assms
      nats_look_put [OF assms(1,2), of view s' s key] by blast
qed

lemma nats_create_cases:
  assumes "nr_bucket N = K" and "nats_create N key v s = (res, s')"
  obtains (stopped) e where "res = Inl e" "s' = s"
  | (written) bs expected r where "nats_encode N v = Inr bs" "nats_look N view s key = None"
      "kv_update K key bs expected s = (r, s')"
      "res = (case r of Inl e \<Rightarrow> Inl (map_update_error e) | Inr n \<Rightarrow> Inr (nats_revision N key n))"
proof -
  consider e where "res = Inl e" "s' = s"
    | bs entry r where "nats_encode N v = Inr bs" "kv_entry_of K s key = Inr entry"
      "case entry of None \<Rightarrow> True | Some e \<Rightarrow> ke_operation e \<noteq> KvPut"
      "kv_update K key bs (kv_last_revision entry) s = (r, s')"
      "res = (case r of Inl e \<Rightarrow> Inl (map_update_error e) | Inr n \<Rightarrow> Inr (nats_revision N key n))"
    using assms unfolding nats_create_def kv_last_revision_def rbind_def map_err_def
    by (auto split: sum.splits option.splits if_splits prod.splits)
  then show thesis
  proof cases
    case 1
    then show ?thesis using stopped by blast
  next
    case 2
    then have "nats_look N view s key = None"
      using entry_view [of s key entry] by (auto simp: nats_look_def split: option.splits)
    then show ?thesis using written 2 by blast
  qed
qed

lemma nats_update_cases:
  assumes "nr_bucket N = K" and "nats_update N key revision v s = (res, s')"
  obtains (stopped) e where "res = Inl e" "s' = s"
  | (written) bs expected r where "nats_encode N v = Inr bs" "nats_sequence N key revision = Inr expected"
      "kv_update K key bs expected s = (r, s')"
      "res = (case r of Inl e \<Rightarrow> Inl (map_update_error e) | Inr n \<Rightarrow> Inr (nats_revision N key n))"
  using assms unfolding nats_update_def rbind_def
  by (auto split: sum.splits prod.splits)

lemma nats_sequence_current:
  assumes "nats_sequence N key revision = Inr expected" and "kv_last_revision (view s key) = expected"
  shows "nats_current N view s key revision"
proof -
  have "0 < expected"
    using assms(1) by (auto simp: nats_sequence_def ok_or_def split: option.splits bind_splits if_splits)
  then show ?thesis
    using assms by (auto simp: nats_current_def kv_last_revision_def split: option.splits)
qed

lemma nats_revision_identifies:
  assumes "later s s'" and "nats_look N view s key = Some (v, r)" and "nats_current N view s' key r"
  shows "nats_look N view s' key = Some (v, r)"
proof -
  obtain e where e: "view s key = Some e" "r = nats_revision N key (ke_revision e)"
    using assms(2) by (auto simp: nats_look_def split: option.splits if_splits sum.splits)
  obtain e' where e': "view s' key = Some e'" "nats_sequence N key r = Inr (ke_revision e')"
    using assms(3) by (auto simp: nats_current_def split: option.splits)
  have "ke_revision e = ke_revision e'"
    using e e'(2) nats_sequence_revision [OF revision_positive [OF e(1)], of N key] by simp
  then have "view s' key = view s key"
    using revision_unique [OF assms(1) e(1) e'(1)] e e' by simp
  then show ?thesis
    using assms(2) by (simp add: nats_look_def)
qed

text \<open>The store over the bucket is a compare-and-set store.\<close>

lemma nats_store_cas:
  assumes N: "nr_bucket N = K" and codec: "codec_roundtrip (nr_codec N)"
  shows "cas_store (nats_store N) (nats_look N view) (nats_current N view) later"
proof (unfold_locales, goal_cases)
  case (1 s key entry)
  then show ?case using nats_read_look [OF N] by (simp add: nats_store_def)
next
  case (2 key v s r s')
  then have "nats_create N key v s = (Inr r, s')" by (simp add: nats_store_def)
  then show ?case
    using nats_write [OF _ codec, of v _ key _ s _ s']
    by (cases rule: nats_create_cases [OF N]) (auto split: sum.splits)
next
  case (3 key v s e s')
  then have "nats_create N key v s = (Inl e, s')" by (simp add: nats_store_def)
  then show ?case
    using nats_write [OF _ codec, of v _ key _ s _ s']
    by (cases rule: nats_create_cases [OF N]) (auto split: sum.splits)
next
  case (4 key r v s r' s')
  then have stored: "nats_update N key r v s = (Inr r', s')" by (simp add: nats_store_def)
  show ?case
  proof (cases rule: nats_update_cases [OF N stored])
    case (2 bs expected x)
    then obtain n where "x = Inr n"
      by (cases x) auto
    then show ?thesis
      using nats_write [OF 2(1) codec 2(3)] nats_sequence_current [OF 2(2)] 2(4)
      by auto
  qed simp
next
  case (5 key r v s e s')
  then have "nats_update N key r v s = (Inl e, s')" by (simp add: nats_store_def)
  then show ?case
    using nats_write [OF _ codec, of v _ key _ s _ s'] nats_sequence_current [of N key r _ s]
    by (cases rule: nats_update_cases [OF N]) (auto split: sum.splits)
next
  case (6 s)
  then show ?case by (rule refl)
next
  case (7 s t u)
  then show ?case by (rule trans)
next
  case (8 key v s res s')
  then have "nats_create N key v s = (res, s')" by (simp add: nats_store_def)
  then show ?case
    by (cases rule: nats_create_cases [OF N]) (auto intro: refl update_later)
next
  case (9 key r v s res s')
  then have "nats_update N key r v s = (res, s')" by (simp add: nats_store_def)
  then show ?case
    by (cases rule: nats_update_cases [OF N]) (auto intro: refl update_later)
next
  case (10 s s' key v r)
  then show ?case by (rule nats_revision_identifies)
qed

end

end
