(* ===== verification/ReadModelProperties.thy ===== *)
theory ReadModelProperties
  imports KeyValue Scenario
begin

text \<open>
  The properties of the read-model runtime. The history of the in-memory coordinator keeps the
  contract \<open>growing_history\<close>, the store over a key-value bucket keeps \<open>cas_store\<close>, and a reference
  bucket shows that the laws asked of a bucket can hold. The claims are about any store and any
  history with these contracts.
\<close>

section \<open>The coordinator as a history\<close>

lemma recorded_stream: "e \<in> set (recorded stream b count v ordinal events) \<Longrightarrow> re_stream_id e = stream"
  by (induction events arbitrary: v ordinal) (auto simp: from_new_sel)

lemma log_events_stream: "e \<in> set (log_events stream n bs) \<Longrightarrow> re_stream_id e = stream"
  by (induction bs arbitrary: n) (auto simp: recorded_batch_def dest: recorded_stream)

interpretation mem_history: growing_history "(store_step E auth)\<^sup>*\<^sup>*" "\<lambda>s stream. Inr (load s stream)"
  load "reachable E auth"
proof (unfold_locales, goal_cases)
  case (2 s i stream)
  then show ?case
    using journal_nth_version by (metis reachable_journal Suc_eq_plus1)
next
  case (3 s e stream)
  then show ?case
    using journal_load log_events_stream by (metis reachable_journal)
next
  case (4 s s' stream)
  then show ?case
    using later_before store_before_load by metis
next
  case (5 s s')
  then show ?case
    by (rule reachable_later)
qed simp

section \<open>A reference bucket\<close>

text \<open>
  Every key has the list of the values put under it, and the revision of its entry is the length of
  that list. The other component of the state is the coordinator.
\<close>

type_synonym reference_state = "(string \<Rightarrow> bytes list) \<times> memory_state"

definition ref_view :: "reference_state \<Rightarrow> string \<Rightarrow> kv_entry option" where
  "ref_view s key =
     (let n = length (fst s key)
      in if n = 0 \<or> 2 ^ 64 \<le> n then None else Some (kv_put (last (fst s key)) (of_nat n)))"

definition ref_update ::
  "string \<Rightarrow> bytes \<Rightarrow> u64 \<Rightarrow> reference_state \<Rightarrow> (kv_update_error + u64) \<times> reference_state" where
  "ref_update key bs expected s =
     (let n = length (fst s key)
      in if 2 ^ 64 \<le> Suc n \<or> kv_last_revision (ref_view s key) \<noteq> expected
         then (Inl \<lparr>ku_wrong_last_revision = True, ku_causes = []\<rparr>, s)
         else (Inr (of_nat (Suc n)), ((fst s)(key := fst s key @ [bs]), snd s)))"

definition ref_bucket :: "reference_state kv_bucket_operations" where
  "ref_bucket = \<lparr>kv_entry_of = (\<lambda>s key. Inr (ref_view s key)), kv_update = ref_update,
     kv_delete = (\<lambda>key expected s. (Inl \<lparr>ku_wrong_last_revision = False, ku_causes = []\<rparr>, s))\<rparr>"

definition ref_later :: "(memory_state \<Rightarrow> memory_state \<Rightarrow> bool) \<Rightarrow> reference_state \<Rightarrow> reference_state \<Rightarrow> bool" where
  "ref_later step s s' \<longleftrightarrow>
     (\<forall>key. \<exists>rest. fst s' key = fst s key @ rest) \<and> step\<^sup>*\<^sup>* (snd s) (snd s')"

lemma ref_bucket_sel [simp]:
  "kv_entry_of ref_bucket s key = Inr (ref_view s key)"
  "kv_update ref_bucket key bs expected s = ref_update key bs expected s"
  by (simp_all add: ref_bucket_def)

lemma of_nat_u64_positive: "0 < n \<Longrightarrow> n < 2 ^ 64 \<Longrightarrow> 0 < (of_nat n :: u64)"
  by (simp add: word_less_nat_alt unat_of_nat_small)

lemma ref_update_cases:
  "ref_update key bs expected s = (Inr revision, s') \<Longrightarrow>
     revision = of_nat (Suc (length (fst s key))) \<and> Suc (length (fst s key)) < 2 ^ 64
     \<and> s' = ((fst s)(key := fst s key @ [bs]), snd s) \<and> kv_last_revision (ref_view s key) = expected"
  "ref_update key bs expected s = (Inl e, s') \<Longrightarrow> s' = s"
  by (auto simp: ref_update_def Let_def split: if_splits)

lemma ref_later_trans: "ref_later step s t \<Longrightarrow> ref_later step t u \<Longrightarrow> ref_later step s u"
  unfolding ref_later_def by (metis append_assoc rtranclp_trans)

interpretation ref: kv_bucket ref_bucket ref_view "ref_later step"
proof (unfold_locales, goal_cases)
  case (2 key bs expected s revision s')
  then show ?case
    using ref_update_cases(1) [of key bs expected s revision s']
    by (auto simp: ref_view_def Let_def fun_eq_iff)
next
  case (4 s key e)
  then show ?case
    by (auto simp: ref_view_def Let_def kv_put_def of_nat_u64_positive split: if_splits)
next
  case (6 s t u)
  then show ?case by (rule ref_later_trans)
next
  case (7 key bs expected s res s')
  then show ?case
    using ref_update_cases [of key bs expected s] by (cases res) (auto simp: ref_later_def)
next
  case (8 s s' key e e')
  then obtain rest where "fst s' key = fst s key @ rest"
    by (auto simp: ref_later_def)
  moreover have "length (fst s key) = length (fst s' key)"
    using 8(2-4) of_nat_word_eq_iff [where 'a = 64, of "length (fst s key)" "length (fst s' key)"]
    by (auto simp: ref_view_def Let_def kv_put_def split: if_splits)
  ultimately show ?case
    using 8(2,3) by (auto simp: ref_view_def Let_def split: if_splits)
qed (auto simp: ref_later_def dest: ref_update_cases(2))

interpretation ref_history: growing_history "ref_later (store_step E auth)"
  "\<lambda>s stream. Inr (load (snd s) stream)" "\<lambda>s. load (snd s)" "\<lambda>s. reachable E auth (snd s)"
proof (unfold_locales, goal_cases)
  case (2 s i stream)
  then show ?case by (rule mem_history.records_versions)
next
  case (3 s e stream)
  then show ?case by (rule mem_history.records_stream)
next
  case (4 s s' stream)
  then show ?case using mem_history.records_grow [of E auth "snd s" "snd s'"] by (auto simp: ref_later_def)
next
  case (5 s s')
  then show ?case using mem_history.sound_later [of E auth "snd s" "snd s'"] by (auto simp: ref_later_def)
qed simp

text \<open>The writes of the store over the reference bucket do not touch the coordinator.\<close>

lemma ref_update_coordinator: "ref_update key bs expected s = (res, s') \<Longrightarrow> snd s' = snd s"
  using ref_update_cases [of key bs expected s] by (cases res) auto

lemma ref_store_coordinator:
  assumes "nr_bucket N = ref_bucket"
  shows "rms_create (nats_store N) key st s = (res, s') \<Longrightarrow> snd s' = snd s"
    and "rms_update (nats_store N) key r st s = (res', s') \<Longrightarrow> snd s' = snd s"
  using assms
  by (auto simp: nats_store_def nats_create_def nats_update_def
      split: sum.splits prod.splits option.splits dest: ref_update_coordinator)

lemma ref_models:
  assumes "nr_bucket N = ref_bucket" and "codec_roundtrip (nr_codec N)"
  shows "read_model_system (nats_store N) (nats_look N ref_view) (nats_current N ref_view)
    (ref_later (store_step E auth)) (\<lambda>s stream. Inr (load (snd s) stream)) (\<lambda>s. load (snd s))
    (\<lambda>s. reachable E auth (snd s))"
  using ref.nats_store_cas [OF assms] ref_history.growing_history_axioms
    ref_store_coordinator [OF assms(1)]
  by (auto simp: read_model_system_def read_model_system_axioms_def)

section \<open>A model\<close>

text \<open>A model that counts the placed orders, its session, and the recorded event of \<open>Scenario\<close>.\<close>

definition x_context :: bounded_context where
  "x_context = \<lparr>bx_application = ''shop'', bx_traffic_scope = NormalScope, bx_name = ''sales''\<rparr>"

definition x_reducers :: "nat domain_reducers" where
  "x_reducers = fmupd (''order'', ''Placed'')
     \<lparr>dr_key = (\<lambda>_. Inr ''all''), dr_apply = (\<lambda>n _. Inr (Suc n))\<rparr> fmempty"

definition x_source_text :: "string list \<Rightarrow> string + string" where
  "x_source_text parts =
     (if parts = [''domain'', ''sales'', ''order'', ''1''] then Inr ''order 1'' else Inl ''unsupported'')"

definition x_setup :: "(nat, nat) model_setup" where
  "x_setup = \<lparr>mo_reducers = x_reducers, mo_change = (\<lambda>n k. Inr (n + k)), mo_default = 0,
              mo_text = x_source_text, mo_context = x_context, mo_consecutive = {''stock''}\<rparr>"

definition x_counted :: "nat read_model_state" where
  "x_counted = \<lparr>rs_format_version = 1, rs_value = 1, rs_positions = fmupd ''order 1'' 1 fmempty\<rparr>"

definition x_stocked :: "nat read_model_state" where
  "x_stocked = \<lparr>rs_format_version = 1, rs_value = 5, rs_positions = fmupd ''stock'' 1 fmempty\<rparr>"

definition x_model_codec :: "nat read_model_state read_model_codec" where
  "x_model_codec =
     \<lparr>rmc_encode = (\<lambda>st. if st = x_counted then Inr [1] else if st = x_stocked then Inr [2]
                          else Inl (read_model_error_new RmEncodingFailed ModelEncoding)),
      rmc_decode = (\<lambda>bs. if bs = [1] then Inr x_counted else if bs = [2] then Inr x_stocked
                          else Inl (read_model_error_new RmInvalidData ModelEnvelope))\<rparr>"

definition x_nats :: "(nat read_model_state, reference_state) nats_read_model_store" where
  "x_nats = \<lparr>nr_bucket = ref_bucket, nr_max_value_bytes = 16, nr_codec = x_model_codec,
             nr_incarnation = ''b:0''\<rparr>"

abbreviation x_history :: "reference_state event_history" where
  "x_history \<equiv> \<lambda>s stream. Inr (load (snd s) stream)"

definition x_session :: "(nat, reference_state) read_model_session" where
  "x_session = \<lparr>ss_context = x_context, ss_default = 0,
     ss_resources = Some \<lparr>rr_store = nats_store x_nats, rr_history = Some x_history,
                          rr_domain = x_reducers\<rparr>, ss_retries = 8\<rparr>"

definition x_models_world :: "reference_state world" where
  "x_models_world = \<lparr>w_calls = 0, w_state = (\<lambda>_. [], x_appended)\<rparr>"

lemma x_setup_sel [simp]:
  "mo_reducers x_setup = x_reducers" "mo_default x_setup = 0" "mo_text x_setup = x_source_text"
  "mo_context x_setup = x_context" "mo_consecutive x_setup = {''stock''}"
  "mo_change x_setup = (\<lambda>n k. Inr (n + k))"
  by (simp_all add: x_setup_def)

lemma x_nats_sel [simp]:
  "nr_bucket x_nats = ref_bucket" "nr_codec x_nats = x_model_codec" "nr_max_value_bytes x_nats = 16"
  by (simp_all add: x_nats_def)

lemma x_states_differ: "x_counted \<noteq> x_stocked"
  by (simp add: x_counted_def x_stocked_def)

lemma x_codec_roundtrip: "codec_roundtrip x_model_codec"
  using x_states_differ by (auto simp: codec_roundtrip_def x_model_codec_def split: if_splits)

interpretation x_models: read_model_system "nats_store x_nats" "nats_look x_nats ref_view"
  "nats_current x_nats ref_view" "ref_later (store_step x_externals x_authority)" x_history
  "\<lambda>s. load (snd s)" "\<lambda>s. reachable x_externals x_authority (snd s)"
  by (rule ref_models) (simp_all add: x_codec_roundtrip)

lemma x_source [simp]:
  "domain_source x_source_text x_context stream = Inr source \<longleftrightarrow>
     stream = x_stream \<and> source = ''order 1''"
  by (cases stream) (auto simp: domain_source_def x_source_text_def x_context_def x_stream_def)

lemma x_stream_source [simp]: "domain_source x_source_text x_context x_stream = Inr ''order 1''"
  by simp

lemma x_sources_distinct: "sources_distinct x_setup"
  by (simp add: sources_distinct_def)

lemma x_no_models: "models_ok x_setup (nats_look x_nats ref_view) (\<lambda>s. load (snd s)) (\<lambda>_. [], m)"
  by (simp add: models_ok_def nats_look_def ref_view_def)

lemma x_quiet_models:
  "cooperative_models x_setup (nats_look x_nats ref_view) (ref_later (store_step x_externals x_authority))
     (\<lambda>s. load (snd s)) (\<lambda>s. reachable x_externals x_authority (snd s)) (\<lambda>_ s. s)"
  by (simp add: cooperative_models_def models_move_def x_models.later_refl checkpoints_advance_refl)

lemma x_connected: "connected_session x_setup (nats_store x_nats) x_history x_session"
  by (simp add: connected_session_def x_session_def)

lemma x_recorded_at [simp]: "re_stream_id x_recorded = x_stream" "re_stream_version x_recorded = 1"
  by (simp_all add: x_recorded_def)

lemma x_reducer [simp]:
  "fmlookup x_reducers (stream_aggregate_type x_stream, re_event_type x_recorded)
     = Some \<lparr>dr_key = (\<lambda>_. Inr ''all''), dr_apply = (\<lambda>n _. Inr (Suc n))\<rparr>"
  by (simp add: x_reducers_def x_recorded_def x_stream_def x_event_def RecordedEvent_from_new_def)

definition x_counted_world :: "reference_state world" where
  "x_counted_world = \<lparr>w_calls = 2, w_state = ((\<lambda>_. [])(''all'' := [[1]]), x_appended)\<rparr>"

lemma x_session_domain:
  "session_domain x_source_text x_session (\<lambda>_ s. s) x_recorded x_models_world = (Inr (), x_counted_world)"
proof -
  have "nats_read x_nats (\<lambda>_. [], x_appended) ''all'' = Inr None"
    by (simp add: nats_read_def ref_view_def map_err_def rbind_def)
  moreover have "nats_create x_nats ''all'' x_counted (\<lambda>_. [], x_appended)
      = (Inr (nats_revision x_nats ''all'' 1), ((\<lambda>_. [])(''all'' := [[1]]), x_appended))"
    by (simp add: nats_create_def nats_encode_def x_model_codec_def nats_validate_size_def
        ref_view_def ref_update_def kv_last_revision_def map_err_def rbind_def)
  moreover have "read_model_state_default 0
      \<lparr>rs_value := Suc 0, rs_positions := fmupd ''order 1'' 1 (rs_positions (read_model_state_default 0))\<rparr>
      = x_counted"
    by (simp add: read_model_state_default_def x_counted_def)
  moreover have "read_model_state_validate (read_model_state_default (0 :: nat)) = Inr ()"
    by (simp add: read_model_state_validate_def read_model_state_default_def)
  ultimately show ?thesis
    by (simp add: mutate_loop.simps(2) [where n = 7, simplified] session_domain_def session_mutate_def x_session_def session_resources_def ok_or_def
        rbind_def map_err_def x_models_world_def x_counted_world_def interleave_def nats_store_def Let_def
        read_model_state_default_def domain_mutation_def checked_add_def)
qed

section \<open>Properties\<close>

text \<open>A reader returns what the storage holds.\<close>

lemma reader_reads_materialized:
  assumes "cas_store store look current later" and "connected_session M store history S"
    and "models_ok M look records s" and "reader_read S s key = Inr (Some v)"
  shows "\<exists>st. materialized M (records s) key st \<and> rs_value st = v"
proof -
  obtain st r where "rms_read store s key = Inr (Some (st, r))" "rs_value st = v"
    using assms(2,4)
    by (auto simp: reader_read_def connected_session_def ok_or_def result_simps split: option.splits)
  moreover from calculation have "look s key = Some (st, r)"
    using cas_store.read_look [OF assms(1)] by fastforce
  ultimately show ?thesis
    using assms(3) by (auto simp: models_ok_def)
qed

text \<open>C4: A read model is always a replay of its inputs in which every input occurs exactly once and in
  order. Whatever other sessions write meanwhile, and in whatever order, how often and with what
  gaps recorded events are delivered: after a session handled a genuine event every stored model is
  the fold of the reducers over, for every stream, exactly the relevant events of its history up to
  the checkpoint, no checkpoint has moved back, and if the session reported success the model of
  the event's key has reached its version. What a reader returns is such a model.\<close>

theorem read_model_materializes_history:
  assumes system: "read_model_system store look current later history records sound"
    and "cooperative_models M look later records sound env" and "sources_distinct M"
    and connected: "connected_session M store history S"
    and "sound (w_state w)" and "models_ok M look records (w_state w)"
    and "event \<in> set (records (w_state w) (re_stream_id event))"
    and "session_domain (mo_text M) S env event w = (res, w')"
  shows "models_ok M look records (w_state w')
    \<and> checkpoints_advance look (w_state w) (w_state w')
    \<and> (res = Inr () \<longrightarrow>
        (\<exists>reducer key source. reducer_of (mo_reducers M) event = Some reducer
           \<and> dr_key reducer event = Inr key \<and> mo_source M (re_stream_id event) = Inr source
           \<and> checkpointed look (w_state w') key source (re_stream_version event)))
    \<and> (\<forall>key v. reader_read S (w_state w') key = Inr (Some v) \<longrightarrow>
        (\<exists>st. materialized M (records (w_state w')) key st \<and> rs_value st = v))"
proof -
  have moved: "models_move M look later records (w_state w) (w_state w')
    \<and> (res = Inr () \<longrightarrow>
        (\<exists>reducer key source. reducer_of (mo_reducers M) event = Some reducer
           \<and> dr_key reducer event = Inr key \<and> mo_source M (re_stream_id event) = Inr source
           \<and> checkpointed look (w_state w') key source (re_stream_version event)))"
    using read_model_system.session_domain_moves [OF system assms(2,3) _ connected] assms(5-8)
    by blast
  have "cas_store store look current later"
    using system by (simp add: read_model_system_def)
  note read = reader_reads_materialized [OF this connected]
  show ?thesis
    using moved read [of records "w_state w'"] by (auto simp: models_move_def)
qed

theorem read_model_materializes_history_witness:
  "models_ok x_setup (nats_look x_nats ref_view) (\<lambda>s. load (snd s)) (w_state x_counted_world)
    \<and> checkpointed (nats_look x_nats ref_view) (w_state x_counted_world) ''all'' ''order 1'' 1"
proof -
  have "reachable x_externals x_authority (snd (w_state x_models_world))"
    by (simp add: x_models_world_def x_appended_reachable)
  moreover have "models_ok x_setup (nats_look x_nats ref_view) (\<lambda>s. load (snd s)) (w_state x_models_world)"
    by (simp add: x_models_world_def x_no_models)
  moreover have "x_recorded \<in> set (load (snd (w_state x_models_world)) (re_stream_id x_recorded))"
    by (simp add: x_models_world_def)
  ultimately show ?thesis
    using read_model_materializes_history [OF x_models.read_model_system_axioms x_quiet_models
        x_sources_distinct x_connected _ _ _ x_session_domain [folded x_setup_sel(3)]]
    by auto
qed




definition x_stock_type :: "nat integration_event_type" where
  "x_stock_type = \<lparr>ie_type = 0, ie_event_name = ''stocked'', ie_schema_version = 1,
     ie_bounded_context = None, ie_envelope_to_vec = (\<lambda>_. Inr []),
     ie_envelope_to_value = (\<lambda>_. Inr JNull),
     ie_envelope_from_slice = (\<lambda>_. Inr \<lparr>iv_message_id = ''m'', iv_schema_version = 1,
       iv_occurred_at = 0, iv_correlation_id = ''c'', iv_causation_id = None, iv_payload = 5,
       iv_metadata_version = None, iv_actor = None\<rparr>)\<rparr>"





lemma x_stock_schema [simp]: "ie_schema_version x_stock_type = 1"
  by (simp add: x_stock_type_def)



end
