(* ===== verification/Queries.thy ===== *)
theory Queries
  imports Responses Delivery
begin

text \<open>
  Queries: the request, response and option types of \<open>rostfrei-messaging-core/src/query.rs\<close> and the
  bus, the processor and the in-memory adapter of \<open>rostfrei-runtime/src/query_bus.rs\<close>. Handlers are
  application code: they answer from the state \<open>'w\<close> of the application at the moment they are asked.
  What \<open>serde_json\<close> makes of messages and of the application's types are the fields of
  \<open>query_externals\<close> and \<open>query_type\<close>. Whether the timer of the adapter fires before the handler has
  answered, the generated request identity and the system clock are arguments.
\<close>

section \<open>Requests\<close>

record 'p query_request =
  qm_message_id :: message_id
  qm_schema_version :: u32
  qm_created_at :: u64
  qm_correlation_id :: correlation_id
  qm_causation_id :: "causation_id option"
  qm_metadata :: caller_metadata
  qm_trace_context :: "trace_context option"
  qm_payload :: 'p

definition query_request_new ::
  "('p query_request \<Rightarrow> string + bytes) \<Rightarrow> envelope_context \<Rightarrow> u64 \<Rightarrow> caller_metadata \<Rightarrow>
   trace_context option \<Rightarrow> 'p \<Rightarrow> message_build_error + 'p query_request" where
  "query_request_new to_vec ctx created metadata trace payload =
     (let request =
        \<lparr>qm_message_id = ec_message_id ctx, qm_schema_version = ec_schema_version ctx,
         qm_created_at = created, qm_correlation_id = ec_correlation_id ctx,
         qm_causation_id = ec_causation_id ctx, qm_metadata = metadata,
         qm_trace_context = trace, qm_payload = payload\<rparr>
      in rbind (validate_serialized_size to_vec request) (\<lambda>_. Inr request))"

abbreviation query_context :: "'p query_request \<Rightarrow> envelope_context" where
  "query_context m \<equiv>
     \<lparr>ec_message_id = qm_message_id m, ec_schema_version = qm_schema_version m,
      ec_correlation_id = qm_correlation_id m, ec_causation_id = qm_causation_id m\<rparr>"

text \<open>The request with another payload, rebuilt by the checked constructor: the processor does this
  once for the routed payload and once for the decoded query. Reading a request from its derived wire
  struct is the case of an unchanged payload.\<close>

definition query_request_rebuild ::
  "('q query_request \<Rightarrow> string + bytes) \<Rightarrow> 'p query_request \<Rightarrow> 'q \<Rightarrow>
   message_build_error + 'q query_request" where
  "query_request_rebuild to_vec m payload =
     query_request_new to_vec (query_context m) (qm_created_at m) (qm_metadata m)
       (qm_trace_context m) payload"

definition query_request_from_wire ::
  "('p query_request \<Rightarrow> string + bytes) \<Rightarrow> 'p query_request \<Rightarrow> message_build_error + 'p query_request" where
  "query_request_from_wire to_vec wire = query_request_rebuild to_vec wire (qm_payload wire)"

section \<open>Responses\<close>

datatype query_error_classification =
  QueryInvalidRequest | QueryUnauthorized | QueryForbidden | QueryNotFound | QueryConflict
| QueryRateLimited | QueryUnavailable | QueryTimeout | QueryInternal

record query_error_payload =
  qe_classification :: query_error_classification
  qe_code :: string
  qe_message :: string

definition max_query_error_message_bytes :: nat where "max_query_error_message_bytes = 1024"

definition query_error_payload_new ::
  "query_error_classification \<Rightarrow> string \<Rightarrow> string \<Rightarrow> contract_error + query_error_payload" where
  "query_error_payload_new classification code msg =
     (if msg = [] then Inl (contract_error_new ContractEmpty ''query error message'')
      else if max_query_error_message_bytes < length msg then
        Inl (contract_error_bounded ContractTooLong ''query error message'' (length msg)
          max_query_error_message_bytes)
      else if has_control msg then
        Inl (contract_error_new ContractControlCharacter ''query error message'')
      else Inr \<lparr>qe_classification = classification, qe_code = code, qe_message = msg\<rparr>)"

definition query_error_payload_from_wire ::
  "query_error_payload \<Rightarrow> contract_error + query_error_payload" where
  "query_error_payload_from_wire wire =
     query_error_payload_new (qe_classification wire) (qe_code wire) (qe_message wire)"

definition internal_error :: query_error_payload where
  "internal_error =
     \<lparr>qe_classification = QueryInternal, qe_code = ''rostfrei.query.internal'',
      qe_message = ''The query could not be completed.''\<rparr>"

datatype 'r query_outcome = QuerySuccess 'r | QueryError query_error_payload

record 'r query_response =
  qr_request_id :: message_id
  qr_schema_version :: u32
  qr_responded_at :: u64
  qr_correlation_id :: correlation_id
  qr_trace_context :: "trace_context option"
  qr_outcome :: "'r query_outcome"

definition query_response_new ::
  "('r query_response \<Rightarrow> string + bytes) \<Rightarrow> message_id \<Rightarrow> u32 \<Rightarrow> u64 \<Rightarrow> correlation_id \<Rightarrow>
   trace_context option \<Rightarrow> 'r query_outcome \<Rightarrow> message_build_error + 'r query_response" where
  "query_response_new to_vec i schema responded correlation trace outcome =
     (let response =
        \<lparr>qr_request_id = i, qr_schema_version = schema, qr_responded_at = responded,
         qr_correlation_id = correlation, qr_trace_context = trace, qr_outcome = outcome\<rparr>
      in rbind (validate_serialized_size to_vec response) (\<lambda>_. Inr response))"

definition query_response_success ::
  "('r query_response \<Rightarrow> string + bytes) \<Rightarrow> message_id \<Rightarrow> u32 \<Rightarrow> u64 \<Rightarrow> correlation_id \<Rightarrow>
   trace_context option \<Rightarrow> 'r \<Rightarrow> message_build_error + 'r query_response" where
  "query_response_success to_vec i schema responded correlation trace payload =
     query_response_new to_vec i schema responded correlation trace (QuerySuccess payload)"

definition query_response_error ::
  "('r query_response \<Rightarrow> string + bytes) \<Rightarrow> message_id \<Rightarrow> u32 \<Rightarrow> u64 \<Rightarrow> correlation_id \<Rightarrow>
   trace_context option \<Rightarrow> query_error_payload \<Rightarrow> message_build_error + 'r query_response" where
  "query_response_error to_vec i schema responded correlation trace e =
     query_response_new to_vec i schema responded correlation trace (QueryError e)"

definition query_response_from_wire ::
  "('r query_response \<Rightarrow> string + bytes) \<Rightarrow> 'r query_response \<Rightarrow>
   message_build_error + 'r query_response" where
  "query_response_from_wire to_vec wire =
     query_response_new to_vec (qr_request_id wire) (qr_schema_version wire) (qr_responded_at wire)
       (qr_correlation_id wire) (qr_trace_context wire) (qr_outcome wire)"

section \<open>Options and request errors\<close>

record query_options =
  qo_timeout :: duration
  qo_maximum_response_bytes :: nat

definition max_query_timeout :: duration where "max_query_timeout = from_secs (5 * 60)"

definition query_options_new :: "duration \<Rightarrow> nat \<Rightarrow> contract_error + query_options" where
  "query_options_new timeout maximum =
     (if timeout = 0 \<or> max_query_timeout < timeout then
        Inl (contract_error_new ContractOutOfRange ''query timeout'')
      else if maximum = 0 \<or> max_envelope_bytes < maximum then
        Inl (contract_error_bounded ContractOutOfRange ''maximum query response bytes'' maximum
          max_envelope_bytes)
      else Inr \<lparr>qo_timeout = timeout, qo_maximum_response_bytes = maximum\<rparr>)"

definition query_options_default :: query_options where
  "query_options_default =
     \<lparr>qo_timeout = from_secs 30, qo_maximum_response_bytes = max_envelope_bytes\<rparr>"

datatype query_request_error_kind =
  RequestSerialization | RequestResponseTooLarge | RequestTimeout | RequestUnavailable
| RequestRejected | RequestInvalidResponse

type_synonym 'r query_result = "query_request_error_kind + 'r query_response"

section \<open>The query bus\<close>

text \<open>Error texts are symbolic, as everywhere.\<close>

datatype query_text =
  QueryContract contract_error
| QueryRoute contract_error
| QueryBuild message_build_error
| QueryExternal string
| QueryRequestFailed query_request_error_kind
| QueryContextDiffers string string string
| QueryIdentityDiffers
| QueryClockBeforeEpoch
| QueryClockOutOfRange

datatype query_bus_error_kind =
  QueryBusEncoding | QueryBusTimeout | QueryBusRejected | QueryBusUnavailable
| QueryBusInvalidResponse

record query_bus_error =
  qb_kind :: query_bus_error_kind
  qb_message :: query_text

definition query_bus_error_new :: "query_bus_error_kind \<Rightarrow> query_text \<Rightarrow> query_bus_error" where
  "query_bus_error_new kind msg = \<lparr>qb_kind = kind, qb_message = msg\<rparr>"

definition query_encoding :: "query_text \<Rightarrow> query_bus_error" where
  "query_encoding msg = query_bus_error_new QueryBusEncoding msg"

fun query_request_kind :: "query_request_error_kind \<Rightarrow> query_bus_error_kind" where
  "query_request_kind RequestSerialization = QueryBusEncoding"
| "query_request_kind RequestTimeout = QueryBusTimeout"
| "query_request_kind RequestUnavailable = QueryBusUnavailable"
| "query_request_kind RequestRejected = QueryBusRejected"
| "query_request_kind RequestResponseTooLarge = QueryBusInvalidResponse"
| "query_request_kind RequestInvalidResponse = QueryBusInvalidResponse"

definition query_request_failed :: "query_request_error_kind \<Rightarrow> query_bus_error" where
  "query_request_failed e = query_bus_error_new (query_request_kind e) (QueryRequestFailed e)"

record routed_query =
  rq_bounded_context :: string
  rq_query :: string
  rq_schema_version :: u32
  rq_payload :: json

definition RoutedQuery_new :: "string \<Rightarrow> string \<Rightarrow> u32 \<Rightarrow> json \<Rightarrow> contract_error + routed_query" where
  "RoutedQuery_new context query schema payload =
     rbind (QueryAddress_new ''rostfrei'' context query) (\<lambda>_.
     rbind (SchemaVersion_new schema) (\<lambda>_.
     Inr \<lparr>rq_bounded_context = context, rq_query = query, rq_schema_version = schema,
          rq_payload = payload\<rparr>))"

definition routed_query_from_wire :: "routed_query \<Rightarrow> contract_error + routed_query" where
  "routed_query_from_wire wire =
     RoutedQuery_new (rq_bounded_context wire) (rq_query wire) (rq_schema_version wire) (rq_payload wire)"

record dynamic_query_request =
  dq_query :: string
  dq_schema_version :: u32
  dq_payload :: json
  dq_message_id :: "message_id option"
  dq_correlation_id :: "correlation_id option"
  dq_causation_id :: "causation_id option"
  dq_created_at :: "u64 option"
  dq_metadata :: caller_metadata
  dq_trace_context :: "trace_context option"

definition DynamicQueryRequest_new ::
  "string \<Rightarrow> u32 \<Rightarrow> json \<Rightarrow> query_bus_error + dynamic_query_request" where
  "DynamicQueryRequest_new query schema payload =
     rbind (map_err (\<lambda>e. query_encoding (QueryContract e))
              (QueryAddress_new ''rostfrei'' ''dynamic-query'' query)) (\<lambda>_.
     rbind (map_err (\<lambda>e. query_encoding (QueryContract e)) (SchemaVersion_new schema)) (\<lambda>_.
     Inr \<lparr>dq_query = query, dq_schema_version = schema, dq_payload = payload, dq_message_id = None,
          dq_correlation_id = None, dq_causation_id = None, dq_created_at = None,
          dq_metadata = fmempty, dq_trace_context = None\<rparr>))"

text \<open>A typed request. The query type gives its context, name, schema version and what \<open>serde\<close> does
  with its values, its responses and the messages that carry them.\<close>

record 'q typed_query_request =
  tq_query :: 'q
  tq_message_id :: "message_id option"
  tq_correlation_id :: "correlation_id option"
  tq_causation_id :: "causation_id option"
  tq_created_at :: "u64 option"
  tq_metadata :: caller_metadata
  tq_trace_context :: "trace_context option"

definition typed_query_request_new :: "'q \<Rightarrow> 'q typed_query_request" where
  "typed_query_request_new query =
     \<lparr>tq_query = query, tq_message_id = None, tq_correlation_id = None, tq_causation_id = None,
      tq_created_at = None, tq_metadata = fmempty, tq_trace_context = None\<rparr>"

record ('q, 'r) query_type =
  qt_context :: string
  qt_name :: string
  qt_schema_version :: u32
  qt_to_value :: "'q \<Rightarrow> string + json"
  qt_from_value :: "json \<Rightarrow> string + 'q"
  qt_request_to_vec :: "'q query_request \<Rightarrow> string + bytes"
  qt_response_to_value :: "'r \<Rightarrow> string + json"
  qt_response_from_value :: "json \<Rightarrow> string + 'r"
  qt_response_to_vec :: "'r query_response \<Rightarrow> string + bytes"

record query_externals =
  qx_routed_to_vec :: "routed_query query_request \<Rightarrow> string + bytes"
  qx_request_to_vec :: "json query_request \<Rightarrow> string + bytes"
  qx_response_to_vec :: "json query_response \<Rightarrow> string + bytes"

record encoded_query =
  en_address :: query_address
  en_request :: "routed_query query_request"

definition query_current_timestamp :: "nat option \<Rightarrow> query_bus_error + u64" where
  "query_current_timestamp clock =
     rbind (ok_or (query_encoding QueryClockBeforeEpoch) clock) (\<lambda>millis.
     rbind (ok_or (query_encoding QueryClockOutOfRange) (u64_try_from millis)) (\<lambda>millis.
     map_err (\<lambda>e. query_encoding (QueryContract e))
       (MessageTimestamp_from_unix_milliseconds millis)))"

definition next_query_request_id :: "string \<Rightarrow> query_bus_error + message_id" where
  "next_query_request_id uuid =
     map_err (\<lambda>e. query_encoding (QueryContract e)) (MessageId_new (''query-'' @ uuid))"

definition query_encode_dynamic ::
  "query_externals \<Rightarrow> nat option \<Rightarrow> string \<Rightarrow> bounded_context \<Rightarrow> dynamic_query_request \<Rightarrow>
   query_bus_error + encoded_query" where
  "query_encode_dynamic E clock uuid context request =
     rbind (map_err (\<lambda>e. query_encoding (QueryContract e))
              (query_address_of context (dq_query request))) (\<lambda>address.
     rbind (case dq_created_at request of
              Some t \<Rightarrow> Inr t | None \<Rightarrow> query_current_timestamp clock) (\<lambda>created.
     rbind (case dq_message_id request of
              Some i \<Rightarrow> Inr i | None \<Rightarrow> next_query_request_id uuid) (\<lambda>i.
     rbind (case dq_correlation_id request of
              Some c \<Rightarrow> Inr c
            | None \<Rightarrow> map_err (\<lambda>e. query_encoding (QueryContract e)) (CorrelationId_new i)) (\<lambda>correlation.
     rbind (map_err (\<lambda>e. query_encoding (QueryContract e))
              (SchemaVersion_new (dq_schema_version request))) (\<lambda>schema.
     rbind (map_err (\<lambda>e. query_encoding (QueryRoute e))
              (RoutedQuery_new (bx_name context) (dq_query request) (dq_schema_version request)
                 (dq_payload request))) (\<lambda>routed.
     rbind (map_err (\<lambda>e. query_encoding (QueryBuild e))
              (query_request_new (qx_routed_to_vec E)
                 \<lparr>ec_message_id = i, ec_schema_version = schema, ec_correlation_id = correlation,
                  ec_causation_id = dq_causation_id request\<rparr>
                 created (dq_metadata request) (dq_trace_context request) routed)) (\<lambda>m.
     Inr \<lparr>en_address = address, en_request = m\<rparr>)))))))"

text \<open>\<open>QueryMessageAdapter::request\<close> is the argument \<open>adapter\<close>.\<close>

definition query_request_dynamic ::
  "query_externals \<Rightarrow> nat option \<Rightarrow> string \<Rightarrow> bounded_context \<Rightarrow>
   (encoded_query \<Rightarrow> query_options \<Rightarrow> json query_result) \<Rightarrow> dynamic_query_request \<Rightarrow>
   query_options \<Rightarrow> query_bus_error + json query_response" where
  "query_request_dynamic E clock uuid context adapter request options =
     rbind (query_encode_dynamic E clock uuid context request) (\<lambda>encoded.
     rbind (map_err query_request_failed (adapter encoded options)) (\<lambda>response.
     if qr_request_id response \<noteq> qm_message_id (en_request encoded)
       \<or> qr_schema_version response \<noteq> qm_schema_version (en_request encoded)
       \<or> qr_correlation_id response \<noteq> qm_correlation_id (en_request encoded)
     then Inl (query_bus_error_new QueryBusInvalidResponse QueryIdentityDiffers)
     else Inr response))"

definition decode_query_response ::
  "('q, 'r) query_type \<Rightarrow> json query_response \<Rightarrow> query_bus_error + 'r query_response" where
  "decode_query_response Q response =
     (let invalid = (\<lambda>m. query_bus_error_new QueryBusInvalidResponse m) in
      case qr_outcome response of
        QuerySuccess payload \<Rightarrow>
          rbind (map_err (\<lambda>m. invalid (QueryExternal m)) (qt_response_from_value Q payload))
            (\<lambda>payload.
          map_err (\<lambda>e. invalid (QueryBuild e))
            (query_response_success (qt_response_to_vec Q) (qr_request_id response)
               (qr_schema_version response) (qr_responded_at response)
               (qr_correlation_id response) (qr_trace_context response) payload))
      | QueryError e \<Rightarrow>
          map_err (\<lambda>e. invalid (QueryBuild e))
            (query_response_error (qt_response_to_vec Q) (qr_request_id response)
               (qr_schema_version response) (qr_responded_at response)
               (qr_correlation_id response) (qr_trace_context response) e))"

definition query_bus_request ::
  "query_externals \<Rightarrow> nat option \<Rightarrow> string \<Rightarrow> bounded_context \<Rightarrow>
   (encoded_query \<Rightarrow> query_options \<Rightarrow> json query_result) \<Rightarrow> ('q, 'r) query_type \<Rightarrow>
   'q typed_query_request \<Rightarrow> query_options \<Rightarrow> query_bus_error + 'r query_response" where
  "query_bus_request E clock uuid context adapter Q request options =
     (if qt_context Q \<noteq> bx_name context then
        Inl (query_encoding (QueryContextDiffers (qt_name Q) (qt_context Q) (bx_name context)))
      else
        rbind (map_err (\<lambda>m. query_encoding (QueryExternal m)) (qt_to_value Q (tq_query request)))
          (\<lambda>payload.
        rbind (query_request_dynamic E clock uuid context adapter
                 \<lparr>dq_query = qt_name Q, dq_schema_version = qt_schema_version Q,
                  dq_payload = payload, dq_message_id = tq_message_id request,
                  dq_correlation_id = tq_correlation_id request,
                  dq_causation_id = tq_causation_id request,
                  dq_created_at = tq_created_at request, dq_metadata = tq_metadata request,
                  dq_trace_context = tq_trace_context request\<rparr>
                 options) (\<lambda>response.
        decode_query_response Q response)))"

section \<open>The query processor\<close>

definition framework_query_error ::
  "query_error_classification \<Rightarrow> string \<Rightarrow> string \<Rightarrow> query_error_payload" where
  "framework_query_error classification code msg =
     (case rbind (ApplicationErrorCode_new code) (\<lambda>code.
             query_error_payload_new classification code msg) of
        Inr e \<Rightarrow> e
      | Inl _ \<Rightarrow> internal_error)"

definition invalid_query_payload :: query_error_payload where
  "invalid_query_payload =
     framework_query_error QueryInvalidRequest ''rostfrei.query.invalid-payload''
       ''The query payload is invalid.''"

definition inconsistent_query :: query_error_payload where
  "inconsistent_query =
     framework_query_error QueryInvalidRequest ''rostfrei.query.invalid''
       ''The query envelope and route are inconsistent.''"

definition unknown_query :: query_error_payload where
  "unknown_query =
     framework_query_error QueryInvalidRequest ''rostfrei.query.unknown''
       ''The query name or schema version is not registered.''"

type_synonym ('w, 'q, 'r) query_handler = "'w \<Rightarrow> 'q query_request \<Rightarrow> query_error_payload + 'r"

type_synonym query_binding_key = "string \<times> string \<times> u32"

definition typed_query_binding ::
  "('q, 'r) query_type \<Rightarrow> ('w, 'q, 'r) query_handler \<Rightarrow> ('w, json, json) query_handler" where
  "typed_query_binding Q handler w request =
     rbind (map_err (\<lambda>_. invalid_query_payload) (qt_from_value Q (qm_payload request))) (\<lambda>query.
     rbind (map_err (\<lambda>_. internal_error)
              (query_request_rebuild (qt_request_to_vec Q) request query)) (\<lambda>typed.
     rbind (handler w typed) (\<lambda>response.
     map_err (\<lambda>_. internal_error) (qt_response_to_value Q response))))"

datatype query_binding_registration_error =
  InvalidQueryDefinition contract_error
| DuplicateQuery string string u32

type_synonym 'w query_processor = "(query_binding_key, ('w, json, json) query_handler) fmap"

definition query_processor_register ::
  "('q, 'r) query_type \<Rightarrow> ('w, 'q, 'r) query_handler \<Rightarrow> 'w query_processor \<Rightarrow>
   query_binding_registration_error + 'w query_processor" where
  "query_processor_register Q handler P =
     rbind (map_err InvalidQueryDefinition
              (rbind (QueryAddress_new ''rostfrei'' (qt_context Q) (qt_name Q)) (\<lambda>_.
               SchemaVersion_new (qt_schema_version Q)))) (\<lambda>_.
     let key = (qt_context Q, qt_name Q, qt_schema_version Q) in
     if fmlookup P key \<noteq> None
     then Inl (DuplicateQuery (qt_context Q) (qt_name Q) (qt_schema_version Q))
     else Inr (fmupd key (typed_query_binding Q handler) P))"

definition query_process ::
  "query_externals \<Rightarrow> 'w query_processor \<Rightarrow> 'w \<Rightarrow> query_address \<Rightarrow> routed_query query_request \<Rightarrow>
   query_error_payload + json" where
  "query_process E P w address request =
     (let routed = qm_payload request in
      if address_context address \<noteq> rq_bounded_context routed
        \<or> address_name address \<noteq> rq_query routed
        \<or> qm_schema_version request \<noteq> rq_schema_version routed
      then Inl inconsistent_query
      else
        (case fmlookup P (rq_bounded_context routed, rq_query routed, rq_schema_version routed) of
           None \<Rightarrow> Inl unknown_query
         | Some binding \<Rightarrow>
             rbind (map_err (\<lambda>_. internal_error)
                      (query_request_rebuild (qx_request_to_vec E) request (rq_payload routed)))
               (binding w)))"

section \<open>The in-memory adapter\<close>

definition in_memory_query ::
  "query_externals \<Rightarrow> nat option \<Rightarrow> bool \<Rightarrow> 'w query_processor \<Rightarrow> 'w \<Rightarrow> encoded_query \<Rightarrow>
   query_options \<Rightarrow> json query_result" where
  "in_memory_query E clock late P w query options =
     (let request = en_request query in
      if late then Inl RequestTimeout
      else
        (let outcome = query_process E P w (en_address query) request in
         rbind (map_err (\<lambda>_. RequestInvalidResponse) (query_current_timestamp clock))
           (\<lambda>responded.
         rbind (map_err (\<lambda>_. RequestInvalidResponse)
                  (case outcome of
                     Inr payload \<Rightarrow>
                       query_response_success (qx_response_to_vec E) (qm_message_id request)
                         (qm_schema_version request) responded (qm_correlation_id request)
                         (qm_trace_context request) payload
                   | Inl e \<Rightarrow>
                       query_response_error (qx_response_to_vec E) (qm_message_id request)
                         (qm_schema_version request) responded (qm_correlation_id request)
                         (qm_trace_context request) e)) (\<lambda>response.
         rbind (map_err (\<lambda>_. RequestInvalidResponse) (qx_response_to_vec E response)) (\<lambda>encoded.
         if qo_maximum_response_bytes options < length encoded then Inl RequestResponseTooLarge
         else Inr response)))))"

section \<open>Facts\<close>

lemma query_request_new_ok_iff:
  "query_request_new to_vec ctx created metadata trace payload = Inr m \<longleftrightarrow>
     m = \<lparr>qm_message_id = ec_message_id ctx, qm_schema_version = ec_schema_version ctx,
          qm_created_at = created, qm_correlation_id = ec_correlation_id ctx,
          qm_causation_id = ec_causation_id ctx, qm_metadata = metadata,
          qm_trace_context = trace, qm_payload = payload\<rparr>
     \<and> validate_serialized_size to_vec m = Inr ()"
  by (auto simp: query_request_new_def result_simps Let_def)

lemma query_response_new_ok_iff:
  "query_response_new to_vec i schema responded correlation trace outcome = Inr r \<longleftrightarrow>
     r = \<lparr>qr_request_id = i, qr_schema_version = schema, qr_responded_at = responded,
          qr_correlation_id = correlation, qr_trace_context = trace, qr_outcome = outcome\<rparr>
     \<and> validate_serialized_size to_vec r = Inr ()"
  by (auto simp: query_response_new_def result_simps Let_def)

text \<open>The request with another payload, and what a handler's answer to it looks like from outside.\<close>

definition with_query :: "'p query_request \<Rightarrow> 'q \<Rightarrow> 'q query_request" where
  "with_query m payload =
     \<lparr>qm_message_id = qm_message_id m, qm_schema_version = qm_schema_version m,
      qm_created_at = qm_created_at m, qm_correlation_id = qm_correlation_id m,
      qm_causation_id = qm_causation_id m, qm_metadata = qm_metadata m,
      qm_trace_context = qm_trace_context m, qm_payload = payload\<rparr>"

lemma with_query_sel [simp]:
  "qm_message_id (with_query m p) = qm_message_id m"
  "qm_schema_version (with_query m p) = qm_schema_version m"
  "qm_created_at (with_query m p) = qm_created_at m"
  "qm_correlation_id (with_query m p) = qm_correlation_id m"
  "qm_causation_id (with_query m p) = qm_causation_id m"
  "qm_metadata (with_query m p) = qm_metadata m"
  "qm_trace_context (with_query m p) = qm_trace_context m"
  "qm_payload (with_query m p) = p"
  "with_query (with_query m p) p' = with_query m p'"
  by (simp_all add: with_query_def)

lemma query_request_rebuild_eq:
  "query_request_rebuild to_vec m payload =
     map_ok (\<lambda>_. with_query m payload) (validate_serialized_size to_vec (with_query m payload))"
  by (simp add: query_request_rebuild_def query_request_new_def with_query_def Let_def
      rbind_def map_ok_def split: sum.split)

definition fits :: "('a \<Rightarrow> string + bytes) \<Rightarrow> 'a \<Rightarrow> bool" where
  "fits to_vec m \<longleftrightarrow> is_ok (validate_serialized_size to_vec m)"

definition query_answer ::
  "query_externals \<Rightarrow> ('q, 'r) query_type \<Rightarrow> ('w, 'q, 'r) query_handler \<Rightarrow> 'w \<Rightarrow> json \<Rightarrow>
   'q query_request \<Rightarrow> 'r query_outcome" where
  "query_answer E Q handler w v m =
     (if \<not> fits (qx_request_to_vec E) (with_query m v) \<or> \<not> fits (qt_request_to_vec Q) m
      then QueryError internal_error
      else
        (case handler w m of
           Inl e \<Rightarrow> QueryError e
         | Inr r \<Rightarrow> if is_ok (qt_response_to_value Q r) then QuerySuccess r
                    else QueryError internal_error))"

lemma query_address_accessors:
  assumes "query_address_of bx name = Inr address"
  shows "address_context address = bx_name bx" "address_name address = name"
  using assms built_accessors by (auto simp: query_address_of_def QueryAddress_new_in_scope_def)

lemma query_encode_dynamic_ok:
  assumes "query_encode_dynamic E clock uuid context request = Inr encoded"
  shows "query_address_of context (dq_query request) = Inr (en_address encoded)"
    and "qm_message_id (en_request encoded) =
      (case dq_message_id request of Some i \<Rightarrow> i | None \<Rightarrow> ''query-'' @ uuid)"
    and "qm_correlation_id (en_request encoded) =
      (case dq_correlation_id request of Some c \<Rightarrow> c | None \<Rightarrow> qm_message_id (en_request encoded))"
    and "qm_schema_version (en_request encoded) = dq_schema_version request"
    and "qm_causation_id (en_request encoded) = dq_causation_id request"
    and "qm_metadata (en_request encoded) = dq_metadata request"
    and "qm_trace_context (en_request encoded) = dq_trace_context request"
    and "qm_payload (en_request encoded) =
      \<lparr>rq_bounded_context = bx_name context, rq_query = dq_query request,
       rq_schema_version = dq_schema_version request, rq_payload = dq_payload request\<rparr>"
  using assms
  by (auto simp: query_encode_dynamic_def result_simps query_request_new_ok_iff
      RoutedQuery_new_def SchemaVersion_new_def next_query_request_id_def MessageId_new_def
      CorrelationId_new_def validate_identifier_ok_iff split: option.splits if_splits)

lemma typed_query_binding_answer:
  assumes "qt_from_value Q v = Inr q"
  shows "typed_query_binding Q handler w (with_query m v) =
    (if \<not> fits (qt_request_to_vec Q) (with_query m q) then Inl internal_error
     else rbind (handler w (with_query m q)) (\<lambda>r.
       map_err (\<lambda>_. internal_error) (qt_response_to_value Q r)))"
  using assms
  by (cases "validate_serialized_size (qt_request_to_vec Q) (with_query m q)")
    (simp_all add: typed_query_binding_def query_request_rebuild_eq fits_def map_ok_def)

lemma query_process_answer:
  assumes "query_address_of context (rq_query (qm_payload m)) = Inr address"
    and "rq_bounded_context (qm_payload m) = bx_name context"
    and "rq_schema_version (qm_payload m) = qm_schema_version m"
    and "fmlookup P (bx_name context, rq_query (qm_payload m), qm_schema_version m) =
      Some (typed_query_binding Q handler)"
    and "qt_from_value Q (rq_payload (qm_payload m)) = Inr q"
  shows "(case query_process E P w address m of Inl e \<Rightarrow> QueryError e | Inr v \<Rightarrow> QuerySuccess v) =
    (case query_answer E Q handler w (rq_payload (qm_payload m)) (with_query m q) of
       QueryError e \<Rightarrow> QueryError e
     | QuerySuccess r \<Rightarrow> QuerySuccess (projr (qt_response_to_value Q r)))"
proof (cases "validate_serialized_size (qx_request_to_vec E)
    (with_query m (rq_payload (qm_payload m)))")
  case (Inl e)
  then show ?thesis
    using assms query_address_accessors [OF assms(1)]
    by (simp add: query_process_def query_request_rebuild_eq query_answer_def fits_def map_ok_def
        Let_def)
next
  case (Inr u)
  then have "query_process E P w address m =
      typed_query_binding Q handler w (with_query m (rq_payload (qm_payload m)))"
    using assms query_address_accessors [OF assms(1)]
    by (simp add: query_process_def query_request_rebuild_eq map_ok_def Let_def)
  then show ?thesis
    using Inr unfolding typed_query_binding_answer [OF assms(5)]
    by (auto simp: query_answer_def fits_def rbind_def map_err_def is_ok_iff split: sum.splits)
qed

end
