(* ===== verification/IntegrationEvents.thy ===== *)
theory IntegrationEvents
  imports Processor ReadModels
begin

text \<open>
  Integration events: publication of committed domain events under a public contract
  (\<open>rostfrei-runtime/src/integration_event_bus.rs\<close> and the publishing side of
  \<open>in_memory_messaging.rs\<close>) and the commands that incoming integration events are mapped to
  (\<open>integration_event.rs\<close>). The event types are those of \<open>ReadModels\<close>; mappers are application code.
\<close>

section \<open>Errors\<close>

datatype integration_text =
  IntegrationContract contract_error
| IntegrationBuild message_build_error
| IntegrationExternal string
| IntegrationEnvelopeText envelope_error_text
| IntegrationCanonical command_bus_error
| CorrelationRequired
| ForeignProducer
| CausationMissing
| CausationInvalid identity_error
| IntegrationInconsistent
| IntegrationClockBeforeEpoch
| IntegrationClockOutOfRange

datatype integration_event_bus_error_kind =
  IntegrationInvalidContext | IntegrationEncoding | IntegrationInvalidMessage | IntegrationTimeout
| IntegrationUnavailable | IntegrationInvalidConfiguration | IntegrationRejected

record integration_event_bus_error =
  ib_kind :: integration_event_bus_error_kind
  ib_message :: integration_text

definition integration_error_new ::
  "integration_event_bus_error_kind \<Rightarrow> integration_text \<Rightarrow> integration_event_bus_error" where
  "integration_error_new kind msg = \<lparr>ib_kind = kind, ib_message = msg\<rparr>"

definition integration_encoding :: "integration_text \<Rightarrow> integration_event_bus_error" where
  "integration_encoding msg = integration_error_new IntegrationEncoding msg"

definition invalid_integration_message :: "integration_text \<Rightarrow> integration_event_bus_error" where
  "invalid_integration_message msg = integration_error_new IntegrationInvalidMessage msg"

fun publication_classification ::
  "integration_event_bus_error_kind \<Rightarrow> domain_event_handler_error_kind" where
  "publication_classification IntegrationInvalidContext = HandlerInvalidCommittedEvent"
| "publication_classification IntegrationTimeout = HandlerRetryable"
| "publication_classification IntegrationUnavailable = HandlerRetryable"
| "publication_classification IntegrationEncoding = HandlerOperatorBlocking"
| "publication_classification IntegrationInvalidMessage = HandlerOperatorBlocking"
| "publication_classification IntegrationInvalidConfiguration = HandlerOperatorBlocking"
| "publication_classification IntegrationRejected = HandlerOperatorBlocking"

definition classify_publication_error ::
  "integration_event_bus_error \<Rightarrow> integration_event_bus_error domain_event_handler_error" where
  "classify_publication_error e =
     handler_error_new (publication_classification (ib_kind e)) (HandlerOwn e)"

section \<open>Encoding\<close>

record committed_event_context =
  cec_actor :: "actor_ref option"
  cec_source_event_id :: event_id
  cec_correlation_id :: correlation_id
  cec_occurred_at :: "u64 option"

definition committed_event_context_new ::
  "recorded_event \<Rightarrow> integration_event_bus_error + committed_event_context" where
  "committed_event_context_new event =
     rbind (ok_or (integration_error_new IntegrationInvalidContext CorrelationRequired)
              (re_correlation_id event)) (\<lambda>correlation.
     Inr \<lparr>cec_actor = re_actor event, cec_source_event_id = re_event_id event,
          cec_correlation_id = correlation, cec_occurred_at = None\<rparr>)"

definition integration_message_id ::
  "(bytes \<Rightarrow> bytes) \<Rightarrow> integration_event_address \<Rightarrow> u32 \<Rightarrow> event_id \<Rightarrow>
   integration_event_bus_error + message_id" where
  "integration_message_id sha address schema source =
     map_err (\<lambda>e. integration_encoding (IntegrationContract e))
       (MessageId_new (fingerprint_to_hex (framed_fingerprint sha
          [str_bytes ''rostfrei:integration-event-message:v1'', str_bytes address,
           be_bytes 4 (unat schema), str_bytes source])))"

definition integration_timestamp :: "nat option \<Rightarrow> integration_event_bus_error + u64" where
  "integration_timestamp clock =
     rbind (ok_or (integration_encoding IntegrationClockBeforeEpoch) clock) (\<lambda>millis.
     rbind (ok_or (integration_encoding IntegrationClockOutOfRange) (u64_try_from millis)) (\<lambda>millis.
     map_err (\<lambda>e. integration_encoding (IntegrationContract e))
       (MessageTimestamp_from_unix_milliseconds millis)))"

text \<open>\<open>canonical_serialize\<close> of an integration envelope.\<close>

definition integration_canonical ::
  "runtime_externals \<Rightarrow> 'e integration_event_type \<Rightarrow> 'e integration_event_envelope \<Rightarrow>
   command_bus_error + bytes" where
  "integration_canonical E I envelope =
     rbind (map_err (\<lambda>m. bus_encoding (Rt_external m)) (ie_envelope_to_value I envelope))
       (canonical_json_bytes E)"

definition integration_encode ::
  "runtime_externals \<Rightarrow> nat option \<Rightarrow> bounded_context \<Rightarrow> 'e integration_event_type \<Rightarrow>
   committed_event_context \<Rightarrow> 'e \<Rightarrow> integration_event_bus_error + encoded_integration_message" where
  "integration_encode E clock context I committed event =
     (if (case ie_bounded_context I of None \<Rightarrow> False | Some producer \<Rightarrow> producer \<noteq> bx_name context)
      then Inl (integration_error_new IntegrationInvalidConfiguration ForeignProducer)
      else
        rbind (map_err (\<lambda>e. integration_encoding (IntegrationContract e))
                 (integration_event_address_of context (ie_event_name I))) (\<lambda>address.
        rbind (map_err (\<lambda>e. integration_encoding (IntegrationContract e))
                 (SchemaVersion_new (ie_schema_version I))) (\<lambda>schema.
        rbind (integration_message_id (rx_sha256 E) address schema
                 (cec_source_event_id committed)) (\<lambda>i.
        rbind (map_err (\<lambda>e. integration_encoding (IntegrationContract e))
                 (CausationId_new (cec_source_event_id committed))) (\<lambda>causation.
        rbind (case cec_occurred_at committed of
                 Some t \<Rightarrow> Inr t | None \<Rightarrow> integration_timestamp clock) (\<lambda>occurred.
        rbind (map_err (\<lambda>e. integration_encoding (IntegrationBuild e))
                 (integration_envelope_new (ie_envelope_to_vec I)
                    \<lparr>ec_message_id = i, ec_schema_version = schema,
                     ec_correlation_id = cec_correlation_id committed,
                     ec_causation_id = Some causation\<rparr> occurred event)) (\<lambda>envelope.
        rbind (case cec_actor committed of
                 None \<Rightarrow> Inr envelope
               | Some actor \<Rightarrow>
                   map_err (\<lambda>e. integration_encoding (IntegrationBuild e))
                     (integration_envelope_with_actor (ie_envelope_to_vec I) actor envelope))
          (\<lambda>envelope.
        rbind (map_err (\<lambda>e. integration_encoding (IntegrationCanonical e))
                 (integration_canonical E I envelope)) (\<lambda>payload.
        rbind (map_err (\<lambda>e. integration_encoding (IntegrationBuild e))
                 (outbound_new address i payload)) (\<lambda>m.
        Inr (m\<lparr>ob_correlation_id := Some (cec_correlation_id committed)\<rparr>)))))))))))"

definition integration_from_delivery ::
  "integration_event_address \<Rightarrow> message_id \<Rightarrow> bytes \<Rightarrow> correlation_id option \<Rightarrow>
   integration_event_bus_error + encoded_integration_message" where
  "integration_from_delivery address i payload correlation =
     rbind (map_err (\<lambda>e. integration_encoding (IntegrationBuild e))
              (outbound_new address i payload)) (\<lambda>m.
     Inr (case correlation of None \<Rightarrow> m | Some c \<Rightarrow> m\<lparr>ob_correlation_id := Some c\<rparr>))"

definition integration_decode ::
  "(bytes \<Rightarrow> bytes) \<Rightarrow> 'e integration_event_type \<Rightarrow> encoded_integration_message \<Rightarrow>
   integration_event_bus_error + 'e integration_event_envelope" where
  "integration_decode sha I m =
     rbind (map_err integration_encoding
              (rbind (map_err IntegrationExternal (ie_envelope_from_slice I (ob_payload m)))
                 (\<lambda>wire. map_err IntegrationEnvelopeText
                    (integration_envelope_from_wire (ie_envelope_to_vec I) wire)))) (\<lambda>envelope.
     rbind (ok_or (invalid_integration_message CausationMissing) (iv_causation_id envelope))
       (\<lambda>causation.
     rbind (map_err (\<lambda>e. invalid_integration_message (CausationInvalid e)) (EventId_new causation))
       (\<lambda>source.
     rbind (integration_message_id sha (ob_address m) (iv_schema_version envelope) source)
       (\<lambda>expected.
     if iv_message_id envelope \<noteq> ob_message_id m
       \<or> ob_message_id m \<noteq> expected
       \<or> ob_correlation_id m \<noteq> Some (iv_correlation_id envelope)
       \<or> address_name (ob_address m) \<noteq> ie_event_name I
       \<or> iv_schema_version envelope \<noteq> ie_schema_version I
     then Inl (integration_error_new IntegrationInvalidMessage IntegrationInconsistent)
     else Inr envelope))))"

section \<open>Publishing\<close>

text \<open>The bus with an adapter that acts on its own state; the receipt says whether the message was
  published before.\<close>

type_synonym 'a integration_adapter =
  "encoded_integration_message \<Rightarrow> 'a \<Rightarrow> (integration_event_bus_error + bool) \<times> 'a"

definition integration_publish ::
  "runtime_externals \<Rightarrow> nat option \<Rightarrow> bounded_context \<Rightarrow> 'a integration_adapter \<Rightarrow>
   'e integration_event_type \<Rightarrow> committed_event_context \<Rightarrow> 'e \<Rightarrow> 'a \<Rightarrow>
   (integration_event_bus_error + message_id \<times> bool) \<times> 'a" where
  "integration_publish E clock context adapter I committed event s =
     (case integration_encode E clock context I committed event of
        Inl e \<Rightarrow> (Inl e, s)
      | Inr m \<Rightarrow>
          (case adapter m s of
             (Inl e, s) \<Rightarrow> (Inl e, s)
           | (Inr duplicate, s) \<Rightarrow> (Inr (ob_message_id m, duplicate), s)))"

definition integration_event_publisher ::
  "runtime_externals \<Rightarrow> nat option \<Rightarrow> bounded_context \<Rightarrow> 'a integration_adapter \<Rightarrow>
   'e integration_event_type \<Rightarrow> ('d committed_domain_event \<Rightarrow> 'e) \<Rightarrow>
   ('a, 'd, integration_event_bus_error) domain_event_handler" where
  "integration_event_publisher E clock context adapter I mapper event s =
     (case committed_event_context_new (cde_recorded event) of
        Inl e \<Rightarrow> (Inl (classify_publication_error e), s)
      | Inr committed \<Rightarrow>
          (case integration_publish E clock context adapter I committed (mapper event) s of
             (Inl e, s) \<Rightarrow> (Inl (classify_publication_error e), s)
           | (Inr _, s) \<Rightarrow> (Inr (), s)))"

definition register_integration_event ::
  "runtime_externals \<Rightarrow> nat option \<Rightarrow> ('st, 'ev) aggregate_model \<Rightarrow> string \<Rightarrow> ('ev \<Rightarrow> 'd option) \<Rightarrow>
   bounded_context \<Rightarrow> 'a integration_adapter \<Rightarrow> 'e integration_event_type \<Rightarrow>
   ('d committed_domain_event \<Rightarrow> 'e) \<Rightarrow>
   ('st, 'ev, 'a, integration_event_bus_error) domain_event_dispatcher \<Rightarrow>
   (domain_event_registration_error + unit)
     \<times> ('st, 'ev, 'a, integration_event_bus_error) domain_event_dispatcher" where
  "register_integration_event E clock A local_id variant context adapter I mapper d =
     dispatcher_register A local_id variant
       (integration_event_publisher E clock context adapter I mapper) d"

text \<open>\<open>InMemoryMessagingAdapter::publish\<close>.\<close>

definition publish_in_memory :: "in_memory_messaging integration_adapter" where
  "publish_in_memory m s =
     (if fmlookup (im_integration_events s) (ob_message_id m) \<noteq> None then (Inr True, s)
      else
        (Inr False,
         s\<lparr>im_integration_messages := im_integration_messages s @ [m],
           im_integration_events := fmupd (ob_message_id m) m (im_integration_events s)\<rparr>))"

section \<open>Commands caused by integration events\<close>

datatype 'x integration_processing_error =
  ProcessingMapper 'x
| ProcessingIdentity runtime_message
| ProcessingCommandBus command_bus_error

record ('e, 'x, 'c) integration_event_processor =
  ip_command_bus :: command_bus
  ip_durable_name :: string
  ip_mapper :: "'e \<Rightarrow> 'x + 'c"
  ip_command_type :: "'c command_type"

definition integration_operation_id ::
  "(bytes \<Rightarrow> bytes) \<Rightarrow> string \<Rightarrow> message_id \<Rightarrow> identity_error + operation_id" where
  "integration_operation_id sha durable i =
     OperationId_new (''integration:'' @ fingerprint_to_hex (framed_fingerprint sha
       [str_bytes ''rostfrei:integration-operation:v2'', str_bytes durable, str_bytes i]))"

definition command_bus_dispatch ::
  "runtime_externals \<Rightarrow> nat option \<Rightarrow>
   (encoded_command \<Rightarrow> 'a \<Rightarrow> (command_bus_error + command_bus_receipt) \<times> 'a) \<Rightarrow>
   command_bus \<Rightarrow> 'c command_type \<Rightarrow> 'c command_request \<Rightarrow> 'a \<Rightarrow>
   (command_bus_error + command_bus_receipt) \<times> 'a" where
  "command_bus_dispatch E clock dispatch bus C request s =
     (case encode E clock bus C request of
        Inl e \<Rightarrow> (Inl e, s)
      | Inr command \<Rightarrow> dispatch_encoded E dispatch bus command s)"

definition integration_request ::
  "(bytes \<Rightarrow> bytes) \<Rightarrow> ('e, 'x, 'c) integration_event_processor \<Rightarrow> 'e integration_event_envelope \<Rightarrow>
   'x integration_processing_error + 'c command_request" where
  "integration_request sha P envelope =
     rbind (map_err ProcessingMapper (ip_mapper P (iv_payload envelope))) (\<lambda>command.
     rbind (map_err (\<lambda>e. ProcessingIdentity (Rt_identity e))
              (integration_operation_id sha (ip_durable_name P) (iv_message_id envelope))) (\<lambda>op.
     rbind (map_err (\<lambda>e. ProcessingIdentity (Rt_contract e))
              (CausationId_new (iv_message_id envelope))) (\<lambda>causation.
     Inr ((command_request_new op command)
            \<lparr>cq_correlation_id := Some (iv_correlation_id envelope),
             cq_causation_id := Some causation, cq_created_at := Some (iv_occurred_at envelope),
             cq_events_caused_by_command := True, cq_actor := iv_actor envelope\<rparr>))))"

definition integration_command ::
  "runtime_externals \<Rightarrow> nat option \<Rightarrow>
   (encoded_command \<Rightarrow> 'a \<Rightarrow> (command_bus_error + command_bus_receipt) \<times> 'a) \<Rightarrow>
   ('e, 'x, 'c) integration_event_processor \<Rightarrow> 'e integration_event_envelope \<Rightarrow> 'a \<Rightarrow>
   ('x integration_processing_error + command_bus_receipt) \<times> 'a" where
  "integration_command E clock dispatch P envelope s =
     (case integration_request (rx_sha256 E) P envelope of
        Inl e \<Rightarrow> (Inl e, s)
      | Inr request \<Rightarrow>
          (case command_bus_dispatch E clock dispatch (ip_command_bus P) (ip_command_type P)
                  request s of
             (Inl e, s) \<Rightarrow> (Inl (ProcessingCommandBus e), s)
           | (Inr receipt, s) \<Rightarrow> (Inr receipt, s)))"

definition quarantine_or_terminate :: "string \<Rightarrow> delivery_disposition" where
  "quarantine_or_terminate reason =
     (case quarantine_reason_new reason of Inl _ \<Rightarrow> Terminate | Inr r \<Rightarrow> Quarantine r)"

definition integration_command_handle ::
  "runtime_externals \<Rightarrow> nat option \<Rightarrow>
   (encoded_command \<Rightarrow> 'a \<Rightarrow> (command_bus_error + command_bus_receipt) \<times> 'a) \<Rightarrow>
   'e integration_event_type \<Rightarrow> ('e, 'x, 'c) integration_event_processor \<Rightarrow> duration \<Rightarrow>
   message_delivery \<Rightarrow> 'a \<Rightarrow> delivery_disposition \<times> 'a" where
  "integration_command_handle E clock dispatch I P delay delivery s =
     (case rbind (integration_from_delivery (publishable_as_str (dl_address delivery))
                    (dl_message_id delivery) (dl_payload delivery) (dl_correlation_id delivery))
             (integration_decode (rx_sha256 E) I) of
        Inl _ \<Rightarrow> (quarantine_or_terminate ''invalid integration event envelope'', s)
      | Inr envelope \<Rightarrow>
          (case integration_command E clock dispatch P envelope s of
             (Inr _, s) \<Rightarrow> (Acknowledge, s)
           | (Inl (ProcessingMapper _), s) \<Rightarrow>
               (quarantine_or_terminate ''integration command mapping failed'', s)
           | (Inl (ProcessingIdentity _), s) \<Rightarrow>
               (quarantine_or_terminate ''integration command mapping produced an invalid command'', s)
           | (Inl (ProcessingCommandBus e), s) \<Rightarrow>
               (if bus_is_retryable e then RetryLater delay
                else if be_execution_failure e \<noteq> None then
                  quarantine_or_terminate
                    ''technical command execution is blocked; repair and redrive required''
                else
                  quarantine_or_terminate
                    ''integration command mapping produced an invalid command'', s)))"

section \<open>Facts\<close>

lemma integration_address_accessors:
  assumes "integration_event_address_of bx name = Inr address"
  shows "address_context address = bx_name bx" "address_name address = name"
  using assms built_accessors
  by (auto simp: integration_event_address_of_def IntegrationEventAddress_new_in_scope_def)

text \<open>The envelope of a message that was encoded.\<close>

definition committed_envelope ::
  "'e integration_event_type \<Rightarrow> committed_event_context \<Rightarrow> 'e \<Rightarrow> message_id \<Rightarrow> u64 \<Rightarrow>
   'e integration_event_envelope" where
  "committed_envelope I committed event i occurred =
     \<lparr>iv_message_id = i, iv_schema_version = ie_schema_version I, iv_occurred_at = occurred,
      iv_correlation_id = cec_correlation_id committed,
      iv_causation_id = Some (cec_source_event_id committed), iv_payload = event,
      iv_metadata_version = (if cec_actor committed = None then None else Some 2),
      iv_actor = cec_actor committed\<rparr>"

lemma committed_envelope_sel [simp]:
  "iv_message_id (committed_envelope I c ev i t) = i"
  "iv_schema_version (committed_envelope I c ev i t) = ie_schema_version I"
  "iv_occurred_at (committed_envelope I c ev i t) = t"
  "iv_correlation_id (committed_envelope I c ev i t) = cec_correlation_id c"
  "iv_causation_id (committed_envelope I c ev i t) = Some (cec_source_event_id c)"
  "iv_payload (committed_envelope I c ev i t) = ev"
  "iv_actor (committed_envelope I c ev i t) = cec_actor c"
  by (simp_all add: committed_envelope_def)

lemma integration_encode_ok:
  assumes "integration_encode E clock context I committed event = Inr m"
  obtains occurred where
    "integration_event_address_of context (ie_event_name I) = Inr (ob_address m)"
    "integration_message_id (rx_sha256 E) (ob_address m) (ie_schema_version I)
       (cec_source_event_id committed) = Inr (ob_message_id m)"
    "ob_correlation_id m = Some (cec_correlation_id committed)"
    "outbound_new (ob_address m) (ob_message_id m) (ob_payload m) = Inr (m\<lparr>ob_correlation_id := None\<rparr>)"
    "integration_canonical E I (committed_envelope I committed event (ob_message_id m) occurred) =
       Inr (ob_payload m)"
    "integration_envelope_from_wire (ie_envelope_to_vec I)
       (committed_envelope I committed event (ob_message_id m) occurred) =
       Inr (committed_envelope I committed event (ob_message_id m) occurred)"
    "cec_occurred_at committed = None \<or> cec_occurred_at committed = Some occurred"
proof -
  from assms obtain address schema i causation occurred envelope0 envelope payload m0 where
    address: "integration_event_address_of context (ie_event_name I) = Inr address"
    and schema: "SchemaVersion_new (ie_schema_version I) = Inr schema"
    and i: "integration_message_id (rx_sha256 E) address schema (cec_source_event_id committed) = Inr i"
    and causation: "CausationId_new (cec_source_event_id committed) = Inr causation"
    and occurred: "(case cec_occurred_at committed of Some t \<Rightarrow> Inr t
      | None \<Rightarrow> integration_timestamp clock) = Inr occurred"
    and env0: "integration_envelope_new (ie_envelope_to_vec I)
      \<lparr>ec_message_id = i, ec_schema_version = schema,
       ec_correlation_id = cec_correlation_id committed, ec_causation_id = Some causation\<rparr>
      occurred event = Inr envelope0"
    and env: "(case cec_actor committed of None \<Rightarrow> Inr envelope0
      | Some actor \<Rightarrow> map_err (\<lambda>e. integration_encoding (IntegrationBuild e))
          (integration_envelope_with_actor (ie_envelope_to_vec I) actor envelope0)) = Inr envelope"
    and payload: "integration_canonical E I envelope = Inr payload"
    and m0: "outbound_new address i payload = Inr m0"
    and m: "m = m0\<lparr>ob_correlation_id := Some (cec_correlation_id committed)\<rparr>"
    by (auto simp: integration_encode_def result_simps split: if_splits)
  have ids: "schema = ie_schema_version I" "causation = cec_source_event_id committed"
    using schema causation
    by (auto simp: SchemaVersion_new_def CausationId_new_def validate_identifier_ok_iff split: if_splits)
  have envelope: "envelope = committed_envelope I committed event i occurred"
    and wire: "integration_envelope_from_wire (ie_envelope_to_vec I) envelope = Inr envelope"
    using env0 env ids
    by (auto simp: integration_envelope_new_def integration_envelope_with_actor_def Let_def
        committed_envelope_def integration_envelope_from_wire_def checked_actor_def result_simps
        split: option.splits)
  have m0': "ob_address m0 = address" "ob_message_id m0 = i" "ob_payload m0 = payload"
    "ob_correlation_id m0 = None"
    using m0 by (simp_all add: outbound_new_ok_iff)
  show thesis
  proof (rule that)
    show "cec_occurred_at committed = None \<or> cec_occurred_at committed = Some occurred"
      using occurred by (auto split: option.splits)
    show "outbound_new (ob_address m) (ob_message_id m) (ob_payload m) =
        Inr (m\<lparr>ob_correlation_id := None\<rparr>)"
      using m0 m0' by (simp add: m)
  qed (use address i payload wire ids m0' in \<open>simp_all add: m envelope\<close>)
qed

lemma integration_decode_ok:
  assumes "integration_decode sha I m = Inr envelope"
  shows "iv_message_id envelope = ob_message_id m"
    and "ob_correlation_id m = Some (iv_correlation_id envelope)"
    and "address_name (ob_address m) = ie_event_name I"
    and "iv_schema_version envelope = ie_schema_version I"
proof -
  from assms obtain e expected where
    "(if iv_message_id e \<noteq> ob_message_id m \<or> ob_message_id m \<noteq> expected
        \<or> ob_correlation_id m \<noteq> Some (iv_correlation_id e)
        \<or> address_name (ob_address m) \<noteq> ie_event_name I
        \<or> iv_schema_version e \<noteq> ie_schema_version I
      then Inl (integration_error_new IntegrationInvalidMessage IntegrationInconsistent)
      else Inr e) = Inr envelope"
    unfolding integration_decode_def rbind_Inr_iff by blast
  then have "e = envelope" "iv_message_id envelope = ob_message_id m"
    "ob_correlation_id m = Some (iv_correlation_id envelope)"
    "address_name (ob_address m) = ie_event_name I" "iv_schema_version envelope = ie_schema_version I"
    by (auto split: if_splits)
  then show "iv_message_id envelope = ob_message_id m"
    and "ob_correlation_id m = Some (iv_correlation_id envelope)"
    and "address_name (ob_address m) = ie_event_name I"
    and "iv_schema_version envelope = ie_schema_version I"
    by blast+
qed

text \<open>The messages of the in-memory adapter: one for each identity.\<close>

definition published_ok :: "in_memory_messaging \<Rightarrow> bool" where
  "published_ok s \<longleftrightarrow>
     distinct (map ob_message_id (im_integration_messages s))
     \<and> (\<forall>i m. fmlookup (im_integration_events s) i = Some m \<longleftrightarrow>
          m \<in> set (im_integration_messages s) \<and> ob_message_id m = i)"

lemma publish_in_memory_ok:
  assumes ok: "published_ok s" and run: "publish_in_memory m s = (r, s')"
  shows "published_ok s'" and "r = Inr (ob_message_id m \<in> ob_message_id ` set (im_integration_messages s))"
    and "im_integration_messages s' = im_integration_messages s @
      (if ob_message_id m \<in> ob_message_id ` set (im_integration_messages s) then [] else [m])"
    and "ob_message_id m \<in> ob_message_id ` set (im_integration_messages s) \<Longrightarrow> s' = s"
proof -
  have known: "fmlookup (im_integration_events s) (ob_message_id m) \<noteq> None \<longleftrightarrow>
      ob_message_id m \<in> ob_message_id ` set (im_integration_messages s)"
  proof
    assume "fmlookup (im_integration_events s) (ob_message_id m) \<noteq> None"
    then obtain m' where "m' \<in> set (im_integration_messages s)" "ob_message_id m' = ob_message_id m"
      using ok unfolding published_ok_def by blast
    then show "ob_message_id m \<in> ob_message_id ` set (im_integration_messages s)"
      by (metis imageI)
  next
    assume "ob_message_id m \<in> ob_message_id ` set (im_integration_messages s)"
    then show "fmlookup (im_integration_events s) (ob_message_id m) \<noteq> None"
      using ok by (fastforce simp: published_ok_def)
  qed
  show "r = Inr (ob_message_id m \<in> ob_message_id ` set (im_integration_messages s))"
    and "im_integration_messages s' = im_integration_messages s @
      (if ob_message_id m \<in> ob_message_id ` set (im_integration_messages s) then [] else [m])"
    and "ob_message_id m \<in> ob_message_id ` set (im_integration_messages s) \<Longrightarrow> s' = s"
    using run unfolding publish_in_memory_def known by (auto split: if_splits)
  show "published_ok s'"
  proof (cases "ob_message_id m \<in> ob_message_id ` set (im_integration_messages s)")
    case True
    then show ?thesis
      using run ok unfolding publish_in_memory_def known by simp
  next
    case False
    then have s': "im_integration_messages s' = im_integration_messages s @ [m]"
      "im_integration_events s' = fmupd (ob_message_id m) m (im_integration_events s)"
      using run unfolding publish_in_memory_def known by auto
    have "fmlookup (im_integration_events s') i = Some m' \<longleftrightarrow>
        m' \<in> set (im_integration_messages s') \<and> ob_message_id m' = i" for i m'
    proof (cases "i = ob_message_id m")
      case True
      then show ?thesis using False by (auto simp: s' image_iff)
    next
      case other: False
      then have "fmlookup (im_integration_events s') i = fmlookup (im_integration_events s) i"
        by (simp add: s')
      moreover have "fmlookup (im_integration_events s) i = Some m' \<longleftrightarrow>
          m' \<in> set (im_integration_messages s) \<and> ob_message_id m' = i"
        using ok by (simp add: published_ok_def)
      ultimately show ?thesis using other by (auto simp: s')
    qed
    then show ?thesis
      using ok False by (simp add: published_ok_def s')
  qed
qed

lemma filter_unique:
  assumes "distinct (map f xs)" and "x \<in> set xs"
  shows "filter (\<lambda>y. f y = f x) xs = [x]"
  using assms by (induction xs) (auto simp: filter_empty_conv image_iff)

lemma publish_fold_ok:
  "published_ok s \<Longrightarrow>
   published_ok (fold (\<lambda>m s. snd (publish_in_memory m s)) ms s)
   \<and> set (im_integration_messages s)
       \<subseteq> set (im_integration_messages (fold (\<lambda>m s. snd (publish_in_memory m s)) ms s))"
proof (induction ms arbitrary: s)
  case (Cons m ms)
  obtain r s' where run: "publish_in_memory m s = (r, s')"
    by fastforce
  have "set (im_integration_messages s) \<subseteq> set (im_integration_messages s')"
    using publish_in_memory_ok(3) [OF Cons.prems run] by auto
  then show ?case
    using Cons.IH [OF publish_in_memory_ok(1) [OF Cons.prems run]] run by auto
qed simp

lemma publisher_in_memory:
  assumes "integration_event_publisher E clock bx publish_in_memory I mapper event s = (r, s')"
  obtains (failed) e where "r = Inl e" "s' = s"
  | (published) committed m r' where
      "committed_event_context_new (cde_recorded event) = Inr committed"
      "integration_encode E clock bx I committed (mapper event) = Inr m"
      "publish_in_memory m s = (r', s')" "r = Inr ()"
proof -
  have total: "fst (publish_in_memory m s) = Inr (fmlookup (im_integration_events s) (ob_message_id m) \<noteq> None)"
    for m
    by (simp add: publish_in_memory_def)
  show thesis
  proof (cases "committed_event_context_new (cde_recorded event)")
    case (Inl e)
    then show ?thesis
      using assms failed by (auto simp: integration_event_publisher_def)
  next
    case (Inr committed)
    show ?thesis
    proof (cases "integration_encode E clock bx I committed (mapper event)")
      case (Inl e)
      then show ?thesis
        using assms failed \<open>committed_event_context_new (cde_recorded event) = Inr committed\<close>
        by (auto simp: integration_event_publisher_def integration_publish_def)
    next
      case encoded: (Inr m)
      obtain r' t where "publish_in_memory m s = (r', t)"
        by fastforce
      then show ?thesis
        using assms published [OF Inr encoded] Inr encoded total [of m]
        by (auto simp: integration_event_publisher_def integration_publish_def)
    qed
  qed
qed

lemma integration_encode_identity:
  assumes "integration_encode E clock bx I committed event = Inr m"
    and "integration_encode E clock' bx I committed event' = Inr m'"
  shows "ob_message_id m' = ob_message_id m"
  using integration_encode_ok [OF assms(1)] integration_encode_ok [OF assms(2)]
  by (metis sum.inject(2))

text \<open>A command that carries its creation time does not depend on the clock.\<close>

lemma encode_without_clock:
  "cq_created_at request = Some t \<Longrightarrow> encode E clock bus C request = encode E clock' bus C request"
  by (simp add: encode_def encode_dynamic_def)

lemma integration_request_created:
  "integration_request sha P envelope = Inr request \<Longrightarrow>
   cq_created_at request = Some (iv_occurred_at envelope)"
  by (auto simp: integration_request_def result_simps)

lemma integration_command_without_clock:
  "integration_command E clock dispatch P envelope s = integration_command E clock' dispatch P envelope s"
proof (cases "integration_request (rx_sha256 E) P envelope")
  case (Inr request)
  then show ?thesis
    using encode_without_clock [OF integration_request_created, OF Inr, of E clock _ _ clock']
    by (simp add: integration_command_def command_bus_dispatch_def)
qed (simp add: integration_command_def)

end
