(* ===== verification/RuntimeProperties.thy ===== *)
theory RuntimeProperties
  imports Queries IntegrationEvents CommandScenario
begin

text \<open>Properties of queries and of integration events.\<close>

section \<open>Queries\<close>

lemma query_adapter_outcome:
  assumes "in_memory_query E clock late P w encoded options = Inr response"
  shows "\<not> late" and "qr_request_id response = qm_message_id (en_request encoded)"
    and "qr_schema_version response = qm_schema_version (en_request encoded)"
    and "qr_correlation_id response = qm_correlation_id (en_request encoded)"
    and "qr_trace_context response = qm_trace_context (en_request encoded)"
    and "qr_outcome response = (case query_process E P w (en_address encoded) (en_request encoded) of
      Inl e \<Rightarrow> QueryError e | Inr v \<Rightarrow> QuerySuccess v)"
    and "\<exists>bs. qx_response_to_vec E response = Inr bs \<and> length bs \<le> qo_maximum_response_bytes options"
proof -
  let ?m = "en_request encoded" and ?outcome = "query_process E P w (en_address encoded) (en_request encoded)"
  from assms obtain responded bs where "\<not> late"
    and built: "query_response_new (qx_response_to_vec E) (qm_message_id ?m) (qm_schema_version ?m)
      responded (qm_correlation_id ?m) (qm_trace_context ?m)
      (case ?outcome of Inl e \<Rightarrow> QueryError e | Inr v \<Rightarrow> QuerySuccess v) = Inr response"
    and "qx_response_to_vec E response = Inr bs" "length bs \<le> qo_maximum_response_bytes options"
    by (cases ?outcome) (auto simp: in_memory_query_def Let_def result_simps query_response_success_def
        query_response_error_def not_less split: if_splits)
  moreover note built [unfolded query_response_new_ok_iff]
  ultimately show "\<not> late" and "qr_request_id response = qm_message_id (en_request encoded)"
    and "qr_schema_version response = qm_schema_version (en_request encoded)"
    and "qr_correlation_id response = qm_correlation_id (en_request encoded)"
    and "qr_trace_context response = qm_trace_context (en_request encoded)"
    and "qr_outcome response = (case query_process E P w (en_address encoded) (en_request encoded) of
      Inl e \<Rightarrow> QueryError e | Inr v \<Rightarrow> QuerySuccess v)"
    and "\<exists>bs. qx_response_to_vec E response = Inr bs \<and> length bs \<le> qo_maximum_response_bytes options"
    by simp_all
qed

lemma decode_query_response_ok:
  assumes "decode_query_response Q response = Inr typed"
  shows "qr_request_id typed = qr_request_id response"
    and "qr_schema_version typed = qr_schema_version response"
    and "qr_correlation_id typed = qr_correlation_id response"
    and "qr_trace_context typed = qr_trace_context response"
    and "case qr_outcome response of
      QueryError e \<Rightarrow> qr_outcome typed = QueryError e
    | QuerySuccess v \<Rightarrow> \<exists>r. qt_response_from_value Q v = Inr r \<and> qr_outcome typed = QuerySuccess r"
  using assms
  by (auto simp: decode_query_response_def Let_def result_simps query_response_success_def
      query_response_error_def query_response_new_ok_iff split: query_outcome.splits)

text \<open>C31: A query is answered by the handler registered for it. When a typed request through the bus and
  the in-memory adapter returns a response, the response belongs to the request (its identity, the
  schema version, the correlation, the trace), and its outcome is what the registered handler
  answered to exactly the query, metadata and causation that were asked, or the internal error when a
  message did not fit its envelope or the answer could not be encoded. No response is returned after
  the timeout.\<close>

theorem query_answered_by_handler:
  assumes binding: "fmlookup P (qt_context Q, qt_name Q, qt_schema_version Q) =
      Some (typed_query_binding Q handler)"
    and query: "qt_to_value Q (tq_query request) = Inr v" "qt_from_value Q v = Inr (tq_query request)"
    and replies: "\<forall>r v. qt_response_to_value Q r = Inr v \<longrightarrow> qt_response_from_value Q v = Inr r"
    and run: "query_bus_request E clock uuid bx (in_memory_query E clock' late P w) Q request options =
      Inr response"
  shows "\<not> late \<and> (\<exists>m.
      qm_payload m = tq_query request \<and> qm_schema_version m = qt_schema_version Q
      \<and> qm_message_id m = (case tq_message_id request of Some i \<Rightarrow> i | None \<Rightarrow> ''query-'' @ uuid)
      \<and> qm_correlation_id m = (case tq_correlation_id request of Some c \<Rightarrow> c | None \<Rightarrow> qm_message_id m)
      \<and> qm_causation_id m = tq_causation_id request \<and> qm_metadata m = tq_metadata request
      \<and> qm_trace_context m = tq_trace_context request
      \<and> qr_request_id response = qm_message_id m \<and> qr_schema_version response = qm_schema_version m
      \<and> qr_correlation_id response = qm_correlation_id m
      \<and> qr_trace_context response = qm_trace_context m
      \<and> qr_outcome response = query_answer E Q handler w v m)"
proof -
  let ?dynamic = "\<lparr>dq_query = qt_name Q, dq_schema_version = qt_schema_version Q, dq_payload = v,
      dq_message_id = tq_message_id request, dq_correlation_id = tq_correlation_id request,
      dq_causation_id = tq_causation_id request, dq_created_at = tq_created_at request,
      dq_metadata = tq_metadata request, dq_trace_context = tq_trace_context request\<rparr>"
  from run query(1) obtain encoded raw where
    here: "qt_context Q = bx_name bx"
    and encoded: "query_encode_dynamic E clock uuid bx ?dynamic = Inr encoded"
    and raw: "in_memory_query E clock' late P w encoded options = Inr raw"
    and decoded: "decode_query_response Q raw = Inr response"
    by (auto simp: query_bus_request_def query_request_dynamic_def result_simps split: if_splits)
  note sent = query_encode_dynamic_ok [OF encoded, simplified]
  note got = query_adapter_outcome [OF raw]
  let ?m = "with_query (en_request encoded) (tq_query request)"
  have "(case query_process E P w (en_address encoded) (en_request encoded) of
        Inl e \<Rightarrow> QueryError e | Inr v \<Rightarrow> QuerySuccess v) =
      (case query_answer E Q handler w v ?m of
         QueryError e \<Rightarrow> QueryError e
       | QuerySuccess r \<Rightarrow> QuerySuccess (projr (qt_response_to_value Q r)))"
    using query_process_answer [of bx "en_request encoded" "en_address encoded" P Q handler
        "tq_query request" E w] sent binding here query(2) by simp
  moreover have "\<exists>v. qt_response_to_value Q r = Inr v" if "query_answer E Q handler w v ?m = QuerySuccess r" for r
    using that by (auto simp: query_answer_def is_ok_iff split: if_splits sum.splits)
  ultimately have "qr_outcome response = query_answer E Q handler w v ?m"
    using decode_query_response_ok(5) [OF decoded] got(6) replies
    by (cases "query_answer E Q handler w v ?m") force+
  then show ?thesis
    using decode_query_response_ok(1-4) [OF decoded] got(1-5) sent
    by (intro conjI exI [of _ ?m]) (auto split: option.split)
qed

definition x_count_type :: "(nat, nat) query_type" where
  "x_count_type = \<lparr>qt_context = ''sales'', qt_name = ''count'', qt_schema_version = 1,
     qt_to_value = (\<lambda>n. Inr (JNum n)),
     qt_from_value = (\<lambda>v. case v of JNum n \<Rightarrow> Inr n | _ \<Rightarrow> Inl ''not a number''),
     qt_request_to_vec = (\<lambda>_. Inr [1]), qt_response_to_value = (\<lambda>n. Inr (JNum n)),
     qt_response_from_value = (\<lambda>v. case v of JNum n \<Rightarrow> Inr n | _ \<Rightarrow> Inl ''not a number''),
     qt_response_to_vec = (\<lambda>_. Inr [1])\<rparr>"

definition x_queries :: query_externals where
  "x_queries = \<lparr>qx_routed_to_vec = (\<lambda>_. Inr [1]), qx_request_to_vec = (\<lambda>_. Inr [1]),
     qx_response_to_vec = (\<lambda>_. Inr [1])\<rparr>"

definition x_count_handler :: "(nat, nat, nat) query_handler" where
  "x_count_handler w m = Inr (w + qm_payload m)"

definition x_query_processor :: "nat query_processor" where
  "x_query_processor =
     fmupd (''sales'', ''count'', 1) (typed_query_binding x_count_type x_count_handler) fmempty"

definition x_count_request :: "nat typed_query_request" where
  "x_count_request = (typed_query_request_new 3)\<lparr>tq_message_id := Some ''q1'', tq_created_at := Some 7\<rparr>"

lemma x_count_sel [simp]:
  "qt_context x_count_type = ''sales''" "qt_name x_count_type = ''count''"
  "qt_schema_version x_count_type = 1" "qt_to_value x_count_type n = Inr (JNum n)"
  "qt_from_value x_count_type (JNum n) = Inr n" "qt_response_to_value x_count_type n = Inr (JNum n)"
  "qt_response_from_value x_count_type (JNum n) = Inr n"
  "qt_request_to_vec x_count_type = (\<lambda>_. Inr [1])" "qt_response_to_vec x_count_type = (\<lambda>_. Inr [1])"
  by (simp_all add: x_count_type_def)

lemma x_count_address:
  "query_address_of x_route ''count'' = Inr ''shop.query.sales.count''"
  "QueryAddress_new ''rostfrei'' ''sales'' ''count'' = Inr ''rostfrei.query.sales.count''"
  by code_simp+

lemma x_count_run:
  "query_bus_request x_queries None [] x_route (in_memory_query x_queries (Some 9) False x_query_processor 4)
     x_count_type x_count_request query_options_default =
   Inr \<lparr>qr_request_id = ''q1'', qr_schema_version = 1, qr_responded_at = 9, qr_correlation_id = ''q1'',
        qr_trace_context = None, qr_outcome = QuerySuccess 7\<rparr>"
proof -
  have name: "CorrelationId_new ''q1'' = Inr ''q1''"
    by (simp add: CorrelationId_new_def validate_identifier_def x_text_simps)
  have address: "address_context ''shop.query.sales.count'' = ''sales''"
    "address_name ''shop.query.sales.count'' = ''count''"
    using query_address_accessors [OF x_count_address(1)] by (simp_all add: x_route_def)
  have clock: "query_current_timestamp (Some 9) = Inr 9"
    by (simp add: query_current_timestamp_def u64_try_from_def MessageTimestamp_from_unix_milliseconds_def)
  let ?m = "\<lparr>qm_message_id = ''q1'', qm_schema_version = 1, qm_created_at = 7,
      qm_correlation_id = ''q1'', qm_causation_id = None, qm_metadata = fmempty,
      qm_trace_context = None, qm_payload = \<lparr>rq_bounded_context = ''sales'', rq_query = ''count'',
        rq_schema_version = 1, rq_payload = JNum 3\<rparr>\<rparr>"
  have encoded: "query_encode_dynamic x_queries None [] x_route
      \<lparr>dq_query = ''count'', dq_schema_version = 1, dq_payload = JNum 3, dq_message_id = Some ''q1'',
       dq_correlation_id = None, dq_causation_id = None, dq_created_at = Some 7,
       dq_metadata = fmempty, dq_trace_context = None\<rparr> =
      Inr \<lparr>en_address = ''shop.query.sales.count'', en_request = ?m\<rparr>"
    using x_count_address name
    by (simp add: query_encode_dynamic_def SchemaVersion_new_def RoutedQuery_new_def
        query_request_new_def x_queries_def validate_serialized_size_def max_envelope_bytes_def
        x_route_def)
  have "query_process x_queries x_query_processor 4 ''shop.query.sales.count'' ?m = Inr (JNum 7)"
    by (simp add: query_process_def address x_query_processor_def query_request_rebuild_eq
        typed_query_binding_def x_queries_def validate_serialized_size_def max_envelope_bytes_def
        x_count_handler_def)
  then have "in_memory_query x_queries (Some 9) False x_query_processor 4
      \<lparr>en_address = ''shop.query.sales.count'', en_request = ?m\<rparr> query_options_default =
      Inr \<lparr>qr_request_id = ''q1'', qr_schema_version = 1, qr_responded_at = 9, qr_correlation_id = ''q1'',
        qr_trace_context = None, qr_outcome = QuerySuccess (JNum 7)\<rparr>"
    by (simp add: in_memory_query_def clock query_response_success_def query_response_new_def
        x_queries_def validate_serialized_size_def max_envelope_bytes_def query_options_default_def)
  moreover have "bx_name x_route = ''sales''"
    by (simp add: x_route_def)
  ultimately show ?thesis
    using encoded
    by (simp add: query_bus_request_def query_request_dynamic_def decode_query_response_def
        query_response_success_def query_response_new_def validate_serialized_size_def
        max_envelope_bytes_def x_count_request_def typed_query_request_new_def)
qed

theorem query_answered_by_handler_witness:
  "\<exists>m. qm_payload m = 3 \<and> qm_message_id m = ''q1''
    \<and> query_answer x_queries x_count_type x_count_handler 4 (JNum 3) m = QuerySuccess 7"
  using query_answered_by_handler [OF _ _ _ _ x_count_run, of x_count_handler "JNum 3"]
  by (simp add: x_query_processor_def x_count_request_def typed_query_request_new_def) metis

section \<open>Integration events\<close>

text \<open>C23: An integration event survives its transport. What a bus encodes for a committed domain event, the
  receiver of the bytes under the same address, identity and correlation decodes to an envelope with
  the same payload, caused by exactly the source event, under the correlation and actor of that
  event. A message under another identity, address, correlation or event name is refused.\<close>

theorem integration_message_roundtrip:
  assumes encoded: "integration_encode E clock bx I committed event = Inr m"
    and source: "EventId_new (cec_source_event_id committed) = Inr (cec_source_event_id committed)"
    and read: "\<And>envelope. integration_canonical E I envelope = Inr (ob_payload m) \<Longrightarrow>
      ie_envelope_from_slice I (ob_payload m) = Inr envelope"
  shows "\<exists>envelope.
      rbind (integration_from_delivery (ob_address m) (ob_message_id m) (ob_payload m) (ob_correlation_id m))
        (integration_decode (rx_sha256 E) I) = Inr envelope
      \<and> iv_payload envelope = event \<and> iv_causation_id envelope = Some (cec_source_event_id committed)
      \<and> iv_correlation_id envelope = cec_correlation_id committed \<and> iv_actor envelope = cec_actor committed
      \<and> iv_message_id envelope = ob_message_id m
      \<and> (\<forall>m'. ob_payload m' = ob_payload m \<longrightarrow> integration_decode (rx_sha256 E) I m' = Inr envelope \<longrightarrow>
           ob_message_id m' = ob_message_id m \<and> ob_correlation_id m' = ob_correlation_id m
           \<and> address_name (ob_address m') = ie_event_name I)"
proof -
  from integration_encode_ok [OF encoded] obtain occurred where
    address: "integration_event_address_of bx (ie_event_name I) = Inr (ob_address m)"
    and i: "integration_message_id (rx_sha256 E) (ob_address m) (ie_schema_version I)
       (cec_source_event_id committed) = Inr (ob_message_id m)"
    and correlation: "ob_correlation_id m = Some (cec_correlation_id committed)"
    and outbound: "outbound_new (ob_address m) (ob_message_id m) (ob_payload m) =
       Inr (m\<lparr>ob_correlation_id := None\<rparr>)"
    and bytes: "integration_canonical E I (committed_envelope I committed event (ob_message_id m) occurred) =
       Inr (ob_payload m)"
    and wire: "integration_envelope_from_wire (ie_envelope_to_vec I)
       (committed_envelope I committed event (ob_message_id m) occurred) =
       Inr (committed_envelope I committed event (ob_message_id m) occurred)"
    by metis
  let ?e = "committed_envelope I committed event (ob_message_id m) occurred"
  have "(m\<lparr>ob_correlation_id := None\<rparr>)\<lparr>ob_correlation_id := Some (cec_correlation_id committed)\<rparr> = m"
    using correlation by simp
  then have delivered: "integration_from_delivery (ob_address m) (ob_message_id m) (ob_payload m)
      (ob_correlation_id m) = Inr m"
    using outbound correlation by (simp add: integration_from_delivery_def)
  have decoded: "integration_decode (rx_sha256 E) I m = Inr ?e"
    using read [OF bytes] wire source i correlation integration_address_accessors(2) [OF address]
    by (simp add: integration_decode_def)
  have only: "ob_message_id m' = ob_message_id m \<and> ob_correlation_id m' = ob_correlation_id m
      \<and> address_name (ob_address m') = ie_event_name I"
    if "ob_payload m' = ob_payload m" "integration_decode (rx_sha256 E) I m' = Inr ?e" for m'
    using integration_decode_ok [OF that(2)] correlation by simp
  show ?thesis
  proof (intro exI [of _ ?e] conjI allI impI)
    show "rbind (integration_from_delivery (ob_address m) (ob_message_id m) (ob_payload m)
        (ob_correlation_id m)) (integration_decode (rx_sha256 E) I) = Inr ?e"
      by (simp add: delivered decoded)
  qed ((simp; fail) | use only in blast)+
qed

definition x_fact_envelope :: "nat integration_event_envelope" where
  "x_fact_envelope = \<lparr>iv_message_id = ''abcd'', iv_schema_version = 1, iv_occurred_at = 7,
     iv_correlation_id = ''c'', iv_causation_id = Some ''abcd'', iv_payload = 5,
     iv_metadata_version = None, iv_actor = None\<rparr>"

definition x_fact_type :: "nat integration_event_type" where
  "x_fact_type = \<lparr>ie_type = 0, ie_event_name = ''placed'', ie_schema_version = 1,
     ie_bounded_context = Some ''sales'', ie_envelope_to_vec = (\<lambda>_. Inr [1]),
     ie_envelope_to_value = (\<lambda>v. if v = x_fact_envelope then Inr JNull else Inl ''unknown''),
     ie_envelope_from_slice = (\<lambda>_. Inr x_fact_envelope)\<rparr>"

definition x_fact_context :: committed_event_context where
  "x_fact_context = \<lparr>cec_actor = None, cec_source_event_id = ''abcd'', cec_correlation_id = ''c'',
     cec_occurred_at = None\<rparr>"

definition x_fact :: encoded_integration_message where
  "x_fact = \<lparr>ob_address = ''shop.integration.sales.placed'', ob_message_id = ''abcd'', ob_payload = [1],
     ob_metadata = fmempty, ob_correlation_id = Some ''c'', ob_trace_context = None\<rparr>"

lemma x_fact_encoded: "integration_encode x_runtime (Some 7) x_route x_fact_type x_fact_context 5 = Inr x_fact"
proof -
  have address: "integration_event_address_of x_route ''placed'' = Inr ''shop.integration.sales.placed''"
    by code_simp
  have clock: "integration_timestamp (Some 7) = Inr 7"
    by (simp add: integration_timestamp_def u64_try_from_def MessageTimestamp_from_unix_milliseconds_def)
  show ?thesis
    using address clock x_names
    by (simp add: integration_encode_def x_fact_type_def x_fact_context_def x_route_def [symmetric]
        SchemaVersion_new_def integration_message_id_def x_fingerprint x_hex
        integration_envelope_new_def validate_serialized_size_def max_envelope_bytes_def
        integration_canonical_def canonical_json_bytes_def outbound_new_ok_iff x_fact_def Let_def)
      (simp add: x_route_def x_fact_envelope_def canonical_json_bytes_def outbound_new_def
        outbound_with_maximum_def validate_payload_size_def max_message_payload_bytes_def)
qed

theorem integration_message_roundtrip_witness:
  "\<exists>envelope. rbind (integration_from_delivery ''shop.integration.sales.placed'' ''abcd'' [1] (Some ''c''))
      (integration_decode x_digests x_fact_type) = Inr envelope
    \<and> iv_payload envelope = 5 \<and> iv_causation_id envelope = Some ''abcd''"
proof -
  have "EventId_new ''abcd'' = Inr ''abcd''"
    by (simp add: EventId_new_def string_identity_def identity_validate_def x_text_simps)
  moreover have "integration_canonical x_runtime x_fact_type envelope = Inr (ob_payload x_fact) \<Longrightarrow>
      ie_envelope_from_slice x_fact_type (ob_payload x_fact) = Inr envelope" for envelope
    by (auto simp: integration_canonical_def x_fact_type_def result_simps split: if_splits)
  ultimately show ?thesis
    using integration_message_roundtrip [OF x_fact_encoded] by (auto simp: x_fact_context_def x_fact_def)
qed

text \<open>C19: A committed event is published once. However often its publication is repeated, at whatever
  times and whatever else is published meanwhile, the adapter holds exactly one message for it: the
  one that was published first, under the identity derived from the address, the schema version and
  the source event. A repetition changes nothing.\<close>

theorem integration_event_published_once:
  assumes ok: "published_ok s"
    and run: "integration_event_publisher E clock bx publish_in_memory I mapper event s = (Inr (), s')"
  shows "published_ok s' \<and> (\<exists>m. m \<in> set (im_integration_messages s')
    \<and> (\<exists>address. integration_event_address_of bx (ie_event_name I) = Inr address
        \<and> integration_message_id (rx_sha256 E) address (ie_schema_version I)
            (re_event_id (cde_recorded event)) = Inr (ob_message_id m))
    \<and> (\<forall>ms clock' res t t'. t = fold (\<lambda>m s. snd (publish_in_memory m s)) ms s' \<longrightarrow>
        filter (\<lambda>m'. ob_message_id m' = ob_message_id m) (im_integration_messages t) = [m]
        \<and> (integration_event_publisher E clock' bx publish_in_memory I mapper event t = (res, t') \<longrightarrow> t' = t)))"
proof -
  from run obtain committed m0 r where
    committed: "committed_event_context_new (cde_recorded event) = Inr committed"
    and encoded: "integration_encode E clock bx I committed (mapper event) = Inr m0"
    and published: "publish_in_memory m0 s = (r, s')"
    by (cases rule: publisher_in_memory) auto
  note after = publish_in_memory_ok [OF ok published]
  have "ob_message_id m0 \<in> ob_message_id ` set (im_integration_messages s')"
    using after(3) by (auto split: if_splits)
  then obtain m where m: "m \<in> set (im_integration_messages s')" "ob_message_id m = ob_message_id m0"
    by (metis imageE)
  have source: "cec_source_event_id committed = re_event_id (cde_recorded event)"
    using committed by (auto simp: committed_event_context_new_def result_simps)
  have "filter (\<lambda>m'. ob_message_id m' = ob_message_id m) (im_integration_messages t) = [m]"
    and "integration_event_publisher E clock' bx publish_in_memory I mapper event t = (res, t') \<Longrightarrow> t' = t"
    if t: "t = fold (\<lambda>m s. snd (publish_in_memory m s)) ms s'" for ms clock' res t t'
  proof -
    have t_ok: "published_ok t" and kept: "m \<in> set (im_integration_messages t)"
      using publish_fold_ok [OF after(1), of ms] m(1) by (auto simp: t)
    show "filter (\<lambda>m'. ob_message_id m' = ob_message_id m) (im_integration_messages t) = [m]"
      by (rule filter_unique) (use t_ok kept in \<open>simp_all add: published_ok_def\<close>)
    assume "integration_event_publisher E clock' bx publish_in_memory I mapper event t = (res, t')"
    then show "t' = t"
    proof (cases rule: publisher_in_memory)
      case (published committed' m' r')
      then have "ob_message_id m' = ob_message_id m"
        using integration_encode_identity [OF encoded] committed m(2) by simp
      then show ?thesis
        using publish_in_memory_ok(4) [OF t_ok published(3)] kept by (metis imageI)
    qed simp
  qed
  moreover have "\<exists>address. integration_event_address_of bx (ie_event_name I) = Inr address
      \<and> integration_message_id (rx_sha256 E) address (ie_schema_version I)
          (re_event_id (cde_recorded event)) = Inr (ob_message_id m)"
    using integration_encode_ok [OF encoded] source m(2) by metis
  ultimately show ?thesis
    using after(1) m(1) by blast
qed

definition x_fact_event :: "unit committed_domain_event" where
  "x_fact_event = \<lparr>cde_recorded = x_recorded\<lparr>re_event_id := ''abcd'', re_correlation_id := Some ''c'',
     re_actor := None\<rparr>, cde_event = ()\<rparr>"

definition x_published :: in_memory_messaging where
  "x_published = messaging_empty\<lparr>im_integration_messages := [x_fact],
      im_integration_events := fmupd ''abcd'' x_fact fmempty\<rparr>"

lemma x_fact_published:
  "integration_event_publisher x_runtime (Some 7) x_route publish_in_memory x_fact_type (\<lambda>_. 5)
     x_fact_event messaging_empty = (Inr (), x_published)"
proof -
  have "committed_event_context_new (cde_recorded x_fact_event) = Inr x_fact_context"
    by (simp add: committed_event_context_new_def x_fact_event_def x_fact_context_def)
  then show ?thesis
    by (simp add: integration_event_publisher_def integration_publish_def x_fact_encoded
        publish_in_memory_def messaging_empty_def x_published_def) (simp add: x_fact_def)
qed

theorem integration_event_published_once_witness:
  "\<exists>m. m \<in> set (im_integration_messages x_published)
    \<and> filter (\<lambda>m'. ob_message_id m' = ob_message_id m) [x_fact] = [m]
    \<and> snd (integration_event_publisher x_runtime None x_route publish_in_memory x_fact_type (\<lambda>_. 5)
        x_fact_event x_published) = x_published"
proof -
  have "published_ok messaging_empty"
    by (simp add: published_ok_def messaging_empty_def)
  from integration_event_published_once [OF this x_fact_published] obtain m where
    m: "m \<in> set (im_integration_messages x_published)"
    and all: "\<forall>ms clock' res t t'. t = fold (\<lambda>m s. snd (publish_in_memory m s)) ms x_published \<longrightarrow>
        filter (\<lambda>m'. ob_message_id m' = ob_message_id m) (im_integration_messages t) = [m]
        \<and> (integration_event_publisher x_runtime clock' x_route publish_in_memory x_fact_type (\<lambda>_. 5)
             x_fact_event t = (res, t') \<longrightarrow> t' = t)"
    by blast
  have "x_published = fold (\<lambda>m s. snd (publish_in_memory m s)) [] x_published"
    by simp
  note all [rule_format, OF this]
  moreover have "im_integration_messages x_published = [x_fact]"
    by (simp add: x_published_def)
  ultimately show ?thesis
    using m by (metis prod.collapse)
qed

text \<open>What is framed for the operation identity.\<close>

definition operation_parts ::
  "('e, 'x, 'c) integration_event_processor \<Rightarrow> 'e integration_event_envelope \<Rightarrow> bytes list" where
  "operation_parts P envelope =
     [str_bytes ''rostfrei:integration-operation:v2'', str_bytes (ip_durable_name P),
      str_bytes (iv_message_id envelope)]"

text \<open>C20: A redelivered integration event gives the same command. Whatever the clock shows and whichever
  delivery attempt it is, handling the event dispatches the same encoded command, under an operation
  identity that belongs to this consumer and this message alone unless the hash collides, so that
  the processor recognises the repetition.\<close>

theorem redelivered_event_same_command:
  assumes "dl_address again = dl_address delivery" and "dl_message_id again = dl_message_id delivery"
    and "dl_payload again = dl_payload delivery" and "dl_correlation_id again = dl_correlation_id delivery"
    and framed: "framable (operation_parts P envelope)" "framable (operation_parts P' envelope')"
    and collision: "rx_sha256 E (frame (operation_parts P envelope)) =
        rx_sha256 E (frame (operation_parts P' envelope')) \<Longrightarrow>
      frame (operation_parts P envelope) = frame (operation_parts P' envelope')"
    and request: "integration_request (rx_sha256 E) P envelope = Inr request"
      "integration_request (rx_sha256 E) P' envelope' = Inr request'"
  shows "integration_command_handle E clock' dispatch I P delay again s =
      integration_command_handle E clock dispatch I P delay delivery s
    \<and> (cq_operation_id request = cq_operation_id request' \<longleftrightarrow>
        ip_durable_name P = ip_durable_name P' \<and> iv_message_id envelope = iv_message_id envelope')"
proof
  have same: "integration_command E clock' dispatch P = integration_command E clock dispatch P"
    by (intro ext integration_command_without_clock)
  show "integration_command_handle E clock' dispatch I P delay again s =
      integration_command_handle E clock dispatch I P delay delivery s"
    unfolding integration_command_handle_def same assms(1-4) ..
  have id: "cq_operation_id request = ''integration:'' @ fingerprint_to_hex
      (framed_fingerprint (rx_sha256 E) (operation_parts P envelope))"
    "cq_operation_id request' = ''integration:'' @ fingerprint_to_hex
      (framed_fingerprint (rx_sha256 E) (operation_parts P' envelope'))"
    using request
    by (auto simp: integration_request_def command_request_new_def integration_operation_id_def
        OperationId_new_def string_identity_ok_iff result_simps operation_parts_def)
  have "operation_parts P envelope = operation_parts P' envelope'"
    if "cq_operation_id request = cq_operation_id request'"
    using framed_fingerprint_inject [OF _ framed] collision that
    by (simp add: id fingerprint_to_hex_def)
  then show "cq_operation_id request = cq_operation_id request' \<longleftrightarrow>
      ip_durable_name P = ip_durable_name P' \<and> iv_message_id envelope = iv_message_id envelope'"
    unfolding id by (auto simp: operation_parts_def)
qed

definition x_consumer :: "(nat, unit, unit) integration_event_processor" where
  "x_consumer = \<lparr>ip_command_bus = x_bus, ip_durable_name = ''orders'', ip_mapper = (\<lambda>_. Inr ()),
     ip_command_type = x_command_type\<rparr>"

definition x_last_byte :: runtime_externals where
  "x_last_byte = x_runtime\<lparr>rx_sha256 := (\<lambda>bs. [last bs])\<rparr>"

lemma x_operation_ids:
  "integration_operation_id (\<lambda>bs. [last bs]) ''orders'' ''abcd'' = Inr ''integration:64''"
  "integration_operation_id (\<lambda>bs. [last bs]) ''orders'' ''m2'' = Inr ''integration:32''"
proof -
  have "lower_hex_digit 2 = CHR ''2''" "lower_hex_digit 3 = CHR ''3''"
    "lower_hex_digit 4 = CHR ''4''" "lower_hex_digit 6 = CHR ''6''"
    by (rule of_char_eq_iff [where ?'a = nat, THEN iffD1]; simp add: lower_hex_digit_def
        saturating_add_def saturating_sub_def checked_add_def checked_sub_def)+
  then have "fingerprint_to_hex [100] = ''64''" "fingerprint_to_hex [50] = ''32''"
    by (simp_all add: fingerprint_to_hex_def encode_lower_hex_def)
  moreover have "OperationId_new ''integration:64'' = Inr ''integration:64''"
    "OperationId_new ''integration:32'' = Inr ''integration:32''"
    by (simp_all add: OperationId_new_def string_identity_def identity_validate_def x_text_simps)
  ultimately show "integration_operation_id (\<lambda>bs. [last bs]) ''orders'' ''abcd'' = Inr ''integration:64''"
    "integration_operation_id (\<lambda>bs. [last bs]) ''orders'' ''m2'' = Inr ''integration:32''"
    by (simp_all add: integration_operation_id_def framed_fingerprint_def fingerprint_digest_def
        str_bytes_def)
qed

definition x_delivery :: "u32 \<Rightarrow> message_delivery" where
  "x_delivery attempt = \<lparr>dl_address = PublishIntegrationEvent ''shop.integration.sales.placed'',
     dl_message_id = ''abcd'', dl_payload = [1], dl_metadata = fmempty, dl_correlation_id = Some ''c'',
     dl_trace_context = None,
     dl_info = \<lparr>di_attempt = attempt, di_pending = 0, di_source_sequence = 7, di_consumer_sequence = 7\<rparr>\<rparr>"

definition x_offline :: "encoded_command \<Rightarrow> unit \<Rightarrow> (command_bus_error + command_bus_receipt) \<times> unit" where
  "x_offline command s = (Inl (bus_error_new BusUnavailable (Rt_text ServiceRequired)), s)"

theorem redelivered_event_same_command_witness:
  "integration_command_handle x_last_byte None x_offline x_fact_type x_consumer 1 (x_delivery 2) () =
     integration_command_handle x_last_byte (Some 3) x_offline x_fact_type x_consumer 1 (x_delivery 1) ()
   \<and> (\<exists>request request'. integration_request (\<lambda>bs. [last bs]) x_consumer x_fact_envelope = Inr request
       \<and> integration_request (\<lambda>bs. [last bs]) x_consumer (x_fact_envelope\<lparr>iv_message_id := ''m2''\<rparr>) =
           Inr request'
       \<and> cq_operation_id request \<noteq> cq_operation_id request')"
proof -
  let ?other = "x_fact_envelope\<lparr>iv_message_id := ''m2''\<rparr>"
  have names: "CausationId_new ''m2'' = Inr ''m2''"
    by (simp add: CausationId_new_def validate_identifier_def x_text_simps)
  obtain request request' where requests:
    "integration_request (rx_sha256 x_last_byte) x_consumer x_fact_envelope = Inr request"
    "integration_request (rx_sha256 x_last_byte) x_consumer ?other = Inr request'"
    using x_operation_ids x_names(2) names
    by (simp add: integration_request_def x_consumer_def x_fact_envelope_def x_last_byte_def)
  have parts: "framable (operation_parts x_consumer e)" if "iv_message_id e \<in> {''abcd'', ''m2''}" for e
    using that by (auto simp: operation_parts_def x_consumer_def)
  have apart: "rx_sha256 x_last_byte (frame (operation_parts x_consumer x_fact_envelope))
      \<noteq> rx_sha256 x_last_byte (frame (operation_parts x_consumer ?other))"
    by (simp add: operation_parts_def x_last_byte_def x_fact_envelope_def frame_def hash_part_def
        str_bytes_def)
  have "integration_command_handle x_last_byte None x_offline x_fact_type x_consumer 1 (x_delivery 2) () =
      integration_command_handle x_last_byte (Some 3) x_offline x_fact_type x_consumer 1 (x_delivery 1) ()
    \<and> (cq_operation_id request = cq_operation_id request' \<longleftrightarrow>
        ip_durable_name x_consumer = ip_durable_name x_consumer
        \<and> iv_message_id x_fact_envelope = iv_message_id ?other)"
    by (rule redelivered_event_same_command [OF _ _ _ _ parts parts _ requests])
      (use apart in \<open>simp_all add: x_delivery_def x_fact_envelope_def\<close>)
  then show ?thesis
    using requests by (auto simp: x_last_byte_def x_fact_envelope_def)
qed

section \<open>An integration event and the store\<close>

text \<open>The bus over the in-memory adapter with a trusted processor. A dispatch that has not returned
  within its fuel counts as a timeout; with a bounded retry policy enough fuel excludes this.\<close>

definition in_memory_dispatch ::
  "nat \<Rightarrow> runtime_externals \<Rightarrow> 's execution_store \<Rightarrow> (nat \<Rightarrow> 's \<Rightarrow> 's) \<Rightarrow>
   ('s, 'a, 'st, 'ev) command_processor \<Rightarrow> encoded_command \<Rightarrow> 's world \<times> in_memory_messaging \<Rightarrow>
   (command_bus_error + command_bus_receipt) \<times> 's world \<times> in_memory_messaging" where
  "in_memory_dispatch fuel E S env P command s =
     (case dispatch_trusted fuel E S env P command (fst s) (snd s) of
        Some r \<Rightarrow> r
      | None \<Rightarrow> (Inl (bus_error_new BusTimeout (Rt_text ServiceRequired)), s))"

lemma in_memory_dispatch_ran:
  assumes "dispatch_encoded E (in_memory_dispatch fuel E S env P) bus command (w, m) = (Inr receipt, w', m')"
  shows "\<exists>n. trusted_process fuel E S env P command w = Some (Inr (br_response receipt), w', n)"
    and "\<exists>r. dispatch_encoded E dispatch bus command s = (r, snd (dispatch command s))"
proof -
  let ?checks = "if bus_maximum_payload_len bus < length (cm_payload command) then
      Inl (bus_error_new BusPayloadTooLarge (Rt_text EnvelopeExceedsAdapter))
    else
      rbind (map_err (\<lambda>e. bus_error_new BusInvalidMessage (Rt_contract e))
               (command_address_of (bus_context bus) (address_name (cm_address command)))) (\<lambda>expected.
      if cm_address command \<noteq> expected then
        Inl (bus_error_new BusInvalidMessage (Rt_text ForeignEnvelope))
      else
        map_err (\<lambda>e. bus_error_new BusInvalidMessage (pe_message e)) (encoded_validate E command))"
  obtain u where checks: "?checks = Inr u"
    using assms unfolding dispatch_encoded_def by (cases ?checks) auto
  obtain r where r: "in_memory_dispatch fuel E S env P command (w, m) = (Inr r, w', m')" "receipt = r"
    using assms unfolding dispatch_encoded_def checks
    by (auto simp: result_simps split: prod.splits sum.splits command_response_outcome.splits)
  then show "\<exists>n. trusted_process fuel E S env P command w = Some (Inr (br_response receipt), w', n)"
    by (auto simp: in_memory_dispatch_def dispatch_trusted_def split: option.splits sum.splits prod.splits)
  show "\<exists>r. dispatch_encoded E dispatch bus command s = (r, snd (dispatch command s))"
    unfolding dispatch_encoded_def checks by (auto split: prod.splits sum.splits)
qed

text \<open>An integration event is executed once. After the command of an event was accepted, every later
  delivery of the event, through any bus, clock and trusted processor of the context and whatever
  other writers of the store do in between, evaluates no handler and changes nothing in the store.\<close>

theorem integration_event_executed_once:
  assumes "reachable D (ms_authority store) (w_state w)" and "header_roundtrip D"
    and "ms_hot store = MemoryDetails"
    and "cooperative (store_step D (ms_authority store)) env"
    and env': "cooperative (store_step D (ms_authority store)) env'"
    and run: "integration_command E clock
      (in_memory_dispatch fuel E (memory_execution_store D store) env P) IP envelope (w, m) =
      (Inr receipt, w', m')"
    and accepted: "rs_outcome (br_response receipt) = ResponseAccepted"
    and later: "(store_step D (ms_authority store))\<^sup>*\<^sup>* (w_state w') (w_state v)"
    and "pr_context P' = pr_context P" and trusted: "require_trusted_profile P' = Inr ()"
  shows "\<exists>r k'. integration_command E clock'
      (in_memory_dispatch fuel' E (memory_execution_store D store) env' P') IP envelope (v, k) =
      (r, interleave env' v, k')"
proof -
  let ?S = "memory_execution_store D store"
  have ready: "memory_ready D store (w_state w)"
    by (rule reachable_ready [OF assms(1-3)])
  from run obtain request command where
    request: "integration_request (rx_sha256 E) IP envelope = Inr request"
    and command: "encode E clock (ip_command_bus IP) (ip_command_type IP) request = Inr command"
    and dispatched: "dispatch_encoded E (in_memory_dispatch fuel E ?S env P) (ip_command_bus IP)
      command (w, m) = (Inr receipt, w', m')"
    by (auto simp: integration_command_def command_bus_dispatch_def
        split: sum.splits prod.splits)
  have again: "encode E clock' (ip_command_bus IP) (ip_command_type IP) request = Inr command"
    using command encode_without_clock [OF integration_request_created [OF request]] by metis
  note ran = in_memory_dispatch_ran [OF dispatched]
  obtain n where
    processed: "trusted_process fuel E ?S env P command w = Some (Inr (br_response receipt), w', n)"
    using ran(1) by blast
  have settled: "(store_step D (ms_authority store))\<^sup>*\<^sup>* (w_state w) (w_state w')"
    "mem_service.command_completed D store E (pr_context P) command (w_state w')"
    using mem_service.trusted_settled [OF assms(4) ready processed] accepted by auto
  have "memory_ready D store (w_state w')"
    by (rule mem_exec.steps_invariant [OF settled(1) ready])
  then obtain r where "trusted_process fuel' E ?S env' P' command v = Some (r, interleave env' v, 0)"
    using mem_service.trusted_again [OF env' _ later _ trusted] settled(2) assms(9) by metis
  then obtain r' k' where "dispatch_encoded E (in_memory_dispatch fuel' E ?S env' P') (ip_command_bus IP)
      command (v, k) = (r', interleave env' v, k')"
    using ran(2) [of "in_memory_dispatch fuel' E ?S env' P'" "(v, k)"]
    by (cases r) (auto simp: in_memory_dispatch_def dispatch_trusted_def)
  then show ?thesis
    using request again by (cases r') (auto simp: integration_command_def command_bus_dispatch_def)
qed

end
