(* ===== verification/NatsConfig.thy ===== *)
theory NatsConfig
  imports Addresses "HOL-Library.Finite_Map"
begin

text \<open>
  The configuration of the event store on NATS: \<open>rostfrei-nats/src/event_store_config.rs\<close>. A bounded
  context has a JetStream stream whose name and subjects are derived from it; aggregates,
  transactions and read guards have subjects of their own, made of digests. \<open>Duration\<close> is a number
  of nanoseconds. Of the \<open>Config\<close> of the client library the record has the fields the source sets;
  \<open>sp_other\<close> holds those of the others that are not at their default, by name.
\<close>

section \<open>Errors\<close>

definition nats_invalid :: "string \<Rightarrow> event_store_error" where
  "nats_invalid t = store_error_new InvalidRequest (Fixed_text t)"

definition nats_conflict :: "string \<Rightarrow> event_store_error" where
  "nats_conflict t = store_error_new Conflict (Fixed_text t)"

definition nats_identity_conflict :: "string \<Rightarrow> event_store_error" where
  "nats_identity_conflict t = store_error_new IdentityConflict (Fixed_text t)"

definition nats_corrupt :: "string \<Rightarrow> event_store_error" where
  "nats_corrupt t = store_error_new CorruptHistory (Fixed_text t)"

definition nats_unavailable :: "string \<Rightarrow> event_store_error" where
  "nats_unavailable t = store_error_new Unavailable (Fixed_text t)"

definition nats_mismatch :: "string \<Rightarrow> event_store_error" where
  "nats_mismatch t = store_error_new ConfigurationMismatch (Fixed_text t)"

section \<open>Limits\<close>

definition max_stream_name_len :: nat where "max_stream_name_len = 255"
definition max_supported_event_bytes :: nat where "max_supported_event_bytes = 64 * 1024 * 1024"
definition max_atomic_header_bytes :: nat where "max_atomic_header_bytes = 4 * 1024"
definition duplicate_window :: nat where "duplicate_window = 120 * 10 ^ 9"
definition default_max_stream_bytes :: int where
  "default_max_stream_bytes = 10 * 1024 * 1024 * 1024"
definition default_max_event_bytes :: nat where "default_max_event_bytes = 512 * 1024"
definition default_replicas :: nat where "default_replicas = 1"
definition default_puback_timeout :: nat where "default_puback_timeout = 5 * 10 ^ 9"

record event_byte_limit =
  bl_value :: nat
  bl_wire_value :: nat
  bl_nats_value :: int
  bl_comparison_value :: int

definition EventByteLimit_default :: event_byte_limit where
  "EventByteLimit_default =
     \<lparr>bl_value = default_max_event_bytes, bl_wire_value = 516 * 1024, bl_nats_value = 516 * 1024,
      bl_comparison_value = 516 * 1024\<rparr>"

text \<open>\<open>i32::try_from\<close> and \<open>i64::try_from\<close> of a \<open>usize\<close>.\<close>

definition signed_try_from :: "nat \<Rightarrow> nat \<Rightarrow> int option" where
  "signed_try_from w n = (if n < 2 ^ (w - 1) then Some (int n) else None)"

definition EventByteLimit_new :: "nat \<Rightarrow> event_store_error + event_byte_limit" where
  "EventByteLimit_new value =
     (if value = 0 \<or> max_supported_event_bytes < value then
        Inl (store_error_new InvalidRequest
          (Limit_text ''maximum event bytes must be between 1 and'' max_supported_event_bytes))
      else
        rbind (ok_or (nats_invalid ''maximum wire message bytes overflowed'')
          (checked_add_usize value max_atomic_header_bytes)) (\<lambda>wire_value.
        rbind (ok_or (nats_invalid
            ''maximum wire message bytes cannot be represented by JetStream'')
          (signed_try_from 32 wire_value)) (\<lambda>nats_value.
        rbind (ok_or (nats_invalid
            ''maximum wire message bytes cannot be represented by JetStream'')
          (signed_try_from 64 wire_value)) (\<lambda>comparison_value.
        Inr \<lparr>bl_value = value, bl_wire_value = wire_value, bl_nats_value = nats_value,
             bl_comparison_value = comparison_value\<rparr>))))"

section \<open>Names\<close>

definition ascii_uppercase :: "char \<Rightarrow> char" where
  "ascii_uppercase c = (if is_ascii_lowercase c then char_of (of_char c - 32 :: nat) else c)"

definition stream_token :: "string \<Rightarrow> string" where
  "stream_token value = map (\<lambda>c. if c = CHR ''-'' then CHR ''_'' else ascii_uppercase c) value"

definition scoped_subject_prefix :: "string \<Rightarrow> traffic_scope \<Rightarrow> string" where
  "scoped_subject_prefix application scope =
     (case subject_segment scope of
        None \<Rightarrow> application
      | Some part \<Rightarrow> application @ ''.'' @ part)"

definition scoped_stream_prefix :: "string \<Rightarrow> traffic_scope \<Rightarrow> string" where
  "scoped_stream_prefix application scope =
     (case scope of
        NormalScope \<Rightarrow> stream_token application
      | TestScope \<Rightarrow> stream_token application @ ''__TEST'')"

definition domain_event_stream_name :: "bounded_context \<Rightarrow> string" where
  "domain_event_stream_name c =
     scoped_stream_prefix (bx_application c) (bx_traffic_scope c) @ ''__''
       @ stream_token (bx_name c) @ ''_DOMAIN_EVENTS''"

definition is_ascii_whitespace :: "char \<Rightarrow> bool" where
  "is_ascii_whitespace c \<longleftrightarrow> of_char c \<in> {32, 9, 10, 12, 13 :: nat}"

definition is_ascii_control :: "char \<Rightarrow> bool" where
  "is_ascii_control c \<longleftrightarrow> of_char c < (32 :: nat) \<or> of_char c = (127 :: nat)"

definition valid_stream_name :: "string \<Rightarrow> bool" where
  "valid_stream_name value \<longleftrightarrow> value \<noteq> [] \<and> length value \<le> max_stream_name_len
     \<and> list_all (\<lambda>c. \<not> is_ascii_whitespace c \<and> \<not> is_ascii_control c
         \<and> c \<notin> {CHR ''.'', CHR ''*'', CHR ''>''}) value"

text \<open>\<open>usize\<close> has eight bytes: the padding in front of the length is empty.\<close>

definition digest_parts :: "(bytes \<Rightarrow> bytes) \<Rightarrow> bytes list \<Rightarrow> string" where
  "digest_parts sha parts = encode_lower_hex (sha (foldl hash_part [] parts))"

section \<open>The configuration\<close>

record nats_config =
  nc_completed_outcome_epoch :: "string option"
  nc_split_outcomes :: bool
  nc_explicit_detail_expiry :: bool
  nc_read_only_outcomes :: bool
  nc_legacy_security_scope :: "security_scope option"
  nc_outcome_state_stream_name :: string
  nc_application :: string
  nc_traffic_scope :: traffic_scope
  nc_bounded_context :: bounded_context_name
  nc_stream_name :: string
  nc_subject_prefix :: string
  nc_max_stream_bytes :: int
  nc_max_event_bytes :: event_byte_limit
  nc_replicas :: nat
  nc_puback_timeout :: nat

definition nats_config_validate :: "nats_config \<Rightarrow> event_store_error + unit" where
  "nats_config_validate c =
     (if \<not> valid_stream_name (nc_stream_name c) then
        Inl (nats_invalid ''invalid JetStream stream name'')
      else if nc_max_stream_bytes c \<le> 0 then
        Inl (nats_invalid ''maximum stream bytes must be finite and positive'')
      else if nc_max_stream_bytes c < bl_comparison_value (nc_max_event_bytes c) then
        Inl (nats_invalid ''maximum stream bytes must be at least maximum wire message bytes'')
      else if nc_replicas c \<notin> {1..5} then
        Inl (nats_invalid ''replicas must be between 1 and 5'')
      else if nc_puback_timeout c = 0 then
        Inl (nats_invalid ''PubAck timeout must be greater than zero'')
      else Inr ())"

definition nats_config_new :: "bounded_context \<Rightarrow> string \<Rightarrow> event_store_error + nats_config" where
  "nats_config_new context stream_name =
     (let config =
        \<lparr>nc_completed_outcome_epoch = None, nc_split_outcomes = False,
         nc_explicit_detail_expiry = False, nc_read_only_outcomes = False,
         nc_legacy_security_scope = None, nc_outcome_state_stream_name = [],
         nc_application = bx_application context, nc_traffic_scope = bx_traffic_scope context,
         nc_bounded_context = bx_name context, nc_stream_name = stream_name,
         nc_subject_prefix =
           scoped_subject_prefix (bx_application context) (bx_traffic_scope context)
             @ ''.domain.'' @ bx_name context,
         nc_max_stream_bytes = default_max_stream_bytes,
         nc_max_event_bytes = EventByteLimit_default, nc_replicas = default_replicas,
         nc_puback_timeout = default_puback_timeout\<rparr>
      in rbind (nats_config_validate config) (\<lambda>_. Inr config))"

definition for_bounded_context :: "bounded_context \<Rightarrow> event_store_error + nats_config" where
  "for_bounded_context context = nats_config_new context (domain_event_stream_name context)"

definition with_storage_limits ::
  "nats_config \<Rightarrow> int \<Rightarrow> nat \<Rightarrow> event_store_error + nats_config" where
  "with_storage_limits c max_stream_bytes max_event_bytes =
     rbind (EventByteLimit_new max_event_bytes) (\<lambda>limit.
     let c = c\<lparr>nc_max_stream_bytes := max_stream_bytes, nc_max_event_bytes := limit\<rparr>
     in rbind (nats_config_validate c) (\<lambda>_. Inr c))"

definition with_replicas :: "nats_config \<Rightarrow> nat \<Rightarrow> event_store_error + nats_config" where
  "with_replicas c replicas =
     (let c = c\<lparr>nc_replicas := replicas\<rparr> in rbind (nats_config_validate c) (\<lambda>_. Inr c))"

definition with_puback_timeout :: "nats_config \<Rightarrow> nat \<Rightarrow> event_store_error + nats_config" where
  "with_puback_timeout c timeout =
     (let c = c\<lparr>nc_puback_timeout := timeout\<rparr> in rbind (nats_config_validate c) (\<lambda>_. Inr c))"

definition epoch_char :: "char \<Rightarrow> bool" where
  "epoch_char c \<longleftrightarrow> is_ascii_lowercase c \<or> is_ascii_uppercase c \<or> is_ascii_digit c
     \<or> c \<in> {CHR ''-'', CHR ''_''}"

definition with_fresh_completed_outcome_epoch ::
  "nats_config \<Rightarrow> string \<Rightarrow> event_store_error + nats_config" where
  "with_fresh_completed_outcome_epoch c epoch =
     (if epoch = [] \<or> 128 < length epoch \<or> \<not> list_all epoch_char epoch then
        Inl (nats_invalid ''invalid completed outcome identity epoch'')
      else Inr (c\<lparr>nc_completed_outcome_epoch := Some epoch\<rparr>))"

definition with_fresh_split_outcome_epoch ::
  "(bytes \<Rightarrow> bytes) \<Rightarrow> nats_config \<Rightarrow> string \<Rightarrow> event_store_error + nats_config" where
  "with_fresh_split_outcome_epoch sha c epoch =
     (if nc_split_outcomes c then Inl (nats_invalid ''split authority already selected'')
      else
        rbind (with_fresh_completed_outcome_epoch c epoch) (\<lambda>config.
        rbind (ok_or (nats_invalid ''missing epoch'') (nc_completed_outcome_epoch config)) (\<lambda>epoch.
        let token = digest_parts sha [str_bytes epoch];
            name = nc_stream_name config @ ''__SPLIT_'' @ token;
            config = config\<lparr>nc_stream_name := name,
              nc_subject_prefix := nc_subject_prefix config @ ''.split.'' @ token,
              nc_outcome_state_stream_name := name @ ''_STATE'',
              nc_split_outcomes := True\<rparr>
        in rbind (nats_config_validate config) (\<lambda>_.
           if \<not> valid_stream_name (nc_outcome_state_stream_name config) then
             Inl (nats_invalid ''state stream name is too long'')
           else Inr config))))"

definition with_explicit_detail_expiry ::
  "nats_config \<Rightarrow> bool \<Rightarrow> event_store_error + nats_config" where
  "with_explicit_detail_expiry c enabled =
     (if enabled \<and> \<not> nc_split_outcomes c then
        Inl (nats_invalid ''inline outcomes do not support expiry'')
      else Inr (c\<lparr>nc_explicit_detail_expiry := enabled\<rparr>))"

section \<open>Subjects\<close>

definition outcome_state_subject :: "(bytes \<Rightarrow> bytes) \<Rightarrow> nats_config \<Rightarrow> bytes \<Rightarrow> string" where
  "outcome_state_subject sha c manifest =
     nc_subject_prefix c @ ''.outcome.'' @ digest_parts sha [manifest]"

definition aggregate_subject :: "(bytes \<Rightarrow> bytes) \<Rightarrow> nats_config \<Rightarrow> string \<Rightarrow> string \<Rightarrow> string" where
  "aggregate_subject sha c aggregate_type aggregate_id =
     nc_subject_prefix c @ ''.aggregate.''
       @ digest_parts sha [str_bytes aggregate_type, str_bytes aggregate_id]"

definition aggregate_subject_filter :: "nats_config \<Rightarrow> string" where
  "aggregate_subject_filter c = nc_subject_prefix c @ ''.aggregate.*''"

definition transaction_subject :: "(bytes \<Rightarrow> bytes) \<Rightarrow> nats_config \<Rightarrow> string \<Rightarrow> string" where
  "transaction_subject sha c operation_id =
     nc_subject_prefix c @ ''.transaction.'' @ digest_parts sha [str_bytes operation_id]"

definition transaction_guard_subject ::
  "(bytes \<Rightarrow> bytes) \<Rightarrow> nats_config \<Rightarrow> string \<Rightarrow> nat \<Rightarrow> string" where
  "transaction_guard_subject sha c operation_id ordinal =
     transaction_subject sha c operation_id @ ''.guard.'' @ decimal ordinal"

definition legacy_primary_transaction_subject ::
  "(bytes \<Rightarrow> bytes) \<Rightarrow> nats_config \<Rightarrow> stream_id \<Rightarrow> string \<Rightarrow> string" where
  "legacy_primary_transaction_subject sha c primary operation_id =
     nc_subject_prefix c @ ''.transaction.''
       @ digest_parts sha [str_bytes (stream_aggregate_type primary),
           str_bytes (stream_aggregate_id primary), str_bytes operation_id]"

definition legacy_primary_transaction_guard_subject ::
  "(bytes \<Rightarrow> bytes) \<Rightarrow> nats_config \<Rightarrow> stream_id \<Rightarrow> string \<Rightarrow> nat \<Rightarrow> string" where
  "legacy_primary_transaction_guard_subject sha c primary operation_id ordinal =
     legacy_primary_transaction_subject sha c primary operation_id
       @ ''.guard.'' @ decimal ordinal"

definition transaction_subject_filter :: "nats_config \<Rightarrow> string" where
  "transaction_subject_filter c = nc_subject_prefix c @ ''.transaction.>''"

section \<open>Stream policies\<close>

datatype retention_policy = RetentionLimits | RetentionWorkQueue | RetentionInterest
datatype storage_type = StorageFile | StorageMemory
datatype discard_policy = DiscardOld | DiscardNew

record stream_policy =
  sp_name :: string
  sp_subjects :: "string list"
  sp_retention :: retention_policy
  sp_storage :: storage_type
  sp_discard :: discard_policy
  sp_max_age :: nat
  sp_max_messages :: int
  sp_max_messages_per_subject :: int
  sp_max_bytes :: int
  sp_max_message_size :: int
  sp_max_consumers :: int
  sp_no_ack :: bool
  sp_duplicate_window :: nat
  sp_num_replicas :: nat
  sp_deny_delete :: bool
  sp_deny_purge :: bool
  sp_allow_rollup :: bool
  sp_allow_atomic_publish :: bool
  sp_discard_new_per_subject :: bool
  sp_metadata :: "(string, string) fmap"
  sp_other :: "(string, string) fmap"

definition stream_config :: "nats_config \<Rightarrow> stream_policy" where
  "stream_config c =
     \<lparr>sp_name = nc_stream_name c,
      sp_subjects = [aggregate_subject_filter c, transaction_subject_filter c],
      sp_retention = RetentionLimits, sp_storage = StorageFile, sp_discard = DiscardNew,
      sp_max_age = 0, sp_max_messages = - 1, sp_max_messages_per_subject = - 1,
      sp_max_bytes = nc_max_stream_bytes c,
      sp_max_message_size = bl_nats_value (nc_max_event_bytes c), sp_max_consumers = - 1,
      sp_no_ack = False, sp_duplicate_window = duplicate_window,
      sp_num_replicas = nc_replicas c, sp_deny_delete = True, sp_deny_purge = True,
      sp_allow_rollup = False, sp_allow_atomic_publish = True,
      sp_discard_new_per_subject = False,
      sp_metadata =
        (case nc_completed_outcome_epoch c of
           None \<Rightarrow> fmempty
         | Some epoch \<Rightarrow>
             fmap_of_list
               [(''rostfrei.completed-outcomes.epoch'', epoch),
                (''rostfrei.completed-outcomes.version'',
                 if nc_split_outcomes c then ''2'' else ''1'')]),
      sp_other = fmempty\<rparr>"

definition outcome_state_config :: "nats_config \<Rightarrow> stream_policy" where
  "outcome_state_config c =
     (stream_config c)\<lparr>
       sp_name := nc_outcome_state_stream_name c,
       sp_subjects := [nc_subject_prefix c @ ''.outcome.*''],
       sp_max_messages_per_subject := 1,
       sp_discard_new_per_subject := False,
       sp_allow_atomic_publish := False,
       sp_metadata :=
         fmupd ''rostfrei.outcome-state.version'' ''1'' (sp_metadata (stream_config c))\<rparr>"

end
