(* ===== verification/NatsEvents.thy ===== *)
theory NatsEvents
  imports NatsConfig Memory
begin

text \<open>
  Stored events of the event store on NATS: the wire types, the encoding and decoding of events, the
  atomic headers and the history builder of \<open>rostfrei-nats/src/event_store.rs\<close>. The functions of
  \<open>sha2\<close>, \<open>base64\<close> and \<open>serde_json\<close> are the fields of \<open>nats_externals\<close>, which has those of the core. A \<open>HeaderMap\<close> maps a name to the
  values under it. Conversions between \<open>u32\<close>, \<open>u64\<close> and \<open>usize\<close> that cannot fail on the 64-bit
  targets are \<open>unat\<close>; the others keep their error.
\<close>

section \<open>Wire types\<close>

record stream_identity_wire =
  si_aggregate_type :: string
  si_aggregate_id :: string

record stored_event_content =
  ec_event_store_stream :: string
  ec_application :: "string option"
  ec_bounded_context :: "string option"
  ec_stream :: stream_identity_wire
  ec_stream_version :: u64
  ec_commit_id :: string
  ec_operation_id :: string
  ec_operation_fingerprint :: string
  ec_correlation_id :: "string option"
  ec_causation_id :: "string option"
  ec_actor :: "actor_ref option"
  ec_commit_event_ordinal :: u32
  ec_commit_event_count :: u32
  ec_transaction_event_ordinal :: "u32 option"
  ec_transaction_event_count :: "u32 option"
  ec_event_id :: string
  ec_event_type :: string
  ec_event_schema_version :: u32
  ec_payload_base64 :: string

record stored_event_wire =
  ew_schema_version :: u16
  ew_checksum :: string
  ew_event :: stored_event_content

record transaction_participant_wire =
  pw_stream :: stream_identity_wire
  pw_base_stream_version :: u64
  pw_commit_id :: "string option"
  pw_event_count :: u32

record receipt_content =
  rc_manifest :: "string option"
  rc_security_scope :: "string option"
  rc_completion :: "command_completion option"
  rc_event_store_stream :: string
  rc_application :: string
  rc_bounded_context :: string
  rc_operation_id :: string
  rc_operation_fingerprint :: string
  rc_correlation_id :: "string option"
  rc_causation_id :: "string option"
  rc_actor :: "actor_ref option"
  rc_participants :: "transaction_participant_wire list"

record stored_receipt_wire =
  rw_schema_version :: u16
  rw_checksum :: string
  rw_receipt :: receipt_content

record transaction_guard_wire =
  gw_operation_id :: string
  gw_guarded_stream :: stream_identity_wire

record atomic_publish_ack =
  ack_stream :: string
  ack_sequence :: u64
  ack_batch :: "string option"
  ack_count :: "u64 option"

text \<open>An error of the JetStream API: its code, of those the source tells apart, and its text.\<close>

datatype api_error_code =
  StreamWrongLastSequence | StreamWrongLastSequenceConstant | StreamStoreFailed
| AtomicPublishDisabled | RequiredApiLevel | StreamMessageExceedsMaximum | OtherCode u64

record api_error =
  api_code :: api_error_code
  api_text :: string

datatype state_value = StateActive string | StateExpired u64 string

record state_envelope =
  sv_version :: u16
  sv_binding :: string
  sv_state :: state_value

datatype publish_response = ResponseOk atomic_publish_ack | ResponseErr api_error

record nats_externals =
  nx_core :: externals
  nx_base64_encode :: "bytes \<Rightarrow> string"
  nx_base64_decode :: "string \<Rightarrow> string + bytes"
  nx_event_to_vec :: "stored_event_wire \<Rightarrow> string + bytes"
  nx_event_from_slice :: "bytes \<Rightarrow> string + stored_event_wire"
  nx_event_checksum_to_vec :: "u16 \<Rightarrow> stored_event_content \<Rightarrow> string + bytes"
  nx_receipt_to_vec :: "stored_receipt_wire \<Rightarrow> string + bytes"
  nx_receipt_from_slice :: "bytes \<Rightarrow> string + stored_receipt_wire"
  nx_receipt_checksum_to_vec :: "u16 \<Rightarrow> receipt_content \<Rightarrow> string + bytes"
  nx_guard_to_vec :: "transaction_guard_wire \<Rightarrow> string + bytes"
  nx_guard_from_slice :: "bytes \<Rightarrow> string + transaction_guard_wire"
  nx_state_to_vec :: "state_envelope \<Rightarrow> string + bytes"
  nx_state_from_slice :: "bytes \<Rightarrow> string + state_envelope"
  nx_response_from_slice :: "bytes \<Rightarrow> string + publish_response"

abbreviation nx_sha256 :: "nats_externals \<Rightarrow> bytes \<Rightarrow> bytes" where
  "nx_sha256 X \<equiv> sha256 (nx_core X)"

section \<open>Schema versions\<close>

definition legacy_event_schema :: u16 where "legacy_event_schema = 1"
definition correlation_event_schema :: u16 where "correlation_event_schema = 2"
definition event_schema :: u16 where "event_schema = 3"
definition transaction_event_schema :: u16 where "transaction_event_schema = 4"
definition actor_event_schema :: u16 where "actor_event_schema = 5"
definition actor_transaction_event_schema :: u16 where "actor_transaction_event_schema = 6"

definition transactional_event_schema :: "u16 \<Rightarrow> bool" where
  "transactional_event_schema version \<longleftrightarrow>
     version = transaction_event_schema \<or> version = actor_transaction_event_schema"

lemmas event_schemas =
  legacy_event_schema_def correlation_event_schema_def event_schema_def
  transaction_event_schema_def actor_event_schema_def actor_transaction_event_schema_def

section \<open>Headers\<close>

type_synonym header_map = "(string, string list) fmap"

definition header_insert :: "string \<Rightarrow> string \<Rightarrow> header_map \<Rightarrow> header_map" where
  "header_insert name val headers = fmupd name [val] headers"

definition header_get_all :: "header_map \<Rightarrow> string \<Rightarrow> string list" where
  "header_get_all headers name = (case fmlookup headers name of None \<Rightarrow> [] | Some vs \<Rightarrow> vs)"

definition optional_single_header ::
  "header_map \<Rightarrow> string \<Rightarrow> event_store_error + string option" where
  "optional_single_header headers name =
     (case header_get_all headers name of
        [] \<Rightarrow> Inr None
      | [v] \<Rightarrow> Inr (Some v)
      | _ \<Rightarrow> Inl (store_error_new CorruptHistory
                (Wrapped_text ''stored event repeats'' (External_text name))))"

definition required_single_header :: "header_map \<Rightarrow> string \<Rightarrow> event_store_error + string" where
  "required_single_header headers name =
     rbind (optional_single_header headers name) (\<lambda>v.
     ok_or (store_error_new CorruptHistory
       (Wrapped_text ''stored event is missing'' (External_text name))) v)"

definition validate_aggregate_sequence_expectation ::
  "string option \<Rightarrow> u64 option \<Rightarrow> event_store_error + unit" where
  "validate_aggregate_sequence_expectation stored expected =
     rbind (ok_or (nats_corrupt ''stored commit has no aggregate sequence expectation'') stored)
       (\<lambda>text.
     rbind (ok_or (nats_corrupt ''stored commit has an invalid aggregate sequence expectation'')
         (parse_u64 text)) (\<lambda>sequence.
     if (case expected of None \<Rightarrow> False | Some e \<Rightarrow> sequence \<noteq> e) then
       Inl (nats_corrupt ''stored commit has an incompatible aggregate sequence expectation'')
     else Inr ()))"

definition parse_usize :: "string \<Rightarrow> nat option" where
  "parse_usize s =
     Option.bind (parse_unsigned s) (\<lambda>n. if n < usize_bound then Some n else None)"

definition validate_atomic_headers ::
  "string \<Rightarrow> header_map \<Rightarrow> u16 \<Rightarrow> nat \<Rightarrow> nat \<Rightarrow> nat \<Rightarrow> u64 option \<Rightarrow>
   event_store_error + string" where
  "validate_atomic_headers stream_name headers schema ordinal count tx_ordinal expected =
     rbind (required_single_header headers ''Content-Type'') (\<lambda>content_type.
     rbind (ensure (content_type = ''application/json'')
       (nats_corrupt ''stored event has the wrong content type'')) (\<lambda>_.
     rbind (required_single_header headers ''Nats-Batch-Id'') (\<lambda>batch_id.
     rbind (ensure (batch_id \<noteq> [] \<and> length batch_id \<le> 64)
       (nats_corrupt ''stored event has an invalid atomic batch identity'')) (\<lambda>_.
     rbind (required_single_header headers ''Nats-Batch-Sequence'') (\<lambda>batch_sequence.
     rbind (ok_or (nats_corrupt ''stored event has an invalid atomic batch sequence'')
       (parse_usize batch_sequence)) (\<lambda>batch_sequence.
     rbind (ok_or (nats_corrupt ''stored event has an invalid atomic batch sequence'')
       (checked_add_usize tx_ordinal 1)) (\<lambda>one_based.
     rbind (ensure (batch_sequence = one_based)
       (nats_corrupt
         ''stored event atomic batch sequence does not match its transaction ordinal'')) (\<lambda>_.
     rbind (optional_single_header headers ''Nats-Expected-Stream'') (\<lambda>expected_stream.
     rbind (optional_single_header headers ''Nats-Expected-Last-Subject-Sequence'')
       (\<lambda>expected_sequence.
     rbind (if ordinal = 0 then
              (if tx_ordinal = 0 \<and> expected_stream \<noteq> Some stream_name then
                 Inl (nats_corrupt ''stored commit has an incompatible expected stream'')
               else if tx_ordinal \<noteq> 0 \<and> expected_stream \<noteq> None then
                 Inl (nats_corrupt ''stored transaction repeats its expected stream'')
               else validate_aggregate_sequence_expectation expected_sequence expected)
            else if expected_stream \<noteq> None \<or> expected_sequence \<noteq> None then
              Inl (nats_corrupt ''stored commit repeats its aggregate sequence expectation'')
            else Inr ()) (\<lambda>_.
     rbind (optional_single_header headers ''Nats-Batch-Commit'') (\<lambda>commit.
     if transactional_event_schema schema then
       (if commit \<noteq> None then
          Inl (nats_corrupt ''transactional domain event finalized before its receipt'')
        else Inr batch_id)
     else if checked_add_usize ordinal 1 = Some count then
       (if commit \<noteq> Some ''1'' then
          Inl (nats_corrupt ''stored commit has no atomic final event'')
        else Inr batch_id)
     else if commit \<noteq> None then
       Inl (nats_corrupt ''stored commit was finalized before its last event'')
     else Inr batch_id))))))))))))"

section \<open>Encoding\<close>

definition stream_identity :: "stream_id \<Rightarrow> stream_identity_wire" where
  "stream_identity stream =
     \<lparr>si_aggregate_type = stream_aggregate_type stream,
      si_aggregate_id = stream_aggregate_id stream\<rparr>"

definition event_checksum ::
  "nats_externals \<Rightarrow> u16 \<Rightarrow> stored_event_content \<Rightarrow> string + string" where
  "event_checksum X schema event =
     map_ok (\<lambda>input. encode_lower_hex (nx_sha256 X input)) (nx_event_checksum_to_vec X schema event)"

definition encode_event ::
  "nats_externals \<Rightarrow> nats_config \<Rightarrow> stream_id \<Rightarrow> event_batch \<Rightarrow> (u32 \<times> u32) option \<Rightarrow> u32 \<Rightarrow>
   nat \<times> recorded_event \<Rightarrow> event_store_error + bytes" where
  "encode_event X config stream batch transaction event_count indexed =
     (case indexed of (index, event) \<Rightarrow>
     rbind (ok_or (nats_invalid ''event batch ordinal cannot be represented'')
       (u32_try_from index)) (\<lambda>ordinal.
     rbind (case transaction of
              None \<Rightarrow> Inr None
            | Some (offset, _) \<Rightarrow>
                map_ok Some (ok_or (nats_invalid ''transaction event ordinal overflowed'')
                  (checked_add offset ordinal))) (\<lambda>transaction_event_ordinal.
     let content =
           \<lparr>ec_event_store_stream = nc_stream_name config,
            ec_application = Some (nc_application config),
            ec_bounded_context = Some (nc_bounded_context config),
            ec_stream = \<lparr>si_aggregate_type = stream_aggregate_type stream,
                         si_aggregate_id = stream_aggregate_id stream\<rparr>,
            ec_stream_version = re_stream_version event,
            ec_commit_id = eb_commit_id batch,
            ec_operation_id = eb_operation_id batch,
            ec_operation_fingerprint = fingerprint_to_hex (eb_operation_fingerprint batch),
            ec_correlation_id = eb_correlation_id batch,
            ec_causation_id = eb_causation_id batch,
            ec_actor = eb_actor batch,
            ec_commit_event_ordinal = ordinal,
            ec_commit_event_count = event_count,
            ec_transaction_event_ordinal = transaction_event_ordinal,
            ec_transaction_event_count = map_option snd transaction,
            ec_event_id = re_event_id event,
            ec_event_type = re_event_type event,
            ec_event_schema_version = re_schema_version event,
            ec_payload_base64 = nx_base64_encode X (re_payload event)\<rparr>;
         schema =
           (case (transaction \<noteq> None, eb_actor batch \<noteq> None) of
              (True, True) \<Rightarrow> actor_transaction_event_schema
            | (False, True) \<Rightarrow> actor_event_schema
            | (True, False) \<Rightarrow> transaction_event_schema
            | (False, False) \<Rightarrow> event_schema)
     in rbind (map_err (\<lambda>e. store_error_new InvalidRequest
            (Wrapped_text ''failed to checksum event'' (External_text e)))
          (event_checksum X schema content)) (\<lambda>checksum.
        map_err (\<lambda>e. store_error_new InvalidRequest
            (Wrapped_text ''failed to encode event'' (External_text e)))
          (nx_event_to_vec X
            \<lparr>ew_schema_version = schema, ew_checksum = checksum, ew_event = content\<rparr>)))))"

definition encode_events_inner ::
  "nats_externals \<Rightarrow> nats_config \<Rightarrow> stream_id \<Rightarrow> event_batch \<Rightarrow> recorded_event list \<Rightarrow>
   (u32 \<times> u32) option \<Rightarrow> event_store_error + bytes list" where
  "encode_events_inner X config stream batch recorded transaction =
     (if length recorded \<noteq> length (eb_events batch) then
        Inl (nats_invalid ''recorded event count does not match its batch'')
      else
        rbind (ok_or (nats_invalid ''event batch count cannot be represented'')
          (u32_try_from (length recorded))) (\<lambda>event_count.
        collect_results (encode_event X config stream batch transaction event_count)
          (enumerate 0 recorded)))"

definition encode_events ::
  "nats_externals \<Rightarrow> nats_config \<Rightarrow> stream_id \<Rightarrow> event_batch \<Rightarrow> recorded_event list \<Rightarrow>
   event_store_error + bytes list" where
  "encode_events X config stream batch recorded =
     encode_events_inner X config stream batch recorded None"

definition encode_transaction_events ::
  "nats_externals \<Rightarrow> nats_config \<Rightarrow> stream_id \<Rightarrow> event_batch \<Rightarrow> recorded_event list \<Rightarrow> u32 \<Rightarrow> u32 \<Rightarrow>
   event_store_error + bytes list" where
  "encode_transaction_events X config stream batch recorded offset count =
     encode_events_inner X config stream batch recorded (Some (offset, count))"

section \<open>Decoding\<close>

record decoded_event =
  de_batch_id :: string
  de_commit_id :: commit_id
  de_operation_id :: operation_id
  de_operation_fingerprint :: fingerprint
  de_event_ordinal :: nat
  de_event_count :: nat
  de_transaction_event_ordinal :: nat
  de_transaction_event_count :: nat
  de_is_transactional :: bool
  de_recorded :: recorded_event

record decoded_stored_event =
  ds_decoded :: decoded_event
  ds_global_stream_sequence :: u64
  ds_is_transactional :: bool

definition corrupt_identity :: "string \<Rightarrow> identity_error \<Rightarrow> event_store_error" where
  "corrupt_identity t e = store_error_new CorruptHistory (Wrapped_text t (Rendered_identity e))"

definition corrupt_contract :: "string \<Rightarrow> contract_error \<Rightarrow> event_store_error" where
  "corrupt_contract t e = store_error_new CorruptHistory (Wrapped_text t (Rendered_contract e))"

definition corrupt_envelope :: "string \<Rightarrow> envelope_error \<Rightarrow> event_store_error" where
  "corrupt_envelope t e = store_error_new CorruptHistory (Wrapped_text t (Rendered_envelope e))"

definition corrupt_external :: "string \<Rightarrow> string \<Rightarrow> event_store_error" where
  "corrupt_external t e = store_error_new CorruptHistory (Wrapped_text t (External_text e))"

text \<open>\<open>Option<String>\<close> through a checked constructor.\<close>

definition optional_new :: "('a \<Rightarrow> 'e + 'b) \<Rightarrow> 'a option \<Rightarrow> 'e + 'b option" where
  "optional_new f x = (case x of None \<Rightarrow> Inr None | Some a \<Rightarrow> map_ok Some (f a))"

text \<open>The checks of the schema version against the fields of the content.\<close>

definition check_event_schema :: "u16 \<Rightarrow> stored_event_content \<Rightarrow> event_store_error + unit" where
  "check_event_schema schema event =
     (if schema \<notin> {legacy_event_schema, correlation_event_schema, event_schema,
          transaction_event_schema, actor_event_schema, actor_transaction_event_schema} then
        Inl (nats_corrupt ''stored event has an unsupported schema version'')
      else if (schema = actor_event_schema \<or> schema = actor_transaction_event_schema)
          \<noteq> (ec_actor event \<noteq> None) then
        Inl (nats_corrupt ''stored event actor/schema mismatch'')
      else if schema = legacy_event_schema
          \<and> (ec_correlation_id event \<noteq> None \<or> ec_causation_id event \<noteq> None) then
        Inl (nats_corrupt
          ''legacy stored events cannot contain correlation or causation metadata'')
      else if schema < event_schema
          \<and> (ec_application event \<noteq> None \<or> ec_bounded_context event \<noteq> None) then
        Inl (nats_corrupt ''legacy stored events cannot contain application scope metadata'')
      else if \<not> transactional_event_schema schema
          \<and> (ec_transaction_event_ordinal event \<noteq> None
             \<or> ec_transaction_event_count event \<noteq> None) then
        Inl (nats_corrupt ''legacy stored events cannot contain transaction coordinates'')
      else Inr ())"

definition decode_transaction_coordinates ::
  "u16 \<Rightarrow> stored_event_content \<Rightarrow> nat \<Rightarrow> nat \<Rightarrow> event_store_error + nat \<times> nat" where
  "decode_transaction_coordinates schema event event_ordinal event_count =
     (if transactional_event_schema schema then
        rbind (ok_or (nats_corrupt ''transactional event has no transaction ordinal'')
          (ec_transaction_event_ordinal event)) (\<lambda>ordinal.
        rbind (ok_or (nats_corrupt ''transactional event has no transaction event count'')
          (ec_transaction_event_count event)) (\<lambda>count.
        if unat count = 0 \<or> max_events_per_batch < unat count \<or> unat count \<le> unat ordinal then
          Inl (nats_corrupt ''transactional event has invalid transaction coordinates'')
        else Inr (unat ordinal, unat count)))
      else Inr (event_ordinal, event_count))"

text \<open>The identities of the content and the recorded event they make.\<close>

definition decode_recorded ::
  "nats_externals \<Rightarrow> stream_id \<Rightarrow> stored_event_content \<Rightarrow> event_store_error + recorded_event" where
  "decode_recorded X stream event =
     rbind (map_err (corrupt_identity ''invalid stored commit identity'')
       (CommitId_new (ec_commit_id event))) (\<lambda>commit_id.
     rbind (map_err (corrupt_identity ''invalid stored operation identity'')
       (OperationId_new (ec_operation_id event))) (\<lambda>operation_id.
     rbind (map_err (corrupt_identity ''invalid stored operation fingerprint'')
       (fingerprint_from_hex (ec_operation_fingerprint event))) (\<lambda>fingerprint.
     rbind (map_err (corrupt_contract ''invalid stored correlation identity'')
       (optional_new CorrelationId_new (ec_correlation_id event))) (\<lambda>correlation_id.
     rbind (map_err (corrupt_contract ''invalid stored causation identity'')
       (optional_new CausationId_new (ec_causation_id event))) (\<lambda>causation_id.
     rbind (map_err (corrupt_identity ''invalid stored event identity'')
       (EventId_new (ec_event_id event))) (\<lambda>event_id.
     rbind (map_err (corrupt_external ''invalid stored event payload'')
       (nx_base64_decode X (ec_payload_base64 event))) (\<lambda>payload.
     let expected_commit_id = derive_commit_id (nx_sha256 X) stream operation_id in
     if expected_commit_id \<noteq> commit_id
        \<or> derive_event_id (nx_sha256 X) expected_commit_id (ec_commit_event_ordinal event)
            \<noteq> event_id then
       Inl (nats_corrupt ''stored event has incompatible derived identities'')
     else
       rbind (map_err (corrupt_envelope ''invalid recorded event'')
         (RecordedEvent_new_in_commit stream (ec_stream_version event) event_id commit_id
           operation_id fingerprint (ec_commit_event_ordinal event)
           (ec_commit_event_count event) (ec_event_type event) (ec_event_schema_version event)
           payload)) (\<lambda>recorded.
       Inr (recorded\<lparr>re_correlation_id := correlation_id, re_causation_id := causation_id,
                     re_actor := ec_actor event\<rparr>)))))))))"

definition decode_event_inner ::
  "nats_externals \<Rightarrow> nats_config \<Rightarrow> string \<Rightarrow> stream_id option \<Rightarrow> u64 option \<Rightarrow> header_map \<Rightarrow>
   bytes \<Rightarrow> event_store_error + decoded_stored_event" where
  "decode_event_inner X config subject expected_stream expected_sequence headers payload =
     rbind (ensure (length payload \<le> max_supported_event_bytes)
       (nats_corrupt ''stored event exceeds the supported byte limit'')) (\<lambda>_.
     rbind (map_err (corrupt_external ''stored event is not valid wire JSON'')
       (nx_event_from_slice X payload)) (\<lambda>wire.
     let schema = ew_schema_version wire; event = ew_event wire in
     rbind (check_event_schema schema event) (\<lambda>_.
     rbind (map_err (corrupt_external ''stored event cannot be checksummed'')
       (event_checksum X schema event)) (\<lambda>expected_checksum.
     if ew_checksum wire \<noteq> expected_checksum then
       Inl (nats_corrupt ''stored event checksum does not match its content'')
     else if ec_event_store_stream event \<noteq> nc_stream_name config then
       Inl (nats_corrupt ''stored event belongs to a different event-store stream'')
     else if event_schema \<le> schema
         \<and> (ec_application event \<noteq> Some (nc_application config)
            \<or> ec_bounded_context event \<noteq> Some (nc_bounded_context config)) then
       Inl (nats_corrupt ''stored event belongs to a different application or bounded context'')
     else
       rbind (map_err (corrupt_identity ''invalid stored aggregate type'')
         (AggregateType_new (si_aggregate_type (ec_stream event)))) (\<lambda>aggregate_type.
       rbind (map_err (corrupt_identity ''invalid stored aggregate id'')
         (AggregateId_new (si_aggregate_id (ec_stream event)))) (\<lambda>aggregate_id.
       let stream = StreamId aggregate_type aggregate_id in
       if (case expected_stream of None \<Rightarrow> False | Some expected \<Rightarrow> stream \<noteq> expected) then
         Inl (nats_corrupt ''stored event belongs to a different aggregate stream'')
       else if aggregate_subject (nx_sha256 X) config (stream_aggregate_type stream)
           (stream_aggregate_id stream) \<noteq> subject then
         Inl (nats_corrupt ''stored event is on the wrong aggregate subject'')
       else
         let event_count = unat (ec_commit_event_count event);
             event_ordinal = unat (ec_commit_event_ordinal event) in
         if event_count = 0 \<or> max_events_per_batch < event_count \<or> event_count \<le> event_ordinal
         then Inl (nats_corrupt ''stored event has invalid commit coordinates'')
         else
           rbind (decode_transaction_coordinates schema event event_ordinal event_count)
             (\<lambda>(transaction_ordinal, transaction_count).
           if ec_stream_version event = 0 then
             Inl (nats_corrupt ''stored event has aggregate version zero'')
           else
             rbind (decode_recorded X stream event) (\<lambda>recorded.
             rbind (validate_atomic_headers (nc_stream_name config) headers schema event_ordinal
               event_count transaction_ordinal expected_sequence) (\<lambda>batch_id.
             Inr \<lparr>ds_decoded =
                    \<lparr>de_batch_id = batch_id, de_commit_id = re_commit_id recorded,
                     de_operation_id = re_operation_id recorded,
                     de_operation_fingerprint = re_operation_fingerprint recorded,
                     de_event_ordinal = event_ordinal, de_event_count = event_count,
                     de_transaction_event_ordinal = transaction_ordinal,
                     de_transaction_event_count = transaction_count,
                     de_is_transactional = transactional_event_schema schema,
                     de_recorded = recorded\<rparr>,
                  ds_global_stream_sequence = 0,
                  ds_is_transactional = transactional_event_schema schema\<rparr>))))))))) "

definition decode_event ::
  "nats_externals \<Rightarrow> nats_config \<Rightarrow> string \<Rightarrow> stream_id \<Rightarrow> u64 option \<Rightarrow> u64 \<Rightarrow> header_map \<Rightarrow>
   bytes \<Rightarrow> event_store_error + decoded_stored_event" where
  "decode_event X config subject expected_stream expected_sequence global_sequence headers
      payload =
     rbind (decode_event_inner X config subject (Some expected_stream) expected_sequence headers
       payload) (\<lambda>stored. Inr (stored\<lparr>ds_global_stream_sequence := global_sequence\<rparr>))"

definition decode_consumed_event ::
  "nats_externals \<Rightarrow> nats_config \<Rightarrow> string \<Rightarrow> header_map \<Rightarrow> bytes \<Rightarrow>
   event_store_error + decoded_event" where
  "decode_consumed_event X config subject headers payload =
     map_ok ds_decoded (decode_event_inner X config subject None None headers payload)"

section \<open>Histories\<close>

record transaction_provenance =
  tp_batch_id :: string
  tp_start :: nat
  tp_end :: nat
  tp_transaction_event_count :: nat

record stored_commit =
  sc_batch :: event_batch
  sc_events :: "recorded_event list"
  sc_global_stream_sequences :: "u64 list"
  sc_transaction :: "transaction_provenance option"

record nats_history =
  nh_events :: "recorded_event list"
  nh_global_stream_sequences :: "u64 list"
  nh_commits :: "stored_commit list"
  nh_last_subject_stream_sequence :: u64

definition history_default :: nats_history where
  "history_default =
     \<lparr>nh_events = [], nh_global_stream_sequences = [], nh_commits = [],
      nh_last_subject_stream_sequence = 0\<rparr>"

record pending_commit =
  pc_batch_id :: string
  pc_commit_id :: commit_id
  pc_operation_id :: operation_id
  pc_operation_fingerprint :: fingerprint
  pc_event_count :: nat
  pc_events :: "recorded_event list"
  pc_global_stream_sequences :: "u64 list"
  pc_transaction :: "transaction_provenance option"

record history_builder =
  hb_history :: nats_history
  hb_current_version :: stream_version
  hb_operation_ids :: "operation_id set"
  hb_commit_ids :: "commit_id set"
  hb_event_ids :: "event_id set"
  hb_pending :: "pending_commit option"

definition builder_default :: history_builder where
  "builder_default =
     \<lparr>hb_history = history_default, hb_current_version = 0, hb_operation_ids = {},
      hb_commit_ids = {}, hb_event_ids = {}, hb_pending = None\<rparr>"

definition history_version :: "nats_history \<Rightarrow> stream_version" where
  "history_version history =
     (if nh_events history = [] then 0 else re_stream_version (last (nh_events history)))"

definition builder_from_history :: "nats_history \<Rightarrow> history_builder" where
  "builder_from_history history =
     \<lparr>hb_history = history, hb_current_version = history_version history,
      hb_operation_ids = (\<lambda>c. eb_operation_id (sc_batch c)) ` set (nh_commits history),
      hb_commit_ids = (\<lambda>c. eb_commit_id (sc_batch c)) ` set (nh_commits history),
      hb_event_ids = re_event_id ` set (nh_events history),
      hb_pending = None\<rparr>"

definition pending_new ::
  "decoded_event \<Rightarrow> u64 \<Rightarrow> bool \<Rightarrow> event_store_error + pending_commit" where
  "pending_new decoded global_sequence is_transactional =
     rbind (if is_transactional then
              rbind (ok_or (nats_corrupt ''transactional commit ordinal range overflowed'')
                (checked_add_usize (de_transaction_event_ordinal decoded)
                  (de_event_count decoded))) (\<lambda>end'.
              if de_transaction_event_count decoded < end' then
                Inl (nats_corrupt ''transactional commit exceeds its transaction event range'')
              else Inr (Some \<lparr>tp_batch_id = de_batch_id decoded,
                              tp_start = de_transaction_event_ordinal decoded, tp_end = end',
                              tp_transaction_event_count = de_transaction_event_count decoded\<rparr>))
            else Inr None) (\<lambda>transaction.
     Inr \<lparr>pc_batch_id = de_batch_id decoded, pc_commit_id = de_commit_id decoded,
          pc_operation_id = de_operation_id decoded,
          pc_operation_fingerprint = de_operation_fingerprint decoded,
          pc_event_count = de_event_count decoded, pc_events = [de_recorded decoded],
          pc_global_stream_sequences = [global_sequence], pc_transaction = transaction\<rparr>)"

definition pending_push ::
  "pending_commit \<Rightarrow> decoded_event \<Rightarrow> u64 \<Rightarrow> bool \<Rightarrow> event_store_error + pending_commit" where
  "pending_push p decoded global_sequence is_transactional =
     (case pc_events p of
        [] \<Rightarrow> Inl (nats_corrupt ''stored commit is empty'')
      | first # _ \<Rightarrow>
          let transaction_matches =
                (case pc_transaction p of
                   None \<Rightarrow> \<not> is_transactional
                 | Some t \<Rightarrow> is_transactional \<and> de_batch_id decoded = tp_batch_id t
                     \<and> de_transaction_event_count decoded = tp_transaction_event_count t
                     \<and> checked_add_usize (tp_start t) (de_event_ordinal decoded)
                         = Some (de_transaction_event_ordinal decoded))
          in if de_event_ordinal decoded \<noteq> length (pc_events p)
               \<or> de_event_count decoded \<noteq> pc_event_count p
               \<or> de_batch_id decoded \<noteq> pc_batch_id p
               \<or> de_commit_id decoded \<noteq> pc_commit_id p
               \<or> de_operation_id decoded \<noteq> pc_operation_id p
               \<or> de_operation_fingerprint decoded \<noteq> pc_operation_fingerprint p
               \<or> re_correlation_id (de_recorded decoded) \<noteq> re_correlation_id first
               \<or> re_causation_id (de_recorded decoded) \<noteq> re_causation_id first
               \<or> re_actor (de_recorded decoded) \<noteq> re_actor first
               \<or> \<not> transaction_matches then
               Inl (nats_corrupt ''stored commit metadata is inconsistent'')
             else
               Inr (p\<lparr>pc_events := pc_events p @ [de_recorded decoded],
                      pc_global_stream_sequences :=
                        pc_global_stream_sequences p @ [global_sequence]\<rparr>))"

definition pending_is_complete :: "pending_commit \<Rightarrow> bool" where
  "pending_is_complete p \<longleftrightarrow> length (pc_events p) = pc_event_count p"

definition transaction_batch_start_sequence ::
  "stored_commit \<Rightarrow> transaction_provenance \<Rightarrow> event_store_error + u64" where
  "transaction_batch_start_sequence commit provenance =
     (case sc_global_stream_sequences commit of
        [] \<Rightarrow> Inl (nats_corrupt ''transactional commit has no global stream sequence'')
      | first_sequence # _ \<Rightarrow>
          rbind (ok_or (nats_corrupt ''transaction event ordinal cannot be represented'')
            (u64_try_from (tp_start provenance))) (\<lambda>offset.
          rbind (ok_or (nats_corrupt ''transaction batch start sequence underflowed'')
            (checked_sub first_sequence offset)) (\<lambda>start.
          if start = 0 then Inl (nats_corrupt ''transaction batch has an invalid start sequence'')
          else Inr start)))"

text \<open>The sequence of an item of a batch, \<open>None\<close> where it does not fit.\<close>

definition sequence_at :: "u64 \<Rightarrow> nat \<Rightarrow> u64 option" where
  "sequence_at start index = Option.bind (u64_try_from index) (checked_add start)"

definition pending_finish :: "pending_commit \<Rightarrow> event_store_error + stored_commit" where
  "pending_finish p =
     (case pc_events p of
        [] \<Rightarrow> Inl (nats_corrupt ''stored commit is empty'')
      | first # _ \<Rightarrow>
          rbind (collect_results (\<lambda>event.
              map_err (corrupt_envelope ''invalid stored event envelope'')
                (NewEvent_new (re_event_id event) (re_event_type event) (re_schema_version event)
                  (re_payload event))) (pc_events p)) (\<lambda>new_events.
          rbind (map_err (corrupt_envelope ''invalid stored event batch'')
            (EventBatch_new (pc_commit_id p) (pc_operation_id p) (pc_operation_fingerprint p)
              new_events)) (\<lambda>batch.
          let commit =
                \<lparr>sc_batch = batch\<lparr>eb_correlation_id := re_correlation_id first,
                                  eb_causation_id := re_causation_id first,
                                  eb_actor := re_actor first\<rparr>,
                 sc_events = pc_events p,
                 sc_global_stream_sequences = pc_global_stream_sequences p,
                 sc_transaction = pc_transaction p\<rparr>
          in case sc_global_stream_sequences commit of
               [] \<Rightarrow> Inl (nats_corrupt ''stored commit has no global stream sequence'')
             | first_sequence # _ \<Rightarrow>
                 if \<not> list_all (\<lambda>(index, sequence).
                       sequence_at first_sequence index = Some sequence)
                     (enumerate 0 (sc_global_stream_sequences commit)) then
                   Inl (nats_corrupt
                     ''stored commit events are not contiguous in their atomic batch'')
                 else
                   case sc_transaction commit of
                     None \<Rightarrow> Inr commit
                   | Some provenance \<Rightarrow>
                       rbind (transaction_batch_start_sequence commit provenance)
                         (\<lambda>_. Inr commit))))"

text \<open>The commit an event starts or continues, and the builder with the identities it uses.\<close>

definition builder_enlist ::
  "history_builder \<Rightarrow> decoded_stored_event \<Rightarrow>
   event_store_error + pending_commit \<times> history_builder" where
  "builder_enlist b stored =
     (let decoded = ds_decoded stored; sequence = ds_global_stream_sequence stored in
      if de_event_ordinal decoded = 0 then
        (if hb_pending b \<noteq> None then
           Inl (nats_corrupt ''aggregate history contains an incomplete commit'')
         else if de_operation_id decoded \<in> hb_operation_ids b then
           Inl (nats_corrupt ''aggregate history contains a duplicate operation identity'')
         else if de_commit_id decoded \<in> hb_commit_ids b then
           Inl (nats_corrupt ''aggregate history contains a duplicate commit identity'')
         else
           rbind (pending_new decoded sequence (ds_is_transactional stored)) (\<lambda>p.
           Inr (p, b\<lparr>hb_operation_ids := insert (de_operation_id decoded) (hb_operation_ids b),
                      hb_commit_ids := insert (de_commit_id decoded) (hb_commit_ids b)\<rparr>)))
      else
        rbind (ok_or (nats_corrupt ''aggregate history starts inside a commit'') (hb_pending b))
          (\<lambda>p.
        rbind (pending_push p decoded sequence (ds_is_transactional stored)) (\<lambda>p.
        Inr (p, b))))"

text \<open>A commit that is complete moves to the history.\<close>

definition builder_settle ::
  "history_builder \<Rightarrow> pending_commit \<Rightarrow> event_store_error + history_builder" where
  "builder_settle b p =
     (if pending_is_complete p then
        rbind (pending_finish p) (\<lambda>commit.
        let h = hb_history b in
        Inr (b\<lparr>hb_pending := None,
               hb_history := h\<lparr>nh_events := nh_events h @ sc_events commit,
                 nh_global_stream_sequences :=
                   nh_global_stream_sequences h @ sc_global_stream_sequences commit,
                 nh_commits := nh_commits h @ [commit]\<rparr>\<rparr>))
      else Inr (b\<lparr>hb_pending := Some p\<rparr>))"

definition builder_push ::
  "history_builder \<Rightarrow> decoded_stored_event \<Rightarrow> event_store_error + history_builder" where
  "builder_push b stored =
     (let decoded = ds_decoded stored in
      if ds_global_stream_sequence stored = 0 then
        Inl (nats_corrupt ''stored event has an invalid global stream sequence'')
      else
        rbind (ok_or (nats_corrupt ''aggregate version space overflowed'')
          (version_next (hb_current_version b))) (\<lambda>expected_version.
        if re_stream_version (de_recorded decoded) \<noteq> expected_version then
          Inl (nats_corrupt ''aggregate events are missing, duplicated, or noncontiguous'')
        else if re_event_id (de_recorded decoded) \<in> hb_event_ids b then
          Inl (nats_corrupt ''aggregate history contains a duplicate event identity'')
        else
          rbind (builder_enlist
            (b\<lparr>hb_event_ids := insert (re_event_id (de_recorded decoded)) (hb_event_ids b)\<rparr>) stored)
            (\<lambda>(p, b).
          builder_settle (b\<lparr>hb_current_version := expected_version\<rparr>) p)))"

definition builder_finish :: "history_builder \<Rightarrow> u64 \<Rightarrow> event_store_error + nats_history" where
  "builder_finish b last_sequence =
     (if hb_pending b \<noteq> None \<or> hb_current_version b = 0 then
        Inl (nats_corrupt ''aggregate history ended inside a commit'')
      else Inr ((hb_history b)\<lparr>nh_last_subject_stream_sequence := last_sequence\<rparr>))"

end
