(* ===== verification/NatsBroker.thy ===== *)
theory NatsBroker
  imports NatsEvents
begin

text \<open>
  JetStream as the event store on NATS uses it, and the parts of \<open>rostfrei-nats/src\<close> that talk to it
  directly: \<open>stream_policy.rs\<close>, \<open>event_store/history_reader.rs\<close> and the atomic publishing of
  \<open>event_store.rs\<close>. The server and its client library are outside the repository: the record
  \<open>jetstream\<close> has one field per call, each a function of the world that returns the world after it.
  What other clients do meanwhile is part of what a call does to the world, so that every call may
  be preceded by steps of others.
\<close>

section \<open>Calls\<close>

record raw_message =
  rm_subject :: string
  rm_sequence :: u64
  rm_headers :: header_map
  rm_payload :: bytes

datatype raw_lookup_error = NoMessageFound | LookupFailed string

datatype stream_lookup_error = StreamNotFound string | StreamLookupFailed string

fun stream_lookup_text :: "stream_lookup_error \<Rightarrow> string" where
  "stream_lookup_text (StreamNotFound t) = t"
| "stream_lookup_text (StreamLookupFailed t) = t"

definition is_stream_not_found :: "stream_lookup_error \<Rightarrow> bool" where
  "is_stream_not_found e = (case e of StreamNotFound _ \<Rightarrow> True | StreamLookupFailed _ \<Rightarrow> False)"

record stream_info =
  sn_created :: string
  sn_config :: stream_policy
  sn_messages :: u64
  sn_first_sequence :: u64
  sn_last_sequence :: u64

text \<open>A delivery of a consumer: its message and what its reply subject says of it.\<close>

record delivery_info =
  dn_stream :: string
  dn_consumer :: string
  dn_stream_sequence :: u64

record delivered_message =
  dm_subject :: string
  dm_headers :: "header_map option"
  dm_payload :: bytes
  dm_info :: "string + delivery_info"

datatype replayed = ReplayTimedOut | ReplayEnded | ReplayFailed string | Replayed delivered_message

text \<open>A consumer: its name, and the deliveries its subscription will make, or why there is none.\<close>

record replay_consumer =
  rp_name :: string
  rp_messages :: "string + replayed list"

datatype delete_consumer_result = ConsumerDeleted | ConsumerNotFound | ConsumerDeleteFailed string

record 'w jetstream =
  js_get_stream :: "string \<Rightarrow> 'w \<Rightarrow> (stream_lookup_error + stream_info) \<times> 'w"
  js_last_by_subject :: "string \<Rightarrow> string \<Rightarrow> 'w \<Rightarrow> (raw_lookup_error + raw_message) \<times> 'w"
  js_first_by_subject ::
    "string \<Rightarrow> string \<Rightarrow> u64 \<Rightarrow> 'w \<Rightarrow> (raw_lookup_error + raw_message) \<times> 'w"
  js_raw_message :: "string \<Rightarrow> u64 \<Rightarrow> 'w \<Rightarrow> (raw_lookup_error + raw_message) \<times> 'w"
  js_create_consumer ::
    "string \<Rightarrow> string \<Rightarrow> string \<Rightarrow> 'w \<Rightarrow> (string + replay_consumer) \<times> 'w"
  js_delete_consumer :: "string \<Rightarrow> string \<Rightarrow> 'w \<Rightarrow> delete_consumer_result \<times> 'w"
  js_send_request :: "string \<Rightarrow> header_map \<Rightarrow> bytes \<Rightarrow> 'w \<Rightarrow> (string + bytes) \<times> 'w"
  js_new_inbox :: "'w \<Rightarrow> string \<times> 'w"

section \<open>Sequencing\<close>

text \<open>An asynchronous function that may fail, run to its end: \<open>?\<close> after \<open>await\<close>.\<close>

type_synonym ('w, 'e, 'a) async = "'w \<Rightarrow> ('e + 'a) \<times> 'w"

definition async_bind ::
  "('w, 'e, 'a) async \<Rightarrow> ('a \<Rightarrow> ('w, 'e, 'b) async) \<Rightarrow> ('w, 'e, 'b) async" where
  "async_bind m f = (\<lambda>w. case m w of (Inl e, w') \<Rightarrow> (Inl e, w') | (Inr a, w') \<Rightarrow> f a w')"

definition async_of :: "'e + 'a \<Rightarrow> ('w, 'e, 'a) async" where
  "async_of r = (\<lambda>w. (r, w))"

abbreviation async_ok :: "'a \<Rightarrow> ('w, 'e, 'a) async" where
  "async_ok a \<equiv> async_of (Inr a)"

abbreviation async_err :: "'e \<Rightarrow> ('w, 'e, 'a) async" where
  "async_err e \<equiv> async_of (Inl e)"

definition async_map_err :: "('e \<Rightarrow> 'f) \<Rightarrow> ('w, 'e, 'a) async \<Rightarrow> ('w, 'f, 'a) async" where
  "async_map_err f m = (\<lambda>w. case m w of (r, w') \<Rightarrow> (map_err f r, w'))"

definition async_map :: "('a \<Rightarrow> 'b) \<Rightarrow> ('w, 'e, 'a) async \<Rightarrow> ('w, 'e, 'b) async" where
  "async_map f m = (\<lambda>w. case m w of (r, w') \<Rightarrow> (map_ok f r, w'))"

text \<open>A call whose result is matched on instead of returned.\<close>

definition async_match ::
  "('w, 'e, 'a) async \<Rightarrow> ('e + 'a \<Rightarrow> ('w, 'f, 'b) async) \<Rightarrow> ('w, 'f, 'b) async" where
  "async_match m f = (\<lambda>w. case m w of (r, w') \<Rightarrow> f r w')"

fun async_each :: "('a \<Rightarrow> ('w, 'e, unit) async) \<Rightarrow> 'a list \<Rightarrow> ('w, 'e, unit) async" where
  "async_each f [] = async_ok ()"
| "async_each f (x # xs) = async_bind (f x) (\<lambda>_. async_each f xs)"

section \<open>Errors of lookups\<close>

definition nats_unavailable_with :: "string \<Rightarrow> string \<Rightarrow> event_store_error" where
  "nats_unavailable_with t e = store_error_new Unavailable (Wrapped_text t (External_text e))"

definition classify_required_raw_lookup_error ::
  "string \<Rightarrow> string \<Rightarrow> raw_lookup_error \<Rightarrow> event_store_error" where
  "classify_required_raw_lookup_error missing unavailable e =
     (case e of
        NoMessageFound \<Rightarrow> nats_corrupt missing
      | LookupFailed t \<Rightarrow> nats_unavailable_with unavailable t)"

definition preserve_original_unavailable ::
  "event_store_error \<Rightarrow> event_store_error \<Rightarrow> event_store_error" where
  "preserve_original_unavailable original error =
     (if store_kind error = Unavailable then original else error)"

section \<open>Stream policies\<close>

definition is_server_metadata :: "string \<Rightarrow> bool" where
  "is_server_metadata key \<longleftrightarrow> take 6 key = ''_nats.''"

definition metadata_matches :: "stream_policy \<Rightarrow> stream_policy \<Rightarrow> bool" where
  "metadata_matches expected actual \<longleftrightarrow>
     fmfilter (\<lambda>key. \<not> is_server_metadata key) (sp_metadata expected)
       = fmfilter (\<lambda>key. \<not> is_server_metadata key) (sp_metadata actual)"

definition compression_matches :: "stream_policy \<Rightarrow> stream_policy \<Rightarrow> bool" where
  "compression_matches expected actual \<longleftrightarrow>
     (let e = fmlookup (sp_other expected) ''compression'';
          a = fmlookup (sp_other actual) ''compression''
      in e = a \<or> (e = None \<and> a = Some ''none'') \<or> (e = Some ''none'' \<and> a = None))"

text \<open>The \<open>compare!\<close> of a field the source never sets.\<close>

definition other_differs :: "stream_policy \<Rightarrow> stream_policy \<Rightarrow> string \<Rightarrow> string list" where
  "other_differs expected actual field =
     (if fmlookup (sp_other actual) field \<noteq> fmlookup (sp_other expected) field
      then [field] else [])"

definition stream_config_mismatches :: "stream_policy \<Rightarrow> stream_policy \<Rightarrow> string list" where
  "stream_config_mismatches expected actual =
     (let differs = (\<lambda>same field. if same then [] else [field]) in
      differs (sp_name actual = sp_name expected) ''name''
      @ differs (sp_max_bytes actual = sp_max_bytes expected) ''max_bytes''
      @ differs (sp_max_messages actual = sp_max_messages expected) ''max_messages''
      @ differs (sp_max_messages_per_subject actual = sp_max_messages_per_subject expected)
          ''max_messages_per_subject''
      @ differs (sp_discard actual = sp_discard expected) ''discard''
      @ differs (sp_discard_new_per_subject actual = sp_discard_new_per_subject expected)
          ''discard_new_per_subject''
      @ differs (sp_subjects actual = sp_subjects expected) ''subjects''
      @ differs (sp_retention actual = sp_retention expected) ''retention''
      @ differs (sp_max_consumers actual = sp_max_consumers expected) ''max_consumers''
      @ differs (sp_max_age actual = sp_max_age expected) ''max_age''
      @ differs (sp_max_message_size actual = sp_max_message_size expected) ''max_message_size''
      @ differs (sp_storage actual = sp_storage expected) ''storage''
      @ differs (sp_num_replicas actual = sp_num_replicas expected) ''num_replicas''
      @ differs (sp_no_ack actual = sp_no_ack expected) ''no_ack''
      @ differs (sp_duplicate_window actual = sp_duplicate_window expected) ''duplicate_window''
      @ concat (map (other_differs expected actual) [''template_owner'', ''sealed'', ''description''])
      @ differs (sp_allow_rollup actual = sp_allow_rollup expected) ''allow_rollup''
      @ differs (sp_deny_delete actual = sp_deny_delete expected) ''deny_delete''
      @ differs (sp_deny_purge actual = sp_deny_purge expected) ''deny_purge''
      @ concat (map (other_differs expected actual)
          [''republish'', ''allow_direct'', ''mirror_direct'', ''mirror'', ''sources''])
      @ differs (metadata_matches expected actual) ''metadata''
      @ other_differs expected actual ''subject_transform''
      @ differs (compression_matches expected actual) ''compression''
      @ concat (map (other_differs expected actual)
          [''consumer_limits'', ''first_sequence'', ''placement'', ''persist_mode'', ''pause_until'',
           ''allow_message_ttl'', ''subject_delete_marker_ttl''])
      @ differs (sp_allow_atomic_publish actual = sp_allow_atomic_publish expected)
          ''allow_atomic_publish''
      @ concat (map (other_differs expected actual)
          [''allow_message_schedules'', ''allow_message_counter'', ''allow_batch_publish'']))"

definition join_fields :: "string list \<Rightarrow> string" where
  "join_fields names = concat (map (\<lambda>(i, f). if i = 0 then f else '', '' @ f) (enumerate 0 names))"

definition journal_binding :: string where
  "journal_binding = ''rostfrei.split.journal-incarnation''"

definition state_binding :: string where
  "state_binding = ''rostfrei.split.state-incarnation''"

definition carry_binding :: "stream_policy \<Rightarrow> string \<Rightarrow> stream_policy \<Rightarrow> stream_policy" where
  "carry_binding actual key compatible =
     (case fmlookup (sp_metadata actual) key of
        None \<Rightarrow> compatible
      | Some v \<Rightarrow> compatible\<lparr>sp_metadata := fmupd key v (sp_metadata compatible)\<rparr>)"

definition verify_stream_config ::
  "stream_policy \<Rightarrow> stream_policy \<Rightarrow> event_store_error + unit" where
  "verify_stream_config expected actual =
     (if fBex (fmdom (sp_metadata expected)) (\<lambda>key.
           fmlookup (sp_metadata actual) key \<noteq> fmlookup (sp_metadata expected) key) then
        Inl (nats_mismatch (''existing stream does not carry the requested completed outcome ''
          @ ''epoch; legacy activation is forbidden''))
      else
        let compatible = carry_binding actual journal_binding expected;
            compatible = carry_binding actual state_binding compatible;
            compatible = (if sp_metadata expected = fmempty
              then compatible\<lparr>sp_metadata := sp_metadata actual\<rparr> else compatible);
            compatible = (if sp_max_message_size actual = - 1
                \<or> sp_max_message_size expected < sp_max_message_size actual
              then compatible\<lparr>sp_max_message_size := sp_max_message_size actual\<rparr>
              else compatible);
            mismatches = stream_config_mismatches compatible actual
        in if mismatches = [] then Inr ()
           else Inl (store_error_new ConfigurationMismatch
             (Wrapped_text ''existing JetStream configuration differs in''
               (External_text (join_fields mismatches)))))"

section \<open>Reading the history of a subject\<close>

record history_reader =
  hr_messages :: "replayed list option"
  hr_stream_name :: string
  hr_consumer_name :: "string option"

definition HistoryReader_new ::
  "'w jetstream \<Rightarrow> string \<Rightarrow> string \<Rightarrow> ('w, event_store_error, history_reader) async" where
  "HistoryReader_new J stream_name subject =
     (\<lambda>w. case js_new_inbox J w of (inbox, w) \<Rightarrow>
      let name = map (\<lambda>c. if c = CHR ''.'' then CHR ''_'' else c) inbox in
      async_bind
        (async_map_err (nats_unavailable_with ''failed to create history replay'')
          (js_create_consumer J stream_name name subject)) (\<lambda>consumer.
      if rp_name consumer \<noteq> name then
        async_err (nats_unavailable ''history replay has an unexpected consumer name'')
      else
        async_bind (async_of (map_err
          (nats_unavailable_with ''failed to subscribe to history'') (rp_messages consumer)))
          (\<lambda>messages.
        async_ok \<lparr>hr_messages = Some messages, hr_stream_name = stream_name,
                  hr_consumer_name = Some name\<rparr>)) w)"

definition reader_next ::
  "history_reader \<Rightarrow> event_store_error + delivered_message \<times> delivery_info \<times> history_reader" where
  "reader_next reader =
     (case hr_messages reader of
        None \<Rightarrow> Inl (nats_unavailable ''history replay subscription is absent'')
      | Some [] \<Rightarrow> Inl (nats_unavailable ''history replay timed out'')
      | Some (ReplayTimedOut # _) \<Rightarrow> Inl (nats_unavailable ''history replay timed out'')
      | Some (ReplayEnded # _) \<Rightarrow> Inl (nats_unavailable ''history replay ended before its cutoff'')
      | Some (ReplayFailed e # _) \<Rightarrow> Inl (nats_unavailable_with ''history replay failed'' e)
      | Some (Replayed message # rest) \<Rightarrow>
          rbind (map_err (corrupt_external ''history replay has invalid delivery metadata'')
            (dm_info message)) (\<lambda>info.
          if dn_stream info \<noteq> hr_stream_name reader
             \<or> Some (dn_consumer info) \<noteq> hr_consumer_name reader then
            Inl (nats_corrupt ''history replay belongs to another stream or consumer'')
          else Inr (message, info, reader\<lparr>hr_messages := Some rest\<rparr>)))"

definition delete_consumer ::
  "'w jetstream \<Rightarrow> string \<Rightarrow> string \<Rightarrow> ('w, event_store_error, unit) async" where
  "delete_consumer J name stream =
     (\<lambda>w. case js_delete_consumer J name stream w of
        (ConsumerDeleted, w) \<Rightarrow> (Inr (), w)
      | (ConsumerNotFound, w) \<Rightarrow> (Inr (), w)
      | (ConsumerDeleteFailed e, w) \<Rightarrow>
          (Inl (nats_unavailable_with ''failed to delete history replay'' e), w))"

definition reader_close ::
  "'w jetstream \<Rightarrow> history_reader \<Rightarrow> ('w, event_store_error, unit) async" where
  "reader_close J reader =
     (case hr_consumer_name reader of
        None \<Rightarrow> async_ok ()
      | Some name \<Rightarrow> delete_consumer J name (hr_stream_name reader))"

section \<open>Atomic publishing\<close>

datatype atomic_publish_error = Expectation | StoreFailure event_store_error

record atomic_publish_message =
  am_subject :: string
  am_message_id :: "string option"
  am_payload :: bytes
  am_expected_last_subject_sequence :: "u64 option"
  am_expectation_subject :: "string option"

definition classify_atomic_api_error :: "api_error \<Rightarrow> atomic_publish_error" where
  "classify_atomic_api_error error =
     (let code = api_code error in
      if code = StreamWrongLastSequence \<or> code = StreamWrongLastSequenceConstant then
        Expectation
      else if code = StreamStoreFailed
          \<and> take 24 (api_text error) = ''maximum bytes exceeded ('' then
        StoreFailure (store_error_new CapacityExhausted
          (Fixed_text ''configured event-store byte capacity is exhausted''))
      else if code = AtomicPublishDisabled \<or> code = RequiredApiLevel then
        StoreFailure (store_error_new ConfigurationMismatch
          (Wrapped_text ''event-store stream does not support atomic publishing''
            (External_text (api_text error))))
      else if code = StreamMessageExceedsMaximum then
        StoreFailure (nats_invalid
          ''encoded event plus NATS headers exceeds the configured message-size limit'')
      else StoreFailure (nats_unavailable_with ''atomic event publish was rejected''
        (api_text error)))"

definition decode_atomic_publish_response ::
  "nats_externals \<Rightarrow> bytes \<Rightarrow> atomic_publish_error + atomic_publish_ack" where
  "decode_atomic_publish_response X payload =
     rbind (map_err (\<lambda>e. StoreFailure (corrupt_external
         ''NATS returned an invalid atomic PubAck'' e))
       (nx_response_from_slice X payload)) (\<lambda>response.
     case response of
       ResponseOk ack \<Rightarrow> Inr ack
     | ResponseErr error \<Rightarrow> Inl (classify_atomic_api_error error))"

definition optional_insert :: "string \<Rightarrow> string option \<Rightarrow> header_map \<Rightarrow> header_map" where
  "optional_insert name v headers =
     (case v of None \<Rightarrow> headers | Some v \<Rightarrow> header_insert name v headers)"

definition atomic_headers ::
  "nats_config \<Rightarrow> string \<Rightarrow> string option \<Rightarrow> nat \<Rightarrow> nat \<Rightarrow> atomic_publish_message \<Rightarrow> header_map" where
  "atomic_headers config batch_id correlation_id message_count index atomic =
     (let headers = header_insert ''Content-Type'' ''application/json'' fmempty;
          headers = header_insert ''Nats-Required-Api-Level'' ''2'' headers;
          headers = header_insert ''Nats-Batch-Id'' batch_id headers;
          headers = header_insert ''Nats-Batch-Sequence'' (decimal (index + 1)) headers;
          headers = optional_insert ''rostfrei-Control-Correlation-Id'' correlation_id headers;
          headers = optional_insert ''Nats-Msg-Id'' (am_message_id atomic) headers;
          headers = (if index = 0
            then header_insert ''Nats-Expected-Stream'' (nc_stream_name config) headers
            else headers);
          headers = optional_insert ''Nats-Expected-Last-Subject-Sequence''
            (map_option (\<lambda>n. decimal (unat n)) (am_expected_last_subject_sequence atomic)) headers;
          headers = optional_insert ''Nats-Expected-Last-Subject-Sequence-Subject''
            (am_expectation_subject atomic) headers
      in if index + 1 = message_count then header_insert ''Nats-Batch-Commit'' ''1'' headers
         else headers)"

fun publish_from ::
  "nats_externals \<Rightarrow> 'w jetstream \<Rightarrow> nats_config \<Rightarrow> string \<Rightarrow> string option \<Rightarrow> nat \<Rightarrow> nat \<Rightarrow>
   atomic_publish_message list \<Rightarrow> ('w, atomic_publish_error, atomic_publish_ack) async" where
  "publish_from X J config batch_id correlation_id message_count index [] =
     async_err (StoreFailure (nats_invalid ''cannot publish an empty atomic batch''))"
| "publish_from X J config batch_id correlation_id message_count index (atomic # rest) =
     (case checked_add_usize index 1 of
        None \<Rightarrow> async_err (StoreFailure (store_error_new CapacityExhausted
          (Fixed_text ''atomic batch sequence space is exhausted'')))
      | Some one_based \<Rightarrow>
          async_bind (async_map_err
            (\<lambda>e. StoreFailure (nats_unavailable_with ''atomic event publish failed'' e))
            (js_send_request J (am_subject atomic)
              (atomic_headers config batch_id correlation_id message_count index atomic)
              (am_payload atomic))) (\<lambda>payload.
          if one_based \<noteq> message_count then
            (if payload = [] then
               publish_from X J config batch_id correlation_id message_count one_based rest
             else
               async_of (case decode_atomic_publish_response X payload of
                 Inr _ \<Rightarrow> Inl (StoreFailure (nats_corrupt
                   ''NATS acknowledged an atomic batch before its final event''))
               | Inl error \<Rightarrow> Inl error))
          else if payload = [] then
            async_err (StoreFailure (nats_corrupt ''NATS omitted the atomic batch PubAck''))
          else async_of (decode_atomic_publish_response X payload)))"

definition publish_atomic_messages ::
  "nats_externals \<Rightarrow> 'w jetstream \<Rightarrow> nats_config \<Rightarrow> string \<Rightarrow> string option \<Rightarrow>
   atomic_publish_message list \<Rightarrow> ('w, atomic_publish_error, atomic_publish_ack) async" where
  "publish_atomic_messages X J config batch_id correlation_id messages =
     publish_from X J config batch_id correlation_id (length messages) 0 messages"

definition atomic_batch_messages ::
  "string \<Rightarrow> u64 \<Rightarrow> (string \<times> bytes) list \<Rightarrow> atomic_publish_message list" where
  "atomic_batch_messages subject expected events =
     map (\<lambda>(index, message_id, payload).
       \<lparr>am_subject = subject, am_message_id = Some message_id, am_payload = payload,
        am_expected_last_subject_sequence = (if index = 0 then Some expected else None),
        am_expectation_subject = None\<rparr>) (enumerate 0 events)"

definition publish_atomic_batch ::
  "nats_externals \<Rightarrow> 'w jetstream \<Rightarrow> nats_config \<Rightarrow> string \<Rightarrow> u64 \<Rightarrow> string \<Rightarrow> string option \<Rightarrow>
   (string \<times> bytes) list \<Rightarrow> ('w, atomic_publish_error, atomic_publish_ack) async" where
  "publish_atomic_batch X J config subject expected batch_id correlation_id events =
     publish_atomic_messages X J config batch_id correlation_id
       (atomic_batch_messages subject expected events)"

text \<open>A fresh batch identity: the hash of a new inbox and the identity of the commit or operation.\<close>

definition new_atomic_batch_id ::
  "nats_externals \<Rightarrow> 'w jetstream \<Rightarrow> string \<Rightarrow> 'w \<Rightarrow> string \<times> 'w" where
  "new_atomic_batch_id X J identity w =
     (case js_new_inbox J w of (inbox, w) \<Rightarrow>
        (encode_lower_hex (nx_sha256 X (str_bytes inbox @ str_bytes identity)), w))"

end
