(* ===== verification/NatsReceipts.thy ===== *)
theory NatsReceipts
  imports NatsBroker
begin

text \<open>
  Transaction receipts of the event store on NATS: what a receipt message holds, how it is encoded
  and decoded, and how it is joined with the histories of its participants into the receipt of the
  core (\<open>rostfrei-nats/src/event_store.rs\<close>). Loading a history is an argument of the functions here;
  \<open>NatsStore\<close> passes the store's own.
\<close>

section \<open>Schema versions\<close>

definition transaction_receipt_schema :: u16 where "transaction_receipt_schema = 1"
definition event_free_receipt_schema :: u16 where "event_free_receipt_schema = 2"
definition completed_outcome_schema :: u16 where "completed_outcome_schema = 3"
definition split_outcome_schema :: u16 where "split_outcome_schema = 4"
definition actor_receipt_schema :: u16 where "actor_receipt_schema = 5"

lemmas receipt_schemas =
  transaction_receipt_schema_def event_free_receipt_schema_def completed_outcome_schema_def
  split_outcome_schema_def actor_receipt_schema_def

section \<open>Encoding\<close>

record staged_participant =
  sg_stream_id :: stream_id
  sg_base_version :: stream_version
  sg_last_subject_stream_sequence :: u64
  sg_batch :: "event_batch option"
  sg_recorded :: "recorded_event list"

definition transaction_receipt_content ::
  "nats_config \<Rightarrow> event_transaction \<Rightarrow> staged_participant list \<Rightarrow>
   event_store_error + receipt_content" where
  "transaction_receipt_content config transaction staged =
     rbind (collect_results (\<lambda>participant.
         rbind (ok_or (nats_invalid ''transaction participant event count cannot be represented'')
           (u32_try_from (length (sg_recorded participant)))) (\<lambda>count.
         Inr \<lparr>pw_stream = stream_identity (sg_stream_id participant),
              pw_base_stream_version = sg_base_version participant,
              pw_commit_id = map_option eb_commit_id (sg_batch participant),
              pw_event_count = count\<rparr>)) staged) (\<lambda>participants.
     Inr \<lparr>rc_manifest = None, rc_security_scope = tx_security_scope transaction,
          rc_completion = tx_completion transaction,
          rc_event_store_stream = nc_stream_name config,
          rc_application = nc_application config,
          rc_bounded_context = nc_bounded_context config,
          rc_operation_id = tx_operation_id transaction,
          rc_operation_fingerprint = fingerprint_to_hex (tx_operation_fingerprint transaction),
          rc_correlation_id = tx_correlation_id transaction,
          rc_causation_id = tx_causation_id transaction,
          rc_actor = tx_actor transaction, rc_participants = participants\<rparr>)"

definition transaction_receipt_checksum ::
  "nats_externals \<Rightarrow> u16 \<Rightarrow> receipt_content \<Rightarrow> string + string" where
  "transaction_receipt_checksum X schema receipt =
     map_ok (\<lambda>input. encode_lower_hex (nx_sha256 X input))
       (nx_receipt_checksum_to_vec X schema receipt)"

definition receipt_has_events :: "receipt_content \<Rightarrow> bool" where
  "receipt_has_events content \<longleftrightarrow> list_ex (\<lambda>p. 0 < pw_event_count p) (rc_participants content)"

definition receipt_schema_of :: "receipt_content \<Rightarrow> u16" where
  "receipt_schema_of content =
     (if rc_actor content \<noteq> None then actor_receipt_schema
      else if rc_manifest content \<noteq> None then split_outcome_schema
      else if rc_completion content \<noteq> None then completed_outcome_schema
      else if receipt_has_events content then transaction_receipt_schema
      else event_free_receipt_schema)"

definition encode_transaction_receipt ::
  "nats_externals \<Rightarrow> receipt_content \<Rightarrow> event_store_error + bytes" where
  "encode_transaction_receipt X content =
     (let schema = receipt_schema_of content in
      rbind (map_err (\<lambda>e. store_error_new InvalidRequest
          (Wrapped_text ''failed to checksum transaction receipt'' (External_text e)))
        (transaction_receipt_checksum X schema content)) (\<lambda>checksum.
      map_err (\<lambda>e. store_error_new InvalidRequest
          (Wrapped_text ''failed to encode transaction receipt'' (External_text e)))
        (nx_receipt_to_vec X
          \<lparr>rw_schema_version = schema, rw_checksum = checksum, rw_receipt = content\<rparr>)))"

section \<open>Decoding\<close>

record decoded_receipt =
  dr_batch_id :: string
  dr_batch_sequence :: nat
  dr_stream_sequence :: u64
  dr_content :: receipt_content

fun receipt_items :: "nat \<Rightarrow> transaction_participant_wire list \<Rightarrow> nat option" where
  "receipt_items n [] = Some n"
| "receipt_items n (p # ps) =
     Option.bind (checked_add_usize n (max (unat (pw_event_count p)) 1)) (\<lambda>n. receipt_items n ps)"

definition validate_receipt_participant_shape ::
  "stored_receipt_wire \<Rightarrow> nat \<Rightarrow> event_store_error + unit" where
  "validate_receipt_participant_shape wire batch_sequence =
     (let schema = rw_schema_version wire; content = rw_receipt wire in
      if (schema \<notin> {completed_outcome_schema, split_outcome_schema, actor_receipt_schema}
            \<and> (schema = transaction_receipt_schema) \<noteq> receipt_has_events content)
         \<or> list_ex (\<lambda>p. (pw_event_count p = 0) \<noteq> (pw_commit_id p = None))
              (rc_participants content) then
        Inl (nats_corrupt ''stored transaction receipt has an invalid participant commit shape'')
      else
        rbind (ok_or (nats_corrupt
            ''stored transaction receipt batch sequence calculation overflowed'')
          (receipt_items 1 (rc_participants content))) (\<lambda>expected_final_sequence.
        if batch_sequence \<noteq> expected_final_sequence \<or> max_transaction_items < batch_sequence then
          Inl (nats_corrupt
            ''stored transaction receipt batch sequence does not match its participants'')
        else Inr ()))"

definition receipt_headers_ok ::
  "nats_config \<Rightarrow> header_map \<Rightarrow> event_store_error + string \<times> nat" where
  "receipt_headers_ok config headers =
     rbind (required_single_header headers ''Content-Type'') (\<lambda>content_type.
     rbind (if content_type \<noteq> ''application/json'' then Inr True
            else rbind (optional_single_header headers ''Nats-Batch-Commit'') (\<lambda>commit.
              if commit \<noteq> Some ''1'' then Inr True
              else map_ok (\<lambda>e. e \<noteq> Some ''0'')
                (optional_single_header headers ''Nats-Expected-Last-Subject-Sequence'')))
       (\<lambda>incompatible.
     rbind (ensure (\<not> incompatible)
       (nats_corrupt ''stored transaction receipt has incompatible atomic headers'')) (\<lambda>_.
     rbind (required_single_header headers ''Nats-Batch-Id'') (\<lambda>batch_id.
     rbind (ensure (batch_id \<noteq> [] \<and> length batch_id \<le> 64)
       (nats_corrupt ''stored transaction receipt has an invalid atomic batch identity'')) (\<lambda>_.
     rbind (required_single_header headers ''Nats-Batch-Sequence'') (\<lambda>text.
     rbind (ok_or (nats_corrupt ''stored transaction receipt has an invalid batch sequence'')
       (parse_usize text)) (\<lambda>batch_sequence.
     rbind (ensure (batch_sequence \<noteq> 0)
       (nats_corrupt ''stored transaction receipt has an invalid batch sequence'')) (\<lambda>_.
     rbind (optional_single_header headers ''Nats-Expected-Stream'') (\<lambda>expected_stream.
     rbind (if expected_stream
                \<noteq> (if batch_sequence = 1 then Some (nc_stream_name config) else None)
            then Inr True
            else map_ok (\<lambda>s. s \<noteq> None)
              (optional_single_header headers ''Nats-Expected-Last-Subject-Sequence-Subject''))
       (\<lambda>incompatible.
     rbind (ensure (\<not> incompatible)
       (nats_corrupt ''stored transaction receipt has incompatible stream expectations''))
       (\<lambda>_. Inr (batch_id, batch_sequence))))))))))))"

definition check_receipt_completion :: "receipt_content \<Rightarrow> event_store_error + unit" where
  "check_receipt_completion content =
     (case rc_completion content of
        None \<Rightarrow> Inr ()
      | Some completion \<Rightarrow>
          rbind (map_err (\<lambda>e. store_error_new CorruptHistory (render_codec e))
            (completion_validate completion)) (\<lambda>_.
          if cc_rejection completion \<noteq> None
             \<and> list_ex (\<lambda>p. pw_event_count p \<noteq> 0) (rc_participants content) then
            Inl (nats_corrupt ''rejected outcome contains domain events'')
          else Inr ()))"

definition decode_transaction_receipt ::
  "nats_externals \<Rightarrow> nats_config \<Rightarrow> u64 \<Rightarrow> header_map \<Rightarrow> bytes \<Rightarrow>
   event_store_error + decoded_receipt" where
  "decode_transaction_receipt X config stream_sequence headers payload =
     rbind (ensure (length payload \<le> max_supported_event_bytes)
       (nats_corrupt ''stored transaction receipt exceeds the supported byte limit'')) (\<lambda>_.
     rbind (receipt_headers_ok config headers) (\<lambda>(batch_id, batch_sequence).
     rbind (map_err (corrupt_external ''stored transaction receipt is invalid JSON'')
       (nx_receipt_from_slice X payload)) (\<lambda>wire.
     let schema = rw_schema_version wire; content = rw_receipt wire in
     if schema \<notin> {transaction_receipt_schema, event_free_receipt_schema,
          completed_outcome_schema, split_outcome_schema, actor_receipt_schema} then
       Inl (nats_corrupt ''stored transaction receipt has an unsupported schema version'')
     else if (schema = actor_receipt_schema) \<noteq> (rc_actor content \<noteq> None) then
       Inl (nats_corrupt ''stored transaction receipt actor/schema mismatch'')
     else
       rbind (map_err (corrupt_external ''stored transaction receipt cannot be checksummed'')
         (transaction_receipt_checksum X schema content)) (\<lambda>checksum.
       if checksum \<noteq> rw_checksum wire then
         Inl (nats_corrupt ''stored transaction receipt checksum does not match its content'')
       else if rc_event_store_stream content \<noteq> nc_stream_name config
           \<or> rc_application content \<noteq> nc_application config
           \<or> rc_bounded_context content \<noteq> nc_bounded_context config then
         Inl (nats_corrupt ''stored transaction receipt belongs to another event store'')
       else
         rbind (validate_receipt_participant_shape wire batch_sequence) (\<lambda>_.
         if (schema \<noteq> actor_receipt_schema
               \<and> (schema = split_outcome_schema) \<noteq> (rc_manifest content \<noteq> None))
            \<or> (rc_manifest content \<noteq> None
               \<and> (\<not> nc_split_outcomes config \<or> rc_completion content \<noteq> None)) then
           Inl (nats_corrupt ''split outcome schema/authority mismatch'')
         else if schema \<noteq> actor_receipt_schema
             \<and> (schema = completed_outcome_schema) \<noteq> (rc_completion content \<noteq> None) then
           Inl (nats_corrupt ''completed outcome schema/decision mismatch'')
         else
           rbind (check_receipt_completion content) (\<lambda>_.
           Inr \<lparr>dr_batch_id = batch_id, dr_batch_sequence = batch_sequence,
                dr_stream_sequence = stream_sequence, dr_content = content\<rparr>)))))) "

section \<open>Subjects of receipts\<close>

datatype transaction_subject_layout = OperationLayout | LegacyPrimary stream_id

fun receipt_subject ::
  "(bytes \<Rightarrow> bytes) \<Rightarrow> nats_config \<Rightarrow> transaction_subject_layout \<Rightarrow> string \<Rightarrow> string" where
  "receipt_subject sha config OperationLayout operation_id =
     transaction_subject sha config operation_id"
| "receipt_subject sha config (LegacyPrimary primary) operation_id =
     legacy_primary_transaction_subject sha config primary operation_id"

fun guard_subject ::
  "(bytes \<Rightarrow> bytes) \<Rightarrow> nats_config \<Rightarrow> transaction_subject_layout \<Rightarrow> string \<Rightarrow> nat \<Rightarrow> string" where
  "guard_subject sha config OperationLayout operation_id ordinal =
     transaction_guard_subject sha config operation_id ordinal"
| "guard_subject sha config (LegacyPrimary primary) operation_id ordinal =
     legacy_primary_transaction_guard_subject sha config primary operation_id ordinal"

definition stream_id_from_wire :: "stream_identity_wire \<Rightarrow> event_store_error + stream_id" where
  "stream_id_from_wire wire =
     rbind (map_err (corrupt_identity ''invalid receipt aggregate type'')
       (AggregateType_new (si_aggregate_type wire))) (\<lambda>aggregate_type.
     rbind (map_err (corrupt_identity ''invalid receipt aggregate identity'')
       (AggregateId_new (si_aggregate_id wire))) (\<lambda>aggregate_id.
     Inr (StreamId aggregate_type aggregate_id)))"

section \<open>Joining receipts and histories\<close>

record materialized_receipt =
  mr_receipt :: transaction_receipt
  mr_marker :: "outcome_marker option"
  mr_batch_id :: string
  mr_batch_start_stream_sequence :: u64
  mr_transaction_event_count :: nat

text \<open>The sequences of a commit lie in the atomic batch from its ordinal on.\<close>

definition sequences_from :: "u64 \<Rightarrow> nat \<Rightarrow> u64 list \<Rightarrow> bool" where
  "sequences_from batch_start ordinal sequences \<longleftrightarrow>
     list_all (\<lambda>(index, sequence).
       Option.bind (checked_add_usize ordinal index) (sequence_at batch_start) = Some sequence)
       (enumerate 0 sequences)"

definition transaction_receipt_covers_commit ::
  "materialized_receipt \<Rightarrow> stored_commit \<Rightarrow> bool" where
  "transaction_receipt_covers_commit m commit =
     (case sc_transaction commit of
        None \<Rightarrow> False
      | Some provenance \<Rightarrow>
          let batch = sc_batch commit; receipt = mr_receipt m in
          tp_batch_id provenance = mr_batch_id m
          \<and> tp_transaction_event_count provenance = mr_transaction_event_count m
          \<and> transaction_batch_start_sequence commit provenance
              = Inr (mr_batch_start_stream_sequence m)
          \<and> eb_operation_id batch = tr_operation_id receipt
          \<and> eb_operation_fingerprint batch = tr_operation_fingerprint receipt
          \<and> eb_correlation_id batch = tr_correlation_id receipt
          \<and> eb_causation_id batch = tr_causation_id receipt
          \<and> eb_actor batch = tr_actor receipt
          \<and> (case sc_events commit of
               [] \<Rightarrow> False
             | first # _ \<Rightarrow>
                 case find (\<lambda>s. sr_stream_id s = re_stream_id first) (tr_streams receipt) of
                   None \<Rightarrow> False
                 | Some stream \<Rightarrow>
                     sequences_from (mr_batch_start_stream_sequence m) (tp_start provenance)
                       (sc_global_stream_sequences commit)
                     \<and> checked_sub (re_stream_version first) 1 = Some (sr_base_version stream)
                     \<and> sr_events stream = sc_events commit))"

text \<open>\<open>binary_search_by_key\<close> over commits, whose first versions increase: the commit that starts at a
  version, if there is one.\<close>

definition commit_at_version :: "nats_history \<Rightarrow> u64 \<Rightarrow> stored_commit option" where
  "commit_at_version history first_version =
     find (\<lambda>commit. (case sc_events commit of [] \<Rightarrow> 0 | e # _ \<Rightarrow> re_stream_version e) = first_version)
       (nh_commits history)"

definition materialize_transaction_participant ::
  "nats_history \<Rightarrow> transaction_participant_wire \<Rightarrow> stream_version \<Rightarrow> operation_id \<Rightarrow> fingerprint \<Rightarrow>
   correlation_id option \<Rightarrow> causation_id option \<Rightarrow> actor_ref option \<Rightarrow> string \<Rightarrow> nat \<Rightarrow> nat \<Rightarrow> u64 \<Rightarrow>
   event_store_error + recorded_event list" where
  "materialize_transaction_participant history participant base_version operation_id fp
      correlation_id causation_id actor batch_id ordinal tx_count batch_start =
     (let event_count = unat (pw_event_count participant) in
      if event_count = 0 then
        (if pw_commit_id participant \<noteq> None then
           Inl (nats_corrupt ''transaction receipt read-only participant has a commit identity'')
         else if history_version history < base_version then
           Inl (nats_corrupt
             ''transaction receipt read-only participant has an invalid base version'')
         else Inr [])
      else
        rbind (ok_or (nats_corrupt ''transaction receipt write participant has no commit identity'')
          (pw_commit_id participant)) (\<lambda>commit_id.
        rbind (ok_or (nats_corrupt ''transaction receipt event ordinal overflowed'')
          (checked_add_usize ordinal event_count)) (\<lambda>ordinal_end.
        rbind (ok_or (nats_corrupt ''transaction receipt stream version overflowed'')
          (checked_add base_version 1)) (\<lambda>first_version.
        rbind (ok_or (nats_corrupt ''transaction receipt stream version overflowed'')
          (checked_add base_version (ucast (pw_event_count participant)))) (\<lambda>last_version.
        rbind (ok_or (nats_corrupt
            ''transaction receipt commit is absent from aggregate history'')
          (commit_at_version history first_version)) (\<lambda>stored.
        rbind (ok_or (nats_corrupt
            ''transaction receipt commit has no atomic transaction provenance'')
          (sc_transaction stored)) (\<lambda>provenance.
        if length (sc_events stored) \<noteq> event_count
           \<or> length (sc_global_stream_sequences stored) \<noteq> event_count
           \<or> (sc_events stored = [] \<or> re_stream_version (last (sc_events stored)) \<noteq> last_version)
           \<or> eb_commit_id (sc_batch stored) \<noteq> commit_id
           \<or> eb_operation_id (sc_batch stored) \<noteq> operation_id
           \<or> eb_operation_fingerprint (sc_batch stored) \<noteq> fp
           \<or> eb_correlation_id (sc_batch stored) \<noteq> correlation_id
           \<or> eb_causation_id (sc_batch stored) \<noteq> causation_id
           \<or> eb_actor (sc_batch stored) \<noteq> actor
           \<or> tp_batch_id provenance \<noteq> batch_id
           \<or> (tp_start provenance, tp_end provenance) \<noteq> (ordinal, ordinal_end)
           \<or> tp_transaction_event_count provenance \<noteq> tx_count
           \<or> \<not> sequences_from batch_start ordinal (sc_global_stream_sequences stored) then
          Inl (nats_corrupt ''transaction receipt does not match its aggregate commit provenance'')
        else Inr (sc_events stored))))))))"

definition global_sequence_at_version ::
  "nats_history \<Rightarrow> stream_version \<Rightarrow> event_store_error + u64" where
  "global_sequence_at_version history version =
     (if version = 0 then Inr 0
      else
        rbind (ok_or (nats_corrupt ''transaction read guard base version cannot be represented'')
          (map_option unat (checked_sub version 1))) (\<lambda>index.
        if index < length (nh_global_stream_sequences history)
        then Inr (nh_global_stream_sequences history ! index)
        else Inl (nats_corrupt ''transaction read guard base version is absent from history'')))"

definition guard_headers_ok ::
  "nats_config \<Rightarrow> header_map \<Rightarrow> string \<Rightarrow> nat \<Rightarrow> event_store_error + unit" where
  "guard_headers_ok config headers batch_id batch_ordinal =
     rbind (required_single_header headers ''Content-Type'') (\<lambda>content_type.
     rbind (if content_type \<noteq> ''application/json'' then Inr True
            else rbind (required_single_header headers ''Nats-Batch-Id'') (\<lambda>stored_batch.
              if stored_batch \<noteq> batch_id then Inr True
              else rbind (optional_single_header headers ''Nats-Expected-Stream'') (\<lambda>expected.
                if expected \<noteq> (if batch_ordinal = 0 then Some (nc_stream_name config) else None)
                then Inr True
                else map_ok (\<lambda>c. c \<noteq> None)
                  (optional_single_header headers ''Nats-Batch-Commit'')))) (\<lambda>incompatible.
     ensure (\<not> incompatible)
       (nats_corrupt ''stored transaction read guard has incompatible atomic headers'')))"

text \<open>The checks of a guard message, once it is read.\<close>

definition check_transaction_guard ::
  "nats_externals \<Rightarrow> nats_config \<Rightarrow> stream_id \<Rightarrow> nats_history \<Rightarrow> stream_version \<Rightarrow> operation_id \<Rightarrow>
   string \<Rightarrow> nat \<Rightarrow> string \<Rightarrow> u64 \<Rightarrow> raw_message \<Rightarrow> event_store_error + unit" where
  "check_transaction_guard X config guarded history base_version operation_id batch_id
      batch_ordinal expected_subject expected_sequence message =
     (let headers = rm_headers message in
      if rm_sequence message \<noteq> expected_sequence \<or> rm_subject message \<noteq> expected_subject then
        Inl (nats_corrupt ''transaction read guard occupies the wrong atomic batch slot'')
      else if max_supported_event_bytes < length (rm_payload message) then
        Inl (nats_corrupt ''stored transaction read guard exceeds the supported byte limit'')
      else
        rbind (guard_headers_ok config headers batch_id batch_ordinal) (\<lambda>_.
        rbind (ok_or (nats_corrupt ''transaction read guard batch sequence overflowed'')
          (checked_add_usize batch_ordinal 1)) (\<lambda>expected_batch_sequence.
        rbind (required_single_header headers ''Nats-Batch-Sequence'') (\<lambda>text.
        rbind (ok_or (nats_corrupt ''stored transaction read guard has an invalid batch sequence'')
          (parse_usize text)) (\<lambda>batch_sequence.
        rbind (ensure (batch_sequence = expected_batch_sequence)
          (nats_corrupt ''stored transaction read guard has the wrong batch sequence'')) (\<lambda>_.
        rbind (required_single_header headers ''Nats-Expected-Last-Subject-Sequence-Subject'')
          (\<lambda>target.
        rbind (ensure (target = aggregate_subject (nx_sha256 X) config
            (stream_aggregate_type guarded) (stream_aggregate_id guarded))
          (nats_corrupt ''stored transaction read guard targets the wrong aggregate subject''))
          (\<lambda>_.
        rbind (global_sequence_at_version history base_version) (\<lambda>expected_last.
        rbind (required_single_header headers ''Nats-Expected-Last-Subject-Sequence'') (\<lambda>text.
        rbind (ok_or (nats_corrupt
            ''stored transaction read guard has an invalid aggregate sequence'')
          (parse_u64 text)) (\<lambda>guarded_sequence.
        rbind (ensure (guarded_sequence = expected_last)
          (nats_corrupt ''stored transaction read guard has the wrong aggregate sequence'')) (\<lambda>_.
        rbind (map_err (corrupt_external ''stored transaction read guard is invalid JSON'')
          (nx_guard_from_slice X (rm_payload message))) (\<lambda>guard.
        rbind (if gw_operation_id guard \<noteq> operation_id then Inr True
               else map_ok (\<lambda>s. s \<noteq> guarded) (stream_id_from_wire (gw_guarded_stream guard)))
          (\<lambda>differs.
        ensure (\<not> differs) (nats_corrupt
          ''stored transaction read guard payload does not match its participant'')))))))))))))))"

definition verify_transaction_guard ::
  "nats_externals \<Rightarrow> 'w jetstream \<Rightarrow> nats_config \<Rightarrow> stream_id \<Rightarrow> nats_history \<Rightarrow> stream_version \<Rightarrow>
   operation_id \<Rightarrow> string \<Rightarrow> nat \<Rightarrow> nat \<Rightarrow> u64 \<Rightarrow> transaction_subject_layout \<Rightarrow>
   ('w, event_store_error, unit) async" where
  "verify_transaction_guard X J config guarded history base_version operation_id batch_id
      tx_count guard_ordinal batch_start layout =
     async_bind (async_of (ok_or
       (nats_corrupt ''transaction read guard batch ordinal overflowed'')
       (checked_add_usize tx_count guard_ordinal))) (\<lambda>batch_ordinal.
     async_bind (async_of (ok_or
       (nats_corrupt ''transaction read guard batch ordinal cannot be represented'')
       (u64_try_from batch_ordinal))) (\<lambda>batch_ordinal_u64.
     async_bind (async_of (ok_or
       (nats_corrupt ''transaction read guard stream sequence overflowed'')
       (checked_add batch_start batch_ordinal_u64))) (\<lambda>expected_sequence.
     async_bind (async_map_err (classify_required_raw_lookup_error
         ''transaction read guard is absent from its atomic batch''
         ''failed to read transaction read guard'')
       (js_raw_message J (nc_stream_name config) expected_sequence)) (\<lambda>message.
     async_of (check_transaction_guard X config guarded history base_version operation_id
       batch_id batch_ordinal
       (guard_subject (nx_sha256 X) config layout operation_id guard_ordinal)
       expected_sequence message)))))"

section \<open>Comparing transactions and receipts\<close>

definition transaction_receipt_writes_stream :: "transaction_receipt \<Rightarrow> stream_id \<Rightarrow> bool" where
  "transaction_receipt_writes_stream receipt stream \<longleftrightarrow>
     list_ex (\<lambda>s. sr_stream_id s = stream \<and> sr_events s \<noteq> []) (tr_streams receipt)"

definition batch_matches_recorded :: "event_batch \<Rightarrow> recorded_event list \<Rightarrow> bool" where
  "batch_matches_recorded batch recorded \<longleftrightarrow>
     length (eb_events batch) = length recorded
     \<and> list_all (\<lambda>(incoming, stored).
          ne_event_id incoming = re_event_id stored
          \<and> ne_event_type incoming = re_event_type stored
          \<and> ne_schema_version incoming = re_schema_version stored
          \<and> ne_payload incoming = re_payload stored
          \<and> eb_commit_id batch = re_commit_id stored
          \<and> eb_operation_id batch = re_operation_id stored
          \<and> eb_operation_fingerprint batch = re_operation_fingerprint stored
          \<and> eb_correlation_id batch = re_correlation_id stored
          \<and> eb_causation_id batch = re_causation_id stored
          \<and> eb_actor batch = re_actor stored) (zip (eb_events batch) recorded)"

definition transaction_matches_receipt ::
  "event_transaction \<Rightarrow> transaction_receipt \<Rightarrow> bool" where
  "transaction_matches_receipt transaction receipt \<longleftrightarrow>
     (tx_bounded_context transaction = None
        \<or> tr_bounded_context receipt = tx_bounded_context transaction)
     \<and> tx_operation_id transaction = tr_operation_id receipt
     \<and> tx_operation_fingerprint transaction = tr_operation_fingerprint receipt
     \<and> tx_correlation_id transaction = tr_correlation_id receipt
     \<and> tx_causation_id transaction = tr_causation_id receipt
     \<and> tx_actor transaction = tr_actor receipt
     \<and> tx_completion transaction = tr_completion receipt
     \<and> length (tx_participants transaction) = length (tr_streams receipt)
     \<and> list_all (\<lambda>(participant, stored).
          tp_stream_id participant = sr_stream_id stored
          \<and> (case tp_batch participant of
               None \<Rightarrow> sr_events stored = []
             | Some batch \<Rightarrow> batch_matches_recorded batch (sr_events stored)))
          (zip (tx_participants transaction) (tr_streams receipt))"

definition resolve_transaction_identity_after_participant_conflict ::
  "event_transaction \<Rightarrow> transaction_receipt option \<Rightarrow>
   event_store_error + transaction_append_outcome" where
  "resolve_transaction_identity_after_participant_conflict transaction receipt =
     (case receipt of
        Some receipt \<Rightarrow>
          if transaction_matches_receipt transaction receipt
          then Inr (TransactionExactReplay receipt)
          else Inl (nats_identity_conflict
            ''transaction identity was reused with different content'')
      | None \<Rightarrow> Inl (nats_identity_conflict
          ''operation identity was already used without its transaction receipt''))"

section \<open>Batches\<close>

fun nats_record_events ::
  "stream_id \<Rightarrow> event_batch \<Rightarrow> u32 \<Rightarrow> stream_version \<Rightarrow> nat \<Rightarrow> new_event list \<Rightarrow>
   event_store_error + recorded_event list" where
  "nats_record_events stream batch event_count version ordinal [] = Inr []"
| "nats_record_events stream batch event_count version ordinal (event # events) =
     rbind (ok_or (store_error_new CapacityExhausted
         (Fixed_text ''aggregate version space is exhausted'')) (version_next version)) (\<lambda>version.
     rbind (ok_or (nats_invalid ''event ordinal exceeds the supported range'')
         (u32_try_from ordinal)) (\<lambda>o32.
     rbind (map_err (\<lambda>e. store_error_new InvalidRequest
         (Wrapped_text ''invalid event envelope'' (Rendered_envelope e)))
       (RecordedEvent_new_in_commit stream version (ne_event_id event) (eb_commit_id batch)
         (eb_operation_id batch) (eb_operation_fingerprint batch) o32 event_count
         (ne_event_type event) (ne_schema_version event) (ne_payload event))) (\<lambda>recorded.
     rbind (nats_record_events stream batch event_count version (Suc ordinal) events) (\<lambda>rest.
     Inr (recorded\<lparr>re_correlation_id := eb_correlation_id batch,
                   re_causation_id := eb_causation_id batch,
                   re_actor := eb_actor batch\<rparr> # rest)))))"

definition nats_record_batch ::
  "stream_id \<Rightarrow> stream_version \<Rightarrow> event_batch \<Rightarrow> event_store_error + recorded_event list" where
  "nats_record_batch stream current batch =
     rbind (ok_or (nats_invalid ''event count exceeds the supported range'')
       (u32_try_from (length (eb_events batch)))) (\<lambda>event_count.
     rbind (nats_record_events stream batch event_count current 0 (eb_events batch)) (\<lambda>recorded.
     if recorded = [] then Inl (nats_invalid ''event batch is empty'') else Inr recorded))"

definition same_batch :: "event_batch \<Rightarrow> event_batch \<Rightarrow> bool" where
  "same_batch stored incoming \<longleftrightarrow>
     eb_commit_id stored = eb_commit_id incoming
     \<and> eb_operation_id stored = eb_operation_id incoming
     \<and> eb_operation_fingerprint stored = eb_operation_fingerprint incoming
     \<and> eb_correlation_id stored = eb_correlation_id incoming
     \<and> eb_causation_id stored = eb_causation_id incoming
     \<and> eb_actor stored = eb_actor incoming
     \<and> eb_events stored = eb_events incoming"

fun nats_validate_event_identities ::
  "(bytes \<Rightarrow> bytes) \<Rightarrow> commit_id \<Rightarrow> nat \<Rightarrow> new_event list \<Rightarrow> event_store_error + unit" where
  "nats_validate_event_identities sha commit ordinal [] = Inr ()"
| "nats_validate_event_identities sha commit ordinal (event # events) =
     rbind (ok_or (nats_invalid ''event ordinal exceeds the supported range'')
       (u32_try_from ordinal)) (\<lambda>o32.
     if ne_event_id event \<noteq> derive_event_id sha commit o32 then
       Inl (nats_invalid ''event identity was not derived from its commit identity and ordinal'')
     else nats_validate_event_identities sha commit (Suc ordinal) events)"

definition nats_validate_derived_identities ::
  "(bytes \<Rightarrow> bytes) \<Rightarrow> stream_id \<Rightarrow> event_batch \<Rightarrow> event_store_error + unit" where
  "nats_validate_derived_identities sha stream batch =
     (let expected_commit_id = derive_commit_id sha stream (eb_operation_id batch) in
      if eb_commit_id batch \<noteq> expected_commit_id then
        Inl (nats_invalid
          ''commit identity was not derived from the stream and operation identity'')
      else nats_validate_event_identities sha expected_commit_id 0 (eb_events batch))"

fun nats_validate_transaction_shape_from ::
  "event_transaction \<Rightarrow> stream_id set \<Rightarrow> transaction_participant list \<Rightarrow> event_store_error + unit" where
  "nats_validate_transaction_shape_from transaction streams [] = Inr ()"
| "nats_validate_transaction_shape_from transaction streams (participant # rest) =
     (if (case tp_batch participant of
            None \<Rightarrow> False | Some batch \<Rightarrow> eb_actor batch \<noteq> tx_actor transaction) then
        Inl (nats_invalid ''participant actor does not match its transaction'')
      else if tp_stream_id participant \<in> streams then
        Inl (nats_invalid ''an event transaction must not contain duplicate streams'')
      else nats_validate_transaction_shape_from transaction
        (insert (tp_stream_id participant) streams) rest)"

definition validate_transaction_shape :: "event_transaction \<Rightarrow> event_store_error + unit" where
  "validate_transaction_shape transaction =
     nats_validate_transaction_shape_from transaction {} (tx_participants transaction)"

definition validate_transaction_participant_requests ::
  "event_transaction \<Rightarrow> event_store_error + unit" where
  "validate_transaction_participant_requests transaction =
     for_each (\<lambda>participant.
       if tp_expected_version participant = Exact 0 then
         Inl (nats_invalid
           ''Exact requires a non-zero stream version; use NoStream for an absent stream'')
       else
         case tp_batch participant of
           None \<Rightarrow> Inr ()
         | Some batch \<Rightarrow>
             ensure (eb_operation_id batch = tx_operation_id transaction
                 \<and> eb_operation_fingerprint batch = tx_operation_fingerprint transaction
                 \<and> eb_correlation_id batch = tx_correlation_id transaction
                 \<and> eb_causation_id batch = tx_causation_id transaction)
               (nats_invalid ''participant commit metadata does not match its transaction''))
       (tx_participants transaction)"

definition version_mismatch :: "stream_version \<Rightarrow> event_store_error" where
  "version_mismatch current = store_error_new Conflict (Version_differs current)"

definition nats_validate_expected_version ::
  "expected_version \<Rightarrow> stream_version \<Rightarrow> event_store_error + unit" where
  "nats_validate_expected_version expected current =
     (case expected of
        NoStream \<Rightarrow> if current = 0 then Inr () else Inl (version_mismatch current)
      | Exact version \<Rightarrow>
          if version = 0 then
            Inl (nats_invalid
              ''Exact requires a non-zero stream version; use NoStream for an absent stream'')
          else if version = current then Inr ()
          else Inl (version_mismatch current))"

section \<open>Identities already used\<close>

definition resolve_existing ::
  "nats_history \<Rightarrow> event_batch \<Rightarrow> event_store_error + recorded_event list option" where
  "resolve_existing history batch =
     (case find (\<lambda>c. eb_operation_id (sc_batch c) = eb_operation_id batch) (nh_commits history) of
        Some previous \<Rightarrow>
          if sc_transaction previous \<noteq> None then
            Inl (nats_identity_conflict
              ''operation identity was already used by an event transaction'')
          else if same_batch (sc_batch previous) batch then Inr (Some (sc_events previous))
          else Inl (nats_identity_conflict
            ''operation identity was reused with different content'')
      | None \<Rightarrow>
          if list_ex (\<lambda>c. eb_commit_id (sc_batch c) = eb_commit_id batch) (nh_commits history) then
            Inl (nats_identity_conflict ''commit identity was reused with different content'')
          else if list_ex (\<lambda>incoming. list_ex (\<lambda>stored.
                re_event_id stored = ne_event_id incoming) (nh_events history))
              (eb_events batch) then
            Inl (nats_identity_conflict ''event identity was reused with different content'')
          else Inr None)"

definition participant_has_conflicting_identity ::
  "nats_history \<Rightarrow> transaction_participant \<Rightarrow> event_store_error + bool" where
  "participant_has_conflicting_identity history participant =
     (case tp_batch participant of
        None \<Rightarrow> Inr False
      | Some batch \<Rightarrow>
          case resolve_existing history batch of
            Inr existing \<Rightarrow> Inr (existing \<noteq> None)
          | Inl error \<Rightarrow>
              if store_kind error = IdentityConflict then Inr True else Inl error)"

end
