(* ===== verification/NatsStore.thy ===== *)
theory NatsStore
  imports NatsReceipts
begin

text \<open>
  The event store on NATS: \<open>rostfrei-nats/src/event_store.rs\<close> from the loading of histories to the
  append of batches and transactions, and the outcome authority of \<open>event_store/outcomes.rs\<close>. A
  handle is the record \<open>nats_store\<close>; what it reads and writes is the world behind \<open>jetstream\<close>. The
  lookups of receipts that an audit pipelines are made one after the other.
\<close>

record 'w nats_store =
  ns_config :: nats_config
  ns_history_auditing :: bool
  ns_authority :: command_authority
  ns_journal_incarnation :: string
  ns_split :: "string option"
  ns_detail_readers ::
    "(('w \<Rightarrow> detail_reader) \<times> ('w \<Rightarrow> detail_reader) option) option"

definition with_history_auditing :: "'w nats_store \<Rightarrow> bool \<Rightarrow> 'w nats_store" where
  "with_history_auditing S enabled = S\<lparr>ns_history_auditing := enabled\<rparr>"

abbreviation store_subject :: "nats_externals \<Rightarrow> 'w nats_store \<Rightarrow> stream_id \<Rightarrow> string" where
  "store_subject X S stream \<equiv>
     aggregate_subject (nx_sha256 X) (ns_config S) (stream_aggregate_type stream)
       (stream_aggregate_id stream)"

section \<open>Histories\<close>

definition get_event_stream ::
  "'w jetstream \<Rightarrow> 'w nats_store \<Rightarrow> string \<Rightarrow> ('w, event_store_error, stream_info) async" where
  "get_event_stream J S t =
     async_map_err (\<lambda>e. nats_unavailable_with t (stream_lookup_text e))
       (js_get_stream J (nc_stream_name (ns_config S)))"

text \<open>The loop of \<open>read_history_through\<close>: the builder, the next and the last commit and seen
  sequences. It ends with what is handed to \<open>finish\<close>.\<close>

fun read_history_loop ::
  "nats_externals \<Rightarrow> 'w nats_store \<Rightarrow> history_reader \<Rightarrow> stream_id \<Rightarrow> u64 \<Rightarrow> bool \<Rightarrow> nat \<Rightarrow>
   history_builder \<Rightarrow> u64 \<Rightarrow> u64 \<Rightarrow> u64 \<Rightarrow>
   event_store_error + history_builder \<times> u64" where
  "read_history_loop X S reader stream last_sequence truncated 0 builder following last_commit seen =
     (if following \<le> last_sequence then map_ok (\<lambda>_. (builder, seen)) (reader_next reader)
      else Inr (builder, seen))"
| "read_history_loop X S reader stream last_sequence truncated (Suc n) builder following last_commit
      seen =
     (if \<not> following \<le> last_sequence then Inr (builder, seen)
      else
        rbind (reader_next reader) (\<lambda>(message, info, reader).
        let sequence = dn_stream_sequence info; subject = store_subject X S stream in
        if last_sequence < sequence \<and> truncated then Inr (builder, seen)
        else if dm_subject message \<noteq> subject then
          Inl (nats_corrupt ''aggregate history contains the wrong subject'')
        else if sequence < following \<or> last_sequence < sequence then
          Inl (nats_corrupt ''aggregate history returned an invalid stream sequence'')
        else
          rbind (decode_event X (ns_config S) subject stream (Some last_commit) sequence
            (case dm_headers message of None \<Rightarrow> fmempty | Some headers \<Rightarrow> headers)
            (dm_payload message)) (\<lambda>decoded.
          rbind (ok_or (nats_corrupt ''stored event has invalid commit coordinates'')
            (checked_add_usize (de_event_ordinal (ds_decoded decoded)) 1)) (\<lambda>next_ordinal.
          let last_commit =
            (if next_ordinal = de_event_count (ds_decoded decoded) then sequence else last_commit)
          in rbind (builder_push builder decoded) (\<lambda>builder.
          if sequence = last_sequence then Inr (builder, sequence)
          else
            rbind (ok_or (nats_corrupt ''JetStream sequence space overflowed'')
              (checked_add sequence 1)) (\<lambda>following.
            read_history_loop X S reader stream last_sequence truncated n builder following
              last_commit sequence))))))"

definition read_history_through ::
  "nats_externals \<Rightarrow> 'w nats_store \<Rightarrow> history_reader \<Rightarrow> stream_id \<Rightarrow> u64 \<Rightarrow> bool \<Rightarrow>
   event_store_error + nats_history" where
  "read_history_through X S reader stream last_sequence truncated =
     (let n = (case hr_messages reader of None \<Rightarrow> 0 | Some ms \<Rightarrow> length ms) in
      rbind (read_history_loop X S reader stream last_sequence truncated n builder_default 1 0 0)
        (\<lambda>(builder, seen).
      if \<not> truncated \<and> seen \<noteq> last_sequence then
        Inl (nats_corrupt ''aggregate history ended before its last message'')
      else if seen = 0 \<and> truncated then Inr history_default
      else builder_finish builder seen))"

definition load_raw_history_through ::
  "nats_externals \<Rightarrow> 'w jetstream \<Rightarrow> 'w nats_store \<Rightarrow> stream_id \<Rightarrow> u64 option \<Rightarrow>
   ('w, event_store_error, nats_history) async" where
  "load_raw_history_through X J S stream maximum =
     (let subject = store_subject X S stream in
      async_bind (get_event_stream J S ''failed to get event-store stream'') (\<lambda>info.
      async_match (js_last_by_subject J (nc_stream_name (ns_config S)) subject) (\<lambda>found.
      case found of
        Inl NoMessageFound \<Rightarrow> async_ok history_default
      | Inl (LookupFailed e) \<Rightarrow>
          async_err (nats_unavailable_with ''failed to locate aggregate history'' e)
      | Inr message \<Rightarrow>
          if rm_subject message \<noteq> subject then
            async_err (nats_corrupt ''aggregate lookup returned the wrong subject'')
          else
            let last_subject_sequence = rm_sequence message;
                last_sequence = (case maximum of
                    None \<Rightarrow> last_subject_sequence
                  | Some limit \<Rightarrow> min limit last_subject_sequence);
                truncated = (last_sequence < last_subject_sequence)
            in if last_sequence = 0 then async_ok history_default
               else
                 async_bind (HistoryReader_new J (sp_name (sn_config info)) subject) (\<lambda>reader.
                 let result = read_history_through X S reader stream last_sequence truncated in
                 async_match (reader_close J reader) (\<lambda>cleanup.
                 async_of (rbind result (\<lambda>history. rbind cleanup (\<lambda>_. Inr history))))))))"

definition load_raw_history ::
  "nats_externals \<Rightarrow> 'w jetstream \<Rightarrow> 'w nats_store \<Rightarrow> stream_id \<Rightarrow>
   ('w, event_store_error, nats_history) async" where
  "load_raw_history X J S stream = load_raw_history_through X J S stream None"

record raw_history_cache =
  rh_histories :: "(stream_id, nats_history) fmap"
  rh_maximum_stream_sequence :: "u64 option"

definition raw_history_cache_default :: raw_history_cache where
  "raw_history_cache_default = \<lparr>rh_histories = fmempty, rh_maximum_stream_sequence = None\<rparr>"

definition load_cached_raw_history ::
  "nats_externals \<Rightarrow> 'w jetstream \<Rightarrow> 'w nats_store \<Rightarrow> stream_id \<Rightarrow> raw_history_cache \<Rightarrow>
   ('w, event_store_error, nats_history \<times> raw_history_cache) async" where
  "load_cached_raw_history X J S stream cache =
     (case fmlookup (rh_histories cache) stream of
        Some history \<Rightarrow> async_ok (history, cache)
      | None \<Rightarrow>
          async_bind (load_raw_history_through X J S stream (rh_maximum_stream_sequence cache))
            (\<lambda>history.
          async_ok (history, cache\<lparr>rh_histories := fmupd stream history (rh_histories cache)\<rparr>)))"

section \<open>Receipts\<close>

definition read_transaction_receipt ::
  "nats_externals \<Rightarrow> 'w jetstream \<Rightarrow> 'w nats_store \<Rightarrow> operation_id \<Rightarrow> bool \<Rightarrow>
   transaction_subject_layout \<Rightarrow> ('w, event_store_error, decoded_receipt option) async" where
  "read_transaction_receipt X J S operation_id required layout =
     (let subject = receipt_subject (nx_sha256 X) (ns_config S) layout operation_id in
      async_match (js_last_by_subject J (nc_stream_name (ns_config S)) subject) (\<lambda>found.
      case found of
        Inl error \<Rightarrow>
          if required then
            async_err (classify_required_raw_lookup_error
              ''transaction receipt is absent from committed history''
              ''failed to locate transaction receipt'' error)
          else
            (case error of
               NoMessageFound \<Rightarrow> async_ok None
             | LookupFailed e \<Rightarrow>
                 async_err (nats_unavailable_with ''failed to locate transaction receipt'' e))
      | Inr message \<Rightarrow>
          async_of
            (if rm_subject message \<noteq> subject then
               Inl (nats_corrupt ''transaction receipt lookup returned the wrong subject'')
             else
               rbind (decode_transaction_receipt X (ns_config S) (rm_sequence message)
                 (rm_headers message) (rm_payload message)) (\<lambda>decoded.
               if rc_operation_id (dr_content decoded) \<noteq> operation_id then
                 Inl (nats_corrupt ''transaction receipt belongs to a different operation'')
               else
                 case layout of
                   OperationLayout \<Rightarrow> Inr (Some decoded)
                 | LegacyPrimary primary \<Rightarrow>
                     case rc_participants (dr_content decoded) of
                       [] \<Rightarrow> Inl (nats_corrupt
                         ''legacy transaction receipt has no primary participant'')
                     | first # _ \<Rightarrow>
                         rbind (stream_id_from_wire (pw_stream first)) (\<lambda>first_stream.
                         if first_stream \<noteq> primary \<or> pw_event_count first = 0
                            \<or> pw_commit_id first = None then
                           Inl (nats_corrupt
                             ''legacy transaction receipt does not match its primary-derived subject'')
                         else Inr (Some decoded))))))"

text \<open>The participants of a receipt, in order: their histories joined with the receipt, and their
  guards checked.\<close>

fun materialize_participants ::
  "nats_externals \<Rightarrow> 'w jetstream \<Rightarrow> 'w nats_store \<Rightarrow> transaction_subject_layout \<Rightarrow> string \<Rightarrow> u64 \<Rightarrow> nat \<Rightarrow>
   operation_id \<Rightarrow> fingerprint \<Rightarrow> correlation_id option \<Rightarrow> causation_id option \<Rightarrow> actor_ref option \<Rightarrow>
   stream_id set \<Rightarrow> nat \<Rightarrow> nat \<Rightarrow> raw_history_cache \<Rightarrow> transaction_participant_wire list \<Rightarrow>
   ('w, event_store_error, nat \<times> stream_receipt list \<times> raw_history_cache) async" where
  "materialize_participants X J S layout batch_id batch_start tx_count operation_id fp
      correlation_id causation_id actor seen ordinal guard_ordinal cache [] =
     async_ok (ordinal, [], cache)"
| "materialize_participants X J S layout batch_id batch_start tx_count operation_id fp
      correlation_id causation_id actor seen ordinal guard_ordinal cache (participant # rest) =
     async_bind (async_of (stream_id_from_wire (pw_stream participant))) (\<lambda>stream.
     if stream \<in> seen then
       async_err (nats_corrupt ''transaction receipt repeats an aggregate stream'')
     else
       let base_version = pw_base_stream_version participant in
       async_bind (load_cached_raw_history X J S stream cache) (\<lambda>(history, cache).
       async_bind (async_of (materialize_transaction_participant history participant base_version
         operation_id fp correlation_id causation_id actor batch_id ordinal tx_count
         batch_start)) (\<lambda>events.
       async_bind (if events = [] then
             async_bind (verify_transaction_guard X J (ns_config S) stream history base_version
               operation_id batch_id tx_count guard_ordinal batch_start layout) (\<lambda>_.
             async_of (ok_or (nats_corrupt ''transaction read guard ordinal overflowed'')
               (checked_add_usize guard_ordinal 1)))
           else async_ok guard_ordinal) (\<lambda>guard_ordinal.
       async_bind (async_of (ok_or
         (nats_corrupt ''transaction receipt event ordinal overflowed'')
         (checked_add_usize ordinal (length events)))) (\<lambda>ordinal.
       async_bind (materialize_participants X J S layout batch_id batch_start tx_count
         operation_id fp correlation_id causation_id actor (insert stream seen) ordinal
         guard_ordinal cache rest) (\<lambda>(ordinal, streams, cache).
       async_ok (ordinal,
         \<lparr>sr_stream_id = stream, sr_base_version = base_version, sr_events = events\<rparr> # streams,
         cache)))))))"

definition outcome_key_of :: "'w nats_store \<Rightarrow> operation_id \<Rightarrow> outcome_key" where
  "outcome_key_of S operation =
     OutcomeKey_new (ns_authority S) (nc_bounded_context (ns_config S)) operation"

definition receipt_event_count ::
  "transaction_participant_wire list \<Rightarrow> event_store_error + nat" where
  "receipt_event_count participants =
     ok_or (nats_corrupt ''transaction receipt event count calculation overflowed'')
       (try_sum 0 (map (unat \<circ> pw_event_count) participants))"

text \<open>The core's receipt from the content of the message and the receipts of its streams.\<close>

definition assemble_receipt ::
  "nats_externals \<Rightarrow> receipt_content \<Rightarrow> operation_id \<Rightarrow> fingerprint \<Rightarrow> correlation_id option \<Rightarrow>
   causation_id option \<Rightarrow> stream_receipt list \<Rightarrow> event_store_error + transaction_receipt" where
  "assemble_receipt X content operation_id fp correlation_id causation_id streams =
     rbind (map_err (corrupt_contract ''invalid transaction bounded context'')
       (BoundedContextName_new (rc_bounded_context content))) (\<lambda>bounded_context.
     let receipt = (TransactionReceipt_new operation_id fp streams)\<lparr>
           tr_bounded_context := Some bounded_context,
           tr_correlation_id := correlation_id, tr_causation_id := causation_id,
           tr_actor := rc_actor content\<rparr>
     in rbind (map_err (\<lambda>e. store_error_new CorruptHistory (Rendered_identity e))
          (optional_new SecurityScope_new (rc_security_scope content))) (\<lambda>scope.
        let receipt = receipt\<lparr>tr_security_scope := scope,
                              tr_completion := rc_completion content\<rparr>
        in rbind (validate_integrity (nx_sha256 X) receipt) (\<lambda>_. Inr receipt)))"

definition receipt_marker ::
  "nats_externals \<Rightarrow> 'w nats_store \<Rightarrow> receipt_content \<Rightarrow> transaction_receipt \<Rightarrow>
   event_store_error + outcome_marker option" where
  "receipt_marker X S content receipt =
     optional_new (\<lambda>encoded.
       rbind (map_err (\<lambda>e. store_error_new CorruptHistory (External_text e))
         (nx_base64_decode X encoded)) (\<lambda>bs.
       restore_manifest (nx_core X) (outcome_key_of S (tr_operation_id receipt)) bs receipt))
       (rc_manifest content)"

definition materialize_transaction_receipt ::
  "nats_externals \<Rightarrow> 'w jetstream \<Rightarrow> 'w nats_store \<Rightarrow> decoded_receipt \<Rightarrow> raw_history_cache \<Rightarrow>
   transaction_subject_layout \<Rightarrow>
   ('w, event_store_error, materialized_receipt \<times> raw_history_cache) async" where
  "materialize_transaction_receipt X J S decoded cache layout =
     (let content = dr_content decoded; batch_id = dr_batch_id decoded in
      async_bind (async_of (ok_or
        (nats_corrupt ''transaction receipt has an invalid batch sequence'')
        (if dr_batch_sequence decoded = 0 then None else Some (dr_batch_sequence decoded - 1))))
        (\<lambda>preceding.
      async_bind (async_of (ok_or
        (nats_corrupt ''transaction receipt batch sequence cannot be represented'')
        (u64_try_from preceding))) (\<lambda>preceding.
      async_bind (async_of (ok_or
        (nats_corrupt ''transaction receipt batch start sequence underflowed'')
        (checked_sub (dr_stream_sequence decoded) preceding))) (\<lambda>batch_start.
      if batch_start = 0 then
        async_err (nats_corrupt ''transaction receipt has an invalid batch start sequence'')
      else
        async_bind (async_of (map_err (corrupt_identity ''invalid transaction operation identity'')
          (OperationId_new (rc_operation_id content)))) (\<lambda>operation_id.
        async_bind (async_of (map_err
          (corrupt_identity ''invalid transaction operation fingerprint'')
          (fingerprint_from_hex (rc_operation_fingerprint content)))) (\<lambda>fp.
        async_bind (async_of (map_err
          (corrupt_contract ''invalid transaction correlation identity'')
          (optional_new CorrelationId_new (rc_correlation_id content)))) (\<lambda>correlation_id.
        async_bind (async_of (map_err
          (corrupt_contract ''invalid transaction causation identity'')
          (optional_new CausationId_new (rc_causation_id content)))) (\<lambda>causation_id.
        async_bind (async_of (receipt_event_count (rc_participants content))) (\<lambda>tx_count.
        if max_events_per_batch < tx_count then
          async_err (nats_corrupt ''transaction receipt has an invalid transaction event count'')
        else
          async_bind (materialize_participants X J S layout batch_id batch_start tx_count
            operation_id fp correlation_id causation_id (rc_actor content) {} 0 0 cache
            (rc_participants content)) (\<lambda>(ordinal, streams, cache).
          if ordinal \<noteq> tx_count then
            async_err (nats_corrupt
              ''transaction receipt has inconsistent transaction coordinates'')
          else
            async_bind (async_of (assemble_receipt X content operation_id fp correlation_id
              causation_id streams)) (\<lambda>receipt.
            async_bind (async_of (receipt_marker X S content receipt)) (\<lambda>marker.
            async_ok (\<lparr>mr_receipt = receipt, mr_marker = marker, mr_batch_id = batch_id,
                       mr_batch_start_stream_sequence = batch_start,
                       mr_transaction_event_count = tx_count\<rparr>, cache)))))))))))))"

definition load_transaction_receipt_from_stream ::
  "nats_externals \<Rightarrow> 'w jetstream \<Rightarrow> 'w nats_store \<Rightarrow> operation_id \<Rightarrow> bool \<Rightarrow> raw_history_cache \<Rightarrow>
   transaction_subject_layout \<Rightarrow> ('w, event_store_error, materialized_receipt option) async" where
  "load_transaction_receipt_from_stream X J S operation_id required cache layout =
     async_bind (read_transaction_receipt X J S operation_id required layout) (\<lambda>found.
     case found of
       None \<Rightarrow> async_ok None
     | Some decoded \<Rightarrow>
         async_map (\<lambda>(m, _). Some m)
           (materialize_transaction_receipt X J S decoded cache layout))"

definition load_receipt_with_raw_histories ::
  "nats_externals \<Rightarrow> 'w jetstream \<Rightarrow> 'w nats_store \<Rightarrow> operation_id \<Rightarrow> bool \<Rightarrow> raw_history_cache \<Rightarrow>
   transaction_subject_layout \<Rightarrow> ('w, event_store_error, materialized_receipt option) async" where
  "load_receipt_with_raw_histories X J S operation_id required cache layout =
     async_bind (get_event_stream J S ''failed to get event-store stream'') (\<lambda>_.
     load_transaction_receipt_from_stream X J S operation_id required cache layout)"

definition load_transaction_receipt_materialized ::
  "nats_externals \<Rightarrow> 'w jetstream \<Rightarrow> 'w nats_store \<Rightarrow> operation_id \<Rightarrow> bool \<Rightarrow>
   ('w, event_store_error, materialized_receipt option) async" where
  "load_transaction_receipt_materialized X J S operation_id required =
     load_receipt_with_raw_histories X J S operation_id required raw_history_cache_default
       OperationLayout"

definition load_transaction_receipt_inner ::
  "nats_externals \<Rightarrow> 'w jetstream \<Rightarrow> 'w nats_store \<Rightarrow> operation_id \<Rightarrow>
   ('w, event_store_error, transaction_receipt option) async" where
  "load_transaction_receipt_inner X J S operation_id =
     async_map (map_option mr_receipt)
       (load_transaction_receipt_materialized X J S operation_id False)"

end
