(* ===== verification/NatsAppend.thy ===== *)
theory NatsAppend
  imports NatsStore
begin

text \<open>
  Audited histories, and the append of batches and transactions of the event store on NATS:
  \<open>rostfrei-nats/src/event_store.rs\<close>, with the details of outcomes that a transaction prepares
  (\<open>event_store/outcomes.rs\<close>).
\<close>

section \<open>Auditing a history\<close>

record located_receipt =
  lr_decoded :: decoded_receipt
  lr_legacy_primary :: "stream_id option"

definition load_transaction_receipt_for_history ::
  "nats_externals \<Rightarrow> 'w jetstream \<Rightarrow> 'w nats_store \<Rightarrow> stream_id \<Rightarrow> operation_id \<Rightarrow>
   ('w, event_store_error, located_receipt) async" where
  "load_transaction_receipt_for_history X J S primary operation_id =
     async_bind (read_transaction_receipt X J S operation_id False (LegacyPrimary primary))
       (\<lambda>found.
     case found of
       Some receipt \<Rightarrow> async_ok \<lparr>lr_decoded = receipt, lr_legacy_primary = Some primary\<rparr>
     | None \<Rightarrow>
         async_bind (read_transaction_receipt X J S operation_id True OperationLayout) (\<lambda>found.
         async_bind (async_of (ok_or
           (nats_corrupt ''transaction receipt is absent from committed history'') found))
           (\<lambda>decoded.
         async_ok \<lparr>lr_decoded = decoded, lr_legacy_primary = None\<rparr>)))"

definition load_transaction_first_stream ::
  "nats_externals \<Rightarrow> 'w jetstream \<Rightarrow> 'w nats_store \<Rightarrow> u64 \<Rightarrow> transaction_provenance \<Rightarrow> operation_id \<Rightarrow>
   ('w, event_store_error, stream_id) async" where
  "load_transaction_first_stream X J S batch_start provenance operation_id =
     async_bind (async_map_err (classify_required_raw_lookup_error
         ''transaction's first event is absent from its atomic batch''
         ''failed to locate transaction's first event'')
       (js_raw_message J (nc_stream_name (ns_config S)) batch_start)) (\<lambda>message.
     if rm_sequence message \<noteq> batch_start then
       async_err (nats_corrupt ''transaction's first event occupies the wrong atomic batch slot'')
     else
       async_bind (async_of (decode_consumed_event X (ns_config S) (rm_subject message)
         (rm_headers message) (rm_payload message))) (\<lambda>first.
       if \<not> de_is_transactional first \<or> de_batch_id first \<noteq> tp_batch_id provenance
          \<or> de_operation_id first \<noteq> operation_id
          \<or> de_transaction_event_ordinal first \<noteq> 0
          \<or> de_transaction_event_count first \<noteq> tp_transaction_event_count provenance then
         async_err (nats_corrupt ''transaction's global first event has incompatible provenance'')
       else async_ok (re_stream_id (de_recorded first))))"

definition locate_transaction_receipt ::
  "nats_externals \<Rightarrow> 'w jetstream \<Rightarrow> 'w nats_store \<Rightarrow> stored_commit \<Rightarrow> transaction_provenance \<Rightarrow>
   ('w, event_store_error, located_receipt) async" where
  "locate_transaction_receipt X J S commit provenance =
     async_bind (async_of (transaction_batch_start_sequence commit provenance)) (\<lambda>batch_start.
     async_bind (if tp_start provenance = 0 then
           async_of (ok_or (nats_corrupt ''transactional commit has no first event'')
             (case sc_events commit of [] \<Rightarrow> None | e # _ \<Rightarrow> Some (re_stream_id e)))
         else
           load_transaction_first_stream X J S batch_start provenance
             (eb_operation_id (sc_batch commit))) (\<lambda>primary.
     load_transaction_receipt_for_history X J S primary (eb_operation_id (sc_batch commit))))"

definition not_covered :: event_store_error where
  "not_covered = nats_corrupt
     ''transaction receipt does not cover an aggregate commit with exact provenance''"

text \<open>The receipts of the batches of a history, each once, in the order of the commits.\<close>

fun audit_receipts ::
  "nats_externals \<Rightarrow> 'w jetstream \<Rightarrow> 'w nats_store \<Rightarrow> string set \<Rightarrow>
   (string, materialized_receipt) fmap \<Rightarrow> raw_history_cache \<Rightarrow> stored_commit list \<Rightarrow>
   ('w, event_store_error, (string, materialized_receipt) fmap \<times> raw_history_cache) async" where
  "audit_receipts X J S requested validated cache [] = async_ok (validated, cache)"
| "audit_receipts X J S requested validated cache (commit # commits) =
     (case sc_transaction commit of
        None \<Rightarrow> audit_receipts X J S requested validated cache commits
      | Some provenance \<Rightarrow>
          if tp_batch_id provenance \<in> requested then
            audit_receipts X J S requested validated cache commits
          else
            async_bind (locate_transaction_receipt X J S commit provenance) (\<lambda>located.
            let layout = (case lr_legacy_primary located of
                None \<Rightarrow> OperationLayout | Some primary \<Rightarrow> LegacyPrimary primary)
            in async_bind (materialize_transaction_receipt X J S (lr_decoded located) cache layout)
                 (\<lambda>(materialized, cache).
               if \<not> transaction_receipt_covers_commit materialized commit then
                 async_err not_covered
               else
                 audit_receipts X J S (insert (tp_batch_id provenance) requested)
                   (fmupd (mr_batch_id materialized) materialized validated) cache commits)))"

definition covered_by :: "(string, materialized_receipt) fmap \<Rightarrow> stored_commit \<Rightarrow> bool" where
  "covered_by validated commit =
     (case sc_transaction commit of
        None \<Rightarrow> True
      | Some provenance \<Rightarrow>
          case fmlookup validated (tp_batch_id provenance) of
            None \<Rightarrow> False
          | Some receipt \<Rightarrow> transaction_receipt_covers_commit receipt commit)"

definition validate_transaction_history ::
  "nats_externals \<Rightarrow> 'w jetstream \<Rightarrow> 'w nats_store \<Rightarrow> nats_history \<Rightarrow> raw_history_cache \<Rightarrow>
   ('w, event_store_error, raw_history_cache) async" where
  "validate_transaction_history X J S history cache =
     (if list_all (\<lambda>commit. sc_transaction commit = None) (nh_commits history) then async_ok cache
      else
        async_bind (get_event_stream J S ''failed to verify transaction history'') (\<lambda>_.
        async_bind (audit_receipts X J S {} fmempty cache (nh_commits history))
          (\<lambda>(validated, cache).
        if list_all (covered_by validated) (nh_commits history) then async_ok cache
        else async_err not_covered)))"

definition load_history_with_audit ::
  "nats_externals \<Rightarrow> 'w jetstream \<Rightarrow> 'w nats_store \<Rightarrow> stream_id \<Rightarrow> bool \<Rightarrow>
   ('w, event_store_error, nats_history) async" where
  "load_history_with_audit X J S stream audit =
     async_bind (load_raw_history X J S stream) (\<lambda>history.
     if audit then
       async_bind (validate_transaction_history X J S history
         \<lparr>rh_histories = fmupd stream history fmempty, rh_maximum_stream_sequence = None\<rparr>)
         (\<lambda>_. async_ok history)
     else async_ok history)"

definition load_history ::
  "nats_externals \<Rightarrow> 'w jetstream \<Rightarrow> 'w nats_store \<Rightarrow> stream_id \<Rightarrow>
   ('w, event_store_error, nats_history) async" where
  "load_history X J S stream = load_history_with_audit X J S stream (ns_history_auditing S)"

definition nats_load ::
  "nats_externals \<Rightarrow> 'w jetstream \<Rightarrow> 'w nats_store \<Rightarrow> stream_id \<Rightarrow>
   ('w, event_store_error, recorded_event list) async" where
  "nats_load X J S stream = async_map nh_events (load_history X J S stream)"

definition nats_audit_history ::
  "nats_externals \<Rightarrow> 'w jetstream \<Rightarrow> 'w nats_store \<Rightarrow> stream_id \<Rightarrow>
   ('w, event_store_error, recorded_event list) async" where
  "nats_audit_history X J S stream =
     async_map nh_events (load_history_with_audit X J S stream True)"

type_synonym loaded_histories = "(stream_id, nats_history) fmap"

definition load_session_history ::
  "nats_externals \<Rightarrow> 'w jetstream \<Rightarrow> 'w nats_store \<Rightarrow> stream_id \<Rightarrow> loaded_histories \<Rightarrow>
   ('w, event_store_error, nats_history \<times> loaded_histories) async" where
  "load_session_history X J S stream histories =
     (case fmlookup histories stream of
        Some history \<Rightarrow> async_ok (history, histories)
      | None \<Rightarrow>
          async_bind (load_history X J S stream) (\<lambda>history.
          async_ok (history, fmupd stream history histories)))"

section \<open>Verifying what was published\<close>

fun extend_from ::
  "nats_externals \<Rightarrow> 'w jetstream \<Rightarrow> 'w nats_store \<Rightarrow> stream_id \<Rightarrow> u64 \<Rightarrow> u64 \<Rightarrow> string \<Rightarrow> nat \<Rightarrow>
   nat \<Rightarrow> history_builder \<Rightarrow> u64 \<Rightarrow> ('w, event_store_error, history_builder \<times> u64) async" where
  "extend_from X J S stream previous_last last_sequence batch_id event_count 0 builder sequence =
     async_ok (builder, sequence)"
| "extend_from X J S stream previous_last last_sequence batch_id event_count (Suc n) builder
      sequence =
     (let subject = store_subject X S stream in
      async_bind (async_of (ok_or (nats_corrupt ''JetStream sequence space overflowed'')
        (checked_add sequence 1))) (\<lambda>next_sequence.
      async_bind (async_map_err (classify_required_raw_lookup_error
          ''published history disappeared while verifying''
          ''failed to verify published event'')
        (js_first_by_subject J (nc_stream_name (ns_config S)) subject next_sequence)) (\<lambda>message.
      if rm_subject message \<noteq> subject \<or> rm_sequence message < next_sequence
         \<or> last_sequence < rm_sequence message then
        async_err (nats_corrupt ''published history returned an invalid subject or sequence'')
      else
        async_bind (async_of (decode_event X (ns_config S) subject stream (Some previous_last)
          (rm_sequence message) (rm_headers message) (rm_payload message))) (\<lambda>decoded.
        if de_batch_id (ds_decoded decoded) \<noteq> batch_id
           \<or> de_event_count (ds_decoded decoded) \<noteq> event_count then
          async_err (nats_corrupt ''published event contains different batch metadata'')
        else
          async_bind (async_of (builder_push builder decoded)) (\<lambda>builder.
          extend_from X J S stream previous_last last_sequence batch_id event_count n builder
            (rm_sequence message))))))"

definition extend_history ::
  "nats_externals \<Rightarrow> 'w jetstream \<Rightarrow> 'w nats_store \<Rightarrow> stream_id \<Rightarrow> nats_history \<Rightarrow> u64 \<Rightarrow> string \<Rightarrow>
   nat \<Rightarrow> ('w, event_store_error, nats_history) async" where
  "extend_history X J S stream previous last_sequence batch_id event_count =
     async_bind (get_event_stream J S ''failed to verify published history'') (\<lambda>_.
     async_bind (extend_from X J S stream (nh_last_subject_stream_sequence previous) last_sequence
       batch_id event_count event_count (builder_from_history previous)
       (nh_last_subject_stream_sequence previous)) (\<lambda>(builder, sequence).
     if event_count = 0 \<or> sequence \<noteq> last_sequence then
       async_err (nats_corrupt ''PubAck sequence did not identify the published commit'')
     else async_of (builder_finish builder last_sequence)))"

definition verify_published_commit ::
  "nats_externals \<Rightarrow> 'w jetstream \<Rightarrow> 'w nats_store \<Rightarrow> stream_id \<Rightarrow> nats_history \<Rightarrow> u64 \<Rightarrow> string \<Rightarrow>
   commit_id \<Rightarrow> recorded_event list \<Rightarrow> ('w, event_store_error, unit) async" where
  "verify_published_commit X J S stream previous sequence batch_id commit_id expected_events =
     async_bind (extend_history X J S stream previous sequence batch_id (length expected_events))
       (\<lambda>history.
     async_of
       (if nh_commits history = []
           \<or> eb_commit_id (sc_batch (last (nh_commits history))) \<noteq> commit_id then
          Inl (nats_corrupt ''published commit was not visible in aggregate history'')
        else if sc_events (last (nh_commits history)) \<noteq> expected_events then
          Inl (nats_corrupt ''published commit contains different events'')
        else Inr ()))"

section \<open>Appending a batch\<close>

definition used_by_transaction ::
  "transaction_receipt option \<Rightarrow> stream_id \<Rightarrow> bool" where
  "used_by_transaction receipt stream =
     (case receipt of
        None \<Rightarrow> False
      | Some receipt \<Rightarrow> transaction_receipt_writes_stream receipt stream)"

definition resolve_expectation_race ::
  "nats_externals \<Rightarrow> 'w jetstream \<Rightarrow> 'w nats_store \<Rightarrow> stream_id \<Rightarrow> event_batch \<Rightarrow>
   ('w, event_store_error, append_outcome) async" where
  "resolve_expectation_race X J S stream batch =
     async_bind (load_history X J S stream) (\<lambda>history.
     async_bind (load_transaction_receipt_inner X J S (eb_operation_id batch)) (\<lambda>receipt.
     async_of
       (if used_by_transaction receipt stream then
          Inl (nats_identity_conflict
            ''operation identity was already used by an event transaction'')
        else
          rbind (resolve_existing history batch) (\<lambda>existing.
          case existing of
            None \<Rightarrow> Inl (nats_conflict ''aggregate changed during append'')
          | Some events \<Rightarrow> Inr (ExactReplay events)))))"

definition event_too_large :: "nats_config \<Rightarrow> string \<Rightarrow> event_store_error" where
  "event_too_large config t =
     store_error_new InvalidRequest (Limit_text t (bl_value (nc_max_event_bytes config)))"

text \<open>The part of \<open>append_with_history\<close> after the identities are found unused: the events to record,
  their messages, and whether the broker's acknowledgement fits.\<close>

definition prepare_append ::
  "nats_externals \<Rightarrow> 'w nats_store \<Rightarrow> stream_id \<Rightarrow> expected_version \<Rightarrow> event_batch \<Rightarrow> nats_history \<Rightarrow>
   event_store_error + recorded_event list \<times> (string \<times> bytes) list" where
  "prepare_append X S stream expected batch history =
     (if expected = Exact 0 then
        Inl (nats_invalid
          ''Exact requires a non-zero stream version; use NoStream for an absent stream'')
      else
        rbind (nats_validate_derived_identities (nx_sha256 X) stream batch) (\<lambda>_.
        let current = history_version history in
        rbind (ensure ((expected = NoStream \<and> current = 0) \<or> expected = Exact current)
          (version_mismatch current)) (\<lambda>_.
        rbind (nats_record_batch stream current batch) (\<lambda>recorded.
        rbind (encode_events X (ns_config S) stream batch recorded) (\<lambda>payloads.
        if list_ex (\<lambda>p. bl_value (nc_max_event_bytes (ns_config S)) < length p) payloads then
          Inl (event_too_large (ns_config S) ''encoded event exceeds the configured limit'')
        else if length payloads \<noteq> length recorded then
          Inl (nats_corrupt ''encoded event count does not match the recorded batch'')
        else
          Inr (recorded, zip (map re_event_id recorded) payloads))))))"

definition ack_fits ::
  "nats_config \<Rightarrow> u64 \<Rightarrow> string \<Rightarrow> u64 \<Rightarrow> atomic_publish_ack \<Rightarrow> bool" where
  "ack_fits config last_sequence batch_id count ack \<longleftrightarrow>
     ack_stream ack = nc_stream_name config \<and> ack_sequence ack \<noteq> 0
     \<and> last_sequence < ack_sequence ack \<and> ack_batch ack = Some batch_id
     \<and> ack_count ack = Some count"

definition append_with_history ::
  "nats_externals \<Rightarrow> 'w jetstream \<Rightarrow> 'w nats_store \<Rightarrow> stream_id \<Rightarrow> expected_version \<Rightarrow> event_batch \<Rightarrow>
   nats_history \<Rightarrow> ('w, event_store_error, append_outcome) async" where
  "append_with_history X J S stream expected batch history =
     async_bind (load_transaction_receipt_inner X J S (eb_operation_id batch)) (\<lambda>receipt.
     if used_by_transaction receipt stream then
       async_err (nats_identity_conflict
         ''operation identity was already used by an event transaction'')
     else
       async_bind (async_of (resolve_existing history batch)) (\<lambda>existing.
       case existing of
         Some events \<Rightarrow> async_ok (ExactReplay events)
       | None \<Rightarrow>
           async_bind (async_of (prepare_append X S stream expected batch history))
             (\<lambda>(recorded, events).
           async_bind (async_of (ok_or (nats_invalid ''event batch count cannot be represented'')
             (u64_try_from (length recorded)))) (\<lambda>recorded_count.
           \<lambda>w. case new_atomic_batch_id X J (eb_commit_id batch) w of (batch_id, w) \<Rightarrow>
           async_match (publish_atomic_batch X J (ns_config S) (store_subject X S stream)
             (nh_last_subject_stream_sequence history) batch_id (eb_correlation_id batch) events)
             (\<lambda>published.
           case published of
             Inl Expectation \<Rightarrow> resolve_expectation_race X J S stream batch
           | Inl (StoreFailure error) \<Rightarrow>
               if store_kind error = Unavailable then
                 async_map_err (\<lambda>reconciliation.
                   if store_kind reconciliation = Unavailable
                      \<or> store_kind reconciliation = Conflict then error else reconciliation)
                   (resolve_expectation_race X J S stream batch)
               else async_err error
           | Inr ack \<Rightarrow>
               if \<not> ack_fits (ns_config S) (nh_last_subject_stream_sequence history) batch_id
                   recorded_count ack then
                 async_err (nats_corrupt
                   ''atomic PubAck returned incompatible stream, sequence, or batch metadata'')
               else
                 async_bind (verify_published_commit X J S stream history (ack_sequence ack)
                   batch_id (eb_commit_id batch) recorded) (\<lambda>_.
                 async_ok (Appended recorded))) w))))"

end
