(* ===== verification/NatsOutcomes.thy ===== *)
theory NatsOutcomes
  imports NatsAppend
begin

text \<open>
  The outcome authority of the event store on NATS (\<open>rostfrei-nats/src/event_store/outcomes.rs\<close>) and the
  transactions, sessions and lookups of \<open>event_store.rs\<close> that rest on it: a journal stream with the
  receipts, and a state stream that holds the details of an outcome until they expire.
\<close>

section \<open>The authority\<close>

definition nats_authority ::
  "nats_externals \<Rightarrow> nats_config \<Rightarrow> string \<Rightarrow> string option \<Rightarrow> event_store_error + command_authority" where
  "nats_authority X config journal split =
     map_err (\<lambda>e. store_error_new InvalidRequest (Rendered_identity e))
       (CommandAuthority_new (''nats:'' @ encode_lower_hex (nx_sha256 X (frame (map str_bytes
         [nc_stream_name config, nc_subject_prefix config,
          (case nc_completed_outcome_epoch config of None \<Rightarrow> ''legacy'' | Some epoch \<Rightarrow> epoch),
          journal, (case split of None \<Rightarrow> ''inline'' | Some incarnation \<Rightarrow> incarnation)])))))"

text \<open>The state stream that is bound to the journal, if the outcomes are split.\<close>

definition inspect_split_state ::
  "'w jetstream \<Rightarrow> nats_config \<Rightarrow> stream_info \<Rightarrow>
   ('w, event_store_error, stream_info option) async" where
  "inspect_split_state J config journal =
     (if \<not> nc_split_outcomes config then async_ok None
      else
        async_bind (async_map_err (\<lambda>e.
            if is_stream_not_found e then nats_mismatch ''outcome state authority is missing''
            else store_error_new Unavailable (External_text (stream_lookup_text e)))
          (js_get_stream J (nc_outcome_state_stream_name config))) (\<lambda>state.
        let expected = carry_binding (sn_config state) journal_binding
              (outcome_state_config config);
            mismatches = stream_config_mismatches expected (sn_config state)
        in if mismatches \<noteq> [] then
             async_err (store_error_new ConfigurationMismatch
               (Wrapped_text ''outcome state configuration differs''
                 (External_text (join_fields mismatches))))
           else if fmlookup (sp_metadata (sn_config journal)) state_binding
               \<noteq> Some (sn_created state)
             \<or> fmlookup (sp_metadata (sn_config state)) journal_binding
               \<noteq> Some (sn_created journal) then
             async_err (nats_mismatch
               ''journal/state incarnation binding differs; authority cannot be reopened'')
           else async_ok (Some state)))"

definition connect_split ::
  "'w jetstream \<Rightarrow> nats_config \<Rightarrow> stream_info \<Rightarrow> ('w, event_store_error, string option) async" where
  "connect_split J config journal =
     async_map (map_option sn_created) (inspect_split_state J config journal)"

text \<open>The connection: the server is compatible and its payload limit large enough, as the client library
  reports them.\<close>

definition nats_connect ::
  "nats_externals \<Rightarrow> 'w jetstream \<Rightarrow> bool \<Rightarrow> nat \<Rightarrow> nats_config \<Rightarrow>
   ('w, event_store_error, 'w nats_store) async" where
  "nats_connect X J compatible max_payload config =
     (if \<not> compatible then
        async_err (nats_mismatch
          ''NATS Server 2.12.1 or newer is required for cross-subject atomic event batches'')
      else if max_payload < bl_wire_value (nc_max_event_bytes config) then
        async_err (store_error_new ConfigurationMismatch
          (Limit_text ''NATS max_payload is below the configured event-store message limit''
            max_payload))
      else
        async_bind (async_map_err (\<lambda>e. nats_unavailable_with ''failed to get event-store stream''
            (stream_lookup_text e)) (js_get_stream J (nc_stream_name config))) (\<lambda>stream.
        async_bind (async_of (verify_stream_config (stream_config config) (sn_config stream)))
          (\<lambda>_.
        async_bind (connect_split J config stream) (\<lambda>split.
        async_bind (async_of (nats_authority X config (sn_created stream) split)) (\<lambda>authority.
        async_ok \<lparr>ns_config = config, ns_history_auditing = False, ns_authority = authority,
                  ns_journal_incarnation = sn_created stream, ns_split = split,
                  ns_detail_readers = None\<rparr>)))))"

definition verify_journal ::
  "'w jetstream \<Rightarrow> 'w nats_store \<Rightarrow> ('w, event_store_error, stream_info) async" where
  "verify_journal J S =
     async_bind (async_map_err (\<lambda>e.
         if is_stream_not_found e then nats_mismatch ''journal authority is missing''
         else store_error_new Unavailable (External_text (stream_lookup_text e)))
       (js_get_stream J (nc_stream_name (ns_config S)))) (\<lambda>stream.
     async_bind (async_of (verify_stream_config (stream_config (ns_config S)) (sn_config stream)))
       (\<lambda>_.
     if sn_created stream \<noteq> ns_journal_incarnation S then
       async_err (nats_mismatch ''journal authority was recreated'')
     else async_ok stream))"

definition verify_authority ::
  "'w jetstream \<Rightarrow> 'w nats_store \<Rightarrow> ('w, event_store_error, stream_info option) async" where
  "verify_authority J S =
     async_bind (verify_journal J S) (\<lambda>journal.
     async_bind (inspect_split_state J (ns_config S) journal) (\<lambda>state.
     if map_option sn_created state \<noteq> ns_split S then
       async_err (nats_mismatch ''outcome state authority was recreated'')
     else async_ok state))"

definition require_writable_handle :: "'w nats_store \<Rightarrow> event_store_error + unit" where
  "require_writable_handle S =
     ensure (\<not> nc_read_only_outcomes (ns_config S))
       (nats_mismatch ''event-store handle is configured replay-only'')"

definition require_completed_outcome_writer ::
  "'w jetstream \<Rightarrow> 'w nats_store \<Rightarrow> ('w, event_store_error, unit) async" where
  "require_completed_outcome_writer J S =
     async_bind (async_of (require_writable_handle S)) (\<lambda>_.
     if nc_split_outcomes (ns_config S) then async_map (\<lambda>_. ()) (verify_authority J S)
     else
       async_bind (async_of (ok_or (nats_mismatch
           (''legacy/read-only outcome namespace: import original evidence or use a fresh ''
            @ ''fenced identity epoch'')) (nc_completed_outcome_epoch (ns_config S)))) (\<lambda>epoch.
       async_bind (get_event_stream J S ''failed to verify completed outcome epoch'') (\<lambda>stream.
       if fmlookup (sp_metadata (sn_config stream)) ''rostfrei.completed-outcomes.epoch''
            \<noteq> Some epoch
          \<or> fmlookup (sp_metadata (sn_config stream)) ''rostfrei.completed-outcomes.version''
            \<noteq> Some ''1'' then
         async_err (nats_mismatch ''durable completed outcome epoch/version differs'')
       else async_ok ())))"

definition require_mutable_namespace ::
  "'w jetstream \<Rightarrow> 'w nats_store \<Rightarrow> ('w, event_store_error, unit) async" where
  "require_mutable_namespace J S =
     async_bind (async_of (require_writable_handle S)) (\<lambda>_.
     if nc_completed_outcome_epoch (ns_config S) \<noteq> None then
       require_completed_outcome_writer J S
     else
       async_bind (get_event_stream J S ''failed to inspect write namespace'') (\<lambda>stream.
       if fmlookup (sp_metadata (sn_config stream)) ''rostfrei.completed-outcomes.epoch'' \<noteq> None
       then require_completed_outcome_writer J S
       else async_ok ()))"

definition validate_completed_scope ::
  "'w nats_store \<Rightarrow> event_transaction \<Rightarrow> event_store_error + unit" where
  "validate_completed_scope S transaction =
     (let expected = nc_application (ns_config S) @ '':''
            @ (case subject_segment (nc_traffic_scope (ns_config S)) of
                 None \<Rightarrow> ''normal'' | Some segment' \<Rightarrow> segment')
      in case Option.bind (Option.bind (tx_completion transaction) cc_evidence)
                ev_authority_scope of
           None \<Rightarrow> Inr ()
         | Some scope \<Rightarrow>
             ensure (scope = expected) (nats_mismatch
               ''completed evidence belongs to another application/traffic authority''))"

definition stream_incarnation ::
  "'w jetstream \<Rightarrow> 'w nats_store \<Rightarrow> ('w, event_store_error, string) async" where
  "stream_incarnation J S =
     async_map sn_created (get_event_stream J S ''failed to inspect append-session stream'')"

section \<open>The state of the details\<close>

record observed_state =
  ob_sequence :: u64
  ob_value :: state_value

text \<open>The checks of a state message against the marker whose details it holds.\<close>

definition check_state_message ::
  "nats_externals \<Rightarrow> 'w nats_store \<Rightarrow> outcome_marker \<Rightarrow> bytes \<Rightarrow> string \<Rightarrow> raw_message \<Rightarrow>
   event_store_error + observed_state" where
  "check_state_message X S marker manifest subject message =
     rbind (if rm_subject message \<noteq> subject \<or> rm_sequence message = 0 then Inr True
            else rbind (required_single_header (rm_headers message) ''Nats-Expected-Stream'')
              (\<lambda>expected_stream.
            if expected_stream \<noteq> nc_outcome_state_stream_name (ns_config S) then Inr True
            else rbind (optional_single_header (rm_headers message) ''Nats-Msg-Id'') (\<lambda>message_id.
            if message_id \<noteq> None then Inr True
            else rbind (optional_single_header (rm_headers message) ''Nats-Rollup'') (\<lambda>rollup.
            if rollup \<noteq> None then Inr True
            else map_ok (\<lambda>operation. operation \<noteq> None)
              (optional_single_header (rm_headers message) ''KV-Operation'')))))
       (\<lambda>incompatible.
     rbind (ensure (\<not> incompatible)
       (nats_corrupt ''invalid outcome state coordinates or headers'')) (\<lambda>_.
     rbind (map_err (\<lambda>e. store_error_new CorruptHistory (External_text e))
       (nx_state_from_slice X (rm_payload message))) (\<lambda>envelope.
     rbind (ensure (sv_version envelope = 1 \<and> sv_binding envelope = nx_base64_encode X manifest)
       (nats_corrupt ''outcome state format/reference binding mismatch'')) (\<lambda>_.
     rbind (required_single_header (rm_headers message) ''Nats-Expected-Last-Subject-Sequence'')
       (\<lambda>expected.
     rbind (case sv_state envelope of
         StateActive encoded \<Rightarrow>
           if expected \<noteq> ''0'' then Inl (nats_corrupt ''Active was not created with raw CAS0'')
           else
             rbind (map_err (\<lambda>e. store_error_new CorruptHistory (External_text e))
               (nx_base64_decode X encoded)) (\<lambda>bs.
             rbind (details_decode (nx_core X) (om_reference marker) bs) (\<lambda>details.
             ensure (eo_reference details = om_reference marker)
               (nats_corrupt ''detail reference differs'')))
       | StateExpired previous revision \<Rightarrow>
           if revision \<noteq> fingerprint_to_hex (om_revision marker) then
             Inl (nats_corrupt ''expired state belongs to another winning revision'')
           else
             ensure (previous \<noteq> 0 \<and> previous < rm_sequence message
                 \<and> expected = decimal (unat previous))
               (nats_corrupt ''expired state has invalid transition evidence'')) (\<lambda>_.
     Inr \<lparr>ob_sequence = rm_sequence message, ob_value = sv_state envelope\<rparr>))))))"

definition read_state ::
  "nats_externals \<Rightarrow> 'w jetstream \<Rightarrow> 'w nats_store \<Rightarrow> outcome_marker \<Rightarrow>
   ('w, event_store_error, observed_state) async" where
  "read_state X J S marker =
     async_bind (verify_authority J S) (\<lambda>state.
     async_bind (async_of (ok_or (nats_mismatch ''outcome state requires split authority'')
       state)) (\<lambda>_.
     async_bind (async_of (reference_encode (nx_core X) (om_reference marker))) (\<lambda>manifest.
     let subject = outcome_state_subject (nx_sha256 X) (ns_config S) manifest in
     async_bind (async_map_err (classify_required_raw_lookup_error
         ''completed outcome state/lifecycle evidence is missing''
         ''outcome state read failed'')
       (js_last_by_subject J (nc_outcome_state_stream_name (ns_config S)) subject)) (\<lambda>message.
     async_of (check_state_message X S marker manifest subject message)))))"

definition state_headers :: "nats_config \<Rightarrow> u64 \<Rightarrow> header_map" where
  "state_headers config expected =
     header_insert ''Nats-Expected-Last-Subject-Sequence'' (decimal (unat expected))
       (header_insert ''Nats-Expected-Stream'' (nc_outcome_state_stream_name config)
         (header_insert ''Content-Type'' ''application/json'' fmempty))"

definition publish_state ::
  "nats_externals \<Rightarrow> 'w jetstream \<Rightarrow> 'w nats_store \<Rightarrow> outcome_marker \<Rightarrow> state_value \<Rightarrow> u64 \<Rightarrow>
   ('w, event_store_error, u64) async" where
  "publish_state X J S marker v expected =
     async_bind (verify_authority J S) (\<lambda>_.
     async_bind (async_of (reference_encode (nx_core X) (om_reference marker))) (\<lambda>manifest.
     async_bind (async_of (map_err (\<lambda>e. store_error_new InvalidRequest (External_text e))
       (nx_state_to_vec X \<lparr>sv_version = 1, sv_binding = nx_base64_encode X manifest,
                           sv_state = v\<rparr>))) (\<lambda>payload.
     if bl_value (nc_max_event_bytes (ns_config S)) < length payload then
       async_err (nats_invalid ''outcome state exceeds configured message limit'')
     else
       async_bind (async_map_err (nats_unavailable_with ''state CAS acknowledgement unknown'')
         (js_send_request J (outcome_state_subject (nx_sha256 X) (ns_config S) manifest)
           (state_headers (ns_config S) expected) payload)) (\<lambda>reply.
       async_bind (async_of (map_err (\<lambda>e. case e of
             Expectation \<Rightarrow> nats_conflict ''state CAS did not match''
           | StoreFailure error \<Rightarrow> error)
         (decode_atomic_publish_response X reply))) (\<lambda>ack.
       if ack_stream ack \<noteq> nc_outcome_state_stream_name (ns_config S) \<or> ack_sequence ack = 0
          \<or> ack_sequence ack \<le> expected \<or> ack_batch ack \<noteq> None then
         async_err (nats_corrupt ''invalid state CAS PubAck'')
       else async_ok (ack_sequence ack))))))"

definition prepare_details ::
  "nats_externals \<Rightarrow> 'w jetstream \<Rightarrow> 'w nats_store \<Rightarrow> outcome_marker \<Rightarrow> bytes \<Rightarrow>
   ('w, event_store_error, unit) async" where
  "prepare_details X J S marker bs =
     async_match (publish_state X J S marker (StateActive (nx_base64_encode X bs)) 0) (\<lambda>result.
     async_match (read_state X J S marker) (\<lambda>observed.
     async_of (case observed of
         Inr state \<Rightarrow>
           (case ob_value state of
              StateActive actual \<Rightarrow>
                rbind (map_err (\<lambda>e. store_error_new CorruptHistory (External_text e))
                  (nx_base64_decode X actual)) (\<lambda>actual.
                ensure (actual = bs
                    \<and> (case result of Inl _ \<Rightarrow> True | Inr ack \<Rightarrow> ack = ob_sequence state))
                  (nats_corrupt ''prepared state differs from exact candidate''))
            | StateExpired _ _ \<Rightarrow>
                Inl (store_error_new CompletedDetailsExpired
                  (Fixed_text ''candidate details are permanently expired'')))
       | Inl error \<Rightarrow> Inl (case result of Inl e \<Rightarrow> e | Inr _ \<Rightarrow> error))))"

section \<open>Comparing a proposal with what is stored\<close>

definition matches_checked_receipt ::
  "nats_externals \<Rightarrow> 'w nats_store \<Rightarrow> event_transaction \<Rightarrow> transaction_receipt \<Rightarrow>
   outcome_marker option \<Rightarrow> event_store_error + bool" where
  "matches_checked_receipt X S transaction receipt marker =
     (case (nc_split_outcomes (ns_config S), marker) of
        (True, Some m) \<Rightarrow>
          map_ok (\<lambda>digest. om_proposal m = digest) (proposal_digest_of (nx_core X) transaction)
      | _ \<Rightarrow> Inr (transaction_matches_receipt transaction receipt))"

definition matches_stored ::
  "nats_externals \<Rightarrow> 'w jetstream \<Rightarrow> 'w nats_store \<Rightarrow> event_transaction \<Rightarrow> transaction_receipt \<Rightarrow>
   ('w, event_store_error, bool) async" where
  "matches_stored X J S transaction receipt =
     (if \<not> nc_split_outcomes (ns_config S) then
        async_ok (transaction_matches_receipt transaction receipt)
      else
        async_bind (load_transaction_receipt_materialized X J S (tx_operation_id transaction) True)
          (\<lambda>stored.
        async_bind (async_of (ok_or (nats_corrupt ''winner missing'') stored)) (\<lambda>stored.
        async_of (matches_checked_receipt X S transaction receipt (mr_marker stored)))))"

definition transaction_reused :: event_store_error where
  "transaction_reused = nats_identity_conflict
     ''transaction identity was reused with different content''"

text \<open>An outcome already stored is a replay when it is of the same proposal.\<close>

definition replay_or_conflict ::
  "nats_externals \<Rightarrow> 'w jetstream \<Rightarrow> 'w nats_store \<Rightarrow> event_transaction \<Rightarrow> transaction_receipt \<Rightarrow>
   ('w, event_store_error, transaction_append_outcome) async" where
  "replay_or_conflict X J S transaction receipt =
     async_bind (matches_stored X J S transaction receipt) (\<lambda>same.
     if same then async_ok (TransactionExactReplay receipt) else async_err transaction_reused)"

definition resolve_identity_after_conflict ::
  "nats_externals \<Rightarrow> 'w jetstream \<Rightarrow> 'w nats_store \<Rightarrow> event_transaction \<Rightarrow>
   transaction_receipt option \<Rightarrow> ('w, event_store_error, transaction_append_outcome) async" where
  "resolve_identity_after_conflict X J S transaction receipt =
     (if \<not> nc_split_outcomes (ns_config S) then
        async_of (resolve_transaction_identity_after_participant_conflict transaction receipt)
      else
        let conflict = async_err (nats_identity_conflict
              ''operation identity was already used with another proposal'')
        in case receipt of
             None \<Rightarrow> conflict
           | Some receipt \<Rightarrow>
               async_bind (matches_stored X J S transaction receipt) (\<lambda>same.
               if same then async_ok (TransactionExactReplay receipt) else conflict))"

text \<open>The first participant whose stream already holds an identity of the transaction decides.\<close>

fun find_conflicting_participant ::
  "(stream_id \<Rightarrow> ('w, event_store_error, nats_history) async) \<Rightarrow>
   ('w, event_store_error, transaction_append_outcome) async \<Rightarrow>
   ('w, event_store_error, transaction_append_outcome) async \<Rightarrow> transaction_participant list \<Rightarrow>
   ('w, event_store_error, transaction_append_outcome) async" where
  "find_conflicting_participant load_of conflicting otherwise [] = otherwise"
| "find_conflicting_participant load_of conflicting otherwise (participant # rest) =
     async_bind (load_of (tp_stream_id participant)) (\<lambda>history.
     async_bind (async_of (participant_has_conflicting_identity history participant)) (\<lambda>conflicts.
     if conflicts then conflicting
     else find_conflicting_participant load_of conflicting otherwise rest))"

definition resolve_transaction_race ::
  "nats_externals \<Rightarrow> 'w jetstream \<Rightarrow> 'w nats_store \<Rightarrow> event_transaction \<Rightarrow>
   ('w, event_store_error, transaction_append_outcome) async" where
  "resolve_transaction_race X J S transaction =
     async_bind (load_transaction_receipt_inner X J S (tx_operation_id transaction)) (\<lambda>receipt.
     case receipt of
       Some receipt \<Rightarrow> replay_or_conflict X J S transaction receipt
     | None \<Rightarrow>
         find_conflicting_participant (load_history X J S)
           (async_bind (load_transaction_receipt_inner X J S (tx_operation_id transaction))
             (resolve_identity_after_conflict X J S transaction))
           (async_err (nats_conflict ''an aggregate changed during transaction append''))
           (tx_participants transaction))"

definition reconcile_unavailable_transaction_publish ::
  "nats_externals \<Rightarrow> 'w jetstream \<Rightarrow> 'w nats_store \<Rightarrow> event_transaction \<Rightarrow> event_store_error \<Rightarrow>
   ('w, event_store_error, transaction_append_outcome) async" where
  "reconcile_unavailable_transaction_publish X J S transaction original =
     (let keep = preserve_original_unavailable original;
          receipt_of = async_map_err keep
            (load_transaction_receipt_inner X J S (tx_operation_id transaction))
      in async_bind receipt_of (\<lambda>receipt.
         case receipt of
           Some receipt \<Rightarrow> replay_or_conflict X J S transaction receipt
         | None \<Rightarrow>
             find_conflicting_participant
               (\<lambda>stream. async_map_err keep (load_raw_history X J S stream))
               (async_bind receipt_of (resolve_identity_after_conflict X J S transaction))
               (async_err original)
               (filter (\<lambda>p. tp_batch p \<noteq> None) (tx_participants transaction))))"

section \<open>Appending a transaction\<close>

text \<open>Staging ends early when a participant already holds an identity of the transaction.\<close>

datatype 'a staging = StagingDone 'a | StagingConflict

fun stage_participants ::
  "nats_externals \<Rightarrow> 'w jetstream \<Rightarrow> 'w nats_store \<Rightarrow> loaded_histories \<Rightarrow> transaction_participant list \<Rightarrow>
   ('w, event_store_error, (staged_participant list \<times> loaded_histories) staging) async" where
  "stage_participants X J S histories [] = async_ok (StagingDone ([], histories))"
| "stage_participants X J S histories (participant # rest) =
     async_bind (load_session_history X J S (tp_stream_id participant) histories)
       (\<lambda>(history, histories).
     async_bind (async_of (participant_has_conflicting_identity history participant)) (\<lambda>conflicts.
     if conflicts then async_ok StagingConflict
     else
       let base_version = history_version history in
       async_bind (async_of (nats_validate_expected_version (tp_expected_version participant)
         base_version)) (\<lambda>_.
       async_bind (async_of (case tp_batch participant of
             None \<Rightarrow> Inr []
           | Some batch \<Rightarrow>
               rbind (nats_validate_derived_identities (nx_sha256 X) (tp_stream_id participant)
                 batch) (\<lambda>_.
               nats_record_batch (tp_stream_id participant) base_version batch))) (\<lambda>recorded.
       async_bind (stage_participants X J S histories rest) (\<lambda>staged.
       async_ok (case staged of
           StagingConflict \<Rightarrow> StagingConflict
         | StagingDone (staged, histories) \<Rightarrow>
             StagingDone
               (\<lparr>sg_stream_id = tp_stream_id participant, sg_base_version = base_version,
                 sg_last_subject_stream_sequence = nh_last_subject_stream_sequence history,
                 sg_batch = tp_batch participant, sg_recorded = recorded\<rparr> # staged,
                histories)))))))"

fun transaction_event_messages ::
  "nats_externals \<Rightarrow> 'w nats_store \<Rightarrow> u32 \<Rightarrow> u32 \<Rightarrow> staged_participant list \<Rightarrow>
   event_store_error + atomic_publish_message list" where
  "transaction_event_messages X S tx_count offset [] = Inr []"
| "transaction_event_messages X S tx_count offset (participant # rest) =
     (case sg_batch participant of
        None \<Rightarrow> transaction_event_messages X S tx_count offset rest
      | Some batch \<Rightarrow>
          rbind (encode_transaction_events X (ns_config S) (sg_stream_id participant) batch
            (sg_recorded participant) offset tx_count) (\<lambda>payloads.
          if length payloads \<noteq> length (sg_recorded participant) then
            Inl (nats_corrupt ''encoded transaction event count does not match the recorded batch'')
          else if list_ex (\<lambda>p. bl_value (nc_max_event_bytes (ns_config S)) < length p) payloads then
            Inl (event_too_large (ns_config S) ''encoded event exceeds the configured limit'')
          else
            rbind (ok_or (nats_invalid ''participant event count cannot be represented'')
              (u32_try_from (length (sg_recorded participant)))) (\<lambda>count.
            rbind (ok_or (nats_invalid ''transaction event ordinal overflowed'')
              (checked_add offset count)) (\<lambda>next_offset.
            rbind (transaction_event_messages X S tx_count next_offset rest) (\<lambda>messages.
            Inr (atomic_batch_messages (store_subject X S (sg_stream_id participant))
                (sg_last_subject_stream_sequence participant)
                (zip (map re_event_id (sg_recorded participant)) payloads)
              @ messages)))))) "

definition transaction_guard_messages ::
  "nats_externals \<Rightarrow> 'w nats_store \<Rightarrow> event_transaction \<Rightarrow> staged_participant list \<Rightarrow>
   event_store_error + atomic_publish_message list" where
  "transaction_guard_messages X S transaction staged =
     collect_results (\<lambda>(ordinal, participant).
       rbind (map_err (\<lambda>e. store_error_new InvalidRequest
           (Wrapped_text ''failed to encode transaction guard'' (External_text e)))
         (nx_guard_to_vec X \<lparr>gw_operation_id = tx_operation_id transaction,
                             gw_guarded_stream = stream_identity (sg_stream_id participant)\<rparr>))
         (\<lambda>payload.
       if bl_value (nc_max_event_bytes (ns_config S)) < length payload then
         Inl (event_too_large (ns_config S)
           ''encoded transaction guard exceeds the configured limit'')
       else
         Inr \<lparr>am_subject = transaction_guard_subject (nx_sha256 X) (ns_config S)
                (tx_operation_id transaction) ordinal,
              am_message_id = None, am_payload = payload,
              am_expected_last_subject_sequence =
                Some (sg_last_subject_stream_sequence participant),
              am_expectation_subject = Some (store_subject X S (sg_stream_id participant))\<rparr>))
       (enumerate 0 (filter (\<lambda>p. sg_batch p = None) staged))"

definition nats_staged_receipt ::
  "event_transaction \<Rightarrow> staged_participant list \<Rightarrow> transaction_receipt" where
  "nats_staged_receipt proposal staged =
     (TransactionReceipt_new (tx_operation_id proposal) (tx_operation_fingerprint proposal)
       (map (\<lambda>s. \<lparr>sr_stream_id = sg_stream_id s, sr_base_version = sg_base_version s,
                   sr_events = sg_recorded s\<rparr>) staged))\<lparr>
       tr_bounded_context := tx_bounded_context proposal,
       tr_correlation_id := tx_correlation_id proposal,
       tr_causation_id := tx_causation_id proposal,
       tr_security_scope := tx_security_scope proposal,
       tr_actor := tx_actor proposal\<rparr>"

text \<open>The content of the receipt message; with split outcomes the details are prepared first.\<close>

definition prepare_receipt_content ::
  "nats_externals \<Rightarrow> 'w jetstream \<Rightarrow> 'w nats_store \<Rightarrow> event_transaction \<Rightarrow> staged_participant list \<Rightarrow>
   ('w, event_store_error, receipt_content) async" where
  "prepare_receipt_content X J S transaction staged =
     async_bind (async_of (transaction_receipt_content (ns_config S) transaction staged))
       (\<lambda>content.
     if nc_split_outcomes (ns_config S) \<and> tx_completion transaction \<noteq> None then
       async_bind (async_of (prepare (nx_core X) (ns_authority S) transaction
         (nats_staged_receipt transaction staged))) (\<lambda>(marker, bs).
       async_bind (prepare_details X J S marker bs) (\<lambda>_.
       async_bind (async_of (encode_manifest (nx_core X) marker)) (\<lambda>manifest.
       async_ok (content\<lparr>rc_completion := None,
                         rc_manifest := Some (nx_base64_encode X manifest)\<rparr>))))
     else async_ok content)"

definition receipt_message ::
  "nats_externals \<Rightarrow> 'w nats_store \<Rightarrow> event_transaction \<Rightarrow> receipt_content \<Rightarrow>
   event_store_error + atomic_publish_message" where
  "receipt_message X S transaction content =
     rbind (encode_transaction_receipt X content) (\<lambda>payload.
     if bl_value (nc_max_event_bytes (ns_config S)) < length payload then
       Inl (event_too_large (ns_config S)
         ''encoded transaction receipt exceeds the configured limit'')
     else
       Inr \<lparr>am_subject = transaction_subject (nx_sha256 X) (ns_config S)
              (tx_operation_id transaction),
            am_message_id = None, am_payload = payload,
            am_expected_last_subject_sequence = Some 0, am_expectation_subject = None\<rparr>)"

fun verify_staged ::
  "nats_externals \<Rightarrow> 'w jetstream \<Rightarrow> 'w nats_store \<Rightarrow> string \<Rightarrow> u64 \<Rightarrow> loaded_histories \<Rightarrow>
   staged_participant list \<Rightarrow> ('w, event_store_error, loaded_histories) async" where
  "verify_staged X J S batch_id next_sequence histories [] = async_ok histories"
| "verify_staged X J S batch_id next_sequence histories (participant # rest) =
     (if sg_batch participant = None then
        verify_staged X J S batch_id next_sequence histories rest
      else
        async_bind (async_of (ok_or (nats_invalid
            ''participant event count cannot be represented'')
          (u64_try_from (length (sg_recorded participant))))) (\<lambda>event_count.
        async_bind (async_of (ok_or (nats_corrupt ''transaction sequence space overflowed'')
          (checked_add next_sequence event_count))) (\<lambda>next_sequence.
        async_bind (async_of (ok_or (nats_corrupt
            ''transaction contains an invalid participant sequence'')
          (checked_sub next_sequence 1))) (\<lambda>last_sequence.
        async_bind (async_of (ok_or (nats_corrupt ''staged participant history is missing'')
          (fmlookup histories (sg_stream_id participant)))) (\<lambda>previous.
        async_bind (extend_history X J S (sg_stream_id participant) previous last_sequence
          batch_id (length (sg_recorded participant))) (\<lambda>history.
        verify_staged X J S batch_id next_sequence
          (fmupd (sg_stream_id participant) history histories) rest))))))"

definition verify_transaction ::
  "nats_externals \<Rightarrow> 'w jetstream \<Rightarrow> 'w nats_store \<Rightarrow> event_transaction \<Rightarrow> staged_participant list \<Rightarrow>
   loaded_histories \<Rightarrow> string \<Rightarrow> nat \<Rightarrow> u64 \<Rightarrow> atomic_publish_ack \<Rightarrow>
   ('w, event_store_error, transaction_append_outcome) async" where
  "verify_transaction X J S transaction staged histories batch_id event_count item_count ack =
     async_bind (async_of (ok_or (nats_corrupt ''transaction PubAck contains an invalid sequence'')
       (Option.bind (checked_sub (ack_sequence ack) item_count) (\<lambda>s. checked_add s 1))))
       (\<lambda>batch_start.
     async_bind (verify_staged X J S batch_id batch_start histories staged) (\<lambda>histories.
     async_bind (load_receipt_with_raw_histories X J S (tx_operation_id transaction) True
       \<lparr>rh_histories = histories, rh_maximum_stream_sequence = None\<rparr> OperationLayout) (\<lambda>found.
     async_bind (async_of (ok_or (nats_corrupt ''published transaction receipt is not visible'')
       found)) (\<lambda>materialized.
     if mr_batch_id materialized \<noteq> batch_id
        \<or> mr_batch_start_stream_sequence materialized \<noteq> batch_start
        \<or> mr_transaction_event_count materialized \<noteq> event_count then
       async_err (nats_corrupt
         ''published transaction receipt contains different batch metadata'')
     else
       async_bind (async_of (matches_checked_receipt X S transaction (mr_receipt materialized)
         (mr_marker materialized))) (\<lambda>same.
       if same then async_ok (TransactionAppended (mr_receipt materialized))
       else async_err (nats_corrupt
         ''published transaction receipt contains different content''))))))"

definition publish_transaction ::
  "nats_externals \<Rightarrow> 'w jetstream \<Rightarrow> 'w nats_store \<Rightarrow> event_transaction \<Rightarrow> staged_participant list \<Rightarrow>
   loaded_histories \<Rightarrow> nat \<Rightarrow> atomic_publish_message list \<Rightarrow>
   ('w, event_store_error, transaction_append_outcome) async" where
  "publish_transaction X J S transaction staged histories event_count messages =
     (\<lambda>w. case new_atomic_batch_id X J (tx_operation_id transaction) w of (batch_id, w) \<Rightarrow>
      async_match (publish_atomic_messages X J (ns_config S) batch_id
        (tx_correlation_id transaction) messages) (\<lambda>published.
      case published of
        Inl Expectation \<Rightarrow> resolve_transaction_race X J S transaction
      | Inl (StoreFailure error) \<Rightarrow>
          if store_kind error = Unavailable then
            reconcile_unavailable_transaction_publish X J S transaction error
          else async_err error
      | Inr ack \<Rightarrow>
          async_bind (if ack_stream ack \<noteq> nc_stream_name (ns_config S) \<or> ack_sequence ack = 0
                \<or> ack_batch ack \<noteq> Some batch_id then async_ok False
              else async_map (\<lambda>count. ack_count ack = Some count)
                (async_of (ok_or (nats_invalid ''transaction item count cannot be represented'')
                  (u64_try_from (length messages))))) (\<lambda>compatible.
          if \<not> compatible then
            async_err (nats_corrupt (''atomic transaction PubAck returned incompatible stream, ''
              @ ''sequence, or batch metadata''))
          else
            async_bind (async_of (ok_or
              (nats_invalid ''transaction item count cannot be represented'')
              (u64_try_from (length messages)))) (\<lambda>item_count.
            async_map_err (\<lambda>error. if tx_completion transaction \<noteq> None
                then in_outcome_recovery error else error)
              (verify_transaction X J S transaction staged histories batch_id event_count
                item_count ack)))) w)"

definition append_transaction_with_histories ::
  "nats_externals \<Rightarrow> 'w jetstream \<Rightarrow> 'w nats_store \<Rightarrow> event_transaction \<Rightarrow> loaded_histories \<Rightarrow>
   ('w, event_store_error, transaction_append_outcome) async" where
  "append_transaction_with_histories X J S transaction histories =
     (if (case tx_bounded_context transaction of
            None \<Rightarrow> False | Some context' \<Rightarrow> context' \<noteq> nc_bounded_context (ns_config S)) then
        async_err (store_error_new InvalidRequest
          (Wrapped_text ''transaction context does not match event-store context''
            (External_text (nc_bounded_context (ns_config S)))))
      else
        async_bind (async_of (validate_transaction_shape transaction)) (\<lambda>_.
        async_bind (async_of (validate_transaction_item_limit transaction)) (\<lambda>event_count.
        async_bind (load_transaction_receipt_inner X J S (tx_operation_id transaction)) (\<lambda>receipt.
        case receipt of
          Some receipt \<Rightarrow> replay_or_conflict X J S transaction receipt
        | None \<Rightarrow>
            async_bind (async_of (validate_transaction_participant_requests transaction)) (\<lambda>_.
            async_bind (stage_participants X J S histories (tx_participants transaction))
              (\<lambda>staging.
            case staging of
              StagingConflict \<Rightarrow>
                async_bind (load_transaction_receipt_inner X J S (tx_operation_id transaction))
                  (resolve_identity_after_conflict X J S transaction)
            | StagingDone (staged, histories) \<Rightarrow>
                async_bind (async_of (ok_or
                  (nats_invalid ''transaction event count cannot be represented'')
                  (u32_try_from event_count))) (\<lambda>tx_count.
                async_bind (async_of (transaction_event_messages X S tx_count 0 staged))
                  (\<lambda>event_messages.
                async_bind (async_of (transaction_guard_messages X S transaction staged))
                  (\<lambda>guard_messages.
                async_bind (prepare_receipt_content X J S transaction staged) (\<lambda>content.
                async_bind (async_of (receipt_message X S transaction content)) (\<lambda>receipt.
                publish_transaction X J S transaction staged histories event_count
                  (event_messages @ guard_messages @ [receipt]))))))))))))"

end
