(* ===== verification/NatsSessions.thy ===== *)
theory NatsSessions
  imports NatsOutcomes
begin

text \<open>
  The operations a client of the event store on NATS calls: completed outcomes and their expiry
  (\<open>event_store/outcomes.rs\<close>), append sessions, the event store trait and the directory of streams
  (\<open>event_store.rs\<close>).
\<close>

section \<open>Recovering outcomes\<close>

definition recovered_batch ::
  "transaction_receipt \<Rightarrow> recorded_event list \<Rightarrow> event_store_error + event_batch option" where
  "recovered_batch receipt events =
     (case events of
        [] \<Rightarrow> Inr None
      | first # _ \<Rightarrow>
          rbind (map_err (\<lambda>e. store_error_new CorruptHistory (Rendered_envelope e))
            (collect_results (\<lambda>e. NewEvent_new (re_event_id e) (re_event_type e)
              (re_schema_version e) (re_payload e)) events)) (\<lambda>new_events.
          rbind (map_err (\<lambda>e. store_error_new CorruptHistory (Rendered_envelope e))
            (EventBatch_new (re_commit_id first) (tr_operation_id receipt)
              (tr_operation_fingerprint receipt) new_events)) (\<lambda>batch.
          Inr (Some (batch\<lparr>eb_correlation_id := tr_correlation_id receipt,
                           eb_causation_id := tr_causation_id receipt,
                           eb_actor := tr_actor receipt\<rparr>)))))"

definition proposal_from_receipt ::
  "nats_externals \<Rightarrow> transaction_receipt \<Rightarrow> event_store_error + event_transaction" where
  "proposal_from_receipt X receipt =
     rbind (validate_integrity (nx_sha256 X) receipt) (\<lambda>_.
     rbind (collect_results (\<lambda>stream.
         rbind (recovered_batch receipt (sr_events stream)) (\<lambda>batch.
         Inr \<lparr>tp_stream_id = sr_stream_id stream,
              tp_expected_version =
                (if sr_base_version stream = 0 then NoStream else Exact (sr_base_version stream)),
              tp_batch = batch\<rparr>)) (tr_streams receipt)) (\<lambda>participants.
     Inr ((EventTransaction_new (tr_operation_id receipt) (tr_operation_fingerprint receipt)
         participants)\<lparr>
       tx_bounded_context := tr_bounded_context receipt,
       tx_correlation_id := tr_correlation_id receipt,
       tx_causation_id := tr_causation_id receipt,
       tx_security_scope := tr_security_scope receipt,
       tx_actor := tr_actor receipt,
       tx_completion := tr_completion receipt\<rparr>)))"

definition validate_recovered ::
  "nats_externals \<Rightarrow> outcome_marker \<Rightarrow> encoded_outcome_details \<Rightarrow> event_store_error + unit" where
  "validate_recovered X marker details =
     (let receipt = (case eo_completion details of
            None \<Rightarrow> om_integrity marker
          | Some completion \<Rightarrow> (om_integrity marker)\<lparr>tr_completion := Some completion\<rparr>)
      in rbind (proposal_from_receipt X receipt) (\<lambda>proposal.
         rbind (prepare (nx_core X) (key_authority (dr_key (om_reference marker))) proposal
           receipt) (\<lambda>(reconstructed, _).
         ensure (reconstructed = marker)
           (nats_corrupt ''recovered details/proposal/permanent manifest mismatch''))))"

definition nats_resolve_active ::
  "nats_externals \<Rightarrow> 'w nats_store \<Rightarrow> outcome_marker \<Rightarrow> string \<Rightarrow> 'w \<Rightarrow>
   event_store_error + encoded_outcome_details outcome_details" where
  "nats_resolve_active X S marker encoded w =
     (case ns_detail_readers S of
        Some (hot, cold) \<Rightarrow>
          rbind (map_err in_outcome_recovery (resolve_details (nx_core X) (om_reference marker)
            (hot w) (map_option (\<lambda>reader. reader w) cold))) (\<lambda>details.
          rbind (case details of
              Available v \<Rightarrow> map_err in_outcome_recovery (validate_recovered X marker v)
            | _ \<Rightarrow> Inr ()) (\<lambda>_. Inr details))
      | None \<Rightarrow>
          rbind (map_err (\<lambda>e. store_error_new CorruptHistory (External_text e))
            (nx_base64_decode X encoded)) (\<lambda>bs.
          rbind (details_decode (nx_core X) (om_reference marker) bs) (\<lambda>details.
          rbind (map_err in_outcome_recovery (validate_recovered X marker details)) (\<lambda>_.
          Inr (Available details)))))"

definition nats_resolve_marker ::
  "nats_externals \<Rightarrow> 'w jetstream \<Rightarrow> 'w nats_store \<Rightarrow> outcome_marker \<Rightarrow>
   ('w, event_store_error, encoded_outcome) async" where
  "nats_resolve_marker X J S marker =
     async_bind (async_map_err in_outcome_recovery (read_state X J S marker)) (\<lambda>observed.
     async_bind (\<lambda>w. (case ob_value observed of
           StateActive encoded \<Rightarrow> nats_resolve_active X S marker encoded w
         | StateExpired _ _ \<Rightarrow> Inr Expired, w)) (\<lambda>details.
     async_of (map_err (\<lambda>e. in_outcome_recovery
         (store_error_new CorruptHistory (Rendered_recovery e)))
       (completed_outcome_new Some marker details))))"

definition nats_validate_key :: "'w nats_store \<Rightarrow> outcome_key \<Rightarrow> event_store_error + unit" where
  "nats_validate_key S key =
     ensure (key_authority key = ns_authority S
         \<and> key_context key = nc_bounded_context (ns_config S))
       (nats_mismatch ''outcome key belongs to another configured authority'')"

text \<open>An outcome of the inline layout, read under the configured scope.\<close>

definition inline_outcome ::
  "nats_externals \<Rightarrow> 'w nats_store \<Rightarrow> transaction_receipt \<Rightarrow> event_store_error + encoded_outcome" where
  "inline_outcome X S receipt =
     (if tr_completion receipt = None then
        Inl (in_outcome_recovery (nats_mismatch ''legacy acceptance authority is unaudited''))
      else
        rbind (case nc_legacy_security_scope (ns_config S) of
            Some scope \<Rightarrow>
              if (case tr_security_scope receipt of None \<Rightarrow> False | Some s \<Rightarrow> s \<noteq> scope) then
                Inl (in_outcome_recovery
                  (nats_mismatch ''legacy scope mapping contradicts retained scope''))
              else Inr (receipt\<lparr>tr_security_scope := Some scope\<rparr>)
          | None \<Rightarrow>
              if tr_security_scope receipt \<noteq> None then
                Inl (in_outcome_recovery (nats_mismatch
                  ''policy-enabled legacy replay requires an explicit fixed scope mapping''))
              else Inr receipt) (\<lambda>receipt.
        rbind (map_err in_outcome_recovery (proposal_from_receipt X receipt)) (\<lambda>proposal.
        rbind (map_err in_outcome_recovery
          (prepare (nx_core X) (ns_authority S) proposal receipt)) (\<lambda>(marker, bs).
        rbind (map_err in_outcome_recovery
          (details_decode (nx_core X) (om_reference marker) bs)) (\<lambda>details.
        map_err recovery_error (completed_outcome_new Some marker (Available details)))))))"

definition nats_lookup_outcome ::
  "nats_externals \<Rightarrow> 'w jetstream \<Rightarrow> 'w nats_store \<Rightarrow> outcome_key \<Rightarrow>
   ('w, event_store_error, encoded_outcome_details outcome_lookup) async" where
  "nats_lookup_outcome X J S key =
     async_bind (async_of (nats_validate_key S key)) (\<lambda>_.
     async_bind (verify_journal J S) (\<lambda>_.
     async_bind (async_map_err in_outcome_recovery
       (load_transaction_receipt_from_stream X J S (key_operation key) False
         raw_history_cache_default OperationLayout)) (\<lambda>found.
     case found of
       None \<Rightarrow>
         if \<not> nc_split_outcomes (ns_config S) \<or> nc_read_only_outcomes (ns_config S) then
           async_err (nats_mismatch
             ''missing outcome in read-only authority is not permission to execute'')
         else async_map (\<lambda>_. Missing) (verify_authority J S)
     | Some stored \<Rightarrow>
         async_map Completed (case mr_marker stored of
             Some marker \<Rightarrow> nats_resolve_marker X J S marker
           | None \<Rightarrow> async_of (inline_outcome X S (mr_receipt stored))))))"

definition native_detail_get ::
  "nats_externals \<Rightarrow> 'w jetstream \<Rightarrow> 'w nats_store \<Rightarrow> detail_reference \<Rightarrow>
   ('w, detail_read_error, detail_read) async" where
  "native_detail_get X J S reference =
     async_map_err (\<lambda>e. case store_kind e of
         Unavailable \<Rightarrow> ReadUnavailable
       | ConfigurationMismatch \<Rightarrow> ReadConfigurationMismatch
       | DetailForbidden \<Rightarrow> ReadForbidden
       | _ \<Rightarrow> ReadCorrupt)
       (async_bind (async_of (nats_validate_key S (dr_key reference))) (\<lambda>_.
        async_bind (load_transaction_receipt_materialized X J S (key_operation (dr_key reference))
          True) (\<lambda>stored.
        async_bind (async_of (ok_or (nats_corrupt ''detail winner missing'') stored)) (\<lambda>stored.
        async_bind (async_of (ok_or (nats_mismatch ''inline authority has no split reader'')
          (mr_marker stored))) (\<lambda>marker.
        if om_reference marker \<noteq> reference then
          async_err (nats_corrupt ''detail reference is not the winning reference'')
        else
          async_bind (read_state X J S marker) (\<lambda>observed.
          async_of (case ob_value observed of
              StateActive encoded \<Rightarrow>
                map_ok Found (map_err (\<lambda>e. store_error_new CorruptHistory (External_text e))
                  (nx_base64_decode X encoded))
            | StateExpired _ _ \<Rightarrow> Inr AbsentHere)))))))"

section \<open>Committing\<close>

definition commit_native ::
  "nats_externals \<Rightarrow> 'w jetstream \<Rightarrow> 'w nats_store \<Rightarrow> event_transaction \<Rightarrow> loaded_histories \<Rightarrow>
   ('w, event_store_error, completed_commit) async" where
  "commit_native X J S proposal histories =
     (if \<not> nc_split_outcomes (ns_config S) then
        async_err (nats_mismatch (''native commands require a fresh fenced split authority; ''
          @ ''inline outcomes are read-only''))
      else
        async_bind (async_of (validate_completed_transaction proposal)) (\<lambda>_.
        async_bind (async_of (validate_completed_scope S proposal)) (\<lambda>_.
        async_bind (require_completed_outcome_writer J S) (\<lambda>_.
        async_bind (append_transaction_with_histories X J S proposal histories) (\<lambda>result.
        async_bind (async_map_err in_outcome_recovery
          (nats_lookup_outcome X J S (outcome_key_of S (tx_operation_id proposal)))) (\<lambda>found.
        case found of
          Missing \<Rightarrow> async_err (in_outcome_recovery
            (nats_corrupt ''durable outcome disappeared''))
        | Completed outcome \<Rightarrow>
            async_ok (case result of
                TransactionAppended _ \<Rightarrow> CommitAppended outcome
              | TransactionExactReplay _ \<Rightarrow> CommitExactReplay outcome)))))))"

definition inline_lookup ::
  "nats_externals \<Rightarrow> 'w jetstream \<Rightarrow> 'w nats_store \<Rightarrow> operation_id \<Rightarrow>
   ('w, event_store_error, transaction_receipt option) async" where
  "inline_lookup X J S operation =
     async_bind (nats_lookup_outcome X J S (outcome_key_of S operation)) (\<lambda>found.
     case found of
       Missing \<Rightarrow> async_ok None
     | Completed outcome \<Rightarrow> async_of (map_ok Some (map_err recovery_error (to_inline outcome))))"

definition commit_inline ::
  "nats_externals \<Rightarrow> 'w jetstream \<Rightarrow> 'w nats_store \<Rightarrow> event_transaction \<Rightarrow> loaded_histories \<Rightarrow>
   ('w, event_store_error, completed_append_outcome) async" where
  "commit_inline X J S proposal histories =
     async_bind (commit_native X J S proposal histories) (\<lambda>result.
     async_bind (async_of (map_err recovery_error (to_inline (commit_result result)))) (\<lambda>inline.
     async_ok (if is_exact_replay result then CompletedExactReplay inline
               else CompletedAppended inline)))"

definition completed_append ::
  "transaction_append_outcome \<Rightarrow> completed_append_outcome" where
  "completed_append outcome =
     (case outcome of
        TransactionAppended receipt \<Rightarrow> CompletedAppended receipt
      | TransactionExactReplay receipt \<Rightarrow> CompletedExactReplay receipt)"

definition acceptance_receipt ::
  "nats_externals \<Rightarrow> 'w jetstream \<Rightarrow> 'w nats_store \<Rightarrow> operation_id \<Rightarrow>
   ('w, event_store_error, transaction_receipt option) async" where
  "acceptance_receipt X J S operation =
     async_bind (load_transaction_receipt_materialized X J S operation False) (\<lambda>found.
     async_of (case found of
         None \<Rightarrow> Inr None
       | Some stored \<Rightarrow>
           if (case mr_marker stored of
                 None \<Rightarrow> False
               | Some m \<Rightarrow> dr_decision (om_reference m) = OutcomeRejected) then
             Inl (nats_identity_conflict ''operation has a completed rejection, not acceptance'')
           else map_ok Some (require_acceptance (mr_receipt stored))))"

section \<open>The event store\<close>

definition nats_append ::
  "nats_externals \<Rightarrow> 'w jetstream \<Rightarrow> 'w nats_store \<Rightarrow> stream_id \<Rightarrow> expected_version \<Rightarrow> event_batch \<Rightarrow>
   ('w, event_store_error, append_outcome) async" where
  "nats_append X J S stream expected batch =
     async_bind (require_mutable_namespace J S) (\<lambda>_.
     async_bind (load_history X J S stream) (\<lambda>history.
     append_with_history X J S stream expected batch history))"

definition nats_append_transaction ::
  "nats_externals \<Rightarrow> 'w jetstream \<Rightarrow> 'w nats_store \<Rightarrow> event_transaction \<Rightarrow>
   ('w, event_store_error, transaction_append_outcome) async" where
  "nats_append_transaction X J S transaction =
     async_bind (require_mutable_namespace J S) (\<lambda>_.
     if tx_completion transaction \<noteq> None then
       async_err (nats_invalid ''use commit_outcome for completed decisions'')
     else append_transaction_with_histories X J S transaction fmempty)"

definition nats_commit_outcome ::
  "nats_externals \<Rightarrow> 'w jetstream \<Rightarrow> 'w nats_store \<Rightarrow> event_transaction \<Rightarrow>
   ('w, event_store_error, completed_append_outcome) async" where
  "nats_commit_outcome X J S transaction =
     (if nc_split_outcomes (ns_config S) then commit_inline X J S transaction fmempty
      else
        async_bind (async_of (validate_completed_transaction transaction)) (\<lambda>_.
        async_bind (async_of (validate_completed_scope S transaction)) (\<lambda>_.
        async_bind (require_completed_outcome_writer J S) (\<lambda>_.
        async_map completed_append
          (append_transaction_with_histories X J S transaction fmempty)))))"

definition nats_load_completed_outcome_in_context ::
  "nats_externals \<Rightarrow> 'w jetstream \<Rightarrow> 'w nats_store \<Rightarrow> bounded_context_name \<Rightarrow> operation_id \<Rightarrow>
   ('w, event_store_error, transaction_receipt option) async" where
  "nats_load_completed_outcome_in_context X J S context' operation =
     (if context' \<noteq> nc_bounded_context (ns_config S) then
        async_err (nats_invalid ''completed outcome context does not match store'')
      else if nc_split_outcomes (ns_config S) then inline_lookup X J S operation
      else
        async_bind (load_transaction_receipt_inner X J S operation) (\<lambda>found.
        case found of
          Some receipt \<Rightarrow>
            if nc_completed_outcome_epoch (ns_config S) = None \<and> tr_completion receipt = None then
              async_err (nats_mismatch
                ''legacy acceptance/cache authority is unaudited; command replay blocked'')
            else async_ok (Some receipt)
        | None \<Rightarrow> async_map (\<lambda>_. None) (require_completed_outcome_writer J S)))"

definition nats_load_transaction_receipt_in_context ::
  "nats_externals \<Rightarrow> 'w jetstream \<Rightarrow> 'w nats_store \<Rightarrow> bounded_context_name \<Rightarrow> operation_id \<Rightarrow>
   ('w, event_store_error, transaction_receipt option) async" where
  "nats_load_transaction_receipt_in_context X J S context' operation =
     (if context' \<noteq> nc_bounded_context (ns_config S) then
        async_err (store_error_new InvalidRequest
          (Context_differs context' (nc_bounded_context (ns_config S))))
      else acceptance_receipt X J S operation)"

section \<open>Append sessions\<close>

record nats_session =
  nn_histories :: loaded_histories
  nn_incarnation :: string

definition open_session ::
  "'w jetstream \<Rightarrow> 'w nats_store \<Rightarrow> ('w, event_store_error, nats_session) async" where
  "open_session J S =
     async_bind (async_of (require_writable_handle S)) (\<lambda>_.
     async_bind (if nc_split_outcomes (ns_config S) then async_ok (ns_journal_incarnation S)
         else stream_incarnation J S) (\<lambda>incarnation.
     async_ok \<lparr>nn_histories = fmempty, nn_incarnation = incarnation\<rparr>))"

definition begin_command ::
  "'w jetstream \<Rightarrow> 'w nats_store \<Rightarrow> ('w, event_store_error, nats_session) async" where
  "begin_command J S =
     (if \<not> nc_split_outcomes (ns_config S) then
        async_err (nats_mismatch ''native commands require a fresh fenced split authority'')
      else
        async_bind (require_completed_outcome_writer J S) (\<lambda>_.
        async_ok \<lparr>nn_histories = fmempty, nn_incarnation = ns_journal_incarnation S\<rparr>))"

definition validate_incarnation ::
  "'w jetstream \<Rightarrow> 'w nats_store \<Rightarrow> nats_session \<Rightarrow> ('w, event_store_error, unit) async" where
  "validate_incarnation J S session =
     async_bind (stream_incarnation J S) (\<lambda>incarnation.
     async_of (ensure (incarnation = nn_incarnation session)
       (nats_mismatch ''append session belongs to an event-store stream that was recreated'')))"

text \<open>The loaded history stays in the session also when the incarnation is refused.\<close>

definition session_load ::
  "nats_externals \<Rightarrow> 'w jetstream \<Rightarrow> 'w nats_store \<Rightarrow> stream_id \<Rightarrow> nats_session \<Rightarrow> 'w \<Rightarrow>
   (event_store_error + recorded_event list) \<times> nats_session \<times> 'w" where
  "session_load X J S stream session w =
     (case load_session_history X J S stream (nn_histories session) w of
        (Inl e, w) \<Rightarrow> (Inl e, session, w)
      | (Inr (history, histories), w) \<Rightarrow>
          let session = session\<lparr>nn_histories := histories\<rparr> in
          case validate_incarnation J S session w of
            (Inl e, w) \<Rightarrow> (Inl e, session, w)
          | (Inr _, w) \<Rightarrow> (Inr (nh_events history), session, w))"

definition session_append ::
  "nats_externals \<Rightarrow> 'w jetstream \<Rightarrow> 'w nats_store \<Rightarrow> nats_session \<Rightarrow> stream_id \<Rightarrow> expected_version \<Rightarrow>
   event_batch \<Rightarrow> ('w, event_store_error, append_outcome) async" where
  "session_append X J S session stream expected batch =
     async_bind (require_mutable_namespace J S) (\<lambda>_.
     async_bind (load_session_history X J S stream (nn_histories session)) (\<lambda>(history, _).
     async_bind (validate_incarnation J S session) (\<lambda>_.
     append_with_history X J S stream expected batch history)))"

definition session_append_transaction ::
  "nats_externals \<Rightarrow> 'w jetstream \<Rightarrow> 'w nats_store \<Rightarrow> nats_session \<Rightarrow> event_transaction \<Rightarrow>
   ('w, event_store_error, transaction_append_outcome) async" where
  "session_append_transaction X J S session transaction =
     async_bind (require_mutable_namespace J S) (\<lambda>_.
     if tx_completion transaction \<noteq> None then
       async_err (nats_invalid ''use commit_outcome for completed decisions'')
     else
       async_bind (validate_incarnation J S session) (\<lambda>_.
       append_transaction_with_histories X J S transaction (nn_histories session)))"

definition nats_session_commit_outcome ::
  "nats_externals \<Rightarrow> 'w jetstream \<Rightarrow> 'w nats_store \<Rightarrow> nats_session \<Rightarrow> event_transaction \<Rightarrow>
   ('w, event_store_error, completed_append_outcome) async" where
  "nats_session_commit_outcome X J S session transaction =
     (if nc_split_outcomes (ns_config S) then
        async_bind (validate_incarnation J S session) (\<lambda>_.
        commit_inline X J S transaction (nn_histories session))
      else
        async_bind (async_of (validate_completed_transaction transaction)) (\<lambda>_.
        async_bind (async_of (validate_completed_scope S transaction)) (\<lambda>_.
        async_bind (require_completed_outcome_writer J S) (\<lambda>_.
        async_bind (validate_incarnation J S session) (\<lambda>_.
        async_map completed_append
          (append_transaction_with_histories X J S transaction (nn_histories session)))))))"

definition command_session_commit ::
  "nats_externals \<Rightarrow> 'w jetstream \<Rightarrow> 'w nats_store \<Rightarrow> nats_session \<Rightarrow> event_transaction \<Rightarrow>
   ('w, event_store_error, completed_commit) async" where
  "command_session_commit X J S session proposal =
     async_bind (validate_incarnation J S session) (\<lambda>_.
     commit_native X J S proposal (nn_histories session))"

section \<open>Expiry of details\<close>

definition lifecycle_err ::
  "('w, event_store_error, 'a) async \<Rightarrow> ('w, outcome_lifecycle_error, 'a) async" where
  "lifecycle_err m = async_map_err LifecycleStore m"

text \<open>The transition of active details to expired ones: the sequence of the state it replaced.\<close>

definition expire_active ::
  "nats_externals \<Rightarrow> 'w jetstream \<Rightarrow> 'w nats_store \<Rightarrow> outcome_marker \<Rightarrow> fingerprint \<Rightarrow> u64 \<Rightarrow> string \<Rightarrow>
   ('w, outcome_lifecycle_error, u64) async" where
  "expire_active X J S marker expected sequence encoded =
     async_bind (lifecycle_err (async_of
       (rbind (map_err (\<lambda>e. store_error_new CorruptHistory (External_text e))
         (nx_base64_decode X encoded)) (\<lambda>bs.
        rbind (details_decode (nx_core X) (om_reference marker) bs) (\<lambda>details.
        validate_recovered X marker details))))) (\<lambda>_.
     async_match (publish_state X J S marker
       (StateExpired sequence (fingerprint_to_hex expected)) sequence) (\<lambda>result.
     async_match (read_state X J S marker) (\<lambda>observed.
     lifecycle_err (async_of (case observed of
         Inr state \<Rightarrow>
           (case ob_value state of
              StateExpired previous _ \<Rightarrow>
                if (case result of Inl _ \<Rightarrow> False | Inr ack \<Rightarrow> ack \<noteq> ob_sequence state) then
                  Inl (nats_corrupt ''expiry PubAck differs from terminal sequence'')
                else Inr previous
            | StateActive _ \<Rightarrow>
                Inl (case result of
                    Inl e \<Rightarrow> e
                  | Inr _ \<Rightarrow> nats_unavailable ''expiry transition remains unconfirmed''))
       | Inl error \<Rightarrow> Inl (case result of Inl e \<Rightarrow> e | Inr _ \<Rightarrow> error))))))"

definition nats_expire_details ::
  "nats_externals \<Rightarrow> 'w jetstream \<Rightarrow> 'w nats_store \<Rightarrow> outcome_key \<Rightarrow> fingerprint \<Rightarrow>
   ('w, outcome_lifecycle_error, outcome_expiry) async" where
  "nats_expire_details X J S key expected =
     async_bind (lifecycle_err (async_of (nats_validate_key S key))) (\<lambda>_.
     if \<not> nc_split_outcomes (ns_config S) \<or> \<not> nc_explicit_detail_expiry (ns_config S)
        \<or> nc_read_only_outcomes (ns_config S) then async_err UnsupportedExpiry
     else
       async_bind (lifecycle_err (verify_authority J S)) (\<lambda>_.
       async_bind (lifecycle_err
         (load_transaction_receipt_materialized X J S (key_operation key) False)) (\<lambda>stored.
       async_bind (async_of (ok_or LifecycleMissingOutcome stored)) (\<lambda>stored.
       async_bind (async_of (ok_or UnsupportedExpiry (mr_marker stored))) (\<lambda>marker.
       if om_revision marker \<noteq> expected then async_err RevisionMismatch
       else
         async_bind (lifecycle_err (read_state X J S marker)) (\<lambda>state.
         async_bind (case ob_value state of
             StateExpired previous _ \<Rightarrow> async_ok previous
           | StateActive encoded \<Rightarrow>
               expire_active X J S marker expected (ob_sequence state) encoded) (\<lambda>previous.
         async_match (js_get_stream J (nc_outcome_state_stream_name (ns_config S))) (\<lambda>stream.
         async_match (case stream of
             Inl _ \<Rightarrow> async_ok Pending
           | Inr _ \<Rightarrow>
               async_match (js_raw_message J (nc_outcome_state_stream_name (ns_config S)) previous)
                 (\<lambda>found. async_ok (case found of
                     Inl NoMessageFound \<Rightarrow> Reclaimed | _ \<Rightarrow> Pending))) (\<lambda>reclamation.
         async_of (map_ok (\<lambda>status. \<lparr>oe_revision = expected, oe_reclamation = status\<rparr>)
           reclamation))))))))))"

section \<open>The directory of streams\<close>

record directory_entry =
  dy_builder :: history_builder
  dy_last_sequence :: u64

definition directory_push ::
  "aggregate_type \<Rightarrow> raw_message \<Rightarrow> decoded_event \<Rightarrow> (stream_id, directory_entry) fmap \<Rightarrow>
   event_store_error + (stream_id, directory_entry) fmap" where
  "directory_push aggregate_type message decoded entries =
     (let stream = re_stream_id (de_recorded decoded) in
      if stream_aggregate_type stream \<noteq> aggregate_type then Inr entries
      else
        let entry = (case fmlookup entries stream of
              None \<Rightarrow> \<lparr>dy_builder = builder_default, dy_last_sequence = 0\<rparr>
            | Some entry \<Rightarrow> entry)
        in rbind (if de_event_ordinal decoded = 0 then
               rbind (optional_single_header (rm_headers message)
                 ''Nats-Expected-Last-Subject-Sequence'') (\<lambda>expected.
               validate_aggregate_sequence_expectation expected (Some (dy_last_sequence entry)))
             else Inr ()) (\<lambda>_.
           rbind (builder_push (dy_builder entry)
             \<lparr>ds_decoded = decoded, ds_global_stream_sequence = rm_sequence message,
              ds_is_transactional = de_is_transactional decoded\<rparr>) (\<lambda>builder.
           Inr (fmupd stream
             \<lparr>dy_builder = builder, dy_last_sequence = rm_sequence message\<rparr> entries))))"

text \<open>The scan from \<open>following\<close> to the last sequence of the snapshot; every step moves past the message it
  read, so that the distance to the end bounds the number of steps.\<close>

function directory_scan ::
  "nats_externals \<Rightarrow> 'w jetstream \<Rightarrow> 'w nats_store \<Rightarrow> aggregate_type \<Rightarrow> u64 \<Rightarrow> u64 \<Rightarrow>
   (stream_id, directory_entry) fmap \<Rightarrow> 'w \<Rightarrow>
   (event_store_error + (stream_id, directory_entry) fmap) \<times> 'w" where
  "directory_scan X J S aggregate_type last_sequence following entries w =
     (case js_first_by_subject J (nc_stream_name (ns_config S))
         (aggregate_subject_filter (ns_config S)) following w of
        (Inl NoMessageFound, w) \<Rightarrow> (Inr entries, w)
      | (Inl (LookupFailed e), w) \<Rightarrow>
          (Inl (nats_unavailable_with ''failed to read event-store directory'' e), w)
      | (Inr message, w) \<Rightarrow>
          if rm_sequence message < following then
            (Inl (nats_corrupt ''event-store directory returned an invalid stream sequence''), w)
          else if last_sequence < rm_sequence message then (Inr entries, w)
          else
            case rbind (decode_consumed_event X (ns_config S) (rm_subject message)
                (rm_headers message) (rm_payload message)) (\<lambda>decoded.
              directory_push aggregate_type message decoded entries) of
              Inl e \<Rightarrow> (Inl e, w)
            | Inr entries \<Rightarrow>
                if rm_sequence message = last_sequence then (Inr entries, w)
                else
                  case checked_add (rm_sequence message) 1 of
                    None \<Rightarrow> (Inl (nats_corrupt ''JetStream sequence space overflowed''), w)
                  | Some following \<Rightarrow>
                      directory_scan X J S aggregate_type last_sequence following entries w)"
  by pat_completeness auto

termination
proof (relation "measure (\<lambda>(X, J, S, t, l, f, e, w). Suc (unat l) - unat f)", goal_cases)
  case 1
  then show ?case by simp
next
  case (2 X J S t l f e w found w1 message entries following)
  then have m: "f \<le> rm_sequence message" "rm_sequence message \<le> l"
    and next_sequence: "unat following = unat (rm_sequence message) + 1"
    using checked_add_Some_unat [of "rm_sequence message" 1 following] by auto
  then show ?case
    by (auto simp: word_le_nat_alt)
qed

fun finish_entries ::
  "(stream_id \<times> directory_entry) list \<Rightarrow> event_store_error + (stream_id \<times> nats_history) list" where
  "finish_entries [] = Inr []"
| "finish_entries ((stream, entry) # rest) =
     rbind (builder_finish (dy_builder entry) (dy_last_sequence entry)) (\<lambda>history.
     rbind (finish_entries rest) (\<lambda>histories. Inr ((stream, history) # histories)))"

fun audit_directory ::
  "nats_externals \<Rightarrow> 'w jetstream \<Rightarrow> 'w nats_store \<Rightarrow> raw_history_cache \<Rightarrow>
   (stream_id \<times> nats_history) list \<Rightarrow> ('w, event_store_error, unit) async" where
  "audit_directory X J S cache [] = async_ok ()"
| "audit_directory X J S cache ((stream, history) # rest) =
     async_bind (validate_transaction_history X J S history cache) (\<lambda>cache.
     audit_directory X J S cache rest)"

definition summarize_histories ::
  "(stream_id \<times> nats_history) list \<Rightarrow> event_store_error + stream_summary list" where
  "summarize_histories histories =
     collect_results (\<lambda>(stream, history).
       if nh_events history = [] then
         Inl (nats_corrupt ''aggregate history contains no committed events'')
       else Inr \<lparr>ss_stream_id = stream, ss_stream_version = history_version history\<rparr>) histories"

definition list_streams_inner ::
  "nats_externals \<Rightarrow> 'w jetstream \<Rightarrow> 'w nats_store \<Rightarrow> aggregate_type \<Rightarrow> bool \<Rightarrow>
   ('w, event_store_error, stream_summary list) async" where
  "list_streams_inner X J S aggregate_type audit =
     async_bind (get_event_stream J S ''failed to get event-store stream'') (\<lambda>stream.
     if sn_messages stream = 0 then async_ok []
     else if sn_first_sequence stream = 0
         \<or> sn_last_sequence stream < sn_first_sequence stream then
       async_err (nats_corrupt ''event-store stream has invalid sequence bounds'')
     else
       async_bind (directory_scan X J S aggregate_type (sn_last_sequence stream)
         (sn_first_sequence stream) fmempty) (\<lambda>entries.
       async_bind (async_of (finish_entries (sorted_list_of_fmap entries))) (\<lambda>histories.
       async_bind (if audit then
             audit_directory X J S
               \<lparr>rh_histories = fmap_of_list histories,
                rh_maximum_stream_sequence = Some (sn_last_sequence stream)\<rparr> histories
           else async_ok ()) (\<lambda>_.
       async_of (summarize_histories histories)))))"

definition nats_list_streams ::
  "nats_externals \<Rightarrow> 'w jetstream \<Rightarrow> 'w nats_store \<Rightarrow> aggregate_type \<Rightarrow>
   ('w, event_store_error, stream_summary list) async" where
  "nats_list_streams X J S aggregate_type =
     list_streams_inner X J S aggregate_type (ns_history_auditing S)"

definition nats_audit_streams ::
  "nats_externals \<Rightarrow> 'w jetstream \<Rightarrow> 'w nats_store \<Rightarrow> aggregate_type \<Rightarrow>
   ('w, event_store_error, stream_summary list) async" where
  "nats_audit_streams X J S aggregate_type = list_streams_inner X J S aggregate_type True"

end
