(* ===== verification/NatsHistory.thy ===== *)
theory NatsHistory
  imports NatsSessions History
begin

text \<open>
  What the history builder of the event store on NATS guarantees: the events it accepts are whole
  commits that also pass the history check of the executor, and a history is determined by the
  messages of its subject, so that it only grows.
\<close>

section \<open>Decoded events\<close>

definition event_sound :: "nats_externals \<Rightarrow> stream_id \<Rightarrow> decoded_stored_event \<Rightarrow> bool" where
  "event_sound X stream d \<longleftrightarrow>
     (let e = ds_decoded d; r = de_recorded e in
      re_stream_id r = stream
      \<and> re_commit_id r = derive_commit_id (nx_sha256 X) stream (re_operation_id r)
      \<and> re_event_id r = derive_event_id (nx_sha256 X) (re_commit_id r) (re_commit_event_ordinal r)
      \<and> de_commit_id e = re_commit_id r \<and> de_operation_id e = re_operation_id r
      \<and> de_operation_fingerprint e = re_operation_fingerprint r
      \<and> de_event_ordinal e = unat (re_commit_event_ordinal r)
      \<and> de_event_count e = unat (re_commit_event_count r)
      \<and> de_event_ordinal e < de_event_count e \<and> de_event_count e \<le> max_events_per_batch)"

lemma new_in_commit_ok:
  assumes "RecordedEvent_new_in_commit st v eid cid op fp i n ty sv p = Inr r"
  shows "re_stream_id r = st \<and> re_stream_version r = v \<and> re_event_id r = eid
    \<and> re_commit_id r = cid \<and> re_operation_id r = op \<and> re_operation_fingerprint r = fp
    \<and> re_commit_event_ordinal r = i \<and> re_commit_event_count r = n \<and> re_event_type r = ty
    \<and> re_schema_version r = sv \<and> re_payload r = p"
  using assms by (auto simp: RecordedEvent_new_in_commit_def result_simps split: if_splits)

lemma decode_recorded_sound:
  assumes "decode_recorded X stream event = Inr r"
  shows "re_stream_id r = stream
    \<and> re_commit_id r = derive_commit_id (nx_sha256 X) stream (re_operation_id r)
    \<and> re_event_id r = derive_event_id (nx_sha256 X) (re_commit_id r) (re_commit_event_ordinal r)
    \<and> re_commit_event_ordinal r = ec_commit_event_ordinal event
    \<and> re_commit_event_count r = ec_commit_event_count event
    \<and> re_stream_version r = ec_stream_version event"
  using assms unfolding decode_recorded_def Let_def
  by (auto simp: result_simps dest!: new_in_commit_ok split: if_splits)

lemma decode_event_inner_sound:
  assumes "decode_event_inner X config subject (Some stream) expected headers payload = Inr d"
  shows "event_sound X stream d"
    and "ds_is_transactional d = de_is_transactional (ds_decoded d)"
    and "subject = aggregate_subject (nx_sha256 X) config (stream_aggregate_type stream)
      (stream_aggregate_id stream)"
  using assms unfolding decode_event_inner_def Let_def
  by (auto simp: result_simps event_sound_def dest!: decode_recorded_sound split: if_splits)

lemma decode_event_sound:
  assumes "decode_event X config subject stream expected sequence headers payload = Inr d"
  shows "event_sound X stream d" and "ds_global_stream_sequence d = sequence"
  using assms unfolding decode_event_def
  by (auto simp: result_simps event_sound_def Let_def dest: decode_event_inner_sound(1))

section \<open>The builder and the history check\<close>

definition builder_events :: "history_builder \<Rightarrow> recorded_event list" where
  "builder_events b = nh_events (hb_history b)
     @ (case hb_pending b of None \<Rightarrow> [] | Some p \<Rightarrow> pc_events p)"

definition pending_checked ::
  "(operation_id \<rightharpoonup> commit_id \<times> fingerprint \<times> actor_ref option) \<Rightarrow> pending_commit \<Rightarrow> bool" where
  "pending_checked ops p \<longleftrightarrow>
     pc_events p \<noteq> [] \<and> length (pc_events p) < pc_event_count p
     \<and> pc_event_count p \<le> max_events_per_batch
     \<and> ops (pc_operation_id p)
         = Some (pc_commit_id p, pc_operation_fingerprint p, re_actor (hd (pc_events p)))"

definition in_step :: "history_builder \<Rightarrow> history_check \<Rightarrow> bool" where
  "in_step b h \<longleftrightarrow>
     hc_event_ids h = hb_event_ids b \<and> hc_seen_commits h = hb_commit_ids b
     \<and> dom (hc_operations h) = hb_operation_ids b
     \<and> unat (hb_current_version b) = length (builder_events b)
     \<and> (case hb_pending b of
          None \<Rightarrow> hc_current_commit h = None
        | Some p \<Rightarrow> pending_checked (hc_operations h) p
            \<and> hc_current_commit h = Some (pc_commit_id p, of_nat (length (pc_events p)),
                of_nat (pc_event_count p)))"

lemma in_step_start: "in_step builder_default history_start"
  by (simp add: in_step_def builder_default_def history_start_def builder_events_def
      history_default_def)

lemma EventBatch_new_sel:
  "EventBatch_new c op fp events = Inr b \<Longrightarrow>
     eb_events b = events \<and> eb_commit_id b = c \<and> eb_operation_id b = op
     \<and> eb_operation_fingerprint b = fp \<and> valid_batch b"
  by (simp add: EventBatch_new_ok)

text \<open>The commit a pending commit becomes.\<close>

lemma pending_finish_ok:
  assumes "pending_finish p = Inr c"
  obtains news batch first rest where "pc_events p = first # rest"
    "collect_results (\<lambda>event. map_err (corrupt_envelope ''invalid stored event envelope'')
       (NewEvent_new (re_event_id event) (re_event_type event) (re_schema_version event)
         (re_payload event))) (pc_events p) = Inr news"
    "EventBatch_new (pc_commit_id p) (pc_operation_id p) (pc_operation_fingerprint p) news
       = Inr batch"
    "c = \<lparr>sc_batch = batch\<lparr>eb_correlation_id := re_correlation_id first,
            eb_causation_id := re_causation_id first, eb_actor := re_actor first\<rparr>,
          sc_events = pc_events p, sc_global_stream_sequences = pc_global_stream_sequences p,
          sc_transaction = pc_transaction p\<rparr>"
proof -
  obtain first rest where e: "pc_events p = first # rest"
    using assms by (cases "pc_events p") (simp_all add: pending_finish_def)
  obtain n ns where n: "pc_global_stream_sequences p = n # ns"
    using assms e by (cases "pc_global_stream_sequences p")
      (auto simp: pending_finish_def Let_def result_simps)
  show ?thesis
    using assms that [OF e] unfolding pending_finish_def e n Let_def list.case
    by (auto simp: result_simps e n split: if_splits option.splits)
qed

lemma pending_finish_events:
  assumes "pending_finish p = Inr c"
  shows "sc_events c = pc_events p" and "sc_global_stream_sequences c = pc_global_stream_sequences p"
    and "sc_transaction c = pc_transaction p"
    and "eb_operation_id (sc_batch c) = pc_operation_id p"
    and "eb_commit_id (sc_batch c) = pc_commit_id p"
  by (rule pending_finish_ok [OF assms], simp add: EventBatch_new_sel)+

text \<open>What a push does to the history once the pending commit has its event.\<close>

definition add_commit :: "nats_history \<Rightarrow> stored_commit \<Rightarrow> nats_history" where
  "add_commit h c = h\<lparr>nh_events := nh_events h @ sc_events c,
     nh_global_stream_sequences := nh_global_stream_sequences h @ sc_global_stream_sequences c,
     nh_commits := nh_commits h @ [c]\<rparr>"

definition settles :: "pending_commit \<Rightarrow> history_builder \<Rightarrow> history_builder \<Rightarrow> bool" where
  "settles p b b' \<longleftrightarrow>
     (if pending_is_complete p then
        hb_pending b' = None
        \<and> (\<exists>c. pending_finish p = Inr c \<and> hb_history b' = add_commit (hb_history b) c)
      else hb_pending b' = Some p \<and> hb_history b' = hb_history b)"

definition advances :: "history_builder \<Rightarrow> decoded_stored_event \<Rightarrow> history_builder \<Rightarrow> bool" where
  "advances b d b' \<longleftrightarrow>
     version_next (hb_current_version b) = Some (hb_current_version b')
     \<and> re_stream_version (de_recorded (ds_decoded d)) = hb_current_version b'
     \<and> re_event_id (de_recorded (ds_decoded d)) \<notin> hb_event_ids b
     \<and> hb_event_ids b' = insert (re_event_id (de_recorded (ds_decoded d))) (hb_event_ids b)
     \<and> ds_global_stream_sequence d \<noteq> 0"

lemma builder_push_cases:
  assumes "builder_push b d = Inr b'"
  obtains (first) p where "de_event_ordinal (ds_decoded d) = 0" "hb_pending b = None"
      "de_operation_id (ds_decoded d) \<notin> hb_operation_ids b"
      "de_commit_id (ds_decoded d) \<notin> hb_commit_ids b"
      "pending_new (ds_decoded d) (ds_global_stream_sequence d) (ds_is_transactional d) = Inr p"
      "advances b d b'" "settles p b b'"
      "hb_operation_ids b' = insert (de_operation_id (ds_decoded d)) (hb_operation_ids b)"
      "hb_commit_ids b' = insert (de_commit_id (ds_decoded d)) (hb_commit_ids b)"
  | (later) p0 p where "de_event_ordinal (ds_decoded d) \<noteq> 0" "hb_pending b = Some p0"
      "pending_push p0 (ds_decoded d) (ds_global_stream_sequence d) (ds_is_transactional d) = Inr p"
      "advances b d b'" "settles p b b'"
      "hb_operation_ids b' = hb_operation_ids b" "hb_commit_ids b' = hb_commit_ids b"
proof -
  let ?b = "b\<lparr>hb_event_ids := insert (re_event_id (de_recorded (ds_decoded d))) (hb_event_ids b)\<rparr>"
  obtain v p b1 where v: "version_next (hb_current_version b) = Some v"
    "re_stream_version (de_recorded (ds_decoded d)) = v"
    "re_event_id (de_recorded (ds_decoded d)) \<notin> hb_event_ids b" "ds_global_stream_sequence d \<noteq> 0"
    and p: "builder_enlist ?b d = Inr (p, b1)"
    and s: "builder_settle (b1\<lparr>hb_current_version := v\<rparr>) p = Inr b'"
    using assms unfolding builder_push_def Let_def by (auto simp: result_simps split: if_splits)
  have kept: "hb_history b1 = hb_history b" "hb_event_ids b1 = hb_event_ids ?b"
    using p unfolding builder_enlist_def Let_def by (auto simp: result_simps split: if_splits)
  have ids: "hb_operation_ids b' = hb_operation_ids b1" "hb_commit_ids b' = hb_commit_ids b1"
    "hb_event_ids b' = hb_event_ids b1" "hb_current_version b' = v"
    using s unfolding builder_settle_def Let_def by (auto simp: result_simps split: if_splits)
  have settled: "settles p b b'"
    using s kept unfolding builder_settle_def settles_def add_commit_def Let_def
    by (auto simp: result_simps split: if_splits)
  have advanced: "advances b d b'"
    using v ids kept by (simp add: advances_def)
  show ?thesis
  proof (cases "de_event_ordinal (ds_decoded d) = 0")
    case True
    then show ?thesis
      using p first settled advanced ids unfolding builder_enlist_def Let_def
      by (auto simp: result_simps split: if_splits)
  next
    case False
    then show ?thesis
      using p later settled advanced ids unfolding builder_enlist_def Let_def
      by (auto simp: result_simps split: if_splits)
  qed
qed

lemma settles_events: "settles p b b' \<Longrightarrow> builder_events b' = nh_events (hb_history b) @ pc_events p"
  by (auto simp: settles_def builder_events_def add_commit_def pending_finish_events(1) split: if_splits)

lemma settles_pending:
  "settles p b b' \<Longrightarrow> hb_pending b' = (if pending_is_complete p then None else Some p)"
  by (auto simp: settles_def)

lemma pending_new_ok:
  assumes "pending_new e sequence t = Inr p"
  shows "pc_events p = [de_recorded e] \<and> pc_event_count p = de_event_count e
    \<and> pc_commit_id p = de_commit_id e \<and> pc_operation_id p = de_operation_id e
    \<and> pc_operation_fingerprint p = de_operation_fingerprint e \<and> pc_batch_id p = de_batch_id e
    \<and> pc_global_stream_sequences p = [sequence] \<and> (pc_transaction p = None \<longleftrightarrow> \<not> t)"
  using assms by (auto simp: pending_new_def result_simps split: if_splits)

lemma pending_push_ok:
  assumes "pending_push p0 e sequence t = Inr p"
  shows "pc_events p0 \<noteq> [] \<and> de_event_ordinal e = length (pc_events p0)
    \<and> de_event_count e = pc_event_count p0 \<and> de_batch_id e = pc_batch_id p0
    \<and> de_commit_id e = pc_commit_id p0 \<and> de_operation_id e = pc_operation_id p0
    \<and> de_operation_fingerprint e = pc_operation_fingerprint p0
    \<and> re_actor (de_recorded e) = re_actor (hd (pc_events p0))
    \<and> p = p0\<lparr>pc_events := pc_events p0 @ [de_recorded e],
             pc_global_stream_sequences := pc_global_stream_sequences p0 @ [sequence]\<rparr>"
proof -
  obtain x xs where "pc_events p0 = x # xs"
    using assms by (cases "pc_events p0") (simp_all add: pending_push_def)
  then show ?thesis
    using assms unfolding pending_push_def Let_def by (simp split: if_splits)
qed

lemma advances_position:
  assumes "advances b d b'" and "unat (hb_current_version b) = n"
  shows "expected_position n = Inr (re_stream_version (de_recorded (ds_decoded d)))"
    and "unat (hb_current_version b') = Suc n"
proof -
  have v: "version_next (hb_current_version b) = Some (hb_current_version b')"
    and r: "re_stream_version (de_recorded (ds_decoded d)) = hb_current_version b'"
    using assms(1) by (simp_all add: advances_def)
  show u: "unat (hb_current_version b') = Suc n"
    using version_next_unat [OF v] assms(2) by simp
  have "n + 1 < 2 ^ 64" and "hb_current_version b' = of_nat n + 1"
    using v assms(2) by (auto simp: version_next_Some)
  then show "expected_position n = Inr (re_stream_version (de_recorded (ds_decoded d)))"
    using expected_position_ok r by simp
qed

text \<open>The coordinates of a sound event, as the check computes them.\<close>

lemma sound_ordinal:
  assumes "event_sound X stream d"
  defines "r \<equiv> de_recorded (ds_decoded d)"
  shows "checked_add (re_commit_event_ordinal r) 1 = Some (of_nat (Suc (de_event_ordinal (ds_decoded d))))"
    and "re_commit_event_ordinal r = of_nat (de_event_ordinal (ds_decoded d))"
    and "re_commit_event_count r = of_nat (de_event_count (ds_decoded d))"
    and "(of_nat (Suc (de_event_ordinal (ds_decoded d))) :: u32) = of_nat (de_event_count (ds_decoded d))
      \<longleftrightarrow> Suc (de_event_ordinal (ds_decoded d)) = de_event_count (ds_decoded d)"
proof -
  let ?o = "de_event_ordinal (ds_decoded d)" and ?c = "de_event_count (ds_decoded d)"
  have o: "?o = unat (re_commit_event_ordinal r)" "?c = unat (re_commit_event_count r)" "?o < ?c"
    "?c \<le> 100"
    using assms by (auto simp: event_sound_def Let_def max_events_per_batch_def)
  show ord: "re_commit_event_ordinal r = of_nat ?o" and "re_commit_event_count r = of_nat ?c"
    using o by simp_all
  show "checked_add (re_commit_event_ordinal r) 1 = Some (of_nat (Suc ?o))"
    unfolding ord by (rule checked_add_ordinal) (use o in simp)
  show "(of_nat (Suc ?o) :: u32) = of_nat ?c \<longleftrightarrow> Suc ?o = ?c"
    by (rule of_nat_word_eq_iff) (use o in simp_all)
qed

lemma settles_current:
  assumes "event_sound X stream d" and "settles p b b'"
    and "length (pc_events p) = Suc (de_event_ordinal (ds_decoded d))"
    and "pc_event_count p = de_event_count (ds_decoded d)"
  shows "hb_pending b' = (if Suc (de_event_ordinal (ds_decoded d)) = de_event_count (ds_decoded d)
    then None else Some p)"
  using assms by (simp add: settles_pending pending_is_complete_def)

text \<open>When the check of the executor accepts a sound event.\<close>

lemma sound_event_accepted:
  assumes sound: "event_sound X stream d"
  defines "r \<equiv> de_recorded (ds_decoded d)"
    and "following \<equiv> Suc (de_event_ordinal (ds_decoded d))" and "count \<equiv> de_event_count (ds_decoded d)"
  assumes "expected_position n = Inr (re_stream_version r)" and "re_event_id r \<notin> hc_event_ids h"
    and "commit_coordinates h r = Inr (re_commit_event_ordinal r, re_commit_event_count r, seen)"
    and "hc_operations h (re_operation_id r)
      \<in> {None, Some (re_commit_id r, re_operation_fingerprint r, re_actor r)}"
  shows "validate_history_event (nx_sha256 X) stream n h r = Inr
    \<lparr>hc_event_ids = insert (re_event_id r) (hc_event_ids h), hc_seen_commits = seen,
     hc_operations = (hc_operations h)(re_operation_id r \<mapsto>
       (re_commit_id r, re_operation_fingerprint r, re_actor r)),
     hc_current_commit = (if following = count then None
       else Some (re_commit_id r, of_nat following, of_nat count))\<rparr>"
proof -
  have "re_stream_id r = stream" "re_commit_id r = derive_commit_id (nx_sha256 X) stream (re_operation_id r)"
    "re_event_id r = derive_event_id (nx_sha256 X) (re_commit_id r) (re_commit_event_ordinal r)"
    using sound by (simp_all add: event_sound_def Let_def r_def)
  moreover have "checked_add (re_commit_event_ordinal r) 1 = Some (of_nat following)"
    "re_commit_event_count r = of_nat count"
    "(of_nat following :: u32) = of_nat count \<longleftrightarrow> following = count"
    using sound_ordinal [OF sound] by (simp_all only: r_def following_def count_def)
  ultimately show ?thesis
    using assms(5-8) by (auto simp: validate_history_event_def Let_def)
qed

text \<open>An event the builder accepts passes the check of the executor: the first of a commit, the others,
  and any.\<close>

lemma push_first_in_step:
  assumes step: "in_step b h" and sound: "event_sound X stream d"
    and first: "de_event_ordinal (ds_decoded d) = 0" "hb_pending b = None"
      "de_operation_id (ds_decoded d) \<notin> hb_operation_ids b" "de_commit_id (ds_decoded d) \<notin> hb_commit_ids b"
      "pending_new (ds_decoded d) (ds_global_stream_sequence d) (ds_is_transactional d) = Inr p"
      "advances b d b'" "settles p b b'"
      "hb_operation_ids b' = insert (de_operation_id (ds_decoded d)) (hb_operation_ids b)"
      "hb_commit_ids b' = insert (de_commit_id (ds_decoded d)) (hb_commit_ids b)"
  defines "r \<equiv> de_recorded (ds_decoded d)"
  shows "\<exists>h'. validate_history_event (nx_sha256 X) stream (length (builder_events b)) h r = Inr h'
    \<and> in_step b' h' \<and> builder_events b' = builder_events b @ [r]"
proof -
  let ?c = "de_event_count (ds_decoded d)"
  let ?ident = "(re_commit_id r, re_operation_fingerprint r, re_actor r)"
  define h' where "h' = \<lparr>hc_event_ids = insert (re_event_id r) (hc_event_ids h),
    hc_seen_commits = insert (re_commit_id r) (hc_seen_commits h),
    hc_operations = (hc_operations h)(re_operation_id r \<mapsto> ?ident),
    hc_current_commit = (if Suc 0 = ?c then None else Some (re_commit_id r, of_nat (Suc 0), of_nat ?c))\<rparr>"
  have p: "pc_events p = [r]" "pc_event_count p = ?c" "pc_commit_id p = re_commit_id r"
    "pc_operation_id p = re_operation_id r" "pc_operation_fingerprint p = re_operation_fingerprint r"
    using pending_new_ok [OF first(5)] sound by (simp_all add: r_def event_sound_def Let_def)
  have n: "unat (hb_current_version b) = length (builder_events b)"
    using step by (simp add: in_step_def)
  have fresh: "re_event_id r \<notin> hc_event_ids h"
    using step first(6) by (simp add: in_step_def advances_def r_def)
  have op: "hc_operations h (re_operation_id r) = None"
    using step first(3) sound by (auto simp: in_step_def event_sound_def Let_def r_def domIff)
  have "validate_history_event (nx_sha256 X) stream (length (builder_events b)) h r = Inr h'"
  proof -
    have "commit_coordinates h r = Inr (re_commit_event_ordinal r, re_commit_event_count r,
        insert (re_commit_id r) (hc_seen_commits h))"
      using sound_ordinal(2) [OF sound] step sound first(1,2,4)
      by (simp add: commit_coordinates_def r_def in_step_def event_sound_def Let_def)
    then show ?thesis
      using sound_event_accepted [OF sound, of "length (builder_events b)" h
          "insert (re_commit_id r) (hc_seen_commits h)"]
        advances_position(1) [OF first(6) n] fresh op first(1) by (simp add: h'_def r_def)
  qed
  moreover have events: "builder_events b' = builder_events b @ [r]"
    using settles_events [OF first(7)] p(1) first(2) by (simp add: builder_events_def)
  moreover have "in_step b' h'"
    using step events p first sound settles_current [OF sound first(7)]
      advances_position(2) [OF first(6) n]
    by (auto simp: in_step_def h'_def advances_def event_sound_def Let_def r_def pending_checked_def)
  ultimately show ?thesis by blast
qed

lemma push_later_in_step:
  assumes step: "in_step b h" and sound: "event_sound X stream d"
    and later: "de_event_ordinal (ds_decoded d) \<noteq> 0" "hb_pending b = Some p0"
      "pending_push p0 (ds_decoded d) (ds_global_stream_sequence d) (ds_is_transactional d) = Inr p"
      "advances b d b'" "settles p b b'"
      "hb_operation_ids b' = hb_operation_ids b" "hb_commit_ids b' = hb_commit_ids b"
  defines "r \<equiv> de_recorded (ds_decoded d)"
  shows "\<exists>h'. validate_history_event (nx_sha256 X) stream (length (builder_events b)) h r = Inr h'
    \<and> in_step b' h' \<and> builder_events b' = builder_events b @ [r]"
proof -
  let ?o = "de_event_ordinal (ds_decoded d)" and ?c = "de_event_count (ds_decoded d)"
  define h' where "h' = h\<lparr>hc_event_ids := insert (re_event_id r) (hc_event_ids h),
    hc_current_commit := (if Suc ?o = ?c then None else Some (re_commit_id r, of_nat (Suc ?o), of_nat ?c))\<rparr>"
  have push0: "pc_events p0 \<noteq> []" "?o = length (pc_events p0)" "?c = pc_event_count p0"
    "pc_commit_id p0 = re_commit_id r" "pc_operation_id p0 = re_operation_id r"
    "pc_operation_fingerprint p0 = re_operation_fingerprint r" "re_actor (hd (pc_events p0)) = re_actor r"
    "p = p0\<lparr>pc_events := pc_events p0 @ [r],
      pc_global_stream_sequences := pc_global_stream_sequences p0 @ [ds_global_stream_sequence d]\<rparr>"
    using pending_push_ok [OF later(3)] sound by (simp_all add: r_def event_sound_def Let_def)
  have n: "unat (hb_current_version b) = length (builder_events b)"
    and checked: "pending_checked (hc_operations h) p0"
    and current: "hc_current_commit h = Some (pc_commit_id p0, of_nat ?o, of_nat ?c)"
    using step later(2) push0(2,3) by (simp_all add: in_step_def)
  have fresh: "re_event_id r \<notin> hc_event_ids h"
    using step later(4) by (simp add: in_step_def advances_def r_def)
  have op: "hc_operations h (re_operation_id r)
      = Some (re_commit_id r, re_operation_fingerprint r, re_actor r)"
    using checked push0(4-7) by (simp add: pending_checked_def)
  have "validate_history_event (nx_sha256 X) stream (length (builder_events b)) h r = Inr h'"
  proof -
    have "commit_coordinates h r
        = Inr (re_commit_event_ordinal r, re_commit_event_count r, hc_seen_commits h)"
      using sound_ordinal(2,3) [OF sound] current push0(4) by (simp add: commit_coordinates_def r_def)
    then show ?thesis
      using sound_event_accepted [OF sound, of "length (builder_events b)" h "hc_seen_commits h"]
        advances_position(1) [OF later(4) n] fresh op by (simp add: h'_def r_def fun_upd_idem)
  qed
  moreover have events: "builder_events b' = builder_events b @ [r]"
    using settles_events [OF later(5)] push0(8) later(2) by (simp add: builder_events_def)
  moreover have "in_step b' h'"
    using step events push0 later sound settles_current [OF sound later(5)] checked
      advances_position(2) [OF later(4) n]
    by (auto simp: in_step_def h'_def advances_def event_sound_def Let_def r_def pending_checked_def)
  ultimately show ?thesis by blast
qed

lemma push_in_step:
  assumes "in_step b h" and "builder_push b d = Inr b'" and "event_sound X stream d"
  shows "\<exists>h'. validate_history_event (nx_sha256 X) stream (length (builder_events b)) h
      (de_recorded (ds_decoded d)) = Inr h'
    \<and> in_step b' h' \<and> builder_events b' = builder_events b @ [de_recorded (ds_decoded d)]"
  using assms(2)
proof (cases rule: builder_push_cases)
  case (first p)
  from push_first_in_step [OF assms(1,3) this] show ?thesis .
next
  case (later p0 p)
  from push_later_in_step [OF assms(1,3) this] show ?thesis .
qed

text \<open>What a builder has taken in and the check has read so far.\<close>

definition validated_so_far :: "(bytes \<Rightarrow> bytes) \<Rightarrow> stream_id \<Rightarrow> history_builder \<Rightarrow> bool" where
  "validated_so_far sha stream b \<longleftrightarrow>
     (\<exists>h. in_step b h \<and> (\<forall>rest. validate_history_from sha stream 0 history_start (builder_events b @ rest)
        = validate_history_from sha stream (length (builder_events b)) h rest))"

lemma validated_start: "validated_so_far sha stream builder_default"
  unfolding validated_so_far_def
  by (rule exI [of _ history_start])
    (simp add: in_step_start, simp add: builder_events_def builder_default_def history_default_def)

lemma validated_push:
  assumes "validated_so_far (nx_sha256 X) stream b" and "builder_push b d = Inr b'"
    and "event_sound X stream d"
  shows "validated_so_far (nx_sha256 X) stream b'"
proof -
  obtain h where h: "in_step b h" "\<And>rest. validate_history_from (nx_sha256 X) stream 0 history_start
      (builder_events b @ rest)
    = validate_history_from (nx_sha256 X) stream (length (builder_events b)) h rest"
    using assms(1) by (auto simp: validated_so_far_def)
  then show ?thesis
    using push_in_step [OF h(1) assms(2,3)] by (auto simp: validated_so_far_def)
qed

lemma validated_finish:
  assumes "validated_so_far sha stream b" and "builder_finish b n = Inr history"
  shows "validate_history sha stream (nh_events history) = Inr ()"
  using assms
  by (auto simp: validated_so_far_def builder_finish_def in_step_def builder_events_def
      validate_history_def dest: spec [of _ "[]"] split: if_splits)

end
