(* ===== verification/NatsLog.thy ===== *)
theory NatsLog
  imports NatsHistory "HOL-Library.Sublist"
begin

text \<open>
  Histories as a function of the log of the stream. \<open>jetstream_log\<close> states what JetStream documents of
  the reads the store makes of an append-only stream: sequences increase, a lookup by subject finds the last or
  the next message of the subject, a consumer delivers the messages of its subject in order. Under it
  loading is \<open>log_history\<close> of the messages of the subject, so that histories only grow, and an append
  that is accepted directly follows the history it was decided on.
\<close>

section \<open>The history of a log\<close>

abbreviation stream_subject :: "nats_externals \<Rightarrow> nats_config \<Rightarrow> stream_id \<Rightarrow> string" where
  "stream_subject X config stream \<equiv>
     aggregate_subject (nx_sha256 X) config (stream_aggregate_type stream) (stream_aggregate_id stream)"

definition subject_messages :: "string \<Rightarrow> raw_message list \<Rightarrow> raw_message list" where
  "subject_messages subject log = filter (\<lambda>m. rm_subject m = subject) log"

definition replay_message ::
  "nats_externals \<Rightarrow> nats_config \<Rightarrow> stream_id \<Rightarrow> raw_message \<Rightarrow> history_builder \<times> u64 \<Rightarrow>
   event_store_error + history_builder \<times> u64" where
  "replay_message X config stream m s =
     rbind (decode_event X config (stream_subject X config stream) stream (Some (snd s))
       (rm_sequence m) (rm_headers m) (rm_payload m)) (\<lambda>d.
     rbind (builder_push (fst s) d) (\<lambda>b.
     Inr (b, if Suc (de_event_ordinal (ds_decoded d)) = de_event_count (ds_decoded d)
             then rm_sequence m else snd s)))"

fun replay_log ::
  "nats_externals \<Rightarrow> nats_config \<Rightarrow> stream_id \<Rightarrow> raw_message list \<Rightarrow> history_builder \<times> u64 \<Rightarrow>
   event_store_error + history_builder \<times> u64" where
  "replay_log X config stream [] s = Inr s"
| "replay_log X config stream (m # ms) s =
     rbind (replay_message X config stream m s) (replay_log X config stream ms)"

definition log_history ::
  "nats_externals \<Rightarrow> nats_config \<Rightarrow> stream_id \<Rightarrow> raw_message list \<Rightarrow> event_store_error + nats_history" where
  "log_history X config stream ms =
     (if ms = [] then Inr history_default
      else rbind (replay_log X config stream ms (builder_default, 0)) (\<lambda>s.
        builder_finish (fst s) (rm_sequence (last ms))))"

lemma rbind_assoc: "rbind (rbind m f) g = rbind m (\<lambda>x. rbind (f x) g)"
  by (cases m) simp_all

lemma replay_log_append:
  "replay_log X config stream (ms @ ns) s
     = rbind (replay_log X config stream ms s) (replay_log X config stream ns)"
  by (induction ms arbitrary: s) (auto simp: rbind_def split: sum.splits)

text \<open>Each event read is sound, and the history behind the builder only grows.\<close>

definition history_before :: "nats_history \<Rightarrow> nats_history \<Rightarrow> bool" where
  "history_before h h' \<longleftrightarrow> prefix (nh_events h) (nh_events h') \<and> prefix (nh_commits h) (nh_commits h')
     \<and> prefix (nh_global_stream_sequences h) (nh_global_stream_sequences h')"

lemma history_before_refl [simp]: "history_before h h"
  by (simp add: history_before_def)

lemma history_before_trans: "history_before h h' \<Longrightarrow> history_before h' h'' \<Longrightarrow> history_before h h''"
  by (auto simp: history_before_def intro: prefix_order.trans)

lemma settles_before: "settles p b b' \<Longrightarrow> history_before (hb_history b) (hb_history b')"
  by (auto simp: settles_def history_before_def add_commit_def split: if_splits)

lemma builder_push_before: "builder_push b d = Inr b' \<Longrightarrow> history_before (hb_history b) (hb_history b')"
  by (elim builder_push_cases) (auto dest: settles_before)

lemma replay_message_ok:
  assumes "replay_message X config stream m s = Inr s'"
  obtains d where "decode_event X config (stream_subject X config stream) stream (Some (snd s))
      (rm_sequence m) (rm_headers m) (rm_payload m) = Inr d" "event_sound X stream d"
    "builder_push (fst s) d = Inr (fst s')"
    "snd s' = (if Suc (de_event_ordinal (ds_decoded d)) = de_event_count (ds_decoded d)
             then rm_sequence m else snd s)"
  using assms that decode_event_sound(1) unfolding replay_message_def
  by (auto simp: result_simps)

lemma replay_log_before:
  "replay_log X config stream ms s = Inr s' \<Longrightarrow>
     history_before (hb_history (fst s)) (hb_history (fst s'))"
proof (induction ms arbitrary: s)
  case (Cons m ms)
  then obtain t where t: "replay_message X config stream m s = Inr t"
    "replay_log X config stream ms t = Inr s'"
    by (auto simp: result_simps)
  then show ?case
    using Cons.IH [OF t(2)]
    by (auto elim!: replay_message_ok dest!: builder_push_before intro: history_before_trans)
qed simp

lemma replay_log_validated:
  assumes "replay_log X config stream ms s = Inr s'" and "validated_so_far (nx_sha256 X) stream (fst s)"
  shows "validated_so_far (nx_sha256 X) stream (fst s')"
  using assms
proof (induction ms arbitrary: s)
  case (Cons m ms)
  then obtain t where t: "replay_message X config stream m s = Inr t"
    "replay_log X config stream ms t = Inr s'"
    by (auto simp: result_simps)
  then show ?case
    using Cons.IH [OF t(2)] Cons.prems(2) by (auto elim!: replay_message_ok dest: validated_push)
qed simp

lemma log_history_grows:
  assumes "log_history X config stream ms = Inr h" and "log_history X config stream (ms @ ns) = Inr h'"
  shows "history_before h h'"
proof (cases "ms = [] \<or> ns = []")
  case True
  then consider "h = history_default" | "h = h'"
    using assms by (cases "ms = []") (auto simp: log_history_def)
  then show ?thesis
    by cases (simp_all add: history_before_def history_default_def)
next
  case False
  with assms show ?thesis
    by (auto simp: log_history_def replay_log_append result_simps builder_finish_def history_before_def
        split: if_splits dest!: replay_log_before)
qed

section \<open>Reading\<close>

definition delivery_of :: "string \<Rightarrow> string \<Rightarrow> raw_message \<Rightarrow> replayed" where
  "delivery_of stream_name consumer m = Replayed
     \<lparr>dm_subject = rm_subject m,
      dm_headers = (if rm_headers m = fmempty then None else Some (rm_headers m)),
      dm_payload = rm_payload m,
      dm_info = Inr \<lparr>dn_stream = stream_name, dn_consumer = consumer,
                     dn_stream_sequence = rm_sequence m\<rparr>\<rparr>"

text \<open>Deliveries bring the messages in order, until a failure or until nothing comes.\<close>

fun delivers :: "string \<Rightarrow> string \<Rightarrow> raw_message list \<Rightarrow> replayed list \<Rightarrow> bool" where
  "delivers stream_name consumer (m # ms) (d # ds) \<longleftrightarrow>
     (d = delivery_of stream_name consumer m \<and> delivers stream_name consumer ms ds)
     \<or> (\<forall>x. d \<noteq> Replayed x)"
| "delivers stream_name consumer ms ds \<longleftrightarrow> True"

definition unavailable_or :: "event_store_error + 'a \<Rightarrow> event_store_error + 'a \<Rightarrow> bool" where
  "unavailable_or r s \<longleftrightarrow> r = s \<or> (\<exists>e. r = Inl e \<and> store_kind e = Unavailable)"

lemma unavailable_or_refl [simp]: "unavailable_or r r"
  by (simp add: unavailable_or_def)

lemma unavailable_or_bind: "unavailable_or r s \<Longrightarrow> unavailable_or (rbind r f) (rbind s f)"
  by (auto simp: unavailable_or_def rbind_def split: sum.splits)

lemma decode_event_coordinates:
  assumes "decode_event X config subject stream expected sequence headers payload = Inr d"
  shows "checked_add_usize (de_event_ordinal (ds_decoded d)) 1
    = Some (Suc (de_event_ordinal (ds_decoded d)))"
  using decode_event_sound(1) [OF assms]
  by (auto simp: event_sound_def Let_def max_events_per_batch_def checked_add_usize_def usize_bound_def)

lemma word_successor:
  assumes "(a :: u64) < b"
  shows "checked_add a 1 = Some (a + 1) \<and> a + 1 \<le> b"
proof -
  have "unat a < unat b" and "unat b < 2 ^ 64"
    using assms unsigned_less [of b] by (auto simp: word_less_nat_alt)
  then show ?thesis
    by (auto simp: checked_add_def word_le_nat_alt unat_word_ariths)
qed

lemma unavailable_next:
  assumes "hr_messages reader = Some ds" and "\<not> (\<exists>x ds'. ds = Replayed x # ds')"
  obtains e where "reader_next reader = Inl e" "store_kind e = Unavailable"
proof (cases ds)
  case (Cons d ds')
  then show ?thesis
    using assms that by (cases d) (auto simp: reader_next_def nats_unavailable_with_def nats_unavailable_def)
qed (use assms that in \<open>auto simp: reader_next_def nats_unavailable_def\<close>)

definition reads_from :: "'w nats_store \<Rightarrow> string \<Rightarrow> history_reader \<Rightarrow> replayed list \<Rightarrow> bool" where
  "reads_from S consumer reader ds \<longleftrightarrow>
     hr_messages reader = Some ds \<and> hr_stream_name reader = nc_stream_name (ns_config S)
     \<and> hr_consumer_name reader = Some consumer"

lemma reader_next_delivery:
  assumes "reads_from S consumer reader (delivery_of (nc_stream_name (ns_config S)) consumer m # ds)"
  obtains message info reader' where "reader_next reader = Inr (message, info, reader')"
    "reads_from S consumer reader' ds" "dn_stream_sequence info = rm_sequence m"
    "dm_subject message = rm_subject m" "dm_payload message = rm_payload m"
    "(case dm_headers message of None \<Rightarrow> fmempty | Some headers \<Rightarrow> headers) = rm_headers m"
  using assms by (intro that) (auto simp: reads_from_def reader_next_def delivery_of_def)

lemma read_history_loop_message:
  assumes "reader_next reader = Inr (message, info, reader')"
    and "dn_stream_sequence info = rm_sequence m" and "dm_subject message = rm_subject m"
    and "dm_payload message = rm_payload m"
    and "(case dm_headers message of None \<Rightarrow> fmempty | Some headers \<Rightarrow> headers) = rm_headers m"
    and "rm_subject m = store_subject X S stream" and "following \<le> rm_sequence m"
    and "rm_sequence m \<le> last_sequence"
  shows "read_history_loop X S reader stream last_sequence False (Suc n) b following c seen
    = rbind (replay_message X (ns_config S) stream m (b, c)) (\<lambda>s.
      if rm_sequence m = last_sequence then Inr (fst s, rm_sequence m)
      else rbind (ok_or (nats_corrupt ''JetStream sequence space overflowed'')
          (checked_add (rm_sequence m) 1)) (\<lambda>following.
        read_history_loop X S reader' stream last_sequence False n (fst s) following (snd s)
          (rm_sequence m)))"
proof -
  let ?decoded = "decode_event X (ns_config S) (store_subject X S stream) stream (Some c) (rm_sequence m)
    (rm_headers m) (rm_payload m)"
  have range: "following \<le> last_sequence" "\<not> last_sequence < rm_sequence m" "\<not> rm_sequence m < following"
    using assms(7,8) by auto
  show ?thesis
  proof (cases ?decoded)
    case (Inl e)
    then show ?thesis
      using assms range by (simp add: replay_message_def Let_def)
  next
    case (Inr d)
    then show ?thesis
      using assms range decode_event_coordinates [OF Inr]
      by (cases "builder_push b d") (simp_all add: replay_message_def Let_def)
  qed
qed

text \<open>The loop replays the messages up to the cutoff, the last of them.\<close>

lemma read_history_loop_replays:
  assumes "ms \<noteq> []" and "sorted_wrt (<) (map rm_sequence ms)"
    and "\<forall>m \<in> set ms. rm_subject m = store_subject X S stream"
    and "following \<le> rm_sequence (hd ms)"
    and "reads_from S consumer reader ds"
    and "delivers (nc_stream_name (ns_config S)) consumer (ms @ later) ds"
  shows "unavailable_or
    (read_history_loop X S reader stream (rm_sequence (last ms)) False (length ds) b following c seen)
    (rbind (replay_log X (ns_config S) stream ms (b, c)) (\<lambda>s. Inr (fst s, rm_sequence (last ms))))"
  using assms
proof (induction ms arbitrary: reader ds b following c seen)
  case (Cons m ms)
  let ?last = "rm_sequence (last (m # ms))"
  have le: "rm_sequence m \<le> ?last" "following \<le> ?last"
    using Cons.prems(2,4) by (cases ms; force dest: last_in_set)+
  show ?case
  proof (cases "\<exists>ds'. ds = delivery_of (nc_stream_name (ns_config S)) consumer m # ds'")
    case False
    then have none: "\<not> (\<exists>x ds'. ds = Replayed x # ds')"
      using Cons.prems(6) by (cases ds) auto
    obtain e where "reader_next reader = Inl e" "store_kind e = Unavailable"
      using unavailable_next none Cons.prems(5) unfolding reads_from_def by metis
    then show ?thesis
      using le by (cases ds) (auto simp: unavailable_or_def)
  next
    case True
    then obtain ds' where ds: "ds = delivery_of (nc_stream_name (ns_config S)) consumer m # ds'" ..
    have tail: "delivers (nc_stream_name (ns_config S)) consumer (ms @ later) ds'"
      using Cons.prems(6) by (auto simp: ds delivery_of_def)
    from reader_next_delivery [OF Cons.prems(5) [unfolded ds]] obtain message info reader' where
      got: "reader_next reader = Inr (message, info, reader')" "reads_from S consumer reader' ds'"
      "dn_stream_sequence info = rm_sequence m" "dm_subject message = rm_subject m"
      "dm_payload message = rm_payload m"
      "(case dm_headers message of None \<Rightarrow> fmempty | Some headers \<Rightarrow> headers) = rm_headers m" .
    define following' where "following' = rm_sequence m + 1"
    have more: "checked_add (rm_sequence m) 1 = Some following' \<and> following' \<le> rm_sequence (hd ms)"
      if "ms \<noteq> []"
      using that Cons.prems(2) by (cases ms) (auto simp: following'_def word_successor)
    have last_iff: "rm_sequence m = ?last \<longleftrightarrow> ms = []"
      using Cons.prems(2) by (cases ms) (auto dest: last_in_set)
    have "read_history_loop X S reader stream ?last False (length ds) b following c seen
      = rbind (replay_message X (ns_config S) stream m (b, c)) (\<lambda>s.
        if ms = [] then Inr (fst s, rm_sequence m)
        else read_history_loop X S reader' stream ?last False (length ds') (fst s) following' (snd s)
          (rm_sequence m))"
      using read_history_loop_message [OF got(1,3-6) _ _ le(1), of X S stream following "length ds'" b c seen]
        Cons.prems(3,4) more last_iff
      by (cases "ms = []") (simp_all add: ds)
    moreover have "unavailable_or
        (read_history_loop X S reader' stream ?last False (length ds') (fst s) following' (snd s)
          (rm_sequence m))
        (rbind (replay_log X (ns_config S) stream ms s) (\<lambda>s. Inr (fst s, ?last)))"
      if "ms \<noteq> []" for s
      using Cons.IH [OF that _ _ _ got(2) tail] Cons.prems(2,3) more that by (cases s) simp
    ultimately show ?thesis
      by (cases "replay_message X (ns_config S) stream m (b, c)"; cases "ms = []") simp_all
  qed
qed simp

section \<open>What JetStream promises\<close>

definition call_appends :: "('w \<Rightarrow> raw_message list) \<Rightarrow> ('w \<Rightarrow> 'a \<times> 'w) \<Rightarrow> bool" where
  "call_appends log call \<longleftrightarrow> (\<forall>w r w'. call w = (r, w') \<longrightarrow> prefix (log w) (log w'))"

text \<open>The stream \<open>name\<close> is an append-only log that \<open>log\<close> reads from the world, at the end of a call that
  reads it; what others append before the call is answered is part of the call.\<close>

definition append_only :: "'w jetstream \<Rightarrow> ('w \<Rightarrow> raw_message list) \<Rightarrow> bool" where
  "append_only J log \<longleftrightarrow>
     (\<forall>w. sorted_wrt (<) (0 # map rm_sequence (log w)))
     \<and> (\<forall>n. call_appends log (js_get_stream J n))
     \<and> (\<forall>n s. call_appends log (js_last_by_subject J n s))
     \<and> (\<forall>n s q. call_appends log (js_first_by_subject J n s q))
     \<and> (\<forall>n q. call_appends log (js_raw_message J n q))
     \<and> (\<forall>n c s. call_appends log (js_create_consumer J n c s))
     \<and> (\<forall>c n. call_appends log (js_delete_consumer J c n))
     \<and> (\<forall>s h p. call_appends log (js_send_request J s h p))
     \<and> call_appends log (js_new_inbox J)"

definition lookups_read :: "'w jetstream \<Rightarrow> string \<Rightarrow> ('w \<Rightarrow> raw_message list) \<Rightarrow> bool" where
  "lookups_read J name log \<longleftrightarrow>
     (\<forall>w info w'. js_get_stream J name w = (Inr info, w') \<longrightarrow> sp_name (sn_config info) = name)
     \<and> (\<forall>s w w'. js_last_by_subject J name s w = (Inl NoMessageFound, w') \<longrightarrow>
          subject_messages s (log w') = [])
     \<and> (\<forall>s w m w'. js_last_by_subject J name s w = (Inr m, w') \<longrightarrow>
          (\<exists>ms. subject_messages s (log w') = ms @ [m]))
     \<and> (\<forall>s q w m w'. js_first_by_subject J name s q w = (Inr m, w') \<longrightarrow>
          (\<exists>ms ns. subject_messages s (log w') = ms @ m # ns \<and> (\<forall>x \<in> set ms. rm_sequence x < q)))"

definition consumers_deliver :: "'w jetstream \<Rightarrow> string \<Rightarrow> ('w \<Rightarrow> raw_message list) \<Rightarrow> bool" where
  "consumers_deliver J name log \<longleftrightarrow>
     (\<forall>c s w k w' ds. js_create_consumer J name c s w = (Inr k, w') \<longrightarrow> rp_messages k = Inr ds \<longrightarrow>
        (\<exists>later. delivers name c (subject_messages s (log w') @ later) ds))"

definition jetstream_log :: "'w jetstream \<Rightarrow> string \<Rightarrow> ('w \<Rightarrow> raw_message list) \<Rightarrow> bool" where
  "jetstream_log J name log \<longleftrightarrow>
     append_only J log \<and> lookups_read J name log \<and> consumers_deliver J name log"

lemma last_subject_message: "subject_messages s l = ms @ [m] \<Longrightarrow> rm_subject m = s"
  using filter_set [of "\<lambda>m. rm_subject m = s" l] by (auto simp: subject_messages_def)

lemma subject_messages_prefix: "prefix l l' \<Longrightarrow> prefix (subject_messages s l) (subject_messages s l')"
  by (auto simp: prefix_def subject_messages_def)

lemma read_history_through_replays:
  assumes "ms \<noteq> []" and "sorted_wrt (<) (0 # map rm_sequence ms)"
    and "\<forall>m \<in> set ms. rm_subject m = store_subject X S stream"
    and "reads_from S consumer reader ds"
    and "delivers (nc_stream_name (ns_config S)) consumer (ms @ later) ds"
  shows "unavailable_or (read_history_through X S reader stream (rm_sequence (last ms)) False)
    (log_history X (ns_config S) stream ms)"
proof -
  have first: "1 \<le> rm_sequence (hd ms)"
    using assms(1,2) by (cases ms) (auto simp: word_le_nat_alt word_less_nat_alt)
  have sorted: "sorted_wrt (<) (map rm_sequence ms)"
    using assms(2) by simp
  have "unavailable_or
    (read_history_loop X S reader stream (rm_sequence (last ms)) False (length ds) builder_default 1 0 0)
    (rbind (replay_log X (ns_config S) stream ms (builder_default, 0))
      (\<lambda>s. Inr (fst s, rm_sequence (last ms))))"
    by (rule read_history_loop_replays [OF assms(1) sorted assms(3) first assms(4,5)])
  from unavailable_or_bind [OF this, of "\<lambda>(builder, seen). if seen \<noteq> rm_sequence (last ms)
      then Inl (nats_corrupt ''aggregate history ended before its last message'')
      else builder_finish builder seen"]
  show ?thesis
    using assms(1,4)
    by (simp add: read_history_through_def log_history_def reads_from_def rbind_assoc Let_def
        cong: if_cong)
qed

section \<open>Loading\<close>

lemma async_bind_run: "async_bind m f w = (case m w of (Inl e, w') \<Rightarrow> (Inl e, w') | (Inr a, w') \<Rightarrow> f a w')"
  by (simp add: async_bind_def)

lemmas async_run = async_bind_run async_of_def async_map_err_def async_map_def async_match_def

text \<open>A call of the store that appends nothing other clients would not, and whose answer satisfies \<open>P\<close> of
  the log at some moment between its start and its end.\<close>

definition observes ::
  "('w \<Rightarrow> raw_message list) \<Rightarrow> ('w \<Rightarrow> 'a \<times> 'w) \<Rightarrow> (raw_message list \<Rightarrow> 'a \<Rightarrow> bool) \<Rightarrow> bool" where
  "observes log call P \<longleftrightarrow>
     (\<forall>w r w'. call w = (r, w') \<longrightarrow>
        (\<exists>l. prefix (log w) l \<and> prefix l (log w') \<and> P l r))"

lemma js_appends:
  assumes "jetstream_log J name log"
  shows "js_get_stream J n w = (r1, w') \<Longrightarrow> prefix (log w) (log w')"
    and "js_last_by_subject J n s w = (r2, w') \<Longrightarrow> prefix (log w) (log w')"
    and "js_first_by_subject J n s q w = (r2, w') \<Longrightarrow> prefix (log w) (log w')"
    and "js_raw_message J n q w = (r2, w') \<Longrightarrow> prefix (log w) (log w')"
    and "js_create_consumer J n c s w = (r3, w') \<Longrightarrow> prefix (log w) (log w')"
    and "js_delete_consumer J c n w = (r4, w') \<Longrightarrow> prefix (log w) (log w')"
    and "js_send_request J s h p w = (r5, w') \<Longrightarrow> prefix (log w) (log w')"
    and "js_new_inbox J w = (r6, w') \<Longrightarrow> prefix (log w) (log w')"
  using assms by (simp_all add: jetstream_log_def append_only_def call_appends_def)

lemma js_reads:
  assumes "jetstream_log J name log"
  shows "js_get_stream J name w = (Inr info, w') \<Longrightarrow> sp_name (sn_config info) = name"
    and "js_last_by_subject J name s w = (Inl NoMessageFound, w') \<Longrightarrow> subject_messages s (log w') = []"
    and "js_last_by_subject J name s w = (Inr m, w') \<Longrightarrow> \<exists>ms. subject_messages s (log w') = ms @ [m]"
    and "js_first_by_subject J name s q w = (Inr m, w') \<Longrightarrow>
      \<exists>ms ns. subject_messages s (log w') = ms @ m # ns \<and> (\<forall>x \<in> set ms. rm_sequence x < q)"
    and "js_create_consumer J name c s w = (Inr k, w') \<Longrightarrow> rp_messages k = Inr ds \<Longrightarrow>
      \<exists>later. delivers name c (subject_messages s (log w') @ later) ds"
  using assms unfolding jetstream_log_def lookups_read_def consumers_deliver_def by meson+

lemma unavailable_kind [simp]:
  "store_kind (nats_unavailable t) = Unavailable" "store_kind (nats_unavailable_with t e) = Unavailable"
  by (simp_all add: nats_unavailable_def nats_unavailable_with_def)

lemma HistoryReader_new_reads:
  assumes J: "jetstream_log J (nc_stream_name (ns_config S)) log"
    and new: "HistoryReader_new J (nc_stream_name (ns_config S)) subject w = (r, w')"
  shows "prefix (log w) (log w')"
    and "r = Inr reader \<Longrightarrow> \<exists>consumer ds later. reads_from S consumer reader ds
      \<and> delivers (nc_stream_name (ns_config S)) consumer (subject_messages subject (log w') @ later) ds"
    and "r = Inl e \<Longrightarrow> store_kind e = Unavailable"
proof -
  let ?n = "nc_stream_name (ns_config S)"
  obtain inbox w1 where w1: "js_new_inbox J w = (inbox, w1)" by fastforce
  let ?c = "map (\<lambda>c. if c = CHR ''.'' then CHR ''_'' else c) inbox"
  obtain k w2 where w2: "js_create_consumer J ?n ?c subject w1 = (k, w2)" by fastforce
  note run = new [unfolded HistoryReader_new_def w1 prod.case Let_def async_run w2]
  have end_at: "w' = w2"
    using run by (cases k) (auto split: if_splits sum.splits)
  show "prefix (log w) (log w')"
    using js_appends(8) [OF J w1] js_appends(5) [OF J w2] end_at by (auto intro: prefix_order.trans)
  show "r = Inl e \<Longrightarrow> store_kind e = Unavailable"
    using run by (cases k; cases "rp_messages (projr k)") (auto split: if_splits)
  assume "r = Inr reader"
  then obtain c ds where k: "k = Inr c" "rp_messages c = Inr ds"
    "reader = \<lparr>hr_messages = Some ds, hr_stream_name = ?n, hr_consumer_name = Some ?c\<rparr>"
    using run by (cases k; cases "rp_messages (projr k)") (auto split: if_splits)
  then obtain later where "delivers ?n ?c (subject_messages subject (log w') @ later) ds"
    using js_reads(5) [OF J w2 [unfolded k(1)] k(2)] end_at by blast
  then show "\<exists>consumer ds later. reads_from S consumer reader ds
      \<and> delivers ?n consumer (subject_messages subject (log w') @ later) ds"
    using k(3) by (auto simp: reads_from_def)
qed

lemma reader_close_run:
  assumes J: "jetstream_log J name log" and "reader_close J reader w = (r, w')"
  shows "prefix (log w) (log w')" and "r = Inl e \<Longrightarrow> store_kind e = Unavailable"
  using assms
  by (auto simp: reader_close_def delete_consumer_def async_of_def dest: js_appends(6) [OF J]
      split: option.splits prod.splits delete_consumer_result.splits)

lemma subject_messages_sorted:
  "jetstream_log J name log \<Longrightarrow> sorted_wrt (<) (0 # map rm_sequence (subject_messages s (log w)))"
  by (auto simp: jetstream_log_def append_only_def subject_messages_def sorted_wrt_map intro: sorted_wrt_filter)

text \<open>Loading once the last message of the subject is known: the rest of \<open>load_raw_history_through\<close>.\<close>

lemma load_from_last:
  assumes J: "jetstream_log J (nc_stream_name (ns_config S)) log"
    and m: "js_last_by_subject J (nc_stream_name (ns_config S)) (store_subject X S stream) w1 = (Inr m, w2)"
    and run: "async_bind (HistoryReader_new J (nc_stream_name (ns_config S)) (store_subject X S stream))
      (\<lambda>reader. async_match (reader_close J reader) (\<lambda>cleanup. async_of
        (rbind (read_history_through X S reader stream (rm_sequence m) False)
          (\<lambda>history. rbind cleanup (\<lambda>_. Inr history))))) w2 = (r, w')"
  shows "prefix (log w2) (log w')"
    and "unavailable_or r
      (log_history X (ns_config S) stream (subject_messages (store_subject X S stream) (log w2)))"
proof -
  let ?n = "nc_stream_name (ns_config S)" and ?s = "store_subject X S stream"
  define ms where "ms = subject_messages ?s (log w2)"
  obtain front where "ms = front @ [m]"
    using js_reads(3) [OF J m] by (auto simp: ms_def)
  then have ms: "ms \<noteq> []" "last ms = m" by simp_all
  obtain k w3 where w3: "HistoryReader_new J ?n ?s w2 = (k, w3)" by fastforce
  have le3: "prefix (log w2) (log w3)"
    by (rule HistoryReader_new_reads(1) [OF J w3])
  have "prefix (log w2) (log w') \<and> unavailable_or r (log_history X (ns_config S) stream ms)"
  proof (cases k)
    case (Inl e)
    then show ?thesis
      using run w3 HistoryReader_new_reads(3) [OF J w3 Inl] le3
      by (auto simp: async_run unavailable_or_def)
  next
    case (Inr reader)
    obtain consumer ds later where reads: "reads_from S consumer reader ds"
      "delivers ?n consumer (subject_messages ?s (log w3) @ later) ds"
      using HistoryReader_new_reads(2) [OF J w3 Inr] by blast
    obtain ns where ns: "subject_messages ?s (log w3) = ms @ ns"
      using subject_messages_prefix [OF le3] by (auto simp: prefix_def ms_def)
    have sorted: "sorted_wrt (<) (0 # map rm_sequence ms)" and subjects: "\<forall>m \<in> set ms. rm_subject m = ?s"
      using subject_messages_sorted [OF J] by (simp_all only: ms_def) (simp add: subject_messages_def)
    have through: "unavailable_or (read_history_through X S reader stream (rm_sequence m) False)
        (log_history X (ns_config S) stream ms)"
      using read_history_through_replays [OF ms(1) sorted subjects reads(1)] reads(2)
      unfolding ms(2) ns append_assoc .
    obtain cleanup w4 where w4: "reader_close J reader w3 = (cleanup, w4)" by fastforce
    have "(rbind (read_history_through X S reader stream (rm_sequence m) False)
        (\<lambda>history. rbind cleanup (\<lambda>_. Inr history)), w4) = (r, w')"
      using run unfolding async_run w3 Inr prod.case sum.case w4 .
    moreover have "unavailable_or (rbind through_r (\<lambda>history. rbind cleanup (\<lambda>_. Inr history))) s"
      if "unavailable_or through_r s" for through_r s :: "event_store_error + nats_history"
      using that reader_close_run(2) [OF J w4]
      by (cases cleanup; cases through_r) (auto simp: unavailable_or_def)
    ultimately show ?thesis
      using through prefix_order.trans [OF le3 reader_close_run(1) [OF J w4]] by auto
  qed
  then show "prefix (log w2) (log w')"
    and "unavailable_or r (log_history X (ns_config S) stream (subject_messages ?s (log w2)))"
    by (simp_all add: ms_def)
qed

text \<open>The history of the log while it is loaded, or an error of the connection.\<close>

lemma load_raw_history_observes:
  assumes J: "jetstream_log J (nc_stream_name (ns_config S)) log"
  shows "observes log (load_raw_history X J S stream) (\<lambda>l r. unavailable_or r
    (log_history X (ns_config S) stream (subject_messages (store_subject X S stream) l)))"
  unfolding observes_def
proof (intro allI impI)
  fix w r w'
  let ?n = "nc_stream_name (ns_config S)" and ?s = "store_subject X S stream"
  let ?P = "\<lambda>l. unavailable_or r (log_history X (ns_config S) stream (subject_messages ?s l))"
  assume run: "load_raw_history X J S stream w = (r, w')"
  obtain i w1 where w1: "js_get_stream J ?n w = (i, w1)" by fastforce
  obtain f w2 where w2: "js_last_by_subject J ?n ?s w1 = (f, w2)" by fastforce
  note le1 = js_appends(1) [OF J w1] and le2 = js_appends(2) [OF J w2]
  note run = run [unfolded load_raw_history_def load_raw_history_through_def get_event_stream_def
      async_run Let_def w1 prod.case w2 option.case order_less_irrefl [THEN Eq_FalseI]]
  show "\<exists>l. prefix (log w) l \<and> prefix l (log w') \<and> ?P l"
  proof (cases "\<exists>info m. i = Inr info \<and> f = Inr m")
    case False
    then consider e where "i = Inl e" | info e where "i = Inr info" "f = Inl e" by (cases i; cases f) auto
    then show ?thesis
    proof cases
      case 1
      with run le1 show ?thesis
        by (intro exI [of _ "log w1"]) (auto simp: unavailable_or_def)
    next
      case 2
      have "?P (log w2)" and "w' = w2"
        using js_reads(2) [OF J, of ?s w1 w2] w2 run 2
        by (auto simp: unavailable_or_def log_history_def split: raw_lookup_error.splits)
      with le1 le2 show ?thesis
        by (intro exI [of _ "log w2"]) (auto intro: prefix_order.trans)
    qed
  next
    case True
    then obtain info m where i: "i = Inr info" "f = Inr m" by blast
    have "rm_subject m = ?s" "rm_sequence m \<noteq> 0"
      using js_reads(3) [OF J w2 [unfolded i(2)]] subject_messages_sorted [OF J, of ?s w2]
      by (auto simp: last_subject_message)
    then have "?P (log w2) \<and> prefix (log w2) (log w')"
      using run js_reads(1) [OF J w1 [unfolded i(1)]] i
      by (intro conjI load_from_last [OF J w2 [unfolded i(2)], where w' = w']) (simp_all add: async_run)
    with le1 le2 show ?thesis
      by (intro exI [of _ "log w2"]) (auto intro: prefix_order.trans)
  qed
qed

end
