(* ===== verification/NatsCalls.thy ===== *)
theory NatsCalls
  imports NatsLog
begin

text \<open>
  Every operation of the event store on NATS is a sequence of calls to the broker, so the log only
  grows along it: the rules by which that follows from its definition, and the operations it is
  used for.
\<close>

named_theorems appends_intros

section \<open>Sequencing\<close>

lemma appends_of [appends_intros]: "call_appends log (async_of r)"
  by (simp add: call_appends_def async_of_def)

lemma appends_bind [appends_intros]:
  "call_appends log m \<Longrightarrow> (\<And>a. call_appends log (f a)) \<Longrightarrow> call_appends log (async_bind m f)"
  unfolding call_appends_def async_bind_def
  by (fastforce split: prod.splits sum.splits intro: prefix_order.trans)

lemma appends_map_err [appends_intros]: "call_appends log m \<Longrightarrow> call_appends log (async_map_err f m)"
  by (auto simp: call_appends_def async_map_err_def split: prod.splits)

lemma appends_map [appends_intros]: "call_appends log m \<Longrightarrow> call_appends log (async_map f m)"
  by (auto simp: call_appends_def async_map_def split: prod.splits)

lemma appends_match [appends_intros]:
  "call_appends log m \<Longrightarrow> (\<And>r. call_appends log (f r)) \<Longrightarrow> call_appends log (async_match m f)"
  unfolding call_appends_def async_match_def
  by (fastforce split: prod.splits intro: prefix_order.trans)

lemma appends_then [appends_intros]:
  "call_appends log m \<Longrightarrow> (\<And>a. call_appends log (f a)) \<Longrightarrow>
   call_appends log (\<lambda>w. case m w of (a, w') \<Rightarrow> f a w')"
  unfolding call_appends_def by (fastforce split: prod.splits intro: prefix_order.trans)

lemma appends_pair [appends_intros]: "call_appends log (Pair r)"
  by (simp add: call_appends_def)

lemma appends_if [appends_intros]:
  "(c \<Longrightarrow> call_appends log m) \<Longrightarrow> (\<not> c \<Longrightarrow> call_appends log n) \<Longrightarrow>
   call_appends log (if c then m else n)"
  by simp

lemma appends_option [appends_intros]:
  "(x = None \<Longrightarrow> call_appends log m) \<Longrightarrow> (\<And>a. x = Some a \<Longrightarrow> call_appends log (f a)) \<Longrightarrow>
   call_appends log (case x of None \<Rightarrow> m | Some a \<Rightarrow> f a)"
  by (cases x) simp_all

lemma appends_sum [appends_intros]:
  "(\<And>a. x = Inl a \<Longrightarrow> call_appends log (f a)) \<Longrightarrow> (\<And>b. x = Inr b \<Longrightarrow> call_appends log (g b)) \<Longrightarrow>
   call_appends log (case x of Inl a \<Rightarrow> f a | Inr b \<Rightarrow> g b)"
  by (cases x) simp_all

lemma appends_prod [appends_intros]:
  "(\<And>a b. x = (a, b) \<Longrightarrow> call_appends log (f a b)) \<Longrightarrow> call_appends log (case x of (a, b) \<Rightarrow> f a b)"
  by (cases x) simp_all

lemma appends_lookup_error [appends_intros]:
  "call_appends log m \<Longrightarrow> (\<And>e. call_appends log (f e)) \<Longrightarrow>
   call_appends log (case x of NoMessageFound \<Rightarrow> m | LookupFailed e \<Rightarrow> f e)"
  by (cases x) simp_all

lemma appends_publish_error [appends_intros]:
  "call_appends log m \<Longrightarrow> (\<And>e. call_appends log (f e)) \<Longrightarrow>
   call_appends log (case x of Expectation \<Rightarrow> m | StoreFailure e \<Rightarrow> f e)"
  by (cases x) simp_all

lemma appends_let [appends_intros]: "(\<And>a. a = x \<Longrightarrow> call_appends log (f a)) \<Longrightarrow> call_appends log (let a = x in f a)"
  by simp

section \<open>Operations\<close>

lemma appends_calls [appends_intros]:
  assumes "append_only J log"
  shows "call_appends log (js_get_stream J n)"
    and "call_appends log (js_last_by_subject J n s)"
    and "call_appends log (js_first_by_subject J n s q)"
    and "call_appends log (js_raw_message J n q)"
    and "call_appends log (js_create_consumer J n c s)"
    and "call_appends log (js_delete_consumer J c n)"
    and "call_appends log (js_send_request J s h p)"
    and "call_appends log (js_new_inbox J)"
  using assms by (simp_all add: append_only_def)

lemma appends_delete_consumer [appends_intros]:
  assumes "append_only J log"
  shows "call_appends log (delete_consumer J c n)"
  unfolding call_appends_def delete_consumer_def
  using appends_calls(6) [OF assms, of c n]
  by (auto simp: call_appends_def split: prod.splits delete_consumer_result.splits)

lemma appends_get_event_stream [appends_intros]:
  assumes J: "append_only J log"
  shows "call_appends log (get_event_stream J S t)"
  unfolding get_event_stream_def by (intro appends_intros J)

lemma appends_reader_new [appends_intros]:
  assumes J: "append_only J log"
  shows "call_appends log (HistoryReader_new J n s)"
  unfolding HistoryReader_new_def Let_def by (intro appends_intros J)

lemma appends_reader_close [appends_intros]:
  assumes J: "append_only J log"
  shows "call_appends log (reader_close J reader)"
  unfolding reader_close_def by (intro appends_intros J)

lemma appends_load_raw [appends_intros]:
  assumes J: "append_only J log"
  shows "call_appends log (load_raw_history_through X J S stream limit)"
  unfolding load_raw_history_through_def Let_def by (intro appends_intros J)

lemma appends_load_cached [appends_intros]:
  assumes J: "append_only J log"
  shows "call_appends log (load_cached_raw_history X J S stream cache)"
  unfolding load_cached_raw_history_def by (intro appends_intros J)

lemma appends_read_receipt [appends_intros]:
  assumes J: "append_only J log"
  shows "call_appends log (read_transaction_receipt X J S op required layout)"
  unfolding read_transaction_receipt_def Let_def by (intro appends_intros J)

lemma appends_guard [appends_intros]:
  assumes J: "append_only J log"
  shows "call_appends log (verify_transaction_guard X J config guarded history base op batch count i start layout)"
  unfolding verify_transaction_guard_def by (intro appends_intros J)

lemma appends_participants [appends_intros]:
  assumes J: "append_only J log"
  shows "call_appends log (materialize_participants X J S layout batch start count op fp correlation
    causation actor seen i g cache ps)"
  by (induction ps arbitrary: seen i g cache) (simp_all only: materialize_participants.simps Let_def,
      (intro appends_intros J; assumption?)+)

lemma appends_materialize [appends_intros]:
  assumes J: "append_only J log"
  shows "call_appends log (materialize_transaction_receipt X J S decoded cache layout)"
  unfolding materialize_transaction_receipt_def Let_def by (intro appends_intros J)

lemma appends_receipt_from_stream [appends_intros]:
  assumes J: "append_only J log"
  shows "call_appends log (load_transaction_receipt_from_stream X J S op required cache layout)"
  unfolding load_transaction_receipt_from_stream_def by (intro appends_intros J)

lemma appends_receipt_inner [appends_intros]:
  assumes J: "append_only J log"
  shows "call_appends log (load_transaction_receipt_inner X J S op)"
  unfolding load_transaction_receipt_inner_def load_transaction_receipt_materialized_def
    load_receipt_with_raw_histories_def by (intro appends_intros J)

lemma appends_receipt_for_history [appends_intros]:
  assumes J: "append_only J log"
  shows "call_appends log (load_transaction_receipt_for_history X J S primary op)"
  unfolding load_transaction_receipt_for_history_def by (intro appends_intros J)

lemma appends_first_stream [appends_intros]:
  assumes J: "append_only J log"
  shows "call_appends log (load_transaction_first_stream X J S start provenance op)"
  unfolding load_transaction_first_stream_def by (intro appends_intros J)

lemma appends_locate [appends_intros]:
  assumes J: "append_only J log"
  shows "call_appends log (locate_transaction_receipt X J S commit provenance)"
  unfolding locate_transaction_receipt_def Let_def by (intro appends_intros J)

lemma appends_audit [appends_intros]:
  assumes J: "append_only J log"
  shows "call_appends log (audit_receipts X J S requested validated cache commits)"
  by (induction commits arbitrary: requested validated cache) (simp_all only: audit_receipts.simps Let_def,
      (intro appends_intros J; assumption?)+)

lemma appends_validate_history [appends_intros]:
  assumes J: "append_only J log"
  shows "call_appends log (validate_transaction_history X J S history cache)"
  unfolding validate_transaction_history_def by (intro appends_intros J)

lemma appends_load_history [appends_intros]:
  assumes J: "append_only J log"
  shows "call_appends log (load_history X J S stream)"
  unfolding load_history_def load_history_with_audit_def load_raw_history_def by (intro appends_intros J)

lemma appends_journal [appends_intros]:
  assumes J: "append_only J log"
  shows "call_appends log (verify_journal J S)"
  unfolding verify_journal_def by (intro appends_intros J)

lemma appends_split_state [appends_intros]:
  assumes J: "append_only J log"
  shows "call_appends log (inspect_split_state J config journal)"
  unfolding inspect_split_state_def Let_def by (intro appends_intros J)

lemma appends_authority [appends_intros]:
  assumes J: "append_only J log"
  shows "call_appends log (verify_authority J S)"
  unfolding verify_authority_def by (intro appends_intros J)

lemma appends_mutable [appends_intros]:
  assumes J: "append_only J log"
  shows "call_appends log (require_mutable_namespace J S)"
  unfolding require_mutable_namespace_def require_completed_outcome_writer_def Let_def by (intro appends_intros J)

lemma appends_publish [appends_intros]:
  assumes J: "append_only J log"
  shows "call_appends log (publish_from X J config batch correlation n i ms)"
  by (induction ms arbitrary: i) (simp_all only: publish_from.simps Let_def,
      (intro appends_intros J; assumption?)+)

lemma appends_publish_batch [appends_intros]:
  assumes J: "append_only J log"
  shows "call_appends log (publish_atomic_batch X J config s q batch correlation events)"
  unfolding publish_atomic_batch_def publish_atomic_messages_def by (intro appends_intros J)

lemma appends_batch_id [appends_intros]:
  assumes J: "append_only J log"
  shows "call_appends log (new_atomic_batch_id X J op)"
  unfolding new_atomic_batch_id_def by (intro appends_intros J)

end
