(* ===== verification/NatsExtend.thy ===== *)
theory NatsExtend
  imports NatsCalls
begin

text \<open>
  A published commit directly follows the history it was published on: the builder that verifies it is
  the one that loading would have reached, and the messages it reads are the next ones of the
  subject.
\<close>

section \<open>A builder from its history\<close>

definition with_last :: "u64 \<Rightarrow> history_builder \<Rightarrow> history_builder" where
  "with_last n b = b\<lparr>hb_history := (hb_history b)\<lparr>nh_last_subject_stream_sequence := n\<rparr>\<rparr>"

definition coherent :: "history_builder \<Rightarrow> bool" where
  "coherent b \<longleftrightarrow>
     (hb_pending b = None \<longrightarrow>
        hb_operation_ids b = (\<lambda>c. eb_operation_id (sc_batch c)) ` set (nh_commits (hb_history b))
        \<and> hb_commit_ids b = (\<lambda>c. eb_commit_id (sc_batch c)) ` set (nh_commits (hb_history b)))
     \<and> (\<forall>p. hb_pending b = Some p \<longrightarrow>
        hb_operation_ids b = insert (pc_operation_id p)
          ((\<lambda>c. eb_operation_id (sc_batch c)) ` set (nh_commits (hb_history b)))
        \<and> hb_commit_ids b = insert (pc_commit_id p)
          ((\<lambda>c. eb_commit_id (sc_batch c)) ` set (nh_commits (hb_history b))))
     \<and> hb_event_ids b = re_event_id ` set (builder_events b)
     \<and> hb_current_version b
         = (if builder_events b = [] then 0 else re_stream_version (last (builder_events b)))"

lemma coherent_default: "coherent builder_default"
  by (simp add: coherent_def builder_default_def builder_events_def history_default_def)

lemma settles_coherent:
  assumes "settles p b b'"
    and "hb_operation_ids b' = insert (pc_operation_id p)
      ((\<lambda>c. eb_operation_id (sc_batch c)) ` set (nh_commits (hb_history b)))"
    and "hb_commit_ids b' = insert (pc_commit_id p)
      ((\<lambda>c. eb_commit_id (sc_batch c)) ` set (nh_commits (hb_history b)))"
    and "hb_event_ids b' = re_event_id ` set (builder_events b')"
    and "hb_current_version b' = re_stream_version (last (builder_events b'))" and "builder_events b' \<noteq> []"
  shows "coherent b'"
  using assms unfolding settles_def coherent_def
  by (auto simp: add_commit_def pending_finish_events split: if_splits)

lemma coherent_push:
  assumes "coherent b" and "builder_push b d = Inr b'" and sound: "event_sound X stream d"
  shows "coherent b'"
  using assms(2)
proof (cases rule: builder_push_cases)
  case (first p)
  note p = pending_new_ok [OF first(5)] and e = settles_events [OF first(7)]
  show ?thesis
    by (rule settles_coherent [OF first(7)])
      (use assms(1) first(2,6,8,9) p e in \<open>simp_all add: coherent_def advances_def builder_events_def\<close>)
next
  case (later p0 p)
  note p = pending_push_ok [OF later(3)] and e = settles_events [OF later(5)]
  show ?thesis
    by (rule settles_coherent [OF later(5)])
      (use assms(1) later(2,4,6,7) p e in \<open>simp_all add: coherent_def advances_def builder_events_def\<close>)
qed

lemma coherent_replay:
  assumes "replay_log X config stream ms s = Inr s'" and "coherent (fst s)"
  shows "coherent (fst s')"
  using assms
proof (induction ms arbitrary: s)
  case (Cons m ms)
  then obtain t where t: "replay_message X config stream m s = Inr t"
    "replay_log X config stream ms t = Inr s'"
    by (auto simp: result_simps)
  then show ?case
    using Cons.IH [OF t(2)] Cons.prems(2) by (auto elim!: replay_message_ok dest: coherent_push)
qed simp

lemma coherent_finish:
  "coherent b \<Longrightarrow> builder_finish b n = Inr h \<Longrightarrow> builder_from_history h = with_last n b"
  by (cases "hb_history b"; cases b)
    (auto simp: coherent_def builder_finish_def builder_from_history_def with_last_def
      history_version_def builder_events_def split: if_splits)

lemma builder_push_with_last:
  "builder_push (with_last n b) d = rbind (builder_push b d) (\<lambda>b. Inr (with_last n b))"
proof -
  have enlist: "builder_enlist (with_last n b) d
      = rbind (builder_enlist b d) (\<lambda>(p, b). Inr (p, with_last n b))" for b
    unfolding builder_enlist_def with_last_def Let_def
    by (auto simp: rbind_def ok_or_def split: sum.splits option.splits)
  have settle: "builder_settle (with_last n b) p = rbind (builder_settle b p) (\<lambda>b. Inr (with_last n b))"
    for b p
    unfolding builder_settle_def with_last_def Let_def by (auto simp: rbind_def split: sum.splits)
  have move: "with_last n b\<lparr>hb_event_ids := e\<rparr> = with_last n (b\<lparr>hb_event_ids := e\<rparr>)"
    "with_last n b\<lparr>hb_current_version := v\<rparr> = with_last n (b\<lparr>hb_current_version := v\<rparr>)" for b e v
    by (simp_all add: with_last_def)
  have same: "hb_current_version (with_last n b) = hb_current_version b"
    "hb_event_ids (with_last n b) = hb_event_ids b" for b
    by (simp_all add: with_last_def)
  show ?thesis
    unfolding builder_push_def Let_def move same enlist
    by (auto simp: rbind_def settle move split: sum.splits)
qed

lemma replay_message_with_last:
  "replay_message X config stream m (with_last n b, q)
     = rbind (replay_message X config stream m (b, q)) (\<lambda>s. Inr (with_last n (fst s), snd s))"
  unfolding replay_message_def
  by (auto simp: rbind_def builder_push_with_last split: sum.splits)

lemma replay_log_with_last:
  "replay_log X config stream ms (with_last n (fst s), snd s)
     = rbind (replay_log X config stream ms s) (\<lambda>s. Inr (with_last n (fst s), snd s))"
  by (induction ms arbitrary: s) (auto simp: replay_message_with_last rbind_def split: sum.splits)

section \<open>Commits and sequences\<close>

definition last_sequence_of :: "raw_message list \<Rightarrow> u64" where
  "last_sequence_of ms = (if ms = [] then 0 else rm_sequence (last ms))"

lemma replay_message_commit:
  assumes "replay_message X config stream m s = Inr s'"
  shows "hb_pending (fst s') = None \<Longrightarrow> snd s' = rm_sequence m"
    and "hb_pending (fst s') \<noteq> None \<Longrightarrow> snd s' = snd s"
proof -
  obtain d where d: "event_sound X stream d" "builder_push (fst s) d = Inr (fst s')"
    "snd s' = (if Suc (de_event_ordinal (ds_decoded d)) = de_event_count (ds_decoded d)
       then rm_sequence m else snd s)"
    using replay_message_ok [OF assms] by metis
  have "hb_pending (fst s') = None \<longleftrightarrow> Suc (de_event_ordinal (ds_decoded d)) = de_event_count (ds_decoded d)"
    using d(2)
  proof (cases rule: builder_push_cases)
    case (first p)
    then show ?thesis
      using pending_new_ok [OF first(5)] settles_current [OF d(1) first(7)] by simp
  next
    case (later p0 p)
    then show ?thesis
      using pending_push_ok [OF later(3)] settles_current [OF d(1) later(5)] by simp
  qed
  with d(3) show "hb_pending (fst s') = None \<Longrightarrow> snd s' = rm_sequence m"
    and "hb_pending (fst s') \<noteq> None \<Longrightarrow> snd s' = snd s" by simp_all
qed

lemma replay_log_commit:
  assumes "replay_log X config stream ms (builder_default, 0) = Inr s'" and "hb_pending (fst s') = None"
  shows "snd s' = last_sequence_of ms"
proof (cases ms rule: rev_cases)
  case (snoc front m)
  then show ?thesis
    using assms replay_message_commit(1)
    by (auto simp: replay_log_append result_simps last_sequence_of_def)
qed (use assms in \<open>auto simp: last_sequence_of_def\<close>)

text \<open>The next message after the ones already read.\<close>

lemma next_message:
  assumes "sorted_wrt (<) (0 # map rm_sequence ms)" and "prefix pre ms"
    and "checked_add (last_sequence_of pre) 1 = Some q"
    and "ms = xs @ m # ns" and "\<forall>x \<in> set xs. rm_sequence x < q" and "q \<le> rm_sequence m"
  shows "xs = pre"
proof -
  obtain post where post: "ms = pre @ post"
    using assms(2) by (auto simp: prefix_def)
  have q: "unat q = unat (last_sequence_of pre) + 1"
    using checked_add_Some_unat [OF assms(3)] by simp
  have below: "\<forall>x \<in> set pre. rm_sequence x < q"
  proof
    fix x assume x: "x \<in> set pre"
    then obtain front l where pre: "pre = front @ [l]" by (cases pre rule: rev_cases) auto
    have "rm_sequence x \<le> rm_sequence l"
      using x assms(1) by (auto simp: post pre sorted_wrt_append)
    then show "rm_sequence x < q"
      using q by (simp add: pre last_sequence_of_def word_less_nat_alt word_le_nat_alt)
  qed
  have above: "\<forall>x \<in> set post. \<not> rm_sequence x < q"
  proof
    fix x assume "x \<in> set post"
    then have "last_sequence_of pre < rm_sequence x"
      using assms(1) by (cases pre rule: rev_cases) (auto simp: post last_sequence_of_def sorted_wrt_append)
    then show "\<not> rm_sequence x < q"
      using q by (simp add: word_less_nat_alt)
  qed
  have "takeWhile (\<lambda>x. rm_sequence x < q) ms = pre"
    using below above by (cases post) (auto simp: post takeWhile_append2)
  moreover have "takeWhile (\<lambda>x. rm_sequence x < q) ms = xs"
    using assms(5,6) by (auto simp: assms(4) takeWhile_append2)
  ultimately show ?thesis by simp
qed

section \<open>Collecting a commit\<close>

definition collecting :: "nat \<Rightarrow> nat \<Rightarrow> history_builder \<Rightarrow> history_builder \<Rightarrow> bool" where
  "collecting count n b0 b \<longleftrightarrow>
     (if n = count then b = b0 \<and> hb_pending b = None
      else if n = 0 then hb_pending b = None \<and> (\<exists>c. hb_history b = add_commit (hb_history b0) c)
      else hb_history b = hb_history b0 \<and> (\<exists>p. hb_pending b = Some p
        \<and> length (pc_events p) + n = count \<and> pc_event_count p = count))"

lemma collecting_push:
  assumes "collecting count (Suc n) b0 b" and "Suc n \<le> count" and push: "builder_push b d = Inr b'"
    and sound: "event_sound X stream d" and "de_event_count (ds_decoded d) = count"
  shows "collecting count n b0 b'"
  using push
proof (cases rule: builder_push_cases)
  case (first p)
  then have "Suc n = count" "b = b0"
    using assms(1) by (auto simp: collecting_def split: if_splits)
  then show ?thesis
    using first(7) pending_new_ok [OF first(5)] assms(5)
    by (auto simp: collecting_def settles_def pending_is_complete_def split: if_splits)
next
  case (later p0 p)
  then have "Suc n < count" "hb_history b = hb_history b0" "length (pc_events p0) + Suc n = count"
    using assms(1,2) by (auto simp: collecting_def split: if_splits)
  then show ?thesis
    using later(5) pending_push_ok [OF later(3)] assms(5)
    by (auto simp: collecting_def settles_def pending_is_complete_def split: if_splits)
qed

lemma async_bind_ok:
  "async_bind m f w = (Inr b, w') \<longleftrightarrow> (\<exists>a w1. m w = (Inr a, w1) \<and> f a w1 = (Inr b, w'))"
  by (auto simp: async_bind_def split: prod.splits sum.splits)

lemma async_of_ok: "async_of r w = (Inr b, w') \<longleftrightarrow> r = Inr b \<and> w' = w"
  by (auto simp: async_of_def)

lemma async_map_err_ok: "async_map_err f m w = (Inr b, w') \<longleftrightarrow> m w = (Inr b, w')"
  by (auto simp: async_map_err_def map_err_def split: prod.splits sum.splits)

lemma async_map_ok: "async_map f m w = (Inr b, w') \<longleftrightarrow> (\<exists>a. m w = (Inr a, w') \<and> b = f a)"
  by (auto simp: async_map_def map_ok_def split: prod.splits sum.splits)

lemma async_if_ok:
  "(if c then async_err e else m) w = (Inr b, w') \<longleftrightarrow> \<not> c \<and> m w = (Inr b, w')"
  by (auto simp: async_of_def)

lemmas async_ok_iff = async_bind_ok async_of_ok async_map_err_ok async_map_ok async_if_ok

text \<open>One round of the verification, read as a step of the replay.\<close>

lemma extend_from_step:
  assumes "extend_from X J S stream previous last_sequence batch_id count (Suc n) b sequence w = (Inr r, w')"
  obtains q m w1 d b1 where "checked_add sequence 1 = Some q"
    "js_first_by_subject J (nc_stream_name (ns_config S)) (store_subject X S stream) q w = (Inr m, w1)"
    "q \<le> rm_sequence m" "de_event_count (ds_decoded d) = count"
    "decode_event X (ns_config S) (store_subject X S stream) stream (Some previous) (rm_sequence m)
       (rm_headers m) (rm_payload m) = Inr d"
    "builder_push b d = Inr b1"
    "extend_from X J S stream previous last_sequence batch_id count n b1 (rm_sequence m) w1 = (Inr r, w')"
  using assms that unfolding extend_from.simps Let_def async_ok_iff
  by (auto simp: result_simps not_less)

text \<open>The messages read are the next of the subject, and replaying them gives the same builder.\<close>

lemma extend_from_replays:
  assumes J: "jetstream_log J (nc_stream_name (ns_config S)) log"
    and "extend_from X J S stream previous last_sequence batch_id count n b (last_sequence_of pre) w
      = (Inr (b', sequence), w')"
    and "prefix pre (subject_messages (store_subject X S stream) (log w))"
    and "collecting count n b0 b" and "n \<le> count"
  shows "\<exists>ms c. prefix (log w) (log w')
    \<and> prefix (pre @ ms) (subject_messages (store_subject X S stream) (log w'))
    \<and> length ms = n \<and> sequence = last_sequence_of (pre @ ms)
    \<and> replay_log X (ns_config S) stream ms (b, previous) = Inr (b', c) \<and> collecting count 0 b0 b'"
  using assms(2-)
proof (induction n arbitrary: pre b w)
  case 0
  then show ?case
    by (intro exI [of _ "[]"] exI [of _ previous]) (simp add: async_of_def)
next
  case (Suc n)
  let ?s = "store_subject X S stream"
  from extend_from_step [OF Suc.prems(1)] obtain q m w1 d b1 where
    q: "checked_add (last_sequence_of pre) 1 = Some q"
    and read: "js_first_by_subject J (nc_stream_name (ns_config S)) ?s q w = (Inr m, w1)"
    and m: "q \<le> rm_sequence m" "de_event_count (ds_decoded d) = count"
    and decoded: "decode_event X (ns_config S) ?s stream (Some previous) (rm_sequence m)
       (rm_headers m) (rm_payload m) = Inr d"
    and push: "builder_push b d = Inr b1"
    and rest: "extend_from X J S stream previous last_sequence batch_id count n b1 (rm_sequence m) w1
      = (Inr (b', sequence), w')" .
  have le: "prefix (log w) (log w1)"
    by (rule js_appends(3) [OF J read])
  obtain xs ns where found: "subject_messages ?s (log w1) = xs @ m # ns" "\<forall>x \<in> set xs. rm_sequence x < q"
    using js_reads(4) [OF J read] by blast
  have "prefix pre (subject_messages ?s (log w1))"
    using Suc.prems(2) subject_messages_prefix [OF le] by (rule prefix_order.trans)
  then have "xs = pre"
    using next_message [OF subject_messages_sorted [OF J] _ q found m(1)] by simp
  then have pre: "prefix (pre @ [m]) (subject_messages ?s (log w1))"
    by (simp add: found(1))
  have collected: "collecting count n b0 b1"
    by (rule collecting_push [OF Suc.prems(3,4) push decode_event_sound(1) [OF decoded] m(2)])
  define s1 where "s1 = (b1, if Suc (de_event_ordinal (ds_decoded d)) = de_event_count (ds_decoded d)
    then rm_sequence m else previous)"
  have step: "replay_message X (ns_config S) stream m (b, previous) = Inr s1"
    using decoded push by (simp add: replay_message_def s1_def)
  have "extend_from X J S stream previous last_sequence batch_id count n b1
      (last_sequence_of (pre @ [m])) w1 = (Inr (b', sequence), w')"
    using rest by (simp add: last_sequence_of_def)
  from Suc.IH [OF this pre collected] Suc.prems(4) obtain ms c where
    ms: "prefix (log w1) (log w')" "prefix ((pre @ [m]) @ ms) (subject_messages ?s (log w'))"
    "length ms = n" "sequence = last_sequence_of ((pre @ [m]) @ ms)"
    "replay_log X (ns_config S) stream ms (b1, previous) = Inr (b', c)" "collecting count 0 b0 b'"
    by auto
  have "\<exists>c. replay_log X (ns_config S) stream (m # ms) (b, previous) = Inr (b', c)"
  proof (cases "n = 0")
    case True
    then show ?thesis using step ms(3,5) by (simp add: s1_def)
  next
    case False
    then have "hb_pending b1 \<noteq> None"
      using collected Suc.prems(4) by (auto simp: collecting_def split: if_splits)
    then have "s1 = (b1, previous)"
      using replay_message_commit(2) [OF step] by (simp add: s1_def)
    then show ?thesis using step ms(5) by simp
  qed
  then show ?case
    using ms(1-4,6) le by (intro exI [of _ "m # ms"]) (auto intro: prefix_order.trans)
qed

section \<open>Published commits\<close>

lemma builder_finish_with_last: "builder_finish (with_last n b) k = builder_finish b k"
  by (simp add: builder_finish_def with_last_def)

text \<open>The builder the verification starts with, and the one loading ends with.\<close>

lemma log_history_builder:
  assumes "log_history X config stream ms = Inr h"
  obtains b where "replay_log X config stream ms (builder_default, 0) = Inr (b, last_sequence_of ms)"
    "hb_pending b = None" "builder_from_history h = with_last (last_sequence_of ms) b"
    "nh_last_subject_stream_sequence h = last_sequence_of ms"
proof (cases "ms = []")
  case True
  then show ?thesis
    using assms that [of builder_default]
    by (auto simp: log_history_def last_sequence_of_def builder_from_history_def builder_default_def
        with_last_def history_default_def history_version_def)
next
  case False
  then obtain s where s: "replay_log X config stream ms (builder_default, 0) = Inr s"
    "builder_finish (fst s) (last_sequence_of ms) = Inr h"
    using assms by (auto simp: log_history_def result_simps last_sequence_of_def)
  then have "hb_pending (fst s) = None" "nh_last_subject_stream_sequence h = last_sequence_of ms"
    by (auto simp: builder_finish_def split: if_splits)
  with s show ?thesis
    using replay_log_commit [OF s(1)] coherent_finish [OF coherent_replay [OF s(1)] s(2)]
    by (intro that [of "fst s"]) (auto simp: coherent_default prod_eq_iff)
qed

lemma extend_history_follows:
  assumes J: "jetstream_log J (nc_stream_name (ns_config S)) log"
    and run: "extend_history X J S stream previous last_sequence batch_id count w = (Inr h, w')"
    and base: "log_history X (ns_config S) stream pre = Inr previous"
    and pre: "prefix pre (subject_messages (store_subject X S stream) (log w))"
  shows "\<exists>ms c. prefix (pre @ ms) (subject_messages (store_subject X S stream) (log w'))
    \<and> log_history X (ns_config S) stream (pre @ ms) = Inr h
    \<and> nh_commits h = nh_commits previous @ [c] \<and> nh_events h = nh_events previous @ sc_events c"
proof -
  let ?s = "store_subject X S stream" and ?n = "last_sequence_of pre"
  from log_history_builder [OF base] obtain b where
    b: "replay_log X (ns_config S) stream pre (builder_default, 0) = Inr (b, ?n)"
    "builder_from_history previous = with_last ?n b" "hb_pending b = None"
    "nh_last_subject_stream_sequence previous = ?n" by metis
  obtain i w1 b' sequence where w1: "get_event_stream J S ''failed to verify published history'' w = (Inr i, w1)"
    and extend: "extend_from X J S stream ?n last_sequence batch_id count count (with_last ?n b) ?n w1
      = (Inr (b', sequence), w')"
    and count: "count \<noteq> 0" and finish: "builder_finish b' sequence = Inr h"
    using run unfolding extend_history_def b(2,4) async_ok_iff
    by (auto simp: async_ok_iff)
  have "prefix (log w) (log w1)"
    using appends_get_event_stream J w1 unfolding jetstream_log_def call_appends_def by metis
  then have "prefix pre (subject_messages ?s (log w1))"
    using pre subject_messages_prefix prefix_order.trans by metis
  moreover have "collecting count count (with_last ?n b) (with_last ?n b)"
    using b(3) by (simp add: collecting_def with_last_def)
  ultimately obtain ms c where ms: "prefix (pre @ ms) (subject_messages ?s (log w'))" "length ms = count"
    "sequence = last_sequence_of (pre @ ms)"
    "replay_log X (ns_config S) stream ms (with_last ?n b, ?n) = Inr (b', c)"
    "collecting count 0 (with_last ?n b) b'"
    using extend_from_replays [OF J extend] by blast
  obtain b1 where "replay_log X (ns_config S) stream ms (b, ?n) = Inr (b1, c)" "b' = with_last ?n b1"
    using ms(4) replay_log_with_last [of X "ns_config S" stream ms ?n "(b, ?n)"]
    by (cases "replay_log X (ns_config S) stream ms (b, ?n)") auto
  then have "log_history X (ns_config S) stream (pre @ ms) = Inr h"
    using ms(2,3) count finish b(1)
    by (auto simp: log_history_def replay_log_append last_sequence_of_def builder_finish_with_last)
  moreover obtain c where "hb_history b' = add_commit (hb_history (with_last ?n b)) c"
    using ms(5) count by (auto simp: collecting_def)
  then have "nh_commits h = nh_commits previous @ [c]" "nh_events h = nh_events previous @ sc_events c"
    using finish b(2) by (auto simp: builder_finish_def add_commit_def builder_from_history_def
        split: if_splits dest!: arg_cong [of _ _ hb_history])
  ultimately show ?thesis using ms(1) by blast
qed

lemma verify_published_follows:
  assumes "jetstream_log J (nc_stream_name (ns_config S)) log"
    and "verify_published_commit X J S stream previous sequence batch_id commit expected w = (Inr u, w')"
    and "log_history X (ns_config S) stream pre = Inr previous"
    and "prefix pre (subject_messages (store_subject X S stream) (log w))"
  shows "\<exists>ms h. prefix (pre @ ms) (subject_messages (store_subject X S stream) (log w'))
    \<and> log_history X (ns_config S) stream (pre @ ms) = Inr h \<and> nh_events h = nh_events previous @ expected"
proof -
  obtain h where h: "extend_history X J S stream previous sequence batch_id (length expected) w = (Inr h, w')"
    "nh_commits h \<noteq> []" "sc_events (last (nh_commits h)) = expected"
    using assms(2) unfolding verify_published_commit_def async_ok_iff by (auto split: if_splits)
  from extend_history_follows [OF assms(1) h(1) assms(3,4)] show ?thesis
    using h(2,3) by auto
qed

lemma async_match_ok:
  "async_match m f w = (Inr b, w') \<longleftrightarrow> (\<exists>r w1. m w = (r, w1) \<and> f r w1 = (Inr b, w'))"
  by (auto simp: async_match_def split: prod.splits)

lemma resolve_race_not_appended:
  "resolve_expectation_race X J S stream batch w \<noteq> (Inr (Appended r), w')"
  by (auto simp: resolve_expectation_race_def async_ok_iff result_simps split: if_splits option.splits)

text \<open>How an append is accepted: its calls, from the lookup of the receipt to the verification.\<close>

lemma append_with_history_appended:
  assumes J: "append_only J log"
    and run: "append_with_history X J S stream expected batch history w = (Inr (Appended r), w')"
  obtains w1 sequence batch_id events where
    "prepare_append X S stream expected batch history = Inr (r, events)"
    "verify_published_commit X J S stream history sequence batch_id (eb_commit_id batch) r w1 = (Inr (), w')"
    "prefix (log w) (log w1)"
proof -
  obtain receipt wa existing where a: "load_transaction_receipt_inner X J S (eb_operation_id batch) w
      = (Inr receipt, wa)" "resolve_existing history batch = Inr existing"
    using run unfolding append_with_history_def async_ok_iff by auto
  have none: "existing = None"
    using run a unfolding append_with_history_def async_ok_iff
    by (auto simp: async_of_ok split: option.splits)
  obtain recorded events count where p: "prepare_append X S stream expected batch history = Inr (recorded, events)"
    "u64_try_from (length recorded) = Some count"
    using run a none unfolding append_with_history_def async_ok_iff
    by (auto simp: async_ok_iff result_simps)
  obtain batch_id wb where wb: "new_atomic_batch_id X J (eb_commit_id batch) wa = (batch_id, wb)" by fastforce
  obtain published wc where wc: "publish_atomic_batch X J (ns_config S) (store_subject X S stream)
      (nh_last_subject_stream_sequence history) batch_id (eb_correlation_id batch) events wb = (published, wc)"
    by fastforce
  note calls = a none p wb wc
  show ?thesis
  proof (cases published)
    case (Inl error)
    have False
      using run unfolding append_with_history_def async_ok_iff calls Inl
      by (cases error)
        (auto simp: async_ok_iff async_match_ok calls Inl resolve_race_not_appended split: if_splits)
    then show ?thesis ..
  next
    case (Inr ack)
    have "r = recorded" "verify_published_commit X J S stream history (ack_sequence ack) batch_id
        (eb_commit_id batch) recorded wc = (Inr (), w')"
      using run unfolding append_with_history_def async_ok_iff calls Inr
      by (auto simp: async_ok_iff async_match_ok calls Inr split: if_splits)
    moreover have "prefix (log w) (log wa)" "prefix (log wa) (log wb)" "prefix (log wb) (log wc)"
      using a(1) wb wc appends_receipt_inner [OF J] appends_batch_id [OF J] appends_publish_batch [OF J]
      unfolding call_appends_def by metis+
    then have "prefix (log w) (log wc)"
      by (meson prefix_order.trans)
    ultimately show ?thesis
      using p(1) that by blast
  qed
qed

text \<open>What \<open>prepare_append\<close> checks of the version, and what it records.\<close>

lemma prepare_append_ok:
  assumes "prepare_append X S stream expected batch history = Inr (r, events)"
  shows "(expected = NoStream \<and> history_version history = 0) \<or> expected = Exact (history_version history)"
    and "nats_record_batch stream (history_version history) batch = Inr r"
  using assms unfolding prepare_append_def Let_def
  by (auto simp: result_simps split: if_splits)

lemma load_history_reads:
  assumes J: "jetstream_log J (nc_stream_name (ns_config S)) log"
    and "load_history X J S stream w = (Inr h, w')"
  shows "\<exists>l. prefix (log w) l \<and> prefix l (log w')
    \<and> log_history X (ns_config S) stream (subject_messages (store_subject X S stream) l) = Inr h"
proof -
  obtain w1 where w1: "load_raw_history X J S stream w = (Inr h, w1)"
    and rest: "prefix (log w1) (log w')"
  proof (cases "ns_history_auditing S")
    case True
    then obtain w1 cache where "load_raw_history X J S stream w = (Inr h, w1)"
      "validate_transaction_history X J S h
        \<lparr>rh_histories = fmupd stream h fmempty, rh_maximum_stream_sequence = None\<rparr> w1 = (Inr cache, w')"
      using assms(2) unfolding load_history_def load_history_with_audit_def
      by (auto simp: async_bind_ok async_of_ok)
    moreover have "append_only J log"
      using J by (simp add: jetstream_log_def)
    ultimately show ?thesis
      using that appends_validate_history unfolding call_appends_def by metis
  next
    case False
    then show ?thesis
      using assms(2) that [of w'] unfolding load_history_def load_history_with_audit_def
      by (auto simp: async_bind_ok async_of_ok)
  qed
  then show ?thesis
    using load_raw_history_observes [OF J, of X stream] unfolding observes_def unavailable_or_def
    by (metis Inl_Inr_False prefix_order.trans)
qed

lemma nats_append_follows:
  assumes J: "jetstream_log J (nc_stream_name (ns_config S)) log"
    and run: "nats_append X J S stream expected batch w = (Inr (Appended r), w')"
  obtains pre ms h0 h where "prefix (pre @ ms) (subject_messages (store_subject X S stream) (log w'))"
    "log_history X (ns_config S) stream pre = Inr h0"
    "log_history X (ns_config S) stream (pre @ ms) = Inr h" "nh_events h = nh_events h0 @ r"
    "(expected = NoStream \<and> history_version h0 = 0) \<or> expected = Exact (history_version h0)"
    "nats_record_batch stream (history_version h0) batch = Inr r"
proof -
  let ?s = "store_subject X S stream"
  have appends: "append_only J log"
    using J by (simp add: jetstream_log_def)
  obtain w1 h0 w2 where "require_mutable_namespace J S w = (Inr (), w1)"
    and load: "load_history X J S stream w1 = (Inr h0, w2)"
    and append: "append_with_history X J S stream expected batch h0 w2 = (Inr (Appended r), w')"
    using run unfolding nats_append_def async_bind_ok by auto
  obtain l where l: "prefix l (log w2)" "log_history X (ns_config S) stream (subject_messages ?s l) = Inr h0"
    using load_history_reads [OF J load] by blast
  obtain w3 sequence batch_id events where
    prepared: "prepare_append X S stream expected batch h0 = Inr (r, events)"
    and verified: "verify_published_commit X J S stream h0 sequence batch_id (eb_commit_id batch) r w3
      = (Inr (), w')" and le: "prefix (log w2) (log w3)"
    by (rule append_with_history_appended [OF appends append])
  have "prefix (subject_messages ?s l) (subject_messages ?s (log w3))"
    by (rule subject_messages_prefix [OF prefix_order.trans [OF l(1) le]])
  from verify_published_follows [OF J verified l(2) this] that [OF _ l(2)] prepare_append_ok [OF prepared]
  show ?thesis by blast
qed

section \<open>Histories that pass the check\<close>

lemma read_history_loop_validated:
  assumes "read_history_loop X S reader stream last_sequence truncated n b following c seen = Inr (b', k)"
    and "validated_so_far (nx_sha256 X) stream b"
  shows "validated_so_far (nx_sha256 X) stream b'"
  using assms
proof (induction n arbitrary: reader b following c seen)
  case 0
  then show ?case by (auto simp: result_simps split: if_splits)
next
  case (Suc n)
  then show ?case
    by (auto simp: result_simps Let_def split: if_splits dest!: decode_event_sound(1)
        dest: validated_push)
qed

lemma validate_default [simp]: "validate_history sha stream (nh_events history_default) = Inr ()"
  by (simp add: history_default_def validate_history_def history_start_def)

lemma read_history_through_validated:
  assumes "read_history_through X S reader stream last_sequence truncated = Inr h"
  shows "validate_history (nx_sha256 X) stream (nh_events h) = Inr ()"
  using assms unfolding read_history_through_def Let_def
  by (auto simp: result_simps split: if_splits
      dest!: read_history_loop_validated [OF _ validated_start] dest: validated_finish)

lemma load_history_validated:
  assumes "load_history X J S stream w = (Inr h, w')"
  shows "validate_history (nx_sha256 X) stream (nh_events h) = Inr ()"
proof -
  obtain w1 where raw: "load_raw_history X J S stream w = (Inr h, w1)"
    using assms unfolding load_history_def load_history_with_audit_def
    by (auto simp: async_bind_ok async_of_ok split: if_splits)
  obtain info w2 where info: "get_event_stream J S ''failed to get event-store stream'' w = (Inr info, w2)"
    using raw unfolding load_raw_history_def load_raw_history_through_def Let_def async_bind_ok by blast
  obtain found w3 where found: "js_last_by_subject J (nc_stream_name (ns_config S))
    (store_subject X S stream) w2 = (found, w3)" by fastforce
  note raw = raw [unfolded load_raw_history_def load_raw_history_through_def Let_def async_bind_run info
      prod.case sum.case async_match_def found option.case order_less_irrefl [THEN Eq_FalseI]]
  have "h = history_default \<or> (\<exists>reader last_sequence.
      read_history_through X S reader stream last_sequence False = Inr h)"
  proof (cases found)
    case (Inl e)
    with raw show ?thesis by (cases e) (auto simp: async_of_ok)
  next
    case (Inr m)
    with raw show ?thesis
      by (auto simp: async_of_ok result_simps split: if_splits prod.splits sum.splits)
  qed
  then show ?thesis
    using read_history_through_validated by auto
qed

end
