(* ===== verification/NatsPublished.thy ===== *)
theory NatsPublished
  imports NatsExtend
begin

text \<open>
  What an append publishes is what a load reads back: each message of the atomic batch decodes to the
  event it was made of, and the history builder accepts the batch after the history the append was
  decided on.
\<close>

section \<open>Recording\<close>

lemma nats_record_events_ok:
  assumes "nats_record_events stream batch count v i es = Inr rs"
  shows "rs = recorded stream batch count v i es"
    and "\<forall>j < length es. \<exists>r. RecordedEvent_new_in_commit stream (v + of_nat (Suc j)) (ne_event_id (es ! j))
      (eb_commit_id batch) (eb_operation_id batch) (eb_operation_fingerprint batch) (of_nat (i + j)) count
      (ne_event_type (es ! j)) (ne_schema_version (es ! j)) (ne_payload (es ! j)) = Inr r"
    and "es \<noteq> [] \<Longrightarrow> unat v + length es < 2 ^ 64"
proof -
  have "rs = recorded stream batch count v i es
    \<and> (\<forall>j < length es. \<exists>r. RecordedEvent_new_in_commit stream (v + of_nat (Suc j)) (ne_event_id (es ! j))
      (eb_commit_id batch) (eb_operation_id batch) (eb_operation_fingerprint batch) (of_nat (i + j)) count
      (ne_event_type (es ! j)) (ne_schema_version (es ! j)) (ne_payload (es ! j)) = Inr r)
    \<and> (es \<noteq> [] \<longrightarrow> unat v + length es < 2 ^ 64)"
    using assms
  proof (induction es arbitrary: v i rs)
    case (Cons e es)
    then obtain v' o32 r rest where step: "version_next v = Some v'" "u32_try_from i = Some o32"
      "RecordedEvent_new_in_commit stream v' (ne_event_id e) (eb_commit_id batch) (eb_operation_id batch)
        (eb_operation_fingerprint batch) o32 count (ne_event_type e) (ne_schema_version e) (ne_payload e) = Inr r"
      "nats_record_events stream batch count v' (Suc i) es = Inr rest"
      "rs = r\<lparr>re_correlation_id := eb_correlation_id batch, re_causation_id := eb_causation_id batch,
         re_actor := eb_actor batch\<rparr> # rest"
      by (auto simp: result_simps)
    have v': "v' = v + 1" "unat v' = unat v + 1" "unat v + 1 < 2 ^ 64" and o32: "o32 = of_nat i"
      using step(1,2) version_next_unat [OF step(1)] by (auto simp: version_next_Some u32_try_from_Some)
    have head: "r\<lparr>re_correlation_id := eb_correlation_id batch, re_causation_id := eb_causation_id batch,
        re_actor := eb_actor batch\<rparr> = RecordedEvent_from_new stream (v + 1) batch (of_nat i) count e"
      using step(3) v'(1) o32
      by (auto simp: RecordedEvent_new_in_commit_def RecordedEvent_from_new_def result_simps split: if_splits)
    note IH = Cons.IH [OF step(4)]
    have "\<exists>r. RecordedEvent_new_in_commit stream (v + of_nat (Suc j)) (ne_event_id ((e # es) ! j))
      (eb_commit_id batch) (eb_operation_id batch) (eb_operation_fingerprint batch) (of_nat (i + j)) count
      (ne_event_type ((e # es) ! j)) (ne_schema_version ((e # es) ! j)) (ne_payload ((e # es) ! j)) = Inr r"
      if "j < length (e # es)" for j
      using that IH step(3) v'(1) o32 by (cases j) (auto simp: ac_simps)
    then show ?case
      using IH head step(5) v' by (cases es) auto
  qed auto
  then show "rs = recorded stream batch count v i es"
    and "\<forall>j < length es. \<exists>r. RecordedEvent_new_in_commit stream (v + of_nat (Suc j)) (ne_event_id (es ! j))
      (eb_commit_id batch) (eb_operation_id batch) (eb_operation_fingerprint batch) (of_nat (i + j)) count
      (ne_event_type (es ! j)) (ne_schema_version (es ! j)) (ne_payload (es ! j)) = Inr r"
    and "es \<noteq> [] \<Longrightarrow> unat v + length es < 2 ^ 64" by blast+
qed

lemma recorded_nth:
  "j < length es \<Longrightarrow> recorded st b c v i es ! j
     = RecordedEvent_from_new st (v + of_nat (Suc j)) b (of_nat (i + j)) c (es ! j)"
proof (induction es arbitrary: v i j)
  case (Cons e es)
  then show ?case
    by (cases j) (auto simp: ac_simps)
qed simp

section \<open>Well-typed batches\<close>

text \<open>What the newtypes of a batch guarantee: its identities passed their constructors, and the batch
  itself was built by its own.\<close>

definition typed_stream :: "stream_id \<Rightarrow> bool" where
  "typed_stream stream \<longleftrightarrow>
     AggregateType_new (stream_aggregate_type stream) = Inr (stream_aggregate_type stream)
     \<and> AggregateId_new (stream_aggregate_id stream) = Inr (stream_aggregate_id stream)"

definition typed_batch :: "event_batch \<Rightarrow> bool" where
  "typed_batch batch \<longleftrightarrow>
     CommitId_new (eb_commit_id batch) = Inr (eb_commit_id batch)
     \<and> OperationId_new (eb_operation_id batch) = Inr (eb_operation_id batch)
     \<and> length (eb_operation_fingerprint batch) = 32
     \<and> optional_new CorrelationId_new (eb_correlation_id batch) = Inr (eb_correlation_id batch)
     \<and> optional_new CausationId_new (eb_causation_id batch) = Inr (eb_causation_id batch)
     \<and> (\<forall>e \<in> set (eb_events batch). EventId_new (ne_event_id e) = Inr (ne_event_id e))
     \<and> (\<exists>b. EventBatch_new (eb_commit_id batch) (eb_operation_id batch) (eb_operation_fingerprint batch)
          (eb_events batch) = Inr b)"

text \<open>What is written is read back by the libraries, for the payloads at hand.\<close>

definition reads_back :: "nats_externals \<Rightarrow> bytes list \<Rightarrow> recorded_event list \<Rightarrow> bool" where
  "reads_back X payloads rs \<longleftrightarrow>
     (\<forall>p \<in> set payloads. \<forall>wire. nx_event_to_vec X wire = Inr p \<longrightarrow> nx_event_from_slice X p = Inr wire)
     \<and> (\<forall>r \<in> set rs. nx_base64_decode X (nx_base64_encode X (re_payload r)) = Inr (re_payload r))"

section \<open>Headers\<close>

lemma header_get_insert [simp]:
  "header_get_all (header_insert name v headers) name'
     = (if name = name' then [v] else header_get_all headers name')"
  by (simp add: header_get_all_def header_insert_def)

lemma header_get_optional [simp]:
  "name \<noteq> name' \<Longrightarrow> header_get_all (optional_insert name v headers) name' = header_get_all headers name'"
  "header_get_all (optional_insert name (Some a) headers) name = [a]"
  "optional_insert name None headers = headers"
  by (simp_all add: optional_insert_def split: option.splits)

lemma header_get_empty [simp]: "header_get_all fmempty name = []"
  by (simp add: header_get_all_def)

definition published_message ::
  "string \<Rightarrow> u64 \<Rightarrow> nat \<Rightarrow> string \<times> bytes \<Rightarrow> atomic_publish_message" where
  "published_message subject expected i event =
     \<lparr>am_subject = subject, am_message_id = Some (fst event), am_payload = snd event,
      am_expected_last_subject_sequence = (if i = 0 then Some expected else None),
      am_expectation_subject = None\<rparr>"

lemma atomic_headers_read:
  fixes i n :: nat and config batch_id correlation
  assumes "am_expectation_subject m = None"
    and "am_expected_last_subject_sequence m = (if i = 0 then Some expected else None)"
  defines "h \<equiv> atomic_headers config batch_id correlation n i m"
  shows "required_single_header h ''Content-Type'' = Inr ''application/json''"
    and "required_single_header h ''Nats-Batch-Id'' = Inr batch_id"
    and "required_single_header h ''Nats-Batch-Sequence'' = Inr (decimal (i + 1))"
    and "optional_single_header h ''Nats-Expected-Stream''
      = Inr (if i = 0 then Some (nc_stream_name config) else None)"
    and "optional_single_header h ''Nats-Expected-Last-Subject-Sequence''
      = Inr (if i = 0 then Some (decimal (unat expected)) else None)"
    and "optional_single_header h ''Nats-Batch-Commit'' = Inr (if i + 1 = n then Some ''1'' else None)"
  using assms(1,2) unfolding h_def atomic_headers_def Let_def
  by (cases "i = 0"; cases "i + 1 = n"; simp add: optional_single_header_def required_single_header_def)+

lemma atomic_headers_validate:
  assumes m: "am_expectation_subject m = None"
    "am_expected_last_subject_sequence m = (if i = 0 then Some expected else None)"
    and "i < n" and "n \<le> 100" and "batch_id \<noteq> []" and "length batch_id \<le> 64"
    and "\<not> transactional_event_schema schema"
  shows "validate_atomic_headers (nc_stream_name config)
    (atomic_headers config batch_id correlation n i m) schema i n i (Some expected) = Inr batch_id"
proof -
  have "parse_usize (decimal (i + 1)) = Some (i + 1)" "checked_add_usize i 1 = Some (i + 1)"
    using assms(3,4) by (simp_all add: parse_usize_def checked_add_usize_def usize_bound_def)
  moreover have "validate_aggregate_sequence_expectation (Some (decimal (unat expected))) (Some expected) = Inr ()"
    by (simp add: validate_aggregate_sequence_expectation_def parse_u64_decimal ok_or_def)
  ultimately show ?thesis
    unfolding validate_atomic_headers_def atomic_headers_read [OF m]
    using assms(3-) by (cases "i = 0"; cases "i + 1 = n") (simp_all add: ok_or_def)
qed

section \<open>Events\<close>

text \<open>The content of a message for an event of an append.\<close>

definition event_content ::
  "nats_externals \<Rightarrow> nats_config \<Rightarrow> stream_id \<Rightarrow> event_batch \<Rightarrow> nat \<Rightarrow> nat \<Rightarrow> recorded_event \<Rightarrow> stored_event_content" where
  "event_content X config stream batch n i r =
     \<lparr>ec_event_store_stream = nc_stream_name config, ec_application = Some (nc_application config),
      ec_bounded_context = Some (nc_bounded_context config), ec_stream = stream_identity stream,
      ec_stream_version = re_stream_version r, ec_commit_id = eb_commit_id batch,
      ec_operation_id = eb_operation_id batch,
      ec_operation_fingerprint = fingerprint_to_hex (eb_operation_fingerprint batch),
      ec_correlation_id = eb_correlation_id batch, ec_causation_id = eb_causation_id batch,
      ec_actor = eb_actor batch, ec_commit_event_ordinal = of_nat i, ec_commit_event_count = of_nat n,
      ec_transaction_event_ordinal = None, ec_transaction_event_count = None, ec_event_id = re_event_id r,
      ec_event_type = re_event_type r, ec_event_schema_version = re_schema_version r,
      ec_payload_base64 = nx_base64_encode X (re_payload r)\<rparr>"

definition append_schema :: "event_batch \<Rightarrow> u16" where
  "append_schema batch = (if eb_actor batch = None then event_schema else actor_event_schema)"

lemma encode_event_ok:
  assumes "encode_event X config stream batch None (of_nat n) (i, r) = Inr p" and "i < 2 ^ 32"
  obtains checksum where "event_checksum X (append_schema batch) (event_content X config stream batch n i r) = Inr checksum"
    "nx_event_to_vec X \<lparr>ew_schema_version = append_schema batch, ew_checksum = checksum,
       ew_event = event_content X config stream batch n i r\<rparr> = Inr p"
  using assms that unfolding encode_event_def Let_def append_schema_def event_content_def stream_identity_def
  by (cases "eb_actor batch") (auto simp: result_simps u32_try_from_def)

lemma append_schema_checks:
  "check_event_schema (append_schema batch) (event_content X config stream batch n i r) = Inr ()"
  "\<not> transactional_event_schema (append_schema batch)" "event_schema \<le> append_schema batch"
  by (cases "eb_actor batch"; simp add: append_schema_def check_event_schema_def event_content_def
      transactional_event_schema_def event_schemas)+

text \<open>An event of an append, recorded, as its message is decoded.\<close>

definition decoded_append ::
  "string \<Rightarrow> nat \<Rightarrow> nat \<Rightarrow> u64 \<Rightarrow> recorded_event \<Rightarrow> decoded_stored_event" where
  "decoded_append batch_id n i sequence r =
     \<lparr>ds_decoded = \<lparr>de_batch_id = batch_id, de_commit_id = re_commit_id r, de_operation_id = re_operation_id r,
        de_operation_fingerprint = re_operation_fingerprint r, de_event_ordinal = i, de_event_count = n,
        de_transaction_event_ordinal = i, de_transaction_event_count = n, de_is_transactional = False,
        de_recorded = r\<rparr>,
      ds_global_stream_sequence = sequence, ds_is_transactional = False\<rparr>"

lemma decode_recorded_content:
  assumes "typed_batch batch" and "eb_events batch ! i = e" and "i < length (eb_events batch)"
    and r: "r = RecordedEvent_from_new stream v batch (of_nat i) (of_nat n) e"
    and new: "RecordedEvent_new_in_commit stream v (ne_event_id e) (eb_commit_id batch)
      (eb_operation_id batch) (eb_operation_fingerprint batch) (of_nat i) (of_nat n) (ne_event_type e)
      (ne_schema_version e) (ne_payload e) = Inr r0"
    and "eb_commit_id batch = derive_commit_id (nx_sha256 X) stream (eb_operation_id batch)"
    and "ne_event_id e = derive_event_id (nx_sha256 X) (eb_commit_id batch) (of_nat i)"
    and "nx_base64_decode X (nx_base64_encode X (re_payload r)) = Inr (re_payload r)"
  shows "decode_recorded X stream (event_content X config stream batch n i r) = Inr r"
proof -
  have "EventId_new (ne_event_id e) = Inr (ne_event_id e)"
    using assms(1-3) nth_mem by (auto simp: typed_batch_def)
  moreover have "fingerprint_from_hex (fingerprint_to_hex (eb_operation_fingerprint batch))
      = Inr (eb_operation_fingerprint batch)"
    using assms(1) by (simp add: typed_batch_def fingerprint_from_hex_def fingerprint_to_hex_def
        decode_hex_pairs_encode)
  moreover have "r0\<lparr>re_correlation_id := eb_correlation_id batch, re_causation_id := eb_causation_id batch,
      re_actor := eb_actor batch\<rparr> = r"
    using new by (auto simp: RecordedEvent_new_in_commit_def RecordedEvent_from_new_def r result_simps
        split: if_splits)
  moreover have "CommitId_new (eb_commit_id batch) = Inr (eb_commit_id batch)"
    "OperationId_new (eb_operation_id batch) = Inr (eb_operation_id batch)"
    "optional_new CorrelationId_new (eb_correlation_id batch) = Inr (eb_correlation_id batch)"
    "optional_new CausationId_new (eb_causation_id batch) = Inr (eb_causation_id batch)"
    using assms(1) by (simp_all add: typed_batch_def)
  ultimately show ?thesis
    using new assms(6-8) unfolding decode_recorded_def event_content_def Let_def
    by (simp add: r RecordedEvent_from_new_def)
qed

lemma decode_published:
  assumes enc: "encode_event X config stream batch None (of_nat n) (i, r) = Inr p"
    and stream: "typed_stream stream" and i: "i < n" "n \<le> 100"
    and size: "length p \<le> max_supported_event_bytes"
    and content: "decode_recorded X stream (event_content X config stream batch n i r) = Inr r"
    and reads: "\<forall>wire. nx_event_to_vec X wire = Inr p \<longrightarrow> nx_event_from_slice X p = Inr wire"
    and r: "re_stream_version r \<noteq> 0"
    and m: "am_expectation_subject m = None"
      "am_expected_last_subject_sequence m = (if i = 0 then Some expected else None)"
    and batch_id: "batch_id \<noteq> []" "length batch_id \<le> 64"
  shows "decode_event X config (stream_subject X config stream) stream (Some expected) sequence
    (atomic_headers config batch_id correlation n i m) p = Inr (decoded_append batch_id n i sequence r)"
proof -
  have "i < 2 ^ 32"
    using i by simp
  from encode_event_ok [OF enc this] obtain checksum where
    checksum: "event_checksum X (append_schema batch) (event_content X config stream batch n i r) = Inr checksum"
    and wire: "nx_event_from_slice X p = Inr \<lparr>ew_schema_version = append_schema batch, ew_checksum = checksum,
       ew_event = event_content X config stream batch n i r\<rparr>"
    using reads by metis
  have small: "unat (of_nat i :: u32) = i" "unat (of_nat n :: u32) = n"
    using i by (simp_all add: unat_of_nat_small)
  have "validate_atomic_headers (nc_stream_name config) (atomic_headers config batch_id correlation n i m)
      (append_schema batch) i n i (Some expected) = Inr batch_id"
    by (rule atomic_headers_validate [OF m i batch_id append_schema_checks(2)])
  then show ?thesis
    using size wire checksum stream content small i r append_schema_checks(2,3) [of batch]
      append_schema_checks(1) [of batch X config stream n i r]
    unfolding decode_event_def decode_event_inner_def Let_def
    by (cases stream)
      (simp add: event_content_def stream_identity_def typed_stream_def decode_transaction_coordinates_def
        max_events_per_batch_def decoded_append_def)
qed

section \<open>Batches\<close>

text \<open>What the builder needs of the events of a batch to take them in after what it has.\<close>

definition acceptable :: "stream_version \<Rightarrow> u64 \<Rightarrow> recorded_event list \<Rightarrow> history_builder \<Rightarrow> bool" where
  "acceptable v q rs b \<longleftrightarrow>
     hb_pending b = None \<and> hb_current_version b = v \<and> rs \<noteq> [] \<and> unat v + length rs < 2 ^ 64
     \<and> 0 < unat q \<and> unat q + length rs \<le> 2 ^ 64
     \<and> distinct (map re_event_id rs) \<and> set (map re_event_id rs) \<inter> hb_event_ids b = {}
     \<and> re_operation_id (hd rs) \<notin> hb_operation_ids b \<and> re_commit_id (hd rs) \<notin> hb_commit_ids b
     \<and> (\<forall>j < length rs. re_stream_version (rs ! j) = v + of_nat (Suc j)
          \<and> re_commit_id (rs ! j) = re_commit_id (hd rs) \<and> re_operation_id (rs ! j) = re_operation_id (hd rs)
          \<and> re_operation_fingerprint (rs ! j) = re_operation_fingerprint (hd rs)
          \<and> re_correlation_id (rs ! j) = re_correlation_id (hd rs)
          \<and> re_causation_id (rs ! j) = re_causation_id (hd rs) \<and> re_actor (rs ! j) = re_actor (hd rs))"

definition consecutive_sequences :: "u64 \<Rightarrow> nat \<Rightarrow> u64 list" where
  "consecutive_sequences q k = map (\<lambda>i. q + of_nat i) [0..<k]"

definition pending_after :: "string \<Rightarrow> u64 \<Rightarrow> recorded_event list \<Rightarrow> nat \<Rightarrow> pending_commit" where
  "pending_after batch_id q rs k =
     \<lparr>pc_batch_id = batch_id, pc_commit_id = re_commit_id (hd rs), pc_operation_id = re_operation_id (hd rs),
      pc_operation_fingerprint = re_operation_fingerprint (hd rs), pc_event_count = length rs,
      pc_events = take k rs, pc_global_stream_sequences = consecutive_sequences q k, pc_transaction = None\<rparr>"

definition builder_after ::
  "string \<Rightarrow> stream_version \<Rightarrow> u64 \<Rightarrow> recorded_event list \<Rightarrow> history_builder \<Rightarrow> nat \<Rightarrow> history_builder" where
  "builder_after batch_id v q rs b k = b\<lparr>hb_current_version := v + of_nat k,
     hb_operation_ids := insert (re_operation_id (hd rs)) (hb_operation_ids b),
     hb_commit_ids := insert (re_commit_id (hd rs)) (hb_commit_ids b),
     hb_event_ids := set (map re_event_id (take k rs)) \<union> hb_event_ids b,
     hb_pending := Some (pending_after batch_id q rs k)\<rparr>"

definition pushed :: "string \<Rightarrow> u64 \<Rightarrow> recorded_event list \<Rightarrow> nat \<Rightarrow> decoded_stored_event" where
  "pushed batch_id q rs k = decoded_append batch_id (length rs) k (q + of_nat k) (rs ! k)"

lemma version_after:
  assumes "unat v + n < 2 ^ 64" and "k < n"
  shows "version_next (v + of_nat k) = Some (v + of_nat (Suc k) :: u64)"
proof -
  have "unat (v + of_nat k) = unat v + k"
    using assms by (simp add: unat_word_ariths unat_of_nat_small)
  then show ?thesis
    using assms by (simp add: version_next_Some ac_simps)
qed

lemma sequence_after:
  assumes "unat q + n \<le> 2 ^ 64" and "0 < unat q" and "k < n"
  shows "q + of_nat k \<noteq> (0 :: u64)" and "unat (q + of_nat k :: u64) = unat q + k"
proof -
  have "unat (of_nat k :: u64) = k"
    using assms by (intro unat_of_nat_small) simp
  then show "unat (q + of_nat k :: u64) = unat q + k"
    using assms by (simp add: unat_word_ariths)
  with assms(2) show "q + of_nat k \<noteq> 0"
    by (metis add_is_0 less_numeral_extra(3) unsigned_0)
qed

text \<open>The commit the builder makes of the events.\<close>

lemma pending_finish_after:
  assumes "rs \<noteq> []" and "unat q + length rs \<le> 2 ^ 64" and "length rs \<le> 100"
    and "collect_results (\<lambda>event. NewEvent_new (re_event_id event) (re_event_type event)
      (re_schema_version event) (re_payload event)) rs = Inr news"
    and "EventBatch_new (re_commit_id (hd rs)) (re_operation_id (hd rs)) (re_operation_fingerprint (hd rs)) news
      = Inr batch"
  shows "\<exists>c. pending_finish (pending_after batch_id q rs (length rs)) = Inr c \<and> sc_events c = rs"
proof -
  obtain r rest where rs: "rs = r # rest"
    using assms(1) by (cases rs) auto
  have "collect_results (\<lambda>event. map_err (corrupt_envelope ''invalid stored event envelope'')
      (NewEvent_new (re_event_id event) (re_event_type event) (re_schema_version event) (re_payload event))) rs
    = Inr news"
    using assms(4) by (simp add: collect_results_Inr_iff result_simps)
  moreover have "list_all (\<lambda>(index, sequence). sequence_at q index = Some sequence)
      (enumerate 0 (consecutive_sequences q (length rs)))"
    using assms(2,3)
    by (auto simp: list_all_iff in_set_enumerate_eq consecutive_sequences_def sequence_at_def u64_try_from_def
        checked_add_def unat_of_nat_small)
  moreover have "consecutive_sequences q (length rs) = q # map (\<lambda>i. q + of_nat i) [1..<length rs]"
    using assms(1) by (simp add: consecutive_sequences_def upt_rec [of 0])
  moreover have "pc_events (pending_after batch_id q rs (length rs)) = r # rest"
    by (simp add: pending_after_def rs)
  ultimately show ?thesis
    using assms(5) rs by (auto simp: pending_finish_def pending_after_def)
qed

text \<open>The builder before the event at \<open>k\<close>, and what a push of it does.\<close>

definition builder_before ::
  "string \<Rightarrow> stream_version \<Rightarrow> u64 \<Rightarrow> recorded_event list \<Rightarrow> history_builder \<Rightarrow> nat \<Rightarrow> history_builder" where
  "builder_before batch_id v q rs b k = (if k = 0 then b else builder_after batch_id v q rs b k)"

lemma enlist_after:
  assumes ok: "acceptable v q rs b" and k: "k < length rs"
  defines "event_ids \<equiv> set (map re_event_id (take (Suc k) rs)) \<union> hb_event_ids b"
  shows "builder_enlist (builder_before batch_id v q rs b k\<lparr>hb_event_ids := event_ids\<rparr>) (pushed batch_id q rs k)
    = Inr (pending_after batch_id q rs (Suc k), builder_after batch_id v q rs b (Suc k)
        \<lparr>hb_current_version := v + of_nat k, hb_pending := hb_pending (builder_before batch_id v q rs b k)\<rparr>)"
proof (cases "k = 0")
  case True
  obtain r rest where rs: "rs = r # rest"
    using k by (cases rs) auto
  have "builder_enlist (b\<lparr>hb_event_ids := event_ids\<rparr>) (pushed batch_id q rs 0)
    = Inr (pending_after batch_id q rs 1, builder_after batch_id v q rs b 1
        \<lparr>hb_current_version := v, hb_pending := None\<rparr>)"
    using ok True unfolding builder_enlist_def Let_def
    by (simp add: acceptable_def rs pushed_def decoded_append_def pending_new_def pending_after_def
        builder_after_def consecutive_sequences_def event_ids_def)
  with True ok show ?thesis
    by (simp add: builder_before_def acceptable_def)
next
  case False
  then obtain xs where front: "take k rs = hd rs # xs"
    using k by (cases rs; cases k) auto
  have "length (take k rs) = k" and taken: "take (Suc k) rs = take k rs @ [rs ! k]"
    "consecutive_sequences q (Suc k) = consecutive_sequences q k @ [q + of_nat k]"
    using k by (simp_all add: take_Suc_conv_app_nth consecutive_sequences_def)
  moreover have "re_commit_id (rs ! k) = re_commit_id (hd rs)" "re_operation_id (rs ! k) = re_operation_id (hd rs)"
    "re_operation_fingerprint (rs ! k) = re_operation_fingerprint (hd rs)"
    "re_correlation_id (rs ! k) = re_correlation_id (hd rs)" "re_causation_id (rs ! k) = re_causation_id (hd rs)"
    "re_actor (rs ! k) = re_actor (hd rs)"
    using ok k by (simp_all add: acceptable_def)
  ultimately have "pending_push (pending_after batch_id q rs k) (ds_decoded (pushed batch_id q rs k))
      (q + of_nat k) False = Inr (pending_after batch_id q rs (Suc k))"
    unfolding pending_push_def
    by (simp add: pending_after_def pushed_def decoded_append_def front)
  with False show ?thesis
    unfolding builder_enlist_def Let_def
    by (simp add: builder_before_def builder_after_def event_ids_def pushed_def decoded_append_def)
qed

lemma push_after:
  assumes ok: "acceptable v q rs b" and k: "k < length rs"
  shows "builder_push (builder_before batch_id v q rs b k) (pushed batch_id q rs k)
    = builder_settle (builder_after batch_id v q rs b (Suc k)
        \<lparr>hb_pending := hb_pending (builder_before batch_id v q rs b k)\<rparr>) (pending_after batch_id q rs (Suc k))"
proof -
  let ?b = "builder_before batch_id v q rs b k"
  have "re_event_id (rs ! k) \<notin> set (map re_event_id (take k rs))"
    using ok k by (auto simp: acceptable_def distinct_conv_nth in_set_conv_nth)
  moreover have "re_event_id (rs ! k) \<notin> hb_event_ids b"
    using ok nth_mem [OF k] by (force simp: acceptable_def)
  ultimately have ids: "re_event_id (rs ! k) \<notin> hb_event_ids ?b"
    "insert (re_event_id (rs ! k)) (hb_event_ids ?b) = set (map re_event_id (take (Suc k) rs)) \<union> hb_event_ids b"
    using k by (auto simp: builder_before_def builder_after_def take_Suc_conv_app_nth)
  have "hb_current_version ?b = v + of_nat k" "re_stream_version (rs ! k) = v + of_nat (Suc k)"
    using ok k by (simp_all add: builder_before_def builder_after_def acceptable_def)
  moreover have "version_next (v + of_nat k) = Some (v + of_nat (Suc k))" "q + of_nat k \<noteq> 0"
    using ok k version_after [of v "length rs" k] sequence_after(1) [of q "length rs" k]
    by (auto simp: acceptable_def)
  moreover have "ds_global_stream_sequence (pushed batch_id q rs k) = q + of_nat k"
    "de_recorded (ds_decoded (pushed batch_id q rs k)) = rs ! k"
    by (simp_all add: pushed_def decoded_append_def)
  moreover have "builder_after batch_id v q rs b (Suc k)
        \<lparr>hb_current_version := v + of_nat k, hb_pending := hb_pending ?b\<rparr>
        \<lparr>hb_current_version := v + of_nat (Suc k)\<rparr>
      = builder_after batch_id v q rs b (Suc k)\<lparr>hb_pending := hb_pending ?b\<rparr>"
    by (simp add: builder_after_def)
  ultimately show ?thesis
    using ids enlist_after [OF ok k, of batch_id] by (simp add: builder_push_def ok_or_def del: of_nat_Suc)
qed

lemma push_more:
  assumes "acceptable v q rs b" and "Suc k < length rs"
  shows "builder_push (builder_before batch_id v q rs b k) (pushed batch_id q rs k)
    = Inr (builder_before batch_id v q rs b (Suc k))"
  using push_after [OF assms(1), of k batch_id] assms(2)
  by (simp add: builder_settle_def pending_is_complete_def pending_after_def builder_before_def
      builder_after_def)

lemma push_last:
  assumes "acceptable v q rs b" and k: "Suc k = length rs"
    and "pending_finish (pending_after batch_id q rs (length rs)) = Inr c" and "sc_events c = rs"
  shows "\<exists>b'. builder_push (builder_before batch_id v q rs b k) (pushed batch_id q rs k) = Inr b'
    \<and> hb_pending b' = None \<and> nh_events (hb_history b') = nh_events (hb_history b) @ rs
    \<and> hb_current_version b' = v + of_nat (length rs)"
  using push_after [OF assms(1), of k batch_id] assms(2-)
  by (simp add: builder_settle_def pending_is_complete_def Let_def builder_after_def)
    (simp add: pending_after_def)

text \<open>The messages of a batch at consecutive sequences, as an append publishes them.\<close>

definition published_log ::
  "nats_config \<Rightarrow> string \<Rightarrow> u64 \<Rightarrow> string \<Rightarrow> string option \<Rightarrow> (string \<times> bytes) list \<Rightarrow> u64 \<Rightarrow> raw_message list" where
  "published_log config subject expected batch_id correlation events q =
     map (\<lambda>(i, m). \<lparr>rm_subject = am_subject m, rm_sequence = q + of_nat i,
           rm_headers = atomic_headers config batch_id correlation (length events) i m,
           rm_payload = am_payload m\<rparr>)
       (enumerate 0 (atomic_batch_messages subject expected events))"

lemma replay_published:
  assumes ok: "acceptable v q rs b" and len: "length ms = length rs"
    and decoded: "\<And>i. i < length rs \<Longrightarrow> rm_sequence (ms ! i) = q + of_nat i
      \<and> decode_event X config (stream_subject X config stream) stream (Some expected)
         (rm_sequence (ms ! i)) (rm_headers (ms ! i)) (rm_payload (ms ! i)) = Inr (pushed batch_id q rs i)"
    and finish: "pending_finish (pending_after batch_id q rs (length rs)) = Inr c" "sc_events c = rs"
    and "k < length rs"
  shows "\<exists>b' n. replay_log X config stream (drop k ms) (builder_before batch_id v q rs b k, expected) = Inr (b', n)
    \<and> hb_pending b' = None \<and> nh_events (hb_history b') = nh_events (hb_history b) @ rs
    \<and> hb_current_version b' = v + of_nat (length rs)"
  using assms(6)
proof (induction "length rs - k" arbitrary: k)
  case (Suc n)
  have drop: "drop k ms = ms ! k # drop (Suc k) ms"
    using Suc.prems len by (simp add: Cons_nth_drop_Suc)
  have count: "Suc (de_event_ordinal (ds_decoded (pushed batch_id q rs k)))
      = de_event_count (ds_decoded (pushed batch_id q rs k)) \<longleftrightarrow> Suc k = length rs"
    by (simp add: pushed_def decoded_append_def)
  show ?case
  proof (cases "Suc k = length rs")
    case True
    then have "drop (Suc k) ms = []"
      using len by simp
    then show ?thesis
      using push_last [OF ok True finish] decoded [OF Suc.prems, THEN conjunct2] count drop
      by (auto simp: replay_message_def)
  next
    case False
    then have "Suc k < length rs" "n = length rs - Suc k"
      using Suc by linarith+
    then show ?thesis
      using Suc.hyps(1) [of "Suc k"] push_more [OF ok, of k batch_id] decoded [OF Suc.prems, THEN conjunct2] count False drop
      by (simp add: replay_message_def)
  qed
qed simp

section \<open>Appends\<close>

lemma published_log_nth:
  assumes "i < length events"
  shows "length (published_log config subject expected batch_id correlation events q) = length events"
    and "published_log config subject expected batch_id correlation events q ! i
      = \<lparr>rm_subject = subject, rm_sequence = q + of_nat i,
         rm_headers = atomic_headers config batch_id correlation (length events) i
           (published_message subject expected i (events ! i)), rm_payload = snd (events ! i)\<rparr>"
  using assms
  by (simp_all add: published_log_def atomic_batch_messages_def nth_enumerate_eq published_message_def
      split: prod.splits)

lemma prepare_append_parts:
  assumes "prepare_append X S stream expected batch history = Inr (rs, events)"
  obtains payloads where "rs = recorded_batch stream (history_version history) batch"
    "unat (history_version history) + length (eb_events batch) < 2 ^ 64"
    "eb_commit_id batch = derive_commit_id (nx_sha256 X) stream (eb_operation_id batch)"
    "nats_validate_event_identities (nx_sha256 X) (eb_commit_id batch) 0 (eb_events batch) = Inr ()"
    "events = zip (map re_event_id rs) payloads" "length payloads = length rs"
    "\<forall>p \<in> set payloads. length p \<le> bl_value (nc_max_event_bytes (ns_config S))"
    "\<forall>i < length rs. encode_event X (ns_config S) stream batch None (of_nat (length rs)) (i, rs ! i)
       = Inr (payloads ! i)"
    "\<forall>i < length rs. \<exists>r. RecordedEvent_new_in_commit stream (history_version history + of_nat (Suc i))
      (ne_event_id (eb_events batch ! i)) (eb_commit_id batch) (eb_operation_id batch)
      (eb_operation_fingerprint batch) (of_nat i) (of_nat (length rs)) (ne_event_type (eb_events batch ! i))
      (ne_schema_version (eb_events batch ! i)) (ne_payload (eb_events batch ! i)) = Inr r"
proof -
  let ?v = "history_version history"
  obtain payloads where p: "nats_validate_derived_identities (nx_sha256 X) stream batch = Inr ()"
    "nats_record_batch stream ?v batch = Inr rs" "encode_events X (ns_config S) stream batch rs = Inr payloads"
    "\<not> list_ex (\<lambda>p. bl_value (nc_max_event_bytes (ns_config S)) < length p) payloads"
    "length payloads = length rs" "events = zip (map re_event_id rs) payloads"
    using assms unfolding prepare_append_def Let_def by (auto simp: result_simps split: if_splits)
  obtain count where count: "u32_try_from (length (eb_events batch)) = Some count"
    and events: "nats_record_events stream batch count ?v 0 (eb_events batch) = Inr rs" "rs \<noteq> []"
    using p(2) unfolding nats_record_batch_def by (auto simp: result_simps split: if_splits)
  note recorded = nats_record_events_ok [OF events(1)]
  have len: "length rs = length (eb_events batch)" and "count = of_nat (length rs)"
    using recorded(1) count by (auto simp: u32_try_from_Some)
  moreover have "list_all2 (\<lambda>x y. encode_event X (ns_config S) stream batch None (of_nat (length rs)) x = Inr y)
      (enumerate 0 rs) payloads"
    using p(3) count len \<open>count = of_nat (length rs)\<close> unfolding encode_events_def encode_events_inner_def
    by (auto simp: collect_results_Inr_iff result_simps)
  ultimately have encoded: "\<forall>i < length rs. encode_event X (ns_config S) stream batch None
      (of_nat (length rs)) (i, rs ! i) = Inr (payloads ! i)"
    by (auto simp: list_all2_conv_all_nth nth_enumerate_eq)
  have derived: "eb_commit_id batch = derive_commit_id (nx_sha256 X) stream (eb_operation_id batch)"
    "nats_validate_event_identities (nx_sha256 X) (eb_commit_id batch) 0 (eb_events batch) = Inr ()"
    using p(1) by (auto simp: nats_validate_derived_identities_def Let_def split: if_splits)
  have "eb_events batch \<noteq> []"
    using events(2) len by auto
  then show ?thesis
    using recorded len \<open>count = of_nat (length rs)\<close> p(4) not_less
    by (intro that [OF _ _ derived p(6,5) _ encoded])
      (simp_all add: recorded_batch_def batch_length_def list_ex_iff not_less)
qed

lemma validate_event_identities_nth:
  assumes "nats_validate_event_identities sha commit i es = Inr ()" and "j < length es"
  shows "ne_event_id (es ! j) = derive_event_id sha commit (of_nat (i + j))"
  using assms
proof (induction es arbitrary: i j)
  case (Cons e es)
  then have "ne_event_id e = derive_event_id sha commit (of_nat i)"
    "nats_validate_event_identities sha commit (Suc i) es = Inr ()"
    by (auto simp: result_simps u32_try_from_Some split: if_splits)
  then show ?case
    using Cons.IH [of "Suc i"] Cons.prems(2) by (cases j) auto
qed simp

lemma resolve_existing_none:
  assumes "resolve_existing history batch = Inr None"
  shows "eb_operation_id batch \<notin> (\<lambda>c. eb_operation_id (sc_batch c)) ` set (nh_commits history)"
    and "eb_commit_id batch \<notin> (\<lambda>c. eb_commit_id (sc_batch c)) ` set (nh_commits history)"
    and "ne_event_id ` set (eb_events batch) \<inter> re_event_id ` set (nh_events history) = {}"
  using assms unfolding resolve_existing_def
  by (auto simp: find_None_iff list_ex_iff split: option.splits if_splits) (metis)

lemma recorded_batch_nth:
  "i < length (eb_events batch) \<Longrightarrow> recorded_batch stream v batch ! i
     = RecordedEvent_from_new stream (v + of_nat (Suc i)) batch (of_nat i)
         (of_nat (length (eb_events batch))) (eb_events batch ! i)"
  by (simp add: recorded_batch_def recorded_nth batch_length_def)

lemma recorded_batch_ids: "map re_event_id (recorded_batch stream v batch) = map ne_event_id (eb_events batch)"
  by (rule nth_equalityI) (simp_all add: batch_length_def recorded_batch_nth RecordedEvent_from_new_def)

lemma recorded_batch_acceptable:
  assumes "builder_from_history history = with_last n b" and "hb_pending b = None"
    and "resolve_existing history batch = Inr None" and "valid_batch batch"
    and "unat (history_version history) + length (eb_events batch) < 2 ^ 64"
    and "0 < unat q" and "unat q + length (eb_events batch) \<le> 2 ^ 64"
  shows "acceptable (history_version history) q (recorded_batch stream (history_version history) batch) b"
proof -
  let ?rs = "recorded_batch stream (history_version history) batch"
  have b: "hb_current_version b = history_version history"
    "hb_operation_ids b = (\<lambda>c. eb_operation_id (sc_batch c)) ` set (nh_commits history)"
    "hb_commit_ids b = (\<lambda>c. eb_commit_id (sc_batch c)) ` set (nh_commits history)"
    "hb_event_ids b = re_event_id ` set (nh_events history)"
    using assms(1) by (cases b; simp add: builder_from_history_def with_last_def)+
  have nonempty: "0 < length (eb_events batch)"
    using assms(4) by (simp add: valid_batch_def)
  then have hd: "hd ?rs = RecordedEvent_from_new stream (history_version history + 1) batch 0
      (of_nat (length (eb_events batch))) (eb_events batch ! 0)"
    using recorded_batch_nth [OF nonempty, of stream "history_version history"] hd_conv_nth [of ?rs]
      length_recorded_batch [of stream "history_version history" batch]
    by (cases ?rs) (simp_all add: batch_length_def)
  have ids: "map re_event_id ?rs = map ne_event_id (eb_events batch)"
    by (rule recorded_batch_ids)
  have "re_event_id ` set ?rs = ne_event_id ` set (eb_events batch)"
    using arg_cong [OF ids, of set] by simp
  then show ?thesis
    unfolding acceptable_def ids
    using assms(2-7) b nonempty hd resolve_existing_none [OF assms(3)]
    by (auto simp: batch_length_def recorded_batch_nth RecordedEvent_from_new_def valid_batch_def)
qed

lemma typed_batch_valid: "typed_batch batch \<Longrightarrow> valid_batch batch"
  by (auto simp: typed_batch_def dest!: EventBatch_new_sel) (auto simp: valid_batch_def)

lemma new_event_of_recorded:
  assumes "RecordedEvent_new_in_commit stream v (ne_event_id e) commit op fp i n (ne_event_type e)
    (ne_schema_version e) (ne_payload e) = Inr r"
  shows "NewEvent_new (ne_event_id e) (ne_event_type e) (ne_schema_version e) (ne_payload e) = Inr e"
  using assms by (cases e) (auto simp: RecordedEvent_new_in_commit_def NewEvent_new_def result_simps
      split: if_splits)

text \<open>Each message of an append, decoded.\<close>

lemma published_decodes:
  assumes prepared: "prepare_append X S stream expected batch history = Inr (rs, events)"
    and typed: "typed_stream stream" "typed_batch batch"
    and limit: "bl_value (nc_max_event_bytes (ns_config S)) \<le> max_supported_event_bytes"
    and reads: "reads_back X (map snd events) rs"
    and batch_id: "batch_id \<noteq> []" "length batch_id \<le> 64" and i: "i < length rs"
    and m: "m = published_log (ns_config S) (store_subject X S stream) last_sequence batch_id
      (eb_correlation_id batch) events q ! i"
  shows "rm_sequence m = q + of_nat i \<and> decode_event X (ns_config S) (store_subject X S stream) stream
    (Some last_sequence) (rm_sequence m) (rm_headers m) (rm_payload m) = Inr (pushed batch_id q rs i)"
proof -
  let ?n = "length rs" and ?e = "eb_events batch ! i" and ?v = "history_version history + of_nat (Suc i)"
  from prepare_append_parts [OF prepared] obtain payloads where
    rs: "rs = recorded_batch stream (history_version history) batch"
    and space: "unat (history_version history) + length (eb_events batch) < 2 ^ 64"
    and commit: "eb_commit_id batch = derive_commit_id (nx_sha256 X) stream (eb_operation_id batch)"
    and ids: "nats_validate_event_identities (nx_sha256 X) (eb_commit_id batch) 0 (eb_events batch) = Inr ()"
    and events: "events = zip (map re_event_id rs) payloads" "length payloads = ?n"
    and sizes: "\<forall>p \<in> set payloads. length p \<le> bl_value (nc_max_event_bytes (ns_config S))"
    and encodes: "\<forall>i < ?n. encode_event X (ns_config S) stream batch None (of_nat ?n) (i, rs ! i)
       = Inr (payloads ! i)"
    and new: "\<forall>i < ?n. \<exists>r. RecordedEvent_new_in_commit stream (history_version history + of_nat (Suc i))
      (ne_event_id (eb_events batch ! i)) (eb_commit_id batch) (eb_operation_id batch)
      (eb_operation_fingerprint batch) (of_nat i) (of_nat ?n) (ne_event_type (eb_events batch ! i))
      (ne_schema_version (eb_events batch ! i)) (ne_payload (eb_events batch ! i)) = Inr r" .
  have len: "?n = length (eb_events batch)" and small: "?n \<le> 100"
    using typed_batch_valid [OF typed(2)] valid_batch_length [of batch] by (auto simp: rs batch_length_def)
  obtain r0 where r0: "RecordedEvent_new_in_commit stream ?v (ne_event_id ?e) (eb_commit_id batch)
      (eb_operation_id batch) (eb_operation_fingerprint batch) (of_nat i) (of_nat ?n) (ne_event_type ?e)
      (ne_schema_version ?e) (ne_payload ?e) = Inr r0"
    using new i by blast
  have nth: "rs ! i = RecordedEvent_from_new stream ?v batch (of_nat i) (of_nat ?n) ?e"
    using recorded_batch_nth i len by (simp add: rs)
  have payload: "payloads ! i \<in> set payloads" "rs ! i \<in> set rs" "map snd events = payloads"
    using i events by simp_all
  have content: "decode_recorded X stream (event_content X (ns_config S) stream batch ?n i (rs ! i)) = Inr (rs ! i)"
    by (rule decode_recorded_content [OF typed(2) refl _ nth r0 commit])
      (use i len validate_event_identities_nth [OF ids, of i] reads payload in \<open>auto simp: reads_back_def\<close>)
  have version: "re_stream_version (rs ! i) \<noteq> 0"
    using r0 nth by (auto simp: RecordedEvent_new_in_commit_def RecordedEvent_from_new_def split: if_splits)
  have "decode_event X (ns_config S) (store_subject X S stream) stream (Some last_sequence) (q + of_nat i)
      (atomic_headers (ns_config S) batch_id (eb_correlation_id batch) ?n i
        (published_message (store_subject X S stream) last_sequence i (events ! i))) (payloads ! i)
    = Inr (decoded_append batch_id ?n i (q + of_nat i) (rs ! i))"
    by (rule decode_published [OF encodes [rule_format, OF i] typed(1) i small _ content _ version _ _ batch_id])
      (use sizes payload limit reads in \<open>auto simp: published_message_def reads_back_def\<close>)
  then show ?thesis
    using i events by (simp add: m published_log_nth pushed_def)
qed

text \<open>What an append publishes after the history it was decided on, a load reads back after it.\<close>

lemma published_history:
  assumes base: "log_history X (ns_config S) stream pre = Inr history"
    and fresh: "resolve_existing history batch = Inr None"
    and prepared: "prepare_append X S stream expected batch history = Inr (rs, events)"
    and typed: "typed_stream stream" "typed_batch batch"
    and limit: "bl_value (nc_max_event_bytes (ns_config S)) \<le> max_supported_event_bytes"
    and reads: "reads_back X (map snd events) rs"
    and batch_id: "batch_id \<noteq> []" "length batch_id \<le> 64"
    and q: "0 < unat q" "unat q + length rs \<le> 2 ^ 64"
  shows "\<exists>h. log_history X (ns_config S) stream (pre @ published_log (ns_config S) (store_subject X S stream)
      (nh_last_subject_stream_sequence history) batch_id (eb_correlation_id batch) events q) = Inr h
    \<and> nh_events h = nh_events history @ rs"
proof -
  let ?v = "history_version history" and ?n = "last_sequence_of pre"
  define ms where "ms = published_log (ns_config S) (store_subject X S stream) ?n batch_id
    (eb_correlation_id batch) events q"
  from log_history_builder [OF base] obtain b where
    b: "replay_log X (ns_config S) stream pre (builder_default, 0) = Inr (b, ?n)" "hb_pending b = None"
    "builder_from_history history = with_last ?n b" "nh_last_subject_stream_sequence history = ?n" .
  from prepare_append_parts [OF prepared] obtain payloads where
    rs: "rs = recorded_batch stream ?v batch" and space: "unat ?v + length (eb_events batch) < 2 ^ 64"
    and events: "events = zip (map re_event_id rs) payloads" "length payloads = length rs"
    and new: "\<forall>i < length rs. \<exists>r. RecordedEvent_new_in_commit stream (?v + of_nat (Suc i))
      (ne_event_id (eb_events batch ! i)) (eb_commit_id batch) (eb_operation_id batch)
      (eb_operation_fingerprint batch) (of_nat i) (of_nat (length rs)) (ne_event_type (eb_events batch ! i))
      (ne_schema_version (eb_events batch ! i)) (ne_payload (eb_events batch ! i)) = Inr r" .
  have len: "length rs = length (eb_events batch)" by (simp add: rs batch_length_def)
  note valid = typed_batch_valid [OF typed(2)]
  have ok: "acceptable ?v q rs b"
    using recorded_batch_acceptable [OF b(3,2) fresh valid space q(1)] q(2) len by (simp add: rs)
  have msgs: "length ms = length rs" "0 < length rs"
    using events ok by (simp_all add: ms_def published_log_def atomic_batch_messages_def acceptable_def)
  have nonempty: "rs \<noteq> []"
    using msgs(2) by auto
  have nth: "rs ! i = RecordedEvent_from_new stream (?v + of_nat (Suc i)) batch (of_nat i)
      (of_nat (length (eb_events batch))) (eb_events batch ! i)" if "i < length rs" for i
    using recorded_batch_nth that len by (simp add: rs)
  have news: "collect_results (\<lambda>event. NewEvent_new (re_event_id event) (re_event_type event)
      (re_schema_version event) (re_payload event)) rs = Inr (eb_events batch)"
    using new new_event_of_recorded len nth
    by (auto simp: collect_results_Inr_iff list_all2_conv_all_nth RecordedEvent_from_new_def)
  obtain batch' where "EventBatch_new (eb_commit_id batch) (eb_operation_id batch)
      (eb_operation_fingerprint batch) (eb_events batch) = Inr batch'"
    using typed(2) by (auto simp: typed_batch_def)
  then obtain c where c: "pending_finish (pending_after batch_id q rs (length rs)) = Inr c" "sc_events c = rs"
    using pending_finish_after [OF nonempty q(2) _ news, of batch' batch_id] nth [of 0]
      hd_conv_nth [OF nonempty] msgs(2) valid_batch_length [OF valid] len
    by (auto simp: RecordedEvent_from_new_def batch_length_def)
  have decoded: "rm_sequence (ms ! i) = q + of_nat i \<and> decode_event X (ns_config S)
      (store_subject X S stream) stream (Some ?n) (rm_sequence (ms ! i)) (rm_headers (ms ! i))
      (rm_payload (ms ! i)) = Inr (pushed batch_id q rs i)" if "i < length rs" for i
    by (rule published_decodes [OF prepared typed limit reads batch_id that]) (simp only: ms_def)
  obtain b' k where b': "replay_log X (ns_config S) stream ms (b, ?n) = Inr (b', k)" "hb_pending b' = None"
    "nh_events (hb_history b') = nh_events (hb_history b) @ rs" "hb_current_version b' = ?v + of_nat (length rs)"
    using replay_published [OF ok msgs(1) decoded c msgs(2)] unfolding builder_before_def drop_0 if_P [OF refl]
    by blast
  have "unat (hb_current_version b') = unat ?v + length rs"
    using b'(4) space len by (simp add: unat_word_ariths unat_of_nat_small)
  then have "hb_current_version b' \<noteq> 0"
    using msgs(2) by auto
  moreover have "hb_history b\<lparr>nh_last_subject_stream_sequence := ?n\<rparr> = history"
    using b(3) by (cases b) (simp add: builder_from_history_def with_last_def)
  ultimately show ?thesis
    using b(1,4) b' msgs unfolding log_history_def
    by (auto simp: ms_def replay_log_append builder_finish_def)
qed

end
