(* ===== verification/NatsScenario.thy ===== *)
theory NatsScenario
  imports NatsPublished ExecutionScenario
begin

text \<open>
  A concrete broker with one stream that holds nothing or one message, and concrete externals, for the
  witnesses of the properties of the event store on NATS: one batch with one event is appended to an
  absent stream and loaded.
\<close>

section \<open>Externals and the store\<close>

definition bk_config :: nats_config where
  "bk_config = \<lparr>nc_completed_outcome_epoch = None, nc_split_outcomes = False,
     nc_explicit_detail_expiry = False, nc_read_only_outcomes = False, nc_legacy_security_scope = None,
     nc_outcome_state_stream_name = [], nc_application = ''shop'', nc_traffic_scope = NormalScope,
     nc_bounded_context = ''sales'', nc_stream_name = ''SHOP'', nc_subject_prefix = ''shop.domain.sales'',
     nc_max_stream_bytes = default_max_stream_bytes, nc_max_event_bytes = EventByteLimit_default,
     nc_replicas = default_replicas, nc_puback_timeout = default_puback_timeout\<rparr>"

definition bk_sha :: "bytes \<Rightarrow> bytes" where "bk_sha bs = [0]"

definition bk_event :: new_event where
  "bk_event = \<lparr>ne_event_id = ''event:00'', ne_event_type = ''Placed'', ne_schema_version = 1,
     ne_payload = [1]\<rparr>"

definition bk_batch :: event_batch where
  "bk_batch = \<lparr>eb_actor = None, eb_commit_id = ''commit:00'', eb_operation_id = ''op'',
     eb_operation_fingerprint = replicate 32 0, eb_events = [bk_event], eb_correlation_id = None,
     eb_causation_id = None\<rparr>"

definition bk_recorded :: recorded_event where
  "bk_recorded = RecordedEvent_from_new x_stream 1 bk_batch 0 1 bk_event"

definition bk_wire :: stored_event_wire where
  "bk_wire = \<lparr>ew_schema_version = event_schema, ew_checksum = ''00'', ew_event =
     \<lparr>ec_event_store_stream = ''SHOP'', ec_application = Some ''shop'',
      ec_bounded_context = Some ''sales'', ec_stream = stream_identity x_stream, ec_stream_version = 1,
      ec_commit_id = ''commit:00'', ec_operation_id = ''op'',
      ec_operation_fingerprint = fingerprint_to_hex (replicate 32 0), ec_correlation_id = None,
      ec_causation_id = None, ec_actor = None, ec_commit_event_ordinal = 0, ec_commit_event_count = 1,
      ec_transaction_event_ordinal = None, ec_transaction_event_count = None,
      ec_event_id = ''event:00'', ec_event_type = ''Placed'', ec_event_schema_version = 1,
      ec_payload_base64 = ''AQ==''\<rparr>\<rparr>"

definition bk_ack :: atomic_publish_ack where
  "bk_ack = \<lparr>ack_stream = ''SHOP'', ack_sequence = 1, ack_batch = Some ''00'', ack_count = Some 1\<rparr>"

definition bk_externals :: nats_externals where
  "bk_externals = \<lparr>nx_core = x_externals\<lparr>sha256 := bk_sha\<rparr>, nx_base64_encode = (\<lambda>_. ''AQ==''),
     nx_base64_decode = (\<lambda>_. Inr [1]),
     nx_event_to_vec = (\<lambda>w. if w = bk_wire then Inr [0] else Inl ''unknown event''),
     nx_event_from_slice = (\<lambda>_. Inr bk_wire), nx_event_checksum_to_vec = (\<lambda>_ _. Inr []),
     nx_receipt_to_vec = (\<lambda>_. Inl ''none''), nx_receipt_from_slice = (\<lambda>_. Inl ''none''),
     nx_receipt_checksum_to_vec = (\<lambda>_ _. Inl ''none''), nx_guard_to_vec = (\<lambda>_. Inl ''none''),
     nx_guard_from_slice = (\<lambda>_. Inl ''none''), nx_state_to_vec = (\<lambda>_. Inl ''none''),
     nx_state_from_slice = (\<lambda>_. Inl ''none''), nx_response_from_slice = (\<lambda>_. Inr (ResponseOk bk_ack))\<rparr>"

definition bk_subject :: string where "bk_subject = ''shop.domain.sales.aggregate.00''"

definition bk_message :: raw_message where
  "bk_message = \<lparr>rm_subject = bk_subject, rm_sequence = 1,
     rm_headers = atomic_headers bk_config ''00'' None 1 0 (published_message bk_subject 0 0 (''event:00'', [0])),
     rm_payload = [0]\<rparr>"

text \<open>The world is whether the message has been published.\<close>

definition bk_log :: "bool \<Rightarrow> raw_message list" where
  "bk_log w = (if w then [bk_message] else [])"

definition bk_info :: stream_info where
  "bk_info = \<lparr>sn_created = ''t0'', sn_config = stream_config bk_config, sn_messages = 0,
     sn_first_sequence = 1, sn_last_sequence = 1\<rparr>"

definition bk_broker :: "bool jetstream" where
  "bk_broker = \<lparr>js_get_stream = (\<lambda>_ w. (Inr bk_info, w)),
     js_last_by_subject = (\<lambda>_ s w. (if w \<and> s = bk_subject then Inr bk_message else Inl NoMessageFound, w)),
     js_first_by_subject = (\<lambda>_ s q w.
       (if w \<and> s = bk_subject \<and> q \<le> 1 then Inr bk_message else Inl NoMessageFound, w)),
     js_raw_message = (\<lambda>_ _ w. (Inl NoMessageFound, w)),
     js_create_consumer = (\<lambda>n c s w. (Inr \<lparr>rp_name = c,
       rp_messages = Inr (map (delivery_of n c) (subject_messages s (bk_log w)))\<rparr>, w)),
     js_delete_consumer = (\<lambda>_ _ w. (ConsumerDeleted, w)),
     js_send_request = (\<lambda>s h p w.
       if s = bk_subject \<and> h = rm_headers bk_message \<and> p = [0] \<and> \<not> w then (Inr [9], True)
       else (Inl ''refused'', w)),
     js_new_inbox = (\<lambda>w. (''_INBOX.1'', w))\<rparr>"

definition bk_store :: "bool nats_store" where
  "bk_store = \<lparr>ns_config = bk_config, ns_history_auditing = False, ns_authority = ''nats'',
     ns_journal_incarnation = ''t0'', ns_split = None, ns_detail_readers = None\<rparr>"

lemma bk_sels [simp]:
  "nx_core bk_externals = x_externals\<lparr>sha256 := bk_sha\<rparr>" "ns_config bk_store = bk_config"
  "nc_stream_name bk_config = ''SHOP''" "ns_history_auditing bk_store = False"
  "eb_operation_id bk_batch = ''op''" "eb_commit_id bk_batch = ''commit:00''" "eb_events bk_batch = [bk_event]"
  "eb_actor bk_batch = None" "eb_correlation_id bk_batch = None" "eb_causation_id bk_batch = None"
  "eb_operation_fingerprint bk_batch = replicate 32 0"
  "rm_subject bk_message = bk_subject" "rm_sequence bk_message = 1" "rm_payload bk_message = [0]"
  by (simp_all add: bk_externals_def bk_store_def bk_config_def bk_batch_def bk_message_def)

lemma bk_hex [simp]: "encode_lower_hex [0] = ''00''"
proof -
  have "char_of (48 :: nat) = CHR ''0''"
    by code_simp
  then show ?thesis
    by (simp add: encode_lower_hex_def lower_hex_digit_def saturating_add_def checked_add_def)
qed

lemma bk_ids [simp]:
  "derive_commit_id bk_sha st op = ''commit:00''" "derive_event_id bk_sha c i = ''event:00''"
  by (simp_all add: derive_commit_id_frame derive_event_id_frame bk_sha_def)

lemma bk_subject_of [simp]:
  "aggregate_subject bk_sha bk_config a b = bk_subject"
  by (simp add: aggregate_subject_def digest_parts_def bk_sha_def bk_config_def bk_subject_def)

lemma bk_delivers: "delivers n c (ms @ later) (map (delivery_of n c) ms)"
  by (induction ms) (cases later; simp)+

lemma bk_jetstream: "jetstream_log bk_broker ''SHOP'' bk_log"
  unfolding jetstream_log_def append_only_def lookups_read_def consumers_deliver_def call_appends_def
  by (auto simp: bk_broker_def bk_log_def bk_info_def stream_config_def subject_messages_def
      split: if_splits intro: bk_delivers [where later = "[]", simplified] exI [of _ "[]"])

section \<open>The append\<close>

lemma bk_typed: "typed_stream x_stream" "typed_batch bk_batch"
proof -
  show "typed_stream x_stream"
    by (simp add: typed_stream_def x_stream_def AggregateType_new_def AggregateId_new_def string_identity_def
        identity_validate_def x_text_simps)
  have "EventId_new (ne_event_id bk_event) = Inr (ne_event_id bk_event)"
    by (simp add: bk_event_def EventId_new_def string_identity_def identity_validate_def x_text_simps)
  moreover have "CommitId_new ''commit:00'' = Inr ''commit:00''" "OperationId_new ''op'' = Inr ''op''"
    by (simp_all add: CommitId_new_def OperationId_new_def string_identity_def identity_validate_def x_text_simps)
  ultimately show "typed_batch bk_batch"
    by (simp add: typed_batch_def optional_new_def EventBatch_new_def max_events_per_batch_def
        max_batch_payload_len_def bk_event_def checked_add_usize_def usize_bound_def)
qed

lemma bk_new_in_commit:
  "RecordedEvent_new_in_commit x_stream 1 ''event:00'' ''commit:00'' ''op'' (replicate 32 0) 0 1 ''Placed'' 1 [1]
     = Inr bk_recorded"
  by (simp add: RecordedEvent_new_in_commit_def bk_recorded_def RecordedEvent_from_new_def bk_event_def
      max_events_per_batch_def validate_event_type_def x_text_simps max_event_type_len_def
      max_event_payload_len_def)

lemma bk_encode: "encode_events bk_externals bk_config x_stream bk_batch [bk_recorded] = Inr [[0]]"
  by (simp add: encode_events_def encode_events_inner_def encode_event_def u32_try_from_def event_checksum_def
      bk_externals_def bk_wire_def bk_sha_def bk_recorded_def RecordedEvent_from_new_def bk_event_def
      stream_identity_def bk_config_def ok_or_def map_ok_def Let_def)

lemma bk_more:
  "bl_value (nc_max_event_bytes bk_config) = 524288" "re_event_id bk_recorded = ''event:00''"
  "re_payload bk_recorded = [1]"
  by (simp_all add: bk_config_def EventByteLimit_default_def default_max_event_bytes_def bk_recorded_def
      RecordedEvent_from_new_def bk_event_def)

lemma bk_prepare:
  "prepare_append bk_externals bk_store x_stream NoStream bk_batch history_default
     = Inr ([bk_recorded], [(''event:00'', [0])])"
proof -
  have "nats_validate_derived_identities bk_sha x_stream bk_batch = Inr ()"
    by (simp add: nats_validate_derived_identities_def bk_event_def u32_try_from_def ok_or_def)
  moreover have "nats_record_batch x_stream 0 bk_batch = Inr [bk_recorded]"
    using bk_new_in_commit
    by (simp add: nats_record_batch_def u32_try_from_def ok_or_def version_next_def checked_add_def bk_event_def)
      (simp add: bk_recorded_def RecordedEvent_from_new_def)
  ultimately show ?thesis
    using bk_encode by (simp add: prepare_append_def NatsEvents.history_version_def history_default_def bk_more Let_def)
qed

lemma bk_reads_back: "reads_back bk_externals [[0]] [bk_recorded]"
  by (simp add: reads_back_def bk_externals_def bk_more)

lemma bk_published:
  "published_log bk_config bk_subject 0 ''00'' None [(''event:00'', [0])] 1 = [bk_message]"
  by (simp add: published_log_def atomic_batch_messages_def bk_message_def published_message_def)

text \<open>The history after the append.\<close>

definition bk_history :: nats_history where
  "bk_history = projr (log_history bk_externals bk_config x_stream [bk_message])"

lemma bk_log_history:
  "log_history bk_externals bk_config x_stream [bk_message] = Inr bk_history" "nh_events bk_history = [bk_recorded]"
proof -
  have "\<exists>h. log_history bk_externals bk_config x_stream [bk_message] = Inr h \<and> nh_events h = [bk_recorded]"
    using published_history [of bk_externals bk_store x_stream "[]" history_default bk_batch NoStream "[bk_recorded]"
        "[(''event:00'', [0])]" "''00''" 1] bk_prepare bk_typed bk_reads_back bk_published
    by (simp add: log_history_def resolve_existing_def history_default_def bk_more max_supported_event_bytes_def)
  then show "log_history bk_externals bk_config x_stream [bk_message] = Inr bk_history" "nh_events bk_history = [bk_recorded]"
    by (auto simp: bk_history_def)
qed

section \<open>Runs\<close>

lemma bk_load: "nats_load bk_externals bk_broker bk_store x_stream True = (Inr [bk_recorded], True)"
proof -
  have "read_history_through bk_externals bk_store
      \<lparr>hr_messages = Some [delivery_of ''SHOP'' ''_INBOX_1'' bk_message], hr_stream_name = ''SHOP'',
       hr_consumer_name = Some ''_INBOX_1''\<rparr> x_stream 1 False = Inr bk_history"
  proof -
    let ?reader = "\<lparr>hr_messages = Some [delivery_of ''SHOP'' ''_INBOX_1'' bk_message],
      hr_stream_name = ''SHOP'', hr_consumer_name = Some ''_INBOX_1''\<rparr>"
    have "reads_from bk_store ''_INBOX_1'' ?reader
        (delivery_of (nc_stream_name (ns_config bk_store)) ''_INBOX_1'' bk_message # [])"
      by (simp add: reads_from_def)
    from reader_next_delivery [OF this] obtain message info reader' where
      got: "reader_next ?reader = Inr (message, info, reader')" "dn_stream_sequence info = rm_sequence bk_message"
      "dm_subject message = rm_subject bk_message" "dm_payload message = rm_payload bk_message"
      "(case dm_headers message of None \<Rightarrow> fmempty | Some headers \<Rightarrow> headers) = rm_headers bk_message" .
    obtain s where s: "replay_message bk_externals bk_config x_stream bk_message (builder_default, 0) = Inr s"
      "builder_finish (fst s) 1 = Inr bk_history"
      using bk_log_history(1) by (auto simp: log_history_def result_simps)
    have "read_history_loop bk_externals bk_store ?reader x_stream 1 False (Suc 0) builder_default 1 0 0
        = Inr (fst s, 1)"
      using read_history_loop_message [OF got, of bk_externals bk_store x_stream 1 1 0 builder_default 0 0] s(1)
      by (simp add: bk_more)
    then show ?thesis
      using s(2) by (simp add: read_history_through_def)
  qed
  then show ?thesis
    unfolding nats_load_def load_history_def load_history_with_audit_def load_raw_history_def
      load_raw_history_through_def get_event_stream_def HistoryReader_new_def reader_close_def delete_consumer_def
    by (simp add: async_run bk_broker_def bk_info_def stream_config_def bk_log_def subject_messages_def bk_log_history Let_def)
qed

lemma bk_mutable: "require_mutable_namespace bk_broker bk_store w = (Inr (), w)"
  unfolding require_mutable_namespace_def require_writable_handle_def get_event_stream_def
  by (simp add: async_run bk_broker_def bk_info_def stream_config_def bk_config_def bk_store_def)

lemma bk_load_empty: "load_history bk_externals bk_broker bk_store x_stream False = (Inr history_default, False)"
  unfolding load_history_def load_history_with_audit_def load_raw_history_def load_raw_history_through_def
    get_event_stream_def
  by (simp add: async_run bk_broker_def Let_def)

lemma bk_no_receipt: "load_transaction_receipt_inner bk_externals bk_broker bk_store ''op'' w = (Inr None, w)"
proof -
  have "receipt_subject bk_sha bk_config OperationLayout ''op'' \<noteq> bk_subject"
    by (simp add: transaction_subject_def digest_parts_def bk_sha_def bk_config_def bk_subject_def)
  then show ?thesis
    unfolding load_transaction_receipt_inner_def load_transaction_receipt_materialized_def
      load_receipt_with_raw_histories_def load_transaction_receipt_from_stream_def read_transaction_receipt_def
      get_event_stream_def
    by (simp add: async_run bk_broker_def Let_def)
qed

lemma bk_batch_id: "new_atomic_batch_id bk_externals bk_broker c w = (''00'', w)"
  by (simp add: new_atomic_batch_id_def bk_broker_def bk_sha_def)

lemma bk_publish:
  "publish_atomic_batch bk_externals bk_broker bk_config bk_subject 0 ''00'' None [(''event:00'', [0])] False
     = (Inr bk_ack, True)"
  by (simp add: publish_atomic_batch_def publish_atomic_messages_def atomic_batch_messages_def
      checked_add_usize_def usize_bound_def async_run bk_broker_def bk_message_def published_message_def
      decode_atomic_publish_response_def bk_externals_def)

lemma bk_decoded:
  "decode_event bk_externals bk_config bk_subject x_stream (Some 0) 1 (rm_headers bk_message) [0]
     = Inr (pushed ''00'' 1 [bk_recorded] 0)"
  using published_decodes [OF bk_prepare bk_typed, of "''00''" 0 bk_message 0 1] bk_reads_back bk_published
  by (simp add: bk_more max_supported_event_bytes_def)

lemma bk_pushed:
  obtains b c where "builder_push builder_default (pushed ''00'' 1 [bk_recorded] 0) = Inr b"
    "builder_finish b 1 = Inr bk_history" "nh_commits bk_history = [c]" "sc_events c = [bk_recorded]"
    "eb_commit_id (sc_batch c) = ''commit:00''"
proof -
  obtain b where b: "builder_push builder_default (pushed ''00'' 1 [bk_recorded] 0) = Inr b"
    "builder_finish b 1 = Inr bk_history"
    using bk_log_history(1) bk_decoded by (auto simp: log_history_def replay_message_def result_simps)
  from b(1) obtain p where p: "pending_new (ds_decoded (pushed ''00'' 1 [bk_recorded] 0)) 1 False = Inr p"
    "settles p builder_default b"
    by (cases rule: builder_push_cases) (auto simp: builder_default_def pushed_def decoded_append_def)
  have "pc_events p = [bk_recorded]" "pc_event_count p = 1" "pc_commit_id p = ''commit:00''"
    using pending_new_ok [OF p(1)]
    by (auto simp: pushed_def decoded_append_def bk_recorded_def RecordedEvent_from_new_def)
  then obtain c where "pending_finish p = Inr c" "hb_history b = add_commit history_default c"
    using p(2) by (auto simp: settles_def pending_is_complete_def builder_default_def)
  moreover have "nh_commits bk_history = nh_commits (hb_history b)"
    using b(2) by (auto simp: builder_finish_def split: if_splits dest: arg_cong [of _ _ nh_commits])
  ultimately show ?thesis
    using b that [of b c] pending_finish_events [of p c] \<open>pc_events p = [bk_recorded]\<close>
      \<open>pc_commit_id p = ''commit:00''\<close>
    by (simp add: add_commit_def history_default_def)
qed

lemma bk_verify:
  "verify_published_commit bk_externals bk_broker bk_store x_stream history_default 1 ''00'' ''commit:00''
     [bk_recorded] True = (Inr (), True)"
proof (rule bk_pushed)
  fix b c
  assume b: "builder_push builder_default (pushed ''00'' 1 [bk_recorded] 0) = Inr b"
    "builder_finish b 1 = Inr bk_history" "nh_commits bk_history = [c]" "sc_events c = [bk_recorded]"
    "eb_commit_id (sc_batch c) = ''commit:00''"
  have start: "builder_from_history history_default = builder_default"
    by (simp add: builder_from_history_def builder_default_def history_default_def NatsEvents.history_version_def)
  have "de_batch_id (ds_decoded (pushed ''00'' 1 [bk_recorded] 0)) = ''00''"
    "de_event_count (ds_decoded (pushed ''00'' 1 [bk_recorded] 0)) = 1"
    by (simp_all add: pushed_def decoded_append_def)
  moreover have "nh_last_subject_stream_sequence history_default = 0"
    by (simp add: history_default_def)
  ultimately show ?thesis
    using b bk_decoded
    by (simp add: verify_published_commit_def extend_history_def get_event_stream_def async_run start
        bk_broker_def ok_or_def checked_add_def)
qed

lemma bk_append:
  "nats_append bk_externals bk_broker bk_store x_stream NoStream bk_batch False
     = (Inr (Appended [bk_recorded]), True)"
proof -
  have "resolve_existing history_default bk_batch = Inr None"
    by (simp add: resolve_existing_def history_default_def)
  moreover have "ack_fits bk_config 0 ''00'' 1 bk_ack"
    by (simp add: ack_fits_def bk_ack_def)
  ultimately show ?thesis
    unfolding nats_append_def append_with_history_def
    using bk_prepare bk_publish bk_verify
    by (simp add: async_run bk_mutable bk_load_empty bk_no_receipt bk_batch_id used_by_transaction_def
        u64_try_from_def ok_or_def history_default_def bk_ack_def)
qed

end
