(* ===== verification/NatsProperties.thy ===== *)
theory NatsProperties
  imports NatsScenario
begin

text \<open>
  The properties of the event store on NATS: what it loads and appends, against the log of the broker
  and against the history check of the executor.
\<close>

text \<open>C11: what \<open>load\<close> of the event store on NATS returns passes \<open>validate_history\<close> of the executor,
  whatever the broker, other clients and the stored bytes are: foreign, reordered, missing, repeated
  or tampered events, incomplete commits and identities that were not derived make the load fail
  instead. So the executor never finds a loaded history corrupt.\<close>

theorem nats_load_passes_check:
  assumes "nats_load X J S stream w = (Inr events, w')"
  shows "validate_history (nx_sha256 X) stream events = Inr ()"
  using assms unfolding nats_load_def async_map_ok by (auto dest: load_history_validated)

theorem nats_load_passes_check_witness:
  "validate_history bk_sha x_stream [bk_recorded] = Inr ()"
  using nats_load_passes_check [OF bk_load] by simp

text \<open>C10: loading refines reading the log. When JetStream keeps its promises on an append-only stream
  (\<open>jetstream_log\<close>), \<open>load\<close> answers, without auditing, with the events of the history of the messages
  that the subject of the stream had at one moment during the call, or with the error this history
  gives, or with an error of kind \<open>Unavailable\<close>: whatever other clients publish meanwhile, the answer
  is that of a single read.\<close>

theorem nats_load_reads_log:
  assumes "jetstream_log J (nc_stream_name (ns_config S)) log" and "\<not> ns_history_auditing S"
    and "nats_load X J S stream w = (r, w')"
  shows "\<exists>l. prefix (log w) l \<and> prefix l (log w')
    \<and> unavailable_or r (map_ok nh_events
        (log_history X (ns_config S) stream (subject_messages (store_subject X S stream) l)))"
proof -
  obtain h where "load_raw_history X J S stream w = (h, w')" "r = map_ok nh_events h"
    using assms(2,3) unfolding nats_load_def load_history_def load_history_with_audit_def
    by (auto simp: async_run map_ok_def split: prod.splits sum.splits)
  moreover have "unavailable_or (map_ok nh_events h) (map_ok nh_events k)" if "unavailable_or h k" for k
    using that by (auto simp: unavailable_or_def map_ok_def)
  ultimately show ?thesis
    using load_raw_history_observes [OF assms(1), of X stream] unfolding observes_def by blast
qed

theorem nats_load_reads_log_witness:
  "\<exists>l. prefix (bk_log True) l \<and> prefix l (bk_log True)
     \<and> unavailable_or (Inr [bk_recorded]) (map_ok nh_events
         (log_history bk_externals bk_config x_stream (subject_messages bk_subject l)))"
  using nats_load_reads_log [of bk_broker bk_store bk_log bk_externals x_stream True "Inr [bk_recorded]" True]
    bk_jetstream bk_load by simp

text \<open>C9: no update is lost on NATS. When \<open>append\<close> answers that a batch was appended, then in every later
  load of the stream, through any handle of the same configuration, the recorded batch directly
  follows a history whose version is the expected one, and was recorded at that version; no
  other commit was published in between, and nothing that was there is gone.\<close>

theorem nats_append_no_lost_update:
  assumes "jetstream_log J (nc_stream_name (ns_config S)) log"
    and "nats_append X J S stream expected batch w = (Inr (Appended rs), w')"
    and "prefix (log w') (log v)" and "ns_config S' = ns_config S"
    and "nats_load X J S' stream v = (Inr events, v')"
  shows "\<exists>base rest. nh_events base @ rs @ rest = events
    \<and> ((expected = NoStream \<and> NatsEvents.history_version base = 0)
        \<or> expected = Exact (NatsEvents.history_version base))
    \<and> nats_record_batch stream (NatsEvents.history_version base) batch = Inr rs"
proof -
  obtain pre ms h0 h where p: "prefix (pre @ ms) (subject_messages (store_subject X S stream) (log w'))"
    "log_history X (ns_config S) stream pre = Inr h0"
    "log_history X (ns_config S) stream (pre @ ms) = Inr h" "nh_events h = nh_events h0 @ rs"
    "(expected = NoStream \<and> NatsEvents.history_version h0 = 0) \<or> expected = Exact (NatsEvents.history_version h0)"
    "nats_record_batch stream (NatsEvents.history_version h0) batch = Inr rs"
    by (rule nats_append_follows [OF assms(1,2)])
  obtain h' where h': "load_history X J S' stream v = (Inr h', v')" "events = nh_events h'"
    using assms(5) unfolding nats_load_def async_map_ok by auto
  obtain l where l: "prefix (log v) l"
    "log_history X (ns_config S) stream (subject_messages (store_subject X S stream) l) = Inr h'"
    using load_history_reads [of J S' log] assms(1,4) h'(1) by (metis (no_types, lifting))
  obtain ns where "subject_messages (store_subject X S stream) l = (pre @ ms) @ ns"
    using p(1) subject_messages_prefix [of _ l] assms(3) l(1) by (metis prefix_def prefix_order.trans)
  then have "history_before h h'"
    using log_history_grows [OF p(3)] l(2) by metis
  then show ?thesis
    using p(4-6) h'(2) by (intro exI [of _ h0]) (auto simp: history_before_def prefix_def)
qed

theorem nats_append_no_lost_update_witness:
  "\<exists>base rest. nh_events base @ [bk_recorded] @ rest = [bk_recorded]
     \<and> ((NoStream = NoStream \<and> NatsEvents.history_version base = 0)
         \<or> NoStream = Exact (NatsEvents.history_version base))
     \<and> nats_record_batch x_stream (NatsEvents.history_version base) bk_batch = Inr [bk_recorded]"
  using nats_append_no_lost_update [of bk_broker bk_store bk_log bk_externals x_stream NoStream bk_batch False
      "[bk_recorded]" True True bk_store "[bk_recorded]" True] bk_jetstream bk_append bk_load by simp

text \<open>C12: what an append publishes is read back. After a history, let an append of a well-typed batch be
  prepared whose identities are unused. When its messages, with the headers and payloads the
  append sends, lie at consecutive sequences after those of the history, the log still has a history,
  and its events are the old ones followed by the recorded batch, field by field. The hypotheses on
  the libraries are that \<open>serde_json\<close> and \<open>base64\<close> read back what they wrote for these payloads.\<close>

theorem nats_append_reads_back:
  assumes "log_history X (ns_config S) stream pre = Inr history"
    and "resolve_existing history batch = Inr None"
    and "prepare_append X S stream expected batch history = Inr (rs, events)"
    and "typed_stream stream" and "typed_batch batch"
    and "bl_value (nc_max_event_bytes (ns_config S)) \<le> max_supported_event_bytes"
    and "reads_back X (map snd events) rs"
    and "batch_id \<noteq> []" and "length batch_id \<le> 64"
    and "0 < unat q" and "unat q + length rs \<le> 2 ^ 64"
  shows "map_ok nh_events (log_history X (ns_config S) stream
      (pre @ published_log (ns_config S) (store_subject X S stream)
        (nh_last_subject_stream_sequence history) batch_id (eb_correlation_id batch) events q))
    = Inr (nh_events history @ rs)"
  using published_history [OF assms] by auto

theorem nats_append_reads_back_witness:
  "map_ok nh_events (log_history bk_externals bk_config x_stream [bk_message]) = Inr [bk_recorded]"
  using nats_append_reads_back [of bk_externals bk_store x_stream "[]" history_default bk_batch NoStream
      "[bk_recorded]" "[(''event:00'', [0])]" "''00''" 1] bk_prepare bk_typed bk_reads_back bk_published
  by (simp add: log_history_def resolve_existing_def history_default_def bk_more max_supported_event_bytes_def)

end
