(* ===== verification/NatsMessaging.thy ===== *)
theory NatsMessaging
  imports NatsBroker Delivery Commands
begin

text \<open>
  Messaging on NATS, configuration: \<open>rostfrei-nats/src/error.rs\<close>, the stream names, subject filters
  and topologies of \<open>messaging_config.rs\<close>, and \<open>provisioning.rs\<close>. The streams of an application in a
  traffic scope are derived from its name, one per kind of message and one for quarantined
  messages. The calls of the client library are the record \<open>messaging\<close>.
\<close>

section \<open>Errors\<close>

datatype nats_error_kind =
  KindConfiguration | KindConnection | KindMinimumServerVersion | KindSerialization
| KindPayloadTooLarge | KindPublishTimeout | KindPublishExpectation | KindIdentityConflict
| KindStreamNotFound | KindConsumerNotFound | KindPublish | KindConsumer | KindAcknowledgement
| KindInvalidMessage | KindQueryTimeout | KindQuery | KindFlush | KindDrain | KindProvisioning

record server_version =
  sv_major :: int
  sv_minor :: int
  sv_patch :: int

datatype nats_error =
  NatsConfiguration | NatsConnection | NatsMinimumServerVersion server_version | NatsSerialization
| NatsPayloadTooLarge nat nat | NatsMessageTooLarge | NatsPublishTimeout | NatsPublishExpectation
| NatsIdentityConflict | NatsStreamNotFound | NatsConsumerNotFound | NatsPublish | NatsConsumer
| NatsAcknowledgement | NatsInvalidMessage | NatsQueryTimeout | NatsQuery | NatsFlush | NatsDrain
| NatsDrainTimeout | NatsProvisioning

fun nats_kind :: "nats_error \<Rightarrow> nats_error_kind" where
  "nats_kind NatsConfiguration = KindConfiguration"
| "nats_kind NatsConnection = KindConnection"
| "nats_kind (NatsMinimumServerVersion _) = KindMinimumServerVersion"
| "nats_kind NatsSerialization = KindSerialization"
| "nats_kind (NatsPayloadTooLarge _ _) = KindPayloadTooLarge"
| "nats_kind NatsMessageTooLarge = KindPayloadTooLarge"
| "nats_kind NatsPublishTimeout = KindPublishTimeout"
| "nats_kind NatsPublishExpectation = KindPublishExpectation"
| "nats_kind NatsIdentityConflict = KindIdentityConflict"
| "nats_kind NatsStreamNotFound = KindStreamNotFound"
| "nats_kind NatsConsumerNotFound = KindConsumerNotFound"
| "nats_kind NatsPublish = KindPublish"
| "nats_kind NatsConsumer = KindConsumer"
| "nats_kind NatsAcknowledgement = KindAcknowledgement"
| "nats_kind NatsInvalidMessage = KindInvalidMessage"
| "nats_kind NatsQueryTimeout = KindQueryTimeout"
| "nats_kind NatsQuery = KindQuery"
| "nats_kind NatsFlush = KindFlush"
| "nats_kind NatsDrain = KindDrain"
| "nats_kind NatsDrainTimeout = KindDrain"
| "nats_kind NatsProvisioning = KindProvisioning"

definition server_version_validate :: "server_version \<Rightarrow> nats_error + unit" where
  "server_version_validate v =
     (if sv_major v < 1 \<or> sv_minor v < 0 \<or> sv_patch v < 0 then Inl NatsConfiguration else Inr ())"

section \<open>Stream names, subject filters and queue groups\<close>

definition max_stream_name_bytes :: nat where "max_stream_name_bytes = 255"
definition max_subject_filter_bytes :: nat where "max_subject_filter_bytes = 512"
definition max_queue_group_bytes :: nat where "max_queue_group_bytes = 255"

definition StreamName_new :: "string \<Rightarrow> nats_error + string" where
  "StreamName_new value =
     (if value = [] \<or> max_stream_name_bytes < length value \<or> \<not> is_ascii value
        \<or> list_ex (\<lambda>c. is_ascii_whitespace c \<or> is_ascii_control c
            \<or> c \<in> {CHR ''.'', CHR ''*'', CHR ''>''}) value
      then Inl NatsConfiguration else Inr value)"

definition SubjectFilter_new :: "string \<Rightarrow> nats_error + string" where
  "SubjectFilter_new value =
     (if value = [] \<or> max_subject_filter_bytes < length value \<or> \<not> is_ascii value
        \<or> list_ex (\<lambda>c. is_ascii_whitespace c \<or> is_ascii_control c) value
      then Inl NatsConfiguration
      else
        let tokens = split_char CHR ''.'' value; final_index = length tokens - 1 in
        if list_ex (\<lambda>token. token = []) tokens
          \<or> list_ex (\<lambda>(index, token).
              token = ''>'' \<and> index \<noteq> final_index
              \<or> CHR ''>'' \<in> set token \<and> token \<noteq> ''>''
              \<or> CHR ''*'' \<in> set token \<and> token \<noteq> ''*'') (enumerate 0 tokens)
        then Inl NatsConfiguration
        else Inr value)"

definition has_wildcards :: "string \<Rightarrow> bool" where
  "has_wildcards value \<longleftrightarrow> CHR ''*'' \<in> set value \<or> CHR ''>'' \<in> set value"

definition QueueGroup_new :: "string \<Rightarrow> nats_error + string" where
  "QueueGroup_new value =
     (if value = [] \<or> max_queue_group_bytes < length value \<or> \<not> is_ascii value
        \<or> \<not> list_all (\<lambda>c. is_ascii_alphanumeric c \<or> c \<in> {CHR ''-'', CHR ''_''}) value
      then Inl NatsConfiguration else Inr value)"

section \<open>Topologies\<close>

definition traffic_subject_prefix :: "string \<Rightarrow> traffic_scope \<Rightarrow> string" where
  "traffic_subject_prefix application scope =
     (case subject_segment scope of
        None \<Rightarrow> application
      | Some s \<Rightarrow> application @ ''.'' @ s)"

definition traffic_stream_prefix :: "string \<Rightarrow> traffic_scope \<Rightarrow> string" where
  "traffic_stream_prefix application scope =
     (let application =
        map (\<lambda>c. if c = CHR ''-'' then CHR ''_'' else ascii_uppercase c) application
      in case scope of
           NormalScope \<Rightarrow> application
         | TestScope \<Rightarrow> application @ ''__TEST'')"

record messaging_topology =
  tp_application :: string
  tp_traffic_scope :: traffic_scope
  tp_command :: string
  tp_command_response :: string
  tp_integration_event :: string
  tp_quarantine :: string

definition topology_with_command_response_stream_in_scope ::
  "string \<Rightarrow> traffic_scope \<Rightarrow> string \<Rightarrow> string \<Rightarrow> string \<Rightarrow> string \<Rightarrow> nats_error + messaging_topology" where
  "topology_with_command_response_stream_in_scope application scope command response integration
     quarantine =
     (if command = response \<or> command = integration \<or> command = quarantine
        \<or> response = integration \<or> response = quarantine \<or> integration = quarantine
      then Inl NatsConfiguration
      else Inr \<lparr>tp_application = application, tp_traffic_scope = scope, tp_command = command,
                tp_command_response = response, tp_integration_event = integration,
                tp_quarantine = quarantine\<rparr>)"

definition topology_new_in_scope ::
  "string \<Rightarrow> traffic_scope \<Rightarrow> string \<Rightarrow> string \<Rightarrow> string \<Rightarrow> nats_error + messaging_topology" where
  "topology_new_in_scope application scope command integration quarantine =
     rbind (StreamName_new (traffic_stream_prefix application scope @ ''_COMMAND_RESPONSES''))
       (\<lambda>response.
     topology_with_command_response_stream_in_scope application scope command response integration
       quarantine)"

definition topology_for_application_in_scope ::
  "string \<Rightarrow> traffic_scope \<Rightarrow> nats_error + messaging_topology" where
  "topology_for_application_in_scope application scope =
     (let prefix = traffic_stream_prefix application scope in
      rbind (StreamName_new (prefix @ ''_COMMANDS'')) (\<lambda>command.
      rbind (StreamName_new (prefix @ ''_COMMAND_RESPONSES'')) (\<lambda>response.
      rbind (StreamName_new (prefix @ ''_INTEGRATION_EVENTS'')) (\<lambda>integration.
      rbind (StreamName_new (prefix @ ''_QUARANTINE'')) (\<lambda>quarantine.
      topology_with_command_response_stream_in_scope application scope command response
        integration quarantine)))))"

definition stream_for :: "messaging_topology \<Rightarrow> address_kind \<Rightarrow> string option" where
  "stream_for t kind =
     (case kind of
        CommandKind \<Rightarrow> Some (tp_command t)
      | CommandResponseKind \<Rightarrow> Some (tp_command_response t)
      | IntegrationEventKind \<Rightarrow> Some (tp_integration_event t)
      | QueryKind \<Rightarrow> None)"

section \<open>The client library\<close>

text \<open>
  The configuration of a consumer: the fields the source sets or compares with a value of its own,
  and in \<open>cp_other\<close> those of the others that are not at their default, by name.
\<close>

datatype deliver_policy = DeliverAll | DeliverOther string
datatype ack_policy = AckExplicit | AckOther string

record consumer_policy =
  cp_durable_name :: "string option"
  cp_name :: "string option"
  cp_description :: "string option"
  cp_deliver_subject :: "string option"
  cp_deliver_policy :: deliver_policy
  cp_ack_policy :: ack_policy
  cp_ack_wait :: duration
  cp_max_deliver :: int
  cp_filter_subject :: string
  cp_max_ack_pending :: int
  cp_max_batch :: int
  cp_other :: "(string, string) fmap"

record consumer_state =
  cs_name :: string
  cs_config :: consumer_policy

text \<open>What is handed to \<open>send_publish\<close>, and what comes back within the time the caller allows.\<close>

record publish_message =
  pm_payload :: bytes
  pm_headers :: header_map
  pm_message_id :: string
  pm_expected_stream :: string
  pm_expected_last_subject_sequence :: "u64 option"

record publish_ack =
  pa_stream :: string
  pa_sequence :: u64
  pa_duplicate :: bool

datatype publish_code =
  CodeStreamMismatch | CodeStreamNotMatch | CodeStreamSequenceNotMatch
| CodeMessageExceedsMaximum | CodeOther nat

text \<open>The kind of a publish error, for \<open>Other\<close> with the code of the JetStream error under it.\<close>

datatype publish_error =
  PublishTimedOut | PublishWrongLastMessageId | PublishWrongLastSequence | PublishStreamNotFound
| PublishMaxPayloadExceeded | PublishBrokenPipe | PublishMaxAckPending
| PublishOther "publish_code option"

datatype published = PublishDeadline | PublishAnswer "publish_error + publish_ack"

datatype ack_kind = AckAck | AckNak "duration option" | AckProgress | AckTerm

text \<open>A message a consumer receives, with what its reply subject says of the delivery.\<close>

record received_info =
  ri_stream :: string
  ri_consumer :: string
  ri_stream_sequence :: u64
  ri_consumer_sequence :: u64
  ri_delivered :: int
  ri_pending :: u64

record received_message =
  rx_subject :: string
  rx_headers :: "header_map option"
  rx_payload :: bytes
  rx_info :: "string + received_info"

record 'w messaging =
  mg_get_stream :: "string \<Rightarrow> 'w \<Rightarrow> (stream_lookup_error + stream_info) \<times> 'w"
  mg_create_or_update_stream :: "stream_policy \<Rightarrow> 'w \<Rightarrow> (string + stream_info) \<times> 'w"
  mg_create_consumer :: "consumer_policy \<Rightarrow> string \<Rightarrow> 'w \<Rightarrow> (string + consumer_state) \<times> 'w"
  mg_get_consumer :: "string \<Rightarrow> string \<Rightarrow> 'w \<Rightarrow> (string + consumer_state) \<times> 'w"
  mg_publish :: "string \<Rightarrow> publish_message \<Rightarrow> duration \<Rightarrow> 'w \<Rightarrow> published \<times> 'w"
  mg_ack_with :: "received_message \<Rightarrow> ack_kind \<Rightarrow> 'w \<Rightarrow> (string + unit) \<times> 'w"
  mg_double_ack_with :: "received_message \<Rightarrow> ack_kind \<Rightarrow> 'w \<Rightarrow> (string + unit) \<times> 'w"

section \<open>Provisioning streams\<close>

definition default_stream_max_bytes :: int where
  "default_stream_max_bytes = 10 * 1024 * 1024 * 1024"
definition default_stream_max_age :: duration where "default_stream_max_age = from_hours 720"
definition default_stream_max_message_bytes :: int where
  "default_stream_max_message_bytes = 2 * 1024 * 1024"
definition default_duplicate_window :: duration where
  "default_duplicate_window = from_secs (2 * 60)"
definition source_stream_message_overhead_bytes :: nat where
  "source_stream_message_overhead_bytes = 64 * 1024"

datatype stream_retention = LimitsRetention | WorkQueueRetention | InterestRetention
datatype stream_storage = FileStorage | MemoryStorage

record stream_provisioning =
  pv_application :: string
  pv_traffic_scope :: traffic_scope
  pv_name :: string
  pv_subjects :: "string list"
  pv_description :: "string option"
  pv_retention :: stream_retention
  pv_storage :: stream_storage
  pv_max_bytes :: int
  pv_max_age :: duration
  pv_maximum_message_bytes :: int
  pv_duplicate_window :: duration
  pv_replicas :: nat

text \<open>\<open>tokens.next()\<close> of what is left of the tokens of a subject.\<close>

definition subject_in_scope :: "string \<Rightarrow> traffic_scope \<Rightarrow> string \<Rightarrow> bool" where
  "subject_in_scope application scope subject \<longleftrightarrow>
     (case split_char CHR ''.'' subject of
        [] \<Rightarrow> False
      | first # rest \<Rightarrow>
          first = application
          \<and> (case scope of
               NormalScope \<Rightarrow>
                 (case rest of [] \<Rightarrow> False | token # _ \<Rightarrow> token \<notin> {''test'', ''*'', ''>''})
             | TestScope \<Rightarrow>
                 (case rest of token # _ # _ \<Rightarrow> token = ''test'' | _ \<Rightarrow> False)))"

definition subjects_belong_to_scope :: "string \<Rightarrow> traffic_scope \<Rightarrow> string list \<Rightarrow> bool" where
  "subjects_belong_to_scope application scope subjects \<longleftrightarrow>
     subjects \<noteq> [] \<and> list_all (subject_in_scope application scope) subjects"

definition stream_provisioning_validate :: "stream_provisioning \<Rightarrow> nats_error + unit" where
  "stream_provisioning_validate c =
     (let description_is_invalid =
        (case pv_description c of
           None \<Rightarrow> False
         | Some description \<Rightarrow> 1024 < length description \<or> has_control description)
      in if pv_subjects c = []
           \<or> \<not> subjects_belong_to_scope (pv_application c) (pv_traffic_scope c) (pv_subjects c)
           \<or> description_is_invalid
           \<or> pv_maximum_message_bytes c \<le> 0
           \<or> pv_max_bytes c < pv_maximum_message_bytes c
           \<or> pv_max_age c = 0
           \<or> pv_duplicate_window c = 0
           \<or> pv_max_age c < pv_duplicate_window c
           \<or> \<not> (1 \<le> pv_replicas c \<and> pv_replicas c \<le> 5)
         then Inl NatsConfiguration else Inr ())"

definition stream_provisioning_new_in_scope ::
  "string \<Rightarrow> traffic_scope \<Rightarrow> string \<Rightarrow> string list \<Rightarrow> stream_retention \<Rightarrow>
   nats_error + stream_provisioning" where
  "stream_provisioning_new_in_scope application scope name subjects retention =
     (let config =
        \<lparr>pv_application = application, pv_traffic_scope = scope, pv_name = name,
         pv_subjects = subjects, pv_description = None, pv_retention = retention,
         pv_storage = FileStorage, pv_max_bytes = default_stream_max_bytes,
         pv_max_age = default_stream_max_age,
         pv_maximum_message_bytes = default_stream_max_message_bytes,
         pv_duplicate_window = default_duplicate_window, pv_replicas = 1\<rparr>
      in rbind (stream_provisioning_validate config) (\<lambda>_. Inr config))"

definition as_nats_config :: "stream_provisioning \<Rightarrow> nats_error + stream_policy" where
  "as_nats_config c =
     rbind (stream_provisioning_validate c) (\<lambda>_.
     Inr \<lparr>sp_name = pv_name c, sp_subjects = pv_subjects c,
          sp_retention =
            (case pv_retention c of
               LimitsRetention \<Rightarrow> RetentionLimits
             | WorkQueueRetention \<Rightarrow> RetentionWorkQueue
             | InterestRetention \<Rightarrow> RetentionInterest),
          sp_storage =
            (case pv_storage c of FileStorage \<Rightarrow> StorageFile | MemoryStorage \<Rightarrow> StorageMemory),
          sp_discard = DiscardNew, sp_max_age = pv_max_age c, sp_max_messages = - 1,
          sp_max_messages_per_subject = - 1, sp_max_bytes = pv_max_bytes c,
          sp_max_message_size = pv_maximum_message_bytes c, sp_max_consumers = - 1,
          sp_no_ack = False, sp_duplicate_window = pv_duplicate_window c,
          sp_num_replicas = pv_replicas c, sp_deny_delete = False, sp_deny_purge = False,
          sp_allow_rollup = False, sp_allow_atomic_publish = False,
          sp_discard_new_per_subject = False, sp_metadata = fmempty,
          sp_other =
            (case pv_description c of
               None \<Rightarrow> fmempty
             | Some description \<Rightarrow> fmupd ''description'' description fmempty)\<rparr>)"

record application_messaging =
  ap_topology :: messaging_topology
  ap_commands :: stream_provisioning
  ap_command_responses :: stream_provisioning
  ap_integration_events :: stream_provisioning
  ap_quarantine :: stream_provisioning

definition application_subject_filter ::
  "string \<Rightarrow> traffic_scope \<Rightarrow> string \<Rightarrow> nats_error + string" where
  "application_subject_filter application scope kind =
     SubjectFilter_new (traffic_subject_prefix application scope @ ''.'' @ kind @ ''.>'')"

definition application_messaging_new_in_scope ::
  "string \<Rightarrow> traffic_scope \<Rightarrow> nats_error + application_messaging" where
  "application_messaging_new_in_scope application scope =
     rbind (topology_for_application_in_scope application scope) (\<lambda>topology.
     rbind (ok_or NatsConfiguration (signed_try_from 32
         (max_message_payload_bytes + source_stream_message_overhead_bytes))) (\<lambda>source_maximum.
     rbind (application_subject_filter application scope ''command'') (\<lambda>subject.
     rbind (stream_provisioning_new_in_scope application scope (tp_command topology) [subject]
         WorkQueueRetention) (\<lambda>commands.
     rbind (application_subject_filter application scope ''command-response'') (\<lambda>subject.
     rbind (stream_provisioning_new_in_scope application scope (tp_command_response topology)
         [subject] LimitsRetention) (\<lambda>command_responses.
     rbind (application_subject_filter application scope ''integration'') (\<lambda>subject.
     rbind (stream_provisioning_new_in_scope application scope (tp_integration_event topology)
         [subject] LimitsRetention) (\<lambda>integration_events.
     rbind (application_subject_filter application scope ''quarantine'') (\<lambda>subject.
     rbind (stream_provisioning_new_in_scope application scope (tp_quarantine topology) [subject]
         LimitsRetention) (\<lambda>quarantine.
     Inr \<lparr>ap_topology = topology,
          ap_commands = commands\<lparr>pv_description := Some (application @ '' commands''),
            pv_maximum_message_bytes := source_maximum\<rparr>,
          ap_command_responses = command_responses\<lparr>
            pv_description := Some (application @ '' command responses''),
            pv_maximum_message_bytes := source_maximum\<rparr>,
          ap_integration_events = integration_events\<lparr>
            pv_description := Some (application @ '' integration events''),
            pv_maximum_message_bytes := source_maximum\<rparr>,
          ap_quarantine = quarantine\<lparr>
            pv_description := Some (application @ '' quarantined messages'')\<rparr>\<rparr>))))))))))"

definition application_streams :: "application_messaging \<Rightarrow> stream_provisioning list" where
  "application_streams c =
     [ap_commands c, ap_command_responses c, ap_integration_events c, ap_quarantine c]"

definition messaging_with_replicas ::
  "application_messaging \<Rightarrow> nat \<Rightarrow> nats_error + application_messaging" where
  "messaging_with_replicas c replicas =
     (let c = c\<lparr>ap_commands := (ap_commands c)\<lparr>pv_replicas := replicas\<rparr>,
                ap_command_responses := (ap_command_responses c)\<lparr>pv_replicas := replicas\<rparr>,
                ap_integration_events := (ap_integration_events c)\<lparr>pv_replicas := replicas\<rparr>,
                ap_quarantine := (ap_quarantine c)\<lparr>pv_replicas := replicas\<rparr>\<rparr>
      in rbind (for_each stream_provisioning_validate (application_streams c)) (\<lambda>_. Inr c))"

definition messaging_with_max_bytes ::
  "application_messaging \<Rightarrow> int \<Rightarrow> nats_error + application_messaging" where
  "messaging_with_max_bytes c max_bytes =
     (let c = c\<lparr>ap_commands := (ap_commands c)\<lparr>pv_max_bytes := max_bytes\<rparr>,
                ap_command_responses := (ap_command_responses c)\<lparr>pv_max_bytes := max_bytes\<rparr>,
                ap_integration_events := (ap_integration_events c)\<lparr>pv_max_bytes := max_bytes\<rparr>,
                ap_quarantine := (ap_quarantine c)\<lparr>pv_max_bytes := max_bytes\<rparr>\<rparr>
      in rbind (for_each stream_provisioning_validate (application_streams c)) (\<lambda>_. Inr c))"

definition check_existing_stream ::
  "stream_provisioning \<Rightarrow> stream_lookup_error + stream_info \<Rightarrow> nats_error + unit" where
  "check_existing_stream config found =
     (case found of
        Inr existing \<Rightarrow>
          rbind (collect_results SubjectFilter_new (sp_subjects (sn_config existing))) (\<lambda>subjects.
          if subjects_belong_to_scope (pv_application config) (pv_traffic_scope config) subjects
          then Inr () else Inl NatsConfiguration)
      | Inl error \<Rightarrow> if is_stream_not_found error then Inr () else Inl NatsProvisioning)"

definition provision_stream ::
  "'w messaging \<Rightarrow> stream_provisioning \<Rightarrow> ('w, nats_error, stream_info) async" where
  "provision_stream M config =
     async_match (mg_get_stream M (pv_name config)) (\<lambda>found.
     async_bind (async_of (check_existing_stream config found)) (\<lambda>_.
     async_bind (async_of (as_nats_config config)) (\<lambda>expected.
     async_bind (async_map_err (\<lambda>_. NatsProvisioning) (mg_create_or_update_stream M expected))
       (\<lambda>provisioned.
     if stream_config_mismatches expected (sn_config provisioned) \<noteq> []
     then async_err NatsConfiguration else async_ok provisioned))))"

definition provision_application_messaging ::
  "'w messaging \<Rightarrow> application_messaging \<Rightarrow> ('w, nats_error, unit) async" where
  "provision_application_messaging M config =
     async_each (\<lambda>stream. async_map (\<lambda>_. ()) (provision_stream M stream))
       (application_streams config)"

definition verify_application_messaging ::
  "'w messaging \<Rightarrow> application_messaging \<Rightarrow> ('w, nats_error, unit) async" where
  "verify_application_messaging M config =
     async_each (\<lambda>expected.
       async_bind (async_map_err (\<lambda>_. NatsStreamNotFound) (mg_get_stream M (pv_name expected)))
         (\<lambda>stream.
       async_bind (async_of (as_nats_config expected)) (\<lambda>expected.
       if stream_config_mismatches expected (sn_config stream) \<noteq> []
       then async_err NatsConfiguration else async_ok ())))
       (application_streams config)"

definition verify_stream :: "'w messaging \<Rightarrow> string \<Rightarrow> ('w, nats_error, unit) async" where
  "verify_stream M name =
     async_map (\<lambda>_. ()) (async_map_err (\<lambda>_. NatsStreamNotFound) (mg_get_stream M name))"

section \<open>Durable consumers\<close>

definition durable_consumer_config :: "consumer_config \<Rightarrow> nats_error + consumer_policy" where
  "durable_consumer_config config =
     rbind (ok_or NatsConfiguration (signed_try_from 64 (cf_shared_pending_limit config)))
       (\<lambda>max_ack_pending.
     rbind (ok_or NatsConfiguration
         (signed_try_from 64 (min (cf_shared_pending_limit config) max_concurrency))) (\<lambda>max_batch.
     Inr \<lparr>cp_durable_name = Some (cf_durable_name config), cp_name = Some (cf_durable_name config),
          cp_description = Some (cf_name config), cp_deliver_subject = None,
          cp_deliver_policy = DeliverAll, cp_ack_policy = AckExplicit,
          cp_ack_wait = cf_ack_wait config, cp_max_deliver = - 1,
          cp_filter_subject = publishable_as_str (cf_address config),
          cp_max_ack_pending = max_ack_pending, cp_max_batch = max_batch, cp_other = fmempty\<rparr>))"

definition in_topology :: "messaging_topology \<Rightarrow> publishable_address \<Rightarrow> bool" where
  "in_topology topology address \<longleftrightarrow>
     address_application (publishable_as_str address) = tp_application topology
     \<and> address_traffic_scope (publishable_as_str address) = tp_traffic_scope topology"

definition provision_durable_consumer ::
  "'w messaging \<Rightarrow> messaging_topology \<Rightarrow> consumer_config \<Rightarrow>
   ('w, nats_error, consumer_state) async" where
  "provision_durable_consumer M topology config =
     (if \<not> in_topology topology (cf_address config) then async_err NatsConfiguration
      else
        async_bind (async_of (ok_or NatsConfiguration
            (stream_for topology (publishable_kind (cf_address config))))) (\<lambda>stream_name.
        async_bind (async_of (durable_consumer_config config)) (\<lambda>expected.
        async_map_err (\<lambda>_. NatsProvisioning) (mg_create_consumer M expected stream_name))))"

end
