(* ===== verification/NatsConsumer.thy ===== *)
theory NatsConsumer
  imports NatsMessaging
begin

text \<open>
  Publishing and consuming messages on NATS: \<open>rostfrei-nats/src/publish.rs\<close> and \<open>consumer.rs\<close>. A
  consumer decodes a message it received, hands it to the handler under a time limit while telling
  the server that it is still at work, and settles the message by what the handler answered;
  messages that cannot be handled are published to the quarantine stream and terminated. SHA-256,
  base64, the JSON of a record and the order in which the library iterates over a header map are
  the fields of \<open>consumer_externals\<close>.
\<close>

section \<open>Publishing\<close>

definition CONTENT_TYPE_HEADER :: string where "CONTENT_TYPE_HEADER = ''Content-Type''"
definition JSON_CONTENT_TYPE :: string where "JSON_CONTENT_TYPE = ''application/json''"
definition CORRELATION_ID_HEADER :: string where
  "CORRELATION_ID_HEADER = ''rostfrei-Control-Correlation-Id''"
definition TRACE_PARENT_HEADER :: string where "TRACE_PARENT_HEADER = ''traceparent''"
definition TRACE_STATE_HEADER :: string where "TRACE_STATE_HEADER = ''tracestate''"
definition DEFAULT_PUBLISH_TIMEOUT :: duration where "DEFAULT_PUBLISH_TIMEOUT = from_secs 5"

record nats_publish_ack =
  na_stream :: string
  na_sequence :: u64
  na_duplicate :: bool

definition is_publish_expectation_error :: "publish_code option \<Rightarrow> bool" where
  "is_publish_expectation_error code \<longleftrightarrow>
     code \<in> {Some CodeStreamMismatch, Some CodeStreamNotMatch, Some CodeStreamSequenceNotMatch}"

definition is_message_too_large_error :: "publish_code option \<Rightarrow> bool" where
  "is_message_too_large_error code \<longleftrightarrow> code = Some CodeMessageExceedsMaximum"

definition classify_publish_error :: "publish_error \<Rightarrow> nats_error" where
  "classify_publish_error error =
     (case error of
        PublishTimedOut \<Rightarrow> NatsPublishTimeout
      | PublishWrongLastMessageId \<Rightarrow> NatsPublishExpectation
      | PublishWrongLastSequence \<Rightarrow> NatsPublishExpectation
      | PublishStreamNotFound \<Rightarrow> NatsStreamNotFound
      | PublishMaxPayloadExceeded \<Rightarrow> NatsMessageTooLarge
      | PublishOther code \<Rightarrow>
          if is_publish_expectation_error code then NatsPublishExpectation
          else if is_message_too_large_error code then NatsMessageTooLarge
          else NatsPublish
      | PublishBrokenPipe \<Rightarrow> NatsPublish
      | PublishMaxAckPending \<Rightarrow> NatsPublish)"

datatype core_publish_error_kind =
  CorePublishUnavailable | CorePublishRejected | CorePublishTimeout | CorePublishInvalidConfiguration

definition core_publish_error :: "nats_error \<Rightarrow> core_publish_error_kind" where
  "core_publish_error error =
     (case error of
        NatsConfiguration \<Rightarrow> CorePublishInvalidConfiguration
      | NatsPublishTimeout \<Rightarrow> CorePublishTimeout
      | NatsPayloadTooLarge _ _ \<Rightarrow> CorePublishRejected
      | NatsMessageTooLarge \<Rightarrow> CorePublishRejected
      | NatsPublishExpectation \<Rightarrow> CorePublishRejected
      | NatsIdentityConflict \<Rightarrow> CorePublishRejected
      | NatsInvalidMessage \<Rightarrow> CorePublishRejected
      | _ \<Rightarrow> CorePublishUnavailable)"

definition safe_headers :: "caller_metadata \<Rightarrow> trace_context option \<Rightarrow> header_map" where
  "safe_headers metadata trace =
     (let headers =
        foldl (\<lambda>headers (name, value). header_insert name value headers) fmempty
          (metadata_entries metadata)
      in case trace of
           None \<Rightarrow> headers
         | Some trace \<Rightarrow>
             let headers = header_insert TRACE_PARENT_HEADER (tc_trace_parent trace) headers
             in case tc_trace_state trace of
                  None \<Rightarrow> headers
                | Some state \<Rightarrow> header_insert TRACE_STATE_HEADER state headers)"

definition publish_confirmed ::
  "'w messaging \<Rightarrow> string \<Rightarrow> bytes \<Rightarrow> string \<Rightarrow> string \<Rightarrow> header_map \<Rightarrow> duration \<Rightarrow>
   ('w, nats_error, nats_publish_ack) async" where
  "publish_confirmed M subject payload message_id expected_stream headers publish_timeout =
     (if publish_timeout = 0 then async_err NatsConfiguration
      else
        let publish =
          \<lparr>pm_payload = payload,
           pm_headers = header_insert CONTENT_TYPE_HEADER JSON_CONTENT_TYPE headers,
           pm_message_id = message_id, pm_expected_stream = expected_stream,
           pm_expected_last_subject_sequence = None\<rparr>
        in (\<lambda>w. case mg_publish M subject publish publish_timeout w of
              (PublishDeadline, w) \<Rightarrow> (Inl NatsPublishTimeout, w)
            | (PublishAnswer (Inl e), w) \<Rightarrow> (Inl (classify_publish_error e), w)
            | (PublishAnswer (Inr ack), w) \<Rightarrow>
                if pa_stream ack \<noteq> expected_stream \<or> pa_sequence ack = 0
                then (Inl NatsPublishExpectation, w)
                else (Inr \<lparr>na_stream = expected_stream, na_sequence = pa_sequence ack,
                           na_duplicate = pa_duplicate ack\<rparr>, w)))"

record nats_publisher =
  np_topology :: messaging_topology
  np_publish_timeout :: duration

definition nats_publisher_new :: "messaging_topology \<Rightarrow> nats_publisher" where
  "nats_publisher_new topology =
     \<lparr>np_topology = topology, np_publish_timeout = DEFAULT_PUBLISH_TIMEOUT\<rparr>"

definition with_publish_timeout :: "nats_publisher \<Rightarrow> duration \<Rightarrow> nats_error + nats_publisher" where
  "with_publish_timeout p publish_timeout =
     (if publish_timeout = 0 then Inl NatsConfiguration
      else Inr (p\<lparr>np_publish_timeout := publish_timeout\<rparr>))"

definition publish_headers :: "publishable_address outbound_message \<Rightarrow> header_map" where
  "publish_headers message =
     (let headers = safe_headers (ob_metadata message) (ob_trace_context message)
      in case ob_correlation_id message of
           None \<Rightarrow> headers
         | Some correlation_id \<Rightarrow> header_insert CORRELATION_ID_HEADER correlation_id headers)"

definition publish_with_ack ::
  "'w messaging \<Rightarrow> nats_publisher \<Rightarrow> publishable_address outbound_message \<Rightarrow> string \<Rightarrow> duration \<Rightarrow>
   ('w, nats_error, nats_publish_ack) async" where
  "publish_with_ack M p message expected_stream publish_timeout =
     (if \<not> in_topology (np_topology p) (ob_address message) then async_err NatsInvalidMessage
      else
        publish_confirmed M (publishable_as_str (ob_address message)) (ob_payload message)
          (ob_message_id message) expected_stream (publish_headers message) publish_timeout)"

definition publish_command ::
  "'w messaging \<Rightarrow> nats_publisher \<Rightarrow> command_address outbound_message \<Rightarrow>
   ('w, core_publish_error_kind, bool) async" where
  "publish_command M p message =
     async_map na_duplicate (async_map_err core_publish_error
       (publish_with_ack M p
         \<lparr>ob_address = PublishCommand (ob_address message), ob_message_id = ob_message_id message,
          ob_payload = ob_payload message, ob_metadata = ob_metadata message,
          ob_correlation_id = ob_correlation_id message,
          ob_trace_context = ob_trace_context message\<rparr>
         (tp_command (np_topology p)) (np_publish_timeout p)))"

definition publish_integration_event ::
  "'w messaging \<Rightarrow> nats_publisher \<Rightarrow> integration_event_address outbound_message \<Rightarrow>
   ('w, core_publish_error_kind, bool) async" where
  "publish_integration_event M p message =
     async_map na_duplicate (async_map_err core_publish_error
       (publish_with_ack M p
         \<lparr>ob_address = PublishIntegrationEvent (ob_address message),
          ob_message_id = ob_message_id message, ob_payload = ob_payload message,
          ob_metadata = ob_metadata message, ob_correlation_id = ob_correlation_id message,
          ob_trace_context = ob_trace_context message\<rparr>
         (tp_integration_event (np_topology p)) (np_publish_timeout p)))"

section \<open>Decoding deliveries\<close>

datatype consume_error_kind =
  ConsumeInvalidConfiguration | ConsumeUnavailable | ConsumeDisposition | ConsumeQuarantine
| ConsumeEnded

datatype quarantine_failure_kind =
  InvalidSourceMessage | DeliveryAttemptsExhausted | HandlerFailure

record quarantine_record =
  qr_message_id :: string
  qr_address :: string
  qr_payload_base64 :: string
  qr_payload_size :: "nat option"
  qr_payload_sha256 :: "string option"
  qr_payload_truncated :: bool
  qr_metadata :: caller_metadata
  qr_trace_context :: "trace_context option"
  qr_correlation_id :: "correlation_id option"
  qr_failure_kind :: "quarantine_failure_kind option"
  qr_reason :: string
  qr_attempt :: u32
  qr_pending :: u64
  qr_source_sequence :: u64
  qr_consumer_sequence :: u64
  qr_source_stream :: string
  qr_source_consumer :: string

record consumer_externals =
  ce_sha :: "bytes \<Rightarrow> bytes"
  ce_base64_encode :: "bytes \<Rightarrow> string"
  ce_record_to_vec :: "quarantine_record \<Rightarrow> string + bytes"
  ce_header_entries :: "header_map \<Rightarrow> (string \<times> string list) list"

definition single_header :: "header_map \<Rightarrow> string \<Rightarrow> nats_error + string option" where
  "single_header headers name =
     (case header_get_all headers name of
        [] \<Rightarrow> Inr None
      | [v] \<Rightarrow> Inr (Some v)
      | _ \<Rightarrow> Inl NatsInvalidMessage)"

definition is_control_header :: "string \<Rightarrow> bool" where
  "is_control_header name \<longleftrightarrow>
     (let name = to_ascii_lowercase name in
      name = ''content-type'' \<or> name = ''reply'' \<or> name = ''reply-to'' \<or> name = ''reply-subject''
      \<or> name = TRACE_PARENT_HEADER \<or> name = TRACE_STATE_HEADER
      \<or> starts_with name ''nats-'' \<or> starts_with name ''rostfrei-control-'')"

fun collect_metadata ::
  "caller_metadata \<Rightarrow> (string \<times> string list) list \<Rightarrow> nats_error + caller_metadata" where
  "collect_metadata metadata [] = Inr metadata"
| "collect_metadata metadata ((name, values) # entries) =
     (if is_control_header name then collect_metadata metadata entries
      else
        case values of
          [value] \<Rightarrow>
            (case metadata_insert metadata name value of
               (Inl _, _) \<Rightarrow> Inl NatsInvalidMessage
             | (Inr _, metadata) \<Rightarrow> collect_metadata metadata entries)
        | _ \<Rightarrow> Inl NatsInvalidMessage)"

definition caller_metadata_of :: "consumer_externals \<Rightarrow> header_map \<Rightarrow> nats_error + caller_metadata" where
  "caller_metadata_of X headers = collect_metadata fmempty (ce_header_entries X headers)"

definition trace_context_of :: "header_map \<Rightarrow> nats_error + trace_context option" where
  "trace_context_of headers =
     rbind (single_header headers TRACE_PARENT_HEADER) (\<lambda>trace_parent.
     rbind (single_header headers TRACE_STATE_HEADER) (\<lambda>trace_state.
     case (trace_parent, trace_state) of
       (None, None) \<Rightarrow> Inr None
     | (Some parent, state) \<Rightarrow>
         map_ok Some (map_err (\<lambda>_. NatsInvalidMessage) (trace_from_parts parent state))
     | (None, Some _) \<Rightarrow> Inl NatsInvalidMessage))"

text \<open>The trait \<open>ConsumableAddress\<close>: each of the three address types parses a subject as its own.\<close>

fun parse_nats :: "address_kind \<Rightarrow> string \<Rightarrow> nats_error + publishable_address" where
  "parse_nats CommandKind value =
     map_ok PublishCommand (map_err (\<lambda>_. NatsInvalidMessage) (CommandAddress_parse value))"
| "parse_nats CommandResponseKind value =
     map_ok PublishCommandResponse
       (map_err (\<lambda>_. NatsInvalidMessage) (CommandResponseAddress_parse value))"
| "parse_nats IntegrationEventKind value =
     map_ok PublishIntegrationEvent
       (map_err (\<lambda>_. NatsInvalidMessage) (IntegrationEventAddress_parse value))"
| "parse_nats QueryKind value = Inl NatsInvalidMessage"

definition decode_delivery ::
  "consumer_externals \<Rightarrow> received_message \<Rightarrow> Delivery.delivery_info \<Rightarrow> publishable_address \<Rightarrow>
   nats_error + message_delivery" where
  "decode_delivery X message info expected_address =
     rbind (ok_or NatsInvalidMessage (rx_headers message)) (\<lambda>headers.
     rbind (single_header headers CONTENT_TYPE_HEADER) (\<lambda>content_type.
     if content_type \<noteq> Some JSON_CONTENT_TYPE then Inl NatsInvalidMessage
     else
       rbind (single_header headers ''Nats-Msg-Id'') (\<lambda>value.
       rbind (ok_or NatsInvalidMessage value) (\<lambda>value.
       rbind (map_err (\<lambda>_. NatsInvalidMessage) (MessageId_new value)) (\<lambda>message_id.
       rbind (caller_metadata_of X headers) (\<lambda>metadata.
       rbind (single_header headers CORRELATION_ID_HEADER) (\<lambda>value.
       rbind (map_err (\<lambda>_. NatsInvalidMessage) (optional_new CorrelationId_new value))
         (\<lambda>correlation_id.
       rbind (trace_context_of headers) (\<lambda>trace.
       rbind (parse_nats (publishable_kind expected_address) (rx_subject message)) (\<lambda>address.
       if address \<noteq> expected_address then Inl NatsInvalidMessage
       else
         map_err (\<lambda>_. NatsInvalidMessage)
           (delivery_with_transport_context address message_id (rx_payload message) metadata
             correlation_id trace info)))))))))))"

section \<open>Quarantine records\<close>

definition max_quarantine_record_bytes :: nat where
  "max_quarantine_record_bytes = 2 * 1024 * 1024"
definition default_quarantine_retry_delay :: duration where
  "default_quarantine_retry_delay = from_secs 1"
definition max_quarantine_payload_prefix_bytes :: nat where
  "max_quarantine_payload_prefix_bytes = 16 * 1024"
definition max_quarantine_payload_prefix_base64_bytes :: nat where
  "max_quarantine_payload_prefix_base64_bytes = (max_quarantine_payload_prefix_bytes div 3) * 4"

definition sha256_hex :: "consumer_externals \<Rightarrow> bytes \<Rightarrow> string" where
  "sha256_hex X payload = encode_lower_hex (ce_sha X payload)"

definition quarantine_record_of ::
  "consumer_externals \<Rightarrow> message_delivery \<Rightarrow> string \<Rightarrow> string \<Rightarrow> string \<Rightarrow> quarantine_failure_kind \<Rightarrow>
   quarantine_record" where
  "quarantine_record_of X delivery source_stream source_consumer reason failure_kind =
     \<lparr>qr_message_id = dl_message_id delivery,
      qr_address = publishable_as_str (dl_address delivery),
      qr_payload_base64 = ce_base64_encode X (dl_payload delivery),
      qr_payload_size = Some (length (dl_payload delivery)),
      qr_payload_sha256 = Some (sha256_hex X (dl_payload delivery)),
      qr_payload_truncated = False,
      qr_metadata = dl_metadata delivery,
      qr_trace_context = dl_trace_context delivery,
      qr_correlation_id = dl_correlation_id delivery,
      qr_failure_kind = Some failure_kind,
      qr_reason = reason,
      qr_attempt = di_attempt (dl_info delivery),
      qr_pending = di_pending (dl_info delivery),
      qr_source_sequence = di_source_sequence (dl_info delivery),
      qr_consumer_sequence = di_consumer_sequence (dl_info delivery),
      qr_source_stream = source_stream,
      qr_source_consumer = source_consumer\<rparr>"

text \<open>\<open>ok().flatten()\<close>, and a value that is kept when its constructor accepts it.\<close>

definition ok_flatten :: "'e + 'a option \<Rightarrow> 'a option" where
  "ok_flatten r = (case r of Inl _ \<Rightarrow> None | Inr v \<Rightarrow> v)"

definition ok_option :: "'e + 'a \<Rightarrow> 'a option" where
  "ok_option r = (case r of Inl _ \<Rightarrow> None | Inr v \<Rightarrow> Some v)"

definition raw_quarantine_record ::
  "consumer_externals \<Rightarrow> received_message \<Rightarrow> Delivery.delivery_info \<Rightarrow> string \<Rightarrow> string \<Rightarrow> string \<Rightarrow>
   quarantine_record" where
  "raw_quarantine_record X message info source_stream source_consumer reason =
     (let headers = rx_headers message in
      \<lparr>qr_message_id =
         (case Option.bind (Option.bind headers (\<lambda>h. ok_flatten (single_header h ''Nats-Msg-Id'')))
                 (\<lambda>value. ok_option (MessageId_new value)) of
            None \<Rightarrow> ''missing-or-invalid''
          | Some value \<Rightarrow> value),
       qr_address = rx_subject message,
       qr_payload_base64 = ce_base64_encode X (rx_payload message),
       qr_payload_size = Some (length (rx_payload message)),
       qr_payload_sha256 = Some (sha256_hex X (rx_payload message)),
       qr_payload_truncated = False,
       qr_metadata =
         (case Option.bind headers (\<lambda>h. ok_option (caller_metadata_of X h)) of
            None \<Rightarrow> fmempty
          | Some metadata \<Rightarrow> metadata),
       qr_trace_context = Option.bind headers (\<lambda>h. ok_flatten (trace_context_of h)),
       qr_correlation_id =
         Option.bind
           (Option.bind headers (\<lambda>h. ok_flatten (single_header h CORRELATION_ID_HEADER)))
           (\<lambda>value. ok_option (CorrelationId_new value)),
       qr_failure_kind = Some InvalidSourceMessage,
       qr_reason = reason,
       qr_attempt = di_attempt info,
       qr_pending = di_pending info,
       qr_source_sequence = di_source_sequence info,
       qr_consumer_sequence = di_consumer_sequence info,
       qr_source_stream = source_stream,
       qr_source_consumer = source_consumer\<rparr>)"

definition truncated_record :: "quarantine_record \<Rightarrow> quarantine_record" where
  "truncated_record r =
     r\<lparr>qr_payload_base64 :=
         take max_quarantine_payload_prefix_base64_bytes (qr_payload_base64 r),
       qr_payload_truncated := True\<rparr>"

definition encode_quarantine_record ::
  "consumer_externals \<Rightarrow> quarantine_record \<Rightarrow> nats_error + bytes" where
  "encode_quarantine_record X r =
     rbind (map_err (\<lambda>_. NatsSerialization) (ce_record_to_vec X r)) (\<lambda>payload.
     if length payload \<le> max_quarantine_record_bytes then Inr payload
     else
       rbind (map_err (\<lambda>_. NatsSerialization) (ce_record_to_vec X (truncated_record r)))
         (\<lambda>payload.
       if max_quarantine_record_bytes < length payload then
         Inl (NatsPayloadTooLarge (length payload) max_quarantine_record_bytes)
       else Inr payload))"

definition quarantine_subject :: "string \<Rightarrow> nats_error + string" where
  "quarantine_subject address =
     rbind (map_err (\<lambda>_. NatsInvalidMessage) (MessageAddress_parse address)) (\<lambda>parsed.
     let a = message_as_str parsed;
         scope = (case subject_segment (address_traffic_scope a) of
                    None \<Rightarrow> [] | Some scope \<Rightarrow> ''.'' @ scope)
     in Inr (address_application a @ scope @ ''.quarantine.'' @ kind_segment (message_kind parsed)
          @ ''.'' @ address_context a @ ''.'' @ address_name a))"

text \<open>What the hash of an identity is fed.\<close>

definition quarantine_identity_bytes :: "quarantine_record \<Rightarrow> bytes" where
  "quarantine_identity_bytes r =
     str_bytes (qr_source_stream r) @ [0] @ str_bytes (qr_source_consumer r) @ [0]
       @ be_bytes 8 (unat (qr_source_sequence r))"

definition quarantine_message_id :: "consumer_externals \<Rightarrow> quarantine_record \<Rightarrow> string" where
  "quarantine_message_id X r =
     ''quarantine-'' @ encode_lower_hex (ce_sha X (quarantine_identity_bytes r))"

definition publish_quarantine ::
  "consumer_externals \<Rightarrow> 'w messaging \<Rightarrow> string \<Rightarrow> duration \<Rightarrow> quarantine_record \<Rightarrow>
   ('w, nats_error, unit) async" where
  "publish_quarantine X M quarantine_stream publish_timeout r =
     async_bind (async_of (encode_quarantine_record X r)) (\<lambda>payload.
     async_bind (async_of (quarantine_subject (qr_address r))) (\<lambda>subject.
     async_map (\<lambda>_. ())
       (publish_confirmed M subject payload (quarantine_message_id X r) quarantine_stream
         (safe_headers fmempty (qr_trace_context r)) publish_timeout)))"

section \<open>Settling messages\<close>

definition apply_ack ::
  "'w messaging \<Rightarrow> received_message \<Rightarrow> ack_kind \<Rightarrow> ('w, consume_error_kind, unit) async" where
  "apply_ack M message kind =
     async_map_err (\<lambda>_. ConsumeDisposition) (mg_double_ack_with M message kind)"

definition send_progress ::
  "'w messaging \<Rightarrow> received_message \<Rightarrow> ('w, consume_error_kind, unit) async" where
  "send_progress M message =
     async_map_err (\<lambda>_. ConsumeDisposition) (mg_ack_with M message AckProgress)"

definition quarantine_retry_available :: "u32 \<Rightarrow> u32 \<Rightarrow> bool" where
  "quarantine_retry_available attempt maximum \<longleftrightarrow> attempt < maximum"

definition quarantine_or_nak ::
  "consumer_externals \<Rightarrow> 'w messaging \<Rightarrow> string \<Rightarrow> duration \<Rightarrow> received_message \<Rightarrow> quarantine_record \<Rightarrow>
   u32 \<Rightarrow> u32 \<Rightarrow> ('w, consume_error_kind, unit) async" where
  "quarantine_or_nak X M quarantine_stream publish_timeout source r attempt maximum =
     async_match (publish_quarantine X M quarantine_stream publish_timeout r) (\<lambda>published.
     if is_err published then
       if quarantine_retry_available attempt maximum then
         apply_ack M source (AckNak (Some default_quarantine_retry_delay))
       else async_err ConsumeQuarantine
     else apply_ack M source AckTerm)"

text \<open>
  The handler and the timers it runs under. A call of \<open>hd_select\<close> is one turn of the \<open>select!\<close>: it
  runs the handler on, under the time limit of its processing, until it answers, the limit has
  passed or the timer for the next sign of progress fires. \<open>hd_next_progress\<close> says whether that
  timer can be set again.
\<close>

datatype handling = HandlerAnswered delivery_disposition | HandlerElapsed | ProgressDue

record 'w message_handler =
  hd_select :: "message_delivery \<Rightarrow> duration \<Rightarrow> duration \<Rightarrow> 'w \<Rightarrow> handling \<times> 'w"
  hd_next_progress :: "duration \<Rightarrow> 'w \<Rightarrow> bool \<times> 'w"

fun handling_loop ::
  "nat \<Rightarrow> 'w messaging \<Rightarrow> 'w message_handler \<Rightarrow> consumer_config \<Rightarrow> received_message \<Rightarrow>
   message_delivery \<Rightarrow> 'w \<Rightarrow> ((consume_error_kind + delivery_disposition option) \<times> 'w) option" where
  "handling_loop 0 M H config message delivery w = None"
| "handling_loop (Suc fuel) M H config message delivery w =
     (let interval = cf_ack_wait config div 2 in
      case hd_select H delivery (cf_processing_timeout config) interval w of
        (HandlerAnswered disposition, w) \<Rightarrow>
          Some (async_map (\<lambda>_. Some disposition) (send_progress M message) w)
      | (HandlerElapsed, w) \<Rightarrow> Some (async_map (\<lambda>_. None) (send_progress M message) w)
      | (ProgressDue, w) \<Rightarrow>
          (case send_progress M message w of
             (Inl e, w) \<Rightarrow> Some (Inl e, w)
           | (Inr _, w) \<Rightarrow>
               (case hd_next_progress H interval w of
                  (False, w) \<Rightarrow> Some (Inl ConsumeUnavailable, w)
                | (True, w) \<Rightarrow> handling_loop fuel M H config message delivery w)))"

definition handle_with_progress ::
  "nat \<Rightarrow> 'w messaging \<Rightarrow> 'w message_handler \<Rightarrow> consumer_config \<Rightarrow> received_message \<Rightarrow>
   message_delivery \<Rightarrow> 'w \<Rightarrow> ((consume_error_kind + delivery_disposition option) \<times> 'w) option" where
  "handle_with_progress fuel M H config message delivery w =
     (case send_progress M message w of
        (Inl e, w) \<Rightarrow> Some (Inl e, w)
      | (Inr _, w) \<Rightarrow> handling_loop fuel M H config message delivery w)"

definition apply_disposition ::
  "consumer_externals \<Rightarrow> 'w messaging \<Rightarrow> string \<Rightarrow> string \<Rightarrow> duration \<Rightarrow> consumer_config \<Rightarrow>
   received_message \<Rightarrow> message_delivery \<Rightarrow> delivery_disposition option \<Rightarrow>
   ('w, consume_error_kind, unit) async" where
  "apply_disposition X M source_stream quarantine_stream publish_timeout config message delivery
     disposition =
     (let attempt = di_attempt (dl_info delivery);
          maximum = cf_maximum_delivery_attempts config;
          exhausted =
            (if attempt < maximum then
               apply_ack M message (AckNak (Some default_quarantine_retry_delay))
             else
               quarantine_or_nak X M quarantine_stream publish_timeout message
                 (quarantine_record_of X delivery source_stream (cf_durable_name config)
                   ''maximum delivery attempts exceeded'' DeliveryAttemptsExhausted)
                 attempt maximum)
      in case disposition of
           Some Acknowledge \<Rightarrow> apply_ack M message AckAck
         | Some Terminate \<Rightarrow> apply_ack M message AckTerm
         | Some (RetryLater delay) \<Rightarrow>
             if attempt < maximum then apply_ack M message (AckNak (Some delay)) else exhausted
         | None \<Rightarrow> exhausted
         | Some (Quarantine reason) \<Rightarrow>
             quarantine_or_nak X M quarantine_stream publish_timeout message
               (quarantine_record_of X delivery source_stream (cf_durable_name config) reason
                 HandlerFailure)
               attempt maximum)"

text \<open>\<open>u32::try_from\<close> of the count of deliveries, which must be positive.\<close>

definition delivery_attempt :: "int \<Rightarrow> consume_error_kind + u32" where
  "delivery_attempt delivered =
     (if 0 < delivered \<and> delivered < 2 ^ 32 then Inr (word_of_int delivered)
      else Inl ConsumeUnavailable)"

definition received_delivery_info ::
  "received_info \<Rightarrow> consume_error_kind + Delivery.delivery_info" where
  "received_delivery_info raw =
     rbind (delivery_attempt (ri_delivered raw)) (\<lambda>attempt.
     map_err (\<lambda>_. ConsumeUnavailable)
       (delivery_info_new attempt (ri_pending raw) (ri_stream_sequence raw)
         (ri_consumer_sequence raw)))"

definition process_message ::
  "nat \<Rightarrow> consumer_externals \<Rightarrow> 'w messaging \<Rightarrow> string \<Rightarrow> string \<Rightarrow> duration \<Rightarrow> consumer_config \<Rightarrow>
   'w message_handler \<Rightarrow> received_message \<Rightarrow> 'w \<Rightarrow> ((consume_error_kind + unit) \<times> 'w) option" where
  "process_message fuel X M source_stream quarantine_stream publish_timeout config H message w =
     (case rx_info message of
        Inl _ \<Rightarrow> Some (Inl ConsumeUnavailable, w)
      | Inr raw \<Rightarrow>
          if ri_stream raw \<noteq> source_stream \<or> ri_consumer raw \<noteq> cf_durable_name config
             \<or> rx_subject message \<noteq> publishable_as_str (cf_address config) then
            Some (apply_ack M message (AckNak (Some default_quarantine_retry_delay)) w)
          else
            (case received_delivery_info raw of
               Inl e \<Rightarrow> Some (Inl e, w)
             | Inr info \<Rightarrow>
                 let attempt = di_attempt info; maximum = cf_maximum_delivery_attempts config in
                 (case decode_delivery X message info (cf_address config) of
                    Inl _ \<Rightarrow>
                      Some (quarantine_or_nak X M quarantine_stream publish_timeout message
                        (raw_quarantine_record X message info source_stream
                          (cf_durable_name config) ''invalid source message'') attempt maximum w)
                  | Inr delivery \<Rightarrow>
                      if maximum < attempt then
                        Some (quarantine_or_nak X M quarantine_stream publish_timeout message
                          (quarantine_record_of X delivery source_stream (cf_durable_name config)
                            ''maximum delivery attempts exceeded'' DeliveryAttemptsExhausted)
                          attempt maximum w)
                      else
                        (case handle_with_progress fuel M H config message delivery w of
                           None \<Rightarrow> None
                         | Some (Inl e, w) \<Rightarrow> Some (Inl e, w)
                         | Some (Inr disposition, w) \<Rightarrow>
                             Some (apply_disposition X M source_stream quarantine_stream
                               publish_timeout config message delivery disposition w)))))"

definition process_integration_message ::
  "nat \<Rightarrow> consumer_externals \<Rightarrow> 'w messaging \<Rightarrow> messaging_topology \<Rightarrow> consumer_config \<Rightarrow>
   'w message_handler \<Rightarrow> received_message \<Rightarrow> 'w \<Rightarrow> ((consume_error_kind + unit) \<times> 'w) option" where
  "process_integration_message fuel X M topology config H message w =
     process_message fuel X M (tp_integration_event topology) (tp_quarantine topology)
       DEFAULT_PUBLISH_TIMEOUT config H message w"

section \<open>Consumers\<close>

definition compared_consumer_fields :: "string list" where
  "compared_consumer_fields =
     [''filter_subjects'', ''headers_only'', ''max_bytes'', ''max_expires'', ''inactive_threshold'',
      ''num_replicas'', ''memory_storage'', ''backoff'', ''replay_policy'', ''rate_limit'',
      ''priority_policy'', ''priority_groups'']"

definition verify_consumer_settings ::
  "string \<Rightarrow> consumer_policy \<Rightarrow> consumer_policy \<Rightarrow> consume_error_kind + unit" where
  "verify_consumer_settings name actual expected =
     (if cp_durable_name expected \<noteq> Some name
        \<or> cp_deliver_subject actual \<noteq> None
        \<or> cp_durable_name actual \<noteq> cp_durable_name expected
        \<or> cp_deliver_policy actual \<noteq> DeliverAll
        \<or> cp_ack_policy actual \<noteq> AckExplicit
        \<or> cp_ack_wait actual \<noteq> cp_ack_wait expected
        \<or> cp_max_deliver actual \<noteq> - 1
        \<or> cp_filter_subject actual \<noteq> cp_filter_subject expected
        \<or> cp_max_ack_pending actual \<noteq> cp_max_ack_pending expected
        \<or> cp_max_batch actual \<noteq> cp_max_batch expected
        \<or> list_ex (\<lambda>field. fmlookup (cp_other actual) field \<noteq> fmlookup (cp_other expected) field)
            compared_consumer_fields
      then Inl ConsumeInvalidConfiguration else Inr ())"

definition verify_consumer_config ::
  "string \<Rightarrow> consumer_policy \<Rightarrow> consumer_config \<Rightarrow> consume_error_kind + unit" where
  "verify_consumer_config name actual config =
     rbind (map_err (\<lambda>_. ConsumeInvalidConfiguration) (durable_consumer_config config))
       (\<lambda>expected. verify_consumer_settings name actual expected)"

record nats_consumer =
  nm_source_stream :: string
  nm_quarantine_stream :: string
  nm_quarantine_publish_timeout :: duration
  nm_config :: consumer_config

record consumer_factory =
  fc_topology :: messaging_topology
  fc_quarantine_publish_timeout :: duration

definition consumer_factory_new :: "messaging_topology \<Rightarrow> consumer_factory" where
  "consumer_factory_new topology =
     \<lparr>fc_topology = topology, fc_quarantine_publish_timeout = DEFAULT_PUBLISH_TIMEOUT\<rparr>"

definition with_quarantine_publish_timeout ::
  "consumer_factory \<Rightarrow> duration \<Rightarrow> nats_error + consumer_factory" where
  "with_quarantine_publish_timeout f timeout =
     (if timeout = 0 then Inl NatsConfiguration
      else Inr (f\<lparr>fc_quarantine_publish_timeout := timeout\<rparr>))"

definition create_consumer ::
  "consumer_factory \<Rightarrow> consumer_config \<Rightarrow> consume_error_kind + nats_consumer" where
  "create_consumer f config =
     (if \<not> in_topology (fc_topology f) (cf_address config) then Inl ConsumeInvalidConfiguration
      else
        rbind (ok_or ConsumeInvalidConfiguration
            (signed_try_from 64 (cf_shared_pending_limit config))) (\<lambda>_.
        rbind (ok_or ConsumeInvalidConfiguration
            (stream_for (fc_topology f) (publishable_kind (cf_address config)))) (\<lambda>source_stream.
        Inr \<lparr>nm_source_stream = source_stream,
             nm_quarantine_stream = tp_quarantine (fc_topology f),
             nm_quarantine_publish_timeout = fc_quarantine_publish_timeout f,
             nm_config = config\<rparr>)))"

text \<open>
  What a consumer verifies of its durable before it receives anything, on its own and at the start
  of \<open>run\<close>.
\<close>

definition open_consumer ::
  "'w messaging \<Rightarrow> string \<Rightarrow> consumer_config \<Rightarrow> ('w, consume_error_kind, consumer_state) async" where
  "open_consumer M source_stream config =
     async_bind (async_map_err (\<lambda>_. ConsumeUnavailable) (mg_get_stream M source_stream)) (\<lambda>_.
     async_bind (async_map_err (\<lambda>_. ConsumeUnavailable)
         (mg_get_consumer M source_stream (cf_durable_name config))) (\<lambda>consumer.
     async_bind (async_of (verify_consumer_config (cs_name consumer) (cs_config consumer) config))
       (\<lambda>_. async_ok consumer)))"

definition factory_verify_consumer ::
  "'w messaging \<Rightarrow> consumer_factory \<Rightarrow> consumer_config \<Rightarrow> ('w, consume_error_kind, unit) async" where
  "factory_verify_consumer M f config =
     (if \<not> in_topology (fc_topology f) (cf_address config)
      then async_err ConsumeInvalidConfiguration
      else
        async_bind (async_of (ok_or ConsumeInvalidConfiguration
            (stream_for (fc_topology f) (publishable_kind (cf_address config))))) (\<lambda>source_stream.
        async_map (\<lambda>_. ()) (open_consumer M source_stream config)))"

end
