(* ===== verification/NatsSettlement.thy ===== *)
theory NatsSettlement
  imports NatsConsumer
begin

text \<open>
  What a consumer does with one message, read off a log of its effects. The calls of the client
  library and of the handler are wrapped so that every answer of the handler, every publication and
  every settlement of a message is recorded; the wrapped run answers as the run it records. The
  lemmas bound the effects of each function of \<open>consumer.rs\<close>.
\<close>

section \<open>Logging\<close>

datatype consumer_event =
  Answered message_delivery delivery_disposition
| Expired message_delivery
| Published string publish_message published
| Settled received_message ack_kind "string + unit"

type_synonym 'w logged = "'w \<times> consumer_event list"

definition observe :: "('w \<Rightarrow> 'r \<times> 'w) \<Rightarrow> ('r \<Rightarrow> consumer_event list) \<Rightarrow> 'w logged \<Rightarrow> 'r \<times> 'w logged" where
  "observe call events s = (case call (fst s) of (r, w) \<Rightarrow> (r, (w, snd s @ events r)))"

abbreviation unobserved :: "('w \<Rightarrow> 'r \<times> 'w) \<Rightarrow> 'w logged \<Rightarrow> 'r \<times> 'w logged" where
  "unobserved call \<equiv> observe call (\<lambda>_. [])"

definition logged_messaging :: "'w messaging \<Rightarrow> 'w logged messaging" where
  "logged_messaging M =
     \<lparr>mg_get_stream = \<lambda>name. unobserved (mg_get_stream M name),
      mg_create_or_update_stream = \<lambda>config. unobserved (mg_create_or_update_stream M config),
      mg_create_consumer = \<lambda>config stream. unobserved (mg_create_consumer M config stream),
      mg_get_consumer = \<lambda>stream name. unobserved (mg_get_consumer M stream name),
      mg_publish = \<lambda>subject publish timeout.
        observe (mg_publish M subject publish timeout) (\<lambda>r. [Published subject publish r]),
      mg_ack_with = \<lambda>message kind. unobserved (mg_ack_with M message kind),
      mg_double_ack_with = \<lambda>message kind.
        observe (mg_double_ack_with M message kind) (\<lambda>r. [Settled message kind r])\<rparr>"

definition handling_events :: "message_delivery \<Rightarrow> handling \<Rightarrow> consumer_event list" where
  "handling_events delivery r =
     (case r of
        HandlerAnswered disposition \<Rightarrow> [Answered delivery disposition]
      | HandlerElapsed \<Rightarrow> [Expired delivery]
      | ProgressDue \<Rightarrow> [])"

definition logged_handler :: "'w message_handler \<Rightarrow> 'w logged message_handler" where
  "logged_handler H =
     \<lparr>hd_select = \<lambda>delivery timeout interval.
        observe (hd_select H delivery timeout interval) (handling_events delivery),
      hd_next_progress = \<lambda>interval. unobserved (hd_next_progress H interval)\<rparr>"

lemma logged_calls [simp]:
  "mg_publish (logged_messaging M) subject publish timeout =
     observe (mg_publish M subject publish timeout) (\<lambda>r. [Published subject publish r])"
  "mg_ack_with (logged_messaging M) message kind = unobserved (mg_ack_with M message kind)"
  "mg_double_ack_with (logged_messaging M) message kind =
     observe (mg_double_ack_with M message kind) (\<lambda>r. [Settled message kind r])"
  "hd_select (logged_handler H) delivery timeout interval =
     observe (hd_select H delivery timeout interval) (handling_events delivery)"
  "hd_next_progress (logged_handler H) interval = unobserved (hd_next_progress H interval)"
  by (simp_all add: logged_messaging_def logged_handler_def)

text \<open>A logged call answers as the call itself: the log is only added to.\<close>

definition logs :: "('w logged \<Rightarrow> 'r \<times> 'w logged) \<Rightarrow> ('w \<Rightarrow> 'r \<times> 'w) \<Rightarrow> bool" where
  "logs call' call \<longleftrightarrow>
     (\<forall>w t. \<exists>t'. call' (w, t) = (fst (call w), (snd (call w), t @ t')))"

lemma logs_observe: "logs (observe call events) call"
  by (auto simp: logs_def observe_def split: prod.splits)

lemma logsE:
  assumes "logs call' call"
  obtains t' where "call' (w, t) = (fst (call w), (snd (call w), t @ t'))"
  using assms unfolding logs_def by blast

lemma logs_async:
  shows "logs (async_of r) (async_of r)"
    and "logs m' m \<Longrightarrow> logs (async_map_err f m') (async_map_err f m)"
    and "logs m' m \<Longrightarrow> logs (async_map g m') (async_map g m)"
    apply (simp add: logs_def async_of_def)
   apply (unfold logs_def async_map_err_def async_map_def split_beta)
   apply (metis fst_conv snd_conv)+
  done

lemma logs_match:
  assumes "logs m' m" and "\<And>r. logs (k' r) (k r)"
  shows "logs (async_match m' k') (async_match m k)"
  unfolding logs_def
proof (intro allI)
  fix w t
  obtain t1 where 1: "m' (w, t) = (fst (m w), (snd (m w), t @ t1))"
    using assms(1) by (rule logsE)
  obtain t2 where "k' (fst (m w)) (snd (m w), t @ t1)
    = (fst (k (fst (m w)) (snd (m w))), (snd (k (fst (m w)) (snd (m w))), (t @ t1) @ t2))"
    using assms(2) by (rule logsE)
  with 1 show "\<exists>t'. async_match m' k' (w, t)
    = (fst (async_match m k w), (snd (async_match m k w), t @ t'))"
    by (auto simp: async_match_def split: prod.splits)
qed

lemma async_bind_match:
  "async_bind m f = async_match m (\<lambda>r. case r of Inl e \<Rightarrow> async_err e | Inr a \<Rightarrow> f a)"
  by (auto simp: async_bind_def async_match_def async_of_def fun_eq_iff split: prod.splits sum.splits)

lemma logs_bind:
  "logs m' m \<Longrightarrow> (\<And>a. logs (f' a) (f a)) \<Longrightarrow> logs (async_bind m' f') (async_bind m f)"
  by (auto simp: async_bind_match intro!: logs_match logs_async split: sum.splits)

lemma logs_apply_ack: "logs (apply_ack (logged_messaging M) message kind) (apply_ack M message kind)"
  by (simp add: apply_ack_def logs_async logs_observe)

lemma logs_publish_confirmed:
  "logs (publish_confirmed (logged_messaging M) s p i q h d) (publish_confirmed M s p i q h d)"
  by (auto simp: publish_confirmed_def Let_def async_of_def logs_def observe_def
      split: prod.splits sum.splits published.splits)

lemma logs_quarantine_or_nak:
  "logs (quarantine_or_nak X (logged_messaging M) q d message r a n)
     (quarantine_or_nak X M q d message r a n)"
  unfolding quarantine_or_nak_def publish_quarantine_def
  by (intro logs_match logs_bind logs_async logs_publish_confirmed)
    (simp add: logs_apply_ack logs_async)

lemma logs_apply_disposition:
  "logs (apply_disposition X (logged_messaging M) s q d config message delivery x)
     (apply_disposition X M s q d config message delivery x)"
  by (simp add: apply_disposition_def Let_def logs_apply_ack logs_quarantine_or_nak
      split: option.splits delivery_disposition.splits)

section \<open>The effects of settling\<close>

text \<open>What a publication to the quarantine stream must carry to count as a record of the message.\<close>

definition records_message ::
  "consumer_externals \<Rightarrow> received_message \<Rightarrow> quarantine_record \<Rightarrow> bool" where
  "records_message X message r \<longleftrightarrow>
     qr_address r = rx_subject message
     \<and> qr_payload_base64 r = ce_base64_encode X (rx_payload message)
     \<and> qr_payload_size r = Some (length (rx_payload message))
     \<and> qr_payload_sha256 r = Some (sha256_hex X (rx_payload message))
     \<and> (\<exists>info. rx_info message = Inr info \<and> qr_source_stream r = ri_stream info
         \<and> qr_source_consumer r = ri_consumer info
         \<and> qr_source_sequence r = ri_stream_sequence info)"

definition quarantine_confirmed ::
  "consumer_externals \<Rightarrow> string \<Rightarrow> quarantine_record \<Rightarrow> consumer_event \<Rightarrow> bool" where
  "quarantine_confirmed X quarantine_stream r event \<longleftrightarrow>
     (\<exists>subject publish ack. event = Published subject publish (PublishAnswer (Inr ack))
        \<and> pa_stream ack = quarantine_stream \<and> pa_sequence ack \<noteq> 0
        \<and> quarantine_subject (qr_address r) = Inr subject
        \<and> encode_quarantine_record X r = Inr (pm_payload publish)
        \<and> pm_message_id publish = quarantine_message_id X r
        \<and> pm_expected_stream publish = quarantine_stream)"

fun is_settlement :: "consumer_event \<Rightarrow> bool" where
  "is_settlement (Settled _ _ _) = True"
| "is_settlement _ = False"

fun is_publication :: "consumer_event \<Rightarrow> bool" where
  "is_publication (Published _ _ _) = True"
| "is_publication _ = False"

definition settle_result :: "string + unit \<Rightarrow> consume_error_kind + unit" where
  "settle_result x = map_err (\<lambda>_. ConsumeDisposition) x"

lemma apply_ack_logged:
  assumes "apply_ack (logged_messaging M) message kind (w, t) = (r, (w', t'))"
  shows "\<exists>x. t' = t @ [Settled message kind x] \<and> r = settle_result x"
  using assms
  by (auto simp: apply_ack_def async_map_err_def observe_def settle_result_def split: prod.splits)

lemma publish_confirmed_logged:
  assumes "publish_confirmed (logged_messaging M) subject payload i stream headers d (w, t)
    = (r, (w', t'))"
  obtains "is_err r" "t' = t"
  | x publish where "is_err r" "t' = t @ [Published subject publish x]"
  | publish ack where "r = Inr \<lparr>na_stream = stream, na_sequence = pa_sequence ack,
        na_duplicate = pa_duplicate ack\<rparr>"
      "t' = t @ [Published subject publish (PublishAnswer (Inr ack))]"
      "pa_stream ack = stream" "pa_sequence ack \<noteq> 0" "pm_payload publish = payload"
      "pm_message_id publish = i" "pm_expected_stream publish = stream"
      "pm_headers publish = header_insert CONTENT_TYPE_HEADER JSON_CONTENT_TYPE headers"
proof (cases "d = 0")
  case True
  then show ?thesis
    using assms that(1) by (auto simp: publish_confirmed_def async_of_def is_err_def)
next
  case False
  define publish where "publish =
    \<lparr>pm_payload = payload, pm_headers = header_insert CONTENT_TYPE_HEADER JSON_CONTENT_TYPE headers,
     pm_message_id = i, pm_expected_stream = stream, pm_expected_last_subject_sequence = None\<rparr>"
  obtain x w1 where x: "mg_publish M subject publish d w = (x, w1)"
    by (cases "mg_publish M subject publish d w")
  have run: "(r, (w', t')) = (case x of
      PublishDeadline \<Rightarrow> (Inl NatsPublishTimeout, (w1, t @ [Published subject publish x]))
    | PublishAnswer (Inl e) \<Rightarrow>
        (Inl (classify_publish_error e), (w1, t @ [Published subject publish x]))
    | PublishAnswer (Inr ack) \<Rightarrow>
        if pa_stream ack \<noteq> stream \<or> pa_sequence ack = 0
        then (Inl NatsPublishExpectation, (w1, t @ [Published subject publish x]))
        else (Inr \<lparr>na_stream = stream, na_sequence = pa_sequence ack,
                   na_duplicate = pa_duplicate ack\<rparr>, (w1, t @ [Published subject publish x])))"
    using assms False x
    by (auto simp: publish_confirmed_def Let_def observe_def publish_def
        split: published.splits sum.splits)
  show ?thesis
  proof (cases "is_err r")
    case True
    then show ?thesis
      using run that(2) [of publish x]
      by (auto split: published.splits sum.splits if_splits)
  next
    case False
    then show ?thesis
      using run that(3) [of _ publish]
      by (auto simp: is_err_def publish_def split: published.splits sum.splits if_splits)
  qed
qed

lemma publish_quarantine_logged:
  assumes "publish_quarantine X (logged_messaging M) stream d q (w, t) = (r, (w', t'))"
  obtains "is_err r" "t' = t"
  | event where "is_err r" "t' = t @ [event]" "is_publication event"
  | event where "r = Inr ()" "t' = t @ [event]" "is_publication event"
      "quarantine_confirmed X stream q event"
proof (cases "encode_quarantine_record X q")
  case (Inl e)
  then show ?thesis
    using assms that(1) by (auto simp: publish_quarantine_def async_bind_def async_of_def is_err_def)
next
  case payload: (Inr payload)
  show ?thesis
  proof (cases "quarantine_subject (qr_address q)")
    case (Inl e)
    then show ?thesis
      using assms payload that(1)
      by (auto simp: publish_quarantine_def async_bind_def async_of_def is_err_def)
  next
    case (Inr subject)
    obtain r1 where run: "publish_confirmed (logged_messaging M) subject payload
        (quarantine_message_id X q) stream (safe_headers fmempty (qr_trace_context q)) d (w, t)
      = (r1, (w', t'))" and r: "r = map_ok (\<lambda>_. ()) r1"
      using assms payload Inr
      by (auto simp: publish_quarantine_def async_bind_def async_of_def async_map_def split: prod.splits)
    from run show ?thesis
    proof (cases rule: publish_confirmed_logged)
      case 1
      then show ?thesis
        using that(1) r by (auto simp: is_err_def map_ok_def split: sum.splits)
    next
      case (2 x publish)
      then show ?thesis
        using that(2) r by (auto simp: is_err_def map_ok_def split: sum.splits)
    next
      case (3 publish ack)
      then show ?thesis
        using that(3) r payload Inr by (auto simp: map_ok_def quarantine_confirmed_def)
    qed
  qed
qed

text \<open>Quarantining ends in a termination after the record was confirmed, in a request for redelivery while
  attempts are left, or in an error with the message left unsettled.\<close>

lemma quarantine_or_nak_logged:
  assumes "quarantine_or_nak X (logged_messaging M) stream d message q attempt maximum (w, t)
    = (r, (w', t'))"
  obtains event x where "t' = t @ [event, Settled message AckTerm x]" "is_publication event"
      "quarantine_confirmed X stream q event" "r = settle_result x"
  | events x where "t' = t @ events @ [Settled message (AckNak (Some default_quarantine_retry_delay)) x]"
      "list_all is_publication events" "attempt < maximum" "r = settle_result x"
  | events where "t' = t @ events" "list_all is_publication events" "\<not> attempt < maximum"
      "r = Inl ConsumeQuarantine"
proof -
  note nak = that(2) and stuck = that(3)
  obtain r1 w1 t1 where run: "publish_quarantine X (logged_messaging M) stream d q (w, t) = (r1, (w1, t1))"
    by (metis prod.exhaust)
  have rest: "(if is_err r1 then
      if attempt < maximum then apply_ack (logged_messaging M) message
          (AckNak (Some default_quarantine_retry_delay)) (w1, t1)
      else (Inl ConsumeQuarantine, (w1, t1))
    else apply_ack (logged_messaging M) message AckTerm (w1, t1)) = (r, (w', t'))"
    using assms run
    by (auto simp: quarantine_or_nak_def async_match_def quarantine_retry_available_def async_of_def split: if_splits)
  have failed: thesis if "is_err r1" "t1 = t @ events" "list_all is_publication events" for events
  proof (cases "attempt < maximum")
    case True
    with rest that(1) obtain x where
      "t' = t1 @ [Settled message (AckNak (Some default_quarantine_retry_delay)) x]"
      "r = settle_result x"
      by (auto dest: apply_ack_logged)
    then show thesis
      using that True by (intro nak [of events x]) auto
  next
    case False
    then show thesis
      using that rest by (intro stuck [of events]) auto
  qed
  from run show thesis
  proof (cases rule: publish_quarantine_logged)
    case 1
    then show thesis
      by (intro failed [of "[]"]) auto
  next
    case (2 event)
    then show thesis
      by (intro failed [of "[event]"]) auto
  next
    case (3 event)
    with rest obtain x where "t' = t1 @ [Settled message AckTerm x]" "r = settle_result x"
      by (auto simp: is_err_def dest: apply_ack_logged)
    with 3 show thesis
      using that(1) [of event x] by auto
  qed
qed

section \<open>The effects of handling\<close>

fun is_handling :: "message_delivery \<Rightarrow> consumer_event \<Rightarrow> bool" where
  "is_handling delivery (Answered d _) \<longleftrightarrow> d = delivery"
| "is_handling delivery (Expired d) \<longleftrightarrow> d = delivery"
| "is_handling delivery _ \<longleftrightarrow> False"

lemma send_progress_logged:
  "send_progress (logged_messaging M) message (w, t) = (r, (w', t')) \<longleftrightarrow>
     send_progress M message w = (r, w') \<and> t' = t"
  by (auto simp: send_progress_def async_map_err_def observe_def split: prod.splits)

definition handled_events ::
  "message_delivery \<Rightarrow> consume_error_kind + delivery_disposition option \<Rightarrow> consumer_event list \<Rightarrow> bool" where
  "handled_events delivery r events \<longleftrightarrow>
     (case r of
        Inl _ \<Rightarrow> list_all (is_handling delivery) events
      | Inr (Some disposition) \<Rightarrow> events = [Answered delivery disposition]
      | Inr None \<Rightarrow> events = [Expired delivery])"

lemma handling_loop_logged:
  assumes "handling_loop fuel (logged_messaging M) (logged_handler H) config message delivery (w, t)
    = Some (r, (w', t'))"
  shows "\<exists>events. t' = t @ events \<and> handled_events delivery r events"
  using assms
proof (induction fuel arbitrary: w t)
  case (Suc fuel)
  obtain x w1 where x: "hd_select H delivery (cf_processing_timeout config) (cf_ack_wait config div 2) w
    = (x, w1)"
    by (metis prod.exhaust)
  obtain p w2 where p: "send_progress M message w1 = (p, w2)"
    by (metis prod.exhaust)
  have p': "send_progress (logged_messaging M) message (w1, t1) = (p, (w2, t1))" for t1
    using p by (simp add: send_progress_logged)
  obtain n w3 where n: "hd_next_progress H (cf_ack_wait config div 2) w2 = (n, w3)"
    by (metis prod.exhaust)
  show ?case
    using Suc.prems Suc.IH [of w3 t] x p' n
    by (cases x; cases p; cases n)
      (auto simp: Let_def observe_def handling_events_def async_map_def map_ok_def handled_events_def)
qed simp

lemma handle_with_progress_logged:
  assumes "handle_with_progress fuel (logged_messaging M) (logged_handler H) config message delivery
    (w, t) = Some (r, (w', t'))"
  shows "\<exists>events. t' = t @ events \<and> handled_events delivery r events"
proof -
  obtain p w1 where p: "send_progress M message w = (p, w1)"
    by (metis prod.exhaust)
  then have "send_progress (logged_messaging M) message (w, t) = (p, (w1, t))"
    by (simp add: send_progress_logged)
  with assms show ?thesis
    by (cases p) (auto simp: handle_with_progress_def handled_events_def dest: handling_loop_logged)
qed

section \<open>The effects of a delivery\<close>

text \<open>The deliveries the handler is given for a message: decoded from it, within the attempts allowed.\<close>

definition delivered ::
  "consumer_externals \<Rightarrow> consumer_config \<Rightarrow> received_message \<Rightarrow> message_delivery \<Rightarrow> bool" where
  "delivered X config message d \<longleftrightarrow>
     (\<exists>raw info. rx_info message = Inr raw \<and> received_delivery_info raw = Inr info
        \<and> decode_delivery X message info (cf_address config) = Inr d
        \<and> di_attempt info \<le> cf_maximum_delivery_attempts config)"

definition own_message :: "string \<Rightarrow> consumer_config \<Rightarrow> received_message \<Rightarrow> bool" where
  "own_message source_stream config message \<longleftrightarrow>
     (\<exists>raw. rx_info message = Inr raw \<and> ri_stream raw = source_stream
        \<and> ri_consumer raw = cf_durable_name config)
     \<and> rx_subject message = publishable_as_str (cf_address config)"

text \<open>The protocol a consumer follows for one message: its effects and the result.\<close>

inductive settles_message ::
  "consumer_externals \<Rightarrow> string \<Rightarrow> string \<Rightarrow> consumer_config \<Rightarrow> received_message \<Rightarrow>
   consumer_event list \<Rightarrow> consume_error_kind + unit \<Rightarrow> bool"
  for X source_stream quarantine_stream config message where
  unsettled: "list_all is_publication events \<Longrightarrow>
    settles_message X source_stream quarantine_stream config message events (Inl e)"
| interrupted: "delivered X config message d \<Longrightarrow> list_all (is_handling d) events \<Longrightarrow>
    settles_message X source_stream quarantine_stream config message events (Inl e)"
| stuck: "delivered X config message d \<Longrightarrow> list_all (is_handling d) before \<Longrightarrow>
    list_all is_publication events \<Longrightarrow>
    settles_message X source_stream quarantine_stream config message (before @ events) (Inl e)"
| foreign: "\<not> own_message source_stream config message \<Longrightarrow>
    settles_message X source_stream quarantine_stream config message
      [Settled message (AckNak (Some default_quarantine_retry_delay)) x] (settle_result x)"
| acknowledged: "delivered X config message d \<Longrightarrow>
    settles_message X source_stream quarantine_stream config message
      [Answered d Acknowledge, Settled message AckAck x] (settle_result x)"
| terminated: "delivered X config message d \<Longrightarrow>
    settles_message X source_stream quarantine_stream config message
      [Answered d Terminate, Settled message AckTerm x] (settle_result x)"
| quarantined: "before = [] \<or> (\<exists>d. delivered X config message d \<and> list_all (is_handling d) before) \<Longrightarrow>
    records_message X message q \<Longrightarrow> quarantine_confirmed X quarantine_stream q event \<Longrightarrow>
    settles_message X source_stream quarantine_stream config message
      (before @ [event, Settled message AckTerm x]) (settle_result x)"
| redelivery: "before = [] \<or> (\<exists>d. delivered X config message d \<and> list_all (is_handling d) before) \<Longrightarrow>
    list_all is_publication events \<Longrightarrow> rx_info message = Inr raw \<Longrightarrow>
    ri_delivered raw < uint (cf_maximum_delivery_attempts config) \<Longrightarrow>
    settles_message X source_stream quarantine_stream config message
      (before @ events @ [Settled message (AckNak delay) x]) (settle_result x)"

lemma received_attempt:
  assumes "received_delivery_info raw = Inr info"
  shows "uint (di_attempt info) = ri_delivered raw" "0 < di_attempt info"
    "di_source_sequence info = ri_stream_sequence raw"
  using assms
  by (auto simp: received_delivery_info_def delivery_attempt_def delivery_info_new_def result_simps
      word_less_def uint_word_of_int split: if_splits)

lemma decode_delivery_fields:
  assumes "decode_delivery X message info address = Inr d"
  shows "dl_payload d = rx_payload message" "dl_address d = address" "dl_info d = info"
    "length (dl_payload d) \<le> max_message_payload_bytes"
  using assms
  by (auto simp: decode_delivery_def result_simps delivery_with_transport_context_def split: if_splits)

text \<open>A record made of a message, or of what was decoded from it, records the message.\<close>

lemma records_raw:
  assumes "own_message s config message" and "rx_info message = Inr raw"
    and "received_delivery_info raw = Inr info"
  shows "records_message X message
    (raw_quarantine_record X message info s (cf_durable_name config) reason)"
  using assms received_attempt [OF assms(3)]
  by (auto simp: records_message_def raw_quarantine_record_def own_message_def Let_def)

lemma records_decoded:
  assumes "own_message s config message" and "rx_info message = Inr raw"
    and "received_delivery_info raw = Inr info"
    and "decode_delivery X message info (cf_address config) = Inr d"
  shows "records_message X message
    (quarantine_record_of X d s (cf_durable_name config) reason kind)"
  using assms received_attempt [OF assms(3)] decode_delivery_fields [OF assms(4)]
  by (auto simp: records_message_def quarantine_record_of_def own_message_def)

lemma quarantine_settles:
  assumes run: "quarantine_or_nak X (logged_messaging M) stream d message q attempt
      (cf_maximum_delivery_attempts config) (w, before) = (r, (w', t'))"
    and before: "before = [] \<or> (\<exists>d. delivered X config message d \<and> list_all (is_handling d) before)"
    and q: "records_message X message q"
    and raw: "rx_info message = Inr raw" "uint attempt = ri_delivered raw"
  shows "settles_message X s stream config message t' r"
  using run
proof (cases rule: quarantine_or_nak_logged)
  case (1 event x)
  then show ?thesis
    using settles_message.quarantined [OF before q, of stream event s x] by simp
next
  case (2 events x)
  then show ?thesis
    using settles_message.redelivery [OF before 2(2) raw(1)] raw(2) by (simp add: word_less_def)
next
  case (3 events)
  then show ?thesis
    using before by (auto intro: settles_message.unsettled settles_message.stuck)
qed

lemma disposition_settles:
  assumes run: "apply_disposition X (logged_messaging M) s stream pd config message d x (w, before)
      = (r, (w', t'))"
    and own: "own_message s config message" "rx_info message = Inr raw"
    and info: "received_delivery_info raw = Inr info"
    and d: "decode_delivery X message info (cf_address config) = Inr d"
    and ok: "delivered X config message d"
    and before: "handled_events d (Inr x) before"
  shows "settles_message X s stream config message t' r"
proof -
  have b: "before = [] \<or> (\<exists>d. delivered X config message d \<and> list_all (is_handling d) before)"
    using ok before by (intro disjI2 exI [of _ d]) (auto simp: handled_events_def split: option.splits)
  note q = records_decoded [OF own info d] and attempt = received_attempt(1) [OF info]
    and fields = decode_delivery_fields(3) [OF d]
  have nak: ?thesis
    if "apply_ack (logged_messaging M) message (AckNak delay) (w, before) = (r, (w', t'))"
      and "di_attempt info < cf_maximum_delivery_attempts config" for delay
    using apply_ack_logged [OF that(1)] settles_message.redelivery [OF b _ own(2), of "[]"] that(2) attempt
    by (auto simp: word_less_def)
  have quarantine: ?thesis
    if "quarantine_or_nak X (logged_messaging M) stream pd message
        (quarantine_record_of X d s (cf_durable_name config) reason kind) (di_attempt info)
        (cf_maximum_delivery_attempts config) (w, before) = (r, (w', t'))" for reason kind
    by (rule quarantine_settles [OF that b q own(2) attempt])
  show ?thesis
  proof (cases "x = Some Acknowledge \<or> x = Some Terminate")
    case True
    then show ?thesis
      using run before settles_message.acknowledged [OF ok] settles_message.terminated [OF ok]
      by (auto simp: apply_disposition_def Let_def handled_events_def dest!: apply_ack_logged)
  next
    case False
    then show ?thesis
      using run fields nak quarantine
      by (auto simp: apply_disposition_def Let_def
          split: option.splits delivery_disposition.splits if_splits)
  qed
qed

text \<open>The branch of a message that was decoded and is within the attempts allowed.\<close>

lemma handled_settles:
  assumes run: "process_message fuel X (logged_messaging M) s stream pd config (logged_handler H) message
      (w, []) = Some (r, (w', t))"
    and own: "own_message s config message" and raw: "rx_info message = Inr raw"
    and info: "received_delivery_info raw = Inr info"
    and d: "decode_delivery X message info (cf_address config) = Inr d"
    and attempt: "\<not> cf_maximum_delivery_attempts config < di_attempt info"
  shows "settles_message X s stream config message t r"
proof -
  have ok: "delivered X config message d"
    using raw info d attempt by (auto simp: delivered_def)
  obtain r1 w1 t1 where handled: "handle_with_progress fuel (logged_messaging M) (logged_handler H)
      config message d (w, []) = Some (r1, (w1, t1))"
    and rest: "(case r1 of
        Inl e \<Rightarrow> (Inl e, (w1, t1))
      | Inr x \<Rightarrow> apply_disposition X (logged_messaging M) s stream pd config message d x (w1, t1))
      = (r, (w', t))"
    using run raw own info d attempt
    by (auto simp: process_message_def own_message_def Let_def
        split: option.splits sum.splits prod.splits)
  have events: "handled_events d r1 t1"
    using handle_with_progress_logged [OF handled] by auto
  show ?thesis
  proof (cases r1)
    case (Inl e)
    then show ?thesis
      using rest events settles_message.interrupted [OF ok] by (auto simp: handled_events_def)
  next
    case (Inr x)
    then show ?thesis
      using rest events by (auto intro: disposition_settles [OF _ own raw info d ok])
  qed
qed

lemma process_message_settles:
  assumes run: "process_message fuel X (logged_messaging M) s stream pd config (logged_handler H) message
    (w, []) = Some (r, (w', t))"
  shows "settles_message X s stream config message t r"
proof (cases "own_message s config message")
  case False
  then show ?thesis
    using run settles_message.foreign [OF False]
    by (auto simp: process_message_def own_message_def dest!: apply_ack_logged
        intro: settles_message.unsettled split: sum.splits if_splits)
next
  case own: True
  then obtain raw where raw: "rx_info message = Inr raw"
    by (auto simp: own_message_def)
  show ?thesis
  proof (cases "received_delivery_info raw")
    case (Inl e)
    then show ?thesis
      using run raw own by (auto simp: process_message_def own_message_def intro: settles_message.unsettled)
  next
    case info: (Inr info)
    note quarantine = quarantine_settles [OF _ _ _ raw received_attempt(1) [OF info], of _ _ _ _ _ _ _ "[]"]
    consider (undecodable) e where "decode_delivery X message info (cf_address config) = Inl e"
      | (exhausted) d where "decode_delivery X message info (cf_address config) = Inr d"
          "cf_maximum_delivery_attempts config < di_attempt info"
      | (handled) d where "decode_delivery X message info (cf_address config) = Inr d"
          "\<not> cf_maximum_delivery_attempts config < di_attempt info"
      by (cases "decode_delivery X message info (cf_address config)") auto
    then show ?thesis
    proof cases
      case undecodable
      then show ?thesis
        using run own info raw records_raw [OF own raw info]
        by (auto simp: process_message_def own_message_def Let_def intro: quarantine)
    next
      case (exhausted d)
      then show ?thesis
        using run own info raw records_decoded [OF own raw info exhausted(1)]
        by (auto simp: process_message_def own_message_def Let_def intro: quarantine)
    next
      case (handled d)
      then show ?thesis
        using handled_settles [OF run own raw info] by blast
    qed
  qed
qed

section \<open>What the protocol guarantees\<close>

lemma settle_result_ok: "settle_result x = Inr () \<longleftrightarrow> x = Inr ()"
  by (cases x) (auto simp: settle_result_def map_err_def)

lemma no_settlement:
  "list_all is_publication events \<Longrightarrow> Settled m kind x \<notin> set events"
  "list_all (is_handling d) events \<Longrightarrow> Settled m kind x \<notin> set events"
  "list_all is_publication events \<Longrightarrow> filter is_settlement events = []"
  "list_all (is_handling d) events \<Longrightarrow> filter is_settlement events = []"
  "list_all is_publication events \<Longrightarrow> Answered d' a \<notin> set events"
  by (induction events) (auto elim: is_publication.elims is_handling.elims)

lemma confirmed_publication: "quarantine_confirmed X stream q event \<Longrightarrow> is_publication event"
  by (auto simp: quarantine_confirmed_def)

lemma settles_once:
  "settles_message X s stream config message t r \<Longrightarrow> length (filter is_settlement t) \<le> 1"
  by (induction rule: settles_message.induct)
    (auto simp: no_settlement dest!: confirmed_publication elim: is_publication.elims)

lemma settles_reports:
  "settles_message X s stream config message t r \<Longrightarrow> r = Inr () \<longrightarrow> (\<exists>kind. Settled message kind (Inr ()) \<in> set t)"
  by (induction rule: settles_message.induct) (auto simp: settle_result_ok)

lemma settles_for_cause:
  assumes "settles_message X s stream config message t r"
  shows "\<forall>m kind x. Settled m kind x \<in> set t \<longrightarrow> m = message \<and>
    (case kind of
       AckAck \<Rightarrow> \<exists>d. delivered X config message d \<and> Answered d Acknowledge \<in> set t
     | AckTerm \<Rightarrow>
         (\<exists>d. delivered X config message d \<and> Answered d Terminate \<in> set t)
         \<or> (\<exists>q. records_message X message q
             \<and> (\<exists>event \<in> set t. quarantine_confirmed X stream q event))
     | AckNak _ \<Rightarrow>
         \<not> own_message s config message
         \<or> (\<exists>raw. rx_info message = Inr raw
             \<and> ri_delivered raw < uint (cf_maximum_delivery_attempts config))
     | AckProgress \<Rightarrow> False)"
  using assms
proof (induction rule: settles_message.induct)
  case (quarantined before q event x)
  have "Settled m kind y \<in> set (before @ [event, Settled message AckTerm x]) \<longleftrightarrow>
      m = message \<and> kind = AckTerm \<and> y = x" for m kind y
    using quarantined(1) confirmed_publication [OF quarantined(3)]
    by (auto simp: no_settlement elim: is_publication.elims)
  then show ?case
    using quarantined(2,3) by auto
next
  case (redelivery before events raw delay x)
  have "Settled m kind y \<in> set (before @ events @ [Settled message (AckNak delay) x]) \<longleftrightarrow>
      m = message \<and> kind = AckNak delay \<and> y = x" for m kind y
    using redelivery(1,2) by (auto simp: no_settlement)
  then show ?case
    using redelivery(3,4) by auto
qed (auto simp: no_settlement)

lemma delivered_fields:
  assumes "delivered X config message d" and "rx_info message = Inr raw"
  shows "ri_delivered raw \<le> uint (cf_maximum_delivery_attempts config)"
    "dl_payload d = rx_payload message" "dl_address d = cf_address config"
  using assms received_attempt(1) decode_delivery_fields
  by (fastforce simp: delivered_def word_le_def)+

lemma settles_answers:
  "settles_message X s stream config message t r \<Longrightarrow> Answered d answer \<in> set t \<Longrightarrow> delivered X config message d"
proof (induction rule: settles_message.induct)
  case (quarantined before q event x)
  then show ?case
    using confirmed_publication [OF quarantined(3)]
    by (auto simp: list_all_iff dest!: bspec elim: is_publication.elims)
qed (auto simp: no_settlement list_all_iff)

text \<open>When no attempt is left.\<close>

lemma settles_last_attempt:
  assumes run: "settles_message X s stream config message t r"
    and own: "own_message s config message" and raw: "rx_info message = Inr raw"
    and last: "uint (cf_maximum_delivery_attempts config) \<le> ri_delivered raw"
  shows "(\<forall>delay x. Settled message (AckNak delay) x \<notin> set t)
    \<and> (r = Inr () \<longrightarrow> Settled message AckAck (Inr ()) \<in> set t \<or> Settled message AckTerm (Inr ()) \<in> set t)
    \<and> (\<forall>d answer. Answered d answer \<in> set t \<longrightarrow>
        uint (cf_maximum_delivery_attempts config) = ri_delivered raw
        \<and> dl_payload d = rx_payload message \<and> dl_address d = cf_address config)"
proof -
  note cause = settles_for_cause [OF run, rule_format]
  have nak: "Settled message (AckNak delay) x \<notin> set t" for delay x
    using cause [of message "AckNak delay" x] own raw last by auto
  moreover have "Settled message AckAck (Inr ()) \<in> set t \<or> Settled message AckTerm (Inr ()) \<in> set t"
    if ok: "r = Inr ()"
  proof -
    obtain kind where "Settled message kind (Inr ()) \<in> set t"
      using settles_reports [OF run] ok by blast
    then show ?thesis
      using cause [of message kind "Inr ()"] nak by (cases kind) auto
  qed
  moreover have "uint (cf_maximum_delivery_attempts config) = ri_delivered raw
      \<and> dl_payload d = rx_payload message \<and> dl_address d = cf_address config"
    if "Answered d answer \<in> set t" for d answer
    using delivered_fields [OF settles_answers [OF run that] raw] last by simp
  ultimately show ?thesis
    by blast
qed

section \<open>The logged run and the run\<close>

abbreviation erased :: "('r \<times> 'w logged) option \<Rightarrow> ('r \<times> 'w) option" where
  "erased \<equiv> map_option (\<lambda>(r, s). (r, fst s))"

lemma logs_erased: "logs m' m \<Longrightarrow> erased (Some (m' (w, t))) = Some (m w)"
  by (erule logsE [of _ _ w t]) (simp add: split_beta)

lemma handling_loop_erased:
  "erased (handling_loop fuel (logged_messaging M) (logged_handler H) config message d (w, t))
    = handling_loop fuel M H config message d w"
proof (induction fuel arbitrary: w t)
  case (Suc fuel)
  obtain x w1 where x: "hd_select H d (cf_processing_timeout config) (cf_ack_wait config div 2) w
    = (x, w1)"
    by (metis prod.exhaust)
  obtain p w2 where p: "send_progress M message w1 = (p, w2)"
    by (metis prod.exhaust)
  have p': "send_progress (logged_messaging M) message (w1, t1) = (p, (w2, t1))" for t1
    using p by (simp add: send_progress_logged)
  obtain n w3 where n: "hd_next_progress H (cf_ack_wait config div 2) w2 = (n, w3)"
    by (metis prod.exhaust)
  show ?case
    using Suc.IH [of w3 t] x p p' n
    by (cases x; cases p; cases n)
      (auto simp: Let_def observe_def handling_events_def async_map_def)
qed simp

lemma handle_with_progress_erased:
  "erased (handle_with_progress fuel (logged_messaging M) (logged_handler H) config message d (w, t))
    = handle_with_progress fuel M H config message d w"
proof -
  obtain p w1 where p: "send_progress M message w = (p, w1)"
    by (metis prod.exhaust)
  then have "send_progress (logged_messaging M) message (w, t) = (p, (w1, t))"
    by (simp add: send_progress_logged)
  with p show ?thesis
    by (cases p) (auto simp: handle_with_progress_def handling_loop_erased)
qed

lemma process_message_erased:
  "erased (process_message fuel X (logged_messaging M) s stream pd config (logged_handler H) message (w, t))
    = process_message fuel X M s stream pd config H message w"
proof -
  note calls = logs_erased [OF logs_apply_ack] logs_erased [OF logs_quarantine_or_nak]
    logs_erased [OF logs_apply_disposition]
  have handled: "erased (case handle_with_progress fuel (logged_messaging M) (logged_handler H) config
        message d (w, t) of
      None \<Rightarrow> None
    | Some (Inl e, w) \<Rightarrow> Some (Inl e, w)
    | Some (Inr x, w) \<Rightarrow>
        Some (apply_disposition X (logged_messaging M) s stream pd config message d x w))
    = (case handle_with_progress fuel M H config message d w of
      None \<Rightarrow> None
    | Some (Inl e, w) \<Rightarrow> Some (Inl e, w)
    | Some (Inr x, w) \<Rightarrow> Some (apply_disposition X M s stream pd config message d x w))" for d
    unfolding handle_with_progress_erased [of fuel M H config message d w t, symmetric]
    using calls(3)
    by (cases "handle_with_progress fuel (logged_messaging M) (logged_handler H) config message d (w, t)")
      (auto split: sum.splits)
  show ?thesis
    using calls handled
    by (auto simp: process_message_def Let_def split: sum.splits)
qed

text \<open>Every run of a consumer has a log.\<close>

lemma process_message_log:
  assumes "process_message fuel X M s stream pd config H message w = Some (r, w')"
  obtains t where "process_message fuel X (logged_messaging M) s stream pd config (logged_handler H)
    message (w, []) = Some (r, (w', t))"
  using assms process_message_erased [of fuel X M s stream pd config H message w "[]"] by auto

section \<open>The time a delivery takes\<close>

text \<open>More turns of the loop than it needs change nothing.\<close>

lemma handling_loop_more:
  "handling_loop n M H config message d w = Some r \<Longrightarrow> n \<le> m \<Longrightarrow>
    handling_loop m M H config message d w = Some r"
proof (induction n arbitrary: m w)
  case (Suc n)
  then obtain k where m: "m = Suc k" "n \<le> k"
    by (cases m) auto
  show ?case
    using Suc.prems(1) Suc.IH [of _ k] m
    by (auto simp: Let_def split: prod.splits handling.splits sum.splits bool.splits)
qed simp

lemma process_message_more:
  assumes "process_message n X M s stream pd config H message w = Some r" and "n \<le> m"
  shows "process_message m X M s stream pd config H message w = Some r"
proof -
  have "handle_with_progress m M H config message d w1 = Some x"
    if "handle_with_progress n M H config message d w1 = Some x" for d w1 x
    using that handling_loop_more [OF _ assms(2)]
    by (cases x) (auto simp: handle_with_progress_def split: prod.splits sum.splits)
  then show ?thesis
    using assms(1)
    by (auto simp: process_message_def Let_def split: sum.splits if_splits option.splits)
qed

text \<open>
  Timers: a sign of progress is due no earlier than its interval after it was set, and never once
  the time limit of the handler has passed, which the \<open>select!\<close> looks at first.
\<close>

definition timers_keep_time ::
  "('w \<Rightarrow> nat) \<Rightarrow> 'w messaging \<Rightarrow> 'w message_handler \<Rightarrow> consumer_config \<Rightarrow> received_message \<Rightarrow>
   message_delivery \<Rightarrow> nat \<Rightarrow> bool" where
  "timers_keep_time clock M H config message d start \<longleftrightarrow>
     (\<forall>w w'. hd_select H d (cf_processing_timeout config) (cf_ack_wait config div 2) w = (ProgressDue, w') \<longrightarrow>
        clock w + cf_ack_wait config div 2 \<le> clock w'
        \<and> clock w' < start + cf_processing_timeout config)
     \<and> (\<forall>w. clock w \<le> clock (snd (mg_ack_with M message AckProgress w)))
     \<and> (\<forall>w. clock w \<le> clock (snd (hd_next_progress H (cf_ack_wait config div 2) w)))"

lemma send_progress_clock:
  assumes "timers_keep_time clock M H config message d start"
    and "send_progress M message w = (r, w')"
  shows "clock w \<le> clock w'"
  using assms
  by (auto simp: timers_keep_time_def send_progress_def async_map_err_def split: prod.splits)
    (metis snd_conv)

text \<open>The time limit is shorter than the time the server waits, so at most one sign of progress is due.\<close>

lemma handling_loop_ends:
  assumes time: "timers_keep_time clock M H config message d start"
    and config: "cf_processing_timeout config < cf_ack_wait config" and "start \<le> clock w"
  shows "handling_loop 2 M H config message d w \<noteq> None"
proof
  let ?I = "cf_ack_wait config div 2" and ?T = "cf_processing_timeout config"
  assume "handling_loop 2 M H config message d w = None"
  then obtain w1 w2 w3 w4 where 1: "hd_select H d ?T ?I w = (ProgressDue, w1)"
    and 2: "send_progress M message w1 = (Inr (), w2)" and 3: "hd_next_progress H ?I w2 = (True, w3)"
    and 4: "hd_select H d ?T ?I w3 = (ProgressDue, w4)"
    by (auto simp: eval_nat_numeral Let_def split: prod.splits handling.splits sum.splits bool.splits)
  have "clock w + ?I \<le> clock w1" "clock w2 \<le> clock w3" "clock w3 + ?I \<le> clock w4"
      "clock w4 < start + ?T"
    using time 1 3 4 unfolding timers_keep_time_def by (metis snd_conv)+
  moreover have "clock w1 \<le> clock w2"
    by (rule send_progress_clock [OF time 2])
  ultimately show False
    using config \<open>start \<le> clock w\<close> by linarith
qed

lemma process_message_ends:
  assumes config: "cf_processing_timeout config < cf_ack_wait config"
    and time: "\<And>d. delivered X config message d \<Longrightarrow> timers_keep_time clock M H config message d
      (clock (snd (mg_ack_with M message AckProgress w)))"
  shows "process_message 2 X M s stream pd config H message w \<noteq> None"
proof
  assume none: "process_message 2 X M s stream pd config H message w = None"
  then obtain raw info d where raw: "rx_info message = Inr raw" "received_delivery_info raw = Inr info"
      "decode_delivery X message info (cf_address config) = Inr d"
      "\<not> cf_maximum_delivery_attempts config < di_attempt info"
      and handled: "handle_with_progress 2 M H config message d w = None"
    by (auto simp: process_message_def Let_def split: sum.splits if_splits option.splits prod.splits)
  have "timers_keep_time clock M H config message d (clock (snd (mg_ack_with M message AckProgress w)))"
    using raw by (intro time) (auto simp: delivered_def)
  from handling_loop_ends [OF this config order_refl]
  have ends: "handling_loop 2 M H config message d (snd (mg_ack_with M message AckProgress w)) \<noteq> None" .
  obtain x w1 where x: "mg_ack_with M message AckProgress w = (x, w1)"
    by (metis prod.exhaust)
  show False
    using handled ends x
    by (cases x) (simp_all add: handle_with_progress_def send_progress_def async_map_err_def map_err_def)
qed

end
