(* ===== verification/NatsTransport.thy ===== *)
theory NatsTransport
  imports NatsSettlement
begin

text \<open>
  What crosses NATS: the headers a publisher sends and a consumer reads, the streams a subject is
  routed to, and the identities of quarantine records.
\<close>

section \<open>Headers\<close>

text \<open>
  The headers a published message arrives with: those of the publication, and those the client
  library writes for its message identity and expected stream.
\<close>

definition transported_headers :: "publish_message \<Rightarrow> header_map" where
  "transported_headers publish =
     header_insert ''Nats-Expected-Stream'' (pm_expected_stream publish)
       (header_insert ''Nats-Msg-Id'' (pm_message_id publish) (pm_headers publish))"

text \<open>Iterating over a header map yields each of its entries once.\<close>

definition iterates_headers :: "(header_map \<Rightarrow> (string \<times> string list) list) \<Rightarrow> header_map \<Rightarrow> bool" where
  "iterates_headers entries headers \<longleftrightarrow>
     distinct (map fst (entries headers)) \<and> map_of (entries headers) = fmlookup headers"

lemma header_get_all_insert [simp]:
  "header_get_all (header_insert k v h) n = (if k = n then [v] else header_get_all h n)"
  by (simp add: header_insert_def header_get_all_def)

lemma fmlookup_header_insert [simp]:
  "fmlookup (header_insert k v h) n = (if k = n then Some [v] else fmlookup h n)"
  by (simp add: header_insert_def)

text \<open>Valid metadata has no control header.\<close>

lemma valid_name_no_control: "validate_name n = Inr m \<Longrightarrow> \<not> is_control_header n"
  by (auto simp: validate_name_def is_control_header_def Let_def reserved_names_def
      TRACE_PARENT_HEADER_def TRACE_STATE_HEADER_def split: if_splits)

lemma metadata_no_control: "metadata_ok m \<Longrightarrow> is_control_header n \<Longrightarrow> fmlookup m n = None"
  by (cases "fmlookup m n") (auto simp: metadata_ok_def metadata_entry_ok_def dest: valid_name_no_control)

lemma control_headers [simp]:
  "is_control_header ''Content-Type''" "is_control_header ''Nats-Msg-Id''"
  "is_control_header ''Nats-Expected-Stream''" "is_control_header ''traceparent''"
  "is_control_header ''tracestate''" "is_control_header ''rostfrei-Control-Correlation-Id''"
  by code_simp+

lemma foldl_headers:
  "fmlookup (foldl (\<lambda>headers (name, value). header_insert name value headers) h
      (map (\<lambda>name. (name, f name)) ks)) k = (if k \<in> set ks then Some [f k] else fmlookup h k)"
  by (induction ks arbitrary: h) auto

lemma metadata_headers:
  "fmlookup (foldl (\<lambda>headers (name, value). header_insert name value headers) fmempty
      (metadata_entries m)) k = map_option (\<lambda>v. [v]) (fmlookup m k)"
  unfolding metadata_entries_def foldl_headers
  by (cases "fmlookup m k") (auto simp: fmlookup_dom_iff fmdom_notI fmdomI)

lemmas header_names = CONTENT_TYPE_HEADER_def CORRELATION_ID_HEADER_def TRACE_PARENT_HEADER_def
  TRACE_STATE_HEADER_def JSON_CONTENT_TYPE_def

lemma safe_headers_lookup:
  assumes "metadata_ok m"
  shows "\<not> is_control_header k \<Longrightarrow>
      fmlookup (safe_headers m trace) k = map_option (\<lambda>v. [v]) (fmlookup m k)"
    and "k \<in> {''Content-Type'', ''Nats-Msg-Id'', ''rostfrei-Control-Correlation-Id''} \<Longrightarrow>
      fmlookup (safe_headers m trace) k = None"
    and "fmlookup (safe_headers m trace) ''traceparent'' = map_option (\<lambda>t. [tc_trace_parent t]) trace"
    and "fmlookup (safe_headers m trace) ''tracestate''
      = map_option (\<lambda>s. [s]) (Option.bind trace tc_trace_state)"
proof -
  let ?base = "foldl (\<lambda>headers (name, value). header_insert name value headers) fmempty (metadata_entries m)"
  have headers: "safe_headers m trace = (case trace of None \<Rightarrow> ?base | Some t \<Rightarrow>
      (case tc_trace_state t of
         None \<Rightarrow> header_insert ''traceparent'' (tc_trace_parent t) ?base
       | Some s \<Rightarrow> header_insert ''tracestate'' s (header_insert ''traceparent'' (tc_trace_parent t) ?base)))"
    unfolding safe_headers_def header_names Let_def by (rule refl)
  have base: "fmlookup ?base j = None" if "is_control_header j" for j
    using metadata_no_control [OF assms that] by (simp add: metadata_headers)
  show "fmlookup (safe_headers m trace) k = map_option (\<lambda>v. [v]) (fmlookup m k)"
    if "\<not> is_control_header k"
  proof -
    have "''traceparent'' \<noteq> k" "''tracestate'' \<noteq> k"
      using that control_headers(4,5) by metis+
    then show ?thesis
      by (simp add: headers metadata_headers split: option.split)
  qed
  show "fmlookup (safe_headers m trace) k = None"
    if "k \<in> {''Content-Type'', ''Nats-Msg-Id'', ''rostfrei-Control-Correlation-Id''}"
    using that base [of k] by (elim insertE emptyE) (simp_all add: headers split: option.split)
  show "fmlookup (safe_headers m trace) ''traceparent'' = map_option (\<lambda>t. [tc_trace_parent t]) trace"
    "fmlookup (safe_headers m trace) ''tracestate''
      = map_option (\<lambda>s. [s]) (Option.bind trace tc_trace_state)"
    using base [of "''traceparent''"] base [of "''tracestate''"]
    by (simp_all add: headers split: option.split)
qed

section \<open>Reading metadata back\<close>

definition metadata_within :: "caller_metadata \<Rightarrow> caller_metadata \<Rightarrow> bool" where
  "metadata_within m n \<longleftrightarrow> (\<forall>k v. fmlookup m k = Some v \<longrightarrow> fmlookup n k = Some v)"

lemma metadata_within_size:
  assumes "metadata_within m n"
  shows "metadata_len m \<le> metadata_len n" "total_bytes m \<le> total_bytes n"
proof -
  have sub: "fset (fmdom m) \<subseteq> fset (fmdom n)"
    using assms by (auto simp: metadata_within_def fmlookup_dom_iff)
  then show "metadata_len m \<le> metadata_len n"
    by (simp add: metadata_len_card fcard.rep_eq card_mono)
  have "total_bytes m = (\<Sum>k \<in> fset (fmdom m). length k + length (the (fmlookup n k)))"
    unfolding total_bytes_sum
    using assms by (intro sum.cong) (auto simp: metadata_within_def fmlookup_dom_iff)
  also have "\<dots> \<le> total_bytes n"
    unfolding total_bytes_sum using sub by (intro sum_mono2) auto
  finally show "total_bytes m \<le> total_bytes n" .
qed

lemma metadata_insert_within:
  assumes ok: "metadata_ok n" and within: "metadata_within m n"
    and k: "fmlookup n k = Some v" "fmlookup m k = None"
  shows "metadata_insert m k v = (Inr None, fmupd k v m)"
proof -
  have "metadata_within (fmupd k v m) n"
    using within k(1) by (auto simp: metadata_within_def)
  from metadata_within_size [OF this] have size: "metadata_len (fmupd k v m) \<le> 32"
      "total_bytes (fmupd k v m) \<le> 8192"
    using ok by (auto simp: metadata_ok_def)
  have valid: "validate_name k = Inr k" "validate_value v = Inr v"
    using ok k(1) by (auto simp: metadata_ok_def metadata_entry_ok_def)
  have len: "metadata_len m + 1 \<le> 32"
    using size(1) k(2) by (simp add: metadata_len_upd)
  have bytes: "total_bytes m + length k + length v \<le> 8192"
    using size(2) k(2) by (simp add: total_bytes_upd)
  have "checked_total_bytes m = Inr (total_bytes m)"
    using bytes try_sum_ok [of 0 "concat (map (\<lambda>(name, value). [length name, length value]) (metadata_entries m))"]
    by (simp add: checked_total_bytes_def total_bytes_def ok_or_def usize_bound_def)
  then show ?thesis
    using valid k(2) len bytes
    by (simp add: metadata_insert_def projected_entries_def projected_bytes_def rbind_def ok_or_def
        checked_add_usize_def max_metadata_entries_def max_metadata_bytes_def usize_bound_def)
qed

lemma collect_metadata_within:
  assumes "metadata_ok n" and "metadata_within m n" and "distinct (map fst entries)"
    and "\<And>k vs. (k, vs) \<in> set entries \<Longrightarrow> fmlookup m k = None"
    and "\<And>k vs. (k, vs) \<in> set entries \<Longrightarrow> \<not> is_control_header k \<Longrightarrow>
      \<exists>v. vs = [v] \<and> fmlookup n k = Some v"
  shows "\<exists>m'. collect_metadata m entries = Inr m' \<and> (\<forall>k. fmlookup m' k =
    (if k \<in> fst ` set entries \<and> \<not> is_control_header k then fmlookup n k else fmlookup m k))"
  using assms(2-5)
proof (induction entries arbitrary: m)
  case (Cons e entries)
  obtain k vs where e: "e = (k, vs)"
    by (cases e)
  show ?case
  proof (cases "is_control_header k")
    case True
    then show ?thesis
      using Cons.IH [of m] Cons.prems e by fastforce
  next
    case False
    then obtain v where v: "vs = [v]" "fmlookup n k = Some v"
      using Cons.prems(4) e by auto
    have insert: "metadata_insert m k v = (Inr None, fmupd k v m)"
      by (rule metadata_insert_within [OF assms(1) Cons.prems(1) v(2)]) (use Cons.prems(3) e in auto)
    have fresh: "k \<notin> fst ` set entries"
      using Cons.prems(2) e by simp
    have "\<exists>m'. collect_metadata (fmupd k v m) entries = Inr m' \<and> (\<forall>j. fmlookup m' j =
      (if j \<in> fst ` set entries \<and> \<not> is_control_header j then fmlookup n j
       else fmlookup (fmupd k v m) j))"
    proof (rule Cons.IH)
      show "metadata_within (fmupd k v m) n"
        using Cons.prems(1) v(2) by (auto simp: metadata_within_def)
      show "distinct (map fst entries)"
        using Cons.prems(2) by simp
      show "fmlookup (fmupd k v m) j = None" if "(j, us) \<in> set entries" for j us
        using that fresh Cons.prems(3) [of j us] by (auto simp: rev_image_eqI)
      show "\<exists>v. us = [v] \<and> fmlookup n j = Some v"
        if "(j, us) \<in> set entries" "\<not> is_control_header j" for j us
        using that Cons.prems(4) by simp
    qed
    then obtain m' where "collect_metadata (fmupd k v m) entries = Inr m'"
      "\<And>j. fmlookup m' j = (if j \<in> fst ` set entries \<and> \<not> is_control_header j then fmlookup n j
        else fmlookup (fmupd k v m) j)"
      by blast
    then show ?thesis
      using False e v insert fresh by (auto intro!: exI [of _ m'])
  qed
qed simp

section \<open>From the publisher to the consumer\<close>

definition outbound_ok :: "publishable_address outbound_message \<Rightarrow> bool" where
  "outbound_ok message \<longleftrightarrow>
     parse_nats (publishable_kind (ob_address message)) (publishable_as_str (ob_address message))
       = Inr (ob_address message)
     \<and> MessageId_new (ob_message_id message) = Inr (ob_message_id message)
     \<and> length (ob_payload message) \<le> max_message_payload_bytes
     \<and> metadata_ok (ob_metadata message)
     \<and> optional_new CorrelationId_new (ob_correlation_id message) = Inr (ob_correlation_id message)
     \<and> (case ob_trace_context message of
          None \<Rightarrow> True
        | Some trace \<Rightarrow> trace_from_parts (tc_trace_parent trace) (tc_trace_state trace) = Inr trace)"

definition outbound_publish :: "publishable_address outbound_message \<Rightarrow> string \<Rightarrow> publish_message" where
  "outbound_publish message stream =
     \<lparr>pm_payload = ob_payload message,
      pm_headers = header_insert CONTENT_TYPE_HEADER JSON_CONTENT_TYPE (publish_headers message),
      pm_message_id = ob_message_id message, pm_expected_stream = stream,
      pm_expected_last_subject_sequence = None\<rparr>"

text \<open>A publisher publishes one message at most, and this one.\<close>

lemma publish_with_ack_publishes:
  assumes "publish_with_ack (logged_messaging M) p message stream d (w, []) = (r, (w', t))"
    and "Published subject publish x \<in> set t"
  shows "subject = publishable_as_str (ob_address message)" "publish = outbound_publish message stream"
  using assms
  by (auto simp: publish_with_ack_def publish_confirmed_def Let_def async_of_def observe_def
      outbound_publish_def split: if_splits prod.splits published.splits sum.splits)

lemma transported_lookup:
  fixes message :: "publishable_address outbound_message" and stream :: string
  assumes "outbound_ok message"
  defines "headers \<equiv> transported_headers (outbound_publish message stream)"
  shows "\<not> is_control_header k \<Longrightarrow>
      fmlookup headers k = map_option (\<lambda>v. [v]) (fmlookup (ob_metadata message) k)"
    and "single_header headers CONTENT_TYPE_HEADER = Inr (Some JSON_CONTENT_TYPE)"
    and "single_header headers ''Nats-Msg-Id'' = Inr (Some (ob_message_id message))"
    and "single_header headers CORRELATION_ID_HEADER = Inr (ob_correlation_id message)"
    and "single_header headers TRACE_PARENT_HEADER
      = Inr (map_option tc_trace_parent (ob_trace_context message))"
    and "single_header headers TRACE_STATE_HEADER
      = Inr (Option.bind (ob_trace_context message) tc_trace_state)"
proof -
  have ok: "metadata_ok (ob_metadata message)"
    using assms(1) by (simp add: outbound_ok_def)
  note lookup = safe_headers_lookup [OF ok, where trace = "ob_trace_context message"]
  have headers: "headers = header_insert ''Nats-Expected-Stream'' stream
      (header_insert ''Nats-Msg-Id'' (ob_message_id message)
        (header_insert ''Content-Type'' ''application/json''
          (case ob_correlation_id message of
             None \<Rightarrow> safe_headers (ob_metadata message) (ob_trace_context message)
           | Some c \<Rightarrow> header_insert ''rostfrei-Control-Correlation-Id'' c
               (safe_headers (ob_metadata message) (ob_trace_context message)))))"
    by (simp add: headers_def transported_headers_def outbound_publish_def publish_headers_def
        header_names Let_def split: option.split)
  show "fmlookup headers k = map_option (\<lambda>v. [v]) (fmlookup (ob_metadata message) k)"
    if "\<not> is_control_header k"
  proof -
    have "''Nats-Expected-Stream'' \<noteq> k" "''Nats-Msg-Id'' \<noteq> k" "''Content-Type'' \<noteq> k"
      "''rostfrei-Control-Correlation-Id'' \<noteq> k"
      using that control_headers by metis+
    then show ?thesis
      using lookup(1) [OF that] by (simp add: headers split: option.split)
  qed
  show "single_header headers CONTENT_TYPE_HEADER = Inr (Some JSON_CONTENT_TYPE)"
    "single_header headers ''Nats-Msg-Id'' = Inr (Some (ob_message_id message))"
    by (simp_all add: headers single_header_def header_names)
  show "single_header headers CORRELATION_ID_HEADER = Inr (ob_correlation_id message)"
    using lookup(2) [of "''rostfrei-Control-Correlation-Id''"]
    by (simp add: headers single_header_def header_names header_get_all_def split: option.split)
  show "single_header headers TRACE_PARENT_HEADER
      = Inr (map_option tc_trace_parent (ob_trace_context message))"
    using lookup(3)
    by (cases "ob_trace_context message")
      (simp_all add: headers single_header_def header_names header_get_all_def split: option.split)
  show "single_header headers TRACE_STATE_HEADER
      = Inr (Option.bind (ob_trace_context message) tc_trace_state)"
    using lookup(4)
    by (cases "Option.bind (ob_trace_context message) tc_trace_state")
      (simp_all add: headers single_header_def header_names header_get_all_def split: option.split)
qed

lemma transported_metadata:
  assumes ok: "outbound_ok message"
    and entries: "iterates_headers (ce_header_entries X)
      (transported_headers (outbound_publish message stream))"
  shows "caller_metadata_of X (transported_headers (outbound_publish message stream))
    = Inr (ob_metadata message)"
proof -
  let ?h = "transported_headers (outbound_publish message stream)" and ?m = "ob_metadata message"
  let ?es = "ce_header_entries X ?h"
  have m: "metadata_ok ?m"
    using ok by (simp add: outbound_ok_def)
  have mem: "(k, vs) \<in> set ?es \<longleftrightarrow> fmlookup ?h k = Some vs" for k vs
    using entries by (metis iterates_headers_def map_of_eq_Some_iff)
  have dom: "k \<in> fst ` set ?es \<longleftrightarrow> fmlookup ?h k \<noteq> None" for k
    using mem by (metis (no_types, lifting) image_iff not_None_eq prod.collapse fst_conv)
  have "\<exists>m'. collect_metadata fmempty ?es = Inr m' \<and> (\<forall>k. fmlookup m' k =
    (if k \<in> fst ` set ?es \<and> \<not> is_control_header k then fmlookup ?m k else fmlookup fmempty k))"
  proof (rule collect_metadata_within [OF m])
    show "distinct (map fst ?es)"
      using entries by (simp add: iterates_headers_def)
    show "\<exists>v. vs = [v] \<and> fmlookup ?m k = Some v"
      if "(k, vs) \<in> set ?es" and "\<not> is_control_header k" for k vs
      using that transported_lookup(1) [OF ok that(2), of stream] by (auto simp: mem)
  qed (simp_all add: metadata_within_def)
  then obtain m' where m': "collect_metadata fmempty ?es = Inr m'"
    "\<And>k. fmlookup m' k =
      (if k \<in> fst ` set ?es \<and> \<not> is_control_header k then fmlookup ?m k else fmlookup fmempty k)"
    by blast
  have "fmlookup m' k = fmlookup ?m k" for k
    using m'(2) dom transported_lookup(1) [OF ok, of k stream] metadata_no_control [OF m, of k]
    by (cases "is_control_header k"; cases "fmlookup ?m k") auto
  then have "m' = ?m"
    by (rule fmap_ext)
  then show ?thesis
    using m'(1) by (simp add: caller_metadata_of_def)
qed

lemma transported_trace:
  assumes "outbound_ok message"
  shows "trace_context_of (transported_headers (outbound_publish message stream))
    = Inr (ob_trace_context message)"
  using assms transported_lookup(5,6) [OF assms, of stream]
  by (auto simp: trace_context_of_def outbound_ok_def rbind_def map_ok_def map_err_def
      split: option.splits)

lemma transported_decodes:
  assumes ok: "outbound_ok message"
    and entries: "iterates_headers (ce_header_entries X)
      (transported_headers (outbound_publish message stream))"
    and received: "rx_subject received = publishable_as_str (ob_address message)"
      "rx_headers received = Some (transported_headers (outbound_publish message stream))"
      "rx_payload received = ob_payload message"
  shows "decode_delivery X received info (ob_address message) =
    Inr \<lparr>dl_address = ob_address message, dl_message_id = ob_message_id message,
         dl_payload = ob_payload message, dl_metadata = ob_metadata message,
         dl_correlation_id = ob_correlation_id message,
         dl_trace_context = ob_trace_context message, dl_info = info\<rparr>"
  using ok received transported_lookup(2-4) [OF ok, of stream] transported_metadata [OF ok entries]
    transported_trace [OF ok, of stream]
  by (simp add: decode_delivery_def rbind_def ok_or_def map_err_def outbound_ok_def
      delivery_with_transport_context_def)

section \<open>Routing\<close>

text \<open>Which subjects a filter matches: \<open>*\<close> stands for a token, a final \<open>>\<close> for one or more.\<close>

fun tokens_match :: "string list \<Rightarrow> string list \<Rightarrow> bool" where
  "tokens_match [] [] \<longleftrightarrow> True"
| "tokens_match (f # fs) (t # ts) \<longleftrightarrow>
     (if f = ''>'' then fs = [] else (f = ''*'' \<or> f = t) \<and> tokens_match fs ts)"
| "tokens_match _ _ \<longleftrightarrow> False"

definition subject_matches :: "string \<Rightarrow> string \<Rightarrow> bool" where
  "subject_matches filter_text subject \<longleftrightarrow>
     tokens_match (split_char CHR ''.'' filter_text) (split_char CHR ''.'' subject)"

definition scope_tokens :: "string \<Rightarrow> traffic_scope \<Rightarrow> string list" where
  "scope_tokens application scope =
     application # (if scope = TestScope then [''test''] else [])"

definition kind_filter :: "string \<Rightarrow> traffic_scope \<Rightarrow> string \<Rightarrow> string" where
  "kind_filter application scope kind = traffic_subject_prefix application scope @ ''.'' @ kind @ ''.>''"

lemma split_kind_filter:
  assumes "plain_segment application" and "CHR ''.'' \<notin> set kind"
  shows "split_char CHR ''.'' (kind_filter application scope kind)
    = scope_tokens application scope @ [kind, ''>'']"
  using plain_segment_clean(1) [OF assms(1)] assms(2) split_char_append [of "CHR ''.''" "''test''"]
  by (cases scope)
    (simp_all add: kind_filter_def traffic_subject_prefix_def scope_tokens_def split_char_append
      split_char_no_sep)

lemma plain_segment_token: "plain_segment s \<Longrightarrow> s \<noteq> ''>'' \<and> s \<noteq> ''*''"
  using plain_segment_clean(2,3) [of s] by auto

text \<open>A filter of a kind matches what starts with its scope and kind and goes on.\<close>

lemma kind_filter_matches:
  assumes "plain_segment application" and "CHR ''.'' \<notin> set kind" "kind \<noteq> ''>''" "kind \<noteq> ''*''" "kind \<noteq> ''test''"
    and "segment0 \<noteq> ''test''"
    and "split_char CHR ''.'' subject = scope_tokens a sc @ segment0 # t # ts"
  shows "subject_matches (kind_filter application scope kind) subject \<longleftrightarrow>
    a = application \<and> sc = scope \<and> segment0 = kind"
proof -
  have "tokens_match (scope_tokens application scope @ [kind, ''>'']) (scope_tokens a sc @ segment0 # t # ts)
    \<longleftrightarrow> a = application \<and> sc = scope \<and> segment0 = kind"
    using plain_segment_token [OF assms(1)] assms(3-6)
    by (cases scope; cases sc) (auto simp: scope_tokens_def)
  then show ?thesis
    by (simp add: subject_matches_def split_kind_filter [OF assms(1,2)] assms(7))
qed

text \<open>What an application configuration consists of.\<close>

lemma SubjectFilter_new_ok: "SubjectFilter_new v = Inr f \<Longrightarrow> f = v"
  by (auto simp: SubjectFilter_new_def Let_def split: if_splits)

lemma StreamName_new_ok: "StreamName_new v = Inr n \<Longrightarrow> n = v"
  by (auto simp: StreamName_new_def split: if_splits)

lemma stream_provisioning_new_ok:
  "stream_provisioning_new_in_scope a scope name subjects retention = Inr c \<Longrightarrow>
    pv_name c = name \<and> pv_subjects c = subjects"
  by (auto simp: stream_provisioning_new_in_scope_def Let_def result_simps)

definition stream_suffix :: "address_kind option \<Rightarrow> string" where
  "stream_suffix kind =
     (case kind of
        Some CommandKind \<Rightarrow> ''_COMMANDS''
      | Some CommandResponseKind \<Rightarrow> ''_COMMAND_RESPONSES''
      | Some IntegrationEventKind \<Rightarrow> ''_INTEGRATION_EVENTS''
      | _ \<Rightarrow> ''_QUARANTINE'')"

lemma topology_for_application_ok:
  assumes "topology_for_application_in_scope app scope = Inr t"
  shows "t = \<lparr>tp_application = app, tp_traffic_scope = scope,
    tp_command = traffic_stream_prefix app scope @ ''_COMMANDS'',
    tp_command_response = traffic_stream_prefix app scope @ ''_COMMAND_RESPONSES'',
    tp_integration_event = traffic_stream_prefix app scope @ ''_INTEGRATION_EVENTS'',
    tp_quarantine = traffic_stream_prefix app scope @ ''_QUARANTINE''\<rparr>"
  using assms
  by (auto simp: topology_for_application_in_scope_def Let_def result_simps
      topology_with_command_response_stream_in_scope_def dest!: StreamName_new_ok split: if_splits)

text \<open>The four streams: the kind they are for, none for quarantine, their name and their filter.\<close>

lemma application_streams_cases:
  assumes "application_messaging_new_in_scope app scope = Inr config"
    and "stream \<in> set (application_streams config)"
  obtains kind where "kind \<noteq> Some QueryKind"
    "pv_name stream = traffic_stream_prefix app scope @ stream_suffix kind"
    "pv_subjects stream =
      [kind_filter app scope (case kind of None \<Rightarrow> ''quarantine'' | Some k \<Rightarrow> kind_segment k)]"
    "\<And>k. stream_for (ap_topology config) k = Some (pv_name stream) \<longleftrightarrow> kind = Some k"
    "tp_quarantine (ap_topology config) = pv_name stream \<longleftrightarrow> kind = None"
proof -
  note goal = that
  let ?p = "traffic_stream_prefix app scope"
  from assms(1) have topology: "ap_topology config = \<lparr>tp_application = app, tp_traffic_scope = scope,
      tp_command = ?p @ ''_COMMANDS'', tp_command_response = ?p @ ''_COMMAND_RESPONSES'',
      tp_integration_event = ?p @ ''_INTEGRATION_EVENTS'', tp_quarantine = ?p @ ''_QUARANTINE''\<rparr>"
    and streams: "pv_name (ap_commands config) = tp_command (ap_topology config)"
      "pv_subjects (ap_commands config) = [kind_filter app scope ''command'']"
      "pv_name (ap_command_responses config) = tp_command_response (ap_topology config)"
      "pv_subjects (ap_command_responses config) = [kind_filter app scope ''command-response'']"
      "pv_name (ap_integration_events config) = tp_integration_event (ap_topology config)"
      "pv_subjects (ap_integration_events config) = [kind_filter app scope ''integration'']"
      "pv_name (ap_quarantine config) = tp_quarantine (ap_topology config)"
      "pv_subjects (ap_quarantine config) = [kind_filter app scope ''quarantine'']"
    by (auto simp: application_messaging_new_in_scope_def result_simps application_subject_filter_def
        kind_filter_def dest!: topology_for_application_ok SubjectFilter_new_ok
        dest: stream_provisioning_new_ok)
  have stream_for: "stream_for (ap_topology config) k = Some (?p @ stream_suffix kind) \<longleftrightarrow> kind = Some k"
    if "kind \<noteq> Some QueryKind" for k kind
    using that by (cases k; cases kind; simp add: topology stream_for_def stream_suffix_def
        split: address_kind.splits)
  have quarantine: "tp_quarantine (ap_topology config) = ?p @ stream_suffix kind \<longleftrightarrow> kind = None"
    if "kind \<noteq> Some QueryKind" for kind
    using that by (cases kind) (simp_all add: topology stream_suffix_def split: address_kind.splits)
  have finish: thesis if "kind \<noteq> Some QueryKind" "pv_name stream = ?p @ stream_suffix kind"
    "pv_subjects stream =
      [kind_filter app scope (case kind of None \<Rightarrow> ''quarantine'' | Some k \<Rightarrow> kind_segment k)]" for kind
    by (rule goal [OF that]) (simp_all add: that(2) stream_for [OF that(1)] quarantine [OF that(1)])
  have "stream \<in> {ap_commands config, ap_command_responses config, ap_integration_events config,
      ap_quarantine config}"
    using assms(2) by (simp add: application_streams_def)
  then show ?thesis
    using finish [of "Some CommandKind"] finish [of "Some CommandResponseKind"]
      finish [of "Some IntegrationEventKind"] finish [of None] streams topology
    by (elim insertE) (simp_all add: stream_suffix_def)
qed

section \<open>Stream names\<close>

definition stream_char :: "char \<Rightarrow> char" where
  "stream_char c = (if c = CHR ''-'' then CHR ''_'' else ascii_uppercase c)"

lemma traffic_stream_prefix_map:
  "traffic_stream_prefix app scope = map stream_char app @ (if scope = TestScope then ''__TEST'' else [])"
  by (cases scope) (simp_all add: traffic_stream_prefix_def stream_char_def)

lemma stream_char_code:
  assumes "scope_char c"
  shows "of_char (stream_char c) =
    (if c = CHR ''-'' then 95 else if is_ascii_lowercase c then of_char c - 32 else (of_char c :: nat))"
  using assms
  by (auto simp: stream_char_def ascii_uppercase_def scope_char_def is_ascii_lowercase_def)

lemma stream_char_inject:
  assumes "scope_char c" and "scope_char d"
  shows "stream_char c = stream_char d \<longleftrightarrow> c = d"
proof
  assume eq: "stream_char c = stream_char d"
  let ?n = "of_char :: char \<Rightarrow> nat"
  have "?n (stream_char c) = ?n (stream_char d)"
    by (simp only: eq)
  then have "?n c = ?n d"
    unfolding stream_char_code [OF assms(1)] stream_char_code [OF assms(2)]
    using assms
    by (auto simp: scope_char_def is_ascii_lowercase_def is_ascii_digit_def simp del: of_char_eq_iff
        split: if_splits)
  then show "c = d"
    by simp
qed simp

lemma stream_chars_inject:
  assumes "list_all scope_char a" and "list_all scope_char b"
  shows "map stream_char a = map stream_char b \<longleftrightarrow> a = b"
  using assms by (intro inj_on_map_eq_map inj_onI) (auto simp: list_all_iff stream_char_inject)

lemma has_dashes_append: "has_dashes (a @ CHR ''-'' # CHR ''-'' # b)"
  by (induction a rule: has_dashes.induct) auto

text \<open>No name in the normal scope looks like one in the test scope: names have no double dash.\<close>

lemma stream_chars_not_test:
  assumes "plain_segment a"
  shows "map stream_char a \<noteq> map stream_char b @ ''__TEST''"
proof
  assume "map stream_char a = map stream_char b @ ''__TEST''"
  then obtain x y c d z where a: "a = x @ c # d # z" and cd: "stream_char c = CHR ''_''" "stream_char d = CHR ''_''"
    by (auto simp: map_eq_append_conv map_eq_Cons_conv)
  have "scope_char CHR ''-''" "scope_char c" "scope_char d"
    using assms a by (auto simp: plain_segment_def scope_char_def)
  then have "c = CHR ''-''" "d = CHR ''-''"
    using cd stream_char_inject [of c "CHR ''-''"] stream_char_inject [of d "CHR ''-''"]
    by (simp_all add: stream_char_def)
  then show False
    using assms has_dashes_append [of x z] by (simp add: a plain_segment_def)
qed

lemma traffic_stream_prefix_inject:
  assumes "plain_segment a" and "plain_segment b"
    and eq: "traffic_stream_prefix a scope = traffic_stream_prefix b scope'"
  shows "a = b \<and> scope = scope'"
  using eq stream_chars_not_test [OF assms(1), of b] stream_chars_not_test [OF assms(2), of a]
    stream_chars_inject [of a b] assms(1,2)
  by (cases scope; cases scope') (auto simp: traffic_stream_prefix_map plain_segment_def)

text \<open>The suffixes end differently, so a name tells its prefix and its kind.\<close>

lemma stream_suffix_inject:
  assumes eq: "p @ stream_suffix k = q @ stream_suffix l"
    and "k \<noteq> Some QueryKind" "l \<noteq> Some QueryKind"
  shows "p = q \<and> k = l"
proof -
  have "rev (p @ stream_suffix k) = rev (q @ stream_suffix l)"
    using eq by simp
  then show ?thesis
    using assms(2,3) by (auto simp: stream_suffix_def split: option.splits address_kind.splits)
qed

section \<open>Valid names\<close>

definition name_char :: "char \<Rightarrow> bool" where
  "name_char c \<longleftrightarrow> 33 \<le> (of_char c :: nat) \<and> (of_char c :: nat) < 127
     \<and> (of_char c :: nat) \<notin> {46, 42, 62}"

lemma name_char_accepted:
  "name_char c \<Longrightarrow> (of_char c :: nat) < 128 \<and> \<not> (is_ascii_whitespace c \<or> is_ascii_control c
     \<or> c \<in> {CHR ''.'', CHR ''*'', CHR ''>''})"
  by (auto simp: name_char_def is_ascii_whitespace_def is_ascii_control_def)

lemma StreamName_new_name:
  assumes "v \<noteq> []" and "length v \<le> 255" and "list_all name_char v"
  shows "StreamName_new v = Inr v"
proof -
  have "is_ascii v" "\<not> list_ex (\<lambda>c. is_ascii_whitespace c \<or> is_ascii_control c
      \<or> c \<in> {CHR ''.'', CHR ''*'', CHR ''>''}) v"
    using assms(3) name_char_accepted unfolding is_ascii_def list_all_iff list_ex_iff by blast+
  then show ?thesis
    using assms(1,2) by (simp add: StreamName_new_def max_stream_name_bytes_def)
qed

lemma stream_char_name: "scope_char c \<Longrightarrow> name_char (stream_char c)"
  by (auto simp: name_char_def stream_char_code scope_char_def is_ascii_lowercase_def
      is_ascii_digit_def)

lemma stream_names_valid:
  assumes "plain_segment app"
  shows "StreamName_new (traffic_stream_prefix app scope @ stream_suffix k)
    = Inr (traffic_stream_prefix app scope @ stream_suffix k)"
proof (rule StreamName_new_name)
  have "list_all name_char (map stream_char app)"
    using assms stream_char_name by (auto simp: plain_segment_def list_all_iff)
  moreover have "list_all name_char (stream_suffix k)"
    by (auto simp: stream_suffix_def name_char_def split: option.split address_kind.split)
  ultimately show "list_all name_char (traffic_stream_prefix app scope @ stream_suffix k)"
    by (simp add: traffic_stream_prefix_map name_char_def)
  have "length (stream_suffix k) \<le> 20"
    by (simp add: stream_suffix_def split: option.split address_kind.split)
  then show "length (traffic_stream_prefix app scope @ stream_suffix k) \<le> 255"
    using assms by (simp add: traffic_stream_prefix_map plain_segment_def)
qed (use assms in \<open>simp add: traffic_stream_prefix_map plain_segment_def\<close>)

lemma topology_for_application_exists:
  assumes "plain_segment app"
  shows "\<exists>t. topology_for_application_in_scope app scope = Inr t"
  using stream_names_valid [OF assms, of scope "Some CommandKind"]
    stream_names_valid [OF assms, of scope "Some CommandResponseKind"]
    stream_names_valid [OF assms, of scope "Some IntegrationEventKind"]
    stream_names_valid [OF assms, of scope None]
  by (simp add: topology_for_application_in_scope_def Let_def rbind_def stream_suffix_def
      topology_with_command_response_stream_in_scope_def)

lemma kind_filter_valid:
  assumes "plain_segment app" and "kind \<in> {''command'', ''command-response'', ''integration'', ''quarantine''}"
  shows "application_subject_filter app scope kind = Inr (kind_filter app scope kind)"
    and "subject_in_scope app scope (kind_filter app scope kind)"
proof -
  let ?P = "\<lambda>c. 33 \<le> (of_char c :: nat) \<and> (of_char c :: nat) < 127"
  have scope: "?P c" if "scope_char c" for c
    using that by (auto simp: scope_char_def is_ascii_lowercase_def is_ascii_digit_def)
  have app: "list_all ?P app" "app \<noteq> ''>''" "app \<noteq> ''*''" "CHR ''>'' \<notin> set app" "CHR ''*'' \<notin> set app"
      "app \<noteq> []" "length app \<le> 64"
    using assms(1) plain_segment_clean [OF assms(1)] scope by (auto simp: plain_segment_def list_all_iff)
  have kind: "list_all ?P kind" "CHR ''.'' \<notin> set kind" "length kind \<le> 20" "kind \<noteq> []"
      "CHR ''>'' \<notin> set kind" "CHR ''*'' \<notin> set kind" "kind \<notin> {''test'', ''*'', ''>''}"
    using assms(2) by auto
  note tokens = split_kind_filter [OF assms(1) kind(2), of scope]
  have chars: "list_all ?P (kind_filter app scope kind)"
    using app(1) kind(1) by (cases scope) (simp_all add: kind_filter_def traffic_subject_prefix_def)
  have len: "kind_filter app scope kind \<noteq> []" "length (kind_filter app scope kind) \<le> 512"
    using app(6,7) kind(3) by (cases scope; simp add: kind_filter_def traffic_subject_prefix_def)+
  show "subject_in_scope app scope (kind_filter app scope kind)"
    unfolding subject_in_scope_def tokens scope_tokens_def using kind(7) by (cases scope) auto
  have "\<not> list_ex (\<lambda>c. is_ascii_whitespace c \<or> is_ascii_control c) (kind_filter app scope kind)"
      "is_ascii (kind_filter app scope kind)"
    using chars by (auto simp: is_ascii_def list_all_iff list_ex_iff is_ascii_whitespace_def
        is_ascii_control_def)
  then have "SubjectFilter_new (kind_filter app scope kind) = Inr (kind_filter app scope kind)"
    unfolding SubjectFilter_new_def tokens scope_tokens_def max_subject_filter_bytes_def Let_def
    using len app(2-6) kind(4-7) by (cases scope) simp_all
  then show "application_subject_filter app scope kind = Inr (kind_filter app scope kind)"
    by (simp add: application_subject_filter_def kind_filter_def)
qed

text \<open>Every application has a configuration.\<close>

lemma application_messaging_exists:
  assumes "plain_segment app"
  shows "\<exists>config. application_messaging_new_in_scope app scope = Inr config"
proof -
  obtain t where t: "topology_for_application_in_scope app scope = Inr t"
    using topology_for_application_exists [OF assms] by blast
  have new: "\<exists>c. stream_provisioning_new_in_scope app scope name [kind_filter app scope kind] retention = Inr c"
    if "kind \<in> {''command'', ''command-response'', ''integration'', ''quarantine''}" for name kind retention
    using kind_filter_valid(2) [OF assms that, of scope]
    by (simp add: stream_provisioning_new_in_scope_def stream_provisioning_validate_def Let_def rbind_def
        subjects_belong_to_scope_def default_stream_max_bytes_def default_stream_max_message_bytes_def
        default_stream_max_age_def default_duplicate_window_def from_hours_def from_secs_def)
  show ?thesis
    using t new [of "''command''" "tp_command t" WorkQueueRetention]
      new [of "''command-response''" "tp_command_response t" LimitsRetention]
      new [of "''integration''" "tp_integration_event t" LimitsRetention]
      new [of "''quarantine''" "tp_quarantine t" LimitsRetention]
    by (auto simp: application_messaging_new_in_scope_def rbind_def kind_filter_valid(1) [OF assms]
        ok_or_def signed_try_from_def max_message_payload_bytes_def source_stream_message_overhead_bytes_def)
qed

section \<open>Quarantine identities\<close>

lemma separated_inject:
  assumes "x \<notin> set a" "x \<notin> set b" and "a @ x # c = b @ x # d"
  shows "a = b \<and> c = d"
  using assms
proof (induction a arbitrary: b)
  case Nil
  then show ?case
    by (cases b) auto
next
  case (Cons y a)
  then show ?case
    by (cases b) auto
qed

definition nul_free :: "string \<Rightarrow> bool" where
  "nul_free s \<longleftrightarrow> 0 \<notin> set (str_bytes s)"

lemma quarantine_identity_inject:
  assumes "nul_free (qr_source_stream r)" "nul_free (qr_source_stream q)"
    and "nul_free (qr_source_consumer r)" "nul_free (qr_source_consumer q)"
    and "quarantine_identity_bytes r = quarantine_identity_bytes q"
  shows "qr_source_stream r = qr_source_stream q \<and> qr_source_consumer r = qr_source_consumer q
    \<and> qr_source_sequence r = qr_source_sequence q"
proof -
  from separated_inject [of 0 "str_bytes (qr_source_stream r)" "str_bytes (qr_source_stream q)"] assms
  have s: "qr_source_stream r = qr_source_stream q"
    and rest: "str_bytes (qr_source_consumer r) @ 0 # be_bytes 8 (unat (qr_source_sequence r))
      = str_bytes (qr_source_consumer q) @ 0 # be_bytes 8 (unat (qr_source_sequence q))"
    by (auto simp: quarantine_identity_bytes_def nul_free_def)
  from separated_inject [OF _ _ rest] assms(3,4)
  have c: "qr_source_consumer r = qr_source_consumer q"
    and b: "be_bytes 8 (unat (qr_source_sequence r)) = be_bytes 8 (unat (qr_source_sequence q))"
    by (auto simp: nul_free_def)
  have "unat (qr_source_sequence r) = unat (qr_source_sequence q)"
    by (rule be_bytes_inject [OF _ _ b])
      (use unsigned_less [of "qr_source_sequence r"] unsigned_less [of "qr_source_sequence q"] in simp_all)
  with s c show ?thesis
    by (simp add: word_unat_eq_iff)
qed

lemma nul_freeI:
  assumes "list_all (\<lambda>c. 32 \<le> (of_char c :: nat)) s"
  shows "nul_free s"
proof -
  have "(of_char c :: u8) \<noteq> 0" if "c \<in> set s" for c
    using assms that unat_of_char_u8 [of c] by (auto simp: list_all_iff)
  then show ?thesis
    by (auto simp: nul_free_def str_bytes_def)
qed

lemma stream_name_nul_free:
  assumes "StreamName_new v = Inr s"
  shows "nul_free v"
proof (rule nul_freeI)
  have "\<not> list_ex (\<lambda>c. is_ascii_whitespace c \<or> is_ascii_control c
      \<or> c \<in> {CHR ''.'', CHR ''*'', CHR ''>''}) v"
    using assms unfolding StreamName_new_def by (simp split: if_splits)
  then have "\<not> is_ascii_control c" if "c \<in> set v" for c
    using that unfolding list_ex_iff by blast
  then show "list_all (\<lambda>c. 32 \<le> (of_char c :: nat)) v"
    by (auto simp: list_all_iff is_ascii_control_def not_less)
qed

lemma durable_name_nul_free:
  assumes "DurableName_parse v = Inr s"
  shows "nul_free v"
proof (rule nul_freeI)
  obtain a scope c p n where "build_delivery_name a scope c p n ''durable name'' = Inr v"
    using assms parsed_delivery_name_is_built unfolding DurableName_parse_def by metis
  then have ok: "plain_segment a" "plain_segment c" "plain_segment p" and v: "v = delivery_text a scope c p n"
    by (simp_all add: build_delivery_name_ok_iff)
  have plain: "list_all (\<lambda>c. 32 \<le> (of_char c :: nat)) s" if "plain_segment s" for s
    using that scope_char_printable by (auto simp: plain_segment_def list_all_iff)
  have "list_all (\<lambda>c. 32 \<le> (of_char c :: nat)) (decimal (unat n))"
    using decimal_digits [of "unat n"] by (auto simp: list_all_iff is_ascii_digit_def)
  then show "list_all (\<lambda>c. 32 \<le> (of_char c :: nat)) v"
    using plain [OF ok(1)] plain [OF ok(2)] plain [OF ok(3)] by (simp add: v delivery_text_def)
qed

section \<open>Isolation\<close>

lemma application_name_plain: "ApplicationName_new app = Inr app' \<Longrightarrow> plain_segment app"
  using validate_scope_segment_iff [of app "''application name''" "()"]
  by (simp add: ApplicationName_new_def validate_scope_segment_def map_ok_def)

lemma parsed_address_tokens:
  assumes "MessageAddress_parse a = Inr m"
  obtains c n where "split_char CHR ''.'' a =
      scope_tokens (address_application a) (address_traffic_scope a) @ [kind_segment (message_kind m), c, n]"
    "address_context a = c" "address_name a = n" "message_as_str m = a"
    "plain_segment (address_application a)" "plain_segment c" "plain_segment n"
proof -
  from assms obtain kind where kind: "parse_address_parts a = Inr kind"
    and "m = (case kind of CommandKind \<Rightarrow> CommandTo a | CommandResponseKind \<Rightarrow> CommandResponseTo a
      | IntegrationEventKind \<Rightarrow> IntegrationEventTo a | QueryKind \<Rightarrow> QueryTo a)"
    by (auto simp: MessageAddress_parse_def result_simps)
  then have m: "message_kind m = kind" "message_as_str m = a"
    by (cases kind; simp)+
  obtain app scope c n where built: "build_address kind app scope c n = Inr a"
    using parsed_is_built [OF kind] by blast
  then have "plain_segment app" "plain_segment c" "plain_segment n" "a = address_text kind app scope c n"
    by (auto simp: build_address_ok_iff)
  then show ?thesis
    using that [of c n] split_address_text [of app c n kind scope] built_accessors [OF built] m
    by (simp add: scope_tokens_def)
qed

lemma kind_segment_special [simp]: "kind_segment k \<noteq> ''>''" "kind_segment k \<noteq> ''*''" "kind_segment k \<noteq> ''quarantine''"
  by (cases k; simp)+

lemma kind_segment_inject [simp]: "kind_segment k = kind_segment l \<longleftrightarrow> k = l"
  by (cases k; cases l) simp_all

text \<open>The token of a stream: that of its kind, or the one of quarantine.\<close>

definition stream_token_of :: "address_kind option \<Rightarrow> string" where
  "stream_token_of kind = (case kind of None \<Rightarrow> ''quarantine'' | Some k \<Rightarrow> kind_segment k)"

lemma stream_token_of:
  "CHR ''.'' \<notin> set (stream_token_of kind)" "stream_token_of kind \<noteq> ''>''"
  "stream_token_of kind \<noteq> ''*''" "stream_token_of kind \<noteq> ''test''"
  by (cases kind; simp add: stream_token_of_def)+

lemma stream_token_of_kind: "kind_segment l = stream_token_of kind \<longleftrightarrow> kind = Some l"
  by (cases kind) (auto simp: stream_token_of_def)

lemma stream_token_of_quarantine: "''quarantine'' = stream_token_of kind \<longleftrightarrow> kind = None"
  using kind_segment_special(3) by (cases kind) (simp_all add: stream_token_of_def not_sym)

lemma address_routed:
  assumes app: "plain_segment app" and config: "application_messaging_new_in_scope app scope = Inr config"
    and stream: "stream \<in> set (application_streams config)" and a: "MessageAddress_parse a = Inr m"
  shows "(\<exists>f \<in> set (pv_subjects stream). subject_matches f a) \<longleftrightarrow>
    address_application a = app \<and> address_traffic_scope a = scope
    \<and> stream_for (ap_topology config) (message_kind m) = Some (pv_name stream)"
proof (rule application_streams_cases [OF config stream], fold stream_token_of_def)
  fix kind
  assume subjects: "pv_subjects stream = [kind_filter app scope (stream_token_of kind)]"
    and "\<And>k. stream_for (ap_topology config) k = Some (pv_name stream) \<longleftrightarrow> kind = Some k"
  then have own: "stream_for (ap_topology config) (message_kind m) = Some (pv_name stream) \<longleftrightarrow>
      kind = Some (message_kind m)"
    by blast
  obtain c n where tokens: "split_char CHR ''.'' a =
      scope_tokens (address_application a) (address_traffic_scope a) @ kind_segment (message_kind m) # c # [n]"
    using a by (rule parsed_address_tokens)
  show ?thesis
    using kind_filter_matches [OF app stream_token_of [of kind] kind_segment_plain(2) tokens, of scope]
    unfolding subjects own stream_token_of_kind by simp
qed

lemma quarantine_subject_tokens:
  assumes a: "MessageAddress_parse a = Inr m" and "quarantine_subject a = Inr subject"
  shows "split_char CHR ''.'' subject = scope_tokens (address_application a) (address_traffic_scope a)
    @ ''quarantine'' # kind_segment (message_kind m) # [address_context a, address_name a]"
proof -
  obtain c n where p: "address_context a = c" "address_name a = n" "message_as_str m = a"
      "plain_segment (address_application a)" "plain_segment c" "plain_segment n"
    using a by (rule parsed_address_tokens)
  show ?thesis
    using assms(2) p(1-3) plain_segment_clean(1) [OF p(4)] plain_segment_clean(1) [OF p(5)]
      plain_segment_clean(1) [OF p(6)] split_char_append [of "CHR ''.''" "''test''"]
      split_char_append [of "CHR ''.''" "''quarantine''"]
    by (cases "address_traffic_scope a")
      (auto simp: quarantine_subject_def a rbind_def map_err_def Let_def scope_tokens_def
        split_char_append split_char_no_sep)
qed

lemma quarantine_routed:
  assumes app: "plain_segment app" and config: "application_messaging_new_in_scope app scope = Inr config"
    and stream: "stream \<in> set (application_streams config)" and a: "MessageAddress_parse a = Inr m"
    and subject: "quarantine_subject a = Inr subject"
  shows "(\<exists>f \<in> set (pv_subjects stream). subject_matches f subject) \<longleftrightarrow>
    address_application a = app \<and> address_traffic_scope a = scope
    \<and> tp_quarantine (ap_topology config) = pv_name stream"
proof (rule application_streams_cases [OF config stream], fold stream_token_of_def)
  fix kind
  assume subjects: "pv_subjects stream = [kind_filter app scope (stream_token_of kind)]"
    and own: "tp_quarantine (ap_topology config) = pv_name stream \<longleftrightarrow> kind = None"
  have "''quarantine'' \<noteq> ''test''"
    by simp
  from kind_filter_matches [OF app stream_token_of [of kind] this
      quarantine_subject_tokens [OF a subject], of scope]
  show ?thesis
    unfolding subjects own stream_token_of_quarantine by simp
qed

lemma stream_names_isolated:
  assumes "plain_segment app" and "plain_segment other"
    and "application_messaging_new_in_scope app scope = Inr config"
      "stream \<in> set (application_streams config)"
    and "application_messaging_new_in_scope other scope' = Inr config'"
      "stream' \<in> set (application_streams config')"
    and "pv_name stream = pv_name stream'"
  shows "app = other \<and> scope = scope'"
proof -
  obtain k where k: "k \<noteq> Some QueryKind" "pv_name stream = traffic_stream_prefix app scope @ stream_suffix k"
    using assms(3,4) by (rule application_streams_cases)
  obtain l where l: "l \<noteq> Some QueryKind" "pv_name stream' = traffic_stream_prefix other scope' @ stream_suffix l"
    using assms(5,6) by (rule application_streams_cases)
  have "traffic_stream_prefix app scope = traffic_stream_prefix other scope'"
    using stream_suffix_inject [OF _ k(1) l(1)] k(2) l(2) assms(7) by simp
  then show ?thesis
    by (rule traffic_stream_prefix_inject [OF assms(1,2)])
qed

end
