(* ===== verification/NatsMessagingProperties.thy ===== *)
theory NatsMessagingProperties
  imports NatsTransport
begin

text \<open>
  The properties of messaging on NATS: what a consumer may do to a message, how long it takes and how
  often it tries, that a published message arrives as it was, and that applications and traffic
  scopes are kept apart. A concrete broker, handler and consumer show that the hypotheses hold.
\<close>

section \<open>A concrete consumer\<close>

text \<open>The world is a clock. The broker confirms everything; the handler needs half the time the server waits,
  so that one sign of progress falls due.\<close>

definition mx_externals :: consumer_externals where
  "mx_externals =
     \<lparr>ce_sha = (\<lambda>bs. bs), ce_base64_encode = (\<lambda>bs. map (\<lambda>b. char_of (unat b)) bs),
      ce_record_to_vec = (\<lambda>r. Inr [1]),
      ce_header_entries = (\<lambda>h. map (\<lambda>k. (k, the (fmlookup h k))) (sorted_list_of_fset (fmdom h)))\<rparr>"

definition mx_messaging :: "nat messaging" where
  "mx_messaging =
     \<lparr>mg_get_stream = (\<lambda>_ w. (Inl (StreamNotFound []), w)),
      mg_create_or_update_stream = (\<lambda>_ w. (Inl [], w)),
      mg_create_consumer = (\<lambda>_ _ w. (Inl [], w)),
      mg_get_consumer = (\<lambda>_ _ w. (Inl [], w)),
      mg_publish = (\<lambda>_ p _ w. (PublishAnswer (Inr \<lparr>pa_stream = pm_expected_stream p,
        pa_sequence = 1, pa_duplicate = False\<rparr>), w)),
      mg_ack_with = (\<lambda>_ _ w. (Inr (), w)),
      mg_double_ack_with = (\<lambda>_ _ w. (Inr (), w))\<rparr>"

definition mx_handler :: "delivery_disposition \<Rightarrow> nat message_handler" where
  "mx_handler answer =
     \<lparr>hd_select = (\<lambda>_ _ interval w. if w = 0 then (ProgressDue, interval)
        else (HandlerAnswered answer, w)),
      hd_next_progress = (\<lambda>_ w. (True, w))\<rparr>"

definition mx_address :: publishable_address where
  "mx_address = PublishCommand ''app.command.orders.place''"

definition mx_config :: consumer_config where
  "mx_config =
     \<lparr>cf_name = ''app--orders--worker--v1'', cf_durable_name = ''app--orders--worker--v1'',
      cf_address = mx_address, cf_ack_wait = 4, cf_processing_timeout = 3,
      cf_concurrency = 1, cf_shared_pending_limit = 1, cf_maximum_delivery_attempts = 2\<rparr>"

definition mx_outbound :: "publishable_address outbound_message" where
  "mx_outbound =
     \<lparr>ob_address = mx_address, ob_message_id = ''m'', ob_payload = [7],
      ob_metadata = fmupd ''tenant'' ''t'' fmempty, ob_correlation_id = Some ''c'',
      ob_trace_context = None\<rparr>"

definition mx_message :: "int \<Rightarrow> received_message" where
  "mx_message n =
     \<lparr>rx_subject = ''app.command.orders.place'',
      rx_headers = Some (transported_headers (outbound_publish mx_outbound ''APP_COMMANDS'')),
      rx_payload = [7],
      rx_info = Inr \<lparr>ri_stream = ''APP_COMMANDS'', ri_consumer = ''app--orders--worker--v1'',
        ri_stream_sequence = 5, ri_consumer_sequence = 6, ri_delivered = n, ri_pending = 0\<rparr>\<rparr>"

lemma mx_config_new:
  "consumer_config_new ''app--orders--worker--v1'' ''app--orders--worker--v1'' mx_address 4 3 1 2
     = Inr mx_config"
proof -
  have names: "consumer_application ''app--orders--worker--v1'' = ''app''"
    "consumer_context ''app--orders--worker--v1'' = ''orders''"
    "delivery_name_traffic_scope ''app--orders--worker--v1'' = NormalScope"
    "address_application ''app.command.orders.place'' = ''app''"
    "address_context ''app.command.orders.place'' = ''orders''"
    "address_traffic_scope ''app.command.orders.place'' = NormalScope"
    by code_simp+
  show ?thesis
    by (simp add: consumer_config_new_def names mx_address_def mx_config_def Let_def
        max_processing_timeout_def max_concurrency_def max_delivery_attempts_def from_hours_def
        from_secs_def)
qed

lemma mx_metadata_ok: "metadata_ok (fmupd ''tenant'' ''t'' fmempty)"
proof -
  have "validate_name ''tenant'' = Inr ''tenant''" "validate_value ''t'' = Inr ''t''"
    by code_simp+
  then show ?thesis
    using metadata_ok_empty
    by (auto simp: metadata_ok_def metadata_len_upd total_bytes_upd metadata_entry_ok_def
        metadata_len_card total_bytes_sum fcard.rep_eq)
qed

lemma mx_outbound_ok: "outbound_ok mx_outbound"
proof -
  have "parse_nats CommandKind ''app.command.orders.place'' = Inr (PublishCommand ''app.command.orders.place'')"
    "MessageId_new ''m'' = Inr ''m''" "CorrelationId_new ''c'' = Inr ''c''"
    by code_simp+
  then show ?thesis
    using mx_metadata_ok
    by (simp add: outbound_ok_def mx_outbound_def mx_address_def max_message_payload_bytes_def
        optional_new_def map_ok_def)
qed

lemma mx_entries: "iterates_headers (ce_header_entries mx_externals) headers"
  by (auto simp: iterates_headers_def mx_externals_def sorted_list_of_fset.rep_eq comp_def
      map_of_map_restrict restrict_map_def fun_eq_iff fmlookup_dom_iff split: option.splits)

lemma mx_decode:
  "decode_delivery mx_externals (mx_message n) info mx_address = Inr
     \<lparr>dl_address = mx_address, dl_message_id = ''m'', dl_payload = [7],
      dl_metadata = fmupd ''tenant'' ''t'' fmempty, dl_correlation_id = Some ''c'',
      dl_trace_context = None, dl_info = info\<rparr>"
  using transported_decodes [OF mx_outbound_ok mx_entries, of "mx_message n" "''APP_COMMANDS''" info]
  by (simp add: mx_message_def mx_outbound_def mx_address_def)

abbreviation mx_process ::
  "nat \<Rightarrow> int \<Rightarrow> delivery_disposition \<Rightarrow> ((consume_error_kind + unit) \<times> nat) option" where
  "mx_process fuel n answer \<equiv> process_message fuel mx_externals mx_messaging ''APP_COMMANDS''
     ''APP_QUARANTINE'' 1 mx_config (mx_handler answer) (mx_message n) 0"

lemma mx_handle:
  assumes "2 \<le> fuel"
  shows "handle_with_progress fuel mx_messaging (mx_handler answer) mx_config message d 0
    = Some (Inr (Some answer), 2)"
proof -
  have "handling_loop (Suc (Suc 0)) mx_messaging (mx_handler answer) mx_config message d 0
      = Some (Inr (Some answer), 2)"
    by (simp add: Let_def mx_messaging_def mx_handler_def mx_config_def send_progress_def
        async_map_err_def async_map_def map_err_def map_ok_def)
  then show ?thesis
    using handling_loop_more [of 2, OF _ assms]
    by (simp add: numeral_2_eq_2 [symmetric] handle_with_progress_def mx_messaging_def send_progress_def async_map_err_def map_err_def)
qed


lemma mx_own: "own_message ''APP_COMMANDS'' mx_config (mx_message n)"
  by (simp add: own_message_def mx_message_def mx_config_def mx_address_def)

section \<open>Settling a message\<close>



text \<open>C14: A message is tried a bounded number of times. Once a message of the consumer was delivered as often
  as its configuration allows, processing it never asks for redelivery again: it succeeds only by
  an acknowledgement or a termination, and fails otherwise. The handler is not asked at all beyond
  that number, and whatever it is asked was decoded from this message.\<close>

theorem delivery_attempts_bounded:
  assumes "process_message fuel X (logged_messaging M) s stream pd config (logged_handler H) message
      (w, []) = Some (r, (w', t))"
    and "own_message s config message" and "rx_info message = Inr raw"
    and "uint (cf_maximum_delivery_attempts config) \<le> ri_delivered raw"
  shows "(\<forall>delay x. Settled message (AckNak delay) x \<notin> set t)
    \<and> (r = Inr () \<longrightarrow> Settled message AckAck (Inr ()) \<in> set t \<or> Settled message AckTerm (Inr ()) \<in> set t)
    \<and> (\<forall>d answer. Answered d answer \<in> set t \<longrightarrow>
        uint (cf_maximum_delivery_attempts config) = ri_delivered raw
        \<and> dl_payload d = rx_payload message \<and> dl_address d = cf_address config)"
  using settles_last_attempt [OF process_message_settles [OF assms(1)] assms(2-4)] .

theorem delivery_attempts_bounded_witness:
  "\<exists>t. process_message 2 mx_externals (logged_messaging mx_messaging) ''APP_COMMANDS''
      ''APP_QUARANTINE'' 1 mx_config (logged_handler (mx_handler Terminate)) (mx_message 2) (0, [])
      = Some (Inr (), (2, t))
    \<and> (Settled (mx_message 2) AckAck (Inr ()) \<in> set t \<or> Settled (mx_message 2) AckTerm (Inr ()) \<in> set t)"
proof -
  have info: "received_delivery_info
       \<lparr>ri_stream = ''APP_COMMANDS'', ri_consumer = ''app--orders--worker--v1'',
        ri_stream_sequence = 5, ri_consumer_sequence = 6, ri_delivered = 2, ri_pending = 0\<rparr>
     = Inr \<lparr>di_attempt = 2, di_pending = 0, di_source_sequence = 5, di_consumer_sequence = 6\<rparr>"
    by (simp add: received_delivery_info_def delivery_attempt_def delivery_info_new_def rbind_def map_err_def)
  have "mx_process 2 2 Terminate = Some (Inr (), 2)"
    using info mx_decode [of 2] mx_handle [of 2 Terminate]
    by (simp add: process_message_def mx_message_def mx_config_def mx_address_def Let_def
        apply_disposition_def apply_ack_def async_map_err_def map_err_def mx_messaging_def)
  then obtain t where run: "process_message 2 mx_externals (logged_messaging mx_messaging) ''APP_COMMANDS''
      ''APP_QUARANTINE'' 1 mx_config (logged_handler (mx_handler Terminate)) (mx_message 2) (0, [])
      = Some (Inr (), (2, t))"
    by (rule process_message_log)
  from delivery_attempts_bounded [OF run mx_own, of "\<lparr>ri_stream = ''APP_COMMANDS'',
      ri_consumer = ''app--orders--worker--v1'', ri_stream_sequence = 5, ri_consumer_sequence = 6,
      ri_delivered = 2, ri_pending = 0\<rparr>"] run
  show ?thesis
    by (auto simp: mx_message_def mx_config_def)
qed

text \<open>C28: Processing a message ends. When the timers keep time, a consumer whose configuration was accepted
  leaves the loop around its handler after at most two turns, whatever the handler and the server
  do: the time limit of the handler is shorter than the time the server waits, of which half
  passes between two signs of progress. More turns change nothing.\<close>

theorem delivery_processing_ends:
  assumes "consumer_config_new name durable address ack_wait timeout concurrency attempts = Inr config"
    and "\<And>d. delivered X config message d \<Longrightarrow> timers_keep_time clock M H config message d
      (clock (snd (mg_ack_with M message AckProgress w)))"
  shows "\<exists>r w'. \<forall>fuel \<ge> 2. process_message fuel X M s stream pd config H message w = Some (r, w')"
proof -
  have "cf_processing_timeout config < cf_ack_wait config"
    using assms(1) by (auto simp: consumer_config_new_def Let_def split: if_splits)
  then obtain r w' where "process_message 2 X M s stream pd config H message w = Some (r, w')"
    using process_message_ends [OF _ assms(2)] by fastforce
  then show ?thesis
    by (intro exI allI impI) (rule process_message_more)
qed

theorem delivery_processing_ends_witness:
  "\<exists>r w'. \<forall>fuel \<ge> 2. mx_process fuel 1 Acknowledge = Some (r, w')"
proof (rule delivery_processing_ends [OF mx_config_new])
  show "timers_keep_time id mx_messaging (mx_handler Acknowledge) mx_config (mx_message 1) d
      (id (snd (mg_ack_with mx_messaging (mx_message 1) AckProgress 0)))" for d
    by (auto simp: timers_keep_time_def mx_messaging_def mx_handler_def mx_config_def split: if_splits)
qed

section \<open>From the publisher to the consumer\<close>

text \<open>C15: A published message arrives as it was sent. Whatever a publisher hands to JetStream for a message
  built by the constructors, a consumer of that address that receives it, with the headers the
  client library adds and iterates over in any order, decodes to the same identity, payload,
  metadata, correlation and trace context.\<close>

theorem published_message_decodes:
  assumes "outbound_ok message"
    and "publish_with_ack (logged_messaging M) p message stream d (w, []) = (r, (w', t))"
    and "Published subject publish x \<in> set t"
    and "rx_subject received = subject" and "rx_payload received = pm_payload publish"
    and "rx_headers received = Some (transported_headers publish)"
    and "iterates_headers (ce_header_entries X) (transported_headers publish)"
  shows "decode_delivery X received info (ob_address message) =
    Inr \<lparr>dl_address = ob_address message, dl_message_id = ob_message_id message,
         dl_payload = ob_payload message, dl_metadata = ob_metadata message,
         dl_correlation_id = ob_correlation_id message,
         dl_trace_context = ob_trace_context message, dl_info = info\<rparr>"
  using publish_with_ack_publishes [OF assms(2,3)] assms(4-7) transported_decodes [OF assms(1)]
  by (simp add: outbound_publish_def)

theorem published_message_decodes_witness:
  "decode_delivery mx_externals (mx_message 1)
     \<lparr>di_attempt = 1, di_pending = 0, di_source_sequence = 5, di_consumer_sequence = 6\<rparr> mx_address
   = Inr \<lparr>dl_address = mx_address, dl_message_id = ''m'', dl_payload = [7],
          dl_metadata = fmupd ''tenant'' ''t'' fmempty, dl_correlation_id = Some ''c'',
          dl_trace_context = None,
          dl_info = \<lparr>di_attempt = 1, di_pending = 0, di_source_sequence = 5,
            di_consumer_sequence = 6\<rparr>\<rparr>"
proof -
  let ?p = "outbound_publish mx_outbound ''APP_COMMANDS''"
  have "address_application ''app.command.orders.place'' = ''app''"
    "address_traffic_scope ''app.command.orders.place'' = NormalScope"
    by code_simp+
  then have "publish_with_ack (logged_messaging mx_messaging)
      \<lparr>np_topology = \<lparr>tp_application = ''app'', tp_traffic_scope = NormalScope,
        tp_command = ''APP_COMMANDS'', tp_command_response = [], tp_integration_event = [],
        tp_quarantine = []\<rparr>, np_publish_timeout = 1\<rparr> mx_outbound ''APP_COMMANDS'' 1 (0, [])
    = (Inr \<lparr>na_stream = ''APP_COMMANDS'', na_sequence = 1, na_duplicate = False\<rparr>,
       (0, [Published ''app.command.orders.place'' ?p (PublishAnswer (Inr \<lparr>pa_stream = ''APP_COMMANDS'',
        pa_sequence = 1, pa_duplicate = False\<rparr>))]))"
    by (simp add: publish_with_ack_def publish_confirmed_def in_topology_def observe_def
        mx_messaging_def mx_outbound_def mx_address_def outbound_publish_def Let_def)
  from published_message_decodes [OF mx_outbound_ok this, of _ ?p _ "mx_message 1" mx_externals] mx_entries
  show ?thesis
    by (simp add: mx_message_def mx_outbound_def outbound_publish_def mx_address_def)
qed

section \<open>Applications and scopes\<close>

text \<open>C16: Applications and traffic scopes are kept apart. Every valid application name has a configuration
  in each scope. The subjects of a stream of it match a message address exactly when the address is
  of this application and scope and the stream is the one of its kind, and match the quarantine
  subject of an address exactly for the quarantine stream of its application and scope. Streams of
  different applications or scopes have different names.\<close>

theorem messaging_isolated:
  assumes "ApplicationName_new app = Inr app'"
  shows "(\<exists>config. application_messaging_new_in_scope app scope = Inr config)
    \<and> (\<forall>config stream. application_messaging_new_in_scope app scope = Inr config \<longrightarrow>
        stream \<in> set (application_streams config) \<longrightarrow>
        (\<forall>a m. MessageAddress_parse a = Inr m \<longrightarrow>
           ((\<exists>f \<in> set (pv_subjects stream). subject_matches f a) \<longleftrightarrow>
             address_application a = app \<and> address_traffic_scope a = scope
             \<and> stream_for (ap_topology config) (message_kind m) = Some (pv_name stream))
           \<and> (\<forall>subject. quarantine_subject a = Inr subject \<longrightarrow>
               ((\<exists>f \<in> set (pv_subjects stream). subject_matches f subject) \<longleftrightarrow>
                 address_application a = app \<and> address_traffic_scope a = scope
                 \<and> tp_quarantine (ap_topology config) = pv_name stream)))
        \<and> (\<forall>other scope' config' stream'. ApplicationName_new other = Inr other \<longrightarrow>
           application_messaging_new_in_scope other scope' = Inr config' \<longrightarrow>
           stream' \<in> set (application_streams config') \<longrightarrow> pv_name stream = pv_name stream' \<longrightarrow>
           app = other \<and> scope = scope'))"
proof -
  have app: "plain_segment app"
    using assms by (rule application_name_plain)
  note isolated = stream_names_isolated [OF app application_name_plain]
  show ?thesis
    by (intro conjI allI impI application_messaging_exists [OF app])
      (rule address_routed [OF app] quarantine_routed [OF app] isolated [THEN conjunct1]
        isolated [THEN conjunct2]; assumption)+
qed

theorem messaging_isolated_witness:
  "\<exists>config. application_messaging_new_in_scope ''app'' TestScope = Inr config
     \<and> (\<forall>stream \<in> set (application_streams config). \<forall>f \<in> set (pv_subjects stream).
          \<not> subject_matches f ''app.command.orders.place'')"
proof -
  have app: "ApplicationName_new ''app'' = Inr ''app''"
    and parse: "MessageAddress_parse ''app.command.orders.place'' = Inr (CommandTo ''app.command.orders.place'')"
    and scope: "address_traffic_scope ''app.command.orders.place'' = NormalScope"
    by code_simp+
  note isolated = messaging_isolated [OF app, of TestScope]
  obtain config where config: "application_messaging_new_in_scope ''app'' TestScope = Inr config"
    using isolated by blast
  have "\<not> (\<exists>f \<in> set (pv_subjects stream). subject_matches f ''app.command.orders.place'')"
    if "stream \<in> set (application_streams config)" for stream
    using isolated [THEN conjunct2, rule_format, OF config that, THEN conjunct1, rule_format, OF parse] scope
    by simp
  then show ?thesis
    using config by blast
qed

section \<open>Quarantine\<close>

text \<open>C32: A message is quarantined under one identity. Unless the hash collides on the two identities, two
  records of messages received from streams and durable consumers with valid names have the same
  message identity exactly when they are of the same message of the same stream and consumer, so
  that the server drops the record of a redelivered message as a duplicate and no other.\<close>

theorem quarantine_identity_exact:
  assumes "records_message X message q" and "records_message X message' q'"
    and "rx_info message = Inr raw" and "rx_info message' = Inr raw'"
    and "StreamName_new (ri_stream raw) = Inr s" and "StreamName_new (ri_stream raw') = Inr s'"
    and "DurableName_parse (ri_consumer raw) = Inr c" and "DurableName_parse (ri_consumer raw') = Inr c'"
    and "inj_on (ce_sha X) {quarantine_identity_bytes q, quarantine_identity_bytes q'}"
  shows "quarantine_message_id X q = quarantine_message_id X q' \<longleftrightarrow>
    ri_stream raw = ri_stream raw' \<and> ri_consumer raw = ri_consumer raw'
    \<and> ri_stream_sequence raw = ri_stream_sequence raw'"
proof -
  have origin: "qr_source_stream q = ri_stream raw" "qr_source_consumer q = ri_consumer raw"
      "qr_source_sequence q = ri_stream_sequence raw" "qr_source_stream q' = ri_stream raw'"
      "qr_source_consumer q' = ri_consumer raw'" "qr_source_sequence q' = ri_stream_sequence raw'"
    using assms(1-4) by (auto simp: records_message_def)
  have "nul_free (ri_stream raw)" "nul_free (ri_stream raw')"
      "nul_free (ri_consumer raw)" "nul_free (ri_consumer raw')"
    by (rule stream_name_nul_free [OF assms(5)] stream_name_nul_free [OF assms(6)]
        durable_name_nul_free [OF assms(7)] durable_name_nul_free [OF assms(8)])+
  then have "quarantine_identity_bytes q = quarantine_identity_bytes q' \<Longrightarrow>
      ri_stream raw = ri_stream raw' \<and> ri_consumer raw = ri_consumer raw'
      \<and> ri_stream_sequence raw = ri_stream_sequence raw'"
    using quarantine_identity_inject [of q q'] origin by simp
  moreover have "quarantine_message_id X q = quarantine_message_id X q' \<longleftrightarrow>
      quarantine_identity_bytes q = quarantine_identity_bytes q'"
    using inj_on_eq_iff [OF assms(9)] by (simp add: quarantine_message_id_def)
  moreover have "quarantine_identity_bytes q = quarantine_identity_bytes q'"
    if "ri_stream raw = ri_stream raw'" "ri_consumer raw = ri_consumer raw'"
      "ri_stream_sequence raw = ri_stream_sequence raw'"
    unfolding quarantine_identity_bytes_def origin that by (rule refl)
  ultimately show ?thesis
    by blast
qed

theorem quarantine_identity_exact_witness:
  "\<exists>q q'. records_message mx_externals (mx_message 1) q
     \<and> records_message mx_externals (mx_message 2) q' \<and> qr_attempt q \<noteq> qr_attempt q'
     \<and> quarantine_message_id mx_externals q = quarantine_message_id mx_externals q'"
proof -
  define q where "q n = raw_quarantine_record mx_externals (mx_message n)
    \<lparr>di_attempt = word_of_int n, di_pending = 0, di_source_sequence = 5, di_consumer_sequence = 6\<rparr>
    ''APP_COMMANDS'' ''app--orders--worker--v1'' ''invalid source message''" for n
  have q: "records_message mx_externals (mx_message n) (q n)" for n
    by (simp add: records_message_def q_def raw_quarantine_record_def mx_message_def Let_def)
  have raw: "rx_info (mx_message n) = Inr \<lparr>ri_stream = ''APP_COMMANDS'',
      ri_consumer = ''app--orders--worker--v1'', ri_stream_sequence = 5, ri_consumer_sequence = 6,
      ri_delivered = n, ri_pending = 0\<rparr>" for n
    by (simp add: mx_message_def)
  have "decimal 1 = ''1''"
    by code_simp
  then have "build_delivery_name ''app'' NormalScope ''orders'' ''worker'' 1 ''durable name''
      = Inr ''app--orders--worker--v1''"
    by (simp add: build_delivery_name_ok_iff delivery_text_def plain_segment_def scope_char_def
        is_ascii_lowercase_def)
  then have names: "StreamName_new ''APP_COMMANDS'' = Inr ''APP_COMMANDS''"
    "DurableName_parse ''app--orders--worker--v1'' = Inr ''app--orders--worker--v1''"
    using StreamName_new_name [of "''APP_COMMANDS''"]
    by (simp_all add: DurableName_parse_def parse_built_delivery_name name_char_def)
  have "inj_on (ce_sha mx_externals) A" for A
    by (simp add: mx_externals_def inj_on_def)
  from quarantine_identity_exact [OF q [of 1] q [of 2] raw raw _ _ _ _ this] names
  have "quarantine_message_id mx_externals (q 1) = quarantine_message_id mx_externals (q 2)"
    by simp
  moreover have "qr_attempt (q 1) \<noteq> qr_attempt (q 2)"
    by (simp add: q_def raw_quarantine_record_def Let_def)
  ultimately show ?thesis
    using q by blast
qed

end
