(* ===== verification/Spec2Isabelle.thy ===== *)
theory Spec2Isabelle
  imports StoreProperties OutcomeProperties ExecutionProperties HistoryProperties CodecProperties
    MessagingProperties CommandProperties ReadModelProperties RuntimeProperties
    NatsProperties NatsMessagingProperties
begin

text \<open>
  A verification development of \<^emph>\<open>rostfrei\<close>, a Rust framework for event-sourced command execution.

  \<^bold>\<open>The program.\<close> A command runs as a handler that loads aggregates, decides, and raises events. The
  executor (\<open>crates/rostfrei-core/src/executor.rs\<close>) rehydrates each aggregate from its stream, lets the
  handler work on handles, collects the raised events from journals that observers filled, and asks
  the store to commit one transaction: the new batches, guards on the versions that were read, and
  the outcome of the command under its operation identity. A conflict is reconciled with the
  outcome of the winner or retried under a policy; a command that already completed is answered from
  its stored outcome. The store is a trait; \<open>memory.rs\<close> is its in-memory coordinator, with batches
  appended directly to streams, transactions, permanent outcome markers and details that can be
  withdrawn. \<open>outcome.rs\<close> binds markers and details by digests, \<open>proposal.rs\<close> hashes what a transaction
  proposes, \<open>receipt_validation.rs\<close> checks receipts at the boundary.

  Between processes a command is a message. \<open>rostfrei-messaging-core\<close> has the contracts: addresses and
  consumer names of bounded contexts, caller metadata, envelopes, deliveries, responses.
  \<open>rostfrei-runtime\<close> has the command bus, which encodes a request with a fingerprint of its content and
  derived identities, and the processor, which validates an encoded command, asks the authorizer,
  looks for a completed outcome, otherwise runs the registered handler through the executor or
  records a rejection of its own, projects the outcome to a response, and reports the attempt to
  an audit sink. The in-memory adapter connects the two. Queries travel on a bus of their own and
  write nothing; integration events carry facts to other contexts, and a handler there may answer
  one with a command of a derived identity. Read models fold committed domain events, or integration
  events, into models kept in a versioned key-value store.

  \<^bold>\<open>Theories and sources\<close> (paths under \<open>src/crates\<close>; core is \<open>rostfrei-core/src\<close>, messaging is
  \<open>rostfrei-messaging-core/src\<close>):

  \<^item> \<open>Prelude\<close>, \<open>Text\<close>: integers of fixed width, \<open>Result\<close> and \<open>?\<close>, UTF-8 strings: what the code uses of the
    language and its library, with the shared lemmas.
  \<^item> \<open>Errors\<close>, \<open>Failures\<close>: the error types (messaging \<open>error.rs\<close>, \<open>execution_failure.rs\<close>, and the error
    enums of core). Message texts are symbolic constants; a rendered error keeps the kind and message.
  \<^item> \<open>Identity\<close>: core \<open>identity.rs\<close>, messaging \<open>value.rs\<close>, \<open>actor.rs\<close>, \<open>scope.rs\<close>.
  \<^item> \<open>Envelope\<close>: core \<open>envelope.rs\<close>. \<open>Completion\<close>: core \<open>completed_outcome.rs\<close>. \<open>Store\<close>: core \<open>store.rs\<close>.
  \<^item> \<open>Wire\<close>: the functions outside the repository (\<open>sha2\<close>, \<open>serde_json\<close>) as the fields of the record
    \<open>externals\<close>, an argument of every definition that uses them.
  \<^item> \<open>Receipts\<close>: core \<open>receipt_validation.rs\<close> and \<open>proposal.rs\<close>. \<open>Outcome\<close>: core \<open>outcome.rs\<close>.
  \<^item> \<open>Memory\<close>: core \<open>memory.rs\<close> and the result types of \<open>execution_store.rs\<close>. The state behind the lock is the
    record \<open>memory_state\<close>; a handle is \<open>memory_store\<close>. Operations return their result with the new state.
  \<^item> \<open>History\<close>: \<open>validate_history\<close> of core \<open>executor.rs\<close>, and that recorded batches pass it.
  \<^item> \<open>Aggregates\<close>: core \<open>aggregate.rs\<close>, \<open>codecs.rs\<close>, \<open>conflict_retry.rs\<close>. \<open>Executor\<close>: the rest of
    \<open>executor.rs\<close>, over any \<open>execution_store\<close>, the record of the operations of the store trait.
  \<^item> \<open>Systems\<close>: locales of state machines: a preserved property, a step relation with an invariant, and
    one along which the states only grow.
  \<^item> \<open>Journal\<close>, \<open>Coordinator\<close>, \<open>Durability\<close>, \<open>Recovery\<close>: the abstract journal (every stream a list of
    committed batches) and its refinement by the four indexes of the in-memory state; the step
    relation \<open>store_step\<close> of all writes through all handles of one state, its invariant \<open>store_inv\<close> and
    the order \<open>store_before\<close>; the interpretation \<open>mem\<close> of \<open>monotone_system\<close>; how commits are recovered.
  \<^item> \<open>ExecutionContract\<close>, \<open>Serializability\<close>: locales for what the executor relies on
    (\<open>execution_store_contract\<close>, extended by \<open>versioned_store\<close>), the lemmas on executions proved in
    them, and their interpretations \<open>mem_exec\<close> and \<open>mem_versioned\<close> by the in-memory store.
  \<^item> \<open>ExecutionEffects\<close>, \<open>Capture\<close>: what an attempt writes, and the invariant \<open>tracked\<close> between handles,
    observers and journals while a handler runs.
  \<^item> \<open>Addresses\<close>: messaging \<open>address.rs\<close>, \<open>scope.rs\<close>. \<open>Metadata\<close>: \<open>metadata.rs\<close>. \<open>Messages\<close>: \<open>envelope.rs\<close>,
    \<open>publish.rs\<close>. \<open>Delivery\<close>: \<open>consume.rs\<close>. \<open>Responses\<close>: \<open>command_response.rs\<close>.
  \<^item> \<open>Commands\<close>: the encoding half of \<open>rostfrei-runtime/src/command_bus.rs\<close>; its externals are the record
    \<open>runtime_externals\<close>. \<open>Processor\<close>: the other half, with \<open>command_bus/processing.rs\<close>,
    \<open>command_service.rs\<close>, \<open>command_rejection_codec.rs\<close> and the command side of \<open>in_memory_messaging.rs\<close>.
  \<^item> \<open>CommandContract\<close>: what encoded commands, responses and projections satisfy, the locale
    \<open>service_store_contract\<close> (an \<open>execution_store_contract\<close> whose lookups agree with their markers) with the
    lemmas on processing, and its interpretation \<open>mem_service\<close> by the in-memory store.
  \<^item> \<open>Series\<close>: messaging \<open>message_series.rs\<close>: topologies of messages, the traversal for cycles and the
    issues reported. \<open>Queries\<close>: messaging \<open>query.rs\<close> and \<open>rostfrei-runtime/src/query_bus.rs\<close>.
    \<open>IntegrationEvents\<close>: \<open>integration_event_bus.rs\<close> and \<open>integration_event.rs\<close> of the runtime and the event
    side of \<open>in_memory_messaging.rs\<close>.
  \<^item> \<open>DomainEvents\<close>: core \<open>domain_event.rs\<close>. \<open>ReadModels\<close>: core \<open>read_model.rs\<close> and
    \<open>rostfrei-runtime/src/read_model\<close> (\<open>mod.rs\<close>, \<open>runtime.rs\<close>, \<open>integration.rs\<close>). \<open>KeyValue\<close>:
    \<open>rostfrei-nats/src/read_model.rs\<close>, the store of read models over a key-value bucket.
    \<open>ReadModelContract\<close>: the locale of the store a read model relies on, with the lemmas on sessions.
  \<^item> The event store on NATS, \<open>rostfrei-nats/src/event_store.rs\<close> and its modules. \<open>NatsConfig\<close>:
    \<open>event_store_config.rs\<close>, the bounded configuration, subjects and the stream policy. \<open>NatsEvents\<close>: the wire
    types, events encoded and decoded, the headers of atomic batches, the history builder. \<open>NatsBroker\<close>:
    the calls to the broker as the record \<open>jetstream\<close>, \<open>stream_policy.rs\<close>, \<open>history_reader.rs\<close>, atomic
    publishing. \<open>NatsReceipts\<close>: receipts of transactions on the wire and joined with histories.
    \<open>NatsStore\<close>: histories and receipts loaded. \<open>NatsAppend\<close>: the audit of a history, the verification of
    what was published, appends of batches. \<open>NatsOutcomes\<close>: \<open>event_store/outcomes.rs\<close> and transactions.
    \<open>NatsSessions\<close>: lookups, commits, sessions, expiry, the directory of streams.
  \<^item> \<open>NatsHistory\<close>: the history builder in step with the check of the executor. \<open>NatsLog\<close>: the promises of
    JetStream (\<open>jetstream_log\<close>), the history of a log (\<open>log_history\<close>) and loading as a read of the log.
    \<open>NatsCalls\<close>: along every operation the log only grows. \<open>NatsExtend\<close>: a verified commit directly follows
    the history it was published on. \<open>NatsPublished\<close>: the messages of an append decode to its events.
    \<open>NatsScenario\<close>: a concrete broker.
  \<^item> Messages on NATS. \<open>NatsMessaging\<close>: \<open>rostfrei-nats/src/error.rs\<close>, the names and topologies of
    \<open>messaging_config.rs\<close>, \<open>provisioning.rs\<close>, and the calls of the client library as the record \<open>messaging\<close>.
    \<open>NatsConsumer\<close>: \<open>publish.rs\<close> and \<open>consumer.rs\<close>, with the handler and its timers as the record
    \<open>message_handler\<close>. \<open>NatsSettlement\<close>: the same calls with a log of their effects, and the protocol
    \<open>settles_message\<close> that the log of a delivery follows. \<open>NatsTransport\<close>: headers between publisher and
    consumer, the routing of subjects to streams, the identities of quarantine records.
  \<^item> \<open>Scenario\<close>, \<open>ExecutionScenario\<close>, \<open>CommandScenario\<close>: concrete runs, used by the witnesses.
  \<^item> \<open>StoreProperties\<close>, \<open>OutcomeProperties\<close>, \<open>ExecutionProperties\<close>, \<open>HistoryProperties\<close>,
    \<open>CodecProperties\<close>, \<open>MessagingProperties\<close>, \<open>CommandProperties\<close>, \<open>ReadModelProperties\<close>,
    \<open>RuntimeProperties\<close>, \<open>NatsProperties\<close>, \<open>NatsMessagingProperties\<close>: the properties.

  \<^bold>\<open>What is shown.\<close> For the store: histories of reachable states are always valid, versions are
  contiguous and the event counter exact, appends and transactions are atomic, no update is lost,
  accepted batches replay forever, a command has one permanent winner, its outcome can be looked up
  and inlines to the committed receipt, expiry is permanent, and a lookup in a quiet store never
  fails. For the executor: executions under interference are serializable and exactly once, they
  return under a bounded policy, a repeated command is answered as before, raised events are
  collected completely and in order whatever a handler does with its handles, rejections write no
  events, simulations report what commits record, and rehydration folds the history. For the
  encodings: accepted histories are whole commits, digests and derived identities determine what was
  hashed, manifests, rejections and fingerprints survive their round trips, tampered details are
  refused. For messages: addresses and delivery names have exactly one way to be built, caller
  metadata keeps its bounds, what a bus encodes its processor accepts, fingerprints identify the
  content of a command. For the processor: it returns, completes a command at most once, leaves no
  trace of denied commands, returns only what can be admitted and what answers the command, and
  is observed truthfully by its audit history. For the other messages: a query is answered by the
  handler registered for it or refused, an integration event reads back as it was published, is
  published once under its identity, and a redelivery leads to the same command; the issues of a
  message series are exactly its missing causes, edges across correlations and causal cycles. For read models: the model
  of a session is the fold of the committed history, inputs are applied once however often they are
  delivered, and the key-value store compares and sets. For the event store on NATS: what it loads passes
  the check of the executor whatever the broker holds, a load is one read of the log of the stream, an
  accepted append directly follows the history it was decided on and stays there, and its messages
  read back as the events that were recorded. For messages on NATS: a consumer settles a message at most
  once and never loses it, tries it a bounded number of times and always comes to an end; what a
  publisher sends a consumer decodes; the streams of applications and traffic scopes are disjoint and
  route exactly their own messages; a message is quarantined under one identity.

  \<^bold>\<open>Conventions.\<close> \<open>Result<T, E>\<close> is \<open>E + T\<close>; getters, builders and derived clones are the selectors and
  updates of the records. \<open>HashMap\<close> is \<open>fmap\<close>, \<open>HashSet\<close> is \<open>set\<close>; where the code iterates a hash map the
  order is an argument (\<open>list_streams\<close>). Text is its UTF-8 bytes. \<open>usize\<close> is \<open>nat\<close> with the checked
  operations bounded by \<open>usize_bound\<close>; other integers are words of their width.

  \<^bold>\<open>Interleaving.\<close> A lookup of the in-memory store takes its lock more than once, and so does a commit
  when it reads back the outcome it wrote; these operations take \<open>seen\<close>, where \<open>seen i\<close> is the state
  under the i-th lock. An execution takes \<open>env\<close>,
  where \<open>env n\<close> is what other writers do before its n-th store call; hypotheses bound them to
  steps of the store. A processor works in the same world; its authorizer answers from the world at
  the time it is asked, its audit sink changes a state of its own. Handlers are data (\<open>handler_program\<close>): a tree of loads, raises, moves and drops of handles
  that ends in a decision, so that properties quantify over all handlers.

  \<^bold>\<open>Fuel.\<close> \<open>execute_loop\<close> retries as long as the policy says, which may be forever, so it has fuel and
  returns \<open>None\<close> without any left. With the bounded policy of \<open>maximum\<close> retries, fuel \<open>Suc maximum\<close> is
  enough on every store (\<open>execution_returns\<close>), also through the processor (\<open>service_returns\<close>).
  The loop of a NATS consumer around its handler has fuel too: two turns are enough when the timers keep
  time (\<open>delivery_processing_ends\<close>). All other definitions are total.

  \<^bold>\<open>Assumptions on externals.\<close> No property assumes a collision-free hash: where a digest is compared,
  the hypothesis is that the hash does not collide on the two inputs at hand. Round trips assume
  that \<open>serde_json\<close> reads back what it wrote. Codecs, models and handlers of applications are arguments.
  The bucket behind \<open>KeyValue\<close> is a record of its operations; the hypotheses are its documented laws
  (create refuses a present key, update compares the revision). Clocks, timers and fresh identities
  are arguments of the calls that read them; a query whose timer fires first is a value of the timer.

  The newtypes of the code keep their invariants by their constructors; \<open>typed_stream\<close> and \<open>typed_batch\<close> say so
  where a property needs it.
  JetStream is the record \<open>jetstream\<close>: a call is a function of the world, and what other clients do before
  it is part of what it does to the world. The hypothesis \<open>jetstream_log\<close> states what its documentation says of an
  append-only stream: sequences increase and messages stay, a lookup by subject finds the last or the next
  message of the subject, a consumer delivers the messages of its subject in order or fails. The lookups of receipts that an audit pipelines are made in
  order, and the binary search for a commit at a version is the search it performs on the increasing
  versions of the commits.

  For messaging, a call of \<open>message_handler\<close> is one turn of the \<open>select!\<close> between handler, time limit and
  timer; \<open>timers_keep_time\<close> says that a timer never fires early and that the time limit is looked at first.
  \<open>transported_headers\<close> has the headers the client library writes for the message identity and the
  expected stream, \<open>iterates_headers\<close> says that iterating a header map yields every entry once.

  \<^bold>\<open>Not modelled.\<close> Serde derives, \<open>Display\<close> texts, tracing spans, waiting times of retries and the
  scheduling of tasks; procedural macros; the provisioning, update and legacy import of the stream on NATS;
  the concurrent stream of messages of a NATS consumer, stored command responses, its connection, messaging
  adapter and consumer of domain events, and the HTTP adapter, which are I/O against services; the builder
  of read models; the inspection of quarantined messages, the domain layer and the tracer; tests, fixtures
  and benchmarks.
\<close>

end
